(* ===== verification/Go_Prelude.thy ===== *)
theory Go_Prelude
  imports Main "HOL-Library.Char_ord" "HOL-Library.List_Lexorder" "HOL-Library.AList"
begin

text \<open>
  Shared ground of the development: the operations of the Go standard library the sources use
  (packages \<^verbatim>\<open>strings\<close>, \<^verbatim>\<open>slices\<close>, \<^verbatim>\<open>maps\<close> and the formatting verbs of \<^verbatim>\<open>fmt\<close>), the
  representation of Go maps and messages, and the list lemmas every component uses.

  A Go string is a \<^typ>\<open>string\<close> (a list of bytes), compared bytewise by the lexicographic order of
  \<^verbatim>\<open>List_Lexorder\<close> over \<^verbatim>\<open>Char_ord\<close>. A Go slice is a list (the sources only test the length of a
  slice, so a nil and an empty slice are the same list; where \<^verbatim>\<open>reflect.DeepEqual\<close> compares, it is a
  parameter). A Go map is an association list whose keys
  are distinct; its order is the order in which \<^verbatim>\<open>range\<close> visits the entries, which Go leaves open, so
  a statement for every association list is a statement for every iteration order.
\<close>

section \<open>Collections of the development\<close>

named_theorems go_strings \<open>characterisations of the string operations\<close>
named_theorems go_maps \<open>lookup equations of the map operations\<close>
named_theorems checks \<open>when a list of violations or errors is empty\<close>

section \<open>Package strings\<close>

definition HasPrefix :: "string \<Rightarrow> string \<Rightarrow> bool" where
  "HasPrefix s p \<longleftrightarrow> take (length p) s = p"

definition HasSuffix :: "string \<Rightarrow> string \<Rightarrow> bool" where
  "HasSuffix s p \<longleftrightarrow> length p \<le> length s \<and> drop (length s - length p) s = p"

text \<open>\<^verbatim>\<open>strings.ToLower\<close> on ASCII.\<close>

definition toLowerChar :: "char \<Rightarrow> char" where
  "toLowerChar c =
     (let n = of_char c :: nat in if 65 \<le> n \<and> n \<le> 90 then char_of (n + 32) else c)"

definition ToLower :: "string \<Rightarrow> string" where
  "ToLower s = map toLowerChar s"

text \<open>\<^verbatim>\<open>strings.TrimSpace\<close> on ASCII.\<close>

definition isSpace :: "char \<Rightarrow> bool" where
  "isSpace c \<longleftrightarrow> (of_char c :: nat) \<in> {9, 10, 11, 12, 13, 32}"

definition TrimSpace :: "string \<Rightarrow> string" where
  "TrimSpace s = rev (dropWhile isSpace (rev (dropWhile isSpace s)))"

text \<open>\<^verbatim>\<open>strings.Index\<close>: the byte offset of the first occurrence; \<^term>\<open>None\<close> stands for -1.\<close>

fun Index :: "string \<Rightarrow> string \<Rightarrow> nat option" where
  "Index [] sub = (if sub = [] then Some 0 else None)"
| "Index (c # s) sub = (if HasPrefix (c # s) sub then Some 0 else map_option Suc (Index s sub))"

definition Contains :: "string \<Rightarrow> string \<Rightarrow> bool" where
  "Contains s sub \<longleftrightarrow> Index s sub \<noteq> None"

text \<open>\<^verbatim>\<open>strings.Split\<close> with a one-byte separator, the only form the sources use.\<close>

fun Split :: "string \<Rightarrow> char \<Rightarrow> string list" where
  "Split [] c = [[]]"
| "Split (x # xs) c =
     (if x = c then [] # Split xs c
      else (case Split xs c of [] \<Rightarrow> [[x]] | p # ps \<Rightarrow> (x # p) # ps))"

fun Join :: "string list \<Rightarrow> string \<Rightarrow> string" where
  "Join [] sep = []"
| "Join [s] sep = s"
| "Join (s # t # ts) sep = s @ sep @ Join (t # ts) sep"

definition CutPrefix :: "string \<Rightarrow> string \<Rightarrow> string option" where
  "CutPrefix s p = (if HasPrefix s p then Some (drop (length p) s) else None)"

text \<open>\<^verbatim>\<open>strings.Cut\<close> with a one-byte separator: before and after its first occurrence.\<close>

fun Cut :: "string \<Rightarrow> char \<Rightarrow> (string \<times> string) option" where
  "Cut [] c = None"
| "Cut (x # xs) c =
     (if x = c then Some ([], xs) else map_option (\<lambda>(b, a). (x # b, a)) (Cut xs c))"

definition TrimSuffix :: "string \<Rightarrow> string \<Rightarrow> string" where
  "TrimSuffix s p = (if HasSuffix s p then take (length s - length p) s else s)"

lemma HasPrefix_iff [go_strings]: "HasPrefix s p \<longleftrightarrow> (\<exists>t. s = p @ t)"
proof
  assume "HasPrefix s p"
  then have "s = p @ drop (length p) s"
    unfolding HasPrefix_def by (metis append_take_drop_id)
  then show "\<exists>t. s = p @ t" by blast
qed (auto simp: HasPrefix_def)

lemma HasSuffix_iff [go_strings]: "HasSuffix s p \<longleftrightarrow> (\<exists>t. s = t @ p)"
proof
  assume "HasSuffix s p"
  then have "s = take (length s - length p) s @ p"
    unfolding HasSuffix_def by (metis append_take_drop_id)
  then show "\<exists>t. s = t @ p" by blast
qed (auto simp: HasSuffix_def)

lemma HasPrefix_append [simp]: "HasPrefix (p @ s) p"
  by (auto simp: HasPrefix_iff)

lemma HasSuffix_append [simp]: "HasSuffix (s @ p) p"
  by (auto simp: HasSuffix_iff)

lemma HasPrefix_Nil [simp]: "HasPrefix s []"
  by (simp add: HasPrefix_def)

lemma CutPrefix_iff [go_strings]: "CutPrefix s p = Some t \<longleftrightarrow> s = p @ t"
  by (auto simp: CutPrefix_def HasPrefix_iff split: if_splits)

lemma CutPrefix_None [go_strings]: "CutPrefix s p = None \<longleftrightarrow> \<not> HasPrefix s p"
  by (simp add: CutPrefix_def)

lemma TrimSuffix_append [simp]: "TrimSuffix (s @ p) p = s"
  by (simp add: TrimSuffix_def)

lemma Cut_Some_iff [go_strings]: "Cut s c = Some (b, a) \<longleftrightarrow> s = b @ c # a \<and> c \<notin> set b"
proof (induction s arbitrary: b)
  case (Cons x xs)
  show ?case
  proof (cases "x = c")
    case True
    then show ?thesis by (cases b) auto
  next
    case False
    have "Cut (x # xs) c = Some (b, a) \<longleftrightarrow> (\<exists>b'. b = x # b' \<and> Cut xs c = Some (b', a))"
      using False by auto
    then show ?thesis using Cons.IH False by (cases b) auto
  qed
qed simp

lemma Cut_append: "c \<notin> set b \<Longrightarrow> Cut (b @ c # a) c = Some (b, a)"
  by (simp add: Cut_Some_iff)

text \<open>The first occurrence: it is one, and no occurrence starts earlier.\<close>

lemma Index_Some: "Index s sub = Some i \<Longrightarrow> \<exists>b. s = take i s @ sub @ b \<and> i \<le> length s"
proof (induction s arbitrary: i)
  case (Cons c s)
  then show ?case
  proof (cases "HasPrefix (c # s) sub")
    case False
    with Cons.prems obtain j where "Index s sub = Some j" "i = Suc j" by auto
    with Cons.IH [of j] show ?thesis by auto
  qed (auto simp: HasPrefix_iff)
qed (auto split: if_splits)

lemma Index_first: "s = a @ sub @ b \<Longrightarrow> \<exists>i. Index s sub = Some i \<and> i \<le> length a"
proof (induction s arbitrary: a)
  case (Cons c s)
  show ?case
  proof (cases a)
    case Nil
    with Cons.prems have "HasPrefix (c # s) sub" by (simp add: HasPrefix_iff)
    then show ?thesis by simp
  next
    case (Cons d a')
    with Cons.prems have "s = a' @ sub @ b" by simp
    then obtain i where "Index s sub = Some i" "i \<le> length a'" using Cons.IH by blast
    with Cons show ?thesis by auto
  qed
qed auto

lemma Contains_iff [go_strings]: "Contains s sub \<longleftrightarrow> (\<exists>a b. s = a @ sub @ b)"
proof
  assume "Contains s sub"
  then obtain i where "Index s sub = Some i" by (auto simp: Contains_def)
  then show "\<exists>a b. s = a @ sub @ b" using Index_Some by blast
next
  assume "\<exists>a b. s = a @ sub @ b"
  then show "Contains s sub" using Index_first by (fastforce simp: Contains_def)
qed

lemma Contains_char: "Contains s [c] \<longleftrightarrow> c \<in> set s"
  by (auto simp: Contains_iff in_set_conv_decomp)

lemma Split_ne [simp]: "Split s c \<noteq> []"
  by (induction s c rule: Split.induct) (auto split: list.splits)

lemma Join_Cons: "ts \<noteq> [] \<Longrightarrow> Join (s # ts) sep = s @ sep @ Join ts sep"
  by (cases ts) auto

lemma Join_hd_Cons: "Join ((x # p) # ps) sep = x # Join (p # ps) sep"
  by (cases ps) auto

lemma Join_Split [simp]: "Join (Split s c) [c] = s"
  by (induction s c rule: Split.induct)
    (auto simp: Join_Cons Join_hd_Cons split: list.splits)

lemma Split_parts: "p \<in> set (Split s c) \<Longrightarrow> c \<notin> set p"
proof (induction s c arbitrary: p rule: Split.induct)
  case (2 x xs c)
  then show ?case
    by (cases "Split xs c") (auto split: if_splits)
qed auto

lemma Split_id: "c \<notin> set s \<Longrightarrow> Split s c = [s]"
  by (induction s) auto

lemma Split_append: "c \<notin> set a \<Longrightarrow> Split (a @ c # b) c = a # Split b c"
  by (induction a) auto

lemma Split_Join:
  "ps \<noteq> [] \<Longrightarrow> \<forall>p \<in> set ps. c \<notin> set p \<Longrightarrow> Split (Join ps [c]) c = ps"
proof (induction ps)
  case (Cons p ps)
  then show ?case by (cases "ps = []") (simp_all add: Split_id Join_Cons Split_append)
qed simp

text \<open>Joining is injective on parts that do not contain the separator.\<close>

lemma Join_inj:
  assumes "Join ps [c] = Join qs [c]" and "ps \<noteq> []" "qs \<noteq> []"
    and "\<forall>p \<in> set ps. c \<notin> set p" "\<forall>q \<in> set qs. c \<notin> set q"
  shows "ps = qs"
  using Split_Join [of ps c] Split_Join [of qs c] assms by metis

lemma append_sep_inj:
  fixes a b a' b' :: string
  assumes "a @ c # b = a' @ c # b'" and "c \<notin> set a" "c \<notin> set a'"
  shows "a = a' \<and> b = b'"
proof -
  have "Cut (a @ c # b) c = Some (a, b)" "Cut (a' @ c # b') c = Some (a', b')"
    by (rule Cut_append, rule assms)+
  then show ?thesis unfolding assms(1) by simp
qed

lemma Split_single: "length (Split s c) = 1 \<longleftrightarrow> c \<notin> set s"
proof
  assume "length (Split s c) = 1"
  then obtain p where p: "Split s c = [p]" by (auto simp: length_Suc_conv)
  then have "s = p" using Join_Split [of s c] by simp
  then show "c \<notin> set s" using Split_parts [of p s c] p by simp
qed (simp add: Split_id)

section \<open>Package slices\<close>

text \<open>\<^verbatim>\<open>slices.Sort\<close> is \<^const>\<open>sort\<close>; \<^verbatim>\<open>slices.Compact\<close> removes adjacent duplicates.\<close>

definition Compact :: "'a list \<Rightarrow> 'a list" where
  "Compact xs = remdups_adj xs"

lemma sort_Nil_iff [simp]: "sort xs = [] \<longleftrightarrow> xs = []"
  by (metis set_empty set_sort)

lemma set_Compact [simp]: "set (Compact xs) = set xs"
  by (simp add: Compact_def)

lemma distinct_Compact: "sorted xs \<Longrightarrow> distinct (Compact xs)" for xs :: "'a::linorder list"
  unfolding Compact_def
  by (induction xs rule: remdups_adj.induct) (auto simp: antisym)

lemma sorted_Compact [simp]: "sorted xs \<Longrightarrow> sorted (Compact xs)"
  for xs :: "'a::linorder list"
  by (simp add: Compact_def)

text \<open>
  The sorted, compacted copy of a slice depends only on its elements: authoring order and
  repetitions do not show.
\<close>

lemma Compact_sort_canonical:
  "set xs = set ys \<Longrightarrow> Compact (sort xs) = Compact (sort ys)" for xs :: "'a::linorder list"
  by (rule sorted_distinct_set_unique) (simp_all add: distinct_Compact)

section \<open>Loops over slices\<close>

text \<open>
  \<^verbatim>\<open>for i, x := range xs { out = append(out, f(i, x)...) }\<close>: the list the loop accumulates.
\<close>

fun for_from :: "nat \<Rightarrow> (nat \<Rightarrow> 'a \<Rightarrow> 'b list) \<Rightarrow> 'a list \<Rightarrow> 'b list" where
  "for_from i f [] = []"
| "for_from i f (x # xs) = f i x @ for_from (Suc i) f xs"

definition for_range :: "(nat \<Rightarrow> 'a \<Rightarrow> 'b list) \<Rightarrow> 'a list \<Rightarrow> 'b list" where
  "for_range f xs = for_from 0 f xs"

lemma for_from_ok:
  assumes "\<And>i x. x \<in> set xs \<Longrightarrow> f i x = [] \<longleftrightarrow> P x"
  shows "for_from n f xs = [] \<longleftrightarrow> (\<forall>x \<in> set xs. P x)"
  using assms by (induction xs arbitrary: n) auto

lemma for_range_ok:
  assumes "\<And>i x. x \<in> set xs \<Longrightarrow> f i x = [] \<longleftrightarrow> P x"
  shows "for_range f xs = [] \<longleftrightarrow> (\<forall>x \<in> set xs. P x)"
  unfolding for_range_def using assms by (rule for_from_ok)

lemma for_range_Nil [simp]: "for_range f [] = []"
  by (simp add: for_range_def)

lemma in_for_from:
  "v \<in> set (for_from n f xs) \<longleftrightarrow> (\<exists>i < length xs. v \<in> set (f (n + i) (xs ! i)))"
proof (induction xs arbitrary: n)
  case (Cons x xs)
  then show ?case by (simp add: Ex_less_Suc2)
qed simp

lemma in_for_range: "v \<in> set (for_range f xs) \<longleftrightarrow> (\<exists>i < length xs. v \<in> set (f i (xs ! i)))"
  by (simp add: for_range_def in_for_from)

lemma for_range_empty:
  "for_range f xs = [] \<longleftrightarrow> (\<forall>i < length xs. f i (xs ! i) = [])"
proof -
  have "for_range f xs = [] \<longleftrightarrow> (\<forall>v. v \<notin> set (for_range f xs))" by (metis ex_in_conv set_empty)
  also have "\<dots> \<longleftrightarrow> (\<forall>i < length xs. f i (xs ! i) = [])"
    by (auto simp: in_for_range) (metis last_in_set)
  finally show ?thesis .
qed

lemma concat_map_empty: "concat (map f xs) = [] \<longleftrightarrow> (\<forall>x \<in> set xs. f x = [])"
  by auto

lemma guard_empty: "(if b then [v] else []) = [] \<longleftrightarrow> \<not> b"
  by simp

text \<open>A loop that returns at the first element its body answers for.\<close>

fun first_some :: "('a \<Rightarrow> 'b option) \<Rightarrow> 'a list \<Rightarrow> 'b option" where
  "first_some f [] = None"
| "first_some f (x # xs) = (case f x of None \<Rightarrow> first_some f xs | Some y \<Rightarrow> Some y)"

lemma first_some_None [simp]: "first_some f xs = None \<longleftrightarrow> (\<forall>x \<in> set xs. f x = None)"
  by (induction xs) (auto split: option.splits)

lemma first_some_Some:
  "first_some f xs = Some y \<longleftrightarrow>
     (\<exists>as x bs. xs = as @ x # bs \<and> f x = Some y \<and> (\<forall>a \<in> set as. f a = None))"
proof (induction xs)
  case (Cons z zs)
  then show ?case
  proof (cases "f z")
    case None
    have "(\<exists>as x bs. z # zs = as @ x # bs \<and> f x = Some y \<and> (\<forall>a \<in> set as. f a = None)) \<longleftrightarrow>
        (\<exists>as x bs. zs = as @ x # bs \<and> f x = Some y \<and> (\<forall>a \<in> set as. f a = None))" (is "?l = ?r")
    proof
      assume ?l
      then obtain as x bs where h: "z # zs = as @ x # bs" "f x = Some y" "\<forall>a \<in> set as. f a = None"
        by blast
      with None show ?r by (cases as) auto
    next
      assume ?r
      then obtain as x bs where "zs = as @ x # bs" "f x = Some y" "\<forall>a \<in> set as. f a = None"
        by blast
      with None have "z # zs = (z # as) @ x # bs \<and> f x = Some y \<and> (\<forall>a \<in> set (z # as). f a = None)"
        by simp
      then show ?l by blast
    qed
    with None Cons show ?thesis by simp
  next
    case (Some w)
    then show ?thesis
      by (auto simp: Cons_eq_append_conv) (rule exI [of _ "[]"], auto)
  qed
qed simp

section \<open>Go maps\<close>

type_synonym ('k, 'v) gomap = "('k \<times> 'v) list"
type_synonym labels = "(string, string) gomap"

abbreviation mlookup :: "('k, 'v) gomap \<Rightarrow> 'k \<Rightarrow> 'v option" where
  "mlookup m k \<equiv> map_of m k"

text \<open>Indexing a string map yields the empty string for an absent key.\<close>

definition mindex :: "('k, string) gomap \<Rightarrow> 'k \<Rightarrow> string" where
  "mindex m k = (case map_of m k of None \<Rightarrow> [] | Some v \<Rightarrow> v)"

definition mput :: "'k \<Rightarrow> 'v \<Rightarrow> ('k, 'v) gomap \<Rightarrow> ('k, 'v) gomap" where
  "mput k v m = AList.update k v m"

definition mdelete :: "'k \<Rightarrow> ('k, 'v) gomap \<Rightarrow> ('k, 'v) gomap" where
  "mdelete k m = AList.delete k m"

text \<open>\<^verbatim>\<open>maps.Copy\<close>: every entry of the source is stored, in the order of the iteration.\<close>

fun mcopy :: "('k, 'v) gomap \<Rightarrow> ('k, 'v) gomap \<Rightarrow> ('k, 'v) gomap" where
  "mcopy dst [] = dst"
| "mcopy dst ((k, v) # src) = mcopy (mput k v dst) src"

definition mwf :: "('k, 'v) gomap \<Rightarrow> bool" where
  "mwf m \<longleftrightarrow> distinct (map fst m)"

text \<open>\<^verbatim>\<open>maps.Equal\<close>.\<close>

definition mapsEqual :: "labels \<Rightarrow> labels \<Rightarrow> bool" where
  "mapsEqual m m' \<longleftrightarrow> length m = length m' \<and> list_all (\<lambda>(k, v). map_of m' k = Some v) m"

lemma mapsEqual_subset: "mapsEqual a b \<Longrightarrow> set a \<subseteq> set b"
  by (auto simp: mapsEqual_def list_all_iff dest: map_of_SomeD)

lemma mput_lookup [simp, go_maps]:
  "map_of (mput k v m) k' = (if k' = k then Some v else map_of m k')"
  by (simp add: mput_def update_conv)

lemma mdelete_lookup [simp, go_maps]:
  "map_of (mdelete k m) k' = (if k' = k then None else map_of m k')"
  by (simp add: mdelete_def delete_conv)

lemma mput_wf [simp]: "mwf m \<Longrightarrow> mwf (mput k v m)"
  by (simp add: mwf_def mput_def distinct_update)

lemma mdelete_wf [simp]: "mwf m \<Longrightarrow> mwf (mdelete k m)"
  by (simp add: mwf_def mdelete_def distinct_delete)

lemma mcopy_wf [simp]: "mwf dst \<Longrightarrow> mwf (mcopy dst src)"
  by (induction dst src rule: mcopy.induct) auto

lemma mcopy_lookup [go_maps]:
  "mwf src \<Longrightarrow> map_of (mcopy dst src) k =
     (case map_of src k of None \<Rightarrow> map_of dst k | Some v \<Rightarrow> Some v)"
proof (induction dst src rule: mcopy.induct)
  case (2 dst j v src)
  then have "map_of src j = None" and "mwf src" by (auto simp: mwf_def map_of_eq_None_iff)
  with 2 show ?case by (auto split: option.splits)
qed simp

text \<open>A map to \<^verbatim>\<open>struct{}\<close> is a set; storing keys adds them.\<close>

lemma keys_mput [simp]: "fst ` set (mput k v m) = insert k (fst ` set m)"
proof -
  have "fst ` set (mput k v m) = dom (map_of (mput k v m))" by (simp add: dom_map_of_conv_image_fst)
  also have "\<dots> = insert k (dom (map_of m))" by (auto split: if_splits)
  finally show ?thesis by (simp add: dom_map_of_conv_image_fst)
qed

lemma keys_fold_mput: "fst ` set (fold (\<lambda>k. mput k v) ks m) = set ks \<union> fst ` set m"
  by (induction ks arbitrary: m) auto

lemma mwf_fold_mput [simp]: "mwf m \<Longrightarrow> mwf (fold (\<lambda>k. mput k v) ks m)"
  by (induction ks arbitrary: m) auto

lemma mwf_Nil [simp]: "mwf []"
  by (simp add: mwf_def)

lemma in_mwf: "mwf m \<Longrightarrow> (k, v) \<in> set m \<longleftrightarrow> map_of m k = Some v"
  by (simp add: mwf_def)

lemma sort_keys: "mwf m \<Longrightarrow> sort (map fst m) = sorted_list_of_set (fst ` set m)"
  for m :: "('k::linorder, 'v) gomap"
  by (rule sorted_distinct_set_unique) (simp_all add: mwf_def)

lemma mput_ne [simp]: "mput k v m \<noteq> []"
  by (cases m) (auto simp: mput_def)

section \<open>Formatting\<close>

text \<open>
  Messages are kept as the fragments the format strings of the sources compose: literal text
  (also an argument under \<^verbatim>\<open>%s\<close>), a string quoted by \<^verbatim>\<open>%q\<close> and an integer under \<^verbatim>\<open>%d\<close>. How
  \<^verbatim>\<open>%q\<close> escapes is not spelled out; nothing depends on it.
\<close>

datatype frag = Lit string | Quo string | Dec int
type_synonym msg = "frag list"

definition digit :: "nat \<Rightarrow> char" where
  "digit n = char_of (48 + n)"

fun itoa :: "nat \<Rightarrow> string" where
  "itoa n = (if n < 10 then [digit n] else itoa (n div 10) @ [digit (n mod 10)])"

declare itoa.simps [simp del]

definition path_idx :: "string \<Rightarrow> nat \<Rightarrow> string" where
  "path_idx p i = p @ ''['' @ itoa i @ '']''"

section \<open>Checks: lists of findings and the property they decide\<close>

text \<open>
  Much of the operator is written as checks: a function that returns the list of violations (or
  field errors) it found, the empty list meaning acceptance. The interface of a check is what
  acceptance means; loops over checks then decide the property for every element.
\<close>

locale check =
  fixes run :: "'a \<Rightarrow> 'v list"
    and ok :: "'a \<Rightarrow> bool"
  assumes run_ok: "run x = [] \<longleftrightarrow> ok x"
begin

lemma loop_ok:
  assumes "\<And>i y. y \<in> set ys \<Longrightarrow> f i y = run (g i y)" and "\<And>i y. ok (g i y) \<longleftrightarrow> P y"
  shows "for_range f ys = [] \<longleftrightarrow> (\<forall>y \<in> set ys. P y)"
  by (rule for_range_ok) (simp add: assms run_ok)

lemma concat_ok: "concat (map (\<lambda>y. run (g y)) ys) = [] \<longleftrightarrow> (\<forall>y \<in> set ys. ok (g y))"
  by (simp add: run_ok)

lemma append_ok: "run x @ rest = [] \<longleftrightarrow> ok x \<and> rest = []"
  by (simp add: run_ok)

lemma violation_iff: "run x \<noteq> [] \<longleftrightarrow> \<not> ok x"
  by (simp add: run_ok)

end

end
