(* ===== verification/Api_Types.thy ===== *)
theory Api_Types
  imports Go_Prelude
begin

text \<open>
  The data of the API: the custom resources of \<^verbatim>\<open>api/authorization/v1alpha1\<close> as records with one
  field per Go struct field (a prefix keeps the selectors apart), and the Kubernetes types they and
  the operator's code refer to. A pointer is an \<^typ>\<open>'a option\<close>; an \<^verbatim>\<open>int32\<close> that is only compared is
  an \<^typ>\<open>int\<close>; a Go string type with named constants stays a \<^typ>\<open>string\<close>, because a stored object
  may hold any value.
\<close>

section \<open>Kubernetes types\<close>

record LabelSelectorRequirement =
  lsr_Key :: string
  lsr_Operator :: string
  lsr_Values :: "string list"

record LabelSelector =
  MatchLabels :: labels
  MatchExpressions :: "LabelSelectorRequirement list"

text \<open>
  \<^verbatim>\<open>metav1.LabelSelectorAsSelector\<close> and the \<^verbatim>\<open>Matches\<close> method of its result belong to
  apimachinery: the model takes them as a parameter of this type, an error or a label predicate.
\<close>

type_synonym selector_api = "LabelSelector \<Rightarrow> string + (labels \<Rightarrow> bool)"

record PolicyRule =
  pr_Verbs :: "string list"
  pr_APIGroups :: "string list"
  pr_Resources :: "string list"
  pr_ResourceNames :: "string list"
  pr_NonResourceURLs :: "string list"

record Subject =
  subj_Kind :: string
  subj_APIGroup :: string
  subj_Name :: string
  subj_Namespace :: string

record APIResource =
  ar_Name :: string
  ar_Group :: string
  ar_Namespaced :: bool
  ar_Verbs :: "string list"

record GroupVersion =
  gv_Group :: string
  gv_Version :: string

definition UserKind :: string where "UserKind = ''User''"
definition GroupKind :: string where "GroupKind = ''Group''"
definition ServiceAccountKind :: string where "ServiceAccountKind = ''ServiceAccount''"
definition rbacGroupName :: string where "rbacGroupName = ''rbac.authorization.k8s.io''"
definition authenticationGroupName :: string where
  "authenticationGroupName = ''authentication.k8s.io''"

section \<open>Constrained impersonation\<close>

type_synonym ImpersonationMode = string
type_synonym ImpersonationIdentityResource = string

record ImpersonationIdentityRule =
  iir_Resource :: ImpersonationIdentityResource
  iir_ExtraKey :: string
  iir_Names :: "string list"

record ImpersonationActionRule =
  iar_APIGroups :: "string list"
  iar_Resources :: "string list"
  iar_ResourceNames :: "string list"
  iar_Verbs :: "string list"

record ConstrainedImpersonationSpec =
  cis_Mode :: ImpersonationMode
  cis_Identities :: "ImpersonationIdentityRule list"
  cis_Actions :: "ImpersonationActionRule list"

section \<open>RBACPolicy\<close>

record PolicyScope =
  scope_NamespaceSelector :: "LabelSelector option"
  scope_Namespaces :: "string list"

record RoleRefLimits =
  rrl_AllowedRoleRefs :: "string list"
  rrl_AllowedRoleRefSelector :: "LabelSelector option"
  rrl_ForbiddenRoleRefs :: "string list"
  rrl_ForbiddenRoleRefSelector :: "LabelSelector option"

record NamespaceLimits =
  nl_AllowedNamespaceSelector :: "LabelSelector option"
  nl_ForbiddenNamespaces :: "string list"
  nl_ForbiddenNamespacePrefixes :: "string list"
  nl_MaxTargetNamespaces :: "int option"

record BindingLimits =
  bl_AllowClusterRoleBindings :: bool
  bl_ClusterRoleBindingLimits :: "RoleRefLimits option"
  bl_RoleBindingLimits :: "RoleRefLimits option"
  bl_TargetNamespaceLimits :: "NamespaceLimits option"

record ResourceVerbRule =
  rvr_Resource :: string
  rvr_APIGroup :: string
  rvr_Verbs :: "string list"

record NameMatchLimits =
  nml_AllowedNames :: "string list"
  nml_ForbiddenNames :: "string list"
  nml_AllowedPrefixes :: "string list"
  nml_ForbiddenPrefixes :: "string list"
  nml_AllowedSuffixes :: "string list"
  nml_ForbiddenSuffixes :: "string list"

record ConstrainedImpersonationLimits =
  cil_Allowed :: bool
  cil_AllowedModes :: "ImpersonationMode list"
  cil_AllowedIdentityResources :: "ImpersonationIdentityResource list"
  cil_IdentityNameLimits :: "NameMatchLimits option"
  cil_ForbiddenActionVerbs :: "string list"
  cil_ForbidLegacyFallback :: bool
  cil_MaxIdentityNames :: "int option"

record RoleLimits =
  rl_AllowClusterRoles :: bool
  rl_ForbiddenVerbs :: "string list"
  rl_ForbiddenResources :: "string list"
  rl_ForbiddenAPIGroups :: "string list"
  rl_ForbiddenResourceVerbs :: "ResourceVerbRule list"
  rl_MaxRulesPerRole :: "int option"
  rl_ConstrainedImpersonation :: "ConstrainedImpersonationLimits option"

record SARef =
  sar_Name :: string
  sar_Namespace :: string

record SACreationConfig =
  sac_AllowAutoCreate :: bool
  sac_AllowedCreationNamespaceSelector :: "LabelSelector option"
  sac_AllowedCreationNamespaces :: "string list"
  sac_AutomountServiceAccountToken :: "bool option"
  sac_DisableAdoption :: bool

record ServiceAccountLimits =
  sal_AllowedNamespaceSelector :: "LabelSelector option"
  sal_ForbiddenNamespaces :: "string list"
  sal_ForbiddenNamespacePrefixes :: "string list"
  sal_Creation :: "SACreationConfig option"

record SubjectLimits =
  sl_AllowedKinds :: "string list"
  sl_ForbiddenKinds :: "string list"
  sl_UserLimits :: "NameMatchLimits option"
  sl_GroupLimits :: "NameMatchLimits option"
  sl_ServiceAccountLimits :: "ServiceAccountLimits option"

record DefaultPolicyAssignment =
  dpa_Groups :: "string list"
  dpa_ServiceAccounts :: "SARef list"

record ImpersonationExtra =
  ie_Key :: string
  ie_Values :: "string list"

record ImpersonationConfig =
  ic_Enabled :: bool
  ic_ServiceAccountRef :: "SARef option"
  ic_UserName :: string
  ic_UID :: string
  ic_Groups :: "string list"
  ic_Extra :: "ImpersonationExtra list"
  ic_Mode :: ImpersonationMode

record RBACPolicySpec =
  ps_AppliesTo :: PolicyScope
  ps_BindingLimits :: "BindingLimits option"
  ps_RoleLimits :: "RoleLimits option"
  ps_SubjectLimits :: "SubjectLimits option"
  ps_DefaultAssignment :: "DefaultPolicyAssignment option"
  ps_Impersonation :: "ImpersonationConfig option"

record RBACPolicy =
  policy_Name :: string
  policy_Spec :: RBACPolicySpec

text \<open>
  Field errors of \<^verbatim>\<open>k8s.io/apimachinery/pkg/util/validation/field\<close>: path, value and detail. A value is a
  string or one of the objects the validators report.
\<close>

datatype field_value = VText msg | VSelector LabelSelector | VServiceAccount SARef
  | VAssignment DefaultPolicyAssignment | VBool bool

datatype fieldError =
    FieldRequired string msg
  | FieldInvalid string string msg
  | FieldInvalidValue string field_value msg
  | FieldForbidden string msg
  | FieldNotSupported string string "string list"
  | FieldDuplicate string field_value
  | FieldNotFound string string

section \<open>Role and bind definitions\<close>

definition DefinitionClusterRole :: string where "DefinitionClusterRole = ''ClusterRole''"
definition DefinitionNamespacedRole :: string where "DefinitionNamespacedRole = ''Role''"

record RestrictedAPIGroup =
  rag_Name :: string
  rag_Versions :: "string list"
  rag_Verbs :: "string list"

record RoleDefinitionSpec =
  rds_TargetRole :: string
  rds_TargetName :: string
  rds_TargetNamespace :: string
  rds_ScopeNamespaced :: bool
  rds_RestrictedAPIs :: "RestrictedAPIGroup list"
  rds_RestrictedResources :: "APIResource list"
  rds_RestrictedVerbs :: "string list"
  rds_BreakglassAllowed :: bool
  rds_MetricsAccessAllowed :: bool
  rds_AggregationLabels :: labels
  rds_AggregateFrom :: "LabelSelector list option"
  rds_ConstrainedImpersonation :: "ConstrainedImpersonationSpec option"

record RoleDefinition =
  rd_Name :: string
  rd_Spec :: RoleDefinitionSpec

record RestrictedRoleDefinitionSpec =
  rrds_PolicyRef :: string
  rrds_TargetRole :: string
  rrds_TargetName :: string
  rrds_TargetNamespace :: string
  rrds_ScopeNamespaced :: bool
  rrds_RestrictedAPIs :: "RestrictedAPIGroup list"
  rrds_RestrictedResources :: "APIResource list"
  rrds_RestrictedVerbs :: "string list"
  rrds_ConstrainedImpersonation :: "ConstrainedImpersonationSpec option"

record RestrictedRoleDefinition =
  rrd_Name :: string
  rrd_Spec :: RestrictedRoleDefinitionSpec

record ClusterBinding =
  cb_ClusterRoleRefs :: "string list"

record NamespaceBinding =
  nb_AuthorizeBeforeBinding :: bool
  nb_ClusterRoleRefs :: "string list"
  nb_RoleRefs :: "string list"
  nb_Namespace :: string
  nb_NamespaceSelector :: "LabelSelector list"

record RestrictedBindDefinitionSpec =
  rbds_PolicyRef :: string
  rbds_TargetName :: string
  rbds_Subjects :: "Subject list"
  rbds_ClusterRoleBindings :: "ClusterBinding option"
  rbds_RoleBindings :: "NamespaceBinding list"
  rbds_AutomountServiceAccountToken :: "bool option"

record RestrictedBindDefinition =
  rbd_Name :: string
  rbd_Spec :: RestrictedBindDefinitionSpec

section \<open>Violations\<close>

record Violation =
  vField :: string
  vMessage :: msg

definition violation :: "string \<Rightarrow> msg \<Rightarrow> Violation" where
  "violation f m = \<lparr>vField = f, vMessage = m\<rparr>"

text \<open>\<^verbatim>\<open>Violation.String\<close> and \<^verbatim>\<open>ViolationStrings\<close>.\<close>

definition Violation_String :: "Violation \<Rightarrow> msg" where
  "Violation_String v =
     (if vField v \<noteq> '''' then [Lit (vField v), Lit '': ''] @ vMessage v else vMessage v)"

definition ViolationStrings :: "Violation list \<Rightarrow> msg list" where
  "ViolationStrings violations = map Violation_String violations"

section \<open>Namespaces and bind definitions\<close>

record Namespace =
  ns_Name :: string
  ns_Labels :: labels
  ns_Annotations :: labels
  ns_Phase :: string

record BindDefinitionSpec =
  bds_TargetName :: string
  bds_Subjects :: "Subject list"
  bds_ExternalServiceAccountRefs :: "SARef list"
  bds_ClusterRoleBindings :: ClusterBinding
  bds_RoleBindings :: "NamespaceBinding list"
  bds_AutomountServiceAccountToken :: "bool option"

record BindDefinition =
  bd_Name :: string
  bd_Deleting :: bool
  bd_Spec :: BindDefinitionSpec

text \<open>What a read of the API returns.\<close>

datatype 'a get_result = NotFound | GetError string | Found 'a

section \<open>SubjectAccessReview and WebhookAuthorizer\<close>

record ResourceAttributes =
  ra_Namespace :: string
  ra_Verb :: string
  ra_Group :: string
  ra_Version :: string
  ra_Resource :: string
  ra_Subresource :: string
  ra_Name :: string

record NonResourceAttributes =
  nra_Path :: string
  nra_Verb :: string

record SubjectAccessReview =
  sar_User :: string
  sar_Groups :: "string list"
  sar_UID :: string
  sar_Extra :: "(string, string list) gomap"
  sar_ResourceAttributes :: "ResourceAttributes option"
  sar_NonResourceAttributes :: "NonResourceAttributes option"

record ResourceRule =
  rr_Verbs :: "string list"
  rr_APIGroups :: "string list"
  rr_Resources :: "string list"
  rr_ResourceNames :: "string list"

record NonResourceRule =
  nrr_Verbs :: "string list"
  nrr_NonResourceURLs :: "string list"

record PrincipalExtraMatch =
  pem_Key :: string
  pem_Values :: "string list"

record Principal =
  p_User :: string
  p_Groups :: "string list"
  p_Namespace :: string
  p_UID :: string
  p_Extra :: "PrincipalExtraMatch list"

type_synonym ImpersonationVerbPolicy = string

record WebhookAuthorizerSpec =
  was_ResourceRules :: "ResourceRule list"
  was_NonResourceRules :: "NonResourceRule list"
  was_AllowedPrincipals :: "Principal list"
  was_DeniedPrincipals :: "Principal list"
  was_NamespaceSelector :: LabelSelector
  was_ImpersonationVerbPolicy :: ImpersonationVerbPolicy

end
