(* ===== verification/Wildcard.thy ===== *)
theory Wildcard
  imports Go_Prelude
begin

text \<open>
  The matchers of \<^verbatim>\<open>pkg/policy/matcher.go\<close>: wildcard patterns, API groups and resource names. The
  greedy matcher \<^verbatim>\<open>MatchesWildcard\<close> is proved equivalent to the usual meaning of \<^verbatim>\<open>*\<close>, and
  matching is shown to be transitive, which is what makes it sound to compare one pattern with
  another (a policy's forbidden pattern with a definition's restriction).
\<close>

section \<open>Wildcard patterns\<close>

abbreviation star :: char where
  "star \<equiv> CHR ''*''"

text \<open>The loop over the middle parts: each must occur in what the previous ones left over.\<close>

fun matchMiddle :: "string list \<Rightarrow> string \<Rightarrow> bool" where
  "matchMiddle [] remaining = True"
| "matchMiddle (mid # mids) remaining =
     (case Index remaining mid of
        None \<Rightarrow> False
      | Some idx \<Rightarrow> matchMiddle mids (drop (idx + length mid) remaining))"

definition MatchesWildcard :: "string \<Rightarrow> string \<Rightarrow> bool" where
  "MatchesWildcard pattern value =
     (if pattern = ''*'' then True
      else
        let parts = Split pattern star in
        if length parts = 1 then pattern = value
        else if \<not> HasPrefix value (hd parts) then False
        else
          let remaining = drop (length (hd parts)) value;
              lst = last parts in
          if \<not> HasSuffix remaining lst then False
          else matchMiddle (butlast (tl parts)) (take (length remaining - length lst) remaining))"

definition matchesAnyWildcard :: "string list \<Rightarrow> string \<Rightarrow> bool" where
  "matchesAnyWildcard patterns value = list_ex (\<lambda>p. MatchesWildcard p value) patterns"

definition ContainsStringOrWildcard :: "string list \<Rightarrow> string \<Rightarrow> bool" where
  "ContainsStringOrWildcard slice value = list_ex (\<lambda>s. s = value \<or> s = ''*'') slice"

definition MatchesAPIGroup :: "string \<Rightarrow> string \<Rightarrow> bool" where
  "MatchesAPIGroup pattern apiGroup = MatchesWildcard pattern apiGroup"

definition MatchesResourceName :: "string \<Rightarrow> string \<Rightarrow> bool" where
  "MatchesResourceName pattern resourceName =
     (if MatchesWildcard pattern resourceName then True
      else if Contains pattern ''*'' then False
      else HasPrefix resourceName (pattern @ ''/''))"

definition APIGroupRestrictionCovers :: "string \<Rightarrow> string \<Rightarrow> bool" where
  "APIGroupRestrictionCovers restrictedGroup requiredGroup =
     (if restrictedGroup = '''' \<or> restrictedGroup = ''*'' then True
      else if requiredGroup = ''*'' then False
      else MatchesAPIGroup restrictedGroup requiredGroup)"

definition hasAnyPrefix :: "string list \<Rightarrow> string \<Rightarrow> bool" where
  "hasAnyPrefix prefixes value = list_ex (\<lambda>p. HasPrefix value p) prefixes"

definition hasAnySuffix :: "string list \<Rightarrow> string \<Rightarrow> bool" where
  "hasAnySuffix suffixes value = list_ex (\<lambda>s. HasSuffix value s) suffixes"

section \<open>The meaning of a pattern\<close>

text \<open>
  The specification, character by character: a star matches any string, any other character
  matches itself.
\<close>

fun glob :: "string \<Rightarrow> string \<Rightarrow> bool" where
  "glob [] s = (s = [])"
| "glob (c # p) [] = (c = star \<and> glob p [])"
| "glob (c # p) (d # s) =
     (if c = star then glob p (d # s) \<or> glob (c # p) s else c = d \<and> glob p s)"

lemma glob_star: "glob (star # p) s \<longleftrightarrow> (\<exists>a b. s = a @ b \<and> glob p b)"
proof (induction s)
  case (Cons d s)
  have "(\<exists>a b. d # s = a @ b \<and> glob p b) \<longleftrightarrow> glob p (d # s) \<or> (\<exists>a b. s = a @ b \<and> glob p b)"
    by (auto simp: Cons_eq_append_conv)
  with Cons show ?case by simp
qed simp

lemma glob_char: "c \<noteq> star \<Longrightarrow> glob (c # p) s \<longleftrightarrow> (\<exists>s'. s = c # s' \<and> glob p s')"
  by (cases s) auto

lemma glob_literal: "star \<notin> set l \<Longrightarrow> glob (l @ p) s \<longleftrightarrow> (\<exists>s'. s = l @ s' \<and> glob p s')"
  by (induction l arbitrary: s) (auto simp: glob_char)

lemma glob_no_star: "star \<notin> set l \<Longrightarrow> glob l s \<longleftrightarrow> s = l"
  using glob_literal [of l "[]" s] by auto

lemma glob_star_literal:
  "star \<notin> set m \<Longrightarrow> glob (star # m @ q) r \<longleftrightarrow> (\<exists>a c. r = a @ m @ c \<and> glob q c)"
  by (auto simp: glob_star glob_literal)

lemma glob_append: "glob (p @ q) s \<longleftrightarrow> (\<exists>a b. s = a @ b \<and> glob p a \<and> glob q b)"
proof (induction p arbitrary: s)
  case (Cons c p)
  show ?case
  proof (cases "c = star")
    case True
    have "glob ((c # p) @ q) s \<longleftrightarrow> (\<exists>a b. s = a @ b \<and> glob (p @ q) b)"
      using True by (simp add: glob_star)
    also have "\<dots> \<longleftrightarrow> (\<exists>a b d. s = a @ b @ d \<and> glob p b \<and> glob q d)"
      using Cons.IH by auto
    also have "\<dots> \<longleftrightarrow> (\<exists>a b. s = a @ b \<and> glob (c # p) a \<and> glob q b)"
      using True by (auto simp: glob_star) (metis append.assoc)+
    finally show ?thesis .
  next
    case False
    then show ?thesis using Cons.IH by (auto simp: glob_char) (metis append_Cons)+
  qed
qed simp

text \<open>The middle parts in order, with anything between them.\<close>

fun in_order :: "string list \<Rightarrow> string \<Rightarrow> bool" where
  "in_order [] r = True"
| "in_order (m # ms) r = (\<exists>a b. r = a @ m @ b \<and> in_order ms b)"

lemma in_order_longer: "in_order ms b \<Longrightarrow> in_order ms (a @ b)"
proof (cases ms)
  case (Cons m ms')
  assume "in_order ms b"
  with Cons obtain x y where "b = x @ m @ y" "in_order ms' y" by auto
  then have "a @ b = (a @ x) @ m @ y \<and> in_order ms' y" by simp
  with Cons show ?thesis by (metis in_order.simps(2))
qed simp

text \<open>The greedy choice of the first occurrence loses nothing.\<close>

lemma matchMiddle_in_order: "matchMiddle ms r \<longleftrightarrow> in_order ms r"
proof (induction ms arbitrary: r)
  case (Cons m ms)
  show ?case
  proof
    assume "matchMiddle (m # ms) r"
    then obtain i where i: "Index r m = Some i" and rest: "matchMiddle ms (drop (i + length m) r)"
      by (auto split: option.splits)
    from i obtain b where b: "r = take i r @ m @ b" "i \<le> length r" using Index_Some by blast
    then have "drop (i + length m) r = b"
      by (metis append_eq_conv_conj drop_drop length_take min.absorb2 add.commute)
    with rest Cons.IH have "in_order ms b" by simp
    with b(1) show "in_order (m # ms) r" by auto
  next
    assume "in_order (m # ms) r"
    then obtain a b where r: "r = a @ m @ b" and b: "in_order ms b" by auto
    from Index_first [OF r] obtain i where i: "Index r m = Some i" "i \<le> length a" by blast
    then have "drop (i + length m) r = drop (i + length m) (a @ m) @ b" using r by simp
    then have "in_order ms (drop (i + length m) r)" using b in_order_longer by simp
    with i Cons.IH show "matchMiddle (m # ms) r" by simp
  qed
qed simp

lemma glob_parts:
  assumes "\<forall>m \<in> set ms. star \<notin> set m" and "star \<notin> set l"
  shows "glob (star # Join (ms @ [l]) [star]) r \<longleftrightarrow> (\<exists>a. r = a @ l \<and> in_order ms a)"
  using assms
proof (induction ms arbitrary: r)
  case Nil
  then show ?case by (simp add: glob_star glob_no_star)
next
  case (Cons m ms)
  have "glob (star # Join ((m # ms) @ [l]) [star]) r \<longleftrightarrow>
      (\<exists>a c. r = a @ m @ c \<and> glob (star # Join (ms @ [l]) [star]) c)"
    using Cons.prems by (simp add: Join_Cons glob_star_literal)
  also have "\<dots> \<longleftrightarrow> (\<exists>a c. r = a @ m @ c @ l \<and> in_order ms c)"
    using Cons by auto
  also have "\<dots> \<longleftrightarrow> (\<exists>a. r = a @ l \<and> in_order (m # ms) a)"
    unfolding in_order.simps by (metis append.assoc)
  finally show ?case .
qed

lemma Split_shape:
  assumes "star \<in> set p"
  obtains h ms l where "Split p star = h # ms @ [l]" and "star \<notin> set h"
    and "\<forall>m \<in> set ms. star \<notin> set m" and "star \<notin> set l"
proof -
  have "length (Split p star) \<noteq> 1" using assms by (simp only: Split_single) simp
  then obtain h t where ht: "Split p star = h # t" "t \<noteq> []"
    by (cases "Split p star") auto
  then have eq: "Split p star = h # butlast t @ [last t]" by simp
  have "\<forall>x \<in> set (Split p star). star \<notin> set x" by (auto dest: Split_parts)
  with eq show ?thesis using that [of h "butlast t" "last t"] by (metis append_butlast_last_id
        ht(2) in_set_butlastD last_in_set list.set_intros(1) list.set_intros(2) ht(1))
qed

lemma MatchesWildcard_glob: "MatchesWildcard p v \<longleftrightarrow> glob p v"
proof (cases "p = ''*''")
  case True
  then show ?thesis by (simp add: MatchesWildcard_def glob_star)
next
  case False
  show ?thesis
  proof (cases "star \<in> set p")
    case no: False
    then show ?thesis using False by (auto simp: MatchesWildcard_def Split_id glob_no_star)
  next
    case True
    obtain h ms l where sp: "Split p star = h # ms @ [l]" and h: "star \<notin> set h"
      and ms: "\<forall>m \<in> set ms. star \<notin> set m" and l: "star \<notin> set l"
      using Split_shape [OF True] .
    have p: "p = h @ star # Join (ms @ [l]) [star]"
      using Join_Split [of p star] sp by (simp add: Join_Cons)
    have "glob p v \<longleftrightarrow> (\<exists>r a. v = h @ r \<and> r = a @ l \<and> in_order ms a)"
      unfolding p using h ms l by (simp add: glob_literal glob_parts)
    also have "\<dots> \<longleftrightarrow> MatchesWildcard p v"
      using False sp
      by (auto simp: MatchesWildcard_def Let_def matchMiddle_in_order HasPrefix_iff HasSuffix_iff)
    finally show ?thesis by simp
  qed
qed

text \<open>
  A pattern that matches another pattern's text covers everything the other one matches: the stars
  of the matched text can only be consumed by stars.
\<close>

lemma glob_trans: "glob p q \<Longrightarrow> glob q s \<Longrightarrow> glob p s"
proof (induction p arbitrary: q s)
  case (Cons c p)
  show ?case
  proof (cases "c = star")
    case True
    with Cons.prems obtain a b where q: "q = a @ b" "glob p b" by (auto simp: glob_star)
    with Cons.prems obtain s1 s2 where "s = s1 @ s2" "glob b s2" by (auto simp: glob_append)
    with q Cons.IH True show ?thesis by (auto simp: glob_star)
  next
    case False
    with Cons.prems obtain q' where "q = c # q'" "glob p q'" by (auto simp: glob_char)
    with False Cons show ?thesis by (auto simp: glob_char)
  qed
qed simp

lemma MatchesWildcard_trans:
  "MatchesWildcard p q \<Longrightarrow> MatchesWildcard q s \<Longrightarrow> MatchesWildcard p s"
  unfolding MatchesWildcard_glob by (rule glob_trans)

lemma MatchesWildcard_literal [simp]: "star \<notin> set p \<Longrightarrow> MatchesWildcard p v \<longleftrightarrow> v = p"
  by (simp add: MatchesWildcard_glob glob_no_star)

lemma MatchesWildcard_star [simp]: "MatchesWildcard ''*'' v"
  by (simp add: MatchesWildcard_def)

lemma glob_refl: "glob p p"
proof (induction p)
  case (Cons c p)
  then show ?case by (cases "c = star") (auto simp: glob_star intro: exI [of _ "[star]"])
qed simp

lemma MatchesWildcard_refl [simp]: "MatchesWildcard p p"
  by (simp add: MatchesWildcard_glob glob_refl)

lemma matchesAnyWildcard_iff: "matchesAnyWildcard ps v \<longleftrightarrow> (\<exists>p \<in> set ps. glob p v)"
  by (simp add: matchesAnyWildcard_def list_ex_iff MatchesWildcard_glob)

lemma ContainsStringOrWildcard_iff [simp]:
  "ContainsStringOrWildcard xs v \<longleftrightarrow> v \<in> set xs \<or> ''*'' \<in> set xs"
  by (auto simp: ContainsStringOrWildcard_def list_ex_iff)

lemma hasAnyPrefix_iff: "hasAnyPrefix ps v \<longleftrightarrow> (\<exists>p \<in> set ps. HasPrefix v p)"
  by (simp add: hasAnyPrefix_def list_ex_iff)

lemma hasAnySuffix_iff: "hasAnySuffix ps v \<longleftrightarrow> (\<exists>p \<in> set ps. HasSuffix v p)"
  by (simp add: hasAnySuffix_def list_ex_iff)

lemma MatchesResourceName_iff:
  "MatchesResourceName p r \<longleftrightarrow> glob p r \<or> star \<notin> set p \<and> (\<exists>t. r = p @ ''/'' @ t)"
  by (auto simp: MatchesResourceName_def MatchesWildcard_glob Contains_char HasPrefix_iff)

text \<open>
  For resource names the same holds as long as the pattern is a plain name: a plain name covers its
  subresources, a pattern with a star does not.
\<close>

lemma MatchesResourceName_trans:
  assumes plain: "star \<notin> set p" and pq: "MatchesResourceName p q" and qs: "MatchesResourceName q s"
  shows "MatchesResourceName p s"
proof -
  from pq plain consider "q = p" | t where "q = p @ ''/'' @ t"
    by (auto simp: MatchesResourceName_iff glob_no_star)
  then show ?thesis
  proof cases
    case 1
    with qs show ?thesis by simp
  next
    case 2
    have slash: "star \<notin> set (p @ ''/'')" using plain by simp
    from qs consider "glob q s" | u where "s = q @ ''/'' @ u"
      by (auto simp: MatchesResourceName_iff)
    then have "\<exists>u. s = p @ ''/'' @ u"
    proof cases
      case 1
      then have "glob ((p @ ''/'') @ t) s" using 2 by simp
      then show ?thesis using glob_literal [OF slash] by auto
    next
      case (2 u)
      then show ?thesis using \<open>q = p @ ''/'' @ t\<close> by auto
    qed
    with plain show ?thesis by (auto simp: MatchesResourceName_iff)
  qed
qed

lemma MatchesResourceName_covers:
  "MatchesResourceName p q \<Longrightarrow> MatchesWildcard q s \<Longrightarrow> MatchesResourceName p s"
proof (cases "star \<in> set p")
  case False
  assume "MatchesResourceName p q" "MatchesWildcard q s"
  with False show ?thesis
    using MatchesResourceName_trans by (metis MatchesResourceName_def)
next
  case True
  assume "MatchesResourceName p q" "MatchesWildcard q s"
  with True have "glob p q" "glob q s" by (auto simp: MatchesResourceName_iff MatchesWildcard_glob)
  then show ?thesis using glob_trans by (auto simp: MatchesResourceName_iff)
qed

lemma APIGroupRestrictionCovers_all [simp]:
  "APIGroupRestrictionCovers g ''*'' \<longleftrightarrow> g = '''' \<or> g = ''*''"
  by (simp add: APIGroupRestrictionCovers_def)

section \<open>Properties\<close>

text \<open>
  Property C34 (wildcard_meaning): the greedy matcher of the policy engine is correct and complete
  for the usual meaning of patterns: it accepts a value exactly when the value arises from the
  pattern by replacing every star with some string. In particular the choice of the first occurrence
  of each middle part never rejects a value that another choice would accept.
\<close>

theorem wildcard_meaning: "MatchesWildcard pattern value \<longleftrightarrow> glob pattern value"
  by (rule MatchesWildcard_glob)

text \<open>
  Comparing patterns with patterns is sound. When a restriction matches
  the text of a second pattern, it matches every name that the second pattern matches. This is what
  lets the policy evaluation compare the patterns of a definition with those of its policy without
  knowing the names that discovery will return.
\<close>

theorem pattern_covers:
  "MatchesResourceName p q \<Longrightarrow> MatchesWildcard q s \<Longrightarrow> MatchesResourceName p s"
  by (rule MatchesResourceName_covers)

theorem pattern_covers_witness:
  "MatchesResourceName ''*'' ''pod*'' \<and> MatchesResourceName ''pods'' ''pods/exec*'' \<and>
   MatchesResourceName ''pods'' ''pods/exec''"
  using pattern_covers [of "''pods''" "''pods/exec*''" "''pods/exec''"] by code_simp

end
