(* ===== verification/Policy_Scope.thy ===== *)
theory Policy_Scope
  imports Api_Types Wildcard
begin

text \<open>
  What the two policy evaluators share (\<^verbatim>\<open>pkg/policy\<close>): the label resolver interface
  (\<^verbatim>\<open>label_getter.go\<close>), selector matching, the governance scope of a policy (\<^verbatim>\<open>matcher.go\<close>) and the
  two readings of name limits (\<^verbatim>\<open>evaluator.go\<close>, \<^verbatim>\<open>constrained_impersonation.go\<close>).
\<close>

section \<open>Label resolution\<close>

text \<open>
  \<^verbatim>\<open>LabelGetter\<close>: a label map, which may be the nil map (\<^term>\<open>None\<close>), with the \<^verbatim>\<open>found\<close> flag. A nil
  \<^verbatim>\<open>LabelGetter\<close> is \<^term>\<open>None\<close> of the option type.
\<close>

record LabelGetter =
  GetNamespaceLabels :: "string \<Rightarrow> labels option \<times> bool"
  GetClusterRoleLabels :: "string \<Rightarrow> labels option \<times> bool"
  GetRoleLabels :: "string \<Rightarrow> string \<Rightarrow> labels option \<times> bool"
  ListNamespacesBySelector :: "LabelSelector \<Rightarrow> string + string list"

text \<open>Matching reads a nil label map as the empty one.\<close>

definition matchesSelector :: "selector_api \<Rightarrow> LabelSelector \<Rightarrow> labels option \<Rightarrow> bool" where
  "matchesSelector asSelector selector objLabels =
     (case asSelector selector of
        Inl err \<Rightarrow> False
      | Inr sel \<Rightarrow> sel (case objLabels of None \<Rightarrow> [] | Some ls \<Rightarrow> ls))"

section \<open>Scope\<close>

definition allNamespacesScope :: string where "allNamespacesScope = ''*''"

definition namespaceInScope ::
  "selector_api \<Rightarrow> PolicyScope \<Rightarrow> string \<Rightarrow> LabelGetter option \<Rightarrow> bool" where
  "namespaceInScope asSelector scope namespace lg =
     (if scope_Namespaces scope = [] \<and> scope_NamespaceSelector scope = None then False
      else
        let bareAllNamespaces = (allNamespacesScope \<in> set (scope_Namespaces scope) \<and>
              length (scope_Namespaces scope) = 1 \<and> scope_NamespaceSelector scope = None) in
        if namespace \<in> set (scope_Namespaces scope) then True
        else
          (case (scope_NamespaceSelector scope, lg) of
             (Some selector, Some getter) \<Rightarrow>
               let (nsLabels, found) = GetNamespaceLabels getter namespace in
               if \<not> found then bareAllNamespaces
               else if matchesSelector asSelector selector nsLabels then True
               else bareAllNamespaces
           | _ \<Rightarrow> bareAllNamespaces))"

definition scopeAllowsClusterResources :: "PolicyScope \<Rightarrow> bool" where
  "scopeAllowsClusterResources scope \<longleftrightarrow> allNamespacesScope \<in> set (scope_Namespaces scope)"

text \<open>
  The scope a policy declares: a listed namespace, every namespace for the bare \<^verbatim>\<open>*\<close>, or a
  resolvable namespace whose labels the selector matches.
\<close>

definition selector_admits ::
  "selector_api \<Rightarrow> LabelGetter option \<Rightarrow> LabelSelector \<Rightarrow> string \<Rightarrow> bool" where
  "selector_admits asSelector lg selector namespace \<longleftrightarrow>
     (\<exists>getter ls. lg = Some getter \<and> GetNamespaceLabels getter namespace = (ls, True) \<and>
        matchesSelector asSelector selector ls)"

lemma namespaceInScope_iff:
  "namespaceInScope asSelector scope ns lg \<longleftrightarrow>
     ns \<in> set (scope_Namespaces scope) \<or>
     scope_Namespaces scope = [''*''] \<and> scope_NamespaceSelector scope = None \<or>
     (\<exists>sel. scope_NamespaceSelector scope = Some sel \<and> selector_admits asSelector lg sel ns)"
proof -
  have bare: "allNamespacesScope \<in> set xs \<and> length xs = 1 \<longleftrightarrow> xs = [''*'']" for xs
    by (auto simp: allNamespacesScope_def length_Suc_conv)
  show ?thesis
    unfolding namespaceInScope_def selector_admits_def
    using bare [of "scope_Namespaces scope"]
    by (auto simp: Let_def split: option.splits prod.splits if_splits)
qed

text \<open>
  The same without the functions of the evaluator, for a resolver that gives every namespace it finds its
  labels. The API server sets a label with its name on every namespace.
\<close>

definition labels_resolve :: "LabelGetter \<Rightarrow> bool" where
  "labels_resolve getter \<longleftrightarrow> (\<forall>ns. GetNamespaceLabels getter ns \<noteq> (None, True))"

definition selects :: "selector_api \<Rightarrow> LabelSelector \<Rightarrow> labels \<Rightarrow> bool" where
  "selects asSelector selector ls \<longleftrightarrow> (\<exists>matcher. asSelector selector = Inr matcher \<and> matcher ls)"

definition ns_selected :: "selector_api \<Rightarrow> LabelGetter \<Rightarrow> LabelSelector \<Rightarrow> string \<Rightarrow> bool" where
  "ns_selected asSelector getter selector ns \<longleftrightarrow>
     (\<exists>ls. GetNamespaceLabels getter ns = (Some ls, True) \<and> selects asSelector selector ls)"

definition in_scope :: "selector_api \<Rightarrow> LabelGetter \<Rightarrow> PolicyScope \<Rightarrow> string \<Rightarrow> bool" where
  "in_scope asSelector getter scope ns \<longleftrightarrow>
     ns \<in> set (scope_Namespaces scope) \<or>
     scope_Namespaces scope = [''*''] \<and> scope_NamespaceSelector scope = None \<or>
     (\<exists>selector. scope_NamespaceSelector scope = Some selector \<and> ns_selected asSelector getter selector ns)"

lemma matchesSelector_selects: "matchesSelector asSelector selector (Some ls) \<longleftrightarrow> selects asSelector selector ls"
  by (auto simp: matchesSelector_def selects_def split: sum.splits)

lemma selector_admits_meaning:
  assumes "labels_resolve getter"
  shows "selector_admits asSelector (Some getter) selector ns \<longleftrightarrow> ns_selected asSelector getter selector ns"
proof -
  have "GetNamespaceLabels getter ns = (ls, True) \<Longrightarrow> \<exists>l. ls = Some l" for ls
    using assms by (cases ls) (auto simp: labels_resolve_def)
  then show ?thesis
    by (auto simp: selector_admits_def ns_selected_def matchesSelector_selects [symmetric])
qed

lemma scope_meaning:
  "labels_resolve getter \<Longrightarrow>
   namespaceInScope asSelector scope ns (Some getter) \<longleftrightarrow> in_scope asSelector getter scope ns"
  by (simp add: namespaceInScope_iff in_scope_def selector_admits_meaning)

definition labelled_getter :: LabelGetter where
  "labelled_getter = \<lparr>GetNamespaceLabels = (\<lambda>ns. (Some [(''kubernetes.io/metadata.name'', ns)], True)),
     GetClusterRoleLabels = (\<lambda>n. (None, False)), GetRoleLabels = (\<lambda>ns n. (None, False)),
     ListNamespacesBySelector = (\<lambda>s. Inr [])\<rparr>"

lemma labelled_getter_resolves: "labels_resolve labelled_getter"
  by (simp add: labels_resolve_def labelled_getter_def)

section \<open>Name limits\<close>

text \<open>
  \<^verbatim>\<open>nameMatchViolation\<close> (identity names of impersonation grants): the reason of a rejection, empty
  for an accepted name.
\<close>

definition nameMatchViolation :: "NameMatchLimits \<Rightarrow> string \<Rightarrow> msg" where
  "nameMatchViolation limits name =
     (if name \<in> set (nml_ForbiddenNames limits) then [Lit ''is explicitly forbidden by policy'']
      else case find (\<lambda>p. HasPrefix name p) (nml_ForbiddenPrefixes limits) of
        Some prefix \<Rightarrow> [Lit ''matches the forbidden prefix '', Quo prefix]
      | None \<Rightarrow>
          (case find (\<lambda>s. HasSuffix name s) (nml_ForbiddenSuffixes limits) of
             Some suffix \<Rightarrow> [Lit ''matches the forbidden suffix '', Quo suffix]
           | None \<Rightarrow>
               let hasAllowList = (nml_AllowedNames limits \<noteq> [] \<or> nml_AllowedPrefixes limits \<noteq> [] \<or>
                     nml_AllowedSuffixes limits \<noteq> []) in
               if \<not> hasAllowList then []
               else if name \<in> set (nml_AllowedNames limits) then []
               else if hasAnyPrefix (nml_AllowedPrefixes limits) name then []
               else if hasAnySuffix (nml_AllowedSuffixes limits) name then []
               else [Lit ''does not match any allowed name, prefix or suffix'']))"

definition checkNameMatchLimits ::
  "NameMatchLimits \<Rightarrow> string \<Rightarrow> string \<Rightarrow> Violation list" where
  "checkNameMatchLimits limits name fieldPath =
     (if name \<in> set (nml_ForbiddenNames limits)
      then [violation fieldPath [Lit ''name '', Quo name, Lit '' is forbidden by policy'']] else []) @
     (if hasAnyPrefix (nml_ForbiddenPrefixes limits) name
      then [violation fieldPath [Lit ''name '', Quo name, Lit '' matches a forbidden prefix'']] else []) @
     (if hasAnySuffix (nml_ForbiddenSuffixes limits) name
      then [violation fieldPath [Lit ''name '', Quo name, Lit '' matches a forbidden suffix'']] else []) @
     (if nml_AllowedNames limits \<noteq> [] \<and> name \<notin> set (nml_AllowedNames limits)
      then [violation fieldPath [Lit ''name '', Quo name, Lit '' is not in the allowed list'']] else []) @
     (if nml_AllowedPrefixes limits \<noteq> [] \<and> \<not> hasAnyPrefix (nml_AllowedPrefixes limits) name
      then [violation fieldPath [Lit ''name '', Quo name, Lit '' does not match any allowed prefix'']]
      else []) @
     (if nml_AllowedSuffixes limits \<noteq> [] \<and> \<not> hasAnySuffix (nml_AllowedSuffixes limits) name
      then [violation fieldPath [Lit ''name '', Quo name, Lit '' does not match any allowed suffix'']]
      else [])"

definition name_forbidden :: "NameMatchLimits \<Rightarrow> string \<Rightarrow> bool" where
  "name_forbidden limits name \<longleftrightarrow>
     name \<in> set (nml_ForbiddenNames limits) \<or>
     (\<exists>p \<in> set (nml_ForbiddenPrefixes limits). HasPrefix name p) \<or>
     (\<exists>s \<in> set (nml_ForbiddenSuffixes limits). HasSuffix name s)"

definition no_allow_list :: "NameMatchLimits \<Rightarrow> bool" where
  "no_allow_list limits \<longleftrightarrow> nml_AllowedNames limits = [] \<and> nml_AllowedPrefixes limits = [] \<and>
     nml_AllowedSuffixes limits = []"

text \<open>The identity limits combine the three allow lists by disjunction \<dots>\<close>

definition name_any_allowed :: "NameMatchLimits \<Rightarrow> string \<Rightarrow> bool" where
  "name_any_allowed limits name \<longleftrightarrow> no_allow_list limits \<or>
     name \<in> set (nml_AllowedNames limits) \<or>
     (\<exists>p \<in> set (nml_AllowedPrefixes limits). HasPrefix name p) \<or>
     (\<exists>s \<in> set (nml_AllowedSuffixes limits). HasSuffix name s)"

text \<open>\<dots> the subject limits by conjunction: every list that is given has to admit the name.\<close>

definition name_all_allowed :: "NameMatchLimits \<Rightarrow> string \<Rightarrow> bool" where
  "name_all_allowed limits name \<longleftrightarrow>
     (nml_AllowedNames limits \<noteq> [] \<longrightarrow> name \<in> set (nml_AllowedNames limits)) \<and>
     (nml_AllowedPrefixes limits \<noteq> [] \<longrightarrow>
        (\<exists>p \<in> set (nml_AllowedPrefixes limits). HasPrefix name p)) \<and>
     (nml_AllowedSuffixes limits \<noteq> [] \<longrightarrow>
        (\<exists>s \<in> set (nml_AllowedSuffixes limits). HasSuffix name s))"

lemma nameMatchViolation_ok [checks]:
  "nameMatchViolation limits name = [] \<longleftrightarrow>
     \<not> name_forbidden limits name \<and> name_any_allowed limits name"
  by (auto simp: nameMatchViolation_def name_forbidden_def name_any_allowed_def no_allow_list_def
      find_None_iff find_Some_iff hasAnyPrefix_iff hasAnySuffix_iff Let_def
      split: option.splits if_splits dest: nth_mem)

lemma checkNameMatchLimits_ok [checks]:
  "checkNameMatchLimits limits name p = [] \<longleftrightarrow>
     \<not> name_forbidden limits name \<and> name_all_allowed limits name"
  by (auto simp: checkNameMatchLimits_def name_forbidden_def name_all_allowed_def
      hasAnyPrefix_iff hasAnySuffix_iff)

interpretation name_check: check "\<lambda>(limits, name, path). checkNameMatchLimits limits name path"
  "\<lambda>(limits, name, path). \<not> name_forbidden limits name \<and> name_all_allowed limits name"
  by unfold_locales (auto simp: checkNameMatchLimits_ok)

text \<open>The conjunctive reading is the stricter one.\<close>

lemma name_all_any: "name_all_allowed limits name \<Longrightarrow> name_any_allowed limits name"
  by (auto simp: name_all_allowed_def name_any_allowed_def no_allow_list_def)

text \<open>The readings agree as long as one kind of allow list is given.\<close>

definition one_allow_list :: "NameMatchLimits \<Rightarrow> bool" where
  "one_allow_list nl \<longleftrightarrow>
     nml_AllowedPrefixes nl = [] \<and> nml_AllowedSuffixes nl = [] \<or>
     nml_AllowedNames nl = [] \<and> nml_AllowedSuffixes nl = [] \<or>
     nml_AllowedNames nl = [] \<and> nml_AllowedPrefixes nl = []"

lemma one_allow_list_meaning:
  "one_allow_list nl \<Longrightarrow> name_any_allowed nl n \<longleftrightarrow> name_all_allowed nl n"
  by (auto simp: one_allow_list_def name_any_allowed_def name_all_allowed_def no_allow_list_def)

section \<open>Properties\<close>

text \<open>
  A namespace is governed by a policy exactly when it is listed, when the
  scope is nothing but the single entry \<^verbatim>\<open>*\<close>, or when the scope has a selector and the namespace
  resolves to labels the selector matches. A scope that adds a selector to \<^verbatim>\<open>*\<close> is thus not a
  blanket scope, and a policy without scope governs nothing.
\<close>

theorem scope_exact:
  "namespaceInScope asSelector scope ns lg \<longleftrightarrow>
     ns \<in> set (scope_Namespaces scope) \<or>
     scope_Namespaces scope = [''*''] \<and> scope_NamespaceSelector scope = None \<or>
     (\<exists>sel. scope_NamespaceSelector scope = Some sel \<and> selector_admits asSelector lg sel ns)"
  by (rule namespaceInScope_iff)

text \<open>
  The two readings of the same limits. A name the subject limits
  accept is accepted by the identity limits, for every limits object; the converse fails as soon as
  two of the allow lists are given, because the identity limits are content with one of them.
\<close>

theorem name_limits_compared:
  "(\<forall>limits name path. checkNameMatchLimits limits name path = [] \<longrightarrow> nameMatchViolation limits name = []) \<and>
   (\<exists>limits name path. nameMatchViolation limits name = [] \<and> checkNameMatchLimits limits name path \<noteq> [])"
proof (intro conjI exI)
  let ?l = "\<lparr>nml_AllowedNames = [''bot''], nml_ForbiddenNames = [], nml_AllowedPrefixes = [''team-''],
    nml_ForbiddenPrefixes = [], nml_AllowedSuffixes = [], nml_ForbiddenSuffixes = []\<rparr>"
  show "nameMatchViolation ?l ''team-a'' = []" by code_simp
  show "checkNameMatchLimits ?l ''team-a'' '''' \<noteq> []" by code_simp
qed (auto simp: nameMatchViolation_ok checkNameMatchLimits_ok name_all_any)

theorem name_limits_compared_witness:
  "checkNameMatchLimits \<lparr>nml_AllowedNames = [], nml_ForbiddenNames = [], nml_AllowedPrefixes = [''team-''],
     nml_ForbiddenPrefixes = [], nml_AllowedSuffixes = [], nml_ForbiddenSuffixes = []\<rparr> ''team-a'' '''' = [] \<and>
   nameMatchViolation \<lparr>nml_AllowedNames = [], nml_ForbiddenNames = [], nml_AllowedPrefixes = [''team-''],
     nml_ForbiddenPrefixes = [], nml_AllowedSuffixes = [], nml_ForbiddenSuffixes = []\<rparr> ''team-a'' = []"
    (is "?c \<and> ?n")
proof -
  have c: ?c by code_simp
  moreover from c have ?n using name_limits_compared by blast
  ultimately show ?thesis by blast
qed

end
