(* ===== verification/Impersonation.thy ===== *)
theory Impersonation
  imports Api_Types
begin

text \<open>
  Constrained impersonation (\<^verbatim>\<open>api/authorization/v1alpha1/constrained_impersonation_types.go\<close>): the
  verb vocabulary and its parser, the translation of a typed grant into RBAC rules and the semantic
  validation of a grant; and the impersonated identity of a policy (\<^verbatim>\<open>rbacpolicy_types.go\<close>,
  \<^verbatim>\<open>internal/controller/authorization/impersonation.go\<close>).
\<close>

section \<open>Vocabulary\<close>

definition ImpersonateVerbPrefix :: string where "ImpersonateVerbPrefix = ''impersonate:''"
definition ImpersonateOnVerbPrefix :: string where "ImpersonateOnVerbPrefix = ''impersonate-on:''"
definition LegacyImpersonateVerb :: string where "LegacyImpersonateVerb = ''impersonate''"

definition ImpersonationModeAssociatedNode :: ImpersonationMode where
  "ImpersonationModeAssociatedNode = ''associated-node''"
definition ImpersonationModeArbitraryNode :: ImpersonationMode where
  "ImpersonationModeArbitraryNode = ''arbitrary-node''"
definition ImpersonationModeServiceAccount :: ImpersonationMode where
  "ImpersonationModeServiceAccount = ''serviceaccount''"
definition ImpersonationModeUserInfo :: ImpersonationMode where
  "ImpersonationModeUserInfo = ''user-info''"

definition AllImpersonationModes :: "ImpersonationMode list" where
  "AllImpersonationModes =
     [ImpersonationModeAssociatedNode, ImpersonationModeArbitraryNode,
      ImpersonationModeServiceAccount, ImpersonationModeUserInfo]"

definition ImpersonationResourceUsers :: ImpersonationIdentityResource where
  "ImpersonationResourceUsers = ''users''"
definition ImpersonationResourceGroups :: ImpersonationIdentityResource where
  "ImpersonationResourceGroups = ''groups''"
definition ImpersonationResourceUIDs :: ImpersonationIdentityResource where
  "ImpersonationResourceUIDs = ''uids''"
definition ImpersonationResourceUserExtras :: ImpersonationIdentityResource where
  "ImpersonationResourceUserExtras = ''userextras''"
definition ImpersonationResourceServiceAccounts :: ImpersonationIdentityResource where
  "ImpersonationResourceServiceAccounts = ''serviceaccounts''"
definition ImpersonationResourceNodes :: ImpersonationIdentityResource where
  "ImpersonationResourceNodes = ''nodes''"

definition AllImpersonationIdentityResources :: "ImpersonationIdentityResource list" where
  "AllImpersonationIdentityResources =
     [ImpersonationResourceUsers, ImpersonationResourceGroups, ImpersonationResourceUIDs,
      ImpersonationResourceUserExtras, ImpersonationResourceServiceAccounts,
      ImpersonationResourceNodes]"

definition SystemMastersGroup :: string where "SystemMastersGroup = ''system:masters''"
definition NodesGroup :: string where "NodesGroup = ''system:nodes''"
definition NodeUsernamePrefix :: string where "NodeUsernamePrefix = ''system:node:''"
definition ServiceAccountUsernamePrefix :: string where
  "ServiceAccountUsernamePrefix = ''system:serviceaccount:''"

lemmas imp_consts =
  ImpersonateVerbPrefix_def ImpersonateOnVerbPrefix_def LegacyImpersonateVerb_def
  ImpersonationModeAssociatedNode_def ImpersonationModeArbitraryNode_def
  ImpersonationModeServiceAccount_def ImpersonationModeUserInfo_def
  ImpersonationResourceUsers_def ImpersonationResourceGroups_def ImpersonationResourceUIDs_def
  ImpersonationResourceUserExtras_def ImpersonationResourceServiceAccounts_def
  ImpersonationResourceNodes_def SystemMastersGroup_def NodesGroup_def NodeUsernamePrefix_def
  ServiceAccountUsernamePrefix_def

definition isKnownMode :: "ImpersonationMode \<Rightarrow> bool" where
  "isKnownMode mode \<longleftrightarrow> mode \<in> set AllImpersonationModes"

definition IdentityVerb :: "ImpersonationMode \<Rightarrow> string" where
  "IdentityVerb mode = ImpersonateVerbPrefix @ mode"

definition ActionVerb :: "ImpersonationMode \<Rightarrow> string \<Rightarrow> string" where
  "ActionVerb mode verb = ImpersonateOnVerbPrefix @ mode @ '':'' @ verb"

definition IsImpersonationVerb :: "string \<Rightarrow> bool" where
  "IsImpersonationVerb verb \<longleftrightarrow>
     HasPrefix verb ImpersonateVerbPrefix \<or> HasPrefix verb ImpersonateOnVerbPrefix"

record ParsedImpersonationVerb =
  piv_Mode :: ImpersonationMode
  piv_Action :: string
  piv_IsAction :: bool

definition ParseImpersonationVerb :: "string \<Rightarrow> ParsedImpersonationVerb option" where
  "ParseImpersonationVerb verb =
     (case CutPrefix verb ImpersonateOnVerbPrefix of
        Some action \<Rightarrow>
          (case Cut action CHR '':'' of
             None \<Rightarrow> None
           | Some (mode, underlying) \<Rightarrow>
               if underlying = '''' \<or> \<not> isKnownMode mode then None
               else Some \<lparr>piv_Mode = mode, piv_Action = underlying, piv_IsAction = True\<rparr>)
      | None \<Rightarrow>
          (case CutPrefix verb ImpersonateVerbPrefix of
             Some mode \<Rightarrow>
               if \<not> isKnownMode mode then None
               else Some \<lparr>piv_Mode = mode, piv_Action = '''', piv_IsAction = False\<rparr>
           | None \<Rightarrow> None))"

definition RequiresClusterScope :: "ImpersonationIdentityResource \<Rightarrow> bool" where
  "RequiresClusterScope r \<longleftrightarrow> r \<noteq> ImpersonationResourceServiceAccounts"

section \<open>The rules a grant generates\<close>

definition identityRuleResource :: "ImpersonationIdentityRule \<Rightarrow> string" where
  "identityRuleResource rule =
     (if iir_Resource rule = ImpersonationResourceUserExtras
      then ImpersonationResourceUserExtras @ ''/'' @ iir_ExtraKey rule
      else iir_Resource rule)"

definition dedupeSorted :: "string list \<Rightarrow> string list" where
  "dedupeSorted xs =
     (if xs = [] then []
      else let out = filter (\<lambda>v. v \<noteq> '''') xs in
        if out = [] then [] else Compact (sort out))"

definition dedupeSortedAllowEmpty :: "string list \<Rightarrow> string list" where
  "dedupeSortedAllowEmpty xs = (if xs = [] then [] else Compact (sort xs))"

text \<open>The loop that fills \<^verbatim>\<open>namesByResource\<close>.\<close>

fun namesByResource ::
  "ImpersonationIdentityRule list \<Rightarrow> (string, string list) gomap \<Rightarrow> (string, string list) gomap"
where
  "namesByResource [] m = m"
| "namesByResource (rule # rules) m =
     (let resource = identityRuleResource rule;
          old = (case map_of m resource of None \<Rightarrow> [] | Some ns \<Rightarrow> ns)
      in namesByResource rules (mput resource (old @ iir_Names rule) m))"

definition BuildConstrainedImpersonationRules ::
  "ConstrainedImpersonationSpec option \<Rightarrow> msg + PolicyRule list" where
  "BuildConstrainedImpersonationRules specp =
     (case specp of
        None \<Rightarrow> Inr []
      | Some spec \<Rightarrow>
          if \<not> isKnownMode (cis_Mode spec)
          then Inl [Lit ''unknown constrained impersonation mode '', Quo (cis_Mode spec)]
          else
            let names = namesByResource (cis_Identities spec) [];
                resources = sort (map fst names);
                identityVerb = IdentityVerb (cis_Mode spec)
            in Inr (
              map (\<lambda>resource.
                \<lparr>pr_Verbs = [identityVerb],
                 pr_APIGroups = [authenticationGroupName],
                 pr_Resources = [resource],
                 pr_ResourceNames =
                   dedupeSorted (case map_of names resource of None \<Rightarrow> [] | Some ns \<Rightarrow> ns),
                 pr_NonResourceURLs = []\<rparr>) resources @
              map (\<lambda>action.
                \<lparr>pr_Verbs = dedupeSorted (map (ActionVerb (cis_Mode spec)) (iar_Verbs action)),
                 pr_APIGroups = dedupeSortedAllowEmpty (iar_APIGroups action),
                 pr_Resources = dedupeSorted (iar_Resources action),
                 pr_ResourceNames = dedupeSorted (iar_ResourceNames action),
                 pr_NonResourceURLs = []\<rparr>) (cis_Actions spec)))"

text \<open>
  The reconcilers append the generated rules to the discovered ones
  (\<^verbatim>\<open>appendConstrainedImpersonationRules\<close>).
\<close>

definition appendConstrainedImpersonationRules ::
  "ConstrainedImpersonationSpec option \<Rightarrow> PolicyRule list \<Rightarrow> msg + PolicyRule list" where
  "appendConstrainedImpersonationRules spec rules =
     (case spec of
        None \<Rightarrow> Inr rules
      | Some _ \<Rightarrow>
          (case BuildConstrainedImpersonationRules spec of
             Inl err \<Rightarrow> Inl (Lit ''build constrained impersonation rules: '' # err)
           | Inr generated \<Rightarrow> Inr (rules @ generated)))"

definition legacyImpersonateRestricted :: "string list \<Rightarrow> bool" where
  "legacyImpersonateRestricted restrictedVerbs \<longleftrightarrow>
     LegacyImpersonateVerb \<in> set restrictedVerbs \<or> ''*'' \<in> set restrictedVerbs"

section \<open>Validation of a grant\<close>

definition child :: "string \<Rightarrow> string \<Rightarrow> string" where
  "child p c = p @ ''.'' @ c"

definition isReservedUsername :: "string \<Rightarrow> bool" where
  "isReservedUsername name \<longleftrightarrow>
     HasPrefix name NodeUsernamePrefix \<or> HasPrefix name ServiceAccountUsernamePrefix"

definition validateIdentityName ::
  "ImpersonationIdentityResource \<Rightarrow> string \<Rightarrow> string \<Rightarrow> fieldError list" where
  "validateIdentityName resource name namePath =
     (if resource = ImpersonationResourceGroups then
        (if name = SystemMastersGroup
         then [FieldForbidden namePath
                 [Lit ''impersonating the '', Quo SystemMastersGroup, Lit '' group is not allowed'']]
         else [])
      else if resource = ImpersonationResourceUsers then
        (if name \<noteq> ''*'' \<and> isReservedUsername name
         then [FieldInvalid namePath name
                 [Lit ''node ('', Lit NodeUsernamePrefix, Lit '') and ServiceAccount ('',
                  Lit ServiceAccountUsernamePrefix, Lit '') usernames are reserved; use the '',
                  Quo ImpersonationResourceNodes, Lit '' identity resource with mode '',
                  Quo ImpersonationModeArbitraryNode, Lit '', or '',
                  Quo ImpersonationResourceServiceAccounts, Lit '' with mode '',
                  Quo ImpersonationModeServiceAccount]]
         else [])
      else if resource = ImpersonationResourceNodes \<or>
              resource = ImpersonationResourceServiceAccounts then
        (if HasPrefix name NodeUsernamePrefix \<or> HasPrefix name ServiceAccountUsernamePrefix
         then [FieldInvalid namePath name
                 [Lit ''must be the bare '', Lit resource,
                  Lit '' name, not the full impersonation username'']]
         else [])
      else [])"

definition validateIdentityRuleNames ::
  "ImpersonationIdentityRule \<Rightarrow> ImpersonationMode \<Rightarrow> string \<Rightarrow> fieldError list" where
  "validateIdentityRuleNames rule mode fldPath =
     (let namesPath = child fldPath ''names'' in
      if mode = ImpersonationModeAssociatedNode then
        (if iir_Names rule \<noteq> []
         then [FieldForbidden namesPath
                 [Lit ''mode '', Quo mode, Lit '' must not set names; the apiserver authorizes the wildcard node name and performs the association check itself'']]
         else [])
      else if iir_Names rule = [] then
        [FieldRequired namesPath
           [Lit ''at least one name is required; an empty allowlist would grant unrestricted impersonation for this resource'']]
      else for_range (\<lambda>i name.
        let namePath = path_idx namesPath i in
        if name = '''' then [FieldInvalid namePath name [Lit ''must not be empty'']]
        else validateIdentityName (iir_Resource rule) name namePath) (iir_Names rule))"

text \<open>
  \<^verbatim>\<open>utilvalidation.IsDomainPrefixedPath\<close> is a parameter (\<open>idpp\<close>, from the path and the value to the errors).
\<close>

definition validateIdentityRuleExtraKey ::
  "(string \<Rightarrow> string \<Rightarrow> fieldError list) \<Rightarrow> ImpersonationIdentityRule \<Rightarrow> string \<Rightarrow> fieldError list"
where
  "validateIdentityRuleExtraKey idpp rule fldPath =
     (let extraKeyPath = child fldPath ''extraKey'' in
      if iir_Resource rule \<noteq> ImpersonationResourceUserExtras then
        (if iir_ExtraKey rule \<noteq> ''''
         then [FieldForbidden extraKeyPath
                 [Lit ''extraKey may only be set when resource is '',
                  Quo ImpersonationResourceUserExtras]]
         else [])
      else if iir_ExtraKey rule = '''' then
        [FieldRequired extraKeyPath
           [Lit ''extraKey is required when resource is '', Quo ImpersonationResourceUserExtras]]
      else
        (if iir_ExtraKey rule \<noteq> ToLower (iir_ExtraKey rule)
         then [FieldInvalid extraKeyPath (iir_ExtraKey rule)
                 [Lit ''must be lowercase; the apiserver denies non-lowercase extra keys'']]
         else []) @
        idpp extraKeyPath (iir_ExtraKey rule))"

definition validateIdentityRuleModeCompatibility ::
  "ImpersonationIdentityRule \<Rightarrow> ImpersonationMode \<Rightarrow> string \<Rightarrow> fieldError list" where
  "validateIdentityRuleModeCompatibility rule mode fldPath =
     (let resourcePath = child fldPath ''resource'' in
      if mode = ImpersonationModeAssociatedNode \<or> mode = ImpersonationModeArbitraryNode then
        (if iir_Resource rule \<noteq> ImpersonationResourceNodes
         then [FieldForbidden resourcePath
                 [Lit ''mode '', Quo mode, Lit '' only supports the '', Quo ImpersonationResourceNodes,
                  Lit '' identity resource because the apiserver forces the impersonated groups to ['',
                  Lit NodesGroup, Lit '']'']]
         else [])
      else if mode = ImpersonationModeServiceAccount then
        (if iir_Resource rule \<noteq> ImpersonationResourceServiceAccounts
         then [FieldForbidden resourcePath
                 [Lit ''mode '', Quo mode, Lit '' only supports the '',
                  Quo ImpersonationResourceServiceAccounts,
                  Lit '' identity resource because the apiserver computes the impersonated groups from the ServiceAccount namespace'']]
         else [])
      else if mode = ImpersonationModeUserInfo then
        (if iir_Resource rule = ImpersonationResourceNodes \<or>
            iir_Resource rule = ImpersonationResourceServiceAccounts
         then [FieldForbidden resourcePath
                 [Lit ''mode '', Quo mode, Lit '' rejects the '', Quo (iir_Resource rule),
                  Lit '' identity resource; node and ServiceAccount identities are reserved for the '',
                  Quo ImpersonationModeArbitraryNode, Lit '' and '',
                  Quo ImpersonationModeServiceAccount, Lit '' modes'']]
         else [])
      else [])"

definition validateIdentityRule ::
  "(string \<Rightarrow> string \<Rightarrow> fieldError list) \<Rightarrow> ImpersonationIdentityRule \<Rightarrow> ImpersonationMode \<Rightarrow> bool
    \<Rightarrow> string \<Rightarrow> fieldError list" where
  "validateIdentityRule idpp rule mode targetIsClusterRole fldPath =
     (if iir_Resource rule \<notin> set AllImpersonationIdentityResources
      then [FieldNotSupported (child fldPath ''resource'') (iir_Resource rule)
              AllImpersonationIdentityResources]
      else
        (if \<not> targetIsClusterRole \<and> RequiresClusterScope (iir_Resource rule)
         then [FieldForbidden (child fldPath ''resource'')
                 [Lit ''identity resource '', Quo (iir_Resource rule),
                  Lit '' is cluster-scoped and requires targetRole 'ClusterRole'; only '',
                  Quo ImpersonationResourceServiceAccounts,
                  Lit '' may be granted from a namespaced Role'']]
         else []) @
        validateIdentityRuleModeCompatibility rule mode fldPath @
        validateIdentityRuleExtraKey idpp rule fldPath @
        validateIdentityRuleNames rule mode fldPath)"

definition validateActionRule :: "ImpersonationActionRule \<Rightarrow> string \<Rightarrow> fieldError list" where
  "validateActionRule rule fldPath =
     (if iar_APIGroups rule = []
      then [FieldRequired (child fldPath ''apiGroups'')
              [Lit ''at least one apiGroup is required; use \"\" for the core group'']]
      else []) @
     (if iar_Resources rule = []
      then [FieldRequired (child fldPath ''resources'') [Lit ''at least one resource is required'']]
      else []) @
     (if iar_Verbs rule = []
      then [FieldRequired (child fldPath ''verbs'') [Lit ''at least one verb is required'']]
      else []) @
     for_range (\<lambda>i verb.
       let verbPath = path_idx (child fldPath ''verbs'') i in
       if verb = '''' then [FieldInvalid verbPath verb [Lit ''must not be empty'']]
       else if verb = ''*'' then
         [FieldForbidden verbPath
            [Lit ''constrained impersonation has no action verb wildcard: '',
             Quo (ActionVerb ImpersonationModeUserInfo ''*''),
             Lit '' cannot be expressed. Enumerate the underlying verbs explicitly.'']]
       else if IsImpersonationVerb verb \<or> verb = LegacyImpersonateVerb then
         [FieldInvalid verbPath verb
            [Lit ''must be the underlying request verb (e.g. \"list\"); the impersonate-on:<mode>: prefix is added automatically'']]
       else []) (iar_Verbs rule)"

definition ValidateConstrainedImpersonationSpec ::
  "(string \<Rightarrow> string \<Rightarrow> fieldError list) \<Rightarrow> ConstrainedImpersonationSpec option \<Rightarrow> bool \<Rightarrow> string
    \<Rightarrow> fieldError list" where
  "ValidateConstrainedImpersonationSpec idpp specp targetIsClusterRole fldPath =
     (case specp of
        None \<Rightarrow> []
      | Some spec \<Rightarrow>
          if \<not> isKnownMode (cis_Mode spec)
          then [FieldNotSupported (child fldPath ''mode'') (cis_Mode spec) AllImpersonationModes]
          else
            (if cis_Identities spec = []
             then [FieldRequired (child fldPath ''identities'')
                     [Lit ''at least one identity rule is required'']]
             else []) @
            for_range (\<lambda>i rule.
              validateIdentityRule idpp rule (cis_Mode spec) targetIsClusterRole
                (path_idx (child fldPath ''identities'') i)) (cis_Identities spec) @
            for_range (\<lambda>i rule.
              validateActionRule rule (path_idx (child fldPath ''actions'') i)) (cis_Actions spec))"

definition ConstrainedImpersonationWarnings ::
  "ConstrainedImpersonationSpec option \<Rightarrow> string \<Rightarrow> msg list" where
  "ConstrainedImpersonationWarnings specp fieldName =
     (case specp of
        None \<Rightarrow> []
      | Some spec \<Rightarrow>
          (if cis_Actions spec = []
           then [[Lit fieldName, Lit '': no actions are declared. The apiserver evaluates the impersonate-on:'',
                  Lit (cis_Mode spec), Lit '':<verb> action check FIRST, so an identity-only grant authorizes nothing and every request falls back to legacy impersonation.'']]
           else []) @
          (if length (cis_Identities spec) > 1 \<and> cis_Actions spec \<noteq> []
           then [[Lit fieldName, Lit '': constrained impersonation grants UNION rather than correlate. The effective permission is the full cross product of all '',
                  Dec (int (length (cis_Identities spec))), Lit '' identities and all '',
                  Dec (int (length (cis_Actions spec))), Lit '' action rules; it cannot express per-identity actions. Split into separate definitions if per-identity scoping is required.'']]
           else []) @
          for_range (\<lambda>i action.
            if ''*'' \<in> set (iar_APIGroups action) \<and> ''*'' \<in> set (iar_Resources action)
            then [[Lit fieldName, Lit ''.actions['', Dec (int i), Lit '']: grants impersonate-on:'',
                   Lit (cis_Mode spec), Lit '' on all resources in all API groups.'']]
            else []) (cis_Actions spec))"

section \<open>The impersonated identity of a policy\<close>

definition EffectiveUsername :: "ImpersonationConfig option \<Rightarrow> string" where
  "EffectiveUsername icp =
     (case icp of
        None \<Rightarrow> ''''
      | Some ic \<Rightarrow>
          (case ic_ServiceAccountRef ic of
             Some ref \<Rightarrow>
               if sar_Name ref \<noteq> '''' \<and> sar_Namespace ref \<noteq> ''''
               then ServiceAccountUsernamePrefix @ sar_Namespace ref @ '':'' @ sar_Name ref
               else ic_UserName ic
           | None \<Rightarrow> ic_UserName ic))"

definition SelectedMode :: "ImpersonationConfig option \<Rightarrow> ImpersonationMode" where
  "SelectedMode icp =
     (case icp of
        None \<Rightarrow> ''''
      | Some ic \<Rightarrow>
          let username = EffectiveUsername icp;
              onlyUsernameSet = (ic_UID ic = '''' \<and> ic_Groups ic = [] \<and> ic_Extra ic = []) in
          if username = '''' then ''''
          else if HasPrefix username NodeUsernamePrefix then
            (if \<not> onlyUsernameSet then '''' else ImpersonationModeArbitraryNode)
          else if HasPrefix username ServiceAccountUsernamePrefix then
            (if \<not> onlyUsernameSet then '''' else ImpersonationModeServiceAccount)
          else ImpersonationModeUserInfo)"

text \<open>
  \<^verbatim>\<open>impersonatedUsernameForPolicy\<close>: an error, or the username with whether impersonation is on.
\<close>

definition impersonatedUsernameForPolicy :: "RBACPolicy option \<Rightarrow> msg + string \<times> bool" where
  "impersonatedUsernameForPolicy policyp =
     (case policyp of
        None \<Rightarrow> Inr ('''', False)
      | Some policy \<Rightarrow>
          (case ps_Impersonation (policy_Spec policy) of
             None \<Rightarrow> Inr ('''', False)
           | Some ic \<Rightarrow>
               if \<not> ic_Enabled ic then Inr ('''', False)
               else (case ic_ServiceAccountRef ic of
                  None \<Rightarrow> Inl [Lit ''policy '', Quo (policy_Name policy),
                               Lit '' has impersonation.enabled=true but no serviceAccountRef'']
                | Some saRef \<Rightarrow>
                    if sar_Name saRef = '''' \<or> sar_Namespace saRef = ''''
                    then Inl [Lit ''policy '', Quo (policy_Name policy),
                              Lit '' impersonation serviceAccountRef must include name and namespace'']
                    else Inr (''system:serviceaccount:'' @ sar_Namespace saRef @ '':'' @ sar_Name saRef,
                              True))))"

section \<open>Verbs: printing and parsing\<close>

lemma knownMode_no_colon: "isKnownMode m \<Longrightarrow> CHR '':'' \<notin> set m"
  by (auto simp: isKnownMode_def AllImpersonationModes_def imp_consts)

lemma ParseImpersonationVerb_ActionVerb:
  assumes "isKnownMode m" and "a \<noteq> ''''"
  shows "ParseImpersonationVerb (ActionVerb m a) =
    Some \<lparr>piv_Mode = m, piv_Action = a, piv_IsAction = True\<rparr>"
proof -
  have "CutPrefix (ActionVerb m a) ImpersonateOnVerbPrefix = Some (m @ CHR '':'' # a)"
    by (simp add: CutPrefix_iff ActionVerb_def)
  moreover have "Cut (m @ CHR '':'' # a) CHR '':'' = Some (m, a)"
    using assms(1) by (simp add: Cut_append knownMode_no_colon)
  ultimately show ?thesis using assms by (simp add: ParseImpersonationVerb_def)
qed

lemma ParseImpersonationVerb_IdentityVerb:
  assumes "isKnownMode m"
  shows "ParseImpersonationVerb (IdentityVerb m) =
    Some \<lparr>piv_Mode = m, piv_Action = '''', piv_IsAction = False\<rparr>"
proof -
  have "CutPrefix (IdentityVerb m) ImpersonateOnVerbPrefix = None"
    by (simp add: CutPrefix_None HasPrefix_iff IdentityVerb_def imp_consts)
  moreover have "CutPrefix (IdentityVerb m) ImpersonateVerbPrefix = Some m"
    by (simp add: CutPrefix_iff IdentityVerb_def)
  ultimately show ?thesis using assms by (simp add: ParseImpersonationVerb_def)
qed

lemma ParseImpersonationVerb_inverse:
  assumes "ParseImpersonationVerb v = Some p"
  shows "isKnownMode (piv_Mode p) \<and>
    (if piv_IsAction p then piv_Action p \<noteq> '''' \<and> v = ActionVerb (piv_Mode p) (piv_Action p)
     else piv_Action p = '''' \<and> v = IdentityVerb (piv_Mode p))"
  using assms
  by (auto simp: ParseImpersonationVerb_def CutPrefix_iff Cut_Some_iff ActionVerb_def IdentityVerb_def
      split: option.splits if_splits)

lemma IsImpersonationVerb_ActionVerb [simp]: "IsImpersonationVerb (ActionVerb m a)"
  by (simp add: IsImpersonationVerb_def ActionVerb_def)

lemma IsImpersonationVerb_IdentityVerb [simp]: "IsImpersonationVerb (IdentityVerb m)"
  by (simp add: IsImpersonationVerb_def IdentityVerb_def)

lemma ActionVerb_ne [simp]: "ActionVerb m a \<noteq> ''''" and IdentityVerb_ne [simp]: "IdentityVerb m \<noteq> ''''"
  by (simp_all add: ActionVerb_def IdentityVerb_def imp_consts)

section \<open>The generated rules do not depend on how the grant is written down\<close>

lemma dedupeSorted_eq: "dedupeSorted xs = Compact (sort (filter (\<lambda>v. v \<noteq> '''') xs))"
  by (simp add: dedupeSorted_def Let_def Compact_def)

lemma set_dedupeSorted [simp]: "set (dedupeSorted xs) = set xs - {''''}"
  by (auto simp: dedupeSorted_eq)

lemma dedupeSorted_cong: "set xs = set ys \<Longrightarrow> dedupeSorted xs = dedupeSorted ys"
  unfolding dedupeSorted_eq by (rule Compact_sort_canonical) auto

lemma sorted_dedupeSorted: "sorted (dedupeSorted xs)" and
  distinct_dedupeSorted: "distinct (dedupeSorted xs)"
  by (simp_all add: dedupeSorted_eq distinct_Compact)

lemma set_dedupeSortedAllowEmpty [simp]: "set (dedupeSortedAllowEmpty xs) = set xs"
  by (simp add: dedupeSortedAllowEmpty_def)

definition namesFor :: "ImpersonationIdentityRule list \<Rightarrow> string \<Rightarrow> string list" where
  "namesFor ids res = concat (map iir_Names (filter (\<lambda>r. identityRuleResource r = res) ids))"

lemma set_namesFor: "set (namesFor ids res) =
    (\<Union>r \<in> {r \<in> set ids. identityRuleResource r = res}. set (iir_Names r))"
  by (auto simp: namesFor_def)

lemma namesByResource_lookup:
  "map_of (namesByResource ids m) res =
     (if res \<in> identityRuleResource ` set ids
      then Some ((case map_of m res of None \<Rightarrow> [] | Some ns \<Rightarrow> ns) @ namesFor ids res)
      else map_of m res)"
proof (induction ids arbitrary: m)
  case (Cons r ids)
  show ?case
    by (auto simp: Cons.IH Let_def namesFor_def image_iff filter_empty_conv split: option.splits)
qed simp

lemma namesByResource_wf: "mwf m \<Longrightarrow> mwf (namesByResource ids m)"
  by (induction ids arbitrary: m) (simp_all add: Let_def)

lemma namesByResource_keys: "fst ` set (namesByResource ids []) = identityRuleResource ` set ids"
proof -
  have "fst ` set (namesByResource ids []) = dom (map_of (namesByResource ids []))"
    by (simp add: dom_map_of_conv_image_fst)
  also have "\<dots> = identityRuleResource ` set ids"
    by (auto simp: namesByResource_lookup split: if_splits)
  finally show ?thesis .
qed

lemma namesByResource_resources:
  "sort (map fst (namesByResource ids [])) = sorted_list_of_set (identityRuleResource ` set ids)"
proof (rule sorted_distinct_set_unique)
  have "mwf (namesByResource ids [])" by (rule namesByResource_wf) (simp add: mwf_def)
  then show "distinct (sort (map fst (namesByResource ids [])))" by (simp add: mwf_def)
qed (simp_all add: namesByResource_keys)

definition identity_rule :: "ConstrainedImpersonationSpec \<Rightarrow> string \<Rightarrow> PolicyRule" where
  "identity_rule spec res =
     \<lparr>pr_Verbs = [IdentityVerb (cis_Mode spec)], pr_APIGroups = [authenticationGroupName],
      pr_Resources = [res], pr_ResourceNames = dedupeSorted (namesFor (cis_Identities spec) res),
      pr_NonResourceURLs = []\<rparr>"

definition action_rule :: "ConstrainedImpersonationSpec \<Rightarrow> ImpersonationActionRule \<Rightarrow> PolicyRule" where
  "action_rule spec action =
     \<lparr>pr_Verbs = dedupeSorted (map (ActionVerb (cis_Mode spec)) (iar_Verbs action)),
      pr_APIGroups = dedupeSortedAllowEmpty (iar_APIGroups action),
      pr_Resources = dedupeSorted (iar_Resources action),
      pr_ResourceNames = dedupeSorted (iar_ResourceNames action),
      pr_NonResourceURLs = []\<rparr>"

lemma Build_rules:
  assumes "isKnownMode (cis_Mode spec)"
  shows "BuildConstrainedImpersonationRules (Some spec) =
    Inr (map (identity_rule spec)
           (sorted_list_of_set (identityRuleResource ` set (cis_Identities spec))) @
         map (action_rule spec) (cis_Actions spec))"
proof -
  have "map (\<lambda>resource. \<lparr>pr_Verbs = [IdentityVerb (cis_Mode spec)],
      pr_APIGroups = [authenticationGroupName], pr_Resources = [resource],
      pr_ResourceNames = dedupeSorted
        (case map_of (namesByResource (cis_Identities spec) []) resource of None \<Rightarrow> [] | Some ns \<Rightarrow> ns),
      pr_NonResourceURLs = []\<rparr>)
      (sorted_list_of_set (identityRuleResource ` set (cis_Identities spec))) =
    map (identity_rule spec) (sorted_list_of_set (identityRuleResource ` set (cis_Identities spec)))"
    by (rule map_cong) (auto simp: identity_rule_def namesByResource_lookup)
  with assms show ?thesis
    unfolding BuildConstrainedImpersonationRules_def Let_def namesByResource_resources
    by (simp add: action_rule_def [abs_def])
qed

lemma Build_known_mode:
  "BuildConstrainedImpersonationRules (Some spec) = Inr rules \<Longrightarrow> isKnownMode (cis_Mode spec)"
  by (auto simp: BuildConstrainedImpersonationRules_def split: if_splits)

lemma Build_unknown_mode:
  "\<not> isKnownMode (cis_Mode spec) \<Longrightarrow> \<exists>e. BuildConstrainedImpersonationRules (Some spec) = Inl e"
  by (simp add: BuildConstrainedImpersonationRules_def)

lemma identity_rule_cong:
  "cis_Mode s = cis_Mode t \<Longrightarrow> set (cis_Identities s) = set (cis_Identities t) \<Longrightarrow>
   identity_rule s = identity_rule t"
  by (rule ext) (auto simp: identity_rule_def set_namesFor intro!: dedupeSorted_cong)

lemma action_rule_cong: "cis_Mode s = cis_Mode t \<Longrightarrow> action_rule s = action_rule t"
  by (rule ext) (simp add: action_rule_def)

lemma Build_rule_cases:
  assumes "BuildConstrainedImpersonationRules (Some spec) = Inr rules" and "r \<in> set rules"
  obtains (identity) ir where "ir \<in> set (cis_Identities spec)"
      and "r = identity_rule spec (identityRuleResource ir)"
    | (action) ar where "ar \<in> set (cis_Actions spec)" and "r = action_rule spec ar"
  using assms Build_known_mode [OF assms(1)] by (auto simp: Build_rules)

section \<open>What validation accepts\<close>

definition identity_name_ok :: "ImpersonationIdentityResource \<Rightarrow> string \<Rightarrow> bool" where
  "identity_name_ok res n \<longleftrightarrow>
     (res = ImpersonationResourceGroups \<longrightarrow> n \<noteq> SystemMastersGroup) \<and>
     (res \<in> {ImpersonationResourceUsers, ImpersonationResourceNodes,
        ImpersonationResourceServiceAccounts} \<longrightarrow> \<not> isReservedUsername n)"

lemma validateIdentityName_ok [checks]:
  "validateIdentityName res n p = [] \<longleftrightarrow> identity_name_ok res n"
  by (auto simp: validateIdentityName_def identity_name_ok_def isReservedUsername_def imp_consts
      HasPrefix_def)

definition mode_ok :: "ImpersonationMode \<Rightarrow> ImpersonationIdentityResource \<Rightarrow> bool" where
  "mode_ok m res \<longleftrightarrow>
     (m \<in> {ImpersonationModeAssociatedNode, ImpersonationModeArbitraryNode} \<longrightarrow>
        res = ImpersonationResourceNodes) \<and>
     (m = ImpersonationModeServiceAccount \<longrightarrow> res = ImpersonationResourceServiceAccounts) \<and>
     (m = ImpersonationModeUserInfo \<longrightarrow>
        res \<notin> {ImpersonationResourceNodes, ImpersonationResourceServiceAccounts})"

lemma validateIdentityRuleModeCompatibility_ok [checks]:
  "validateIdentityRuleModeCompatibility r m p = [] \<longleftrightarrow> mode_ok m (iir_Resource r)"
  by (auto simp: validateIdentityRuleModeCompatibility_def mode_ok_def imp_consts Let_def)

definition names_ok :: "ImpersonationIdentityRule \<Rightarrow> ImpersonationMode \<Rightarrow> bool" where
  "names_ok r m \<longleftrightarrow>
     (if m = ImpersonationModeAssociatedNode then iir_Names r = []
      else iir_Names r \<noteq> [] \<and>
        (\<forall>n \<in> set (iir_Names r). n \<noteq> '''' \<and> identity_name_ok (iir_Resource r) n))"

lemma validateIdentityRuleNames_ok [checks]:
  "validateIdentityRuleNames r m p = [] \<longleftrightarrow> names_ok r m"
  by (auto simp: validateIdentityRuleNames_def names_ok_def Let_def for_range_empty
      all_set_conv_all_nth validateIdentityName_ok split: if_splits)

definition extra_key_ok ::
  "(string \<Rightarrow> string \<Rightarrow> fieldError list) \<Rightarrow> ImpersonationIdentityRule \<Rightarrow> string \<Rightarrow> bool" where
  "extra_key_ok idpp r p \<longleftrightarrow>
     (if iir_Resource r = ImpersonationResourceUserExtras
      then iir_ExtraKey r \<noteq> '''' \<and> ToLower (iir_ExtraKey r) = iir_ExtraKey r \<and>
        idpp (child p ''extraKey'') (iir_ExtraKey r) = []
      else iir_ExtraKey r = '''')"

lemma validateIdentityRuleExtraKey_ok [checks]:
  "validateIdentityRuleExtraKey idpp r p = [] \<longleftrightarrow> extra_key_ok idpp r p"
  by (auto simp: validateIdentityRuleExtraKey_def extra_key_ok_def Let_def)

definition identity_ok ::
  "(string \<Rightarrow> string \<Rightarrow> fieldError list) \<Rightarrow> ImpersonationMode \<Rightarrow> bool \<Rightarrow> ImpersonationIdentityRule
    \<Rightarrow> string \<Rightarrow> bool" where
  "identity_ok idpp m cluster r p \<longleftrightarrow>
     iir_Resource r \<in> set AllImpersonationIdentityResources \<and>
     (\<not> cluster \<longrightarrow> iir_Resource r = ImpersonationResourceServiceAccounts) \<and>
     mode_ok m (iir_Resource r) \<and> extra_key_ok idpp r p \<and> names_ok r m"

lemma validateIdentityRule_ok [checks]:
  "validateIdentityRule idpp r m cluster p = [] \<longleftrightarrow> identity_ok idpp m cluster r p"
  by (auto simp: validateIdentityRule_def identity_ok_def RequiresClusterScope_def
      validateIdentityRuleModeCompatibility_ok validateIdentityRuleExtraKey_ok
      validateIdentityRuleNames_ok)

definition action_ok :: "ImpersonationActionRule \<Rightarrow> bool" where
  "action_ok r \<longleftrightarrow> iar_APIGroups r \<noteq> [] \<and> iar_Resources r \<noteq> [] \<and> iar_Verbs r \<noteq> [] \<and>
     (\<forall>v \<in> set (iar_Verbs r).
        v \<noteq> '''' \<and> v \<noteq> ''*'' \<and> v \<noteq> LegacyImpersonateVerb \<and> \<not> IsImpersonationVerb v)"

lemma validateActionRule_ok [checks]: "validateActionRule r p = [] \<longleftrightarrow> action_ok r"
  unfolding validateActionRule_def action_ok_def
  by (auto simp: for_range_empty all_set_conv_all_nth Let_def split: if_splits)

interpretation action_check: check "\<lambda>(rule, path). validateActionRule rule path"
  "\<lambda>(rule, path). action_ok rule"
  by unfold_locales (auto simp: validateActionRule_ok)

definition grant_ok ::
  "(string \<Rightarrow> string \<Rightarrow> fieldError list) \<Rightarrow> bool \<Rightarrow> ConstrainedImpersonationSpec \<Rightarrow> string \<Rightarrow> bool" where
  "grant_ok idpp cluster spec p \<longleftrightarrow>
     isKnownMode (cis_Mode spec) \<and> cis_Identities spec \<noteq> [] \<and>
     (\<forall>i < length (cis_Identities spec).
        identity_ok idpp (cis_Mode spec) cluster (cis_Identities spec ! i)
          (path_idx (child p ''identities'') i)) \<and>
     (\<forall>a \<in> set (cis_Actions spec). action_ok a)"

lemma Validate_grant_ok:
  "ValidateConstrainedImpersonationSpec idpp (Some spec) cluster p = [] \<longleftrightarrow>
     grant_ok idpp cluster spec p"
proof -
  have acts: "for_range (\<lambda>i rule. validateActionRule rule (path_idx (child p ''actions'') i))
      (cis_Actions spec) = [] \<longleftrightarrow> (\<forall>a \<in> set (cis_Actions spec). action_ok a)"
    by (rule action_check.loop_ok [where g = "\<lambda>i y. (y, path_idx (child p ''actions'') i)"]) auto
  show ?thesis
    unfolding ValidateConstrainedImpersonationSpec_def grant_ok_def
    by (simp add: acts) (simp add: for_range_empty validateIdentityRule_ok)
qed

lemma namesFor_valid:
  assumes "grant_ok idpp cluster spec p" and "n \<in> set (namesFor (cis_Identities spec) res)"
    and "res \<in> set AllImpersonationIdentityResources" "res \<noteq> ImpersonationResourceUserExtras"
  shows "identity_name_ok res n"
proof -
  from assms(2) obtain r where r: "r \<in> set (cis_Identities spec)" "identityRuleResource r = res"
      "n \<in> set (iir_Names r)" by (auto simp: set_namesFor)
  then obtain i where i: "i < length (cis_Identities spec)" "cis_Identities spec ! i = r"
    by (auto simp: in_set_conv_nth)
  then have "identity_ok idpp (cis_Mode spec) cluster r (path_idx (child p ''identities'') i)"
    using assms(1) by (auto simp: grant_ok_def)
  moreover have "iir_Resource r = res"
    using r(2) assms(3, 4)
    by (auto simp: identityRuleResource_def AllImpersonationIdentityResources_def imp_consts split: if_splits)
  ultimately show ?thesis using r(3) by (auto simp: identity_ok_def names_ok_def split: if_splits)
qed

lemma identity_names_given:
  assumes "grant_ok idpp cluster spec p" and "ir \<in> set (cis_Identities spec)"
    and "cis_Mode spec \<noteq> ImpersonationModeAssociatedNode"
  shows "pr_ResourceNames (identity_rule spec (identityRuleResource ir)) \<noteq> []"
proof -
  from assms(2) obtain i where i: "i < length (cis_Identities spec)" "cis_Identities spec ! i = ir"
    by (auto simp: in_set_conv_nth)
  with assms(1, 3) have ne: "iir_Names ir \<noteq> []" "\<forall>n \<in> set (iir_Names ir). n \<noteq> ''''"
    by (auto simp: grant_ok_def identity_ok_def names_ok_def)
  then obtain n where n: "n \<in> set (iir_Names ir)" "n \<noteq> ''''" using last_in_set by blast
  then have "n \<in> set (pr_ResourceNames (identity_rule spec (identityRuleResource ir)))"
    using assms(2) by (auto simp: identity_rule_def set_namesFor)
  then show ?thesis by auto
qed

section \<open>Properties\<close>

text \<open>
  Property C39 (impersonation_verb_roundtrip): parsing and printing of impersonation verbs are
  inverse. A string parses to a mode, an action and the action flag exactly when the mode is one of
  the four known ones and the string is what \<^verbatim>\<open>ActionVerb\<close> (for a non-empty action) or
  \<^verbatim>\<open>IdentityVerb\<close> prints for them.
\<close>

theorem impersonation_verb_roundtrip:
  "ParseImpersonationVerb v = Some \<lparr>piv_Mode = m, piv_Action = a, piv_IsAction = b\<rparr> \<longleftrightarrow>
     isKnownMode m \<and> (if b then a \<noteq> '''' \<and> v = ActionVerb m a else a = '''' \<and> v = IdentityVerb m)"
  using ParseImpersonationVerb_inverse [of v "\<lparr>piv_Mode = m, piv_Action = a, piv_IsAction = b\<rparr>"]
  by (auto simp: ParseImpersonationVerb_ActionVerb ParseImpersonationVerb_IdentityVerb split: if_splits)

text \<open>
  Property C38 (valid_grant_is_bounded): a grant that passes validation generates rules, and every
  verb of every rule is an impersonation verb of the grant's mode. An identity rule lies in the
  authentication group, names the identities it allows (only the associated-node mode leaves the
  list empty), and never allows the group system:masters or a reserved user name; an action rule
  never encodes the wildcard, the legacy verb or another impersonation verb.
\<close>

theorem valid_grant_is_bounded:
  assumes "ValidateConstrainedImpersonationSpec idpp (Some spec) cluster p = []"
  shows "\<exists>rules. BuildConstrainedImpersonationRules (Some spec) = Inr rules \<and>
    (\<forall>r \<in> set rules. pr_Verbs r \<noteq> [] \<and> (\<forall>v \<in> set (pr_Verbs r). \<exists>pv. ParseImpersonationVerb v = Some pv \<and>
       piv_Mode pv = cis_Mode spec \<and>
       (if piv_IsAction pv
        then piv_Action pv \<notin> {''*'', LegacyImpersonateVerb} \<and> \<not> IsImpersonationVerb (piv_Action pv)
        else pr_APIGroups r = [authenticationGroupName] \<and>
          (cis_Mode spec \<noteq> ImpersonationModeAssociatedNode \<longrightarrow> pr_ResourceNames r \<noteq> []) \<and>
          (pr_Resources r = [ImpersonationResourceGroups] \<longrightarrow>
             SystemMastersGroup \<notin> set (pr_ResourceNames r)) \<and>
          (pr_Resources r = [ImpersonationResourceUsers] \<longrightarrow>
             (\<forall>n \<in> set (pr_ResourceNames r). \<not> isReservedUsername n)))))"
proof -
  have ok: "grant_ok idpp cluster spec p" using assms by (simp add: Validate_grant_ok)
  then have mode: "isKnownMode (cis_Mode spec)" by (simp add: grant_ok_def)
  obtain rules where rules: "BuildConstrainedImpersonationRules (Some spec) = Inr rules"
    using Build_rules [OF mode] by blast
  have res: "ImpersonationResourceGroups \<in> set AllImpersonationIdentityResources"
      "ImpersonationResourceUsers \<in> set AllImpersonationIdentityResources"
      "ImpersonationResourceGroups \<noteq> ImpersonationResourceUserExtras"
      "ImpersonationResourceUsers \<noteq> ImpersonationResourceUserExtras"
    by (simp_all add: AllImpersonationIdentityResources_def imp_consts)
  have "pr_Verbs r \<noteq> [] \<and> (\<forall>v \<in> set (pr_Verbs r). \<exists>pv. ParseImpersonationVerb v = Some pv \<and>
       piv_Mode pv = cis_Mode spec \<and>
       (if piv_IsAction pv
        then piv_Action pv \<notin> {''*'', LegacyImpersonateVerb} \<and> \<not> IsImpersonationVerb (piv_Action pv)
        else pr_APIGroups r = [authenticationGroupName] \<and>
          (cis_Mode spec \<noteq> ImpersonationModeAssociatedNode \<longrightarrow> pr_ResourceNames r \<noteq> []) \<and>
          (pr_Resources r = [ImpersonationResourceGroups] \<longrightarrow>
             SystemMastersGroup \<notin> set (pr_ResourceNames r)) \<and>
          (pr_Resources r = [ImpersonationResourceUsers] \<longrightarrow>
             (\<forall>n \<in> set (pr_ResourceNames r). \<not> isReservedUsername n))))" (is "?ok r")
    if "r \<in> set rules" for r
    using rules that
  proof (cases rule: Build_rule_cases)
    case (identity ir)
    have "identity_name_ok res n" if "n \<in> set (pr_ResourceNames r)" "pr_Resources r = [res]"
        "res \<in> {ImpersonationResourceGroups, ImpersonationResourceUsers}" for n res
      using that identity namesFor_valid [OF ok, of n res] res by (auto simp: identity_rule_def)
    then show ?thesis
      using identity identity_names_given [OF ok identity(1)] ParseImpersonationVerb_IdentityVerb [OF mode]
      by (auto simp: identity_rule_def identity_name_ok_def)
  next
    case (action ar)
    then have "action_ok ar" using ok by (simp add: grant_ok_def)
    then have ne: "iar_Verbs ar \<noteq> []" and verbs: "\<forall>v \<in> set (iar_Verbs ar).
        v \<noteq> '''' \<and> v \<noteq> ''*'' \<and> v \<noteq> LegacyImpersonateVerb \<and> \<not> IsImpersonationVerb v"
      by (auto simp: action_ok_def)
    have set: "set (pr_Verbs r) = ActionVerb (cis_Mode spec) ` set (iar_Verbs ar)"
      using action by (auto simp: action_rule_def)
    then have "pr_Verbs r \<noteq> []" using ne by auto
    moreover have "\<exists>pv. ParseImpersonationVerb v = Some pv \<and> piv_Mode pv = cis_Mode spec \<and> piv_IsAction pv \<and>
        piv_Action pv \<notin> {''*'', LegacyImpersonateVerb} \<and> \<not> IsImpersonationVerb (piv_Action pv)"
      if "v \<in> set (pr_Verbs r)" for v
      using that verbs ParseImpersonationVerb_ActionVerb [OF mode] unfolding set by force
    ultimately show ?thesis by metis
  qed
  with rules show ?thesis by blast
qed

definition sample_grant :: ConstrainedImpersonationSpec where
  "sample_grant = \<lparr>cis_Mode = ''user-info'',
     cis_Identities = [\<lparr>iir_Resource = ''users'', iir_ExtraKey = '''', iir_Names = [''alice'', ''bob'']\<rparr>,
       \<lparr>iir_Resource = ''groups'', iir_ExtraKey = '''', iir_Names = [''dev'']\<rparr>],
     cis_Actions = [\<lparr>iar_APIGroups = [''''], iar_Resources = [''pods''], iar_ResourceNames = [],
       iar_Verbs = [''list'', ''get'']\<rparr>]\<rparr>"

theorem valid_grant_is_bounded_witness:
  "ValidateConstrainedImpersonationSpec (\<lambda>_ _. []) (Some sample_grant) True ''spec'' = [] \<and>
   (\<exists>rules. BuildConstrainedImpersonationRules (Some sample_grant) = Inr rules \<and>
      list_all (\<lambda>r. pr_Verbs r \<noteq> []) rules)"
proof -
  have ok: "ValidateConstrainedImpersonationSpec (\<lambda>_ _. []) (Some sample_grant) True ''spec'' = []"
    by code_simp
  from valid_grant_is_bounded [OF ok] ok show ?thesis unfolding list_all_iff by blast
qed

text \<open>
  The rules of a grant do not depend on how it was written:
  listing the identity rules in another order or repeatedly, and permuting or repeating the entries
  of an action, generates the same rules.
\<close>

theorem grant_rules_canonical:
  assumes "cis_Mode s = cis_Mode t" and "set (cis_Identities s) = set (cis_Identities t)"
    and "list_all2 (\<lambda>a b. set (iar_APIGroups a) = set (iar_APIGroups b) \<and>
      set (iar_Resources a) = set (iar_Resources b) \<and>
      set (iar_ResourceNames a) = set (iar_ResourceNames b) \<and> set (iar_Verbs a) = set (iar_Verbs b))
      (cis_Actions s) (cis_Actions t)"
  shows "BuildConstrainedImpersonationRules (Some s) = BuildConstrainedImpersonationRules (Some t)"
proof (cases "isKnownMode (cis_Mode s)")
  case True
  have same: "action_rule s a = action_rule t b"
    if "set (iar_APIGroups a) = set (iar_APIGroups b)" "set (iar_Resources a) = set (iar_Resources b)"
      "set (iar_ResourceNames a) = set (iar_ResourceNames b)" "set (iar_Verbs a) = set (iar_Verbs b)"
    for a b :: ImpersonationActionRule
  proof -
    have "dedupeSortedAllowEmpty (iar_APIGroups a) = dedupeSortedAllowEmpty (iar_APIGroups b)"
      using Compact_sort_canonical [OF that(1)] that(1) by (auto simp: dedupeSortedAllowEmpty_def)
    then show ?thesis
      using that dedupeSorted_cong [OF that(2)] dedupeSorted_cong [OF that(3)]
        dedupeSorted_cong [of "map (ActionVerb (cis_Mode s)) (iar_Verbs a)"
          "map (ActionVerb (cis_Mode s)) (iar_Verbs b)"]
      by (simp add: action_rule_def assms(1))
  qed
  have "map (action_rule s) (cis_Actions s) = map (action_rule t) (cis_Actions t)"
    using assms(3) by (induction rule: list_all2_induct) (auto intro: same)
  then show ?thesis
    using True assms(1, 2) identity_rule_cong [OF assms(1, 2)] by (simp add: Build_rules)
qed (use assms(1) in \<open>simp add: BuildConstrainedImpersonationRules_def\<close>)

theorem grant_rules_canonical_witness:
  "BuildConstrainedImpersonationRules (Some sample_grant) =
   BuildConstrainedImpersonationRules (Some (sample_grant\<lparr>
     cis_Identities := rev (cis_Identities sample_grant) @ cis_Identities sample_grant,
     cis_Actions := [\<lparr>iar_APIGroups = ['''', ''''], iar_Resources = [''pods''], iar_ResourceNames = [],
       iar_Verbs = [''get'', ''list'', ''get'']\<rparr>]\<rparr>))"
  by (rule grant_rules_canonical) (auto simp: sample_grant_def)

text \<open>
  Validation of a grant reports no error exactly for the
  grants with a known mode and at least one identity rule whose identity rules are compatible with
  the mode and the scope of the role and name admissible identities, and whose action rules are
  complete and carry plain verbs only.
\<close>

theorem grant_validation_exact:
  "ValidateConstrainedImpersonationSpec idpp (Some spec) cluster p = [] \<longleftrightarrow> grant_ok idpp cluster spec p"
  by (rule Validate_grant_ok)

end
