(* ===== verification/Role_Policy.thy ===== *)
theory Role_Policy
  imports Policy_Scope Impersonation
begin

text \<open>
  Evaluation of a RestrictedRoleDefinition against its RBACPolicy (\<^verbatim>\<open>pkg/policy/role_evaluator.go\<close>,
  \<^verbatim>\<open>pkg/policy/constrained_impersonation.go\<close>). Each pass returns the list of its violations; the
  lemmas say, for every pass and for the whole evaluation, exactly which definitions comply.
\<close>

section \<open>Constrained impersonation under a policy\<close>

definition constrainedImpersonationField :: string where
  "constrainedImpersonationField = ''spec.constrainedImpersonation''"

definition forbiddenResourceVerbViolation ::
  "RoleLimits \<Rightarrow> PolicyRule \<Rightarrow> string \<Rightarrow> Violation option" where
  "forbiddenResourceVerbViolation limits rule verb =
     first_some (\<lambda>forbidden.
       if \<not> matchesAnyWildcard (rvr_Verbs forbidden) verb then None
       else if \<not> list_ex (\<lambda>g. APIGroupRestrictionCovers (rvr_APIGroup forbidden) g \<or> g = ''*'')
              (pr_APIGroups rule) then None
       else if \<not> list_ex (\<lambda>r. MatchesResourceName (rvr_Resource forbidden) r) (pr_Resources rule)
       then None
       else Some (violation constrainedImpersonationField
         [Lit ''generated resource+verb combination '', Quo verb, Lit '' on resource '',
          Quo (rvr_Resource forbidden), Lit '' (apiGroup '', Quo (rvr_APIGroup forbidden),
          Lit '') is forbidden by roleLimits.forbiddenResourceVerbs'']))
       (rl_ForbiddenResourceVerbs limits)"

definition evaluateImpersonationVerbDenylist ::
  "RoleLimits \<Rightarrow> ConstrainedImpersonationSpec \<Rightarrow> Violation list" where
  "evaluateImpersonationVerbDenylist limits spec =
     (case BuildConstrainedImpersonationRules (Some spec) of
        Inl err \<Rightarrow> [violation constrainedImpersonationField (Lit ''cannot evaluate grant: '' # err)]
      | Inr generated \<Rightarrow>
          concat (map (\<lambda>rule. concat (map (\<lambda>verb.
            if matchesAnyWildcard (rl_ForbiddenVerbs limits) verb
            then [violation constrainedImpersonationField
                    [Lit ''generated verb '', Quo verb,
                     Lit '' is forbidden by roleLimits.forbiddenVerbs'']]
            else (case forbiddenResourceVerbViolation limits rule verb of
                    None \<Rightarrow> [] | Some v \<Rightarrow> [v])) (pr_Verbs rule))) generated))"

definition evaluateImpersonationModeAndResources ::
  "ConstrainedImpersonationLimits \<Rightarrow> ConstrainedImpersonationSpec \<Rightarrow> Violation list" where
  "evaluateImpersonationModeAndResources limits spec =
     (if cil_AllowedModes limits \<noteq> [] \<and> cis_Mode spec \<notin> set (cil_AllowedModes limits)
      then [violation (constrainedImpersonationField @ ''.mode'')
              [Lit ''mode '', Quo (cis_Mode spec), Lit '' is not allowed by policy; allowed modes: ['',
               Lit (Join (cil_AllowedModes limits) '', ''), Lit '']'']]
      else []) @
     (if cil_AllowedIdentityResources limits \<noteq> []
      then for_range (\<lambda>i identity.
        if iir_Resource identity \<in> set (cil_AllowedIdentityResources limits) then []
        else [violation
                (path_idx (constrainedImpersonationField @ ''.identities'') i @ ''.resource'')
                [Lit ''identity resource '', Quo (iir_Resource identity),
                 Lit '' is not allowed by policy; allowed resources: ['',
                 Lit (Join (cil_AllowedIdentityResources limits) '', ''), Lit '']'']])
        (cis_Identities spec)
      else [])"

definition evaluateImpersonationIdentityNames ::
  "ConstrainedImpersonationLimits \<Rightarrow> ConstrainedImpersonationSpec \<Rightarrow> Violation list" where
  "evaluateImpersonationIdentityNames limits spec =
     (let total = int (sum_list (map (\<lambda>identity. length (iir_Names identity)) (cis_Identities spec)));
          violations =
            (case cil_MaxIdentityNames limits of
               Some mx \<Rightarrow>
                 if total > mx
                 then [violation (constrainedImpersonationField @ ''.identities'')
                         [Lit ''grant allowlists '', Dec total,
                          Lit '' identity names, exceeding the policy maximum of '', Dec mx]]
                 else []
             | None \<Rightarrow> [])
      in case cil_IdentityNameLimits limits of
           None \<Rightarrow> violations
         | Some nameLimits \<Rightarrow>
             violations @
             for_range (\<lambda>i identity.
               for_range (\<lambda>j name.
                 let reason = nameMatchViolation nameLimits name in
                 if reason \<noteq> []
                 then [violation
                         (path_idx (path_idx (constrainedImpersonationField @ ''.identities'') i
                            @ ''.names'') j)
                         ([Lit ''identity name '', Quo name, Lit '' ''] @ reason)]
                 else []) (iir_Names identity))
               (cis_Identities spec))"

definition evaluateImpersonationActions ::
  "ConstrainedImpersonationLimits \<Rightarrow> ConstrainedImpersonationSpec \<Rightarrow> Violation list" where
  "evaluateImpersonationActions limits spec =
     (if cil_ForbiddenActionVerbs limits = [] then []
      else for_range (\<lambda>i action.
        for_range (\<lambda>j verb.
          if matchesAnyWildcard (cil_ForbiddenActionVerbs limits) verb
          then [violation
                  (path_idx (path_idx (constrainedImpersonationField @ ''.actions'') i @ ''.verbs'') j)
                  [Lit ''action verb '', Quo verb,
                   Lit '' is forbidden by roleLimits.constrainedImpersonation.forbiddenActionVerbs'']]
          else []) (iar_Verbs action))
        (cis_Actions spec))"

definition evaluateImpersonationLegacyFallback ::
  "ConstrainedImpersonationLimits \<Rightarrow> RestrictedRoleDefinition \<Rightarrow> Violation list" where
  "evaluateImpersonationLegacyFallback limits rrd =
     (if \<not> cil_ForbidLegacyFallback limits then []
      else if ContainsStringOrWildcard (rrds_RestrictedVerbs (rrd_Spec rrd)) LegacyImpersonateVerb
      then []
      else [violation ''spec.restrictedVerbs''
              [Lit ''policy requires the legacy fallback to be closed: '', Quo LegacyImpersonateVerb,
               Lit '' must be listed in restrictedVerbs, otherwise a blanket legacy impersonation grant wins by fallback and silently defeats the constrained impersonation grant'']])"

definition evaluateConstrainedImpersonation ::
  "RoleLimits \<Rightarrow> RestrictedRoleDefinition \<Rightarrow> Violation list" where
  "evaluateConstrainedImpersonation limits rrd =
     (case rrds_ConstrainedImpersonation (rrd_Spec rrd) of
        None \<Rightarrow> []
      | Some spec \<Rightarrow>
          let denied = [violation constrainedImpersonationField
                [Lit ''constrained impersonation is not allowed by policy; set roleLimits.constrainedImpersonation.allowed=true to permit it'']]
          in case rl_ConstrainedImpersonation limits of
               None \<Rightarrow> denied
             | Some ciLimits \<Rightarrow>
                 if \<not> cil_Allowed ciLimits then denied
                 else evaluateImpersonationVerbDenylist limits spec @
                   evaluateImpersonationModeAndResources ciLimits spec @
                   evaluateImpersonationIdentityNames ciLimits spec @
                   evaluateImpersonationActions ciLimits spec @
                   evaluateImpersonationLegacyFallback ciLimits rrd)"

section \<open>Restrictions of a definition\<close>

definition isAPIGroupFullyRestricted :: "RestrictedRoleDefinition \<Rightarrow> string \<Rightarrow> bool" where
  "isAPIGroupFullyRestricted rrd grp =
     list_ex (\<lambda>api. MatchesAPIGroup (rag_Name api) grp \<and> rag_Versions api = [] \<and> rag_Verbs api = [])
       (rrds_RestrictedAPIs (rrd_Spec rrd))"

definition isResourceFullyRestricted :: "RestrictedRoleDefinition \<Rightarrow> string \<Rightarrow> bool" where
  "isResourceFullyRestricted rrd res =
     list_ex (\<lambda>rr. MatchesResourceName (ar_Name rr) res \<and> APIGroupRestrictionCovers (ar_Group rr) ''*'')
       (rrds_RestrictedResources (rrd_Spec rrd))"

definition isResourceExcludedForGroup ::
  "RestrictedRoleDefinition \<Rightarrow> string \<Rightarrow> string \<Rightarrow> bool" where
  "isResourceExcludedForGroup rrd resource apiGroup =
     list_ex (\<lambda>rr. MatchesResourceName (ar_Name rr) resource \<and>
                   APIGroupRestrictionCovers (ar_Group rr) apiGroup)
       (rrds_RestrictedResources (rrd_Spec rrd))"

definition isAPIGroupExcluded :: "RestrictedRoleDefinition \<Rightarrow> string \<Rightarrow> bool" where
  "isAPIGroupExcluded rrd apiGroup =
     list_ex (\<lambda>api. MatchesAPIGroup (rag_Name api) apiGroup \<and> rag_Versions api = [] \<and>
                    rag_Verbs api = [])
       (rrds_RestrictedAPIs (rrd_Spec rrd))"

definition isAPIGroupVerbRestricted ::
  "RestrictedRoleDefinition \<Rightarrow> string \<Rightarrow> string \<Rightarrow> bool" where
  "isAPIGroupVerbRestricted rrd apiGroup verb =
     list_ex (\<lambda>api. MatchesAPIGroup (rag_Name api) apiGroup \<and> rag_Versions api = [] \<and>
                    rag_Verbs api \<noteq> [] \<and> ContainsStringOrWildcard (rag_Verbs api) verb)
       (rrds_RestrictedAPIs (rrd_Spec rrd))"

definition evaluateRoleLimits :: "RoleLimits \<Rightarrow> RestrictedRoleDefinition \<Rightarrow> Violation list" where
  "evaluateRoleLimits limits rrd =
     (if \<not> rl_AllowClusterRoles limits \<and> rrds_TargetRole (rrd_Spec rrd) = DefinitionClusterRole
      then [violation ''spec.targetRole'' [Lit ''ClusterRoles are not allowed by policy'']]
      else []) @
     concat (map (\<lambda>verb.
       if \<not> ContainsStringOrWildcard (rrds_RestrictedVerbs (rrd_Spec rrd)) verb
       then [violation ''spec.restrictedVerbs''
               [Lit ''forbidden verb '', Quo verb, Lit '' must be listed in restrictedVerbs'']]
       else []) (rl_ForbiddenVerbs limits)) @
     concat (map (\<lambda>grp.
       if \<not> isAPIGroupFullyRestricted rrd grp
       then [violation ''spec.restrictedApis''
               [Lit ''forbidden API group '', Quo grp, Lit '' must be listed in restrictedApis'']]
       else []) (rl_ForbiddenAPIGroups limits)) @
     concat (map (\<lambda>res.
       if \<not> isResourceFullyRestricted rrd res
       then [violation ''spec.restrictedResources''
               [Lit ''forbidden resource '', Quo res, Lit '' must be listed in restrictedResources'']]
       else []) (rl_ForbiddenResources limits)) @
     concat (map (\<lambda>rule.
       if isResourceExcludedForGroup rrd (rvr_Resource rule) (rvr_APIGroup rule) then []
       else if isAPIGroupExcluded rrd (rvr_APIGroup rule) then []
       else
         let uncovered = filter (\<lambda>verb.
               \<not> ContainsStringOrWildcard (rrds_RestrictedVerbs (rrd_Spec rrd)) verb \<and>
               \<not> isAPIGroupVerbRestricted rrd (rvr_APIGroup rule) verb) (rvr_Verbs rule) in
         if length uncovered > 0
         then [violation ''spec.restrictedVerbs''
                 [Lit ''forbidden resource+verb combination: resource '', Quo (rvr_Resource rule),
                  Lit '' (apiGroup '', Quo (rvr_APIGroup rule), Lit '') with verbs ['',
                  Lit (Join uncovered '', ''), Lit ''] must be restricted'']]
         else []) (rl_ForbiddenResourceVerbs limits)) @
     evaluateConstrainedImpersonation limits rrd"

definition EvaluateRoleDefinitionWithLabels ::
  "selector_api \<Rightarrow> RBACPolicy option \<Rightarrow> RestrictedRoleDefinition option \<Rightarrow> LabelGetter option
    \<Rightarrow> Violation list" where
  "EvaluateRoleDefinitionWithLabels asSelector policyp rrdp labelGetter =
     (case policyp of
        None \<Rightarrow> [violation ''<policy>'' [Lit ''policy must not be nil'']]
      | Some policy \<Rightarrow>
     (case rrdp of
        None \<Rightarrow> [violation ''<rrd>'' [Lit ''RestrictedRoleDefinition must not be nil'']]
      | Some rrd \<Rightarrow>
          let spec = rrd_Spec rrd;
              appliesTo = ps_AppliesTo (policy_Spec policy);
              violations =
                (if rrds_TargetRole spec = DefinitionClusterRole \<and>
                    \<not> scopeAllowsClusterResources appliesTo
                 then [violation ''spec.targetRole''
                         [Lit ''ClusterRoles require appliesTo.namespaces to include \"*\"'']]
                 else []) @
                (if rrds_TargetNamespace spec \<noteq> '''' \<and>
                    \<not> namespaceInScope asSelector appliesTo (rrds_TargetNamespace spec) labelGetter
                 then [violation ''spec.targetNamespace''
                         [Lit ''namespace '', Quo (rrds_TargetNamespace spec),
                          Lit '' is outside the policy's appliesTo scope'']]
                 else [])
          in case ps_RoleLimits (policy_Spec policy) of
               None \<Rightarrow> violations @ [violation ''spec.policyRef''
                         [Lit ''policy roleLimits must be configured to allow role generation'']]
             | Some limits \<Rightarrow> violations @ evaluateRoleLimits limits rrd))"

definition EvaluateRoleDefinition ::
  "selector_api \<Rightarrow> RBACPolicy option \<Rightarrow> RestrictedRoleDefinition option \<Rightarrow> Violation list" where
  "EvaluateRoleDefinition asSelector policyp rrdp =
     EvaluateRoleDefinitionWithLabels asSelector policyp rrdp None"

definition CheckMaxRulesPerRole :: "RoleLimits option \<Rightarrow> int \<Rightarrow> Violation option" where
  "CheckMaxRulesPerRole limitsp ruleCount =
     (case limitsp of
        None \<Rightarrow> None
      | Some limits \<Rightarrow>
          (case rl_MaxRulesPerRole limits of
             None \<Rightarrow> None
           | Some maxRules \<Rightarrow>
               if ruleCount > maxRules
               then Some (violation ''generated rules''
                      [Lit ''generated role has '', Dec ruleCount,
                       Lit '' rules, exceeding maximum of '', Dec maxRules])
               else None))"

section \<open>Which definitions comply\<close>

text \<open>A forbidden resource+verb entry hits a generated rule.\<close>

definition resource_verb_hits :: "ResourceVerbRule \<Rightarrow> PolicyRule \<Rightarrow> string \<Rightarrow> bool" where
  "resource_verb_hits f rule verb \<longleftrightarrow>
     (\<exists>p \<in> set (rvr_Verbs f). glob p verb) \<and>
     (\<exists>g \<in> set (pr_APIGroups rule). APIGroupRestrictionCovers (rvr_APIGroup f) g \<or> g = ''*'') \<and>
     (\<exists>r \<in> set (pr_Resources rule). MatchesResourceName (rvr_Resource f) r)"

lemma forbiddenResourceVerbViolation_None:
  "forbiddenResourceVerbViolation limits rule verb = None \<longleftrightarrow>
     (\<forall>f \<in> set (rl_ForbiddenResourceVerbs limits). \<not> resource_verb_hits f rule verb)"
  unfolding forbiddenResourceVerbViolation_def first_some_None resource_verb_hits_def
  by (rule ball_cong) (auto simp: matchesAnyWildcard_iff list_ex_iff split: if_splits)

definition generated_verbs_ok :: "RoleLimits \<Rightarrow> PolicyRule list \<Rightarrow> bool" where
  "generated_verbs_ok limits rules \<longleftrightarrow>
     (\<forall>rule \<in> set rules. \<forall>verb \<in> set (pr_Verbs rule).
        \<not> (\<exists>p \<in> set (rl_ForbiddenVerbs limits). glob p verb) \<and>
        (\<forall>f \<in> set (rl_ForbiddenResourceVerbs limits). \<not> resource_verb_hits f rule verb))"

lemma evaluateImpersonationVerbDenylist_ok [checks]:
  "evaluateImpersonationVerbDenylist limits spec = [] \<longleftrightarrow>
     (\<exists>rules. BuildConstrainedImpersonationRules (Some spec) = Inr rules \<and>
        generated_verbs_ok limits rules)"
proof (cases "BuildConstrainedImpersonationRules (Some spec)")
  case (Inr rules)
  have "(if matchesAnyWildcard (rl_ForbiddenVerbs limits) verb then [x]
      else case forbiddenResourceVerbViolation limits rule verb of None \<Rightarrow> [] | Some v \<Rightarrow> [v]) = [] \<longleftrightarrow>
    \<not> (\<exists>p \<in> set (rl_ForbiddenVerbs limits). glob p verb) \<and>
    (\<forall>f \<in> set (rl_ForbiddenResourceVerbs limits). \<not> resource_verb_hits f rule verb)"
    for rule verb and x :: Violation
    by (auto simp: matchesAnyWildcard_iff forbiddenResourceVerbViolation_None [symmetric]
        split: option.splits)
  with Inr show ?thesis
    unfolding evaluateImpersonationVerbDenylist_def generated_verbs_ok_def Inr sum.case
      concat_map_empty by simp
qed (simp add: evaluateImpersonationVerbDenylist_def)

lemma evaluateImpersonationModeAndResources_ok [checks]:
  "evaluateImpersonationModeAndResources limits spec = [] \<longleftrightarrow>
     (cil_AllowedModes limits \<noteq> [] \<longrightarrow> cis_Mode spec \<in> set (cil_AllowedModes limits)) \<and>
     (cil_AllowedIdentityResources limits \<noteq> [] \<longrightarrow>
        iir_Resource ` set (cis_Identities spec) \<subseteq> set (cil_AllowedIdentityResources limits))"
  by (auto simp: evaluateImpersonationModeAndResources_def for_range_empty image_subset_iff
      all_set_conv_all_nth split: if_splits)

lemma evaluateImpersonationIdentityNames_ok [checks]:
  "evaluateImpersonationIdentityNames limits spec = [] \<longleftrightarrow>
     (\<forall>mx. cil_MaxIdentityNames limits = Some mx \<longrightarrow>
        int (\<Sum>r \<leftarrow> cis_Identities spec. length (iir_Names r)) \<le> mx) \<and>
     (\<forall>nl. cil_IdentityNameLimits limits = Some nl \<longrightarrow>
        (\<forall>r \<in> set (cis_Identities spec). \<forall>n \<in> set (iir_Names r).
           \<not> name_forbidden nl n \<and> name_any_allowed nl n))"
  by (auto simp: evaluateImpersonationIdentityNames_def for_range_empty all_set_conv_all_nth Let_def
      nameMatchViolation_ok [symmetric] split: option.splits if_splits)

lemma evaluateImpersonationActions_ok [checks]:
  "evaluateImpersonationActions limits spec = [] \<longleftrightarrow>
     (\<forall>a \<in> set (cis_Actions spec). \<forall>v \<in> set (iar_Verbs a).
        \<forall>p \<in> set (cil_ForbiddenActionVerbs limits). \<not> glob p v)"
proof (cases "cil_ForbiddenActionVerbs limits = []")
  case False
  then show ?thesis
    by (simp add: evaluateImpersonationActions_def for_range_empty all_set_conv_all_nth
        matchesAnyWildcard_iff [of "cil_ForbiddenActionVerbs limits"] Let_def
        del: ball_simps) (auto simp: all_set_conv_all_nth Bex_def in_set_conv_nth)
qed (simp add: evaluateImpersonationActions_def)

lemma evaluateImpersonationLegacyFallback_ok [checks]:
  "evaluateImpersonationLegacyFallback limits rrd = [] \<longleftrightarrow>
     (cil_ForbidLegacyFallback limits \<longrightarrow>
        legacyImpersonateRestricted (rrds_RestrictedVerbs (rrd_Spec rrd)))"
  by (auto simp: evaluateImpersonationLegacyFallback_def legacyImpersonateRestricted_def)

text \<open>What a policy asks of a grant; without an opt-in no grant complies.\<close>

definition grant_complies :: "RoleLimits \<Rightarrow> string list \<Rightarrow> ConstrainedImpersonationSpec \<Rightarrow> bool" where
  "grant_complies limits restrictedVerbs spec \<longleftrightarrow>
     (\<exists>ci rules. rl_ConstrainedImpersonation limits = Some ci \<and> cil_Allowed ci \<and>
        BuildConstrainedImpersonationRules (Some spec) = Inr rules \<and>
        generated_verbs_ok limits rules \<and>
        (cil_AllowedModes ci \<noteq> [] \<longrightarrow> cis_Mode spec \<in> set (cil_AllowedModes ci)) \<and>
        (cil_AllowedIdentityResources ci \<noteq> [] \<longrightarrow>
           iir_Resource ` set (cis_Identities spec) \<subseteq> set (cil_AllowedIdentityResources ci)) \<and>
        (\<forall>mx. cil_MaxIdentityNames ci = Some mx \<longrightarrow>
           int (\<Sum>r \<leftarrow> cis_Identities spec. length (iir_Names r)) \<le> mx) \<and>
        (\<forall>nl. cil_IdentityNameLimits ci = Some nl \<longrightarrow>
           (\<forall>r \<in> set (cis_Identities spec). \<forall>n \<in> set (iir_Names r).
              \<not> name_forbidden nl n \<and> name_any_allowed nl n)) \<and>
        (\<forall>a \<in> set (cis_Actions spec). \<forall>v \<in> set (iar_Verbs a).
           \<forall>p \<in> set (cil_ForbiddenActionVerbs ci). \<not> glob p v) \<and>
        (cil_ForbidLegacyFallback ci \<longrightarrow> legacyImpersonateRestricted restrictedVerbs))"

lemma evaluateConstrainedImpersonation_ok [checks]:
  "evaluateConstrainedImpersonation limits rrd = [] \<longleftrightarrow>
     (\<forall>spec. rrds_ConstrainedImpersonation (rrd_Spec rrd) = Some spec \<longrightarrow>
        grant_complies limits (rrds_RestrictedVerbs (rrd_Spec rrd)) spec)"
proof (cases "rrds_ConstrainedImpersonation (rrd_Spec rrd)")
  case (Some spec)
  show ?thesis
  proof (cases "rl_ConstrainedImpersonation limits")
    case None
    with Some show ?thesis
      by (simp add: evaluateConstrainedImpersonation_def grant_complies_def Let_def)
  next
    case (Some ci)
    with \<open>rrds_ConstrainedImpersonation (rrd_Spec rrd) = Some spec\<close> show ?thesis
      by (simp add: evaluateConstrainedImpersonation_def grant_complies_def Let_def
          evaluateImpersonationVerbDenylist_ok evaluateImpersonationModeAndResources_ok
          evaluateImpersonationIdentityNames_ok evaluateImpersonationActions_ok
          evaluateImpersonationLegacyFallback_ok) blast
  qed
qed (simp add: evaluateConstrainedImpersonation_def)

lemmas restriction_defs =
  isAPIGroupFullyRestricted_def isResourceFullyRestricted_def isResourceExcludedForGroup_def
  isAPIGroupExcluded_def isAPIGroupVerbRestricted_def list_ex_iff

text \<open>The verb is removed everywhere, or in every version of the group.\<close>

definition verb_removed :: "RestrictedRoleDefinition \<Rightarrow> string \<Rightarrow> string \<Rightarrow> bool" where
  "verb_removed rrd apiGroup v \<longleftrightarrow>
     v \<in> set (rrds_RestrictedVerbs (rrd_Spec rrd)) \<or> ''*'' \<in> set (rrds_RestrictedVerbs (rrd_Spec rrd)) \<or>
     isAPIGroupVerbRestricted rrd apiGroup v"

definition role_limits_hold :: "RoleLimits \<Rightarrow> RestrictedRoleDefinition \<Rightarrow> bool" where
  "role_limits_hold limits rrd \<longleftrightarrow>
     (rrds_TargetRole (rrd_Spec rrd) = DefinitionClusterRole \<longrightarrow> rl_AllowClusterRoles limits) \<and>
     (\<forall>v \<in> set (rl_ForbiddenVerbs limits).
        v \<in> set (rrds_RestrictedVerbs (rrd_Spec rrd)) \<or>
        ''*'' \<in> set (rrds_RestrictedVerbs (rrd_Spec rrd))) \<and>
     (\<forall>g \<in> set (rl_ForbiddenAPIGroups limits). isAPIGroupFullyRestricted rrd g) \<and>
     (\<forall>r \<in> set (rl_ForbiddenResources limits). isResourceFullyRestricted rrd r) \<and>
     (\<forall>f \<in> set (rl_ForbiddenResourceVerbs limits).
        isResourceExcludedForGroup rrd (rvr_Resource f) (rvr_APIGroup f) \<or>
        isAPIGroupExcluded rrd (rvr_APIGroup f) \<or>
        (\<forall>v \<in> set (rvr_Verbs f). verb_removed rrd (rvr_APIGroup f) v)) \<and>
     (\<forall>spec. rrds_ConstrainedImpersonation (rrd_Spec rrd) = Some spec \<longrightarrow>
        grant_complies limits (rrds_RestrictedVerbs (rrd_Spec rrd)) spec)"

lemma evaluateRoleLimits_ok [checks]:
  "evaluateRoleLimits limits rrd = [] \<longleftrightarrow> role_limits_hold limits rrd"
  unfolding evaluateRoleLimits_def role_limits_hold_def append_is_Nil_conv concat_map_empty
    evaluateConstrainedImpersonation_ok guard_empty Let_def verb_removed_def
  by (intro conj_cong ball_cong refl) (auto simp: filter_empty_conv)

definition role_complies ::
  "selector_api \<Rightarrow> LabelGetter option \<Rightarrow> RBACPolicy \<Rightarrow> RestrictedRoleDefinition \<Rightarrow> bool" where
  "role_complies asSelector lg policy rrd \<longleftrightarrow>
     (rrds_TargetRole (rrd_Spec rrd) = DefinitionClusterRole \<longrightarrow>
        ''*'' \<in> set (scope_Namespaces (ps_AppliesTo (policy_Spec policy)))) \<and>
     (rrds_TargetNamespace (rrd_Spec rrd) \<noteq> '''' \<longrightarrow>
        namespaceInScope asSelector (ps_AppliesTo (policy_Spec policy))
          (rrds_TargetNamespace (rrd_Spec rrd)) lg) \<and>
     (\<exists>limits. ps_RoleLimits (policy_Spec policy) = Some limits \<and> role_limits_hold limits rrd)"

lemma EvaluateRoleDefinitionWithLabels_ok [checks]:
  "EvaluateRoleDefinitionWithLabels asSelector (Some policy) (Some rrd) lg = [] \<longleftrightarrow>
     role_complies asSelector lg policy rrd"
  by (auto simp: EvaluateRoleDefinitionWithLabels_def role_complies_def evaluateRoleLimits_ok
      scopeAllowsClusterResources_def allNamespacesScope_def Let_def split: option.splits)

interpretation role_check: check
  "\<lambda>(asSelector, lg, policy, rrd).
     EvaluateRoleDefinitionWithLabels asSelector (Some policy) (Some rrd) lg"
  "\<lambda>(asSelector, lg, policy, rrd). role_complies asSelector lg policy rrd"
  by unfold_locales (auto simp: EvaluateRoleDefinitionWithLabels_ok)

lemma CheckMaxRulesPerRole_ok [checks]:
  "CheckMaxRulesPerRole (Some limits) n = None \<longleftrightarrow>
     (\<forall>mx. rl_MaxRulesPerRole limits = Some mx \<longrightarrow> n \<le> mx)"
  by (auto simp: CheckMaxRulesPerRole_def split: option.splits)

section \<open>Properties\<close>

text \<open>
  Evaluation fails closed. Without a policy, without a
  definition or without role limits there is always a violation, and a definition with an
  impersonation grant is rejected unless the policy's role limits explicitly allow grants.
\<close>

theorem role_evaluation_closed:
  "EvaluateRoleDefinitionWithLabels asSelector None rrdp lg \<noteq> [] \<and>
   EvaluateRoleDefinitionWithLabels asSelector policyp None lg \<noteq> [] \<and>
   (ps_RoleLimits (policy_Spec policy) = None \<longrightarrow>
      EvaluateRoleDefinitionWithLabels asSelector (Some policy) (Some rrd) lg \<noteq> []) \<and>
   (rrds_ConstrainedImpersonation (rrd_Spec rrd) \<noteq> None \<and>
    \<not> (\<exists>limits ci. ps_RoleLimits (policy_Spec policy) = Some limits \<and>
         rl_ConstrainedImpersonation limits = Some ci \<and> cil_Allowed ci) \<longrightarrow>
      EvaluateRoleDefinitionWithLabels asSelector (Some policy) (Some rrd) lg \<noteq> [])"
proof (intro conjI impI)
  show "EvaluateRoleDefinitionWithLabels asSelector (Some policy) (Some rrd) lg \<noteq> []"
    if "ps_RoleLimits (policy_Spec policy) = None"
    using that by (simp add: EvaluateRoleDefinitionWithLabels_ok role_complies_def)
  show "EvaluateRoleDefinitionWithLabels asSelector (Some policy) (Some rrd) lg \<noteq> []"
    if "rrds_ConstrainedImpersonation (rrd_Spec rrd) \<noteq> None \<and>
      \<not> (\<exists>limits ci. ps_RoleLimits (policy_Spec policy) = Some limits \<and>
           rl_ConstrainedImpersonation limits = Some ci \<and> cil_Allowed ci)"
  proof
    assume "EvaluateRoleDefinitionWithLabels asSelector (Some policy) (Some rrd) lg = []"
    then obtain limits where limits: "ps_RoleLimits (policy_Spec policy) = Some limits" "role_limits_hold limits rrd"
      by (auto simp: EvaluateRoleDefinitionWithLabels_ok role_complies_def)
    from that obtain spec where "rrds_ConstrainedImpersonation (rrd_Spec rrd) = Some spec" by auto
    with limits(2) have "grant_complies limits (rrds_RestrictedVerbs (rrd_Spec rrd)) spec"
      by (simp add: role_limits_hold_def)
    then have "\<exists>ci. rl_ConstrainedImpersonation limits = Some ci \<and> cil_Allowed ci"
      by (auto simp only: grant_complies_def)
    with limits(1) that show False by blast
  qed
qed (auto simp: EvaluateRoleDefinitionWithLabels_def split: option.splits)

theorem role_evaluation_closed_witness:
  "EvaluateRoleDefinitionWithLabels (\<lambda>s. Inl '''')
     (Some \<lparr>policy_Name = ''p'', policy_Spec =
        \<lparr>ps_AppliesTo = \<lparr>scope_NamespaceSelector = None, scope_Namespaces = [''*'']\<rparr>,
         ps_BindingLimits = None, ps_RoleLimits = None, ps_SubjectLimits = None,
         ps_DefaultAssignment = None, ps_Impersonation = None\<rparr>\<rparr>)
     (Some \<lparr>rrd_Name = ''r'', rrd_Spec =
        \<lparr>rrds_PolicyRef = ''p'', rrds_TargetRole = ''Role'', rrds_TargetName = ''r'',
         rrds_TargetNamespace = ''ns'', rrds_ScopeNamespaced = True, rrds_RestrictedAPIs = [],
         rrds_RestrictedResources = [], rrds_RestrictedVerbs = [],
         rrds_ConstrainedImpersonation = None\<rparr>\<rparr>) None \<noteq> []"
  by (intro role_evaluation_closed [THEN conjunct2, THEN conjunct2, THEN conjunct1, rule_format]) simp

end
