(* ===== verification/Role_Generation.thy ===== *)
theory Role_Generation
  imports Api_Types Wildcard "HOL-Library.Product_Lexorder" "HOL-Library.Multiset"
begin

text \<open>
  From API discovery to the rules of a role: the filters of the RestrictedRoleDefinition controller
  (\<^verbatim>\<open>restrictedroledefinition_controller.go\<close>) and of the RoleDefinition controller
  (\<^verbatim>\<open>roledefinition_controller.go\<close>, \<^verbatim>\<open>roledefinition_helpers.go\<close>). The rules a definition yields are
  characterised exactly, and shown not to depend on the order in which the discovery map is visited.
\<close>

section \<open>Discovery\<close>

text \<open>
  \<^verbatim>\<open>discovery.APIResourcesByGroupVersion\<close>: a map from group/version to the resources served.
  \<^verbatim>\<open>schema.ParseGroupVersion\<close> is a parameter.
\<close>

type_synonym APIResourcesByGroupVersion = "(string, APIResource list) gomap"
type_synonym parse_gv = "string \<Rightarrow> string + GroupVersion"

text \<open>What \<^verbatim>\<open>ResourceTracker.GetAPIResources\<close> answers.\<close>

datatype tracker_answer =
    ErrResourceTrackerNotStarted
  | TrackerError string
  | Discovered APIResourcesByGroupVersion

datatype discovery_result = Requeue | Failed msg | Generated "PolicyRule list"

definition restrictedAPIResourceMatches :: "string \<Rightarrow> string \<Rightarrow> APIResource \<Rightarrow> bool \<Rightarrow> bool" where
  "restrictedAPIResourceMatches resourceName apiGroup rule emptyGroupMatchesAll =
     (let groupMatches = (MatchesAPIGroup (ar_Group rule) apiGroup \<or>
            emptyGroupMatchesAll \<and> ar_Group rule = '''') in
      if \<not> groupMatches then False else MatchesResourceName (ar_Name rule) resourceName)"

text \<open>An entry of \<^verbatim>\<open>restrictedApis\<close> applies to a group and version.\<close>

definition entryApplies :: "RestrictedAPIGroup \<Rightarrow> GroupVersion \<Rightarrow> bool" where
  "entryApplies ag groupVersion \<longleftrightarrow>
     MatchesAPIGroup (rag_Name ag) (gv_Group groupVersion) \<and>
     (rag_Versions ag \<noteq> [] \<longrightarrow> gv_Version groupVersion \<in> set (rag_Versions ag))"

section \<open>RestrictedRoleDefinition\<close>

text \<open>
  The loop of \<^verbatim>\<open>rrdCheckAPIRestriction\<close>, with \<^verbatim>\<open>restricted\<close> and the set of verbs as its state.
\<close>

fun rrdCheckAPIRestriction_loop ::
  "RestrictedAPIGroup list \<Rightarrow> GroupVersion \<Rightarrow> bool \<Rightarrow> (string, unit) gomap \<Rightarrow> bool \<times> string list" where
  "rrdCheckAPIRestriction_loop [] groupVersion restricted verbSet =
     (if \<not> restricted then (False, []) else (True, sort (map fst verbSet)))"
| "rrdCheckAPIRestriction_loop (ag # ags) groupVersion restricted verbSet =
     (if \<not> entryApplies ag groupVersion
      then rrdCheckAPIRestriction_loop ags groupVersion restricted verbSet
      else if rag_Verbs ag = [] then (True, [])
      else rrdCheckAPIRestriction_loop ags groupVersion True
             (fold (\<lambda>verb. mput verb ()) (rag_Verbs ag) verbSet))"

definition rrdCheckAPIRestriction ::
  "RestrictedAPIGroup list \<Rightarrow> GroupVersion \<Rightarrow> bool \<times> string list" where
  "rrdCheckAPIRestriction restrictedAPIs groupVersion =
     rrdCheckAPIRestriction_loop restrictedAPIs groupVersion False []"

text \<open>The key under which a rule is collected.\<close>

definition rrdKey :: "string \<Rightarrow> string list \<Rightarrow> string" where
  "rrdKey apiGroup verbs = apiGroup @ ''|'' @ Join verbs '',''"

definition rrdFilterResource ::
  "RestrictedRoleDefinition \<Rightarrow> GroupVersion \<Rightarrow> APIResource \<Rightarrow> string list
    \<Rightarrow> (string, PolicyRule) gomap \<Rightarrow> (string, PolicyRule) gomap" where
  "rrdFilterResource rrd groupVersion res apiGroupRestrictedVerbs rulesByKey =
     (if list_ex (\<lambda>rule. restrictedAPIResourceMatches (ar_Name res) (gv_Group groupVersion) rule True)
           (rrds_RestrictedResources (rrd_Spec rrd)) then rulesByKey
      else if ar_Namespaced res \<noteq> rrds_ScopeNamespaced (rrd_Spec rrd) then rulesByKey
      else
        let verbs0 = filter (\<lambda>verb.
              \<not> ContainsStringOrWildcard (rrds_RestrictedVerbs (rrd_Spec rrd)) verb \<and>
              \<not> ContainsStringOrWildcard apiGroupRestrictedVerbs verb) (ar_Verbs res) in
        if verbs0 = [] then rulesByKey
        else
          let verbs = sort verbs0;
              key = rrdKey (gv_Group groupVersion) verbs;
              existing = (case map_of rulesByKey key of
                  Some rule \<Rightarrow> rule
                | None \<Rightarrow> \<lparr>pr_Verbs = verbs, pr_APIGroups = [gv_Group groupVersion],
                            pr_Resources = [], pr_ResourceNames = [], pr_NonResourceURLs = []\<rparr>)
          in if ar_Name res \<notin> set (pr_Resources existing)
             then mput key (existing\<lparr>pr_Resources := pr_Resources existing @ [ar_Name res]\<rparr>) rulesByKey
             else mput key existing rulesByKey)"

fun rrdCollect ::
  "parse_gv \<Rightarrow> RestrictedRoleDefinition \<Rightarrow> APIResourcesByGroupVersion \<Rightarrow> (string, PolicyRule) gomap
    \<Rightarrow> msg + (string, PolicyRule) gomap" where
  "rrdCollect parseGV rrd [] rulesByKey = Inr rulesByKey"
| "rrdCollect parseGV rrd ((gv, resources) # rest) rulesByKey =
     (case parseGV gv of
        Inl err \<Rightarrow> Inl [Lit ''parse GroupVersion '', Quo gv, Lit '': '', Lit err]
      | Inr groupVersion \<Rightarrow>
          let (apiIsRestricted, apiGroupRestrictedVerbs) =
                rrdCheckAPIRestriction (rrds_RestrictedAPIs (rrd_Spec rrd)) groupVersion in
          if apiIsRestricted \<and> apiGroupRestrictedVerbs = []
          then rrdCollect parseGV rrd rest rulesByKey
          else rrdCollect parseGV rrd rest
                 (fold (\<lambda>res. rrdFilterResource rrd groupVersion res apiGroupRestrictedVerbs)
                    resources rulesByKey))"

text \<open>
  The final rules: the values of the map, each with its lists sorted, in the order of the compared
  strings. \<^verbatim>\<open>slices.SortFunc\<close> need not be stable; the keys compared are shown to be distinct, so
  that there is one sorted arrangement.
\<close>

definition sortRule :: "PolicyRule \<Rightarrow> PolicyRule" where
  "sortRule r = r\<lparr>pr_APIGroups := sort (pr_APIGroups r), pr_Resources := sort (pr_Resources r),
     pr_Verbs := sort (pr_Verbs r)\<rparr>"

definition ruleOrder :: "PolicyRule \<Rightarrow> string \<times> string \<times> string" where
  "ruleOrder r = (Join (pr_APIGroups r) '','', Join (pr_Resources r) '','', Join (pr_Verbs r) '','')"

definition rrdFinalRules :: "(string, PolicyRule) gomap \<Rightarrow> PolicyRule list" where
  "rrdFinalRules rulesByKey = sort_key ruleOrder (map (\<lambda>(k, rule). sortRule rule) rulesByKey)"

definition rrdDiscoverAndFilter ::
  "parse_gv \<Rightarrow> tracker_answer \<Rightarrow> RestrictedRoleDefinition \<Rightarrow> discovery_result" where
  "rrdDiscoverAndFilter parseGV tracker rrd =
     (case tracker of
        ErrResourceTrackerNotStarted \<Rightarrow> Requeue
      | TrackerError err \<Rightarrow> Failed [Lit ''get API resources: '', Lit err]
      | Discovered apiResources \<Rightarrow>
          (case rrdCollect parseGV rrd apiResources [] of
             Inl err \<Rightarrow> Failed err
           | Inr rulesByKey \<Rightarrow> Generated (rrdFinalRules rulesByKey)))"

section \<open>RoleDefinition\<close>

fun restrictedVerbsForGroupVersion_loop ::
  "RestrictedAPIGroup list \<Rightarrow> GroupVersion \<Rightarrow> string list \<times> bool" where
  "restrictedVerbsForGroupVersion_loop [] groupVersion = ([], False)"
| "restrictedVerbsForGroupVersion_loop (apiGroup # rest) groupVersion =
     (if \<not> entryApplies apiGroup groupVersion
      then restrictedVerbsForGroupVersion_loop rest groupVersion
      else (rag_Verbs apiGroup, True))"

definition restrictedVerbsForGroupVersion ::
  "RoleDefinition \<Rightarrow> GroupVersion \<Rightarrow> string list \<times> bool" where
  "restrictedVerbsForGroupVersion rd groupVersion =
     restrictedVerbsForGroupVersion_loop (rds_RestrictedAPIs (rd_Spec rd)) groupVersion"

definition isRestrictedAPIResource :: "RoleDefinition \<Rightarrow> string \<Rightarrow> APIResource \<Rightarrow> bool" where
  "isRestrictedAPIResource rd apiGroup resource =
     list_ex (\<lambda>rule. restrictedAPIResourceMatches (ar_Name resource) apiGroup rule False)
       (rds_RestrictedResources (rd_Spec rd))"

definition allowedVerbsForAPIResource ::
  "RoleDefinition \<Rightarrow> string \<Rightarrow> APIResource \<Rightarrow> string list \<Rightarrow> string list" where
  "allowedVerbsForAPIResource rd apiGroup resource apiGroupRestrictedVerbs =
     (if isRestrictedAPIResource rd apiGroup resource \<or>
         ar_Namespaced resource \<noteq> rds_ScopeNamespaced (rd_Spec rd) then []
      else filter (\<lambda>verb.
        \<not> (ContainsStringOrWildcard (rds_RestrictedVerbs (rd_Spec rd)) verb \<or>
           ContainsStringOrWildcard apiGroupRestrictedVerbs verb)) (ar_Verbs resource))"

record apiResourceAccess =
  acc_apiGroup :: string
  acc_name :: string
  acc_verbs :: "(string, unit) gomap"

definition addAPIResourceAccess ::
  "(string, apiResourceAccess) gomap \<Rightarrow> string \<Rightarrow> string \<Rightarrow> string list
    \<Rightarrow> (string, apiResourceAccess) gomap" where
  "addAPIResourceAccess m apiGroup resourceName verbs =
     (let key = apiGroup @ ''|'' @ resourceName;
          access = (case map_of m key of
              Some a \<Rightarrow> a
            | None \<Rightarrow> \<lparr>acc_apiGroup = apiGroup, acc_name = resourceName, acc_verbs = []\<rparr>)
      in mput key (access\<lparr>acc_verbs := fold (\<lambda>verb. mput verb ()) verbs (acc_verbs access)\<rparr>) m)"

fun rdCollect ::
  "parse_gv \<Rightarrow> RoleDefinition \<Rightarrow> APIResourcesByGroupVersion \<Rightarrow> (string, apiResourceAccess) gomap
    \<Rightarrow> msg + (string, apiResourceAccess) gomap" where
  "rdCollect parseGV rd [] m = Inr m"
| "rdCollect parseGV rd ((gv, resources) # rest) m =
     (case parseGV gv of
        Inl err \<Rightarrow> Inl [Lit ''failed to parse GroupVersion '', Quo gv, Lit '': '', Lit err]
      | Inr groupVersion \<Rightarrow>
          let (apiGroupRestrictedVerbs, apiIsRestricted) =
                restrictedVerbsForGroupVersion rd groupVersion in
          if apiIsRestricted \<and> apiGroupRestrictedVerbs = [] then rdCollect parseGV rd rest m
          else rdCollect parseGV rd rest
                 (fold (\<lambda>res acc.
                    let verbs = allowedVerbsForAPIResource rd (gv_Group groupVersion) res
                          apiGroupRestrictedVerbs in
                    if verbs = [] then acc
                    else addAPIResourceAccess acc (gv_Group groupVersion) (ar_Name res) verbs)
                    resources m))"

text \<open>The key of \<^verbatim>\<open>buildPolicyRulesByAPIGroupAndVerbs\<close> prints the verbs with \<^verbatim>\<open>%v\<close>.\<close>

definition rdKey :: "string \<Rightarrow> string list \<Rightarrow> string" where
  "rdKey apiGroup verbs = apiGroup @ ''|'' @ ''['' @ Join verbs '' '' @ '']''"

definition addAccessRule ::
  "apiResourceAccess \<Rightarrow> (string, PolicyRule) gomap \<Rightarrow> (string, PolicyRule) gomap" where
  "addAccessRule access rules =
     (let verbs = sort (map fst (acc_verbs access));
          key = rdKey (acc_apiGroup access) verbs;
          existingRule = (case map_of rules key of
              Some rule \<Rightarrow> rule
            | None \<Rightarrow> \<lparr>pr_Verbs = verbs, pr_APIGroups = [acc_apiGroup access], pr_Resources = [],
                        pr_ResourceNames = [], pr_NonResourceURLs = []\<rparr>)
      in mput key (existingRule\<lparr>pr_Resources := pr_Resources existingRule @ [acc_name access]\<rparr>) rules)"

definition buildPolicyRulesByAPIGroupAndVerbs ::
  "(string, apiResourceAccess) gomap \<Rightarrow> (string, PolicyRule) gomap" where
  "buildPolicyRulesByAPIGroupAndVerbs m = fold (\<lambda>(k, access). addAccessRule access) m []"

definition filterAPIResourcesForRoleDefinition ::
  "parse_gv \<Rightarrow> RoleDefinition \<Rightarrow> APIResourcesByGroupVersion \<Rightarrow> msg + (string, PolicyRule) gomap" where
  "filterAPIResourcesForRoleDefinition parseGV rd apiResources =
     (case rdCollect parseGV rd apiResources [] of
        Inl err \<Rightarrow> Inl err
      | Inr m \<Rightarrow> Inr (buildPolicyRulesByAPIGroupAndVerbs m))"

definition sortRuleAll :: "PolicyRule \<Rightarrow> PolicyRule" where
  "sortRuleAll r = r\<lparr>pr_APIGroups := sort (pr_APIGroups r), pr_Resources := sort (pr_Resources r),
     pr_ResourceNames := sort (pr_ResourceNames r), pr_Verbs := sort (pr_Verbs r),
     pr_NonResourceURLs := sort (pr_NonResourceURLs r)\<rparr>"

definition metricsRule :: PolicyRule where
  "metricsRule = \<lparr>pr_Verbs = [''get''], pr_APIGroups = [], pr_Resources = [], pr_ResourceNames = [],
     pr_NonResourceURLs = [''/metrics'']\<rparr>"

definition buildFinalRules ::
  "RoleDefinition \<Rightarrow> (string, PolicyRule) gomap \<Rightarrow> PolicyRule list" where
  "buildFinalRules rd rules =
     sort_key (\<lambda>r. (pr_NonResourceURLs r \<noteq> [], ruleOrder r))
       (map sortRuleAll
         (map snd rules @
          (if rds_MetricsAccessAllowed (rd_Spec rd) \<and>
              rds_TargetRole (rd_Spec rd) = DefinitionClusterRole \<and>
              \<not> ContainsStringOrWildcard (rds_RestrictedVerbs (rd_Spec rd)) ''get''
           then [metricsRule] else [])))"

text \<open>\<^verbatim>\<open>discoverAndFilterResources\<close>, less its status conditions and metrics.\<close>

definition discoverAndFilterResources ::
  "parse_gv \<Rightarrow> tracker_answer \<Rightarrow> RoleDefinition \<Rightarrow> discovery_result" where
  "discoverAndFilterResources parseGV tracker rd =
     (case tracker of
        ErrResourceTrackerNotStarted \<Rightarrow> Requeue
      | TrackerError err \<Rightarrow> Failed [Lit err]
      | Discovered apiResources \<Rightarrow>
          (case filterAPIResourcesForRoleDefinition parseGV rd apiResources of
             Inl err \<Rightarrow> Failed err
           | Inr rules \<Rightarrow> Generated (buildFinalRules rd rules)))"

section \<open>Collecting rules under keys\<close>

text \<open>
  Names as the API conventions have them: no separator of the collection keys inside a group or verb.
\<close>

definition key_ok :: "string \<Rightarrow> string list \<Rightarrow> bool" where
  "key_ok g vs \<longleftrightarrow> CHR ''|'' \<notin> set g \<and> vs \<noteq> [] \<and> sorted vs \<and>
     (\<forall>v \<in> set vs. CHR '','' \<notin> set v \<and> CHR '' '' \<notin> set v)"

text \<open>
  What the two controllers need of their collection key: it keeps different groups and verb lists
  apart. Everything about the collected rules follows from that.
\<close>

locale rule_key =
  fixes key :: "string \<Rightarrow> string list \<Rightarrow> string"
  assumes key_inj: "key_ok g vs \<Longrightarrow> key_ok g' vs' \<Longrightarrow> key g vs = key g' vs' \<Longrightarrow> g = g' \<and> vs = vs'"
begin

text \<open>The map holds exactly the contributions \<open>C\<close> (group, verbs, resource).\<close>

definition table :: "(string, PolicyRule) gomap \<Rightarrow> (string \<times> string list \<times> string) set \<Rightarrow> bool" where
  "table m C \<longleftrightarrow> mwf m \<and>
     (\<forall>k r. map_of m k = Some r \<longrightarrow>
        (\<exists>g vs. key_ok g vs \<and> k = key g vs \<and> pr_APIGroups r = [g] \<and> pr_Verbs r = vs \<and>
           pr_ResourceNames r = [] \<and> pr_NonResourceURLs r = [] \<and> pr_Resources r \<noteq> [] \<and>
           distinct (pr_Resources r) \<and> set (pr_Resources r) = {n. (g, vs, n) \<in> C})) \<and>
     (\<forall>g vs n. (g, vs, n) \<in> C \<longrightarrow> key_ok g vs \<and> map_of m (key g vs) \<noteq> None)"

lemma table_empty: "table [] {}"
  by (simp add: table_def)

lemma table_in:
  assumes "table m C" and "(g, vs, n) \<in> C"
  obtains r where "key_ok g vs" and "map_of m (key g vs) = Some r"
  using assms unfolding table_def by blast

lemma table_lookup:
  assumes "table m C" and "key_ok g vs" and "map_of m (key g vs) = Some r"
  shows "pr_APIGroups r = [g]" "pr_Verbs r = vs" "pr_ResourceNames r = []" "pr_NonResourceURLs r = []"
    "distinct (pr_Resources r)" "set (pr_Resources r) = {n. (g, vs, n) \<in> C}"
  using assms key_inj unfolding table_def by blast+

definition entry :: "(string, PolicyRule) gomap \<Rightarrow> string \<Rightarrow> string list \<Rightarrow> PolicyRule" where
  "entry m g vs = (case map_of m (key g vs) of
      Some rule \<Rightarrow> rule
    | None \<Rightarrow> \<lparr>pr_Verbs = vs, pr_APIGroups = [g], pr_Resources = [], pr_ResourceNames = [],
                pr_NonResourceURLs = []\<rparr>)"

lemma entry_fields:
  assumes "table m C" and "key_ok g vs"
  shows "pr_APIGroups (entry m g vs) = [g]" "pr_Verbs (entry m g vs) = vs"
    "pr_ResourceNames (entry m g vs) = []" "pr_NonResourceURLs (entry m g vs) = []"
    "distinct (pr_Resources (entry m g vs))"
    "set (pr_Resources (entry m g vs)) = {n. (g, vs, n) \<in> C}"
proof -
  have "map_of m (key g vs) = None \<Longrightarrow> {n. (g, vs, n) \<in> C} = {}"
    using assms(1) unfolding table_def by blast
  then show "pr_APIGroups (entry m g vs) = [g]" "pr_Verbs (entry m g vs) = vs"
    "pr_ResourceNames (entry m g vs) = []" "pr_NonResourceURLs (entry m g vs) = []"
    "distinct (pr_Resources (entry m g vs))"
    "set (pr_Resources (entry m g vs)) = {n. (g, vs, n) \<in> C}"
    using table_lookup [OF assms] by (auto simp: entry_def split: option.splits)
qed

lemma table_put:
  assumes t: "table m C" and ok: "key_ok g vs"
    and r: "pr_APIGroups r = [g]" "pr_Verbs r = vs" "pr_ResourceNames r = []" "pr_NonResourceURLs r = []"
      "distinct (pr_Resources r)" "set (pr_Resources r) = insert n {n. (g, vs, n) \<in> C}"
  shows "table (mput (key g vs) r m) (insert (g, vs, n) C)"
proof -
  have other: "\<exists>g' vs'. key_ok g' vs' \<and> k = key g' vs' \<and> pr_APIGroups r' = [g'] \<and> pr_Verbs r' = vs' \<and>
      pr_ResourceNames r' = [] \<and> pr_NonResourceURLs r' = [] \<and> pr_Resources r' \<noteq> [] \<and>
      distinct (pr_Resources r') \<and> set (pr_Resources r') = {n'. (g', vs', n') \<in> insert (g, vs, n) C}"
    if "map_of m k = Some r'" "k \<noteq> key g vs" for k r'
  proof -
    from t that(1) obtain g' vs' where h: "key_ok g' vs'" "k = key g' vs'" "pr_APIGroups r' = [g']"
        "pr_Verbs r' = vs'" "pr_ResourceNames r' = []" "pr_NonResourceURLs r' = []"
        "pr_Resources r' \<noteq> []" "distinct (pr_Resources r')"
        "set (pr_Resources r') = {n. (g', vs', n) \<in> C}"
      unfolding table_def by blast
    with that(2) have "(g', vs') \<noteq> (g, vs)" by auto
    then have "{n'. (g', vs', n') \<in> insert (g, vs, n) C} = {n. (g', vs', n) \<in> C}" by auto
    with h show ?thesis by blast
  qed
  have here: "set (pr_Resources r) = {n'. (g, vs, n') \<in> insert (g, vs, n) C}" "pr_Resources r \<noteq> []"
    using r(6) by auto
  have "mwf (mput (key g vs) r m)" using t by (simp add: table_def)
  moreover have "key_ok g' vs' \<and> map_of (mput (key g vs) r m) (key g' vs') \<noteq> None"
    if "(g', vs', n') \<in> insert (g, vs, n) C" for g' vs' n'
    using that ok by (auto elim: table_in [OF t])
  moreover have "\<exists>g' vs'. key_ok g' vs' \<and> k = key g' vs' \<and> pr_APIGroups r' = [g'] \<and> pr_Verbs r' = vs' \<and>
      pr_ResourceNames r' = [] \<and> pr_NonResourceURLs r' = [] \<and> pr_Resources r' \<noteq> [] \<and>
      distinct (pr_Resources r') \<and> set (pr_Resources r') = {n'. (g', vs', n') \<in> insert (g, vs, n) C}"
    if "map_of (mput (key g vs) r m) k = Some r'" for k r'
    using that other [of k r'] here ok r(1-5) by (cases "k = key g vs") auto
  ultimately show ?thesis unfolding table_def by blast
qed

lemma table_add:
  assumes t: "table m C" and ok: "key_ok g vs" and new: "n \<notin> set (pr_Resources (entry m g vs))"
  shows "table (mput (key g vs)
           (entry m g vs\<lparr>pr_Resources := pr_Resources (entry m g vs) @ [n]\<rparr>) m) (insert (g, vs, n) C)"
  using entry_fields [OF t ok] new by (intro table_put [OF t ok]) auto

lemma table_seen:
  assumes t: "table m C" and ok: "key_ok g vs" and old: "n \<in> set (pr_Resources (entry m g vs))"
  shows "table (mput (key g vs) (entry m g vs) m) (insert (g, vs, n) C)"
  using entry_fields [OF t ok] old by (intro table_put [OF t ok]) auto

end

text \<open>The sorted rule of a group and verb list, and the triples a list of rules mentions.\<close>

definition canon_rule :: "(string \<times> string list \<times> string) set \<Rightarrow> string \<times> string list \<Rightarrow> PolicyRule" where
  "canon_rule C = (\<lambda>(g, vs). \<lparr>pr_Verbs = vs, pr_APIGroups = [g],
     pr_Resources = sorted_list_of_set {n. (g, vs, n) \<in> C}, pr_ResourceNames = [],
     pr_NonResourceURLs = []\<rparr>)"

definition lists_access :: "PolicyRule list \<Rightarrow> string \<Rightarrow> string \<Rightarrow> string \<Rightarrow> bool" where
  "lists_access rules g n v \<longleftrightarrow>
     (\<exists>r \<in> set rules. g \<in> set (pr_APIGroups r) \<and> n \<in> set (pr_Resources r) \<and> v \<in> set (pr_Verbs r))"

definition rule_keys :: "(string \<times> string list \<times> string) set \<Rightarrow> (string \<times> string list) set" where
  "rule_keys C = (\<lambda>(g, vs, n). (g, vs)) ` C"

lemma sort_key_unique:
  fixes f :: "'a \<Rightarrow> 'b::linorder"
  assumes "set xs = set ys" "distinct xs" "distinct ys" and inj: "inj_on f (set xs)"
  shows "sort_key f xs = sort_key f ys"
proof (rule sort_key_inj_key_eq [OF _ inj])
  show "mset xs = mset (sort_key f ys)" using assms by (simp add: set_eq_iff_mset_eq_distinct)
qed simp

lemma ruleOrder_canon_inj:
  "inj_on ruleOrder (canon_rule C ` {k. key_ok (fst k) (snd k)})"
proof (rule inj_onI)
  fix r r'
  assume "r \<in> canon_rule C ` {k. key_ok (fst k) (snd k)}" "r' \<in> canon_rule C ` {k. key_ok (fst k) (snd k)}"
    and eq: "ruleOrder r = ruleOrder r'"
  then obtain g vs g' vs' where r: "r = canon_rule C (g, vs)" "key_ok g vs"
      "r' = canon_rule C (g', vs')" "key_ok g' vs'" by auto
  with eq have "g = g'" "Join vs '','' = Join vs' '',''"
    by (auto simp: ruleOrder_def canon_rule_def)
  moreover from this have "vs = vs'"
    using r by (intro Join_inj [of vs "CHR '',''" vs']) (auto simp: key_ok_def)
  ultimately show "r = r'" using r by simp
qed

context rule_key
begin

lemma table_canon:
  assumes t: "table m C" and kr: "(k, r) \<in> set m"
  obtains g vs where "(g, vs) \<in> rule_keys C" "key_ok g vs" "k = key g vs"
    "sortRule r = canon_rule C (g, vs)" "sortRule r = sortRuleAll r"
proof -
  have "map_of m k = Some r" using t kr by (simp add: table_def in_mwf)
  with t obtain g vs where h: "key_ok g vs" "k = key g vs" "pr_APIGroups r = [g]" "pr_Verbs r = vs"
      "pr_ResourceNames r = []" "pr_NonResourceURLs r = []" "pr_Resources r \<noteq> []"
      "distinct (pr_Resources r)" "set (pr_Resources r) = {n. (g, vs, n) \<in> C}"
    unfolding table_def by blast
  have "sort (pr_Resources r) = sorted_list_of_set {n. (g, vs, n) \<in> C}"
    using h(8, 9) by (metis sorted_list_of_set_sort_remdups distinct_remdups_id)
  moreover have "sort vs = vs" using h(1) by (simp add: key_ok_def sorted_sort_id)
  ultimately have "sortRule r = canon_rule C (g, vs)"
    using h by (simp add: sortRule_def canon_rule_def)
  moreover have "sortRule r = sortRuleAll r" using h by (simp add: sortRule_def sortRuleAll_def)
  moreover obtain n where "n \<in> set (pr_Resources r)" using h(7) last_in_set by blast
  then have "(g, vs) \<in> rule_keys C" using h(9) by (force simp: rule_keys_def)
  ultimately show thesis using that h(1, 2) by blast
qed

lemma table_rules:
  assumes t: "table m C"
  shows "(sortRule \<circ> snd) ` set m = canon_rule C ` rule_keys C"
proof (intro equalityI subsetI)
  fix x assume "x \<in> (sortRule \<circ> snd) ` set m"
  then show "x \<in> canon_rule C ` rule_keys C" by (auto elim!: table_canon [OF t])
next
  fix x assume "x \<in> canon_rule C ` rule_keys C"
  then obtain g vs n where C: "(g, vs, n) \<in> C" and x: "x = canon_rule C (g, vs)"
    by (auto simp: rule_keys_def)
  obtain r where r: "map_of m (key g vs) = Some r" and ok: "key_ok g vs"
    using table_in [OF t C] by blast
  then have "(key g vs, r) \<in> set m" using t by (simp add: table_def in_mwf)
  then obtain g' vs' where h: "key_ok g' vs'" "key g vs = key g' vs'"
      "sortRule r = canon_rule C (g', vs')"
    by (rule table_canon [OF t])
  have "x = sortRule r" using key_inj [OF ok h(1, 2)] h(3) x by simp
  with \<open>(key g vs, r) \<in> set m\<close> show "x \<in> (sortRule \<circ> snd) ` set m" by force
qed

lemma table_distinct:
  assumes t: "table m C"
  shows "distinct (map (sortRule \<circ> snd) m)"
proof -
  have "distinct m" using t by (simp add: table_def mwf_def distinct_map)
  moreover have "inj_on (sortRule \<circ> snd) (set m)"
  proof (rule inj_onI)
    fix x y assume x: "x \<in> set m" and y: "y \<in> set m" and eq: "(sortRule \<circ> snd) x = (sortRule \<circ> snd) y"
    from x obtain g vs where gx: "key_ok g vs" "fst x = key g vs" "sortRule (snd x) = canon_rule C (g, vs)"
      using table_canon [OF t, of "fst x" "snd x"] by (metis prod.collapse)
    from y obtain g' vs' where gy: "key_ok g' vs'" "fst y = key g' vs'"
        "sortRule (snd y) = canon_rule C (g', vs')"
      using table_canon [OF t, of "fst y" "snd y"] by (metis prod.collapse)
    from eq gx(3) gy(3) have "g = g' \<and> vs = vs'" by (simp add: canon_rule_def)
    then have "fst x = fst y" using gx gy by simp
    moreover have "map_of m (fst x) = Some (snd x)" "map_of m (fst y) = Some (snd y)"
      using t x y by (simp_all add: table_def flip: in_mwf)
    ultimately show "x = y" by (simp add: prod_eq_iff)
  qed
  ultimately show ?thesis by (simp add: distinct_map)
qed

lemma table_keys_ok: "table m C \<Longrightarrow> rule_keys C \<subseteq> {k. key_ok (fst k) (snd k)}"
  by (auto simp: rule_keys_def elim: table_in)

lemma table_final_lists:
  assumes t: "table m C"
  shows "lists_access (map (sortRule \<circ> snd) m) g n v \<longleftrightarrow> (\<exists>vs. (g, vs, n) \<in> C \<and> v \<in> set vs)"
proof -
  have fin: "set (sorted_list_of_set {n. (g, vs, n) \<in> C}) = {n. (g, vs, n) \<in> C}"
    if "(g, vs) \<in> rule_keys C" for vs
  proof -
    from that obtain n' where "(g, vs, n') \<in> C" by (auto simp: rule_keys_def)
    then obtain r where "map_of m (key g vs) = Some r" "key_ok g vs" using table_in [OF t] by blast
    then have "finite {n. (g, vs, n) \<in> C}" using table_lookup(6) [OF t] by (metis List.finite_set)
    then show ?thesis by simp
  qed
  have "lists_access (map (sortRule \<circ> snd) m) g n v \<longleftrightarrow>
      (\<exists>r \<in> canon_rule C ` rule_keys C.
         g \<in> set (pr_APIGroups r) \<and> n \<in> set (pr_Resources r) \<and> v \<in> set (pr_Verbs r))"
    unfolding lists_access_def set_map table_rules [OF t, symmetric] by (simp add: image_image)
  also have "\<dots> \<longleftrightarrow> (\<exists>vs. (g, vs) \<in> rule_keys C \<and> (g, vs, n) \<in> C \<and> v \<in> set vs)"
  proof
    assume "\<exists>r \<in> canon_rule C ` rule_keys C.
        g \<in> set (pr_APIGroups r) \<and> n \<in> set (pr_Resources r) \<and> v \<in> set (pr_Verbs r)"
    then show "\<exists>vs. (g, vs) \<in> rule_keys C \<and> (g, vs, n) \<in> C \<and> v \<in> set vs"
      using fin by (auto simp: canon_rule_def)
  next
    assume "\<exists>vs. (g, vs) \<in> rule_keys C \<and> (g, vs, n) \<in> C \<and> v \<in> set vs"
    then obtain vs where vs: "(g, vs) \<in> rule_keys C" "(g, vs, n) \<in> C" "v \<in> set vs" by blast
    then have "g \<in> set (pr_APIGroups (canon_rule C (g, vs))) \<and>
        n \<in> set (pr_Resources (canon_rule C (g, vs))) \<and> v \<in> set (pr_Verbs (canon_rule C (g, vs)))"
      using fin by (simp add: canon_rule_def)
    with vs(1) show "\<exists>r \<in> canon_rule C ` rule_keys C.
        g \<in> set (pr_APIGroups r) \<and> n \<in> set (pr_Resources r) \<and> v \<in> set (pr_Verbs r)" by blast
  qed
  also have "\<dots> \<longleftrightarrow> (\<exists>vs. (g, vs, n) \<in> C \<and> v \<in> set vs)"
    by (force simp: rule_keys_def)
  finally show ?thesis .
qed

text \<open>Two tables of the same contributions give the same final rules.\<close>

lemma table_sorted_unique:
  assumes "table m C" "table m' C"
  shows "sort_key ruleOrder (map (sortRule \<circ> snd) m) = sort_key ruleOrder (map (sortRule \<circ> snd) m')"
proof (rule sort_key_unique)
  show "inj_on ruleOrder (set (map (sortRule \<circ> snd) m))"
    unfolding set_map table_rules [OF assms(1)]
    by (rule inj_on_subset [OF ruleOrder_canon_inj [of C]]) (use table_keys_ok [OF assms(1)] in blast)
qed (simp_all only: set_map table_rules [OF assms(1)] table_rules [OF assms(2)]
    table_distinct [OF assms(1)] table_distinct [OF assms(2)])

end

lemma rrdKey_inj:
  "key_ok g vs \<Longrightarrow> key_ok g' vs' \<Longrightarrow> rrdKey g vs = rrdKey g' vs' \<Longrightarrow> g = g' \<and> vs = vs'"
  using append_sep_inj [of g "CHR ''|''" "Join vs '',''" g' "Join vs' '',''"]
    Join_inj [of vs "CHR '',''" vs']
  by (auto simp: rrdKey_def key_ok_def)

interpretation rrd_table: rule_key rrdKey
  by unfold_locales (rule rrdKey_inj)

lemma rdKey_inj:
  "key_ok g vs \<Longrightarrow> key_ok g' vs' \<Longrightarrow> rdKey g vs = rdKey g' vs' \<Longrightarrow> g = g' \<and> vs = vs'"
  using append_sep_inj [of g "CHR ''|''" "''['' @ Join vs '' '' @ '']''" g' "''['' @ Join vs' '' '' @ '']''"]
    Join_inj [of vs "CHR '' ''" vs']
  by (auto simp: rdKey_def key_ok_def)

interpretation rd_table: rule_key rdKey
  by unfold_locales (rule rdKey_inj)

section \<open>What a RestrictedRoleDefinition generates\<close>

text \<open>
  The verbs of a resource that survive a definition, in declarative form: the resource is not
  restricted, has the requested scope, no entry of \<^verbatim>\<open>restrictedApis\<close> that applies blocks the group
  or the verb, and the verb is not restricted globally.
\<close>

definition rrd_resource_open :: "RestrictedRoleDefinitionSpec \<Rightarrow> string \<Rightarrow> APIResource \<Rightarrow> bool" where
  "rrd_resource_open spec g res \<longleftrightarrow>
     ar_Namespaced res = rrds_ScopeNamespaced spec \<and>
     (\<forall>rr \<in> set (rrds_RestrictedResources spec).
        (ar_Group rr = '''' \<or> MatchesAPIGroup (ar_Group rr) g) \<longrightarrow>
        \<not> MatchesResourceName (ar_Name rr) (ar_Name res))"

definition verb_in :: "string \<Rightarrow> string list \<Rightarrow> bool" where
  "verb_in v vs \<longleftrightarrow> v \<in> set vs \<or> ''*'' \<in> set vs"

definition rrd_permits ::
  "RestrictedRoleDefinitionSpec \<Rightarrow> GroupVersion \<Rightarrow> APIResource \<Rightarrow> string \<Rightarrow> bool" where
  "rrd_permits spec gv res v \<longleftrightarrow>
     v \<in> set (ar_Verbs res) \<and> rrd_resource_open spec (gv_Group gv) res \<and>
     \<not> verb_in v (rrds_RestrictedVerbs spec) \<and>
     (\<forall>ag \<in> set (rrds_RestrictedAPIs spec). entryApplies ag gv \<longrightarrow>
        rag_Verbs ag \<noteq> [] \<and> \<not> verb_in v (rag_Verbs ag))"

lemma check_loop_blocked:
  "\<exists>ag \<in> set ags. entryApplies ag gv \<and> rag_Verbs ag = [] \<Longrightarrow>
   rrdCheckAPIRestriction_loop ags gv r S = (True, [])"
  by (induction ags gv r S rule: rrdCheckAPIRestriction_loop.induct) auto

lemma check_loop_open:
  assumes "\<not> (\<exists>ag \<in> set ags. entryApplies ag gv \<and> rag_Verbs ag = [])"
    and "rrdCheckAPIRestriction_loop ags gv r S = (b, vs)"
  shows "b = (r \<or> (\<exists>ag \<in> set ags. entryApplies ag gv)) \<and>
    set vs = (if b then fst ` set S \<union> \<Union> {set (rag_Verbs ag) | ag. ag \<in> set ags \<and> entryApplies ag gv}
              else {})"
  using assms
proof (induction ags gv r S arbitrary: b vs rule: rrdCheckAPIRestriction_loop.induct)
  case (2 ag ags gv r S)
  show ?case
  proof (cases "entryApplies ag gv")
    case False
    then have "{set (rag_Verbs a) | a. a \<in> set (ag # ags) \<and> entryApplies a gv} =
        {set (rag_Verbs a) | a. a \<in> set ags \<and> entryApplies a gv}" by auto
    then show ?thesis using 2(1) [of b vs] 2(3, 4) False by auto
  next
    case True
    with 2(3) have ne: "rag_Verbs ag \<noteq> []" by simp
    have "{set (rag_Verbs a) | a. a \<in> set (ag # ags) \<and> entryApplies a gv} =
        insert (set (rag_Verbs ag)) {set (rag_Verbs a) | a. a \<in> set ags \<and> entryApplies a gv}"
      using True by auto
    then show ?thesis using 2(2) [of b vs] 2(3, 4) True ne by (auto simp: keys_fold_mput)
  qed
qed (auto split: if_splits)

text \<open>Restrictions of a group add up over all entries that apply.\<close>

lemma rrdCheckAPIRestriction_spec:
  assumes "rrdCheckAPIRestriction ags gv = (b, vs)"
  shows "b \<and> vs = [] \<longleftrightarrow> (\<exists>ag \<in> set ags. entryApplies ag gv \<and> rag_Verbs ag = [])"
    and "\<not> (b \<and> vs = []) \<Longrightarrow>
      set vs = \<Union> {set (rag_Verbs ag) | ag. ag \<in> set ags \<and> entryApplies ag gv}"
proof -
  have loop: "rrdCheckAPIRestriction_loop ags gv False [] = (b, vs)"
    using assms by (simp add: rrdCheckAPIRestriction_def)
  show iff: "b \<and> vs = [] \<longleftrightarrow> (\<exists>ag \<in> set ags. entryApplies ag gv \<and> rag_Verbs ag = [])"
  proof
    assume "\<exists>ag \<in> set ags. entryApplies ag gv \<and> rag_Verbs ag = []"
    then show "b \<and> vs = []" using check_loop_blocked [of ags gv False "[]"] loop by simp
  next
    assume bv: "b \<and> vs = []"
    show "\<exists>ag \<in> set ags. entryApplies ag gv \<and> rag_Verbs ag = []"
    proof (rule ccontr)
      assume none: "\<not> (\<exists>ag \<in> set ags. entryApplies ag gv \<and> rag_Verbs ag = [])"
      have "b" "vs = []" using bv by simp_all
      with check_loop_open [OF none loop]
      have ex: "\<exists>ag \<in> set ags. entryApplies ag gv"
        and un: "\<Union> {set (rag_Verbs ag) | ag. ag \<in> set ags \<and> entryApplies ag gv} = {}" by simp_all
      then obtain ag where ag: "ag \<in> set ags" "entryApplies ag gv" by blast
      then have "set (rag_Verbs ag) \<subseteq> \<Union> {set (rag_Verbs ag) | ag. ag \<in> set ags \<and> entryApplies ag gv}"
        by blast
      then have "rag_Verbs ag = []" unfolding un by simp
      with none ag show False by blast
    qed
  qed
  assume "\<not> (b \<and> vs = [])"
  with iff have "\<not> (\<exists>ag \<in> set ags. entryApplies ag gv \<and> rag_Verbs ag = [])" by blast
  from check_loop_open [OF this loop]
  show "set vs = \<Union> {set (rag_Verbs ag) | ag. ag \<in> set ags \<and> entryApplies ag gv}"
    by (cases b) auto
qed

text \<open>The surviving verbs of one resource, as the filter computes them.\<close>

definition rrdVerbs ::
  "RestrictedRoleDefinitionSpec \<Rightarrow> GroupVersion \<Rightarrow> string list \<Rightarrow> APIResource \<Rightarrow> string list" where
  "rrdVerbs spec gv apiVerbs res =
     (if rrd_resource_open spec (gv_Group gv) res
      then filter (\<lambda>v. \<not> verb_in v (rrds_RestrictedVerbs spec) \<and> \<not> verb_in v apiVerbs) (ar_Verbs res)
      else [])"

definition resource_contrib ::
  "GroupVersion \<Rightarrow> (APIResource \<Rightarrow> string list) \<Rightarrow> APIResource \<Rightarrow> (string \<times> string list \<times> string) set" where
  "resource_contrib gv verbs res =
     (if verbs res = [] then {} else {(gv_Group gv, sort (verbs res), ar_Name res)})"

lemma resource_contribs_verbs:
  "(\<exists>vs. (g, vs, n) \<in> (\<Union>res \<in> set ress. resource_contrib gv verbs res) \<and> v \<in> set vs) \<longleftrightarrow>
     gv_Group gv = g \<and> (\<exists>res \<in> set ress. ar_Name res = n \<and> v \<in> set (verbs res))"
proof -
  have "(g, vs, n) \<in> resource_contrib gv verbs res \<and> v \<in> set vs \<longleftrightarrow>
      gv_Group gv = g \<and> ar_Name res = n \<and> vs = sort (verbs res) \<and> v \<in> set (verbs res)" for vs res
    by (auto simp: resource_contrib_def)
  then show ?thesis by blast
qed

definition api_names_ok :: "GroupVersion \<Rightarrow> APIResource \<Rightarrow> bool" where
  "api_names_ok gv res \<longleftrightarrow> CHR ''|'' \<notin> set (gv_Group gv) \<and>
     (\<forall>v \<in> set (ar_Verbs res). CHR '','' \<notin> set v \<and> CHR '' '' \<notin> set v)"

lemma rrdFilterResource_table:
  assumes t: "rrd_table.table m C" and ok: "api_names_ok gv res"
  shows "rrd_table.table (rrdFilterResource rrd gv res apiVerbs m)
    (C \<union> resource_contrib gv (rrdVerbs (rrd_Spec rrd) gv apiVerbs) res)"
proof (cases "rrdVerbs (rrd_Spec rrd) gv apiVerbs res = []")
  case True
  then have "rrdFilterResource rrd gv res apiVerbs m = m"
    by (auto simp: rrdFilterResource_def rrdVerbs_def rrd_resource_open_def verb_in_def Let_def
        list_ex_iff restrictedAPIResourceMatches_def split: if_splits)
  with t True show ?thesis by (simp add: resource_contrib_def)
next
  case False
  let ?vs = "sort (rrdVerbs (rrd_Spec rrd) gv apiVerbs res)" and ?g = "gv_Group gv"
  let ?e = "rrd_table.entry m ?g ?vs"
  have kok: "key_ok ?g ?vs"
    using ok False by (auto simp: key_ok_def api_names_ok_def rrdVerbs_def split: if_splits)
  have "rrd_resource_open (rrd_Spec rrd) ?g res"
    using False by (auto simp: rrdVerbs_def split: if_splits)
  then have h1: "list_ex (\<lambda>rule. restrictedAPIResourceMatches (ar_Name res) ?g rule True)
        (rrds_RestrictedResources (rrd_Spec rrd)) = False"
      and h2: "ar_Namespaced res = rrds_ScopeNamespaced (rrd_Spec rrd)"
      and h3: "filter (\<lambda>verb. \<not> ContainsStringOrWildcard (rrds_RestrictedVerbs (rrd_Spec rrd)) verb \<and>
             \<not> ContainsStringOrWildcard apiVerbs verb) (ar_Verbs res) =
           rrdVerbs (rrd_Spec rrd) gv apiVerbs res"
    by (auto simp: rrd_resource_open_def list_ex_iff restrictedAPIResourceMatches_def rrdVerbs_def
        verb_in_def Let_def)
  have "rrdFilterResource rrd gv res apiVerbs m =
      (if ar_Name res \<notin> set (pr_Resources ?e)
       then mput (rrdKey ?g ?vs) (?e\<lparr>pr_Resources := pr_Resources ?e @ [ar_Name res]\<rparr>) m
       else mput (rrdKey ?g ?vs) ?e m)"
    unfolding rrdFilterResource_def rrd_table.entry_def Let_def h1 h2 h3
    using False by (simp only: if_False not_True_eq_False simp_thms)
  moreover have "C \<union> resource_contrib gv (rrdVerbs (rrd_Spec rrd) gv apiVerbs) res =
      insert (?g, ?vs, ar_Name res) C"
    using False by (simp add: resource_contrib_def)
  ultimately show ?thesis
    using rrd_table.table_add [OF t kok, of "ar_Name res"]
      rrd_table.table_seen [OF t kok, of "ar_Name res"] by (simp split: if_split)
qed

lemma rrdFilterResources_table:
  assumes "rrd_table.table m C" and "\<forall>res \<in> set ress. api_names_ok gv res"
  shows "rrd_table.table (fold (\<lambda>res. rrdFilterResource rrd gv res apiVerbs) ress m)
    (C \<union> (\<Union>res \<in> set ress. resource_contrib gv (rrdVerbs (rrd_Spec rrd) gv apiVerbs) res))"
  using assms
proof (induction ress arbitrary: m C)
  case (Cons res ress)
  show ?case
    using Cons.IH [OF rrdFilterResource_table [OF Cons.prems(1)]] Cons.prems
    by (simp add: Un_assoc)
qed simp

text \<open>The contributions of the whole discovery: a set, so no order shows in it.\<close>

definition rrd_contrib ::
  "RestrictedRoleDefinitionSpec \<Rightarrow> GroupVersion \<Rightarrow> APIResource list \<Rightarrow> (string \<times> string list \<times> string) set"
where
  "rrd_contrib spec gv ress =
     (case rrdCheckAPIRestriction (rrds_RestrictedAPIs spec) gv of (b, apiVerbs) \<Rightarrow>
        if b \<and> apiVerbs = [] then {}
        else \<Union>res \<in> set ress. resource_contrib gv (rrdVerbs spec gv apiVerbs) res)"

definition discovery_ok :: "parse_gv \<Rightarrow> APIResourcesByGroupVersion \<Rightarrow> bool" where
  "discovery_ok parseGV apis \<longleftrightarrow>
     (\<forall>(k, ress) \<in> set apis. \<forall>gv. parseGV k = Inr gv \<longrightarrow> (\<forall>res \<in> set ress. api_names_ok gv res))"

definition all_contribs ::
  "(GroupVersion \<Rightarrow> APIResource list \<Rightarrow> 'c set) \<Rightarrow> parse_gv \<Rightarrow> APIResourcesByGroupVersion \<Rightarrow> 'c set" where
  "all_contribs contrib parseGV apis =
     (\<Union>(k, ress) \<in> set apis. case parseGV k of Inl _ \<Rightarrow> {} | Inr gv \<Rightarrow> contrib gv ress)"

lemma all_contribs_iff:
  "x \<in> all_contribs c parseGV apis \<longleftrightarrow>
     (\<exists>k ress gv. (k, ress) \<in> set apis \<and> parseGV k = Inr gv \<and> x \<in> c gv ress)"
  unfolding all_contribs_def by (force split: sum.splits)

lemma all_contribs_Cons:
  "parseGV k = Inr gv \<Longrightarrow>
   all_contribs c parseGV ((k, ress) # apis) = c gv ress \<union> all_contribs c parseGV apis"
  by (simp add: all_contribs_def)

lemma rrdCollect_table:
  assumes "rrdCollect parseGV rrd apis m = Inr m'" and "rrd_table.table m C"
    and "discovery_ok parseGV apis"
  shows "rrd_table.table m' (C \<union> all_contribs (rrd_contrib (rrd_Spec rrd)) parseGV apis)"
  using assms
proof (induction parseGV rrd apis m arbitrary: C rule: rrdCollect.induct)
  case (1 parseGV rrd m)
  then show ?case by (simp add: all_contribs_def)
next
  case (2 parseGV rrd k ress rest m)
  obtain gv where gv: "parseGV k = Inr gv" using "2.prems"(1) by (auto split: sum.splits)
  obtain b vs where bv: "rrdCheckAPIRestriction (rrds_RestrictedAPIs (rrd_Spec rrd)) gv = (b, vs)"
    by fastforce
  have ok: "\<forall>res \<in> set ress. api_names_ok gv res" "discovery_ok parseGV rest"
    using "2.prems"(3) gv by (auto simp: discovery_ok_def)
  show ?case
  proof (cases "b \<and> vs = []")
    case True
    then have "rrd_contrib (rrd_Spec rrd) gv ress = {}" by (simp add: rrd_contrib_def bv)
    then show ?thesis
      using "2.IH"(1) [OF gv refl bv [symmetric] True _ "2.prems"(2) ok(2)] "2.prems"(1) gv bv True
      by (simp add: all_contribs_Cons [of parseGV k gv, OF gv])
  next
    case False
    have t: "rrd_table.table (fold (\<lambda>res. rrdFilterResource rrd gv res vs) ress m)
        (C \<union> rrd_contrib (rrd_Spec rrd) gv ress)"
      using rrdFilterResources_table [OF "2.prems"(2) ok(1), of rrd vs] False
      by (simp only: rrd_contrib_def bv prod.case if_False)
    show ?thesis
      using "2.IH"(2) [OF gv refl bv [symmetric] False _ t ok(2)] "2.prems"(1) gv bv False
      by (auto simp: all_contribs_Cons [of parseGV k gv, OF gv] Un_assoc)
  qed
qed

lemma rrd_contrib_permits:
  "(\<exists>vs. (g, vs, n) \<in> rrd_contrib spec gv ress \<and> v \<in> set vs) \<longleftrightarrow>
     gv_Group gv = g \<and> (\<exists>res \<in> set ress. ar_Name res = n \<and> rrd_permits spec gv res v)"
proof -
  obtain b avs where bv: "rrdCheckAPIRestriction (rrds_RestrictedAPIs spec) gv = (b, avs)" by fastforce
  note spec1 = rrdCheckAPIRestriction_spec(1) [OF bv] and spec2 = rrdCheckAPIRestriction_spec(2) [OF bv]
  show ?thesis
  proof (cases "b \<and> avs = []")
    case True
    then have "\<not> rrd_permits spec gv res v" for res using spec1 by (auto simp: rrd_permits_def)
    then show ?thesis using True by (simp add: rrd_contrib_def bv)
  next
    case False
    have "v \<in> set (rrdVerbs spec gv avs res) \<longleftrightarrow> rrd_permits spec gv res v" for res
      using spec1 spec2 [OF False] False by (auto simp: rrdVerbs_def rrd_permits_def verb_in_def)
    moreover have "(\<exists>vs. (g, vs, n) \<in> rrd_contrib spec gv ress \<and> v \<in> set vs) \<longleftrightarrow>
        gv_Group gv = g \<and> (\<exists>res \<in> set ress. ar_Name res = n \<and> v \<in> set (rrdVerbs spec gv avs res))"
      using False resource_contribs_verbs [of g n gv "rrdVerbs spec gv avs" ress v]
      by (simp only: rrd_contrib_def bv prod.case if_False)
    ultimately show ?thesis by simp
  qed
qed

lemma lists_access_sort [simp]: "lists_access (sort_key f rules) g n v = lists_access rules g n v"
  by (simp add: lists_access_def)

lemma rrdFinalRules_eq: "rrdFinalRules m = sort_key ruleOrder (map (sortRule \<circ> snd) m)"
  by (simp add: rrdFinalRules_def comp_def case_prod_unfold)

definition serves ::
  "parse_gv \<Rightarrow> APIResourcesByGroupVersion \<Rightarrow> GroupVersion \<Rightarrow> APIResource \<Rightarrow> bool" where
  "serves parseGV apis gv res \<longleftrightarrow>
     (\<exists>k ress. (k, ress) \<in> set apis \<and> parseGV k = Inr gv \<and> res \<in> set ress)"

lemma rrdDiscover_table:
  assumes "rrdDiscoverAndFilter parseGV (Discovered apis) rrd = Generated rules"
    and "discovery_ok parseGV apis"
  obtains m where "rules = rrdFinalRules m"
    and "rrd_table.table m (all_contribs (rrd_contrib (rrd_Spec rrd)) parseGV apis)"
  using assms rrdCollect_table [OF _ rrd_table.table_empty assms(2)]
  by (auto simp: rrdDiscoverAndFilter_def split: sum.splits)

lemma rrdDiscoverAndFilter_exact:
  assumes gen: "rrdDiscoverAndFilter parseGV (Discovered apis) rrd = Generated rules"
    and ok: "discovery_ok parseGV apis"
  shows "lists_access rules g n v \<longleftrightarrow>
    (\<exists>gv res. serves parseGV apis gv res \<and> gv_Group gv = g \<and> ar_Name res = n \<and>
       rrd_permits (rrd_Spec rrd) gv res v)"
proof -
  let ?C = "all_contribs (rrd_contrib (rrd_Spec rrd)) parseGV apis"
  obtain m where m: "rules = rrdFinalRules m" and t: "rrd_table.table m ?C"
    using rrdDiscover_table [OF gen ok] .
  have "lists_access rules g n v \<longleftrightarrow> (\<exists>vs. (g, vs, n) \<in> ?C \<and> v \<in> set vs)"
    unfolding m rrdFinalRules_eq lists_access_sort by (rule rrd_table.table_final_lists [OF t])
  also have "\<dots> \<longleftrightarrow> (\<exists>(k, ress) \<in> set apis. \<exists>gv. parseGV k = Inr gv \<and>
      (\<exists>vs. (g, vs, n) \<in> rrd_contrib (rrd_Spec rrd) gv ress \<and> v \<in> set vs))"
    unfolding all_contribs_iff by blast
  also have "\<dots> \<longleftrightarrow> (\<exists>gv res. serves parseGV apis gv res \<and> gv_Group gv = g \<and> ar_Name res = n \<and>
       rrd_permits (rrd_Spec rrd) gv res v)"
    unfolding rrd_contrib_permits serves_def by fast
  finally show ?thesis .
qed

lemma rrdCollect_total:
  "(\<exists>m'. rrdCollect parseGV rrd apis m = Inr m') \<longleftrightarrow> (\<forall>(k, ress) \<in> set apis. \<exists>gv. parseGV k = Inr gv)"
proof (induction parseGV rrd apis m rule: rrdCollect.induct)
  case (2 parseGV rrd k ress rest m)
  then show ?case
    by (cases "parseGV k") (auto simp: Let_def split: prod.splits if_splits)
qed simp

lemma rrdDiscover_order_free:
  assumes gen: "rrdDiscoverAndFilter parseGV (Discovered apis) rrd = Generated rules"
    and ok: "discovery_ok parseGV apis" and same: "set apis' = set apis"
  shows "rrdDiscoverAndFilter parseGV (Discovered apis') rrd = Generated rules"
proof -
  have "\<exists>m. rrdCollect parseGV rrd apis [] = Inr m"
    using gen by (auto simp: rrdDiscoverAndFilter_def split: sum.splits)
  then have "\<exists>m. rrdCollect parseGV rrd apis' [] = Inr m"
    using same by (simp add: rrdCollect_total)
  then obtain rules' where gen': "rrdDiscoverAndFilter parseGV (Discovered apis') rrd = Generated rules'"
    by (auto simp: rrdDiscoverAndFilter_def)
  have ok': "discovery_ok parseGV apis'" using ok same by (simp add: discovery_ok_def)
  have C: "all_contribs c parseGV apis' = all_contribs c parseGV apis" for c
    using same by (simp add: all_contribs_def)
  obtain m where m: "rules = rrdFinalRules m"
      "rrd_table.table m (all_contribs (rrd_contrib (rrd_Spec rrd)) parseGV apis)"
    using rrdDiscover_table [OF gen ok] .
  obtain m' where m': "rules' = rrdFinalRules m'"
      "rrd_table.table m' (all_contribs (rrd_contrib (rrd_Spec rrd)) parseGV apis)"
    using rrdDiscover_table [OF gen' ok'] C by metis
  have "rules' = rules"
    unfolding m(1) m'(1) rrdFinalRules_eq by (rule rrd_table.table_sorted_unique [OF m'(2) m(2)])
  with gen' show ?thesis by simp
qed

section \<open>What a RoleDefinition generates\<close>

text \<open>Here only the first entry of \<^verbatim>\<open>restrictedApis\<close> that applies to a group and version counts.\<close>

definition first_entry :: "RestrictedAPIGroup list \<Rightarrow> GroupVersion \<Rightarrow> RestrictedAPIGroup option" where
  "first_entry ags gv = find (\<lambda>ag. entryApplies ag gv) ags"

definition rd_resource_open :: "RoleDefinitionSpec \<Rightarrow> string \<Rightarrow> APIResource \<Rightarrow> bool" where
  "rd_resource_open spec g res \<longleftrightarrow>
     ar_Namespaced res = rds_ScopeNamespaced spec \<and>
     (\<forall>rr \<in> set (rds_RestrictedResources spec).
        MatchesAPIGroup (ar_Group rr) g \<longrightarrow> \<not> MatchesResourceName (ar_Name rr) (ar_Name res))"

definition rd_permits ::
  "RoleDefinitionSpec \<Rightarrow> GroupVersion \<Rightarrow> APIResource \<Rightarrow> string \<Rightarrow> bool" where
  "rd_permits spec gv res v \<longleftrightarrow>
     v \<in> set (ar_Verbs res) \<and> rd_resource_open spec (gv_Group gv) res \<and>
     \<not> verb_in v (rds_RestrictedVerbs spec) \<and>
     (\<forall>ag. first_entry (rds_RestrictedAPIs spec) gv = Some ag \<longrightarrow>
        rag_Verbs ag \<noteq> [] \<and> \<not> verb_in v (rag_Verbs ag))"

lemma restrictedVerbsForGroupVersion_first:
  "restrictedVerbsForGroupVersion rd gv =
     (case first_entry (rds_RestrictedAPIs (rd_Spec rd)) gv of
        None \<Rightarrow> ([], False) | Some ag \<Rightarrow> (rag_Verbs ag, True))"
proof -
  have "restrictedVerbsForGroupVersion_loop ags gv =
      (case first_entry ags gv of None \<Rightarrow> ([], False) | Some ag \<Rightarrow> (rag_Verbs ag, True))" for ags
    by (induction ags) (simp_all add: first_entry_def)
  then show ?thesis by (simp add: restrictedVerbsForGroupVersion_def)
qed

lemma set_allowedVerbs:
  "v \<in> set (allowedVerbsForAPIResource rd g res apiVerbs) \<longleftrightarrow>
     v \<in> set (ar_Verbs res) \<and> rd_resource_open (rd_Spec rd) g res \<and>
     \<not> verb_in v (rds_RestrictedVerbs (rd_Spec rd)) \<and> \<not> verb_in v apiVerbs"
  by (auto simp: allowedVerbsForAPIResource_def isRestrictedAPIResource_def rd_resource_open_def
      verb_in_def list_ex_iff restrictedAPIResourceMatches_def Let_def)

text \<open>The first map: per group and resource, the union of the verbs of all versions.\<close>

definition access_table ::
  "(string, apiResourceAccess) gomap \<Rightarrow> (string \<times> string \<times> string) set \<Rightarrow> bool" where
  "access_table m T \<longleftrightarrow> mwf m \<and>
     (\<forall>k a. map_of m k = Some a \<longrightarrow>
        k = acc_apiGroup a @ ''|'' @ acc_name a \<and> CHR ''|'' \<notin> set (acc_apiGroup a) \<and>
        mwf (acc_verbs a) \<and> acc_verbs a \<noteq> [] \<and>
        fst ` set (acc_verbs a) = {v. (acc_apiGroup a, acc_name a, v) \<in> T}) \<and>
     (\<forall>g n v. (g, n, v) \<in> T \<longrightarrow> CHR ''|'' \<notin> set g \<and> map_of m (g @ ''|'' @ n) \<noteq> None)"

lemma access_key_inj:
  "g @ ''|'' @ n = g' @ ''|'' @ n' \<Longrightarrow> CHR ''|'' \<notin> set g \<Longrightarrow> CHR ''|'' \<notin> set g' \<Longrightarrow> g = g' \<and> n = n'"
  using append_sep_inj [of g "CHR ''|''" n g' n'] by simp

lemma access_in:
  "access_table m T \<Longrightarrow> (g, n, v) \<in> T \<Longrightarrow> CHR ''|'' \<notin> set g \<and> map_of m (g @ ''|'' @ n) \<noteq> None"
  unfolding access_table_def by blast

lemma access_lookup:
  assumes "access_table m T" and "CHR ''|'' \<notin> set g"
  shows "case map_of m (g @ ''|'' @ n) of
      None \<Rightarrow> {v. (g, n, v) \<in> T} = {}
    | Some a \<Rightarrow> acc_apiGroup a = g \<and> acc_name a = n \<and> mwf (acc_verbs a) \<and>
        fst ` set (acc_verbs a) = {v. (g, n, v) \<in> T}"
proof (cases "map_of m (g @ ''|'' @ n)")
  case None
  then have "(g, n, v) \<notin> T" for v using access_in [OF assms(1), of g n v] by auto
  with None show ?thesis by simp
next
  case (Some a)
  with assms(1) have a: "g @ ''|'' @ n = acc_apiGroup a @ ''|'' @ acc_name a"
      "CHR ''|'' \<notin> set (acc_apiGroup a)" "mwf (acc_verbs a)"
      "fst ` set (acc_verbs a) = {v. (acc_apiGroup a, acc_name a, v) \<in> T}"
    unfolding access_table_def by blast+
  from access_key_inj [OF a(1) assms(2) a(2)] a Some show ?thesis by simp
qed

lemma addAPIResourceAccess_table:
  assumes t: "access_table m T" and g: "CHR ''|'' \<notin> set g" and ne: "vs \<noteq> []"
  shows "access_table (addAPIResourceAccess m g n vs) (T \<union> (\<lambda>v. (g, n, v)) ` set vs)"
proof -
  let ?k = "g @ ''|'' @ n" and ?T = "T \<union> (\<lambda>v. (g, n, v)) ` set vs"
  define a where "a = (case map_of m ?k of
      Some a \<Rightarrow> a | None \<Rightarrow> \<lparr>acc_apiGroup = g, acc_name = n, acc_verbs = []\<rparr>)"
  define b where "b = a\<lparr>acc_verbs := fold (\<lambda>verb. mput verb ()) vs (acc_verbs a)\<rparr>"
  have add: "addAPIResourceAccess m g n vs = mput ?k b m"
    by (simp add: addAPIResourceAccess_def a_def b_def Let_def)
  have a: "acc_apiGroup a = g" "acc_name a = n" "mwf (acc_verbs a)"
      "fst ` set (acc_verbs a) = {v. (g, n, v) \<in> T}"
    using access_lookup [OF t g, of n] by (auto simp: a_def split: option.splits)
  have keys: "fst ` set (acc_verbs b) = {v. (g, n, v) \<in> ?T}"
    using a(4) by (auto simp: b_def keys_fold_mput)
  then have "fst ` set (acc_verbs b) \<noteq> {}" using ne by (cases vs) auto
  then have b: "acc_verbs b \<noteq> []" "mwf (acc_verbs b)" "acc_apiGroup b = g" "acc_name b = n"
    using a by (auto simp: b_def)
  have other: "k = acc_apiGroup c @ ''|'' @ acc_name c \<and> CHR ''|'' \<notin> set (acc_apiGroup c) \<and>
      mwf (acc_verbs c) \<and> acc_verbs c \<noteq> [] \<and>
      fst ` set (acc_verbs c) = {v. (acc_apiGroup c, acc_name c, v) \<in> ?T}"
    if c: "map_of (mput ?k b m) k = Some c" for k c
  proof (cases "k = ?k")
    case True
    then have "c = b" using c by simp
    then show ?thesis using True b g keys by simp
  next
    case False
    then have "map_of m k = Some c" using c by simp
    with t have h: "k = acc_apiGroup c @ ''|'' @ acc_name c" "CHR ''|'' \<notin> set (acc_apiGroup c)"
        "mwf (acc_verbs c)" "acc_verbs c \<noteq> []"
        "fst ` set (acc_verbs c) = {v. (acc_apiGroup c, acc_name c, v) \<in> T}"
      unfolding access_table_def by blast+
    with False have "(acc_apiGroup c, acc_name c) \<noteq> (g, n)" by auto
    then have "{v. (acc_apiGroup c, acc_name c, v) \<in> ?T} = {v. (acc_apiGroup c, acc_name c, v) \<in> T}"
      by auto
    with h show ?thesis by simp
  qed
  have "mwf (mput ?k b m)" using t by (simp add: access_table_def)
  moreover have "CHR ''|'' \<notin> set g' \<and> map_of (mput ?k b m) (g' @ ''|'' @ n') \<noteq> None"
    if "(g', n', v) \<in> ?T" for g' n' v
    using that g access_in [OF t, of g' n' v] by auto
  ultimately show ?thesis
    unfolding add access_table_def using other by blast
qed

definition rd_contrib ::
  "RoleDefinitionSpec \<Rightarrow> GroupVersion \<Rightarrow> APIResource list \<Rightarrow> (string \<times> string \<times> string) set" where
  "rd_contrib spec gv ress =
     {(gv_Group gv, ar_Name res, v) | res v. res \<in> set ress \<and> rd_permits spec gv res v}"

lemma rdResources_table:
  assumes "access_table m T" and "\<forall>res \<in> set ress. api_names_ok gv res"
  shows "access_table (fold (\<lambda>res acc.
      let verbs = allowedVerbsForAPIResource rd (gv_Group gv) res apiVerbs in
      if verbs = [] then acc else addAPIResourceAccess acc (gv_Group gv) (ar_Name res) verbs) ress m)
    (T \<union> {(gv_Group gv, ar_Name res, v) | res v. res \<in> set ress \<and>
            v \<in> set (allowedVerbsForAPIResource rd (gv_Group gv) res apiVerbs)})"
  using assms
proof (induction ress arbitrary: m T)
  case (Cons res ress)
  let ?vs = "allowedVerbsForAPIResource rd (gv_Group gv) res apiVerbs"
  let ?step = "if ?vs = [] then m else addAPIResourceAccess m (gv_Group gv) (ar_Name res) ?vs"
  have "access_table ?step (T \<union> (\<lambda>v. (gv_Group gv, ar_Name res, v)) ` set ?vs)"
    using Cons.prems addAPIResourceAccess_table [OF Cons.prems(1), of "gv_Group gv" ?vs]
    by (auto simp: api_names_ok_def)
  note step = Cons.IH [OF this]
  have "T \<union> (\<lambda>v. (gv_Group gv, ar_Name res, v)) ` set ?vs \<union>
      {(gv_Group gv, ar_Name r, v) | r v. r \<in> set ress \<and>
         v \<in> set (allowedVerbsForAPIResource rd (gv_Group gv) r apiVerbs)} =
    T \<union> {(gv_Group gv, ar_Name r, v) | r v. r \<in> set (res # ress) \<and>
         v \<in> set (allowedVerbsForAPIResource rd (gv_Group gv) r apiVerbs)}" by auto
  then show ?case using step Cons.prems(2) by (simp only: fold_Cons comp_apply Let_def) simp
qed simp

lemma rdCollect_table:
  assumes "rdCollect parseGV rd apis m = Inr m'" and "access_table m T" and "discovery_ok parseGV apis"
  shows "access_table m' (T \<union> all_contribs (rd_contrib (rd_Spec rd)) parseGV apis)"
  using assms
proof (induction parseGV rd apis m arbitrary: T rule: rdCollect.induct)
  case (1 parseGV rd m)
  then show ?case by (simp add: all_contribs_def)
next
  case (2 parseGV rd k ress rest m)
  obtain gv where gv: "parseGV k = Inr gv" using "2.prems"(1) by (auto split: sum.splits)
  obtain vs b where bv: "restrictedVerbsForGroupVersion rd gv = (vs, b)" by fastforce
  have ok: "\<forall>res \<in> set ress. api_names_ok gv res" "discovery_ok parseGV rest"
    using "2.prems"(3) gv by (auto simp: discovery_ok_def)
  show ?case
  proof (cases "b \<and> vs = []")
    case True
    then have "rd_contrib (rd_Spec rd) gv ress = {}"
      using bv by (auto simp: rd_contrib_def rd_permits_def restrictedVerbsForGroupVersion_first
          split: option.splits)
    then show ?thesis
      using "2.IH"(1) [OF gv refl bv [symmetric] True _ "2.prems"(2) ok(2)] "2.prems"(1) gv bv True
      by (simp add: all_contribs_Cons [of parseGV k gv, OF gv])
  next
    case False
    have "v \<in> set (allowedVerbsForAPIResource rd (gv_Group gv) res vs) \<longleftrightarrow>
        rd_permits (rd_Spec rd) gv res v" for v res
      using bv False by (auto simp: set_allowedVerbs rd_permits_def verb_in_def
          restrictedVerbsForGroupVersion_first split: option.splits)
    then have t: "access_table (fold (\<lambda>res acc.
        let verbs = allowedVerbsForAPIResource rd (gv_Group gv) res vs in
        if verbs = [] then acc else addAPIResourceAccess acc (gv_Group gv) (ar_Name res) verbs) ress m)
        (T \<union> rd_contrib (rd_Spec rd) gv ress)"
      using rdResources_table [OF "2.prems"(2) ok(1), of rd vs] by (simp add: rd_contrib_def)
    show ?thesis
      using "2.IH"(2) [OF gv refl bv [symmetric] False _ t ok(2)] "2.prems"(1) gv bv False
      by (auto simp: all_contribs_Cons [of parseGV k gv, OF gv] Un_assoc)
  qed
qed

text \<open>The second map: one entry per access, collected by group and verbs.\<close>

definition access_rule :: "apiResourceAccess \<Rightarrow> string \<times> string list \<times> string" where
  "access_rule a = (acc_apiGroup a, sort (map fst (acc_verbs a)), acc_name a)"

definition access_ok :: "apiResourceAccess \<Rightarrow> bool" where
  "access_ok a \<longleftrightarrow> key_ok (acc_apiGroup a) (sort (map fst (acc_verbs a)))"

lemma addAccessRule_table:
  assumes t: "rd_table.table rules C" and ok: "access_ok a"
    and new: "\<forall>vs. (acc_apiGroup a, vs, acc_name a) \<notin> C"
  shows "rd_table.table (addAccessRule a rules) (insert (access_rule a) C)"
proof -
  let ?g = "acc_apiGroup a" and ?vs = "sort (map fst (acc_verbs a))"
  have kok: "key_ok ?g ?vs" using ok by (simp add: access_ok_def)
  have "acc_name a \<notin> set (pr_Resources (rd_table.entry rules ?g ?vs))"
    using rd_table.entry_fields(6) [OF t kok] new by simp
  from rd_table.table_add [OF t kok this] show ?thesis
    by (simp add: addAccessRule_def access_rule_def rd_table.entry_def Let_def)
qed

lemma buildPolicyRules_table:
  assumes "rd_table.table rules C" and "\<forall>(k, a) \<in> set l. access_ok a"
    and "\<forall>(k, a) \<in> set l. \<forall>vs. (acc_apiGroup a, vs, acc_name a) \<notin> C"
    and "distinct (map (\<lambda>(k, a). (acc_apiGroup a, acc_name a)) l)"
  shows "rd_table.table (fold (\<lambda>(k, access). addAccessRule access) l rules)
    (C \<union> access_rule ` snd ` set l)"
  using assms
proof (induction l arbitrary: rules C)
  case (Cons x l)
  obtain k a where x: "x = (k, a)" by fastforce
  have t: "rd_table.table (addAccessRule a rules) (insert (access_rule a) C)"
    using Cons.prems x by (intro addAccessRule_table) auto
  have new: "\<forall>(k, b) \<in> set l. \<forall>vs. (acc_apiGroup b, vs, acc_name b) \<notin> insert (access_rule a) C"
  proof (clarify)
    fix j b vs assume jb: "(j, b) \<in> set l" and "(acc_apiGroup b, vs, acc_name b) \<in> insert (access_rule a) C"
    moreover have "(acc_apiGroup b, vs, acc_name b) \<notin> C" using Cons.prems(3) jb by auto
    ultimately have "(acc_apiGroup b, acc_name b) = (acc_apiGroup a, acc_name a)"
      by (auto simp: access_rule_def)
    with jb have "(acc_apiGroup a, acc_name a) \<in> set (map (\<lambda>(k, a). (acc_apiGroup a, acc_name a)) l)"
      by force
    then show False using Cons.prems(4) x by simp
  qed
  have "rd_table.table (fold (\<lambda>(k, access). addAccessRule access) l (addAccessRule a rules))
      (insert (access_rule a) C \<union> access_rule ` snd ` set l)"
    using Cons.prems by (intro Cons.IH [OF t _ new]) auto
  then show ?case using x by simp
qed simp

text \<open>From the triples to the rules: the verbs of a resource are those of all its versions.\<close>

definition rd_rules :: "(string \<times> string \<times> string) set \<Rightarrow> (string \<times> string list \<times> string) set" where
  "rd_rules T = (\<lambda>(g, n, v). (g, sorted_list_of_set {v. (g, n, v) \<in> T}, n)) ` T"

lemma access_table_rules:
  assumes t: "access_table m T"
  shows "access_rule ` snd ` set m = rd_rules T"
proof (intro equalityI subsetI)
  fix x assume "x \<in> access_rule ` snd ` set m"
  then obtain k a where ka: "(k, a) \<in> set m" and x: "x = access_rule a" by auto
  then have "map_of m k = Some a" using t by (simp add: access_table_def in_mwf)
  with t have h: "mwf (acc_verbs a)" "acc_verbs a \<noteq> []"
      "fst ` set (acc_verbs a) = {v. (acc_apiGroup a, acc_name a, v) \<in> T}"
    unfolding access_table_def by blast+
  then obtain v where "(acc_apiGroup a, acc_name a, v) \<in> T"
    by (metis (mono_tags, lifting) empty_Collect_eq image_is_empty set_empty2)
  moreover have "x = (acc_apiGroup a, sorted_list_of_set {v. (acc_apiGroup a, acc_name a, v) \<in> T},
      acc_name a)"
    using x h by (simp add: access_rule_def sort_keys)
  ultimately show "x \<in> rd_rules T" unfolding rd_rules_def by force
next
  fix x assume "x \<in> rd_rules T"
  then obtain g n v where T: "(g, n, v) \<in> T"
    and x: "x = (g, sorted_list_of_set {v. (g, n, v) \<in> T}, n)" by (auto simp: rd_rules_def)
  then obtain a where a: "map_of m (g @ ''|'' @ n) = Some a" "CHR ''|'' \<notin> set g"
    using access_in [OF t T] by auto
  with access_lookup [OF t a(2), of n] have "access_rule a = x"
    using x by (simp add: access_rule_def sort_keys)
  moreover have "(g @ ''|'' @ n, a) \<in> set m" using a t by (simp add: access_table_def in_mwf)
  ultimately show "x \<in> access_rule ` snd ` set m" by force
qed

lemma access_table_distinct:
  assumes t: "access_table m T"
  shows "distinct (map (\<lambda>(k, a). (acc_apiGroup a, acc_name a)) m)"
proof -
  have "distinct (map fst m)" using t by (simp add: access_table_def mwf_def)
  moreover have "fst x = acc_apiGroup (snd x) @ ''|'' @ acc_name (snd x)" if "x \<in> set m" for x
  proof -
    have "map_of m (fst x) = Some (snd x)" using that t by (simp add: access_table_def flip: in_mwf)
    then show ?thesis using t unfolding access_table_def by blast
  qed
  ultimately show ?thesis
    unfolding distinct_map inj_on_def by (auto simp: case_prod_unfold)
qed

definition triples_ok :: "(string \<times> string \<times> string) set \<Rightarrow> bool" where
  "triples_ok T \<longleftrightarrow> (\<forall>(g, n, v) \<in> T. CHR '','' \<notin> set v \<and> CHR '' '' \<notin> set v)"

lemma buildPolicyRulesByAPIGroupAndVerbs_table:
  assumes t: "access_table m T" and ok: "triples_ok T"
  shows "rd_table.table (buildPolicyRulesByAPIGroupAndVerbs m) (rd_rules T)"
proof -
  have "access_ok a" if "(k, a) \<in> set m" for k a
  proof -
    have "map_of m k = Some a" using that t by (simp add: access_table_def in_mwf)
    with t have h: "CHR ''|'' \<notin> set (acc_apiGroup a)" "acc_verbs a \<noteq> []"
        "fst ` set (acc_verbs a) = {v. (acc_apiGroup a, acc_name a, v) \<in> T}"
      unfolding access_table_def by blast+
    moreover have "CHR '','' \<notin> set v \<and> CHR '' '' \<notin> set v" if "v \<in> fst ` set (acc_verbs a)" for v
      using that ok h(3) by (auto simp: triples_ok_def)
    ultimately show ?thesis by (simp add: access_ok_def key_ok_def)
  qed
  then have "rd_table.table (fold (\<lambda>(k, access). addAccessRule access) m [])
      ({} \<union> access_rule ` snd ` set m)"
    by (intro buildPolicyRules_table rd_table.table_empty access_table_distinct [OF t]) auto
  then show ?thesis
    unfolding buildPolicyRulesByAPIGroupAndVerbs_def using access_table_rules [OF t] by simp
qed

lemma all_contribs_rd_ok: "discovery_ok parseGV apis \<Longrightarrow>
    triples_ok (all_contribs (rd_contrib spec) parseGV apis)"
  unfolding triples_ok_def all_contribs_iff Ball_def
  by (auto simp: rd_contrib_def rd_permits_def discovery_ok_def api_names_ok_def)

lemma access_table_empty: "access_table [] {}"
  by (simp add: access_table_def)

lemma rd_filter_table:
  assumes "filterAPIResourcesForRoleDefinition parseGV rd apis = Inr rules"
    and ok: "discovery_ok parseGV apis"
  shows "rd_table.table rules (rd_rules (all_contribs (rd_contrib (rd_Spec rd)) parseGV apis))"
proof -
  obtain m where m: "rdCollect parseGV rd apis [] = Inr m"
      and r: "rules = buildPolicyRulesByAPIGroupAndVerbs m"
    using assms(1) by (auto simp: filterAPIResourcesForRoleDefinition_def split: sum.splits)
  from rdCollect_table [OF m access_table_empty ok]
  have "access_table m (all_contribs (rd_contrib (rd_Spec rd)) parseGV apis)" by simp
  then show ?thesis
    unfolding r by (rule buildPolicyRulesByAPIGroupAndVerbs_table) (rule all_contribs_rd_ok [OF ok])
qed

lemma buildFinalRules_lists:
  assumes t: "rd_table.table rules C"
  shows "lists_access (buildFinalRules rd rules) g n v \<longleftrightarrow> (\<exists>vs. (g, vs, n) \<in> C \<and> v \<in> set vs)"
proof -
  have "map (sortRuleAll \<circ> snd) rules = map (sortRule \<circ> snd) rules"
    by (rule map_cong) (auto elim!: rd_table.table_canon [OF t])
  then have "lists_access (buildFinalRules rd rules) g n v \<longleftrightarrow>
      lists_access (map (sortRule \<circ> snd) rules) g n v"
    by (auto simp: buildFinalRules_def lists_access_def metricsRule_def sortRuleAll_def)
  then show ?thesis using rd_table.table_final_lists [OF t] by simp
qed

lemma rd_rules_verbs:
  assumes fin: "\<forall>g n. finite {v. (g, n, v) \<in> T}"
  shows "(\<exists>vs. (g, vs, n) \<in> rd_rules T \<and> v \<in> set vs) \<longleftrightarrow> (g, n, v) \<in> T"
proof -
  have "(g, vs, n) \<in> rd_rules T \<longleftrightarrow>
      vs = sorted_list_of_set {v. (g, n, v) \<in> T} \<and> (\<exists>v. (g, n, v) \<in> T)" for vs
    by (force simp: rd_rules_def)
  then show ?thesis using fin by auto
qed

lemma finite_contribs: "finite (all_contribs (rd_contrib spec) parseGV apis)"
proof -
  have "finite (rd_contrib spec gv ress)" for gv ress
  proof (rule finite_subset)
    show "rd_contrib spec gv ress \<subseteq>
        (\<Union>res \<in> set ress. (\<lambda>v. (gv_Group gv, ar_Name res, v)) ` set (ar_Verbs res))"
      by (auto simp: rd_contrib_def rd_permits_def)
  qed simp
  then show ?thesis by (auto simp: all_contribs_def split: sum.splits)
qed

lemma discoverAndFilterResources_exact:
  assumes gen: "discoverAndFilterResources parseGV (Discovered apis) rd = Generated rules"
    and ok: "discovery_ok parseGV apis"
  shows "lists_access rules g n v \<longleftrightarrow>
    (\<exists>gv res. serves parseGV apis gv res \<and> gv_Group gv = g \<and> ar_Name res = n \<and>
       rd_permits (rd_Spec rd) gv res v)"
proof -
  let ?T = "all_contribs (rd_contrib (rd_Spec rd)) parseGV apis"
  obtain m where m: "filterAPIResourcesForRoleDefinition parseGV rd apis = Inr m"
      and rules: "rules = buildFinalRules rd m"
    using gen by (auto simp: discoverAndFilterResources_def split: sum.splits)
  have "finite {v. (g, n, v) \<in> ?T}" for g n
    by (rule finite_subset [OF _ finite_imageI [OF finite_contribs [of "rd_Spec rd" parseGV apis],
            of "\<lambda>(g, n, v). v"]]) force
  then have "lists_access rules g n v \<longleftrightarrow> (g, n, v) \<in> ?T"
    unfolding rules buildFinalRules_lists [OF rd_filter_table [OF m ok]]
    by (intro rd_rules_verbs) blast
  also have "\<dots> \<longleftrightarrow> (\<exists>gv res. serves parseGV apis gv res \<and> gv_Group gv = g \<and> ar_Name res = n \<and>
       rd_permits (rd_Spec rd) gv res v)"
    unfolding all_contribs_iff rd_contrib_def serves_def by blast
  finally show ?thesis .
qed

section \<open>Properties\<close>

text \<open>
  What a specification leaves of a served resource, with the meaning of patterns instead of the matchers: a plain
  resource name stands for its subresources, an entry of \<^verbatim>\<open>restrictedApis\<close> applies to its versions, or to all
  of them when it names none, and blocks its verbs, or the group when it names none.
\<close>

definition rrd_leaves :: "RestrictedRoleDefinitionSpec \<Rightarrow> GroupVersion \<Rightarrow> APIResource \<Rightarrow> string \<Rightarrow> bool" where
  "rrd_leaves spec gv res v \<longleftrightarrow>
     v \<in> set (ar_Verbs res) \<and> ar_Namespaced res = rrds_ScopeNamespaced spec \<and>
     v \<notin> set (rrds_RestrictedVerbs spec) \<and> ''*'' \<notin> set (rrds_RestrictedVerbs spec) \<and>
     \<not> (\<exists>r \<in> set (rrds_RestrictedResources spec). (ar_Group r = '''' \<or> glob (ar_Group r) (gv_Group gv)) \<and>
         (glob (ar_Name r) (ar_Name res) \<or>
          star \<notin> set (ar_Name r) \<and> (\<exists>sub. ar_Name res = ar_Name r @ ''/'' @ sub))) \<and>
     \<not> (\<exists>api \<in> set (rrds_RestrictedAPIs spec). glob (rag_Name api) (gv_Group gv) \<and>
         (rag_Versions api = [] \<or> gv_Version gv \<in> set (rag_Versions api)) \<and>
         (rag_Verbs api = [] \<or> v \<in> set (rag_Verbs api) \<or> ''*'' \<in> set (rag_Verbs api)))"

lemma rrd_permits_leaves: "rrd_permits spec gv res v \<longleftrightarrow> rrd_leaves spec gv res v"
  unfolding rrd_permits_def rrd_leaves_def rrd_resource_open_def verb_in_def entryApplies_def MatchesAPIGroup_def
    MatchesResourceName_iff MatchesWildcard_glob
  by blast

text \<open>
  Property C18 (rrd_rules_exact): let the entries of \<^verbatim>\<open>restrictedApis\<close> of a RestrictedRoleDefinition name different
  groups, as its webhook enforces, and let discovery serve plain names. The rules generated for it list a verb
  on a resource of a group exactly when discovery serves it in some version, the resource has the requested
  scope and no restricted resource covers it, the verb is not restricted globally, and no entry of
  \<^verbatim>\<open>restrictedApis\<close> that applies to that group and version blocks the group or the verb. Nothing is lost and
  nothing is added by collecting, merging and sorting.
\<close>

theorem rrd_rules_exact:
  assumes "rrdDiscoverAndFilter parseGV (Discovered apis) rrd = Generated rules"
    and "discovery_ok parseGV apis" and "distinct (map rag_Name (rrds_RestrictedAPIs (rrd_Spec rrd)))"
  shows "lists_access rules g n v \<longleftrightarrow>
    (\<exists>gv res. serves parseGV apis gv res \<and> gv_Group gv = g \<and> ar_Name res = n \<and>
       rrd_leaves (rrd_Spec rrd) gv res v)"
  using rrdDiscoverAndFilter_exact [OF assms(1, 2)] by (simp add: rrd_permits_leaves)

definition mini_gv :: parse_gv where
  "mini_gv s = Inr \<lparr>gv_Group = '''', gv_Version = s\<rparr>"

definition mini_apis :: APIResourcesByGroupVersion where
  "mini_apis = [(''v1'',
     [\<lparr>ar_Name = ''pods'', ar_Group = '''', ar_Namespaced = True, ar_Verbs = [''list'', ''get'', ''delete'']\<rparr>,
      \<lparr>ar_Name = ''configmaps'', ar_Group = '''', ar_Namespaced = True, ar_Verbs = [''list'', ''get'']\<rparr>,
      \<lparr>ar_Name = ''nodes'', ar_Group = '''', ar_Namespaced = False, ar_Verbs = [''get'']\<rparr>]),
     (''v2'', [\<lparr>ar_Name = ''pods'', ar_Group = '''', ar_Namespaced = True, ar_Verbs = [''watch'']\<rparr>])]"

definition mini_rrd :: RestrictedRoleDefinition where
  "mini_rrd = \<lparr>rrd_Name = ''viewer'', rrd_Spec =
     \<lparr>rrds_PolicyRef = ''tenant'', rrds_TargetRole = ''ClusterRole'', rrds_TargetName = ''viewer'',
      rrds_TargetNamespace = '''', rrds_ScopeNamespaced = True,
      rrds_RestrictedAPIs = [\<lparr>rag_Name = ''*'', rag_Versions = [''v2''], rag_Verbs = []\<rparr>],
      rrds_RestrictedResources = [], rrds_RestrictedVerbs = [''delete''],
      rrds_ConstrainedImpersonation = None\<rparr>\<rparr>"

definition mini_rules :: "PolicyRule list" where
  "mini_rules = [\<lparr>pr_Verbs = [''get'', ''list''], pr_APIGroups = [''''],
     pr_Resources = [''configmaps'', ''pods''], pr_ResourceNames = [], pr_NonResourceURLs = []\<rparr>]"

lemma mini_generates: "rrdDiscoverAndFilter mini_gv (Discovered mini_apis) mini_rrd = Generated mini_rules"
  by code_simp

lemma mini_discovery: "discovery_ok mini_gv mini_apis"
  by (simp add: discovery_ok_def mini_apis_def mini_gv_def api_names_ok_def)

theorem rrd_rules_exact_witness:
  "lists_access mini_rules '''' ''pods'' ''get'' \<and>
   (\<exists>gv res. serves mini_gv mini_apis gv res \<and> gv_Group gv = '''' \<and> ar_Name res = ''pods'' \<and>
      rrd_leaves (rrd_Spec mini_rrd) gv res ''get'')"
proof -
  have access: "lists_access mini_rules '''' ''pods'' ''get''"
    by (simp add: lists_access_def mini_rules_def)
  have "distinct (map rag_Name (rrds_RestrictedAPIs (rrd_Spec mini_rrd)))" by (simp add: mini_rrd_def)
  from rrd_rules_exact [OF mini_generates mini_discovery this, of "''''" "''pods''" "''get''"] access show ?thesis
    by blast
qed

text \<open>
  Go visits the discovery map in an unspecified order. Whatever
  the order, the generated rules are the same list, so that reconciling twice never rewrites a role
  for the order alone.
\<close>

theorem rrd_rules_order_free:
  assumes "rrdDiscoverAndFilter parseGV (Discovered apis) rrd = Generated rules"
    and "discovery_ok parseGV apis" and "set apis' = set apis"
  shows "rrdDiscoverAndFilter parseGV (Discovered apis') rrd = Generated rules"
  using assms by (rule rrdDiscover_order_free)

theorem rrd_rules_order_free_witness:
  "rev mini_apis \<noteq> mini_apis \<and>
   rrdDiscoverAndFilter mini_gv (Discovered (rev mini_apis)) mini_rrd = Generated mini_rules"
proof
  show "rev mini_apis \<noteq> mini_apis" by (simp add: mini_apis_def)
  show "rrdDiscoverAndFilter mini_gv (Discovered (rev mini_apis)) mini_rrd = Generated mini_rules"
    by (rule rrd_rules_order_free [OF mini_generates mini_discovery set_rev])
qed

text \<open>
  The resource rules generated for a RoleDefinition list a verb on a
  resource of a group exactly when discovery serves it in some version, the resource has the
  requested scope and no restricted resource covers it in its group, the verb is not restricted
  globally, and the first entry of \<^verbatim>\<open>restrictedApis\<close> that applies to that group and version, if there
  is one, blocks neither the group nor the verb.
\<close>

theorem rd_rules_exact:
  assumes "discoverAndFilterResources parseGV (Discovered apis) rd = Generated rules"
    and "discovery_ok parseGV apis"
  shows "lists_access rules g n v \<longleftrightarrow>
    (\<exists>gv res. serves parseGV apis gv res \<and> gv_Group gv = g \<and> ar_Name res = n \<and>
       rd_permits (rd_Spec rd) gv res v)"
  using assms by (rule discoverAndFilterResources_exact)

definition mini_rd :: RoleDefinition where
  "mini_rd = \<lparr>rd_Name = ''viewer'', rd_Spec =
     \<lparr>rds_TargetRole = ''ClusterRole'', rds_TargetName = ''viewer'', rds_TargetNamespace = '''',
      rds_ScopeNamespaced = True,
      rds_RestrictedAPIs = [\<lparr>rag_Name = ''*'', rag_Versions = [], rag_Verbs = [''delete'']\<rparr>,
        \<lparr>rag_Name = '''', rag_Versions = [], rag_Verbs = []\<rparr>],
      rds_RestrictedResources = [], rds_RestrictedVerbs = [], rds_BreakglassAllowed = False,
      rds_MetricsAccessAllowed = True, rds_AggregationLabels = [], rds_AggregateFrom = None,
      rds_ConstrainedImpersonation = None\<rparr>\<rparr>"

definition mini_rd_rules :: "PolicyRule list" where
  "mini_rd_rules = [\<lparr>pr_Verbs = [''get'', ''list''], pr_APIGroups = [''''],
      pr_Resources = [''configmaps''], pr_ResourceNames = [], pr_NonResourceURLs = []\<rparr>,
    \<lparr>pr_Verbs = [''get'', ''list'', ''watch''], pr_APIGroups = [''''], pr_Resources = [''pods''],
      pr_ResourceNames = [], pr_NonResourceURLs = []\<rparr>, metricsRule]"

lemma mini_rd_generates:
  "discoverAndFilterResources mini_gv (Discovered mini_apis) mini_rd = Generated mini_rd_rules"
  by code_simp

lemma mini_rd_lists: "lists_access mini_rd_rules '''' ''pods'' ''watch''"
  by (simp add: lists_access_def mini_rd_rules_def)

theorem rd_rules_exact_witness:
  "lists_access mini_rd_rules '''' ''pods'' ''watch'' \<and>
   (\<exists>gv res. serves mini_gv mini_apis gv res \<and> gv_Group gv = '''' \<and> ar_Name res = ''pods'' \<and>
      rd_permits (rd_Spec mini_rd) gv res ''watch'')"
  using rd_rules_exact [OF mini_rd_generates mini_discovery, of "''''" "''pods''" "''watch''"]
    mini_rd_lists by blast

text \<open>
  The two controllers read \<^verbatim>\<open>restrictedApis\<close> differently. Two
  entries apply to the core group, the first removing one verb and the second blocking the group:
  the RestrictedRoleDefinition controller adds restrictions up and generates nothing, the
  RoleDefinition controller stops at the first entry and still grants access to pods.
\<close>

theorem restriction_order_differs:
  "rrdDiscoverAndFilter mini_gv (Discovered mini_apis) (mini_rrd\<lparr>rrd_Spec := (rrd_Spec mini_rrd)
       \<lparr>rrds_RestrictedAPIs := rds_RestrictedAPIs (rd_Spec mini_rd)\<rparr>\<rparr>) = Generated [] \<and>
   (\<exists>rules. discoverAndFilterResources mini_gv (Discovered mini_apis) mini_rd = Generated rules \<and>
      lists_access rules '''' ''pods'' ''watch'')"
proof
  show "\<exists>rules. discoverAndFilterResources mini_gv (Discovered mini_apis) mini_rd = Generated rules \<and>
      lists_access rules '''' ''pods'' ''watch''"
    using mini_rd_generates mini_rd_lists by blast
qed code_simp

end
