(* ===== verification/Role_Safety.thy ===== *)
theory Role_Safety
  imports Role_Policy Role_Generation
begin

text \<open>
  Evaluation meets generation: a RestrictedRoleDefinition that its policy accepts
  (\<^verbatim>\<open>Role_Policy\<close>) generates no rule (\<^verbatim>\<open>Role_Generation\<close>) the policy forbids.
\<close>

section \<open>From policy evaluation to generated rules\<close>

text \<open>
  What evaluation checks on the text of a definition is what generation needs on the discovered
  names, because matching is transitive: a restriction that matches a forbidden pattern matches
  every name of the pattern.
\<close>

lemma restricted_group_blocks:
  assumes "isAPIGroupFullyRestricted rrd pattern" and "MatchesWildcard pattern (gv_Group gv)"
  shows "\<not> rrd_permits (rrd_Spec rrd) gv res v"
proof -
  from assms(1) obtain api where api: "api \<in> set (rrds_RestrictedAPIs (rrd_Spec rrd))"
      "MatchesWildcard (rag_Name api) pattern" "rag_Versions api = []" "rag_Verbs api = []"
    by (auto simp: restriction_defs MatchesAPIGroup_def)
  then have "entryApplies api gv"
    using MatchesWildcard_trans [OF _ assms(2)] by (simp add: entryApplies_def MatchesAPIGroup_def)
  with api show ?thesis by (auto simp: rrd_permits_def)
qed

lemma restricted_group_verb_blocks:
  assumes "isAPIGroupVerbRestricted rrd pattern v" and "MatchesWildcard pattern (gv_Group gv)"
  shows "\<not> rrd_permits (rrd_Spec rrd) gv res v"
proof -
  from assms(1) obtain api where api: "api \<in> set (rrds_RestrictedAPIs (rrd_Spec rrd))"
      "MatchesWildcard (rag_Name api) pattern" "rag_Versions api = []"
      "v \<in> set (rag_Verbs api) \<or> ''*'' \<in> set (rag_Verbs api)"
    by (auto simp: restriction_defs MatchesAPIGroup_def)
  then have "entryApplies api gv"
    using MatchesWildcard_trans [OF _ assms(2)] by (simp add: entryApplies_def MatchesAPIGroup_def)
  with api show ?thesis by (auto simp: rrd_permits_def verb_in_def)
qed

text \<open>A restriction of the verb \<^verbatim>\<open>*\<close> removes every verb.\<close>

lemma verb_removed_blocks:
  assumes "verb_removed rrd pattern w" "w = v \<or> w = ''*''" and "MatchesWildcard pattern (gv_Group gv)"
  shows "\<not> rrd_permits (rrd_Spec rrd) gv res v"
proof -
  have "isAPIGroupVerbRestricted rrd pattern v" if "isAPIGroupVerbRestricted rrd pattern w"
    using that assms(2) by (auto simp: isAPIGroupVerbRestricted_def list_ex_iff)
  then show ?thesis
    using assms restricted_group_verb_blocks [OF _ assms(3), of rrd v res]
    by (auto simp: verb_removed_def rrd_permits_def verb_in_def)
qed

lemma restricted_resource_blocks:
  assumes "isResourceExcludedForGroup rrd pattern g" and "MatchesWildcard pattern (ar_Name res)"
    and "MatchesWildcard g (gv_Group gv)"
  shows "\<not> rrd_permits (rrd_Spec rrd) gv res v"
proof -
  from assms(1) obtain rr where rr: "rr \<in> set (rrds_RestrictedResources (rrd_Spec rrd))"
      "MatchesResourceName (ar_Name rr) pattern" "APIGroupRestrictionCovers (ar_Group rr) g"
    by (auto simp: restriction_defs)
  have "MatchesResourceName (ar_Name rr) (ar_Name res)"
    using MatchesResourceName_covers [OF rr(2) assms(2)] .
  moreover have "ar_Group rr = '''' \<or> MatchesAPIGroup (ar_Group rr) (gv_Group gv)"
    using rr(3) MatchesWildcard_trans [OF _ assms(3)]
    by (auto simp: APIGroupRestrictionCovers_def MatchesAPIGroup_def split: if_splits)
  ultimately show ?thesis using rr(1) by (auto simp: rrd_permits_def rrd_resource_open_def)
qed

lemma fully_restricted_excluded:
  "isResourceFullyRestricted rrd pattern \<Longrightarrow> isResourceExcludedForGroup rrd pattern ''*''"
  by (auto simp: restriction_defs)

lemmas restrictions_block = restricted_group_blocks restricted_group_verb_blocks
  restricted_resource_blocks fully_restricted_excluded

text \<open>
  What a role must not contain under the limits of a policy. An API group or resource is forbidden when a
  pattern of the policy matches it. For discovered verbs a list of verbs forbids the verbs it lists, and every
  verb when it lists \<^verbatim>\<open>*\<close>. For the verbs of an impersonation grant every entry is a pattern, as documented for
  \<^verbatim>\<open>impersonate:*\<close> and \<^verbatim>\<open>impersonate-on:*\<close>; a rule on all groups lies in every group, and a plain resource
  name stands for its subresources as well.
\<close>

definition place_forbidden :: "RoleLimits \<Rightarrow> string \<Rightarrow> string \<Rightarrow> bool" where
  "place_forbidden limits g n \<longleftrightarrow>
     (\<exists>p \<in> set (rl_ForbiddenAPIGroups limits). glob p g) \<or>
     (\<exists>p \<in> set (rl_ForbiddenResources limits). glob p n)"

definition verb_listed :: "string list \<Rightarrow> string \<Rightarrow> bool" where
  "verb_listed verbs v \<longleftrightarrow> v \<in> set verbs \<or> ''*'' \<in> set verbs"

definition verb_forbidden :: "RoleLimits \<Rightarrow> string \<Rightarrow> string \<Rightarrow> string \<Rightarrow> bool" where
  "verb_forbidden limits g n v \<longleftrightarrow>
     verb_listed (rl_ForbiddenVerbs limits) v \<or>
     (\<exists>f \<in> set (rl_ForbiddenResourceVerbs limits).
        glob (rvr_APIGroup f) g \<and> glob (rvr_Resource f) n \<and> verb_listed (rvr_Verbs f) v)"

definition verb_pattern_forbidden :: "RoleLimits \<Rightarrow> string \<Rightarrow> string \<Rightarrow> string \<Rightarrow> bool" where
  "verb_pattern_forbidden limits g n v \<longleftrightarrow>
     (\<exists>p \<in> set (rl_ForbiddenVerbs limits). glob p v) \<or>
     (\<exists>f \<in> set (rl_ForbiddenResourceVerbs limits).
        (glob (rvr_APIGroup f) g \<or> g = ''*'') \<and>
        (glob (rvr_Resource f) n \<or> star \<notin> set (rvr_Resource f) \<and> (\<exists>sub. n = rvr_Resource f @ ''/'' @ sub)) \<and>
        (\<exists>p \<in> set (rvr_Verbs f). glob p v))"

text \<open>The rules of a role that are safe under the limits: discovered ones, and those of a grant.\<close>

definition discovered_safe :: "RoleLimits \<Rightarrow> PolicyRule list \<Rightarrow> bool" where
  "discovered_safe limits rules \<longleftrightarrow>
     (\<forall>g n v. lists_access rules g n v \<longrightarrow> \<not> verb_forbidden limits g n v \<and> \<not> place_forbidden limits g n)"

definition granted_safe :: "RoleLimits \<Rightarrow> PolicyRule list \<Rightarrow> bool" where
  "granted_safe limits rules \<longleftrightarrow>
     (\<forall>g n v. lists_access rules g n v \<longrightarrow> IsImpersonationVerb v \<and> \<not> verb_pattern_forbidden limits g n v)"

lemma limits_block:
  assumes "role_limits_hold limits rrd"
    and "place_forbidden limits (gv_Group gv) (ar_Name res) \<or>
      verb_forbidden limits (gv_Group gv) (ar_Name res) v"
  shows "\<not> rrd_permits (rrd_Spec rrd) gv res v"
proof -
  note hold = assms(1) [unfolded role_limits_hold_def]
  from assms(2) consider "verb_listed (rl_ForbiddenVerbs limits) v"
    | p where "p \<in> set (rl_ForbiddenAPIGroups limits)" "MatchesWildcard p (gv_Group gv)"
    | p where "p \<in> set (rl_ForbiddenResources limits)" "MatchesWildcard p (ar_Name res)"
    | f w where "f \<in> set (rl_ForbiddenResourceVerbs limits)" "MatchesWildcard (rvr_APIGroup f) (gv_Group gv)"
        "MatchesWildcard (rvr_Resource f) (ar_Name res)" "w \<in> set (rvr_Verbs f)" "w = v \<or> w = ''*''"
    by (auto simp: place_forbidden_def verb_forbidden_def verb_listed_def MatchesWildcard_glob)
  then show ?thesis
  proof cases
    case 1
    with hold show ?thesis by (auto simp: rrd_permits_def verb_in_def verb_listed_def)
  next
    case 2
    with hold restrictions_block show ?thesis by blast
  next
    case 3
    with hold have "isResourceExcludedForGroup rrd p ''*''" using fully_restricted_excluded by blast
    then show ?thesis by (rule restricted_resource_blocks [OF _ 3(2)]) simp
  next
    case 4
    with hold consider "isResourceExcludedForGroup rrd (rvr_Resource f) (rvr_APIGroup f)"
      | "isAPIGroupExcluded rrd (rvr_APIGroup f)" | "verb_removed rrd (rvr_APIGroup f) w" by blast
    then show ?thesis
    proof cases
      case 1
      then show ?thesis using 4 restricted_resource_blocks by blast
    next
      case 2
      then have "isAPIGroupFullyRestricted rrd (rvr_APIGroup f)" by (simp add: restriction_defs)
      then show ?thesis using 4 restricted_group_blocks by blast
    next
      case 3
      then show ?thesis using 4 by (intro verb_removed_blocks)
    qed
  qed
qed

lemma generated_not_forbidden:
  assumes "generated_verbs_ok limits rules" and "lists_access rules g n v"
  shows "\<not> verb_pattern_forbidden limits g n v"
proof -
  from assms obtain rule where rule: "rule \<in> set rules" "g \<in> set (pr_APIGroups rule)"
      "n \<in> set (pr_Resources rule)" "v \<in> set (pr_Verbs rule)" and
    ok: "\<not> (\<exists>p \<in> set (rl_ForbiddenVerbs limits). glob p v)"
      "\<forall>f \<in> set (rl_ForbiddenResourceVerbs limits). \<not> resource_verb_hits f rule v"
    unfolding lists_access_def generated_verbs_ok_def by blast
  have "resource_verb_hits f rule v"
    if "glob (rvr_APIGroup f) g \<or> g = ''*''" "MatchesResourceName (rvr_Resource f) n"
      "\<exists>p \<in> set (rvr_Verbs f). glob p v" for f
  proof -
    have "APIGroupRestrictionCovers (rvr_APIGroup f) g \<or> g = ''*''"
      using that(1) by (auto simp: APIGroupRestrictionCovers_def MatchesAPIGroup_def MatchesWildcard_glob)
    then show ?thesis using that(2, 3) rule unfolding resource_verb_hits_def by blast
  qed
  with ok show ?thesis unfolding verb_pattern_forbidden_def MatchesResourceName_iff [symmetric] by blast
qed

lemma lists_access_append:
  "lists_access (rs @ rs') g n v \<longleftrightarrow> lists_access rs g n v \<or> lists_access rs' g n v"
  by (auto simp: lists_access_def)

lemma generated_impersonation:
  assumes "BuildConstrainedImpersonationRules (Some spec) = Inr rules" and "lists_access rules g n v"
  shows "IsImpersonationVerb v"
proof -
  from assms(2) obtain r where "r \<in> set rules" "v \<in> set (pr_Verbs r)" by (auto simp: lists_access_def)
  with assms(1) show ?thesis
    by (auto elim!: Build_rule_cases [OF assms(1)] simp: identity_rule_def action_rule_def)
qed

lemma compliant_grant:
  assumes "role_limits_hold limits rrd" and "rrds_ConstrainedImpersonation (rrd_Spec rrd) = Some spec"
  obtains rules where "BuildConstrainedImpersonationRules (Some spec) = Inr rules"
    and "generated_verbs_ok limits rules"
proof -
  have "grant_complies limits (rrds_RestrictedVerbs (rrd_Spec rrd)) spec"
    using assms by (simp add: role_limits_hold_def)
  then show thesis using that by (auto simp only: grant_complies_def)
qed

section \<open>Sample objects\<close>

text \<open>A policy, a definition that complies with it and a small discovery.\<close>

definition sample_limits :: RoleLimits where
  "sample_limits = \<lparr>rl_AllowClusterRoles = True, rl_ForbiddenVerbs = [''escalate''],
     rl_ForbiddenResources = [''secrets''], rl_ForbiddenAPIGroups = [''*.internal''],
     rl_ForbiddenResourceVerbs = [\<lparr>rvr_Resource = ''pods'', rvr_APIGroup = '''', rvr_Verbs = [''delete'']\<rparr>],
     rl_MaxRulesPerRole = Some 5, rl_ConstrainedImpersonation = None\<rparr>"

definition sample_policy :: RBACPolicy where
  "sample_policy = \<lparr>policy_Name = ''tenant'', policy_Spec =
     \<lparr>ps_AppliesTo = \<lparr>scope_NamespaceSelector = None, scope_Namespaces = [''*'']\<rparr>,
      ps_BindingLimits = None, ps_RoleLimits = Some sample_limits, ps_SubjectLimits = None,
      ps_DefaultAssignment = None, ps_Impersonation = None\<rparr>\<rparr>"

definition sample_rrd :: RestrictedRoleDefinition where
  "sample_rrd = \<lparr>rrd_Name = ''viewer'', rrd_Spec =
     \<lparr>rrds_PolicyRef = ''tenant'', rrds_TargetRole = ''ClusterRole'', rrds_TargetName = ''viewer'',
      rrds_TargetNamespace = '''', rrds_ScopeNamespaced = True,
      rrds_RestrictedAPIs = [\<lparr>rag_Name = ''*.internal'', rag_Versions = [], rag_Verbs = []\<rparr>],
      rrds_RestrictedResources = [\<lparr>ar_Name = ''secrets'', ar_Group = '''', ar_Namespaced = True, ar_Verbs = []\<rparr>],
      rrds_RestrictedVerbs = [''escalate'', ''delete''], rrds_ConstrainedImpersonation = None\<rparr>\<rparr>"

definition sample_gv :: parse_gv where
  "sample_gv s = (if s = ''v1'' then Inr \<lparr>gv_Group = '''', gv_Version = ''v1''\<rparr>
     else Inr \<lparr>gv_Group = ''a.internal'', gv_Version = ''v1''\<rparr>)"

definition sample_apis :: APIResourcesByGroupVersion where
  "sample_apis = [(''v1'',
     [\<lparr>ar_Name = ''pods'', ar_Group = '''', ar_Namespaced = True, ar_Verbs = [''get'', ''delete'']\<rparr>,
      \<lparr>ar_Name = ''secrets'', ar_Group = '''', ar_Namespaced = True, ar_Verbs = [''get'']\<rparr>]),
     (''a.internal/v1'',
     [\<lparr>ar_Name = ''keys'', ar_Group = '''', ar_Namespaced = True, ar_Verbs = [''get'']\<rparr>])]"

lemmas samples = sample_limits_def sample_policy_def sample_rrd_def sample_gv_def sample_apis_def

definition sample_rules :: "PolicyRule list" where
  "sample_rules = [\<lparr>pr_Verbs = [''get''], pr_APIGroups = [''''], pr_Resources = [''pods''],
     pr_ResourceNames = [], pr_NonResourceURLs = []\<rparr>]"

definition no_selectors :: selector_api where
  "no_selectors s = Inl ''unsupported''"

lemma sample_generates:
  "rrdDiscoverAndFilter sample_gv (Discovered sample_apis) sample_rrd = Generated sample_rules"
  by code_simp

lemma sample_complies:
  "EvaluateRoleDefinitionWithLabels no_selectors (Some sample_policy) (Some sample_rrd) None = []"
  by code_simp

lemma sample_discovery: "discovery_ok sample_gv sample_apis"
  by (simp add: discovery_ok_def sample_apis_def sample_gv_def api_names_ok_def)

section \<open>Properties\<close>

lemma compliant_discovered:
  assumes "role_limits_hold limits rrd" "rrdDiscoverAndFilter parseGV (Discovered apis) rrd = Generated discovered"
    and "discovery_ok parseGV apis"
  shows "discovered_safe limits discovered"
  unfolding discovered_safe_def
proof (intro allI impI)
  fix g n v assume "lists_access discovered g n v"
  then obtain gv res where "gv_Group gv = g" "ar_Name res = n" "rrd_permits (rrd_Spec rrd) gv res v"
    using rrdDiscoverAndFilter_exact [OF assms(2, 3)] by blast
  then show "\<not> verb_forbidden limits g n v \<and> \<not> place_forbidden limits g n"
    using limits_block [OF assms(1), of gv res v] by blast
qed

lemma compliant_safe:
  assumes "EvaluateRoleDefinitionWithLabels asSelector (Some policy) (Some rrd) lg = []"
    and "ps_RoleLimits (policy_Spec policy) = Some limits"
    and "rrdDiscoverAndFilter parseGV (Discovered apis) rrd = Generated discovered"
    and "discovery_ok parseGV apis"
    and "appendConstrainedImpersonationRules (rrds_ConstrainedImpersonation (rrd_Spec rrd)) discovered
           = Inr final"
  shows "\<exists>granted. final = discovered @ granted \<and> discovered_safe limits discovered \<and> granted_safe limits granted"
proof -
  have hold: "role_limits_hold limits rrd"
    using assms(1, 2) by (auto simp: EvaluateRoleDefinitionWithLabels_ok role_complies_def)
  note disc = compliant_discovered [OF hold assms(3, 4)]
  show ?thesis
  proof (cases "rrds_ConstrainedImpersonation (rrd_Spec rrd)")
    case None
    then have "final = discovered @ []" using assms(5) by (simp add: appendConstrainedImpersonationRules_def)
    moreover have "granted_safe limits []" by (simp add: granted_safe_def lists_access_def)
    ultimately show ?thesis using disc by blast
  next
    case (Some spec)
    obtain rules where rules: "BuildConstrainedImpersonationRules (Some spec) = Inr rules"
        "generated_verbs_ok limits rules"
      using compliant_grant [OF hold Some] .
    have "final = discovered @ rules"
      using assms(5) unfolding Some appendConstrainedImpersonationRules_def rules(1) by simp
    moreover have "granted_safe limits rules"
      using generated_not_forbidden [OF rules(2)] generated_impersonation [OF rules(1)]
      unfolding granted_safe_def by blast
    ultimately show ?thesis using disc by blast
  qed
qed

text \<open>
  Property C9 (compliant_role_is_safe): let a RestrictedRoleDefinition pass the evaluation of its
  policy, and take the rules the reconciler computes for it. They are the discovered rules followed by
  those of the impersonation grant. No discovered rule lists an API group or a resource that a forbidden
  pattern matches, nor a verb that the policy lists as forbidden, everywhere or at that place (\<^verbatim>\<open>*\<close> lists
  every verb). The rules of the grant list impersonation verbs only, and none that a forbidden verb matches
  as a pattern, everywhere or at that place. The rules of a grant are not compared with the forbidden API
  groups and resources (see \<open>grant_escapes_place_limits\<close>), and a pattern other than \<^verbatim>\<open>*\<close> among the
  forbidden verbs does not remove the discovered verbs it matches (see \<open>pattern_keeps_discovered_verb\<close>).
\<close>

theorem compliant_role_is_safe:
  assumes "EvaluateRoleDefinitionWithLabels asSelector (Some policy) (Some rrd) lg = []"
    and "ps_RoleLimits (policy_Spec policy) = Some limits"
    and "rrdDiscoverAndFilter parseGV (Discovered apis) rrd = Generated discovered"
    and "discovery_ok parseGV apis"
    and "appendConstrainedImpersonationRules (rrds_ConstrainedImpersonation (rrd_Spec rrd)) discovered
           = Inr final"
  shows "\<exists>granted. final = discovered @ granted \<and>
    (\<forall>g n v. lists_access discovered g n v \<longrightarrow> \<not> verb_forbidden limits g n v \<and> \<not> place_forbidden limits g n) \<and>
    (\<forall>g n v. lists_access granted g n v \<longrightarrow> IsImpersonationVerb v \<and> \<not> verb_pattern_forbidden limits g n v)"
  using compliant_safe [OF assms] unfolding discovered_safe_def granted_safe_def .

theorem compliant_role_is_safe_witness:
  "lists_access sample_rules '''' ''pods'' ''get'' \<and> \<not> verb_forbidden sample_limits '''' ''pods'' ''get'' \<and>
   verb_forbidden sample_limits '''' ''pods'' ''delete''"
proof -
  have access: "lists_access sample_rules '''' ''pods'' ''get''"
    by (simp add: lists_access_def sample_rules_def)
  have limits: "ps_RoleLimits (policy_Spec sample_policy) = Some sample_limits"
    by (simp add: sample_policy_def)
  have append: "appendConstrainedImpersonationRules (rrds_ConstrainedImpersonation (rrd_Spec sample_rrd))
      sample_rules = Inr sample_rules"
    by (simp add: appendConstrainedImpersonationRules_def sample_rrd_def)
  note safe = compliant_role_is_safe [OF sample_complies limits sample_generates sample_discovery append]
  have "verb_forbidden sample_limits '''' ''pods'' ''delete''"
    by (simp add: verb_forbidden_def verb_listed_def sample_limits_def)
  with access safe show ?thesis by blast
qed

lemma compliant_renders:
  assumes "EvaluateRoleDefinitionWithLabels asSelector (Some policy) (Some rrd) lg = []"
    and "\<forall>(k, ress) \<in> set apis. \<exists>gv. parseGV k = Inr gv"
  shows "\<exists>discovered generated. rrdDiscoverAndFilter parseGV (Discovered apis) rrd = Generated discovered \<and>
    appendConstrainedImpersonationRules (rrds_ConstrainedImpersonation (rrd_Spec rrd)) discovered =
      Inr (discovered @ generated)"
proof -
  obtain discovered where gen: "rrdDiscoverAndFilter parseGV (Discovered apis) rrd = Generated discovered"
    using assms(2) rrdCollect_total [of parseGV rrd apis "[]"] by (auto simp: rrdDiscoverAndFilter_def)
  show ?thesis
  proof (cases "rrds_ConstrainedImpersonation (rrd_Spec rrd)")
    case None
    then show ?thesis using gen by (auto simp: appendConstrainedImpersonationRules_def)
  next
    case (Some spec)
    obtain limits where "role_limits_hold limits rrd"
      using assms(1) by (auto simp: EvaluateRoleDefinitionWithLabels_ok role_complies_def)
    from compliant_grant [OF this Some] obtain rules where
      "BuildConstrainedImpersonationRules (Some spec) = Inr rules" by blast
    then show ?thesis
      using gen unfolding Some appendConstrainedImpersonationRules_def by simp
  qed
qed

text \<open>
  A definition that passes the evaluation of its policy can
  always be rendered: when every discovered group version parses, discovery yields rules and the
  impersonation rules are appended without an error, so that an accepted definition never gets stuck
  before its role is written.
\<close>

theorem compliant_role_renders:
  assumes "EvaluateRoleDefinitionWithLabels asSelector (Some policy) (Some rrd) lg = []"
    and "\<forall>(k, ress) \<in> set apis. \<exists>gv. parseGV k = Inr gv"
  shows "\<exists>discovered generated. rrdDiscoverAndFilter parseGV (Discovered apis) rrd = Generated discovered \<and>
    appendConstrainedImpersonationRules (rrds_ConstrainedImpersonation (rrd_Spec rrd)) discovered =
      Inr (discovered @ generated)"
  using assms by (rule compliant_renders)

theorem compliant_role_renders_witness:
  "\<exists>discovered generated. rrdDiscoverAndFilter sample_gv (Discovered sample_apis) sample_rrd = Generated discovered \<and>
    appendConstrainedImpersonationRules (rrds_ConstrainedImpersonation (rrd_Spec sample_rrd)) discovered =
      Inr (discovered @ generated)"
  by (rule compliant_role_renders [OF sample_complies]) (simp add: sample_apis_def sample_gv_def)

text \<open>
  The exception for impersonation rules in the first
  property is real. Under a policy that forbids the API group \<^verbatim>\<open>apps\<close> and allows grants, a definition
  with an action rule on deployments of that group is accepted, and the role it generates mentions
  the forbidden group.
\<close>

definition escape_limits :: RoleLimits where
  "escape_limits = \<lparr>rl_AllowClusterRoles = True, rl_ForbiddenVerbs = [], rl_ForbiddenResources = [],
     rl_ForbiddenAPIGroups = [''apps''], rl_ForbiddenResourceVerbs = [], rl_MaxRulesPerRole = None,
     rl_ConstrainedImpersonation = Some \<lparr>cil_Allowed = True, cil_AllowedModes = [],
       cil_AllowedIdentityResources = [], cil_IdentityNameLimits = None, cil_ForbiddenActionVerbs = [],
       cil_ForbidLegacyFallback = False, cil_MaxIdentityNames = None\<rparr>\<rparr>"

definition escape_policy :: RBACPolicy where
  "escape_policy = sample_policy\<lparr>policy_Spec := (policy_Spec sample_policy)
     \<lparr>ps_RoleLimits := Some escape_limits\<rparr>\<rparr>"

definition escape_rrd :: RestrictedRoleDefinition where
  "escape_rrd = sample_rrd\<lparr>rrd_Spec := (rrd_Spec sample_rrd)
     \<lparr>rrds_RestrictedAPIs := [\<lparr>rag_Name = ''apps'', rag_Versions = [], rag_Verbs = []\<rparr>],
      rrds_ConstrainedImpersonation := Some (sample_grant\<lparr>cis_Actions :=
        [\<lparr>iar_APIGroups = [''apps''], iar_Resources = [''deployments''], iar_ResourceNames = [],
          iar_Verbs = [''delete'']\<rparr>]\<rparr>)\<rparr>\<rparr>"

theorem grant_escapes_place_limits:
  "EvaluateRoleDefinitionWithLabels no_selectors (Some escape_policy) (Some escape_rrd) None = [] \<and>
   (\<exists>rules. appendConstrainedImpersonationRules (rrds_ConstrainedImpersonation (rrd_Spec escape_rrd)) [] =
        Inr rules \<and>
      lists_access rules ''apps'' ''deployments'' ''impersonate-on:user-info:delete'') \<and>
   place_forbidden escape_limits ''apps'' ''deployments''"
proof (intro conjI)
  show "EvaluateRoleDefinitionWithLabels no_selectors (Some escape_policy) (Some escape_rrd) None = []"
    by code_simp
  have "isKnownMode (cis_Mode sample_grant)" by code_simp
  then show "\<exists>rules. appendConstrainedImpersonationRules
      (rrds_ConstrainedImpersonation (rrd_Spec escape_rrd)) [] = Inr rules \<and>
      lists_access rules ''apps'' ''deployments'' ''impersonate-on:user-info:delete''"
    by (simp add: appendConstrainedImpersonationRules_def escape_rrd_def Build_rules lists_access_def
        action_rule_def sample_grant_def ActionVerb_def ImpersonateOnVerbPrefix_def bex_Un)
  show "place_forbidden escape_limits ''apps'' ''deployments''"
    by (simp add: place_forbidden_def escape_limits_def)
qed

text \<open>
  Two gaps of the verb limits. A pattern other than \<^verbatim>\<open>*\<close> among the forbidden verbs is satisfied by listing
  the pattern itself in \<^verbatim>\<open>restrictedVerbs\<close>, but generation removes listed verbs only: under a policy that
  forbids \<^verbatim>\<open>get*\<close> an accepted definition generates the verb \<^verbatim>\<open>get\<close>. And a combination of a resource and an
  impersonation verb that the policy forbids is not noticed in an action rule on all resources.
\<close>

definition pattern_limits :: RoleLimits where
  "pattern_limits = sample_limits\<lparr>rl_ForbiddenVerbs := [''get*'']\<rparr>"

definition pattern_rrd :: RestrictedRoleDefinition where
  "pattern_rrd = sample_rrd\<lparr>rrd_Spec := (rrd_Spec sample_rrd)\<lparr>rrds_RestrictedVerbs := [''get*'', ''delete'']\<rparr>\<rparr>"

theorem pattern_keeps_discovered_verb:
  "EvaluateRoleDefinitionWithLabels no_selectors
     (Some (sample_policy\<lparr>policy_Spec := (policy_Spec sample_policy)\<lparr>ps_RoleLimits := Some pattern_limits\<rparr>\<rparr>))
     (Some pattern_rrd) None = [] \<and>
   rrdDiscoverAndFilter sample_gv (Discovered sample_apis) pattern_rrd = Generated sample_rules \<and>
   lists_access sample_rules '''' ''pods'' ''get'' \<and> verb_pattern_forbidden pattern_limits '''' ''pods'' ''get''"
proof (intro conjI)
  show "EvaluateRoleDefinitionWithLabels no_selectors
     (Some (sample_policy\<lparr>policy_Spec := (policy_Spec sample_policy)\<lparr>ps_RoleLimits := Some pattern_limits\<rparr>\<rparr>))
     (Some pattern_rrd) None = []" by code_simp
  show "rrdDiscoverAndFilter sample_gv (Discovered sample_apis) pattern_rrd = Generated sample_rules" by code_simp
  show "lists_access sample_rules '''' ''pods'' ''get''" by (simp add: lists_access_def sample_rules_def)
  show "verb_pattern_forbidden pattern_limits '''' ''pods'' ''get''"
    by (simp add: verb_pattern_forbidden_def pattern_limits_def)
qed

definition combination_limits :: RoleLimits where
  "combination_limits = escape_limits\<lparr>rl_ForbiddenAPIGroups := [],
     rl_ForbiddenResourceVerbs := [\<lparr>rvr_Resource = ''deployments'', rvr_APIGroup = ''apps'',
       rvr_Verbs = [''impersonate-on:*'']\<rparr>]\<rparr>"

definition combination_rrd :: "string \<Rightarrow> RestrictedRoleDefinition" where
  "combination_rrd resource = sample_rrd\<lparr>rrd_Spec := (rrd_Spec sample_rrd)
     \<lparr>rrds_RestrictedVerbs := [''impersonate-on:*''],
      rrds_ConstrainedImpersonation := Some (sample_grant\<lparr>cis_Actions :=
        [\<lparr>iar_APIGroups = [''apps''], iar_Resources = [resource], iar_ResourceNames = [],
          iar_Verbs = [''delete'']\<rparr>]\<rparr>)\<rparr>\<rparr>"

theorem all_resources_escape_combination:
  "EvaluateRoleDefinitionWithLabels no_selectors
     (Some (sample_policy\<lparr>policy_Spec := (policy_Spec sample_policy)\<lparr>ps_RoleLimits := Some combination_limits\<rparr>\<rparr>))
     (Some (combination_rrd ''deployments'')) None \<noteq> [] \<and>
   EvaluateRoleDefinitionWithLabels no_selectors
     (Some (sample_policy\<lparr>policy_Spec := (policy_Spec sample_policy)\<lparr>ps_RoleLimits := Some combination_limits\<rparr>\<rparr>))
     (Some (combination_rrd ''*'')) None = []"
proof (rule conjI)
  show "EvaluateRoleDefinitionWithLabels no_selectors
     (Some (sample_policy\<lparr>policy_Spec := (policy_Spec sample_policy)\<lparr>ps_RoleLimits := Some combination_limits\<rparr>\<rparr>))
     (Some (combination_rrd ''deployments'')) None \<noteq> []" by code_simp
  show "EvaluateRoleDefinitionWithLabels no_selectors
     (Some (sample_policy\<lparr>policy_Spec := (policy_Spec sample_policy)\<lparr>ps_RoleLimits := Some combination_limits\<rparr>\<rparr>))
     (Some (combination_rrd ''*'')) None = []" by code_simp
qed

end
