(* ===== verification/Bind_Policy.thy ===== *)
theory Bind_Policy
  imports Policy_Scope
begin

text \<open>
  Evaluation of a RestrictedBindDefinition against its RBACPolicy (\<^verbatim>\<open>pkg/policy/evaluator.go\<close>): scope,
  role references, target namespaces and subjects. Each pass is proved to report nothing exactly for the
  definitions that satisfy its declarative reading; \<^verbatim>\<open>Bind_Compliance\<close> states the whole reading on its own.
\<close>

section \<open>Role references\<close>

definition restrictedBindClusterRoleRefs :: "ClusterBinding option \<Rightarrow> string list" where
  "restrictedBindClusterRoleRefs binding =
     (case binding of None \<Rightarrow> [] | Some b \<Rightarrow> cb_ClusterRoleRefs b)"

definition rbdHasRoleRefs :: "RestrictedBindDefinition \<Rightarrow> bool" where
  "rbdHasRoleRefs rbd =
     (if restrictedBindClusterRoleRefs (rbds_ClusterRoleBindings (rbd_Spec rbd)) \<noteq> [] then True
      else list_ex (\<lambda>b. nb_ClusterRoleRefs b \<noteq> [] \<or> nb_RoleRefs b \<noteq> [])
             (rbds_RoleBindings (rbd_Spec rbd)))"

definition checkRoleRef ::
  "selector_api \<Rightarrow> RoleRefLimits \<Rightarrow> string \<Rightarrow> string \<Rightarrow> labels option \<Rightarrow> bool \<Rightarrow> Violation list" where
  "checkRoleRef asSelector limits ref fieldPath roleLabels selectorEnabled =
     (if rrl_ForbiddenRoleRefs limits \<noteq> [] \<and> matchesAnyWildcard (rrl_ForbiddenRoleRefs limits) ref
      then [violation fieldPath [Lit ''role ref '', Quo ref, Lit '' is forbidden by policy'']]
      else []) @
     (case rrl_ForbiddenRoleRefSelector limits of
        None \<Rightarrow> []
      | Some sel \<Rightarrow>
          if \<not> selectorEnabled \<or> roleLabels = None
          then [violation fieldPath
                  [Lit ''role ref '', Quo ref,
                   Lit '' cannot be checked against the forbidden role ref label selector'']]
          else if matchesSelector asSelector sel roleLabels
          then [violation fieldPath
                  [Lit ''role ref '', Quo ref, Lit '' matches the forbidden role ref label selector'']]
          else []) @
     (let hasNameConfig = (rrl_AllowedRoleRefs limits \<noteq> []);
          hasSelectorConfig = (selectorEnabled \<and> rrl_AllowedRoleRefSelector limits \<noteq> None) in
      if hasNameConfig \<or> hasSelectorConfig then
        let nameAllowed = (hasNameConfig \<and> matchesAnyWildcard (rrl_AllowedRoleRefs limits) ref);
            selectorAllowed = (hasSelectorConfig \<and> roleLabels \<noteq> None \<and>
              (case rrl_AllowedRoleRefSelector limits of
                 None \<Rightarrow> False | Some sel \<Rightarrow> matchesSelector asSelector sel roleLabels)) in
        if \<not> nameAllowed \<and> \<not> selectorAllowed
        then [violation fieldPath
                [Lit ''role ref '', Quo ref,
                 Lit '' is not allowed by policy (name or label selector)'']]
        else []
      else [violation fieldPath
              [Lit ''role ref '', Quo ref, Lit '' is not in the allowed list'']])"

text \<open>The labels handed to the check: nil without a resolver; the \<^verbatim>\<open>found\<close> flag is dropped.\<close>

definition clusterRoleLabels :: "LabelGetter option \<Rightarrow> string \<Rightarrow> labels option" where
  "clusterRoleLabels lg ref =
     (case lg of None \<Rightarrow> None | Some g \<Rightarrow> fst (GetClusterRoleLabels g ref))"

definition namespacedRoleLabels :: "LabelGetter option \<Rightarrow> string \<Rightarrow> string \<Rightarrow> labels option" where
  "namespacedRoleLabels lg namespace ref =
     (case lg of None \<Rightarrow> None | Some g \<Rightarrow> fst (GetRoleLabels g namespace ref))"

definition evaluateClusterRoleBindingLimits ::
  "selector_api \<Rightarrow> BindingLimits \<Rightarrow> RestrictedBindDefinition \<Rightarrow> LabelGetter option \<Rightarrow> Violation list"
where
  "evaluateClusterRoleBindingLimits asSelector limits rbd lg =
     (let clusterRoleRefs = restrictedBindClusterRoleRefs (rbds_ClusterRoleBindings (rbd_Spec rbd)) in
      (if \<not> bl_AllowClusterRoleBindings limits \<and> clusterRoleRefs \<noteq> []
       then [violation ''spec.clusterRoleBindings''
               [Lit ''ClusterRoleBindings are not allowed by policy'']]
       else []) @
      (if bl_AllowClusterRoleBindings limits \<and> bl_ClusterRoleBindingLimits limits = None \<and>
          clusterRoleRefs \<noteq> []
       then [violation ''spec.clusterRoleBindings.clusterRoleRefs''
               [Lit ''policy clusterRoleBindingLimits must be configured to allow ClusterRole refs'']]
       else []) @
      (if bl_AllowClusterRoleBindings limits then
         (case bl_ClusterRoleBindingLimits limits of
            None \<Rightarrow> []
          | Some crl \<Rightarrow>
              for_range (\<lambda>i ref.
                checkRoleRef asSelector crl ref
                  (path_idx ''spec.clusterRoleBindings.clusterRoleRefs'' i)
                  (clusterRoleLabels lg ref) (lg \<noteq> None)) clusterRoleRefs)
       else []))"

text \<open>The body of the loop over one entry of \<^verbatim>\<open>roleRefs\<close>.\<close>

definition checkNamespacedRoleRef ::
  "selector_api \<Rightarrow> RoleRefLimits \<Rightarrow> NamespaceBinding \<Rightarrow> LabelGetter option \<Rightarrow> nat \<Rightarrow> nat \<Rightarrow> string
    \<Rightarrow> Violation list" where
  "checkNamespacedRoleRef asSelector rl nb lg i j ref =
     (let fieldPath = path_idx (path_idx ''spec.roleBindings'' i @ ''.roleRefs'') j in
      if nb_Namespace nb \<noteq> '''' then
        checkRoleRef asSelector rl ref fieldPath
          (namespacedRoleLabels lg (nb_Namespace nb) ref) (lg \<noteq> None)
      else
        (case (nb_NamespaceSelector nb, lg) of
           (s # ss, Some getter) \<Rightarrow>
             for_range (\<lambda>k sel.
               case ListNamespacesBySelector getter sel of
                 Inl err \<Rightarrow>
                   [violation (path_idx (path_idx ''spec.roleBindings'' i @ ''.namespaceSelector'') k)
                      [Lit ''failed to resolve namespace selector for role ref '', Quo ref,
                       Lit '': '', Lit err]]
               | Inr namespaces \<Rightarrow>
                   concat (map (\<lambda>namespace.
                     checkRoleRef asSelector rl ref
                       (fieldPath @ '' (resolved namespace: '' @ namespace @ '')'')
                       (fst (GetRoleLabels getter namespace ref)) True) namespaces)) (s # ss)
         | _ \<Rightarrow> checkRoleRef asSelector rl ref fieldPath None (lg \<noteq> None)))"

definition evaluateRoleBindingLimits ::
  "selector_api \<Rightarrow> BindingLimits \<Rightarrow> RestrictedBindDefinition \<Rightarrow> LabelGetter option \<Rightarrow> Violation list"
where
  "evaluateRoleBindingLimits asSelector limits rbd lg =
     for_range (\<lambda>i nb.
       (if bl_ClusterRoleBindingLimits limits = None \<and> nb_ClusterRoleRefs nb \<noteq> []
        then [violation (path_idx ''spec.roleBindings'' i @ ''.clusterRoleRefs'')
                [Lit ''policy clusterRoleBindingLimits must be configured to allow ClusterRole refs'']]
        else []) @
       (if bl_RoleBindingLimits limits = None \<and> nb_RoleRefs nb \<noteq> []
        then [violation (path_idx ''spec.roleBindings'' i @ ''.roleRefs'')
                [Lit ''policy roleBindingLimits must be configured to allow Role refs'']]
        else []) @
       for_range (\<lambda>j ref.
         case bl_ClusterRoleBindingLimits limits of
           None \<Rightarrow> []
         | Some crl \<Rightarrow>
             checkRoleRef asSelector crl ref
               (path_idx (path_idx ''spec.roleBindings'' i @ ''.clusterRoleRefs'') j)
               (clusterRoleLabels lg ref) (lg \<noteq> None)) (nb_ClusterRoleRefs nb) @
       for_range (\<lambda>j ref.
         case bl_RoleBindingLimits limits of
           None \<Rightarrow> []
         | Some rl \<Rightarrow> checkNamespacedRoleRef asSelector rl nb lg i j ref) (nb_RoleRefs nb))
       (rbds_RoleBindings (rbd_Spec rbd))"

section \<open>Target namespaces\<close>

definition checkNamespace ::
  "selector_api \<Rightarrow> NamespaceLimits \<Rightarrow> string \<Rightarrow> string \<Rightarrow> LabelGetter option \<Rightarrow> Violation list" where
  "checkNamespace asSelector limits namespace fieldPath lg =
     (if namespace \<in> set (nl_ForbiddenNamespaces limits)
      then [violation fieldPath [Lit ''namespace '', Quo namespace, Lit '' is forbidden by policy'']]
      else []) @
     (if hasAnyPrefix (nl_ForbiddenNamespacePrefixes limits) namespace
      then [violation fieldPath [Lit ''namespace '', Quo namespace, Lit '' matches a forbidden prefix'']]
      else []) @
     (case nl_AllowedNamespaceSelector limits of
        None \<Rightarrow> []
      | Some sel \<Rightarrow>
          (case lg of
             None \<Rightarrow> [violation fieldPath
                        [Lit ''namespace '', Quo namespace,
                         Lit '' cannot be checked against the allowed namespace label selector'']]
           | Some getter \<Rightarrow>
               let (nsLabels, found) = GetNamespaceLabels getter namespace in
               if \<not> found \<or> \<not> matchesSelector asSelector sel nsLabels
               then [violation fieldPath
                       [Lit ''namespace '', Quo namespace,
                        Lit '' does not match the allowed namespace label selector'']]
               else []))"

text \<open>The keys of the map \<^verbatim>\<open>resolvedNamespaces\<close>, in the order they are first stored.\<close>

definition resolvedNamespaces :: "NamespaceBinding list \<Rightarrow> LabelGetter option \<Rightarrow> string list" where
  "resolvedNamespaces bindings lg =
     remdups (concat (map (\<lambda>nb.
       if nb_Namespace nb \<noteq> '''' then [nb_Namespace nb]
       else concat (map (\<lambda>sel.
         case lg of
           None \<Rightarrow> []
         | Some getter \<Rightarrow>
             (case ListNamespacesBySelector getter sel of Inl err \<Rightarrow> [] | Inr names \<Rightarrow> names))
         (nb_NamespaceSelector nb))) bindings))"

definition evaluateNamespaceLimits ::
  "selector_api \<Rightarrow> NamespaceLimits \<Rightarrow> RestrictedBindDefinition \<Rightarrow> LabelGetter option \<Rightarrow> Violation list"
where
  "evaluateNamespaceLimits asSelector limits rbd lg =
     for_range (\<lambda>i nb.
       if nb_Namespace nb \<noteq> ''''
       then checkNamespace asSelector limits (nb_Namespace nb)
              (path_idx ''spec.roleBindings'' i @ ''.namespace'') lg
       else for_range (\<lambda>j sel.
         let fieldPath = path_idx (path_idx ''spec.roleBindings'' i @ ''.namespaceSelector'') j in
         case lg of
           None \<Rightarrow> [violation fieldPath
                      [Lit ''namespace selector cannot be evaluated without a label resolver'']]
         | Some getter \<Rightarrow>
             (case ListNamespacesBySelector getter sel of
                Inl err \<Rightarrow> [violation fieldPath
                             [Lit ''failed to resolve namespace selector: '', Lit err]]
              | Inr names \<Rightarrow>
                  concat (map (\<lambda>ns.
                    checkNamespace asSelector limits ns
                      (fieldPath @ '' (resolved: '' @ ns @ '')'') lg) names)))
         (nb_NamespaceSelector nb))
       (rbds_RoleBindings (rbd_Spec rbd)) @
     (case nl_MaxTargetNamespaces limits of
        None \<Rightarrow> []
      | Some mx \<Rightarrow>
          let count = int (length (resolvedNamespaces (rbds_RoleBindings (rbd_Spec rbd)) lg)) in
          if count > mx
          then [violation ''spec.roleBindings''
                  [Lit ''exceeds maximum target namespaces: '', Dec count, Lit '' > '', Dec mx]]
          else [])"

definition evaluateBindingLimits ::
  "selector_api \<Rightarrow> BindingLimits \<Rightarrow> RestrictedBindDefinition \<Rightarrow> LabelGetter option \<Rightarrow> Violation list"
where
  "evaluateBindingLimits asSelector limits rbd lg =
     evaluateClusterRoleBindingLimits asSelector limits rbd lg @
     evaluateRoleBindingLimits asSelector limits rbd lg @
     (case bl_TargetNamespaceLimits limits of
        None \<Rightarrow> []
      | Some nl \<Rightarrow> evaluateNamespaceLimits asSelector nl rbd lg)"

section \<open>Subjects\<close>

definition checkServiceAccountLimits ::
  "selector_api \<Rightarrow> ServiceAccountLimits \<Rightarrow> Subject \<Rightarrow> string \<Rightarrow> LabelGetter option \<Rightarrow> Violation list"
where
  "checkServiceAccountLimits asSelector limits subject fieldPath lg =
     (let ns = subj_Namespace subject; path = fieldPath @ ''.namespace'' in
      (if ns \<in> set (sal_ForbiddenNamespaces limits)
       then [violation path
               [Lit ''ServiceAccount namespace '', Quo ns, Lit '' is forbidden by policy'']]
       else []) @
      (if hasAnyPrefix (sal_ForbiddenNamespacePrefixes limits) ns
       then [violation path
               [Lit ''ServiceAccount namespace '', Quo ns, Lit '' matches a forbidden prefix'']]
       else []) @
      (case sal_AllowedNamespaceSelector limits of
         None \<Rightarrow> []
       | Some sel \<Rightarrow>
           if ns = '''' then []
           else (case lg of
              None \<Rightarrow> [violation path
                         [Lit ''ServiceAccount namespace '', Quo ns,
                          Lit '' cannot be checked against the allowed namespace label selector'']]
            | Some getter \<Rightarrow>
                let (nsLabels, found) = GetNamespaceLabels getter ns in
                if \<not> found \<or> \<not> matchesSelector asSelector sel nsLabels
                then [violation path
                        [Lit ''ServiceAccount namespace '', Quo ns,
                         Lit '' does not match the allowed namespace label selector'']]
                else [])))"

definition evaluateSubject ::
  "selector_api \<Rightarrow> SubjectLimits \<Rightarrow> LabelGetter option \<Rightarrow> nat \<Rightarrow> Subject \<Rightarrow> Violation list" where
  "evaluateSubject asSelector limits lg i s =
     (let fieldPath = path_idx ''spec.subjects'' i in
      if subj_Kind s \<in> set (sl_ForbiddenKinds limits)
      then [violation (fieldPath @ ''.kind'')
              [Lit ''subject kind '', Quo (subj_Kind s), Lit '' is forbidden by policy'']]
      else if subj_Kind s \<notin> set (sl_AllowedKinds limits)
      then [violation (fieldPath @ ''.kind'')
              [Lit ''subject kind '', Quo (subj_Kind s), Lit '' is not allowed by policy'']]
      else if subj_Kind s = UserKind then
        (case sl_UserLimits limits of
           None \<Rightarrow> [] | Some nl \<Rightarrow> checkNameMatchLimits nl (subj_Name s) (fieldPath @ ''.name''))
      else if subj_Kind s = GroupKind then
        (case sl_GroupLimits limits of
           None \<Rightarrow> [] | Some nl \<Rightarrow> checkNameMatchLimits nl (subj_Name s) (fieldPath @ ''.name''))
      else if subj_Kind s = ServiceAccountKind then
        (case sl_ServiceAccountLimits limits of
           None \<Rightarrow> [] | Some sal \<Rightarrow> checkServiceAccountLimits asSelector sal s fieldPath lg)
      else [])"

definition evaluateSubjectLimits ::
  "selector_api \<Rightarrow> SubjectLimits \<Rightarrow> Subject list \<Rightarrow> LabelGetter option \<Rightarrow> Violation list" where
  "evaluateSubjectLimits asSelector limits subjects lg =
     for_range (evaluateSubject asSelector limits lg) subjects"

section \<open>The whole definition\<close>

definition evaluateBindingScope ::
  "selector_api \<Rightarrow> PolicyScope \<Rightarrow> LabelGetter option \<Rightarrow> nat \<Rightarrow> NamespaceBinding \<Rightarrow> Violation list" where
  "evaluateBindingScope asSelector appliesTo labelGetter i nb =
     (if nb_Namespace nb \<noteq> '''' \<and>
         \<not> namespaceInScope asSelector appliesTo (nb_Namespace nb) labelGetter
      then [violation (path_idx ''spec.roleBindings'' i @ ''.namespace'')
              [Lit ''namespace '', Quo (nb_Namespace nb),
               Lit '' is outside the policy's appliesTo scope'']]
      else []) @
     for_range (\<lambda>j selector.
       let fieldPath = path_idx (path_idx ''spec.roleBindings'' i @ ''.namespaceSelector'') j in
       case labelGetter of
         None \<Rightarrow> [violation fieldPath
                    [Lit ''namespace selector cannot be evaluated without a label resolver'']]
       | Some getter \<Rightarrow>
           (case ListNamespacesBySelector getter selector of
              Inl err \<Rightarrow> [violation fieldPath
                           [Lit ''failed to resolve namespace selector: '', Lit err]]
            | Inr namespaces \<Rightarrow>
                concat (map (\<lambda>namespace.
                  if \<not> namespaceInScope asSelector appliesTo namespace labelGetter
                  then [violation (fieldPath @ '' (resolved: '' @ namespace @ '')'')
                          [Lit ''namespace '', Quo namespace,
                           Lit '' is outside the policy's appliesTo scope'']]
                  else []) namespaces)))
       (nb_NamespaceSelector nb)"

definition EvaluateBindDefinition ::
  "selector_api \<Rightarrow> RBACPolicy option \<Rightarrow> RestrictedBindDefinition option \<Rightarrow> LabelGetter option
    \<Rightarrow> Violation list" where
  "EvaluateBindDefinition asSelector policyp rbdp labelGetter =
     (case policyp of
        None \<Rightarrow> [violation ''<policy>'' [Lit ''policy must not be nil'']]
      | Some policy \<Rightarrow>
     (case rbdp of
        None \<Rightarrow> [violation ''<rbd>'' [Lit ''RestrictedBindDefinition must not be nil'']]
      | Some rbd \<Rightarrow>
          let appliesTo = ps_AppliesTo (policy_Spec policy) in
          (if restrictedBindClusterRoleRefs (rbds_ClusterRoleBindings (rbd_Spec rbd)) \<noteq> [] \<and>
              \<not> scopeAllowsClusterResources appliesTo
           then [violation ''spec.clusterRoleBindings''
                   [Lit ''ClusterRoleBindings require appliesTo.namespaces to include \"*\"'']]
           else []) @
          for_range (evaluateBindingScope asSelector appliesTo labelGetter)
            (rbds_RoleBindings (rbd_Spec rbd)) @
          for_range (\<lambda>i subject.
            if subj_Kind subject \<noteq> ServiceAccountKind \<or> subj_Namespace subject = '''' then []
            else if \<not> namespaceInScope asSelector appliesTo (subj_Namespace subject) labelGetter
            then [violation (path_idx ''spec.subjects'' i @ ''.namespace'')
                    [Lit ''ServiceAccount namespace '', Quo (subj_Namespace subject),
                     Lit '' is outside the policy's appliesTo scope'']]
            else []) (rbds_Subjects (rbd_Spec rbd)) @
          (case ps_BindingLimits (policy_Spec policy) of
             None \<Rightarrow>
               if rbdHasRoleRefs rbd
               then [violation ''spec.policyRef''
                       [Lit ''policy bindingLimits must be configured to allow role bindings'']]
               else []
           | Some limits \<Rightarrow> evaluateBindingLimits asSelector limits rbd labelGetter) @
          (case ps_SubjectLimits (policy_Spec policy) of
             None \<Rightarrow>
               if rbds_Subjects (rbd_Spec rbd) \<noteq> []
               then [violation ''spec.policyRef''
                       [Lit ''policy subjectLimits must be configured to allow subjects'']]
               else []
           | Some limits \<Rightarrow>
               evaluateSubjectLimits asSelector limits (rbds_Subjects (rbd_Spec rbd)) labelGetter)))"

section \<open>Which definitions comply\<close>

text \<open>
  A role reference: not named or labelled as forbidden, and admitted by a name pattern or by the
  label selector. A selector can neither clear nor admit a role whose labels are unknown.
\<close>

definition role_ref_ok ::
  "selector_api \<Rightarrow> RoleRefLimits \<Rightarrow> string \<Rightarrow> labels option \<Rightarrow> bool \<Rightarrow> bool" where
  "role_ref_ok asSelector limits ref ls enabled \<longleftrightarrow>
     (\<forall>p \<in> set (rrl_ForbiddenRoleRefs limits). \<not> glob p ref) \<and>
     (\<forall>sel. rrl_ForbiddenRoleRefSelector limits = Some sel \<longrightarrow>
        enabled \<and> ls \<noteq> None \<and> \<not> matchesSelector asSelector sel ls) \<and>
     ((\<exists>p \<in> set (rrl_AllowedRoleRefs limits). glob p ref) \<or>
      (\<exists>sel. rrl_AllowedRoleRefSelector limits = Some sel \<and> enabled \<and> ls \<noteq> None \<and>
         matchesSelector asSelector sel ls))"

lemma checkRoleRef_ok [checks]:
  "checkRoleRef asSelector limits ref p ls enabled = [] \<longleftrightarrow>
     role_ref_ok asSelector limits ref ls enabled"
proof -
  have forbidden: "(if xs \<noteq> [] \<and> matchesAnyWildcard xs ref then [v] else []) = [] \<longleftrightarrow>
      (\<forall>p \<in> set xs. \<not> glob p ref)" for xs and v :: Violation
    by (auto simp: matchesAnyWildcard_iff)
  have allowed: "xs \<noteq> [] \<and> matchesAnyWildcard xs ref \<longleftrightarrow> (\<exists>p \<in> set xs. glob p ref)" for xs
    by (auto simp: matchesAnyWildcard_iff)
  show ?thesis
    unfolding checkRoleRef_def role_ref_ok_def append_is_Nil_conv forbidden Let_def allowed
    by (intro conj_cong refl) (auto split: option.splits)
qed

interpretation role_ref_check: check
  "\<lambda>(asSelector, limits, ref, path, ls, enabled). checkRoleRef asSelector limits ref path ls enabled"
  "\<lambda>(asSelector, limits, ref, path, ls, enabled). role_ref_ok asSelector limits ref ls enabled"
  by unfold_locales (auto simp: checkRoleRef_ok)

text \<open>A selector that can be resolved, with every namespace it selects satisfying a condition.\<close>

definition resolves_to ::
  "LabelGetter option \<Rightarrow> LabelSelector \<Rightarrow> (string \<Rightarrow> bool) \<Rightarrow> bool" where
  "resolves_to lg sel P \<longleftrightarrow>
     (\<exists>g names. lg = Some g \<and> ListNamespacesBySelector g sel = Inr names \<and> (\<forall>n \<in> set names. P n))"

lemma resolves_to_case:
  "(case lg of None \<Rightarrow> [v]
    | Some g \<Rightarrow> (case ListNamespacesBySelector g sel of
        Inl err \<Rightarrow> [w err] | Inr names \<Rightarrow> concat (map f names))) = [] \<longleftrightarrow>
   resolves_to lg sel (\<lambda>n. f n = [])"
  by (auto simp: resolves_to_def split: option.splits sum.splits)

lemma resolves_to_getter:
  "(case ListNamespacesBySelector g sel of
      Inl err \<Rightarrow> [w err] | Inr names \<Rightarrow> concat (map f names)) = [] \<longleftrightarrow>
   resolves_to (Some g) sel (\<lambda>n. f n = [])"
  by (auto simp: resolves_to_def split: sum.splits)

definition cluster_refs_ok ::
  "selector_api \<Rightarrow> BindingLimits \<Rightarrow> LabelGetter option \<Rightarrow> string list \<Rightarrow> bool" where
  "cluster_refs_ok asSelector limits lg refs \<longleftrightarrow>
     (refs \<noteq> [] \<longrightarrow> (\<exists>crl. bl_ClusterRoleBindingLimits limits = Some crl \<and>
        (\<forall>ref \<in> set refs. role_ref_ok asSelector crl ref (clusterRoleLabels lg ref) (lg \<noteq> None))))"

lemma evaluateClusterRoleBindingLimits_ok [checks]:
  "evaluateClusterRoleBindingLimits asSelector limits rbd lg = [] \<longleftrightarrow>
     (let refs = restrictedBindClusterRoleRefs (rbds_ClusterRoleBindings (rbd_Spec rbd)) in
      (refs \<noteq> [] \<longrightarrow> bl_AllowClusterRoleBindings limits) \<and>
      cluster_refs_ok asSelector limits lg refs)"
  by (auto simp: evaluateClusterRoleBindingLimits_def cluster_refs_ok_def Let_def for_range_empty
      checkRoleRef_ok all_set_conv_all_nth split: option.splits)

definition namespaced_ref_ok ::
  "selector_api \<Rightarrow> RoleRefLimits \<Rightarrow> NamespaceBinding \<Rightarrow> LabelGetter option \<Rightarrow> string \<Rightarrow> bool" where
  "namespaced_ref_ok asSelector rl nb lg ref \<longleftrightarrow>
     (if nb_Namespace nb \<noteq> ''''
      then role_ref_ok asSelector rl ref (namespacedRoleLabels lg (nb_Namespace nb) ref) (lg \<noteq> None)
      else if nb_NamespaceSelector nb \<noteq> [] \<and> lg \<noteq> None
      then \<forall>sel \<in> set (nb_NamespaceSelector nb). resolves_to lg sel
             (\<lambda>ns. role_ref_ok asSelector rl ref (namespacedRoleLabels lg ns ref) True)
      else role_ref_ok asSelector rl ref None (lg \<noteq> None))"

lemma checkNamespacedRoleRef_ok [checks]:
  "checkNamespacedRoleRef asSelector rl nb lg i j ref = [] \<longleftrightarrow>
     namespaced_ref_ok asSelector rl nb lg ref"
proof (cases "nb_Namespace nb \<noteq> '''' \<or> nb_NamespaceSelector nb = [] \<or> lg = None")
  case True
  then show ?thesis
    by (auto simp: checkNamespacedRoleRef_def namespaced_ref_ok_def checkRoleRef_ok Let_def
        split: list.splits option.splits)
next
  case False
  then obtain s ss g where "nb_Namespace nb = ''''" "nb_NamespaceSelector nb = s # ss" "lg = Some g"
    by (cases "nb_NamespaceSelector nb") auto
  then show ?thesis
    unfolding checkNamespacedRoleRef_def namespaced_ref_ok_def Let_def
    by (simp add: for_range_empty resolves_to_getter checkRoleRef_ok namespacedRoleLabels_def
        all_set_conv_all_nth del: set_simps)
qed

definition binding_refs_ok ::
  "selector_api \<Rightarrow> BindingLimits \<Rightarrow> LabelGetter option \<Rightarrow> NamespaceBinding \<Rightarrow> bool" where
  "binding_refs_ok asSelector limits lg nb \<longleftrightarrow>
     cluster_refs_ok asSelector limits lg (nb_ClusterRoleRefs nb) \<and>
     (nb_RoleRefs nb \<noteq> [] \<longrightarrow> (\<exists>rl. bl_RoleBindingLimits limits = Some rl \<and>
        (\<forall>ref \<in> set (nb_RoleRefs nb). namespaced_ref_ok asSelector rl nb lg ref)))"

lemma evaluateRoleBindingLimits_ok [checks]:
  "evaluateRoleBindingLimits asSelector limits rbd lg = [] \<longleftrightarrow>
     (\<forall>nb \<in> set (rbds_RoleBindings (rbd_Spec rbd)). binding_refs_ok asSelector limits lg nb)"
  unfolding evaluateRoleBindingLimits_def
proof (rule for_range_ok)
  fix i nb
  show "((if bl_ClusterRoleBindingLimits limits = None \<and> nb_ClusterRoleRefs nb \<noteq> []
        then [violation (path_idx ''spec.roleBindings'' i @ ''.clusterRoleRefs'')
                [Lit ''policy clusterRoleBindingLimits must be configured to allow ClusterRole refs'']]
        else []) @
       (if bl_RoleBindingLimits limits = None \<and> nb_RoleRefs nb \<noteq> []
        then [violation (path_idx ''spec.roleBindings'' i @ ''.roleRefs'')
                [Lit ''policy roleBindingLimits must be configured to allow Role refs'']]
        else []) @
       for_range (\<lambda>j ref.
         case bl_ClusterRoleBindingLimits limits of
           None \<Rightarrow> []
         | Some crl \<Rightarrow>
             checkRoleRef asSelector crl ref
               (path_idx (path_idx ''spec.roleBindings'' i @ ''.clusterRoleRefs'') j)
               (clusterRoleLabels lg ref) (lg \<noteq> None)) (nb_ClusterRoleRefs nb) @
       for_range (\<lambda>j ref.
         case bl_RoleBindingLimits limits of
           None \<Rightarrow> []
         | Some rl \<Rightarrow> checkNamespacedRoleRef asSelector rl nb lg i j ref) (nb_RoleRefs nb) = []) =
     binding_refs_ok asSelector limits lg nb"
    by (auto simp: binding_refs_ok_def cluster_refs_ok_def for_range_empty checkRoleRef_ok
        checkNamespacedRoleRef_ok all_set_conv_all_nth split: option.splits)
qed

definition target_ok ::
  "selector_api \<Rightarrow> NamespaceLimits \<Rightarrow> LabelGetter option \<Rightarrow> string \<Rightarrow> bool" where
  "target_ok asSelector limits lg ns \<longleftrightarrow>
     ns \<notin> set (nl_ForbiddenNamespaces limits) \<and>
     (\<forall>p \<in> set (nl_ForbiddenNamespacePrefixes limits). \<not> HasPrefix ns p) \<and>
     (\<forall>sel. nl_AllowedNamespaceSelector limits = Some sel \<longrightarrow> selector_admits asSelector lg sel ns)"

lemma checkNamespace_ok [checks]:
  "checkNamespace asSelector limits ns p lg = [] \<longleftrightarrow> target_ok asSelector limits lg ns"
  by (auto simp: checkNamespace_def target_ok_def selector_admits_def hasAnyPrefix_iff Let_def
      split: option.splits prod.splits if_splits)

interpretation target_check: check
  "\<lambda>(asSelector, limits, ns, path, lg). checkNamespace asSelector limits ns path lg"
  "\<lambda>(asSelector, limits, ns, path, lg). target_ok asSelector limits lg ns"
  by unfold_locales (auto simp: checkNamespace_ok)

definition binding_targets_ok ::
  "(string \<Rightarrow> bool) \<Rightarrow> LabelGetter option \<Rightarrow> NamespaceBinding \<Rightarrow> bool" where
  "binding_targets_ok P lg nb \<longleftrightarrow>
     (if nb_Namespace nb \<noteq> '''' then P (nb_Namespace nb)
      else \<forall>sel \<in> set (nb_NamespaceSelector nb). resolves_to lg sel P)"

lemma evaluateNamespaceLimits_ok [checks]:
  "evaluateNamespaceLimits asSelector limits rbd lg = [] \<longleftrightarrow>
     (\<forall>nb \<in> set (rbds_RoleBindings (rbd_Spec rbd)).
        binding_targets_ok (target_ok asSelector limits lg) lg nb) \<and>
     (\<forall>mx. nl_MaxTargetNamespaces limits = Some mx \<longrightarrow>
        int (card (set (resolvedNamespaces (rbds_RoleBindings (rbd_Spec rbd)) lg))) \<le> mx)"
proof -
  have "length (resolvedNamespaces bs lg) = card (set (resolvedNamespaces bs lg))" for bs
    by (simp add: resolvedNamespaces_def length_remdups_card_conv)
  then show ?thesis
    unfolding evaluateNamespaceLimits_def append_is_Nil_conv
    by (intro conj_cong)
      (auto simp: for_range_empty resolves_to_case checkNamespace_ok binding_targets_ok_def Let_def
        all_set_conv_all_nth split: option.splits)
qed

definition binding_limits_hold ::
  "selector_api \<Rightarrow> BindingLimits \<Rightarrow> LabelGetter option \<Rightarrow> RestrictedBindDefinition \<Rightarrow> bool" where
  "binding_limits_hold asSelector limits lg rbd \<longleftrightarrow>
     (let refs = restrictedBindClusterRoleRefs (rbds_ClusterRoleBindings (rbd_Spec rbd));
          bindings = rbds_RoleBindings (rbd_Spec rbd) in
      (refs \<noteq> [] \<longrightarrow> bl_AllowClusterRoleBindings limits) \<and>
      cluster_refs_ok asSelector limits lg refs \<and>
      (\<forall>nb \<in> set bindings. binding_refs_ok asSelector limits lg nb) \<and>
      (\<forall>nl. bl_TargetNamespaceLimits limits = Some nl \<longrightarrow>
         (\<forall>nb \<in> set bindings. binding_targets_ok (target_ok asSelector nl lg) lg nb) \<and>
         (\<forall>mx. nl_MaxTargetNamespaces nl = Some mx \<longrightarrow>
            int (card (set (resolvedNamespaces bindings lg))) \<le> mx)))"

lemma evaluateBindingLimits_ok [checks]:
  "evaluateBindingLimits asSelector limits rbd lg = [] \<longleftrightarrow>
     binding_limits_hold asSelector limits lg rbd"
  unfolding evaluateBindingLimits_def binding_limits_hold_def append_is_Nil_conv
    evaluateClusterRoleBindingLimits_ok evaluateRoleBindingLimits_ok Let_def
  by (auto simp: evaluateNamespaceLimits_ok split: option.splits)

definition sa_ok ::
  "selector_api \<Rightarrow> ServiceAccountLimits \<Rightarrow> LabelGetter option \<Rightarrow> string \<Rightarrow> bool" where
  "sa_ok asSelector limits lg ns \<longleftrightarrow>
     ns \<notin> set (sal_ForbiddenNamespaces limits) \<and>
     (\<forall>p \<in> set (sal_ForbiddenNamespacePrefixes limits). \<not> HasPrefix ns p) \<and>
     (\<forall>sel. sal_AllowedNamespaceSelector limits = Some sel \<longrightarrow> ns \<noteq> '''' \<longrightarrow>
        selector_admits asSelector lg sel ns)"

lemma checkServiceAccountLimits_ok [checks]:
  "checkServiceAccountLimits asSelector limits s p lg = [] \<longleftrightarrow>
     sa_ok asSelector limits lg (subj_Namespace s)"
  by (auto simp: checkServiceAccountLimits_def sa_ok_def selector_admits_def hasAnyPrefix_iff Let_def
      split: option.splits prod.splits if_splits)

definition subject_ok ::
  "selector_api \<Rightarrow> SubjectLimits \<Rightarrow> LabelGetter option \<Rightarrow> Subject \<Rightarrow> bool" where
  "subject_ok asSelector limits lg s \<longleftrightarrow>
     subj_Kind s \<notin> set (sl_ForbiddenKinds limits) \<and> subj_Kind s \<in> set (sl_AllowedKinds limits) \<and>
     (\<forall>nl. subj_Kind s = UserKind \<and> sl_UserLimits limits = Some nl \<or>
           subj_Kind s = GroupKind \<and> sl_GroupLimits limits = Some nl \<longrightarrow>
        \<not> name_forbidden nl (subj_Name s) \<and> name_all_allowed nl (subj_Name s)) \<and>
     (\<forall>sal. subj_Kind s = ServiceAccountKind \<and> sl_ServiceAccountLimits limits = Some sal \<longrightarrow>
        sa_ok asSelector sal lg (subj_Namespace s))"

lemma evaluateSubject_ok [checks]:
  "evaluateSubject asSelector limits lg i s = [] \<longleftrightarrow> subject_ok asSelector limits lg s"
  by (auto simp: evaluateSubject_def subject_ok_def Let_def checkNameMatchLimits_ok
      checkServiceAccountLimits_ok UserKind_def GroupKind_def ServiceAccountKind_def
      split: option.splits)

lemma evaluateSubjectLimits_ok [checks]:
  "evaluateSubjectLimits asSelector limits ss lg = [] \<longleftrightarrow>
     (\<forall>s \<in> set ss. subject_ok asSelector limits lg s)"
  unfolding evaluateSubjectLimits_def by (rule for_range_ok) (rule evaluateSubject_ok)

definition binding_in_scope ::
  "selector_api \<Rightarrow> PolicyScope \<Rightarrow> LabelGetter option \<Rightarrow> NamespaceBinding \<Rightarrow> bool" where
  "binding_in_scope asSelector scope lg nb \<longleftrightarrow>
     (nb_Namespace nb \<noteq> '''' \<longrightarrow> namespaceInScope asSelector scope (nb_Namespace nb) lg) \<and>
     (\<forall>sel \<in> set (nb_NamespaceSelector nb).
        resolves_to lg sel (\<lambda>ns. namespaceInScope asSelector scope ns lg))"

lemma evaluateBindingScope_ok [checks]:
  "evaluateBindingScope asSelector scope lg i nb = [] \<longleftrightarrow> binding_in_scope asSelector scope lg nb"
  unfolding evaluateBindingScope_def binding_in_scope_def append_is_Nil_conv
  by (intro conj_cong)
    (auto simp: for_range_empty resolves_to_case guard_empty Let_def all_set_conv_all_nth)

definition bind_complies ::
  "selector_api \<Rightarrow> LabelGetter option \<Rightarrow> RBACPolicy \<Rightarrow> RestrictedBindDefinition \<Rightarrow> bool" where
  "bind_complies asSelector lg policy rbd \<longleftrightarrow>
     (let scope = ps_AppliesTo (policy_Spec policy); spec = rbd_Spec rbd in
      (restrictedBindClusterRoleRefs (rbds_ClusterRoleBindings spec) \<noteq> [] \<longrightarrow>
         ''*'' \<in> set (scope_Namespaces scope)) \<and>
      (\<forall>nb \<in> set (rbds_RoleBindings spec). binding_in_scope asSelector scope lg nb) \<and>
      (\<forall>s \<in> set (rbds_Subjects spec). subj_Kind s = ServiceAccountKind \<longrightarrow> subj_Namespace s \<noteq> '''' \<longrightarrow>
         namespaceInScope asSelector scope (subj_Namespace s) lg) \<and>
      (case ps_BindingLimits (policy_Spec policy) of
         None \<Rightarrow> \<not> rbdHasRoleRefs rbd
       | Some limits \<Rightarrow> binding_limits_hold asSelector limits lg rbd) \<and>
      (case ps_SubjectLimits (policy_Spec policy) of
         None \<Rightarrow> rbds_Subjects spec = []
       | Some limits \<Rightarrow> \<forall>s \<in> set (rbds_Subjects spec). subject_ok asSelector limits lg s))"

lemma EvaluateBindDefinition_ok [checks]:
  "EvaluateBindDefinition asSelector (Some policy) (Some rbd) lg = [] \<longleftrightarrow>
     bind_complies asSelector lg policy rbd"
proof -
  have scope: "for_range (evaluateBindingScope asSelector sc lg) nbs = [] \<longleftrightarrow>
      (\<forall>nb \<in> set nbs. binding_in_scope asSelector sc lg nb)" for sc nbs
    by (rule for_range_ok) (rule evaluateBindingScope_ok)
  show ?thesis
    unfolding EvaluateBindDefinition_def bind_complies_def Let_def option.case append_is_Nil_conv
      scope guard_empty
    by (intro conj_cong)
      (auto simp: for_range_empty all_set_conv_all_nth evaluateBindingLimits_ok
        evaluateSubjectLimits_ok scopeAllowsClusterResources_def allNamespacesScope_def
        split: option.splits if_splits)
qed

interpretation bind_check: check
  "\<lambda>(asSelector, lg, policy, rbd). EvaluateBindDefinition asSelector (Some policy) (Some rbd) lg"
  "\<lambda>(asSelector, lg, policy, rbd). bind_complies asSelector lg policy rbd"
  by unfold_locales (auto simp: EvaluateBindDefinition_ok)

section \<open>Properties\<close>

lemma accepted_limits:
  assumes "bind_complies asSelector lg policy rbd"
    and "refs \<noteq> []" and "refs = restrictedBindClusterRoleRefs (rbds_ClusterRoleBindings (rbd_Spec rbd)) \<or>
      (\<exists>nb \<in> set (rbds_RoleBindings (rbd_Spec rbd)). refs = nb_ClusterRoleRefs nb)"
  obtains limits crl where "ps_BindingLimits (policy_Spec policy) = Some limits"
    and "bl_ClusterRoleBindingLimits limits = Some crl"
    and "\<forall>ref \<in> set refs. role_ref_ok asSelector crl ref (clusterRoleLabels lg ref) (lg \<noteq> None)"
proof -
  have "rbdHasRoleRefs rbd" using assms(2, 3) by (auto simp: rbdHasRoleRefs_def list_ex_iff)
  with assms(1) obtain limits where limits: "ps_BindingLimits (policy_Spec policy) = Some limits"
      "binding_limits_hold asSelector limits lg rbd"
    by (auto simp: bind_complies_def Let_def split: option.splits)
  then have "cluster_refs_ok asSelector limits lg refs"
    using assms(3) by (auto simp: binding_limits_hold_def binding_refs_ok_def Let_def)
  then show thesis using that limits(1) assms(2) by (auto simp: cluster_refs_ok_def)
qed

text \<open>
  An accepted definition never binds a ClusterRole, cluster
  wide or in a namespace, that a forbidden pattern of the policy matches or that no allow rule of the
  policy admits; and every namespace named by a binding lies in the policy's scope.
\<close>

theorem accepted_bindings_bounded:
  assumes "EvaluateBindDefinition asSelector (Some policy) (Some rbd) lg = []"
    and "nb \<in> set (rbds_RoleBindings (rbd_Spec rbd))"
    and "ref \<in> set (restrictedBindClusterRoleRefs (rbds_ClusterRoleBindings (rbd_Spec rbd))) \<or>
      ref \<in> set (nb_ClusterRoleRefs nb)"
  shows "(\<exists>limits crl. ps_BindingLimits (policy_Spec policy) = Some limits \<and>
      bl_ClusterRoleBindingLimits limits = Some crl \<and>
      (\<forall>p \<in> set (rrl_ForbiddenRoleRefs crl). \<not> MatchesWildcard p ref) \<and>
      ((\<exists>p \<in> set (rrl_AllowedRoleRefs crl). MatchesWildcard p ref) \<or>
       rrl_AllowedRoleRefSelector crl \<noteq> None)) \<and>
    (nb_Namespace nb \<noteq> '''' \<longrightarrow>
       namespaceInScope asSelector (ps_AppliesTo (policy_Spec policy)) (nb_Namespace nb) lg)"
proof
  have ok: "bind_complies asSelector lg policy rbd" using assms(1) by (simp add: EvaluateBindDefinition_ok)
  from assms(2, 3) obtain refs where refs: "ref \<in> set refs"
      "refs = restrictedBindClusterRoleRefs (rbds_ClusterRoleBindings (rbd_Spec rbd)) \<or>
       (\<exists>nb \<in> set (rbds_RoleBindings (rbd_Spec rbd)). refs = nb_ClusterRoleRefs nb)" by blast
  then have "refs \<noteq> []" by auto
  from accepted_limits [OF ok this refs(2)] refs(1)
  show "\<exists>limits crl. ps_BindingLimits (policy_Spec policy) = Some limits \<and>
      bl_ClusterRoleBindingLimits limits = Some crl \<and>
      (\<forall>p \<in> set (rrl_ForbiddenRoleRefs crl). \<not> MatchesWildcard p ref) \<and>
      ((\<exists>p \<in> set (rrl_AllowedRoleRefs crl). MatchesWildcard p ref) \<or>
       rrl_AllowedRoleRefSelector crl \<noteq> None)"
    by (auto simp: role_ref_ok_def MatchesWildcard_glob) metis
  show "nb_Namespace nb \<noteq> '''' \<longrightarrow>
      namespaceInScope asSelector (ps_AppliesTo (policy_Spec policy)) (nb_Namespace nb) lg"
    using ok assms(2) by (auto simp: bind_complies_def binding_in_scope_def Let_def)
qed

definition sample_bind_policy :: RBACPolicy where
  "sample_bind_policy = \<lparr>policy_Name = ''tenant'', policy_Spec =
     \<lparr>ps_AppliesTo = \<lparr>scope_NamespaceSelector = None, scope_Namespaces = [''team-a'']\<rparr>,
      ps_BindingLimits = Some \<lparr>bl_AllowClusterRoleBindings = False,
        bl_ClusterRoleBindingLimits = Some \<lparr>rrl_AllowedRoleRefs = [''team-*''],
          rrl_AllowedRoleRefSelector = None, rrl_ForbiddenRoleRefs = [''*-admin''],
          rrl_ForbiddenRoleRefSelector = None\<rparr>,
        bl_RoleBindingLimits = None, bl_TargetNamespaceLimits = None\<rparr>,
      ps_RoleLimits = None,
      ps_SubjectLimits = Some \<lparr>sl_AllowedKinds = [''Group''], sl_ForbiddenKinds = [],
        sl_UserLimits = None, sl_GroupLimits = None, sl_ServiceAccountLimits = None\<rparr>,
      ps_DefaultAssignment = None, ps_Impersonation = None\<rparr>\<rparr>"

definition sample_binding :: NamespaceBinding where
  "sample_binding = \<lparr>nb_AuthorizeBeforeBinding = False, nb_ClusterRoleRefs = [''team-view''],
     nb_RoleRefs = [], nb_Namespace = ''team-a'', nb_NamespaceSelector = []\<rparr>"

definition sample_rbd :: RestrictedBindDefinition where
  "sample_rbd = \<lparr>rbd_Name = ''b'', rbd_Spec =
     \<lparr>rbds_PolicyRef = ''tenant'', rbds_TargetName = ''b'',
      rbds_Subjects = [\<lparr>subj_Kind = ''Group'', subj_APIGroup = '''', subj_Name = ''dev'', subj_Namespace = ''''\<rparr>],
      rbds_ClusterRoleBindings = None, rbds_RoleBindings = [sample_binding],
      rbds_AutomountServiceAccountToken = None\<rparr>\<rparr>"

theorem accepted_bindings_bounded_witness:
  "EvaluateBindDefinition (\<lambda>s. Inl '''') (Some sample_bind_policy) (Some sample_rbd) None = [] \<and>
   (\<exists>limits crl. ps_BindingLimits (policy_Spec sample_bind_policy) = Some limits \<and>
      bl_ClusterRoleBindingLimits limits = Some crl \<and>
      list_all (\<lambda>p. \<not> MatchesWildcard p ''team-view'') (rrl_ForbiddenRoleRefs crl))"
proof -
  have ok: "EvaluateBindDefinition (\<lambda>s. Inl '''') (Some sample_bind_policy) (Some sample_rbd) None = []"
    by code_simp
  have "sample_binding \<in> set (rbds_RoleBindings (rbd_Spec sample_rbd))"
      "''team-view'' \<in> set (nb_ClusterRoleRefs sample_binding)"
    by (simp_all add: sample_rbd_def sample_binding_def)
  with accepted_bindings_bounded [OF ok] ok show ?thesis unfolding list_all_iff by blast
qed

end
