(* ===== verification/Bind_Compliance.thy ===== *)
theory Bind_Compliance
  imports Bind_Policy
begin

text \<open>
  Which RestrictedBindDefinitions a policy admits, stated without the functions of the evaluator. The evaluation
  of \<^verbatim>\<open>pkg/policy/evaluator.go\<close> is proved to decide this specification, for the policies and definitions on
  which the documentation of the fields and the code agree.
\<close>

section \<open>What a policy asks\<close>

text \<open>
  A role reference: no forbidden pattern matches it, a forbidding selector is checked against known labels
  and does not select them, and a pattern or, beside patterns, a selector admits it.
\<close>

definition role_allowed :: "selector_api \<Rightarrow> RoleRefLimits \<Rightarrow> string \<Rightarrow> labels option \<Rightarrow> bool" where
  "role_allowed asSelector limits ref known \<longleftrightarrow>
     (\<forall>p \<in> set (rrl_ForbiddenRoleRefs limits). \<not> glob p ref) \<and>
     (\<forall>sel. rrl_ForbiddenRoleRefSelector limits = Some sel \<longrightarrow>
        (\<exists>ls. known = Some ls \<and> \<not> selects asSelector sel ls)) \<and>
     rrl_AllowedRoleRefs limits \<noteq> [] \<and>
     ((\<exists>p \<in> set (rrl_AllowedRoleRefs limits). glob p ref) \<or>
      (\<exists>sel ls. rrl_AllowedRoleRefSelector limits = Some sel \<and> known = Some ls \<and> selects asSelector sel ls))"

text \<open>A condition on the namespaces of a binding: the named one, or all that its selectors select.\<close>

definition all_selected :: "LabelGetter \<Rightarrow> LabelSelector \<Rightarrow> (string \<Rightarrow> bool) \<Rightarrow> bool" where
  "all_selected getter sel P \<longleftrightarrow>
     (\<exists>names. ListNamespacesBySelector getter sel = Inr names \<and> (\<forall>ns \<in> set names. P ns))"

definition at_targets :: "LabelGetter \<Rightarrow> NamespaceBinding \<Rightarrow> (string \<Rightarrow> bool) \<Rightarrow> bool" where
  "at_targets getter nb P \<longleftrightarrow>
     (if nb_Namespace nb \<noteq> '''' then P (nb_Namespace nb)
      else \<forall>sel \<in> set (nb_NamespaceSelector nb). all_selected getter sel P)"

definition target_names :: "LabelGetter \<Rightarrow> NamespaceBinding \<Rightarrow> string set" where
  "target_names getter nb =
     (if nb_Namespace nb \<noteq> '''' then {nb_Namespace nb}
      else {ns. \<exists>sel \<in> set (nb_NamespaceSelector nb). \<exists>names.
        ListNamespacesBySelector getter sel = Inr names \<and> ns \<in> set names})"

definition place_allowed_by :: "selector_api \<Rightarrow> LabelGetter \<Rightarrow> string list \<Rightarrow> string list \<Rightarrow> LabelSelector option \<Rightarrow> string \<Rightarrow> bool" where
  "place_allowed_by asSelector getter forbidden prefixes allowed ns \<longleftrightarrow>
     ns \<notin> set forbidden \<and> \<not> (\<exists>p \<in> set prefixes. \<exists>rest. ns = p @ rest) \<and>
     (\<forall>sel. allowed = Some sel \<longrightarrow> ns_selected asSelector getter sel ns)"

definition refs_admitted ::
  "selector_api \<Rightarrow> LabelGetter \<Rightarrow> BindingLimits \<Rightarrow> NamespaceBinding \<Rightarrow> bool" where
  "refs_admitted asSelector getter limits nb \<longleftrightarrow>
     (\<forall>ref \<in> set (nb_ClusterRoleRefs nb). \<exists>rl. bl_ClusterRoleBindingLimits limits = Some rl \<and>
        role_allowed asSelector rl ref (fst (GetClusterRoleLabels getter ref))) \<and>
     (\<forall>ref \<in> set (nb_RoleRefs nb). \<exists>rl. bl_RoleBindingLimits limits = Some rl \<and>
        at_targets getter nb (\<lambda>ns. role_allowed asSelector rl ref (fst (GetRoleLabels getter ns ref))) \<and>
        (nb_Namespace nb = '''' \<and> nb_NamespaceSelector nb = [] \<longrightarrow> role_allowed asSelector rl ref None))"

definition bindings_admitted ::
  "selector_api \<Rightarrow> LabelGetter \<Rightarrow> BindingLimits \<Rightarrow> string list \<Rightarrow> NamespaceBinding list \<Rightarrow> bool" where
  "bindings_admitted asSelector getter limits clusterRefs bindings \<longleftrightarrow>
     (clusterRefs \<noteq> [] \<longrightarrow> bl_AllowClusterRoleBindings limits) \<and>
     (\<forall>ref \<in> set clusterRefs. \<exists>rl. bl_ClusterRoleBindingLimits limits = Some rl \<and>
        role_allowed asSelector rl ref (fst (GetClusterRoleLabels getter ref))) \<and>
     (\<forall>nb \<in> set bindings. refs_admitted asSelector getter limits nb \<and>
        (\<forall>nl. bl_TargetNamespaceLimits limits = Some nl \<longrightarrow>
           at_targets getter nb (place_allowed_by asSelector getter (nl_ForbiddenNamespaces nl)
             (nl_ForbiddenNamespacePrefixes nl) (nl_AllowedNamespaceSelector nl)) \<and>
           (\<forall>mx. nl_MaxTargetNamespaces nl = Some mx \<longrightarrow> int (card (target_names getter nb)) \<le> mx)))"

definition subject_admitted :: "selector_api \<Rightarrow> LabelGetter \<Rightarrow> SubjectLimits \<Rightarrow> Subject \<Rightarrow> bool" where
  "subject_admitted asSelector getter limits s \<longleftrightarrow>
     subj_Kind s \<notin> set (sl_ForbiddenKinds limits) \<and> subj_Kind s \<in> set (sl_AllowedKinds limits) \<and>
     (\<forall>nl. subj_Kind s = ''User'' \<and> sl_UserLimits limits = Some nl \<or>
           subj_Kind s = ''Group'' \<and> sl_GroupLimits limits = Some nl \<longrightarrow>
        \<not> name_forbidden nl (subj_Name s) \<and> name_any_allowed nl (subj_Name s)) \<and>
     (\<forall>sal. subj_Kind s = ''ServiceAccount'' \<and> sl_ServiceAccountLimits limits = Some sal \<longrightarrow>
        place_allowed_by asSelector getter (sal_ForbiddenNamespaces sal) (sal_ForbiddenNamespacePrefixes sal)
          (if subj_Namespace s = '''' then None else sal_AllowedNamespaceSelector sal) (subj_Namespace s))"

definition bind_admitted ::
  "selector_api \<Rightarrow> LabelGetter \<Rightarrow> RBACPolicy \<Rightarrow> RestrictedBindDefinition \<Rightarrow> bool" where
  "bind_admitted asSelector getter policy rbd \<longleftrightarrow>
     (let scope = in_scope asSelector getter (ps_AppliesTo (policy_Spec policy));
          clusterRefs = (case rbds_ClusterRoleBindings (rbd_Spec rbd) of None \<Rightarrow> [] | Some b \<Rightarrow> cb_ClusterRoleRefs b);
          bindings = rbds_RoleBindings (rbd_Spec rbd); subjects = rbds_Subjects (rbd_Spec rbd) in
      (clusterRefs \<noteq> [] \<longrightarrow> ''*'' \<in> set (scope_Namespaces (ps_AppliesTo (policy_Spec policy)))) \<and>
      (\<forall>nb \<in> set bindings. (nb_Namespace nb \<noteq> '''' \<longrightarrow> scope (nb_Namespace nb)) \<and>
         (\<forall>sel \<in> set (nb_NamespaceSelector nb). all_selected getter sel scope)) \<and>
      (\<forall>s \<in> set subjects. subj_Kind s = ''ServiceAccount'' \<and> subj_Namespace s \<noteq> '''' \<longrightarrow> scope (subj_Namespace s)) \<and>
      (case ps_BindingLimits (policy_Spec policy) of
         None \<Rightarrow> clusterRefs = [] \<and> (\<forall>nb \<in> set bindings. nb_ClusterRoleRefs nb = [] \<and> nb_RoleRefs nb = [])
       | Some limits \<Rightarrow> bindings_admitted asSelector getter limits clusterRefs bindings) \<and>
      (case ps_SubjectLimits (policy_Spec policy) of
         None \<Rightarrow> subjects = []
       | Some limits \<Rightarrow> \<forall>s \<in> set subjects. subject_admitted asSelector getter limits s))"

section \<open>Where the documentation and the code agree\<close>

text \<open>
  The documentation and the code agree when allow selectors for roles come beside name patterns (an empty list
  of patterns is documented to allow nothing), when the maximum of target namespaces, documented per binding, is
  given for a definition with one binding entry, and when subject names have one kind of allow list (a name
  has to match one of the lists according to the comment, and all of them according to the code).
\<close>

definition refs_documented :: "BindingLimits \<Rightarrow> bool" where
  "refs_documented limits \<longleftrightarrow>
     (\<forall>rl. bl_ClusterRoleBindingLimits limits = Some rl \<or> bl_RoleBindingLimits limits = Some rl \<longrightarrow>
        rrl_AllowedRoleRefSelector rl \<noteq> None \<longrightarrow> rrl_AllowedRoleRefs rl \<noteq> [])"

definition bind_documented :: "RBACPolicy \<Rightarrow> RestrictedBindDefinition \<Rightarrow> bool" where
  "bind_documented policy rbd \<longleftrightarrow>
     (\<forall>limits. ps_BindingLimits (policy_Spec policy) = Some limits \<longrightarrow>
        refs_documented limits \<and>
        (\<forall>nl. bl_TargetNamespaceLimits limits = Some nl \<longrightarrow> nl_MaxTargetNamespaces nl \<noteq> None \<longrightarrow>
           length (rbds_RoleBindings (rbd_Spec rbd)) = 1)) \<and>
     (\<forall>limits nl. ps_SubjectLimits (policy_Spec policy) = Some limits \<longrightarrow>
        sl_UserLimits limits = Some nl \<or> sl_GroupLimits limits = Some nl \<longrightarrow> one_allow_list nl)"

section \<open>The evaluation decides the specification\<close>

lemma role_ref_meaning:
  assumes "rrl_AllowedRoleRefSelector rl \<noteq> None \<longrightarrow> rrl_AllowedRoleRefs rl \<noteq> []"
  shows "role_ref_ok asSelector rl ref known True \<longleftrightarrow> role_allowed asSelector rl ref known"
  using assms by (cases known) (auto simp: role_ref_ok_def role_allowed_def matchesSelector_selects)

lemma resolves_to_meaning: "resolves_to (Some getter) sel P \<longleftrightarrow> all_selected getter sel P"
  by (simp add: resolves_to_def all_selected_def)

lemma binding_targets_meaning: "binding_targets_ok P (Some getter) nb \<longleftrightarrow> at_targets getter nb P"
  by (simp add: binding_targets_ok_def at_targets_def resolves_to_meaning)

lemma target_ok_meaning:
  assumes "labels_resolve getter"
  shows "target_ok asSelector nl (Some getter) = place_allowed_by asSelector getter (nl_ForbiddenNamespaces nl)
    (nl_ForbiddenNamespacePrefixes nl) (nl_AllowedNamespaceSelector nl)"
  by (rule ext) (auto simp: target_ok_def place_allowed_by_def selector_admits_meaning [OF assms] HasPrefix_iff)

lemma cluster_refs_meaning:
  assumes "refs_documented limits"
  shows "cluster_refs_ok asSelector limits (Some getter) refs \<longleftrightarrow>
    (\<forall>ref \<in> set refs. \<exists>rl. bl_ClusterRoleBindingLimits limits = Some rl \<and>
      role_allowed asSelector rl ref (fst (GetClusterRoleLabels getter ref)))"
  using role_ref_meaning assms [unfolded refs_documented_def]
  by (cases "bl_ClusterRoleBindingLimits limits"; cases refs) (auto simp: cluster_refs_ok_def clusterRoleLabels_def)

lemma refs_meaning:
  assumes "refs_documented limits"
  shows "binding_refs_ok asSelector limits (Some getter) nb \<longleftrightarrow> refs_admitted asSelector getter limits nb"
proof -
  have "namespaced_ref_ok asSelector rl nb (Some getter) ref \<longleftrightarrow>
      at_targets getter nb (\<lambda>ns. role_allowed asSelector rl ref (fst (GetRoleLabels getter ns ref))) \<and>
      (nb_Namespace nb = '''' \<and> nb_NamespaceSelector nb = [] \<longrightarrow> role_allowed asSelector rl ref None)"
    if "bl_RoleBindingLimits limits = Some rl" for rl ref
    using role_ref_meaning [of rl] assms [unfolded refs_documented_def] that
    by (auto simp: namespaced_ref_ok_def at_targets_def resolves_to_meaning namespacedRoleLabels_def)
  then show ?thesis
    unfolding binding_refs_ok_def refs_admitted_def cluster_refs_meaning [OF assms]
    by (cases "bl_RoleBindingLimits limits"; cases "nb_RoleRefs nb") auto
qed

lemma resolvedNamespaces_targets:
  "set (resolvedNamespaces bindings (Some getter)) = (\<Union>nb \<in> set bindings. target_names getter nb)"
  by (auto simp: resolvedNamespaces_def target_names_def split: sum.splits if_splits)

lemma bindings_meaning:
  assumes "labels_resolve getter"
    and doc: "refs_documented limits"
    and one: "\<And>nl. bl_TargetNamespaceLimits limits = Some nl \<Longrightarrow> nl_MaxTargetNamespaces nl \<noteq> None \<Longrightarrow>
      length (rbds_RoleBindings (rbd_Spec rbd)) = 1"
  shows "binding_limits_hold asSelector limits (Some getter) rbd \<longleftrightarrow>
    bindings_admitted asSelector getter limits (restrictedBindClusterRoleRefs (rbds_ClusterRoleBindings (rbd_Spec rbd)))
      (rbds_RoleBindings (rbd_Spec rbd))"
proof -
  let ?bs = "rbds_RoleBindings (rbd_Spec rbd)"
  have count: "int (card (set (resolvedNamespaces ?bs (Some getter)))) \<le> mx \<longleftrightarrow>
      (\<forall>nb \<in> set ?bs. int (card (target_names getter nb)) \<le> mx)"
    if "bl_TargetNamespaceLimits limits = Some nl" "nl_MaxTargetNamespaces nl = Some mx" for nl mx
  proof -
    have "length ?bs = 1" using one [OF that(1)] that(2) by simp
    then obtain nb where "?bs = [nb]" by (auto simp: length_Suc_conv)
    then show ?thesis by (simp add: resolvedNamespaces_targets)
  qed
  show ?thesis
    unfolding binding_limits_hold_def bindings_admitted_def Let_def cluster_refs_meaning [OF doc] refs_meaning [OF doc]
      binding_targets_meaning target_ok_meaning [OF assms(1)]
    using count by (cases "bl_TargetNamespaceLimits limits") auto
qed

lemma subject_meaning:
  assumes "labels_resolve getter"
    and "\<And>nl. sl_UserLimits limits = Some nl \<or> sl_GroupLimits limits = Some nl \<Longrightarrow> one_allow_list nl"
  shows "subject_ok asSelector limits (Some getter) s \<longleftrightarrow> subject_admitted asSelector getter limits s"
proof -
  have "sa_ok asSelector sal (Some getter) ns \<longleftrightarrow>
      place_allowed_by asSelector getter (sal_ForbiddenNamespaces sal) (sal_ForbiddenNamespacePrefixes sal)
        (if ns = '''' then None else sal_AllowedNamespaceSelector sal) ns" for sal ns
    by (auto simp: sa_ok_def place_allowed_by_def selector_admits_meaning [OF assms(1)] HasPrefix_iff)
  then show ?thesis
    using one_allow_list_meaning [OF assms(2)]
    by (auto simp: subject_ok_def subject_admitted_def UserKind_def GroupKind_def ServiceAccountKind_def)
qed

section \<open>Properties\<close>

text \<open>
  Property C11 (bind_evaluation_exact): with a label resolver that gives every namespace it finds its labels,
  the evaluation of a RestrictedBindDefinition reports no violation exactly when the policy admits it: its bindings
  and ServiceAccount subjects lie in the scope of the policy, ClusterRoleBindings are permitted, every role it
  binds is admitted by the limits for that kind of reference in every namespace it is bound in, the target
  namespaces respect the namespace limits and their maximum, and every subject is of an allowed kind and
  respects the limits of its kind. Without the respective limits no reference and no subject is accepted, and
  a selector never clears or admits a role whose labels are unknown. The specification does not use the
  evaluator's functions; it is stated where the documentation agrees with the code (\<open>bind_documented\<close>).
\<close>

theorem bind_evaluation_exact:
  assumes "labels_resolve getter" and "bind_documented policy rbd"
  shows "EvaluateBindDefinition asSelector (Some policy) (Some rbd) (Some getter) = [] \<longleftrightarrow>
    bind_admitted asSelector getter policy rbd"
proof -
  have limits: "binding_limits_hold asSelector limits (Some getter) rbd \<longleftrightarrow>
      bindings_admitted asSelector getter limits (restrictedBindClusterRoleRefs (rbds_ClusterRoleBindings (rbd_Spec rbd)))
        (rbds_RoleBindings (rbd_Spec rbd))" if "ps_BindingLimits (policy_Spec policy) = Some limits" for limits
    by (rule bindings_meaning [OF assms(1)]) (use assms(2) that in \<open>auto simp: bind_documented_def\<close>)
  have subjects: "subject_ok asSelector limits (Some getter) s \<longleftrightarrow> subject_admitted asSelector getter limits s"
    if "ps_SubjectLimits (policy_Spec policy) = Some limits" for limits s
    by (rule subject_meaning [OF assms(1)]) (use assms(2) that in \<open>auto simp: bind_documented_def\<close>)
  have refs: "\<not> rbdHasRoleRefs rbd \<longleftrightarrow> restrictedBindClusterRoleRefs (rbds_ClusterRoleBindings (rbd_Spec rbd)) = [] \<and>
      (\<forall>nb \<in> set (rbds_RoleBindings (rbd_Spec rbd)). nb_ClusterRoleRefs nb = [] \<and> nb_RoleRefs nb = [])"
    by (auto simp: rbdHasRoleRefs_def list_ex_iff)
  show ?thesis
    unfolding EvaluateBindDefinition_ok bind_complies_def bind_admitted_def Let_def binding_in_scope_def
      resolves_to_meaning scope_meaning [OF assms(1)] restrictedBindClusterRoleRefs_def [symmetric] refs
      ServiceAccountKind_def imp_conjL
    by (intro conj_cong refl) (auto simp: limits subjects split: option.splits)
qed

text \<open>The sample definition binds a role of its team in its namespace; with an administrator role it is rejected.\<close>

theorem bind_evaluation_exact_witness:
  "bind_admitted (\<lambda>s. Inl '''') labelled_getter sample_bind_policy sample_rbd \<and>
   \<not> bind_admitted (\<lambda>s. Inl '''') labelled_getter sample_bind_policy
       (sample_rbd\<lparr>rbd_Spec := (rbd_Spec sample_rbd)
          \<lparr>rbds_RoleBindings := [sample_binding\<lparr>nb_ClusterRoleRefs := [''team-admin'']\<rparr>]\<rparr>\<rparr>)"
proof -
  have doc: "bind_documented sample_bind_policy rbd" for rbd
    by (simp add: bind_documented_def refs_documented_def sample_bind_policy_def)
  have "EvaluateBindDefinition (\<lambda>s. Inl '''') (Some sample_bind_policy) (Some sample_rbd) (Some labelled_getter) = []"
    by code_simp
  moreover have "EvaluateBindDefinition (\<lambda>s. Inl '''') (Some sample_bind_policy) (Some (sample_rbd\<lparr>rbd_Spec := (rbd_Spec sample_rbd)
      \<lparr>rbds_RoleBindings := [sample_binding\<lparr>nb_ClusterRoleRefs := [''team-admin'']\<rparr>]\<rparr>\<rparr>)) (Some labelled_getter) \<noteq> []"
    by code_simp
  ultimately show ?thesis using bind_evaluation_exact [OF labelled_getter_resolves doc] by blast
qed

end
