(* ===== verification/Conditions.thy ===== *)
theory Conditions
  imports Go_Prelude "HOL-Library.Multiset"
begin

text \<open>
  Status conditions (\<^verbatim>\<open>pkg/conditions\<close>): the sorted list of conditions an object carries, setting and
  deleting one, and the three marks of kstatus (Ready, Reconciling, Stalled). The marks are proved
  against the contract of a status store, which the list implementation is shown to satisfy.
\<close>

section \<open>The list\<close>

record Condition =
  c_Type :: string
  c_Status :: string
  c_ObservedGeneration :: int
  c_LastTransitionTime :: int
  c_Reason :: string
  c_Message :: string

text \<open>
  Times are seconds, zero the zero time. \<^verbatim>\<open>meta.FindStatusCondition\<close> of apimachinery is a parameter.
\<close>

type_synonym find_api = "Condition list \<Rightarrow> string \<Rightarrow> Condition option"

definition ConditionTrue :: string where "ConditionTrue = ''True''"
definition ConditionFalse :: string where "ConditionFalse = ''False''"
definition ConditionUnknown :: string where "ConditionUnknown = ''Unknown''"
definition ReadyConditionType :: string where "ReadyConditionType = ''Ready''"
definition ReconcilingConditionType :: string where "ReconcilingConditionType = ''Reconciling''"
definition StalledConditionType :: string where "StalledConditionType = ''Stalled''"

lemmas condition_consts = ConditionTrue_def ConditionFalse_def ConditionUnknown_def
  ReadyConditionType_def ReconcilingConditionType_def StalledConditionType_def

definition Get :: "find_api \<Rightarrow> Condition list \<Rightarrow> string \<Rightarrow> Condition option" where
  "Get findStatus conditions t = findStatus conditions t"

definition Has :: "find_api \<Rightarrow> Condition list \<Rightarrow> string \<Rightarrow> bool" where
  "Has findStatus conditions t \<longleftrightarrow> Get findStatus conditions t \<noteq> None"

definition IsUnknown :: "find_api \<Rightarrow> Condition list \<Rightarrow> string \<Rightarrow> bool" where
  "IsUnknown findStatus conditions t =
     (case Get findStatus conditions t of Some c \<Rightarrow> c_Status c = ConditionUnknown | None \<Rightarrow> True)"

definition GetObservedGeneration :: "find_api \<Rightarrow> Condition list \<Rightarrow> string \<Rightarrow> int" where
  "GetObservedGeneration findStatus conditions t =
     (case Get findStatus conditions t of Some c \<Rightarrow> c_ObservedGeneration c | None \<Rightarrow> 0)"

definition GetLastTransitionTime :: "find_api \<Rightarrow> Condition list \<Rightarrow> string \<Rightarrow> int option" where
  "GetLastTransitionTime findStatus conditions t =
     (case Get findStatus conditions t of Some c \<Rightarrow> Some (c_LastTransitionTime c) | None \<Rightarrow> None)"

definition GetReason :: "find_api \<Rightarrow> Condition list \<Rightarrow> string \<Rightarrow> string" where
  "GetReason findStatus conditions t =
     (case Get findStatus conditions t of Some c \<Rightarrow> c_Reason c | None \<Rightarrow> '''')"

definition GetMessage :: "find_api \<Rightarrow> Condition list \<Rightarrow> string \<Rightarrow> string" where
  "GetMessage findStatus conditions t =
     (case Get findStatus conditions t of Some c \<Rightarrow> c_Message c | None \<Rightarrow> '''')"

definition hasSameState :: "Condition \<Rightarrow> Condition \<Rightarrow> bool" where
  "hasSameState i j \<longleftrightarrow> c_Type i = c_Type j \<and> c_Status i = c_Status j \<and>
     c_ObservedGeneration i = c_ObservedGeneration j \<and> c_Reason i = c_Reason j \<and>
     c_Message i = c_Message j"

text \<open>
  The loop of \<^verbatim>\<open>Set\<close>: the list after it and whether the type was found. \<open>now\<close> is the current time
  truncated to seconds.
\<close>

fun Set_loop :: "int \<Rightarrow> Condition list \<Rightarrow> Condition \<Rightarrow> Condition list \<times> bool" where
  "Set_loop now [] condition = ([], False)"
| "Set_loop now (existing # rest) condition =
     (if c_Type existing = c_Type condition then
        (if \<not> hasSameState existing condition
         then (condition\<lparr>c_LastTransitionTime := now\<rparr> # rest, True)
         else (existing # rest, True))
      else (let (rest', found) = Set_loop now rest condition in (existing # rest', found)))"

definition Set :: "int \<Rightarrow> Condition list \<Rightarrow> Condition option \<Rightarrow> Condition list" where
  "Set now conditions conditionp =
     (case conditionp of
        None \<Rightarrow> conditions
      | Some condition \<Rightarrow>
          let (conditions1, exists) = Set_loop now conditions condition;
              conditions2 =
                (if \<not> exists
                 then conditions1 @
                   [if c_LastTransitionTime condition = 0
                    then condition\<lparr>c_LastTransitionTime := now\<rparr> else condition]
                 else conditions1)
          in sort_key c_Type conditions2)"

definition newCondition :: "string \<Rightarrow> string \<Rightarrow> int \<Rightarrow> string \<Rightarrow> string \<Rightarrow> Condition" where
  "newCondition t status gen reason message =
     \<lparr>c_Type = t, c_Status = status, c_ObservedGeneration = gen, c_LastTransitionTime = 0,
      c_Reason = reason, c_Message = message\<rparr>"

definition TrueCondition :: "string \<Rightarrow> int \<Rightarrow> string \<Rightarrow> string \<Rightarrow> Condition" where
  "TrueCondition t gen reason message = newCondition t ConditionTrue gen reason message"
definition FalseCondition :: "string \<Rightarrow> int \<Rightarrow> string \<Rightarrow> string \<Rightarrow> Condition" where
  "FalseCondition t gen reason message = newCondition t ConditionFalse gen reason message"
definition UnknownCondition :: "string \<Rightarrow> int \<Rightarrow> string \<Rightarrow> string \<Rightarrow> Condition" where
  "UnknownCondition t gen reason message = newCondition t ConditionUnknown gen reason message"

definition MarkTrue :: "int \<Rightarrow> Condition list \<Rightarrow> string \<Rightarrow> int \<Rightarrow> string \<Rightarrow> string \<Rightarrow> Condition list" where
  "MarkTrue now cs t gen reason message = Set now cs (Some (TrueCondition t gen reason message))"
definition MarkFalse :: "int \<Rightarrow> Condition list \<Rightarrow> string \<Rightarrow> int \<Rightarrow> string \<Rightarrow> string \<Rightarrow> Condition list" where
  "MarkFalse now cs t gen reason message = Set now cs (Some (FalseCondition t gen reason message))"
definition MarkUnknown :: "int \<Rightarrow> Condition list \<Rightarrow> string \<Rightarrow> int \<Rightarrow> string \<Rightarrow> string \<Rightarrow> Condition list" where
  "MarkUnknown now cs t gen reason message = Set now cs (Some (UnknownCondition t gen reason message))"

definition Delete :: "Condition list \<Rightarrow> string \<Rightarrow> Condition list" where
  "Delete conditions t = filter (\<lambda>c. c_Type c \<noteq> t) conditions"

definition MarkReady :: "int \<Rightarrow> Condition list \<Rightarrow> int \<Rightarrow> string \<Rightarrow> string \<Rightarrow> Condition list" where
  "MarkReady now cs gen reason message =
     Delete (Delete (MarkTrue now cs ReadyConditionType gen reason message) ReconcilingConditionType)
       StalledConditionType"

definition MarkNotReady :: "int \<Rightarrow> Condition list \<Rightarrow> int \<Rightarrow> string \<Rightarrow> string \<Rightarrow> Condition list" where
  "MarkNotReady now cs gen reason message = MarkFalse now cs ReadyConditionType gen reason message"

definition MarkReconciling :: "int \<Rightarrow> Condition list \<Rightarrow> int \<Rightarrow> string \<Rightarrow> string \<Rightarrow> Condition list" where
  "MarkReconciling now cs gen reason message =
     Delete (MarkFalse now (MarkTrue now cs ReconcilingConditionType gen reason message)
       ReadyConditionType gen reason message) StalledConditionType"

definition MarkStalled :: "int \<Rightarrow> Condition list \<Rightarrow> int \<Rightarrow> string \<Rightarrow> string \<Rightarrow> Condition list" where
  "MarkStalled now cs gen reason message =
     Delete (MarkFalse now (MarkTrue now cs StalledConditionType gen reason message)
       ReadyConditionType gen reason message) ReconcilingConditionType"

definition statusIs :: "find_api \<Rightarrow> Condition list \<Rightarrow> string \<Rightarrow> string \<Rightarrow> bool" where
  "statusIs findStatus conditions t status =
     (case Get findStatus conditions t of None \<Rightarrow> False | Some c \<Rightarrow> c_Status c = status)"

definition IsReady :: "find_api \<Rightarrow> Condition list \<Rightarrow> bool" where
  "IsReady findStatus cs = statusIs findStatus cs ReadyConditionType ConditionTrue"
definition IsReconciling :: "find_api \<Rightarrow> Condition list \<Rightarrow> bool" where
  "IsReconciling findStatus cs = statusIs findStatus cs ReconcilingConditionType ConditionTrue"
definition IsStalled :: "find_api \<Rightarrow> Condition list \<Rightarrow> bool" where
  "IsStalled findStatus cs = statusIs findStatus cs StalledConditionType ConditionTrue"

text \<open>Namespaces: a nil namespace is neither terminating nor active.\<close>

definition NamespaceTerminating :: string where "NamespaceTerminating = ''Terminating''"

definition IsNamespaceTerminating :: "string option \<Rightarrow> bool" where
  "IsNamespaceTerminating phase =
     (case phase of None \<Rightarrow> False | Some p \<Rightarrow> p = NamespaceTerminating)"

definition IsNamespaceActive :: "string option \<Rightarrow> bool" where
  "IsNamespaceActive phase =
     (case phase of None \<Rightarrow> False | Some p \<Rightarrow> p \<noteq> NamespaceTerminating)"

section \<open>Invariant\<close>

definition conditions_wf :: "Condition list \<Rightarrow> bool" where
  "conditions_wf cs \<longleftrightarrow> sorted (map c_Type cs) \<and> distinct (map c_Type cs)"

text \<open>The stored state of a type, less its transition time.\<close>

definition cond_state :: "Condition list \<Rightarrow> string \<Rightarrow> Condition option" where
  "cond_state cs t = map_of (map (\<lambda>c. (c_Type c, c\<lparr>c_LastTransitionTime := 0\<rparr>)) cs) t"

lemma types_Set_loop: "map c_Type (fst (Set_loop now cs c)) = map c_Type cs"
  by (induction now cs c rule: Set_loop.induct) (auto simp: split_beta Let_def)

lemma found_Set_loop: "snd (Set_loop now cs c) \<longleftrightarrow> c_Type c \<in> c_Type ` set cs"
  by (induction now cs c rule: Set_loop.induct) (auto simp: split_beta Let_def)

lemma cond_state_Set_loop:
  "c_Type c \<in> c_Type ` set cs \<Longrightarrow>
   cond_state (fst (Set_loop now cs c)) t =
     (if t = c_Type c then Some (c\<lparr>c_LastTransitionTime := 0\<rparr>) else cond_state cs t)"
  by (induction now cs c rule: Set_loop.induct)
    (auto simp: cond_state_def hasSameState_def split_beta Let_def)

lemma cond_state_None: "cond_state cs t = None \<longleftrightarrow> t \<notin> c_Type ` set cs"
  by (simp add: cond_state_def map_of_eq_None_iff image_image)

lemma cond_state_sort:
  assumes "distinct (map c_Type cs)"
  shows "cond_state (sort_key c_Type cs) t = cond_state cs t"
proof -
  let ?f = "\<lambda>c. (c_Type c, c\<lparr>c_LastTransitionTime := 0\<rparr>)"
  have fsts: "map fst (map ?f xs) = map c_Type xs" for xs by simp
  have "mset (map c_Type (sort_key c_Type cs)) = mset (map c_Type cs)" by simp
  then have "distinct (map fst (map ?f (sort_key c_Type cs)))"
    unfolding fsts using assms mset_eq_imp_distinct_iff by blast
  moreover have "distinct (map fst (map ?f cs))" unfolding fsts by (rule assms)
  ultimately have "map_of (map ?f (sort_key c_Type cs)) = map_of (map ?f cs)"
    by (subst map_of_inject_set) auto
  then show ?thesis by (simp add: cond_state_def)
qed

lemma distinct_sort_types: "distinct (map c_Type cs) \<Longrightarrow> distinct (map c_Type (sort_key c_Type cs))"
proof -
  have "mset (map c_Type (sort_key c_Type cs)) = mset (map c_Type cs)" by simp
  then show "distinct (map c_Type cs) \<Longrightarrow> ?thesis" using mset_eq_imp_distinct_iff by blast
qed

lemma cond_state_snoc:
  "c_Type c \<notin> c_Type ` set cs \<Longrightarrow> cond_state (cs @ [c]) t =
     (if t = c_Type c then Some (c\<lparr>c_LastTransitionTime := 0\<rparr>) else cond_state cs t)"
  using cond_state_None [of cs "c_Type c"]
  by (auto simp: cond_state_def map_add_def split: option.splits)

lemma Set_cases:
  obtains (old) "c_Type c \<in> c_Type ` set cs"
      "Set now cs (Some c) = sort_key c_Type (fst (Set_loop now cs c))"
    | (new) c' where "c_Type c \<notin> c_Type ` set cs" "Set now cs (Some c) = sort_key c_Type (cs @ [c'])"
      "c_Type c' = c_Type c" "c'\<lparr>c_LastTransitionTime := 0\<rparr> = c\<lparr>c_LastTransitionTime := 0\<rparr>"
proof (cases "c_Type c \<in> c_Type ` set cs")
  case True
  with old show thesis by (simp add: Set_def Let_def split_beta found_Set_loop)
next
  case False
  have "fst (Set_loop now cs c) = cs"
    using False by (induction now cs c rule: Set_loop.induct) (auto simp: split_beta Let_def)
  with False new show thesis by (auto simp: Set_def Let_def split_beta found_Set_loop split: if_splits)
qed

lemma Set_wf: "conditions_wf cs \<Longrightarrow> conditions_wf (Set now cs (Some c))"
proof -
  assume "conditions_wf cs"
  then have d: "distinct (map c_Type cs)" by (simp add: conditions_wf_def)
  show ?thesis
  proof (cases rule: Set_cases [of c cs now])
    case old
    then show ?thesis using d by (simp add: conditions_wf_def distinct_sort_types types_Set_loop)
  next
    case (new c')
    then show ?thesis using d by (simp add: conditions_wf_def distinct_sort_types)
  qed
qed

lemma Set_state:
  assumes "conditions_wf cs"
  shows "cond_state (Set now cs (Some c)) t =
    (if t = c_Type c then Some (c\<lparr>c_LastTransitionTime := 0\<rparr>) else cond_state cs t)"
proof -
  have d: "distinct (map c_Type cs)" using assms by (simp add: conditions_wf_def)
  show ?thesis
  proof (cases rule: Set_cases [of c cs now])
    case old
    then show ?thesis
      using d by (simp only: cond_state_sort types_Set_loop cond_state_Set_loop)
  next
    case (new c')
    have "distinct (map c_Type (cs @ [c']))" using d new by simp
    then show ?thesis
      using new cond_state_snoc [of c' cs t] by (simp add: cond_state_sort del: map_append)
  qed
qed

lemma Delete_wf: "conditions_wf cs \<Longrightarrow> conditions_wf (Delete cs t)"
  by (simp add: conditions_wf_def Delete_def distinct_map_filter sorted_filter)

lemma Delete_state: "cond_state (Delete cs t) t' = (if t' = t then None else cond_state cs t')"
  by (induction cs) (auto simp: cond_state_def Delete_def)

section \<open>The marks\<close>

text \<open>
  What the kstatus marks need of a store of conditions: reading back what was set, and that setting
  or deleting one type leaves the others alone.
\<close>

locale status_store =
  fixes wf :: "'s \<Rightarrow> bool"
    and status :: "'s \<Rightarrow> string \<Rightarrow> string option"
    and put :: "string \<Rightarrow> string \<Rightarrow> 's \<Rightarrow> 's"
    and remove :: "string \<Rightarrow> 's \<Rightarrow> 's"
  assumes put_wf: "wf s \<Longrightarrow> wf (put t v s)"
    and remove_wf: "wf s \<Longrightarrow> wf (remove t s)"
    and status_put: "wf s \<Longrightarrow> status (put t v s) t' = (if t' = t then Some v else status s t')"
    and status_remove: "wf s \<Longrightarrow> status (remove t s) t' = (if t' = t then None else status s t')"
begin

definition kstate :: "'s \<Rightarrow> bool \<times> bool \<times> bool" where
  "kstate s = (status s ReadyConditionType = Some ConditionTrue,
     status s ReconcilingConditionType = Some ConditionTrue,
     status s StalledConditionType = Some ConditionTrue)"

lemma ready_state:
  "wf s \<Longrightarrow> kstate (remove StalledConditionType (remove ReconcilingConditionType
     (put ReadyConditionType ConditionTrue s))) = (True, False, False)"
  by (simp add: kstate_def status_put status_remove put_wf remove_wf condition_consts)

lemma reconciling_state:
  "wf s \<Longrightarrow> kstate (remove StalledConditionType (put ReadyConditionType ConditionFalse
     (put ReconcilingConditionType ConditionTrue s))) = (False, True, False)"
  by (simp add: kstate_def status_put status_remove put_wf remove_wf condition_consts)

lemma stalled_state:
  "wf s \<Longrightarrow> kstate (remove ReconcilingConditionType (put ReadyConditionType ConditionFalse
     (put StalledConditionType ConditionTrue s))) = (False, False, True)"
  by (simp add: kstate_def status_put status_remove put_wf remove_wf condition_consts)

end

definition cond_status :: "Condition list \<Rightarrow> string \<Rightarrow> string option" where
  "cond_status cs t = map_option c_Status (cond_state cs t)"

interpretation cond_store: status_store conditions_wf cond_status
  "\<lambda>t v cs. Set now cs (Some (newCondition t v gen reason message))" "\<lambda>t cs. Delete cs t"
  for now gen reason message
  by unfold_locales (simp_all add: Set_wf Delete_wf cond_status_def Set_state Delete_state newCondition_def)

text \<open>The documented behaviour of \<^verbatim>\<open>meta.FindStatusCondition\<close>: the first condition of the type.\<close>

definition finds_by_type :: "find_api \<Rightarrow> bool" where
  "finds_by_type findStatus \<longleftrightarrow> (\<forall>cs t. findStatus cs t = find (\<lambda>c. c_Type c = t) cs)"

lemma statusIs_iff: "finds_by_type f \<Longrightarrow> statusIs f cs t v \<longleftrightarrow> cond_status cs t = Some v"
proof -
  assume f: "finds_by_type f"
  have "map_option c_Status (find (\<lambda>c. c_Type c = t) cs) = cond_status cs t"
    by (induction cs) (auto simp: cond_status_def cond_state_def)
  then show ?thesis using f
    by (auto simp: statusIs_def Get_def finds_by_type_def split: option.splits)
qed

lemma kstate_list: "finds_by_type f \<Longrightarrow>
    (IsReady f cs, IsReconciling f cs, IsStalled f cs) = cond_store.kstate cs"
  by (simp add: IsReady_def IsReconciling_def IsStalled_def statusIs_iff cond_store.kstate_def)

text \<open>Setting a condition that is already there changes nothing, not even its transition time.\<close>

lemma Set_loop_same: "c \<in> set cs \<Longrightarrow> distinct (map c_Type cs) \<Longrightarrow> hasSameState c c' \<Longrightarrow>
    fst (Set_loop now cs c') = cs"
  by (induction now cs c' rule: Set_loop.induct)
    (auto simp: split_beta Let_def hasSameState_def image_iff)

lemma Set_same:
  assumes "conditions_wf cs" "c \<in> set cs" "hasSameState c c'"
  shows "Set now cs (Some c') = cs"
proof -
  have "c_Type c' = c_Type c" using assms(3) by (simp add: hasSameState_def)
  then have "c_Type c' \<in> c_Type ` set cs" using assms(2) by simp
  then have "Set now cs (Some c') = sort_key c_Type (fst (Set_loop now cs c'))"
    by (simp add: Set_def Let_def split_beta found_Set_loop)
  also have "\<dots> = sort_key c_Type cs"
    using assms by (simp add: Set_loop_same conditions_wf_def)
  also have "\<dots> = cs" using assms(1) by (simp add: conditions_wf_def sort_key_id_if_sorted)
  finally show ?thesis .
qed

lemma stored_same_state:
  assumes "conditions_wf cs"
  obtains c' where "c' \<in> set (Set now cs (Some c))" "hasSameState c' c"
proof -
  have "cond_state (Set now cs (Some c)) (c_Type c) = Some (c\<lparr>c_LastTransitionTime := 0\<rparr>)"
    using Set_state [OF assms] by simp
  then have "(c_Type c, c\<lparr>c_LastTransitionTime := 0\<rparr>) \<in>
      set (map (\<lambda>c. (c_Type c, c\<lparr>c_LastTransitionTime := 0\<rparr>)) (Set now cs (Some c)))"
    unfolding cond_state_def by (rule map_of_SomeD)
  then obtain c' where c': "c' \<in> set (Set now cs (Some c))"
      "c\<lparr>c_LastTransitionTime := 0\<rparr> = c'\<lparr>c_LastTransitionTime := 0\<rparr>"
    by auto
  have "hasSameState c' c"
    using arg_cong [OF c'(2), of "\<lambda>c. (c_Type c, c_Status c, c_ObservedGeneration c, c_Reason c, c_Message c)"]
    by (simp add: hasSameState_def)
  with c'(1) show thesis by (rule that)
qed

lemmas marks = MarkReady_def MarkReconciling_def MarkStalled_def MarkTrue_def MarkFalse_def
  TrueCondition_def FalseCondition_def

section \<open>Properties\<close>

text \<open>
  Each of the three status marks leaves a well-formed condition list
  (sorted by type, one condition per type) in exactly one of the states ready, reconciling and
  stalled, whatever the list held before.
\<close>

theorem marks_exclusive:
  assumes "finds_by_type f" and "conditions_wf cs"
  shows "(let s = MarkReady now cs gen reason message
          in conditions_wf s \<and> IsReady f s \<and> \<not> IsReconciling f s \<and> \<not> IsStalled f s) \<and>
    (let s = MarkReconciling now cs gen reason message
     in conditions_wf s \<and> \<not> IsReady f s \<and> IsReconciling f s \<and> \<not> IsStalled f s) \<and>
    (let s = MarkStalled now cs gen reason message
     in conditions_wf s \<and> \<not> IsReady f s \<and> \<not> IsReconciling f s \<and> IsStalled f s)"
proof -
  note states = cond_store.ready_state [OF assms(2), of now gen reason message]
    cond_store.reconciling_state [OF assms(2), of now gen reason message]
    cond_store.stalled_state [OF assms(2), of now gen reason message]
  have "conditions_wf (MarkReady now cs gen reason message)"
    "conditions_wf (MarkReconciling now cs gen reason message)"
    "conditions_wf (MarkStalled now cs gen reason message)"
    using assms(2) by (simp_all add: marks Set_wf Delete_wf)
  then show ?thesis
    using states [folded kstate_list [OF assms(1)]] by (simp add: marks Let_def)
qed

theorem marks_exclusive_witness:
  "finds_by_type (\<lambda>cs t. find (\<lambda>c. c_Type c = t) cs) \<and> conditions_wf [] \<and>
   IsStalled (\<lambda>cs t. find (\<lambda>c. c_Type c = t) cs) (MarkStalled 7 [] 1 ''Error'' ''failed'') \<and>
   \<not> IsReady (\<lambda>cs t. find (\<lambda>c. c_Type c = t) cs) (MarkStalled 7 [] 1 ''Error'' ''failed'')"
proof -
  have f: "finds_by_type (\<lambda>cs t. find (\<lambda>c. c_Type c = t) cs)" by (simp add: finds_by_type_def)
  have wf: "conditions_wf []" by (simp add: conditions_wf_def)
  show ?thesis using marks_exclusive [OF f wf, of 7 1 "''Error''" "''failed''"] f wf by (simp add: Let_def)
qed

text \<open>
  Setting the same condition again, at any later time, changes
  nothing: the transition time is kept and no status update is due.
\<close>

theorem set_idempotent:
  assumes "conditions_wf cs"
  shows "Set later (Set now cs (Some c)) (Some c) = Set now cs (Some c)"
proof -
  obtain c' where "c' \<in> set (Set now cs (Some c))" "hasSameState c' c"
    using stored_same_state [OF assms] .
  then show ?thesis using Set_same [OF Set_wf [OF assms]] by blast
qed

theorem set_idempotent_witness:
  "Set 9 (Set 7 [] (Some (newCondition ''Ready'' ''True'' 1 ''r'' ''m'')))
     (Some (newCondition ''Ready'' ''True'' 1 ''r'' ''m'')) =
   [\<lparr>c_Type = ''Ready'', c_Status = ''True'', c_ObservedGeneration = 1, c_LastTransitionTime = 7,
     c_Reason = ''r'', c_Message = ''m''\<rparr>]"
proof -
  have "conditions_wf []" by (simp add: conditions_wf_def)
  from set_idempotent [OF this, of 9 7 "newCondition ''Ready'' ''True'' 1 ''r'' ''m''"]
  show ?thesis by (simp add: Set_def newCondition_def)
qed

end
