(* ===== verification/Bridge.thy ===== *)
theory Bridge
  imports Impersonation Conditions
begin

text \<open>
  The BindDefinition bridge of the authorizer (\<^verbatim>\<open>internal/webhook/authorization/binddefinition_bridge.go\<close>):
  a request is granted before its RoleBinding exists, when a live BindDefinition that opted in
  selects the namespace and one of its roles covers the request. The model keeps the candidate and
  role-read limits and the bounded cache of resource scopes; the API and discovery clients are the
  fields of a record.
\<close>

section \<open>Environment\<close>

definition maxBridgeGroups :: nat where "maxBridgeGroups = 64"
definition maxBridgeCandidates :: nat where "maxBridgeCandidates = 64"
definition maxBridgeRoleReads :: nat where "maxBridgeRoleReads = 128"
definition maxBridgeScopeCache :: nat where "maxBridgeScopeCache = 256"
definition bridgeScopeTTL :: int where "bridgeScopeTTL = 5000000000"

lemmas bridge_limits = maxBridgeGroups_def maxBridgeCandidates_def maxBridgeRoleReads_def
  maxBridgeScopeCache_def

text \<open>
  \<open>br_ListBySubject\<close> lists the names the subject index nominates; \<open>br_Covers\<close> is
  \<^verbatim>\<open>rbacvalidation.Covers\<close>, \<open>br_GVString\<close> \<^verbatim>\<open>schema.GroupVersion.String\<close>.
\<close>

record bridge_env =
  br_LiveReader :: bool
  br_Discovery :: bool
  br_ListBySubject :: "string \<Rightarrow> string + string list"
  br_ServerGroups :: "string + (string \<times> string) list"
  br_ServerResources :: "string \<Rightarrow> string + APIResource list"
  br_GVString :: "string \<Rightarrow> string \<Rightarrow> string"
  br_GetNamespace :: "string \<Rightarrow> Namespace get_result"
  br_GetBindDefinition :: "string \<Rightarrow> BindDefinition get_result"
  br_GetClusterRole :: "string \<Rightarrow> PolicyRule list get_result"
  br_GetRole :: "string \<Rightarrow> string \<Rightarrow> PolicyRule list get_result"
  br_asSelector :: selector_api
  br_Covers :: "PolicyRule list \<Rightarrow> PolicyRule list \<Rightarrow> bool"

section \<open>The cache of resource scopes\<close>

type_synonym GroupVersionResource = "string \<times> string \<times> string"

record bridgeScopeEntry =
  bse_namespaced :: bool
  bse_expiresAt :: int

type_synonym bridge_scopes = "(GroupVersionResource, bridgeScopeEntry) gomap"

text \<open>The two critical sections: the lookup, and the store that first clears a full cache.\<close>

definition bridgeScopeLookup :: "int \<Rightarrow> GroupVersionResource \<Rightarrow> bridge_scopes \<Rightarrow> bool option" where
  "bridgeScopeLookup now key scopes =
     (case map_of scopes key of
        Some entry \<Rightarrow> if now < bse_expiresAt entry then Some (bse_namespaced entry) else None
      | None \<Rightarrow> None)"

definition bridgeScopeStore ::
  "int \<Rightarrow> GroupVersionResource \<Rightarrow> bool \<Rightarrow> bridge_scopes \<Rightarrow> bridge_scopes" where
  "bridgeScopeStore now key namespaced scopes =
     (let scopes1 = (if length scopes \<ge> maxBridgeScopeCache then [] else scopes)
      in mput key \<lparr>bse_namespaced = namespaced, bse_expiresAt = now + bridgeScopeTTL\<rparr> scopes1)"

definition bridgeVersion :: "bridge_env \<Rightarrow> ResourceAttributes \<Rightarrow> string option" where
  "bridgeVersion env attr =
     (let version = (if ra_Version attr = ''*'' then '''' else ra_Version attr) in
      if version = '''' \<and> ra_Group attr = '''' then Some ''v1''
      else if version = '''' then
        (case br_ServerGroups env of
           Inl err \<Rightarrow> None
         | Inr groups \<Rightarrow>
             (case find (\<lambda>(n, v). n = ra_Group attr) groups of
                None \<Rightarrow> Some '''' | Some (n, v) \<Rightarrow> Some v))
      else Some version)"

text \<open>\<open>now\<close> is read at the lookup, \<open>now'\<close> at the store.\<close>

definition bridgeResourceNamespaced ::
  "bridge_env \<Rightarrow> int \<Rightarrow> int \<Rightarrow> bridge_scopes \<Rightarrow> ResourceAttributes \<Rightarrow> bool \<times> bridge_scopes" where
  "bridgeResourceNamespaced env now now' scopes attr =
     (if \<not> br_Discovery env then (False, scopes)
      else
        let key = (ra_Group attr, ra_Version attr, ra_Resource attr) in
        case bridgeScopeLookup now key scopes of
          Some namespaced \<Rightarrow> (namespaced, scopes)
        | None \<Rightarrow>
            (case bridgeVersion env attr of
               None \<Rightarrow> (False, scopes)
             | Some version \<Rightarrow>
                 if version = '''' then (False, scopes)
                 else
                   (case br_ServerResources env (br_GVString env (ra_Group attr) version) of
                      Inl err \<Rightarrow> (False, scopes)
                    | Inr resources \<Rightarrow>
                        (case find (\<lambda>r. ar_Name r = ra_Resource attr) resources of
                           None \<Rightarrow> (False, scopes)
                         | Some resource \<Rightarrow>
                             (ar_Namespaced resource,
                              bridgeScopeStore now' key (ar_Namespaced resource) scopes)))))"

section \<open>Candidates\<close>

fun addGroupKeys :: "string list \<Rightarrow> string list \<Rightarrow> string list" where
  "addGroupKeys [] keys = keys"
| "addGroupKeys (g # gs) keys =
     addGroupKeys gs (if ''g:'' @ g \<notin> set keys then keys @ [''g:'' @ g] else keys)"

fun addCandidates :: "string list \<Rightarrow> string list \<Rightarrow> msg + string list" where
  "addCandidates [] names = Inr names"
| "addCandidates (n # ns) names =
     (if n \<in> set names then addCandidates ns names
      else if length names \<ge> maxBridgeCandidates then Inl [Lit ''bridge candidate limit exceeded: '', Dec (int maxBridgeCandidates)]
      else addCandidates ns (names @ [n]))"

fun collectCandidates :: "bridge_env \<Rightarrow> string list \<Rightarrow> string list \<Rightarrow> msg + string list" where
  "collectCandidates env [] names = Inr names"
| "collectCandidates env (key # keys) names =
     (case br_ListBySubject env key of
        Inl err \<Rightarrow> Inl [Lit err]
      | Inr found \<Rightarrow>
          (case addCandidates found names of
             Inl err \<Rightarrow> Inl err
           | Inr names' \<Rightarrow> collectCandidates env keys names'))"

definition bridgeCandidates :: "bridge_env \<Rightarrow> SubjectAccessReview \<Rightarrow> msg + string list" where
  "bridgeCandidates env sar =
     (if length (sar_Groups sar) > maxBridgeGroups 
      then Inl [Lit ''bridge group limit exceeded: '', Dec (int (length (sar_Groups sar)))]
      else
        let keys = addGroupKeys (sar_Groups sar)
              (if sar_User sar \<noteq> '''' then [''u:'' @ sar_User sar] else [])
        in collectCandidates env keys [])"

section \<open>Matching a candidate\<close>

definition bridgeEligible :: "ResourceAttributes option \<Rightarrow> bool" where
  "bridgeEligible attrp =
     (case attrp of
        None \<Rightarrow> False
      | Some attr \<Rightarrow>
          ra_Namespace attr \<noteq> '''' \<and> ra_Verb attr \<noteq> ''bind'' \<and> ra_Verb attr \<noteq> ''escalate'' \<and>
          ra_Verb attr \<noteq> ''impersonate'' \<and> \<not> IsImpersonationVerb (ra_Verb attr))"

text \<open>\<^verbatim>\<open>NamespaceBinding.Selectors\<close> of \<^verbatim>\<open>binddefinition_types.go\<close>.\<close>

fun compileSelectors :: "selector_api \<Rightarrow> LabelSelector list \<Rightarrow> string + (labels \<Rightarrow> bool) list" where
  "compileSelectors asSelector [] = Inr []"
| "compileSelectors asSelector (item # items) =
     (case asSelector item of
        Inl err \<Rightarrow> Inl err
      | Inr selector \<Rightarrow>
          (case compileSelectors asSelector items of
             Inl err \<Rightarrow> Inl err | Inr selectors \<Rightarrow> Inr (selector # selectors)))"

definition Selectors :: "selector_api \<Rightarrow> NamespaceBinding \<Rightarrow> string + (labels \<Rightarrow> bool) list" where
  "Selectors asSelector b =
     (if nb_Namespace b \<noteq> '''' then Inr [] else compileSelectors asSelector (nb_NamespaceSelector b))"

definition bridgeSelectorMatches ::
  "selector_api \<Rightarrow> NamespaceBinding \<Rightarrow> labels \<Rightarrow> string + bool" where
  "bridgeSelectorMatches asSelector binding namespaceLabels =
     (case Selectors asSelector binding of
        Inl err \<Rightarrow> Inl err
      | Inr selectors \<Rightarrow> Inr (list_ex (\<lambda>selector. selector namespaceLabels) selectors))"

definition bridgeRulesAllow ::
  "(PolicyRule list \<Rightarrow> PolicyRule list \<Rightarrow> bool) \<Rightarrow> PolicyRule list \<Rightarrow> ResourceAttributes \<Rightarrow> bool" where
  "bridgeRulesAllow covers rules attr =
     (let resource = (if ra_Subresource attr \<noteq> ''''
            then ra_Resource attr @ ''/'' @ ra_Subresource attr else ra_Resource attr);
          request = \<lparr>pr_Verbs = [ra_Verb attr], pr_APIGroups = [ra_Group attr],
            pr_Resources = [resource],
            pr_ResourceNames = (if ra_Name attr \<noteq> '''' then [ra_Name attr] else []),
            pr_NonResourceURLs = []\<rparr>
      in covers rules [request])"

text \<open>One of the two loops over role references; the state is the verdict and the reads so far.\<close>

fun bridgeRoleLoop ::
  "(string \<Rightarrow> msg) \<Rightarrow> (string \<Rightarrow> PolicyRule list get_result) \<Rightarrow> (PolicyRule list \<Rightarrow> bool) \<Rightarrow> string list
    \<Rightarrow> bool \<Rightarrow> nat \<Rightarrow> msg + bool \<times> nat" where
  "bridgeRoleLoop prefix getRole allows [] allowed roleReads = Inr (allowed, roleReads)"
| "bridgeRoleLoop prefix getRole allows (name # names) allowed roleReads =
     (if roleReads \<ge> maxBridgeRoleReads
      then Inl [Lit ''bridge role read limit exceeded: '', Dec (int maxBridgeRoleReads)]
      else
        (case getRole name of
           NotFound \<Rightarrow> Inl (prefix name @ [Lit '': not found''])
         | GetError err \<Rightarrow> Inl (prefix name @ [Lit '': '', Lit err])
         | Found rules \<Rightarrow>
             bridgeRoleLoop prefix getRole allows names (allows rules \<or> allowed) (Suc roleReads)))"

definition bridgeBindingAllows ::
  "bridge_env \<Rightarrow> NamespaceBinding \<Rightarrow> ResourceAttributes \<Rightarrow> nat \<Rightarrow> msg + bool \<times> nat" where
  "bridgeBindingAllows env binding attr roleReads =
     (case bridgeRoleLoop (\<lambda>name. [Lit ''get ClusterRole '', Quo name])
             (br_GetClusterRole env) (\<lambda>rules. bridgeRulesAllow (br_Covers env) rules attr)
             (nb_ClusterRoleRefs binding) False roleReads of
        Inl err \<Rightarrow> Inl err
      | Inr (allowed, roleReads') \<Rightarrow>
          bridgeRoleLoop
            (\<lambda>name. [Lit ''get Role '', Quo name, Lit '' in namespace '', Quo (ra_Namespace attr)])
            (br_GetRole env (ra_Namespace attr))
            (\<lambda>rules. bridgeRulesAllow (br_Covers env) rules attr)
            (nb_RoleRefs binding) allowed roleReads')"

definition bindDefinitionSubjectMatches :: "SubjectAccessReview \<Rightarrow> Subject list \<Rightarrow> bool" where
  "bindDefinitionSubjectMatches sar subjects =
     list_ex (\<lambda>subject.
       if subj_Kind subject = ServiceAccountKind then
         subj_APIGroup subject = '''' \<and> subj_Namespace subject \<noteq> '''' \<and> subj_Name subject \<noteq> '''' \<and>
         sar_User sar = ''system:serviceaccount:'' @ subj_Namespace subject @ '':'' @ subj_Name subject
       else if subj_Kind subject = UserKind then
         subj_APIGroup subject = rbacGroupName \<and> subj_Namespace subject = '''' \<and>
         subj_Name subject \<noteq> '''' \<and> subj_Name subject = sar_User sar
       else if subj_Kind subject = GroupKind then
         subj_APIGroup subject = rbacGroupName \<and> subj_Namespace subject = '''' \<and>
         subj_Name subject \<noteq> '''' \<and> subj_Name subject \<in> set (sar_Groups sar)
       else False) subjects"

text \<open>The loops over bindings and candidates; \<^term>\<open>None\<close> is the early \<^verbatim>\<open>return false\<close>.\<close>

fun bridgeBindings ::
  "bridge_env \<Rightarrow> ResourceAttributes \<Rightarrow> labels \<Rightarrow> string \<Rightarrow> NamespaceBinding list \<Rightarrow> string \<times> nat
    \<Rightarrow> (string \<times> nat) option" where
  "bridgeBindings env attr nsLabels bdName [] st = Some st"
| "bridgeBindings env attr nsLabels bdName (binding # rest) (matchedName, roleReads) =
     (if \<not> nb_AuthorizeBeforeBinding binding \<or> nb_Namespace binding \<noteq> '''' \<or>
         nb_NamespaceSelector binding = []
      then bridgeBindings env attr nsLabels bdName rest (matchedName, roleReads)
      else
        (case bridgeSelectorMatches (br_asSelector env) binding nsLabels of
           Inl err \<Rightarrow> None
         | Inr matches \<Rightarrow>
             if \<not> matches then bridgeBindings env attr nsLabels bdName rest (matchedName, roleReads)
             else
               (case bridgeBindingAllows env binding attr roleReads of
                  Inl err \<Rightarrow> None
                | Inr (allowed, roleReads') \<Rightarrow>
                    bridgeBindings env attr nsLabels bdName rest
                      (if allowed then bdName else matchedName, roleReads'))))"

fun bridgeNames ::
  "bridge_env \<Rightarrow> SubjectAccessReview \<Rightarrow> ResourceAttributes \<Rightarrow> labels \<Rightarrow> string list \<Rightarrow> string \<times> nat
    \<Rightarrow> (string \<times> nat) option" where
  "bridgeNames env sar attr nsLabels [] st = Some st"
| "bridgeNames env sar attr nsLabels (name # names) st =
     (case br_GetBindDefinition env name of
        NotFound \<Rightarrow> bridgeNames env sar attr nsLabels names st
      | GetError err \<Rightarrow> None
      | Found bd \<Rightarrow>
          if bd_Deleting bd \<or> \<not> bindDefinitionSubjectMatches sar (bds_Subjects (bd_Spec bd))
          then bridgeNames env sar attr nsLabels names st
          else
            (case bridgeBindings env attr nsLabels (bd_Name bd) (bds_RoleBindings (bd_Spec bd)) st of
               None \<Rightarrow> None
             | Some st' \<Rightarrow> bridgeNames env sar attr nsLabels names st'))"

definition bridgeBindDefinition ::
  "bridge_env \<Rightarrow> int \<Rightarrow> int \<Rightarrow> bridge_scopes \<Rightarrow> SubjectAccessReview
    \<Rightarrow> (bool \<times> string) \<times> bridge_scopes" where
  "bridgeBindDefinition env now now' scopes sar =
     (case sar_ResourceAttributes sar of
        None \<Rightarrow> ((False, ''''), scopes)
      | Some attr \<Rightarrow>
          if \<not> bridgeEligible (Some attr) \<or> \<not> br_LiveReader env then ((False, ''''), scopes)
          else
            (case bridgeCandidates env sar of
               Inl err \<Rightarrow> ((False, ''''), scopes)
             | Inr names \<Rightarrow>
                 if names = [] then ((False, ''''), scopes)
                 else
                   let (namespaced, scopes') = bridgeResourceNamespaced env now now' scopes attr in
                   if \<not> namespaced then ((False, ''''), scopes')
                   else
                     (case br_GetNamespace env (ra_Namespace attr) of
                        NotFound \<Rightarrow> ((False, ''''), scopes')
                      | GetError err \<Rightarrow> ((False, ''''), scopes')
                      | Found ns \<Rightarrow>
                          if \<not> IsNamespaceActive (Some (ns_Phase ns)) then ((False, ''''), scopes')
                          else
                            (case bridgeNames env sar attr (ns_Labels ns) names ('''', 0) of
                               None \<Rightarrow> ((False, ''''), scopes')
                             | Some (matchedName, roleReads) \<Rightarrow>
                                 ((matchedName \<noteq> '''', matchedName), scopes')))))"

section \<open>The cache stays bounded and answers only fresh entries\<close>

text \<open>
  A bounded store with expiry: the contract both critical sections keep, whatever the order in
  which concurrent requests run them.
\<close>

locale bounded_store =
  fixes inv :: "'s \<Rightarrow> bool" and card_of :: "'s \<Rightarrow> nat" and bound :: nat
    and lookup :: "int \<Rightarrow> 'k \<Rightarrow> 's \<Rightarrow> 'v option"
    and store :: "int \<Rightarrow> 'k \<Rightarrow> 'v \<Rightarrow> 's \<Rightarrow> 's" and ttl :: int
  assumes store_inv: "inv s \<Longrightarrow> inv (store t k v s)"
    and inv_bound: "inv s \<Longrightarrow> card_of s \<le> bound"
    and lookup_store: "lookup t' k (store t k v s) = (if t' < t + ttl then Some v else None)"
    and lookup_other: "k' \<noteq> k \<Longrightarrow> lookup t' k' (store t k v s) = Some w \<Longrightarrow> lookup t' k' s = Some w"
begin

definition stores :: "(int \<times> 'k \<times> 'v) list \<Rightarrow> 's \<Rightarrow> 's" where
  "stores ops s = fold (\<lambda>(t, k, v). store t k v) ops s"

lemma stores_inv: "inv s \<Longrightarrow> inv (stores ops s)"
  unfolding stores_def by (induction ops arbitrary: s) (auto simp: store_inv split: prod.splits)

lemma stores_bound: "inv s \<Longrightarrow> card_of (stores ops s) \<le> bound"
  by (rule inv_bound) (rule stores_inv)

text \<open>Every answer was stored by one of the operations, less than a lifetime ago.\<close>

lemma stores_answer:
  assumes "\<And>t k. lookup t k s = None"
  shows "lookup t k (stores ops s) = Some v \<Longrightarrow> \<exists>t0. (t0, k, v) \<in> set ops \<and> t < t0 + ttl"
proof (induction ops rule: rev_induct)
  case Nil
  then show ?case using assms by (simp add: stores_def)
next
  case (snoc op ops)
  obtain t1 k1 v1 where op: "op = (t1, k1, v1)" by (cases op)
  then have eq: "stores (ops @ [op]) s = store t1 k1 v1 (stores ops s)" by (simp add: stores_def)
  show ?case
  proof (cases "k = k1")
    case True
    then show ?thesis using snoc.prems op unfolding eq by (auto simp: lookup_store split: if_splits)
  next
    case False
    have "lookup t k (stores ops s) = Some v"
      by (rule lookup_other [OF False]) (use snoc.prems eq in simp)
    from snoc.IH [OF this] show ?thesis by auto
  qed
qed

end

definition scopes_inv :: "bridge_scopes \<Rightarrow> bool" where
  "scopes_inv s \<longleftrightarrow> mwf s \<and> length s \<le> maxBridgeScopeCache"

lemma length_mput: "length (mput k v m) \<le> Suc (length m)"
  unfolding mput_def by (induction m) auto

interpretation bridge_cache: bounded_store scopes_inv length maxBridgeScopeCache
  bridgeScopeLookup bridgeScopeStore bridgeScopeTTL
proof
  show "scopes_inv (bridgeScopeStore t k v s)" if "scopes_inv s" for t k v s
  proof -
    define s1 where "s1 = (if length s \<ge> maxBridgeScopeCache then [] else s)"
    have "mwf s1" "length s1 < maxBridgeScopeCache"
      using that by (simp_all add: s1_def scopes_inv_def maxBridgeScopeCache_def)
    moreover have "bridgeScopeStore t k v s =
        mput k \<lparr>bse_namespaced = v, bse_expiresAt = t + bridgeScopeTTL\<rparr> s1"
      by (simp add: bridgeScopeStore_def s1_def)
    ultimately show ?thesis
      using length_mput [of k _ s1] by (simp add: scopes_inv_def) (meson le_trans Suc_leI)
  qed
next
  show "bridgeScopeLookup t' k (bridgeScopeStore t k v s) =
      (if t' < t + bridgeScopeTTL then Some v else None)" for t' t k v s
    by (simp add: bridgeScopeLookup_def bridgeScopeStore_def Let_def)
next
  show "bridgeScopeLookup t' k' s = Some w"
    if "k' \<noteq> k" "bridgeScopeLookup t' k' (bridgeScopeStore t k v s) = Some w" for t t' k k' v w s
    using that by (auto simp: bridgeScopeLookup_def bridgeScopeStore_def Let_def split: if_splits)
qed (simp add: scopes_inv_def)

lemma bridgeResourceNamespaced_inv:
  "scopes_inv s \<Longrightarrow> scopes_inv (snd (bridgeResourceNamespaced env now now' s attr))"
  by (auto simp: bridgeResourceNamespaced_def Let_def bridge_cache.store_inv
      split: option.splits sum.splits if_splits)

section \<open>What a bridge grant rests on\<close>

lemma bridgeRoleLoop_allows:
  "bridgeRoleLoop pre get allows names allowed reads = Inr (True, reads') \<Longrightarrow>
   allowed \<or> (\<exists>n \<in> set names. \<exists>rules. get n = Found rules \<and> allows rules)"
  by (induction pre get allows names allowed reads rule: bridgeRoleLoop.induct)
    (auto split: if_splits get_result.splits)

lemma bridgeRoleLoop_reads:
  "bridgeRoleLoop pre get allows names allowed reads = Inr (b, reads') \<Longrightarrow>
   reads' = reads + length names \<and> (names \<noteq> [] \<longrightarrow> reads' \<le> maxBridgeRoleReads)"
  by (induction pre get allows names allowed reads rule: bridgeRoleLoop.induct)
    (auto split: if_splits get_result.splits)

definition role_covers :: "bridge_env \<Rightarrow> NamespaceBinding \<Rightarrow> ResourceAttributes \<Rightarrow> bool" where
  "role_covers env b attr \<longleftrightarrow>
     (\<exists>n \<in> set (nb_ClusterRoleRefs b). \<exists>rules. br_GetClusterRole env n = Found rules \<and>
        bridgeRulesAllow (br_Covers env) rules attr) \<or>
     (\<exists>n \<in> set (nb_RoleRefs b). \<exists>rules. br_GetRole env (ra_Namespace attr) n = Found rules \<and>
        bridgeRulesAllow (br_Covers env) rules attr)"

lemma bridgeBindingAllows_covers:
  "bridgeBindingAllows env b attr reads = Inr (True, reads') \<Longrightarrow> role_covers env b attr"
  unfolding bridgeBindingAllows_def role_covers_def
  by (auto split: sum.splits prod.splits dest!: bridgeRoleLoop_allows)

text \<open>A binding that opted in, selects the namespace and has a role that covers the request.\<close>

definition binding_grants ::
  "bridge_env \<Rightarrow> ResourceAttributes \<Rightarrow> labels \<Rightarrow> NamespaceBinding \<Rightarrow> bool" where
  "binding_grants env attr ls b \<longleftrightarrow>
     nb_AuthorizeBeforeBinding b \<and> nb_Namespace b = '''' \<and>
     (\<exists>sel \<in> set (nb_NamespaceSelector b). \<exists>P. br_asSelector env sel = Inr P \<and> P ls) \<and>
     role_covers env b attr"

lemma compileSelectors_in:
  "compileSelectors f items = Inr Ps \<Longrightarrow> P \<in> set Ps \<Longrightarrow> \<exists>sel \<in> set items. f sel = Inr P"
  by (induction items arbitrary: Ps) (auto split: sum.splits)

lemma bridgeSelectorMatches_sel:
  "bridgeSelectorMatches f b ls = Inr True \<Longrightarrow>
   \<exists>sel \<in> set (nb_NamespaceSelector b). \<exists>P. f sel = Inr P \<and> P ls"
  unfolding bridgeSelectorMatches_def Selectors_def
  by (auto simp: list_ex_iff split: sum.splits if_splits) (metis compileSelectors_in)

lemma bridgeBindings_grants:
  assumes "bridgeBindings env attr ls n bs (m, r) = Some (m', r')"
  shows "m' = m \<or> m' = n \<and> (\<exists>b \<in> set bs. binding_grants env attr ls b)"
  using assms
proof (induction bs arbitrary: m r)
  case (Cons b bs)
  show ?case
  proof (cases "\<not> nb_AuthorizeBeforeBinding b \<or> nb_Namespace b \<noteq> '''' \<or> nb_NamespaceSelector b = []")
    case True
    then show ?thesis using Cons by auto
  next
    case open_b: False
    obtain s where s: "bridgeSelectorMatches (br_asSelector env) b ls = Inr s"
      using Cons.prems open_b by (auto split: sum.splits)
    show ?thesis
    proof (cases s)
      case False
      then show ?thesis using Cons open_b s by auto
    next
      case True
      then obtain a r1 where a: "bridgeBindingAllows env b attr r = Inr (a, r1)"
        and rest: "bridgeBindings env attr ls n bs (if a then n else m, r1) = Some (m', r')"
        using Cons.prems open_b s by (auto split: sum.splits)
      have "a \<Longrightarrow> binding_grants env attr ls b"
        using open_b s True a bridgeSelectorMatches_sel [of "br_asSelector env" b ls]
          bridgeBindingAllows_covers [of env b attr r r1]
        unfolding binding_grants_def by simp
      then show ?thesis using Cons.IH [OF rest] by (cases a) auto
    qed
  qed
qed simp

definition definition_grants ::
  "bridge_env \<Rightarrow> SubjectAccessReview \<Rightarrow> ResourceAttributes \<Rightarrow> labels \<Rightarrow> BindDefinition \<Rightarrow> bool" where
  "definition_grants env sar attr ls bd \<longleftrightarrow> \<not> bd_Deleting bd \<and>
     bindDefinitionSubjectMatches sar (bds_Subjects (bd_Spec bd)) \<and>
     (\<exists>b \<in> set (bds_RoleBindings (bd_Spec bd)). binding_grants env attr ls b)"

lemma bridgeNames_grants:
  assumes "bridgeNames env sar attr ls names (m, r) = Some (m', r')"
  shows "m' = m \<or> (\<exists>n \<in> set names. \<exists>bd. br_GetBindDefinition env n = Found bd \<and> m' = bd_Name bd \<and>
    definition_grants env sar attr ls bd)"
  using assms
proof (induction names arbitrary: m r)
  case (Cons n names)
  show ?case
  proof (cases "br_GetBindDefinition env n")
    case NotFound
    then show ?thesis using Cons by auto
  next
    case (GetError e)
    then show ?thesis using Cons.prems by simp
  next
    case (Found bd)
    show ?thesis
    proof (cases "bd_Deleting bd \<or> \<not> bindDefinitionSubjectMatches sar (bds_Subjects (bd_Spec bd))")
      case True
      then show ?thesis using Cons Found by auto
    next
      case False
      then obtain m1 r1 where
        b: "bridgeBindings env attr ls (bd_Name bd) (bds_RoleBindings (bd_Spec bd)) (m, r) = Some (m1, r1)"
        and rest: "bridgeNames env sar attr ls names (m1, r1) = Some (m', r')"
        using Cons.prems Found by (auto split: option.splits)
      have "m1 = m \<or> m1 = bd_Name bd \<and> definition_grants env sar attr ls bd"
        using bridgeBindings_grants [OF b] False by (auto simp: definition_grants_def)
      then show ?thesis using Cons.IH [OF rest] Found by auto
    qed
  qed
qed simp

lemma bridge_grant:
  assumes "bridgeBindDefinition env now now' scopes sar = ((True, name), scopes')"
  obtains attr ns n bd where "sar_ResourceAttributes sar = Some attr" "bridgeEligible (Some attr)"
    "br_GetNamespace env (ra_Namespace attr) = Found ns" "ns_Phase ns \<noteq> NamespaceTerminating"
    "br_GetBindDefinition env n = Found bd" "name = bd_Name bd"
    "definition_grants env sar attr (ns_Labels ns) bd"
proof -
  from assms obtain attr names ns r where
    h: "sar_ResourceAttributes sar = Some attr" "bridgeEligible (Some attr)"
    "br_GetNamespace env (ra_Namespace attr) = Found ns" "IsNamespaceActive (Some (ns_Phase ns))"
    "bridgeNames env sar attr (ns_Labels ns) names ('''', 0) = Some (name, r)" "name \<noteq> ''''"
    unfolding bridgeBindDefinition_def
    by (auto simp: Let_def split: option.splits if_splits sum.splits prod.splits get_result.splits)
  from bridgeNames_grants [OF h(5)] h(6) obtain n bd where
    "br_GetBindDefinition env n = Found bd" "name = bd_Name bd"
    "definition_grants env sar attr (ns_Labels ns) bd" by auto
  then show thesis using that h by (auto simp: IsNamespaceActive_def)
qed

section \<open>Properties\<close>

text \<open>
  Property C35 (bridge_grants_justified): the bridge answers yes only for an eligible namespaced
  resource request in a namespace that exists and is not terminating, and only on behalf of a
  BindDefinition that exists, is not being deleted, lists the requesting subject, and has a binding
  that opted into authorization before binding, selects the namespace by its labels and refers to
  an existing role whose rules cover the request.
\<close>

theorem bridge_grants_justified:
  assumes "bridgeBindDefinition env now now' scopes sar = ((True, name), scopes')"
  shows "\<exists>attr ns n bd b. sar_ResourceAttributes sar = Some attr \<and> bridgeEligible (Some attr) \<and>
    br_GetNamespace env (ra_Namespace attr) = Found ns \<and> ns_Phase ns \<noteq> NamespaceTerminating \<and>
    br_GetBindDefinition env n = Found bd \<and> name = bd_Name bd \<and> \<not> bd_Deleting bd \<and>
    bindDefinitionSubjectMatches sar (bds_Subjects (bd_Spec bd)) \<and> b \<in> set (bds_RoleBindings (bd_Spec bd)) \<and>
    nb_AuthorizeBeforeBinding b \<and>
    (\<exists>sel \<in> set (nb_NamespaceSelector b). \<exists>P. br_asSelector env sel = Inr P \<and> P (ns_Labels ns)) \<and>
    role_covers env b attr"
proof -
  obtain attr ns n bd where h: "sar_ResourceAttributes sar = Some attr" "bridgeEligible (Some attr)"
    "br_GetNamespace env (ra_Namespace attr) = Found ns" "ns_Phase ns \<noteq> NamespaceTerminating"
    "br_GetBindDefinition env n = Found bd" "name = bd_Name bd"
    "definition_grants env sar attr (ns_Labels ns) bd"
    using bridge_grant [OF assms] .
  then show ?thesis unfolding definition_grants_def binding_grants_def by blast
qed

definition sample_bd :: BindDefinition where
  "sample_bd = \<lparr>bd_Name = ''team'', bd_Deleting = False, bd_Spec =
     \<lparr>bds_TargetName = ''team'', bds_Subjects = [\<lparr>subj_Kind = ''User'',
        subj_APIGroup = ''rbac.authorization.k8s.io'', subj_Name = ''alice'', subj_Namespace = ''''\<rparr>],
      bds_ExternalServiceAccountRefs = [], bds_ClusterRoleBindings = \<lparr>cb_ClusterRoleRefs = []\<rparr>,
      bds_RoleBindings = [\<lparr>nb_AuthorizeBeforeBinding = True, nb_ClusterRoleRefs = [''view''],
        nb_RoleRefs = [], nb_Namespace = '''', nb_NamespaceSelector =
          [\<lparr>MatchLabels = [(''team'', ''a'')], MatchExpressions = []\<rparr>]\<rparr>],
      bds_AutomountServiceAccountToken = None\<rparr>\<rparr>"

definition sample_bridge :: bridge_env where
  "sample_bridge = \<lparr>br_LiveReader = True, br_Discovery = True,
     br_ListBySubject = (\<lambda>k. Inr [''team'']), br_ServerGroups = Inr [('''', ''v1'')],
     br_ServerResources = (\<lambda>gv. Inr [\<lparr>ar_Name = ''pods'', ar_Group = '''', ar_Namespaced = True,
       ar_Verbs = [''get'']\<rparr>]),
     br_GVString = (\<lambda>g v. v),
     br_GetNamespace = (\<lambda>n. Found \<lparr>ns_Name = n, ns_Labels = [(''team'', ''a'')],
       ns_Annotations = [], ns_Phase = ''Active''\<rparr>),
     br_GetBindDefinition = (\<lambda>n. if n = ''team'' then Found sample_bd else NotFound),
     br_GetClusterRole = (\<lambda>n. Found [\<lparr>pr_Verbs = [''get''], pr_APIGroups = [''''],
       pr_Resources = [''pods''], pr_ResourceNames = [], pr_NonResourceURLs = []\<rparr>]),
     br_GetRole = (\<lambda>ns n. NotFound),
     br_asSelector = (\<lambda>sel. Inr (\<lambda>ls. list_all (\<lambda>(k, v). map_of ls k = Some v) (MatchLabels sel))),
     br_Covers = (\<lambda>owner servant. list_all (\<lambda>s. list_ex (\<lambda>r. set (pr_Verbs s) \<subseteq> set (pr_Verbs r) \<and>
       set (pr_Resources s) \<subseteq> set (pr_Resources r)) owner) servant)\<rparr>"

definition sample_sar :: SubjectAccessReview where
  "sample_sar = \<lparr>sar_User = ''alice'', sar_Groups = [], sar_UID = '''', sar_Extra = [],
     sar_ResourceAttributes = Some \<lparr>ra_Namespace = ''team-a'', ra_Verb = ''get'', ra_Group = '''',
       ra_Version = ''v1'', ra_Resource = ''pods'', ra_Subresource = '''', ra_Name = ''''\<rparr>,
     sar_NonResourceAttributes = None\<rparr>"

lemma sample_bridged: "fst (bridgeBindDefinition sample_bridge 0 1 [] sample_sar) = (True, ''team'')"
  by code_simp

theorem bridge_grants_justified_witness:
  "fst (bridgeBindDefinition sample_bridge 0 1 [] sample_sar) = (True, ''team'') \<and>
   (\<exists>attr b. sar_ResourceAttributes sample_sar = Some attr \<and> role_covers sample_bridge b attr)"
proof -
  obtain scopes' where s: "bridgeBindDefinition sample_bridge 0 1 [] sample_sar = ((True, ''team''), scopes')"
    using sample_bridged by (metis prod.collapse)
  from bridge_grants_justified [OF s] sample_bridged show ?thesis by blast
qed

text \<open>
  Whatever sequence of stores concurrent requests perform on the
  initially empty scope cache, it never holds more than 256 entries, and every answer it gives was
  stored for that very resource less than the lifetime of five seconds before.
\<close>

theorem bridge_cache_bounded:
  "length (fold (\<lambda>(t, k, v). bridgeScopeStore t k v) ops []) \<le> 256 \<and>
   (bridgeScopeLookup t k (fold (\<lambda>(t, k, v). bridgeScopeStore t k v) ops []) = Some v \<longrightarrow>
      (\<exists>t0. (t0, k, v) \<in> set ops \<and> t < t0 + 5000000000))"
proof -
  have empty: "bridgeScopeLookup t k [] = None" for t k by (simp add: bridgeScopeLookup_def)
  have "scopes_inv []" by (simp add: scopes_inv_def)
  then show ?thesis
    using bridge_cache.stores_bound [of "[]" ops] bridge_cache.stores_answer [OF empty, of t k ops v]
    by (auto simp: bridge_cache.stores_def maxBridgeScopeCache_def bridgeScopeTTL_def)
qed

theorem bridge_cache_bounded_witness:
  "bridgeScopeLookup 5 (''apps'', ''v1'', ''pods'') (fold (\<lambda>(t, k, v). bridgeScopeStore t k v)
     [(3, (''apps'', ''v1'', ''pods''), True)] []) = Some True \<and>
   (\<exists>t0. (t0, (''apps'', ''v1'', ''pods''), True) \<in> set [(3, (''apps'', ''v1'', ''pods''), True)] \<and>
      (5 :: int) < t0 + 5000000000)"
proof -
  have l: "bridgeScopeLookup 5 (''apps'', ''v1'', ''pods'') (fold (\<lambda>(t, k, v). bridgeScopeStore t k v)
     [(3, (''apps'', ''v1'', ''pods''), True)] []) = Some True" by code_simp
  show ?thesis by (rule conjI [OF l mp [OF conjunct2 [OF bridge_cache_bounded] l]])
qed

end
