(* ===== verification/Authorizer.thy ===== *)
theory Authorizer
  imports Bridge
begin

text \<open>
  The authorization webhook (\<^verbatim>\<open>internal/webhook/authorization/webhook_authorizer.go\<close>): from the HTTP
  request to the SubjectAccessReview response. Logging, tracing and metrics are left out; the API
  readers, the namespace selector library, the rate limiter and the hash are parameters.
\<close>

section \<open>Objects and constants\<close>

record WebhookAuthorizer =
  wa_Name :: string
  wa_Generation :: int
  wa_Spec :: WebhookAuthorizerSpec
  wa_ObservedGeneration :: int
  wa_Conditions :: "Condition list"
  wa_AuthorizerConfigured :: bool

definition AuthorizerDecisionAllowed :: string where "AuthorizerDecisionAllowed = ''allowed''"
definition AuthorizerDecisionDenied :: string where "AuthorizerDecisionDenied = ''denied''"
definition AuthorizerDecisionNoOpinion :: string where "AuthorizerDecisionNoOpinion = ''no-opinion''"
definition AuthorizerNameNone :: string where "AuthorizerNameNone = ''none''"

lemmas decisions = AuthorizerDecisionAllowed_def AuthorizerDecisionDenied_def
  AuthorizerDecisionNoOpinion_def

definition ImpersonationVerbPolicyRequireExplicitVerb :: string where
  "ImpersonationVerbPolicyRequireExplicitVerb = ''RequireExplicitVerb''"
definition ImpersonationVerbPolicyAllowWildcard :: string where
  "ImpersonationVerbPolicyAllowWildcard = ''AllowWildcard''"
definition ImpersonationVerbPolicyDeny :: string where
  "ImpersonationVerbPolicyDeny = ''Deny''"

lemmas verb_policies = ImpersonationVerbPolicyRequireExplicitVerb_def
  ImpersonationVerbPolicyAllowWildcard_def ImpersonationVerbPolicyDeny_def

record evaluationResult =
  er_allowed :: bool
  er_reason :: string
  er_decision :: string
  er_authorizerName :: string
  er_matchedRule :: int
  er_matchedField :: string
  er_evaluatedCount :: nat
  er_skippedCount :: nat

definition emptyResult :: evaluationResult where
  "emptyResult = \<lparr>er_allowed = False, er_reason = '''', er_decision = '''', er_authorizerName = '''',
     er_matchedRule = 0, er_matchedField = '''', er_evaluatedCount = 0, er_skippedCount = 0\<rparr>"

text \<open>\<^verbatim>\<open>helpers.IsLabelSelectorEmpty\<close> on a selector that is there.\<close>

definition IsLabelSelectorEmpty :: "LabelSelector option \<Rightarrow> bool" where
  "IsLabelSelectorEmpty selector =
     (case selector of
        None \<Rightarrow> True | Some s \<Rightarrow> length (MatchLabels s) = 0 \<and> length (MatchExpressions s) = 0)"

section \<open>Principals\<close>

definition parseServiceAccountUsername :: "string \<Rightarrow> (string \<times> string) option" where
  "parseServiceAccountUsername user =
     (let parts = Split user CHR '':'' in
      if length parts \<noteq> 4 \<or> parts ! 0 \<noteq> ''system'' \<or> parts ! 1 \<noteq> ''serviceaccount'' then None
      else Some (parts ! 2, parts ! 3))"

definition isServiceAccountInNamespace :: "string \<Rightarrow> string \<Rightarrow> string \<Rightarrow> bool" where
  "isServiceAccountInNamespace user principalUser namespace =
     (case parseServiceAccountUsername user of
        None \<Rightarrow> False
      | Some (userNamespace, userName) \<Rightarrow>
          if userNamespace \<noteq> namespace then False
          else
            (case parseServiceAccountUsername principalUser of
               Some (principalNamespace, principalName) \<Rightarrow>
                 principalNamespace = namespace \<and> principalName = userName
             | None \<Rightarrow> principalUser = userName))"

definition intersects :: "string list \<Rightarrow> string list \<Rightarrow> bool" where
  "intersects slice1 slice2 = list_ex (\<lambda>s. s \<in> set slice2) slice1"

definition extraValueMatches :: "string list \<Rightarrow> string list \<Rightarrow> bool" where
  "extraValueMatches want got =
     list_ex (\<lambda>pattern.
       if pattern = ''*'' then list_ex (\<lambda>v. v \<noteq> '''') got else pattern \<in> set got) want"

definition principalExtraMatches ::
  "PrincipalExtraMatch list \<Rightarrow> (string, string list) gomap \<Rightarrow> bool" where
  "principalExtraMatches matchers extra =
     list_all (\<lambda>m. case map_of extra (pem_Key m) of
       None \<Rightarrow> False | Some values \<Rightarrow> extraValueMatches (pem_Values m) values) matchers"

definition principalMatchesSubject :: "Principal \<Rightarrow> SubjectAccessReview \<Rightarrow> bool" where
  "principalMatchesSubject prin sar =
     (if p_User prin = '''' \<and> p_Groups prin = [] \<and> p_UID prin = '''' \<and>
         p_Extra prin = [] then False
      else if p_UID prin \<noteq> '''' \<and> p_UID prin \<noteq> sar_UID sar then False
      else if \<not> principalExtraMatches (p_Extra prin) (sar_Extra sar) then False
      else if p_Namespace prin \<noteq> '''' then
        (if p_User prin = '''' \<or> p_Groups prin \<noteq> [] then False
         else isServiceAccountInNamespace (sar_User sar) (p_User prin) (p_Namespace prin))
      else if p_User prin = '''' \<and> p_Groups prin = [] then True
      else if p_User prin \<noteq> '''' \<and> p_User prin = sar_User sar then True
      else p_Groups prin \<noteq> [] \<and> intersects (sar_Groups sar) (p_Groups prin))"

definition principalMatches :: "SubjectAccessReview \<Rightarrow> Principal list \<Rightarrow> bool" where
  "principalMatches sar principals = list_ex (\<lambda>p. principalMatchesSubject p sar) principals"

section \<open>Rules\<close>

definition matchesExactOrAll :: "string list \<Rightarrow> string \<Rightarrow> bool" where
  "matchesExactOrAll patterns value = list_ex (\<lambda>pattern. pattern = ''*'' \<or> pattern = value) patterns"

definition matchesResourceRule :: "string list \<Rightarrow> string \<Rightarrow> string \<Rightarrow> bool" where
  "matchesResourceRule patterns resourceKey subresource =
     list_ex (\<lambda>pattern.
       (pattern = ''*'' \<or> pattern = resourceKey) \<or>
       (subresource \<noteq> '''' \<and> pattern = ''*/'' @ subresource)) patterns"

definition matchesNonResourceURLRule :: "string list \<Rightarrow> string \<Rightarrow> bool" where
  "matchesNonResourceURLRule patterns path =
     list_ex (\<lambda>pattern.
       (pattern = ''*'' \<or> pattern = path) \<or>
       (HasSuffix pattern ''/*'' \<and> HasPrefix path (TrimSuffix pattern ''*''))) patterns"

definition matchesVerb :: "string list \<Rightarrow> string \<Rightarrow> ImpersonationVerbPolicy \<Rightarrow> bool" where
  "matchesVerb patterns verb verbPolicy =
     (if \<not> IsImpersonationVerb verb then matchesExactOrAll patterns verb
      else if verbPolicy = ImpersonationVerbPolicyAllowWildcard \<or>
              verbPolicy = ImpersonationVerbPolicyDeny then matchesExactOrAll patterns verb
      else verb \<in> set patterns)"

definition effectiveImpersonationVerbPolicy :: "WebhookAuthorizer \<Rightarrow> ImpersonationVerbPolicy" where
  "effectiveImpersonationVerbPolicy authorizer =
     (if was_ImpersonationVerbPolicy (wa_Spec authorizer) = ''''
      then ImpersonationVerbPolicyRequireExplicitVerb
      else was_ImpersonationVerbPolicy (wa_Spec authorizer))"

text \<open>The index of the first match of a loop over rules; -1 when there is none.\<close>

fun firstIndex :: "('r \<Rightarrow> bool) \<Rightarrow> 'r list \<Rightarrow> int \<Rightarrow> int" where
  "firstIndex P [] i = -1"
| "firstIndex P (rule # rules) i = (if P rule then i else firstIndex P rules (i + 1))"

definition resourceRuleMatches ::
  "ResourceAttributes \<Rightarrow> ImpersonationVerbPolicy \<Rightarrow> ResourceRule \<Rightarrow> bool" where
  "resourceRuleMatches attr verbPolicy rule \<longleftrightarrow>
     (let resourceKey = (if ra_Subresource attr \<noteq> ''''
            then ra_Resource attr @ ''/'' @ ra_Subresource attr else ra_Resource attr) in
      matchesVerb (rr_Verbs rule) (ra_Verb attr) verbPolicy \<and>
      matchesExactOrAll (rr_APIGroups rule) (ra_Group attr) \<and>
      matchesResourceRule (rr_Resources rule) resourceKey (ra_Subresource attr) \<and>
      \<not> (rr_ResourceNames rule \<noteq> [] \<and> \<not> matchesExactOrAll (rr_ResourceNames rule) (ra_Name attr)))"

definition resourceRuleIndex ::
  "ResourceRule list \<Rightarrow> ResourceAttributes \<Rightarrow> ImpersonationVerbPolicy \<Rightarrow> int" where
  "resourceRuleIndex rules attr verbPolicy = firstIndex (resourceRuleMatches attr verbPolicy) rules 0"

definition nonResourceRuleIndex :: "NonResourceRule list \<Rightarrow> NonResourceAttributes \<Rightarrow> int" where
  "nonResourceRuleIndex rules attr =
     firstIndex (\<lambda>rule. matchesExactOrAll (nrr_Verbs rule) (nra_Verb attr) \<and>
       matchesNonResourceURLRule (nrr_NonResourceURLs rule) (nra_Path attr)) rules 0"

definition matchRequestRuleWithField ::
  "WebhookAuthorizer \<Rightarrow> SubjectAccessReview \<Rightarrow> int \<times> string" where
  "matchRequestRuleWithField authorizer sar =
     (let resourceIdx = (case sar_ResourceAttributes sar of
            None \<Rightarrow> -1
          | Some attr \<Rightarrow> resourceRuleIndex (was_ResourceRules (wa_Spec authorizer)) attr
              (effectiveImpersonationVerbPolicy authorizer));
          nonResourceIdx = (case sar_NonResourceAttributes sar of
            None \<Rightarrow> -1
          | Some attr \<Rightarrow> nonResourceRuleIndex (was_NonResourceRules (wa_Spec authorizer)) attr) in
      if sar_ResourceAttributes sar \<noteq> None \<and> resourceIdx \<ge> 0 then (resourceIdx, ''resourceRule'')
      else if sar_NonResourceAttributes sar \<noteq> None \<and> nonResourceIdx \<ge> 0
      then (nonResourceIdx, ''nonResourceRule'')
      else (-1, ''''))"

definition matchRequestRule :: "WebhookAuthorizer \<Rightarrow> SubjectAccessReview \<Rightarrow> int" where
  "matchRequestRule authorizer sar = fst (matchRequestRuleWithField authorizer sar)"

definition matchesImpersonationDeny :: "WebhookAuthorizer \<Rightarrow> SubjectAccessReview \<Rightarrow> int" where
  "matchesImpersonationDeny authorizer sar =
     (if effectiveImpersonationVerbPolicy authorizer \<noteq> ImpersonationVerbPolicyDeny then -1
      else case sar_ResourceAttributes sar of
        None \<Rightarrow> -1
      | Some attr \<Rightarrow>
          if \<not> IsImpersonationVerb (ra_Verb attr) then -1
          else resourceRuleIndex (was_ResourceRules (wa_Spec authorizer)) attr
                 ImpersonationVerbPolicyDeny)"

section \<open>Evaluation\<close>

definition maxBridgeDenyAuthorizers :: nat where "maxBridgeDenyAuthorizers = 256"
definition bridgeDenyPageSize :: nat where "bridgeDenyPageSize = 64"

text \<open>
  The surroundings of the evaluation: listing (by index value, or all), the live read of one
  authorizer, the pages of the live list, \<^verbatim>\<open>namespaceselector.NewRequest\<close> (an error, when there is
  one) and its \<^verbatim>\<open>Matches\<close>, \<^verbatim>\<open>meta.FindStatusCondition\<close>, and the bridge.
\<close>

record authz_env =
  az_ListIndexed :: "string \<Rightarrow> string + WebhookAuthorizer list"
  az_ListAll :: "string + WebhookAuthorizer list"
  az_Get :: "string \<Rightarrow> WebhookAuthorizer get_result"
  az_LivePage :: "string \<Rightarrow> string + (WebhookAuthorizer list \<times> string)"
  az_NewRequest :: "string option"
  az_NsMatches :: "string \<Rightarrow> LabelSelector \<Rightarrow> string + bool"
  az_findStatus :: find_api
  az_bridge :: bridge_env

definition authorizerReadyForEvaluation :: "find_api \<Rightarrow> WebhookAuthorizer \<Rightarrow> bool" where
  "authorizerReadyForEvaluation findStatus item =
     (if wa_ObservedGeneration item = 0 \<and> wa_Conditions item = [] then True
      else if wa_Generation item > 0 \<and> wa_ObservedGeneration item > 0 \<and>
              wa_ObservedGeneration item \<noteq> wa_Generation item then False
      else if wa_Conditions item \<noteq> [] \<and> \<not> IsReady findStatus (wa_Conditions item) then False
      else wa_AuthorizerConfigured item)"

definition HasNamespaceSelectorTrue :: string where "HasNamespaceSelectorTrue = ''true''"
definition HasNamespaceSelectorFalse :: string where "HasNamespaceSelectorFalse = ''false''"

text \<open>The loop over the listed candidates: each is read again and kept when it is ready.\<close>

fun readCandidates ::
  "authz_env \<Rightarrow> string \<Rightarrow> bool \<Rightarrow> WebhookAuthorizer list \<Rightarrow> msg + WebhookAuthorizer list" where
  "readCandidates env hasNamespaceSelector useFallback [] = Inr []"
| "readCandidates env hasNamespaceSelector useFallback (candidate # rest) =
     (if useFallback \<and>
         (if IsLabelSelectorEmpty (Some (was_NamespaceSelector (wa_Spec candidate)))
          then HasNamespaceSelectorFalse else HasNamespaceSelectorTrue) \<noteq> hasNamespaceSelector
      then readCandidates env hasNamespaceSelector useFallback rest
      else
        (case az_Get env (wa_Name candidate) of
           NotFound \<Rightarrow> readCandidates env hasNamespaceSelector useFallback rest
         | GetError err \<Rightarrow> Inl [Lit ''get WebhookAuthorizer '', Quo (wa_Name candidate), Lit '': '', Lit err]
         | Found item \<Rightarrow>
             if \<not> authorizerReadyForEvaluation (az_findStatus env) item
             then readCandidates env hasNamespaceSelector useFallback rest
             else
               (case readCandidates env hasNamespaceSelector useFallback rest of
                  Inl err \<Rightarrow> Inl err | Inr items \<Rightarrow> Inr (item # items))))"

definition listAuthorizersByIndex :: "authz_env \<Rightarrow> string \<Rightarrow> msg + WebhookAuthorizer list" where
  "listAuthorizersByIndex env hasNamespaceSelector =
     (case az_ListIndexed env hasNamespaceSelector of
        Inr listed \<Rightarrow> readCandidates env hasNamespaceSelector False listed
      | Inl err \<Rightarrow>
          if Contains err ''field label not supported'' \<or> Contains err ''Index with name'' \<or>
             Contains err ''does not support field selectors''
          then (case az_ListAll env of
                  Inl err2 \<Rightarrow> Inl [Lit ''fallback list WebhookAuthorizers: '', Lit err2]
                | Inr listed \<Rightarrow> readCandidates env hasNamespaceSelector True listed)
          else Inl [Lit ''list WebhookAuthorizers by index '', Quo hasNamespaceSelector,
                    Lit '': '', Lit err])"

text \<open>One authorizer of the loop, once its namespace selector has been passed.\<close>

definition evaluateAuthorizer ::
  "WebhookAuthorizer \<Rightarrow> SubjectAccessReview \<Rightarrow> nat \<Rightarrow> nat \<Rightarrow> evaluationResult option" where
  "evaluateAuthorizer wa sar evaluated skipped =
     (let killIdx = matchesImpersonationDeny wa sar in
      if killIdx \<ge> 0 then Some
        \<lparr>er_allowed = False,
         er_reason = ''Constrained impersonation denied by WebhookAuthorizer '' @ wa_Name wa,
         er_decision = AuthorizerDecisionDenied, er_authorizerName = wa_Name wa,
         er_matchedRule = killIdx, er_matchedField = ''impersonationVerbPolicy'',
         er_evaluatedCount = evaluated, er_skippedCount = skipped\<rparr>
      else if principalMatches sar (was_DeniedPrincipals (wa_Spec wa)) \<and> matchRequestRule wa sar \<ge> 0
      then Some
        \<lparr>er_allowed = False, er_reason = ''Access denied by WebhookAuthorizer '' @ wa_Name wa,
         er_decision = AuthorizerDecisionDenied, er_authorizerName = wa_Name wa,
         er_matchedRule = matchRequestRule wa sar, er_matchedField = ''deniedPrincipal'',
         er_evaluatedCount = evaluated, er_skippedCount = skipped\<rparr>
      else if principalMatches sar (was_AllowedPrincipals (wa_Spec wa)) \<and>
              fst (matchRequestRuleWithField wa sar) \<ge> 0
      then Some
        \<lparr>er_allowed = True, er_reason = ''Access granted by WebhookAuthorizer '' @ wa_Name wa,
         er_decision = AuthorizerDecisionAllowed, er_authorizerName = wa_Name wa,
         er_matchedRule = fst (matchRequestRuleWithField wa sar),
         er_matchedField = snd (matchRequestRuleWithField wa sar),
         er_evaluatedCount = evaluated, er_skippedCount = skipped\<rparr>
      else None)"

datatype loop_outcome = Decided evaluationResult | LoopFailed msg | Undecided nat nat

text \<open>
  Whether an authorizer takes part in a request: an error, or whether its selector admits the
  namespace. A selector never admits a request without a namespace.
\<close>

definition authorizerApplies ::
  "authz_env \<Rightarrow> SubjectAccessReview \<Rightarrow> WebhookAuthorizer \<Rightarrow> msg + bool" where
  "authorizerApplies env sar wa =
     (if IsLabelSelectorEmpty (Some (was_NamespaceSelector (wa_Spec wa))) then Inr True
      else
        let resourceNS = (case sar_ResourceAttributes sar of
              None \<Rightarrow> '''' | Some attr \<Rightarrow> ra_Namespace attr) in
        if resourceNS = '''' then Inr False
        else
          (case az_NewRequest env of
             Some err \<Rightarrow> Inl [Lit ''create namespace selector request: '', Lit err]
           | None \<Rightarrow>
               (case az_NsMatches env resourceNS (was_NamespaceSelector (wa_Spec wa)) of
                  Inl err \<Rightarrow> Inl [Lit ''WebhookAuthorizer '', Quo (wa_Name wa),
                                  Lit '' namespace selector: '', Lit err]
                | Inr matches \<Rightarrow> Inr matches)))"

fun evaluateItems ::
  "authz_env \<Rightarrow> SubjectAccessReview \<Rightarrow> WebhookAuthorizer list \<Rightarrow> nat \<Rightarrow> nat \<Rightarrow> loop_outcome" where
  "evaluateItems env sar [] evaluated skipped = Undecided evaluated skipped"
| "evaluateItems env sar (wa # items) evaluated skipped =
     (case authorizerApplies env sar wa of
        Inl err \<Rightarrow> LoopFailed err
      | Inr False \<Rightarrow> evaluateItems env sar items evaluated (Suc skipped)
      | Inr True \<Rightarrow>
          (case evaluateAuthorizer wa sar (Suc evaluated) skipped of
             Some result \<Rightarrow> Decided result
           | None \<Rightarrow> evaluateItems env sar items (Suc evaluated) skipped))"

section \<open>The live deny check before a bridge grant\<close>

fun denyPage ::
  "authz_env \<Rightarrow> SubjectAccessReview \<Rightarrow> string \<Rightarrow> WebhookAuthorizer list
    \<Rightarrow> msg + evaluationResult option" where
  "denyPage env sar namespace [] = Inr None"
| "denyPage env sar namespace (item # items) =
     (if \<not> principalMatches sar (was_DeniedPrincipals (wa_Spec item))
      then denyPage env sar namespace items
      else
        let applies =
          (if IsLabelSelectorEmpty (Some (was_NamespaceSelector (wa_Spec item))) then Inr True
           else az_NsMatches env namespace (was_NamespaceSelector (wa_Spec item))) in
        case applies of
          Inl err \<Rightarrow> Inl [Lit ''WebhookAuthorizer '', Quo (wa_Name item),
                          Lit '' namespace selector: '', Lit err]
        | Inr False \<Rightarrow> denyPage env sar namespace items
        | Inr True \<Rightarrow>
            if matchRequestRule item sar \<ge> 0
            then Inr (Some \<lparr>er_allowed = False,
              er_reason = ''Access denied by WebhookAuthorizer '' @ wa_Name item,
              er_decision = AuthorizerDecisionDenied, er_authorizerName = wa_Name item,
              er_matchedRule = matchRequestRule item sar, er_matchedField = ''deniedPrincipal'',
              er_evaluatedCount = 1, er_skippedCount = 0\<rparr>)
            else denyPage env sar namespace items)"

fun denyPages ::
  "authz_env \<Rightarrow> SubjectAccessReview \<Rightarrow> string \<Rightarrow> nat \<Rightarrow> string \<Rightarrow> msg + evaluationResult" where
  "denyPages env sar namespace 0 continuation =
     Inl [Lit ''live WebhookAuthorizer deny check exceeded '', Dec (int maxBridgeDenyAuthorizers),
          Lit '' objects'']"
| "denyPages env sar namespace (Suc n) continuation =
     (case az_LivePage env continuation of
        Inl err \<Rightarrow> Inl [Lit ''list live WebhookAuthorizers: '', Lit err]
      | Inr (items, continue) \<Rightarrow>
          if length items > bridgeDenyPageSize
          then Inl [Lit ''live WebhookAuthorizer deny page exceeded '', Dec (int bridgeDenyPageSize),
                    Lit '' objects'']
          else
            (case denyPage env sar namespace items of
               Inl err \<Rightarrow> Inl err
             | Inr (Some result) \<Rightarrow> Inr result
             | Inr None \<Rightarrow>
                 if continue = '''' then Inr emptyResult
                 else denyPages env sar namespace n continue))"

text \<open>
  \<^verbatim>\<open>evaluateSAR\<close> calls this only for requests with resource attributes, whose namespace it reads.
\<close>

definition liveBridgeDeny ::
  "authz_env \<Rightarrow> SubjectAccessReview \<Rightarrow> ResourceAttributes \<Rightarrow> msg + evaluationResult" where
  "liveBridgeDeny env sar attr =
     (case az_NewRequest env of
        Some err \<Rightarrow> Inl [Lit ''create namespace selector request: '', Lit err]
      | None \<Rightarrow> denyPages env sar (ra_Namespace attr)
                  (maxBridgeDenyAuthorizers div bridgeDenyPageSize) '''')"

definition evaluateSAR ::
  "authz_env \<Rightarrow> int \<Rightarrow> int \<Rightarrow> bridge_scopes \<Rightarrow> SubjectAccessReview \<Rightarrow> WebhookAuthorizer list
    \<Rightarrow> (msg + evaluationResult) \<times> bridge_scopes" where
  "evaluateSAR env now now' scopes sar items =
     (case evaluateItems env sar items 0 0 of
        LoopFailed err \<Rightarrow> (Inl err, scopes)
      | Decided result \<Rightarrow> (Inr result, scopes)
      | Undecided evaluated skipped \<Rightarrow>
          let noRules = \<lparr>er_allowed = False, er_reason = ''Access denied: no matching rules'',
                er_decision = AuthorizerDecisionNoOpinion, er_authorizerName = AuthorizerNameNone,
                er_matchedRule = -1, er_matchedField = '''', er_evaluatedCount = evaluated,
                er_skippedCount = skipped\<rparr> in
          (case sar_ResourceAttributes sar of
             None \<Rightarrow> (Inr noRules, scopes)
           | Some attr \<Rightarrow>
               (case bridgeBindDefinition (az_bridge env) now now' scopes sar of
                  ((False, name), scopes') \<Rightarrow> (Inr noRules, scopes')
                | ((True, name), scopes') \<Rightarrow>
                    (case liveBridgeDeny env sar attr of
                       Inl err \<Rightarrow>
                         (Inr (noRules\<lparr>er_reason := ''Access denied: bridge deny check unavailable''\<rparr>),
                          scopes')
                     | Inr deny \<Rightarrow>
                         if er_decision deny = AuthorizerDecisionDenied
                         then (Inr (deny\<lparr>er_evaluatedCount := er_evaluatedCount deny + evaluated,
                                         er_skippedCount := er_skippedCount deny + skipped\<rparr>), scopes')
                         else (Inr \<lparr>er_allowed = True,
                                 er_reason = ''Access granted by BindDefinition '' @ name,
                                 er_decision = AuthorizerDecisionAllowed, er_authorizerName = name,
                                 er_matchedRule = -1, er_matchedField = ''bindDefinition'',
                                 er_evaluatedCount = evaluated, er_skippedCount = skipped\<rparr>,
                               scopes')))))"

section \<open>The HTTP handler\<close>

text \<open>
  A response is a SubjectAccessReview status, or a bare HTTP error. A request is its Authorization
  header and the decoded body (\<^term>\<open>None\<close> when it does not decode or is over the size limit).
\<close>

datatype http_response = SarResponse (resp_Allowed: bool) (resp_Denied: bool) (resp_Reason: string)
  | HttpError string

record http_request =
  rq_Authorization :: string
  rq_Body :: "SubjectAccessReview option"

text \<open>
  The handler's configuration. \<open>wh_ReadFile\<close> reads the token file, \<open>wh_sha256\<close> is \<^verbatim>\<open>sha256.Sum256\<close>,
  \<open>wh_LimiterInf\<close> says whether a configured limiter has an infinite rate (\<^term>\<open>None\<close>: no limiter), and
  \<open>wh_SubjectLimiters\<close> is the per-subject limiter, or the error of its construction.
\<close>

record authorizer_config =
  wh_BearerToken :: string
  wh_BearerTokenFile :: string
  wh_AllowUnauthenticatedAuthorize :: bool
  wh_ReadFile :: "string \<Rightarrow> string + string"
  wh_sha256 :: "string \<Rightarrow> string"
  wh_LimiterInf :: "bool option"
  wh_SubjectLimiters :: "string + (string \<Rightarrow> bool)"
  wh_MarshalOk :: bool

definition expectedBearerToken :: "authorizer_config \<Rightarrow> msg + string" where
  "expectedBearerToken cfg =
     (if wh_BearerTokenFile cfg = '''' then Inr (wh_BearerToken cfg)
      else
        (case wh_ReadFile cfg (wh_BearerTokenFile cfg) of
           Inl err \<Rightarrow> Inl [Lit ''read bearer token file: '', Lit err]
         | Inr bytes \<Rightarrow>
             let token = TrimSpace bytes in
             if token = ''''
             then Inl [Lit ''bearer token file '', Quo (wh_BearerTokenFile cfg),
                       Lit '' must not be empty'']
             else Inr token))"

definition constantTimeTokenEqual :: "(string \<Rightarrow> string) \<Rightarrow> string \<Rightarrow> string \<Rightarrow> bool" where
  "constantTimeTokenEqual sha256 a b \<longleftrightarrow> sha256 a = sha256 b"

definition writeDeniedResponse :: "string \<Rightarrow> http_response" where
  "writeDeniedResponse reason = SarResponse False True reason"

definition writeRateLimitResponse :: http_response where
  "writeRateLimitResponse = SarResponse False True ''rate limit exceeded''"

text \<open>\<^verbatim>\<open>authenticateRequest\<close>: \<^term>\<open>None\<close> to go on, or the response it wrote.\<close>

definition authenticateRequest :: "authorizer_config \<Rightarrow> string \<Rightarrow> http_response option" where
  "authenticateRequest cfg header =
     (case expectedBearerToken cfg of
        Inl err \<Rightarrow> Some (writeDeniedResponse ''unauthorized'')
      | Inr expectedToken \<Rightarrow>
          if expectedToken = '''' then
            (if wh_AllowUnauthenticatedAuthorize cfg then None
             else Some (writeDeniedResponse ''unauthorized''))
          else
            (case CutPrefix header ''Bearer '' of
               None \<Rightarrow> Some (writeDeniedResponse ''unauthorized'')
             | Some token \<Rightarrow>
                 if token = '''' \<or> \<not> constantTimeTokenEqual (wh_sha256 cfg) token expectedToken
                 then Some (writeDeniedResponse ''unauthorized'')
                 else None))"

definition validateSAR :: "SubjectAccessReview \<Rightarrow> string" where
  "validateSAR sar =
     (if sar_User sar = '''' \<and> sar_Groups sar = [] then ''empty user identity and no groups''
      else if sar_ResourceAttributes sar = None \<and> sar_NonResourceAttributes sar = None
      then ''missing resource and non-resource attributes''
      else if sar_ResourceAttributes sar \<noteq> None \<and> sar_NonResourceAttributes sar \<noteq> None
      then ''resource and non-resource attributes are mutually exclusive''
      else '''')"

text \<open>The key of the rate limiter; fields are separated by a NUL byte.\<close>

definition nul :: char where "nul = char_of (0 :: nat)"

definition rateLimitSubjectKey :: "SubjectAccessReview \<Rightarrow> string" where
  "rateLimitSubjectKey sar = sar_User sar @ [nul] @ Join (Compact (sort (sar_Groups sar))) [nul]"

definition allowSubjectRequest :: "authorizer_config \<Rightarrow> SubjectAccessReview \<Rightarrow> bool" where
  "allowSubjectRequest cfg sar =
     (case wh_LimiterInf cfg of
        None \<Rightarrow> True
      | Some unlimited \<Rightarrow>
          if unlimited then True
          else (case wh_SubjectLimiters cfg of
                  Inl err \<Rightarrow> False | Inr allow \<Rightarrow> allow (rateLimitSubjectKey sar)))"

definition maxLoggedGroups :: nat where "maxLoggedGroups = 10"

definition cappedGroups :: "string list \<Rightarrow> string list" where
  "cappedGroups groups =
     (if length groups \<le> maxLoggedGroups then groups
      else take maxLoggedGroups groups @
        [''...and '' @ itoa (length groups - maxLoggedGroups) @ '' more''])"

definition countTotalRules :: "WebhookAuthorizer list \<Rightarrow> nat" where
  "countTotalRules authorizers =
     sum_list (map (\<lambda>a. length (was_ResourceRules (wa_Spec a)) + length (was_NonResourceRules (wa_Spec a)))
       authorizers)"

definition publicAuthorizerReason :: "evaluationResult \<Rightarrow> string" where
  "publicAuthorizerReason result =
     (if er_decision result = AuthorizerDecisionAllowed then
        (if er_matchedField result = ''bindDefinition'' then ''Access granted by BindDefinition''
         else ''Access granted by WebhookAuthorizer'')
      else if er_decision result = AuthorizerDecisionDenied then ''Access denied by WebhookAuthorizer''
      else er_reason result)"

text \<open>
  The authorizers a request is evaluated against, in the order of their names
  (\<^verbatim>\<open>slices.SortFunc\<close>; names are unique).
\<close>

definition requestItems ::
  "SubjectAccessReview \<Rightarrow> WebhookAuthorizer list \<Rightarrow> WebhookAuthorizer list \<Rightarrow> WebhookAuthorizer list" where
  "requestItems sar globalItems scopedItems =
     sort_key wa_Name (globalItems @
       (if (case sar_ResourceAttributes sar of None \<Rightarrow> False | Some attr \<Rightarrow> ra_Namespace attr \<noteq> '''')
        then scopedItems
        else filter (\<lambda>item. IsLabelSelectorEmpty (Some (was_NamespaceSelector (wa_Spec item))))
               scopedItems))"

definition listAuthorizersForRequest ::
  "authz_env \<Rightarrow> msg + (WebhookAuthorizer list \<times> WebhookAuthorizer list)" where
  "listAuthorizersForRequest env =
     (case listAuthorizersByIndex env HasNamespaceSelectorFalse of
        Inl err \<Rightarrow> Inl err
      | Inr globalItems \<Rightarrow>
          (case listAuthorizersByIndex env HasNamespaceSelectorTrue of
             Inl err \<Rightarrow> Inl err
           | Inr scopedItems \<Rightarrow> Inr (globalItems, scopedItems)))"

definition handleAuthorizerEvaluationError :: http_response where
  "handleAuthorizerEvaluationError = writeDeniedResponse ''internal evaluation error''"

definition ServeHTTP ::
  "authorizer_config \<Rightarrow> authz_env \<Rightarrow> int \<Rightarrow> int \<Rightarrow> bridge_scopes \<Rightarrow> http_request
    \<Rightarrow> http_response \<times> bridge_scopes" where
  "ServeHTTP cfg env now now' scopes r =
     (case authenticateRequest cfg (rq_Authorization r) of
        Some response \<Rightarrow> (response, scopes)
      | None \<Rightarrow>
     (case rq_Body r of
        None \<Rightarrow> (writeDeniedResponse ''invalid request body'', scopes)
      | Some sar \<Rightarrow>
          if validateSAR sar \<noteq> '''' then (writeDeniedResponse (validateSAR sar), scopes)
          else if wh_LimiterInf cfg \<noteq> None \<and> \<not> allowSubjectRequest cfg sar
          then (writeRateLimitResponse, scopes)
          else
            (case listAuthorizersForRequest env of
               Inl err \<Rightarrow> (handleAuthorizerEvaluationError, scopes)
             | Inr (globalItems, scopedItems) \<Rightarrow>
                 (case evaluateSAR env now now' scopes sar (requestItems sar globalItems scopedItems) of
                    (Inl err, scopes') \<Rightarrow> (handleAuthorizerEvaluationError, scopes')
                  | (Inr result, scopes') \<Rightarrow>
                      if \<not> wh_MarshalOk cfg then (HttpError ''internal evaluation error'', scopes')
                      else (SarResponse (er_allowed result)
                              (er_decision result = AuthorizerDecisionDenied)
                              (publicAuthorizerReason result), scopes')))))"

section \<open>First match\<close>

lemma firstIndex_ge: "0 \<le> i \<Longrightarrow> 0 \<le> firstIndex P rules i \<longleftrightarrow> (\<exists>r \<in> set rules. P r)"
  by (induction P rules i rule: firstIndex.induct) auto

lemma firstIndex_Some:
  "0 \<le> i \<Longrightarrow> 0 \<le> firstIndex P rules i \<Longrightarrow>
   \<exists>n < length rules. firstIndex P rules i = i + int n \<and> P (rules ! n) \<and> (\<forall>m < n. \<not> P (rules ! m))"
proof (induction P rules i rule: firstIndex.induct)
  case (2 P r rules i)
  show ?case
  proof (cases "P r")
    case False
    with 2 obtain n where n: "n < length rules" "firstIndex P rules (i + 1) = i + 1 + int n"
        "P (rules ! n)" "\<forall>m < n. \<not> P (rules ! m)" by auto
    have "\<not> P ((r # rules) ! m)" if "m < Suc n" for m
      using that n(4) False by (cases m) auto
    with n False show ?thesis by (intro exI [of _ "Suc n"]) auto
  qed (auto intro: exI [of _ 0])
qed simp

text \<open>
  The interface of the two rule lists: an index function that finds the first match, for some notion
  of a rule matching a request.
\<close>

locale rule_list =
  fixes hits :: "'q \<Rightarrow> 'r \<Rightarrow> bool" and index_of :: "'r list \<Rightarrow> 'q \<Rightarrow> int"
  assumes index_first: "index_of rules q = firstIndex (hits q) rules 0"
begin

lemma index_found: "0 \<le> index_of rules q \<longleftrightarrow> (\<exists>r \<in> set rules. hits q r)"
  by (simp add: index_first firstIndex_ge)

lemma index_minimal:
  assumes "0 \<le> index_of rules q"
  shows "nat (index_of rules q) < length rules \<and> hits q (rules ! nat (index_of rules q)) \<and>
    (\<forall>m < nat (index_of rules q). \<not> hits q (rules ! m))"
  using firstIndex_Some [of 0 "hits q" rules] assms by (auto simp: index_first)

text \<open>Rules appended later never change the match of an earlier one.\<close>

lemma index_append: "0 \<le> index_of rules q \<Longrightarrow> index_of (rules @ extra) q = index_of rules q"
proof -
  have "0 \<le> i \<Longrightarrow> 0 \<le> firstIndex P rules i \<Longrightarrow> firstIndex P (rules @ extra) i = firstIndex P rules i" for P i
    by (induction P rules i rule: firstIndex.induct) auto
  then show "0 \<le> index_of rules q \<Longrightarrow> ?thesis" by (simp add: index_first)
qed

end

definition nonResourceRuleMatches :: "NonResourceAttributes \<Rightarrow> NonResourceRule \<Rightarrow> bool" where
  "nonResourceRuleMatches attr rule \<longleftrightarrow> matchesExactOrAll (nrr_Verbs rule) (nra_Verb attr) \<and>
     matchesNonResourceURLRule (nrr_NonResourceURLs rule) (nra_Path attr)"

interpretation resource_rules: rule_list "\<lambda>(attr, policy). resourceRuleMatches attr policy"
  "\<lambda>rules (attr, policy). resourceRuleIndex rules attr policy"
  by unfold_locales (simp add: resourceRuleIndex_def split: prod.splits)

interpretation non_resource_rules: rule_list nonResourceRuleMatches nonResourceRuleIndex
  by unfold_locales (simp add: nonResourceRuleIndex_def nonResourceRuleMatches_def [abs_def])

section \<open>The verdict of one authorizer\<close>

definition rule_hits :: "WebhookAuthorizer \<Rightarrow> SubjectAccessReview \<Rightarrow> bool" where
  "rule_hits wa sar \<longleftrightarrow>
     (\<exists>attr. sar_ResourceAttributes sar = Some attr \<and>
        (\<exists>rule \<in> set (was_ResourceRules (wa_Spec wa)).
           resourceRuleMatches attr (effectiveImpersonationVerbPolicy wa) rule)) \<or>
     (\<exists>attr. sar_NonResourceAttributes sar = Some attr \<and>
        (\<exists>rule \<in> set (was_NonResourceRules (wa_Spec wa)). nonResourceRuleMatches attr rule))"

definition kill_hits :: "WebhookAuthorizer \<Rightarrow> SubjectAccessReview \<Rightarrow> bool" where
  "kill_hits wa sar \<longleftrightarrow> effectiveImpersonationVerbPolicy wa = ImpersonationVerbPolicyDeny \<and>
     (\<exists>attr. sar_ResourceAttributes sar = Some attr \<and> IsImpersonationVerb (ra_Verb attr) \<and>
        (\<exists>rule \<in> set (was_ResourceRules (wa_Spec wa)).
           resourceRuleMatches attr ImpersonationVerbPolicyDeny rule))"

definition denied_by :: "WebhookAuthorizer \<Rightarrow> SubjectAccessReview \<Rightarrow> bool" where
  "denied_by wa sar \<longleftrightarrow> kill_hits wa sar \<or>
     principalMatches sar (was_DeniedPrincipals (wa_Spec wa)) \<and> rule_hits wa sar"

definition allowed_by :: "WebhookAuthorizer \<Rightarrow> SubjectAccessReview \<Rightarrow> bool" where
  "allowed_by wa sar \<longleftrightarrow> \<not> denied_by wa sar \<and>
     principalMatches sar (was_AllowedPrincipals (wa_Spec wa)) \<and> rule_hits wa sar"

lemma matchRequestRule_hits: "0 \<le> fst (matchRequestRuleWithField wa sar) \<longleftrightarrow> rule_hits wa sar"
proof -
  have r: "0 \<le> resourceRuleIndex rules attr policy \<longleftrightarrow>
      (\<exists>rule \<in> set rules. resourceRuleMatches attr policy rule)" for rules attr policy
    using resource_rules.index_found [of rules "(attr, policy)"] by simp
  show ?thesis
    by (auto simp: matchRequestRuleWithField_def rule_hits_def Let_def r
        non_resource_rules.index_found split: option.splits)
qed

lemma matchesImpersonationDeny_hits: "0 \<le> matchesImpersonationDeny wa sar \<longleftrightarrow> kill_hits wa sar"
  using resource_rules.index_found
  by (auto simp: matchesImpersonationDeny_def kill_hits_def split: option.splits)

lemmas match_hits = matchRequestRule_hits matchesImpersonationDeny_hits matchRequestRule_def

lemma evaluateAuthorizer_None:
  "evaluateAuthorizer wa sar e s = None \<longleftrightarrow> \<not> denied_by wa sar \<and> \<not> allowed_by wa sar"
  by (auto simp: evaluateAuthorizer_def Let_def match_hits denied_by_def allowed_by_def)

lemma evaluateAuthorizer_Some:
  assumes "evaluateAuthorizer wa sar e s = Some r"
  shows "er_authorizerName r = wa_Name wa \<and> er_matchedField r \<noteq> ''bindDefinition'' \<and>
    (if er_allowed r then allowed_by wa sar \<and> er_decision r = AuthorizerDecisionAllowed
     else denied_by wa sar \<and> er_decision r = AuthorizerDecisionDenied)"
  using assms unfolding evaluateAuthorizer_def Let_def match_hits
  by (auto simp: denied_by_def allowed_by_def matchRequestRuleWithField_def Let_def split: if_splits)

section \<open>The verdict of the list\<close>

definition passes :: "authz_env \<Rightarrow> SubjectAccessReview \<Rightarrow> WebhookAuthorizer \<Rightarrow> bool" where
  "passes env sar wa \<longleftrightarrow> authorizerApplies env sar wa = Inr False \<or>
     authorizerApplies env sar wa = Inr True \<and> \<not> denied_by wa sar \<and> \<not> allowed_by wa sar"

lemma evaluateItems_Cons_passes:
  "passes env sar wa \<Longrightarrow> \<exists>e' s'. evaluateItems env sar (wa # items) e s = evaluateItems env sar items e' s'"
proof -
  assume "passes env sar wa"
  then consider "authorizerApplies env sar wa = Inr False"
    | "authorizerApplies env sar wa = Inr True" "evaluateAuthorizer wa sar (Suc e) s = None"
    by (auto simp: passes_def evaluateAuthorizer_None)
  then show ?thesis by cases (simp_all, blast+)
qed

lemma evaluateItems_skip:
  "\<forall>a \<in> set as. passes env sar a \<Longrightarrow>
   \<exists>e' s'. evaluateItems env sar (as @ items) e s = evaluateItems env sar items e' s'"
proof (induction as arbitrary: e s)
  case (Cons a as)
  have "passes env sar a" using Cons.prems by simp
  from evaluateItems_Cons_passes [OF this, of "as @ items" e s] obtain e1 s1
    where step: "evaluateItems env sar (a # as @ items) e s = evaluateItems env sar (as @ items) e1 s1"
    by blast
  from Cons.IH [of e1 s1] Cons.prems show ?case unfolding append_Cons step by simp
qed auto

lemma evaluateItems_Decided:
  "evaluateItems env sar items e s = Decided r \<Longrightarrow>
   \<exists>as wa bs e' s'. items = as @ wa # bs \<and> (\<forall>a \<in> set as. passes env sar a) \<and>
     authorizerApplies env sar wa = Inr True \<and> evaluateAuthorizer wa sar e' s' = Some r"
proof (induction env sar items e s rule: evaluateItems.induct)
  case (2 env sar wa items e s)
  show ?case
  proof (cases "authorizerApplies env sar wa = Inr True \<and> evaluateAuthorizer wa sar (Suc e) s = Some r")
    case True
    then have "wa # items = [] @ wa # items \<and> (\<forall>a \<in> set []. passes env sar a) \<and>
        authorizerApplies env sar wa = Inr True \<and> evaluateAuthorizer wa sar (Suc e) s = Some r" by simp
    then show ?thesis by blast
  next
    case False
    then have p: "passes env sar wa"
      using "2.prems" by (auto simp: passes_def evaluateAuthorizer_None [symmetric, of wa sar "Suc e" s]
          split: sum.splits bool.splits option.splits)
    obtain as w bs e' s' where "items = as @ w # bs" "\<forall>a \<in> set as. passes env sar a"
        "authorizerApplies env sar w = Inr True" "evaluateAuthorizer w sar e' s' = Some r"
      using 2 False by (fastforce split: sum.splits bool.splits option.splits)
    with p have "wa # items = (wa # as) @ w # bs \<and> (\<forall>a \<in> set (wa # as). passes env sar a) \<and>
        authorizerApplies env sar w = Inr True \<and> evaluateAuthorizer w sar e' s' = Some r" by simp
    then show ?thesis by blast
  qed
qed simp

lemma evaluateItems_hit:
  assumes "\<forall>a \<in> set as. passes env sar a" and "authorizerApplies env sar wa = Inr True"
    and "denied_by wa sar \<or> allowed_by wa sar"
  shows "\<exists>r. evaluateItems env sar (as @ wa # bs) e s = Decided r \<and>
    (if allowed_by wa sar then er_allowed r else er_decision r = AuthorizerDecisionDenied)"
proof -
  obtain e' s' where skip: "evaluateItems env sar (as @ wa # bs) e s = evaluateItems env sar (wa # bs) e' s'"
    using evaluateItems_skip [OF assms(1), of "wa # bs"] by blast
  obtain r where r: "evaluateAuthorizer wa sar (Suc e') s' = Some r"
    using assms(3) evaluateAuthorizer_None [of wa sar "Suc e'" s'] by (cases "evaluateAuthorizer wa sar (Suc e') s'") auto
  have "if allowed_by wa sar then er_allowed r else er_decision r = AuthorizerDecisionDenied"
    using evaluateAuthorizer_Some [OF r] by (auto simp: allowed_by_def split: if_splits)
  then show ?thesis using skip r assms(2) by auto
qed

section \<open>What an allow rests on\<close>

text \<open>The authorizers on the live pages, when they can be read within the limits.\<close>

fun liveItems :: "authz_env \<Rightarrow> nat \<Rightarrow> string \<Rightarrow> WebhookAuthorizer list option" where
  "liveItems env 0 continuation = None"
| "liveItems env (Suc n) continuation =
     (case az_LivePage env continuation of
        Inl err \<Rightarrow> None
      | Inr (items, continue) \<Rightarrow>
          if continue = '''' then Some items else map_option ((@) items) (liveItems env n continue))"

text \<open>A live authorizer denies the request in the namespace.\<close>

definition live_denies :: "authz_env \<Rightarrow> SubjectAccessReview \<Rightarrow> string \<Rightarrow> WebhookAuthorizer \<Rightarrow> bool" where
  "live_denies env sar ns wa \<longleftrightarrow> principalMatches sar (was_DeniedPrincipals (wa_Spec wa)) \<and>
     (IsLabelSelectorEmpty (Some (was_NamespaceSelector (wa_Spec wa))) \<or>
      az_NsMatches env ns (was_NamespaceSelector (wa_Spec wa)) = Inr True) \<and> rule_hits wa sar"

lemma denyPage_None: "denyPage env sar ns items = Inr None \<Longrightarrow> wa \<in> set items \<Longrightarrow> \<not> live_denies env sar ns wa"
  by (induction env sar ns items rule: denyPage.induct)
    (auto simp: live_denies_def Let_def match_hits split: if_splits sum.splits bool.splits)

lemma denyPage_Some: "denyPage env sar ns items = Inr (Some r) \<Longrightarrow> er_decision r = AuthorizerDecisionDenied"
  by (induction env sar ns items rule: denyPage.induct)
    (auto simp: Let_def split: if_splits sum.splits bool.splits)

lemma denyPages_clear:
  "denyPages env sar ns n c = Inr r \<Longrightarrow> er_decision r \<noteq> AuthorizerDecisionDenied \<Longrightarrow>
   \<exists>items. liveItems env n c = Some items \<and> (\<forall>wa \<in> set items. \<not> live_denies env sar ns wa)"
proof (induction n arbitrary: c)
  case (Suc n)
  obtain items cont where page: "az_LivePage env c = Inr (items, cont)"
    using Suc.prems(1) by (auto split: sum.splits)
  have none: "denyPage env sar ns items = Inr None"
    using Suc.prems page denyPage_Some
    by (auto split: if_splits sum.splits option.splits)
  show ?case
  proof (cases "cont = ''''")
    case True
    then show ?thesis using page denyPage_None [OF none] by auto
  next
    case False
    have "denyPages env sar ns n cont = Inr r"
      using Suc.prems(1) page none False by (auto split: if_splits)
    then obtain rest where "liveItems env n cont = Some rest"
        "\<forall>wa \<in> set rest. \<not> live_denies env sar ns wa"
      using Suc.IH Suc.prems(2) by blast
    then show ?thesis using page False denyPage_None [OF none] by auto
  qed
qed simp

lemma liveBridgeDeny_clear:
  "liveBridgeDeny env sar attr = Inr r \<Longrightarrow> er_decision r \<noteq> AuthorizerDecisionDenied \<Longrightarrow>
   \<exists>items. liveItems env 4 '''' = Some items \<and>
     (\<forall>wa \<in> set items. \<not> live_denies env sar (ra_Namespace attr) wa)"
  unfolding liveBridgeDeny_def maxBridgeDenyAuthorizers_def bridgeDenyPageSize_def
  by (rule denyPages_clear) (auto split: option.splits)

lemma denyPages_denied:
  "denyPages env sar ns n c = Inr r \<Longrightarrow> er_decision r = AuthorizerDecisionDenied \<Longrightarrow> \<not> er_allowed r"
proof (induction n arbitrary: c)
  case (Suc n)
  have "denyPage env sar ns items = Inr (Some r) \<Longrightarrow> \<not> er_allowed r" for items
    by (induction env sar ns items rule: denyPage.induct)
      (auto simp: Let_def split: if_splits sum.splits bool.splits)
  then show ?case using Suc by (auto simp: emptyResult_def split: sum.splits if_splits option.splits)
qed simp

text \<open>
  The two grounds of an allow: an authorizer whose verdict no earlier one pre-empts, or a bridged
  BindDefinition, after every authorizer passed and no live one denies.
\<close>

definition allowed_by_authorizer ::
  "authz_env \<Rightarrow> SubjectAccessReview \<Rightarrow> WebhookAuthorizer list \<Rightarrow> bool" where
  "allowed_by_authorizer env sar items \<longleftrightarrow>
     (\<exists>as wa bs. items = as @ wa # bs \<and> (\<forall>a \<in> set as. passes env sar a) \<and>
        authorizerApplies env sar wa = Inr True \<and> allowed_by wa sar)"

definition allowed_by_bridge :: "authz_env \<Rightarrow> SubjectAccessReview \<Rightarrow> bool" where
  "allowed_by_bridge env sar \<longleftrightarrow>
     (\<exists>attr ns n bd live. sar_ResourceAttributes sar = Some attr \<and> bridgeEligible (Some attr) \<and>
        br_GetNamespace (az_bridge env) (ra_Namespace attr) = Found ns \<and>
        ns_Phase ns \<noteq> NamespaceTerminating \<and>
        br_GetBindDefinition (az_bridge env) n = Found bd \<and>
        definition_grants (az_bridge env) sar attr (ns_Labels ns) bd \<and>
        liveItems env 4 '''' = Some live \<and>
        (\<forall>wa \<in> set live. \<not> live_denies env sar (ra_Namespace attr) wa))"

lemma evaluateSAR_allowed:
  assumes "evaluateSAR env now now' scopes sar items = (Inr r, scopes')" and "er_allowed r"
  shows "er_decision r = AuthorizerDecisionAllowed \<and>
    (allowed_by_authorizer env sar items \<or> allowed_by_bridge env sar)"
proof (cases "evaluateItems env sar items 0 0")
  case (Decided r')
  with assms(1) have "r' = r" by (simp add: evaluateSAR_def)
  with evaluateItems_Decided [OF Decided] obtain as wa bs e s where
    "items = as @ wa # bs" "\<forall>a \<in> set as. passes env sar a" "authorizerApplies env sar wa = Inr True"
    "evaluateAuthorizer wa sar e s = Some r" by blast
  moreover from this have "allowed_by wa sar" "er_decision r = AuthorizerDecisionAllowed"
    using evaluateAuthorizer_Some assms(2) by fastforce+
  ultimately show ?thesis by (auto simp: allowed_by_authorizer_def)
next
  case (LoopFailed e)
  then show ?thesis using assms(1) by (simp add: evaluateSAR_def)
next
  case (Undecided e s)
  then obtain attr where attr: "sar_ResourceAttributes sar = Some attr"
    using assms by (auto simp: evaluateSAR_def Let_def split: option.splits)
  obtain m name sc where br: "bridgeBindDefinition (az_bridge env) now now' scopes sar = ((m, name), sc)"
    by (metis surj_pair)
  have m using assms Undecided attr br by (auto simp: evaluateSAR_def Let_def split: bool.splits)
  then obtain deny where deny: "liveBridgeDeny env sar attr = Inr deny"
    using assms Undecided attr br by (auto simp: evaluateSAR_def Let_def split: sum.splits)
  have clear: "er_decision deny \<noteq> AuthorizerDecisionDenied"
  proof
    assume d: "er_decision deny = AuthorizerDecisionDenied"
    then have "\<not> er_allowed deny"
      using deny denyPages_denied by (auto simp: liveBridgeDeny_def split: option.splits)
    then show False
      using assms Undecided attr br \<open>m\<close> deny d by (auto simp: evaluateSAR_def Let_def)
  qed
  have "er_decision r = AuthorizerDecisionAllowed"
    using assms Undecided attr br \<open>m\<close> deny clear by (auto simp: evaluateSAR_def Let_def)
  moreover have "allowed_by_bridge env sar"
  proof -
    have grant: "bridgeBindDefinition (az_bridge env) now now' scopes sar = ((True, name), sc)"
      using br \<open>m\<close> by simp
    obtain live where "liveItems env 4 '''' = Some live"
        "\<forall>wa \<in> set live. \<not> live_denies env sar (ra_Namespace attr) wa"
      using liveBridgeDeny_clear [OF deny clear] by blast
    moreover obtain attr' ns n bd where "sar_ResourceAttributes sar = Some attr'"
        "bridgeEligible (Some attr')" "br_GetNamespace (az_bridge env) (ra_Namespace attr') = Found ns"
        "ns_Phase ns \<noteq> NamespaceTerminating" "br_GetBindDefinition (az_bridge env) n = Found bd"
        "definition_grants (az_bridge env) sar attr' (ns_Labels ns) bd"
      using bridge_grant [OF grant] .
    moreover from this attr have "attr' = attr" by simp
    ultimately show ?thesis unfolding allowed_by_bridge_def by blast
  qed
  ultimately show ?thesis by simp
qed

lemma evaluateSAR_denied:
  assumes "items = as @ wa # bs" "\<forall>a \<in> set as. \<not> allowed_by a sar"
    "\<forall>a \<in> set as. \<exists>b. authorizerApplies env sar a = Inr b"
    "authorizerApplies env sar wa = Inr True" "denied_by wa sar"
  shows "\<exists>r. evaluateSAR env now now' scopes sar items = (Inr r, scopes) \<and>
    \<not> er_allowed r \<and> er_decision r = AuthorizerDecisionDenied"
proof -
  obtain cs w ds where split: "items = cs @ w # ds" "\<forall>a \<in> set cs. passes env sar a"
      "authorizerApplies env sar w = Inr True" "denied_by w sar"
  proof (cases "\<exists>a \<in> set as. authorizerApplies env sar a = Inr True \<and> denied_by a sar")
    case True
    then obtain cs w ds where "as = cs @ w # ds" "authorizerApplies env sar w = Inr True" "denied_by w sar"
        "\<forall>a \<in> set cs. \<not> (authorizerApplies env sar a = Inr True \<and> denied_by a sar)"
      using split_list_first_prop [OF True] by blast
    moreover have "passes env sar a" if a: "a \<in> set cs" for a
    proof -
      have "a \<in> set as" using a \<open>as = cs @ w # ds\<close> by simp
      then obtain b where "authorizerApplies env sar a = Inr b" "\<not> allowed_by a sar"
        using assms(2, 3) by blast
      moreover have "\<not> (authorizerApplies env sar a = Inr True \<and> denied_by a sar)"
        using a \<open>\<forall>a \<in> set cs. \<not> (authorizerApplies env sar a = Inr True \<and> denied_by a sar)\<close> by blast
      ultimately show ?thesis by (cases b) (simp_all add: passes_def)
    qed
    ultimately show thesis using that [of cs w "ds @ wa # bs"] assms(1) by simp
  next
    case False
    have "passes env sar a" if a: "a \<in> set as" for a
    proof -
      obtain b where "authorizerApplies env sar a = Inr b" "\<not> allowed_by a sar"
        using assms(2, 3) a by blast
      then show ?thesis using a False by (cases b) (auto simp: passes_def)
    qed
    then show thesis using that [of as wa bs] assms by blast
  qed
  then have "\<not> allowed_by w sar" by (simp add: allowed_by_def)
  with evaluateItems_hit [of cs env sar w ds 0 0] split obtain r where
    r: "evaluateItems env sar items 0 0 = Decided r" "er_decision r = AuthorizerDecisionDenied" by auto
  have "\<not> er_allowed r"
    using evaluateItems_Decided [OF r(1)] evaluateAuthorizer_Some r(2)
    by (fastforce simp: decisions split: if_splits)
  then show ?thesis using r by (simp add: evaluateSAR_def)
qed

section \<open>Impersonation verbs\<close>



section \<open>The handler\<close>

lemma ServeHTTP_allowed:
  assumes "ServeHTTP cfg env now now' scopes rq = (SarResponse True d reason, scopes')"
  obtains sar globals scoped r where "authenticateRequest cfg (rq_Authorization rq) = None"
    "rq_Body rq = Some sar" "validateSAR sar = ''''" "allowSubjectRequest cfg sar"
    "listAuthorizersForRequest env = Inr (globals, scoped)"
    "evaluateSAR env now now' scopes sar (requestItems sar globals scoped) = (Inr r, scopes')"
    "er_allowed r" "d = (er_decision r = AuthorizerDecisionDenied)"
proof -
  have "allowSubjectRequest cfg sar" if "wh_LimiterInf cfg = None" for sar
    using that by (simp add: allowSubjectRequest_def)
  then show thesis
    using assms that unfolding ServeHTTP_def
    by (auto simp: authenticateRequest_def writeDeniedResponse_def writeRateLimitResponse_def
        handleAuthorizerEvaluationError_def
        split: option.splits sum.splits if_splits prod.splits)
qed

lemma validateSAR_ok:
  "validateSAR sar = '''' \<longleftrightarrow> (sar_User sar \<noteq> '''' \<or> sar_Groups sar \<noteq> []) \<and>
     (sar_ResourceAttributes sar = None) \<noteq> (sar_NonResourceAttributes sar = None)"
  by (auto simp: validateSAR_def)

lemma set_requestItems: "set (requestItems sar globals scoped) \<subseteq> set globals \<union> set scoped"
  by (auto simp: requestItems_def)

lemma readCandidates_ready:
  "readCandidates env b f cs = Inr items \<Longrightarrow> wa \<in> set items \<Longrightarrow>
   authorizerReadyForEvaluation (az_findStatus env) wa \<and> (\<exists>n. az_Get env n = Found wa)"
  by (induction env b f cs arbitrary: items rule: readCandidates.induct)
    (auto split: if_splits get_result.splits sum.splits)

lemma listAuthorizers_ready:
  assumes "listAuthorizersForRequest env = Inr (globals, scoped)" and "wa \<in> set globals \<union> set scoped"
  shows "authorizerReadyForEvaluation (az_findStatus env) wa \<and> (\<exists>n. az_Get env n = Found wa)"
proof -
  have "listAuthorizersByIndex env b = Inr items \<Longrightarrow> wa \<in> set items \<Longrightarrow>
      authorizerReadyForEvaluation (az_findStatus env) wa \<and> (\<exists>n. az_Get env n = Found wa)" for b items
    by (auto simp: listAuthorizersByIndex_def split: sum.splits if_splits dest: readCandidates_ready)
  then show ?thesis using assms by (auto simp: listAuthorizersForRequest_def split: sum.splits)
qed

section \<open>Keys and names\<close>

lemma parseServiceAccountUsername_iff:
  "parseServiceAccountUsername u = Some (ns, n) \<longleftrightarrow>
     u = ''system:serviceaccount:'' @ ns @ '':'' @ n \<and> CHR '':'' \<notin> set ns \<and> CHR '':'' \<notin> set n"
proof
  assume "parseServiceAccountUsername u = Some (ns, n)"
  then have "length (Split u CHR '':'') = 4" "Split u CHR '':'' ! 0 = ''system''"
      "Split u CHR '':'' ! 1 = ''serviceaccount''" "Split u CHR '':'' ! 2 = ns" "Split u CHR '':'' ! 3 = n"
    by (auto simp: parseServiceAccountUsername_def Let_def split: if_splits)
  then have parts: "Split u CHR '':'' = [''system'', ''serviceaccount'', ns, n]"
    by (auto simp: list_eq_iff_nth_eq less_Suc_eq numeral_nat)
  then have "u = Join [''system'', ''serviceaccount'', ns, n] [CHR '':'']"
    using Join_Split [of u "CHR '':''"] by simp
  moreover have "CHR '':'' \<notin> set ns" "CHR '':'' \<notin> set n"
    using Split_parts [of ns u "CHR '':''"] Split_parts [of n u "CHR '':''"] parts by simp_all
  ultimately show "u = ''system:serviceaccount:'' @ ns @ '':'' @ n \<and> CHR '':'' \<notin> set ns \<and> CHR '':'' \<notin> set n"
    by simp
next
  assume u: "u = ''system:serviceaccount:'' @ ns @ '':'' @ n \<and> CHR '':'' \<notin> set ns \<and> CHR '':'' \<notin> set n"
  then have "u = Join [''system'', ''serviceaccount'', ns, n] [CHR '':'']" by simp
  moreover have "Split (Join [''system'', ''serviceaccount'', ns, n] [CHR '':'']) CHR '':'' =
      [''system'', ''serviceaccount'', ns, n]"
    by (rule Split_Join) (use u in auto)
  ultimately have "Split u CHR '':'' = [''system'', ''serviceaccount'', ns, n]" by (simp only:)
  then show "parseServiceAccountUsername u = Some (ns, n)"
    by (simp add: parseServiceAccountUsername_def)
qed

lemma rateLimitSubjectKey_inj:
  assumes "nul \<notin> set (sar_User s)" "nul \<notin> set (sar_User t)"
    and "\<forall>g \<in> set (sar_Groups s). nul \<notin> set g \<and> g \<noteq> ''''" "\<forall>g \<in> set (sar_Groups t). nul \<notin> set g \<and> g \<noteq> ''''"
  shows "rateLimitSubjectKey s = rateLimitSubjectKey t \<longleftrightarrow>
    sar_User s = sar_User t \<and> set (sar_Groups s) = set (sar_Groups t)"
proof
  let ?g = "\<lambda>s. Compact (sort (sar_Groups s))"
  assume "rateLimitSubjectKey s = rateLimitSubjectKey t"
  then have user: "sar_User s = sar_User t" and join: "Join (?g s) [nul] = Join (?g t) [nul]"
    using append_sep_inj [of "sar_User s" nul _ "sar_User t"] assms(1, 2)
    by (auto simp: rateLimitSubjectKey_def)
  have ne: "Join gs [nul] = '''' \<longleftrightarrow> gs = []" if "\<forall>g \<in> set gs. g \<noteq> ''''" for gs
  proof (cases gs)
    case (Cons g gs')
    then show ?thesis using that by (cases gs') auto
  qed simp
  have mem: "\<forall>g \<in> set (?g s). nul \<notin> set g \<and> g \<noteq> ''''" "\<forall>g \<in> set (?g t). nul \<notin> set g \<and> g \<noteq> ''''"
    using assms(3, 4) by simp_all
  have "?g s = ?g t"
  proof (cases "?g s = [] \<or> ?g t = []")
    case True
    then show ?thesis using ne [of "?g s"] ne [of "?g t"] join mem by auto
  next
    case False
    then show ?thesis using Join_inj [OF join] mem by blast
  qed
  then have "set (?g s) = set (?g t)" by simp
  with user show "sar_User s = sar_User t \<and> set (sar_Groups s) = set (sar_Groups t)" by simp
next
  assume "sar_User s = sar_User t \<and> set (sar_Groups s) = set (sar_Groups t)"
  then show "rateLimitSubjectKey s = rateLimitSubjectKey t"
    using Compact_sort_canonical [of "sar_Groups s" "sar_Groups t"]
    by (simp add: rateLimitSubjectKey_def)
qed

section \<open>Sample objects\<close>

definition sample_wa :: WebhookAuthorizer where
  "sample_wa = \<lparr>wa_Name = ''a'', wa_Generation = 1, wa_Spec =
     \<lparr>was_ResourceRules = [\<lparr>rr_Verbs = [''*''], rr_APIGroups = [''*''], rr_Resources = [''pods''],
        rr_ResourceNames = []\<rparr>],
      was_NonResourceRules = [],
      was_AllowedPrincipals = [\<lparr>p_User = ''alice'', p_Groups = [], p_Namespace = '''', p_UID = '''', p_Extra = []\<rparr>],
      was_DeniedPrincipals = [\<lparr>p_User = ''mallory'', p_Groups = [], p_Namespace = '''', p_UID = '''', p_Extra = []\<rparr>],
      was_NamespaceSelector = \<lparr>MatchLabels = [], MatchExpressions = []\<rparr>,
      was_ImpersonationVerbPolicy = ''''\<rparr>,
     wa_ObservedGeneration = 0, wa_Conditions = [], wa_AuthorizerConfigured = False\<rparr>"

definition sample_env :: authz_env where
  "sample_env = \<lparr>az_ListIndexed = (\<lambda>v. Inr (if v = ''false'' then [sample_wa] else [])),
     az_ListAll = Inr [sample_wa], az_Get = (\<lambda>n. if n = ''a'' then Found sample_wa else NotFound),
     az_LivePage = (\<lambda>c. Inr ([sample_wa], '''')), az_NewRequest = None,
     az_NsMatches = (\<lambda>ns sel. Inr True), az_findStatus = (\<lambda>cs t. find (\<lambda>c. c_Type c = t) cs),
     az_bridge = sample_bridge\<rparr>"

definition sample_cfg :: authorizer_config where
  "sample_cfg = \<lparr>wh_BearerToken = ''t0p'', wh_BearerTokenFile = '''', wh_AllowUnauthenticatedAuthorize = False,
     wh_ReadFile = (\<lambda>f. Inl ''no file''), wh_sha256 = (\<lambda>s. s), wh_LimiterInf = None,
     wh_SubjectLimiters = Inl ''none'', wh_MarshalOk = True\<rparr>"

definition sample_request :: http_request where
  "sample_request = \<lparr>rq_Authorization = ''Bearer t0p'', rq_Body = Some sample_sar\<rparr>"

definition mallory_sar :: SubjectAccessReview where
  "mallory_sar = sample_sar\<lparr>sar_User := ''mallory''\<rparr>"

lemma sample_allowed: "fst (ServeHTTP sample_cfg sample_env 0 1 [] sample_request) =
    SarResponse True False ''Access granted by WebhookAuthorizer''"
  by code_simp

lemma sample_hit_facts:
  "authorizerApplies sample_env mallory_sar sample_wa = Inr True"
  "matchesImpersonationDeny sample_wa mallory_sar < 0"
  "principalMatches mallory_sar (was_DeniedPrincipals (wa_Spec sample_wa))"
  "0 \<le> fst (matchRequestRuleWithField sample_wa mallory_sar)"
  by code_simp+

lemma sample_denied_by: "denied_by sample_wa mallory_sar"
  using sample_hit_facts(3, 4) by (simp add: denied_by_def flip: matchRequestRule_hits)

section \<open>Properties\<close>

text \<open>
  Property C2 (allow_justified): the webhook answers \<^verbatim>\<open>allowed\<close> only to an authenticated request with
  a well-formed body (some identity, and either resource or non-resource attributes) that the rate
  limiter admits, never together with \<^verbatim>\<open>denied\<close>, and only when either a WebhookAuthorizer that was
  read live and is ready for evaluation applies to the request and allows it without denying it, with
  no authorizer before it in name order objecting; or a BindDefinition grants it through the bridge
  and no authorizer on the live pages denies it.
\<close>

theorem allow_justified:
  assumes "ServeHTTP cfg env now now' scopes rq = (SarResponse True denied reason, scopes')"
  shows "\<not> denied \<and> authenticateRequest cfg (rq_Authorization rq) = None \<and>
    (\<exists>sar globals scoped. rq_Body rq = Some sar \<and> (sar_User sar \<noteq> '''' \<or> sar_Groups sar \<noteq> []) \<and>
       (sar_ResourceAttributes sar = None) \<noteq> (sar_NonResourceAttributes sar = None) \<and>
       allowSubjectRequest cfg sar \<and> listAuthorizersForRequest env = Inr (globals, scoped) \<and>
       ((\<exists>as wa bs. requestItems sar globals scoped = as @ wa # bs \<and> (\<forall>a \<in> set as. passes env sar a) \<and>
           authorizerReadyForEvaluation (az_findStatus env) wa \<and> (\<exists>n. az_Get env n = Found wa) \<and>
           authorizerApplies env sar wa = Inr True \<and> allowed_by wa sar) \<or>
        allowed_by_bridge env sar))"
proof -
  obtain sar globals scoped r where h: "authenticateRequest cfg (rq_Authorization rq) = None"
    "rq_Body rq = Some sar" "validateSAR sar = ''''" "allowSubjectRequest cfg sar"
    "listAuthorizersForRequest env = Inr (globals, scoped)"
    "evaluateSAR env now now' scopes sar (requestItems sar globals scoped) = (Inr r, scopes')"
    "er_allowed r" "denied = (er_decision r = AuthorizerDecisionDenied)"
    using ServeHTTP_allowed [OF assms] .
  note verdict = evaluateSAR_allowed [OF h(6, 7)]
  then have "\<not> denied" using h(8) by (simp add: decisions)
  moreover have "(\<exists>as wa bs. requestItems sar globals scoped = as @ wa # bs \<and>
      (\<forall>a \<in> set as. passes env sar a) \<and>
      authorizerReadyForEvaluation (az_findStatus env) wa \<and> (\<exists>n. az_Get env n = Found wa) \<and>
      authorizerApplies env sar wa = Inr True \<and> allowed_by wa sar) \<or> allowed_by_bridge env sar"
  proof (cases "allowed_by_bridge env sar")
    case False
    with verdict obtain as wa bs where at: "requestItems sar globals scoped = as @ wa # bs"
        "\<forall>a \<in> set as. passes env sar a" "authorizerApplies env sar wa = Inr True" "allowed_by wa sar"
      by (auto simp: allowed_by_authorizer_def)
    then have "wa \<in> set globals \<union> set scoped" using set_requestItems [of sar globals scoped] by auto
    from listAuthorizers_ready [OF h(5) this] at show ?thesis by blast
  qed simp
  ultimately show ?thesis using h(1-5) validateSAR_ok [of sar] by blast
qed

theorem allow_justified_witness:
  "fst (ServeHTTP sample_cfg sample_env 0 1 [] sample_request) =
     SarResponse True False ''Access granted by WebhookAuthorizer'' \<and>
   authenticateRequest sample_cfg (rq_Authorization sample_request) = None"
proof -
  obtain scopes' where "ServeHTTP sample_cfg sample_env 0 1 [] sample_request =
      (SarResponse True False ''Access granted by WebhookAuthorizer'', scopes')"
    using sample_allowed by (metis prod.collapse)
  from allow_justified [OF this] sample_allowed show ?thesis by blast
qed

text \<open>
  Property C17 (denial_prevails): an authorizer that denies a request (by its denied principals or as
  the impersonation kill switch) decides it, whatever the authorizers after it and the bridge would
  say, as long as no authorizer before it in name order allows the request and the namespace
  selectors before it can be evaluated.
\<close>

theorem denial_prevails:
  assumes "items = as @ wa # bs" and "\<forall>a \<in> set as. \<not> allowed_by a sar"
    and "\<forall>a \<in> set as. \<exists>b. authorizerApplies env sar a = Inr b"
    and "authorizerApplies env sar wa = Inr True" and "denied_by wa sar"
  shows "\<exists>r. evaluateSAR env now now' scopes sar items = (Inr r, scopes) \<and>
    \<not> er_allowed r \<and> er_decision r = AuthorizerDecisionDenied"
  using assms by (rule evaluateSAR_denied)

theorem denial_prevails_witness:
  "\<exists>r. evaluateSAR sample_env 0 1 [] mallory_sar [sample_wa] = (Inr r, []) \<and>
    \<not> er_allowed r \<and> er_decision r = AuthorizerDecisionDenied"
  by (rule denial_prevails [of _ "[]" sample_wa "[]"]) (simp_all add: sample_hit_facts sample_denied_by)


definition impersonator :: WebhookAuthorizer where
  "impersonator = sample_wa\<lparr>wa_Spec := (wa_Spec sample_wa)\<lparr>was_ResourceRules :=
     [\<lparr>rr_Verbs = [''impersonate:user-info''], rr_APIGroups = [''*''], rr_Resources = [''users''],
       rr_ResourceNames = []\<rparr>]\<rparr>\<rparr>"

definition impersonation_sar :: SubjectAccessReview where
  "impersonation_sar = sample_sar\<lparr>sar_ResourceAttributes := Some \<lparr>ra_Namespace = '''',
     ra_Verb = ''impersonate:user-info'', ra_Group = ''authentication.k8s.io'', ra_Version = '''',
     ra_Resource = ''users'', ra_Subresource = '''', ra_Name = ''bob''\<rparr>\<rparr>"













text \<open>
  Two requests share a rate limit exactly when they have the
  same user and the same set of groups, for user and group names without the NUL byte; the order and
  repetition of groups do not matter, and no other identity can be made to collide.
\<close>

theorem rate_limit_key_injective:
  assumes "nul \<notin> set (sar_User s)" and "nul \<notin> set (sar_User t)"
    and "\<forall>g \<in> set (sar_Groups s). nul \<notin> set g \<and> g \<noteq> ''''"
    and "\<forall>g \<in> set (sar_Groups t). nul \<notin> set g \<and> g \<noteq> ''''"
  shows "rateLimitSubjectKey s = rateLimitSubjectKey t \<longleftrightarrow>
    sar_User s = sar_User t \<and> set (sar_Groups s) = set (sar_Groups t)"
  using assms by (rule rateLimitSubjectKey_inj)

theorem rate_limit_key_injective_witness:
  "rateLimitSubjectKey (sample_sar\<lparr>sar_Groups := [''dev'', ''ops'']\<rparr>) =
     rateLimitSubjectKey (sample_sar\<lparr>sar_Groups := [''ops'', ''dev'', ''ops'']\<rparr>)"
  using rate_limit_key_injective [of "sample_sar\<lparr>sar_Groups := [''dev'', ''ops'']\<rparr>"
      "sample_sar\<lparr>sar_Groups := [''ops'', ''dev'', ''ops'']\<rparr>"]
  by (auto simp: sample_sar_def nul_def char_of_def)

text \<open>
  A user name is parsed as a ServiceAccount exactly when it
  is \<^verbatim>\<open>system:serviceaccount:<namespace>:<name>\<close> with no further colon, and the parts are then the
  namespace and the name.
\<close>

theorem service_account_name_exact:
  "parseServiceAccountUsername u = Some (ns, n) \<longleftrightarrow>
     u = ''system:serviceaccount:'' @ ns @ '':'' @ n \<and> CHR '':'' \<notin> set ns \<and> CHR '':'' \<notin> set n"
  by (rule parseServiceAccountUsername_iff)

text \<open>
  The impersonation kill switch is subject to the order of
  names. With a kill switch named \<^verbatim>\<open>b\<close> and an authorizer named \<^verbatim>\<open>a\<close> that allows the verb, the request
  is allowed; under the names exchanged it is denied.
\<close>

definition kill_switch :: WebhookAuthorizer where
  "kill_switch = impersonator\<lparr>wa_Name := ''b'', wa_Spec := (wa_Spec impersonator)
     \<lparr>was_AllowedPrincipals := [], was_ImpersonationVerbPolicy := ''Deny''\<rparr>\<rparr>"

theorem kill_switch_preempted:
  "map_sum id er_decision (fst (evaluateSAR sample_env 0 1 [] impersonation_sar
     (requestItems impersonation_sar [impersonator, kill_switch] []))) = Inr AuthorizerDecisionAllowed \<and>
   map_sum id er_decision (fst (evaluateSAR sample_env 0 1 [] impersonation_sar
     (requestItems impersonation_sar [impersonator\<lparr>wa_Name := ''c''\<rparr>, kill_switch] []))) =
     Inr AuthorizerDecisionDenied"
  by code_simp

end
