(* ===== verification/Namespace_Labels.thy ===== *)
theory Namespace_Labels
  imports Api_Types
begin

text \<open>
  What the two namespace webhooks share (\<^verbatim>\<open>internal/webhook/authorization/helpers.go\<close>,
  \<^verbatim>\<open>binddefinition_candidates.go\<close>, \<^verbatim>\<open>api/authorization/v1alpha1/labels.go\<close>): the ownership labels and
  their coherence, bypass principals, subject matching, the live BindDefinitions, and how namespace
  selectors are read as ownership (\<^verbatim>\<open>namespace_mutating_webhook.go\<close>, \<^verbatim>\<open>binddefinition_webhook.go\<close>).
\<close>

section \<open>Label and annotation keys\<close>

definition LabelKeyProtected :: string where "LabelKeyProtected = ''t-caas.telekom.com/protected''"
definition LabelKeyOwner :: string where "LabelKeyOwner = ''t-caas.telekom.com/owner''"
definition LabelKeyTenant :: string where "LabelKeyTenant = ''t-caas.telekom.com/tenant''"
definition LabelKeyThirdParty :: string where "LabelKeyThirdParty = ''t-caas.telekom.com/thirdparty''"
definition LabelKeyAddon :: string where "LabelKeyAddon = ''t-caas.telekom.com/addon''"
definition LabelKeyDeletionProtection :: string where
  "LabelKeyDeletionProtection = ''t-caas.telekom.com/deletion-protection''"
definition AnnotationKeyAllowDeletion :: string where
  "AnnotationKeyAllowDeletion = ''t-caas.telekom.com/allow-deletion''"
definition OwnerPlatform :: string where "OwnerPlatform = ''platform''"
definition OwnerTenant :: string where "OwnerTenant = ''tenant''"
definition OwnerThirdParty :: string where "OwnerThirdParty = ''thirdparty''"
definition OwnerAddon :: string where "OwnerAddon = ''addon''"
definition DeletionProtectionEnabled :: string where "DeletionProtectionEnabled = ''enabled''"
definition AllowDeletionTrue :: string where "AllowDeletionTrue = ''true''"
definition legacyOwnerLabel :: string where "legacyOwnerLabel = ''schiff.telekom.de/owner''"
definition LabelMetadataName :: string where "LabelMetadataName = ''kubernetes.io/metadata.name''"

lemmas label_keys = LabelKeyProtected_def LabelKeyOwner_def LabelKeyTenant_def LabelKeyThirdParty_def
  LabelKeyAddon_def LabelKeyDeletionProtection_def legacyOwnerLabel_def LabelMetadataName_def
lemmas owner_values = OwnerPlatform_def OwnerTenant_def OwnerThirdParty_def OwnerAddon_def

definition trackedOwnershipKeys :: "string list" where
  "trackedOwnershipKeys = [LabelKeyOwner, LabelKeyTenant, LabelKeyThirdParty, LabelKeyAddon]"

section \<open>Principals\<close>

record ServiceAccountInfo =
  sai_Namespace :: string
  sai_Name :: string
  sai_IsServiceAccount :: bool

definition ParseServiceAccount :: "string \<Rightarrow> ServiceAccountInfo" where
  "ParseServiceAccount username =
     (let parts = Split username CHR '':'' in
      if length parts = 4 \<and> parts ! 0 = ''system'' \<and> parts ! 1 = ''serviceaccount''
      then \<lparr>sai_Namespace = parts ! 2, sai_Name = parts ! 3, sai_IsServiceAccount = True\<rparr>
      else \<lparr>sai_Namespace = '''', sai_Name = '''', sai_IsServiceAccount = False\<rparr>)"

definition Create :: string where "Create = ''CREATE''"
definition Update :: string where "Update = ''UPDATE''"
definition DeleteOp :: string where "DeleteOp = ''DELETE''"

lemmas operations = Create_def Update_def DeleteOp_def

record BypassCheckResult =
  bcr_ShouldBypass :: bool
  bcr_SkipUpdateLabelChecks :: bool
  bcr_AllowProtectedLabelChanges :: bool
  bcr_Reason :: string

definition hasGroup :: "string list \<Rightarrow> string \<Rightarrow> bool" where
  "hasGroup groups expected = list_ex (\<lambda>group. group = expected) groups"

definition CheckBypass ::
  "string \<Rightarrow> string list \<Rightarrow> string \<Rightarrow> string \<Rightarrow> bool \<Rightarrow> bool \<Rightarrow> BypassCheckResult" where
  "CheckBypass username groups operation namespace tdgMigration capiOperatorUpdateBypass =
     (let bypass = (\<lambda>skip allow reason. \<lparr>bcr_ShouldBypass = True, bcr_SkipUpdateLabelChecks = skip,
            bcr_AllowProtectedLabelChanges = allow, bcr_Reason = reason\<rparr>);
          none = \<lparr>bcr_ShouldBypass = False, bcr_SkipUpdateLabelChecks = False,
            bcr_AllowProtectedLabelChanges = False, bcr_Reason = ''''\<rparr> in
      if username = ''kubernetes-admin'' then bypass True True ''kubernetes-admin''
      else if hasGroup groups ''system:masters'' then bypass True True ''system:masters''
      else if username = ''system:serviceaccount:t-caas-storage:trident-operator'' \<and>
              operation = Update \<and> namespace = ''t-caas-storage''
      then bypass False False ''trident-operator for t-caas-storage''
      else if capiOperatorUpdateBypass \<and>
              username = ''system:serviceaccount:capi-operator-system:capi-operator-manager'' \<and>
              operation = Update
      then bypass False False ''capi-operator-manager''
      else if tdgMigration then
        (if username = ''system:serviceaccount:flux-system:helm-controller''
         then bypass False True ''helm-controller (tdgMigration)''
         else if username = ''system:serviceaccount:flux-system:kustomize-controller''
         then bypass False True ''kustomize-controller (tdgMigration)''
         else if username = ''system:serviceaccount:schiff-tenant:m2m-sa''
         then bypass False True ''schiff-tenant m2m-sa (tdgMigration)''
         else if username = ''system:serviceaccount:schiff-system:m2m-sa''
         then bypass False True ''schiff-system m2m-sa (tdgMigration)''
         else if username = ''system:serviceaccount:trident-system:trident-operator''
         then (if operation = Update \<and> namespace = ''trident-system''
               then bypass False True ''trident-operator for trident-system (tdgMigration)'' else none)
         else none)
      else none)"

definition MatchesSubjects ::
  "string \<Rightarrow> string list \<Rightarrow> ServiceAccountInfo \<Rightarrow> Subject list \<Rightarrow> bool" where
  "MatchesSubjects username userGroups saInfo subjects =
     list_ex (\<lambda>subject.
       if subj_Kind subject = UserKind then subj_Name subject = username
       else if subj_Kind subject = GroupKind
       then list_ex (\<lambda>userGroup. subj_Name subject = userGroup) userGroups
       else if subj_Kind subject = ServiceAccountKind
       then sai_IsServiceAccount saInfo \<and> subj_Namespace subject = sai_Namespace saInfo \<and>
            subj_Name subject = sai_Name saInfo
       else False) subjects"

definition IsRestrictedBindDefinition :: "string \<Rightarrow> bool" where
  "IsRestrictedBindDefinition name = HasSuffix name ''-namespaced-reader-restricted''"

section \<open>Ownership labels\<close>

text \<open>The loop that collects the tracked labels of a label map.\<close>

definition trackedLabels :: "labels \<Rightarrow> labels" where
  "trackedLabels ls =
     fold (\<lambda>key result. case map_of ls key of Some v \<Rightarrow> mput key v result | None \<Rightarrow> result)
       trackedOwnershipKeys []"

definition ValidTrackedOwnershipLabels :: "labels \<Rightarrow> bool" where
  "ValidTrackedOwnershipLabels namespaceLabels =
     (let result = trackedLabels namespaceLabels in
      if length result = 0 then True
      else
        (case map_of result LabelKeyOwner of
           None \<Rightarrow> False
         | Some ownerVal \<Rightarrow>
             if ownerVal = '''' then False
             else if ownerVal = OwnerPlatform then length result = 1
             else if ownerVal = OwnerTenant
             then length result = 2 \<and> mindex result LabelKeyTenant \<noteq> ''''
             else if ownerVal = OwnerThirdParty
             then length result = 2 \<and> mindex result LabelKeyThirdParty \<noteq> ''''
             else if ownerVal = OwnerAddon
             then length result = 2 \<and> mindex result LabelKeyAddon \<noteq> ''''
             else False))"

definition GetSANamespaceTrackedLabels ::
  "(string \<Rightarrow> Namespace get_result) \<Rightarrow> ServiceAccountInfo \<Rightarrow> msg + labels" where
  "GetSANamespaceTrackedLabels getNamespace saInfo =
     (if \<not> sai_IsServiceAccount saInfo then Inr []
      else
        (case getNamespace (sai_Namespace saInfo) of
           NotFound \<Rightarrow> Inr []
         | GetError err \<Rightarrow> Inl [Lit ''unable to get SA namespace '', Quo (sai_Namespace saInfo), Lit '': '', Lit err]
         | Found saNamespace \<Rightarrow>
             let result = trackedLabels (ns_Labels saNamespace) in
             if \<not> ValidTrackedOwnershipLabels result then Inr [] else Inr result))"

definition FindExtraTrackedKey :: "labels \<Rightarrow> labels \<Rightarrow> string" where
  "FindExtraTrackedKey targetLabels inherited =
     (case find (\<lambda>key. map_of targetLabels key \<noteq> None \<and> map_of inherited key = None) trackedOwnershipKeys of
        Some key \<Rightarrow> key | None \<Rightarrow> '''')"

text \<open>What coherent ownership is: none at all, the platform alone, or one class with its identity.\<close>

definition owned_as :: "(string \<Rightarrow> string option) \<Rightarrow> string \<Rightarrow> string \<Rightarrow> bool" where
  "owned_as l class key \<longleftrightarrow> l LabelKeyOwner = Some class \<and> (\<exists>v. l key = Some v \<and> v \<noteq> '''') \<and>
     (\<forall>k \<in> set trackedOwnershipKeys - {LabelKeyOwner, key}. l k = None)"

definition ownership_ok :: "(string \<Rightarrow> string option) \<Rightarrow> bool" where
  "ownership_ok l \<longleftrightarrow> (\<forall>k \<in> set trackedOwnershipKeys. l k = None) \<or>
     l LabelKeyOwner = Some OwnerPlatform \<and> (\<forall>k \<in> set trackedOwnershipKeys - {LabelKeyOwner}. l k = None) \<or>
     owned_as l OwnerTenant LabelKeyTenant \<or> owned_as l OwnerThirdParty LabelKeyThirdParty \<or>
     owned_as l OwnerAddon LabelKeyAddon"

lemma key_distinct [simp]:
  "LabelKeyOwner \<noteq> LabelKeyTenant" "LabelKeyOwner \<noteq> LabelKeyThirdParty" "LabelKeyOwner \<noteq> LabelKeyAddon"
  "LabelKeyTenant \<noteq> LabelKeyOwner" "LabelKeyThirdParty \<noteq> LabelKeyOwner" "LabelKeyAddon \<noteq> LabelKeyOwner"
  "LabelKeyTenant \<noteq> LabelKeyThirdParty" "LabelKeyTenant \<noteq> LabelKeyAddon" "LabelKeyThirdParty \<noteq> LabelKeyAddon"
  "LabelKeyThirdParty \<noteq> LabelKeyTenant" "LabelKeyAddon \<noteq> LabelKeyTenant" "LabelKeyAddon \<noteq> LabelKeyThirdParty"
  by (simp_all add: label_keys)

lemma owner_distinct [simp]:
  "OwnerPlatform \<noteq> OwnerTenant" "OwnerPlatform \<noteq> OwnerThirdParty" "OwnerPlatform \<noteq> OwnerAddon"
  "OwnerTenant \<noteq> OwnerThirdParty" "OwnerTenant \<noteq> OwnerAddon" "OwnerThirdParty \<noteq> OwnerAddon"
  "OwnerTenant \<noteq> OwnerPlatform" "OwnerThirdParty \<noteq> OwnerPlatform" "OwnerAddon \<noteq> OwnerPlatform"
  "OwnerThirdParty \<noteq> OwnerTenant" "OwnerAddon \<noteq> OwnerTenant" "OwnerAddon \<noteq> OwnerThirdParty"
  "OwnerPlatform \<noteq> ''''" "OwnerTenant \<noteq> ''''" "OwnerThirdParty \<noteq> ''''" "OwnerAddon \<noteq> ''''"
  by (simp_all add: owner_values)

lemma mput_fresh: "map_of m k = None \<Longrightarrow> mput k v m = m @ [(k, v)]"
  unfolding mput_def by (induction m) (auto split: if_splits)

lemma trackedLabels_eq:
  "trackedLabels ls = concat (map (\<lambda>k. case map_of ls k of None \<Rightarrow> [] | Some v \<Rightarrow> [(k, v)])
     trackedOwnershipKeys)"
  by (simp add: trackedLabels_def trackedOwnershipKeys_def mput_fresh split: option.splits)

lemma trackedLabels_lookup:
  "map_of (trackedLabels ls) k = (if k \<in> set trackedOwnershipKeys then map_of ls k else None)"
  by (auto simp: trackedLabels_eq trackedOwnershipKeys_def map_add_def split: option.splits)

lemma ValidTracked_iff: "ValidTrackedOwnershipLabels ls \<longleftrightarrow> ownership_ok (map_of ls)"
proof -
  have all: "(\<forall>k \<in> set trackedOwnershipKeys. P k) \<longleftrightarrow>
      P LabelKeyOwner \<and> P LabelKeyTenant \<and> P LabelKeyThirdParty \<and> P LabelKeyAddon" for P
    by (simp add: trackedOwnershipKeys_def)
  have diff: "set trackedOwnershipKeys - {LabelKeyOwner} = {LabelKeyTenant, LabelKeyThirdParty, LabelKeyAddon}"
    "set trackedOwnershipKeys - {LabelKeyOwner, LabelKeyTenant} = {LabelKeyThirdParty, LabelKeyAddon}"
    "set trackedOwnershipKeys - {LabelKeyOwner, LabelKeyThirdParty} = {LabelKeyTenant, LabelKeyAddon}"
    "set trackedOwnershipKeys - {LabelKeyOwner, LabelKeyAddon} = {LabelKeyTenant, LabelKeyThirdParty}"
    by (auto simp: trackedOwnershipKeys_def)
  show ?thesis
    unfolding ownership_ok_def owned_as_def all diff ValidTrackedOwnershipLabels_def Let_def
    by (cases "map_of ls LabelKeyOwner"; cases "map_of ls LabelKeyTenant";
        cases "map_of ls LabelKeyThirdParty"; cases "map_of ls LabelKeyAddon")
      (auto simp: trackedLabels_eq trackedOwnershipKeys_def mindex_def)
qed

lemma FindExtraTrackedKey_none:
  "FindExtraTrackedKey target inherited = '''' \<longleftrightarrow>
     (\<forall>k \<in> set trackedOwnershipKeys. map_of target k \<noteq> None \<longrightarrow> map_of inherited k \<noteq> None)"
  by (auto simp: FindExtraTrackedKey_def trackedOwnershipKeys_def label_keys)

section \<open>Live BindDefinitions\<close>

text \<open>
  The readers of a webhook: the indexed list, the full list, live reads of BindDefinitions and
  namespaces (the \<^verbatim>\<open>admissionReader\<close>), and \<^verbatim>\<open>metav1.LabelSelectorAsSelector\<close>.
\<close>

record ns_env =
  ne_ListIndexed :: "string + BindDefinition list"
  ne_ListAll :: "string + BindDefinition list"
  ne_GetBindDefinition :: "string \<Rightarrow> BindDefinition get_result"
  ne_GetNamespace :: "string \<Rightarrow> Namespace get_result"
  ne_asSelector :: selector_api

definition isFieldIndexError :: "string \<Rightarrow> bool" where
  "isFieldIndexError err =
     (let m = ToLower err in
      Contains m ''index'' \<and> (Contains m ''does not exist'' \<or> Contains m ''no index with name''))"

definition listAllCachedBindDefinitionsWithRoleBindings :: "ns_env \<Rightarrow> string + BindDefinition list" where
  "listAllCachedBindDefinitionsWithRoleBindings env =
     (case ne_ListAll env of
        Inl err \<Rightarrow> Inl err
      | Inr items \<Rightarrow> Inr (filter (\<lambda>bd. length (bds_RoleBindings (bd_Spec bd)) > 0) items))"

definition cachedBindDefinitionsWithRoleBindings :: "ns_env \<Rightarrow> string + BindDefinition list" where
  "cachedBindDefinitionsWithRoleBindings env =
     (case ne_ListIndexed env of
        Inl err \<Rightarrow>
          if \<not> isFieldIndexError err then Inl err
          else listAllCachedBindDefinitionsWithRoleBindings env
      | Inr items \<Rightarrow> Inr items)"

fun readFresh :: "ns_env \<Rightarrow> BindDefinition list \<Rightarrow> string + BindDefinition list" where
  "readFresh env [] = Inr []"
| "readFresh env (candidate # rest) =
     (case ne_GetBindDefinition env (bd_Name candidate) of
        NotFound \<Rightarrow> readFresh env rest
      | GetError err \<Rightarrow> Inl err
      | Found current \<Rightarrow>
          if length (bds_RoleBindings (bd_Spec current)) = 0 then readFresh env rest
          else (case readFresh env rest of Inl err \<Rightarrow> Inl err | Inr fresh \<Rightarrow> Inr (current # fresh)))"

definition freshBindDefinitionsWithRoleBindings :: "ns_env \<Rightarrow> string + BindDefinition list" where
  "freshBindDefinitionsWithRoleBindings env =
     (case cachedBindDefinitionsWithRoleBindings env of
        Inl err \<Rightarrow> Inl err | Inr candidates \<Rightarrow> readFresh env candidates)"

text \<open>Whatever the cache says, only definitions that were read live are used.\<close>

lemma readFresh_live:
  "readFresh env cs = Inr bds \<Longrightarrow> bd \<in> set bds \<Longrightarrow> \<exists>n. ne_GetBindDefinition env n = Found bd"
  by (induction env cs arbitrary: bds rule: readFresh.induct)
    (auto split: get_result.splits if_splits sum.splits)

lemma fresh_live:
  "freshBindDefinitionsWithRoleBindings env = Inr bds \<Longrightarrow> bd \<in> set bds \<Longrightarrow>
   \<exists>n. ne_GetBindDefinition env n = Found bd"
  by (auto simp: freshBindDefinitionsWithRoleBindings_def split: sum.splits dest: readFresh_live)

section \<open>Selectors read as ownership\<close>

definition OpIn :: string where "OpIn = ''In''"
definition OpNotIn :: string where "OpNotIn = ''NotIn''"
definition OpExists :: string where "OpExists = ''Exists''"
definition OpDoesNotExist :: string where "OpDoesNotExist = ''DoesNotExist''"

text \<open>The variables of the loop in \<^verbatim>\<open>AddonNamespaceSelectorIsScoped\<close>; the pin is \<^term>\<open>None\<close> when absent.\<close>

record addon_scan =
  as_targetsAddon :: bool
  as_explicitAddon :: bool
  as_excludesAddon :: bool
  as_addonAbsent :: bool
  as_pin :: "string option"
  as_addonExpressions :: nat
  as_validPin :: bool

definition scanExpression :: "LabelSelectorRequirement \<Rightarrow> addon_scan \<Rightarrow> addon_scan" where
  "scanExpression expr st =
     (if lsr_Key expr = LabelKeyOwner then
        (if lsr_Operator expr = OpIn then
           (if OwnerAddon \<in> set (lsr_Values expr)
            then st\<lparr>as_targetsAddon := True, as_explicitAddon := True\<rparr>
            else st\<lparr>as_excludesAddon := True\<rparr>)
         else if lsr_Operator expr = OpNotIn then
           (if OwnerAddon \<in> set (lsr_Values expr) then st\<lparr>as_excludesAddon := True\<rparr>
            else st\<lparr>as_targetsAddon := True\<rparr>)
         else if lsr_Operator expr = OpExists then st\<lparr>as_targetsAddon := True\<rparr>
         else if lsr_Operator expr = OpDoesNotExist then st\<lparr>as_excludesAddon := True\<rparr>
         else st)
      else if lsr_Key expr = LabelKeyAddon then
        let st1 = (if lsr_Operator expr = OpDoesNotExist
                   then st\<lparr>as_excludesAddon := True, as_addonAbsent := True\<rparr> else st);
            st2 = st1\<lparr>as_addonExpressions := as_addonExpressions st1 + 1\<rparr> in
        if lsr_Operator expr \<noteq> OpIn \<or> length (lsr_Values expr) \<noteq> 1 \<or> lsr_Values expr ! 0 = ''''
        then st2\<lparr>as_validPin := False\<rparr>
        else
          let st3 = (if as_pin st2 \<noteq> None \<and> as_pin st2 \<noteq> Some (lsr_Values expr ! 0)
                     then st2\<lparr>as_validPin := False\<rparr> else st2) in
          st3\<lparr>as_pin := Some (lsr_Values expr ! 0)\<rparr>
      else st)"

definition AddonNamespaceSelectorIsScoped :: "LabelSelector \<Rightarrow> bool" where
  "AddonNamespaceSelectorIsScoped selector =
     (let targets = mindex (MatchLabels selector) LabelKeyOwner = OwnerAddon;
          pin = map_of (MatchLabels selector) LabelKeyAddon;
          st = fold scanExpression (MatchExpressions selector)
            \<lparr>as_targetsAddon = targets, as_explicitAddon = targets,
             as_excludesAddon = (case map_of (MatchLabels selector) LabelKeyOwner of
                Some owner \<Rightarrow> owner \<noteq> OwnerAddon | None \<Rightarrow> False),
             as_addonAbsent = False, as_pin = pin, as_addonExpressions = 0,
             as_validPin = (pin = None \<or> pin \<noteq> Some '''')\<rparr> in
      if as_pin st \<noteq> None \<or> as_addonExpressions st > 0 then
        (if as_pin st = None \<and> as_addonExpressions st = 1 \<and> as_addonAbsent st \<and> \<not> as_explicitAddon st
         then True
         else as_pin st \<noteq> None \<and> as_validPin st \<and> as_addonExpressions st \<le> 1)
      else \<not> as_explicitAddon st \<and> (\<not> as_targetsAddon st \<or> as_excludesAddon st))"

definition getLabelsFromNamespaceSelector :: "LabelSelector \<Rightarrow> labels" where
  "getLabelsFromNamespaceSelector selector =
     fold (\<lambda>expr ls.
       if lsr_Key expr \<in> set trackedOwnershipKeys \<and> lsr_Operator expr = OpIn \<and> length (lsr_Values expr) = 1
       then mput (lsr_Key expr) (lsr_Values expr ! 0) ls else ls)
       (MatchExpressions selector)
       (fold (\<lambda>(key, value) ls. if key \<in> set trackedOwnershipKeys then mput key value ls else ls)
          (MatchLabels selector) [])"

text \<open>One of the three blocks that complete the owner label from an identity label.\<close>

definition completeOwner :: "string \<Rightarrow> string \<Rightarrow> labels \<Rightarrow> labels option" where
  "completeOwner key owner ls =
     (case map_of ls key of
        Some identity \<Rightarrow>
          if identity \<noteq> '''' then
            (if map_of ls LabelKeyOwner \<noteq> None \<and> map_of ls LabelKeyOwner \<noteq> Some owner then None
             else Some (mput LabelKeyOwner owner ls))
          else Some ls
      | None \<Rightarrow> Some ls)"

definition getCompleteTrackedLabelsFromNamespaceSelector :: "LabelSelector \<Rightarrow> labels" where
  "getCompleteTrackedLabelsFromNamespaceSelector selector =
     (if \<not> AddonNamespaceSelectorIsScoped selector then []
      else
        let ls = getLabelsFromNamespaceSelector selector in
        if length ls = 0 then []
        else
          (case completeOwner LabelKeyTenant OwnerTenant ls of
             None \<Rightarrow> []
           | Some ls1 \<Rightarrow>
          (case completeOwner LabelKeyThirdParty OwnerThirdParty ls1 of
             None \<Rightarrow> []
           | Some ls2 \<Rightarrow>
          (case completeOwner LabelKeyAddon OwnerAddon ls2 of
             None \<Rightarrow> []
           | Some ls3 \<Rightarrow> if \<not> ValidTrackedOwnershipLabels ls3 then [] else ls3))))"

definition addonSelectorAuthorizesNamespace :: "Namespace \<Rightarrow> LabelSelector \<Rightarrow> bool" where
  "addonSelectorAuthorizesNamespace ns selector =
     (if \<not> AddonNamespaceSelectorIsScoped selector then False
      else if mindex (ns_Labels ns) LabelKeyOwner = OwnerAddon \<or> mindex (ns_Labels ns) LabelKeyAddon \<noteq> ''''
      then mindex (getCompleteTrackedLabelsFromNamespaceSelector selector) LabelKeyAddon \<noteq> ''''
      else True)"

definition namespaceMatchesSelector :: "selector_api \<Rightarrow> Namespace \<Rightarrow> LabelSelector \<Rightarrow> string + bool" where
  "namespaceMatchesSelector asSelector ns selector =
     (if \<not> addonSelectorAuthorizesNamespace ns selector then Inr False
      else (case asSelector selector of Inl err \<Rightarrow> Inl err | Inr sel \<Rightarrow> Inr (sel (ns_Labels ns))))"

definition hasExactTrackedLabels :: "labels \<Rightarrow> labels \<Rightarrow> bool" where
  "hasExactTrackedLabels namespaceLabels expected =
     list_all (\<lambda>key. map_of namespaceLabels key = map_of expected key) trackedOwnershipKeys"

definition namespaceMatchesSelectorForAdmissionOperation ::
  "selector_api \<Rightarrow> string \<Rightarrow> Namespace \<Rightarrow> LabelSelector \<Rightarrow> string + bool" where
  "namespaceMatchesSelectorForAdmissionOperation asSelector operation ns selector =
     (if \<not> addonSelectorAuthorizesNamespace ns selector then Inr False
      else if operation \<noteq> Create then namespaceMatchesSelector asSelector ns selector
      else
        (case asSelector selector of
           Inl err \<Rightarrow> Inl err
         | Inr labelSelector \<Rightarrow>
             let expectedTrackedLabels = getCompleteTrackedLabelsFromNamespaceSelector selector in
             if length expectedTrackedLabels > 0 \<and>
                \<not> hasExactTrackedLabels (ns_Labels ns) expectedTrackedLabels then Inr False
             else
               let synthetic = mcopy [] expectedTrackedLabels;
                   synthetic1 = (case map_of (ns_Labels ns) LabelKeyProtected of
                     Some protected \<Rightarrow> mput LabelKeyProtected protected synthetic | None \<Rightarrow> synthetic);
                   synthetic2 = mput LabelMetadataName (ns_Name ns) synthetic1 in
               Inr (labelSelector synthetic2)))"

lemma mwf_fold: "(\<And>x m. mwf m \<Longrightarrow> mwf (f x m)) \<Longrightarrow> mwf m \<Longrightarrow> mwf (fold f xs m)"
  by (induction xs arbitrary: m) auto

lemma completeOwner_wf: "mwf ls \<Longrightarrow> completeOwner k own ls = Some ls' \<Longrightarrow> mwf ls'"
  by (auto simp: completeOwner_def split: option.splits if_splits)

lemma getLabels_wf: "mwf (getLabelsFromNamespaceSelector selector)"
  unfolding getLabelsFromNamespaceSelector_def
  by (intro mwf_fold) (auto split: prod.splits)

lemma complete_wf: "mwf (getCompleteTrackedLabelsFromNamespaceSelector selector)"
  using getLabels_wf [of selector]
  by (auto simp: getCompleteTrackedLabelsFromNamespaceSelector_def Let_def
      split: option.splits) (meson completeOwner_wf)

text \<open>The labels a selector stands for are coherent ownership labels.\<close>

lemma complete_valid:
  "ValidTrackedOwnershipLabels (getCompleteTrackedLabelsFromNamespaceSelector selector)"
proof -
  have "ValidTrackedOwnershipLabels []" by (simp add: ValidTracked_iff ownership_ok_def)
  then show ?thesis
    by (auto simp: getCompleteTrackedLabelsFromNamespaceSelector_def Let_def split: option.splits)
qed

lemma hasExact_iff: "hasExactTrackedLabels ls expected \<longleftrightarrow>
    (\<forall>k \<in> set trackedOwnershipKeys. map_of ls k = map_of expected k)"
  by (simp add: hasExactTrackedLabels_def list_all_iff)

end
