(* ===== verification/Namespace_Admission.thy ===== *)
theory Namespace_Admission
  imports Namespace_Labels
begin

text \<open>
  The two namespace webhooks (\<^verbatim>\<open>internal/webhook/authorization/namespace_validating_webhook.go\<close>,
  \<^verbatim>\<open>namespace_deletion_protection.go\<close>, \<^verbatim>\<open>namespace_mutating_webhook.go\<close>), the admission of a request by
  both, and the runs of admitted requests over the namespaces of a cluster. Logging and metrics are
  left out.
\<close>

section \<open>Requests and responses\<close>

text \<open>What the decoder makes of a raw object of the request: absent, undecodable, or a namespace.\<close>

datatype raw_object = NoObject | Undecodable | ObjectRaw Namespace

record admission_request =
  req_Kind :: string
  req_Operation :: string
  req_Name :: string
  req_Username :: string
  req_Groups :: "string list"
  req_Object :: raw_object
  req_OldObject :: raw_object

text \<open>\<open>Patched\<close> is an allowed response whose patch turns the submitted object into the given one.\<close>

datatype response = Allowed msg | Denied msg | Errored nat msg | Patched Namespace

record NamespaceValidator =
  nv_TDGMigration :: bool
  nv_DisableCAPIOperatorUpdateBypass :: bool
  nv_DeletionProtection :: bool
  nv_ExtraProtectedNamespaces :: "string list"

record NamespaceMutator =
  nm_TDGMigration :: bool
  nm_DisableCAPIOperatorUpdateBypass :: bool

definition decodeRaw :: "raw_object \<Rightarrow> Namespace option" where
  "decodeRaw raw = (case raw of ObjectRaw ns \<Rightarrow> Some ns | _ \<Rightarrow> None)"

definition zeroNamespace :: Namespace where
  "zeroNamespace = \<lparr>ns_Name = '''', ns_Labels = [], ns_Annotations = [], ns_Phase = ''''\<rparr>"

definition badRequest :: response where
  "badRequest = Errored 400 [Lit ''unable to decode namespace request'']"

definition internalError :: response where
  "internalError = Errored 500 [Lit ''internal namespace admission error'']"

definition decodeNamespaces :: "admission_request \<Rightarrow> response + Namespace \<times> Namespace" where
  "decodeNamespaces req =
     (if req_Operation req = Create then
        (case decodeRaw (req_Object req) of
           None \<Rightarrow> Inl badRequest | Some ns \<Rightarrow> Inr (ns, zeroNamespace))
      else if req_Operation req = Update then
        (case decodeRaw (req_Object req) of
           None \<Rightarrow> Inl badRequest
         | Some ns \<Rightarrow>
             (case decodeRaw (req_OldObject req) of
                None \<Rightarrow> Inl badRequest | Some oldNs \<Rightarrow> Inr (ns, oldNs)))
      else if req_Operation req = DeleteOp then
        (case decodeRaw (if req_OldObject req \<noteq> NoObject then req_OldObject req else req_Object req) of
           None \<Rightarrow> Inl badRequest | Some ns \<Rightarrow> Inr (ns, zeroNamespace))
      else Inl (Allowed []))"

section \<open>Deletion protection\<close>

definition hardProtectedNamespaces :: "string list" where
  "hardProtectedNamespaces = [''kube-system'', ''kube-public'', ''kube-node-lease'', ''default'']"

definition isHardProtectedNamespace :: "string \<Rightarrow> string list \<Rightarrow> bool" where
  "isHardProtectedNamespace name extra \<longleftrightarrow> name \<in> set hardProtectedNamespaces \<or> name \<in> set extra"

definition isDeletionProtected :: "bool \<Rightarrow> Namespace \<Rightarrow> bool" where
  "isDeletionProtected tdgMigration ns =
     (if mindex (ns_Labels ns) LabelKeyOwner = OwnerPlatform then True
      else if tdgMigration \<and> (mindex (ns_Labels ns) legacyOwnerLabel = OwnerPlatform \<or>
                mindex (ns_Labels ns) legacyOwnerLabel = ''schiff'') then True
      else mindex (ns_Labels ns) LabelKeyDeletionProtection = DeletionProtectionEnabled)"

definition allowsDeletion :: "Namespace \<Rightarrow> bool" where
  "allowsDeletion ns \<longleftrightarrow> mindex (ns_Annotations ns) AnnotationKeyAllowDeletion = AllowDeletionTrue"

definition checkDeletionProtection :: "NamespaceValidator \<Rightarrow> admission_request \<Rightarrow> response option" where
  "checkDeletionProtection v req =
     (if isHardProtectedNamespace (req_Name req) (nv_ExtraProtectedNamespaces v)
      then Some (Denied [Lit ''Namespace '', Lit (req_Name req),
             Lit '' is a protected system namespace and cannot be deleted''])
      else
        (case decodeNamespaces req of
           Inl errResp \<Rightarrow> Some errResp
         | Inr (ns, oldNs) \<Rightarrow>
             if \<not> isDeletionProtected (nv_TDGMigration v) ns then None
             else if allowsDeletion ns then None
             else Some (Denied [Lit ''Namespace '', Lit (req_Name req),
                    Lit '' is deletion-protected; annotate it with '', Lit AnnotationKeyAllowDeletion,
                    Lit ''=\"true\" and retry to confirm deletion''])))"

definition checkProtectionDowngrade :: "NamespaceValidator \<Rightarrow> admission_request \<Rightarrow> response option" where
  "checkProtectionDowngrade v req =
     (case decodeNamespaces req of
        Inl errResp \<Rightarrow> Some errResp
      | Inr (ns, oldNs) \<Rightarrow>
          if \<not> isDeletionProtected (nv_TDGMigration v) oldNs \<or> isDeletionProtected (nv_TDGMigration v) ns
          then None
          else if allowsDeletion ns then None
          else Some (Denied [Lit ''Namespace '', Lit (req_Name req),
                 Lit '' is deletion-protected; removing protection labels requires the '',
                 Lit AnnotationKeyAllowDeletion, Lit ''=\"true\" annotation'']))"

section \<open>The validating webhook\<close>

definition detectOwnerReclassification ::
  "NamespaceValidator \<Rightarrow> Namespace \<Rightarrow> Namespace \<Rightarrow> BypassCheckResult \<Rightarrow> bool" where
  "detectOwnerReclassification v ns oldNs bypassResult =
     (if \<not> nv_TDGMigration v \<or> \<not> bcr_AllowProtectedLabelChanges bypassResult then False
      else
        let oldOwner = mindex (ns_Labels oldNs) LabelKeyOwner;
            newOwner = mindex (ns_Labels ns) LabelKeyOwner;
            nonPlatformOwners = [OwnerTenant, OwnerThirdParty, OwnerAddon] in
        if oldOwner = newOwner then False
        else if oldOwner \<notin> set nonPlatformOwners \<or> newOwner \<notin> set nonPlatformOwners then False
        else True)"

definition denyLabel :: "string \<Rightarrow> response" where
  "denyLabel key = Denied [Lit ''Modification of label '', Lit [CHR 0x27], Lit key, Lit [CHR 0x27],
     Lit '' is not allowed'']"

fun immutabilityLoop ::
  "labels \<Rightarrow> labels \<Rightarrow> bool \<Rightarrow> BypassCheckResult \<Rightarrow> string list \<Rightarrow> response option" where
  "immutabilityLoop newLabels oldLabels ownerReclassification bypassResult [] = None"
| "immutabilityLoop newLabels oldLabels ownerReclassification bypassResult (key # keys) =
     (let rest = immutabilityLoop newLabels oldLabels ownerReclassification bypassResult keys;
          denied = Some (denyLabel key) in
      if map_of oldLabels key = None \<and> map_of newLabels key \<noteq> None then
        (if \<not> bcr_AllowProtectedLabelChanges bypassResult then denied else rest)
      else if ownerReclassification \<and> key \<in> set trackedOwnershipKeys then rest
      else if bcr_AllowProtectedLabelChanges bypassResult \<and> key = legacyOwnerLabel \<and>
              map_of oldLabels key \<noteq> None \<and> map_of newLabels key = None \<and>
              map_of newLabels LabelKeyOwner \<noteq> None then rest
      else if map_of oldLabels key \<noteq> None \<and> map_of newLabels key \<noteq> map_of oldLabels key then denied
      else rest)"

definition validateLabelImmutability ::
  "NamespaceValidator \<Rightarrow> Namespace \<Rightarrow> Namespace \<Rightarrow> BypassCheckResult \<Rightarrow> response option" where
  "validateLabelImmutability v ns oldNs bypassResult =
     (let labelKeys = [LabelKeyOwner, LabelKeyTenant, LabelKeyThirdParty, LabelKeyAddon, LabelKeyProtected] @
            (if nv_TDGMigration v then [legacyOwnerLabel] else []) in
      immutabilityLoop (ns_Labels ns) (ns_Labels oldNs)
        (detectOwnerReclassification v ns oldNs bypassResult) bypassResult labelKeys)"

definition crossValidateLegacyLabels ::
  "NamespaceValidator \<Rightarrow> Namespace \<Rightarrow> Namespace \<Rightarrow> response option" where
  "crossValidateLegacyLabels v ns oldNs =
     (if \<not> nv_TDGMigration v then None
      else
        let legacyOwner = mindex (ns_Labels oldNs) legacyOwnerLabel;
            newOwner = mindex (ns_Labels ns) LabelKeyOwner in
        if legacyOwner = '''' \<or> map_of (ns_Labels ns) LabelKeyOwner = None \<or>
           map_of (ns_Labels oldNs) LabelKeyOwner \<noteq> None then None
        else
          let isLegacyPlatform = (legacyOwner = ''platform'' \<or> legacyOwner = ''schiff'');
              isNewPlatform = (newOwner = OwnerPlatform) in
          if isLegacyPlatform \<and> \<not> isNewPlatform
          then Some (Denied [Lit ''Legacy platform namespace ('', Lit legacyOwnerLabel, Lit ''='', Lit legacyOwner,
                 Lit '') cannot be adopted as '', Lit [CHR 0x27], Lit newOwner, Lit [CHR 0x27]])
          else if \<not> isLegacyPlatform \<and> isNewPlatform
          then Some (Denied [Lit ''Legacy non-platform namespace ('', Lit legacyOwnerLabel, Lit ''='',
                 Lit legacyOwner, Lit '') cannot be adopted as '', Lit [CHR 0x27], Lit ''platform'', Lit [CHR 0x27]])
          else None)"

definition invalidLabels :: "string \<Rightarrow> response" where
  "invalidLabels name = Denied [Lit ''Namespace '', Lit name, Lit '' has invalid tracked ownership labels'']"

text \<open>The three nested loops of \<^verbatim>\<open>authorizeViaBindDefinitions\<close>: an error, or whether access was found.\<close>

fun anySelector :: "selector_api \<Rightarrow> string \<Rightarrow> Namespace \<Rightarrow> LabelSelector list \<Rightarrow> string + bool" where
  "anySelector asSelector operation ns [] = Inr False"
| "anySelector asSelector operation ns (selector # selectors) =
     (case namespaceMatchesSelectorForAdmissionOperation asSelector operation ns selector of
        Inl err \<Rightarrow> Inl err
      | Inr True \<Rightarrow> Inr True
      | Inr False \<Rightarrow> anySelector asSelector operation ns selectors)"

fun anyBinding ::
  "selector_api \<Rightarrow> string \<Rightarrow> string \<Rightarrow> Namespace \<Rightarrow> NamespaceBinding list \<Rightarrow> string + bool" where
  "anyBinding asSelector operation name ns [] = Inr False"
| "anyBinding asSelector operation name ns (roleBinding # rest) =
     (if nb_Namespace roleBinding \<noteq> '''' then
        (if nb_Namespace roleBinding = name then Inr True
         else anyBinding asSelector operation name ns rest)
      else
        (case anySelector asSelector operation ns (nb_NamespaceSelector roleBinding) of
           Inl err \<Rightarrow> Inl err
         | Inr True \<Rightarrow> Inr True
         | Inr False \<Rightarrow> anyBinding asSelector operation name ns rest))"

fun anyDefinition ::
  "selector_api \<Rightarrow> admission_request \<Rightarrow> ServiceAccountInfo \<Rightarrow> Namespace \<Rightarrow> BindDefinition list
    \<Rightarrow> string + bool" where
  "anyDefinition asSelector req saInfo ns [] = Inr False"
| "anyDefinition asSelector req saInfo ns (bindDef # rest) =
     (if IsRestrictedBindDefinition (bd_Name bindDef) then anyDefinition asSelector req saInfo ns rest
      else if \<not> MatchesSubjects (req_Username req) (req_Groups req) saInfo (bds_Subjects (bd_Spec bindDef))
      then anyDefinition asSelector req saInfo ns rest
      else
        (case anyBinding asSelector (req_Operation req) (req_Name req) ns (bds_RoleBindings (bd_Spec bindDef)) of
           Inl err \<Rightarrow> Inl err
         | Inr True \<Rightarrow> Inr True
         | Inr False \<Rightarrow> anyDefinition asSelector req saInfo ns rest))"

definition authorizeViaBindDefinitions ::
  "ns_env \<Rightarrow> admission_request \<Rightarrow> Namespace \<Rightarrow> response" where
  "authorizeViaBindDefinitions env req ns =
     (let saInfo = ParseServiceAccount (req_Username req);
          notOwner = Denied [Lit ''User '', Lit (req_Username req), Lit '' is not the owner of namespace '',
            Lit (ns_Name ns)] in
      if \<not> ValidTrackedOwnershipLabels (ns_Labels ns) then invalidLabels (ns_Name ns)
      else
        (case freshBindDefinitionsWithRoleBindings env of
           Inl err \<Rightarrow> internalError
         | Inr bindDefinitions \<Rightarrow>
             (case anyDefinition (ne_asSelector env) req saInfo ns bindDefinitions of
                Inl err \<Rightarrow> internalError
              | Inr True \<Rightarrow> Allowed []
              | Inr False \<Rightarrow>
                  if sai_IsServiceAccount saInfo \<and> (req_Operation req = Create \<or> req_Operation req = Update)
                  then
                    (case GetSANamespaceTrackedLabels (ne_GetNamespace env) saInfo of
                       Inl saErr \<Rightarrow> internalError
                     | Inr inheritedLabels \<Rightarrow>
                         if length inheritedLabels > 0 \<and>
                            list_all (\<lambda>(k, val). map_of (ns_Labels ns) k = Some val) inheritedLabels \<and>
                            FindExtraTrackedKey (ns_Labels ns) inheritedLabels = ''''
                         then Allowed [] else notOwner)
                  else notOwner)))"

definition validatorHandle :: "NamespaceValidator \<Rightarrow> ns_env \<Rightarrow> admission_request \<Rightarrow> response" where
  "validatorHandle v env req =
     (if req_Kind req \<noteq> ''Namespace'' then Allowed []
      else
        let protection = (if \<not> nv_DeletionProtection v then None
              else if req_Operation req = DeleteOp then checkDeletionProtection v req
              else if req_Operation req = Update then checkProtectionDowngrade v req
              else None);
            bypassResult = CheckBypass (req_Username req) (req_Groups req) (req_Operation req) (req_Name req)
              (nv_TDGMigration v) (\<not> nv_DisableCAPIOperatorUpdateBypass v) in
        case protection of
          Some resp \<Rightarrow> resp
        | None \<Rightarrow>
            if bcr_ShouldBypass bypassResult \<and> req_Operation req \<noteq> Update then Allowed []
            else
              (case decodeNamespaces req of
                 Inl errResp \<Rightarrow> errResp
               | Inr (ns, oldNs) \<Rightarrow>
                   let labelCheck =
                     (if req_Operation req = Update \<and> \<not> bcr_SkipUpdateLabelChecks bypassResult then
                        (case validateLabelImmutability v ns oldNs bypassResult of
                           Some resp \<Rightarrow> Some resp
                         | None \<Rightarrow>
                             (case crossValidateLegacyLabels v ns oldNs of
                                Some resp \<Rightarrow> Some resp
                              | None \<Rightarrow>
                                  if \<not> ValidTrackedOwnershipLabels (ns_Labels ns)
                                  then Some (invalidLabels (ns_Name ns)) else None))
                      else None) in
                   case labelCheck of
                     Some resp \<Rightarrow> resp
                   | None \<Rightarrow>
                       if bcr_ShouldBypass bypassResult then Allowed []
                       else authorizeViaBindDefinitions env req
                              (if req_Operation req = Update then oldNs else ns)))"

section \<open>The mutating webhook\<close>

definition changedOwnershipKey :: "labels \<Rightarrow> labels \<Rightarrow> string option" where
  "changedOwnershipKey oldLabels newLabels =
     find (\<lambda>key. map_of oldLabels key \<noteq> map_of newLabels key) trackedOwnershipKeys"

definition unchangedUpdateNamespace ::
  "admission_request \<Rightarrow> Namespace \<Rightarrow> response + Namespace option" where
  "unchangedUpdateNamespace req ns =
     (if req_Operation req \<noteq> Update \<or> req_OldObject req = NoObject then Inr None
      else
        (case decodeRaw (req_OldObject req) of
           None \<Rightarrow> Inl (Errored 400 [Lit ''unable to decode previous namespace request''])
         | Some oldNS \<Rightarrow>
             (case changedOwnershipKey (ns_Labels oldNS) (ns_Labels ns) of
                Some key \<Rightarrow> Inl (denyLabel key)
              | None \<Rightarrow>
                  if \<not> ValidTrackedOwnershipLabels (ns_Labels ns) then Inl (invalidLabels (ns_Name ns))
                  else Inr (Some oldNS))))"

definition denyConflictingInheritedLabels ::
  "admission_request \<Rightarrow> Namespace \<Rightarrow> labels \<Rightarrow> ServiceAccountInfo \<Rightarrow> response option" where
  "denyConflictingInheritedLabels req ns inherited saInfo =
     (case find (\<lambda>(k, inheritedVal). map_of (ns_Labels ns) k \<noteq> None \<and>
                   map_of (ns_Labels ns) k \<noteq> Some inheritedVal) inherited of
        Some (k, inheritedVal) \<Rightarrow>
          Some (Denied [Lit ''Namespace '', Lit (req_Name req), Lit '' already has label '', Lit k, Lit ''='',
            Lit (mindex (ns_Labels ns) k), Lit '' which conflicts with inherited value '', Lit inheritedVal,
            Lit '' from SA namespace '', Lit (sai_Namespace saInfo)])
      | None \<Rightarrow>
          let extraKey = FindExtraTrackedKey (ns_Labels ns) inherited in
          if extraKey \<noteq> ''''
          then Some (Denied [Lit ''Namespace '', Lit (req_Name req), Lit '' has tracked label '', Lit extraKey,
                 Lit '' not present on SA source namespace '', Lit (sai_Namespace saInfo)])
          else None)"

definition inheritServiceAccountNamespaceLabels ::
  "ns_env \<Rightarrow> admission_request \<Rightarrow> Namespace \<Rightarrow> labels \<Rightarrow> ServiceAccountInfo \<Rightarrow> response + labels" where
  "inheritServiceAccountNamespaceLabels env req ns labelsToAdd saInfo =
     (if length labelsToAdd > 0 \<or> \<not> sai_IsServiceAccount saInfo then Inr labelsToAdd
      else
        (case GetSANamespaceTrackedLabels (ne_GetNamespace env) saInfo of
           Inl err \<Rightarrow> Inl internalError
         | Inr inherited \<Rightarrow>
             if length inherited = 0 then Inr labelsToAdd
             else
               (case denyConflictingInheritedLabels req ns inherited saInfo of
                  Some resp \<Rightarrow> Inl resp | None \<Rightarrow> Inr inherited)))"

definition getTrackedLabelsForNamespaceCreation ::
  "selector_api \<Rightarrow> Namespace \<Rightarrow> LabelSelector \<Rightarrow> string + labels" where
  "getTrackedLabelsForNamespaceCreation asSelector ns selector =
     (let derived = getCompleteTrackedLabelsFromNamespaceSelector selector in
      if length derived = 0 then Inr derived
      else
        let candidate = ns\<lparr>ns_Labels := fold (\<lambda>(key, value) ls.
              if map_of ls key = None then mput key value ls else ls) derived (ns_Labels ns)\<rparr> in
        case namespaceMatchesSelectorForAdmissionOperation asSelector Create candidate selector of
          Inl err \<Rightarrow> Inl err
        | Inr matches \<Rightarrow> if \<not> matches then Inr [] else Inr derived)"

datatype collect_error = AmbiguousNamespaceOwnership | CollectError string

text \<open>The loops of \<^verbatim>\<open>collectBindDefinitionLabels\<close>, with the collected labels and the match flag as state.\<close>

fun collectSelectors ::
  "selector_api \<Rightarrow> Namespace \<Rightarrow> Namespace option \<Rightarrow> LabelSelector list \<Rightarrow> labels \<times> bool
    \<Rightarrow> collect_error + labels \<times> bool" where
  "collectSelectors asSelector ns unchanged [] st = Inr st"
| "collectSelectors asSelector ns unchanged (selector # rest) (labelsToAdd, matched) =
     (case unchanged of
        Some oldNs \<Rightarrow>
          (case namespaceMatchesSelector asSelector oldNs selector of
             Inl err \<Rightarrow> Inl (CollectError err)
           | Inr matches \<Rightarrow>
               if \<not> matches then collectSelectors asSelector ns unchanged rest (labelsToAdd, matched)
               else collectSelectors asSelector ns unchanged rest
                      (mcopy labelsToAdd (getCompleteTrackedLabelsFromNamespaceSelector selector), True))
      | None \<Rightarrow>
          (case getTrackedLabelsForNamespaceCreation asSelector ns selector of
             Inl err \<Rightarrow> Inl (CollectError err)
           | Inr ls \<Rightarrow>
               if length ls > 0 \<and> length labelsToAdd > 0 \<and> \<not> mapsEqual labelsToAdd ls
               then Inl AmbiguousNamespaceOwnership
               else collectSelectors asSelector ns unchanged rest (mcopy labelsToAdd ls, matched)))"

fun collectBindings ::
  "selector_api \<Rightarrow> Namespace \<Rightarrow> Namespace option \<Rightarrow> NamespaceBinding list \<Rightarrow> labels \<times> bool
    \<Rightarrow> collect_error + labels \<times> bool" where
  "collectBindings asSelector ns unchanged [] st = Inr st"
| "collectBindings asSelector ns unchanged (roleBinding # rest) (labelsToAdd, matched) =
     (if nb_Namespace roleBinding \<noteq> '''' then
        collectBindings asSelector ns unchanged rest
          (labelsToAdd, matched \<or> nb_Namespace roleBinding = ns_Name ns)
      else
        (case collectSelectors asSelector ns unchanged (nb_NamespaceSelector roleBinding) (labelsToAdd, matched) of
           Inl err \<Rightarrow> Inl err
         | Inr st \<Rightarrow> collectBindings asSelector ns unchanged rest st))"

fun collectDefinitions ::
  "selector_api \<Rightarrow> Namespace \<Rightarrow> string \<Rightarrow> string list \<Rightarrow> ServiceAccountInfo \<Rightarrow> Namespace option
    \<Rightarrow> BindDefinition list \<Rightarrow> labels \<times> bool \<Rightarrow> collect_error + labels \<times> bool" where
  "collectDefinitions asSelector ns username groups saInfo unchanged [] st = Inr st"
| "collectDefinitions asSelector ns username groups saInfo unchanged (bindDef # rest) st =
     (if IsRestrictedBindDefinition (bd_Name bindDef) \<or>
         \<not> MatchesSubjects username groups saInfo (bds_Subjects (bd_Spec bindDef))
      then collectDefinitions asSelector ns username groups saInfo unchanged rest st
      else
        (case collectBindings asSelector ns unchanged (bds_RoleBindings (bd_Spec bindDef)) st of
           Inl err \<Rightarrow> Inl err
         | Inr st' \<Rightarrow> collectDefinitions asSelector ns username groups saInfo unchanged rest st'))"

definition collectBindDefinitionLabels ::
  "ns_env \<Rightarrow> Namespace \<Rightarrow> string \<Rightarrow> string list \<Rightarrow> ServiceAccountInfo \<Rightarrow> Namespace option
    \<Rightarrow> collect_error + labels \<times> bool" where
  "collectBindDefinitionLabels env ns username groups saInfo unchanged =
     (case freshBindDefinitionsWithRoleBindings env of
        Inl err \<Rightarrow> Inl (CollectError err)
      | Inr bindDefinitions \<Rightarrow>
          collectDefinitions (ne_asSelector env) ns username groups saInfo unchanged bindDefinitions ([], False))"

definition applyLabelPatch :: "Namespace \<Rightarrow> labels \<Rightarrow> response" where
  "applyLabelPatch ns labelsToAdd =
     Patched (ns\<lparr>ns_Labels := fold (\<lambda>(k, v) ls. if map_of ls k = None then mput k v ls else ls)
       labelsToAdd (ns_Labels ns)\<rparr>)"

definition mutatorHandle :: "NamespaceMutator \<Rightarrow> ns_env \<Rightarrow> admission_request \<Rightarrow> response" where
  "mutatorHandle m env req =
     (if req_Operation req \<noteq> Create \<and> req_Operation req \<noteq> Update
      then Allowed [Lit ''Operation is neither CREATE nor UPDATE'']
      else if bcr_ShouldBypass (CheckBypass (req_Username req) (req_Groups req) (req_Operation req)
                (req_Name req) (nm_TDGMigration m) (\<not> nm_DisableCAPIOperatorUpdateBypass m))
      then Allowed []
      else
        (case decodeRaw (req_Object req) of
           None \<Rightarrow> badRequest
         | Some ns \<Rightarrow>
             let saInfo = ParseServiceAccount (req_Username req) in
             case unchangedUpdateNamespace req ns of
               Inl decodeResponse \<Rightarrow> decodeResponse
             | Inr unchangedNamespace \<Rightarrow>
                 (case collectBindDefinitionLabels env ns (req_Username req) (req_Groups req) saInfo
                         unchangedNamespace of
                    Inl AmbiguousNamespaceOwnership \<Rightarrow>
                      Denied [Lit ''namespace ownership is ambiguous across matching BindDefinition selectors; supply explicit ownership labels'']
                  | Inl (CollectError err) \<Rightarrow> internalError
                  | Inr (labelsToAdd0, namespaceBindingMatched) \<Rightarrow>
                      if namespaceBindingMatched \<and> unchangedNamespace \<noteq> None
                      then Allowed [Lit ''Namespace binding matched unchanged ownership'']
                      else
                        (case inheritServiceAccountNamespaceLabels env req ns labelsToAdd0 saInfo of
                           Inl response \<Rightarrow> response
                         | Inr labelsToAdd \<Rightarrow>
                             if length labelsToAdd > 0 then
                               (if \<not> ValidTrackedOwnershipLabels (mcopy (ns_Labels ns) labelsToAdd)
                                then invalidLabels (ns_Name ns) else applyLabelPatch ns labelsToAdd)
                             else if namespaceBindingMatched then
                               (if \<not> ValidTrackedOwnershipLabels (ns_Labels ns) then invalidLabels (ns_Name ns)
                                else Allowed [Lit ''Explicit namespace binding matched''])
                             else Denied [Lit ''No matching BindDefinition subjects found for this caller and the caller is not a cluster admin. Namespace operation is not allowed.'']))))"

section \<open>What the validating webhook admits\<close>

abbreviation bypass_of :: "NamespaceValidator \<Rightarrow> admission_request \<Rightarrow> BypassCheckResult" where
  "bypass_of v req \<equiv> CheckBypass (req_Username req) (req_Groups req) (req_Operation req) (req_Name req)
     (nv_TDGMigration v) (\<not> nv_DisableCAPIOperatorUpdateBypass v)"

lemma operations_distinct [simp]: "Create \<noteq> Update" "Create \<noteq> DeleteOp" "Update \<noteq> DeleteOp"
  "Update \<noteq> Create" "DeleteOp \<noteq> Create" "DeleteOp \<noteq> Update"
  by (simp_all add: operations)

lemma skip_implies: 
  "bcr_SkipUpdateLabelChecks (CheckBypass u g op n tdg capi) \<Longrightarrow>
   bcr_ShouldBypass (CheckBypass u g op n tdg capi) \<and> bcr_AllowProtectedLabelChanges (CheckBypass u g op n tdg capi)"
  "bcr_AllowProtectedLabelChanges (CheckBypass u g op n tdg capi) \<Longrightarrow>
   bcr_ShouldBypass (CheckBypass u g op n tdg capi)"
  by (auto simp: CheckBypass_def Let_def split: if_splits)

text \<open>Only the two administrator principals skip the label checks.\<close>

lemma skip_iff_admin:
  "bcr_SkipUpdateLabelChecks (CheckBypass u g op n tdg capi) \<longleftrightarrow>
   u = ''kubernetes-admin'' \<or> ''system:masters'' \<in> set g"
  by (auto simp: CheckBypass_def Let_def hasGroup_def list_ex_iff)

lemma immutability_None:
  "immutabilityLoop n old rc b ks = None \<Longrightarrow> k \<in> set ks \<Longrightarrow>
   (map_of old k = None \<and> map_of n k \<noteq> None \<longrightarrow> bcr_AllowProtectedLabelChanges b) \<and>
   (map_of old k \<noteq> None \<and> map_of n k \<noteq> map_of old k \<longrightarrow>
      rc \<and> k \<in> set trackedOwnershipKeys \<or> bcr_AllowProtectedLabelChanges b \<and> k = legacyOwnerLabel)"
  by (induction n old rc b ks rule: immutabilityLoop.induct) (auto simp: Let_def split: if_splits)

lemma reclassification_only:
  "detectOwnerReclassification v ns oldNs b \<Longrightarrow>
   nv_TDGMigration v \<and> bcr_AllowProtectedLabelChanges b \<and> mindex (ns_Labels oldNs) LabelKeyOwner \<noteq> OwnerPlatform \<and>
   mindex (ns_Labels ns) LabelKeyOwner \<noteq> OwnerPlatform"
  by (auto simp: detectOwnerReclassification_def Let_def split: if_splits)

definition protection_of :: "NamespaceValidator \<Rightarrow> admission_request \<Rightarrow> response option" where
  "protection_of v req =
     (if \<not> nv_DeletionProtection v then None
      else if req_Operation req = DeleteOp then checkDeletionProtection v req
      else if req_Operation req = Update then checkProtectionDowngrade v req else None)"

lemma checkDeletionProtection_rejects: "checkDeletionProtection v req = Some resp \<Longrightarrow>
    req_Operation req = DeleteOp \<Longrightarrow> \<not> (\<exists>m. resp = Allowed m)"
  by (auto simp: checkDeletionProtection_def decodeNamespaces_def badRequest_def
      split: if_splits option.splits sum.splits)

lemma checkProtectionDowngrade_rejects: "checkProtectionDowngrade v req = Some resp \<Longrightarrow>
    req_Operation req = Update \<Longrightarrow> \<not> (\<exists>m. resp = Allowed m)"
  by (auto simp: checkProtectionDowngrade_def decodeNamespaces_def badRequest_def
      split: if_splits option.splits sum.splits)

text \<open>An admitted operation passed the protection checks, which ask for no privilege.\<close>

lemma admitted_protection:
  assumes "validatorHandle v env req = Allowed m" and "req_Kind req = ''Namespace''"
  shows "protection_of v req = None"
proof (rule ccontr)
  assume "protection_of v req \<noteq> None"
  then obtain resp where resp: "protection_of v req = Some resp" by blast
  then have "validatorHandle v env req = resp"
    using assms(2) by (simp add: validatorHandle_def protection_of_def Let_def)
  moreover have "\<not> (\<exists>m. resp = Allowed m)"
    using resp checkDeletionProtection_rejects checkProtectionDowngrade_rejects
    by (auto simp: protection_of_def split: if_splits)
  ultimately show False using assms(1) by blast
qed

lemma immutabilityLoop_denies: "immutabilityLoop n old rc b ks = Some resp \<Longrightarrow> \<exists>m. resp = Denied m"
  by (induction n old rc b ks rule: immutabilityLoop.induct)
    (auto simp: Let_def denyLabel_def split: if_splits)

lemma label_checks_reject:
  "validateLabelImmutability v ns oldNs b = Some resp \<Longrightarrow> \<exists>m. resp = Denied m"
  "crossValidateLegacyLabels v ns oldNs = Some resp \<Longrightarrow> \<exists>m. resp = Denied m"
  unfolding validateLabelImmutability_def Let_def
  by (erule immutabilityLoop_denies)
    (auto simp: crossValidateLegacyLabels_def Let_def split: if_splits)

text \<open>The label checks of an update, as the handler runs them, and what is left once they pass.\<close>

definition label_checks :: "NamespaceValidator \<Rightarrow> admission_request \<Rightarrow> Namespace \<Rightarrow> Namespace \<Rightarrow> bool" where
  "label_checks v req ns old \<longleftrightarrow> bcr_SkipUpdateLabelChecks (bypass_of v req) \<or>
     validateLabelImmutability v ns old (bypass_of v req) = None \<and>
     crossValidateLegacyLabels v ns old = None \<and> ValidTrackedOwnershipLabels (ns_Labels ns)"

lemma handle_update:
  assumes "req_Kind req = ''Namespace''" "req_Operation req = Update" "protection_of v req = None"
    and dec: "decodeNamespaces req = Inr (ns, old)"
  shows "validatorHandle v env req = Allowed m \<longleftrightarrow> label_checks v req ns old \<and>
     (if bcr_ShouldBypass (bypass_of v req) then m = []
      else authorizeViaBindDefinitions env req old = Allowed m)"
proof -
  have none: "(if \<not> nv_DeletionProtection v then None
      else if Update = DeleteOp then checkDeletionProtection v req
      else if Update = Update then checkProtectionDowngrade v req else None) = None"
    using assms(2, 3) by (simp add: protection_of_def split: if_splits)
  show ?thesis
    using label_checks_reject [of v ns old]
    unfolding validatorHandle_def Let_def assms(1, 2) none dec label_checks_def
    by (auto simp: invalidLabels_def assms(2) split: option.splits if_splits)
qed

lemma handle_other:
  assumes "req_Kind req = ''Namespace''" "req_Operation req \<noteq> Update" "protection_of v req = None"
    and dec: "decodeNamespaces req = Inr (ns, old)"
  shows "validatorHandle v env req =
     (if bcr_ShouldBypass (bypass_of v req) then Allowed [] else authorizeViaBindDefinitions env req ns)"
  using assms(1, 2, 3) unfolding validatorHandle_def Let_def dec
  by (simp add: protection_of_def split: if_splits)

lemma admitted_update:
  assumes "validatorHandle v env req = Allowed m" and "req_Kind req = ''Namespace''"
    and "req_Operation req = Update"
  obtains ns old where "req_Object req = ObjectRaw ns" "req_OldObject req = ObjectRaw old"
    "decodeNamespaces req = Inr (ns, old)" "protection_of v req = None" "label_checks v req ns old"
    "bcr_ShouldBypass (bypass_of v req) \<or> authorizeViaBindDefinitions env req old = Allowed m"
proof -
  have none: "protection_of v req = None" using admitted_protection [OF assms(1, 2)] .
  have "\<exists>p. decodeNamespaces req = Inr p"
  proof (rule ccontr)
    assume no: "\<not> (\<exists>p. decodeNamespaces req = Inr p)"
    then have bad: "decodeNamespaces req = Inl badRequest"
      using assms(3) by (auto simp: decodeNamespaces_def split: option.splits)
    have "validatorHandle v env req = badRequest"
      using none assms(2, 3) unfolding validatorHandle_def Let_def bad by (simp add: protection_of_def split: if_splits)
    then show False using assms(1) by (simp add: badRequest_def)
  qed
  then obtain ns old where dec: "decodeNamespaces req = Inr (ns, old)" by (metis surj_pair)
  then have "req_Object req = ObjectRaw ns" "req_OldObject req = ObjectRaw old"
    using assms(3) by (auto simp: decodeNamespaces_def decodeRaw_def split: raw_object.splits)
  then show thesis
    using that dec none assms(1) handle_update [OF assms(2, 3) none dec] by (auto split: if_splits)
qed

end
