(* ===== verification/Namespace_Runs.thy ===== *)
theory Namespace_Runs
  imports Namespace_Admission
begin

text \<open>
  Runs of namespace requests through both webhooks, as \<^verbatim>\<open>config/webhook/namespace_webhooks.yaml\<close> wires
  them (every CREATE, UPDATE and DELETE of a namespace, \<^verbatim>\<open>failurePolicy: Fail\<close>): the mutating webhook
  first, its patch applied, then the validating one. The BindDefinitions and namespaces the webhooks read
  may differ for every call. The theorems say what no run of admitted requests can do.
\<close>

section \<open>Admission of one request\<close>

datatype ns_operation = CreateNs Namespace | UpdateNs Namespace | DeleteNs string

text \<open>A request with its caller and what the two webhooks read when it arrives.\<close>

record ns_action =
  act_User :: string
  act_Groups :: "string list"
  act_Operation :: ns_operation
  act_MutatorEnv :: ns_env
  act_ValidatorEnv :: ns_env

type_synonym ns_store = "string \<Rightarrow> Namespace option"

definition request_of :: "ns_action \<Rightarrow> string \<Rightarrow> string \<Rightarrow> raw_object \<Rightarrow> raw_object \<Rightarrow> admission_request" where
  "request_of a operation name object oldObject =
     \<lparr>req_Kind = ''Namespace'', req_Operation = operation, req_Name = name, req_Username = act_User a,
      req_Groups = act_Groups a, req_Object = object, req_OldObject = oldObject\<rparr>"

lemma request_of_simps [simp]:
  "req_Kind (request_of a operation n ob old) = ''Namespace''"
  "req_Operation (request_of a operation n ob old) = operation" "req_Name (request_of a operation n ob old) = n"
  "req_Username (request_of a operation n ob old) = act_User a"
  "req_Groups (request_of a operation n ob old) = act_Groups a"
  "req_Object (request_of a operation n ob old) = ob" "req_OldObject (request_of a operation n ob old) = old"
  by (simp_all add: request_of_def)

text \<open>The object after the mutating webhook, unless it rejects.\<close>

definition mutated :: "response \<Rightarrow> Namespace \<Rightarrow> Namespace option" where
  "mutated resp ns = (case resp of Allowed m \<Rightarrow> Some ns | Patched ns' \<Rightarrow> Some ns' | _ \<Rightarrow> None)"

definition is_allowed :: "response \<Rightarrow> bool" where
  "is_allowed resp = (case resp of Allowed m \<Rightarrow> True | _ \<Rightarrow> False)"

text \<open>The object stored when a create or update is admitted.\<close>

definition admitted_object ::
  "NamespaceMutator \<Rightarrow> NamespaceValidator \<Rightarrow> ns_action \<Rightarrow> string \<Rightarrow> Namespace \<Rightarrow> raw_object \<Rightarrow> Namespace option" where
  "admitted_object m v a operation ns oldObject =
     (case mutated (mutatorHandle m (act_MutatorEnv a)
              (request_of a operation (ns_Name ns) (ObjectRaw ns) oldObject)) ns of
        None \<Rightarrow> None
      | Some ns' \<Rightarrow>
          if is_allowed (validatorHandle v (act_ValidatorEnv a)
               (request_of a operation (ns_Name ns) (ObjectRaw ns') oldObject))
          then Some ns' else None)"

definition admits_delete :: "NamespaceValidator \<Rightarrow> ns_action \<Rightarrow> Namespace \<Rightarrow> bool" where
  "admits_delete v a old \<longleftrightarrow>
     is_allowed (validatorHandle v (act_ValidatorEnv a)
       (request_of a DeleteOp (ns_Name old) NoObject (ObjectRaw old)))"

section \<open>Steps and runs\<close>

inductive ns_step :: "NamespaceMutator \<Rightarrow> NamespaceValidator \<Rightarrow> ns_store \<Rightarrow> ns_action \<Rightarrow> ns_store \<Rightarrow> bool"
  for m :: NamespaceMutator and v :: NamespaceValidator where
  step_create:
    "act_Operation a = CreateNs ns \<Longrightarrow> s (ns_Name ns) = None \<Longrightarrow>
     admitted_object m v a Create ns NoObject = Some ns' \<Longrightarrow> ns_step m v s a (s(ns_Name ns \<mapsto> ns'))"
| step_update:
    "act_Operation a = UpdateNs ns \<Longrightarrow> s (ns_Name ns) = Some old \<Longrightarrow>
     admitted_object m v a Update ns (ObjectRaw old) = Some ns' \<Longrightarrow> ns_step m v s a (s(ns_Name ns \<mapsto> ns'))"
| step_delete:
    "act_Operation a = DeleteNs n \<Longrightarrow> s n = Some old \<Longrightarrow> ns_Name old = n \<Longrightarrow> admits_delete v a old \<Longrightarrow>
     ns_step m v s a (s(n := None))"

inductive ns_run :: "NamespaceMutator \<Rightarrow> NamespaceValidator \<Rightarrow> ns_store \<Rightarrow> ns_action list \<Rightarrow> ns_store \<Rightarrow> bool"
  for m :: NamespaceMutator and v :: NamespaceValidator where
  run_nil: "ns_run m v s [] s"
| run_cons: "ns_step m v s a s' \<Longrightarrow> ns_run m v s' acts s'' \<Longrightarrow> ns_run m v s (a # acts) s''"

inductive_cases ns_stepE: "ns_step m v s a s'"
inductive_simps ns_run_Nil [simp]: "ns_run m v s [] s'"
inductive_simps ns_run_Cons: "ns_run m v s (a # acts) s'"

text \<open>
  The contract of a guard: no step takes the guarded condition away, except the actions that release it.
\<close>

locale admission_guard =
  fixes v :: NamespaceValidator
    and guarded :: "ns_store \<Rightarrow> bool"
    and releases :: "ns_action \<Rightarrow> bool"
  assumes step_guard: "ns_step m v s a s' \<Longrightarrow> guarded s \<Longrightarrow> \<not> releases a \<Longrightarrow> guarded s'"
begin

lemma run_guard:
  "ns_run m v s acts s' \<Longrightarrow> guarded s \<Longrightarrow> list_all (\<lambda>a. \<not> releases a) acts \<Longrightarrow> guarded s'"
  by (induction rule: ns_run.induct) (auto dest: step_guard)

text \<open>So a run that ends unguarded contains a releasing action.\<close>

lemma released_by:
  "ns_run m v s acts s' \<Longrightarrow> guarded s \<Longrightarrow> \<not> guarded s' \<Longrightarrow> \<exists>a \<in> set acts. releases a"
  using run_guard [of m s acts s'] by (auto simp: list_all_iff)

end

section \<open>What the mutating webhook changes\<close>

lemma add_missing_keeps:
  "map_of ls k = Some x \<Longrightarrow>
   map_of (fold (\<lambda>(k, v) ls. if map_of ls k = None then mput k v ls else ls) add ls) k = Some x"
  by (induction add arbitrary: ls) (auto split: prod.splits)

lemma add_missing_lookup:
  "mwf add \<Longrightarrow> map_of (fold (\<lambda>(k, v) ls. if map_of ls k = None then mput k v ls else ls) add ls) k =
     (case map_of ls k of Some x \<Rightarrow> Some x | None \<Rightarrow> map_of add k)"
proof (induction add arbitrary: ls)
  case Nil
  then show ?case by (simp split: option.splits)
next
  case (Cons p add)
  then have "mwf add" and "map_of add (fst p) = None"
    by (auto simp: mwf_def map_of_eq_None_iff)
  then show ?case using Cons.IH by (auto split: prod.splits option.splits)
qed

text \<open>Labels to add that are tracked and that no label of the namespace contradicts.\<close>

definition addable :: "labels \<Rightarrow> labels \<Rightarrow> bool" where
  "addable ls add \<longleftrightarrow> mwf add \<and> (\<forall>k x. map_of add k = Some x \<longrightarrow>
     k \<in> set trackedOwnershipKeys \<and> (map_of ls k = None \<or> map_of ls k = Some x))"

lemma addable_Nil [simp]: "addable ls []"
  by (simp add: addable_def)

lemma addable_mcopy: "addable ls add \<Longrightarrow> addable ls add' \<Longrightarrow> addable ls (mcopy add add')"
  by (auto simp: addable_def mcopy_lookup split: option.splits)

lemma add_missing_addable:
  "addable ls add \<Longrightarrow>
   map_of (fold (\<lambda>(k, v) ls. if map_of ls k = None then mput k v ls else ls) add ls) k = map_of (mcopy ls add) k"
  by (fastforce simp: addable_def add_missing_lookup mcopy_lookup split: option.splits)

definition tracked_only :: "labels \<Rightarrow> bool" where
  "tracked_only ls \<longleftrightarrow> (\<forall>k. map_of ls k \<noteq> None \<longrightarrow> k \<in> set trackedOwnershipKeys)"

lemma tracked_only_mput: "tracked_only ls \<Longrightarrow> k \<in> set trackedOwnershipKeys \<Longrightarrow> tracked_only (mput k v ls)"
  by (simp add: tracked_only_def)

lemma tracked_only_fold:
  "(\<And>x m. tracked_only m \<Longrightarrow> tracked_only (f x m)) \<Longrightarrow> tracked_only m \<Longrightarrow> tracked_only (fold f xs m)"
  by (induction xs arbitrary: m) auto

lemma getLabels_tracked: "tracked_only (getLabelsFromNamespaceSelector selector)"
proof -
  have "tracked_only []" by (simp add: tracked_only_def)
  then show ?thesis unfolding getLabelsFromNamespaceSelector_def
    by (intro tracked_only_fold) (auto split: prod.splits simp: tracked_only_mput)
qed

lemma completeOwner_tracked: "tracked_only ls \<Longrightarrow> completeOwner k own ls = Some ls' \<Longrightarrow> tracked_only ls'"
  by (auto simp: completeOwner_def trackedOwnershipKeys_def split: option.splits if_splits
      intro!: tracked_only_mput)

lemma complete_tracked: "tracked_only (getCompleteTrackedLabelsFromNamespaceSelector selector)"
proof -
  have "tracked_only []" by (simp add: tracked_only_def)
  then show ?thesis using getLabels_tracked [of selector]
    by (auto simp: getCompleteTrackedLabelsFromNamespaceSelector_def Let_def split: option.splits)
      (meson completeOwner_tracked)
qed

lemma creation_labels_addable:
  assumes "getTrackedLabelsForNamespaceCreation asSelector ns selector = Inr ls"
  shows "addable (ns_Labels ns) ls"
proof (cases "ls = []")
  case False
  define d where "d = getCompleteTrackedLabelsFromNamespaceSelector selector"
  define cand where "cand = fold (\<lambda>(key, value) ls. if map_of ls key = None then mput key value ls else ls)
     d (ns_Labels ns)"
  have wf: "mwf d" "tracked_only d" by (simp_all add: d_def complete_wf complete_tracked)
  have ls: "ls = d" and "namespaceMatchesSelectorForAdmissionOperation asSelector Create
      (ns\<lparr>ns_Labels := cand\<rparr>) selector = Inr True"
    using assms False
    by (auto simp: getTrackedLabelsForNamespaceCreation_def Let_def d_def cand_def split: if_splits sum.splits)
  then have "hasExactTrackedLabels cand d"
    using False by (auto simp: namespaceMatchesSelectorForAdmissionOperation_def Let_def d_def
        split: if_splits sum.splits)
  then have exact: "map_of cand k = map_of d k" if "k \<in> set trackedOwnershipKeys" for k
    using that by (simp add: hasExact_iff)
  have "map_of (ns_Labels ns) k = None \<or> map_of (ns_Labels ns) k = Some x" if "map_of d k = Some x" for k x
    using that exact [of k] wf add_missing_lookup [OF wf(1), of "ns_Labels ns" k]
    by (auto simp: cand_def tracked_only_def split: option.splits)
  then show ?thesis using wf by (auto simp: addable_def ls tracked_only_def)
qed simp

lemma collectSelectors_addable:
  "collectSelectors asSelector ns None sels st = Inr st' \<Longrightarrow> addable (ns_Labels ns) (fst st) \<Longrightarrow>
   addable (ns_Labels ns) (fst st') \<and> (snd st \<longrightarrow> snd st')"
proof (induction sels arbitrary: st)
  case (Cons selector rest)
  obtain ls b where st: "st = (ls, b)" by (cases st)
  with Cons.prems obtain add where "getTrackedLabelsForNamespaceCreation asSelector ns selector = Inr add"
    and "collectSelectors asSelector ns None rest (mcopy ls add, b) = Inr st'"
    by (auto split: sum.splits if_splits)
  then show ?case using Cons.IH Cons.prems(2) st addable_mcopy creation_labels_addable by fastforce
qed simp

lemma collectBindings_addable:
  "collectBindings asSelector ns None rbs st = Inr st' \<Longrightarrow> addable (ns_Labels ns) (fst st) \<Longrightarrow>
   addable (ns_Labels ns) (fst st')"
proof (induction rbs arbitrary: st)
  case (Cons rb rbs)
  obtain ls b where st: "st = (ls, b)" by (cases st)
  show ?case using Cons.prems Cons.IH collectSelectors_addable [of asSelector ns _ st]
    by (fastforce simp: st split: if_splits sum.splits)
qed simp

lemma collectDefinitions_addable:
  "collectDefinitions asSelector ns user groups sa None bds st = Inr st' \<Longrightarrow> addable (ns_Labels ns) (fst st) \<Longrightarrow>
   addable (ns_Labels ns) (fst st')"
  by (induction bds arbitrary: st) (auto split: if_splits sum.splits dest: collectBindings_addable)

lemma trackedLabels_wf: "mwf (trackedLabels ls)"
  unfolding trackedLabels_def by (intro mwf_fold) (auto split: option.splits)

lemma inherited_addable:
  assumes "inheritServiceAccountNamespaceLabels env req ns [] sa = Inr add"
  shows "addable (ns_Labels ns) add"
proof (cases "add = []")
  case False
  with assms have saLabels: "GetSANamespaceTrackedLabels (ne_GetNamespace env) sa = Inr add"
    and "denyConflictingInheritedLabels req ns add sa = None"
    by (auto simp: inheritServiceAccountNamespaceLabels_def split: if_splits sum.splits option.splits)
  then have noconf: "\<forall>(k, x) \<in> set add. map_of (ns_Labels ns) k = None \<or> map_of (ns_Labels ns) k = Some x"
    by (auto simp: denyConflictingInheritedLabels_def Let_def find_None_iff split: option.splits if_splits)
  obtain l where add: "add = trackedLabels l"
    using saLabels False by (auto simp: GetSANamespaceTrackedLabels_def Let_def
        split: if_splits get_result.splits)
  have "k \<in> set trackedOwnershipKeys \<and> (map_of (ns_Labels ns) k = None \<or> map_of (ns_Labels ns) k = Some x)"
    if k: "map_of add k = Some x" for k x
  proof
    show "k \<in> set trackedOwnershipKeys" using k by (simp add: add trackedLabels_lookup split: if_splits)
    show "map_of (ns_Labels ns) k = None \<or> map_of (ns_Labels ns) k = Some x"
      using map_of_SomeD [OF k] noconf by blast
  qed
  then show ?thesis by (simp add: addable_def add trackedLabels_wf)
qed simp

text \<open>On an update that changes no ownership label, collected labels come with a match.\<close>

lemma collectSelectors_matched:
  "collectSelectors asSelector ns (Some old) sels st = Inr st' \<Longrightarrow> (fst st \<noteq> [] \<Longrightarrow> snd st) \<Longrightarrow>
   fst st' \<noteq> [] \<Longrightarrow> snd st'"
proof (induction sels arbitrary: st)
  case (Cons selector rest)
  obtain ls b where st: "st = (ls, b)" by (cases st)
  show ?case using Cons.prems Cons.IH by (auto simp: st split: sum.splits if_splits)
qed simp

lemma collectBindings_matched:
  "collectBindings asSelector ns (Some old) rbs st = Inr st' \<Longrightarrow> (fst st \<noteq> [] \<Longrightarrow> snd st) \<Longrightarrow>
   fst st' \<noteq> [] \<Longrightarrow> snd st'"
proof (induction rbs arbitrary: st)
  case (Cons rb rbs)
  obtain ls b where st: "st = (ls, b)" by (cases st)
  show ?case using Cons.prems Cons.IH collectSelectors_matched [of asSelector ns old _ st]
    by (auto simp: st split: sum.splits if_splits)
qed simp

lemma collectDefinitions_matched:
  "collectDefinitions asSelector ns user groups sa (Some old) bds st = Inr st' \<Longrightarrow> (fst st \<noteq> [] \<Longrightarrow> snd st) \<Longrightarrow>
   fst st' \<noteq> [] \<Longrightarrow> snd st'"
proof (induction bds arbitrary: st)
  case (Cons bd bds)
  show ?case using Cons.prems Cons.IH collectBindings_matched [of asSelector ns old _ st]
    by (auto split: sum.splits if_splits)
qed simp

text \<open>A patched object differs from the submitted one in absent tracked labels only, and is coherent.\<close>

lemma mutator_patch:
  assumes patched: "mutatorHandle m env req = Patched ns'" and obj: "req_Object req = ObjectRaw ns"
  obtains add where "addable (ns_Labels ns) add" "add \<noteq> []"
    "ns' = ns\<lparr>ns_Labels := fold (\<lambda>(k, v) ls. if map_of ls k = None then mput k v ls else ls) add (ns_Labels ns)\<rparr>"
    "ValidTrackedOwnershipLabels (ns_Labels ns')"
proof -
  let ?sa = "ParseServiceAccount (req_Username req)"
  obtain old add0 b where old: "unchangedUpdateNamespace req ns = Inr old"
    and coll: "collectBindDefinitionLabels env ns (req_Username req) (req_Groups req) ?sa old = Inr (add0, b)"
    and notb: "\<not> (b \<and> old \<noteq> None)"
    using patched obj unfolding mutatorHandle_def Let_def decodeRaw_def
    by (auto simp: badRequest_def invalidLabels_def denyLabel_def internalError_def unchangedUpdateNamespace_def Let_def
        split: if_splits option.splits sum.splits collect_error.splits prod.splits)
  have rejects: "resp \<noteq> Patched ns'" if "inheritServiceAccountNamespaceLabels env req ns add0 ?sa = Inl resp" for resp
    using that by (auto simp: inheritServiceAccountNamespaceLabels_def denyConflictingInheritedLabels_def
        internalError_def Let_def split: if_splits sum.splits option.splits)
  obtain add where inh: "inheritServiceAccountNamespaceLabels env req ns add0 ?sa = Inr add"
    and add: "add \<noteq> []" and valid: "ValidTrackedOwnershipLabels (mcopy (ns_Labels ns) add)"
    and ns': "applyLabelPatch ns add = Patched ns'"
    using patched rejects unfolding mutatorHandle_def Let_def decodeRaw_def obj
    by (auto simp: old coll notb invalidLabels_def split: if_splits sum.splits)
  have add0: "addable (ns_Labels ns) add0"
  proof (cases old)
    case None
    then show ?thesis using coll collectDefinitions_addable [of "ne_asSelector env" ns _ _ _ _ "([], False)"]
      by (fastforce simp: collectBindDefinitionLabels_def split: sum.splits)
  next
    case (Some o')
    then show ?thesis using coll notb
        collectDefinitions_matched [of "ne_asSelector env" ns _ _ _ o' _ "([], False)"]
      by (fastforce simp: collectBindDefinitionLabels_def split: sum.splits)
  qed
  have addable: "addable (ns_Labels ns) add"
    using add0 inh inherited_addable by (cases "add0 = []") (auto simp: inheritServiceAccountNamespaceLabels_def)
  show thesis
  proof (rule that [OF addable add])
    show labels: "ns' = ns\<lparr>ns_Labels := fold (\<lambda>(k, v) ls. if map_of ls k = None then mput k v ls else ls) add
        (ns_Labels ns)\<rparr>" using ns' by (simp add: applyLabelPatch_def)
    show "ValidTrackedOwnershipLabels (ns_Labels ns')"
      using valid by (simp add: labels ValidTracked_iff ownership_ok_def owned_as_def
          add_missing_addable [OF addable])
  qed
qed

section \<open>The guards\<close>

lemma admitted_objectE:
  assumes "admitted_object m v a operation ns oldObject = Some ns'"
  obtains w where "validatorHandle v (act_ValidatorEnv a)
      (request_of a operation (ns_Name ns) (ObjectRaw ns') oldObject) = Allowed w"
    and "ns_Name ns' = ns_Name ns" and "ns_Annotations ns' = ns_Annotations ns"
proof -
  let ?req = "request_of a operation (ns_Name ns) (ObjectRaw ns) oldObject"
  have "mutated (mutatorHandle m (act_MutatorEnv a) ?req) ns = Some ns'"
    and ok: "is_allowed (validatorHandle v (act_ValidatorEnv a)
      (request_of a operation (ns_Name ns) (ObjectRaw ns') oldObject))"
    using assms by (auto simp: admitted_object_def split: option.splits if_splits)
  then have "ns' = ns \<or> mutatorHandle m (act_MutatorEnv a) ?req = Patched ns'"
    by (auto simp: mutated_def split: response.splits)
  then have "ns_Name ns' = ns_Name ns \<and> ns_Annotations ns' = ns_Annotations ns"
    by (auto elim!: mutator_patch)
  then show thesis using ok that by (auto simp: is_allowed_def split: response.splits)
qed

lemma admits_deleteE:
  assumes "admits_delete v a old"
  obtains w where "validatorHandle v (act_ValidatorEnv a)
      (request_of a DeleteOp (ns_Name old) NoObject (ObjectRaw old)) = Allowed w"
  using assms by (auto simp: admits_delete_def is_allowed_def split: response.splits)

lemma delete_guarded:
  assumes "admits_delete v a old" "nv_DeletionProtection v"
  shows "\<not> isHardProtectedNamespace (ns_Name old) (nv_ExtraProtectedNamespaces v) \<and>
    (isDeletionProtected (nv_TDGMigration v) old \<longrightarrow> allowsDeletion old)"
proof -
  obtain w where "validatorHandle v (act_ValidatorEnv a)
      (request_of a DeleteOp (ns_Name old) NoObject (ObjectRaw old)) = Allowed w"
    using assms(1) by (rule admits_deleteE)
  from admitted_protection [OF this] assms(2) show ?thesis
    by (auto simp: protection_of_def checkDeletionProtection_def decodeNamespaces_def decodeRaw_def
        split: if_splits)
qed

lemma update_guarded:
  assumes "admitted_object m v a Update ns (ObjectRaw old) = Some ns'" "nv_DeletionProtection v"
    and "isDeletionProtected (nv_TDGMigration v) old" and "\<not> allowsDeletion ns"
  shows "isDeletionProtected (nv_TDGMigration v) ns' \<and> \<not> allowsDeletion ns'"
proof -
  obtain w where w: "validatorHandle v (act_ValidatorEnv a)
      (request_of a Update (ns_Name ns) (ObjectRaw ns') (ObjectRaw old)) = Allowed w"
    and ann: "ns_Annotations ns' = ns_Annotations ns"
    using admitted_objectE [OF assms(1)] by metis
  have none: "\<not> allowsDeletion ns'" using assms(4) ann by (simp add: allowsDeletion_def)
  with admitted_protection [OF w] assms(2, 3) show ?thesis
    by (auto simp: protection_of_def checkProtectionDowngrade_def decodeNamespaces_def decodeRaw_def
        split: if_splits)
qed

text \<open>The namespace \<open>n\<close> is there, protected and not released for deletion.\<close>

definition protected_in :: "NamespaceValidator \<Rightarrow> string \<Rightarrow> ns_store \<Rightarrow> bool" where
  "protected_in v n s = (case s n of None \<Rightarrow> False
     | Some ns \<Rightarrow> isDeletionProtected (nv_TDGMigration v) ns \<and> \<not> allowsDeletion ns)"

definition confirms_deletion :: "string \<Rightarrow> ns_action \<Rightarrow> bool" where
  "confirms_deletion n a = (case act_Operation a of
     UpdateNs ns \<Rightarrow> ns_Name ns = n \<and> allowsDeletion ns | _ \<Rightarrow> False)"

lemma protected_step:
  assumes "ns_step m v s a s'" "nv_DeletionProtection v" "protected_in v n s" "\<not> confirms_deletion n a"
  shows "protected_in v n s'"
  using assms(1)
proof (rule ns_stepE)
  fix ns ns'
  assume "s' = s(ns_Name ns \<mapsto> ns')" "s (ns_Name ns) = None"
  then show ?thesis using assms(3) by (auto simp: protected_in_def split: option.splits)
next
  fix ns old ns'
  assume upd: "s' = s(ns_Name ns \<mapsto> ns')" "act_Operation a = UpdateNs ns" "s (ns_Name ns) = Some old"
    "admitted_object m v a Update ns (ObjectRaw old) = Some ns'"
  show ?thesis
  proof (cases "ns_Name ns = n")
    case True
    then show ?thesis using upd assms update_guarded [OF upd(4) assms(2)]
      by (auto simp: protected_in_def confirms_deletion_def)
  next
    case False
    then show ?thesis using upd assms(3) by (simp add: protected_in_def)
  qed
next
  fix old
  assume del: "s' = s(ns_Name old := None)" "s (ns_Name old) = Some old" "admits_delete v a old"
  then have "ns_Name old \<noteq> n" using delete_guarded [OF del(3) assms(2)] assms(3) by (auto simp: protected_in_def)
  then show ?thesis using del assms(3) by (simp add: protected_in_def)
qed

abbreviation protecting :: "NamespaceValidator \<Rightarrow> NamespaceValidator" where
  "protecting v \<equiv> v\<lparr>nv_DeletionProtection := True\<rparr>"

interpretation deletion_guard: admission_guard "protecting v" "protected_in (protecting v) n"
  "confirms_deletion n" for v n
  by unfold_locales (simp add: protected_step)

text \<open>System namespaces need no label, and nothing releases them.\<close>

lemma system_step:
  assumes "ns_step m v s a s'" "nv_DeletionProtection v"
    and "isHardProtectedNamespace n (nv_ExtraProtectedNamespaces v)" "s n \<noteq> None"
  shows "s' n \<noteq> None"
  using assms(1) by (cases rule: ns_stepE) (use assms(2-4) delete_guarded in auto)

interpretation system_guard: admission_guard "protecting v"
  "\<lambda>s. isHardProtectedNamespace n (nv_ExtraProtectedNamespaces (protecting v)) \<longrightarrow> s n \<noteq> None" "\<lambda>a. False" for v n
  by unfold_locales (use system_step in force)

section \<open>Ownership along a run\<close>

definition bypasses :: "NamespaceValidator \<Rightarrow> ns_action \<Rightarrow> string \<Rightarrow> string \<Rightarrow> BypassCheckResult" where
  "bypasses v a operation n = CheckBypass (act_User a) (act_Groups a) operation n (nv_TDGMigration v)
     (\<not> nv_DisableCAPIOperatorUpdateBypass v)"

lemma label_checks_request:
  "label_checks v (request_of a operation n ob oldOb) ns old \<longleftrightarrow>
     bcr_SkipUpdateLabelChecks (bypasses v a operation n) \<or>
     validateLabelImmutability v ns old (bypasses v a operation n) = None \<and>
     crossValidateLegacyLabels v ns old = None \<and> ValidTrackedOwnershipLabels (ns_Labels ns)"
  by (simp add: bypasses_def label_checks_def)

lemma update_checked:
  assumes "admitted_object m v a Update ns (ObjectRaw old) = Some ns'"
    and "\<not> bcr_SkipUpdateLabelChecks (bypasses v a Update (ns_Name ns))"
  shows "validateLabelImmutability v ns' old (bypasses v a Update (ns_Name ns)) = None \<and>
    crossValidateLegacyLabels v ns' old = None \<and> ValidTrackedOwnershipLabels (ns_Labels ns')"
proof -
  let ?req = "request_of a Update (ns_Name ns) (ObjectRaw ns') (ObjectRaw old)"
  obtain w where w: "validatorHandle v (act_ValidatorEnv a) ?req = Allowed w"
    using admitted_objectE [OF assms(1)] by metis
  show ?thesis
  proof (rule admitted_update [OF w])
    fix ns1 old1
    assume "req_Object ?req = ObjectRaw ns1" "req_OldObject ?req = ObjectRaw old1"
      and checks: "label_checks v ?req ns1 old1"
    then have "ns1 = ns'" "old1 = old" by simp_all
    then show ?thesis using checks assms(2) by (simp add: label_checks_request)
  qed simp_all
qed

text \<open>The labels that identify the owner of a namespace and its protection.\<close>

definition identityKeys :: "string list" where
  "identityKeys = [LabelKeyOwner, LabelKeyTenant, LabelKeyThirdParty, LabelKeyAddon, LabelKeyProtected]"

lemma immutable_keys:
  assumes "validateLabelImmutability v ns old b = None" "k \<in> set identityKeys"
  shows "\<not> bcr_AllowProtectedLabelChanges b \<Longrightarrow> map_of (ns_Labels ns) k = map_of (ns_Labels old) k"
    and "map_of (ns_Labels old) k = Some x \<Longrightarrow> \<not> detectOwnerReclassification v ns old b \<Longrightarrow>
      map_of (ns_Labels ns) k = Some x"
proof -
  let ?all = "[LabelKeyOwner, LabelKeyTenant, LabelKeyThirdParty, LabelKeyAddon, LabelKeyProtected] @
    (if nv_TDGMigration v then [legacyOwnerLabel] else [])"
  have loop: "immutabilityLoop (ns_Labels ns) (ns_Labels old) (detectOwnerReclassification v ns old b) b ?all = None"
    using assms(1) unfolding validateLabelImmutability_def Let_def .
  have "k \<in> set ?all" "k \<noteq> legacyOwnerLabel" using assms(2) by (auto simp: identityKeys_def label_keys)
  note fact = immutability_None [OF loop this(1)] this(2)
  show "\<not> bcr_AllowProtectedLabelChanges b \<Longrightarrow> map_of (ns_Labels ns) k = map_of (ns_Labels old) k"
    using fact reclassification_only [of v ns old b] by (cases "map_of (ns_Labels old) k") auto
  show "map_of (ns_Labels old) k = Some x \<Longrightarrow> \<not> detectOwnerReclassification v ns old b \<Longrightarrow>
      map_of (ns_Labels ns) k = Some x" using fact by auto
qed

definition identity_in :: "string \<Rightarrow> (string \<Rightarrow> string option) \<Rightarrow> ns_store \<Rightarrow> bool" where
  "identity_in n l s = (case s n of None \<Rightarrow> False
     | Some ns \<Rightarrow> list_all (\<lambda>k. map_of (ns_Labels ns) k = l k) identityKeys)"

definition platform_in :: "string \<Rightarrow> ns_store \<Rightarrow> bool" where
  "platform_in n s = (case s n of None \<Rightarrow> False
     | Some ns \<Rightarrow> map_of (ns_Labels ns) LabelKeyOwner = Some OwnerPlatform)"

text \<open>Who may relabel: the administrators and, during the migration, its service accounts.\<close>

definition relabels :: "NamespaceValidator \<Rightarrow> string \<Rightarrow> ns_action \<Rightarrow> bool" where
  "relabels v n a = (case act_Operation a of
     CreateNs ns \<Rightarrow> False
   | UpdateNs ns \<Rightarrow> ns_Name ns = n \<and> bcr_AllowProtectedLabelChanges (bypasses v a Update n)
   | DeleteNs k \<Rightarrow> k = n)"

definition administrator :: "ns_action \<Rightarrow> bool" where
  "administrator a \<longleftrightarrow> act_User a = ''kubernetes-admin'' \<or> ''system:masters'' \<in> set (act_Groups a)"

definition overrides :: "string \<Rightarrow> ns_action \<Rightarrow> bool" where
  "overrides n a = (case act_Operation a of
     CreateNs ns \<Rightarrow> False | UpdateNs ns \<Rightarrow> ns_Name ns = n \<and> administrator a | DeleteNs k \<Rightarrow> k = n)"

lemma skip_administrator [simp]: "bcr_SkipUpdateLabelChecks (bypasses v a operation n) \<longleftrightarrow> administrator a"
  by (simp add: bypasses_def administrator_def skip_iff_admin)

text \<open>What concerns one namespace is kept when its updates keep it and nobody deletes it.\<close>

lemma one_namespace_step:
  assumes step: "ns_step m v s a s'" and here: "s n = Some ns0" "P ns0"
    and "\<And>ns ns'. act_Operation a = UpdateNs ns \<Longrightarrow> ns_Name ns = n \<Longrightarrow>
      admitted_object m v a Update ns (ObjectRaw ns0) = Some ns' \<Longrightarrow> P ns'"
    and "act_Operation a \<noteq> DeleteNs n"
  shows "\<exists>ns'. s' n = Some ns' \<and> P ns'"
  using step by (rule ns_stepE) (use here assms(4, 5) in auto)

lemma identity_step:
  assumes "ns_step m v s a s'" "identity_in n l s" "\<not> relabels v n a"
  shows "identity_in n l s'"
proof -
  obtain ns0 where ns0: "s n = Some ns0" "list_all (\<lambda>k. map_of (ns_Labels ns0) k = l k) identityKeys"
    using assms(2) by (auto simp: identity_in_def split: option.splits)
  have "\<exists>ns'. s' n = Some ns' \<and> list_all (\<lambda>k. map_of (ns_Labels ns') k = l k) identityKeys"
  proof (rule one_namespace_step [where P = "\<lambda>ns. list_all (\<lambda>k. map_of (ns_Labels ns) k = l k) identityKeys",
        OF assms(1) ns0])
    fix ns ns'
    assume upd: "act_Operation a = UpdateNs ns" "ns_Name ns = n"
      "admitted_object m v a Update ns (ObjectRaw ns0) = Some ns'"
    then have no: "\<not> bcr_AllowProtectedLabelChanges (bypasses v a Update n)"
      using assms(3) by (simp add: relabels_def)
    then have "\<not> bcr_SkipUpdateLabelChecks (bypasses v a Update n)"
      unfolding bypasses_def using skip_implies by blast
    then have "validateLabelImmutability v ns' ns0 (bypasses v a Update n) = None"
      using update_checked [OF upd(3)] upd(2) by simp
    from immutable_keys(1) [OF this _ no] ns0(2)
    show "list_all (\<lambda>k. map_of (ns_Labels ns') k = l k) identityKeys" by (simp add: list_all_iff)
  qed (use assms(3) in \<open>auto simp: relabels_def\<close>)
  then show ?thesis by (auto simp: identity_in_def)
qed

lemma platform_step:
  assumes "ns_step m v s a s'" "platform_in n s" "\<not> overrides n a"
  shows "platform_in n s'"
proof -
  obtain ns0 where ns0: "s n = Some ns0" "map_of (ns_Labels ns0) LabelKeyOwner = Some OwnerPlatform"
    using assms(2) by (auto simp: platform_in_def split: option.splits)
  have "\<exists>ns'. s' n = Some ns' \<and> map_of (ns_Labels ns') LabelKeyOwner = Some OwnerPlatform"
  proof (rule one_namespace_step [where P = "\<lambda>ns. map_of (ns_Labels ns) LabelKeyOwner = Some OwnerPlatform",
        OF assms(1) ns0])
    fix ns ns'
    assume upd: "act_Operation a = UpdateNs ns" "ns_Name ns = n"
      "admitted_object m v a Update ns (ObjectRaw ns0) = Some ns'"
    then have "\<not> bcr_SkipUpdateLabelChecks (bypasses v a Update n)" using assms(3) by (simp add: overrides_def)
    then have "validateLabelImmutability v ns' ns0 (bypasses v a Update n) = None"
      using update_checked [OF upd(3)] upd(2) by simp
    moreover have "\<not> detectOwnerReclassification v ns' ns0 (bypasses v a Update n)"
      using reclassification_only [of v ns' ns0] ns0(2) by (auto simp: mindex_def)
    ultimately show "map_of (ns_Labels ns') LabelKeyOwner = Some OwnerPlatform"
      using immutable_keys(2) [of v ns' ns0 _ LabelKeyOwner] ns0(2) by (simp add: identityKeys_def)
  qed (use assms(3) in \<open>auto simp: overrides_def\<close>)
  then show ?thesis by (auto simp: platform_in_def)
qed

interpretation identity_guard: admission_guard v "identity_in n l" "relabels v n" for v n l
  by unfold_locales (rule identity_step)

interpretation platform_guard: admission_guard v "platform_in n" "overrides n" for v n
  by unfold_locales (rule platform_step)

text \<open>Coherent ownership everywhere; only a bypassed create or an administrator's update escapes the check.\<close>

definition coherent_in :: "ns_store \<Rightarrow> bool" where
  "coherent_in s \<longleftrightarrow> (\<forall>n ns. s n = Some ns \<longrightarrow> ownership_ok (map_of (ns_Labels ns)))"

definition label_free :: "NamespaceValidator \<Rightarrow> ns_action \<Rightarrow> bool" where
  "label_free v a = (case act_Operation a of
     CreateNs ns \<Rightarrow> bcr_ShouldBypass (bypasses v a Create (ns_Name ns))
   | UpdateNs ns \<Rightarrow> administrator a
   | DeleteNs k \<Rightarrow> False)"

lemma authorized_coherent:
  "authorizeViaBindDefinitions env req ns = Allowed w \<Longrightarrow> ValidTrackedOwnershipLabels (ns_Labels ns)"
  by (auto simp: authorizeViaBindDefinitions_def Let_def invalidLabels_def split: if_splits)

lemma create_authorized:
  assumes "admitted_object m v a Create ns NoObject = Some ns'"
    and "\<not> bcr_ShouldBypass (bypasses v a Create (ns_Name ns))"
  shows "\<exists>w. authorizeViaBindDefinitions (act_ValidatorEnv a)
    (request_of a Create (ns_Name ns) (ObjectRaw ns') NoObject) ns' = Allowed w"
proof -
  let ?req = "request_of a Create (ns_Name ns) (ObjectRaw ns') NoObject"
  obtain w where w: "validatorHandle v (act_ValidatorEnv a) ?req = Allowed w"
    using admitted_objectE [OF assms(1)] by metis
  have dec: "decodeNamespaces ?req = Inr (ns', zeroNamespace)" by (simp add: decodeNamespaces_def decodeRaw_def)
  have none: "protection_of v ?req = None" by (simp add: protection_of_def)
  from handle_other [OF _ _ none dec, of "act_ValidatorEnv a"] w assms(2)
  show ?thesis by (intro exI [of _ w]) (simp add: bypasses_def)
qed

lemma coherent_step:
  assumes "ns_step m v s a s'" "coherent_in s" "\<not> label_free v a"
  shows "coherent_in s'"
  using assms(1)
proof (rule ns_stepE)
  fix ns ns'
  assume new: "s' = s(ns_Name ns \<mapsto> ns')" "act_Operation a = CreateNs ns"
    "admitted_object m v a Create ns NoObject = Some ns'"
  then have "ValidTrackedOwnershipLabels (ns_Labels ns')"
    using create_authorized authorized_coherent assms(3) by (fastforce simp: label_free_def)
  then show ?thesis using assms(2) new(1) by (auto simp: coherent_in_def ValidTracked_iff)
next
  fix ns old ns'
  assume upd: "s' = s(ns_Name ns \<mapsto> ns')" "act_Operation a = UpdateNs ns"
    "admitted_object m v a Update ns (ObjectRaw old) = Some ns'"
  then have "ValidTrackedOwnershipLabels (ns_Labels ns')"
    using update_checked [OF upd(3)] assms(3) by (simp add: label_free_def)
  then show ?thesis using assms(2) upd(1) by (auto simp: coherent_in_def ValidTracked_iff)
next
  fix old
  assume "s' = s(ns_Name old := None)"
  then show ?thesis using assms(2) by (auto simp: coherent_in_def)
qed

interpretation coherence_guard: admission_guard v coherent_in "label_free v" for v
  by unfold_locales (rule coherent_step)

section \<open>Who may act\<close>

text \<open>A BindDefinition that lets the caller act on the namespace, by name or by selector.\<close>

definition binding_covers ::
  "selector_api \<Rightarrow> string \<Rightarrow> string \<Rightarrow> Namespace \<Rightarrow> NamespaceBinding \<Rightarrow> bool" where
  "binding_covers asSelector operation n ns rb \<longleftrightarrow>
     (if nb_Namespace rb \<noteq> '''' then nb_Namespace rb = n
      else list_ex (\<lambda>sel. namespaceMatchesSelectorForAdmissionOperation asSelector operation ns sel = Inr True)
             (nb_NamespaceSelector rb))"

definition definition_admits :: "selector_api \<Rightarrow> admission_request \<Rightarrow> Namespace \<Rightarrow> BindDefinition \<Rightarrow> bool" where
  "definition_admits asSelector req ns bd \<longleftrightarrow>
     \<not> HasSuffix (bd_Name bd) ''-namespaced-reader-restricted'' \<and>
     MatchesSubjects (req_Username req) (req_Groups req) (ParseServiceAccount (req_Username req))
       (bds_Subjects (bd_Spec bd)) \<and>
     list_ex (binding_covers asSelector (req_Operation req) (req_Name req) ns) (bds_RoleBindings (bd_Spec bd))"

text \<open>The service account's own namespace has exactly the ownership labels of the namespace.\<close>

definition inherits_from :: "Namespace \<Rightarrow> Namespace \<Rightarrow> bool" where
  "inherits_from home ns \<longleftrightarrow> ownership_ok (map_of (ns_Labels home)) \<and>
     (\<exists>k \<in> set trackedOwnershipKeys. map_of (ns_Labels home) k \<noteq> None) \<and>
     (\<forall>k \<in> set trackedOwnershipKeys. map_of (ns_Labels ns) k = map_of (ns_Labels home) k)"

lemma anySelector_True: "anySelector asSelector operation ns sels = Inr True \<Longrightarrow>
    list_ex (\<lambda>sel. namespaceMatchesSelectorForAdmissionOperation asSelector operation ns sel = Inr True) sels"
  by (induction sels) (auto split: sum.splits bool.splits)

lemma anyBinding_True: "anyBinding asSelector operation n ns rbs = Inr True \<Longrightarrow>
    list_ex (binding_covers asSelector operation n ns) rbs"
  by (induction rbs) (auto simp: binding_covers_def split: sum.splits bool.splits if_splits dest: anySelector_True)

lemma anyDefinition_True:
  "anyDefinition asSelector req (ParseServiceAccount (req_Username req)) ns bds = Inr True \<Longrightarrow>
   \<exists>bd \<in> set bds. definition_admits asSelector req ns bd"
  by (induction bds)
    (auto simp: definition_admits_def IsRestrictedBindDefinition_def split: sum.splits bool.splits if_splits
      dest: anyBinding_True)

lemma sa_labels:
  assumes "GetSANamespaceTrackedLabels getNs sa = Inr ls" "ls \<noteq> []"
  obtains home where "sai_IsServiceAccount sa" "getNs (sai_Namespace sa) = Found home"
    "ls = trackedLabels (ns_Labels home)" "ownership_ok (map_of (ns_Labels home))"
proof -
  obtain home where home: "sai_IsServiceAccount sa" "getNs (sai_Namespace sa) = Found home"
    "ls = trackedLabels (ns_Labels home)" "ValidTrackedOwnershipLabels ls"
    using assms by (auto simp: GetSANamespaceTrackedLabels_def Let_def split: if_splits get_result.splits)
  have "ownership_ok (map_of (ns_Labels home))"
    using home(4) unfolding ValidTracked_iff home(3)
    by (auto simp: ownership_ok_def owned_as_def trackedLabels_lookup trackedOwnershipKeys_def split: if_splits)
  with home that show thesis by blast
qed

lemma inherited_exact:
  assumes "ls = trackedLabels (ns_Labels home)" "ls \<noteq> []"
    and "list_all (\<lambda>(k, val). map_of (ns_Labels ns) k = Some val) ls"
    and "FindExtraTrackedKey (ns_Labels ns) ls = ''''" and "ownership_ok (map_of (ns_Labels home))"
  shows "inherits_from home ns"
proof -
  have eq: "map_of ls k = map_of (ns_Labels home) k" if "k \<in> set trackedOwnershipKeys" for k
    using that by (simp add: assms(1) trackedLabels_lookup)
  have "map_of (ns_Labels ns) k = map_of ls k" if "k \<in> set trackedOwnershipKeys" for k
  proof (cases "map_of ls k")
    case None
    then show ?thesis using that assms(4) by (auto simp: FindExtraTrackedKey_none)
  next
    case (Some x)
    then show ?thesis using assms(3) map_of_SomeD [OF Some] by (auto simp: list_all_iff)
  qed
  moreover obtain k x rest where "ls = (k, x) # rest" using assms(2) by (metis list.exhaust surj_pair)
  then have "map_of ls k \<noteq> None" by simp
  then have "k \<in> set trackedOwnershipKeys" by (simp add: assms(1) trackedLabels_lookup split: if_splits)
  ultimately show ?thesis
    using eq \<open>map_of ls k \<noteq> None\<close> assms(5) by (auto simp: inherits_from_def)
qed

text \<open>
  A live BindDefinition grants the operation, or a service account creates or updates a namespace that has
  the ownership of its own.
\<close>

definition request_justified :: "ns_env \<Rightarrow> admission_request \<Rightarrow> Namespace \<Rightarrow> bool" where
  "request_justified env req ns \<longleftrightarrow>
     (\<exists>bd n. ne_GetBindDefinition env n = Found bd \<and> definition_admits (ne_asSelector env) req ns bd) \<or>
     req_Operation req \<in> {Create, Update} \<and>
     (\<exists>home. sai_IsServiceAccount (ParseServiceAccount (req_Username req)) \<and>
        ne_GetNamespace env (sai_Namespace (ParseServiceAccount (req_Username req))) = Found home \<and>
        inherits_from home ns)"

lemma authorized_justified:
  assumes "authorizeViaBindDefinitions env req ns = Allowed w"
  shows "request_justified env req ns"
proof -
  let ?sa = "ParseServiceAccount (req_Username req)"
  obtain bds b where bds: "freshBindDefinitionsWithRoleBindings env = Inr bds"
    and b: "anyDefinition (ne_asSelector env) req ?sa ns bds = Inr b"
    using assms by (auto simp: authorizeViaBindDefinitions_def Let_def internalError_def invalidLabels_def
        split: if_splits sum.splits)
  show ?thesis
  proof (cases b)
    case True
    then have "\<exists>bd \<in> set bds. definition_admits (ne_asSelector env) req ns bd"
      using anyDefinition_True b by simp
    then show ?thesis using fresh_live [OF bds] by (auto simp: request_justified_def)
  next
    case False
    then obtain ls where op: "req_Operation req \<in> {Create, Update}"
      and ls: "GetSANamespaceTrackedLabels (ne_GetNamespace env) ?sa = Inr ls" "ls \<noteq> []"
        "list_all (\<lambda>(k, val). map_of (ns_Labels ns) k = Some val) ls" "FindExtraTrackedKey (ns_Labels ns) ls = ''''"
      using assms b by (auto simp: authorizeViaBindDefinitions_def Let_def internalError_def invalidLabels_def bds
          split: if_splits sum.splits)
    obtain home where home: "sai_IsServiceAccount ?sa" "ne_GetNamespace env (sai_Namespace ?sa) = Found home"
      "ls = trackedLabels (ns_Labels home)" "ownership_ok (map_of (ns_Labels home))"
      using ls(1, 2) by (rule sa_labels)
    then show ?thesis using inherited_exact [OF home(3) ls(2-4) home(4)] op by (auto simp: request_justified_def)
  qed
qed

lemma update_authorized:
  assumes "admitted_object m v a Update ns (ObjectRaw old) = Some ns'"
    and "\<not> bcr_ShouldBypass (bypasses v a Update (ns_Name ns))"
  shows "\<exists>w. authorizeViaBindDefinitions (act_ValidatorEnv a)
    (request_of a Update (ns_Name ns) (ObjectRaw ns') (ObjectRaw old)) old = Allowed w"
proof -
  let ?req = "request_of a Update (ns_Name ns) (ObjectRaw ns') (ObjectRaw old)"
  obtain w where w: "validatorHandle v (act_ValidatorEnv a) ?req = Allowed w"
    using admitted_objectE [OF assms(1)] by metis
  have "\<not> bcr_ShouldBypass (bypass_of v ?req)" using assms(2) by (simp add: bypasses_def)
  then show ?thesis by - (rule admitted_update [OF w], auto)
qed

lemma delete_authorized:
  assumes "admits_delete v a old" and "\<not> bcr_ShouldBypass (bypasses v a DeleteOp (ns_Name old))"
  shows "\<exists>w. authorizeViaBindDefinitions (act_ValidatorEnv a)
    (request_of a DeleteOp (ns_Name old) NoObject (ObjectRaw old)) old = Allowed w"
proof -
  let ?req = "request_of a DeleteOp (ns_Name old) NoObject (ObjectRaw old)"
  obtain w where w: "validatorHandle v (act_ValidatorEnv a) ?req = Allowed w"
    using assms(1) by (rule admits_deleteE)
  have dec: "decodeNamespaces ?req = Inr (old, zeroNamespace)" by (simp add: decodeNamespaces_def decodeRaw_def)
  have "req_Kind ?req = ''Namespace''" by simp
  from handle_other [OF this _ admitted_protection [OF w this] dec, of "act_ValidatorEnv a"] w assms(2)
  show ?thesis by (intro exI [of _ w]) (simp add: bypasses_def)
qed

text \<open>What an action was decided on: the request the validating webhook saw and the namespace it checked.\<close>

definition step_request :: "ns_store \<Rightarrow> ns_action \<Rightarrow> ns_store \<Rightarrow> (admission_request \<times> Namespace) option" where
  "step_request s a s' = (case act_Operation a of
     CreateNs ns \<Rightarrow> (case s' (ns_Name ns) of None \<Rightarrow> None
       | Some ns' \<Rightarrow> Some (request_of a Create (ns_Name ns) (ObjectRaw ns') NoObject, ns'))
   | UpdateNs ns \<Rightarrow> (case (s (ns_Name ns), s' (ns_Name ns)) of
       (Some old, Some ns') \<Rightarrow> Some (request_of a Update (ns_Name ns) (ObjectRaw ns') (ObjectRaw old), old)
     | _ \<Rightarrow> None)
   | DeleteNs n \<Rightarrow> (case s n of None \<Rightarrow> None
       | Some old \<Rightarrow> Some (request_of a DeleteOp n NoObject (ObjectRaw old), old)))"

lemma step_justified:
  assumes "ns_step m v s a s'"
  obtains req ns where "step_request s a s' = Some (req, ns)"
    "bcr_ShouldBypass (bypass_of v req) \<or> request_justified (act_ValidatorEnv a) req ns"
  using assms
proof (rule ns_stepE)
  fix ns ns'
  assume "s' = s(ns_Name ns \<mapsto> ns')" "act_Operation a = CreateNs ns" "admitted_object m v a Create ns NoObject = Some ns'"
  then show thesis using that create_authorized [of m v a ns ns'] authorized_justified
    by (auto simp: step_request_def bypasses_def)
next
  fix ns old ns'
  assume "s' = s(ns_Name ns \<mapsto> ns')" "act_Operation a = UpdateNs ns" "s (ns_Name ns) = Some old"
    "admitted_object m v a Update ns (ObjectRaw old) = Some ns'"
  then show thesis using that update_authorized [of m v a ns old ns'] authorized_justified
    by (auto simp: step_request_def bypasses_def)
next
  fix old
  assume "act_Operation a = DeleteNs (ns_Name old)" "s (ns_Name old) = Some old" "admits_delete v a old"
  then show thesis using that delete_authorized [of v a old] authorized_justified
    by (auto simp: step_request_def bypasses_def)
qed

section \<open>A concrete run\<close>

text \<open>Alice, who owns \<^verbatim>\<open>team-a\<close> through a BindDefinition, annotates it; an administrator deletes \<^verbatim>\<open>old\<close>.\<close>

definition plain_ns :: "string \<Rightarrow> labels \<Rightarrow> labels \<Rightarrow> Namespace" where
  "plain_ns n ls ann = \<lparr>ns_Name = n, ns_Labels = ls, ns_Annotations = ann, ns_Phase = ''Active''\<rparr>"

definition team_labels :: labels where
  "team_labels = [(LabelKeyOwner, OwnerTenant), (LabelKeyTenant, ''a''),
     (LabelKeyDeletionProtection, DeletionProtectionEnabled)]"

definition team_bd :: BindDefinition where
  "team_bd = \<lparr>bd_Name = ''team-a-admins'', bd_Deleting = False, bd_Spec =
     \<lparr>bds_TargetName = ''team-a'', bds_Subjects = [\<lparr>subj_Kind = UserKind, subj_APIGroup = '''',
        subj_Name = ''alice'', subj_Namespace = ''''\<rparr>], bds_ExternalServiceAccountRefs = [],
      bds_ClusterRoleBindings = \<lparr>cb_ClusterRoleRefs = []\<rparr>,
      bds_RoleBindings = [\<lparr>nb_AuthorizeBeforeBinding = False, nb_ClusterRoleRefs = [''admin''], nb_RoleRefs = [],
        nb_Namespace = '''', nb_NamespaceSelector = [\<lparr>MatchLabels = [(LabelKeyOwner, OwnerTenant),
          (LabelKeyTenant, ''a'')], MatchExpressions = []\<rparr>]\<rparr>],
      bds_AutomountServiceAccountToken = None\<rparr>\<rparr>"

definition match_labels :: selector_api where
  "match_labels sel = Inr (\<lambda>ls. list_all (\<lambda>(k, v). map_of ls k = Some v) (MatchLabels sel))"

definition team_env :: ns_env where
  "team_env = \<lparr>ne_ListIndexed = Inr [team_bd], ne_ListAll = Inr [team_bd],
     ne_GetBindDefinition = (\<lambda>n. if n = ''team-a-admins'' then Found team_bd else NotFound),
     ne_GetNamespace = (\<lambda>n. NotFound), ne_asSelector = match_labels\<rparr>"

definition plain_mutator :: NamespaceMutator where
  "plain_mutator = \<lparr>nm_TDGMigration = False, nm_DisableCAPIOperatorUpdateBypass = False\<rparr>"

definition plain_validator :: NamespaceValidator where
  "plain_validator = \<lparr>nv_TDGMigration = False, nv_DisableCAPIOperatorUpdateBypass = False,
     nv_DeletionProtection = True, nv_ExtraProtectedNamespaces = []\<rparr>"

definition acting :: "string \<Rightarrow> ns_operation \<Rightarrow> ns_action" where
  "acting u op = \<lparr>act_User = u, act_Groups = [], act_Operation = op, act_MutatorEnv = team_env,
     act_ValidatorEnv = team_env\<rparr>"

definition team_ns :: Namespace where "team_ns = plain_ns ''team-a'' team_labels []"
definition noted_ns :: Namespace where "noted_ns = plain_ns ''team-a'' team_labels [(''note'', ''x'')]"
definition system_ns :: Namespace where "system_ns = plain_ns ''kube-system'' [(LabelKeyOwner, OwnerPlatform)] []"
definition old_ns :: Namespace where "old_ns = plain_ns ''old'' [] []"

definition alice_updates :: ns_action where "alice_updates = acting ''alice'' (UpdateNs noted_ns)"
definition admin_deletes :: ns_action where "admin_deletes = acting ''kubernetes-admin'' (DeleteNs ''old'')"

definition store0 :: ns_store where
  "store0 = [''team-a'' \<mapsto> team_ns, ''kube-system'' \<mapsto> system_ns, ''old'' \<mapsto> old_ns]"
definition store1 :: ns_store where "store1 = store0(''team-a'' \<mapsto> noted_ns)"
definition store2 :: ns_store where "store2 = store1(''old'' := None)"

lemmas sample_stores = store0_def store1_def store2_def team_ns_def noted_ns_def system_ns_def old_ns_def
  plain_ns_def team_labels_def alice_updates_def admin_deletes_def acting_def

lemma alice_admitted:
  "admitted_object plain_mutator plain_validator alice_updates Update noted_ns (ObjectRaw team_ns) = Some noted_ns"
  by code_simp

lemma admin_admitted: "admits_delete plain_validator admin_deletes old_ns"
  by code_simp

lemma sample_step: "ns_step plain_mutator plain_validator store0 alice_updates store1"
proof -
  have "ns_step plain_mutator plain_validator store0 alice_updates (store0(ns_Name noted_ns \<mapsto> noted_ns))"
    by (rule step_update [OF _ _ alice_admitted]) (simp_all add: sample_stores)
  then show ?thesis by (simp add: store1_def noted_ns_def plain_ns_def)
qed

lemma sample_run: "ns_run plain_mutator plain_validator store0 [alice_updates, admin_deletes] store2"
proof -
  have "ns_step plain_mutator plain_validator store1 admin_deletes store2"
    unfolding store2_def by (rule step_delete [OF _ _ _ admin_admitted]) (simp_all add: sample_stores)
  then show ?thesis using sample_step by (auto simp: ns_run_Cons)
qed

section \<open>Properties\<close>

text \<open>
  With deletion protection on, no sequence of requests, whoever
  sends them, deletes \<^verbatim>\<open>kube-system\<close>, \<^verbatim>\<open>kube-public\<close>, \<^verbatim>\<open>kube-node-lease\<close>, \<^verbatim>\<open>default\<close> or an extra protected
  namespace.
\<close>

theorem system_namespaces_survive:
  assumes "ns_run m v s acts s'" and "nv_DeletionProtection v"
    and "isHardProtectedNamespace n (nv_ExtraProtectedNamespaces v)" and "s n \<noteq> None"
  shows "s' n \<noteq> None"
proof -
  have "protecting v = v" using assms(2) by simp
  with system_guard.run_guard [of m v s acts s' n] assms show ?thesis by (simp add: list_all_iff)
qed

theorem system_namespaces_survive_witness: "store2 ''kube-system'' \<noteq> None"
  by (rule system_namespaces_survive [OF sample_run])
    (simp_all add: plain_validator_def isHardProtectedNamespace_def hardProtectedNamespaces_def sample_stores)

text \<open>
  Property C21 (protected_namespace_survives): a deletion-protected namespace that does not carry the
  \<^verbatim>\<open>allow-deletion\<close> annotation stays present and protected along every run in which nobody submits that
  annotation for it, administrators included: relabelling it first and deleting it then is no way around.
\<close>

theorem protected_namespace_survives:
  assumes "ns_run m v s acts s'" and "nv_DeletionProtection v" and "protected_in v n s"
    and "list_all (\<lambda>a. \<not> confirms_deletion n a) acts"
  shows "\<exists>ns. s' n = Some ns \<and> isDeletionProtected (nv_TDGMigration v) ns \<and> \<not> allowsDeletion ns"
proof -
  have "protecting v = v" using assms(2) by simp
  with deletion_guard.run_guard [of m v s acts s' n] assms have "protected_in v n s'" by simp
  then show ?thesis by (auto simp: protected_in_def split: option.splits)
qed

theorem protected_namespace_survives_witness:
  "protected_in plain_validator ''team-a'' store0 \<and>
   (\<exists>ns. store2 ''team-a'' = Some ns \<and> isDeletionProtected (nv_TDGMigration plain_validator) ns \<and> \<not> allowsDeletion ns)"
proof -
  have "protected_in plain_validator ''team-a'' store0" by code_simp
  moreover have "list_all (\<lambda>a. \<not> confirms_deletion ''team-a'' a) [alice_updates, admin_deletes]" by code_simp
  moreover have "nv_DeletionProtection plain_validator" by code_simp
  ultimately show ?thesis using protected_namespace_survives [OF sample_run] by blast
qed

text \<open>
  The owner, tenant, thirdparty, addon and protected labels of a
  namespace are neither changed, removed nor added along a run unless somebody deletes it or a principal
  with the right to relabel updates it.
\<close>

theorem identity_labels_immutable:
  assumes "ns_run m v s acts s'" and "s n = Some ns" and "list_all (\<lambda>a. \<not> relabels v n a) acts"
  shows "\<exists>ns'. s' n = Some ns' \<and> list_all (\<lambda>k. map_of (ns_Labels ns') k = map_of (ns_Labels ns) k) identityKeys"
proof -
  have "identity_in n (map_of (ns_Labels ns)) s" using assms(2) by (simp add: identity_in_def list_all_iff)
  with identity_guard.run_guard assms(1, 3) have "identity_in n (map_of (ns_Labels ns)) s'" by blast
  then show ?thesis by (auto simp: identity_in_def split: option.splits)
qed

theorem identity_labels_immutable_witness:
  "\<exists>ns'. store2 ''team-a'' = Some ns' \<and>
     list_all (\<lambda>k. map_of (ns_Labels ns') k = map_of (ns_Labels team_ns) k) identityKeys"
  by (rule identity_labels_immutable [OF sample_run]) (code_simp, code_simp)

text \<open>
  Property C28 (platform_ownership_permanent): a namespace owned by the platform is never reclassified,
  not even by the service accounts of the migration: only an administrator's update or a deletion ends it.
\<close>

theorem platform_ownership_permanent:
  assumes "ns_run m v s acts s'" and "platform_in n s" and "list_all (\<lambda>a. \<not> overrides n a) acts"
  shows "platform_in n s'"
  using platform_guard.run_guard assms by blast

theorem platform_ownership_permanent_witness: "platform_in ''kube-system'' store2"
  by (rule platform_ownership_permanent [OF sample_run]) (code_simp, code_simp)

text \<open>
  Ownership labels stay coherent (none, the platform alone, or
  one class with its identity) in every namespace, along every run without a bypassed create and without
  an administrator's update.
\<close>

theorem coherent_ownership_preserved:
  assumes "ns_run m v s acts s'" and "coherent_in s" and "list_all (\<lambda>a. \<not> label_free v a) acts"
    and "s' n = Some ns"
  shows "ownership_ok (map_of (ns_Labels ns))"
  using coherence_guard.run_guard [OF assms(1-3)] assms(4) by (simp add: coherent_in_def)

lemma sample_coherent: "coherent_in store0"
proof -
  have "ownership_ok (map_of (ns_Labels ns))" if "ns \<in> {team_ns, system_ns, old_ns}" for ns
  proof -
    have "list_all (\<lambda>ns. ValidTrackedOwnershipLabels (ns_Labels ns)) [team_ns, system_ns, old_ns]" by code_simp
    then show ?thesis using that by (auto simp: ValidTracked_iff)
  qed
  then show ?thesis by (auto simp: coherent_in_def store0_def split: if_splits)
qed

theorem coherent_ownership_preserved_witness: "ownership_ok (map_of (ns_Labels noted_ns))"
proof (rule coherent_ownership_preserved [OF sample_run sample_coherent])
  show "list_all (\<lambda>a. \<not> label_free plain_validator a) [alice_updates, admin_deletes]" by code_simp
  show "store2 ''team-a'' = Some noted_ns" by (simp add: store2_def store1_def)
qed

text \<open>
  Property C22 (namespace_operations_justified): every admitted operation of a caller without a bypass is
  granted by a live, unrestricted BindDefinition that names the caller and covers the namespace, or is a
  create or update by a service account whose own namespace has exactly the ownership labels of the
  namespace. For an update the labels before the update count, so that relabelling gives no access.
\<close>

theorem namespace_operations_justified:
  assumes "ns_step m v s a s'"
  shows "\<exists>req ns. step_request s a s' = Some (req, ns) \<and>
    (bcr_ShouldBypass (CheckBypass (act_User a) (act_Groups a) (req_Operation req) (req_Name req)
       (nv_TDGMigration v) (\<not> nv_DisableCAPIOperatorUpdateBypass v)) \<or>
     request_justified (act_ValidatorEnv a) req ns)"
proof -
  obtain req ns where *: "step_request s a s' = Some (req, ns)"
    "bcr_ShouldBypass (bypass_of v req) \<or> request_justified (act_ValidatorEnv a) req ns"
    using assms by (rule step_justified)
  then have "req_Username req = act_User a" "req_Groups req = act_Groups a"
    by (auto simp: step_request_def split: ns_operation.splits option.splits)
  then show ?thesis using * by (intro exI conjI) (assumption, simp only:)
qed

theorem namespace_operations_justified_witness:
  "request_justified team_env (request_of alice_updates Update ''team-a'' (ObjectRaw noted_ns) (ObjectRaw team_ns)) team_ns"
proof -
  have req: "step_request store0 alice_updates store1 =
      Some (request_of alice_updates Update ''team-a'' (ObjectRaw noted_ns) (ObjectRaw team_ns), team_ns)"
    by (simp add: step_request_def sample_stores)
  have no: "\<not> bcr_ShouldBypass (CheckBypass (act_User alice_updates) (act_Groups alice_updates) Update ''team-a''
      (nv_TDGMigration plain_validator) (\<not> nv_DisableCAPIOperatorUpdateBypass plain_validator))" by code_simp
  have "act_ValidatorEnv alice_updates = team_env" by (simp add: sample_stores)
  then show ?thesis
    using namespace_operations_justified [OF sample_step, unfolded req option.inject prod.inject] no
    by (elim exE conjE) (hypsubst, simp only: request_of_simps simp_thms)
qed

text \<open>
  A patch of the mutating webhook changes nothing but labels,
  keeps every label the caller submitted, adds tracked ownership labels only, and leaves coherent ownership.
\<close>

theorem mutator_adds_coherent_ownership:
  assumes "mutatorHandle m env req = Patched ns'" and "req_Object req = ObjectRaw ns"
  shows "ns'\<lparr>ns_Labels := ns_Labels ns\<rparr> = ns \<and> map_of (ns_Labels ns) \<subseteq>\<^sub>m map_of (ns_Labels ns') \<and>
    dom (map_of (ns_Labels ns')) \<subseteq> dom (map_of (ns_Labels ns)) \<union> set trackedOwnershipKeys \<and>
    ownership_ok (map_of (ns_Labels ns'))"
proof -
  obtain add where add: "addable (ns_Labels ns) add"
    and ns': "ns' = ns\<lparr>ns_Labels := fold (\<lambda>(k, v) ls. if map_of ls k = None then mput k v ls else ls) add (ns_Labels ns)\<rparr>"
    and valid: "ValidTrackedOwnershipLabels (ns_Labels ns')"
    using mutator_patch [OF assms] by blast
  have wf: "mwf add" using add by (simp add: addable_def)
  have "map_of (ns_Labels ns) \<subseteq>\<^sub>m map_of (ns_Labels ns')"
    by (auto simp: map_le_def ns' intro: add_missing_keeps [symmetric])
  moreover have "dom (map_of (ns_Labels ns')) \<subseteq> dom (map_of (ns_Labels ns)) \<union> set trackedOwnershipKeys"
    using add by (auto simp: ns' add_missing_lookup [OF wf] addable_def split: option.splits)
  ultimately show ?thesis using valid by (simp add: ValidTracked_iff ns')
qed

definition team_create :: admission_request where
  "team_create = request_of (acting ''alice'' (CreateNs (plain_ns ''team-b'' [] []))) Create ''team-b''
     (ObjectRaw (plain_ns ''team-b'' [] [])) NoObject"

theorem mutator_adds_coherent_ownership_witness:
  "mutatorHandle plain_mutator team_env team_create = Patched (plain_ns ''team-b''
     [(LabelKeyOwner, OwnerTenant), (LabelKeyTenant, ''a'')] []) \<and>
   ownership_ok (map_of [(LabelKeyOwner, OwnerTenant), (LabelKeyTenant, ''a'')])"
proof -
  have run: "mutatorHandle plain_mutator team_env team_create = Patched (plain_ns ''team-b''
     [(LabelKeyOwner, OwnerTenant), (LabelKeyTenant, ''a'')] [])" by code_simp
  have "req_Object team_create = ObjectRaw (plain_ns ''team-b'' [] [])" by (simp add: team_create_def)
  from mutator_adds_coherent_ownership [OF run this] run show ?thesis by (simp add: plain_ns_def)
qed

end
