(* ===== verification/Resource_Naming.thy ===== *)
theory Resource_Naming
  imports Api_Types "HOL-Library.Multiset"
begin

text \<open>
  Names, labels and annotations of generated resources (\<^verbatim>\<open>pkg/helpers/resource.go\<close>) and the field
  manager names of \<^verbatim>\<open>pkg/ssa/ssa.go\<close>. The first four bytes of SHA-256 in hexadecimal are a parameter
  (\<open>sha\<close>); what the lemmas need of it is that it has eight characters.
\<close>

section \<open>Names\<close>

definition maxResourceNameLength :: nat where "maxResourceNameLength = 253"
definition maxFieldManagerLength :: nat where "maxFieldManagerLength = 128"
definition BindingSuffix :: string where "BindingSuffix = ''binding''"
definition FieldOwner :: string where "FieldOwner = ''auth-operator''"

definition BuildBindingName :: "(string \<Rightarrow> string) \<Rightarrow> string \<Rightarrow> string \<Rightarrow> string" where
  "BuildBindingName sha targetName roleRef =
     (let fullName = targetName @ ''-'' @ roleRef @ ''-'' @ BindingSuffix in
      if length fullName \<le> maxResourceNameLength then fullName
      else
        let hashSuffix = sha fullName;
            maxLen = maxResourceNameLength - 1 - length hashSuffix in
        take maxLen fullName @ ''-'' @ hashSuffix)"

definition FieldOwnerFor :: "(string \<Rightarrow> string) \<Rightarrow> string \<Rightarrow> string list \<Rightarrow> string" where
  "FieldOwnerFor sha resourceName ownerScope =
     (let ownerKey = (if length ownerScope > 0 then Join (ownerScope @ [resourceName]) ''/'' else resourceName);
          prefix = FieldOwner @ ''/'';
          fullOwner = prefix @ ownerKey in
      if length fullOwner \<le> maxFieldManagerLength then fullOwner
      else
        let hashSuffix = sha ownerKey;
            maxNameLen = maxFieldManagerLength - length prefix - 1 - length hashSuffix in
        prefix @ take maxNameLen ownerKey @ ''-'' @ hashSuffix)"

section \<open>Labels and annotations\<close>

definition ManagedByLabelStandard :: string where "ManagedByLabelStandard = ''app.kubernetes.io/managed-by''"
definition AppNameLabel :: string where "AppNameLabel = ''app.kubernetes.io/name''"
definition ManagedByValue :: string where "ManagedByValue = ''auth-operator''"
definition SourceKindAnnotation :: string where
  "SourceKindAnnotation = ''authorization.t-caas.telekom.com/source-kind''"
definition SourceNameAnnotation :: string where
  "SourceNameAnnotation = ''authorization.t-caas.telekom.com/source-name''"
definition SourceNamesAnnotation :: string where
  "SourceNamesAnnotation = ''authorization.t-caas.telekom.com/source-names''"

lemmas naming_keys = ManagedByLabelStandard_def AppNameLabel_def SourceKindAnnotation_def
  SourceNameAnnotation_def SourceNamesAnnotation_def

definition BuildResourceLabels :: "labels \<Rightarrow> labels" where
  "BuildResourceLabels sourceLabels =
     mput AppNameLabel ManagedByValue (mput ManagedByLabelStandard ManagedByValue (mcopy [] sourceLabels))"

text \<open>
  The two regular expressions, by what they match: a non-empty rest that does not begin with a line
  break after the aggregation prefix (no end anchor), and one of four words with an optional suffix
  without line breaks.
\<close>

definition newline :: char where "newline = CHR 0x0A"

definition aggregationPattern :: "string \<Rightarrow> bool" where
  "aggregationPattern key =
     (case CutPrefix key ''rbac.authorization.k8s.io/aggregate-to-'' of
        Some (c # rest) \<Rightarrow> c \<noteq> newline | _ \<Rightarrow> False)"

definition platformPattern :: "string \<Rightarrow> bool" where
  "platformPattern key =
     (case CutPrefix key ''t-caas.telekom.com/'' of
        None \<Rightarrow> False
      | Some rest \<Rightarrow> list_ex (\<lambda>word. rest = word \<or>
          (case CutPrefix rest (word @ ''-'') of
             None \<Rightarrow> False | Some suffix \<Rightarrow> suffix \<noteq> '''' \<and> newline \<notin> set suffix))
          [''breakglass'', ''security'', ''policy'', ''rbac''])"

definition IsProtectedRestrictedLabel :: "string \<Rightarrow> bool" where
  "IsProtectedRestrictedLabel key \<longleftrightarrow> list_ex (\<lambda>pattern. pattern key) [aggregationPattern, platformPattern]"

definition BuildRestrictedResourceLabels :: "labels \<Rightarrow> labels" where
  "BuildRestrictedResourceLabels sourceLabels =
     mput AppNameLabel ManagedByValue (mput ManagedByLabelStandard ManagedByValue
       (fold (\<lambda>(k, v) ls. if IsProtectedRestrictedLabel k then ls else mput k v ls) sourceLabels []))"

definition BuildResourceAnnotations :: "string \<Rightarrow> string \<Rightarrow> labels" where
  "BuildResourceAnnotations sourceKind sourceName =
     [(SourceKindAnnotation, sourceKind), (SourceNameAnnotation, sourceName)]"

definition BuildManagedSAAnnotations :: "string \<Rightarrow> labels" where
  "BuildManagedSAAnnotations sourceNames =
     [(SourceKindAnnotation, ''BindDefinition''), (SourceNamesAnnotation, sourceNames)]"

definition MergeSourceNames :: "string \<Rightarrow> string \<Rightarrow> string" where
  "MergeSourceNames existing newName =
     (if existing = '''' then newName
      else
        let names = map TrimSpace (Split existing CHR '','');
            names' = (if newName \<notin> set names then names @ [newName] else names) in
        Join (sort names') '','')"

definition RemoveSourceName :: "string \<Rightarrow> string \<Rightarrow> string" where
  "RemoveSourceName existing nameToRemove =
     (if existing = '''' then ''''
      else
        let result = filter (\<lambda>trimmed. trimmed \<noteq> nameToRemove) (map TrimSpace (Split existing CHR '','')) in
        Join (sort result) '','')"

definition IsMissingFieldIndexError :: "string option \<Rightarrow> bool" where
  "IsMissingFieldIndexError err =
     (case err of
        None \<Rightarrow> False
      | Some m \<Rightarrow>
          if Contains m ''no index with name'' then True
          else if Contains m ''index with name'' \<and> Contains m ''does not exist'' then True
          else if Contains m ''index with name'' \<and> Contains m ''has been registered'' then True
          else Contains m ''field label not supported'')"

section \<open>Lengths\<close>

lemma binding_name_bound:
  "length (sha (targetName @ ''-'' @ roleRef @ ''-'' @ BindingSuffix)) = 8 \<Longrightarrow>
   length (BuildBindingName sha targetName roleRef) \<le> maxResourceNameLength"
  by (auto simp: BuildBindingName_def Let_def maxResourceNameLength_def min_def)

lemma field_owner_bound:
  "length (sha (if ownerScope \<noteq> [] then Join (ownerScope @ [n]) ''/'' else n)) = 8 \<Longrightarrow>
   length (FieldOwnerFor sha n ownerScope) \<le> maxFieldManagerLength"
  by (auto simp: FieldOwnerFor_def Let_def maxFieldManagerLength_def FieldOwner_def)

section \<open>The names of a shared resource\<close>

text \<open>The annotation of a shared resource stands for the set of its trimmed, non-empty entries.\<close>

definition name_parts :: "string \<Rightarrow> string list" where
  "name_parts s = map TrimSpace (Split s CHR '','')"

definition names_of :: "string \<Rightarrow> string set" where
  "names_of s = set (name_parts s) - {''''}"

definition clean_name :: "string \<Rightarrow> bool" where
  "clean_name n \<longleftrightarrow> n \<noteq> '''' \<and> CHR '','' \<notin> set n \<and> TrimSpace n = n"

lemma dropWhile_idem: "dropWhile P (dropWhile P xs) = dropWhile P xs"
  by (induction xs) auto

lemma dropWhile_rev_keep:
  "dropWhile P (rev (dropWhile P (rev (dropWhile P xs)))) = rev (dropWhile P (rev (dropWhile P xs)))"
proof (cases "dropWhile P xs")
  case (Cons y ys)
  have hd: "\<not> P y" using Cons by (metis hd_dropWhile list.sel(1) list.distinct(1))
  have "dropWhile P (rev (y # ys)) = dropWhile P (rev ys) @ [y]"
    using hd by (simp add: dropWhile_append)
  then show ?thesis using Cons hd by simp
next
  case Nil
  then show ?thesis by (simp only: rev.simps dropWhile.simps)
qed

lemma TrimSpace_idem [simp]: "TrimSpace (TrimSpace s) = TrimSpace s"
  by (simp add: TrimSpace_def dropWhile_rev_keep dropWhile_idem)

lemma TrimSpace_set: "c \<in> set (TrimSpace s) \<Longrightarrow> c \<in> set s"
  by (auto simp: TrimSpace_def dest!: set_dropWhileD)

lemma TrimSpace_Nil [simp]: "TrimSpace '''' = ''''"
  by (simp add: TrimSpace_def)

lemma parts_clean: "p \<in> set (name_parts s) \<Longrightarrow> CHR '','' \<notin> set p \<and> TrimSpace p = p"
  by (auto simp: name_parts_def dest!: TrimSpace_set Split_parts)

lemma parts_ne [simp]: "name_parts s \<noteq> []"
  by (simp add: name_parts_def)

text \<open>Joining clean parts and reading them back gives the same parts.\<close>

lemma parts_Join:
  assumes "ps \<noteq> []" "\<forall>p \<in> set ps. CHR '','' \<notin> set p \<and> TrimSpace p = p"
  shows "name_parts (Join ps '','') = ps"
proof -
  have "Split (Join ps '','') CHR '','' = ps" using assms by (simp add: Split_Join)
  then show ?thesis using assms(2) by (simp add: name_parts_def map_idI)
qed

lemma parts_clean_name: "clean_name n \<Longrightarrow> name_parts n = [n]"
  using parts_Join [of "[n]"] by (simp add: clean_name_def)

lemma parts_Nil [simp]: "name_parts '''' = ['''']"
  by (simp add: name_parts_def)

definition add_part :: "string \<Rightarrow> string list \<Rightarrow> string list" where
  "add_part n ps = (if n \<notin> set ps then ps @ [n] else ps)"

lemma Merge_eq: "MergeSourceNames e n =
    (if e = '''' then n else Join (sort (add_part n (name_parts e))) '','')"
  by (simp add: MergeSourceNames_def name_parts_def add_part_def Let_def)

lemma Remove_eq: "e \<noteq> '''' \<Longrightarrow> RemoveSourceName e n = Join (sort (filter (\<lambda>p. p \<noteq> n) (name_parts e))) '',''"
  by (simp add: RemoveSourceName_def name_parts_def Let_def)

lemma parts_Merge:
  assumes "clean_name n"
  shows "name_parts (MergeSourceNames e n) = (if e = '''' then [n] else sort (add_part n (name_parts e)))"
proof (cases "e = ''''")
  case False
  have "\<forall>p \<in> set (sort (add_part n (name_parts e))). CHR '','' \<notin> set p \<and> TrimSpace p = p"
    using parts_clean assms by (auto simp: add_part_def clean_name_def)
  moreover have "sort (add_part n (name_parts e)) \<noteq> []"
    by (simp add: add_part_def)
  ultimately show ?thesis using False by (simp add: Merge_eq parts_Join)
qed (simp add: Merge_eq parts_clean_name assms)

lemma names_Merge: "clean_name n \<Longrightarrow> names_of (MergeSourceNames e n) = insert n (names_of e)"
  by (auto simp: names_of_def parts_Merge add_part_def clean_name_def)

lemma names_Remove: "names_of (RemoveSourceName e n) = names_of e - {n}"
proof (cases "e = '''' \<or> filter (\<lambda>p. p \<noteq> n) (name_parts e) = []")
  case True
  then consider "e = ''''" | "e \<noteq> ''''" "filter (\<lambda>p. p \<noteq> n) (name_parts e) = []" by blast
  then show ?thesis
  proof cases
    case 1
    then show ?thesis by (simp add: RemoveSourceName_def names_of_def)
  next
    case 2
    have "RemoveSourceName e n = ''''" unfolding Remove_eq [OF 2(1)] 2(2) by simp
    moreover have "set (name_parts e) \<subseteq> {n}" using 2(2) by (auto simp: filter_empty_conv)
    ultimately show ?thesis by (auto simp: names_of_def)
  qed
next
  case False
  then have e: "e \<noteq> ''''" and ne: "sort (filter (\<lambda>p. p \<noteq> n) (name_parts e)) \<noteq> []"
    by (auto dest: arg_cong [where f = set])
  have "\<forall>p \<in> set (sort (filter (\<lambda>p. p \<noteq> n) (name_parts e))). CHR '','' \<notin> set p \<and> TrimSpace p = p"
    using parts_clean [of _ e] by auto
  from parts_Join [OF ne this] have "name_parts (RemoveSourceName e n) = sort (filter (\<lambda>p. p \<noteq> n) (name_parts e))"
    unfolding Remove_eq [OF e] .
  then show ?thesis by (auto simp: names_of_def)
qed

text \<open>The annotation does not depend on the order in which the owners registered.\<close>

lemma Merge_commute:
  assumes "clean_name a" "clean_name b"
  shows "MergeSourceNames (MergeSourceNames e a) b = MergeSourceNames (MergeSourceNames e b) a"
proof (cases "e = ''''")
  case True
  have ne: "a \<noteq> ''''" "b \<noteq> ''''" using assms by (auto simp: clean_name_def)
  have "sort (add_part b [a]) = sort (add_part a [b])"
    by (auto simp: add_part_def insort_key_def)
  then show ?thesis using True ne by (simp add: Merge_eq parts_clean_name assms)
next
  case False
  have eq: "MergeSourceNames (MergeSourceNames e x) y =
      Join (sort (add_part y (sort (add_part x (name_parts e))))) '',''" if "clean_name x" for x y
  proof -
    have "x \<in> names_of (MergeSourceNames e x)" using that by (simp add: names_Merge)
    then have "MergeSourceNames e x \<noteq> ''''" by (auto simp: names_of_def)
    then have "MergeSourceNames (MergeSourceNames e x) y =
        Join (sort (add_part y (name_parts (MergeSourceNames e x)))) '',''"
      using Merge_eq [of "MergeSourceNames e x" y] by simp
    then show ?thesis using False that by (simp add: parts_Merge)
  qed
  have "mset (add_part b (sort (add_part a (name_parts e)))) = mset (add_part a (sort (add_part b (name_parts e))))"
    by (simp add: add_part_def)
  then have "sort (add_part b (sort (add_part a (name_parts e)))) = sort (add_part a (sort (add_part b (name_parts e))))"
    by (metis properties_for_sort mset_sort sorted_sort)
  then show ?thesis using eq assms by simp
qed

section \<open>Restricted labels\<close>

lemma restricted_fold:
  "map_of (fold (\<lambda>(k, v) ls. if IsProtectedRestrictedLabel k then ls else mput k v ls) src ls) k \<noteq> None \<Longrightarrow>
   map_of ls k \<noteq> None \<or> \<not> IsProtectedRestrictedLabel k \<and> k \<in> fst ` set src"
proof (induction src arbitrary: ls)
  case (Cons p src)
  obtain k' v where p: "p = (k', v)" by (cases p)
  show ?case using Cons.IH [of "if IsProtectedRestrictedLabel k' then ls else mput k' v ls"] Cons.prems
    by (auto simp: p split: if_splits)
qed simp

lemma restricted_labels_unprotected:
  "map_of (BuildRestrictedResourceLabels src) k \<noteq> None \<Longrightarrow> \<not> IsProtectedRestrictedLabel k"
proof -
  have "\<not> IsProtectedRestrictedLabel AppNameLabel" "\<not> IsProtectedRestrictedLabel ManagedByLabelStandard"
    by code_simp+
  then show "map_of (BuildRestrictedResourceLabels src) k \<noteq> None \<Longrightarrow> \<not> IsProtectedRestrictedLabel k"
    using restricted_fold [of src "[]" k] by (auto simp: BuildRestrictedResourceLabels_def split: if_splits)
qed

lemma restricted_fold_value:
  "map_of (fold (\<lambda>(k, v) ls. if IsProtectedRestrictedLabel k then ls else mput k v ls) src ls) k = Some x \<Longrightarrow>
   map_of ls k = Some x \<or> (k, x) \<in> set src"
proof (induction src arbitrary: ls)
  case (Cons p src)
  obtain k' v where p: "p = (k', v)" by (cases p)
  show ?case using Cons.IH [of "if IsProtectedRestrictedLabel k' then ls else mput k' v ls"] Cons.prems
    by (auto simp: p split: if_splits)
qed simp

section \<open>Properties\<close>

text \<open>
  Property C40 (generated_names_bounded): binding names never exceed the 253 characters of a Kubernetes
  name and field managers never exceed 128, whatever the names they are built from; a name that fits is
  kept as it is.
\<close>

theorem generated_names_bounded:
  assumes "\<And>s. length (sha s) = 8"
  shows "length (BuildBindingName sha target ref) \<le> 253 \<and> length (FieldOwnerFor sha name scope) \<le> 128 \<and>
    (length target + length ref \<le> 244 \<longrightarrow> BuildBindingName sha target ref = target @ ''-'' @ ref @ ''-binding'')"
  using binding_name_bound [of sha target ref] field_owner_bound [of sha scope name] assms
  by (auto simp: maxResourceNameLength_def maxFieldManagerLength_def BuildBindingName_def BindingSuffix_def Let_def)

theorem generated_names_bounded_witness:
  "BuildBindingName (\<lambda>s. ''0a1b2c3d'') ''team-a'' ''view'' = ''team-a-view-binding'' \<and>
   length (BuildBindingName (\<lambda>s. ''0a1b2c3d'') (replicate 300 CHR ''x'') ''view'') \<le> 253"
  using generated_names_bounded [of "\<lambda>s. ''0a1b2c3d''" "''team-a''" "''view''" "''n''" "[]"]
    generated_names_bounded [of "\<lambda>s. ''0a1b2c3d''" "replicate 300 CHR ''x''" "''view''" "''n''" "[]"]
  by simp

text \<open>
  The annotation with the owners of a shared ServiceAccount is a set
  of names: merging adds exactly the name, removing takes exactly the name away, removing a merged name
  restores the set, and the text of the annotation does not depend on the order of merging.
\<close>

theorem source_names_registry:
  assumes "clean_name a" and "clean_name b"
  shows "names_of (MergeSourceNames e a) = insert a (names_of e) \<and>
    names_of (RemoveSourceName e a) = names_of e - {a} \<and>
    (a \<notin> names_of e \<longrightarrow> names_of (RemoveSourceName (MergeSourceNames e a) a) = names_of e) \<and>
    MergeSourceNames (MergeSourceNames e a) b = MergeSourceNames (MergeSourceNames e b) a"
  using assms by (simp add: names_Merge names_Remove Merge_commute)

theorem source_names_registry_witness:
  "MergeSourceNames (MergeSourceNames ''x, y'' ''b'') ''a'' = ''a,b,x,y'' \<and>
   names_of (RemoveSourceName (MergeSourceNames ''x, y'' ''b'') ''b'') = names_of ''x, y''"
proof -
  have "clean_name ''a''" "clean_name ''b''" by code_simp+
  note reg = source_names_registry [OF this(2) this(1), of "''x, y''"]
  have "MergeSourceNames (MergeSourceNames ''x, y'' ''b'') ''a'' = ''a,b,x,y''" by code_simp
  moreover have "''b'' \<notin> names_of ''x, y''" by code_simp
  ultimately show ?thesis using reg by blast
qed

text \<open>
  The labels of a resource generated from a restricted
  definition never contain a protected key, so a tenant can neither aggregate a generated role into
  another ClusterRole nor mark it for the platform; the two identifying labels are always set, and every
  other label is one of the definition.
\<close>

theorem restricted_labels_contained:
  assumes "map_of (BuildRestrictedResourceLabels src) k = Some x"
  shows "\<not> IsProtectedRestrictedLabel k \<and>
    (k \<in> {ManagedByLabelStandard, AppNameLabel} \<and> x = ManagedByValue \<or> (k, x) \<in> set src)"
proof -
  have "k \<in> {ManagedByLabelStandard, AppNameLabel} \<and> x = ManagedByValue \<or> (k, x) \<in> set src"
    using assms restricted_fold_value [of src "[]" k x]
    by (auto simp: BuildRestrictedResourceLabels_def split: if_splits)
  moreover have "\<not> IsProtectedRestrictedLabel k"
    using assms restricted_labels_unprotected [of src k] by simp
  ultimately show ?thesis by blast
qed

theorem restricted_labels_contained_witness:
  "map_of (BuildRestrictedResourceLabels [(''rbac.authorization.k8s.io/aggregate-to-admin'', ''true''), (''team'', ''a'')])
     ''team'' = Some ''a'' \<and> \<not> IsProtectedRestrictedLabel ''team''"
proof -
  have "map_of (BuildRestrictedResourceLabels [(''rbac.authorization.k8s.io/aggregate-to-admin'', ''true''),
      (''team'', ''a'')]) ''team'' = Some ''a''" by code_simp
  from restricted_labels_contained [OF this] this show ?thesis by blast
qed

end
