(* ===== verification/Apply_Config.thy ===== *)
theory Apply_Config
  imports Resource_Naming
begin

text \<open>
  Apply configurations and their comparison with live objects (\<^verbatim>\<open>pkg/ssa/ssa.go\<close>,
  \<^verbatim>\<open>pkg/ssa/patchhelper.go\<close>). A pointer field of an apply configuration is an option. The comparison
  keys are shown to decide equality up to the order the API server ignores.
\<close>

section \<open>Live objects\<close>

record OwnerReference =
  or_APIVersion :: string
  or_Kind :: string
  or_Name :: string
  or_UID :: string
  or_Controller :: "bool option"
  or_BlockOwnerDeletion :: "bool option"

text \<open>ClusterRoles and Roles; the aggregation rule, a list of selectors, is absent for a Role.\<close>

record rbac_role =
  role_Labels :: labels
  role_Annotations :: labels
  role_OwnerReferences :: "OwnerReference list"
  role_AggregationRule :: "LabelSelector list option"
  role_Rules :: "PolicyRule list"

record RoleRef =
  rref_APIGroup :: string
  rref_Kind :: string
  rref_Name :: string

text \<open>ClusterRoleBindings and RoleBindings.\<close>

record rbac_binding =
  bnd_Labels :: labels
  bnd_Annotations :: labels
  bnd_OwnerReferences :: "OwnerReference list"
  bnd_RoleRef :: RoleRef
  bnd_Subjects :: "Subject list"

text \<open>An entry of the managed fields is a manager and its operation.\<close>

record service_account =
  sac_Labels :: labels
  sac_Annotations :: labels
  sac_OwnerReferences :: "OwnerReference list"
  sac_AutomountToken :: "bool option"
  sac_ManagedFields :: "(string \<times> string) list"

section \<open>Apply configurations\<close>

record OwnerReferenceAC =
  orac_APIVersion :: "string option"
  orac_Kind :: "string option"
  orac_Name :: "string option"
  orac_UID :: "string option"
  orac_Controller :: "bool option"
  orac_BlockOwnerDeletion :: "bool option"

record LabelSelectorRequirementAC =
  lsrac_Key :: "string option"
  lsrac_Operator :: "string option"
  lsrac_Values :: "string list"

record LabelSelectorAC =
  lsac_MatchLabels :: labels
  lsac_MatchExpressions :: "LabelSelectorRequirementAC list"

record SubjectAC =
  sbac_Kind :: "string option"
  sbac_APIGroup :: "string option"
  sbac_Name :: "string option"
  sbac_Namespace :: "string option"

record RoleRefAC =
  rrac_APIGroup :: "string option"
  rrac_Kind :: "string option"
  rrac_Name :: "string option"

text \<open>The lists of a rule are plain slices in its apply configuration too, so the rule type is shared.\<close>

record role_ac =
  rac_Name :: string
  rac_Namespace :: "string option"
  rac_Labels :: labels
  rac_Annotations :: labels
  rac_OwnerReferences :: "OwnerReferenceAC list"
  rac_AggregationRule :: "LabelSelectorAC list option"
  rac_Rules :: "PolicyRule list"

record binding_ac =
  bac_Name :: string
  bac_Namespace :: "string option"
  bac_Labels :: labels
  bac_Annotations :: labels
  bac_OwnerReferences :: "OwnerReferenceAC list"
  bac_RoleRef :: "RoleRefAC option"
  bac_Subjects :: "SubjectAC list"

record service_account_ac =
  saac_Name :: string
  saac_Namespace :: string
  saac_Labels :: labels
  saac_Annotations :: labels
  saac_OwnerReferences :: "OwnerReferenceAC list"
  saac_AutomountToken :: "bool option"

definition OwnerReferenceWith :: "string \<Rightarrow> string \<Rightarrow> string \<Rightarrow> string \<Rightarrow> bool \<Rightarrow> bool \<Rightarrow> OwnerReferenceAC" where
  "OwnerReferenceWith apiVersion kind name uid controller blockOwnerDeletion =
     \<lparr>orac_APIVersion = Some apiVersion, orac_Kind = Some kind, orac_Name = Some name, orac_UID = Some uid,
      orac_Controller = Some controller, orac_BlockOwnerDeletion = Some blockOwnerDeletion\<rparr>"

definition ServiceAccountWith :: "string \<Rightarrow> string \<Rightarrow> labels \<Rightarrow> bool \<Rightarrow> service_account_ac" where
  "ServiceAccountWith name namespace ls automountToken =
     \<lparr>saac_Name = name, saac_Namespace = namespace, saac_Labels = (if length ls > 0 then mcopy [] ls else []),
      saac_Annotations = [], saac_OwnerReferences = [], saac_AutomountToken = Some automountToken\<rparr>"

definition PolicyRuleFrom :: "PolicyRule option \<Rightarrow> PolicyRule option" where
  "PolicyRuleFrom rulep =
     (case rulep of
        None \<Rightarrow> None
      | Some rule \<Rightarrow> Some
          \<lparr>pr_Verbs = (if length (pr_Verbs rule) > 0 then pr_Verbs rule else []),
           pr_APIGroups = (if length (pr_APIGroups rule) > 0 then pr_APIGroups rule else []),
           pr_Resources = (if length (pr_Resources rule) > 0 then pr_Resources rule else []),
           pr_ResourceNames = (if length (pr_ResourceNames rule) > 0 then pr_ResourceNames rule else []),
           pr_NonResourceURLs = (if length (pr_NonResourceURLs rule) > 0 then pr_NonResourceURLs rule else [])\<rparr>)"

definition rulesFrom :: "PolicyRule list \<Rightarrow> PolicyRule list" where
  "rulesFrom rules = map (\<lambda>rule. the (PolicyRuleFrom (Some rule))) rules"

definition ClusterRoleWithLabelsAndRules :: "string \<Rightarrow> labels \<Rightarrow> PolicyRule list \<Rightarrow> role_ac" where
  "ClusterRoleWithLabelsAndRules name ls rules =
     \<lparr>rac_Name = name, rac_Namespace = None, rac_Labels = (if length ls > 0 then mcopy [] ls else []),
      rac_Annotations = [], rac_OwnerReferences = [], rac_AggregationRule = None,
      rac_Rules = rulesFrom rules\<rparr>"

definition LabelSelectorFrom :: "LabelSelector option \<Rightarrow> LabelSelectorAC option" where
  "LabelSelectorFrom selp =
     (case selp of
        None \<Rightarrow> None
      | Some sel \<Rightarrow> Some
          \<lparr>lsac_MatchLabels = (if length (MatchLabels sel) > 0 then mcopy [] (MatchLabels sel) else []),
           lsac_MatchExpressions = map (\<lambda>expr. \<lparr>lsrac_Key = Some (lsr_Key expr),
             lsrac_Operator = Some (lsr_Operator expr), lsrac_Values = lsr_Values expr\<rparr>) (MatchExpressions sel)\<rparr>)"

definition ClusterRoleWithAggregation :: "string \<Rightarrow> labels \<Rightarrow> LabelSelector list option \<Rightarrow> role_ac" where
  "ClusterRoleWithAggregation name ls aggregationRule =
     \<lparr>rac_Name = name, rac_Namespace = None, rac_Labels = (if length ls > 0 then mcopy [] ls else []),
      rac_Annotations = [], rac_OwnerReferences = [],
      rac_AggregationRule = map_option (map (\<lambda>sel. the (LabelSelectorFrom (Some sel)))) aggregationRule,
      rac_Rules = []\<rparr>"

definition RoleWithLabelsAndRules :: "string \<Rightarrow> string \<Rightarrow> labels \<Rightarrow> PolicyRule list \<Rightarrow> role_ac" where
  "RoleWithLabelsAndRules name namespace ls rules =
     \<lparr>rac_Name = name, rac_Namespace = Some namespace, rac_Labels = (if length ls > 0 then mcopy [] ls else []),
      rac_Annotations = [], rac_OwnerReferences = [], rac_AggregationRule = None,
      rac_Rules = rulesFrom rules\<rparr>"

definition SubjectFrom :: "Subject option \<Rightarrow> SubjectAC option" where
  "SubjectFrom subjectp =
     (case subjectp of
        None \<Rightarrow> None
      | Some subject \<Rightarrow> Some
          \<lparr>sbac_Kind = Some (subj_Kind subject),
           sbac_APIGroup = (if subj_APIGroup subject \<noteq> '''' then Some (subj_APIGroup subject) else None),
           sbac_Name = Some (subj_Name subject),
           sbac_Namespace = (if subj_Namespace subject \<noteq> '''' then Some (subj_Namespace subject) else None)\<rparr>)"

definition RoleRefFrom :: "RoleRef option \<Rightarrow> RoleRefAC option" where
  "RoleRefFrom roleRefp =
     (case roleRefp of
        None \<Rightarrow> None
      | Some roleRef \<Rightarrow> Some \<lparr>rrac_APIGroup = Some (rref_APIGroup roleRef), rrac_Kind = Some (rref_Kind roleRef),
          rrac_Name = Some (rref_Name roleRef)\<rparr>)"

definition ClusterRoleBindingWithSubjectsAndRoleRef ::
  "string \<Rightarrow> labels \<Rightarrow> Subject list \<Rightarrow> RoleRef \<Rightarrow> binding_ac" where
  "ClusterRoleBindingWithSubjectsAndRoleRef name ls subjects roleRef =
     \<lparr>bac_Name = name, bac_Namespace = None, bac_Labels = (if length ls > 0 then mcopy [] ls else []),
      bac_Annotations = [], bac_OwnerReferences = [], bac_RoleRef = RoleRefFrom (Some roleRef),
      bac_Subjects = map (\<lambda>subject. the (SubjectFrom (Some subject))) subjects\<rparr>"

definition RoleBindingWithSubjectsAndRoleRef ::
  "string \<Rightarrow> string \<Rightarrow> labels \<Rightarrow> Subject list \<Rightarrow> RoleRef \<Rightarrow> binding_ac" where
  "RoleBindingWithSubjectsAndRoleRef name namespace ls subjects roleRef =
     \<lparr>bac_Name = name, bac_Namespace = Some namespace, bac_Labels = (if length ls > 0 then mcopy [] ls else []),
      bac_Annotations = [], bac_OwnerReferences = [], bac_RoleRef = RoleRefFrom (Some roleRef),
      bac_Subjects = map (\<lambda>subject. the (SubjectFrom (Some subject))) subjects\<rparr>"

section \<open>Canonical binding lists\<close>

text \<open>
  \<^verbatim>\<open>json.Marshal\<close> is a parameter (an error or a text); items are sorted by it. Go's sort is not stable,
  but equal texts are texts of equal items.
\<close>

fun marshalAll :: "('a \<Rightarrow> string + string) \<Rightarrow> 'a list \<Rightarrow> msg + (string \<times> 'a) list" where
  "marshalAll marshal [] = Inr []"
| "marshalAll marshal (item # items) =
     (case marshal item of
        Inl err \<Rightarrow> Inl [Lit ''marshal ApplyConfiguration list item: '', Lit err]
      | Inr encoded \<Rightarrow>
          (case marshalAll marshal items of Inl err \<Rightarrow> Inl err | Inr keyed \<Rightarrow> Inr ((encoded, item) # keyed)))"

definition sortByJSON :: "('a \<Rightarrow> string + string) \<Rightarrow> 'a list \<Rightarrow> msg + 'a list" where
  "sortByJSON marshal items =
     (case marshalAll marshal items of
        Inl err \<Rightarrow> Inl err | Inr keyed \<Rightarrow> Inr (map snd (sort_key fst keyed)))"

definition defaultSubjectGroup :: "SubjectAC \<Rightarrow> SubjectAC" where
  "defaultSubjectGroup subject =
     (if (sbac_Kind subject = Some UserKind \<or> sbac_Kind subject = Some GroupKind) \<and>
         (sbac_APIGroup subject = None \<or> sbac_APIGroup subject = Some '''')
      then subject\<lparr>sbac_APIGroup := Some rbacGroupName\<rparr> else subject)"

definition normalizeBindingApplyConfiguration ::
  "(SubjectAC \<Rightarrow> string + string) \<Rightarrow> (OwnerReferenceAC \<Rightarrow> string + string) \<Rightarrow> SubjectAC list
    \<Rightarrow> OwnerReferenceAC list option \<Rightarrow> msg + SubjectAC list \<times> OwnerReferenceAC list option" where
  "normalizeBindingApplyConfiguration marshalSubject marshalOwner subjects metadata =
     (case sortByJSON marshalSubject (map defaultSubjectGroup subjects) of
        Inl err \<Rightarrow> Inl (Lit ''sort binding subjects: '' # err)
      | Inr subjects' \<Rightarrow>
          (case metadata of
             None \<Rightarrow> Inr (subjects', None)
           | Some refs \<Rightarrow>
               (case sortByJSON marshalOwner refs of
                  Inl err \<Rightarrow> Inl (Lit ''sort binding owner references: '' # err)
                | Inr refs' \<Rightarrow> Inr (subjects', Some refs'))))"

section \<open>Comparison with the live object\<close>

definition mapContains :: "labels \<Rightarrow> labels \<Rightarrow> bool" where
  "mapContains existing desired = list_all (\<lambda>(k, v). map_of existing k = Some v) desired"

text \<open>The inner loop of \<^verbatim>\<open>ownerRefsMatch\<close>: the first reference with the UID decides.\<close>

definition ownerRefMatches :: "OwnerReferenceAC \<Rightarrow> OwnerReference \<Rightarrow> bool" where
  "ownerRefMatches d e \<longleftrightarrow>
     (orac_APIVersion d \<noteq> None \<longrightarrow> orac_APIVersion d = Some (or_APIVersion e)) \<and>
     (orac_Kind d \<noteq> None \<longrightarrow> orac_Kind d = Some (or_Kind e)) \<and>
     (orac_Name d \<noteq> None \<longrightarrow> orac_Name d = Some (or_Name e)) \<and>
     (orac_Controller d \<noteq> None \<longrightarrow> orac_Controller d = or_Controller e) \<and>
     (orac_BlockOwnerDeletion d \<noteq> None \<longrightarrow> orac_BlockOwnerDeletion d = or_BlockOwnerDeletion e)"

definition ownerRefsMatch :: "OwnerReference list \<Rightarrow> OwnerReferenceAC list \<Rightarrow> bool" where
  "ownerRefsMatch existing desired =
     list_all (\<lambda>d. case orac_UID d of
        None \<Rightarrow> False
      | Some uid \<Rightarrow>
          (case find (\<lambda>e. or_UID e = uid) existing of None \<Rightarrow> False | Some e \<Rightarrow> ownerRefMatches d e)) desired"

definition roleRefMatches :: "RoleRef \<Rightarrow> RoleRefAC option \<Rightarrow> bool" where
  "roleRefMatches existing desiredp =
     (case desiredp of
        None \<Rightarrow> True
      | Some desired \<Rightarrow>
          (rrac_APIGroup desired = None \<or> rrac_APIGroup desired = Some (rref_APIGroup existing)) \<and>
          (rrac_Kind desired = None \<or> rrac_Kind desired = Some (rref_Kind existing)) \<and>
          (rrac_Name desired = None \<or> rrac_Name desired = Some (rref_Name existing)))"

definition subjectKey :: "string \<Rightarrow> string \<Rightarrow> string \<Rightarrow> string \<Rightarrow> string" where
  "subjectKey kind apiGroup name namespace =
     (let apiGroup' = (if apiGroup = '''' \<and> (kind = UserKind \<or> kind = GroupKind) then rbacGroupName else apiGroup) in
      kind @ ''/'' @ apiGroup' @ ''/'' @ name @ ''/'' @ namespace)"

definition deref :: "string option \<Rightarrow> string" where
  "deref p = (case p of Some s \<Rightarrow> s | None \<Rightarrow> '''')"

definition subjectACKey :: "SubjectAC \<Rightarrow> string" where
  "subjectACKey s = subjectKey (deref (sbac_Kind s)) (deref (sbac_APIGroup s)) (deref (sbac_Name s))
     (deref (sbac_Namespace s))"

definition subjectsMatch :: "Subject list \<Rightarrow> SubjectAC list \<Rightarrow> bool" where
  "subjectsMatch existing desired =
     (if length existing \<noteq> length desired then False
      else
        sort (map (\<lambda>s. subjectKey (subj_Kind s) (subj_APIGroup s) (subj_Name s) (subj_Namespace s)) existing) =
        sort (map subjectACKey desired))"

definition policyRuleKey :: "PolicyRule \<Rightarrow> string" where
  "policyRuleKey r =
     Join (sort (pr_Verbs r)) '','' @ ''|'' @ Join (sort (pr_APIGroups r)) '','' @ ''|'' @
     Join (sort (pr_Resources r)) '','' @ ''|'' @ Join (sort (pr_ResourceNames r)) '','' @ ''|'' @
     Join (sort (pr_NonResourceURLs r)) '','' "

definition policyRuleACKey :: "PolicyRule \<Rightarrow> string" where
  "policyRuleACKey r =
     Join (sort (pr_Verbs r)) '','' @ ''|'' @ Join (sort (pr_APIGroups r)) '','' @ ''|'' @
     Join (sort (pr_Resources r)) '','' @ ''|'' @ Join (sort (pr_ResourceNames r)) '','' @ ''|'' @
     Join (sort (pr_NonResourceURLs r)) '','' "

definition policyRulesMatch :: "PolicyRule list \<Rightarrow> PolicyRule list \<Rightarrow> bool" where
  "policyRulesMatch existing desired =
     (if length existing \<noteq> length desired then False
      else sort (map policyRuleKey existing) = sort (map policyRuleACKey desired))"

definition labelSelectorKey :: "LabelSelector \<Rightarrow> string" where
  "labelSelectorKey sel =
     Join (sort (map (\<lambda>(k, v). k @ ''='' @ v) (MatchLabels sel))) '';'' @ ''|'' @
     Join (sort (map (\<lambda>expr. lsr_Key expr @ lsr_Operator expr @ Join (sort (lsr_Values expr)) '','')
       (MatchExpressions sel))) '';''"

definition labelSelectorACKey :: "LabelSelectorAC \<Rightarrow> string" where
  "labelSelectorACKey sel =
     Join (sort (map (\<lambda>(k, v). k @ ''='' @ v) (lsac_MatchLabels sel))) '';'' @ ''|'' @
     Join (sort (map (\<lambda>expr. deref (lsrac_Key expr) @ deref (lsrac_Operator expr) @
       Join (sort (lsrac_Values expr)) '','') (lsac_MatchExpressions sel))) '';''"

definition aggregationRuleMatches :: "LabelSelector list option \<Rightarrow> LabelSelectorAC list option \<Rightarrow> bool" where
  "aggregationRuleMatches existingp desiredp =
     (case desiredp of
        None \<Rightarrow> existingp = None
      | Some desired \<Rightarrow>
          (case existingp of
             None \<Rightarrow> False
           | Some existing \<Rightarrow>
               if length existing \<noteq> length desired then False
               else sort (map labelSelectorKey existing) = sort (map labelSelectorACKey desired)))"

definition clusterRoleMatches :: "rbac_role \<Rightarrow> role_ac \<Rightarrow> bool" where
  "clusterRoleMatches existing ac =
     (if \<not> mapContains (role_Labels existing) (rac_Labels ac) \<or>
         \<not> mapContains (role_Annotations existing) (rac_Annotations ac) \<or>
         \<not> ownerRefsMatch (role_OwnerReferences existing) (rac_OwnerReferences ac) then False
      else if rac_AggregationRule ac \<noteq> None
      then aggregationRuleMatches (role_AggregationRule existing) (rac_AggregationRule ac)
      else policyRulesMatch (role_Rules existing) (rac_Rules ac))"

definition roleMatches :: "rbac_role \<Rightarrow> role_ac \<Rightarrow> bool" where
  "roleMatches existing ac \<longleftrightarrow>
     mapContains (role_Labels existing) (rac_Labels ac) \<and>
     mapContains (role_Annotations existing) (rac_Annotations ac) \<and>
     ownerRefsMatch (role_OwnerReferences existing) (rac_OwnerReferences ac) \<and>
     policyRulesMatch (role_Rules existing) (rac_Rules ac)"

definition clusterRoleBindingMatches :: "rbac_binding \<Rightarrow> binding_ac \<Rightarrow> bool" where
  "clusterRoleBindingMatches existing ac \<longleftrightarrow>
     mapContains (bnd_Labels existing) (bac_Labels ac) \<and>
     mapContains (bnd_Annotations existing) (bac_Annotations ac) \<and>
     ownerRefsMatch (bnd_OwnerReferences existing) (bac_OwnerReferences ac) \<and>
     roleRefMatches (bnd_RoleRef existing) (bac_RoleRef ac) \<and>
     subjectsMatch (bnd_Subjects existing) (bac_Subjects ac)"

definition roleBindingMatches :: "rbac_binding \<Rightarrow> binding_ac \<Rightarrow> bool" where
  "roleBindingMatches existing ac \<longleftrightarrow>
     mapContains (bnd_Labels existing) (bac_Labels ac) \<and>
     mapContains (bnd_Annotations existing) (bac_Annotations ac) \<and>
     ownerRefsMatch (bnd_OwnerReferences existing) (bac_OwnerReferences ac) \<and>
     roleRefMatches (bnd_RoleRef existing) (bac_RoleRef ac) \<and>
     subjectsMatch (bnd_Subjects existing) (bac_Subjects ac)"

definition serviceAccountMatches :: "service_account \<Rightarrow> service_account_ac \<Rightarrow> bool" where
  "serviceAccountMatches existing ac =
     (if \<not> mapContains (sac_Labels existing) (saac_Labels ac) then False
      else if \<not> mapContains (sac_Annotations existing) (saac_Annotations ac) then False
      else if \<not> ownerRefsMatch (sac_OwnerReferences existing) (saac_OwnerReferences ac) then False
      else if saac_AutomountToken ac \<noteq> None
      then sac_AutomountToken existing = saac_AutomountToken ac
      else True)"

section \<open>The keys decide equality up to order\<close>

lemma sort_eq_iff: "sort xs = sort ys \<longleftrightarrow> mset xs = mset (ys :: 'a::linorder list)"
  by (metis mset_sort properties_for_sort sorted_sort)

lemma image_mset_inj_iff:
  assumes "inj_on f S" "set_mset A \<subseteq> S" "set_mset B \<subseteq> S"
  shows "image_mset f A = image_mset f B \<longleftrightarrow> A = B"
proof
  assume eq: "image_mset f A = image_mset f B"
  have undo: "image_mset (the_inv_into S f) (image_mset f M) = M" if "set_mset M \<subseteq> S" for M
  proof -
    have "image_mset (\<lambda>x. the_inv_into S f (f x)) M = image_mset (\<lambda>x. x) M"
      by (rule image_mset_cong) (use that assms(1) in \<open>auto intro: the_inv_into_f_f\<close>)
    then show ?thesis by (simp add: multiset.map_comp comp_def)
  qed
  show "A = B" using undo [OF assms(2)] undo [OF assms(3)] eq by metis
qed simp

text \<open>
  A comparison by sorted keys: when the key of an item is an injective rendering of its normal form, the
  comparison decides equality of the normal forms as multisets.
\<close>

locale keyed_comparison =
  fixes key :: "'a \<Rightarrow> string" and normal :: "'a \<Rightarrow> 'n" and render :: "'n \<Rightarrow> string" and good :: "'a \<Rightarrow> bool"
  assumes key_normal: "good x \<Longrightarrow> key x = render (normal x)"
    and render_inj: "good x \<Longrightarrow> good y \<Longrightarrow> render (normal x) = render (normal y) \<Longrightarrow> normal x = normal y"
begin

lemma keys_decide:
  assumes "list_all good xs" "list_all good ys"
  shows "sort (map key xs) = sort (map key ys) \<longleftrightarrow> mset (map normal xs) = mset (map normal ys)"
proof -
  have keys: "map key zs = map render (map normal zs)" if "list_all good zs" for zs
    using that by (induction zs) (simp_all add: key_normal)
  have inj: "inj_on render (normal ` Collect good)" by (auto intro!: inj_onI dest: render_inj)
  have "set_mset (mset (map normal zs)) \<subseteq> normal ` Collect good" if "list_all good zs" for zs
    using that by (auto simp: list_all_iff)
  from image_mset_inj_iff [OF inj this [OF assms(1)] this [OF assms(2)]]
  show ?thesis by (simp only: sort_eq_iff keys [OF assms(1)] keys [OF assms(2)] mset_map)
qed

text \<open>The length test in front of the comparison never changes its outcome.\<close>

lemma match_decides:
  assumes "list_all good xs" "list_all good ys"
  shows "(if length xs \<noteq> length ys then False else sort (map key xs) = sort (map key ys)) \<longleftrightarrow>
    mset (map normal xs) = mset (map normal ys)"
proof (cases "length xs = length ys")
  case False
  then have "mset (map normal xs) \<noteq> mset (map normal ys)" by (metis length_map size_mset)
  then show ?thesis using False by simp
qed (simp add: keys_decide [OF assms])

end

subsection \<open>Rules\<close>

text \<open>The entries of a rule in sorted order; the list with one empty entry is written like the empty list.\<close>

definition entry_list :: "string list \<Rightarrow> string list" where
  "entry_list xs = (if xs = [''''] then [] else sort xs)"

definition rule_normal :: "PolicyRule \<Rightarrow> PolicyRule" where
  "rule_normal r = \<lparr>pr_Verbs = entry_list (pr_Verbs r), pr_APIGroups = entry_list (pr_APIGroups r),
     pr_Resources = entry_list (pr_Resources r), pr_ResourceNames = entry_list (pr_ResourceNames r),
     pr_NonResourceURLs = entry_list (pr_NonResourceURLs r)\<rparr>"

definition plain_entries :: "string list \<Rightarrow> bool" where
  "plain_entries xs = list_all (\<lambda>s. CHR '','' \<notin> set s \<and> CHR ''|'' \<notin> set s) xs"

definition rule_plain :: "PolicyRule \<Rightarrow> bool" where
  "rule_plain r \<longleftrightarrow> plain_entries (pr_Verbs r) \<and> plain_entries (pr_APIGroups r) \<and> plain_entries (pr_Resources r) \<and>
     plain_entries (pr_ResourceNames r) \<and> plain_entries (pr_NonResourceURLs r)"

definition rule_text :: "PolicyRule \<Rightarrow> string" where
  "rule_text r = Join (pr_Verbs r) '','' @ ''|'' @ Join (pr_APIGroups r) '','' @ ''|'' @
     Join (pr_Resources r) '','' @ ''|'' @ Join (pr_ResourceNames r) '','' @ ''|'' @
     Join (pr_NonResourceURLs r) '','' "

lemma Join_set: "c \<in> set (Join xs sep) \<Longrightarrow> c \<in> set sep \<or> (\<exists>x \<in> set xs. c \<in> set x)"
  by (induction xs sep rule: Join.induct) auto

lemma Join_entry_list: "Join (entry_list xs) '','' = Join (sort xs) '',''"
  by (simp add: entry_list_def)

lemma Join_Nil_iff: "Join xs '','' = '''' \<longleftrightarrow> xs = [] \<or> xs = ['''']"
  by (cases xs rule: list.exhaust; cases "tl xs") (auto simp: Join_Cons)

lemma sort_single_iff: "sort xs = [x] \<longleftrightarrow> xs = [x]"
proof
  assume eq: "sort xs = [x]"
  then have "length xs = 1" by (metis length_sort length_Cons list.size(3) One_nat_def)
  then obtain y where "xs = [y]" by (cases xs) auto
  with eq show "xs = [x]" by simp
qed simp

lemma entry_list_inj:
  assumes "plain_entries xs" "plain_entries ys" "Join (entry_list xs) '','' = Join (entry_list ys) '',''"
  shows "entry_list xs = entry_list ys"
proof -
  have eq: "Join (sort xs) '','' = Join (sort ys) '',''" using assms(3) by (simp add: Join_entry_list)
  show ?thesis
  proof (cases "xs \<in> {[], ['''']} \<or> ys \<in> {[], ['''']}")
    case True
    then have "Join (sort xs) '','' = '''' \<and> Join (sort ys) '','' = ''''" using eq by auto
    then have "xs \<in> {[], ['''']}" "ys \<in> {[], ['''']}" by (auto simp: Join_Nil_iff sort_single_iff)
    then show ?thesis by (auto simp: entry_list_def)
  next
    case False
    then have "sort xs = sort ys"
      using Join_inj [OF eq] assms(1, 2) by (auto simp: plain_entries_def list_all_iff)
    then show ?thesis using False by (simp add: entry_list_def)
  qed
qed

lemma bar_free: "plain_entries xs \<Longrightarrow> CHR ''|'' \<notin> set (Join (entry_list xs) '','')"
  using Join_set [of "CHR ''|''" "sort xs" "'',''"]
  by (auto simp: plain_entries_def list_all_iff Join_entry_list)

lemma five_parts:
  fixes a b c d e a' b' c' d' e' :: string
  assumes "a @ ''|'' @ b @ ''|'' @ c @ ''|'' @ d @ ''|'' @ e = a' @ ''|'' @ b' @ ''|'' @ c' @ ''|'' @ d' @ ''|'' @ e'"
    and "CHR ''|'' \<notin> set a" "CHR ''|'' \<notin> set a'" "CHR ''|'' \<notin> set b" "CHR ''|'' \<notin> set b'"
    and "CHR ''|'' \<notin> set c" "CHR ''|'' \<notin> set c'" "CHR ''|'' \<notin> set d" "CHR ''|'' \<notin> set d'"
  shows "a = a' \<and> b = b' \<and> c = c' \<and> d = d' \<and> e = e'"
proof -
  note sep = append_sep_inj [where c = "CHR ''|''"]
  have e1: "a @ CHR ''|'' # (b @ ''|'' @ c @ ''|'' @ d @ ''|'' @ e) =
      a' @ CHR ''|'' # (b' @ ''|'' @ c' @ ''|'' @ d' @ ''|'' @ e')" using assms(1) by simp
  have e2: "b @ CHR ''|'' # (c @ ''|'' @ d @ ''|'' @ e) = b' @ CHR ''|'' # (c' @ ''|'' @ d' @ ''|'' @ e')"
    using sep [OF e1 assms(2, 3)] by simp
  have e3: "c @ CHR ''|'' # (d @ ''|'' @ e) = c' @ CHR ''|'' # (d' @ ''|'' @ e')"
    using sep [OF e2 assms(4, 5)] by simp
  have e4: "d @ CHR ''|'' # e = d' @ CHR ''|'' # e'" using sep [OF e3 assms(6, 7)] by simp
  show ?thesis using sep [OF e1 assms(2, 3)] sep [OF e2 assms(4, 5)] sep [OF e3 assms(6, 7)]
      sep [OF e4 assms(8, 9)] by blast
qed

interpretation rule_comparison: keyed_comparison policyRuleKey rule_normal rule_text rule_plain
proof
  show "policyRuleKey r = rule_text (rule_normal r)" for r
    by (simp add: policyRuleKey_def rule_text_def rule_normal_def Join_entry_list)
next
  fix r r'
  assume plain: "rule_plain r" "rule_plain r'" and eq: "rule_text (rule_normal r) = rule_text (rule_normal r')"
  have "Join (entry_list (pr_Verbs r)) '','' = Join (entry_list (pr_Verbs r')) '','' \<and>
      Join (entry_list (pr_APIGroups r)) '','' = Join (entry_list (pr_APIGroups r')) '','' \<and>
      Join (entry_list (pr_Resources r)) '','' = Join (entry_list (pr_Resources r')) '','' \<and>
      Join (entry_list (pr_ResourceNames r)) '','' = Join (entry_list (pr_ResourceNames r')) '','' \<and>
      Join (entry_list (pr_NonResourceURLs r)) '','' = Join (entry_list (pr_NonResourceURLs r')) '',''"
    by (rule five_parts)
      (use eq in \<open>simp add: rule_text_def rule_normal_def\<close>, (rule bar_free, use plain in \<open>simp add: rule_plain_def\<close>)+)
  then show "rule_normal r = rule_normal r'"
    using plain entry_list_inj by (simp add: rule_normal_def rule_plain_def)
qed

lemma policyRuleACKey_eq: "policyRuleACKey = policyRuleKey"
  by (rule ext) (simp add: policyRuleACKey_def policyRuleKey_def)

lemma rulesFrom_id [simp]: "rulesFrom rules = rules"
  by (simp add: rulesFrom_def PolicyRuleFrom_def map_idI)

lemma policyRulesMatch_iff:
  "list_all rule_plain existing \<Longrightarrow> list_all rule_plain desired \<Longrightarrow>
   policyRulesMatch existing desired \<longleftrightarrow> mset (map rule_normal existing) = mset (map rule_normal desired)"
  unfolding policyRulesMatch_def policyRuleACKey_eq by (rule rule_comparison.match_decides)

subsection \<open>Subjects\<close>

text \<open>A subject with the API group it has by default: kind, group, name and namespace.\<close>

definition subject_normal :: "string \<times> string \<times> string \<times> string \<Rightarrow> string \<times> string \<times> string \<times> string" where
  "subject_normal = (\<lambda>(kind, grp, name, namespace).
     (kind, if grp = '''' \<and> (kind = UserKind \<or> kind = GroupKind) then rbacGroupName else grp, name, namespace))"

definition subject_parts :: "Subject \<Rightarrow> string \<times> string \<times> string \<times> string" where
  "subject_parts s = (subj_Kind s, subj_APIGroup s, subj_Name s, subj_Namespace s)"

definition subjectAC_parts :: "SubjectAC \<Rightarrow> string \<times> string \<times> string \<times> string" where
  "subjectAC_parts s = (deref (sbac_Kind s), deref (sbac_APIGroup s), deref (sbac_Name s), deref (sbac_Namespace s))"

definition subject_plain :: "string \<times> string \<times> string \<times> string \<Rightarrow> bool" where
  "subject_plain = (\<lambda>(kind, grp, name, namespace).
     CHR ''/'' \<notin> set kind \<and> CHR ''/'' \<notin> set grp \<and> CHR ''/'' \<notin> set namespace)"

definition subject_text :: "string \<times> string \<times> string \<times> string \<Rightarrow> string" where
  "subject_text = (\<lambda>(kind, grp, name, namespace). kind @ ''/'' @ grp @ ''/'' @ name @ ''/'' @ namespace)"

lemma append_sep_last_inj:
  fixes a b a' b' :: string
  assumes "a @ c # b = a' @ c # b'" "c \<notin> set b" "c \<notin> set b'"
  shows "a = a' \<and> b = b'"
proof -
  have "rev b @ c # rev a = rev b' @ c # rev a'" using arg_cong [OF assms(1), of rev] by simp
  from append_sep_inj [OF this] assms(2, 3) show ?thesis by simp
qed

lemma subject_text_inj:
  assumes "subject_plain p" "subject_plain q" "subject_text p = subject_text q"
  shows "p = q"
proof -
  obtain k g n s where p: "p = (k, g, n, s)" by (cases p)
  obtain k' g' n' s' where q: "q = (k', g', n', s')" by (cases q)
  have e1: "k @ CHR ''/'' # (g @ ''/'' @ n @ ''/'' @ s) = k' @ CHR ''/'' # (g' @ ''/'' @ n' @ ''/'' @ s')"
    using assms(3) by (simp add: subject_text_def p q)
  have free: "CHR ''/'' \<notin> set k" "CHR ''/'' \<notin> set k'" "CHR ''/'' \<notin> set g" "CHR ''/'' \<notin> set g'"
    "CHR ''/'' \<notin> set s" "CHR ''/'' \<notin> set s'"
    using assms(1, 2) by (simp_all add: subject_plain_def p q)
  have e2: "g @ CHR ''/'' # (n @ ''/'' @ s) = g' @ CHR ''/'' # (n' @ ''/'' @ s')"
    using append_sep_inj [OF e1 free(1, 2)] by simp
  have e3: "n @ CHR ''/'' # s = n' @ CHR ''/'' # s'" using append_sep_inj [OF e2 free(3, 4)] by simp
  show ?thesis using append_sep_inj [OF e1 free(1, 2)] append_sep_inj [OF e2 free(3, 4)]
      append_sep_last_inj [OF e3 free(5, 6)] by (simp add: p q)
qed

lemma subject_normal_plain: "subject_plain p \<Longrightarrow> subject_plain (subject_normal p)"
  by (auto simp: subject_plain_def subject_normal_def rbacGroupName_def split: if_splits)

interpretation subject_comparison: keyed_comparison "\<lambda>p. subject_text (subject_normal p)" subject_normal
  subject_text subject_plain
  by unfold_locales (auto dest: subject_text_inj [OF subject_normal_plain subject_normal_plain])

lemma subjectKey_text: "subjectKey k g n s = subject_text (subject_normal (k, g, n, s))"
  by (simp add: subjectKey_def subject_text_def subject_normal_def Let_def)

lemma subjectsMatch_iff:
  assumes "list_all subject_plain (map subject_parts existing)" "list_all subject_plain (map subjectAC_parts desired)"
  shows "subjectsMatch existing desired \<longleftrightarrow>
    mset (map (subject_normal \<circ> subject_parts) existing) = mset (map (subject_normal \<circ> subjectAC_parts) desired)"
proof -
  have keys: "map (\<lambda>s. subjectKey (subj_Kind s) (subj_APIGroup s) (subj_Name s) (subj_Namespace s)) existing =
      map (\<lambda>p. subject_text (subject_normal p)) (map subject_parts existing)"
    "map subjectACKey desired = map (\<lambda>p. subject_text (subject_normal p)) (map subjectAC_parts desired)"
    by (simp_all add: subjectACKey_def subject_parts_def subjectAC_parts_def subjectKey_text)
  show ?thesis
    using subject_comparison.match_decides [OF assms] unfolding subjectsMatch_def keys
    by (simp add: comp_def)
qed

lemma SubjectFrom_parts: "subjectAC_parts (the (SubjectFrom (Some s))) = subject_parts s"
  by (simp add: SubjectFrom_def subjectAC_parts_def subject_parts_def deref_def)

lemma defaultSubjectGroup_normal:
  "subject_normal (subjectAC_parts (defaultSubjectGroup s)) = subject_normal (subjectAC_parts s)"
  by (auto simp: defaultSubjectGroup_def subjectAC_parts_def subject_normal_def deref_def rbacGroupName_def)

subsection \<open>Canonical lists hold the same items\<close>

lemma marshalAll_items: "marshalAll marshal items = Inr keyed \<Longrightarrow> map snd keyed = items"
  by (induction items arbitrary: keyed) (auto split: sum.splits)

lemma sortByJSON_mset:
  assumes "sortByJSON marshal items = Inr items'" shows "mset items' = mset items"
proof -
  obtain keyed where "marshalAll marshal items = Inr keyed" "items' = map snd (sort_key fst keyed)"
    using assms by (auto simp: sortByJSON_def split: sum.splits)
  then show ?thesis by (metis marshalAll_items mset_map mset_sort)
qed

lemma normalized_subjects:
  assumes "normalizeBindingApplyConfiguration ms mo subjects refs = Inr (subjects', refs')"
  shows "mset (map (subject_normal \<circ> subjectAC_parts) subjects') = mset (map (subject_normal \<circ> subjectAC_parts) subjects)"
proof -
  have "sortByJSON ms (map defaultSubjectGroup subjects) = Inr subjects'"
    using assms by (auto simp: normalizeBindingApplyConfiguration_def split: sum.splits option.splits)
  then have "mset subjects' = mset (map defaultSubjectGroup subjects)" by (rule sortByJSON_mset)
  then show ?thesis by (simp add: multiset.map_comp comp_def defaultSubjectGroup_normal)
qed

lemma subjectsMatch_parts:
  "mset (map (subject_normal \<circ> subjectAC_parts) ds) = mset (map (subject_normal \<circ> subjectAC_parts) ds') \<Longrightarrow>
   subjectsMatch es ds \<longleftrightarrow> subjectsMatch es ds'"
proof -
  assume eq: "mset (map (subject_normal \<circ> subjectAC_parts) ds) = mset (map (subject_normal \<circ> subjectAC_parts) ds')"
  have key: "map subjectACKey xs = map subject_text (map (subject_normal \<circ> subjectAC_parts) xs)" for xs
    by (simp add: subjectACKey_def subjectAC_parts_def subjectKey_text)
  have "length ds = length ds'" using arg_cong [OF eq, of size] by simp
  moreover have "sort (map subjectACKey ds) = sort (map subjectACKey ds')"
    unfolding sort_eq_iff key mset_map [of subject_text] eq ..
  ultimately show ?thesis by (simp add: subjectsMatch_def)
qed

subsection \<open>Owner references\<close>

lemma ownerRefsMatch_found:
  assumes "ownerRefsMatch existing [OwnerReferenceWith av k n uid ctrl block]"
  shows "\<exists>e \<in> set existing. or_APIVersion e = av \<and> or_Kind e = k \<and> or_Name e = n \<and> or_UID e = uid \<and>
    or_Controller e = Some ctrl \<and> or_BlockOwnerDeletion e = Some block"
proof -
  obtain e where e: "find (\<lambda>e. or_UID e = uid) existing = Some e"
    and m: "ownerRefMatches (OwnerReferenceWith av k n uid ctrl block) e"
    using assms by (auto simp: ownerRefsMatch_def OwnerReferenceWith_def split: option.splits)
  have "e \<in> set existing" "or_UID e = uid" using e by (auto simp: find_Some_iff)
  then show ?thesis using m by (intro bexI [of _ e]) (simp_all add: ownerRefMatches_def OwnerReferenceWith_def)
qed

lemma mapContains_iff:
  assumes "mwf desired"
  shows "mapContains existing desired \<longleftrightarrow> map_of desired \<subseteq>\<^sub>m map_of existing"
proof -
  have "mapContains existing desired \<longleftrightarrow> (\<forall>k v. map_of desired k = Some v \<longrightarrow> map_of existing k = Some v)"
    unfolding mapContains_def list_all_iff using assms by (auto simp: in_mwf)
  then show ?thesis by (auto simp: map_le_def dom_def)
qed

section \<open>Properties\<close>

lemma mcopy_Nil_lookup: "mwf ls \<Longrightarrow> map_of (if length ls > 0 then mcopy [] ls else []) = map_of ls"
  by (rule ext) (auto simp: mcopy_lookup split: option.splits)

lemma mapContains_copy:
  "mwf ls \<Longrightarrow> mapContains existing (if length ls > 0 then mcopy [] ls else []) \<longleftrightarrow> map_of ls \<subseteq>\<^sub>m map_of existing"
  using mapContains_iff [of "if length ls > 0 then mcopy [] ls else []" existing] mcopy_Nil_lookup [of ls]
  by (cases "ls = []") simp_all

text \<open>
  The check whether a live Role already is as desired decides exactly
  this: every desired label has its value, and the rules are the same multiset up to the order inside each
  rule. No difference that matters to authorization is overlooked and no order makes it apply again. (The
  entries contain no comma and no bar; one empty entry counts as no entry.)
\<close>

theorem role_comparison_exact:
  assumes "list_all rule_plain (role_Rules existing)" and "list_all rule_plain rules" and "mwf ls"
  shows "roleMatches existing (RoleWithLabelsAndRules name namespace ls rules) \<longleftrightarrow>
    map_of ls \<subseteq>\<^sub>m map_of (role_Labels existing) \<and>
    mset (map rule_normal (role_Rules existing)) = mset (map rule_normal rules)"
  using policyRulesMatch_iff [OF assms(1, 2)] mapContains_copy [OF assms(3)]
  by (simp add: roleMatches_def RoleWithLabelsAndRules_def mapContains_def [of _ "[]"] ownerRefsMatch_def)

definition get_rule :: "string list \<Rightarrow> PolicyRule" where
  "get_rule verbs = \<lparr>pr_Verbs = verbs, pr_APIGroups = [''''], pr_Resources = [''pods''], pr_ResourceNames = [],
     pr_NonResourceURLs = []\<rparr>"

definition live_role :: rbac_role where
  "live_role = \<lparr>role_Labels = [(''team'', ''a''), (''x'', ''y'')], role_Annotations = [], role_OwnerReferences = [],
     role_AggregationRule = None, role_Rules = [get_rule [''list'', ''get''], get_rule [''watch'']]\<rparr>"

theorem role_comparison_exact_witness:
  "roleMatches live_role (RoleWithLabelsAndRules ''r'' ''n'' [(''team'', ''a'')]
     [get_rule [''watch''], get_rule [''get'', ''list'']])"
proof -
  have "list_all rule_plain (role_Rules live_role)" "list_all rule_plain [get_rule [''watch''], get_rule [''get'', ''list'']]"
    "mwf [(''team'', ''a'')]" by code_simp+
  from role_comparison_exact [OF this, of "''r''" "''n''"] show ?thesis
    by (simp add: live_role_def get_rule_def rule_normal_def entry_list_def map_le_def add_mset_commute)
qed

text \<open>
  A live RoleBinding is taken as up to date exactly when the desired
  labels are there, the role reference is the same and the subjects are the same multiset, users and groups
  taken in their default API group; sorting the subjects for the request does not change the answer.
\<close>

theorem binding_comparison_exact:
  assumes "list_all (subject_plain \<circ> subject_parts) (bnd_Subjects existing)"
    and "list_all (subject_plain \<circ> subject_parts) subjects" and "mwf ls"
  shows "(roleBindingMatches existing (RoleBindingWithSubjectsAndRoleRef name namespace ls subjects roleRef) \<longleftrightarrow>
      map_of ls \<subseteq>\<^sub>m map_of (bnd_Labels existing) \<and> bnd_RoleRef existing = roleRef \<and>
      mset (map (subject_normal \<circ> subject_parts) (bnd_Subjects existing)) =
        mset (map (subject_normal \<circ> subject_parts) subjects)) \<and>
    (\<forall>ac subjects' refs'. normalizeBindingApplyConfiguration ms mo (bac_Subjects ac) refs = Inr (subjects', refs') \<longrightarrow>
      roleBindingMatches existing (ac\<lparr>bac_Subjects := subjects'\<rparr>) = roleBindingMatches existing ac)"
proof -
  let ?ds = "map (\<lambda>subject. the (SubjectFrom (Some subject))) subjects"
  have plain: "list_all subject_plain (map subject_parts (bnd_Subjects existing))"
    "list_all subject_plain (map subjectAC_parts ?ds)"
    using assms(1, 2) by (simp_all add: list_all_iff SubjectFrom_parts)
  have parts: "map (subject_normal \<circ> subjectAC_parts) ?ds = map (subject_normal \<circ> subject_parts) subjects"
    by (simp add: SubjectFrom_parts)
  have "roleRefMatches (bnd_RoleRef existing) (RoleRefFrom (Some roleRef)) \<longleftrightarrow> bnd_RoleRef existing = roleRef"
    by (cases "bnd_RoleRef existing"; cases roleRef) (auto simp: roleRefMatches_def RoleRefFrom_def)
  then have "roleBindingMatches existing (RoleBindingWithSubjectsAndRoleRef name namespace ls subjects roleRef) \<longleftrightarrow>
      map_of ls \<subseteq>\<^sub>m map_of (bnd_Labels existing) \<and> bnd_RoleRef existing = roleRef \<and>
      mset (map (subject_normal \<circ> subject_parts) (bnd_Subjects existing)) =
        mset (map (subject_normal \<circ> subject_parts) subjects)"
    using subjectsMatch_iff [OF plain, unfolded parts] mapContains_copy [OF assms(3)]
    by (simp add: roleBindingMatches_def RoleBindingWithSubjectsAndRoleRef_def mapContains_def [of _ "[]"]
        ownerRefsMatch_def)
  moreover have "roleBindingMatches existing (ac\<lparr>bac_Subjects := subjects'\<rparr>) = roleBindingMatches existing ac"
    if "normalizeBindingApplyConfiguration ms mo (bac_Subjects ac) refs = Inr (subjects', refs')" for ac subjects' refs'
    using subjectsMatch_parts [OF normalized_subjects [OF that]] by (simp add: roleBindingMatches_def)
  ultimately show ?thesis by blast
qed

definition user_subject :: "string \<Rightarrow> string \<Rightarrow> Subject" where
  "user_subject grp n = \<lparr>subj_Kind = UserKind, subj_APIGroup = grp, subj_Name = n, subj_Namespace = ''''\<rparr>"

definition view_ref :: RoleRef where
  "view_ref = \<lparr>rref_APIGroup = rbacGroupName, rref_Kind = ''ClusterRole'', rref_Name = ''view''\<rparr>"

definition live_binding :: rbac_binding where
  "live_binding = \<lparr>bnd_Labels = [(''team'', ''a'')], bnd_Annotations = [], bnd_OwnerReferences = [],
     bnd_RoleRef = view_ref, bnd_Subjects = [user_subject rbacGroupName ''bob'', user_subject rbacGroupName ''ann'']\<rparr>"

theorem binding_comparison_exact_witness:
  "roleBindingMatches live_binding (RoleBindingWithSubjectsAndRoleRef ''b'' ''n'' [(''team'', ''a'')]
     [user_subject '''' ''ann'', user_subject rbacGroupName ''bob''] view_ref)"
proof -
  have plain: "list_all (subject_plain \<circ> subject_parts) (bnd_Subjects live_binding)"
    "list_all (subject_plain \<circ> subject_parts) [user_subject '''' ''ann'', user_subject rbacGroupName ''bob'']"
    "mwf [(''team'', ''a'')]" by code_simp+
  have "subject_normal (subject_parts (user_subject '''' n)) = subject_normal (subject_parts (user_subject rbacGroupName n))" for n
    by (simp add: subject_normal_def subject_parts_def user_subject_def rbacGroupName_def)
  with binding_comparison_exact [OF plain, of "''b''" "''n''" view_ref] show ?thesis
    by (simp add: live_binding_def map_le_def add_mset_commute)
qed

end
