(* ===== verification/Cluster_State.thy ===== *)
theory Cluster_State
  imports Apply_Config Conditions
begin

text \<open>
  What the reconcilers share: Go errors with their classification, owner references
  (\<^verbatim>\<open>internal/controller/authorization/binddefinition_helpers.go\<close>), the roles of the cluster and the requests
  to the API server (\<^verbatim>\<open>restricted_helpers.go\<close>, \<^verbatim>\<open>pkg/ssa/patchhelper.go\<close>).
\<close>

section \<open>Errors\<close>

text \<open>
  An error with the causes it wraps, outermost first: API status errors by their reason, and the two
  context errors. \<open>wrapf\<close> is \<^verbatim>\<open>fmt.Errorf\<close> with \<^verbatim>\<open>%w\<close>, \<open>errors_Join\<close> is \<^verbatim>\<open>errors.Join\<close>.
\<close>

datatype cause = APIStatus string | DeadlineExceeded | Canceled

record go_error =
  ge_causes :: "cause list"
  ge_text :: msg

definition errorf :: "msg \<Rightarrow> go_error" where
  "errorf m = \<lparr>ge_causes = [], ge_text = m\<rparr>"

definition wrapf :: "msg \<Rightarrow> go_error \<Rightarrow> go_error" where
  "wrapf m err = err\<lparr>ge_text := m @ [Lit '': ''] @ ge_text err\<rparr>"

definition errors_Join :: "go_error \<Rightarrow> go_error \<Rightarrow> go_error" where
  "errors_Join e1 e2 = \<lparr>ge_causes = ge_causes e1 @ ge_causes e2, ge_text = ge_text e1 @ [Lit [CHR 0x0A]] @ ge_text e2\<rparr>"

text \<open>\<^verbatim>\<open>apierrors.ReasonForError\<close>: the reason of the first API status in the error.\<close>

definition ReasonForError :: "go_error \<Rightarrow> string" where
  "ReasonForError err =
     (case List.find (\<lambda>c. case c of APIStatus r \<Rightarrow> True | _ \<Rightarrow> False) (ge_causes err) of
        Some (APIStatus r) \<Rightarrow> r | _ \<Rightarrow> '''')"

definition IsNotFound :: "go_error \<Rightarrow> bool" where "IsNotFound err \<longleftrightarrow> ReasonForError err = ''NotFound''"
definition IsForbidden :: "go_error \<Rightarrow> bool" where "IsForbidden err \<longleftrightarrow> ReasonForError err = ''Forbidden''"
definition IsConflict :: "go_error \<Rightarrow> bool" where "IsConflict err \<longleftrightarrow> ReasonForError err = ''Conflict''"

definition stalledErrorDetail :: "go_error option \<Rightarrow> string" where
  "stalledErrorDetail errp =
     (case errp of
        None \<Rightarrow> ''check operator logs for details''
      | Some err \<Rightarrow>
          if IsForbidden err then ''authorization denied (check operator logs for details)''
          else if IsNotFound err then ''required resource not found (check operator logs for details)''
          else if IsConflict err then ''resource update conflict (check operator logs for details)''
          else if DeadlineExceeded \<in> set (ge_causes err)
          then ''reconciliation timed out (check operator logs for details)''
          else if Canceled \<in> set (ge_causes err)
          then ''reconciliation canceled (check operator logs for details)''
          else ''unexpected error (check operator logs for details)'')"

section \<open>Owners\<close>

datatype owner_type = BindDefinitionType | RoleDefinitionType | RestrictedBindDefinitionType
  | RestrictedRoleDefinitionType | OtherType

text \<open>An owner: the API version and kind of its type metadata, which a read leaves empty, and its identity.\<close>

record owner_object =
  ow_TypeMeta :: "string \<times> string"
  ow_Type :: owner_type
  ow_Name :: string
  ow_UID :: string

definition GroupVersionString :: string where "GroupVersionString = ''authorization.t-caas.telekom.com/v1alpha1''"
definition RestrictedBindDefinitionKind :: string where "RestrictedBindDefinitionKind = ''RestrictedBindDefinition''"
definition RestrictedRoleDefinitionKind :: string where "RestrictedRoleDefinitionKind = ''RestrictedRoleDefinition''"

definition RestrictedBindDefinitionFinalizer :: string where
  "RestrictedBindDefinitionFinalizer = ''restrictedbinddefinition.authorization.t-caas.telekom.com/finalizer''"
definition RestrictedRoleDefinitionFinalizer :: string where
  "RestrictedRoleDefinitionFinalizer = ''restrictedroledefinition.authorization.t-caas.telekom.com/finalizer''"

definition ownerReferenceIdentity :: "owner_object \<Rightarrow> string \<times> string" where
  "ownerReferenceIdentity owner =
     (if fst (ow_TypeMeta owner) \<noteq> '''' \<and> snd (ow_TypeMeta owner) \<noteq> '''' then ow_TypeMeta owner
      else
        (case ow_Type owner of
           BindDefinitionType \<Rightarrow> (GroupVersionString, ''BindDefinition'')
         | RoleDefinitionType \<Rightarrow> (GroupVersionString, ''RoleDefinition'')
         | RestrictedBindDefinitionType \<Rightarrow> (GroupVersionString, RestrictedBindDefinitionKind)
         | RestrictedRoleDefinitionType \<Rightarrow> (GroupVersionString, RestrictedRoleDefinitionKind)
         | OtherType \<Rightarrow> ('''', '''')))"

definition hasOwnerRefMatching :: "OwnerReference list \<Rightarrow> owner_object \<Rightarrow> bool \<Rightarrow> bool" where
  "hasOwnerRefMatching refs owner requireController =
     (let (ownerAPIVersion, ownerKind) = ownerReferenceIdentity owner in
      if ow_UID owner = '''' \<or> ownerAPIVersion = '''' \<or> ownerKind = '''' \<or> ow_Name owner = '''' then False
      else list_ex (\<lambda>ref.
        \<not> (or_APIVersion ref \<noteq> ownerAPIVersion \<or> or_Kind ref \<noteq> ownerKind \<or> or_Name ref \<noteq> ow_Name owner \<or>
           or_UID ref \<noteq> ow_UID owner) \<and>
        (requireController \<longrightarrow> or_Controller ref = Some True)) refs)"

definition hasOwnerRef :: "OwnerReference list \<Rightarrow> owner_object \<Rightarrow> bool" where
  "hasOwnerRef refs owner = hasOwnerRefMatching refs owner False"

definition hasControllerOwnerRef :: "OwnerReference list \<Rightarrow> owner_object \<Rightarrow> bool" where
  "hasControllerOwnerRef refs owner = hasOwnerRefMatching refs owner True"

definition removeOwnerRef :: "OwnerReference list \<Rightarrow> owner_object \<Rightarrow> bool \<times> OwnerReference list" where
  "removeOwnerRef refs owner =
     (let (ownerAPIVersion, ownerKind) = ownerReferenceIdentity owner in
      if ow_UID owner = '''' \<or> ownerAPIVersion = '''' \<or> ownerKind = '''' \<or> ow_Name owner = '''' then (False, refs)
      else
        let ownerRefs = filter (\<lambda>ref. \<not> (or_APIVersion ref = ownerAPIVersion \<and> or_Kind ref = ownerKind \<and>
              or_Name ref = ow_Name owner \<and> or_UID ref = ow_UID owner)) refs in
        if length ownerRefs = length refs then (False, refs) else (True, ownerRefs))"

definition ownerRefForRestricted :: "string \<Rightarrow> string \<Rightarrow> string \<Rightarrow> OwnerReferenceAC" where
  "ownerRefForRestricted name uid kind = OwnerReferenceWith GroupVersionString kind name uid True False"

definition isOwnedByRestrictedBindDefinition :: "OwnerReference list \<Rightarrow> bool" where
  "isOwnedByRestrictedBindDefinition refs =
     list_ex (\<lambda>ref. or_Kind ref = RestrictedBindDefinitionKind \<and> or_APIVersion ref = GroupVersionString) refs"

definition findOwningRBDRef :: "OwnerReference list \<Rightarrow> OwnerReference option" where
  "findOwningRBDRef refs =
     List.find (\<lambda>ref. or_Kind ref = RestrictedBindDefinitionKind \<and> or_APIVersion ref = GroupVersionString) refs"

section \<open>The roles of the cluster\<close>

datatype role_key = ClusterRoleKey string | RoleKey string string

type_synonym role_store = "role_key \<Rightarrow> rbac_role option"

datatype 'a read = Missing | ReadError go_error | Got 'a

text \<open>
  The requests of a reconciliation. Whether one fails, and how, is the environment's choice: a function
  from requests to errors. A failed request changes nothing, except that a deletion or patch that answers
  NotFound finds the object gone. A read fails with any error but NotFound, which only a missing object has.
\<close>

datatype api_call = GetDefinition | EnsureFinalizer | RemoveFinalizer | GetPolicy | ReadLabels
  | DeprovisionGet | DeprovisionDelete | StatusApply | OwnershipGet | NormalizeGet | NormalizePatch
  | ClearGet | ClearPatch | PruneGet | PrunePatch | LegacyGet | ApplyRole | RetryApply | StatusGet | StatusClear

type_synonym failures = "api_call \<Rightarrow> go_error option"

definition server_read :: "('c \<Rightarrow> go_error option) \<Rightarrow> 'c \<Rightarrow> 'a option \<Rightarrow> 'a read" where
  "server_read fail call stored =
     (case fail call of
        Some err \<Rightarrow> if IsNotFound err then (case stored of None \<Rightarrow> Missing | Some x \<Rightarrow> Got x) else ReadError err
      | None \<Rightarrow> (case stored of None \<Rightarrow> Missing | Some x \<Rightarrow> Got x))"

definition server_write ::
  "('c \<Rightarrow> go_error option) \<Rightarrow> 'c \<Rightarrow> 'k \<Rightarrow> 'v option \<Rightarrow> ('k \<Rightarrow> 'v option) \<Rightarrow> go_error option \<times> ('k \<Rightarrow> 'v option)" where
  "server_write fail call key new s =
     (case fail call of
        None \<Rightarrow> (None, s(key := new))
      | Some err \<Rightarrow> (Some err, if IsNotFound err then s(key := None) else s))"

lemma server_read_Got: "server_read fail call stored = Got x \<Longrightarrow> stored = Some x"
  by (auto simp: server_read_def split: option.splits if_splits)

lemma server_read_Missing: "server_read fail call stored = Missing \<Longrightarrow> stored = None"
  by (auto simp: server_read_def split: option.splits if_splits)

lemma server_read_ok: "fail call = None \<Longrightarrow>
    server_read fail call stored = (case stored of None \<Rightarrow> Missing | Some x \<Rightarrow> Got x)"
  by (simp add: server_read_def)

lemma server_write_frame: "k \<noteq> key \<Longrightarrow> snd (server_write fail call key new s) k = s k"
  by (auto simp: server_write_def split: option.splits)

lemma server_write_ok: "fst (server_write fail call key new s) = None \<Longrightarrow>
    snd (server_write fail call key new s) = s(key := new)"
  by (auto simp: server_write_def split: option.splits)

end
