(* ===== verification/Role_Apply.thy ===== *)
theory Role_Apply
  imports Cluster_State
begin

text \<open>
  Writing roles: the ownership check in front of every write (\<^verbatim>\<open>restricted_helpers.go\<close>), the pruning of
  labels and the server-side apply (\<^verbatim>\<open>pkg/ssa/patchhelper.go\<close>).

  The merge of an apply configuration into the live object is the API server's (server-side apply with
  forced ownership): it is a parameter, and \<open>ssa_merges\<close> states what the Kubernetes documentation
  promises of it. Whether the library skips an unforced apply is a parameter too.
\<close>

section \<open>Ownership\<close>

definition checkRestrictedRoleOwnership ::
  "failures \<Rightarrow> role_store \<Rightarrow> owner_object \<Rightarrow> string \<Rightarrow> string \<Rightarrow> string \<Rightarrow> go_error option" where
  "checkRestrictedRoleOwnership fail s owner targetRole targetName targetNamespace =
     (let check = (\<lambda>key.
        case server_read fail OwnershipGet (s key) of
          Missing \<Rightarrow> None
        | ReadError err \<Rightarrow> Some (wrapf [Lit ''check existing '', Lit targetRole, Lit '' '', Lit targetNamespace,
            Lit ''/'', Lit targetName] err)
        | Got existing \<Rightarrow>
            if hasControllerOwnerRef (role_OwnerReferences existing) owner then None
            else
              (case List.find (\<lambda>ref. or_Controller ref = Some True \<and> or_UID ref \<noteq> ow_UID owner)
                      (role_OwnerReferences existing) of
                 Some ref \<Rightarrow> Some (errorf [Lit ''target '', Lit targetRole, Lit '' '', Lit targetName,
                   Lit '' is already controlled by '', Lit (or_Kind ref), Lit '' '', Lit (or_Name ref),
                   Lit '' (UID: '', Lit (or_UID ref), Lit '')''])
               | None \<Rightarrow> Some (errorf [Lit ''target '', Lit targetRole, Lit '' '', Lit targetName,
                   Lit '' already exists and is not owned by RestrictedRoleDefinition '', Lit (ow_Name owner),
                   Lit '' (UID: '', Lit (ow_UID owner), Lit '')'']))) in
      if targetRole = DefinitionClusterRole then check (ClusterRoleKey targetName)
      else if targetRole = DefinitionNamespacedRole then check (RoleKey targetNamespace targetName)
      else Some (errorf [Lit ''unknown targetRole '', Quo targetRole]))"

section \<open>Server-side apply\<close>

type_synonym ssa_api = "role_ac \<Rightarrow> rbac_role option \<Rightarrow> rbac_role"

definition owner_live :: "OwnerReferenceAC \<Rightarrow> OwnerReference" where
  "owner_live d = \<lparr>or_APIVersion = deref (orac_APIVersion d), or_Kind = deref (orac_Kind d),
     or_Name = deref (orac_Name d), or_UID = deref (orac_UID d), or_Controller = orac_Controller d,
     or_BlockOwnerDeletion = orac_BlockOwnerDeletion d\<rparr>"

text \<open>
  Declared fields get the declared value; undeclared ones keep the live value or, if this manager owned
  them before, go away. Rules are one atomic list; owner references are merged by UID.
\<close>

definition ssa_merges :: "ssa_api \<Rightarrow> bool" where
  "ssa_merges ssa \<longleftrightarrow> (\<forall>ac live.
     (let r = ssa ac live in
      (rac_Rules ac \<noteq> [] \<longrightarrow> role_Rules r = rac_Rules ac) \<and>
      (rac_Rules ac = [] \<longrightarrow> role_Rules r = [] \<or> (\<exists>l. live = Some l \<and> role_Rules r = role_Rules l)) \<and>
      (\<forall>k. map_of (rac_Labels ac) k \<noteq> None \<longrightarrow> map_of (role_Labels r) k = map_of (rac_Labels ac) k) \<and>
      (\<forall>k x. map_of (rac_Labels ac) k = None \<longrightarrow> map_of (role_Labels r) k = Some x \<longrightarrow>
         (\<exists>l. live = Some l \<and> map_of (role_Labels l) k = Some x)) \<and>
      (\<forall>d \<in> set (rac_OwnerReferences ac). owner_live d \<in> set (role_OwnerReferences r)) \<and>
      (rac_AggregationRule ac = None \<longrightarrow> role_AggregationRule r = None \<or>
         (\<exists>l. live = Some l \<and> role_AggregationRule r = role_AggregationRule l))))"

datatype PatchApplyResult = PatchApplyResultSkipped | PatchApplyResultCreated | PatchApplyResultPatched

definition role_ac_key :: "role_ac \<Rightarrow> role_key" where
  "role_ac_key ac = (case rac_Namespace ac of None \<Rightarrow> ClusterRoleKey (rac_Name ac) | Some ns \<Rightarrow> RoleKey ns (rac_Name ac))"

definition server_apply ::
  "failures \<Rightarrow> api_call \<Rightarrow> ssa_api \<Rightarrow> role_ac \<Rightarrow> role_store \<Rightarrow> (go_error + PatchApplyResult) \<times> role_store" where
  "server_apply fail call ssa ac s =
     (case fail call of
        Some err \<Rightarrow> (Inl err, s)
      | None \<Rightarrow> (Inr (if s (role_ac_key ac) = None then PatchApplyResultCreated else PatchApplyResultPatched),
          s(role_ac_key ac \<mapsto> ssa ac (s (role_ac_key ac)))))"

text \<open>The library's \<^verbatim>\<open>Applier.PatchApply\<close>: it may skip an apply that is not \<open>always\<close> sent.\<close>

definition PatchApply ::
  "failures \<Rightarrow> ssa_api \<Rightarrow> (role_ac \<Rightarrow> rbac_role option \<Rightarrow> bool) \<Rightarrow> role_ac \<Rightarrow> bool \<Rightarrow> role_store
    \<Rightarrow> (go_error + PatchApplyResult) \<times> role_store" where
  "PatchApply fail ssa skips ac always s =
     (if \<not> always \<and> skips ac (s (role_ac_key ac)) then (Inr PatchApplyResultSkipped, s)
      else server_apply fail ApplyRole ssa ac s)"

definition patchApplyRoleWithLegacySkip ::
  "failures \<Rightarrow> ssa_api \<Rightarrow> (role_ac \<Rightarrow> rbac_role option \<Rightarrow> bool) \<Rightarrow> (rbac_role \<Rightarrow> role_ac \<Rightarrow> bool) \<Rightarrow> string
    \<Rightarrow> role_ac \<Rightarrow> bool \<Rightarrow> bool \<Rightarrow> bool \<Rightarrow> role_store \<Rightarrow> (go_error + PatchApplyResult) \<times> role_store" where
  "patchApplyRoleWithLegacySkip fail ssa skips matches kind ac always preconditions force s =
     (if \<not> always \<and> \<not> preconditions \<and> \<not> force \<and> rac_Name ac \<noteq> '''' \<and> rac_Namespace ac \<noteq> Some '''' then
        (case server_read fail LegacyGet (s (role_ac_key ac)) of
           ReadError err \<Rightarrow> (Inl (wrapf [Lit ''get '', Lit kind, Lit '' '', Lit (rac_Name ac)] err), s)
         | Missing \<Rightarrow> PatchApply fail ssa skips ac always s
         | Got existing \<Rightarrow>
             if matches existing ac then (Inr PatchApplyResultSkipped, s)
             else PatchApply fail ssa skips ac always s)
      else PatchApply fail ssa skips ac always s)"

definition pruneClusterRoleLabels ::
  "failures \<Rightarrow> role_key \<Rightarrow> rbac_role \<Rightarrow> labels \<Rightarrow> (string \<Rightarrow> bool) \<Rightarrow> role_store
    \<Rightarrow> (go_error + bool) \<times> rbac_role \<times> role_store" where
  "pruneClusterRoleLabels fail key existing desired shouldPrune s =
     (let kept = filter (\<lambda>(k, v). \<not> (map_of desired k = None \<and> shouldPrune k)) (role_Labels existing);
          pruned = existing\<lparr>role_Labels := kept\<rparr> in
      if length (role_Labels existing) = length kept then (Inr False, existing, s)
      else
        (case server_write fail PrunePatch key (Some pruned) s of
           (Some err, s') \<Rightarrow> (Inl (wrapf [Lit ''prune ClusterRole labels''] err), pruned, s')
         | (None, s') \<Rightarrow> (Inr True, pruned, s')))"

text \<open>After a conflict the apply is retried; \<open>RetryApply\<close> stands for the outcome of the retries.\<close>

definition patchApplyClusterRoleAfterPruneConflict ::
  "failures \<Rightarrow> ssa_api \<Rightarrow> role_ac \<Rightarrow> role_store \<Rightarrow> (go_error + PatchApplyResult) \<times> role_store" where
  "patchApplyClusterRoleAfterPruneConflict fail ssa ac s =
     (case server_apply fail RetryApply ssa ac s of
        (Inr result, s') \<Rightarrow> (Inr PatchApplyResultPatched, s')
      | (Inl err, s') \<Rightarrow> (Inl (wrapf [Lit ''patch ClusterRole '', Lit (rac_Name ac)] err), s'))"

definition patchApplyClusterRole ::
  "failures \<Rightarrow> ssa_api \<Rightarrow> (role_ac \<Rightarrow> rbac_role option \<Rightarrow> bool) \<Rightarrow> role_ac \<Rightarrow> (string \<Rightarrow> bool) option \<Rightarrow> bool \<Rightarrow> bool
    \<Rightarrow> role_store \<Rightarrow> (go_error + PatchApplyResult) \<times> role_store" where
  "patchApplyClusterRole fail ssa skips ac shouldPrune always force s =
     (let finish = (\<lambda>pruned s'.
        case patchApplyRoleWithLegacySkip fail ssa skips clusterRoleMatches ''ClusterRole'' ac (always \<or> pruned)
               False force s' of
          (Inl err, s'') \<Rightarrow>
            if pruned \<and> IsConflict err then patchApplyClusterRoleAfterPruneConflict fail ssa ac s''
            else (Inl err, s'')
        | (Inr result, s'') \<Rightarrow> (Inr result, s'')) in
      case shouldPrune of
        None \<Rightarrow> finish False s
      | Some prune \<Rightarrow>
          if rac_Name ac = '''' then finish False s
          else
            (case server_read fail PruneGet (s (role_ac_key ac)) of
               ReadError err \<Rightarrow> (Inl (wrapf [Lit ''get ClusterRole '', Lit (rac_Name ac)] err), s)
             | Missing \<Rightarrow> finish False s
             | Got existing \<Rightarrow>
                 (case pruneClusterRoleLabels fail (role_ac_key ac) existing (rac_Labels ac) prune s of
                    (Inl err, existing', s') \<Rightarrow> (Inl err, s')
                  | (Inr pruned, existing', s') \<Rightarrow>
                      if pruned \<and> \<not> always \<and> \<not> force \<and> clusterRoleMatches existing' ac
                      then
                        (case PatchApply fail ssa skips ac False s' of
                           (Inr PatchApplyResultSkipped, s'') \<Rightarrow> (Inr PatchApplyResultPatched, s'')
                         | res \<Rightarrow> res)
                      else finish pruned s')))"

definition PatchApplyClusterRole ::
  "failures \<Rightarrow> ssa_api \<Rightarrow> (role_ac \<Rightarrow> rbac_role option \<Rightarrow> bool) \<Rightarrow> role_ac \<Rightarrow> bool \<Rightarrow> role_store
    \<Rightarrow> (go_error + PatchApplyResult) \<times> role_store" where
  "PatchApplyClusterRole fail ssa skips ac force s = patchApplyClusterRole fail ssa skips ac None False force s"

definition PatchApplyClusterRoleAlways ::
  "failures \<Rightarrow> ssa_api \<Rightarrow> (role_ac \<Rightarrow> rbac_role option \<Rightarrow> bool) \<Rightarrow> role_ac \<Rightarrow> bool \<Rightarrow> role_store
    \<Rightarrow> (go_error + PatchApplyResult) \<times> role_store" where
  "PatchApplyClusterRoleAlways fail ssa skips ac force s = patchApplyClusterRole fail ssa skips ac None True force s"

definition PatchApplyClusterRolePruningLabels ::
  "failures \<Rightarrow> ssa_api \<Rightarrow> (role_ac \<Rightarrow> rbac_role option \<Rightarrow> bool) \<Rightarrow> role_ac \<Rightarrow> (string \<Rightarrow> bool) \<Rightarrow> bool
    \<Rightarrow> role_store \<Rightarrow> (go_error + PatchApplyResult) \<times> role_store" where
  "PatchApplyClusterRolePruningLabels fail ssa skips ac shouldPruneLabel force s =
     patchApplyClusterRole fail ssa skips ac (Some shouldPruneLabel) False force s"

definition PatchApplyClusterRolePruningLabelsAlways ::
  "failures \<Rightarrow> ssa_api \<Rightarrow> (role_ac \<Rightarrow> rbac_role option \<Rightarrow> bool) \<Rightarrow> role_ac \<Rightarrow> (string \<Rightarrow> bool) \<Rightarrow> bool
    \<Rightarrow> role_store \<Rightarrow> (go_error + PatchApplyResult) \<times> role_store" where
  "PatchApplyClusterRolePruningLabelsAlways fail ssa skips ac shouldPruneLabel force s =
     patchApplyClusterRole fail ssa skips ac (Some shouldPruneLabel) True force s"

definition PatchApplyRole ::
  "failures \<Rightarrow> ssa_api \<Rightarrow> (role_ac \<Rightarrow> rbac_role option \<Rightarrow> bool) \<Rightarrow> role_ac \<Rightarrow> bool \<Rightarrow> role_store
    \<Rightarrow> (go_error + PatchApplyResult) \<times> role_store" where
  "PatchApplyRole fail ssa skips ac force s =
     patchApplyRoleWithLegacySkip fail ssa skips roleMatches ''Role'' ac False False force s"

definition PatchApplyRoleAlways ::
  "failures \<Rightarrow> ssa_api \<Rightarrow> (role_ac \<Rightarrow> rbac_role option \<Rightarrow> bool) \<Rightarrow> role_ac \<Rightarrow> role_store
    \<Rightarrow> (go_error + PatchApplyResult) \<times> role_store" where
  "PatchApplyRoleAlways fail ssa skips ac s = PatchApply fail ssa skips ac True s"

section \<open>Frame and effect\<close>

lemma server_apply_frame: "k \<noteq> role_ac_key ac \<Longrightarrow> snd (server_apply fail call ssa ac s) k = s k"
  by (auto simp: server_apply_def split: option.splits)

lemma PatchApply_always: "PatchApply fail ssa skips ac True s = server_apply fail ApplyRole ssa ac s"
  by (simp add: PatchApply_def)

lemma legacy_always:
  "patchApplyRoleWithLegacySkip fail ssa skips m kind ac True pre force s = server_apply fail ApplyRole ssa ac s"
  by (simp add: patchApplyRoleWithLegacySkip_def PatchApply_always)

text \<open>An apply that is always sent, with the retry after a conflict: one merge at the key, or no change.\<close>

definition apply_or_retry ::
  "failures \<Rightarrow> ssa_api \<Rightarrow> role_ac \<Rightarrow> bool \<Rightarrow> role_store \<Rightarrow> (go_error + PatchApplyResult) \<times> role_store" where
  "apply_or_retry fail ssa ac pruned s =
     (case server_apply fail ApplyRole ssa ac s of
        (Inl err, s') \<Rightarrow>
          if pruned \<and> IsConflict err then patchApplyClusterRoleAfterPruneConflict fail ssa ac s' else (Inl err, s')
      | (Inr result, s') \<Rightarrow> (Inr result, s'))"

lemma apply_or_retry_cases:
  "apply_or_retry fail ssa ac pruned s = (res, s') \<Longrightarrow>
   (\<exists>err. res = Inl err) \<and> s' = s \<or>
   (\<exists>result. res = Inr result) \<and> s' = s(role_ac_key ac \<mapsto> ssa ac (s (role_ac_key ac)))"
  by (auto simp: apply_or_retry_def patchApplyClusterRoleAfterPruneConflict_def server_apply_def
      split: option.splits sum.splits if_splits)

lemma always_eq:
  "PatchApplyClusterRolePruningLabelsAlways fail ssa skips ac p force s =
     (if rac_Name ac = '''' then apply_or_retry fail ssa ac False s
      else
        (case server_read fail PruneGet (s (role_ac_key ac)) of
           ReadError err \<Rightarrow> (Inl (wrapf [Lit ''get ClusterRole '', Lit (rac_Name ac)] err), s)
         | Missing \<Rightarrow> apply_or_retry fail ssa ac False s
         | Got existing \<Rightarrow>
             (case pruneClusterRoleLabels fail (role_ac_key ac) existing (rac_Labels ac) p s of
                (Inl err, existing', s') \<Rightarrow> (Inl err, s')
              | (Inr pruned, existing', s') \<Rightarrow> apply_or_retry fail ssa ac pruned s')))"
  unfolding PatchApplyClusterRolePruningLabelsAlways_def patchApplyClusterRole_def Let_def
  by (simp add: legacy_always apply_or_retry_def cong: read.case_cong sum.case_cong prod.case_cong)

text \<open>What is under the key while a role is written: the role as it was, with fewer labels at most.\<close>

definition less_labelled :: "rbac_role option \<Rightarrow> rbac_role option \<Rightarrow> bool" where
  "less_labelled live stored \<longleftrightarrow> (\<forall>l. live = Some l \<longrightarrow> (\<exists>r. stored = Some r \<and> role_Rules l = role_Rules r \<and>
     role_AggregationRule l = role_AggregationRule r \<and> role_OwnerReferences l = role_OwnerReferences r \<and>
     set (role_Labels l) \<subseteq> set (role_Labels r)))"

lemma less_labelled_refl: "less_labelled x x"
  by (simp add: less_labelled_def)

lemma apply_or_retry_effect:
  assumes "apply_or_retry fail ssa ac pruned s1 = (res, s')" and "\<forall>k. k \<noteq> role_ac_key ac \<longrightarrow> s1 k = s k"
    and "less_labelled (s1 (role_ac_key ac)) (s (role_ac_key ac))"
  shows "(\<forall>k. k \<noteq> role_ac_key ac \<longrightarrow> s' k = s k) \<and>
    (case res of
       Inl err \<Rightarrow> less_labelled (s' (role_ac_key ac)) (s (role_ac_key ac))
     | Inr result \<Rightarrow> \<exists>live. s' (role_ac_key ac) = Some (ssa ac live) \<and> less_labelled live (s (role_ac_key ac)))"
  using apply_or_retry_cases [OF assms(1)]
proof (elim disjE conjE exE)
  fix result
  assume r: "res = Inr result" and s': "s' = s1(role_ac_key ac \<mapsto> ssa ac (s1 (role_ac_key ac)))"
  have "\<exists>live. s' (role_ac_key ac) = Some (ssa ac live) \<and> less_labelled live (s (role_ac_key ac))"
    by (rule exI [of _ "s1 (role_ac_key ac)"]) (simp add: s' assms(3))
  then show ?thesis using assms(2) by (simp add: r s')
qed (use assms(2, 3) in simp)

lemma prune_effect:
  assumes "pruneClusterRoleLabels fail key existing desired p s = (res, existing', s')" "s key = Some existing"
  shows "(\<forall>k. k \<noteq> key \<longrightarrow> s' k = s k) \<and> less_labelled (s' key) (s key)"
  using assms
  by (auto simp: pruneClusterRoleLabels_def Let_def server_write_def less_labelled_def split: if_splits option.splits)

lemma apply_clusterrole_always:
  assumes "PatchApplyClusterRolePruningLabelsAlways fail ssa skips ac p force s = (res, s')"
  shows "(\<forall>k. k \<noteq> role_ac_key ac \<longrightarrow> s' k = s k) \<and>
    (case res of
       Inl err \<Rightarrow> less_labelled (s' (role_ac_key ac)) (s (role_ac_key ac))
     | Inr result \<Rightarrow> \<exists>live. s' (role_ac_key ac) = Some (ssa ac live) \<and> less_labelled live (s (role_ac_key ac)))"
proof (cases "server_read fail PruneGet (s (role_ac_key ac))")
  case Missing
  then have "apply_or_retry fail ssa ac False s = (res, s')" using assms by (simp add: always_eq split: if_splits)
  from apply_or_retry_effect [OF this, of s] show ?thesis by (simp add: less_labelled_refl)
next
  case (ReadError err)
  show ?thesis
  proof (cases "rac_Name ac = ''''")
    case True
    then have "apply_or_retry fail ssa ac False s = (res, s')" using assms by (simp add: always_eq)
    from apply_or_retry_effect [OF this, of s] show ?thesis by (simp add: less_labelled_refl)
  next
    case False
    then show ?thesis using assms ReadError less_labelled_refl by (auto simp: always_eq)
  qed
next
  case (Got existing)
  then have stored: "s (role_ac_key ac) = Some existing" by (rule server_read_Got)
  show ?thesis
  proof (cases "rac_Name ac = ''''")
    case True
    then have "apply_or_retry fail ssa ac False s = (res, s')" using assms by (simp add: always_eq)
    from apply_or_retry_effect [OF this, of s] show ?thesis by (simp add: less_labelled_refl)
  next
    case False
    obtain r1 e1 s1 where pr: "pruneClusterRoleLabels fail (role_ac_key ac) existing (rac_Labels ac) p s = (r1, e1, s1)"
      by (metis prod_cases3)
    note frame = prune_effect [OF pr stored]
    show ?thesis
    proof (cases r1)
      case (Inl err)
      then show ?thesis using assms Got False pr frame by (auto simp: always_eq)
    next
      case (Inr pruned)
      then have "apply_or_retry fail ssa ac pruned s1 = (res, s')"
        using assms Got False pr by (simp add: always_eq)
      from apply_or_retry_effect [OF this, of s] frame show ?thesis by simp
    qed
  qed
qed

lemma apply_role_always:
  assumes "PatchApplyRoleAlways fail ssa skips ac s = (res, s')"
  shows "(\<forall>k. k \<noteq> role_ac_key ac \<longrightarrow> s' k = s k) \<and>
    (case res of
       Inl err \<Rightarrow> s' = s
     | Inr result \<Rightarrow> s' (role_ac_key ac) = Some (ssa ac (s (role_ac_key ac))))"
  using assms
  by (auto simp: PatchApplyRoleAlways_def PatchApply_always server_apply_def split: option.splits)

end
