(* ===== verification/Restricted_Lifecycle.thy ===== *)
theory Restricted_Lifecycle
  imports Cluster_State
begin

text \<open>
  The policy lifecycle the two restricted controllers share (\<^verbatim>\<open>restricted_helpers.go\<close>,
  \<^verbatim>\<open>restricted_policy_helper.go\<close>): evaluation errors, violations, and missing or deleting policies all end
  in deprovisioning. The callbacks of the Go configuration structs are fields of a record, over the object
  \<open>'o\<close> in memory and the state \<open>'w\<close> of the cluster; events, metrics and logs are left out.
\<close>

section \<open>Texts\<close>

text \<open>\<^verbatim>\<open>%q\<close> on ASCII.\<close>

definition hexDigit :: "nat \<Rightarrow> char" where
  "hexDigit n = char_of (if n < 10 then 48 + n else 87 + n)"

definition quoteChar :: "char \<Rightarrow> string" where
  "quoteChar c =
     (let n = of_char c :: nat in
      if n = 34 \<or> n = 92 then [CHR 0x5C, c]
      else if n = 7 then [CHR 0x5C, CHR ''a''] else if n = 8 then [CHR 0x5C, CHR ''b'']
      else if n = 9 then [CHR 0x5C, CHR ''t''] else if n = 10 then [CHR 0x5C, CHR ''n'']
      else if n = 11 then [CHR 0x5C, CHR ''v''] else if n = 12 then [CHR 0x5C, CHR ''f'']
      else if n = 13 then [CHR 0x5C, CHR ''r'']
      else if n < 32 \<or> n = 127 then [CHR 0x5C, CHR ''x'', hexDigit (n div 16), hexDigit (n mod 16)]
      else [c])"

definition itoaInt :: "int \<Rightarrow> string" where
  "itoaInt n = (if n < 0 then ''-'' @ itoa (nat (- n)) else itoa (nat n))"

fun render :: "msg \<Rightarrow> string" where
  "render [] = ''''"
| "render (Lit s # m) = s @ render m"
| "render (Quo s # m) = [CHR 0x22] @ concat (map quoteChar s) @ [CHR 0x22] @ render m"
| "render (Dec n # m) = itoaInt n @ render m"

section \<open>Condition constants\<close>

definition ReadyReasonReconciled :: string where "ReadyReasonReconciled = ''Reconciled''"
definition ReadyMessageReconciled :: string where "ReadyMessageReconciled = ''Resource is fully reconciled''"
definition ReconcilingReasonProgressing :: string where "ReconcilingReasonProgressing = ''Progressing''"
definition ReconcilingMessageProgressing :: string where
  "ReconcilingMessageProgressing = ''Controller is reconciling the resource''"
definition StalledReasonError :: string where "StalledReasonError = ''Error''"
definition StalledMessageError :: "string \<Rightarrow> string" where
  "StalledMessageError detail = ''Error during reconciliation: '' @ detail"
definition OwnerRefCondition :: string where "OwnerRefCondition = ''OwnerRef''"
definition OwnerRefReason :: string where "OwnerRefReason = ''ResourceOwnership''"
definition PolicyCompliantCondition :: string where "PolicyCompliantCondition = ''PolicyCompliant''"
definition PolicyCompliantReasonAllChecksPass :: string where "PolicyCompliantReasonAllChecksPass = ''AllChecksPass''"
definition PolicyCompliantMessageAllChecksPass :: string where
  "PolicyCompliantMessageAllChecksPass = ''All policy checks pass''"
definition PolicyCompliantReasonViolationsDetected :: string where
  "PolicyCompliantReasonViolationsDetected = ''ViolationsDetected''"
definition PolicyCompliantReasonPolicyNotFound :: string where "PolicyCompliantReasonPolicyNotFound = ''PolicyNotFound''"
definition PolicyCompliantReasonPolicyDeleting :: string where "PolicyCompliantReasonPolicyDeleting = ''PolicyDeleting''"
definition DeprovisionedReason :: string where "DeprovisionedReason = ''Deprovisioned''"

definition maxViolationsInMessage :: nat where "maxViolationsInMessage = 10"

section \<open>Results and callbacks\<close>

datatype ctrl_result = NoRequeue | RequeueNow | RequeueAfter nat

type_synonym outcome = "ctrl_result \<times> go_error option"

definition DefaultRequeueInterval :: nat where "DefaultRequeueInterval = 60"

record ('o, 'w) lifecycle =
  lc_ResourceName :: string
  lc_ResourceKind :: string
  lc_PolicyRefName :: string
  lc_Generation :: int
  lc_Now :: int
  lc_Evaluate :: "RBACPolicy \<Rightarrow> Violation list \<times> go_error option"
  lc_Deprovision :: "'o \<Rightarrow> 'w \<Rightarrow> go_error option \<times> 'o \<times> 'w"
  lc_MarkStalled :: "go_error \<Rightarrow> 'o \<Rightarrow> 'w \<Rightarrow> 'o \<times> 'w"
  lc_ApplyStatusAndMarkStalled :: "string \<Rightarrow> 'o \<Rightarrow> 'w \<Rightarrow> go_error option \<times> 'o \<times> 'w"
  lc_ApplyStatus :: "'o \<Rightarrow> 'w \<Rightarrow> go_error option \<times> 'w"
  lc_SetReconciled :: "bool \<Rightarrow> 'o \<Rightarrow> 'o"
  lc_SetPolicyViolations :: "msg list \<Rightarrow> 'o \<Rightarrow> 'o"
  lc_Conditions :: "(Condition list \<Rightarrow> Condition list) \<Rightarrow> 'o \<Rightarrow> 'o"

definition markConditionFalse :: "('o, 'w) lifecycle \<Rightarrow> string \<Rightarrow> string \<Rightarrow> string \<Rightarrow> 'o \<Rightarrow> 'o" where
  "markConditionFalse cfg t reason message obj =
     lc_Conditions cfg (\<lambda>cs. MarkFalse (lc_Now cfg) cs t (lc_Generation cfg) reason message) obj"

definition markPolicyEvaluationError :: "('o, 'w) lifecycle \<Rightarrow> go_error \<Rightarrow> 'o \<Rightarrow> 'o" where
  "markPolicyEvaluationError cfg err obj =
     markConditionFalse cfg PolicyCompliantCondition StalledReasonError
       (StalledMessageError (stalledErrorDetail (Some err))) obj"

definition markPolicyCompliant :: "('o, 'w) lifecycle \<Rightarrow> 'o \<Rightarrow> 'o" where
  "markPolicyCompliant cfg obj =
     lc_Conditions cfg (\<lambda>cs. MarkTrue (lc_Now cfg) cs PolicyCompliantCondition (lc_Generation cfg)
       PolicyCompliantReasonAllChecksPass PolicyCompliantMessageAllChecksPass) obj"

definition cappedViolations :: "string list \<Rightarrow> string list" where
  "cappedViolations violationStrings =
     (if length violationStrings > maxViolationsInMessage
      then take maxViolationsInMessage violationStrings @
        [''and '' @ itoa (length violationStrings - maxViolationsInMessage) @ '' more'']
      else violationStrings)"

definition handlePolicyViolations ::
  "('o, 'w) lifecycle \<Rightarrow> Violation list \<Rightarrow> 'o \<Rightarrow> 'w \<Rightarrow> outcome \<times> 'o \<times> 'w" where
  "handlePolicyViolations cfg violations obj w =
     (let msgStrings = cappedViolations (map render (ViolationStrings violations));
          obj1 = markConditionFalse cfg PolicyCompliantCondition PolicyCompliantReasonViolationsDetected
            (''Policy violations detected: '' @ Join msgStrings ''; '') obj in
      case lc_Deprovision cfg obj1 w of
        (Some err, obj2, w1) \<Rightarrow>
          (case lc_MarkStalled cfg err obj2 w1 of
             (obj3, w2) \<Rightarrow> ((NoRequeue, Some (wrapf [Lit ''deprovision '', Lit (lc_ResourceKind cfg), Lit '' '',
                Lit (lc_ResourceName cfg)] err)), obj3, w2))
      | (None, obj2, w1) \<Rightarrow>
          let obj3 = lc_SetReconciled cfg False obj2;
              obj4 = markConditionFalse cfg ReadyConditionType DeprovisionedReason
                ''deprovisioned due to policy violations'' obj3;
              obj5 = lc_Conditions cfg (\<lambda>cs. Delete cs ReconcilingConditionType) obj4 in
          (case lc_ApplyStatus cfg obj5 w1 of
             (Some err, w2) \<Rightarrow> ((NoRequeue, Some (wrapf [Lit ''apply status after deprovisioning '',
                Lit (lc_ResourceKind cfg), Lit '' '', Lit (lc_ResourceName cfg)] err)), obj5, w2)
           | (None, w2) \<Rightarrow> ((RequeueAfter DefaultRequeueInterval, None), obj5, w2)))"

text \<open>The violations and \<open>None\<close>, or the outcome when the evaluation was handled here.\<close>

definition evaluateRestrictedPolicy ::
  "('o, 'w) lifecycle \<Rightarrow> RBACPolicy \<Rightarrow> 'o \<Rightarrow> 'w \<Rightarrow> (go_error + Violation list) \<times> 'o \<times> 'w" where
  "evaluateRestrictedPolicy cfg rbacPolicy obj w =
     (case lc_Evaluate cfg rbacPolicy of
        (violations, Some err0) \<Rightarrow>
          (case lc_Deprovision cfg obj w of
             (derr, obj0, w1) \<Rightarrow>
               let err = (case derr of
                     None \<Rightarrow> err0
                   | Some deprovisionErr \<Rightarrow> errors_Join err0
                       (wrapf [Lit ''deprovision after policy selector evaluation failure''] deprovisionErr));
                   obj1 = markPolicyEvaluationError cfg err obj0 in
               (case lc_MarkStalled cfg err obj1 w1 of
                  (obj2, w2) \<Rightarrow> (Inl (wrapf [Lit ''evaluate policy selectors for '', Lit (lc_ResourceKind cfg),
                     Lit '' '', Lit (lc_ResourceName cfg)] err), obj2, w2)))
      | (violations, None) \<Rightarrow>
          if length violations = 0 then (Inr [], obj, w)
          else (Inr violations, lc_SetPolicyViolations cfg (ViolationStrings violations) obj, w))"

definition handleUnusablePolicy ::
  "('o, 'w) lifecycle \<Rightarrow> string \<Rightarrow> string \<Rightarrow> msg \<Rightarrow> string \<Rightarrow> string \<Rightarrow> 'o \<Rightarrow> 'w \<Rightarrow> outcome \<times> 'o \<times> 'w" where
  "handleUnusablePolicy cfg reason message viol why detail obj w =
     (let obj1 = lc_SetPolicyViolations cfg [viol]
            (markConditionFalse cfg PolicyCompliantCondition reason message obj) in
      case lc_Deprovision cfg obj1 w of
        (Some err, obj2, w1) \<Rightarrow>
          (case lc_MarkStalled cfg err obj2 w1 of
             (obj3, w2) \<Rightarrow> ((NoRequeue, Some (wrapf [Lit ''deprovision '', Lit (lc_ResourceKind cfg), Lit '' '',
                Lit (lc_ResourceName cfg), Lit '' after '', Lit why, Lit '' policy '', Lit (lc_PolicyRefName cfg)] err)),
                obj3, w2))
      | (None, obj2, w1) \<Rightarrow>
          (case lc_ApplyStatusAndMarkStalled cfg detail obj2 w1 of
             (Some err, obj3, w2) \<Rightarrow> ((NoRequeue, Some (wrapf [Lit ''apply stalled status for '',
                Lit (lc_ResourceKind cfg), Lit '' '', Lit (lc_ResourceName cfg), Lit '' after '', Lit why,
                Lit '' policy '', Lit (lc_PolicyRefName cfg)] err)), obj3, w2)
           | (None, obj3, w2) \<Rightarrow> ((RequeueAfter DefaultRequeueInterval, None), obj3, w2)))"

definition handleMissingRestrictedPolicy :: "('o, 'w) lifecycle \<Rightarrow> 'o \<Rightarrow> 'w \<Rightarrow> outcome \<times> 'o \<times> 'w" where
  "handleMissingRestrictedPolicy cfg obj w =
     handleUnusablePolicy cfg PolicyCompliantReasonPolicyNotFound
       (render [Lit ''Referenced RBACPolicy '', Quo (lc_PolicyRefName cfg), Lit '' not found''])
       [Lit ''policy '', Quo (lc_PolicyRefName cfg), Lit '' not found''] ''missing'' ''policy not found'' obj w"

definition handleDeletingRestrictedPolicy :: "('o, 'w) lifecycle \<Rightarrow> 'o \<Rightarrow> 'w \<Rightarrow> outcome \<times> 'o \<times> 'w" where
  "handleDeletingRestrictedPolicy cfg obj w =
     handleUnusablePolicy cfg PolicyCompliantReasonPolicyDeleting
       (render [Lit ''Referenced RBACPolicy '', Quo (lc_PolicyRefName cfg), Lit '' is being deleted''])
       [Lit ''policy '', Quo (lc_PolicyRefName cfg), Lit '' is being deleted''] ''deleting'' ''policy deleting'' obj w"

section \<open>Deprovisioning is final\<close>

text \<open>
  What the lifecycle needs of the callbacks: a deprovisioning without error leaves the cluster clean, it
  changes nothing it must not (\<open>kept\<close>), and status updates touch neither.
\<close>

locale policy_lifecycle =
  fixes cfg :: "('o, 'w) lifecycle" and clean :: "'w \<Rightarrow> bool" and kept :: "'w \<Rightarrow> 'w \<Rightarrow> bool"
  assumes deprovision_clean: "lc_Deprovision cfg obj w = (None, obj', w') \<Longrightarrow> clean w'"
    and deprovision_kept: "lc_Deprovision cfg obj w = (res, obj', w') \<Longrightarrow> kept w w'"
    and stalled_clean: "lc_MarkStalled cfg err obj w = (obj', w') \<Longrightarrow> clean w' = clean w \<and> kept w w'"
    and status_clean: "lc_ApplyStatus cfg obj w = (res, w') \<Longrightarrow> clean w' = clean w \<and> kept w w'"
    and apply_stalled_clean: "lc_ApplyStatusAndMarkStalled cfg m obj w = (res, obj', w') \<Longrightarrow>
      clean w' = clean w \<and> kept w w'"
    and kept_refl: "kept w w"
    and kept_trans: "kept w1 w2 \<Longrightarrow> kept w2 w3 \<Longrightarrow> kept w1 w3"
begin

text \<open>The error of a failed deprovisioning is reported; in every other case the cluster is clean.\<close>

lemma unusable_cases:
  assumes "handleUnusablePolicy cfg reason message viol why detail obj w = ((res, err), obj', w')"
  shows "kept w w' \<and> (err = None \<longrightarrow> clean w' \<and> res = RequeueAfter DefaultRequeueInterval)"
proof -
  define obj1 where "obj1 = lc_SetPolicyViolations cfg [viol]
    (markConditionFalse cfg PolicyCompliantCondition reason message obj)"
  note unfolded = assms [unfolded handleUnusablePolicy_def Let_def, folded obj1_def]
  obtain derr obj0 w1 where dep: "lc_Deprovision cfg obj1 w = (derr, obj0, w1)" by (metis prod_cases3)
  show ?thesis
  proof (cases derr)
    case None
    obtain serr obj2 w2 where st: "lc_ApplyStatusAndMarkStalled cfg detail obj0 w1 = (serr, obj2, w2)"
      by (metis prod_cases3)
    have "clean w1" using dep None by (auto intro: deprovision_clean)
    moreover have "w' = w2" "err = None \<longrightarrow> res = RequeueAfter DefaultRequeueInterval"
      using unfolded dep None st by (auto split: option.splits)
    ultimately show ?thesis
      using apply_stalled_clean [OF st] deprovision_kept [OF dep] kept_trans by blast
  next
    case (Some e)
    obtain obj2 w2 where st: "lc_MarkStalled cfg e obj0 w1 = (obj2, w2)" by (metis surj_pair)
    have "w' = w2" "err \<noteq> None" using unfolded dep Some st by auto
    then show ?thesis using stalled_clean [OF st] deprovision_kept [OF dep] kept_trans by blast
  qed
qed

lemma violations_cases:
  assumes "handlePolicyViolations cfg vs obj w = ((res, err), obj', w')"
  shows "kept w w' \<and> (err = None \<longrightarrow> clean w' \<and> res = RequeueAfter DefaultRequeueInterval)"
proof -
  define obj1 where "obj1 = markConditionFalse cfg PolicyCompliantCondition PolicyCompliantReasonViolationsDetected
    (''Policy violations detected: '' @ Join (cappedViolations (map render (ViolationStrings vs))) ''; '') obj"
  note unfolded = assms [unfolded handlePolicyViolations_def Let_def, folded obj1_def]
  obtain derr obj0 w1 where dep: "lc_Deprovision cfg obj1 w = (derr, obj0, w1)" by (metis prod_cases3)
  show ?thesis
  proof (cases derr)
    case None
    obtain obj4 serr w2 where st: "lc_ApplyStatus cfg obj4 w1 = (serr, w2)"
      and "w' = w2" "err = None \<longrightarrow> res = RequeueAfter DefaultRequeueInterval"
      using unfolded dep None by (auto split: prod.splits option.splits)
    moreover have "clean w1" using dep None by (auto intro: deprovision_clean)
    ultimately show ?thesis using status_clean [OF st] deprovision_kept [OF dep] kept_trans by blast
  next
    case (Some e)
    obtain obj2 w2 where st: "lc_MarkStalled cfg e obj0 w1 = (obj2, w2)" by (metis surj_pair)
    have "w' = w2" "err \<noteq> None" using unfolded dep Some st by auto
    then show ?thesis using stalled_clean [OF st] deprovision_kept [OF dep] kept_trans by blast
  qed
qed

lemma evaluation_cases:
  assumes "evaluateRestrictedPolicy cfg policy obj w = (res, obj', w')"
  shows "kept w w' \<and> (\<forall>vs. res = Inr vs \<longrightarrow> w' = w \<and> lc_Evaluate cfg policy = (vs, None))"
proof -
  obtain vs eerr where ev: "lc_Evaluate cfg policy = (vs, eerr)" by (metis surj_pair)
  obtain derr obj0 w1 where dep: "lc_Deprovision cfg obj w = (derr, obj0, w1)" by (metis prod_cases3)
  show ?thesis
  proof (cases eerr)
    case None
    then show ?thesis
      using assms ev by (auto simp: evaluateRestrictedPolicy_def kept_refl split: if_splits)
  next
    case (Some e)
    obtain e1 obj1 obj2 where st: "lc_MarkStalled cfg e1 obj1 w1 = (obj2, w')" and "isl res"
      using assms Some ev dep by (auto simp: evaluateRestrictedPolicy_def Let_def split: prod.splits)
    then show ?thesis using stalled_clean [OF st] deprovision_kept [OF dep] kept_trans by fastforce
  qed
qed

end

section \<open>Deprovisioning is reported\<close>

text \<open>
  \<open>retracted\<close>: an object in memory that does not report a reconciled resource; \<open>withdrawn\<close>: a cluster whose
  stored object does not.
\<close>

locale reporting_lifecycle = policy_lifecycle +
  fixes retracted :: "'a \<Rightarrow> bool" and withdrawn :: "'b \<Rightarrow> bool"
  assumes retracted_set: "retracted (lc_SetReconciled cfg False obj)"
    and retracted_conditions: "retracted obj \<Longrightarrow> retracted (lc_Conditions cfg f obj)"
    and apply_withdrawn: "retracted obj \<Longrightarrow> lc_ApplyStatus cfg obj w = (None, w') \<Longrightarrow> withdrawn w'"
    and stalled_withdrawn: "lc_ApplyStatusAndMarkStalled cfg m obj w = (None, obj', w') \<Longrightarrow> withdrawn w'"
begin

lemma unusable_reports:
  assumes "handleUnusablePolicy cfg reason message viol why detail obj w = ((res, None), obj', w')"
  shows "withdrawn w'"
  using assms unfolding handleUnusablePolicy_def Let_def
  by (auto split: prod.splits option.splits intro: stalled_withdrawn)

lemma violations_reports:
  assumes "handlePolicyViolations cfg vs obj w = ((res, None), obj', w')"
  shows "withdrawn w'"
proof -
  obtain obj1 w1 where "lc_ApplyStatus cfg (lc_Conditions cfg (\<lambda>cs. Delete cs ReconcilingConditionType)
      (markConditionFalse cfg ReadyConditionType DeprovisionedReason ''deprovisioned due to policy violations''
        (lc_SetReconciled cfg False obj1))) w1 = (None, w')"
    using assms unfolding handlePolicyViolations_def Let_def by (auto split: prod.splits option.splits)
  then show ?thesis
    by (rule apply_withdrawn [rotated])
      (simp add: markConditionFalse_def retracted_set retracted_conditions)
qed

end

section \<open>Status invariants\<close>

text \<open>Anything the marks keep of an object in memory, and the status writes keep of the stored one.\<close>

locale status_lifecycle =
  fixes cfg :: "('o, 'w) lifecycle" and well :: "'o \<Rightarrow> bool" and stored :: "'w \<Rightarrow> bool"
  assumes well_deprovision: "lc_Deprovision cfg obj w = (res, obj', w') \<Longrightarrow> stored w \<Longrightarrow> stored w'"
    and well_deprovisioned: "lc_Deprovision cfg obj w = (res, obj', w') \<Longrightarrow> well obj \<Longrightarrow> well obj'"
    and well_stalled: "lc_MarkStalled cfg err obj w = (obj', w') \<Longrightarrow> well obj \<Longrightarrow> stored w \<Longrightarrow> stored w'"
    and well_apply: "lc_ApplyStatus cfg obj w = (res, w') \<Longrightarrow> well obj \<Longrightarrow> stored w \<Longrightarrow> stored w'"
    and well_apply_stalled: "lc_ApplyStatusAndMarkStalled cfg m obj w = (res, obj', w') \<Longrightarrow> well obj \<Longrightarrow>
      stored w \<Longrightarrow> stored w'"
    and well_reconciled: "well obj \<Longrightarrow> well (lc_SetReconciled cfg b obj)"
    and well_violations: "well obj \<Longrightarrow> well (lc_SetPolicyViolations cfg vs obj)"
    and well_false: "well obj \<Longrightarrow> well (lc_Conditions cfg (\<lambda>cs. MarkFalse now cs t gen reason message) obj)"
    and well_delete: "well obj \<Longrightarrow> well (lc_Conditions cfg (\<lambda>cs. Delete cs t) obj)"
begin

lemma unusable_stored:
  assumes "handleUnusablePolicy cfg reason message viol why detail obj w = (out, obj', w')" "well obj" "stored w"
  shows "stored w'"
proof -
  define obj1 where "obj1 = lc_SetPolicyViolations cfg [viol]
    (markConditionFalse cfg PolicyCompliantCondition reason message obj)"
  have well1: "well obj1" using assms(2) by (simp add: obj1_def markConditionFalse_def well_violations well_false)
  obtain derr obj0 w1 where dep: "lc_Deprovision cfg obj1 w = (derr, obj0, w1)" by (metis prod_cases3)
  have stored1: "stored w1" using well_deprovision [OF dep assms(3)] .
  have well0: "well obj0" using well_deprovisioned [OF dep well1] .
  show ?thesis
    using assms(1) [unfolded handleUnusablePolicy_def Let_def, folded obj1_def] dep
      well_stalled [OF _ well0 stored1] well_apply_stalled [OF _ well0 stored1]
    by (auto split: prod.splits option.splits)
qed

lemma violations_stored:
  assumes "handlePolicyViolations cfg vs obj w = (out, obj', w')" "well obj" "stored w"
  shows "stored w'"
proof -
  define obj1 where "obj1 = markConditionFalse cfg PolicyCompliantCondition PolicyCompliantReasonViolationsDetected
    (''Policy violations detected: '' @ Join (cappedViolations (map render (ViolationStrings vs))) ''; '') obj"
  obtain derr obj0 w1 where dep: "lc_Deprovision cfg obj1 w = (derr, obj0, w1)" by (metis prod_cases3)
  define obj4 where "obj4 = lc_Conditions cfg (\<lambda>cs. Delete cs ReconcilingConditionType)
    (markConditionFalse cfg ReadyConditionType DeprovisionedReason ''deprovisioned due to policy violations''
      (lc_SetReconciled cfg False obj0))"
  have well1: "well obj1" using assms(2) by (simp add: obj1_def markConditionFalse_def well_false)
  then have well0: "well obj0" using well_deprovisioned [OF dep] by blast
  then have well4: "well obj4" by (simp add: obj4_def markConditionFalse_def well_false well_reconciled well_delete)
  have stored1: "stored w1" using well_deprovision [OF dep assms(3)] .
  show ?thesis
    using assms(1) [unfolded handlePolicyViolations_def Let_def, folded obj1_def] dep
      well_stalled [OF _ well0 stored1] well_apply [OF _ well4 [unfolded obj4_def] stored1]
    by (auto split: prod.splits option.splits)
qed

lemma evaluation_stored:
  assumes "evaluateRestrictedPolicy cfg policy obj w = (res, obj', w')" "well obj" "stored w"
  shows "stored w' \<and> (\<forall>vs. res = Inr vs \<longrightarrow> well obj')"
proof -
  obtain vs eerr where ev: "lc_Evaluate cfg policy = (vs, eerr)" by (metis surj_pair)
  obtain derr obj0 w1 where dep: "lc_Deprovision cfg obj w = (derr, obj0, w1)" by (metis prod_cases3)
  have stored1: "stored w1" using well_deprovision [OF dep assms(3)] .
  show ?thesis
  proof (cases eerr)
    case None
    then show ?thesis
      using assms ev by (auto simp: evaluateRestrictedPolicy_def well_violations split: if_splits)
  next
    case (Some e)
    obtain e1 e2 obj2 where st: "lc_MarkStalled cfg e1 (markPolicyEvaluationError cfg e2 obj0) w1 = (obj2, w')"
      and "isl res"
      using assms(1) Some ev dep by (auto simp: evaluateRestrictedPolicy_def Let_def split: prod.splits)
    moreover have "well (markPolicyEvaluationError cfg e2 obj0)"
      using well_deprovisioned [OF dep assms(2)] by (simp add: markPolicyEvaluationError_def markConditionFalse_def well_false)
    ultimately show ?thesis using well_stalled [OF st _ stored1] by fastforce
  qed
qed

end

section \<open>Without failures\<close>

text \<open>When every callback succeeds in a \<open>present\<close> cluster, so do the handlers.\<close>

locale reliable_lifecycle =
  fixes cfg :: "('o, 'w) lifecycle" and present :: "'w \<Rightarrow> bool"
  assumes reliable_deprovision: "present w \<Longrightarrow> \<exists>obj' w'. lc_Deprovision cfg obj w = (None, obj', w') \<and> present w'"
    and reliable_apply: "present w \<Longrightarrow> \<exists>w'. lc_ApplyStatus cfg obj w = (None, w')"
    and reliable_apply_stalled: "present w \<Longrightarrow> \<exists>obj' w'. lc_ApplyStatusAndMarkStalled cfg m obj w = (None, obj', w')"
begin

lemma unusable_succeeds:
  assumes "present w"
  shows "fst (handleUnusablePolicy cfg reason message viol why detail obj w) = (RequeueAfter DefaultRequeueInterval, None)"
proof -
  define obj1 where "obj1 = lc_SetPolicyViolations cfg [viol]
    (markConditionFalse cfg PolicyCompliantCondition reason message obj)"
  obtain obj0 w1 where dep: "lc_Deprovision cfg obj1 w = (None, obj0, w1)" "present w1"
    using reliable_deprovision [OF assms] by blast
  then obtain obj2 w2 where "lc_ApplyStatusAndMarkStalled cfg detail obj0 w1 = (None, obj2, w2)"
    using reliable_apply_stalled by blast
  then show ?thesis using dep(1) unfolding handleUnusablePolicy_def Let_def obj1_def [symmetric] by simp
qed

lemma violations_succeed:
  assumes "present w"
  shows "fst (handlePolicyViolations cfg vs obj w) = (RequeueAfter DefaultRequeueInterval, None)"
proof -
  define obj1 where "obj1 = markConditionFalse cfg PolicyCompliantCondition PolicyCompliantReasonViolationsDetected
    (''Policy violations detected: '' @ Join (cappedViolations (map render (ViolationStrings vs))) ''; '') obj"
  obtain obj0 w1 where dep: "lc_Deprovision cfg obj1 w = (None, obj0, w1)" "present w1"
    using reliable_deprovision [OF assms] by blast
  define obj4 where "obj4 = lc_Conditions cfg (\<lambda>cs. Delete cs ReconcilingConditionType)
    (markConditionFalse cfg ReadyConditionType DeprovisionedReason ''deprovisioned due to policy violations''
      (lc_SetReconciled cfg False obj0))"
  obtain w2 where "lc_ApplyStatus cfg obj4 w1 = (None, w2)" using reliable_apply [OF dep(2)] by blast
  then show ?thesis
    using dep(1) unfolding handlePolicyViolations_def Let_def obj1_def [symmetric] by (simp add: obj4_def)
qed

end

end
