(* ===== verification/Apply_Identity.thy ===== *)
theory Apply_Identity
  imports Restricted_Lifecycle Impersonation
begin

text \<open>
  Under whose identity the restricted controllers write (\<^verbatim>\<open>internal/controller/authorization/impersonation.go\<close>):
  the user a policy names, the bounded cache of impersonated clients, and the choice of the client for a
  policy. Also the condition that reports whether a grant of constrained impersonation has an effect
  (\<^verbatim>\<open>constrained_impersonation.go\<close>).
\<close>

section \<open>The cache of clients\<close>

definition maxImpersonatedClientCacheEntries :: nat where "maxImpersonatedClientCacheEntries = 256"

record 'c impersonatedClientCache =
  icc_cache :: "(string, 'c) gomap"
  icc_order :: "string list"

definition newImpersonatedClientCache :: "'c impersonatedClientCache" where
  "newImpersonatedClientCache = \<lparr>icc_cache = [], icc_order = []\<rparr>"

text \<open>A factory of clients answers an error, nil (\<^term>\<open>None\<close>) or a client.\<close>

type_synonym 'c factory = "string \<Rightarrow> go_error + 'c option"

text \<open>
  The locks make each call one step: concurrent calls for a user share the result of the first, and the
  re-checks under the lock find what the previous call stored.
\<close>

definition getOrCreate ::
  "string \<Rightarrow> 'c factory \<Rightarrow> 'c impersonatedClientCache \<Rightarrow> (go_error + 'c) \<times> 'c impersonatedClientCache" where
  "getOrCreate username factory c =
     (case map_of (icc_cache c) username of
        Some cl \<Rightarrow> (Inr cl, c)
      | None \<Rightarrow>
          (case factory username of
             Inl err \<Rightarrow> (Inl err, c)
           | Inr None \<Rightarrow>
               (Inl (errorf [Lit ''impersonated client factory returned nil for '', Quo username]), c)
           | Inr (Some built) \<Rightarrow>
               let evicted =
                 (if length (icc_order c) \<ge> maxImpersonatedClientCacheEntries
                  then \<lparr>icc_cache = mdelete (hd (icc_order c)) (icc_cache c), icc_order = tl (icc_order c)\<rparr>
                  else c) in
               (Inr built, \<lparr>icc_cache = mput username built (icc_cache evicted),
                  icc_order = icc_order evicted @ [username]\<rparr>)))"

section \<open>The client of a policy\<close>

datatype 'c apply_client = BaseClient | ImpersonatedClient 'c

text \<open>\<open>restConfig\<close>: whether the controller has one. The controllers always have a factory and a cache.\<close>

definition resolvePolicyApplyClient ::
  "bool \<Rightarrow> RBACPolicy \<Rightarrow> 'c factory \<Rightarrow> 'c impersonatedClientCache
    \<Rightarrow> (go_error + 'c apply_client \<times> string) \<times> 'c impersonatedClientCache" where
  "resolvePolicyApplyClient restConfig policy factory cache =
     (case impersonatedUsernameForPolicy (Some policy) of
        Inl err \<Rightarrow> (Inl (errorf err), cache)
      | Inr (username, enabled) \<Rightarrow>
          if \<not> enabled then (Inr (BaseClient, ''''), cache)
          else if \<not> restConfig
          then (Inl (errorf [Lit ''impersonation configured by policy '', Quo (policy_Name policy),
                  Lit '' but controller rest config is unavailable'']), cache)
          else
            (case getOrCreate username factory cache of
               (Inl err, cache') \<Rightarrow> (Inl (wrapf [Lit ''build impersonated apply client''] err), cache')
             | (Inr cl, cache') \<Rightarrow> (Inr (ImpersonatedClient cl, username), cache')))"

section \<open>Effect of a grant\<close>

record CapabilityResult =
  cap_State :: string
  cap_Reason :: string
  cap_Detail :: string
  cap_ServerVersion :: string

definition StateEnabled :: string where "StateEnabled = ''Enabled''"
definition StateDisabled :: string where "StateDisabled = ''Disabled''"
definition StateUnknown :: string where "StateUnknown = ''Unknown''"

definition legacyFallbackReachableReason :: string where
  "legacyFallbackReachableReason = ''LegacyFallbackReachable''"

definition ConstrainedImpersonationCondition :: string where
  "ConstrainedImpersonationCondition = ''ConstrainedImpersonationEffective''"
definition ConstrainedImpersonationReasonEffective :: string where
  "ConstrainedImpersonationReasonEffective = ''FeatureGateEnabled''"
definition ConstrainedImpersonationReasonInert :: string where
  "ConstrainedImpersonationReasonInert = ''FeatureGateDisabled''"
definition ConstrainedImpersonationReasonUnknown :: string where
  "ConstrainedImpersonationReasonUnknown = ''FeatureStateUnknown''"
definition ConstrainedImpersonationReasonLegacyFallback :: string where
  "ConstrainedImpersonationReasonLegacyFallback = ''LegacyFallbackReachable''"

text \<open>The condition list after the call and the result; \<open>detector\<close> is what the detector answers, if there is one.\<close>

definition setConstrainedImpersonationCondition ::
  "int \<Rightarrow> int \<Rightarrow> ConstrainedImpersonationSpec option \<Rightarrow> string list \<Rightarrow> CapabilityResult option
    \<Rightarrow> Condition list \<Rightarrow> CapabilityResult \<times> Condition list" where
  "setConstrainedImpersonationCondition now generation spec restrictedVerbs detector cs =
     (if spec = None
      then (\<lparr>cap_State = '''', cap_Reason = '''', cap_Detail = '''', cap_ServerVersion = ''''\<rparr>,
            Delete cs ConstrainedImpersonationCondition)
      else case detector of
        None \<Rightarrow>
          (\<lparr>cap_State = StateUnknown, cap_Reason = ''DetectorUnavailable'', cap_Detail = '''', cap_ServerVersion = ''''\<rparr>,
           MarkUnknown now cs ConstrainedImpersonationCondition generation ConstrainedImpersonationReasonUnknown
             ''Constrained impersonation support could not be determined: capability detection is not configured'')
      | Some result \<Rightarrow>
          if \<not> legacyImpersonateRestricted restrictedVerbs then
            let detail = render [Lit ''add '', Quo LegacyImpersonateVerb,
              Lit '' to spec.restrictedVerbs so the generated role cannot carry the blanket verb''] in
            (\<lparr>cap_State = StateDisabled, cap_Reason = legacyFallbackReachableReason, cap_Detail = detail,
              cap_ServerVersion = cap_ServerVersion result\<rparr>,
             MarkFalse now cs ConstrainedImpersonationCondition generation
               ConstrainedImpersonationReasonLegacyFallback
               (''The legacy blanket \"impersonate\" verb is not restricted, so it wins by fallback and silently '' @
                ''defeats the constrained impersonation grant: '' @ detail))
          else if cap_State result = StateEnabled then
            (result, MarkTrue now cs ConstrainedImpersonationCondition generation
               ConstrainedImpersonationReasonEffective
               (''Constrained impersonation grants are effective: '' @ cap_Detail result))
          else if cap_State result = StateDisabled then
            (result, MarkFalse now cs ConstrainedImpersonationCondition generation
               ConstrainedImpersonationReasonInert
               (''Constrained impersonation grants are INERT and grant nothing: '' @ cap_Detail result))
          else
            (result, MarkUnknown now cs ConstrainedImpersonationCondition generation
               ConstrainedImpersonationReasonUnknown
               (''Constrained impersonation support could not be determined: '' @ cap_Detail result)))"

section \<open>The cache holds what the factory built\<close>

text \<open>
  The invariant: at most \<^const>\<open>maxImpersonatedClientCacheEntries\<close> users, each once in the eviction order
  and in the map, and each with the client the factory builds for that user.
\<close>

definition cache_ok :: "'c factory \<Rightarrow> 'c impersonatedClientCache \<Rightarrow> bool" where
  "cache_ok factory c \<longleftrightarrow> length (icc_order c) \<le> maxImpersonatedClientCacheEntries \<and> distinct (icc_order c) \<and>
     dom (map_of (icc_cache c)) = set (icc_order c) \<and>
     (\<forall>u cl. map_of (icc_cache c) u = Some cl \<longrightarrow> factory u = Inr (Some cl))"

text \<open>What a call answers without any cache.\<close>

definition create :: "'c factory \<Rightarrow> string \<Rightarrow> go_error + 'c" where
  "create factory username =
     (case factory username of
        Inl err \<Rightarrow> Inl err
      | Inr None \<Rightarrow> Inl (errorf [Lit ''impersonated client factory returned nil for '', Quo username])
      | Inr (Some built) \<Rightarrow> Inr built)"

lemma cache_ok_new: "cache_ok factory newImpersonatedClientCache"
  by (simp add: cache_ok_def newImpersonatedClientCache_def)

lemma cache_ok_evict:
  assumes "cache_ok factory c" "icc_order c = old # rest"
  shows "cache_ok factory \<lparr>icc_cache = mdelete old (icc_cache c), icc_order = rest\<rparr>"
  using assms by (auto simp: cache_ok_def set_eq_iff dom_def split: if_splits)

lemma cache_ok_add:
  assumes "cache_ok factory c" "map_of (icc_cache c) u = None" "factory u = Inr (Some cl)"
    and "length (icc_order c) < maxImpersonatedClientCacheEntries"
  shows "cache_ok factory \<lparr>icc_cache = mput u cl (icc_cache c), icc_order = icc_order c @ [u]\<rparr>"
proof -
  have dom: "dom (map_of (icc_cache c)) = set (icc_order c)" using assms(1) by (simp add: cache_ok_def)
  have "dom (map_of (mput u cl (icc_cache c))) = set (icc_order c @ [u])"
    unfolding dom [symmetric] set_append by (auto split: if_splits)
  moreover have "u \<notin> set (icc_order c)" using assms(2) dom by blast
  ultimately show ?thesis using assms by (simp add: cache_ok_def)
qed

lemma getOrCreate_cases:
  assumes "cache_ok factory c" "getOrCreate username factory c = (res, c')"
  shows "res = create factory username \<and> cache_ok factory c'"
proof (cases "map_of (icc_cache c) username")
  case (Some cl)
  then show ?thesis using assms by (auto simp: getOrCreate_def create_def cache_ok_def)
next
  case None
  show ?thesis
  proof (cases "\<exists>built. factory username = Inr (Some built)")
    case False
    then show ?thesis
      using assms None by (auto simp: getOrCreate_def create_def split: sum.splits option.splits)
  next
    case True
    then obtain built where built: "factory username = Inr (Some built)" by blast
    define evicted where "evicted = (if length (icc_order c) \<ge> maxImpersonatedClientCacheEntries
      then \<lparr>icc_cache = mdelete (hd (icc_order c)) (icc_cache c), icc_order = tl (icc_order c)\<rparr> else c)"
    have "cache_ok factory evicted \<and> length (icc_order evicted) < maxImpersonatedClientCacheEntries \<and>
        map_of (icc_cache evicted) username = None"
    proof (cases "length (icc_order c) \<ge> maxImpersonatedClientCacheEntries")
      case True
      then obtain old rest where order: "icc_order c = old # rest"
        by (cases "icc_order c") (auto simp: maxImpersonatedClientCacheEntries_def)
      then show ?thesis
        using True None cache_ok_evict [OF assms(1) order] assms(1) by (auto simp: evicted_def cache_ok_def)
    qed (use assms(1) None in \<open>auto simp: evicted_def\<close>)
    then have "cache_ok factory \<lparr>icc_cache = mput username built (icc_cache evicted),
        icc_order = icc_order evicted @ [username]\<rparr>"
      using built by (intro cache_ok_add) auto
    then show ?thesis
      using assms(2) None built unfolding getOrCreate_def evicted_def Let_def by (auto simp: create_def)
  qed
qed

text \<open>The client for a policy: the controller's own, or the one of the service account the policy names.\<close>

lemma resolve_cases:
  assumes "cache_ok factory c" "resolvePolicyApplyClient restConfig policy factory c = (res, c')"
  shows "cache_ok factory c' \<and>
    (\<forall>client user. res = Inr (client, user) \<longrightarrow>
       impersonatedUsernameForPolicy (Some policy) = Inr ('''', False) \<and> client = BaseClient \<and> user = '''' \<or>
       impersonatedUsernameForPolicy (Some policy) = Inr (user, True) \<and>
         (\<exists>cl. create factory user = Inr cl \<and> client = ImpersonatedClient cl))"
proof -
  have "isl (impersonatedUsernameForPolicy (Some policy)) \<or>
      impersonatedUsernameForPolicy (Some policy) = Inr ('''', False) \<or>
      (\<exists>user. impersonatedUsernameForPolicy (Some policy) = Inr (user, True))"
    by (simp add: impersonatedUsernameForPolicy_def split: option.splits if_splits)
  then consider err where "impersonatedUsernameForPolicy (Some policy) = Inl err"
    | "impersonatedUsernameForPolicy (Some policy) = Inr ('''', False)"
    | user where "impersonatedUsernameForPolicy (Some policy) = Inr (user, True)"
    by (auto simp: isl_def)
  then show ?thesis
  proof cases
    case (3 user)
    obtain r c1 where got: "getOrCreate user factory c = (r, c1)" by fastforce
    show ?thesis
      using assms 3 getOrCreate_cases [OF assms(1) got] got
      by (auto simp: resolvePolicyApplyClient_def split: if_splits sum.splits)
  qed (use assms in \<open>auto simp: resolvePolicyApplyClient_def\<close>)
qed

text \<open>A sequence of requests to the cache, as the mutex orders them.\<close>

fun requests :: "'c factory \<Rightarrow> string list \<Rightarrow> 'c impersonatedClientCache
    \<Rightarrow> (go_error + 'c) list \<times> 'c impersonatedClientCache" where
  "requests factory [] c = ([], c)"
| "requests factory (u # us) c =
     (case getOrCreate u factory c of
        (r, c1) \<Rightarrow> (case requests factory us c1 of (rs, c2) \<Rightarrow> (r # rs, c2)))"

lemma requests_transparent:
  "cache_ok factory c \<Longrightarrow> requests factory us c = (rs, c') \<Longrightarrow> rs = map (create factory) us \<and> cache_ok factory c'"
proof (induction us arbitrary: c rs c')
  case (Cons u us)
  obtain r c1 where one: "getOrCreate u factory c = (r, c1)" by fastforce
  obtain rs2 c2 where two: "requests factory us c1 = (rs2, c2)" by fastforce
  note first = getOrCreate_cases [OF Cons.prems(1) one]
  show ?case using Cons.prems(2) first Cons.IH [OF _ two] one two by auto
qed simp

text \<open>
  Property C33 (client_cache_transparent): after any sequence of requests to a new cache, however users
  repeat and however often entries were evicted, every request was answered with what the factory builds for
  exactly that user (an impersonated client is never handed out for another user), and the cache holds at
  most 256 clients, one per user.
\<close>

theorem client_cache_transparent:
  "case requests factory us newImpersonatedClientCache of
     (answers, cache) \<Rightarrow> answers = map (create factory) us \<and>
       length (icc_order cache) \<le> 256 \<and> distinct (icc_order cache) \<and>
       dom (map_of (icc_cache cache)) = set (icc_order cache)"
proof -
  obtain answers cache where run: "requests factory us newImpersonatedClientCache = (answers, cache)" by fastforce
  from requests_transparent [OF cache_ok_new run] run show ?thesis
    by (auto simp: cache_ok_def maxImpersonatedClientCacheEntries_def)
qed

end
