(* ===== verification/Restricted_Role_Reconciler.thy ===== *)
theory Restricted_Role_Reconciler
  imports Role_Apply Apply_Identity Role_Safety
begin

text \<open>
  The reconciler of RestrictedRoleDefinitions (\<^verbatim>\<open>restrictedroledefinition_controller.go\<close>) with the status
  writer (\<^verbatim>\<open>applyconfiguration/ssa/patchhelper.go\<close>) and the label resolver (\<^verbatim>\<open>client_label_getter.go\<close>).
  A reconciliation is a function on the cluster: the definition object, the roles, and the cache of
  clients. The environment holds what a reconciliation reads and cannot change (policies, namespaces, the
  resource tracker) and the choices of the API server: which requests fail, how an apply is merged, how a
  status apply ends. Every other definition, policy and namespace stays as it is. Events, metrics and logs
  are left out.
\<close>

section \<open>State\<close>

record rrd_status =
  st_ObservedGeneration :: int
  st_RoleReconciled :: bool
  st_PolicyViolations :: "msg list"
  st_Conditions :: "Condition list"

record rrd_object =
  ro_Definition :: RestrictedRoleDefinition
  ro_UID :: string
  ro_Generation :: int
  ro_Labels :: labels
  ro_Deleting :: bool
  ro_Finalizers :: "string list"
  ro_Status :: rrd_status

record 'c rrd_world =
  w_Object :: "rrd_object option"
  w_Roles :: role_store
  w_Cache :: "'c impersonatedClientCache"

text \<open>
  \<open>re_Policies\<close> pairs a policy with whether it is being deleted; \<open>re_Refresh\<close> says whether adding the
  finalizer replaces the status in memory by the stored one; \<open>re_StatusApply\<close> is the status the server
  keeps after an apply, from the stored and the desired one.
\<close>

record 'c rrd_env =
  re_Now :: int
  re_AsSelector :: selector_api
  re_ParseGV :: parse_gv
  re_Policies :: "string \<Rightarrow> (RBACPolicy \<times> bool) option"
  re_Namespaces :: "(string, labels) gomap"
  re_Tracker :: tracker_answer
  re_TrackerCauses :: "cause list"
  re_Detector :: "CapabilityResult option"
  re_RestConfig :: bool
  re_Factory :: "'c factory"
  re_Refresh :: bool
  re_Fail :: "'c apply_client \<Rightarrow> failures"
  re_StatusApply :: "rrd_status \<Rightarrow> rrd_status \<Rightarrow> rrd_status"
  re_SSA :: ssa_api
  re_Skips :: "role_ac \<Rightarrow> rbac_role option \<Rightarrow> bool"

abbreviation base_fail :: "'c rrd_env \<Rightarrow> failures" where
  "base_fail env \<equiv> re_Fail env BaseClient"

abbreviation ro_Spec :: "rrd_object \<Rightarrow> RestrictedRoleDefinitionSpec" where
  "ro_Spec obj \<equiv> rrd_Spec (ro_Definition obj)"

abbreviation ro_Name :: "rrd_object \<Rightarrow> string" where
  "ro_Name obj \<equiv> rrd_Name (ro_Definition obj)"

definition invalidTargetRole :: "string \<Rightarrow> go_error" where
  "invalidTargetRole targetRole =
     errorf [Lit ''invalid target role type: must be ClusterRole or Role: got '', Quo targetRole]"

definition rrd_owner :: "rrd_object \<Rightarrow> owner_object" where
  "rrd_owner obj = \<lparr>ow_TypeMeta = ('''', ''''), ow_Type = RestrictedRoleDefinitionType, ow_Name = ro_Name obj,
     ow_UID = ro_UID obj\<rparr>"

definition target_key :: "RestrictedRoleDefinitionSpec \<Rightarrow> role_key option" where
  "target_key spec =
     (if rrds_TargetRole spec = DefinitionClusterRole then Some (ClusterRoleKey (rrds_TargetName spec))
      else if rrds_TargetRole spec = DefinitionNamespacedRole
      then Some (RoleKey (rrds_TargetNamespace spec) (rrds_TargetName spec))
      else None)"

definition on_conditions :: "(Condition list \<Rightarrow> Condition list) \<Rightarrow> rrd_object \<Rightarrow> rrd_object" where
  "on_conditions f obj = obj\<lparr>ro_Status := (ro_Status obj)\<lparr>st_Conditions := f (st_Conditions (ro_Status obj))\<rparr>\<rparr>"

definition set_reconciled :: "bool \<Rightarrow> rrd_object \<Rightarrow> rrd_object" where
  "set_reconciled b obj = obj\<lparr>ro_Status := (ro_Status obj)\<lparr>st_RoleReconciled := b\<rparr>\<rparr>"

definition set_violations :: "msg list \<Rightarrow> rrd_object \<Rightarrow> rrd_object" where
  "set_violations vs obj = obj\<lparr>ro_Status := (ro_Status obj)\<lparr>st_PolicyViolations := vs\<rparr>\<rparr>"

definition observe_generation :: "rrd_object \<Rightarrow> rrd_object" where
  "observe_generation obj = obj\<lparr>ro_Status := (ro_Status obj)\<lparr>st_ObservedGeneration := ro_Generation obj\<rparr>\<rparr>"

section \<open>Writing the status\<close>

definition conditionsEqual :: "Condition list \<Rightarrow> Condition list \<Rightarrow> bool" where
  "conditionsEqual a b \<longleftrightarrow> length a = length b \<and> list_all (\<lambda>(x, y). hasSameState x y) (zip a b)"

definition restrictedRoleDefinitionStatusEqual :: "rrd_status \<Rightarrow> rrd_status \<Rightarrow> bool" where
  "restrictedRoleDefinitionStatusEqual a b \<longleftrightarrow>
     st_ObservedGeneration a = st_ObservedGeneration b \<and> st_RoleReconciled a = st_RoleReconciled b \<and>
     map render (st_PolicyViolations a) = map render (st_PolicyViolations b) \<and>
     conditionsEqual (st_Conditions a) (st_Conditions b)"

text \<open>The status after the merge patch that empties the lists a server-side apply would leave.\<close>

definition clearRestrictedRoleDefinitionEmptyStatusSlices ::
  "failures \<Rightarrow> string \<Rightarrow> rrd_status \<Rightarrow> rrd_status \<Rightarrow> go_error + rrd_status" where
  "clearRestrictedRoleDefinitionEmptyStatusSlices fail name cached desired =
     (let clearViolations = (st_PolicyViolations desired = [] \<and> st_PolicyViolations cached \<noteq> []);
          clearConditions = (st_Conditions desired = [] \<and> st_Conditions cached \<noteq> []) in
      if \<not> clearViolations \<and> \<not> clearConditions then Inr cached
      else
        (case fail StatusClear of
           Some err \<Rightarrow> Inl (wrapf [Lit ''clear RestrictedRoleDefinition '', Lit name, Lit '' empty status slices''] err)
         | None \<Rightarrow>
             Inr (cached\<lparr>st_PolicyViolations := if clearViolations then [] else st_PolicyViolations cached,
                         st_Conditions := if clearConditions then [] else st_Conditions cached\<rparr>)))"

text \<open>
  The applier of the library, with the comparison and the hook of the source: it reads the stored object,
  skips an up-to-date status, calls the hook, and applies.
\<close>

definition ApplyRestrictedRoleDefinitionStatus ::
  "'c rrd_env \<Rightarrow> rrd_object \<Rightarrow> 'c rrd_world \<Rightarrow> go_error option \<times> 'c rrd_world" where
  "ApplyRestrictedRoleDefinitionStatus env obj w =
     (case server_read (base_fail env) StatusGet (w_Object w) of
        Missing \<Rightarrow> (Some \<lparr>ge_causes = [APIStatus ''NotFound''], ge_text = [Lit ''RestrictedRoleDefinition not found'']\<rparr>, w)
      | ReadError err \<Rightarrow> (Some err, w)
      | Got stored \<Rightarrow>
          if restrictedRoleDefinitionStatusEqual (ro_Status stored) (ro_Status obj) then (None, w)
          else
            (case clearRestrictedRoleDefinitionEmptyStatusSlices (base_fail env) (ro_Name obj) (ro_Status stored)
                    (ro_Status obj) of
               Inl err \<Rightarrow> (Some err, w)
             | Inr cleared \<Rightarrow>
                 (case base_fail env StatusApply of
                    Some err \<Rightarrow> (Some err, w\<lparr>w_Object := Some (stored\<lparr>ro_Status := cleared\<rparr>)\<rparr>)
                  | None \<Rightarrow> (None, w\<lparr>w_Object := Some (stored\<lparr>ro_Status :=
                      re_StatusApply env cleared (ro_Status obj)\<rparr>)\<rparr>))))"

definition stall :: "'c rrd_env \<Rightarrow> string \<Rightarrow> rrd_object \<Rightarrow> rrd_object" where
  "stall env detail obj =
     observe_generation (set_reconciled False (on_conditions (\<lambda>cs. MarkStalled (re_Now env) cs (ro_Generation obj)
       StalledReasonError (StalledMessageError detail)) obj))"

definition rrdMarkStalled ::
  "'c rrd_env \<Rightarrow> go_error \<Rightarrow> rrd_object \<Rightarrow> 'c rrd_world \<Rightarrow> rrd_object \<times> 'c rrd_world" where
  "rrdMarkStalled env err obj w =
     (let obj' = stall env (stalledErrorDetail (Some err)) obj in
      (obj', snd (ApplyRestrictedRoleDefinitionStatus env obj' w)))"

definition rrdApplyStatusAndMarkStalled ::
  "'c rrd_env \<Rightarrow> string \<Rightarrow> rrd_object \<Rightarrow> 'c rrd_world \<Rightarrow> go_error option \<times> rrd_object \<times> 'c rrd_world" where
  "rrdApplyStatusAndMarkStalled env m obj w =
     (let obj' = stall env m obj in
      case ApplyRestrictedRoleDefinitionStatus env obj' w of
        (Some err, w') \<Rightarrow> (Some (wrapf [Lit ''apply stalled status''] err), obj', w')
      | (None, w') \<Rightarrow> (None, obj', w'))"

section \<open>Deprovisioning and deletion\<close>

definition rrdDeprovision :: "'c rrd_env \<Rightarrow> rrd_object \<Rightarrow> 'c rrd_world \<Rightarrow> go_error option \<times> 'c rrd_world" where
  "rrdDeprovision env obj w =
     (let spec = ro_Spec obj in
      case target_key spec of
        None \<Rightarrow> (Some (invalidTargetRole (rrds_TargetRole spec)), w)
      | Some key \<Rightarrow>
          (case server_read (base_fail env) DeprovisionGet (w_Roles w key) of
             Missing \<Rightarrow> (None, w)
           | ReadError err \<Rightarrow> (Some (wrapf [Lit ''get '', Lit (rrds_TargetRole spec), Lit '' '',
               Lit (rrds_TargetName spec), Lit '' before deprovision''] err), w)
           | Got role \<Rightarrow>
               if \<not> hasControllerOwnerRef (role_OwnerReferences role) (rrd_owner obj) then (None, w)
               else
                 (case server_write (base_fail env) DeprovisionDelete key None (w_Roles w) of
                    (Some err, roles) \<Rightarrow>
                      (if IsNotFound err then None
                       else Some (wrapf [Lit ''delete '', Lit (rrds_TargetRole spec), Lit '' '',
                         Lit (rrds_TargetName spec)] err), w\<lparr>w_Roles := roles\<rparr>)
                  | (None, roles) \<Rightarrow> (None, w\<lparr>w_Roles := roles\<rparr>))))"

text \<open>Removing the last finalizer of a deleted object lets it go.\<close>

definition dropFinalizer ::
  "'c rrd_env \<Rightarrow> rrd_object \<Rightarrow> 'c rrd_world \<Rightarrow> go_error option \<times> 'c rrd_world" where
  "dropFinalizer env obj w =
     (case base_fail env RemoveFinalizer of
        Some err \<Rightarrow> (Some err, w)
      | None \<Rightarrow>
          let finalizers = filter (\<lambda>f. f \<noteq> RestrictedRoleDefinitionFinalizer) (ro_Finalizers obj) in
          (None, w\<lparr>w_Object := if finalizers = [] then None else Some (obj\<lparr>ro_Finalizers := finalizers\<rparr>)\<rparr>))"

definition rrdHandleDeletion ::
  "'c rrd_env \<Rightarrow> rrd_object \<Rightarrow> 'c rrd_world \<Rightarrow> go_error option \<times> 'c rrd_world" where
  "rrdHandleDeletion env obj w =
     (if RestrictedRoleDefinitionFinalizer \<notin> set (ro_Finalizers obj) then (None, w)
      else
        (case rrdDeprovision env obj w of
           (Some err, w1) \<Rightarrow> (Some (wrapf [Lit ''delete cleanup for RestrictedRoleDefinition '', Lit (ro_Name obj)] err), w1)
         | (None, w1) \<Rightarrow>
             (case dropFinalizer env obj w1 of
                (Some err, w2) \<Rightarrow>
                  (Some (wrapf [Lit ''remove finalizer from RestrictedRoleDefinition '', Lit (ro_Name obj)] err), w2)
              | (None, w2) \<Rightarrow> (None, w2))))"

section \<open>Evaluating the policy\<close>

text \<open>
  The label resolver; a failed read is remembered and reported by \<open>labelGetterErr\<close>. The API server omits an
  empty label map, so an object without labels is read with the nil map \<open>None\<close>: it counts as found, but
  \<open>checkRoleRef\<close> cannot tell a role without labels from a role that is not there and fails closed.
\<close>

definition newLabelGetter ::
  "selector_api \<Rightarrow> go_error option \<Rightarrow> (string, labels) gomap \<Rightarrow> role_store \<Rightarrow> LabelGetter" where
  "newLabelGetter asSelector failure namespaces roles =
     (let labelsOf = (\<lambda>stored. case server_read (\<lambda>_. failure) ReadLabels stored of
            Got ls \<Rightarrow> (if ls = [] then None else Some ls, True) | _ \<Rightarrow> (None, False)) in
      \<lparr>GetNamespaceLabels = (\<lambda>name. labelsOf (map_of namespaces name)),
       GetClusterRoleLabels = (\<lambda>name. labelsOf (map_option role_Labels (roles (ClusterRoleKey name)))),
       GetRoleLabels = (\<lambda>ns name. labelsOf (map_option role_Labels (roles (RoleKey ns name)))),
       ListNamespacesBySelector = (\<lambda>selector.
         case asSelector selector of
           Inl err \<Rightarrow> Inl (''parse namespace selector: '' @ err)
         | Inr sel \<Rightarrow>
             (case failure of
                Some err \<Rightarrow> Inl (''list namespaces by selector: '' @ render (ge_text err))
              | None \<Rightarrow> Inr (map fst (filter (\<lambda>(name, ls). sel ls) namespaces))))\<rparr>)"

abbreviation rrd_labels :: "'c rrd_env \<Rightarrow> role_store \<Rightarrow> LabelGetter" where
  "rrd_labels env roles \<equiv> newLabelGetter (re_AsSelector env) (base_fail env ReadLabels) (re_Namespaces env) roles"

text \<open>
  The evaluation of a role resolves at most the labels of the target namespace: when the policy's scope has
  a selector and does not list the namespace.
\<close>

definition labelGetterErr :: "'c rrd_env \<Rightarrow> PolicyScope \<Rightarrow> string \<Rightarrow> go_error option" where
  "labelGetterErr env scope namespace =
     (if namespace = '''' \<or> namespace \<in> set (scope_Namespaces scope) \<or> scope_NamespaceSelector scope = None then None
      else
        (case server_read (base_fail env) ReadLabels (map_of (re_Namespaces env) namespace) of
           ReadError err \<Rightarrow> Some (wrapf [Lit ''get namespace '', Lit namespace, Lit '' labels''] err)
         | _ \<Rightarrow> None))"

definition rrdPolicyLifecycleConfig ::
  "'c rrd_env \<Rightarrow> rrd_object \<Rightarrow> role_store \<Rightarrow> (rrd_object, 'c rrd_world) lifecycle" where
  "rrdPolicyLifecycleConfig env rrd roles =
     \<lparr>lc_ResourceName = ro_Name rrd, lc_ResourceKind = ''RestrictedRoleDefinition'',
      lc_PolicyRefName = rrds_PolicyRef (ro_Spec rrd), lc_Generation = ro_Generation rrd, lc_Now = re_Now env,
      lc_Evaluate = (\<lambda>policy.
        (EvaluateRoleDefinitionWithLabels (re_AsSelector env) (Some policy) (Some (ro_Definition rrd))
           (Some (rrd_labels env roles)),
         labelGetterErr env (ps_AppliesTo (policy_Spec policy)) (rrds_TargetNamespace (ro_Spec rrd)))),
      lc_Deprovision = (\<lambda>obj w. case rrdDeprovision env rrd w of (err, w') \<Rightarrow> (err, obj, w')),
      lc_MarkStalled = rrdMarkStalled env,
      lc_ApplyStatusAndMarkStalled = rrdApplyStatusAndMarkStalled env,
      lc_ApplyStatus = ApplyRestrictedRoleDefinitionStatus env,
      lc_SetReconciled = set_reconciled,
      lc_SetPolicyViolations = set_violations,
      lc_Conditions = on_conditions\<rparr>"

text \<open>\<open>None\<close> when the policy is satisfied and the reconciliation goes on.\<close>

definition rrdEvaluatePolicy ::
  "'c rrd_env \<Rightarrow> rrd_object \<Rightarrow> RBACPolicy \<Rightarrow> 'c rrd_world \<Rightarrow> outcome option \<times> rrd_object \<times> 'c rrd_world" where
  "rrdEvaluatePolicy env rrd rbacPolicy w =
     (let cfg = rrdPolicyLifecycleConfig env rrd (w_Roles w) in
      case evaluateRestrictedPolicy cfg rbacPolicy rrd w of
        (Inl err, obj, w1) \<Rightarrow> (Some (NoRequeue, Some err), obj, w1)
      | (Inr violations, obj, w1) \<Rightarrow>
          if violations = [] then (None, obj, w1)
          else (case handlePolicyViolations cfg violations obj w1 of (out, obj', w2) \<Rightarrow> (Some out, obj', w2)))"

section \<open>Writing the role\<close>

definition rrdNormalizeOwnedClusterRoleMetadata ::
  "'c rrd_env \<Rightarrow> 'c apply_client \<Rightarrow> rrd_object \<Rightarrow> string \<Rightarrow> labels \<Rightarrow> role_store \<Rightarrow> go_error option \<times> role_store" where
  "rrdNormalizeOwnedClusterRoleMetadata env applyClient rrd name desiredLabels roles =
     (case server_read (base_fail env) NormalizeGet (roles (ClusterRoleKey name)) of
        Missing \<Rightarrow> (None, roles)
      | ReadError err \<Rightarrow> (Some err, roles)
      | Got existing \<Rightarrow>
          if \<not> hasControllerOwnerRef (role_OwnerReferences existing) (rrd_owner rrd) then (None, roles)
          else
            let relabel = (\<not> mapsEqual (role_Labels existing) desiredLabels);
                patched = existing\<lparr>role_Labels := if relabel then desiredLabels else role_Labels existing,
                                   role_AggregationRule := None\<rparr> in
            if \<not> relabel \<and> role_AggregationRule existing = None then (None, roles)
            else
              (case server_write (re_Fail env applyClient) NormalizePatch (ClusterRoleKey name) (Some patched) roles of
                 (Some err, roles') \<Rightarrow>
                   (Some (wrapf [Lit ''normalize owned ClusterRole '', Lit name, Lit '' metadata''] err), roles')
               | (None, roles') \<Rightarrow> (None, roles')))"

text \<open>\<^verbatim>\<open>rrdClearClusterRoleRulesIfEmpty\<close> and \<^verbatim>\<open>rrdClearRoleRulesIfEmpty\<close> differ in the kind of role.\<close>

definition rrdClearRulesIfEmpty ::
  "'c rrd_env \<Rightarrow> 'c apply_client \<Rightarrow> rrd_object \<Rightarrow> role_key \<Rightarrow> msg \<Rightarrow> PolicyRule list \<Rightarrow> role_store
    \<Rightarrow> go_error option \<times> role_store" where
  "rrdClearRulesIfEmpty env applyClient rrd key what finalRules roles =
     (if length finalRules > 0 then (None, roles)
      else
        (case server_read (base_fail env) ClearGet (roles key) of
           Missing \<Rightarrow> (None, roles)
         | ReadError err \<Rightarrow> (Some err, roles)
         | Got existing \<Rightarrow>
             if \<not> hasControllerOwnerRef (role_OwnerReferences existing) (rrd_owner rrd) then (None, roles)
             else if role_Rules existing = [] then (None, roles)
             else
               (case server_write (re_Fail env applyClient) ClearPatch key (Some (existing\<lparr>role_Rules := []\<rparr>)) roles of
                  (Some err, roles') \<Rightarrow>
                    (if IsNotFound err then None
                     else Some (wrapf ([Lit ''clear ''] @ what @ [Lit '' rules'']) err), roles')
                | (None, roles') \<Rightarrow> (None, roles'))))"

definition rrdClearClusterRoleRulesIfEmpty ::
  "'c rrd_env \<Rightarrow> 'c apply_client \<Rightarrow> rrd_object \<Rightarrow> string \<Rightarrow> PolicyRule list \<Rightarrow> role_store
    \<Rightarrow> go_error option \<times> role_store" where
  "rrdClearClusterRoleRulesIfEmpty env applyClient rrd name finalRules roles =
     rrdClearRulesIfEmpty env applyClient rrd (ClusterRoleKey name) [Lit ''ClusterRole '', Lit name] finalRules roles"

definition rrdClearRoleRulesIfEmpty ::
  "'c rrd_env \<Rightarrow> 'c apply_client \<Rightarrow> rrd_object \<Rightarrow> string \<Rightarrow> string \<Rightarrow> PolicyRule list \<Rightarrow> role_store
    \<Rightarrow> go_error option \<times> role_store" where
  "rrdClearRoleRulesIfEmpty env applyClient rrd namespace name finalRules roles =
     rrdClearRulesIfEmpty env applyClient rrd (RoleKey namespace name)
       [Lit ''Role '', Lit namespace, Lit ''/'', Lit name] finalRules roles"

definition rrd_ac :: "rrd_object \<Rightarrow> PolicyRule list \<Rightarrow> role_ac" where
  "rrd_ac rrd finalRules =
     (let spec = ro_Spec rrd;
          ownerRef = ownerRefForRestricted (ro_Name rrd) (ro_UID rrd) RestrictedRoleDefinitionKind;
          annotations = BuildResourceAnnotations ''RestrictedRoleDefinition'' (ro_Name rrd);
          ac =
            (if rrds_TargetRole spec = DefinitionClusterRole
             then ClusterRoleWithLabelsAndRules (rrds_TargetName spec) (BuildRestrictedResourceLabels []) finalRules
             else RoleWithLabelsAndRules (rrds_TargetName spec) (rrds_TargetNamespace spec)
               (BuildRestrictedResourceLabels (ro_Labels rrd)) finalRules) in
      ac\<lparr>rac_OwnerReferences := [ownerRef], rac_Annotations := annotations\<rparr>)"

definition rrdEnsureRole ::
  "'c rrd_env \<Rightarrow> rrd_object \<Rightarrow> PolicyRule list \<Rightarrow> 'c apply_client \<Rightarrow> role_store
    \<Rightarrow> go_error option \<times> rrd_object \<times> role_store" where
  "rrdEnsureRole env rrd finalRules applyClient roles =
     (let spec = ro_Spec rrd; fail = re_Fail env applyClient in
      case checkRestrictedRoleOwnership (base_fail env) roles (rrd_owner rrd) (rrds_TargetRole spec)
             (rrds_TargetName spec) (rrds_TargetNamespace spec) of
        Some err \<Rightarrow>
          (Some err, on_conditions (\<lambda>cs. MarkFalse (re_Now env) cs OwnerRefCondition (ro_Generation rrd)
             OwnerRefReason ''ownership conflict (check operator logs for details)'') rrd, roles)
      | None \<Rightarrow>
          if rrds_TargetRole spec = DefinitionClusterRole then
            (case rrdNormalizeOwnedClusterRoleMetadata env applyClient rrd (rrds_TargetName spec)
                    (BuildRestrictedResourceLabels []) roles of
               (Some err, roles1) \<Rightarrow> (Some err, rrd, roles1)
             | (None, roles1) \<Rightarrow>
                 (case rrdClearClusterRoleRulesIfEmpty env applyClient rrd (rrds_TargetName spec) finalRules roles1 of
                    (Some err, roles2) \<Rightarrow> (Some err, rrd, roles2)
                  | (None, roles2) \<Rightarrow>
                      (case PatchApplyClusterRolePruningLabelsAlways fail (re_SSA env) (re_Skips env)
                              (rrd_ac rrd finalRules) IsProtectedRestrictedLabel True roles2 of
                         (Inl err, roles3) \<Rightarrow>
                           (Some (wrapf [Lit ''apply ClusterRole '', Lit (rrds_TargetName spec)] err), rrd, roles3)
                       | (Inr result, roles3) \<Rightarrow> (None, rrd, roles3))))
          else if rrds_TargetRole spec = DefinitionNamespacedRole then
            (case rrdClearRoleRulesIfEmpty env applyClient rrd (rrds_TargetNamespace spec) (rrds_TargetName spec)
                    finalRules roles of
               (Some err, roles1) \<Rightarrow> (Some err, rrd, roles1)
             | (None, roles1) \<Rightarrow>
                 (case PatchApplyRoleAlways fail (re_SSA env) (re_Skips env) (rrd_ac rrd finalRules) roles1 of
                    (Inl err, roles2) \<Rightarrow>
                      (Some (wrapf [Lit ''apply Role '', Lit (rrds_TargetNamespace spec), Lit ''/'',
                         Lit (rrds_TargetName spec)] err), rrd, roles2)
                  | (Inr result, roles2) \<Rightarrow> (None, rrd, roles2)))
          else (Some (invalidTargetRole (rrds_TargetRole spec)), rrd, roles))"

section \<open>Reconcile\<close>

definition rrdRecordConstrainedImpersonationState :: "'c rrd_env \<Rightarrow> rrd_object \<Rightarrow> rrd_object" where
  "rrdRecordConstrainedImpersonationState env rrd =
     on_conditions (\<lambda>cs. snd (setConstrainedImpersonationCondition (re_Now env) (ro_Generation rrd)
       (rrds_ConstrainedImpersonation (ro_Spec rrd)) (rrds_RestrictedVerbs (ro_Spec rrd)) (re_Detector env) cs)) rrd"

text \<open>Steps 8 and 9: the role is written under the policy's identity, then the status.\<close>

definition rrdApplyAndFinish ::
  "'c rrd_env \<Rightarrow> rrd_object \<Rightarrow> RBACPolicy \<Rightarrow> PolicyRule list \<Rightarrow> 'c rrd_world \<Rightarrow> outcome \<times> 'c rrd_world" where
  "rrdApplyAndFinish env rrd rbacPolicy finalRules w =
     (case resolvePolicyApplyClient (re_RestConfig env) rbacPolicy (re_Factory env) (w_Cache w) of
        (Inl err, cache) \<Rightarrow>
          ((NoRequeue, Some (wrapf [Lit ''resolve apply client for RestrictedRoleDefinition '', Lit (ro_Name rrd)] err)),
           snd (rrdMarkStalled env err rrd (w\<lparr>w_Cache := cache\<rparr>)))
      | (Inr (applyClient, impersonatedUser), cache) \<Rightarrow>
          (case rrdEnsureRole env rrd finalRules applyClient (w_Roles w) of
             (Some err, rrd1, roles) \<Rightarrow>
               ((NoRequeue, Some err),
                snd (rrdMarkStalled env err rrd1 (w\<lparr>w_Cache := cache, w_Roles := roles\<rparr>)))
           | (None, rrd1, roles) \<Rightarrow>
               let rrd2 = on_conditions (\<lambda>cs. MarkReady (re_Now env) cs (ro_Generation rrd1) ReadyReasonReconciled
                     ReadyMessageReconciled) (set_reconciled True rrd1) in
               (case ApplyRestrictedRoleDefinitionStatus env rrd2 (w\<lparr>w_Cache := cache, w_Roles := roles\<rparr>) of
                  (Some err, w1) \<Rightarrow> ((NoRequeue, Some (wrapf [Lit ''apply RestrictedRoleDefinition '',
                     Lit (ro_Name rrd), Lit '' status''] err)), w1)
                | (None, w1) \<Rightarrow> ((RequeueAfter DefaultRequeueInterval, None), w1))))"

text \<open>Steps 7.4 and 7.5: the grant is appended and the rules are counted.\<close>

definition rrdCheckAndApply ::
  "'c rrd_env \<Rightarrow> rrd_object \<Rightarrow> RBACPolicy \<Rightarrow> PolicyRule list \<Rightarrow> 'c rrd_world \<Rightarrow> outcome \<times> 'c rrd_world" where
  "rrdCheckAndApply env rrd rbacPolicy discovered w =
     (case appendConstrainedImpersonationRules (rrds_ConstrainedImpersonation (ro_Spec rrd)) discovered of
        Inl err \<Rightarrow> ((NoRequeue, Some (errorf err)), snd (rrdMarkStalled env (errorf err) rrd w))
      | Inr finalRules \<Rightarrow>
          let rrd1 = rrdRecordConstrainedImpersonationState env rrd in
          (case CheckMaxRulesPerRole (ps_RoleLimits (policy_Spec rbacPolicy)) (int (length finalRules)) of
             Some v \<Rightarrow>
               (case handlePolicyViolations (rrdPolicyLifecycleConfig env rrd1 (w_Roles w)) [v]
                       (set_violations [Violation_String v] rrd1) w of
                  (out, rrd2, w1) \<Rightarrow> (out, w1))
           | None \<Rightarrow> rrdApplyAndFinish env rrd1 rbacPolicy finalRules w))"

text \<open>Step 7, after the policy was found satisfied.\<close>

definition rrdGenerate ::
  "'c rrd_env \<Rightarrow> rrd_object \<Rightarrow> RBACPolicy \<Rightarrow> 'c rrd_world \<Rightarrow> outcome \<times> 'c rrd_world" where
  "rrdGenerate env rrd rbacPolicy w =
     (case rrdDiscoverAndFilter (re_ParseGV env) (re_Tracker env) (ro_Definition rrd) of
        Failed m \<Rightarrow>
          let err0 = \<lparr>ge_causes = (case re_Tracker env of TrackerError _ \<Rightarrow> re_TrackerCauses env | _ \<Rightarrow> []), ge_text = m\<rparr> in
          (case rrdDeprovision env rrd w of
             (derr, w1) \<Rightarrow>
               let err = (case derr of
                     None \<Rightarrow> err0
                   | Some deprovisionErr \<Rightarrow> errors_Join err0
                       (wrapf [Lit ''deprovision after role discovery failure''] deprovisionErr));
                   rrd1 = markPolicyEvaluationError (rrdPolicyLifecycleConfig env rrd (w_Roles w)) err rrd in
               ((NoRequeue, Some err), snd (rrdMarkStalled env err rrd1 w1)))
      | Requeue \<Rightarrow>
          (case ApplyRestrictedRoleDefinitionStatus env rrd w of
             (Some err, w1) \<Rightarrow> ((NoRequeue, Some (wrapf [Lit ''apply status before requeue for RestrictedRoleDefinition '',
                Lit (ro_Name rrd)] err)), w1)
           | (None, w1) \<Rightarrow> ((RequeueAfter 10, None), w1))
      | Generated discovered \<Rightarrow> rrdCheckAndApply env rrd rbacPolicy discovered w)"

text \<open>Steps 5 and 6: the policy is read and evaluated.\<close>

definition rrdGovern :: "'c rrd_env \<Rightarrow> rrd_object \<Rightarrow> 'c rrd_world \<Rightarrow> outcome \<times> 'c rrd_world" where
  "rrdGovern env rrd w =
     (let cfg = rrdPolicyLifecycleConfig env rrd (w_Roles w); policyName = rrds_PolicyRef (ro_Spec rrd) in
      case server_read (base_fail env) GetPolicy (re_Policies env policyName) of
        Missing \<Rightarrow> (case handleMissingRestrictedPolicy cfg rrd w of (out, rrd1, w1) \<Rightarrow> (out, w1))
      | ReadError err \<Rightarrow>
          ((NoRequeue, Some (wrapf [Lit ''fetch RBACPolicy '', Lit policyName] err)), snd (rrdMarkStalled env err rrd w))
      | Got (rbacPolicy, deleting) \<Rightarrow>
          if deleting then (case handleDeletingRestrictedPolicy cfg rrd w of (out, rrd1, w1) \<Rightarrow> (out, w1))
          else
            (case rrdEvaluatePolicy env rrd rbacPolicy w of
               (Some out, rrd1, w1) \<Rightarrow> (out, w1)
             | (None, rrd1, w1) \<Rightarrow>
                 rrdGenerate env (set_violations [] (markPolicyCompliant cfg rrd1)) rbacPolicy w1))"

text \<open>Step 4; the finalizer is in the stored object when it is in memory.\<close>

definition EnsureFinalizerOf ::
  "'c rrd_env \<Rightarrow> rrd_object \<Rightarrow> rrd_object \<Rightarrow> 'c rrd_world \<Rightarrow> go_error option \<times> rrd_object \<times> 'c rrd_world" where
  "EnsureFinalizerOf env stored rrd w =
     (case base_fail env EnsureFinalizer of
        Some err \<Rightarrow> (Some err, rrd, w)
      | None \<Rightarrow>
          let stored1 = stored\<lparr>ro_Finalizers := ro_Finalizers stored @ [RestrictedRoleDefinitionFinalizer]\<rparr> in
          (None, if re_Refresh env then stored1 else rrd\<lparr>ro_Finalizers := ro_Finalizers stored1\<rparr>,
           w\<lparr>w_Object := Some stored1\<rparr>))"

definition Reconcile :: "'c rrd_env \<Rightarrow> string \<Rightarrow> 'c rrd_world \<Rightarrow> outcome \<times> 'c rrd_world" where
  "Reconcile env reqName w =
     (case server_read (base_fail env) GetDefinition (w_Object w) of
        Missing \<Rightarrow> ((NoRequeue, None), w)
      | ReadError err \<Rightarrow> ((NoRequeue, Some (wrapf [Lit ''fetch RestrictedRoleDefinition '', Lit reqName] err)), w)
      | Got rrd \<Rightarrow>
          if ro_Deleting rrd then
            (case rrdHandleDeletion env rrd w of
               (Some err, w1) \<Rightarrow> ((NoRequeue, Some err), w1)
             | (None, w1) \<Rightarrow> ((NoRequeue, None), w1))
          else
            let rrd1 = observe_generation (on_conditions (\<lambda>cs. MarkReconciling (re_Now env) cs (ro_Generation rrd)
                  ReconcilingReasonProgressing ReconcilingMessageProgressing) rrd) in
            if RestrictedRoleDefinitionFinalizer \<in> set (ro_Finalizers rrd1) then rrdGovern env rrd1 w
            else
              (case EnsureFinalizerOf env rrd rrd1 w of
                 (Some err, rrd2, w1) \<Rightarrow>
                   if IsConflict err then ((RequeueNow, None), w1)
                   else ((NoRequeue, Some (wrapf [Lit ''add finalizer to RestrictedRoleDefinition '', Lit (ro_Name rrd)] err)),
                     snd (rrdMarkStalled env err rrd2 w1))
               | (None, rrd2, w1) \<Rightarrow> rrdGovern env rrd2 w1))"

text \<open>A list of conditions that did not change needs no write.\<close>

lemma conditionsEqual_refl: "conditionsEqual cs cs"
  by (auto simp: conditionsEqual_def list_all_iff set_zip hasSameState_def)

end
