(* ===== verification/Restricted_Role_Runs.thy ===== *)
theory Restricted_Role_Runs
  imports Restricted_Role_Reconciler
begin

text \<open>
  What a reconciliation of a RestrictedRoleDefinition does to the cluster: it is confined to the target role
  under its own control, it deprovisions when the policy is unusable or violated, a definition that reports a
  reconciled role has exactly the role its policy allows, and without failures it implements the abstract
  specification \<open>intended\<close>.
\<close>

section \<open>Identity and frame\<close>

lemma on_conditions_simps [simp]:
  "ro_Definition (on_conditions f obj) = ro_Definition obj" "ro_UID (on_conditions f obj) = ro_UID obj"
  "ro_Generation (on_conditions f obj) = ro_Generation obj" "ro_Labels (on_conditions f obj) = ro_Labels obj"
  "ro_Finalizers (on_conditions f obj) = ro_Finalizers obj"
  "ro_Deleting (on_conditions f obj) = ro_Deleting obj"
  "st_RoleReconciled (ro_Status (on_conditions f obj)) = st_RoleReconciled (ro_Status obj)"
  "st_Conditions (ro_Status (on_conditions f obj)) = f (st_Conditions (ro_Status obj))"
  by (simp_all add: on_conditions_def)

lemma set_reconciled_simps [simp]:
  "ro_Definition (set_reconciled b obj) = ro_Definition obj" "ro_UID (set_reconciled b obj) = ro_UID obj"
  "ro_Generation (set_reconciled b obj) = ro_Generation obj" "ro_Labels (set_reconciled b obj) = ro_Labels obj"
  "ro_Finalizers (set_reconciled b obj) = ro_Finalizers obj"
  "st_RoleReconciled (ro_Status (set_reconciled b obj)) = b"
  "st_Conditions (ro_Status (set_reconciled b obj)) = st_Conditions (ro_Status obj)"
  by (simp_all add: set_reconciled_def)

lemma set_violations_simps [simp]:
  "ro_Definition (set_violations vs obj) = ro_Definition obj" "ro_UID (set_violations vs obj) = ro_UID obj"
  "ro_Generation (set_violations vs obj) = ro_Generation obj" "ro_Labels (set_violations vs obj) = ro_Labels obj"
  "st_RoleReconciled (ro_Status (set_violations vs obj)) = st_RoleReconciled (ro_Status obj)"
  "st_Conditions (ro_Status (set_violations vs obj)) = st_Conditions (ro_Status obj)"
  by (simp_all add: set_violations_def)

lemma observe_generation_simps [simp]:
  "ro_Definition (observe_generation obj) = ro_Definition obj" "ro_UID (observe_generation obj) = ro_UID obj"
  "ro_Generation (observe_generation obj) = ro_Generation obj" "ro_Labels (observe_generation obj) = ro_Labels obj"
  "ro_Finalizers (observe_generation obj) = ro_Finalizers obj"
  "st_RoleReconciled (ro_Status (observe_generation obj)) = st_RoleReconciled (ro_Status obj)"
  "st_Conditions (ro_Status (observe_generation obj)) = st_Conditions (ro_Status obj)"
  by (simp_all add: observe_generation_def)

text \<open>The definition an object in memory stands for; status changes keep it.\<close>

definition same_definition :: "rrd_object \<Rightarrow> rrd_object \<Rightarrow> bool" where
  "same_definition a b \<longleftrightarrow> ro_Definition a = ro_Definition b \<and> ro_UID a = ro_UID b \<and> ro_Labels a = ro_Labels b"

lemma same_definition_refl [simp]: "same_definition a a"
  by (simp add: same_definition_def)

definition controlled :: "rrd_object \<Rightarrow> rbac_role \<Rightarrow> bool" where
  "controlled obj role \<longleftrightarrow> hasControllerOwnerRef (role_OwnerReferences role) (rrd_owner obj)"

text \<open>No role under the definition's control is at its target.\<close>

definition clean :: "rrd_object \<Rightarrow> role_store \<Rightarrow> bool" where
  "clean obj roles \<longleftrightarrow> (\<forall>k role. target_key (ro_Spec obj) = Some k \<longrightarrow> roles k = Some role \<longrightarrow> \<not> controlled obj role)"

text \<open>Only the target changes, and only when it is free or under the definition's control.\<close>

definition confined :: "rrd_object \<Rightarrow> role_store \<Rightarrow> role_store \<Rightarrow> bool" where
  "confined obj roles roles' \<longleftrightarrow>
     (\<forall>k. Some k \<noteq> target_key (ro_Spec obj) \<longrightarrow> roles' k = roles k) \<and>
     (\<forall>k role. roles k = Some role \<longrightarrow> \<not> controlled obj role \<longrightarrow> roles' k = roles k)"

lemma confined_refl [simp]: "confined obj r r"
  by (simp add: confined_def)

lemma confined_trans: "confined obj r1 r2 \<Longrightarrow> confined obj r2 r3 \<Longrightarrow> confined obj r1 r3"
  by (simp add: confined_def)

lemma same_owner: "same_definition a b \<Longrightarrow> rrd_owner a = rrd_owner b"
  by (simp add: same_definition_def rrd_owner_def)

lemma same_controlled: "same_definition a b \<Longrightarrow> controlled a = controlled b"
  by (intro ext) (simp only: controlled_def same_owner)

lemma same_clean: "same_definition a b \<Longrightarrow> clean a = clean b"
  using same_controlled [of a b] by (intro ext) (simp add: clean_def same_definition_def)

lemma same_confined: "same_definition a b \<Longrightarrow> confined a = confined b"
  using same_controlled [of a b] by (intro ext) (simp add: confined_def same_definition_def)

definition owned :: "rrd_object \<Rightarrow> role_key \<Rightarrow> role_store \<Rightarrow> bool" where
  "owned obj key roles \<longleftrightarrow> (\<forall>role. roles key = Some role \<longrightarrow> controlled obj role)"

lemma ownedD: "owned obj key roles \<Longrightarrow> roles key = Some role \<Longrightarrow> controlled obj role"
  by (simp add: owned_def)

lemma confined_update:
  assumes "target_key (ro_Spec obj) = Some key" "\<forall>k. k \<noteq> key \<longrightarrow> roles' k = roles k" "owned obj key roles"
  shows "confined obj roles roles'"
  using assms unfolding confined_def owned_def by (metis option.inject)

section \<open>Status writes\<close>

lemma status_roles: "ApplyRestrictedRoleDefinitionStatus env obj w = (res, w') \<Longrightarrow>
    w_Roles w' = w_Roles w \<and> w_Cache w' = w_Cache w"
  by (auto simp: ApplyRestrictedRoleDefinitionStatus_def split: read.splits if_splits sum.splits option.splits)

lemma status_roles_snd [simp]:
  "w_Roles (snd (ApplyRestrictedRoleDefinitionStatus env obj w)) = w_Roles w"
  "w_Cache (snd (ApplyRestrictedRoleDefinitionStatus env obj w)) = w_Cache w"
  using status_roles [of env obj w] by (metis prod.collapse)+

lemma stalled_roles [simp]:
  "w_Roles (snd (rrdMarkStalled env err obj w)) = w_Roles w" "w_Cache (snd (rrdMarkStalled env err obj w)) = w_Cache w"
  by (simp_all add: rrdMarkStalled_def Let_def)

lemma apply_stalled_roles: "rrdApplyStatusAndMarkStalled env m obj w = (res, obj', w') \<Longrightarrow> w_Roles w' = w_Roles w"
  by (auto simp: rrdApplyStatusAndMarkStalled_def Let_def status_roles split: prod.splits option.splits)

section \<open>Deprovisioning\<close>

lemma deprovision_cases:
  assumes "rrdDeprovision env obj w = (res, w')"
  shows "confined obj (w_Roles w) (w_Roles w') \<and> (res = None \<longrightarrow> clean obj (w_Roles w')) \<and>
    w_Object w' = w_Object w \<and> w_Cache w' = w_Cache w"
proof (cases "target_key (ro_Spec obj)")
  case None
  then show ?thesis using assms by (auto simp: rrdDeprovision_def Let_def)
next
  case (Some key)
  show ?thesis
  proof (cases "server_read (base_fail env) DeprovisionGet (w_Roles w key)")
    case Missing
    then show ?thesis
      using assms Some server_read_Missing [OF Missing] by (auto simp: rrdDeprovision_def Let_def clean_def)
  next
    case (ReadError err)
    then show ?thesis using assms Some by (auto simp: rrdDeprovision_def Let_def)
  next
    case (Got role)
    then have stored: "w_Roles w key = Some role" by (rule server_read_Got)
    show ?thesis
    proof (cases "controlled obj role")
      case False
      then show ?thesis
        using assms Some Got stored by (auto simp: rrdDeprovision_def Let_def clean_def controlled_def)
    next
      case True
      obtain werr roles where wr: "server_write (base_fail env) DeprovisionDelete key None (w_Roles w) = (werr, roles)"
        by fastforce
      have frame: "\<forall>k. k \<noteq> key \<longrightarrow> roles k = w_Roles w k"
        using server_write_frame [of _ key "base_fail env" DeprovisionDelete None "w_Roles w"] wr by simp
      have conf: "confined obj (w_Roles w) roles"
        by (rule confined_update [OF Some frame]) (use stored True in \<open>simp add: owned_def\<close>)
      have w': "w' = w\<lparr>w_Roles := roles\<rparr>"
        using assms Some Got True wr by (auto simp: rrdDeprovision_def Let_def controlled_def split: option.splits)
      have "res = None \<Longrightarrow> roles key = None"
        using assms Some Got True wr
        by (auto simp: rrdDeprovision_def Let_def controlled_def server_write_def split: option.splits if_splits)
      then show ?thesis using conf Some by (auto simp: w' clean_def)
    qed
  qed
qed

lemma deprovision_callback:
  "lc_Deprovision (rrdPolicyLifecycleConfig env rrd roles) obj w = (res, obj', w') \<longleftrightarrow>
   rrdDeprovision env rrd w = (res, w') \<and> obj' = obj"
  by (auto simp: rrdPolicyLifecycleConfig_def split: prod.splits)

interpretation rrd_lc: policy_lifecycle "rrdPolicyLifecycleConfig env rrd roles" "\<lambda>w. clean rrd (w_Roles w)"
    "\<lambda>w w'. confined rrd (w_Roles w) (w_Roles w')"
  for env rrd roles
proof
  fix obj w res obj' w'
  assume "lc_Deprovision (rrdPolicyLifecycleConfig env rrd roles) obj w = (res, obj', w')"
  then show "confined rrd (w_Roles w) (w_Roles w')"
    using deprovision_cases [of env rrd w res w'] by (simp add: deprovision_callback)
next
  fix obj w obj' w'
  assume "lc_Deprovision (rrdPolicyLifecycleConfig env rrd roles) obj w = (None, obj', w')"
  then show "clean rrd (w_Roles w')"
    using deprovision_cases [of env rrd w None w'] by (simp add: deprovision_callback)
next
  fix err obj w obj' w'
  assume "lc_MarkStalled (rrdPolicyLifecycleConfig env rrd roles) err obj w = (obj', w')"
  then have "w' = snd (rrdMarkStalled env err obj w)" by (simp add: rrdPolicyLifecycleConfig_def)
  then show "clean rrd (w_Roles w') = clean rrd (w_Roles w) \<and> confined rrd (w_Roles w) (w_Roles w')" by simp
next
  fix obj w res w'
  assume "lc_ApplyStatus (rrdPolicyLifecycleConfig env rrd roles) obj w = (res, w')"
  then show "clean rrd (w_Roles w') = clean rrd (w_Roles w) \<and> confined rrd (w_Roles w) (w_Roles w')"
    using status_roles [of env obj w res w'] by (simp add: rrdPolicyLifecycleConfig_def)
next
  fix m obj w res obj' w'
  assume "lc_ApplyStatusAndMarkStalled (rrdPolicyLifecycleConfig env rrd roles) m obj w = (res, obj', w')"
  then show "clean rrd (w_Roles w') = clean rrd (w_Roles w) \<and> confined rrd (w_Roles w) (w_Roles w')"
    using apply_stalled_roles [of env m obj w res obj' w'] by (simp add: rrdPolicyLifecycleConfig_def)
next
  show "confined rrd (w_Roles w) (w_Roles w)" for w :: "'c rrd_world" by simp
next
  show "confined rrd (w_Roles w1) (w_Roles w3)"
    if "confined rrd (w_Roles w1) (w_Roles w2)" "confined rrd (w_Roles w2) (w_Roles w3)"
    for w1 w2 w3 :: "'c rrd_world"
    using that by (rule confined_trans)
qed

section \<open>Writing the role\<close>

text \<open>
  A step in front of the apply: it changes only the target, and what is there afterwards is what was there,
  with the same owners.
\<close>

definition same_owners :: "role_key \<Rightarrow> role_store \<Rightarrow> role_store \<Rightarrow> bool" where
  "same_owners key roles roles' \<longleftrightarrow> (\<forall>k. k \<noteq> key \<longrightarrow> roles' k = roles k) \<and>
     (\<forall>role'. roles' key = Some role' \<longrightarrow>
        (\<exists>role. roles key = Some role \<and> role_OwnerReferences role' = role_OwnerReferences role))"

lemma same_owners_refl [simp]: "same_owners key r r"
  by (simp add: same_owners_def)

lemma same_owners_trans: "same_owners key r1 r2 \<Longrightarrow> same_owners key r2 r3 \<Longrightarrow> same_owners key r1 r3"
  by (fastforce simp: same_owners_def)

lemma same_owners_write:
  assumes "server_write fail call key new roles = (err, roles')" "roles key = Some role"
    and "\<And>role'. new = Some role' \<Longrightarrow> role_OwnerReferences role' = role_OwnerReferences role"
  shows "same_owners key roles roles'"
  using assms by (auto simp: server_write_def same_owners_def split: option.splits if_splits)

lemma check_target:
  "checkRestrictedRoleOwnership fail roles owner (rrds_TargetRole spec) (rrds_TargetName spec)
     (rrds_TargetNamespace spec) = None \<Longrightarrow>
   \<exists>key. target_key spec = Some key \<and>
     (\<forall>role. roles key = Some role \<longrightarrow> hasControllerOwnerRef (role_OwnerReferences role) owner)"
  by (auto simp: checkRestrictedRoleOwnership_def target_key_def Let_def DefinitionClusterRole_def
      DefinitionNamespacedRole_def dest: server_read_Got server_read_Missing
      split: read.splits if_splits option.splits)

text \<open>The metadata of a ClusterRole after its normalisation.\<close>

definition tidy :: "rbac_role \<Rightarrow> bool" where
  "tidy role \<longleftrightarrow> role_AggregationRule role = None \<and> set (role_Labels role) \<subseteq> set (BuildRestrictedResourceLabels [])"

lemma normalize_effect:
  assumes "rrdNormalizeOwnedClusterRoleMetadata env client rrd name (BuildRestrictedResourceLabels []) roles = (res, roles')"
    and own: "owned rrd (ClusterRoleKey name) roles"
  shows "same_owners (ClusterRoleKey name) roles roles' \<and>
    (res = None \<longrightarrow> (\<forall>role. roles' (ClusterRoleKey name) = Some role \<longrightarrow> tidy role))"
proof (cases "server_read (base_fail env) NormalizeGet (roles (ClusterRoleKey name))")
  case Missing
  then show ?thesis
    using assms(1) server_read_Missing [OF Missing] by (auto simp: rrdNormalizeOwnedClusterRoleMetadata_def)
next
  case (ReadError err)
  then show ?thesis using assms(1) by (auto simp: rrdNormalizeOwnedClusterRoleMetadata_def)
next
  case (Got role)
  let ?key = "ClusterRoleKey name" and ?ls = "BuildRestrictedResourceLabels []"
  have stored: "roles ?key = Some role" by (rule server_read_Got [OF Got])
  have ctl: "hasControllerOwnerRef (role_OwnerReferences role) (rrd_owner rrd)"
    using ownedD [OF own stored] by (simp add: controlled_def)
  define patched where "patched = role\<lparr>role_Labels := if \<not> mapsEqual (role_Labels role) ?ls then ?ls
    else role_Labels role, role_AggregationRule := None\<rparr>"
  have tidy_patched: "tidy patched" by (auto simp: tidy_def patched_def dest: mapsEqual_subset)
  show ?thesis
  proof (cases "mapsEqual (role_Labels role) ?ls \<and> role_AggregationRule role = None")
    case True
    then have "tidy role" using mapsEqual_subset by (simp add: tidy_def)
    then show ?thesis
      using assms(1) Got ctl True stored by (auto simp: rrdNormalizeOwnedClusterRoleMetadata_def)
  next
    case False
    obtain werr roles1 where wr: "server_write (re_Fail env client) NormalizePatch ?key (Some patched) roles = (werr, roles1)"
      by fastforce
    have "roles' = roles1 \<and> (res = None \<longrightarrow> werr = None)"
      using assms(1) Got ctl False wr unfolding rrdNormalizeOwnedClusterRoleMetadata_def patched_def Let_def
      by (auto split: option.splits)
    moreover have "same_owners ?key roles roles1"
      using wr stored by (rule same_owners_write) (simp add: patched_def)
    moreover have "werr = None \<longrightarrow> roles1 ?key = Some patched"
      using wr by (auto simp: server_write_def split: option.splits)
    ultimately show ?thesis using tidy_patched by auto
  qed
qed

lemma clear_effect:
  assumes "rrdClearRulesIfEmpty env client rrd key what finalRules roles = (res, roles')"
    and own: "owned rrd key roles"
  shows "same_owners key roles roles' \<and>
    (\<forall>role'. roles' key = Some role' \<longrightarrow> (\<exists>role. roles key = Some role \<and> role_Labels role' = role_Labels role \<and>
       role_AggregationRule role' = role_AggregationRule role \<and>
       (res = None \<longrightarrow> finalRules = [] \<longrightarrow> role_Rules role' = [])))"
proof (cases "finalRules = []")
  case False
  then show ?thesis using assms(1) by (auto simp: rrdClearRulesIfEmpty_def)
next
  case True
  show ?thesis
  proof (cases "server_read (base_fail env) ClearGet (roles key)")
    case Missing
    then show ?thesis
      using assms(1) server_read_Missing [OF Missing] True by (auto simp: rrdClearRulesIfEmpty_def)
  next
    case (ReadError err)
    then show ?thesis using assms(1) True by (auto simp: rrdClearRulesIfEmpty_def)
  next
    case (Got role)
    have stored: "roles key = Some role" by (rule server_read_Got [OF Got])
    have ctl: "hasControllerOwnerRef (role_OwnerReferences role) (rrd_owner rrd)"
      using ownedD [OF own stored] by (simp add: controlled_def)
    show ?thesis
    proof (cases "role_Rules role = []")
      case True
      then show ?thesis using assms(1) Got stored by (auto simp: rrdClearRulesIfEmpty_def split: if_splits)
    next
      case False
      obtain werr roles1 where wr: "server_write (re_Fail env client) ClearPatch key
          (Some (role\<lparr>role_Rules := []\<rparr>)) roles = (werr, roles1)" by fastforce
      have eq: "roles' = roles1 \<and> (res = None \<longrightarrow> werr = None \<or> roles1 key = None)"
        using assms(1) Got ctl False True wr
        by (auto simp: rrdClearRulesIfEmpty_def server_write_def split: option.splits if_splits)
      moreover have "same_owners key roles roles1" using wr stored by (rule same_owners_write) simp
      moreover have "roles1 key = (case werr of None \<Rightarrow> Some (role\<lparr>role_Rules := []\<rparr>)
          | Some e \<Rightarrow> if IsNotFound e then None else Some role)"
        using wr stored by (auto simp: server_write_def split: option.splits if_splits)
      ultimately show ?thesis using stored by (auto split: option.splits if_splits)
    qed
  qed
qed

text \<open>What the apply finds at the target.\<close>

definition ready_to_apply :: "rrd_object \<Rightarrow> PolicyRule list \<Rightarrow> rbac_role option \<Rightarrow> bool" where
  "ready_to_apply rrd finalRules live \<longleftrightarrow> (\<forall>l. live = Some l \<longrightarrow>
     (finalRules = [] \<longrightarrow> role_Rules l = []) \<and>
     (rrds_TargetRole (ro_Spec rrd) = DefinitionClusterRole \<longrightarrow> tidy l))"

lemma ready_to_apply_less:
  assumes "less_labelled live stored" "ready_to_apply rrd rules stored"
  shows "ready_to_apply rrd rules live"
  unfolding ready_to_apply_def
proof (intro allI impI)
  fix l assume "live = Some l"
  then obtain r where r: "stored = Some r" "role_Rules l = role_Rules r"
      "role_AggregationRule l = role_AggregationRule r" "set (role_Labels l) \<subseteq> set (role_Labels r)"
    using assms(1) by (auto simp: less_labelled_def)
  then have "tidy r \<longrightarrow> tidy l" by (auto simp: tidy_def)
  then show "(rules = [] \<longrightarrow> role_Rules l = []) \<and>
      (rrds_TargetRole (ro_Spec rrd) = DefinitionClusterRole \<longrightarrow> tidy l)"
    using assms(2) r(1, 2) by (simp add: ready_to_apply_def)
qed

lemma rrd_ac_key: "target_key (ro_Spec rrd) = Some key \<Longrightarrow> role_ac_key (rrd_ac rrd rules) = key"
  by (auto simp: target_key_def rrd_ac_def role_ac_key_def Let_def ClusterRoleWithLabelsAndRules_def
      RoleWithLabelsAndRules_def split: if_splits)

lemma own_after: "same_owners key roles roles1 \<Longrightarrow> owned rrd key roles \<Longrightarrow> owned rrd key roles1"
  by (fastforce simp: same_owners_def controlled_def owned_def)

lemma confined_owners:
  assumes "same_owners key roles roles1" "target_key (ro_Spec rrd) = Some key" "owned rrd key roles"
    and "\<forall>k. k \<noteq> key \<longrightarrow> roles' k = roles1 k"
  shows "confined rrd roles roles'"
  by (rule confined_update [OF assms(2) _ assms(3)]) (use assms(1, 4) in \<open>auto simp: same_owners_def\<close>)

lemma confined_same:
  "same_owners key roles roles' \<Longrightarrow> target_key (ro_Spec rrd) = Some key \<Longrightarrow> owned rrd key roles \<Longrightarrow>
   confined rrd roles roles'"
  by (rule confined_owners [of key roles roles']) simp_all

lemma ensure_role:
  assumes "rrdEnsureRole env rrd rules client roles = (res, rrd', roles')"
    and key: "target_key (ro_Spec rrd) = Some key"
    and own: "owned rrd key roles"
    and check: "checkRestrictedRoleOwnership (base_fail env) roles (rrd_owner rrd) (rrds_TargetRole (ro_Spec rrd))
      (rrds_TargetName (ro_Spec rrd)) (rrds_TargetNamespace (ro_Spec rrd)) = None"
  shows "rrd' = rrd \<and> confined rrd roles roles' \<and>
    (res = None \<longrightarrow> (\<exists>live. roles' key = Some (re_SSA env (rrd_ac rrd rules) live) \<and> ready_to_apply rrd rules live))"
proof (cases "rrds_TargetRole (ro_Spec rrd) = DefinitionClusterRole")
  case True
  then have key_eq: "key = ClusterRoleKey (rrds_TargetName (ro_Spec rrd))" using key by (simp add: target_key_def)
  obtain r1 roles1 where n: "rrdNormalizeOwnedClusterRoleMetadata env client rrd (rrds_TargetName (ro_Spec rrd))
      (BuildRestrictedResourceLabels []) roles = (r1, roles1)" by fastforce
  note norm = normalize_effect [OF n, folded key_eq, OF own]
  note own1 = own_after [OF conjunct1 [OF norm] own]
  show ?thesis
  proof (cases r1)
    case (Some e)
    then show ?thesis
      using assms(1) check True n confined_same [OF conjunct1 [OF norm] key own]
      by (auto simp: rrdEnsureRole_def Let_def)
  next
    case None
    obtain r2 roles2 where c: "rrdClearClusterRoleRulesIfEmpty env client rrd (rrds_TargetName (ro_Spec rrd)) rules
        roles1 = (r2, roles2)" by fastforce
    note clear = clear_effect [OF c [unfolded rrdClearClusterRoleRulesIfEmpty_def, folded key_eq], OF own1]
    have so: "same_owners key roles roles2" by (rule same_owners_trans [OF conjunct1 [OF norm] conjunct1 [OF clear]])
    show ?thesis
    proof (cases r2)
      case (Some e)
      then show ?thesis
        using assms(1) check True n None c confined_same [OF so key own]
        by (auto simp: rrdEnsureRole_def Let_def)
    next
      case None2: None
      have ready: "ready_to_apply rrd rules (roles2 key)"
        using clear norm None None2 unfolding ready_to_apply_def tidy_def by fastforce
      obtain r3 roles3 where a: "PatchApplyClusterRolePruningLabelsAlways (re_Fail env client) (re_SSA env) (re_Skips env)
          (rrd_ac rrd rules) IsProtectedRestrictedLabel True roles2 = (r3, roles3)" by fastforce
      note app = apply_clusterrole_always [OF a, unfolded rrd_ac_key [OF key]]
      have fin: "rrd' = rrd" "roles' = roles3" "res = None \<longrightarrow> (\<exists>x. r3 = Inr x)"
        using assms(1) check True n None c None2 a by (auto simp: rrdEnsureRole_def Let_def split: sum.splits)
      have "confined rrd roles roles3" by (rule confined_owners [OF so key own]) (use app in simp)
      moreover have "res = None \<longrightarrow> (\<exists>live. roles3 key = Some (re_SSA env (rrd_ac rrd rules) live) \<and>
          ready_to_apply rrd rules live)"
        using app fin(3) ready ready_to_apply_less by fastforce
      ultimately show ?thesis using fin by simp
    qed
  qed
next
  case False
  then have tr: "rrds_TargetRole (ro_Spec rrd) = DefinitionNamespacedRole"
    and key_eq: "key = RoleKey (rrds_TargetNamespace (ro_Spec rrd)) (rrds_TargetName (ro_Spec rrd))"
    using key by (auto simp: target_key_def split: if_splits)
  obtain r2 roles2 where c: "rrdClearRoleRulesIfEmpty env client rrd (rrds_TargetNamespace (ro_Spec rrd))
      (rrds_TargetName (ro_Spec rrd)) rules roles = (r2, roles2)" by fastforce
  note clear = clear_effect [OF c [unfolded rrdClearRoleRulesIfEmpty_def, folded key_eq], OF own]
  show ?thesis
  proof (cases r2)
    case (Some e)
    then show ?thesis
      using assms(1) check False tr c confined_same [OF conjunct1 [OF clear] key own]
      by (auto simp: rrdEnsureRole_def Let_def)
  next
    case None
    have ready: "ready_to_apply rrd rules (roles2 key)"
      using clear None False unfolding ready_to_apply_def by fastforce
    obtain r3 roles3 where a: "PatchApplyRoleAlways (re_Fail env client) (re_SSA env) (re_Skips env)
        (rrd_ac rrd rules) roles2 = (r3, roles3)" by fastforce
    note app = apply_role_always [OF a, unfolded rrd_ac_key [OF key]]
    have fin: "rrd' = rrd" "roles' = roles3" "res = None \<longrightarrow> (\<exists>x. r3 = Inr x)"
      using assms(1) check False tr c None a by (auto simp: rrdEnsureRole_def Let_def split: sum.splits)
    have "confined rrd roles roles3" by (rule confined_owners [OF conjunct1 [OF clear] key own]) (use app in simp)
    then show ?thesis using fin app ready by auto
  qed
qed

lemma ensure_cases:
  assumes "rrdEnsureRole env rrd rules client roles = (res, rrd', roles')"
  shows "same_definition rrd' rrd \<and> confined rrd roles roles' \<and> (res = None \<longrightarrow> rrd' = rrd \<and>
    (\<exists>key live. target_key (ro_Spec rrd) = Some key \<and> owned rrd key roles \<and>
       roles' key = Some (re_SSA env (rrd_ac rrd rules) live) \<and> ready_to_apply rrd rules live))"
proof (cases "checkRestrictedRoleOwnership (base_fail env) roles (rrd_owner rrd) (rrds_TargetRole (ro_Spec rrd))
    (rrds_TargetName (ro_Spec rrd)) (rrds_TargetNamespace (ro_Spec rrd))")
  case (Some e)
  then show ?thesis using assms by (auto simp: rrdEnsureRole_def Let_def same_definition_def)
next
  case None
  obtain key where key: "target_key (ro_Spec rrd) = Some key" "owned rrd key roles"
    using check_target [OF None] by (auto simp: controlled_def owned_def)
  then show ?thesis using ensure_role [OF assms key None] by fastforce
qed

end
