(* ===== verification/Restricted_Role_Properties.thy ===== *)
theory Restricted_Role_Properties
  imports Restricted_Role_Runs
begin

text \<open>
  The properties of the RestrictedRoleDefinition reconciler: what a whole reconciliation does, against the
  abstract specification of the role a definition is meant to have.
\<close>

section \<open>The intended role\<close>

text \<open>
  The rules the definition is to have under its policy, by the evaluation and the generation alone: none
  when the policy is missing, being deleted or violated.
\<close>

definition intended :: "'c rrd_env \<Rightarrow> rrd_object \<Rightarrow> role_store \<Rightarrow> PolicyRule list option" where
  "intended env rrd roles =
     (case re_Policies env (rrds_PolicyRef (ro_Spec rrd)) of
        None \<Rightarrow> None
      | Some (policy, deleting) \<Rightarrow>
          if deleting \<or> EvaluateRoleDefinitionWithLabels (re_AsSelector env) (Some policy) (Some (ro_Definition rrd))
               (Some (rrd_labels env roles)) \<noteq> [] then None
          else
            (case rrdDiscoverAndFilter (re_ParseGV env) (re_Tracker env) (ro_Definition rrd) of
               Generated discovered \<Rightarrow>
                 (case appendConstrainedImpersonationRules (rrds_ConstrainedImpersonation (ro_Spec rrd)) discovered of
                    Inl err \<Rightarrow> None
                  | Inr finalRules \<Rightarrow>
                      if CheckMaxRulesPerRole (ps_RoleLimits (policy_Spec policy)) (int (length finalRules)) = None
                      then Some finalRules else None)
             | _ \<Rightarrow> None))"

definition written :: "'c rrd_env \<Rightarrow> rrd_object \<Rightarrow> PolicyRule list \<Rightarrow> role_store \<Rightarrow> bool" where
  "written env rrd finalRules roles \<longleftrightarrow> (\<exists>key live. target_key (ro_Spec rrd) = Some key \<and>
     roles key = Some (re_SSA env (rrd_ac rrd finalRules) live) \<and> ready_to_apply rrd finalRules live)"

lemma same_fields:
  assumes "same_definition a b"
  shows "ro_Definition a = ro_Definition b" "ro_UID a = ro_UID b" "ro_Labels a = ro_Labels b"
  using assms by (simp_all add: same_definition_def)

lemma same_intended: "same_definition a b \<Longrightarrow> intended env a roles = intended env b roles"
  unfolding intended_def same_fields [of a b] by (rule refl)

lemma same_ac: "same_definition a b \<Longrightarrow> rrd_ac a rules = rrd_ac b rules"
  unfolding rrd_ac_def same_fields [of a b] by (rule refl)

lemma same_written: "same_definition a b \<Longrightarrow> written env a rules roles = written env b rules roles"
  unfolding written_def ready_to_apply_def same_fields(1) [of a b] same_ac [of a b rules] by (rule refl)

section \<open>The stored status\<close>

text \<open>A status apply makes the stored status equal to the desired one, up to transition times.\<close>

definition status_keeps :: "(rrd_status \<Rightarrow> rrd_status \<Rightarrow> rrd_status) \<Rightarrow> bool" where
  "status_keeps f \<longleftrightarrow> (\<forall>stored desired. restrictedRoleDefinitionStatusEqual (f stored desired) desired)"

lemma status_stored:
  assumes "ApplyRestrictedRoleDefinitionStatus env obj w = (None, w')" "status_keeps (re_StatusApply env)"
  shows "\<exists>obj'. w_Object w' = Some obj' \<and> restrictedRoleDefinitionStatusEqual (ro_Status obj') (ro_Status obj)"
proof (cases "server_read (base_fail env) StatusGet (w_Object w)")
  case (Got stored)
  then show ?thesis
    using assms server_read_Got [OF Got]
    by (auto simp: ApplyRestrictedRoleDefinitionStatus_def status_keeps_def split: if_splits sum.splits option.splits)
qed (use assms in \<open>auto simp: ApplyRestrictedRoleDefinitionStatus_def\<close>)

text \<open>What the stored status says of the role.\<close>

definition reports :: "bool \<Rightarrow> 'c rrd_world \<Rightarrow> bool" where
  "reports b w = (case w_Object w of None \<Rightarrow> False | Some obj \<Rightarrow> st_RoleReconciled (ro_Status obj) = b)"

lemma status_reports:
  assumes "ApplyRestrictedRoleDefinitionStatus env obj w = (None, w')" "st_RoleReconciled (ro_Status obj) = b"
  shows "status_keeps (re_StatusApply env) \<longrightarrow> reports b w'"
  using status_stored [OF assms(1)] assms(2) by (auto simp: reports_def restrictedRoleDefinitionStatusEqual_def)

interpretation rrd_rep: reporting_lifecycle "rrdPolicyLifecycleConfig env rrd roles" "\<lambda>w. clean rrd (w_Roles w)"
    "\<lambda>w w'. confined rrd (w_Roles w) (w_Roles w')" "\<lambda>obj. \<not> st_RoleReconciled (ro_Status obj)"
    "\<lambda>w. status_keeps (re_StatusApply env) \<longrightarrow> reports False w"
  for env rrd roles
proof unfold_locales
  show "\<not> st_RoleReconciled (ro_Status (lc_SetReconciled (rrdPolicyLifecycleConfig env rrd roles) False obj))" for obj
    by (simp add: rrdPolicyLifecycleConfig_def)
next
  show "\<not> st_RoleReconciled (ro_Status (lc_Conditions (rrdPolicyLifecycleConfig env rrd roles) f obj))"
    if "\<not> st_RoleReconciled (ro_Status obj)" for f obj
    using that by (simp add: rrdPolicyLifecycleConfig_def)
next
  fix obj w w'
  assume "\<not> st_RoleReconciled (ro_Status obj)" "lc_ApplyStatus (rrdPolicyLifecycleConfig env rrd roles) obj w = (None, w')"
  then show "status_keeps (re_StatusApply env) \<longrightarrow> reports False w'"
    by (intro status_reports) (simp_all add: rrdPolicyLifecycleConfig_def)
next
  fix m obj w obj' w'
  assume a: "lc_ApplyStatusAndMarkStalled (rrdPolicyLifecycleConfig env rrd roles) m obj w = (None, obj', w')"
  have "ApplyRestrictedRoleDefinitionStatus env (stall env m obj) w = (None, w')"
    using a by (auto simp: rrdPolicyLifecycleConfig_def rrdApplyStatusAndMarkStalled_def Let_def
        split: prod.splits option.splits)
  then show "status_keeps (re_StatusApply env) \<longrightarrow> reports False w'"
    by (rule status_reports) (simp add: stall_def)
qed

section \<open>A reconciliation, step by step\<close>

text \<open>
  What a part of a reconciliation may do: it is confined; and when it asks to be called again after the
  default interval without an error, the target is as intended and the status reports it.
\<close>

definition settled :: "'c rrd_env \<Rightarrow> rrd_object \<Rightarrow> role_store \<Rightarrow> 'c rrd_world \<Rightarrow> bool" where
  "settled env rrd roles w' \<longleftrightarrow>
     (case intended env rrd roles of
        None \<Rightarrow> clean rrd (w_Roles w') \<and> (status_keeps (re_StatusApply env) \<longrightarrow> reports False w')
      | Some finalRules \<Rightarrow> written env rrd finalRules (w_Roles w') \<and>
          (status_keeps (re_StatusApply env) \<longrightarrow> reports True w'))"

definition lawful :: "'c rrd_env \<Rightarrow> rrd_object \<Rightarrow> role_store \<Rightarrow> outcome \<times> 'c rrd_world \<Rightarrow> bool" where
  "lawful env rrd roles out \<longleftrightarrow>
     (case out of ((res, err), w') \<Rightarrow> confined rrd roles (w_Roles w') \<and>
        (res = RequeueAfter DefaultRequeueInterval \<and> err = None \<longrightarrow> settled env rrd roles w'))"

lemma same_lawful: "same_definition a b \<Longrightarrow> lawful env a roles out = lawful env b roles out"
  using same_clean [of a b] same_confined [of a b] same_intended [of a b env roles] same_written [of a b env]
  by (simp add: lawful_def settled_def split: prod.splits option.splits)

lemma lawful_error: "confined rrd roles (w_Roles w') \<Longrightarrow> lawful env rrd roles ((res, Some err), w')"
  by (simp add: lawful_def)

lemma lawful_unusable:
  assumes "handleUnusablePolicy (rrdPolicyLifecycleConfig env rrd (w_Roles w)) reason message viol why detail obj w =
      (out, obj', w')"
    and "intended env rrd (w_Roles w) = None"
  shows "lawful env rrd (w_Roles w) (out, w')"
proof -
  obtain res err where out: "out = (res, err)" by fastforce
  note h = assms(1) [unfolded out]
  show ?thesis
    using rrd_lc.unusable_cases [OF h] rrd_rep.unusable_reports [of env rrd "w_Roles w"] h assms(2)
    by (auto simp: lawful_def settled_def out)
qed

lemma lawful_violations:
  assumes "handlePolicyViolations (rrdPolicyLifecycleConfig env rrd1 roles1) vs obj w = (out, obj', w')"
    and "same_definition rrd1 rrd" "confined rrd roles (w_Roles w)" "intended env rrd roles = None"
  shows "lawful env rrd roles (out, w')"
proof -
  obtain res err where out: "out = (res, err)" by fastforce
  note h = assms(1) [unfolded out]
  note [simp] = same_clean [OF assms(2)] same_confined [OF assms(2)]
  show ?thesis
    using rrd_lc.violations_cases [OF h] rrd_rep.violations_reports [of env rrd1 roles1] h assms(3, 4)
    by (auto simp: lawful_def settled_def out intro: confined_trans)
qed

lemma lawful_apply:
  assumes "intended env rrd (w_Roles w) = Some finalRules"
  shows "lawful env rrd (w_Roles w) (rrdApplyAndFinish env rrd policy finalRules w)"
proof -
  obtain r cache where rs: "resolvePolicyApplyClient (re_RestConfig env) policy (re_Factory env) (w_Cache w) = (r, cache)"
    by fastforce
  show ?thesis
  proof (cases r)
    case (Inl err)
    then show ?thesis by (simp add: rrdApplyAndFinish_def rs lawful_def)
  next
    case (Inr cu)
    obtain client user where cu: "cu = (client, user)" by fastforce
    obtain res rrd1 roles1 where en: "rrdEnsureRole env rrd finalRules client (w_Roles w) = (res, rrd1, roles1)"
      by (metis prod_cases3)
    note ens = ensure_cases [OF en]
    show ?thesis
    proof (cases res)
      case (Some err)
      then show ?thesis using ens by (simp add: rrdApplyAndFinish_def rs Inr cu en lawful_def)
    next
      case None
      then have wr: "written env rrd finalRules roles1" using ens by (auto simp: written_def)
      define rrd2 where "rrd2 = on_conditions (\<lambda>cs. MarkReady (re_Now env) cs (ro_Generation rrd1) ReadyReasonReconciled
        ReadyMessageReconciled) (set_reconciled True rrd1)"
      obtain serr w1 where st: "ApplyRestrictedRoleDefinitionStatus env rrd2 (w\<lparr>w_Cache := cache, w_Roles := roles1\<rparr>) =
          (serr, w1)" by fastforce
      have roles: "w_Roles w1 = roles1" using status_roles [OF st] by simp
      show ?thesis
      proof (cases serr)
        case None2: None
        then have "status_keeps (re_StatusApply env) \<longrightarrow> reports True w1"
          using st by (intro status_reports [of env rrd2]) (simp_all add: rrd2_def)
        then show ?thesis
          using ens None None2 wr assms st roles
          by (simp add: rrdApplyAndFinish_def rs Inr cu en Let_def rrd2_def lawful_def settled_def)
      qed (use ens None st roles in \<open>simp add: rrdApplyAndFinish_def rs Inr cu en Let_def rrd2_def lawful_def\<close>)
    qed
  qed
qed

lemma same_record_state: "same_definition (rrdRecordConstrainedImpersonationState env rrd) rrd"
  by (simp add: rrdRecordConstrainedImpersonationState_def same_definition_def)

lemma lawful_check:
  assumes pol: "re_Policies env (rrds_PolicyRef (ro_Spec rrd)) = Some (policy, False)"
    and comp: "EvaluateRoleDefinitionWithLabels (re_AsSelector env) (Some policy) (Some (ro_Definition rrd))
      (Some (rrd_labels env (w_Roles w))) = []"
    and gen: "rrdDiscoverAndFilter (re_ParseGV env) (re_Tracker env) (ro_Definition rrd) = Generated discovered"
  shows "lawful env rrd (w_Roles w) (rrdCheckAndApply env rrd policy discovered w)"
proof (cases "appendConstrainedImpersonationRules (rrds_ConstrainedImpersonation (ro_Spec rrd)) discovered")
  case (Inl err)
  then show ?thesis by (simp add: rrdCheckAndApply_def lawful_error)
next
  case (Inr finalRules)
  let ?rrd1 = "rrdRecordConstrainedImpersonationState env rrd"
  note same = same_record_state [of env rrd]
  show ?thesis
  proof (cases "CheckMaxRulesPerRole (ps_RoleLimits (policy_Spec policy)) (int (length finalRules))")
    case (Some v)
    then have none: "intended env rrd (w_Roles w) = None" using pol comp gen Inr by (simp add: intended_def)
    obtain out rrd2 w1 where h: "handlePolicyViolations (rrdPolicyLifecycleConfig env ?rrd1 (w_Roles w)) [v]
        (set_violations [Violation_String v] ?rrd1) w = (out, rrd2, w1)" by (metis prod_cases3)
    from lawful_violations [OF h same _ none] show ?thesis
      by (simp add: rrdCheckAndApply_def Inr Some h)
  next
    case None
    then have "intended env rrd (w_Roles w) = Some finalRules" using pol comp gen Inr by (simp add: intended_def)
    then have "intended env ?rrd1 (w_Roles w) = Some finalRules" by (simp only: same_intended [OF same])
    from lawful_apply [OF this] show ?thesis
      unfolding same_lawful [OF same] by (simp add: rrdCheckAndApply_def Inr None)
  qed
qed

lemma lawful_generate:
  assumes pol: "re_Policies env (rrds_PolicyRef (ro_Spec rrd)) = Some (policy, False)"
    and comp: "EvaluateRoleDefinitionWithLabels (re_AsSelector env) (Some policy) (Some (ro_Definition rrd))
      (Some (rrd_labels env (w_Roles w))) = []"
  shows "lawful env rrd (w_Roles w) (rrdGenerate env rrd policy w)"
proof (cases "rrdDiscoverAndFilter (re_ParseGV env) (re_Tracker env) (ro_Definition rrd)")
  case Requeue
  then show ?thesis
    by (auto simp: rrdGenerate_def lawful_def DefaultRequeueInterval_def dest!: status_roles
        split: prod.splits option.splits)
next
  case (Failed m)
  obtain derr w1 where dep: "rrdDeprovision env rrd w = (derr, w1)" by fastforce
  show ?thesis
    using deprovision_cases [OF dep] by (simp add: rrdGenerate_def Failed dep Let_def lawful_error)
next
  case (Generated discovered)
  then show ?thesis using lawful_check [OF pol comp Generated] by (simp add: rrdGenerate_def)
qed

lemma lawful_govern: "lawful env rrd (w_Roles w) (rrdGovern env rrd w)"
proof (cases "server_read (base_fail env) GetPolicy (re_Policies env (rrds_PolicyRef (ro_Spec rrd)))")
  case Missing
  have "intended env rrd (w_Roles w) = None" using server_read_Missing [OF Missing] by (simp add: intended_def)
  then show ?thesis
    by (auto simp: rrdGovern_def Missing Let_def handleMissingRestrictedPolicy_def intro: lawful_unusable split: prod.splits)
next
  case (ReadError err)
  then show ?thesis by (simp add: rrdGovern_def Let_def lawful_error)
next
  case (Got pd)
  obtain policy deleting where pd: "pd = (policy, deleting)" by fastforce
  have stored: "re_Policies env (rrds_PolicyRef (ro_Spec rrd)) = Some (policy, deleting)"
    using server_read_Got [OF Got] pd by simp
  show ?thesis
  proof (cases deleting)
    case True
    then have "intended env rrd (w_Roles w) = None" using stored by (simp add: intended_def)
    then show ?thesis
      by (auto simp: rrdGovern_def Got pd True Let_def handleDeletingRestrictedPolicy_def intro: lawful_unusable
          split: prod.splits)
  next
    case False
    let ?cfg = "rrdPolicyLifecycleConfig env rrd (w_Roles w)"
    obtain ev rrd1 w1 where e: "evaluateRestrictedPolicy ?cfg policy rrd w = (ev, rrd1, w1)" by (metis prod_cases3)
    note cases = rrd_lc.evaluation_cases [OF e]
    show ?thesis
    proof (cases ev)
      case (Inl err)
      then show ?thesis using cases by (simp add: rrdGovern_def Got pd False rrdEvaluatePolicy_def e lawful_error)
    next
      case (Inr vs)
      have w1: "w1 = w" and eval: "EvaluateRoleDefinitionWithLabels (re_AsSelector env) (Some policy)
          (Some (ro_Definition rrd)) (Some (rrd_labels env (w_Roles w))) = vs"
        using cases Inr by (auto simp: rrdPolicyLifecycleConfig_def)
      show ?thesis
      proof (cases "vs = []")
        case True
        have rrd1: "rrd1 = rrd" using e Inr True
          by (auto simp: evaluateRestrictedPolicy_def Let_def split: prod.splits option.splits if_splits)
        let ?rrd2 = "set_violations [] (markPolicyCompliant ?cfg rrd)"
        have same: "same_definition ?rrd2 rrd"
          by (simp add: markPolicyCompliant_def rrdPolicyLifecycleConfig_def same_definition_def)
        have "lawful env ?rrd2 (w_Roles w) (rrdGenerate env ?rrd2 policy w)"
          by (rule lawful_generate) (use stored False eval True same_fields [OF same] in simp_all)
        then show ?thesis
          unfolding same_lawful [OF same]
          by (simp add: rrdGovern_def Got pd False rrdEvaluatePolicy_def e Inr True w1 rrd1)
      next
        case nonempty: False
        then have none: "intended env rrd (w_Roles w) = None" using stored eval by (simp add: intended_def)
        obtain out rrd2 w2 where h: "handlePolicyViolations ?cfg vs rrd1 w = (out, rrd2, w2)" by (metis prod_cases3)
        from lawful_violations [OF h _ _ none] show ?thesis
          by (simp add: rrdGovern_def Got pd False rrdEvaluatePolicy_def e Inr nonempty w1 h)
      qed
    qed
  qed
qed

lemma ensure_finalizer_same:
  "EnsureFinalizerOf env stored rrd w = (res, rrd', w') \<Longrightarrow> same_definition rrd stored \<Longrightarrow>
   same_definition rrd' stored \<and> w_Roles w' = w_Roles w \<and> w_Cache w' = w_Cache w"
  by (auto simp: EnsureFinalizerOf_def same_definition_def Let_def split: option.splits if_splits)

lemma lawful_reconcile:
  assumes "w_Object w = Some obj" "\<not> ro_Deleting obj"
  shows "lawful env obj (w_Roles w) (Reconcile env req w)"
proof (cases "server_read (base_fail env) GetDefinition (w_Object w)")
  case Missing
  then show ?thesis using assms server_read_Missing [OF Missing] by simp
next
  case (ReadError err)
  then show ?thesis by (simp add: Reconcile_def lawful_error)
next
  case (Got rrd)
  have rrd: "rrd = obj" using server_read_Got [OF Got] assms(1) by simp
  define rrd1 where "rrd1 = observe_generation (on_conditions (\<lambda>cs. MarkReconciling (re_Now env) cs (ro_Generation obj)
    ReconcilingReasonProgressing ReconcilingMessageProgressing) obj)"
  have same1: "same_definition rrd1 obj" by (simp add: rrd1_def same_definition_def)
  show ?thesis
  proof (cases "RestrictedRoleDefinitionFinalizer \<in> set (ro_Finalizers rrd1)")
    case True
    then show ?thesis
      using lawful_govern [of env rrd1 w] Got assms(2) unfolding same_lawful [OF same1]
      by (simp add: Reconcile_def rrd rrd1_def Let_def)
  next
    case False
    obtain res rrd2 w1 where ef: "EnsureFinalizerOf env obj rrd1 w = (res, rrd2, w1)" by (metis prod_cases3)
    note same2 = ensure_finalizer_same [OF ef same1]
    have roles: "w_Roles w1 = w_Roles w" using same2 by simp
    show ?thesis
    proof (cases res)
      case None
      then have "Reconcile env req w = rrdGovern env rrd2 w1"
        using Got assms(2) False ef by (simp add: Reconcile_def rrd rrd1_def Let_def)
      then show ?thesis
        using lawful_govern [of env rrd2 w1] unfolding same_lawful [OF conjunct1 [OF same2]] roles by simp
    next
      case (Some err)
      then show ?thesis
        using Got assms(2) False ef roles by (simp add: Reconcile_def rrd rrd1_def [symmetric] Let_def lawful_def)
    qed
  qed
qed

section \<open>The written role\<close>

lemma restricted_empty_labels:
  assumes "(k, v) \<in> set (BuildRestrictedResourceLabels [])"
  shows "\<not> IsProtectedRestrictedLabel k"
  using assms weak_map_of_SomeI restricted_labels_unprotected [of "[]" k] by fastforce

lemma rrd_ac_fields:
  "rac_Rules (rrd_ac rrd rules) = rules" "rac_AggregationRule (rrd_ac rrd rules) = None"
  "rac_OwnerReferences (rrd_ac rrd rules) = [ownerRefForRestricted (ro_Name rrd) (ro_UID rrd) RestrictedRoleDefinitionKind]"
  "rrds_TargetRole (ro_Spec rrd) = DefinitionClusterRole \<Longrightarrow>
     rac_Labels (rrd_ac rrd rules) = mcopy [] (BuildRestrictedResourceLabels [])"
  by (simp_all add: rrd_ac_def Let_def ClusterRoleWithLabelsAndRules_def RoleWithLabelsAndRules_def
      BuildRestrictedResourceLabels_def)

lemma owner_controls:
  "owner_live (ownerRefForRestricted (ro_Name rrd) (ro_UID rrd) RestrictedRoleDefinitionKind) \<in>
     set (role_OwnerReferences role) \<Longrightarrow> ro_UID rrd \<noteq> '''' \<Longrightarrow> ro_Name rrd \<noteq> '''' \<Longrightarrow> controlled rrd role"
  by (force simp: controlled_def hasControllerOwnerRef_def hasOwnerRefMatching_def list_ex_iff owner_live_def
      ownerRefForRestricted_def OwnerReferenceWith_def rrd_owner_def ownerReferenceIdentity_def GroupVersionString_def
      RestrictedRoleDefinitionKind_def deref_def)

text \<open>What the API server holds at the target after an apply.\<close>

definition role_as_intended :: "rrd_object \<Rightarrow> PolicyRule list \<Rightarrow> rbac_role \<Rightarrow> bool" where
  "role_as_intended rrd finalRules role \<longleftrightarrow> controlled rrd role \<and> role_Rules role = finalRules \<and>
     (rrds_TargetRole (ro_Spec rrd) = DefinitionClusterRole \<longrightarrow> role_AggregationRule role = None \<and>
        (\<forall>k v. map_of (role_Labels role) k = Some v \<longrightarrow> \<not> IsProtectedRestrictedLabel k))"

lemma written_role:
  assumes "written env rrd finalRules roles" "ssa_merges (re_SSA env)" "ro_UID rrd \<noteq> ''''" "ro_Name rrd \<noteq> ''''"
  shows "\<exists>key role. target_key (ro_Spec rrd) = Some key \<and> roles key = Some role \<and> role_as_intended rrd finalRules role"
proof -
  obtain key live where k: "target_key (ro_Spec rrd) = Some key" "ready_to_apply rrd finalRules live"
    and at: "roles key = Some (re_SSA env (rrd_ac rrd finalRules) live)"
    using assms(1) by (auto simp: written_def)
  define role where "role = re_SSA env (rrd_ac rrd finalRules) live"
  note merge = assms(2) [unfolded ssa_merges_def Let_def, rule_format, of "rrd_ac rrd finalRules" live, folded role_def,
    unfolded rrd_ac_fields(1-3)]
  have old_labels: "\<forall>k x. map_of (rac_Labels (rrd_ac rrd finalRules)) k = None \<longrightarrow>
      map_of (role_Labels role) k = Some x \<longrightarrow> (\<exists>l. live = Some l \<and> map_of (role_Labels l) k = Some x)"
    using merge by blast
  have rules: "role_Rules role = finalRules"
    using merge k(2) unfolding ready_to_apply_def by (cases "finalRules = []") auto
  have ctl: "controlled rrd role" using owner_controls [of rrd role] merge assms(3, 4) by simp
  have agg: "role_AggregationRule role = None" if "rrds_TargetRole (ro_Spec rrd) = DefinitionClusterRole"
    using merge k(2) that unfolding ready_to_apply_def tidy_def by auto
  have labels: "\<not> IsProtectedRestrictedLabel j"
    if tr: "rrds_TargetRole (ro_Spec rrd) = DefinitionClusterRole" and lab: "map_of (role_Labels role) j = Some v" for j v
  proof (cases "map_of (rac_Labels (rrd_ac rrd finalRules)) j")
    case None
    then obtain l where "live = Some l" "map_of (role_Labels l) j = Some v" using old_labels lab by blast
    then have "(j, v) \<in> set (BuildRestrictedResourceLabels [])"
      using k(2) tr unfolding ready_to_apply_def tidy_def by (auto dest: map_of_SomeD)
    then show ?thesis by (rule restricted_empty_labels)
  next
    case (Some x)
    have "mwf (BuildRestrictedResourceLabels [])" by (simp add: BuildRestrictedResourceLabels_def)
    then have "map_of (BuildRestrictedResourceLabels []) j = Some x"
      using Some rrd_ac_fields(4) [OF tr] by (simp add: mcopy_lookup split: option.splits)
    then show ?thesis using restricted_empty_labels map_of_SomeD by fast
  qed
  show ?thesis using k(1) at rules ctl agg labels by (auto simp: role_as_intended_def role_def)
qed

section \<open>Deletion\<close>

lemma deletion_cases:
  assumes "rrdHandleDeletion env obj w = (res, w')" "w_Object w = Some obj"
  shows "confined obj (w_Roles w) (w_Roles w') \<and> (w_Object w' \<noteq> Some obj \<longrightarrow> clean obj (w_Roles w')) \<and>
    (res = None \<and> RestrictedRoleDefinitionFinalizer \<in> set (ro_Finalizers obj) \<longrightarrow>
       (\<forall>obj'. w_Object w' = Some obj' \<longrightarrow> RestrictedRoleDefinitionFinalizer \<notin> set (ro_Finalizers obj')))"
proof (cases "RestrictedRoleDefinitionFinalizer \<in> set (ro_Finalizers obj)")
  case False
  then show ?thesis using assms by (simp add: rrdHandleDeletion_def)
next
  case True
  obtain derr w1 where dep: "rrdDeprovision env obj w = (derr, w1)" by fastforce
  note d = deprovision_cases [OF dep]
  show ?thesis
    using assms True dep d
    by (cases derr)
      (auto simp: rrdHandleDeletion_def dropFinalizer_def Let_def split: option.splits if_splits)
qed

lemma reconcile_deleting:
  assumes "Reconcile env req w = (out, w')" "w_Object w = Some obj" "ro_Deleting obj"
  shows "w' = w \<and> snd out \<noteq> None \<or> (\<exists>res. rrdHandleDeletion env obj w = (res, w') \<and> snd out = res)"
proof (cases "server_read (base_fail env) GetDefinition (w_Object w)")
  case (Got rrd)
  then have "rrd = obj" using server_read_Got [OF Got] assms(2) by simp
  then show ?thesis using assms Got by (auto simp: Reconcile_def split: prod.splits option.splits)
qed (use assms in \<open>auto simp: Reconcile_def dest: server_read_Missing\<close>)

lemma reconcile_confines:
  assumes "w_Object w = Some obj" "Reconcile env req w = (out, w')"
  shows "confined obj (w_Roles w) (w_Roles w')"
proof (cases "ro_Deleting obj")
  case True
  then show ?thesis
    using reconcile_deleting [OF assms(2, 1) True] deletion_cases [OF _ assms(1)] by auto
next
  case False
  from lawful_reconcile [OF assms(1) False, of env req] show ?thesis
    by (auto simp: assms(2) lawful_def split: prod.splits)
qed

section \<open>Properties\<close>

text \<open>
  Property C4 (reconcile_confined): a reconciliation changes no role but the target of its definition, and not
  even the target when it exists without the definition as its controller: whatever requests fail, and however
  the API server merges, every role of someone else is left exactly as it was.
\<close>

theorem reconcile_confined:
  assumes "w_Object w = Some obj" "Reconcile env req w = (out, w')"
    and "target_key (ro_Spec obj) \<noteq> Some k \<or> (\<exists>role. w_Roles w k = Some role \<and> \<not> controlled obj role)"
  shows "w_Roles w' k = w_Roles w k"
  using reconcile_confines [OF assms(1, 2)] assms(3) by (auto simp: confined_def)

text \<open>
  Property C13 (unusable_policy_deprovisions): when the policy of a definition is missing, being deleted or
  violated, a reconciliation that ends without an error leaves no role under the definition's control at its
  target, and the stored status does not report a reconciled role.
\<close>

theorem unusable_policy_deprovisions:
  assumes "w_Object w = Some obj" "\<not> ro_Deleting obj" "status_keeps (re_StatusApply env)"
    and "case re_Policies env (rrds_PolicyRef (ro_Spec obj)) of
        None \<Rightarrow> True
      | Some (policy, deleting) \<Rightarrow> deleting \<or> EvaluateRoleDefinitionWithLabels (re_AsSelector env) (Some policy)
          (Some (ro_Definition obj)) (Some (rrd_labels env (w_Roles w))) \<noteq> []"
    and "Reconcile env req w = ((RequeueAfter DefaultRequeueInterval, None), w')"
  shows "clean obj (w_Roles w') \<and> reports False w'"
proof -
  have "intended env obj (w_Roles w) = None" using assms(4) by (auto simp: intended_def split: option.splits)
  then show ?thesis
    using lawful_reconcile [OF assms(1, 2), of env req] assms(3)
    by (simp add: assms(5) lawful_def settled_def)
qed

text \<open>
  Property C29 (deleted_definition_leaves_no_role): the object of a deleted definition changes, be it that the
  finalizer is removed or that the object goes away with its last finalizer, only after its target holds no
  role under its control; and a reconciliation of it that ends without an error has removed the finalizer.
\<close>

theorem deleted_definition_leaves_no_role:
  assumes "w_Object w = Some obj" "ro_Deleting obj" "RestrictedRoleDefinitionFinalizer \<in> set (ro_Finalizers obj)"
    and "Reconcile env req w = ((res, err), w')"
  shows "(w_Object w' = Some obj \<or> clean obj (w_Roles w')) \<and>
    (err = None \<longrightarrow> (case w_Object w' of None \<Rightarrow> True | Some obj' \<Rightarrow>
       RestrictedRoleDefinitionFinalizer \<notin> set (ro_Finalizers obj')))"
  using reconcile_deleting [OF assms(4, 1, 2)]
proof (elim disjE exE conjE)
  fix r assume d: "rrdHandleDeletion env obj w = (r, w')" and "snd (res, err) = r"
  then show ?thesis using deletion_cases [OF d assms(1)] assms(3) by (auto split: option.splits)
qed (use assms(1) in auto)

text \<open>
  Property C1 (reconciled_role_safe): let a reconciliation of a definition that is not being deleted run to its end,
  that is, return the regular requeue interval and no error, and let the stored status report a reconciled role.
  Then the API resources were discovered, the definition's policy exists, is not being deleted and has role
  limits, and the target holds a role under the definition's control with exactly the rules that discovery,
  filtering and the grant generate. The discovered ones list no API group or resource that a forbidden pattern
  matches and no verb that the policy lists as forbidden, everywhere or at that place; those of the grant list
  impersonation verbs only, none of which a forbidden verb matches as a pattern. A ClusterRole has no
  aggregation rule and no protected label. Assumed are: the API server merges applies and keeps statuses as
  documented, and discovery serves plain names (\<open>discovery_ok\<close>). While the resource tracker has not started, the
  reconciliation returns without an error after ten seconds, and the role and the reported state of an
  earlier reconciliation stay; that outcome is not covered.
\<close>

theorem reconciled_role_safe:
  assumes "ssa_merges (re_SSA env)" "status_keeps (re_StatusApply env)"
    and "w_Object w = Some obj" "\<not> ro_Deleting obj" "ro_UID obj \<noteq> ''''" "ro_Name obj \<noteq> ''''"
    and "\<And>apis. re_Tracker env = Discovered apis \<Longrightarrow> discovery_ok (re_ParseGV env) apis"
    and "Reconcile env req w = ((RequeueAfter DefaultRequeueInterval, None), w')"
    and "w_Object w' = Some obj'" "st_RoleReconciled (ro_Status obj')"
  shows "\<exists>apis policy limits discovered granted key role.
    re_Tracker env = Discovered apis \<and>
    re_Policies env (rrds_PolicyRef (ro_Spec obj)) = Some (policy, False) \<and>
    ps_RoleLimits (policy_Spec policy) = Some limits \<and>
    intended env obj (w_Roles w) = Some (discovered @ granted) \<and>
    target_key (ro_Spec obj) = Some key \<and> w_Roles w' key = Some role \<and>
    role_as_intended obj (discovered @ granted) role \<and>
    rrdDiscoverAndFilter (re_ParseGV env) (Discovered apis) (ro_Definition obj) = Generated discovered \<and>
    (\<forall>g n v. lists_access discovered g n v \<longrightarrow> \<not> verb_forbidden limits g n v \<and> \<not> place_forbidden limits g n) \<and>
    (\<forall>g n v. lists_access granted g n v \<longrightarrow> IsImpersonationVerb v \<and> \<not> verb_pattern_forbidden limits g n v)"
proof -
  note law = lawful_reconcile [OF assms(3, 4), of env req, unfolded assms(8) lawful_def]
  have "\<not> reports False w'" using assms(9, 10) by (simp add: reports_def)
  then obtain finalRules where int: "intended env obj (w_Roles w) = Some finalRules"
    and wr: "written env obj finalRules (w_Roles w')"
    using law assms(2) by (auto simp: settled_def split: option.splits)
  obtain policy discovered where pol: "re_Policies env (rrds_PolicyRef (ro_Spec obj)) = Some (policy, False)"
    and comp: "EvaluateRoleDefinitionWithLabels (re_AsSelector env) (Some policy) (Some (ro_Definition obj))
      (Some (rrd_labels env (w_Roles w))) = []"
    and disc: "rrdDiscoverAndFilter (re_ParseGV env) (re_Tracker env) (ro_Definition obj) = Generated discovered"
    and app: "appendConstrainedImpersonationRules (rrds_ConstrainedImpersonation (ro_Spec obj)) discovered = Inr finalRules"
    using int
    by (auto simp: intended_def split: option.splits prod.splits if_splits discovery_result.splits sum.splits)
  then obtain apis where apis: "re_Tracker env = Discovered apis"
    by (cases "re_Tracker env") (auto simp: rrdDiscoverAndFilter_def)
  note gen = disc [unfolded apis]
  obtain limits where lim: "ps_RoleLimits (policy_Spec policy) = Some limits"
    using comp by (auto simp: EvaluateRoleDefinitionWithLabels_ok role_complies_def)
  obtain granted where fin: "finalRules = discovered @ granted"
    and safe: "discovered_safe limits discovered" "granted_safe limits granted"
    using compliant_safe [OF comp lim gen assms(7) [OF apis] app] by blast
  obtain key role where at: "target_key (ro_Spec obj) = Some key" "w_Roles w' key = Some role"
    and as: "role_as_intended obj finalRules role"
    using written_role [OF wr assms(1, 5, 6)] by blast
  then show ?thesis
    using apis pol lim gen int safe unfolding fin discovered_safe_def granted_safe_def by blast
qed

section \<open>Without failures\<close>

text \<open>
  A cluster where every request succeeds: the definition is stored and its target kind is valid.
\<close>

definition no_failures :: "'c rrd_env \<Rightarrow> bool" where
  "no_failures env \<longleftrightarrow> (\<forall>client call. re_Fail env client call = None)"

definition healthy :: "'c rrd_env \<Rightarrow> rrd_object \<Rightarrow> 'c rrd_world \<Rightarrow> bool" where
  "healthy env rrd w \<longleftrightarrow> no_failures env \<and> target_key (ro_Spec rrd) \<noteq> None \<and> w_Object w \<noteq> None"

lemma no_failures_read: "no_failures env \<Longrightarrow>
    server_read (re_Fail env client) call stored = (case stored of None \<Rightarrow> Missing | Some x \<Rightarrow> Got x)"
  by (simp add: no_failures_def server_read_ok)

lemma no_failures_write: "no_failures env \<Longrightarrow>
    server_write (re_Fail env client) call key new roles = (None, roles(key := new))"
  by (simp add: no_failures_def server_write_def)

lemma status_succeeds:
  assumes "no_failures env" "w_Object w \<noteq> None"
  shows "\<exists>w'. ApplyRestrictedRoleDefinitionStatus env obj w = (None, w')"
  using assms
  by (auto simp: ApplyRestrictedRoleDefinitionStatus_def no_failures_read no_failures_def
      clearRestrictedRoleDefinitionEmptyStatusSlices_def Let_def split: option.splits sum.splits)

lemma deprovision_succeeds:
  assumes "healthy env rrd w"
  shows "\<exists>w'. rrdDeprovision env rrd w = (None, w') \<and> healthy env rrd w'"
  using assms
  by (auto simp: healthy_def rrdDeprovision_def Let_def no_failures_read no_failures_write split: option.splits)

interpretation rrd_rel: reliable_lifecycle "rrdPolicyLifecycleConfig env rrd roles" "healthy env rrd" for env rrd roles
proof
  fix obj w assume h: "healthy env rrd w"
  then show "\<exists>obj' w'. lc_Deprovision (rrdPolicyLifecycleConfig env rrd roles) obj w = (None, obj', w') \<and> healthy env rrd w'"
    using deprovision_succeeds by (simp add: deprovision_callback)
  show "\<exists>w'. lc_ApplyStatus (rrdPolicyLifecycleConfig env rrd roles) obj w = (None, w')"
    using status_succeeds [of env w obj] h by (simp add: rrdPolicyLifecycleConfig_def healthy_def)
  show "\<exists>obj' w'. lc_ApplyStatusAndMarkStalled (rrdPolicyLifecycleConfig env rrd roles) m obj w = (None, obj', w')" for m
    using status_succeeds [of env w "stall env m obj"] h
    by (auto simp: rrdPolicyLifecycleConfig_def healthy_def rrdApplyStatusAndMarkStalled_def Let_def)
qed

lemma check_succeeds:
  assumes "no_failures env" "target_key (ro_Spec rrd) = Some key" "owned rrd key roles"
  shows "checkRestrictedRoleOwnership (base_fail env) roles (rrd_owner rrd) (rrds_TargetRole (ro_Spec rrd))
    (rrds_TargetName (ro_Spec rrd)) (rrds_TargetNamespace (ro_Spec rrd)) = None"
  using assms
  by (auto simp: checkRestrictedRoleOwnership_def target_key_def Let_def no_failures_read owned_def controlled_def
      split: option.splits if_splits)

lemma apply_or_retry_succeeds: "no_failures env \<Longrightarrow>
    \<exists>result s'. apply_or_retry (re_Fail env client) ssa ac pruned s = (Inr result, s')"
  by (simp add: apply_or_retry_def server_apply_def no_failures_def)

lemma ensure_succeeds:
  assumes nf: "no_failures env" and key: "target_key (ro_Spec rrd) = Some key" and own: "owned rrd key roles"
  shows "fst (rrdEnsureRole env rrd finalRules client roles) = None"
proof -
  have "fst (rrdNormalizeOwnedClusterRoleMetadata env client rrd (rrds_TargetName (ro_Spec rrd))
      (BuildRestrictedResourceLabels []) roles) = None"
    using nf by (simp add: rrdNormalizeOwnedClusterRoleMetadata_def Let_def no_failures_read no_failures_write
        split: option.split)
  then obtain roles1 where n: "rrdNormalizeOwnedClusterRoleMetadata env client rrd (rrds_TargetName (ro_Spec rrd))
      (BuildRestrictedResourceLabels []) roles = (None, roles1)"
    by (metis prod.collapse)
  have c: "\<exists>roles3. rrdClearRulesIfEmpty env client rrd k what finalRules roles2 = (None, roles3)" for k what roles2
    using nf by (auto simp: rrdClearRulesIfEmpty_def no_failures_read no_failures_write split: option.splits)
  have a: "\<exists>result roles3. PatchApplyClusterRolePruningLabelsAlways (re_Fail env client) (re_SSA env) (re_Skips env) ac
      prune force roles2 = (Inr result, roles3)" for ac prune force roles2
    using nf apply_or_retry_succeeds [OF nf, of client "re_SSA env" ac]
    by (auto simp: always_eq no_failures_read pruneClusterRoleLabels_def Let_def no_failures_write split: option.splits)
  have b: "\<exists>result roles3. PatchApplyRoleAlways (re_Fail env client) (re_SSA env) (re_Skips env) ac roles2 =
      (Inr result, roles3)" for ac roles2
    using nf by (simp add: PatchApplyRoleAlways_def PatchApply_always server_apply_def no_failures_def)
  obtain roles2 where c1: "rrdClearClusterRoleRulesIfEmpty env client rrd (rrds_TargetName (ro_Spec rrd)) finalRules
      roles1 = (None, roles2)" using c unfolding rrdClearClusterRoleRulesIfEmpty_def by blast
  obtain roles3 where c2: "rrdClearRoleRulesIfEmpty env client rrd (rrds_TargetNamespace (ro_Spec rrd))
      (rrds_TargetName (ro_Spec rrd)) finalRules roles = (None, roles3)"
    using c unfolding rrdClearRoleRulesIfEmpty_def by blast
  obtain x1 roles4 where a1: "PatchApplyClusterRolePruningLabelsAlways (re_Fail env client) (re_SSA env) (re_Skips env)
      (rrd_ac rrd finalRules) IsProtectedRestrictedLabel True roles2 = (Inr x1, roles4)" using a by blast
  obtain x2 roles5 where b1: "PatchApplyRoleAlways (re_Fail env client) (re_SSA env) (re_Skips env)
      (rrd_ac rrd finalRules) roles3 = (Inr x2, roles5)" using b by blast
  show ?thesis
    using check_succeeds [OF nf key own] n c1 c2 a1 b1 key
    by (auto simp: rrdEnsureRole_def Let_def target_key_def split: if_splits)
qed

definition identity_usable :: "'c rrd_env \<Rightarrow> RBACPolicy \<Rightarrow> bool" where
  "identity_usable env policy =
     (case impersonatedUsernameForPolicy (Some policy) of
        Inl err \<Rightarrow> False
      | Inr (username, enabled) \<Rightarrow> enabled \<longrightarrow> re_RestConfig env \<and>
          (case re_Factory env username of Inr (Some cl) \<Rightarrow> True | _ \<Rightarrow> False))"

abbreviation settles :: "outcome \<Rightarrow> bool" where
  "settles out \<equiv> out = (RequeueAfter DefaultRequeueInterval, None)"

lemma fst_forget [simp]: "fst (case x of (a, b, c) \<Rightarrow> (a, c)) = fst x"
  by (cases x) simp

lemma resolve_succeeds:
  assumes "identity_usable env policy"
  shows "\<exists>client user cache'. resolvePolicyApplyClient (re_RestConfig env) policy (re_Factory env) cache =
    (Inr (client, user), cache')"
proof (cases "impersonatedUsernameForPolicy (Some policy)")
  case (Inr ue)
  obtain user enabled where ue: "ue = (user, enabled)" by fastforce
  have "enabled \<longrightarrow> (\<exists>cl cache'. getOrCreate user (re_Factory env) cache = (Inr cl, cache'))"
    using assms Inr ue
    by (auto simp: identity_usable_def getOrCreate_def Let_def split: option.splits sum.splits)
  then show ?thesis
    using assms Inr ue by (auto simp: resolvePolicyApplyClient_def identity_usable_def)
qed (use assms in \<open>simp add: identity_usable_def\<close>)

lemma apply_settles:
  assumes "healthy env rrd w" "target_key (ro_Spec rrd) = Some key" "owned rrd key (w_Roles w)"
    and "identity_usable env policy"
  shows "settles (fst (rrdApplyAndFinish env rrd policy finalRules w))"
proof -
  have nf: "no_failures env" and obj: "w_Object w \<noteq> None" using assms(1) by (simp_all add: healthy_def)
  obtain client user cache where rs: "resolvePolicyApplyClient (re_RestConfig env) policy (re_Factory env) (w_Cache w) =
      (Inr (client, user), cache)" using resolve_succeeds [OF assms(4)] by blast
  obtain rrd1 roles where en: "rrdEnsureRole env rrd finalRules client (w_Roles w) = (None, rrd1, roles)"
    using ensure_succeeds [OF nf assms(2, 3)] by (metis prod.collapse)
  define rrd2 where "rrd2 = on_conditions (\<lambda>cs. MarkReady (re_Now env) cs (ro_Generation rrd1) ReadyReasonReconciled
    ReadyMessageReconciled) (set_reconciled True rrd1)"
  obtain w1 where "ApplyRestrictedRoleDefinitionStatus env rrd2 (w\<lparr>w_Cache := cache, w_Roles := roles\<rparr>) = (None, w1)"
    using status_succeeds [OF nf] obj by force
  then show ?thesis by (simp add: rrdApplyAndFinish_def rs en Let_def rrd2_def)
qed

lemma healthy_same: "same_definition a b \<Longrightarrow> healthy env a = healthy env b"
  by (intro ext) (simp add: healthy_def same_definition_def)

lemma owned_same: "same_definition a b \<Longrightarrow> owned a = owned b"
  using same_controlled [of a b] by (intro ext) (simp add: owned_def)

lemma generate_settles:
  assumes h: "healthy env rrd w" and key: "target_key (ro_Spec rrd) = Some key" "owned rrd key (w_Roles w)"
    and comp: "EvaluateRoleDefinitionWithLabels (re_AsSelector env) (Some policy) (Some (ro_Definition rrd)) lg = []"
    and tr: "re_Tracker env = Discovered apis" "\<forall>(k, ress) \<in> set apis. \<exists>gv. re_ParseGV env k = Inr gv"
    and ident: "identity_usable env policy"
  shows "settles (fst (rrdGenerate env rrd policy w))"
proof -
  obtain discovered generated where gen: "rrdDiscoverAndFilter (re_ParseGV env) (re_Tracker env) (ro_Definition rrd) =
      Generated discovered"
    and app: "appendConstrainedImpersonationRules (rrds_ConstrainedImpersonation (ro_Spec rrd)) discovered =
      Inr (discovered @ generated)"
    using compliant_renders [OF comp tr(2)] tr(1) by auto
  let ?rrd1 = "rrdRecordConstrainedImpersonationState env rrd"
  note same = same_record_state [of env rrd]
  have h1: "healthy env ?rrd1 w" and own1: "owned ?rrd1 key (w_Roles w)"
    using h key(2) by (simp_all add: healthy_same [OF same] owned_same [OF same])
  have key1: "target_key (ro_Spec ?rrd1) = Some key" using key(1) same_fields [OF same] by simp
  show ?thesis
  proof (cases "CheckMaxRulesPerRole (ps_RoleLimits (policy_Spec policy)) (int (length (discovered @ generated)))")
    case (Some v)
    have "settles (fst (handlePolicyViolations (rrdPolicyLifecycleConfig env ?rrd1 (w_Roles w)) [v]
        (set_violations [Violation_String v] ?rrd1) w))"
      using h1 by (rule rrd_rel.violations_succeed)
    then show ?thesis using Some by (simp add: rrdGenerate_def gen rrdCheckAndApply_def app Let_def)
  next
    case None
    then show ?thesis
      using apply_settles [OF h1 key1 own1 ident, of "discovered @ generated"]
      by (simp add: rrdGenerate_def gen rrdCheckAndApply_def app)
  qed
qed

lemma govern_settles:
  assumes h: "healthy env rrd w" and key: "target_key (ro_Spec rrd) = Some key" "owned rrd key (w_Roles w)"
    and tr: "re_Tracker env = Discovered apis" "\<forall>(k, ress) \<in> set apis. \<exists>gv. re_ParseGV env k = Inr gv"
    and ident: "\<And>policy. re_Policies env (rrds_PolicyRef (ro_Spec rrd)) = Some (policy, False) \<Longrightarrow> identity_usable env policy"
  shows "settles (fst (rrdGovern env rrd w))"
proof -
  let ?cfg = "rrdPolicyLifecycleConfig env rrd (w_Roles w)"
  have nf: "no_failures env" using h by (simp add: healthy_def)
  have unusable: "settles (fst (handleUnusablePolicy ?cfg r m v y d rrd w))" for r m v y d
    using h by (rule rrd_rel.unusable_succeeds)
  show ?thesis
  proof (cases "re_Policies env (rrds_PolicyRef (ro_Spec rrd))")
    case None
    then show ?thesis
      using unusable by (simp add: rrdGovern_def no_failures_read [OF nf] handleMissingRestrictedPolicy_def
          Let_def)
  next
    case (Some pd)
    obtain policy deleting where pd: "pd = (policy, deleting)" by fastforce
    show ?thesis
    proof (cases deleting)
      case True
      then show ?thesis
        using unusable Some pd by (simp add: rrdGovern_def no_failures_read [OF nf]
            handleDeletingRestrictedPolicy_def Let_def)
    next
      case False
      define vs where "vs = EvaluateRoleDefinitionWithLabels (re_AsSelector env) (Some policy) (Some (ro_Definition rrd))
        (Some (rrd_labels env (w_Roles w)))"
      have "lc_Evaluate ?cfg policy = (vs, None)"
        by (simp add: rrdPolicyLifecycleConfig_def vs_def labelGetterErr_def no_failures_read [OF nf] split: option.split)
      then have ev: "evaluateRestrictedPolicy ?cfg policy rrd w =
          (Inr vs, if vs = [] then rrd else set_violations (ViolationStrings vs) rrd, w)"
        by (simp add: evaluateRestrictedPolicy_def rrdPolicyLifecycleConfig_def)
      show ?thesis
      proof (cases "vs = []")
        case True
        let ?rrd2 = "set_violations [] (markPolicyCompliant ?cfg rrd)"
        have same: "same_definition ?rrd2 rrd"
          by (simp add: markPolicyCompliant_def rrdPolicyLifecycleConfig_def same_definition_def)
        have "settles (fst (rrdGenerate env ?rrd2 policy w))"
        proof (rule generate_settles [OF _ _ _ _ tr])
          show "healthy env ?rrd2 w" "owned ?rrd2 key (w_Roles w)"
            using h key(2) by (simp_all add: healthy_same [OF same] owned_same [OF same])
          show "EvaluateRoleDefinitionWithLabels (re_AsSelector env) (Some policy) (Some (ro_Definition ?rrd2))
              (Some (rrd_labels env (w_Roles w))) = []" using True vs_def same_fields [OF same] by simp
        qed (use key(1) same_fields [OF same] ident Some pd False in simp_all)
        then show ?thesis
          using Some pd False ev True by (simp add: rrdGovern_def no_failures_read [OF nf] rrdEvaluatePolicy_def Let_def)
      next
        case nonempty: False
        have "settles (fst (handlePolicyViolations ?cfg vs (set_violations (ViolationStrings vs) rrd) w))"
          using h by (rule rrd_rel.violations_succeed)
        then show ?thesis
          using Some pd False ev nonempty
          by (auto simp: rrdGovern_def no_failures_read [OF nf] rrdEvaluatePolicy_def Let_def split: prod.splits)
      qed
    qed
  qed
qed

lemma reconcile_settles:
  assumes nf: "no_failures env" and w: "w_Object w = Some obj" "\<not> ro_Deleting obj"
    and key: "target_key (ro_Spec obj) = Some key" "owned obj key (w_Roles w)"
    and tr: "re_Tracker env = Discovered apis" "\<forall>(k, ress) \<in> set apis. \<exists>gv. re_ParseGV env k = Inr gv"
    and ident: "\<And>policy. re_Policies env (rrds_PolicyRef (ro_Spec obj)) = Some (policy, False) \<Longrightarrow> identity_usable env policy"
  shows "settles (fst (Reconcile env req w))"
proof -
  define rrd1 where "rrd1 = observe_generation (on_conditions (\<lambda>cs. MarkReconciling (re_Now env) cs (ro_Generation obj)
    ReconcilingReasonProgressing ReconcilingMessageProgressing) obj)"
  have same1: "same_definition rrd1 obj" by (simp add: rrd1_def same_definition_def)
  have settle: "settles (fst (rrdGovern env rrd w1))"
    if same: "same_definition rrd obj" and w1: "w_Roles w1 = w_Roles w" "w_Object w1 \<noteq> None" for rrd w1
  proof (rule govern_settles [OF _ _ _ tr])
    show "healthy env rrd w1" using nf key(1) w1(2) same_fields [OF same] by (simp add: healthy_def)
    show "owned rrd key (w_Roles w1)" using key(2) w1(1) by (simp add: owned_same [OF same])
  qed (use key(1) same_fields [OF same] ident in simp_all)
  show ?thesis
  proof (cases "RestrictedRoleDefinitionFinalizer \<in> set (ro_Finalizers rrd1)")
    case True
    then show ?thesis
      using settle [OF same1, of w] w by (simp add: Reconcile_def no_failures_read [OF nf] rrd1_def Let_def)
  next
    case False
    obtain rrd2 w1 where ef: "EnsureFinalizerOf env obj rrd1 w = (None, rrd2, w1)" and "w_Object w1 \<noteq> None"
      using nf by (simp add: EnsureFinalizerOf_def no_failures_def Let_def)
    then show ?thesis
      using settle [of rrd2 w1] ensure_finalizer_same [OF ef same1] w False
      by (simp add: Reconcile_def no_failures_read [OF nf] rrd1_def Let_def)
  qed
qed

section \<open>Refinement\<close>

text \<open>The abstract state of a definition: the rules of the role it controls at its target.\<close>

definition granted :: "rrd_object \<Rightarrow> role_store \<Rightarrow> PolicyRule list option" where
  "granted obj roles =
     (case target_key (ro_Spec obj) of
        None \<Rightarrow> None
      | Some key \<Rightarrow>
          (case roles key of
             None \<Rightarrow> None
           | Some role \<Rightarrow> if controlled obj role then Some (role_Rules role) else None))"

text \<open>
  Property C3 (reconcile_refines_intended): a reconciliation without failed requests implements the abstract
  specification. If the target is free or under the definition's control, discovery parses and the identity the
  policy names can be used, then one reconciliation ends without an error, the role the definition controls
  has exactly the intended rules, or there is none when none is intended, and the stored status says which.
\<close>

theorem reconcile_refines_intended:
  assumes "no_failures env" "ssa_merges (re_SSA env)" "status_keeps (re_StatusApply env)"
    and "w_Object w = Some obj" "\<not> ro_Deleting obj" "ro_UID obj \<noteq> ''''" "ro_Name obj \<noteq> ''''"
    and "target_key (ro_Spec obj) = Some key" "owned obj key (w_Roles w)"
    and "re_Tracker env = Discovered apis" "\<forall>(k, ress) \<in> set apis. \<exists>gv. re_ParseGV env k = Inr gv"
    and "\<And>policy. re_Policies env (rrds_PolicyRef (ro_Spec obj)) = Some (policy, False) \<Longrightarrow> identity_usable env policy"
  shows "\<exists>w'. Reconcile env req w = ((RequeueAfter DefaultRequeueInterval, None), w') \<and>
    granted obj (w_Roles w') = intended env obj (w_Roles w) \<and> reports (intended env obj (w_Roles w) \<noteq> None) w'"
proof -
  obtain w' where rec: "Reconcile env req w = ((RequeueAfter DefaultRequeueInterval, None), w')"
    using reconcile_settles [OF assms(1, 4, 5, 8-12), of req] by (metis prod.collapse)
  then have set: "settled env obj (w_Roles w) w'"
    using lawful_reconcile [OF assms(4, 5), of env req] by (simp add: lawful_def)
  have "granted obj (w_Roles w') = intended env obj (w_Roles w)"
  proof (cases "intended env obj (w_Roles w)")
    case None
    then show ?thesis using set by (auto simp: settled_def clean_def granted_def split: option.splits)
  next
    case (Some finalRules)
    then obtain key' role where "target_key (ro_Spec obj) = Some key'" "w_Roles w' key' = Some role"
        "role_as_intended obj finalRules role"
      using set written_role [OF _ assms(2, 6, 7), of finalRules "w_Roles w'"] by (auto simp: settled_def)
    then show ?thesis using Some by (simp add: granted_def role_as_intended_def)
  qed
  then show ?thesis using rec set assms(3) by (auto simp: settled_def split: option.splits)
qed

section \<open>Witnesses\<close>

text \<open>An API server that merges by the book, and a cluster with a role of someone else and an outdated own role.\<close>

definition sample_ssa :: ssa_api where
  "sample_ssa ac live =
     \<lparr>role_Labels = rac_Labels ac @ (case live of None \<Rightarrow> [] | Some l \<Rightarrow> role_Labels l),
      role_Annotations = rac_Annotations ac, role_OwnerReferences = map owner_live (rac_OwnerReferences ac),
      role_AggregationRule = None, role_Rules = rac_Rules ac\<rparr>"

lemma sample_ssa_merges: "ssa_merges sample_ssa"
  by (auto simp: ssa_merges_def sample_ssa_def Let_def map_add_def split: option.splits)

definition sample_object :: rrd_object where
  "sample_object = \<lparr>ro_Definition = sample_rrd, ro_UID = ''u-1'', ro_Generation = 1, ro_Labels = [], ro_Deleting = False,
     ro_Finalizers = [], ro_Status = \<lparr>st_ObservedGeneration = 0, st_RoleReconciled = False, st_PolicyViolations = [],
       st_Conditions = []\<rparr>\<rparr>"

definition sample_env_rrd :: "unit rrd_env" where
  "sample_env_rrd = \<lparr>re_Now = 7, re_AsSelector = no_selectors, re_ParseGV = sample_gv,
     re_Policies = (\<lambda>name. if name = ''tenant'' then Some (sample_policy, False) else None), re_Namespaces = [],
     re_Tracker = Discovered sample_apis, re_TrackerCauses = [], re_Detector = None, re_RestConfig = True,
     re_Factory = (\<lambda>user. Inr (Some ())), re_Refresh = False, re_Fail = (\<lambda>client call. None),
     re_StatusApply = (\<lambda>stored desired. desired), re_SSA = sample_ssa, re_Skips = (\<lambda>ac live. False)\<rparr>"

definition foreign_role :: rbac_role where
  "foreign_role = \<lparr>role_Labels = [], role_Annotations = [], role_OwnerReferences = [], role_AggregationRule = None,
     role_Rules = []\<rparr>"

definition stale_role :: rbac_role where
  "stale_role = foreign_role\<lparr>role_OwnerReferences := [\<lparr>or_APIVersion = ''authorization.t-caas.telekom.com/v1alpha1'',
     or_Kind = ''RestrictedRoleDefinition'', or_Name = ''viewer'', or_UID = ''u-1'', or_Controller = Some True,
     or_BlockOwnerDeletion = Some False\<rparr>]\<rparr>"

definition sample_world :: "unit rrd_world" where
  "sample_world = \<lparr>w_Object = Some sample_object,
     w_Roles = [ClusterRoleKey ''other'' \<mapsto> foreign_role, ClusterRoleKey ''viewer'' \<mapsto> stale_role],
     w_Cache = newImpersonatedClientCache\<rparr>"

lemma sample_status_keeps: "status_keeps (re_StatusApply sample_env_rrd)"
  by (simp add: status_keeps_def sample_env_rrd_def restrictedRoleDefinitionStatusEqual_def conditionsEqual_refl)

lemma sample_no_failures: "no_failures sample_env_rrd" "no_failures (sample_env_rrd\<lparr>re_Policies := p\<rparr>)"
  by (simp_all add: no_failures_def sample_env_rrd_def)

lemma sample_object_simps:
  "ro_Definition sample_object = sample_rrd" "\<not> ro_Deleting sample_object" "ro_UID sample_object \<noteq> ''''"
  "ro_Name sample_object \<noteq> ''''" "w_Object sample_world = Some sample_object"
  "target_key (ro_Spec sample_object) = Some (ClusterRoleKey ''viewer'')"
  "rrds_PolicyRef (ro_Spec sample_object) = ''tenant''"
  by (simp_all add: sample_object_def sample_world_def target_key_def sample_rrd_def DefinitionClusterRole_def)

lemma stale_controlled: "controlled sample_object stale_role"
  by (simp add: controlled_def hasControllerOwnerRef_def hasOwnerRefMatching_def stale_role_def foreign_role_def rrd_owner_def
      ownerReferenceIdentity_def sample_object_def sample_rrd_def GroupVersionString_def RestrictedRoleDefinitionKind_def)

lemma sample_owned: "owned sample_object (ClusterRoleKey ''viewer'') (w_Roles sample_world)"
  by (simp add: owned_def sample_world_def stale_controlled)

lemma sample_complies_any:
  "EvaluateRoleDefinitionWithLabels no_selectors (Some sample_policy) (Some sample_rrd) lg = []"
proof -
  have "rrds_TargetNamespace (rrd_Spec sample_rrd) = ''''" by (simp add: sample_rrd_def)
  then show ?thesis using sample_complies by (auto simp: EvaluateRoleDefinitionWithLabels_ok role_complies_def)
qed

lemma sample_intended: "intended sample_env_rrd sample_object roles = Some sample_rules"
  by (simp add: intended_def sample_env_rrd_def sample_object_simps sample_complies_any sample_generates
      appendConstrainedImpersonationRules_def)
    (simp add: sample_rrd_def sample_policy_def sample_limits_def sample_rules_def CheckMaxRulesPerRole_def)

lemma sample_parses: "\<forall>(k, ress) \<in> set sample_apis. \<exists>gv. re_ParseGV sample_env_rrd k = Inr gv"
  by (simp add: sample_apis_def sample_env_rrd_def sample_gv_def)

lemma sample_identity: "re_Policies sample_env_rrd ref = Some (policy, False) \<Longrightarrow> identity_usable sample_env_rrd policy"
  by (auto simp: sample_env_rrd_def identity_usable_def impersonatedUsernameForPolicy_def sample_policy_def split: if_splits)

lemma sample_tracker: "re_Tracker sample_env_rrd = Discovered sample_apis" "re_SSA sample_env_rrd = sample_ssa"
  "re_ParseGV sample_env_rrd = sample_gv"
  by (simp_all add: sample_env_rrd_def)

lemma sample_settles: "settles (fst (Reconcile sample_env_rrd ''viewer'' sample_world))"
  by (rule reconcile_settles [OF sample_no_failures(1) sample_object_simps(5, 2, 6) sample_owned sample_tracker(1) sample_parses])
    (erule sample_identity)

theorem reconcile_refines_intended_witness:
  "\<exists>w'. Reconcile sample_env_rrd ''viewer'' sample_world = ((RequeueAfter DefaultRequeueInterval, None), w') \<and>
     granted sample_object (w_Roles w') = Some sample_rules \<and> reports True w'"
proof -
  have "\<exists>w'. Reconcile sample_env_rrd ''viewer'' sample_world = ((RequeueAfter DefaultRequeueInterval, None), w') \<and>
      granted sample_object (w_Roles w') = intended sample_env_rrd sample_object (w_Roles sample_world) \<and>
      reports (intended sample_env_rrd sample_object (w_Roles sample_world) \<noteq> None) w'"
    by (rule reconcile_refines_intended [OF sample_no_failures(1) _ sample_status_keeps sample_object_simps(5)
          sample_object_simps(2-4) sample_object_simps(6) sample_owned sample_tracker(1) sample_parses])
      (simp add: sample_tracker(2) sample_ssa_merges, erule sample_identity)
  then show ?thesis by (simp add: sample_intended)
qed

theorem reconcile_confined_witness:
  "w_Roles (snd (Reconcile sample_env_rrd ''viewer'' sample_world)) (ClusterRoleKey ''other'') = Some foreign_role"
proof -
  obtain out w' where run: "Reconcile sample_env_rrd ''viewer'' sample_world = (out, w')" by fastforce
  have "w_Roles w' (ClusterRoleKey ''other'') = w_Roles sample_world (ClusterRoleKey ''other'')"
    by (rule reconcile_confined [OF sample_object_simps(5) run]) (simp add: sample_object_simps(6))
  moreover have "w_Roles sample_world (ClusterRoleKey ''other'') = Some foreign_role" by (simp add: sample_world_def)
  ultimately show ?thesis by (simp add: run)
qed

theorem reconciled_role_safe_witness:
  "\<exists>w' role. Reconcile sample_env_rrd ''viewer'' sample_world = ((RequeueAfter DefaultRequeueInterval, None), w') \<and>
     w_Roles w' (ClusterRoleKey ''viewer'') = Some role \<and> role_Rules role = sample_rules"
proof -
  obtain w' where run: "Reconcile sample_env_rrd ''viewer'' sample_world = ((RequeueAfter DefaultRequeueInterval, None), w')"
    and set: "settled sample_env_rrd sample_object (w_Roles sample_world) w'"
    using sample_settles lawful_reconcile [OF sample_object_simps(5, 2), of sample_env_rrd "''viewer''"]
    by (cases "Reconcile sample_env_rrd ''viewer'' sample_world") (simp add: lawful_def)
  obtain obj' where stored: "w_Object w' = Some obj'" "st_RoleReconciled (ro_Status obj')"
    using set sample_status_keeps by (auto simp: settled_def sample_intended reports_def split: option.splits)
  have disc: "discovery_ok (re_ParseGV sample_env_rrd) apis" if "re_Tracker sample_env_rrd = Discovered apis" for apis
    using that sample_discovery by (simp add: sample_tracker)
  from reconciled_role_safe [OF _ sample_status_keeps sample_object_simps(5, 2-4) disc run stored] run
  show ?thesis
    by (auto simp: sample_tracker sample_ssa_merges sample_intended sample_object_simps(6) role_as_intended_def)
qed

text \<open>The policy is gone: the outdated role goes.\<close>

theorem unusable_policy_deprovisions_witness:
  "\<exists>w'. Reconcile (sample_env_rrd\<lparr>re_Policies := (\<lambda>name. None)\<rparr>) ''viewer'' sample_world =
       ((RequeueAfter DefaultRequeueInterval, None), w') \<and>
     controlled sample_object stale_role \<and> w_Roles sample_world (ClusterRoleKey ''viewer'') = Some stale_role \<and>
     clean sample_object (w_Roles w') \<and> reports False w'"
proof -
  let ?env = "sample_env_rrd\<lparr>re_Policies := (\<lambda>name. None)\<rparr>"
  obtain w' where run: "Reconcile ?env ''viewer'' sample_world = ((RequeueAfter DefaultRequeueInterval, None), w')"
    using reconcile_settles [of ?env sample_world sample_object "ClusterRoleKey ''viewer''" sample_apis "''viewer''"]
      sample_no_failures(2) sample_object_simps sample_owned sample_tracker sample_parses
    by (cases "Reconcile ?env ''viewer'' sample_world") simp
  have "clean sample_object (w_Roles w') \<and> reports False w'"
    by (rule unusable_policy_deprovisions [OF sample_object_simps(5, 2) _ _ run]) (use sample_status_keeps in simp_all)
  moreover have "w_Roles sample_world (ClusterRoleKey ''viewer'') = Some stale_role" by (simp add: sample_world_def)
  ultimately show ?thesis using run stale_controlled by simp
qed

theorem deleted_definition_leaves_no_role_witness:
  "\<exists>w'. Reconcile sample_env_rrd ''viewer'' (sample_world\<lparr>w_Object := Some (sample_object\<lparr>ro_Deleting := True,
       ro_Finalizers := [RestrictedRoleDefinitionFinalizer]\<rparr>)\<rparr>) = ((NoRequeue, None), w') \<and>
     w_Object w' = None \<and> clean sample_object (w_Roles w')"
proof -
  let ?obj = "sample_object\<lparr>ro_Deleting := True, ro_Finalizers := [RestrictedRoleDefinitionFinalizer]\<rparr>"
  let ?w = "sample_world\<lparr>w_Object := Some ?obj\<rparr>"
  have same: "same_definition ?obj sample_object" by (simp add: same_definition_def)
  have "healthy sample_env_rrd ?obj ?w"
    using sample_no_failures(1) sample_object_simps(6) by (simp add: healthy_def)
  then obtain w1 where dep: "rrdDeprovision sample_env_rrd ?obj ?w = (None, w1)" using deprovision_succeeds by blast
  define w' where "w' = w1\<lparr>w_Object := None\<rparr>"
  have run: "Reconcile sample_env_rrd ''viewer'' ?w = ((NoRequeue, None), w')"
    using dep sample_no_failures(1)
    by (simp add: Reconcile_def no_failures_read [OF sample_no_failures(1)] rrdHandleDeletion_def dropFinalizer_def
        no_failures_def w'_def)
  have "clean ?obj (w_Roles w')"
    using deleted_definition_leaves_no_role [OF _ _ _ run, of ?obj] by (simp add: w'_def)
  then show ?thesis using run by (simp add: same_clean [OF same] w'_def)
qed

end
