(* ===== verification/Restricted_Role_Status.thy ===== *)
theory Restricted_Role_Status
  imports Restricted_Role_Properties
begin

text \<open>
  The stored status of a RestrictedRoleDefinition: every reconciliation, on every path, keeps its conditions
  sorted with one entry per type, and at most one of Ready, Reconciling and Stalled true.
\<close>

section \<open>Consistent conditions\<close>

definition holds :: "Condition list \<Rightarrow> string \<Rightarrow> bool" where
  "holds cs t \<longleftrightarrow> cond_status cs t = Some ConditionTrue"

definition status_ok :: "Condition list \<Rightarrow> bool" where
  "status_ok cs \<longleftrightarrow> conditions_wf cs \<and>
     \<not> (holds cs ReadyConditionType \<and> holds cs ReconcilingConditionType) \<and>
     \<not> (holds cs ReadyConditionType \<and> holds cs StalledConditionType) \<and>
     \<not> (holds cs ReconcilingConditionType \<and> holds cs StalledConditionType)"

lemma holds_Set: "conditions_wf cs \<Longrightarrow>
    holds (Set now cs (Some c)) t = (if t = c_Type c then c_Status c = ConditionTrue else holds cs t)"
  by (simp add: holds_def cond_status_def Set_state)

lemma holds_Delete: "holds (Delete cs t) t' = (t' \<noteq> t \<and> holds cs t')"
  by (simp add: holds_def cond_status_def Delete_state)

lemma status_ok_MarkFalse [simp]: "status_ok cs \<Longrightarrow> status_ok (MarkFalse now cs t gen reason message)"
  by (auto simp: status_ok_def MarkFalse_def FalseCondition_def newCondition_def holds_Set Set_wf
      ConditionTrue_def ConditionFalse_def)

lemma status_ok_MarkUnknown [simp]: "status_ok cs \<Longrightarrow> status_ok (MarkUnknown now cs t gen reason message)"
  by (auto simp: status_ok_def MarkUnknown_def UnknownCondition_def newCondition_def holds_Set Set_wf
      ConditionTrue_def ConditionUnknown_def)

lemma status_ok_MarkTrue:
  assumes "status_ok cs" "t \<noteq> ReadyConditionType" "t \<noteq> ReconcilingConditionType" "t \<noteq> StalledConditionType"
  shows "status_ok (MarkTrue now cs t gen reason message)"
proof -
  have wf: "conditions_wf cs" using assms(1) by (simp add: status_ok_def)
  have "holds (MarkTrue now cs t gen reason message) t' = holds cs t'" if "t' \<noteq> t" for t'
    using that by (simp add: MarkTrue_def TrueCondition_def newCondition_def holds_Set [OF wf])
  moreover have "conditions_wf (MarkTrue now cs t gen reason message)" using wf by (simp add: MarkTrue_def Set_wf)
  ultimately show ?thesis using assms unfolding status_ok_def by metis
qed

lemma status_ok_Delete [simp]: "status_ok cs \<Longrightarrow> status_ok (Delete cs t)"
  by (auto simp: status_ok_def holds_Delete Delete_wf)

lemma status_ok_marks [simp]:
  assumes "status_ok cs"
  shows "status_ok (MarkReady now cs gen reason message)"
    and "status_ok (MarkReconciling now cs gen reason message)"
    and "status_ok (MarkStalled now cs gen reason message)"
  using assms
  by (simp_all add: status_ok_def marks newCondition_def holds_Set holds_Delete Set_wf Delete_wf condition_consts)

lemma conditionsEqual_ok:
  assumes "conditionsEqual a b"
  shows "status_ok a = status_ok b"
proof -
  have pw: "list_all2 hasSameState a b"
    using assms by (auto simp: conditionsEqual_def list_all2_iff list_all_iff)
  then have types: "map c_Type a = map c_Type b" and state: "cond_state a = cond_state b"
    by (induction rule: list_all2_induct) (auto simp: hasSameState_def cond_state_def fun_eq_iff)
  then show ?thesis by (simp add: status_ok_def conditions_wf_def holds_def cond_status_def)
qed

lemma status_ok_grant [simp]: "status_ok cs \<Longrightarrow>
    status_ok (snd (setConstrainedImpersonationCondition now gen spec verbs detector cs))"
  by (simp add: setConstrainedImpersonationCondition_def Let_def status_ok_MarkTrue
      ConstrainedImpersonationCondition_def condition_consts split: option.split)

section \<open>Through a reconciliation\<close>

abbreviation memory_ok :: "rrd_object \<Rightarrow> bool" where
  "memory_ok obj \<equiv> status_ok (st_Conditions (ro_Status obj))"

definition stored_ok :: "'c rrd_env \<Rightarrow> 'c rrd_world \<Rightarrow> bool" where
  "stored_ok env w \<longleftrightarrow> status_keeps (re_StatusApply env) \<and>
     (case w_Object w of None \<Rightarrow> True | Some obj \<Rightarrow> memory_ok obj)"

lemma stored_ok_cong: "w_Object w' = w_Object w \<Longrightarrow> stored_ok env w' = stored_ok env w"
  by (simp add: stored_ok_def)

lemma status_ok_Nil: "status_ok []"
  by (simp add: status_ok_def conditions_wf_def holds_def cond_status_def cond_state_def)

lemma apply_ok:
  assumes "ApplyRestrictedRoleDefinitionStatus env obj w = (res, w')" "memory_ok obj" "stored_ok env w"
  shows "stored_ok env w'"
proof (cases "server_read (base_fail env) StatusGet (w_Object w)")
  case (Got stored)
  then have st: "w_Object w = Some stored" by (rule server_read_Got)
  have keep: "status_keeps (re_StatusApply env)" and ok: "memory_ok stored"
    using assms(3) st by (simp_all add: stored_ok_def)
  have clear: "status_ok (st_Conditions c)"
    if "clearRestrictedRoleDefinitionEmptyStatusSlices fail name (ro_Status stored) desired = Inr c" for fail name desired c
    using that ok status_ok_Nil
    by (auto simp: clearRestrictedRoleDefinitionEmptyStatusSlices_def Let_def split: if_splits option.splits)
  have new: "status_ok (st_Conditions (re_StatusApply env c (ro_Status obj)))" for c
    using keep assms(2) conditionsEqual_ok
    by (auto simp: status_keeps_def restrictedRoleDefinitionStatusEqual_def)
  show ?thesis
    using assms(1, 3) Got keep clear new
    by (auto simp: ApplyRestrictedRoleDefinitionStatus_def stored_ok_def split: if_splits sum.splits option.splits)
qed (use assms in \<open>auto simp: ApplyRestrictedRoleDefinitionStatus_def\<close>)

lemma apply_ok_snd: "memory_ok obj \<Longrightarrow> stored_ok env w \<Longrightarrow>
    stored_ok env (snd (ApplyRestrictedRoleDefinitionStatus env obj w))"
  using apply_ok [of env obj w] by (metis prod.collapse)

lemma stall_ok: "memory_ok obj \<Longrightarrow> memory_ok (stall env m obj)"
  by (simp add: stall_def)

lemma stalled_ok: "memory_ok obj \<Longrightarrow> stored_ok env w \<Longrightarrow> stored_ok env (snd (rrdMarkStalled env err obj w))"
  using apply_ok_snd [OF stall_ok] by (simp add: rrdMarkStalled_def Let_def)

lemma deprovision_ok: "rrdDeprovision env obj w = (res, w') \<Longrightarrow> stored_ok env w' = stored_ok env w"
  using deprovision_cases stored_ok_cong by blast

interpretation rrd_st: status_lifecycle "rrdPolicyLifecycleConfig env rrd roles" memory_ok "stored_ok env" for env rrd roles
proof
  fix err obj w obj' w'
  assume "lc_MarkStalled (rrdPolicyLifecycleConfig env rrd roles) err obj w = (obj', w')" "memory_ok obj" "stored_ok env w"
  then show "stored_ok env w'"
    using stalled_ok [of obj env w err] by (simp add: rrdPolicyLifecycleConfig_def)
next
  fix m obj w res obj' w'
  assume "lc_ApplyStatusAndMarkStalled (rrdPolicyLifecycleConfig env rrd roles) m obj w = (res, obj', w')"
    "memory_ok obj" "stored_ok env w"
  then show "stored_ok env w'"
    using apply_ok_snd [OF stall_ok [of obj env m], of env w]
    by (auto simp: rrdPolicyLifecycleConfig_def rrdApplyStatusAndMarkStalled_def Let_def split: prod.splits option.splits)
qed (auto simp: deprovision_callback, auto simp: rrdPolicyLifecycleConfig_def deprovision_ok intro: apply_ok)

lemma ensure_memory_ok:
  assumes "rrdEnsureRole env rrd rules client roles = (res, rrd', roles')" "memory_ok rrd"
  shows "memory_ok rrd'"
proof (cases "checkRestrictedRoleOwnership (base_fail env) roles (rrd_owner rrd) (rrds_TargetRole (ro_Spec rrd))
    (rrds_TargetName (ro_Spec rrd)) (rrds_TargetNamespace (ro_Spec rrd))")
  case (Some e)
  then show ?thesis using assms by (auto simp: rrdEnsureRole_def Let_def)
next
  case None
  obtain key where "target_key (ro_Spec rrd) = Some key" "owned rrd key roles"
    using check_target [OF None] by (auto simp: controlled_def owned_def)
  then show ?thesis using ensure_role [OF assms(1) _ _ None] assms(2) by blast
qed

lemma finish_ok:
  assumes "memory_ok rrd" "stored_ok env w"
  shows "stored_ok env (snd (rrdApplyAndFinish env rrd policy finalRules w))"
proof -
  obtain r cache where rs: "resolvePolicyApplyClient (re_RestConfig env) policy (re_Factory env) (w_Cache w) = (r, cache)"
    by fastforce
  show ?thesis
  proof (cases r)
    case (Inl err)
    have "stored_ok env (w\<lparr>w_Cache := cache\<rparr>)" using assms(2) by (simp add: stored_ok_def)
    then show ?thesis by (simp add: rrdApplyAndFinish_def rs Inl stalled_ok [OF assms(1)])
  next
    case (Inr cu)
    obtain client user where cu: "cu = (client, user)" by fastforce
    obtain res rrd1 roles where en: "rrdEnsureRole env rrd finalRules client (w_Roles w) = (res, rrd1, roles)"
      by (metis prod_cases3)
    let ?w = "w\<lparr>w_Cache := cache, w_Roles := roles\<rparr>"
    have w: "stored_ok env ?w" using assms(2) by (simp add: stored_ok_def)
    have mem: "memory_ok rrd1" using ensure_memory_ok [OF en assms(1)] .
    define rrd2 where "rrd2 = on_conditions (\<lambda>cs. MarkReady (re_Now env) cs (ro_Generation rrd1) ReadyReasonReconciled
      ReadyMessageReconciled) (set_reconciled True rrd1)"
    have "memory_ok rrd2" using mem by (simp add: rrd2_def)
    from apply_ok_snd [OF this w] stalled_ok [OF mem w] show ?thesis
      by (cases res) (auto simp: rrdApplyAndFinish_def rs Inr cu en Let_def rrd2_def split: prod.splits option.splits)
  qed
qed

lemma generate_ok:
  assumes "memory_ok rrd" "stored_ok env w"
  shows "stored_ok env (snd (rrdGenerate env rrd policy w))"
proof (cases "rrdDiscoverAndFilter (re_ParseGV env) (re_Tracker env) (ro_Definition rrd)")
  case Requeue
  then show ?thesis
    using apply_ok_snd [OF assms] by (auto simp: rrdGenerate_def split: prod.splits option.splits)
next
  case (Failed m)
  obtain derr w1 where dep: "rrdDeprovision env rrd w = (derr, w1)" by fastforce
  have w1: "stored_ok env w1" using assms(2) deprovision_ok [OF dep] by simp
  have "memory_ok (markPolicyEvaluationError (rrdPolicyLifecycleConfig env rrd roles) err rrd)" for err roles
    using assms(1) by (simp add: markPolicyEvaluationError_def markConditionFalse_def rrdPolicyLifecycleConfig_def)
  then show ?thesis by (simp add: rrdGenerate_def Failed dep Let_def stalled_ok w1)
next
  case (Generated discovered)
  show ?thesis
  proof (cases "appendConstrainedImpersonationRules (rrds_ConstrainedImpersonation (ro_Spec rrd)) discovered")
    case (Inl err)
    then show ?thesis by (simp add: rrdGenerate_def Generated rrdCheckAndApply_def stalled_ok [OF assms])
  next
    case (Inr finalRules)
    let ?rrd1 = "rrdRecordConstrainedImpersonationState env rrd"
    have mem: "memory_ok ?rrd1" using assms(1) by (simp add: rrdRecordConstrainedImpersonationState_def)
    show ?thesis
    proof (cases "CheckMaxRulesPerRole (ps_RoleLimits (policy_Spec policy)) (int (length finalRules))")
      case (Some v)
      obtain out rrd2 w1 where h: "handlePolicyViolations (rrdPolicyLifecycleConfig env ?rrd1 (w_Roles w)) [v]
          (set_violations [Violation_String v] ?rrd1) w = (out, rrd2, w1)" by (metis prod_cases3)
      have "stored_ok env w1" by (rule rrd_st.violations_stored [OF h]) (simp_all add: mem assms(2))
      then show ?thesis by (simp add: rrdGenerate_def Generated rrdCheckAndApply_def Inr Some h)
    next
      case None
      then show ?thesis
        using finish_ok [OF mem assms(2)] by (simp add: rrdGenerate_def Generated rrdCheckAndApply_def Inr)
    qed
  qed
qed

lemma govern_ok:
  assumes "memory_ok rrd" "stored_ok env w"
  shows "stored_ok env (snd (rrdGovern env rrd w))"
proof -
  let ?cfg = "rrdPolicyLifecycleConfig env rrd (w_Roles w)"
  have unusable: "stored_ok env w'" if "handleUnusablePolicy ?cfg r m v y d rrd w = (out, obj', w')"
    for r m v y d out obj' w' using rrd_st.unusable_stored [OF that assms] .
  show ?thesis
  proof (cases "server_read (base_fail env) GetPolicy (re_Policies env (rrds_PolicyRef (ro_Spec rrd)))")
    case Missing
    then show ?thesis
      using unusable by (auto simp: rrdGovern_def handleMissingRestrictedPolicy_def Let_def split: prod.splits)
  next
    case (ReadError err)
    then show ?thesis by (simp add: rrdGovern_def stalled_ok [OF assms])
  next
    case (Got pd)
    obtain policy deleting where pd: "pd = (policy, deleting)" by fastforce
    obtain ev rrd1 w1 where e: "evaluateRestrictedPolicy ?cfg policy rrd w = (ev, rrd1, w1)" by (metis prod_cases3)
    note st = rrd_st.evaluation_stored [OF e assms]
    have vio: "stored_ok env w2" if "ev = Inr vs" "handlePolicyViolations ?cfg vs rrd1 w1 = (out, rrd2, w2)"
      for vs out rrd2 w2 using rrd_st.violations_stored [OF that(2)] st that(1) by blast
    have gen: "stored_ok env (snd (rrdGenerate env (set_violations [] (markPolicyCompliant ?cfg rrd1)) policy w1))"
      if "ev = Inr vs" for vs
    proof (rule generate_ok)
      have "memory_ok rrd1" using st that by blast
      then show "memory_ok (set_violations [] (markPolicyCompliant ?cfg rrd1))"
        by (simp add: markPolicyCompliant_def rrdPolicyLifecycleConfig_def status_ok_MarkTrue PolicyCompliantCondition_def
            condition_consts)
    qed (use st in simp)
    show ?thesis
    proof (cases deleting)
      case True
      then show ?thesis
        using Got pd unusable by (auto simp: rrdGovern_def handleDeletingRestrictedPolicy_def Let_def split: prod.splits)
    next
      case False
      then show ?thesis
        using Got pd st vio gen
        by (auto simp: rrdGovern_def rrdEvaluatePolicy_def e Let_def split: prod.splits sum.splits)
    qed
  qed
qed

lemma ensure_finalizer_ok:
  assumes "EnsureFinalizerOf env stored rrd w = (res, rrd', w')" "memory_ok stored" "memory_ok rrd" "stored_ok env w"
  shows "memory_ok rrd' \<and> stored_ok env w'"
  using assms by (auto simp: EnsureFinalizerOf_def Let_def stored_ok_def split: option.splits if_splits)

text \<open>
  Property C31 (stored_status_consistent): every reconciliation, on every path and whatever fails, keeps the
  conditions of the stored status sorted with one entry per type and at most one of Ready, Reconciling and
  Stalled true.
\<close>

theorem stored_status_consistent:
  assumes "status_keeps (re_StatusApply env)"
    and "case w_Object w of None \<Rightarrow> True | Some obj \<Rightarrow> status_ok (st_Conditions (ro_Status obj))"
  shows "case w_Object (snd (Reconcile env req w)) of
      None \<Rightarrow> True | Some obj \<Rightarrow> status_ok (st_Conditions (ro_Status obj))"
proof -
  have st: "stored_ok env w" using assms by (simp add: stored_ok_def)
  have "stored_ok env (snd (Reconcile env req w))"
  proof (cases "server_read (base_fail env) GetDefinition (w_Object w)")
    case (Got rrd)
    have stored: "w_Object w = Some rrd" by (rule server_read_Got [OF Got])
    then have mem: "memory_ok rrd" using assms(2) by simp
    define rrd1 where "rrd1 = observe_generation (on_conditions (\<lambda>cs. MarkReconciling (re_Now env) cs (ro_Generation rrd)
      ReconcilingReasonProgressing ReconcilingMessageProgressing) rrd)"
    have mem1: "memory_ok rrd1" using mem by (simp add: rrd1_def)
    obtain res rrd2 w1 where ef: "EnsureFinalizerOf env rrd rrd1 w = (res, rrd2, w1)" by (metis prod_cases3)
    note fin = ensure_finalizer_ok [OF ef mem mem1 st]
    obtain derr w2 where dep: "rrdDeprovision env rrd w = (derr, w2)" by fastforce
    have "stored_ok env w3" if "rrdHandleDeletion env rrd w = (e, w3)" for e w3
      using that dep deprovision_ok [OF dep] st mem
      by (auto simp: rrdHandleDeletion_def dropFinalizer_def Let_def stored_ok_def split: if_splits option.splits)
    then show ?thesis
      using Got govern_ok [OF mem1 st] govern_ok [OF conjunct1 [OF fin] conjunct2 [OF fin]]
        stalled_ok [OF conjunct1 [OF fin] conjunct2 [OF fin]] fin ef
      unfolding Reconcile_def rrd1_def [symmetric] Let_def
      by (auto simp: rrd1_def [symmetric] split: prod.splits option.splits)
  qed (use st in \<open>simp_all add: Reconcile_def\<close>)
  then show ?thesis by (simp add: stored_ok_def)
qed

theorem stored_status_consistent_witness:
  "case w_Object (snd (Reconcile sample_env_rrd ''viewer'' sample_world)) of
     None \<Rightarrow> True | Some obj \<Rightarrow> status_ok (st_Conditions (ro_Status obj))"
  by (rule stored_status_consistent [OF sample_status_keeps]) (simp add: sample_world_def sample_object_def status_ok_Nil)

end
