(* ===== verification/Restricted_Role_Identity.thy ===== *)
theory Restricted_Role_Identity
  imports Restricted_Role_Properties
begin

text \<open>
  The identity behind the writes of a RestrictedRoleDefinition: under a policy with impersonation, roles are
  created and changed only with the rights of the service account the policy names; the controller's own
  rights serve to read and to delete.
\<close>

definition writes :: "api_call set" where
  "writes = {NormalizePatch, ClearPatch, PrunePatch, ApplyRole, RetryApply}"

text \<open>The API server refuses every write of the client.\<close>

definition powerless :: "'c rrd_env \<Rightarrow> 'c apply_client \<Rightarrow> bool" where
  "powerless env client \<longleftrightarrow> (\<forall>call \<in> writes. \<exists>err. re_Fail env client call = Some err \<and> \<not> IsNotFound err)"

lemma powerless_write: "powerless env client \<Longrightarrow> call \<in> writes \<Longrightarrow>
    \<exists>err. server_write (re_Fail env client) call key new roles = (Some err, roles)"
  by (auto simp: powerless_def server_write_def)

lemma powerless_apply: "powerless env client \<Longrightarrow> call \<in> writes \<Longrightarrow>
    \<exists>err. server_apply (re_Fail env client) call ssa ac roles = (Inl err, roles)"
  by (force simp: powerless_def server_apply_def)

lemma powerless_apply_or_retry:
  assumes "powerless env client"
  shows "\<exists>err. apply_or_retry (re_Fail env client) ssa ac pruned roles = (Inl err, roles)"
proof -
  obtain e1 where a: "server_apply (re_Fail env client) ApplyRole ssa ac roles = (Inl e1, roles)"
    using powerless_apply [OF assms, of ApplyRole ssa ac roles] by (auto simp: writes_def)
  obtain e2 where r: "server_apply (re_Fail env client) RetryApply ssa ac roles = (Inl e2, roles)"
    using powerless_apply [OF assms, of RetryApply ssa ac roles] by (auto simp: writes_def)
  show ?thesis by (simp add: apply_or_retry_def patchApplyClusterRoleAfterPruneConflict_def a r)
qed

lemma powerless_clusterrole:
  assumes "powerless env client"
  shows "\<exists>err. PatchApplyClusterRolePruningLabelsAlways (re_Fail env client) ssa skips ac prune force roles =
    (Inl err, roles)"
proof -
  have pr: "\<exists>err. server_write (re_Fail env client) PrunePatch key new roles = (Some err, roles)" for key new
    by (rule powerless_write [OF assms]) (simp add: writes_def)
  show ?thesis
  proof (cases "server_read (re_Fail env client) PruneGet (roles (role_ac_key ac))")
    case (Got existing)
    show ?thesis
      using powerless_apply_or_retry [OF assms, of ssa ac False roles]
        pr [of "role_ac_key ac" "Some (existing\<lparr>role_Labels := filter (\<lambda>(k, v). \<not> (map_of (rac_Labels ac) k = None \<and> prune k))
          (role_Labels existing)\<rparr>)"]
      by (auto simp: always_eq Got pruneClusterRoleLabels_def Let_def)
  qed (use powerless_apply_or_retry [OF assms] in \<open>auto simp: always_eq\<close>)
qed

lemma powerless_ensure:
  assumes "powerless env client" "rrdEnsureRole env rrd rules client roles = (res, rrd', roles')"
  shows "roles' = roles"
proof -
  have n: "snd (rrdNormalizeOwnedClusterRoleMetadata env client rrd name ls roles) = roles" for name ls
  proof -
    have wr: "\<exists>err. server_write (re_Fail env client) NormalizePatch key new roles = (Some err, roles)" for key new
      by (rule powerless_write [OF assms(1)]) (simp add: writes_def)
    show ?thesis
    proof (cases "server_read (base_fail env) NormalizeGet (roles (ClusterRoleKey name))")
      case (Got existing)
      obtain err where "server_write (re_Fail env client) NormalizePatch (ClusterRoleKey name)
          (Some (existing\<lparr>role_Labels := if \<not> mapsEqual (role_Labels existing) ls then ls else role_Labels existing,
             role_AggregationRule := None\<rparr>)) roles = (Some err, roles)" using wr by blast
      then show ?thesis by (simp add: rrdNormalizeOwnedClusterRoleMetadata_def Got Let_def)
    qed (simp_all add: rrdNormalizeOwnedClusterRoleMetadata_def)
  qed
  have c: "snd (rrdClearRulesIfEmpty env client rrd key what rules roles) = roles" for key what
  proof -
    have wr: "\<exists>err. server_write (re_Fail env client) ClearPatch key new roles = (Some err, roles)" for new
      by (rule powerless_write [OF assms(1)]) (simp add: writes_def)
    show ?thesis
    proof (cases "server_read (base_fail env) ClearGet (roles key)")
      case (Got existing)
      obtain err where "server_write (re_Fail env client) ClearPatch key (Some (existing\<lparr>role_Rules := []\<rparr>)) roles =
          (Some err, roles)" using wr by blast
      then show ?thesis by (simp add: rrdClearRulesIfEmpty_def Got)
    qed (simp_all add: rrdClearRulesIfEmpty_def)
  qed
  have a: "snd (PatchApplyClusterRolePruningLabelsAlways (re_Fail env client) ssa skips ac prune force roles) = roles"
    for ssa skips ac prune force using powerless_clusterrole [OF assms(1)] by (metis snd_conv)
  have b: "snd (PatchApplyRoleAlways (re_Fail env client) ssa skips ac roles) = roles" for ssa skips ac
    using powerless_apply [OF assms(1), of ApplyRole ssa ac roles]
    by (auto simp: PatchApplyRoleAlways_def PatchApply_always writes_def)
  define spec where "spec = ro_Spec rrd"
  obtain r1 where n1: "rrdNormalizeOwnedClusterRoleMetadata env client rrd (rrds_TargetName spec)
      (BuildRestrictedResourceLabels []) roles = (r1, roles)" using n by (metis prod.collapse)
  obtain r2 where c1: "rrdClearClusterRoleRulesIfEmpty env client rrd (rrds_TargetName spec) rules roles = (r2, roles)"
    unfolding rrdClearClusterRoleRulesIfEmpty_def using c by (metis prod.collapse)
  obtain r3 where c2: "rrdClearRoleRulesIfEmpty env client rrd (rrds_TargetNamespace spec) (rrds_TargetName spec) rules
      roles = (r3, roles)" unfolding rrdClearRoleRulesIfEmpty_def using c by (metis prod.collapse)
  obtain r4 where a1: "PatchApplyClusterRolePruningLabelsAlways (re_Fail env client) (re_SSA env) (re_Skips env)
      (rrd_ac rrd rules) IsProtectedRestrictedLabel True roles = (r4, roles)" using a by (metis prod.collapse)
  obtain r5 where b1: "PatchApplyRoleAlways (re_Fail env client) (re_SSA env) (re_Skips env) (rrd_ac rrd rules) roles =
      (r5, roles)" using b by (metis prod.collapse)
  show ?thesis
    using assms(2) n1 c1 c2 a1 b1 unfolding rrdEnsureRole_def Let_def spec_def
    by (auto split: option.splits if_splits sum.splits)
qed

text \<open>Roles that are only taken away.\<close>

abbreviation shrinks :: "'c rrd_world \<Rightarrow> 'c rrd_world \<Rightarrow> bool" where
  "shrinks w w' \<equiv> w_Roles w' \<subseteq>\<^sub>m w_Roles w"

lemma deprovision_shrinks:
  assumes "rrdDeprovision env obj w = (res, w')"
  shows "shrinks w w'"
proof (cases "target_key (ro_Spec obj)")
  case (Some key)
  then show ?thesis
    using assms
    by (auto simp: rrdDeprovision_def Let_def server_write_def map_le_def split: read.splits if_splits option.splits)
qed (use assms in \<open>simp add: rrdDeprovision_def\<close>)

interpretation rrd_shr: policy_lifecycle "rrdPolicyLifecycleConfig env rrd roles" "\<lambda>w. True" shrinks for env rrd roles
proof
  fix obj w res obj' w'
  assume "lc_Deprovision (rrdPolicyLifecycleConfig env rrd roles) obj w = (res, obj', w')"
  then show "shrinks w w'" using deprovision_shrinks [of env rrd w res w'] by (simp add: deprovision_callback)
next
  fix err obj w obj' w'
  assume "lc_MarkStalled (rrdPolicyLifecycleConfig env rrd roles) err obj w = (obj', w')"
  then have "w' = snd (rrdMarkStalled env err obj w)" by (simp add: rrdPolicyLifecycleConfig_def)
  then show "True = True \<and> shrinks w w'" by simp
next
  fix obj w res w'
  assume "lc_ApplyStatus (rrdPolicyLifecycleConfig env rrd roles) obj w = (res, w')"
  then show "True = True \<and> shrinks w w'"
    using status_roles [of env obj w res w'] by (simp add: rrdPolicyLifecycleConfig_def)
next
  fix m obj w res obj' w'
  assume "lc_ApplyStatusAndMarkStalled (rrdPolicyLifecycleConfig env rrd roles) m obj w = (res, obj', w')"
  then show "True = True \<and> shrinks w w'"
    using apply_stalled_roles [of env m obj w res obj' w'] by (simp add: rrdPolicyLifecycleConfig_def)
qed (auto intro: map_le_trans)

section \<open>Through a reconciliation\<close>

text \<open>The client of every policy the definition may refer to is powerless.\<close>

definition identity_powerless :: "'c rrd_env \<Rightarrow> RBACPolicy \<Rightarrow> bool" where
  "identity_powerless env policy \<longleftrightarrow> (\<exists>user cl. impersonatedUsernameForPolicy (Some policy) = Inr (user, True) \<and>
     re_Factory env user = Inr (Some cl) \<and> powerless env (ImpersonatedClient cl))"

lemma apply_shrinks:
  assumes "identity_powerless env policy" "cache_ok (re_Factory env) (w_Cache w)"
  shows "shrinks w (snd (rrdApplyAndFinish env rrd policy finalRules w))"
proof -
  obtain r cache where rs: "resolvePolicyApplyClient (re_RestConfig env) policy (re_Factory env) (w_Cache w) = (r, cache)"
    by fastforce
  show ?thesis
  proof (cases r)
    case (Inl err)
    then show ?thesis by (simp add: rrdApplyAndFinish_def rs)
  next
    case (Inr cu)
    obtain client user where cu: "cu = (client, user)" by fastforce
    have pow: "powerless env client"
      using resolve_cases [OF assms(2) rs] assms(1) Inr cu by (auto simp: identity_powerless_def create_def)
    obtain res rrd1 roles where en: "rrdEnsureRole env rrd finalRules client (w_Roles w) = (res, rrd1, roles)"
      by (metis prod_cases3)
    then have "roles = w_Roles w" using powerless_ensure [OF pow] by blast
    then show ?thesis
      by (cases res) (auto simp: rrdApplyAndFinish_def rs Inr cu en Let_def dest!: status_roles
          split: prod.splits option.splits)
  qed
qed

lemma generate_shrinks:
  assumes "identity_powerless env policy" "cache_ok (re_Factory env) (w_Cache w)"
  shows "shrinks w (snd (rrdGenerate env rrd policy w))"
proof (cases "rrdDiscoverAndFilter (re_ParseGV env) (re_Tracker env) (ro_Definition rrd)")
  case Requeue
  then show ?thesis by (auto simp: rrdGenerate_def dest!: status_roles split: prod.splits option.splits)
next
  case (Failed m)
  obtain derr w1 where dep: "rrdDeprovision env rrd w = (derr, w1)" by fastforce
  show ?thesis using deprovision_shrinks [OF dep] by (simp add: rrdGenerate_def Failed dep Let_def)
next
  case (Generated discovered)
  show ?thesis
  proof (cases "appendConstrainedImpersonationRules (rrds_ConstrainedImpersonation (ro_Spec rrd)) discovered")
    case (Inl err)
    then show ?thesis by (simp add: rrdGenerate_def Generated rrdCheckAndApply_def)
  next
    case (Inr finalRules)
    let ?rrd1 = "rrdRecordConstrainedImpersonationState env rrd"
    show ?thesis
    proof (cases "CheckMaxRulesPerRole (ps_RoleLimits (policy_Spec policy)) (int (length finalRules))")
      case (Some v)
      obtain res err rrd2 w1 where h: "handlePolicyViolations (rrdPolicyLifecycleConfig env ?rrd1 (w_Roles w)) [v]
          (set_violations [Violation_String v] ?rrd1) w = ((res, err), rrd2, w1)" by (metis prod_cases3 surj_pair)
      show ?thesis
        using rrd_shr.violations_cases [OF h] by (simp add: rrdGenerate_def Generated rrdCheckAndApply_def Inr Some h)
    next
      case None
      then show ?thesis
        using apply_shrinks [OF assms] by (simp add: rrdGenerate_def Generated rrdCheckAndApply_def Inr)
    qed
  qed
qed

lemma govern_shrinks:
  assumes "re_Policies env (rrds_PolicyRef (ro_Spec rrd)) = Some (policy, deleting)"
    and "identity_powerless env policy" "cache_ok (re_Factory env) (w_Cache w)"
  shows "shrinks w (snd (rrdGovern env rrd w))"
proof (cases "server_read (base_fail env) GetPolicy (re_Policies env (rrds_PolicyRef (ro_Spec rrd)))")
  case Missing
  then show ?thesis using assms(1) server_read_Missing [OF Missing] by simp
next
  case (ReadError err)
  then show ?thesis by (simp add: rrdGovern_def)
next
  case (Got pd)
  let ?cfg = "rrdPolicyLifecycleConfig env rrd (w_Roles w)"
  have pd: "pd = (policy, deleting)" using server_read_Got [OF Got] assms(1) by simp
  show ?thesis
  proof (cases deleting)
    case True
    obtain res err rrd1 w1 where h: "handleDeletingRestrictedPolicy ?cfg rrd w = ((res, err), rrd1, w1)"
      by (metis prod_cases3 surj_pair)
    show ?thesis
      using rrd_shr.unusable_cases [OF h [unfolded handleDeletingRestrictedPolicy_def]] Got pd True h
      by (simp add: rrdGovern_def Let_def)
  next
    case False
    obtain ev rrd1 w1 where e: "evaluateRestrictedPolicy ?cfg policy rrd w = (ev, rrd1, w1)" by (metis prod_cases3)
    note cases = rrd_shr.evaluation_cases [OF e]
    show ?thesis
    proof (cases ev)
      case (Inl err)
      then show ?thesis using cases Got pd False e by (simp add: rrdGovern_def rrdEvaluatePolicy_def)
    next
      case (Inr vs)
      then have w1: "w1 = w" using cases by blast
      obtain res err rrd2 w2 where h: "handlePolicyViolations ?cfg vs rrd1 w = ((res, err), rrd2, w2)"
        by (metis prod_cases3 surj_pair)
      show ?thesis
        using Got pd False e Inr w1 h rrd_shr.violations_cases [OF h] generate_shrinks [OF assms(2, 3)]
        by (simp add: rrdGovern_def rrdEvaluatePolicy_def Let_def)
    qed
  qed
qed

text \<open>
  Property C25 (role_written_as_policy_identity): when the policy of a definition names a service account to
  impersonate and the API server refuses that account every write, a reconciliation creates and changes no role
  at all, whatever the controller itself may do: at most a role is deleted.
\<close>

theorem role_written_as_policy_identity:
  assumes "w_Object w = Some obj"
    and "re_Policies env (rrds_PolicyRef (ro_Spec obj)) = Some (policy, deleting)"
    and "identity_powerless env policy" "cache_ok (re_Factory env) (w_Cache w)"
    and "Reconcile env req w = (out, w')"
  shows "w_Roles w' \<subseteq>\<^sub>m w_Roles w"
proof (cases "server_read (base_fail env) GetDefinition (w_Object w)")
  case (Got rrd)
  have rrd: "rrd = obj" using server_read_Got [OF Got] assms(1) by simp
  define rrd1 where "rrd1 = observe_generation (on_conditions (\<lambda>cs. MarkReconciling (re_Now env) cs (ro_Generation obj)
    ReconcilingReasonProgressing ReconcilingMessageProgressing) obj)"
  have same1: "same_definition rrd1 obj" by (simp add: rrd1_def same_definition_def)
  have govern: "shrinks w1 (snd (rrdGovern env r w1))"
    if "same_definition r obj" "w_Cache w1 = w_Cache w" for r w1
    by (rule govern_shrinks [of env r policy deleting]) (use assms(2-4) that same_fields [OF that(1)] in simp_all)
  show ?thesis
  proof (cases "ro_Deleting obj")
    case True
    obtain derr w1 where dep: "rrdDeprovision env obj w = (derr, w1)" by fastforce
    have "shrinks w w2" if "rrdHandleDeletion env obj w = (e, w2)" for e w2
      using that dep deprovision_shrinks [OF dep]
      by (auto simp: rrdHandleDeletion_def dropFinalizer_def Let_def split: if_splits option.splits)
    then show ?thesis
      using assms(5) Got True by (auto simp: Reconcile_def rrd split: prod.splits option.splits)
  next
    case False
    obtain res rrd2 w1 where ef: "EnsureFinalizerOf env obj rrd1 w = (res, rrd2, w1)" by (metis prod_cases3)
    note same2 = ensure_finalizer_same [OF ef same1]
    have g1: "shrinks w (snd (rrdGovern env rrd1 w))" and g2: "shrinks w (snd (rrdGovern env rrd2 w1))"
      using govern [OF same1, of w] govern [of rrd2 w1] same2 by simp_all
    have "w' = snd (rrdGovern env rrd1 w) \<or> w' = w1 \<or> w' = snd (rrdGovern env rrd2 w1) \<or>
        (\<exists>err. w' = snd (rrdMarkStalled env err rrd2 w1))"
      using assms(5) Got False ef unfolding Reconcile_def rrd
      by (auto simp: rrd1_def [symmetric] split: if_splits option.splits)
    then show ?thesis using g1 g2 same2 by auto
  qed
qed (use assms(5) in \<open>simp_all add: Reconcile_def\<close>)

text \<open>A policy that names an account the API server forbids every write.\<close>

definition weak_policy :: RBACPolicy where
  "weak_policy = sample_policy\<lparr>policy_Spec := (policy_Spec sample_policy)\<lparr>ps_Impersonation := Some
     \<lparr>ic_Enabled = True, ic_ServiceAccountRef = Some \<lparr>sar_Name = ''weak'', sar_Namespace = ''tenant''\<rparr>, ic_UserName = '''',
      ic_UID = '''', ic_Groups = [], ic_Extra = [], ic_Mode = ''''\<rparr>\<rparr>\<rparr>"

definition weak_env :: "unit rrd_env" where
  "weak_env = sample_env_rrd\<lparr>re_Policies := (\<lambda>name. Some (weak_policy, False)),
     re_Fail := (\<lambda>client call. case client of BaseClient \<Rightarrow> None
       | ImpersonatedClient cl \<Rightarrow> Some \<lparr>ge_causes = [APIStatus ''Forbidden''], ge_text = []\<rparr>)\<rparr>"

theorem role_written_as_policy_identity_witness:
  "w_Roles (snd (Reconcile weak_env ''viewer'' sample_world)) \<subseteq>\<^sub>m w_Roles sample_world"
proof -
  obtain out w' where run: "Reconcile weak_env ''viewer'' sample_world = (out, w')" by fastforce
  have pol: "re_Policies weak_env (rrds_PolicyRef (ro_Spec sample_object)) = Some (weak_policy, False)"
    by (simp add: weak_env_def)
  have "identity_powerless weak_env weak_policy"
    by (simp add: identity_powerless_def impersonatedUsernameForPolicy_def weak_policy_def powerless_def weak_env_def
        sample_env_rrd_def IsNotFound_def ReasonForError_def)
  moreover have "cache_ok (re_Factory weak_env) (w_Cache sample_world)"
    by (simp add: sample_world_def cache_ok_new)
  ultimately show ?thesis
    using role_written_as_policy_identity [OF sample_object_simps(5) pol _ _ run] by (simp add: run)
qed

end
