(* ===== verification/Admission_Base.thy ===== *)
theory Admission_Base
  imports Cluster_State Resource_Naming
begin

text \<open>
  What the validating webhooks of the custom resources share: the errors they answer with, the sequence of
  checks with early returns, and the loops that read lists page by page
  (\<^verbatim>\<open>api/authorization/v1alpha1/admission_list_helpers.go\<close>). A loop follows the continue tokens of the API
  server for as long as it hands them out, so a validator may not return: \<^term>\<open>None\<close>.
\<close>

section \<open>Answers\<close>

datatype refusal = Because msg | BecauseField fieldError

text \<open>\<^verbatim>\<open>apierrors.NewInvalid\<close>, \<^verbatim>\<open>NewForbidden\<close>, \<^verbatim>\<open>NewBadRequest\<close> and \<^verbatim>\<open>NewInternalError\<close>.\<close>

datatype admission_error =
    Invalid string string "fieldError list"
  | Forbidden string string refusal
  | BadRequest msg
  | InternalError msg

type_synonym 'r outcome = "(admission_error + 'r) option"

text \<open>\<^verbatim>\<open>if err := f(); err != nil { return err }\<close>, then the rest.\<close>

definition andThen :: "'a outcome \<Rightarrow> ('a \<Rightarrow> 'b outcome) \<Rightarrow> 'b outcome" where
  "andThen m k = (case m of None \<Rightarrow> None | Some (Inl err) \<Rightarrow> Some (Inl err) | Some (Inr x) \<Rightarrow> k x)"

text \<open>A check without reads, and a read whose error is reported.\<close>

definition ensure :: "admission_error option \<Rightarrow> unit outcome" where
  "ensure errp = Some (case errp of None \<Rightarrow> Inr () | Some err \<Rightarrow> Inl err)"

definition onError :: "(go_error \<Rightarrow> admission_error) \<Rightarrow> (go_error + 'a) option \<Rightarrow> 'a outcome" where
  "onError report m = map_option (map_sum report id) m"

definition accepts :: "'r outcome \<Rightarrow> bool" where
  "accepts m \<longleftrightarrow> (\<exists>r. m = Some (Inr r))"

definition rejects :: "'r outcome \<Rightarrow> bool" where
  "rejects m \<longleftrightarrow> (\<exists>err. m = Some (Inl err))"

text \<open>A list of field errors is reported as one error, an empty one is none.\<close>

definition invalidUnlessEmpty :: "string \<Rightarrow> string \<Rightarrow> fieldError list \<Rightarrow> admission_error option" where
  "invalidUnlessEmpty kind name allErrs = (if allErrs \<noteq> [] then Some (Invalid kind name allErrs) else None)"

named_theorems admission \<open>when a sequence of checks accepts\<close>

lemma andThen_accept [admission]:
  "andThen m k = Some (Inr y) \<longleftrightarrow> (\<exists>x. m = Some (Inr x) \<and> k x = Some (Inr y))"
  by (auto simp: andThen_def split: option.splits sum.splits)

lemma andThen_ok [simp]: "andThen (Some (Inr x)) k = k x" and andThen_err [simp]: "andThen (Some (Inl e)) k = Some (Inl e)"
  by (simp_all add: andThen_def)

lemma ensure_accept [admission]: "ensure errp = Some (Inr u) \<longleftrightarrow> errp = None"
  by (simp add: ensure_def split: option.splits)

lemma ensure_simps [simp]: "ensure None = Some (Inr ())" "ensure (Some err) = Some (Inl err)"
  by (simp_all add: ensure_def)

lemma onError_accept [admission]: "onError report m = Some (Inr x) \<longleftrightarrow> m = Some (Inr x)"
  by (cases m) (auto simp: onError_def map_sum_def split: sum.splits)

lemma invalidUnlessEmpty_None [admission, simp]: "invalidUnlessEmpty kind name allErrs = None \<longleftrightarrow> allErrs = []"
  by (simp add: invalidUnlessEmpty_def)

lemma accepts_simps [simp]: "accepts (Some (Inr r))" "\<not> accepts (Some (Inl err))" "\<not> accepts None"
  by (simp_all add: accepts_def)

lemma accepts_andThen: "accepts (andThen m k) \<longleftrightarrow> (\<exists>x. m = Some (Inr x) \<and> accepts (k x))"
  by (auto simp: accepts_def andThen_accept)

lemma accepts_then: "accepts (andThen m (\<lambda>_. k)) \<longleftrightarrow> accepts m \<and> accepts k"
  by (auto simp: accepts_andThen) (auto simp: accepts_def)

lemma accepts_ensure [simp]: "accepts (ensure errp) \<longleftrightarrow> errp = None"
  by (simp add: accepts_def ensure_accept)

text \<open>Returning at all.\<close>

definition returns :: "'a option \<Rightarrow> bool" where
  "returns m \<longleftrightarrow> m \<noteq> None"

named_theorems returning \<open>validators that return\<close>

lemma andThen_returns [returning]:
  "returns m \<Longrightarrow> (\<And>x. m = Some (Inr x) \<Longrightarrow> returns (k x)) \<Longrightarrow> returns (andThen m k)"
  by (auto simp: returns_def andThen_def split: option.splits sum.splits)

lemma returns_Some [simp]: "returns (Some x)"
  by (simp add: returns_def)

lemma ensure_returns [simp]: "returns (ensure errp)"
  by (simp add: returns_def ensure_def)

lemma onError_returns [returning]: "returns m \<Longrightarrow> returns (onError report m)"
  by (simp add: returns_def onError_def)

section \<open>Pages\<close>

text \<open>The options of a \<^verbatim>\<open>List\<close> call, and a reader: an error, or the items with the next continue token.\<close>

record list_options =
  lo_Fields :: "(string \<times> string) list"
  lo_Selector :: "(labels \<Rightarrow> bool) option"
  lo_Limit :: nat
  lo_Continue :: string

type_synonym 'a list_reader = "list_options \<Rightarrow> go_error + 'a list \<times> string"

definition admissionListPageLimit :: nat where "admissionListPageLimit = 100"

definition listAdmissionPage ::
  "'a list_reader \<Rightarrow> (string \<times> string) list \<Rightarrow> (labels \<Rightarrow> bool) option \<Rightarrow> string \<Rightarrow> go_error + 'a list \<times> string" where
  "listAdmissionPage reader flds sel continueToken =
     reader \<lparr>lo_Fields = flds, lo_Selector = sel, lo_Limit = admissionListPageLimit, lo_Continue = continueToken\<rparr>"

text \<open>
  The two shapes of the loops: one returns at the first item that answers, one appends what each item
  contributes. Both read \<open>page\<close>, the call with its options fixed.
\<close>

type_synonym 'a pages = "string \<Rightarrow> go_error + 'a list \<times> string"

partial_function (option) scanPages ::
  "('a \<Rightarrow> 'r option) \<Rightarrow> 'a pages \<Rightarrow> string \<Rightarrow> (go_error + 'r option) option" where
  "scanPages f page continueToken =
     (case page continueToken of
        Inl err \<Rightarrow> Some (Inl err)
      | Inr (items, nextContinueToken) \<Rightarrow>
          (case first_some f items of
             Some r \<Rightarrow> Some (Inr (Some r))
           | None \<Rightarrow> if nextContinueToken = '''' then Some (Inr None) else scanPages f page nextContinueToken))"

partial_function (option) collectPages ::
  "('a \<Rightarrow> 'b list) \<Rightarrow> 'a pages \<Rightarrow> string \<Rightarrow> 'b list \<Rightarrow> (go_error + 'b list) option" where
  "collectPages f page continueToken acc =
     (case page continueToken of
        Inl err \<Rightarrow> Some (Inl err)
      | Inr (items, nextContinueToken) \<Rightarrow>
          let acc' = acc @ concat (map f items) in
          if nextContinueToken = '''' then Some (Inr acc') else collectPages f page nextContinueToken acc')"

text \<open>The items of a chain of pages that is served to its end, and chains that end, with an error or not.\<close>

inductive served :: "'a pages \<Rightarrow> string \<Rightarrow> 'a list \<Rightarrow> bool" for page where
  served_last: "page t = Inr (items, '''') \<Longrightarrow> served page t items"
| served_next: "page t = Inr (items, t') \<Longrightarrow> t' \<noteq> '''' \<Longrightarrow> served page t' rest \<Longrightarrow> served page t (items @ rest)"

inductive ends :: "'a pages \<Rightarrow> string \<Rightarrow> bool" for page where
  ends_error: "page t = Inl err \<Longrightarrow> ends page t"
| ends_last: "page t = Inr (items, '''') \<Longrightarrow> ends page t"
| ends_next: "page t = Inr (items, t') \<Longrightarrow> ends page t' \<Longrightarrow> ends page t"

lemma served_ends: "served page t items \<Longrightarrow> ends page t"
  by (induction rule: served.induct) (auto intro: ends.intros)

lemma served_unique: "served page t xs \<Longrightarrow> served page t ys \<Longrightarrow> xs = ys"
proof (induction arbitrary: ys rule: served.induct)
  case (served_last t items)
  from served_last.prems served_last.hyps show ?case by (cases rule: served.cases) auto
next
  case (served_next t items t' rest)
  obtain rest' where "ys = items @ rest'" "served page t' rest'"
    using served_next.prems served_next.hyps by (cases rule: served.cases) auto
  with served_next.IH [of rest'] show ?case by simp
qed

text \<open>A scan that answers: the first match, or no item of the whole chain matches.\<close>

lemma first_some_append:
  "first_some f (xs @ ys) = (case first_some f xs of None \<Rightarrow> first_some f ys | Some r \<Rightarrow> Some r)"
proof (induction xs)
  case (Cons x xs)
  then show ?case by (cases "f x") simp_all
qed simp

lemma scanPages_served: "served page t items \<Longrightarrow> scanPages f page t = Some (Inr (first_some f items))"
proof (induction rule: served.induct)
  case (served_last t items)
  then show ?case by (cases "first_some f items") (simp_all add: scanPages.simps [of f page t] del: first_some_None)
next
  case (served_next t items t' rest)
  then show ?case
    by (cases "first_some f items")
      (simp_all add: scanPages.simps [of f page t] first_some_append del: first_some_None)
qed

lemma scanPages_returns [returning]: "ends page t \<Longrightarrow> returns (scanPages f page t)"
  unfolding returns_def
proof (induction rule: ends.induct)
  case (ends_next t items t')
  then show ?case by (auto simp: scanPages.simps [of f page t] split: option.splits)
qed (auto simp: scanPages.simps split: option.splits)

lemma scanPages_None:
  assumes "scanPages f page t = Some (Inr None)"
  shows "\<exists>items. served page t items \<and> (\<forall>x \<in> set items. f x = None)"
proof (rule scanPages.raw_induct [where P = "\<lambda>f page t r. r = Inr None \<longrightarrow>
      (\<exists>items. served page t items \<and> (\<forall>x \<in> set items. f x = None))", OF _ assms, THEN mp, OF _ refl], rule impI)
    fix scan f page t r
    assume IH: "\<And>f page t r. scan f page t = Some r \<Longrightarrow> r = Inr None \<longrightarrow>
        (\<exists>items. served page t items \<and> (\<forall>x \<in> set items. f x = None))"
      and eq: "(case page t of Inl err \<Rightarrow> Some (Inl err)
        | Inr (items, t') \<Rightarrow> (case first_some f items of Some r \<Rightarrow> Some (Inr (Some r))
            | None \<Rightarrow> if t' = '''' then Some (Inr None) else scan f page t')) = Some r"
      and r: "r = Inr None"
    from eq r obtain items t' where p: "page t = Inr (items, t')" and n: "first_some f items = None"
        and t': "t' = '''' \<or> scan f page t' = Some (Inr None)"
      by (auto split: sum.splits prod.splits option.splits if_splits)
    show "\<exists>items. served page t items \<and> (\<forall>x \<in> set items. f x = None)"
    proof (cases "t' = ''''")
      case True
      with p n show ?thesis by (intro exI [of _ items]) (auto intro: served_last)
    next
      case False
      with t' IH [of f page t' "Inr None"] obtain rest
        where "served page t' rest" "\<forall>x \<in> set rest. f x = None" by auto
      with p n False show ?thesis by (intro exI [of _ "items @ rest"]) (auto intro: served_next)
    qed
qed

lemma scanPages_if_None:
  "scanPages (\<lambda>x. if P x then Some (g x) else None) page t = Some (Inr None) \<Longrightarrow>
   \<exists>items. served page t items \<and> (\<forall>x \<in> set items. \<not> P x)"
  by (drule scanPages_None) (auto split: if_splits)

lemma found_False: "map_option (map_sum id (\<lambda>found. found \<noteq> None)) m = Some (Inr False) \<longleftrightarrow> m = Some (Inr None)"
proof (cases m)
  case (Some r)
  then show ?thesis by (cases r) auto
qed simp

lemma scanPages_Some:
  assumes "scanPages f page t = Some (Inr (Some r))"
  shows "\<exists>t' items t'' x. page t' = Inr (items, t'') \<and> x \<in> set items \<and> f x = Some r"
proof (rule scanPages.raw_induct [where P = "\<lambda>f page t s. s = Inr (Some r) \<longrightarrow>
      (\<exists>t' items t'' x. page t' = Inr (items, t'') \<and> x \<in> set items \<and> f x = Some r)", OF _ assms, THEN mp, OF _ refl])
    fix scan f page t s
    assume IH: "\<And>f page t s. scan f page t = Some s \<Longrightarrow> s = Inr (Some r) \<longrightarrow>
        (\<exists>t' items t'' x. page t' = Inr (items, t'') \<and> x \<in> set items \<and> f x = Some r)"
      and eq: "(case page t of Inl err \<Rightarrow> Some (Inl err)
        | Inr (items, t') \<Rightarrow> (case first_some f items of Some r \<Rightarrow> Some (Inr (Some r))
            | None \<Rightarrow> if t' = '''' then Some (Inr None) else scan f page t')) = Some s"
    show "s = Inr (Some r) \<longrightarrow> (\<exists>t' items t'' x. page t' = Inr (items, t'') \<and> x \<in> set items \<and> f x = Some r)"
      using eq IH by (fastforce simp: first_some_Some split: sum.splits prod.splits option.splits if_splits)
qed

text \<open>A collection reads the chain to its end.\<close>

lemma collectPages_served:
  "served page t items \<Longrightarrow> collectPages f page t acc = Some (Inr (acc @ concat (map f items)))"
  by (induction arbitrary: acc rule: served.induct) (simp_all add: collectPages.simps [of f page] Let_def)

lemma collectPages_returns [returning]: "ends page t \<Longrightarrow> returns (collectPages f page t acc)"
  unfolding returns_def
  by (induction arbitrary: acc rule: ends.induct) (simp_all add: collectPages.simps [of f page] Let_def)

lemma collectPages_Inr:
  assumes "collectPages f page t acc = Some (Inr ys)"
  shows "\<exists>items. served page t items \<and> ys = acc @ concat (map f items)"
proof (rule collectPages.raw_induct [where P = "\<lambda>f page t acc r. r = Inr ys \<longrightarrow>
      (\<exists>items. served page t items \<and> ys = acc @ concat (map f items))", OF _ assms, THEN mp, OF _ refl], rule impI)
    fix coll f page t acc r
    assume IH: "\<And>f page t acc r. coll f page t acc = Some r \<Longrightarrow> r = Inr ys \<longrightarrow>
        (\<exists>items. served page t items \<and> ys = acc @ concat (map f items))"
      and eq: "(case page t of Inl err \<Rightarrow> Some (Inl err)
        | Inr (items, t') \<Rightarrow> let acc' = acc @ concat (map f items) in
            if t' = '''' then Some (Inr acc') else coll f page t' acc') = Some r"
      and r: "r = Inr ys"
    from eq r obtain items t' where p: "page t = Inr (items, t')"
        and t': "if t' = '''' then ys = acc @ concat (map f items)
                 else coll f page t' (acc @ concat (map f items)) = Some (Inr ys)"
      by (auto simp: Let_def split: sum.splits prod.splits if_splits)
    show "\<exists>items. served page t items \<and> ys = acc @ concat (map f items)"
    proof (cases "t' = ''''")
      case True
      with p t' show ?thesis by (intro exI [of _ items]) (auto intro: served_last)
    next
      case False
      with t' IH [of f page t' "acc @ concat (map f items)" "Inr ys"] obtain rest
        where "served page t' rest" "ys = acc @ concat (map f items) @ concat (map f rest)" by auto
      with p False show ?thesis by (intro exI [of _ "items @ rest"]) (auto intro: served_next)
    qed
qed

section \<open>A paging API server\<close>

text \<open>
  List chunking as the API documents it: at most \<open>lo_Limit\<close> items, then a token that continues after them,
  and no token with the last chunk. The token here is a run of as many bytes as items were served; the code
  never looks into one. Its chains end and serve exactly the stored objects, whatever the page size.
\<close>

definition chunk_server :: "'a list \<Rightarrow> 'a list_reader" where
  "chunk_server objects opts =
     (let from = length (lo_Continue opts); upto = from + lo_Limit opts in
      Inr (take (lo_Limit opts) (drop from objects),
           if upto < length objects then replicate upto (CHR ''x'') else ''''))"

lemma chunk_served_from:
  "0 < n \<Longrightarrow> k \<le> length objects \<Longrightarrow>
   served (\<lambda>t. chunk_server objects \<lparr>lo_Fields = fl, lo_Selector = sel, lo_Limit = n, lo_Continue = t\<rparr>)
     (replicate k (CHR ''x'')) (drop k objects)"
proof (induction "length objects - k" arbitrary: k rule: less_induct)
  case less
  let ?page = "\<lambda>t. chunk_server objects \<lparr>lo_Fields = fl, lo_Selector = sel, lo_Limit = n, lo_Continue = t\<rparr>"
  show ?case
  proof (cases "k + n < length objects")
    case True
    have "served ?page (replicate (k + n) (CHR ''x'')) (drop (k + n) objects)"
      using True less.prems by (intro less.hyps) auto
    moreover have "?page (replicate k (CHR ''x'')) = Inr (take n (drop k objects), replicate (k + n) (CHR ''x''))"
      using True by (simp add: chunk_server_def Let_def)
    moreover have "take n (drop k objects) @ drop (k + n) objects = drop k objects"
      by (metis append_take_drop_id drop_drop add.commute)
    ultimately show ?thesis using served_next [of ?page] less.prems by (metis add_is_0 not_gr0 replicate_empty)
  next
    case False
    then show ?thesis by (intro served_last) (auto simp: chunk_server_def Let_def)
  qed
qed

lemma chunk_served: "served (listAdmissionPage (chunk_server objects) flds sel) '''' objects"
  using chunk_served_from [of admissionListPageLimit 0 objects flds sel]
  by (simp add: listAdmissionPage_def [abs_def] admissionListPageLimit_def)

end
