(* ===== verification/Default_Policy.thy ===== *)
theory Default_Policy
  imports Admission_Base Impersonation
begin

text \<open>
  The default policies of requesters (\<^verbatim>\<open>api/authorization/v1alpha1/default_policy_assignment_webhook.go\<close>): a
  requester who is assigned to a policy must use it in restricted definitions. The theorems say that an
  accepted reference is exactly one the assignments allow, and that the check returns.
\<close>

section \<open>What the validators read\<close>

record readers =
  rs_Policies :: "RBACPolicy list_reader"
  rs_GetPolicy :: "string \<Rightarrow> (RBACPolicy \<times> bool) read"
  rs_RestrictedRoleDefinitions :: "RestrictedRoleDefinition list_reader"
  rs_RestrictedBindDefinitions :: "RestrictedBindDefinition list_reader"
  rs_RoleDefinitions :: "RoleDefinition list_reader"
  rs_BindDefinitions :: "BindDefinition list_reader"
  rs_Namespaces :: "Namespace list_reader"
  rs_GetNamespace :: "string \<Rightarrow> Namespace read"
  rs_GetRole :: "role_key \<Rightarrow> rbac_role read"

record requester =
  rq_Username :: string
  rq_Groups :: "string list"

text \<open>
  The validators hold the cached client and an optional uncached reader. The request is absent in a context
  without one. \<^verbatim>\<open>LabelSelectorAsSelector\<close>, \<^verbatim>\<open>IsDomainPrefixedPath\<close>, \<^verbatim>\<open>IsDNS1123Label\<close>, the hash of binding
  names and the text of an error are parameters.
\<close>

record admission_env =
  ae_Client :: readers
  ae_Reader :: "readers option"
  ae_Request :: "requester option"
  ae_PodNamespace :: string
  ae_LabelGroups :: "string list"
  ae_ErrorText :: "go_error \<Rightarrow> string"
  ae_AsSelector :: selector_api
  ae_IsDomainPrefixedPath :: "string \<Rightarrow> string \<Rightarrow> fieldError list"
  ae_IsDNS1123Label :: "string \<Rightarrow> string list"
  ae_Hash :: "string \<Rightarrow> string"

definition defaultPolicyReader :: "admission_env \<Rightarrow> readers" where
  "defaultPolicyReader env = (case ae_Reader env of Some reader \<Rightarrow> reader | None \<Rightarrow> ae_Client env)"

text \<open>Metadata that the update checks compare.\<close>

record object_meta =
  om_Labels :: labels
  om_Annotations :: labels
  om_OwnerReferences :: "OwnerReference list"
  om_Finalizers :: "string list"

section \<open>Requesters\<close>

record requesterServiceAccount =
  rsa_Name :: string
  rsa_Namespace :: string
  rsa_IsServiceAccount :: bool

definition parseRequesterServiceAccount :: "string \<Rightarrow> requesterServiceAccount" where
  "parseRequesterServiceAccount username =
     (let parts = Split username (CHR '':'') in
      if length parts \<noteq> 4 \<or> parts ! 0 \<noteq> ''system'' \<or> parts ! 1 \<noteq> ''serviceaccount'' \<or> parts ! 2 = '''' \<or> parts ! 3 = ''''
      then \<lparr>rsa_Name = '''', rsa_Namespace = '''', rsa_IsServiceAccount = False\<rparr>
      else \<lparr>rsa_Name = parts ! 3, rsa_Namespace = parts ! 2, rsa_IsServiceAccount = True\<rparr>)"

definition requesterMatchesDefaultAssignment ::
  "DefaultPolicyAssignment option \<Rightarrow> string \<Rightarrow> string list \<Rightarrow> bool" where
  "requesterMatchesDefaultAssignment dap username groups =
     (case dap of
        None \<Rightarrow> False
      | Some da \<Rightarrow>
          if list_ex (\<lambda>requesterGroup. list_ex (\<lambda>assignedGroup. requesterGroup = assignedGroup) (dpa_Groups da)) groups
          then True
          else
            let sa = parseRequesterServiceAccount username in
            if \<not> rsa_IsServiceAccount sa then False
            else list_ex (\<lambda>assignedSA. sar_Name assignedSA = rsa_Name sa \<and> sar_Namespace assignedSA = rsa_Namespace sa)
                   (dpa_ServiceAccounts da))"

section \<open>The default policies of a requester\<close>

definition HasDefaultAssignmentField :: string where "HasDefaultAssignmentField = ''.spec.hasDefaultAssignment''"

definition listPoliciesWithDefaultAssignment :: "readers \<Rightarrow> bool \<Rightarrow> (go_error + RBACPolicy list) option" where
  "listPoliciesWithDefaultAssignment c useIndex =
     collectPages (\<lambda>policy. if ps_DefaultAssignment (policy_Spec policy) = None then [] else [policy])
       (listAdmissionPage (rs_Policies c) (if useIndex then [(HasDefaultAssignmentField, ''true'')] else []) None) '''' []"

definition matchedPolicies :: "string \<Rightarrow> string list \<Rightarrow> RBACPolicy list \<Rightarrow> string list" where
  "matchedPolicies username groups policies =
     sort (map policy_Name (filter (\<lambda>policy.
       requesterMatchesDefaultAssignment (ps_DefaultAssignment (policy_Spec policy)) username groups) policies))"

definition resolveDefaultPoliciesForRequester ::
  "admission_env \<Rightarrow> readers \<Rightarrow> string \<Rightarrow> string list \<Rightarrow> (go_error + string list) option" where
  "resolveDefaultPoliciesForRequester env c username groups =
     (case listPoliciesWithDefaultAssignment c True of
        None \<Rightarrow> None
      | Some (Inr policies) \<Rightarrow> Some (Inr (matchedPolicies username groups policies))
      | Some (Inl err) \<Rightarrow>
          if \<not> IsMissingFieldIndexError (Some (ae_ErrorText env err))
          then Some (Inl (wrapf [Lit ''list indexed RBACPolicies with defaultAssignment''] err))
          else (case listPoliciesWithDefaultAssignment c False of
             None \<Rightarrow> None
           | Some (Inl err) \<Rightarrow> Some (Inl (wrapf [Lit ''list admission page for RBACPolicies''] err))
           | Some (Inr policies) \<Rightarrow> Some (Inr (matchedPolicies username groups policies))))"

text \<open>The selected policy: whether it matches the requester, has an assignment, is being deleted.\<close>

definition selectedPolicyAssignment ::
  "readers \<Rightarrow> string \<Rightarrow> string \<Rightarrow> string list \<Rightarrow> (bool \<times> bool \<times> bool) read" where
  "selectedPolicyAssignment c selectedPolicy username groups =
     (if selectedPolicy = '''' then Got (False, False, False)
      else (case rs_GetPolicy c selectedPolicy of
         Missing \<Rightarrow> Missing
       | ReadError err \<Rightarrow> ReadError (wrapf [Lit ''get selected RBACPolicy '', Quo selectedPolicy] err)
       | Got (selected, deleting) \<Rightarrow>
           if deleting then Got (False, False, True)
           else if ps_DefaultAssignment (policy_Spec selected) = None then Got (False, False, False)
           else Got (requesterMatchesDefaultAssignment (ps_DefaultAssignment (policy_Spec selected)) username groups,
                     True, False)))"

definition policyRefPath :: string where "policyRefPath = ''spec.policyRef.name''"

definition invalidDeletingPolicyRef :: "string \<Rightarrow> string \<Rightarrow> string \<Rightarrow> admission_error" where
  "invalidDeletingPolicyRef groupKind objName policyName =
     Invalid groupKind objName
       [FieldForbidden policyRefPath [Lit ''referenced RBACPolicy '', Quo policyName, Lit '' is being deleted'']]"

definition validateDefaultPolicyForRequester ::
  "admission_env \<Rightarrow> readers \<Rightarrow> string \<Rightarrow> string \<Rightarrow> string \<Rightarrow> unit outcome" where
  "validateDefaultPolicyForRequester env c groupKind objName selectedPolicy =
     (case ae_Request env of
        None \<Rightarrow> ensure None
      | Some req \<Rightarrow>
          (case selectedPolicyAssignment c selectedPolicy (rq_Username req) (rq_Groups req) of
             Missing \<Rightarrow> ensure (Some (Invalid groupKind objName [FieldNotFound policyRefPath selectedPolicy]))
           | ReadError err \<Rightarrow> ensure (Some (InternalError [Lit ''unable to resolve default policy assignments'']))
           | Got (selectedMatches, selectedHasDefaultAssignment, selectedDeleting) \<Rightarrow>
               if selectedDeleting then ensure (Some (invalidDeletingPolicyRef groupKind objName selectedPolicy))
               else andThen
                 (onError (\<lambda>err. InternalError [Lit ''unable to resolve default policy assignments''])
                    (resolveDefaultPoliciesForRequester env c (rq_Username req) (rq_Groups req)))
                 (\<lambda>matched.
                    if length matched > 1 then ensure (Some (Invalid groupKind objName
                      [FieldInvalid policyRefPath selectedPolicy
                         [Lit ''requester '', Quo (rq_Username req), Lit '' matches multiple default policies: '',
                          Lit (Join matched '', '')]]))
                    else if selectedMatches then ensure None
                    else if selectedHasDefaultAssignment then ensure (Some (Invalid groupKind objName
                      [FieldInvalid policyRefPath selectedPolicy
                         [Lit ''requester '', Quo (rq_Username req),
                          Lit '' is not assigned to selected default policy '', Quo selectedPolicy]]))
                    else if matched = [] then ensure None
                    else if list_ex (\<lambda>policyName. policyName = selectedPolicy) matched then ensure None
                    else ensure (Some (Invalid groupKind objName
                      [FieldInvalid policyRefPath selectedPolicy
                         [Lit ''requester '', Quo (rq_Username req), Lit '' must use one of the default policies: '',
                          Lit (Join matched '', '')]])))))"

section \<open>Updates of metadata\<close>

definition stringSet :: "string list \<Rightarrow> (string, unit) gomap" where
  "stringSet values = fold (\<lambda>value. mput value ()) values []"

text \<open>One of the two loops: \<^term>\<open>None\<close> when a foreign finalizer changed, otherwise whether the target did.\<close>

fun toggleLoop :: "string list \<Rightarrow> (string, unit) gomap \<Rightarrow> string \<Rightarrow> bool \<Rightarrow> bool option" where
  "toggleLoop [] other target changedTarget = Some changedTarget"
| "toggleLoop (finalizer # rest) other target changedTarget =
     (if mlookup other finalizer \<noteq> None then toggleLoop rest other target changedTarget
      else if finalizer \<noteq> target then None
      else toggleLoop rest other target True)"

definition finalizerSetOnlyToggles :: "string list \<Rightarrow> string list \<Rightarrow> string \<Rightarrow> bool" where
  "finalizerSetOnlyToggles oldFinalizers newFinalizers target =
     (let oldSet = stringSet oldFinalizers; newSet = stringSet newFinalizers in
      case toggleLoop (map fst oldSet) newSet target False of
        None \<Rightarrow> False
      | Some changed \<Rightarrow>
          (case toggleLoop (map fst newSet) oldSet target changed of None \<Rightarrow> False | Some changed' \<Rightarrow> changed'))"

definition managedFinalizerForObject :: "owner_type \<Rightarrow> string option" where
  "managedFinalizerForObject obj =
     (case obj of
        RestrictedBindDefinitionType \<Rightarrow> Some RestrictedBindDefinitionFinalizer
      | RestrictedRoleDefinitionType \<Rightarrow> Some RestrictedRoleDefinitionFinalizer
      | _ \<Rightarrow> None)"

definition isAuthOperatorControllerServiceAccount :: "admission_env \<Rightarrow> string \<Rightarrow> bool" where
  "isAuthOperatorControllerServiceAccount env username =
     (let sa = parseRequesterServiceAccount username in
      if \<not> rsa_IsServiceAccount sa then False
      else if rsa_Namespace sa = ''auth-operator-system'' \<and> rsa_Name sa = ''manager'' then True
      else
        let operatorNamespace = ae_PodNamespace env in
        if operatorNamespace = '''' \<or> rsa_Namespace sa \<noteq> operatorNamespace then False
        else rsa_Name sa = ''manager'' \<or> HasSuffix (rsa_Name sa) ''-controller-manager'' \<or>
             (Contains (rsa_Name sa) ''auth-operator'' \<and> HasSuffix (rsa_Name sa) ''-manager''))"

definition operatorFinalizerUpdateAllowed ::
  "admission_env \<Rightarrow> owner_type \<Rightarrow> object_meta \<Rightarrow> object_meta \<Rightarrow> bool" where
  "operatorFinalizerUpdateAllowed env type oldObj newObj =
     (case managedFinalizerForObject type of
        None \<Rightarrow> False
      | Some finalizer \<Rightarrow>
          if \<not> finalizerSetOnlyToggles (om_Finalizers oldObj) (om_Finalizers newObj) finalizer then False
          else (case ae_Request env of
             None \<Rightarrow> False
           | Some req \<Rightarrow> isAuthOperatorControllerServiceAccount env (rq_Username req)))"

text \<open>
  \<^verbatim>\<open>reflect.DeepEqual\<close> on the metadata: labels and annotations as maps, the lists in order. The API server
  drops empty metadata fields, so nil and empty ones do not differ here.
\<close>

definition metadataUpdateRequiresDefaultPolicy ::
  "admission_env \<Rightarrow> owner_type \<Rightarrow> object_meta \<Rightarrow> object_meta \<Rightarrow> bool" where
  "metadataUpdateRequiresDefaultPolicy env type oldObj newObj =
     (if \<not> mapsEqual (om_Labels oldObj) (om_Labels newObj) \<or>
         \<not> mapsEqual (om_Annotations oldObj) (om_Annotations newObj) \<or>
         om_OwnerReferences oldObj \<noteq> om_OwnerReferences newObj then True
      else if om_Finalizers oldObj = om_Finalizers newObj then False
      else \<not> operatorFinalizerUpdateAllowed env type oldObj newObj)"

definition validateDefaultPolicyForMetadataUpdate ::
  "admission_env \<Rightarrow> readers \<Rightarrow> string \<Rightarrow> owner_type \<Rightarrow> string \<Rightarrow> string \<Rightarrow> object_meta \<Rightarrow> object_meta \<Rightarrow> unit outcome" where
  "validateDefaultPolicyForMetadataUpdate env c groupKind type objName selectedPolicy oldObj newObj =
     (if \<not> metadataUpdateRequiresDefaultPolicy env type oldObj newObj then ensure None
      else validateDefaultPolicyForRequester env c groupKind objName selectedPolicy)"

section \<open>Requesters and their assignments\<close>

lemma Split_four:
  "Split (''system:serviceaccount:'' @ ns @ '':'' @ n) (CHR '':'') = ''system'' # ''serviceaccount'' # Split (ns @ '':'' @ n) (CHR '':'')"
  using Split_append [of "CHR '':''" "''system''" "''serviceaccount:'' @ ns @ '':'' @ n"]
    Split_append [of "CHR '':''" "''serviceaccount''" "ns @ '':'' @ n"] by simp

text \<open>The parser accepts exactly the usernames of ServiceAccounts, and reads them back.\<close>

lemma parse_requester_iff:
  "parseRequesterServiceAccount username = \<lparr>rsa_Name = n, rsa_Namespace = ns, rsa_IsServiceAccount = True\<rparr> \<longleftrightarrow>
     username = ''system:serviceaccount:'' @ ns @ '':'' @ n \<and> ns \<noteq> '''' \<and> n \<noteq> '''' \<and>
     CHR '':'' \<notin> set ns \<and> CHR '':'' \<notin> set n" (is "?l \<longleftrightarrow> ?r")
proof
  assume ?l
  then have l: "length (Split username (CHR '':'')) = 4"
    and "Split username (CHR '':'') ! 0 = ''system''" "Split username (CHR '':'') ! 1 = ''serviceaccount''"
    and "Split username (CHR '':'') ! 2 = ns" "Split username (CHR '':'') ! 3 = n" "ns \<noteq> ''''" "n \<noteq> ''''"
    by (auto simp: parseRequesterServiceAccount_def Let_def split: if_splits)
  moreover from l obtain a b c d where "Split username (CHR '':'') = [a, b, c, d]"
    by (auto simp: eval_nat_numeral length_Suc_conv)
  ultimately have parts: "Split username (CHR '':'') = [''system'', ''serviceaccount'', ns, n]"
    and ne: "ns \<noteq> ''''" "n \<noteq> ''''" by simp_all
  have "username = Join [''system'', ''serviceaccount'', ns, n] '':''"
    using Join_Split [of username "CHR '':''"] parts by simp
  with parts ne show ?r using Split_parts [of _ username "CHR '':''"] by auto
next
  assume r: ?r
  then have "Split (ns @ '':'' @ n) (CHR '':'') = [ns, n]"
    using Split_append [of "CHR '':''" ns n] Split_id [of "CHR '':''" n] by simp
  with r Split_four [of ns n] show ?l by (simp add: parseRequesterServiceAccount_def)
qed

definition service_account_user :: "string \<Rightarrow> SARef \<Rightarrow> bool" where
  "service_account_user username sa \<longleftrightarrow>
     parseRequesterServiceAccount username =
       \<lparr>rsa_Name = sar_Name sa, rsa_Namespace = sar_Namespace sa, rsa_IsServiceAccount = True\<rparr>"

lemma requester_matches_iff:
  "requesterMatchesDefaultAssignment dap username groups \<longleftrightarrow>
     (\<exists>da. dap = Some da \<and> (set groups \<inter> set (dpa_Groups da) \<noteq> {} \<or>
        (\<exists>sa \<in> set (dpa_ServiceAccounts da). service_account_user username sa)))"
proof (cases dap)
  case (Some da)
  obtain n ns b where p: "parseRequesterServiceAccount username = \<lparr>rsa_Name = n, rsa_Namespace = ns, rsa_IsServiceAccount = b\<rparr>"
    by (cases "parseRequesterServiceAccount username") auto
  show ?thesis unfolding Some requesterMatchesDefaultAssignment_def service_account_user_def p
    by (auto simp: list_ex_iff)
qed (simp add: requesterMatchesDefaultAssignment_def)

section \<open>Accepted references\<close>

text \<open>What the readers promise: a complete listing and a found object show the stored policies.\<close>

definition stored_policy :: "(RBACPolicy \<times> bool) list \<Rightarrow> string \<Rightarrow> (RBACPolicy \<times> bool) option" where
  "stored_policy ps n = List.find (\<lambda>(policy, deleting). policy_Name policy = n) ps"

definition assigned :: "RBACPolicy \<Rightarrow> bool" where
  "assigned policy \<longleftrightarrow> ps_DefaultAssignment (policy_Spec policy) \<noteq> None"

definition sound_policy_reads :: "readers \<Rightarrow> (RBACPolicy \<times> bool) list \<Rightarrow> bool" where
  "sound_policy_reads c ps \<longleftrightarrow>
     (\<forall>n. case rs_GetPolicy c n of Missing \<Rightarrow> stored_policy ps n = None | ReadError err \<Rightarrow> True
            | Got p \<Rightarrow> stored_policy ps n = Some p) \<and>
     (\<forall>items. served (listAdmissionPage (rs_Policies c) [] None) '''' items \<longrightarrow> items = map fst ps) \<and>
     (\<forall>items. served (listAdmissionPage (rs_Policies c) [(HasDefaultAssignmentField, ''true'')] None) '''' items \<longrightarrow>
        items = filter assigned (map fst ps))"

definition policies_wf :: "(RBACPolicy \<times> bool) list \<Rightarrow> bool" where
  "policies_wf ps \<longleftrightarrow> distinct (map (policy_Name \<circ> fst) ps) \<and> (\<forall>p \<in> set ps. policy_Name (fst p) \<noteq> '''')"

text \<open>The default policies of a requester, and the references they leave.\<close>

definition default_names :: "(RBACPolicy \<times> bool) list \<Rightarrow> requester \<Rightarrow> string list" where
  "default_names ps req = matchedPolicies (rq_Username req) (rq_Groups req) (map fst ps)"

definition may_reference :: "(RBACPolicy \<times> bool) list \<Rightarrow> requester \<Rightarrow> string \<Rightarrow> bool" where
  "may_reference ps req selectedPolicy \<longleftrightarrow>
     (case default_names ps req of
        [] \<Rightarrow> selectedPolicy = '''' \<or>
          (\<exists>policy. stored_policy ps selectedPolicy = Some (policy, False) \<and> \<not> assigned policy)
      | [name] \<Rightarrow> selectedPolicy = name \<and> (\<exists>policy. stored_policy ps selectedPolicy = Some (policy, False))
      | _ \<Rightarrow> False)"

lemma may_reference_iff:
  "may_reference ps req sel \<longleftrightarrow>
     default_names ps req = [] \<and> (sel = '''' \<or> (\<exists>policy. stored_policy ps sel = Some (policy, False) \<and> \<not> assigned policy)) \<or>
     default_names ps req = [sel] \<and> (\<exists>policy. stored_policy ps sel = Some (policy, False))"
  by (auto simp: may_reference_def split: list.splits)

lemma stored_policy_name: "stored_policy ps n = Some (policy, deleting) \<Longrightarrow>
    policy_Name policy = n \<and> (policy, deleting) \<in> set ps"
  unfolding stored_policy_def by (induction ps) (auto split: if_splits)

text \<open>
  The same without the functions of the webhook: a requester is assigned to a policy by one of its groups or as
  one of its ServiceAccounts.
\<close>

definition assigned_to :: "RBACPolicy \<Rightarrow> requester \<Rightarrow> bool" where
  "assigned_to policy req \<longleftrightarrow>
     (\<exists>da. ps_DefaultAssignment (policy_Spec policy) = Some da \<and>
        ((\<exists>g \<in> set (rq_Groups req). g \<in> set (dpa_Groups da)) \<or>
         (\<exists>sa \<in> set (dpa_ServiceAccounts da).
            rq_Username req = ''system:serviceaccount:'' @ sar_Namespace sa @ '':'' @ sar_Name sa \<and>
            sar_Namespace sa \<noteq> '''' \<and> sar_Name sa \<noteq> '''' \<and>
            CHR '':'' \<notin> set (sar_Namespace sa) \<and> CHR '':'' \<notin> set (sar_Name sa))))"

definition reference_allowed :: "(RBACPolicy \<times> bool) list \<Rightarrow> requester \<Rightarrow> string \<Rightarrow> bool" where
  "reference_allowed ps req selectedPolicy \<longleftrightarrow>
     (let defaults = {policy_Name p | p deleting. (p, deleting) \<in> set ps \<and> assigned_to p req} in
      defaults = {} \<and> (selectedPolicy = '''' \<or>
        (\<exists>p. (p, False) \<in> set ps \<and> policy_Name p = selectedPolicy \<and> ps_DefaultAssignment (policy_Spec p) = None)) \<or>
      defaults = {selectedPolicy} \<and> (\<exists>p. (p, False) \<in> set ps \<and> policy_Name p = selectedPolicy))"

lemma requester_matches_assigned:
  "requesterMatchesDefaultAssignment (ps_DefaultAssignment (policy_Spec p)) (rq_Username req) (rq_Groups req) \<longleftrightarrow>
     assigned_to p req"
  unfolding requester_matches_iff service_account_user_def parse_requester_iff assigned_to_def by blast

lemma default_names_assigned:
  assumes "policies_wf ps"
  shows "set (default_names ps req) = {policy_Name p | p deleting. (p, deleting) \<in> set ps \<and> assigned_to p req}"
    and "distinct (default_names ps req)"
proof -
  show "set (default_names ps req) = {policy_Name p | p deleting. (p, deleting) \<in> set ps \<and> assigned_to p req}"
    by (force simp: default_names_def matchedPolicies_def requester_matches_assigned)
  have "distinct (map policy_Name (map fst ps))" using assms by (simp add: policies_wf_def)
  then show "distinct (default_names ps req)"
    unfolding default_names_def matchedPolicies_def by (simp add: distinct_map_filter del: map_map)
qed

lemma stored_policy_member:
  "policies_wf ps \<Longrightarrow> stored_policy ps n = Some (p, d) \<longleftrightarrow> (p, d) \<in> set ps \<and> policy_Name p = n"
  unfolding policies_wf_def stored_policy_def by (induction ps) (force split: if_splits)+

lemma singleton_list: "distinct xs \<Longrightarrow> xs = [a] \<longleftrightarrow> set xs = {a}"
proof
  assume d: "distinct xs" and s: "set xs = {a}"
  then have "length xs = 1" using distinct_card [OF d] by simp
  with s show "xs = [a]" by (cases xs) auto
qed simp

lemma reference_allowed_iff:
  assumes "policies_wf ps"
  shows "may_reference ps req sel \<longleftrightarrow> reference_allowed ps req sel"
proof -
  have "default_names ps req = [sel] \<longleftrightarrow> set (default_names ps req) = {sel}"
    by (rule singleton_list [OF default_names_assigned(2) [OF assms]])
  moreover have "default_names ps req = [] \<longleftrightarrow> set (default_names ps req) = {}" by simp
  ultimately show ?thesis
    unfolding may_reference_iff reference_allowed_def Let_def default_names_assigned(1) [OF assms, symmetric]
      stored_policy_member [OF assms] assigned_def by auto
qed

text \<open>
  The policies with an assignment can be listed: by the field selector, or, when the API server does not support
  it, all of them.
\<close>

definition policies_listed :: "admission_env \<Rightarrow> readers \<Rightarrow> bool" where
  "policies_listed env c \<longleftrightarrow>
     (\<exists>items. served (listAdmissionPage (rs_Policies c) [(HasDefaultAssignmentField, ''true'')] None) '''' items) \<or>
     (\<exists>err items. listAdmissionPage (rs_Policies c) [(HasDefaultAssignmentField, ''true'')] None '''' = Inl err \<and>
        (Contains (ae_ErrorText env err) ''field label not supported'' \<or> Contains (ae_ErrorText env err) ''no index with name'') \<and>
        served (listAdmissionPage (rs_Policies c) [] None) '''' items)"

lemma policies_listed_resolves:
  assumes "policies_listed env c"
  obtains matched where "resolveDefaultPoliciesForRequester env c u g = Some (Inr matched)"
proof -
  from assms consider
      (index) items where "served (listAdmissionPage (rs_Policies c) [(HasDefaultAssignmentField, ''true'')] None) '''' items"
    | (all) err items where "listAdmissionPage (rs_Policies c) [(HasDefaultAssignmentField, ''true'')] None '''' = Inl err"
        "IsMissingFieldIndexError (Some (ae_ErrorText env err))"
        "served (listAdmissionPage (rs_Policies c) [] None) '''' items"
    by (auto simp: policies_listed_def IsMissingFieldIndexError_def)
  then show thesis
  proof cases
    case index
    then have "\<exists>l. listPoliciesWithDefaultAssignment c True = Some (Inr l)"
      by (simp add: listPoliciesWithDefaultAssignment_def collectPages_served)
    then show ?thesis using that by (auto simp: resolveDefaultPoliciesForRequester_def)
  next
    case all
    then have "listPoliciesWithDefaultAssignment c True = Some (Inl err)"
      "\<exists>l. listPoliciesWithDefaultAssignment c False = Some (Inr l)"
      by (simp_all add: listPoliciesWithDefaultAssignment_def collectPages_served)
        (simp add: collectPages.simps)
    then show ?thesis using that all(2) by (auto simp: resolveDefaultPoliciesForRequester_def)
  qed
qed

lemma matched_filter_assigned:
  "matchedPolicies u g (filter assigned ps) = matchedPolicies u g ps"
proof -
  have "filter (\<lambda>policy. requesterMatchesDefaultAssignment (ps_DefaultAssignment (policy_Spec policy)) u g) (filter assigned ps) =
      filter (\<lambda>policy. requesterMatchesDefaultAssignment (ps_DefaultAssignment (policy_Spec policy)) u g) ps"
    unfolding filter_filter by (rule filter_cong) (auto simp: assigned_def requester_matches_iff)
  then show ?thesis by (simp add: matchedPolicies_def)
qed

lemma concat_filter: "concat (map (\<lambda>x. if P x then [] else [x]) xs) = filter (\<lambda>x. \<not> P x) xs"
  by (induction xs) auto

lemma listed_policies:
  "listPoliciesWithDefaultAssignment c useIndex = Some (Inr policies) \<Longrightarrow> sound_policy_reads c ps \<Longrightarrow>
   policies = filter assigned (map fst ps)"
  unfolding listPoliciesWithDefaultAssignment_def concat_filter
  by (drule collectPages_Inr)
    (auto simp: sound_policy_reads_def concat_filter assigned_def [abs_def] split: if_splits)

lemma resolved_policies:
  assumes "resolveDefaultPoliciesForRequester env c (rq_Username req) (rq_Groups req) = Some (Inr m)"
    and "sound_policy_reads c ps"
  shows "m = default_names ps req"
proof -
  obtain useIndex policies where "listPoliciesWithDefaultAssignment c useIndex = Some (Inr policies)"
      "m = matchedPolicies (rq_Username req) (rq_Groups req) policies"
    using assms(1) by (auto simp: resolveDefaultPoliciesForRequester_def split: option.splits sum.splits if_splits)
  with listed_policies [of c useIndex policies ps] assms(2) show ?thesis by (simp add: default_names_def matched_filter_assigned)
qed

lemma default_matches:
  "(policy, d) \<in> set ps \<Longrightarrow>
   requesterMatchesDefaultAssignment (ps_DefaultAssignment (policy_Spec policy)) (rq_Username req) (rq_Groups req) \<Longrightarrow>
   policy_Name policy \<in> set (default_names ps req)"
  by (force simp: default_names_def matchedPolicies_def)

lemma in_default_names:
  assumes "n \<in> set (default_names ps req)" "distinct (map (policy_Name \<circ> fst) ps)"
    and "stored_policy ps n = Some (policy, d)"
  shows "requesterMatchesDefaultAssignment (ps_DefaultAssignment (policy_Spec policy)) (rq_Username req) (rq_Groups req)"
proof -
  obtain p where p: "p \<in> set ps" "policy_Name (fst p) = n"
      "requesterMatchesDefaultAssignment (ps_DefaultAssignment (policy_Spec (fst p))) (rq_Username req) (rq_Groups req)"
    using assms(1) by (auto simp: default_names_def matchedPolicies_def)
  have "(policy, d) \<in> set ps" "policy_Name policy = n" using stored_policy_name [OF assms(3)] by simp_all
  with p assms(2) have "p = (policy, d)" by (auto simp: distinct_map inj_on_def)
  with p show ?thesis by simp
qed

text \<open>The decision, once everything was read.\<close>

lemma decision_accept:
  "accepts (if a then ensure (Some e1) else if m then ensure None else if h then ensure (Some e2)
     else if n then ensure None else if l then ensure None else ensure (Some e3)) \<longleftrightarrow>
   \<not> a \<and> (m \<or> \<not> h \<and> (n \<or> l))"
  by simp

lemma requester_accept_iff:
  assumes "ae_Request env = Some req"
  shows "accepts (validateDefaultPolicyForRequester env c kind objName sel) \<longleftrightarrow>
    (\<exists>selMatches selHas matched.
       selectedPolicyAssignment c sel (rq_Username req) (rq_Groups req) = Got (selMatches, selHas, False) \<and>
       resolveDefaultPoliciesForRequester env c (rq_Username req) (rq_Groups req) = Some (Inr matched) \<and>
       length matched \<le> 1 \<and> (selMatches \<or> \<not> selHas \<and> (matched = [] \<or> sel \<in> set matched)))"
proof (cases "selectedPolicyAssignment c sel (rq_Username req) (rq_Groups req)")
  case (Got a)
  obtain m h d where a: "a = (m, h, d)" by (cases a) auto
  show ?thesis
  proof (cases d)
    case False
    have "accepts (validateDefaultPolicyForRequester env c kind objName sel) \<longleftrightarrow>
      (\<exists>matched. resolveDefaultPoliciesForRequester env c (rq_Username req) (rq_Groups req) = Some (Inr matched) \<and>
         length matched \<le> 1 \<and> (m \<or> \<not> h \<and> (matched = [] \<or> sel \<in> set matched)))"
      using False
      by (simp add: validateDefaultPolicyForRequester_def assms Got a accepts_andThen onError_accept decision_accept
          list_ex_iff not_less split del: if_split)
    with Got a False show ?thesis by simp
  qed (use Got a in \<open>simp add: validateDefaultPolicyForRequester_def assms\<close>)
qed (simp_all add: validateDefaultPolicyForRequester_def assms)

lemma selected_got:
  assumes "selectedPolicyAssignment c sel u g = Got (m, h, False)" "sound_policy_reads c ps"
  shows "sel = '''' \<and> \<not> m \<and> \<not> h \<or>
    (\<exists>policy. stored_policy ps sel = Some (policy, False) \<and> sel \<noteq> '''' \<and> (h \<longleftrightarrow> assigned policy) \<and>
       (m \<longleftrightarrow> requesterMatchesDefaultAssignment (ps_DefaultAssignment (policy_Spec policy)) u g))"
proof (cases "sel = ''''")
  case False
  then obtain policy where r: "rs_GetPolicy c sel = Got (policy, False)"
      and "(if assigned policy then (requesterMatchesDefaultAssignment (ps_DefaultAssignment (policy_Spec policy)) u g, True)
            else (False, False)) = (m, h)"
    using assms(1) by (auto simp: selectedPolicyAssignment_def assigned_def split: read.splits prod.splits if_splits)
  moreover have "stored_policy ps sel = Some (policy, False)"
  proof -
    have "case rs_GetPolicy c sel of Missing \<Rightarrow> stored_policy ps sel = None | ReadError err \<Rightarrow> True
        | Got p \<Rightarrow> stored_policy ps sel = Some p"
      using assms(2) unfolding sound_policy_reads_def by blast
    then show ?thesis by (simp add: r)
  qed
  ultimately show ?thesis using False by (auto simp: requester_matches_iff assigned_def split: if_splits)
qed (use assms(1) in \<open>auto simp: selectedPolicyAssignment_def\<close>)

lemma accepted_may_reference:
  assumes "sound_policy_reads c ps" "policies_wf ps" "ae_Request env = Some req"
    and "accepts (validateDefaultPolicyForRequester env c kind objName sel)"
  shows "may_reference ps req sel"
proof -
  obtain m h matched where s: "selectedPolicyAssignment c sel (rq_Username req) (rq_Groups req) = Got (m, h, False)"
      and r: "resolveDefaultPoliciesForRequester env c (rq_Username req) (rq_Groups req) = Some (Inr matched)"
      and l: "length matched \<le> 1" and ok: "m \<or> \<not> h \<and> (matched = [] \<or> sel \<in> set matched)"
    using assms(4) unfolding requester_accept_iff [OF assms(3)] by blast
  have d: "default_names ps req = matched" using resolved_policies [OF r assms(1)] by simp
  have nonempty: "'''' \<notin> set matched"
    using assms(2) unfolding d [symmetric] default_names_def matchedPolicies_def policies_wf_def by force
  from selected_got [OF s assms(1)] show ?thesis
  proof
    assume "sel = '''' \<and> \<not> m \<and> \<not> h"
    with ok nonempty d show ?thesis by (auto simp: may_reference_def)
  next
    assume "\<exists>policy. stored_policy ps sel = Some (policy, False) \<and> sel \<noteq> '''' \<and> (h \<longleftrightarrow> assigned policy) \<and>
       (m \<longleftrightarrow> requesterMatchesDefaultAssignment (ps_DefaultAssignment (policy_Spec policy)) (rq_Username req) (rq_Groups req))"
    then obtain policy where p: "stored_policy ps sel = Some (policy, False)" "h \<longleftrightarrow> assigned policy"
        "m \<longleftrightarrow> requesterMatchesDefaultAssignment (ps_DefaultAssignment (policy_Spec policy)) (rq_Username req) (rq_Groups req)"
      by blast
    have "m \<Longrightarrow> sel \<in> set matched"
      using default_matches [of policy False ps req] stored_policy_name [OF p(1)] p(3) d by auto
    with ok l p d show ?thesis
      by (cases matched) (auto simp: may_reference_def split: list.splits)
  qed
qed

lemma may_reference_accepted:
  assumes "sound_policy_reads c ps" "policies_wf ps" "ae_Request env = Some req"
    and "rs_GetPolicy c sel = (case stored_policy ps sel of None \<Rightarrow> Missing | Some p \<Rightarrow> Got p)"
    and "policies_listed env c" and "may_reference ps req sel"
  shows "accepts (validateDefaultPolicyForRequester env c kind objName sel)"
proof -
  obtain matched where r: "resolveDefaultPoliciesForRequester env c (rq_Username req) (rq_Groups req) = Some (Inr matched)"
    using policies_listed_resolves [OF assms(5)] .
  have d: "default_names ps req = matched" using resolved_policies [OF r assms(1)] by simp
  have len: "length matched \<le> 1" using assms(6) unfolding may_reference_iff d by auto
  have "\<exists>m h. selectedPolicyAssignment c sel (rq_Username req) (rq_Groups req) = Got (m, h, False) \<and>
      (m \<or> \<not> h \<and> (matched = [] \<or> sel \<in> set matched))"
  proof (cases "sel = ''''")
    case True
    with assms(6) have "matched = [] \<or> sel \<in> set matched"
      unfolding may_reference_iff d by auto
    with True show ?thesis by (auto simp: selectedPolicyAssignment_def)
  next
    case False
    with assms(6) obtain policy where p: "stored_policy ps sel = Some (policy, False)"
        and n: "matched = [] \<and> \<not> assigned policy \<or> matched = [sel]"
      unfolding may_reference_iff d by blast
    have "matched = [sel] \<Longrightarrow>
        requesterMatchesDefaultAssignment (ps_DefaultAssignment (policy_Spec policy)) (rq_Username req) (rq_Groups req)"
      using in_default_names [of sel ps req policy False] assms(2) p d by (simp add: policies_wf_def)
    with n have ok: "requesterMatchesDefaultAssignment (ps_DefaultAssignment (policy_Spec policy)) (rq_Username req) (rq_Groups req) \<or>
        \<not> assigned policy \<and> matched = []" by blast
    have "rs_GetPolicy c sel = Got (policy, False)" using assms(4) p by simp
    with False have "selectedPolicyAssignment c sel (rq_Username req) (rq_Groups req) = Got
        (requesterMatchesDefaultAssignment (ps_DefaultAssignment (policy_Spec policy)) (rq_Username req) (rq_Groups req),
         assigned policy, False)"
      by (simp add: selectedPolicyAssignment_def assigned_def requesterMatchesDefaultAssignment_def)
    with ok show ?thesis by blast
  qed
  then obtain m h where "selectedPolicyAssignment c sel (rq_Username req) (rq_Groups req) = Got (m, h, False)"
      "m \<or> \<not> h \<and> (matched = [] \<or> sel \<in> set matched)" by blast
  with r len show ?thesis unfolding requester_accept_iff [OF assms(3)] by (intro exI conjI)
qed

section \<open>Returning\<close>

definition policy_lists_end :: "readers \<Rightarrow> bool" where
  "policy_lists_end c \<longleftrightarrow>
     ends (listAdmissionPage (rs_Policies c) [] None) '''' \<and>
     ends (listAdmissionPage (rs_Policies c) [(HasDefaultAssignmentField, ''true'')] None) ''''"

lemma listPolicies_returns [returning]: "policy_lists_end c \<Longrightarrow> returns (listPoliciesWithDefaultAssignment c useIndex)"
  unfolding listPoliciesWithDefaultAssignment_def policy_lists_end_def
  by (cases useIndex) (auto intro: returning)

lemma resolve_returns [returning]: "policy_lists_end c \<Longrightarrow> returns (resolveDefaultPoliciesForRequester env c u g)"
  using listPolicies_returns [of c True] listPolicies_returns [of c False]
  unfolding resolveDefaultPoliciesForRequester_def by (auto simp: returns_def split: option.splits sum.splits if_splits)

lemma requester_returns [returning]:
  assumes "policy_lists_end c"
  shows "returns (validateDefaultPolicyForRequester env c kind objName sel)"
proof (cases "ae_Request env")
  case (Some req)
  have "returns (andThen (onError report (resolveDefaultPoliciesForRequester env c (rq_Username req) (rq_Groups req))) k)"
    if "\<And>x. returns (k x)" for report and k :: "string list \<Rightarrow> unit outcome"
    using that assms by (intro andThen_returns onError_returns resolve_returns)
  then show ?thesis unfolding validateDefaultPolicyForRequester_def Some
    by (simp split: read.split prod.split)
qed (simp add: validateDefaultPolicyForRequester_def)

lemma metadata_returns [returning]:
  "policy_lists_end c \<Longrightarrow> returns (validateDefaultPolicyForMetadataUpdate env c kind type objName sel oldObj newObj)"
  by (simp add: validateDefaultPolicyForMetadataUpdate_def requester_returns)

section \<open>Finalizers\<close>

lemma map_of_stringSet: "mlookup (stringSet xs) x = (if x \<in> set xs then Some () else None)"
proof -
  have "mlookup (fold (\<lambda>v. mput v ()) xs m) x = (if x \<in> set xs then Some () else mlookup m x)" for m
    by (induction xs arbitrary: m) auto
  from this [of "[]"] show ?thesis by (simp add: stringSet_def)
qed

lemma keys_stringSet: "set (map fst (stringSet xs)) = set xs"
  by (simp add: stringSet_def keys_fold_mput)

lemma toggleLoop_Some:
  "toggleLoop xs other target changed = Some b \<longleftrightarrow>
     (\<forall>x \<in> set xs. mlookup other x = None \<longrightarrow> x = target) \<and>
     (b \<longleftrightarrow> changed \<or> target \<in> set xs \<and> mlookup other target = None)"
  by (induction xs arbitrary: changed) auto

text \<open>The finalizer check accepts exactly the changes that add or remove the one finalizer.\<close>

lemma finalizerSetOnlyToggles_iff:
  "finalizerSetOnlyToggles old new target \<longleftrightarrow>
     set old - {target} = set new - {target} \<and> (target \<in> set old \<longleftrightarrow> target \<notin> set new)"
proof -
  have "finalizerSetOnlyToggles old new target \<longleftrightarrow>
      (\<exists>b. toggleLoop (map fst (stringSet old)) (stringSet new) target False = Some b \<and>
        toggleLoop (map fst (stringSet new)) (stringSet old) target b = Some True)"
    by (auto simp: finalizerSetOnlyToggles_def Let_def split: option.splits)
  also have "\<dots> \<longleftrightarrow> set old - {target} = set new - {target} \<and> (target \<in> set old \<longleftrightarrow> target \<notin> set new)"
    unfolding toggleLoop_Some keys_stringSet map_of_stringSet by auto
  finally show ?thesis .
qed

text \<open>
  An update without changes of the specification that needs no assignment keeps labels, annotations and
  owners, and changes finalizers only if the operator toggles its own.
\<close>

lemma metadata_exempt:
  assumes "\<not> metadataUpdateRequiresDefaultPolicy env type oldObj newObj"
  shows "mapsEqual (om_Labels oldObj) (om_Labels newObj)" "mapsEqual (om_Annotations oldObj) (om_Annotations newObj)"
    and "om_OwnerReferences oldObj = om_OwnerReferences newObj"
    and "om_Finalizers oldObj = om_Finalizers newObj \<or>
      (\<exists>f req. managedFinalizerForObject type = Some f \<and> ae_Request env = Some req \<and>
         isAuthOperatorControllerServiceAccount env (rq_Username req) \<and>
         set (om_Finalizers oldObj) - {f} = set (om_Finalizers newObj) - {f})"
  using assms
  by (auto simp: metadataUpdateRequiresDefaultPolicy_def operatorFinalizerUpdateAllowed_def finalizerSetOnlyToggles_iff
      split: if_splits option.splits)

end
