(* ===== verification/Policy_Admission.thy ===== *)
theory Policy_Admission
  imports Default_Policy Bind_Policy
begin

text \<open>
  The validating webhook of RBACPolicies (\<^verbatim>\<open>api/authorization/v1alpha1/rbacpolicy_webhook.go\<close>): the checks of a
  specification, the overlap of default assignments and the references that block a deletion.
\<close>

section \<open>Checks of a specification\<close>

text \<open>The check of an optional label selector, which the source repeats for each field.\<close>

definition selectorErrors :: "selector_api \<Rightarrow> LabelSelector option \<Rightarrow> string \<Rightarrow> fieldError list" where
  "selectorErrors asSelector selp fldPath =
     (case selp of
        None \<Rightarrow> []
      | Some sel \<Rightarrow> (case asSelector sel of
          Inl err \<Rightarrow> [FieldInvalidValue fldPath (VSelector sel) [Lit err]]
        | Inr _ \<Rightarrow> []))"

definition emptyStringErrors :: "string list \<Rightarrow> string \<Rightarrow> fieldError list" where
  "emptyStringErrors values fldPath =
     for_range (\<lambda>i v. if v = '''' then [FieldInvalid (path_idx fldPath i) v [Lit ''must not be empty'']] else []) values"

definition validateRoleRefLimitsSelectors :: "selector_api \<Rightarrow> RoleRefLimits option \<Rightarrow> string \<Rightarrow> fieldError list" where
  "validateRoleRefLimitsSelectors asSelector limitsp fldPath =
     (case limitsp of
        None \<Rightarrow> []
      | Some limits \<Rightarrow>
          selectorErrors asSelector (rrl_AllowedRoleRefSelector limits) (child fldPath ''allowedRoleRefSelector'') @
          selectorErrors asSelector (rrl_ForbiddenRoleRefSelector limits) (child fldPath ''forbiddenRoleRefSelector''))"

definition validateNameMatchLimits :: "NameMatchLimits option \<Rightarrow> string \<Rightarrow> fieldError list" where
  "validateNameMatchLimits limitsp fldPath =
     (case limitsp of
        None \<Rightarrow> []
      | Some limits \<Rightarrow>
          emptyStringErrors (nml_ForbiddenPrefixes limits) (child fldPath ''forbiddenPrefixes'') @
          emptyStringErrors (nml_ForbiddenSuffixes limits) (child fldPath ''forbiddenSuffixes'') @
          emptyStringErrors (nml_AllowedPrefixes limits) (child fldPath ''allowedPrefixes'') @
          emptyStringErrors (nml_AllowedSuffixes limits) (child fldPath ''allowedSuffixes''))"

definition validSubjectKinds :: "string list" where
  "validSubjectKinds = [UserKind, GroupKind, ServiceAccountKind]"

definition validateSubjectKinds :: "string list \<Rightarrow> string \<Rightarrow> fieldError list" where
  "validateSubjectKinds kinds fldPath =
     for_range (\<lambda>i kind. if list_ex (\<lambda>vk. kind = vk) validSubjectKinds then []
       else [FieldNotSupported (path_idx fldPath i) kind validSubjectKinds]) kinds"

definition validateDefaultAssignment :: "DefaultPolicyAssignment option \<Rightarrow> string \<Rightarrow> fieldError list" where
  "validateDefaultAssignment dap fldPath =
     (case dap of
        None \<Rightarrow> []
      | Some da \<Rightarrow>
          (if dpa_Groups da = [] \<and> dpa_ServiceAccounts da = []
           then [FieldInvalidValue fldPath (VAssignment da) [Lit ''must define at least one group or serviceAccount'']]
           else []) @
          for_range (\<lambda>i g. if g = ''''
            then [FieldInvalid (path_idx (child fldPath ''groups'') i) g [Lit ''must not be empty'']] else []) (dpa_Groups da) @
          for_range (\<lambda>i sa.
            (if sar_Name sa = ''''
             then [FieldRequired (child (path_idx (child fldPath ''serviceAccounts'') i) ''name'') [Lit ''name is required'']]
             else []) @
            (if sar_Namespace sa = ''''
             then [FieldRequired (child (path_idx (child fldPath ''serviceAccounts'') i) ''namespace'')
                     [Lit ''namespace is required for default policy serviceAccount matching'']]
             else [])) (dpa_ServiceAccounts da))"

definition validateConstrainedImpersonationLimits ::
  "ConstrainedImpersonationLimits option \<Rightarrow> string \<Rightarrow> fieldError list" where
  "validateConstrainedImpersonationLimits limitsp fldPath =
     (case limitsp of
        None \<Rightarrow> []
      | Some limits \<Rightarrow>
          for_range (\<lambda>i mode. if mode \<notin> set AllImpersonationModes
            then [FieldNotSupported (path_idx (child fldPath ''allowedModes'') i) mode AllImpersonationModes] else [])
            (cil_AllowedModes limits) @
          for_range (\<lambda>i resource. if resource \<notin> set AllImpersonationIdentityResources
            then [FieldNotSupported (path_idx (child fldPath ''allowedIdentityResources'') i) resource
                    AllImpersonationIdentityResources] else [])
            (cil_AllowedIdentityResources limits) @
          validateNameMatchLimits (cil_IdentityNameLimits limits) (child fldPath ''identityNameLimits'') @
          for_range (\<lambda>i verb. if IsImpersonationVerb verb
            then [FieldInvalid (path_idx (child fldPath ''forbiddenActionVerbs'') i) verb
                    [Lit ''must be the bare underlying verb (e.g. \"delete\"), not the impersonate-on:<mode>: encoded form'']]
            else []) (cil_ForbiddenActionVerbs limits) @
          (if \<not> cil_Allowed limits \<and> (cil_AllowedModes limits \<noteq> [] \<or> cil_AllowedIdentityResources limits \<noteq> [])
           then [FieldInvalidValue (child fldPath ''allowed'') (VBool (cil_Allowed limits))
                   [Lit ''allowedModes and allowedIdentityResources have no effect while allowed is false; set allowed=true to permit constrained impersonation'']]
           else []))"

section \<open>Checks of the impersonated identity\<close>

definition trapDetail :: msg where
  "trapDetail = [Lit ''combining it with serviceAccountRef makes the API server skip the 'serviceaccount' constrained-impersonation mode (which requires that only the username is set) and silently fall back to legacy impersonation, bypassing every constrained-impersonation restriction'']"

definition validateImpersonationExclusivity :: "ImpersonationConfig \<Rightarrow> string \<Rightarrow> fieldError list" where
  "validateImpersonationExclusivity ic fldPath =
     (case ic_ServiceAccountRef ic of
        None \<Rightarrow> []
      | Some _ \<Rightarrow>
          (if ic_UserName ic \<noteq> ''''
           then [FieldForbidden (child fldPath ''userName'') [Lit ''userName and serviceAccountRef are mutually exclusive'']]
           else []) @
          (if ic_UID ic \<noteq> '''' then [FieldForbidden (child fldPath ''uid'') trapDetail] else []) @
          (if ic_Groups ic \<noteq> [] then [FieldForbidden (child fldPath ''groups'') trapDetail] else []) @
          (if ic_Extra ic \<noteq> [] then [FieldForbidden (child fldPath ''extra'') trapDetail] else []))"

definition validateImpersonationIdentityFields :: "ImpersonationConfig \<Rightarrow> string \<Rightarrow> fieldError list" where
  "validateImpersonationIdentityFields ic fldPath =
     (if ic_UserName ic = '''' \<and> ic_ServiceAccountRef ic = None then
        (if ic_UID ic \<noteq> ''''
         then [FieldRequired (child fldPath ''userName'') [Lit ''userName is required when uid is set'']] else []) @
        (if ic_Groups ic \<noteq> []
         then [FieldRequired (child fldPath ''userName'') [Lit ''userName is required when groups are set'']] else []) @
        (if ic_Extra ic \<noteq> []
         then [FieldRequired (child fldPath ''userName'') [Lit ''userName is required when extra is set'']] else [])
      else []) @
     (if HasPrefix (ic_UserName ic) NodeUsernamePrefix
      then [FieldForbidden (child fldPath ''userName'')
              [Lit ''node usernames ('', Lit NodeUsernamePrefix,
               Lit ''...) are not supported as an apply identity: the API server forces the impersonated groups to ['',
               Lit NodesGroup, Lit ''], which cannot write RBAC objects'']]
      else []) @
     (if HasPrefix (ic_UserName ic) ServiceAccountUsernamePrefix
      then [FieldInvalid (child fldPath ''userName'') (ic_UserName ic)
              [Lit ''use serviceAccountRef for ServiceAccount identities so the username is rendered consistently'']]
      else []) @
     for_range (\<lambda>i group.
       (if group = SystemMastersGroup
        then [FieldForbidden (path_idx (child fldPath ''groups'') i)
                [Lit ''impersonating the '', Quo SystemMastersGroup,
                 Lit '' group is not allowed by constrained impersonation'']]
        else []) @
       (if group = ''''
        then [FieldInvalid (path_idx (child fldPath ''groups'') i) group
                [Lit ''impersonating the empty string group is not allowed'']]
        else [])) (ic_Groups ic)"

text \<open>The loop over the extra entries carries the map of the keys it has seen, with their index.\<close>

fun validateImpersonationExtra_loop ::
  "(string \<Rightarrow> string \<Rightarrow> fieldError list) \<Rightarrow> string \<Rightarrow> nat \<Rightarrow> (string, nat) gomap \<Rightarrow> ImpersonationExtra list \<Rightarrow> fieldError list" where
  "validateImpersonationExtra_loop idpp fldPath i seen [] = []"
| "validateImpersonationExtra_loop idpp fldPath i seen (entry # rest) =
     (let entryPath = path_idx fldPath i; keyPath = child entryPath ''key'' in
      (case mlookup seen (ie_Key entry) of
         Some prev \<Rightarrow> [FieldDuplicate keyPath
           (VText [Quo (ie_Key entry), Lit '' is already used at extra['', Dec (int prev), Lit '']''])]
       | None \<Rightarrow> []) @
      (if ie_Key entry = ''''
       then [FieldRequired keyPath [Lit ''impersonating the empty string key in extra is not allowed'']]
       else if ie_Key entry \<noteq> ToLower (ie_Key entry)
       then [FieldInvalid keyPath (ie_Key entry) [Lit ''impersonating a non-lowercase key in extra is not allowed'']]
       else idpp keyPath (ie_Key entry)) @
      (if ie_Values entry = []
       then [FieldRequired (child entryPath ''values'') [Lit ''impersonating empty values in extra is not allowed'']]
       else []) @
      for_range (\<lambda>j value. if value = ''''
        then [FieldInvalid (path_idx (child entryPath ''values'') j) value
                [Lit ''impersonating the empty string value in extra is not allowed'']]
        else []) (ie_Values entry) @
      validateImpersonationExtra_loop idpp fldPath (Suc i) (mput (ie_Key entry) i seen) rest)"

definition validateImpersonationExtra ::
  "(string \<Rightarrow> string \<Rightarrow> fieldError list) \<Rightarrow> ImpersonationExtra list \<Rightarrow> string \<Rightarrow> fieldError list" where
  "validateImpersonationExtra idpp extra fldPath = validateImpersonationExtra_loop idpp fldPath 0 [] extra"

definition validateImpersonationDeclaredMode :: "ImpersonationConfig \<Rightarrow> string \<Rightarrow> fieldError list" where
  "validateImpersonationDeclaredMode ic fldPath =
     (if ic_Mode ic = '''' then []
      else
        let selected = SelectedMode (Some ic) in
        if selected = ic_Mode ic then []
        else if selected = '''' then
          [FieldInvalid (child fldPath ''mode'') (ic_Mode ic)
             [Lit ''the configured identity does not select any constrained-impersonation mode and would fall back to legacy impersonation; remove the conflicting uid/groups/extra fields or clear mode'']]
        else
          [FieldInvalid (child fldPath ''mode'') (ic_Mode ic)
             [Lit ''the configured identity selects mode '', Quo selected, Lit '', not '', Quo (ic_Mode ic),
              Lit ''; the API server derives the mode from the username and header set and it cannot be chosen by the client'']])"

definition validateImpersonationConfig ::
  "(string \<Rightarrow> string \<Rightarrow> fieldError list) \<Rightarrow> ImpersonationConfig option \<Rightarrow> string \<Rightarrow> fieldError list" where
  "validateImpersonationConfig idpp icp fldPath =
     (case icp of
        None \<Rightarrow> []
      | Some ic \<Rightarrow>
          let structural = validateImpersonationExclusivity ic fldPath @ validateImpersonationIdentityFields ic fldPath @
                validateImpersonationExtra idpp (ic_Extra ic) (child fldPath ''extra'') in
          if \<not> ic_Enabled ic then structural
          else if ic_ServiceAccountRef ic = None \<and> ic_UserName ic = '''' then
            structural @ [FieldRequired (child fldPath ''serviceAccountRef'')
              [Lit ''exactly one of serviceAccountRef or userName is required when impersonation.enabled is true'']]
          else
            structural @
            (case ic_ServiceAccountRef ic of
               None \<Rightarrow> []
             | Some ref \<Rightarrow>
                 (if sar_Name ref = ''''
                  then [FieldRequired (child (child fldPath ''serviceAccountRef'') ''name'')
                          [Lit ''name is required when impersonation is enabled'']] else []) @
                 (if sar_Namespace ref = ''''
                  then [FieldRequired (child (child fldPath ''serviceAccountRef'') ''namespace'')
                          [Lit ''namespace is required when impersonation is enabled'']] else [])) @
            validateImpersonationDeclaredMode ic fldPath)"

section \<open>The specification\<close>

definition validateBindingLimits :: "selector_api \<Rightarrow> BindingLimits \<Rightarrow> fieldError list" where
  "validateBindingLimits asSelector bl =
     validateRoleRefLimitsSelectors asSelector (bl_ClusterRoleBindingLimits bl) ''spec.bindingLimits.clusterRoleBindingLimits'' @
     validateRoleRefLimitsSelectors asSelector (bl_RoleBindingLimits bl) ''spec.bindingLimits.roleBindingLimits'' @
     (case bl_TargetNamespaceLimits bl of
        None \<Rightarrow> []
      | Some tnl \<Rightarrow>
          selectorErrors asSelector (nl_AllowedNamespaceSelector tnl) ''spec.bindingLimits.targetNamespaceLimits.allowedNamespaceSelector'' @
          emptyStringErrors (nl_ForbiddenNamespacePrefixes tnl) ''spec.bindingLimits.targetNamespaceLimits.forbiddenNamespacePrefixes'')"

definition validateSubjectLimits :: "selector_api \<Rightarrow> SubjectLimits \<Rightarrow> fieldError list" where
  "validateSubjectLimits asSelector sl =
     validateNameMatchLimits (sl_UserLimits sl) ''spec.subjectLimits.userLimits'' @
     validateNameMatchLimits (sl_GroupLimits sl) ''spec.subjectLimits.groupLimits'' @
     (case sl_ServiceAccountLimits sl of
        None \<Rightarrow> []
      | Some sal \<Rightarrow>
          selectorErrors asSelector (sal_AllowedNamespaceSelector sal) ''spec.subjectLimits.serviceAccountLimits.allowedNamespaceSelector'' @
          emptyStringErrors (sal_ForbiddenNamespacePrefixes sal) ''spec.subjectLimits.serviceAccountLimits.forbiddenNamespacePrefixes'' @
          (case sal_Creation sal of
             None \<Rightarrow> []
           | Some creation \<Rightarrow> selectorErrors asSelector (sac_AllowedCreationNamespaceSelector creation)
               ''spec.subjectLimits.serviceAccountLimits.creation.allowedCreationNamespaceSelector'')) @
     validateSubjectKinds (sl_AllowedKinds sl) ''spec.subjectLimits.allowedKinds'' @
     validateSubjectKinds (sl_ForbiddenKinds sl) ''spec.subjectLimits.forbiddenKinds''"

definition rbacPolicySpecErrors :: "admission_env \<Rightarrow> RBACPolicy \<Rightarrow> fieldError list" where
  "rbacPolicySpecErrors env obj =
     (let spec = policy_Spec obj; asSelector = ae_AsSelector env in
      (if scope_NamespaceSelector (ps_AppliesTo spec) = None \<and> scope_Namespaces (ps_AppliesTo spec) = []
       then [FieldRequired ''spec.appliesTo'' [Lit ''appliesTo must specify at least namespaceSelector or namespaces'']]
       else []) @
      selectorErrors asSelector (scope_NamespaceSelector (ps_AppliesTo spec)) ''spec.appliesTo.namespaceSelector'' @
      (case ps_BindingLimits spec of None \<Rightarrow> [] | Some bl \<Rightarrow> validateBindingLimits asSelector bl) @
      (case ps_SubjectLimits spec of None \<Rightarrow> [] | Some sl \<Rightarrow> validateSubjectLimits asSelector sl) @
      (case ps_RoleLimits spec of
         None \<Rightarrow> []
       | Some rl \<Rightarrow> validateConstrainedImpersonationLimits (rl_ConstrainedImpersonation rl)
           ''spec.roleLimits.constrainedImpersonation'') @
      validateDefaultAssignment (ps_DefaultAssignment spec) ''spec.defaultAssignment'' @
      validateImpersonationConfig (ae_IsDomainPrefixedPath env) (ps_Impersonation spec) ''spec.impersonation'')"

definition validateRBACPolicySpec :: "admission_env \<Rightarrow> RBACPolicy \<Rightarrow> admission_error option" where
  "validateRBACPolicySpec env obj = invalidUnlessEmpty ''RBACPolicy'' (policy_Name obj) (rbacPolicySpecErrors env obj)"

section \<open>The handlers\<close>

definition defaultAssignmentOverlapErrors ::
  "DefaultPolicyAssignment \<Rightarrow> string \<Rightarrow> DefaultPolicyAssignment \<Rightarrow> string \<Rightarrow> fieldError list" where
  "defaultAssignmentOverlapErrors current existingPolicy existing fldPath =
     (let existingGroups = stringSet (dpa_Groups existing);
          existingServiceAccounts = fold (\<lambda>sa. mput sa ()) (dpa_ServiceAccounts existing) [] in
      for_range (\<lambda>i group. if mlookup existingGroups group \<noteq> None
        then [FieldInvalid (path_idx (child fldPath ''groups'') i) group
                [Lit ''group already assigned to default policy '', Quo existingPolicy]] else []) (dpa_Groups current) @
      for_range (\<lambda>i sa. if mlookup existingServiceAccounts sa \<noteq> None
        then [FieldInvalidValue (path_idx (child fldPath ''serviceAccounts'') i) (VServiceAccount sa)
                [Lit ''serviceAccount already assigned to default policy '', Quo existingPolicy]] else [])
        (dpa_ServiceAccounts current))"

definition validateDefaultAssignmentDoesNotOverlap :: "admission_env \<Rightarrow> RBACPolicy \<Rightarrow> unit outcome" where
  "validateDefaultAssignmentDoesNotOverlap env obj =
     (case ps_DefaultAssignment (policy_Spec obj) of
        None \<Rightarrow> ensure None
      | Some current \<Rightarrow>
          andThen
            (onError (\<lambda>err. InternalError [Lit ''unable to validate default policy assignments''])
               (collectPages (\<lambda>existing.
                  if policy_Name existing = policy_Name obj then []
                  else (case ps_DefaultAssignment (policy_Spec existing) of
                     None \<Rightarrow> []
                   | Some other \<Rightarrow> defaultAssignmentOverlapErrors current (policy_Name existing) other ''spec.defaultAssignment''))
                  (listAdmissionPage (rs_Policies (defaultPolicyReader env)) [] None) '''' []))
            (\<lambda>allErrs. ensure (invalidUnlessEmpty ''RBACPolicy'' (policy_Name obj) allErrs)))"

definition policyValidateCreate :: "admission_env \<Rightarrow> RBACPolicy \<Rightarrow> msg list outcome" where
  "policyValidateCreate env obj =
     andThen (ensure (validateRBACPolicySpec env obj)) (\<lambda>_.
     andThen (validateDefaultAssignmentDoesNotOverlap env obj) (\<lambda>_.
     Some (Inr [])))"

definition policyValidateUpdate :: "admission_env \<Rightarrow> RBACPolicy \<Rightarrow> RBACPolicy \<Rightarrow> msg list outcome" where
  "policyValidateUpdate env oldObj newObj =
     andThen (ensure (validateRBACPolicySpec env newObj)) (\<lambda>_.
     andThen (validateDefaultAssignmentDoesNotOverlap env newObj) (\<lambda>_.
     Some (Inr [])))"

definition policyHasRestrictedBindDefinitionReference :: "readers \<Rightarrow> string \<Rightarrow> (go_error + bool) option" where
  "policyHasRestrictedBindDefinitionReference reader policyName =
     map_option (map_sum id (\<lambda>found. found \<noteq> None))
       (scanPages (\<lambda>rbd. if rbds_PolicyRef (rbd_Spec rbd) = policyName then Some () else None)
          (listAdmissionPage (rs_RestrictedBindDefinitions reader) [] None) '''')"

definition policyHasRestrictedRoleDefinitionReference :: "readers \<Rightarrow> string \<Rightarrow> (go_error + bool) option" where
  "policyHasRestrictedRoleDefinitionReference reader policyName =
     map_option (map_sum id (\<lambda>found. found \<noteq> None))
       (scanPages (\<lambda>rrd. if rrds_PolicyRef (rrd_Spec rrd) = policyName then Some () else None)
          (listAdmissionPage (rs_RestrictedRoleDefinitions reader) [] None) '''')"

definition policyValidateDelete :: "admission_env \<Rightarrow> RBACPolicy \<Rightarrow> msg list outcome" where
  "policyValidateDelete env obj =
     (let reader = defaultPolicyReader env in
      andThen (onError (\<lambda>err. InternalError [Lit ''unable to list RestrictedBindDefinitions''])
        (policyHasRestrictedBindDefinitionReference reader (policy_Name obj))) (\<lambda>hasRBDReference.
      if hasRBDReference then Some (Inl (Forbidden ''rbacpolicies'' (policy_Name obj)
        (Because [Lit ''cannot delete: RestrictedBindDefinition(s) still reference this policy''])))
      else
        andThen (onError (\<lambda>err. InternalError [Lit ''unable to list RestrictedRoleDefinitions''])
          (policyHasRestrictedRoleDefinitionReference reader (policy_Name obj))) (\<lambda>hasRRDReference.
        if hasRRDReference then Some (Inl (Forbidden ''rbacpolicies'' (policy_Name obj)
          (Because [Lit ''cannot delete: RestrictedRoleDefinition(s) still reference this policy''])))
        else Some (Inr []))))"

section \<open>What the checks decide\<close>

lemma emptyStringErrors_ok [checks]: "emptyStringErrors values fldPath = [] \<longleftrightarrow> '''' \<notin> set values"
  unfolding emptyStringErrors_def by (subst for_range_ok [where P = "\<lambda>v. v \<noteq> ''''"]) auto

lemma selectorErrors_ok [checks]:
  "selectorErrors asSelector selp fldPath = [] \<longleftrightarrow> (\<forall>sel. selp = Some sel \<longrightarrow> (\<exists>m. asSelector sel = Inr m))"
  by (auto simp: selectorErrors_def split: option.splits sum.splits)

text \<open>No prefix or suffix of accepted name limits matches every name.\<close>

definition name_limits_ok :: "NameMatchLimits option \<Rightarrow> bool" where
  "name_limits_ok limitsp \<longleftrightarrow> (\<forall>limits. limitsp = Some limits \<longrightarrow>
     '''' \<notin> set (nml_ForbiddenPrefixes limits) \<union> set (nml_ForbiddenSuffixes limits) \<union>
       set (nml_AllowedPrefixes limits) \<union> set (nml_AllowedSuffixes limits))"

lemma validateNameMatchLimits_ok [checks]: "validateNameMatchLimits limitsp fldPath = [] \<longleftrightarrow> name_limits_ok limitsp"
  by (auto simp: validateNameMatchLimits_def name_limits_ok_def checks split: option.splits)

definition assignment_ok :: "DefaultPolicyAssignment option \<Rightarrow> bool" where
  "assignment_ok dap \<longleftrightarrow> (\<forall>da. dap = Some da \<longrightarrow>
     (dpa_Groups da \<noteq> [] \<or> dpa_ServiceAccounts da \<noteq> []) \<and> '''' \<notin> set (dpa_Groups da) \<and>
     (\<forall>sa \<in> set (dpa_ServiceAccounts da). sar_Name sa \<noteq> '''' \<and> sar_Namespace sa \<noteq> ''''))"

lemma validateDefaultAssignment_ok [checks]: "validateDefaultAssignment dap fldPath = [] \<longleftrightarrow> assignment_ok dap"
proof (cases dap)
  case (Some da)
  have "for_range (\<lambda>i g. if g = '''' then [FieldInvalid (path_idx (child fldPath ''groups'') i) g [Lit ''must not be empty'']] else [])
      (dpa_Groups da) = [] \<longleftrightarrow> '''' \<notin> set (dpa_Groups da)"
    by (subst for_range_ok [where P = "\<lambda>g. g \<noteq> ''''"]) auto
  moreover have "for_range (\<lambda>i sa.
        (if sar_Name sa = '''' then [FieldRequired (child (path_idx (child fldPath ''serviceAccounts'') i) ''name'') [Lit ''name is required'']] else []) @
        (if sar_Namespace sa = '''' then [FieldRequired (child (path_idx (child fldPath ''serviceAccounts'') i) ''namespace'')
           [Lit ''namespace is required for default policy serviceAccount matching'']] else [])) (dpa_ServiceAccounts da) = [] \<longleftrightarrow>
      (\<forall>sa \<in> set (dpa_ServiceAccounts da). sar_Name sa \<noteq> '''' \<and> sar_Namespace sa \<noteq> '''')"
    by (rule for_range_ok) auto
  ultimately show ?thesis by (auto simp: Some validateDefaultAssignment_def assignment_ok_def)
qed (simp add: validateDefaultAssignment_def assignment_ok_def)

lemma overlap_ok:
  "defaultAssignmentOverlapErrors current existingPolicy existing fldPath = [] \<longleftrightarrow>
     set (dpa_Groups current) \<inter> set (dpa_Groups existing) = {} \<and>
     set (dpa_ServiceAccounts current) \<inter> set (dpa_ServiceAccounts existing) = {}"
proof -
  have sas: "mlookup (fold (\<lambda>sa. mput sa ()) xs []) sa \<noteq> None \<longleftrightarrow> sa \<in> set xs" for sa :: SARef and xs
    using keys_fold_mput [of "()" xs "[]"] by (auto simp: map_of_eq_None_iff)
  have gs: "mlookup (stringSet xs) g \<noteq> None \<longleftrightarrow> g \<in> set xs" for g xs by (simp add: map_of_stringSet)
  have "for_range (\<lambda>i group. if group \<in> set (dpa_Groups existing)
        then [FieldInvalid (path_idx (child fldPath ''groups'') i) group
                [Lit ''group already assigned to default policy '', Quo existingPolicy]] else []) (dpa_Groups current) = [] \<longleftrightarrow>
      (\<forall>g \<in> set (dpa_Groups current). g \<notin> set (dpa_Groups existing))"
    by (rule for_range_ok) auto
  moreover have "for_range (\<lambda>i sa. if sa \<in> set (dpa_ServiceAccounts existing)
        then [FieldInvalidValue (path_idx (child fldPath ''serviceAccounts'') i) (VServiceAccount sa)
                [Lit ''serviceAccount already assigned to default policy '', Quo existingPolicy]] else [])
        (dpa_ServiceAccounts current) = [] \<longleftrightarrow>
      (\<forall>sa \<in> set (dpa_ServiceAccounts current). sa \<notin> set (dpa_ServiceAccounts existing))"
    by (rule for_range_ok) auto
  ultimately show ?thesis
    unfolding defaultAssignmentOverlapErrors_def Let_def sas gs append_is_Nil_conv by blast
qed

text \<open>Two policies overlap when a requester may be assigned to both.\<close>

definition overlap :: "RBACPolicy \<Rightarrow> RBACPolicy \<Rightarrow> bool" where
  "overlap p q \<longleftrightarrow> (\<exists>da db. ps_DefaultAssignment (policy_Spec p) = Some da \<and> ps_DefaultAssignment (policy_Spec q) = Some db \<and>
     (set (dpa_Groups da) \<inter> set (dpa_Groups db) \<noteq> {} \<or> set (dpa_ServiceAccounts da) \<inter> set (dpa_ServiceAccounts db) \<noteq> {}))"

lemma overlap_commute: "overlap p q \<longleftrightarrow> overlap q p"
  by (auto simp: overlap_def)

lemma overlap_errors_ok:
  assumes "ps_DefaultAssignment (policy_Spec obj) = Some current"
  shows "(if policy_Name existing = policy_Name obj then []
      else (case ps_DefaultAssignment (policy_Spec existing) of
         None \<Rightarrow> []
       | Some other \<Rightarrow> defaultAssignmentOverlapErrors current (policy_Name existing) other ''spec.defaultAssignment'')) = [] \<longleftrightarrow>
    (policy_Name existing \<noteq> policy_Name obj \<longrightarrow> \<not> overlap obj existing)"
  by (auto simp: assms overlap_def overlap_ok split: option.splits)

lemma no_overlap_accepted:
  assumes "accepts (validateDefaultAssignmentDoesNotOverlap env obj)"
  shows "ps_DefaultAssignment (policy_Spec obj) = None \<or>
    (\<exists>items. served (listAdmissionPage (rs_Policies (defaultPolicyReader env)) [] None) '''' items \<and>
       (\<forall>existing \<in> set items. policy_Name existing \<noteq> policy_Name obj \<longrightarrow> \<not> overlap obj existing))"
proof (cases "ps_DefaultAssignment (policy_Spec obj)")
  case (Some current)
  from assms obtain errs where "errs = []" and c: "collectPages (\<lambda>existing.
        if policy_Name existing = policy_Name obj then []
        else (case ps_DefaultAssignment (policy_Spec existing) of
           None \<Rightarrow> []
         | Some other \<Rightarrow> defaultAssignmentOverlapErrors current (policy_Name existing) other ''spec.defaultAssignment''))
        (listAdmissionPage (rs_Policies (defaultPolicyReader env)) [] None) '''' [] = Some (Inr errs)"
    by (auto simp: validateDefaultAssignmentDoesNotOverlap_def Some accepts_andThen onError_accept)
  from collectPages_Inr [OF c] \<open>errs = []\<close> show ?thesis
    by (simp add: eq_commute [of "[]"] del: concat_eq_Nil_conv) (simp only: concat_map_empty overlap_errors_ok [OF Some], blast)
qed simp

lemma no_overlap_accepts:
  assumes "served (listAdmissionPage (rs_Policies (defaultPolicyReader env)) [] None) '''' items"
    and "\<forall>existing \<in> set items. policy_Name existing \<noteq> policy_Name obj \<longrightarrow> \<not> overlap obj existing"
  shows "accepts (validateDefaultAssignmentDoesNotOverlap env obj)"
proof (cases "ps_DefaultAssignment (policy_Spec obj)")
  case (Some current)
  have "concat (map (\<lambda>existing. if policy_Name existing = policy_Name obj then []
      else (case ps_DefaultAssignment (policy_Spec existing) of
         None \<Rightarrow> []
       | Some other \<Rightarrow> defaultAssignmentOverlapErrors current (policy_Name existing) other ''spec.defaultAssignment'')) items) = []"
    using assms(2) unfolding concat_map_empty overlap_errors_ok [OF Some] by blast
  then show ?thesis
    by (simp add: validateDefaultAssignmentDoesNotOverlap_def Some collectPages_served [OF assms(1)] onError_def
        invalidUnlessEmpty_def del: concat_eq_Nil_conv)
qed (simp add: validateDefaultAssignmentDoesNotOverlap_def)

section \<open>Deletion\<close>

lemma deletable:
  assumes "accepts (policyValidateDelete env obj)"
  shows "\<exists>rbds. served (listAdmissionPage (rs_RestrictedBindDefinitions (defaultPolicyReader env)) [] None) '''' rbds \<and>
      (\<forall>rbd \<in> set rbds. rbds_PolicyRef (rbd_Spec rbd) \<noteq> policy_Name obj)"
    and "\<exists>rrds. served (listAdmissionPage (rs_RestrictedRoleDefinitions (defaultPolicyReader env)) [] None) '''' rrds \<and>
      (\<forall>rrd \<in> set rrds. rrds_PolicyRef (rrd_Spec rrd) \<noteq> policy_Name obj)"
proof -
  have "policyHasRestrictedBindDefinitionReference (defaultPolicyReader env) (policy_Name obj) = Some (Inr False)"
      "policyHasRestrictedRoleDefinitionReference (defaultPolicyReader env) (policy_Name obj) = Some (Inr False)"
    using assms by (auto simp: policyValidateDelete_def Let_def accepts_andThen onError_accept split: if_splits)
  then show "\<exists>rbds. served (listAdmissionPage (rs_RestrictedBindDefinitions (defaultPolicyReader env)) [] None) '''' rbds \<and>
      (\<forall>rbd \<in> set rbds. rbds_PolicyRef (rbd_Spec rbd) \<noteq> policy_Name obj)"
    and "\<exists>rrds. served (listAdmissionPage (rs_RestrictedRoleDefinitions (defaultPolicyReader env)) [] None) '''' rrds \<and>
      (\<forall>rrd \<in> set rrds. rrds_PolicyRef (rrd_Spec rrd) \<noteq> policy_Name obj)"
    unfolding policyHasRestrictedBindDefinitionReference_def policyHasRestrictedRoleDefinitionReference_def found_False
    by - (erule scanPages_if_None, erule scanPages_if_None)
qed

section \<open>The identity of an accepted policy\<close>

lemma accepted_config:
  "accepts (policyValidateCreate env p) \<or> accepts (policyValidateUpdate env old p) \<Longrightarrow>
   validateImpersonationConfig (ae_IsDomainPrefixedPath env) (ps_Impersonation (policy_Spec p)) ''spec.impersonation'' = []"
  by (auto simp: policyValidateCreate_def policyValidateUpdate_def accepts_then validateRBACPolicySpec_def
      rbacPolicySpecErrors_def Let_def)

lemma config_structure:
  assumes "validateImpersonationConfig idpp (Some ic) fldPath = []"
  shows "validateImpersonationExclusivity ic fldPath = []" "validateImpersonationIdentityFields ic fldPath = []"
    and "ic_Enabled ic \<Longrightarrow> ic_ServiceAccountRef ic = None \<Longrightarrow> ic_UserName ic \<noteq> ''''"
    and "ic_Enabled ic \<Longrightarrow> ic_ServiceAccountRef ic = Some ref \<Longrightarrow> sar_Name ref \<noteq> '''' \<and> sar_Namespace ref \<noteq> ''''"
    and "ic_Enabled ic \<Longrightarrow> validateImpersonationDeclaredMode ic fldPath = []"
  using assms by (auto simp: validateImpersonationConfig_def Let_def split: if_splits option.splits)

lemma exclusive_reference:
  "validateImpersonationExclusivity ic fldPath = [] \<Longrightarrow> ic_ServiceAccountRef ic = Some ref \<Longrightarrow>
   ic_UserName ic = '''' \<and> ic_UID ic = '''' \<and> ic_Groups ic = [] \<and> ic_Extra ic = []"
  by (auto simp: validateImpersonationExclusivity_def split: if_splits)

lemma plain_user_name:
  assumes "validateImpersonationIdentityFields ic fldPath = []"
  shows "\<not> isReservedUsername (ic_UserName ic)" "SystemMastersGroup \<notin> set (ic_Groups ic)" "'''' \<notin> set (ic_Groups ic)"
proof -
  have names: "\<not> HasPrefix (ic_UserName ic) NodeUsernamePrefix" "\<not> HasPrefix (ic_UserName ic) ServiceAccountUsernamePrefix"
    and groups: "for_range (\<lambda>i group.
       (if group = SystemMastersGroup
        then [FieldForbidden (path_idx (child fldPath ''groups'') i)
                [Lit ''impersonating the '', Quo SystemMastersGroup,
                 Lit '' group is not allowed by constrained impersonation'']]
        else []) @
       (if group = ''''
        then [FieldInvalid (path_idx (child fldPath ''groups'') i) group
                [Lit ''impersonating the empty string group is not allowed'']]
        else [])) (ic_Groups ic) = []"
    using assms by (auto simp: validateImpersonationIdentityFields_def split: if_splits)
  from names show "\<not> isReservedUsername (ic_UserName ic)" by (simp add: isReservedUsername_def)
  have "\<forall>g \<in> set (ic_Groups ic). g \<noteq> SystemMastersGroup \<and> g \<noteq> ''''"
    using groups by (subst (asm) for_range_ok [where P = "\<lambda>g. g \<noteq> SystemMastersGroup \<and> g \<noteq> ''''"]) auto
  then show "SystemMastersGroup \<notin> set (ic_Groups ic)" "'''' \<notin> set (ic_Groups ic)" by auto
qed

lemma service_account_mode:
  assumes "ic_ServiceAccountRef ic = Some ref" "sar_Name ref \<noteq> ''''" "sar_Namespace ref \<noteq> ''''"
    and "ic_UID ic = ''''" "ic_Groups ic = []" "ic_Extra ic = []"
  shows "SelectedMode (Some ic) = ImpersonationModeServiceAccount"
proof -
  have "EffectiveUsername (Some ic) = ServiceAccountUsernamePrefix @ sar_Namespace ref @ '':'' @ sar_Name ref"
    using assms by (simp add: EffectiveUsername_def)
  then show ?thesis using assms
    by (simp add: SelectedMode_def Let_def) (simp add: HasPrefix_def ServiceAccountUsernamePrefix_def NodeUsernamePrefix_def)
qed

lemma user_info_mode:
  "ic_ServiceAccountRef ic = None \<Longrightarrow> ic_UserName ic \<noteq> '''' \<Longrightarrow> \<not> isReservedUsername (ic_UserName ic) \<Longrightarrow>
   SelectedMode (Some ic) = ImpersonationModeUserInfo"
  by (simp add: SelectedMode_def EffectiveUsername_def Let_def isReservedUsername_def)

section \<open>Returning\<close>

lemma policy_validators_return:
  assumes "policy_lists_end (defaultPolicyReader env)"
  shows "returns (policyValidateCreate env p)" "returns (policyValidateUpdate env old p)"
proof -
  have "returns (validateDefaultAssignmentDoesNotOverlap env p)"
    using assms unfolding validateDefaultAssignmentDoesNotOverlap_def policy_lists_end_def
    by (auto intro!: returning split: option.split)
  then show "returns (policyValidateCreate env p)" "returns (policyValidateUpdate env old p)"
    unfolding policyValidateCreate_def policyValidateUpdate_def by (auto intro!: returning)
qed

lemma policy_delete_returns:
  assumes "ends (listAdmissionPage (rs_RestrictedBindDefinitions (defaultPolicyReader env)) [] None) ''''"
    and "ends (listAdmissionPage (rs_RestrictedRoleDefinitions (defaultPolicyReader env)) [] None) ''''"
  shows "returns (policyValidateDelete env p)"
proof -
  have "returns (policyHasRestrictedBindDefinitionReference (defaultPolicyReader env) (policy_Name p))"
    "returns (policyHasRestrictedRoleDefinitionReference (defaultPolicyReader env) (policy_Name p))"
    using scanPages_returns [OF assms(1)] scanPages_returns [OF assms(2)]
    by (auto simp: returns_def policyHasRestrictedBindDefinitionReference_def policyHasRestrictedRoleDefinitionReference_def)
  then show ?thesis unfolding policyValidateDelete_def Let_def by (auto intro!: returning)
qed

end
