(* ===== verification/Role_Admission.thy ===== *)
theory Role_Admission
  imports Default_Policy
begin

text \<open>
  The validating webhooks of RestrictedRoleDefinitions and RoleDefinitions
  (\<^verbatim>\<open>api/authorization/v1alpha1/restrictedroledefinition_webhook.go\<close>, \<^verbatim>\<open>roledefinition_webhook.go\<close>): required
  fields, targets that no other definition may have, reserved labels, immutable fields and the assignment of
  the requester.
\<close>

record 'd reviewed =
  rv_Object :: 'd
  rv_Meta :: object_meta

definition path_key :: "string \<Rightarrow> string \<Rightarrow> string" where
  "path_key p key = p @ ''['' @ key @ '']''"

definition singleQuoted :: "string \<Rightarrow> string" where
  "singleQuoted s = [CHR 0x27] @ s @ [CHR 0x27]"

section \<open>Shared checks\<close>

definition maxVersionLength :: nat where "maxVersionLength = 20"

definition roleTargetCollision :: "string \<Rightarrow> string \<Rightarrow> string \<Rightarrow> string \<Rightarrow> bool" where
  "roleTargetCollision targetRole targetNamespace existingRole existingNamespace =
     (if targetRole \<noteq> existingRole then False
      else if targetRole = DefinitionClusterRole then True
      else targetNamespace = existingNamespace)"

definition IsTimeout :: "go_error \<Rightarrow> bool" where "IsTimeout err \<longleftrightarrow> ReasonForError err = ''Timeout''"
definition IsServerTimeout :: "go_error \<Rightarrow> bool" where "IsServerTimeout err \<longleftrightarrow> ReasonForError err = ''ServerTimeout''"
definition IsServiceUnavailable :: "go_error \<Rightarrow> bool" where
  "IsServiceUnavailable err \<longleftrightarrow> ReasonForError err = ''ServiceUnavailable''"

definition listErrorToAdmission :: "string \<Rightarrow> go_error \<Rightarrow> admission_error" where
  "listErrorToAdmission resource err =
     (if IsTimeout err \<or> IsServerTimeout err \<or> IsServiceUnavailable err \<or>
         DeadlineExceeded \<in> set (ge_causes err) \<or> Canceled \<in> set (ge_causes err)
      then InternalError [Lit ''transient error listing '', Lit resource, Lit ''; please retry'']
      else InternalError [Lit ''unable to list '', Lit resource])"

definition validateRoleTargetFields ::
  "admission_env \<Rightarrow> string \<Rightarrow> string \<Rightarrow> string \<Rightarrow> string \<Rightarrow> string \<Rightarrow> admission_error option" where
  "validateRoleTargetFields env kind name targetRole targetName targetNamespace =
     invalidUnlessEmpty kind name
       ((if targetRole = ''''
         then [FieldRequired ''spec.targetRole'' [Lit ''targetRole is required'']]
         else if targetRole \<noteq> DefinitionClusterRole \<and> targetRole \<noteq> DefinitionNamespacedRole
         then [FieldNotSupported ''spec.targetRole'' targetRole [DefinitionClusterRole, DefinitionNamespacedRole]]
         else if targetRole = DefinitionNamespacedRole \<and> targetNamespace = ''''
         then [FieldRequired ''spec.targetNamespace'' [Lit ''targetNamespace is required when targetRole is '', Lit (singleQuoted DefinitionNamespacedRole)]]
         else if targetRole = DefinitionClusterRole \<and> targetNamespace \<noteq> ''''
         then [FieldForbidden ''spec.targetNamespace'' [Lit ''targetNamespace must be empty when targetRole is '', Lit (singleQuoted DefinitionClusterRole)]]
         else []) @
        (if targetName = '''' then [FieldRequired ''spec.targetName'' [Lit ''targetName is required'']] else []) @
        (if targetNamespace \<noteq> '''' \<and> targetRole \<noteq> DefinitionClusterRole
         then map (\<lambda>m. FieldInvalid ''spec.targetNamespace'' targetNamespace [Lit m]) (ae_IsDNS1123Label env targetNamespace)
         else []))"

definition immutableError :: "string \<Rightarrow> bool \<Rightarrow> fieldError list" where
  "immutableError fldPath changed =
     (if changed then [FieldForbidden fldPath [Lit ''field is immutable after creation'']] else [])"

definition duplicateTarget :: "string \<Rightarrow> string \<Rightarrow> string \<Rightarrow> string \<Rightarrow> string \<Rightarrow> admission_error" where
  "duplicateTarget kind name targetName otherKind otherName =
     Invalid kind name [FieldDuplicate ''spec.targetName''
       (VText [Lit targetName, Lit '' (already used by '', Lit otherKind, Lit '' '', Quo otherName, Lit '')''])]"

text \<open>The loops over the restricted APIs of both kinds of definition.\<close>

fun duplicateAPI :: "nat \<Rightarrow> (string, nat) gomap \<Rightarrow> RestrictedAPIGroup list \<Rightarrow> fieldError option" where
  "duplicateAPI i seen [] = None"
| "duplicateAPI i seen (grp # rest) =
     (case mlookup seen (rag_Name grp) of
        Some prev \<Rightarrow> Some (FieldDuplicate (child (path_idx ''spec.restrictedApis'' i) ''name'')
          (VText [Quo (rag_Name grp), Lit '' is already used at restrictedApis['', Dec (int prev), Lit '']'']))
      | None \<Rightarrow> duplicateAPI (Suc i) (mput (rag_Name grp) i seen) rest)"

definition badVersion :: "string \<Rightarrow> bool" where
  "badVersion version \<longleftrightarrow> \<not> HasPrefix version ''v'' \<or> length version > maxVersionLength"

text \<open>The first version that is not accepted, with its indices.\<close>

fun firstBadVersion :: "nat \<Rightarrow> RestrictedAPIGroup list \<Rightarrow> (nat \<times> nat \<times> string) option" where
  "firstBadVersion i [] = None"
| "firstBadVersion i (grp # rest) =
     (case List.find (\<lambda>(j, version). badVersion version) (List.enumerate 0 (rag_Versions grp)) of
        Some (j, version) \<Rightarrow> Some (i, j, version)
      | None \<Rightarrow> firstBadVersion (Suc i) rest)"

section \<open>RestrictedRoleDefinitions\<close>

definition validateNoDuplicateRestrictedRRDAPIs :: "RestrictedRoleDefinition \<Rightarrow> admission_error option" where
  "validateNoDuplicateRestrictedRRDAPIs obj =
     map_option (\<lambda>e. Invalid RestrictedRoleDefinitionKind (rrd_Name obj) [e])
       (duplicateAPI 0 [] (rrds_RestrictedAPIs (rrd_Spec obj)))"

definition rejectProtectedRestrictedRoleLabels :: "RestrictedRoleDefinition reviewed \<Rightarrow> admission_error option" where
  "rejectProtectedRestrictedRoleLabels obj =
     (case List.find (\<lambda>(key, _). IsProtectedRestrictedLabel key) (om_Labels (rv_Meta obj)) of
        None \<Rightarrow> None
      | Some (key, _) \<Rightarrow> Some (Invalid RestrictedRoleDefinitionKind (rrd_Name (rv_Object obj))
          [FieldForbidden (path_key ''metadata.labels'' key)
             [Lit ''label is reserved and must not be propagated to generated ClusterRoles'']]))"

definition validateRestrictedRoleDefinitionAPIsVersions :: "RestrictedRoleDefinition \<Rightarrow> admission_error option" where
  "validateRestrictedRoleDefinitionAPIsVersions obj =
     map_option (\<lambda>(i, j, version). Invalid RestrictedRoleDefinitionKind (rrd_Name obj)
         [FieldInvalid (child (path_idx (child (path_idx ''spec.restrictedApis'' i) ''versions'') j) ''version'') version
            [Lit ''must start with 'v' and be at most '', Dec (int maxVersionLength), Lit '' characters'']])
       (firstBadVersion 0 (rrds_RestrictedAPIs (rrd_Spec obj)))"

definition findRestrictedRoleDefinitionTargetNameConflict ::
  "admission_env \<Rightarrow> RestrictedRoleDefinition \<Rightarrow> (go_error + RestrictedRoleDefinition option) option" where
  "findRestrictedRoleDefinitionTargetNameConflict env obj =
     scanPages (\<lambda>existing.
       if rrds_TargetName (rrd_Spec existing) = rrds_TargetName (rrd_Spec obj) \<and> rrd_Name existing \<noteq> rrd_Name obj \<and>
          roleTargetCollision (rrds_TargetRole (rrd_Spec obj)) (rrds_TargetNamespace (rrd_Spec obj))
            (rrds_TargetRole (rrd_Spec existing)) (rrds_TargetNamespace (rrd_Spec existing))
       then Some existing else None)
       (listAdmissionPage (rs_RestrictedRoleDefinitions (defaultPolicyReader env)) [] None) ''''"

definition findRoleDefinitionTargetNameConflict ::
  "admission_env \<Rightarrow> RestrictedRoleDefinition \<Rightarrow> (go_error + RoleDefinition option) option" where
  "findRoleDefinitionTargetNameConflict env obj =
     scanPages (\<lambda>existing.
       if rds_TargetName (rd_Spec existing) = rrds_TargetName (rrd_Spec obj) \<and>
          roleTargetCollision (rrds_TargetRole (rrd_Spec obj)) (rrds_TargetNamespace (rrd_Spec obj))
            (rds_TargetRole (rd_Spec existing)) (rds_TargetNamespace (rd_Spec existing))
       then Some existing else None)
       (listAdmissionPage (rs_RoleDefinitions (defaultPolicyReader env)) [] None) ''''"

definition validateRestrictedRoleDefinitionSpec ::
  "admission_env \<Rightarrow> RestrictedRoleDefinition reviewed \<Rightarrow> unit outcome" where
  "validateRestrictedRoleDefinitionSpec env robj =
     (let obj = rv_Object robj; spec = rrd_Spec obj in
      andThen (ensure (validateRoleTargetFields env RestrictedRoleDefinitionKind (rrd_Name obj)
        (rrds_TargetRole spec) (rrds_TargetName spec) (rrds_TargetNamespace spec))) (\<lambda>_.
      andThen (onError (listErrorToAdmission ''RestrictedRoleDefinitions'')
        (findRestrictedRoleDefinitionTargetNameConflict env obj)) (\<lambda>existingRRD.
      andThen (ensure (map_option (\<lambda>existing. duplicateTarget RestrictedRoleDefinitionKind (rrd_Name obj)
        (rrds_TargetName spec) ''RestrictedRoleDefinition'' (rrd_Name existing)) existingRRD)) (\<lambda>_.
      andThen (onError (listErrorToAdmission ''RoleDefinitions'')
        (findRoleDefinitionTargetNameConflict env obj)) (\<lambda>existingRD.
      andThen (ensure (map_option (\<lambda>existing. duplicateTarget RestrictedRoleDefinitionKind (rrd_Name obj)
        (rrds_TargetName spec) ''RoleDefinition'' (rd_Name existing)) existingRD)) (\<lambda>_.
      andThen (ensure (if rrds_TargetRole spec = DefinitionClusterRole
        then rejectProtectedRestrictedRoleLabels robj else None)) (\<lambda>_.
      andThen (ensure (validateNoDuplicateRestrictedRRDAPIs obj)) (\<lambda>_.
      andThen (ensure (invalidUnlessEmpty RestrictedRoleDefinitionKind (rrd_Name obj)
        (ValidateConstrainedImpersonationSpec (ae_IsDomainPrefixedPath env) (rrds_ConstrainedImpersonation spec)
           (rrds_TargetRole spec = DefinitionClusterRole) ''spec.constrainedImpersonation''))) (\<lambda>_.
      ensure (validateRestrictedRoleDefinitionAPIsVersions obj))))))))))"

definition rrdValidatePolicyRefExists :: "admission_env \<Rightarrow> RestrictedRoleDefinition \<Rightarrow> admission_error option" where
  "rrdValidatePolicyRefExists env obj =
     (let policyRef = rrds_PolicyRef (rrd_Spec obj) in
      case rs_GetPolicy (defaultPolicyReader env) policyRef of
        Missing \<Rightarrow> Some (Invalid RestrictedRoleDefinitionKind (rrd_Name obj) [FieldNotFound policyRefPath policyRef])
      | ReadError err \<Rightarrow> Some (InternalError [Lit ''unable to validate policy reference''])
      | Got (rbacPolicy, deleting) \<Rightarrow>
          if deleting then Some (invalidDeletingPolicyRef RestrictedRoleDefinitionKind (rrd_Name obj) policyRef)
          else None)"

definition rrdWarnings :: "RestrictedRoleDefinition \<Rightarrow> msg list" where
  "rrdWarnings obj =
     ConstrainedImpersonationWarnings (rrds_ConstrainedImpersonation (rrd_Spec obj)) ''spec.constrainedImpersonation''"

definition rrdValidateCreate :: "admission_env \<Rightarrow> RestrictedRoleDefinition reviewed \<Rightarrow> msg list outcome" where
  "rrdValidateCreate env robj =
     (let obj = rv_Object robj in
      andThen (validateRestrictedRoleDefinitionSpec env robj) (\<lambda>_.
      andThen (ensure (rrdValidatePolicyRefExists env obj)) (\<lambda>_.
      andThen (validateDefaultPolicyForRequester env (defaultPolicyReader env) RestrictedRoleDefinitionKind
        (rrd_Name obj) (rrds_PolicyRef (rrd_Spec obj))) (\<lambda>_.
      Some (Inr (rrdWarnings obj))))))"

text \<open>
  \<^verbatim>\<open>reflect.DeepEqual\<close> also tells nil from empty slices, which \<^verbatim>\<open>equality.Semantic.DeepEqual\<close> does not: the first
  is the parameter \<open>reflectEqual\<close>, the second equality.
\<close>

definition rrdValidateUpdate ::
  "(RestrictedRoleDefinitionSpec \<Rightarrow> RestrictedRoleDefinitionSpec \<Rightarrow> bool) \<Rightarrow> admission_env \<Rightarrow>
   RestrictedRoleDefinition reviewed \<Rightarrow> RestrictedRoleDefinition reviewed \<Rightarrow> msg list outcome" where
  "rrdValidateUpdate reflectEqual env roldObj rnewObj =
     (let oldObj = rv_Object roldObj; newObj = rv_Object rnewObj;
          labelCheck = ensure (if rrds_TargetRole (rrd_Spec newObj) = DefinitionClusterRole
            then rejectProtectedRestrictedRoleLabels rnewObj else None);
          metadataUpdate = andThen (validateDefaultPolicyForMetadataUpdate env (defaultPolicyReader env)
            RestrictedRoleDefinitionKind RestrictedRoleDefinitionType (rrd_Name newObj) (rrds_PolicyRef (rrd_Spec newObj))
            (rv_Meta roldObj) (rv_Meta rnewObj)) (\<lambda>_. Some (Inr []));
          allErrs =
            immutableError ''spec.targetRole'' (rrds_TargetRole (rrd_Spec oldObj) \<noteq> rrds_TargetRole (rrd_Spec newObj)) @
            immutableError ''spec.targetName'' (rrds_TargetName (rrd_Spec oldObj) \<noteq> rrds_TargetName (rrd_Spec newObj)) @
            immutableError ''spec.targetNamespace'' (rrds_TargetNamespace (rrd_Spec oldObj) \<noteq> rrds_TargetNamespace (rrd_Spec newObj)) @
            immutableError ''spec.policyRef.name'' (rrds_PolicyRef (rrd_Spec oldObj) \<noteq> rrds_PolicyRef (rrd_Spec newObj)) in
      andThen labelCheck (\<lambda>_.
      if reflectEqual (rrd_Spec oldObj) (rrd_Spec newObj) then metadataUpdate
      else
        andThen (ensure (invalidUnlessEmpty RestrictedRoleDefinitionKind (rrd_Name newObj) allErrs)) (\<lambda>_.
        andThen labelCheck (\<lambda>_.
        if rrd_Spec oldObj = rrd_Spec newObj then metadataUpdate
        else
          andThen (validateRestrictedRoleDefinitionSpec env rnewObj) (\<lambda>_.
          andThen (ensure (rrdValidatePolicyRefExists env newObj)) (\<lambda>_.
          andThen (validateDefaultPolicyForRequester env (defaultPolicyReader env) RestrictedRoleDefinitionKind
            (rrd_Name newObj) (rrds_PolicyRef (rrd_Spec newObj))) (\<lambda>_.
          Some (Inr (rrdWarnings newObj)))))))))"

definition rrdValidateDelete :: "admission_env \<Rightarrow> RestrictedRoleDefinition \<Rightarrow> msg list outcome" where
  "rrdValidateDelete env obj = Some (Inr [])"

section \<open>RoleDefinitions\<close>

definition kubernetesRBACAggregationLabelPrefix :: string where
  "kubernetesRBACAggregationLabelPrefix = ''rbac.authorization.k8s.io/aggregate-to-''"
definition aggregateFromFragmentLabelKey :: string where
  "aggregateFromFragmentLabelKey = ''t-caas.telekom.com/rbac-fragment''"
definition aggregateFromFragmentLabelValue :: string where "aggregateFromFragmentLabelValue = ''true''"
definition aggregateFromScopeLabelKey :: string where
  "aggregateFromScopeLabelKey = ''t-caas.telekom.com/aggregate-scope''"

definition rdForbidden :: "RoleDefinition \<Rightarrow> string \<Rightarrow> msg \<Rightarrow> admission_error" where
  "rdForbidden obj fldPath detail = Forbidden ''roledefinitions'' (rd_Name obj) (BecauseField (FieldForbidden fldPath detail))"

definition rejectForbiddenAggregationLabels :: "RoleDefinition \<Rightarrow> admission_error option" where
  "rejectForbiddenAggregationLabels obj =
     (case List.find (\<lambda>(key, _). HasPrefix key kubernetesRBACAggregationLabelPrefix) (rds_AggregationLabels (rd_Spec obj)) of
        None \<Rightarrow> None
      | Some (key, _) \<Rightarrow> Some (rdForbidden obj (path_key ''spec.aggregationLabels'' key)
          [Lit ''must not use Kubernetes RBAC aggregation labels'']))"

definition rejectForbiddenMetadataAggregationLabels :: "RoleDefinition reviewed \<Rightarrow> admission_error option" where
  "rejectForbiddenMetadataAggregationLabels robj =
     (case List.find (\<lambda>(key, _). HasPrefix key kubernetesRBACAggregationLabelPrefix) (om_Labels (rv_Meta robj)) of
        None \<Rightarrow> None
      | Some (key, _) \<Rightarrow> Some (rdForbidden (rv_Object robj) (path_key ''metadata.labels'' key)
          [Lit ''must not use Kubernetes RBAC aggregation labels because metadata labels propagate to the generated RBAC object'']))"

definition validateAggregateFromSelector :: "RoleDefinition \<Rightarrow> nat \<Rightarrow> LabelSelector \<Rightarrow> admission_error option" where
  "validateAggregateFromSelector obj i selector =
     (let selectorPath = path_idx ''spec.aggregateFrom.clusterRoleSelectors'' i;
          labelsPath = child selectorPath ''matchLabels'' in
      if MatchExpressions selector \<noteq> []
      then Some (rdForbidden obj (child selectorPath ''matchExpressions'')
        [Lit ''matchExpressions are not allowed for aggregateFrom; use explicit matchLabels''])
      else if mindex (MatchLabels selector) aggregateFromFragmentLabelKey \<noteq> aggregateFromFragmentLabelValue
      then Some (rdForbidden obj (path_key labelsPath aggregateFromFragmentLabelKey)
        [Lit ''must be '', Quo aggregateFromFragmentLabelValue])
      else if mindex (MatchLabels selector) aggregateFromScopeLabelKey = ''''
      then Some (rdForbidden obj (path_key labelsPath aggregateFromScopeLabelKey)
        [Lit ''must select an explicit aggregate scope''])
      else (case List.find (\<lambda>(key, _). key \<noteq> aggregateFromFragmentLabelKey \<and> key \<noteq> aggregateFromScopeLabelKey)
                  (MatchLabels selector) of
         None \<Rightarrow> None
       | Some (key, _) \<Rightarrow> Some (rdForbidden obj (path_key labelsPath key)
           [Lit ''aggregateFrom selectors may only use '', Quo aggregateFromFragmentLabelKey, Lit '' and '',
            Quo aggregateFromScopeLabelKey])))"

fun aggregateFromSelectors :: "RoleDefinition \<Rightarrow> nat \<Rightarrow> LabelSelector list \<Rightarrow> admission_error option" where
  "aggregateFromSelectors obj i [] = None"
| "aggregateFromSelectors obj i (selector # rest) =
     (if MatchLabels selector = [] \<and> MatchExpressions selector = []
      then Some (rdForbidden obj (path_idx ''spec.aggregateFrom.clusterRoleSelectors'' i)
        [Lit ''empty selector would match all ClusterRoles; specify matchLabels''])
      else (case validateAggregateFromSelector obj i selector of
         Some err \<Rightarrow> Some err
       | None \<Rightarrow> aggregateFromSelectors obj (Suc i) rest))"

definition ValidateRoleDefinitionAggregateFrom :: "RoleDefinition \<Rightarrow> LabelSelector list \<Rightarrow> admission_error option" where
  "ValidateRoleDefinitionAggregateFrom obj selectors =
     (let spec = rd_Spec obj in
      if rds_TargetRole spec \<noteq> DefinitionClusterRole
      then Some (BadRequest [Lit ''aggregateFrom can only be used when targetRole is '', Lit (singleQuoted DefinitionClusterRole)])
      else if rds_RestrictedAPIs spec \<noteq> [] \<or> rds_RestrictedResources spec \<noteq> [] \<or> rds_RestrictedVerbs spec \<noteq> []
      then Some (BadRequest [Lit ''aggregateFrom is mutually exclusive with restrictedApis, restrictedResources, and restrictedVerbs''])
      else if rds_MetricsAccessAllowed spec
      then Some (BadRequest [Lit ''aggregateFrom is mutually exclusive with metricsAccessAllowed''])
      else if selectors = []
      then Some (BadRequest [Lit ''aggregateFrom must have at least one clusterRoleSelector''])
      else aggregateFromSelectors obj 0 selectors)"

definition validateRestrictedAPIsVersions :: "RoleDefinition \<Rightarrow> msg option" where
  "validateRestrictedAPIsVersions obj =
     map_option (\<lambda>(i, j, version). [Lit ''restrictedApis['', Dec (int i), Lit ''].versions['', Dec (int j), Lit ''].version '',
         Quo version, Lit '': must start with 'v' and be at most '', Dec (int maxVersionLength), Lit '' characters''])
       (firstBadVersion 0 (rds_RestrictedAPIs (rd_Spec obj)))"

definition validateNoDuplicateRestrictedAPIs :: "RoleDefinition \<Rightarrow> admission_error option" where
  "validateNoDuplicateRestrictedAPIs obj =
     map_option (\<lambda>e. Invalid ''RoleDefinition'' (rd_Name obj) [e]) (duplicateAPI 0 [] (rds_RestrictedAPIs (rd_Spec obj)))"

text \<open>The checks of a RoleDefinition, in order, up to the first error.\<close>

definition roleDefinitionChecks :: "admission_env \<Rightarrow> RoleDefinition reviewed \<Rightarrow> admission_error option list" where
  "roleDefinitionChecks env robj =
     (let obj = rv_Object robj; spec = rd_Spec obj; namespaced = (rds_TargetRole spec = DefinitionNamespacedRole);
          cluster = (rds_TargetRole spec = DefinitionClusterRole) in
      [validateRoleTargetFields env ''RoleDefinition'' (rd_Name obj) (rds_TargetRole spec) (rds_TargetName spec) (rds_TargetNamespace spec),
       (if rds_BreakglassAllowed spec \<and> namespaced
        then Some (BadRequest [Lit ''breakglassAllowed may only be set when targetRole is '', Lit (singleQuoted DefinitionClusterRole)]) else None),
       (if rds_MetricsAccessAllowed spec \<and> namespaced
        then Some (BadRequest [Lit ''metricsAccessAllowed may only be set when targetRole is '', Lit (singleQuoted DefinitionClusterRole)]) else None),
       map_option BadRequest (validateRestrictedAPIsVersions obj),
       validateNoDuplicateRestrictedAPIs obj,
       rejectForbiddenMetadataAggregationLabels robj,
       (if \<not> cluster \<and> rds_AggregationLabels spec \<noteq> []
        then Some (BadRequest [Lit ''aggregationLabels can only be used when targetRole is '', Lit (singleQuoted DefinitionClusterRole)]) else None),
       (if \<not> cluster \<and> rds_AggregateFrom spec \<noteq> None
        then Some (BadRequest [Lit ''aggregateFrom can only be used when targetRole is '', Lit (singleQuoted DefinitionClusterRole)]) else None),
       (if cluster then rejectForbiddenAggregationLabels obj else None),
       (case rds_AggregateFrom spec of None \<Rightarrow> None | Some selectors \<Rightarrow> ValidateRoleDefinitionAggregateFrom obj selectors),
       (if rds_ConstrainedImpersonation spec \<noteq> None \<and> rds_AggregateFrom spec \<noteq> None
        then Some (BadRequest [Lit ''constrainedImpersonation is mutually exclusive with aggregateFrom'']) else None),
       invalidUnlessEmpty ''RoleDefinition'' (rd_Name obj)
         (ValidateConstrainedImpersonationSpec (ae_IsDomainPrefixedPath env) (rds_ConstrainedImpersonation spec) cluster
            ''spec.constrainedImpersonation'')])"

definition validateRoleDefinitionSpec :: "admission_env \<Rightarrow> RoleDefinition reviewed \<Rightarrow> admission_error option" where
  "validateRoleDefinitionSpec env robj = first_some id (roleDefinitionChecks env robj)"

definition findRoleDefinitionTargetConflict ::
  "admission_env \<Rightarrow> RoleDefinition \<Rightarrow> (go_error + RoleDefinition option) option" where
  "findRoleDefinitionTargetConflict env obj =
     scanPages (\<lambda>existing.
       if rds_TargetName (rd_Spec existing) = rds_TargetName (rd_Spec obj) \<and> rd_Name existing \<noteq> rd_Name obj \<and>
          roleTargetCollision (rds_TargetRole (rd_Spec obj)) (rds_TargetNamespace (rd_Spec obj))
            (rds_TargetRole (rd_Spec existing)) (rds_TargetNamespace (rd_Spec existing))
       then Some existing else None)
       (listAdmissionPage (rs_RoleDefinitions (defaultPolicyReader env)) [] None) ''''"

definition findRestrictedRoleDefinitionTargetConflict ::
  "admission_env \<Rightarrow> RoleDefinition \<Rightarrow> (go_error + RestrictedRoleDefinition option) option" where
  "findRestrictedRoleDefinitionTargetConflict env obj =
     scanPages (\<lambda>existing.
       if rrds_TargetName (rrd_Spec existing) = rds_TargetName (rd_Spec obj) \<and>
          roleTargetCollision (rds_TargetRole (rd_Spec obj)) (rds_TargetNamespace (rd_Spec obj))
            (rrds_TargetRole (rrd_Spec existing)) (rrds_TargetNamespace (rrd_Spec existing))
       then Some existing else None)
       (listAdmissionPage (rs_RestrictedRoleDefinitions (defaultPolicyReader env)) [] None) ''''"

definition rdTargetChecks :: "admission_env \<Rightarrow> RoleDefinition \<Rightarrow> unit outcome" where
  "rdTargetChecks env obj =
     andThen (onError (listErrorToAdmission ''RoleDefinitions'') (findRoleDefinitionTargetConflict env obj)) (\<lambda>existingRD.
     andThen (ensure (map_option (\<lambda>existing. duplicateTarget ''RoleDefinition'' (rd_Name obj)
       (rds_TargetName (rd_Spec obj)) ''RoleDefinition'' (rd_Name existing)) existingRD)) (\<lambda>_.
     andThen (onError (listErrorToAdmission ''RestrictedRoleDefinitions'')
       (findRestrictedRoleDefinitionTargetConflict env obj)) (\<lambda>existingRRD.
     ensure (map_option (\<lambda>existing. duplicateTarget ''RoleDefinition'' (rd_Name obj)
       (rds_TargetName (rd_Spec obj)) ''RestrictedRoleDefinition'' (rrd_Name existing)) existingRRD))))"

definition rdWarnings :: "RoleDefinition \<Rightarrow> msg list" where
  "rdWarnings obj = ConstrainedImpersonationWarnings (rds_ConstrainedImpersonation (rd_Spec obj)) ''spec.constrainedImpersonation''"

definition rdValidateCreate :: "admission_env \<Rightarrow> RoleDefinition reviewed \<Rightarrow> msg list outcome" where
  "rdValidateCreate env robj =
     andThen (ensure (validateRoleDefinitionSpec env robj)) (\<lambda>_.
     andThen (rdTargetChecks env (rv_Object robj)) (\<lambda>_.
     Some (Inr (rdWarnings (rv_Object robj)))))"

definition rdValidateUpdate :: "admission_env \<Rightarrow> RoleDefinition reviewed \<Rightarrow> RoleDefinition reviewed \<Rightarrow> msg list outcome" where
  "rdValidateUpdate env roldObj rnewObj =
     (let oldSpec = rd_Spec (rv_Object roldObj); newObj = rv_Object rnewObj; newSpec = rd_Spec newObj;
          allErrs = immutableError ''spec.targetRole'' (rds_TargetRole oldSpec \<noteq> rds_TargetRole newSpec) @
            immutableError ''spec.targetName'' (rds_TargetName oldSpec \<noteq> rds_TargetName newSpec) @
            immutableError ''spec.targetNamespace'' (rds_TargetNamespace oldSpec \<noteq> rds_TargetNamespace newSpec) in
      andThen (ensure (invalidUnlessEmpty ''RoleDefinition'' (rd_Name newObj) allErrs)) (\<lambda>_.
      andThen (ensure (if rds_TargetRole newSpec = DefinitionClusterRole
        then rejectForbiddenAggregationLabels newObj else None)) (\<lambda>_.
      andThen (ensure (validateRoleDefinitionSpec env rnewObj)) (\<lambda>_.
      andThen (rdTargetChecks env newObj) (\<lambda>_.
      Some (Inr (rdWarnings newObj)))))))"

definition rdValidateDelete :: "RoleDefinition \<Rightarrow> msg list outcome" where
  "rdValidateDelete obj = Some (Inr [])"

section \<open>Targets\<close>

text \<open>The role a definition generates.\<close>

definition role_target :: "string \<Rightarrow> string \<Rightarrow> string \<Rightarrow> role_key option" where
  "role_target targetRole targetName targetNamespace =
     (if targetRole = DefinitionClusterRole then Some (ClusterRoleKey targetName)
      else if targetRole = DefinitionNamespacedRole then Some (RoleKey targetNamespace targetName)
      else None)"

abbreviation rrd_target :: "RestrictedRoleDefinition \<Rightarrow> role_key option" where
  "rrd_target obj \<equiv> role_target (rrds_TargetRole (rrd_Spec obj)) (rrds_TargetName (rrd_Spec obj)) (rrds_TargetNamespace (rrd_Spec obj))"

abbreviation rd_target :: "RoleDefinition \<Rightarrow> role_key option" where
  "rd_target obj \<equiv> role_target (rds_TargetRole (rd_Spec obj)) (rds_TargetName (rd_Spec obj)) (rds_TargetNamespace (rd_Spec obj))"

text \<open>The collision test compares the generated roles.\<close>

lemma collision_iff:
  assumes "role_target r n ns = Some k"
  shows "n' = n \<and> roleTargetCollision r ns r' ns' \<longleftrightarrow> role_target r' n' ns' = Some k"
  using assms
  by (auto simp: role_target_def roleTargetCollision_def DefinitionClusterRole_def DefinitionNamespacedRole_def split: if_splits)

lemma target_fields_ok:
  "validateRoleTargetFields env kind name r n ns = None \<longleftrightarrow>
     n \<noteq> '''' \<and> (r = DefinitionClusterRole \<and> ns = '''' \<or>
       r = DefinitionNamespacedRole \<and> ns \<noteq> '''' \<and> ae_IsDNS1123Label env ns = [])"
  by (auto simp: validateRoleTargetFields_def DefinitionClusterRole_def DefinitionNamespacedRole_def)

lemma target_fields_target: "validateRoleTargetFields env kind name r n ns = None \<Longrightarrow> \<exists>k. role_target r n ns = Some k"
  by (auto simp: target_fields_ok role_target_def)

section \<open>Accepted definitions\<close>

lemma duplicateAPI_ok:
  "duplicateAPI i seen grps = None \<longleftrightarrow> distinct (map rag_Name grps) \<and> (\<forall>grp \<in> set grps. mlookup seen (rag_Name grp) = None)"
proof (induction grps arbitrary: i seen)
  case (Cons grp grps)
  then show ?case by (cases "mlookup seen (rag_Name grp)") (auto simp: image_iff)
qed simp

lemma find_enumerate_None: "List.find (\<lambda>(j, x). P x) (List.enumerate n xs) = None \<longleftrightarrow> (\<forall>x \<in> set xs. \<not> P x)"
  by (induction xs arbitrary: n) auto

lemma firstBadVersion_ok:
  "firstBadVersion i grps = None \<longleftrightarrow> (\<forall>grp \<in> set grps. \<forall>version \<in> set (rag_Versions grp). \<not> badVersion version)"
proof (induction grps arbitrary: i)
  case (Cons grp grps)
  then show ?case
    using find_enumerate_None [of badVersion 0 "rag_Versions grp"]
    by (cases "List.find (\<lambda>(j, version). badVersion version) (List.enumerate 0 (rag_Versions grp))") auto
qed simp

lemma find_pair_None: "List.find (\<lambda>(k, _). P k) m = None \<longleftrightarrow> (\<forall>k \<in> fst ` set m. \<not> P k)"
  by (induction m) auto

lemma protected_labels_ok:
  "rejectProtectedRestrictedRoleLabels robj = None \<longleftrightarrow>
     (\<forall>key \<in> fst ` set (om_Labels (rv_Meta robj)). \<not> IsProtectedRestrictedLabel key)"
  using find_pair_None [of IsProtectedRestrictedLabel "om_Labels (rv_Meta robj)"]
  by (auto simp: rejectProtectedRestrictedRoleLabels_def split: option.splits)

text \<open>What every accepted RestrictedRoleDefinition satisfies by itself.\<close>

definition rrd_wellformed :: "admission_env \<Rightarrow> RestrictedRoleDefinition reviewed \<Rightarrow> bool" where
  "rrd_wellformed env robj \<longleftrightarrow>
     (let spec = rrd_Spec (rv_Object robj) in
      (\<exists>key. rrd_target (rv_Object robj) = Some key) \<and> rrds_TargetName spec \<noteq> '''' \<and>
      (rrds_TargetRole spec = DefinitionClusterRole \<longrightarrow>
         (\<forall>key \<in> fst ` set (om_Labels (rv_Meta robj)). \<not> IsProtectedRestrictedLabel key)) \<and>
      distinct (map rag_Name (rrds_RestrictedAPIs spec)) \<and>
      (\<forall>grp \<in> set (rrds_RestrictedAPIs spec). \<forall>version \<in> set (rag_Versions grp). \<not> badVersion version) \<and>
      ValidateConstrainedImpersonationSpec (ae_IsDomainPrefixedPath env) (rrds_ConstrainedImpersonation spec)
        (rrds_TargetRole spec = DefinitionClusterRole) ''spec.constrainedImpersonation'' = [])"

text \<open>Conflicts: the complete listings show no other definition of the same target.\<close>

definition rrd_conflict_free :: "admission_env \<Rightarrow> RestrictedRoleDefinition \<Rightarrow> bool" where
  "rrd_conflict_free env obj \<longleftrightarrow>
     (\<exists>rrds. served (listAdmissionPage (rs_RestrictedRoleDefinitions (defaultPolicyReader env)) [] None) '''' rrds \<and>
        (\<forall>existing \<in> set rrds. rrd_Name existing \<noteq> rrd_Name obj \<longrightarrow> rrd_target existing \<noteq> rrd_target obj)) \<and>
     (\<exists>rds. served (listAdmissionPage (rs_RoleDefinitions (defaultPolicyReader env)) [] None) '''' rds \<and>
        (\<forall>existing \<in> set rds. rd_target existing \<noteq> rrd_target obj))"

definition rd_conflict_free :: "admission_env \<Rightarrow> RoleDefinition \<Rightarrow> bool" where
  "rd_conflict_free env obj \<longleftrightarrow>
     (\<exists>rds. served (listAdmissionPage (rs_RoleDefinitions (defaultPolicyReader env)) [] None) '''' rds \<and>
        (\<forall>existing \<in> set rds. rd_Name existing \<noteq> rd_Name obj \<longrightarrow> rd_target existing \<noteq> rd_target obj)) \<and>
     (\<exists>rrds. served (listAdmissionPage (rs_RestrictedRoleDefinitions (defaultPolicyReader env)) [] None) '''' rrds \<and>
        (\<forall>existing \<in> set rrds. rrd_target existing \<noteq> rd_target obj))"

lemma rrd_conflicts_None:
  assumes "rrd_target obj = Some k"
    and "findRestrictedRoleDefinitionTargetNameConflict env obj = Some (Inr None)"
    and "findRoleDefinitionTargetNameConflict env obj = Some (Inr None)"
  shows "rrd_conflict_free env obj"
proof -
  note c = collision_iff [OF assms(1)]
  from scanPages_if_None [OF assms(2) [unfolded findRestrictedRoleDefinitionTargetNameConflict_def]]
    scanPages_if_None [OF assms(3) [unfolded findRoleDefinitionTargetNameConflict_def]]
  show ?thesis unfolding rrd_conflict_free_def assms(1) c [symmetric] by blast
qed

lemma rd_conflicts_None:
  assumes "rd_target obj = Some k"
    and "findRoleDefinitionTargetConflict env obj = Some (Inr None)"
    and "findRestrictedRoleDefinitionTargetConflict env obj = Some (Inr None)"
  shows "rd_conflict_free env obj"
proof -
  note c = collision_iff [OF assms(1)]
  from scanPages_if_None [OF assms(2) [unfolded findRoleDefinitionTargetConflict_def]]
    scanPages_if_None [OF assms(3) [unfolded findRestrictedRoleDefinitionTargetConflict_def]]
  show ?thesis unfolding rd_conflict_free_def assms(1) c [symmetric] by blast
qed

lemma rrd_spec_accepted:
  assumes "accepts (validateRestrictedRoleDefinitionSpec env robj)"
  shows "rrd_wellformed env robj" "rrd_conflict_free env (rv_Object robj)"
proof -
  let ?obj = "rv_Object robj"
  have ok: "validateRoleTargetFields env RestrictedRoleDefinitionKind (rrd_Name ?obj) (rrds_TargetRole (rrd_Spec ?obj))
      (rrds_TargetName (rrd_Spec ?obj)) (rrds_TargetNamespace (rrd_Spec ?obj)) = None"
    and conf: "findRestrictedRoleDefinitionTargetNameConflict env ?obj = Some (Inr None)"
      "findRoleDefinitionTargetNameConflict env ?obj = Some (Inr None)"
    and rest: "rrds_TargetRole (rrd_Spec ?obj) = DefinitionClusterRole \<Longrightarrow> rejectProtectedRestrictedRoleLabels robj = None"
      "validateNoDuplicateRestrictedRRDAPIs ?obj = None" "validateRestrictedRoleDefinitionAPIsVersions ?obj = None"
      "ValidateConstrainedImpersonationSpec (ae_IsDomainPrefixedPath env) (rrds_ConstrainedImpersonation (rrd_Spec ?obj))
        (rrds_TargetRole (rrd_Spec ?obj) = DefinitionClusterRole) ''spec.constrainedImpersonation'' = []"
    using assms unfolding validateRestrictedRoleDefinitionSpec_def Let_def
    by (auto simp: accepts_andThen ensure_accept onError_accept split: if_splits)
  obtain k where k: "rrd_target ?obj = Some k" using target_fields_target [OF ok] by blast
  show "rrd_conflict_free env ?obj" by (rule rrd_conflicts_None [OF k conf])
  show "rrd_wellformed env robj"
    using rest ok k
    by (simp add: rrd_wellformed_def Let_def protected_labels_ok validateNoDuplicateRestrictedRRDAPIs_def duplicateAPI_ok
        validateRestrictedRoleDefinitionAPIsVersions_def firstBadVersion_ok target_fields_ok)
qed

text \<open>An accepted reference: the policy exists and is not being deleted.\<close>

lemma policy_ref_accepted:
  "rrdValidatePolicyRefExists env obj = None \<longleftrightarrow>
     (\<exists>policy. rs_GetPolicy (defaultPolicyReader env) (rrds_PolicyRef (rrd_Spec obj)) = Got (policy, False))"
  by (auto simp: rrdValidatePolicyRefExists_def Let_def split: read.splits)

lemma rrd_create_accepted:
  assumes "accepts (rrdValidateCreate env robj)"
  shows "rrd_wellformed env robj" "rrd_conflict_free env (rv_Object robj)"
    and "\<exists>policy. rs_GetPolicy (defaultPolicyReader env) (rrds_PolicyRef (rrd_Spec (rv_Object robj))) = Got (policy, False)"
    and "accepts (validateDefaultPolicyForRequester env (defaultPolicyReader env) RestrictedRoleDefinitionKind
      (rrd_Name (rv_Object robj)) (rrds_PolicyRef (rrd_Spec (rv_Object robj))))"
  using assms rrd_spec_accepted [of env robj]
  by (simp_all add: rrdValidateCreate_def Let_def accepts_then policy_ref_accepted)

lemma immutableError_ok [checks, simp]: "immutableError fldPath changed = [] \<longleftrightarrow> \<not> changed"
  by (simp add: immutableError_def)

text \<open>An accepted update keeps target and policy; beyond that it changes nothing in the specification or is a checked one.\<close>

lemma rrd_update_accepted:
  assumes "accepts (rrdValidateUpdate reflectEqual env roldObj rnewObj)" "\<And>s s'. reflectEqual s s' \<Longrightarrow> s = s'"
  shows "rrd_target (rv_Object rnewObj) = rrd_target (rv_Object roldObj)"
    and "rrds_PolicyRef (rrd_Spec (rv_Object rnewObj)) = rrds_PolicyRef (rrd_Spec (rv_Object roldObj))"
    and "rrd_Spec (rv_Object roldObj) = rrd_Spec (rv_Object rnewObj) \<and>
        accepts (validateDefaultPolicyForMetadataUpdate env (defaultPolicyReader env)
            RestrictedRoleDefinitionKind RestrictedRoleDefinitionType (rrd_Name (rv_Object rnewObj))
            (rrds_PolicyRef (rrd_Spec (rv_Object rnewObj))) (rv_Meta roldObj) (rv_Meta rnewObj)) \<or>
      accepts (rrdValidateCreate env rnewObj)"
    and "rrds_TargetRole (rrd_Spec (rv_Object rnewObj)) = DefinitionClusterRole \<Longrightarrow>
      (\<forall>key \<in> fst ` set (om_Labels (rv_Meta rnewObj)). \<not> IsProtectedRestrictedLabel key)"
proof -
  let ?old = "rrd_Spec (rv_Object roldObj)" and ?new = "rrd_Spec (rv_Object rnewObj)"
  let ?meta = "validateDefaultPolicyForMetadataUpdate env (defaultPolicyReader env)
            RestrictedRoleDefinitionKind RestrictedRoleDefinitionType (rrd_Name (rv_Object rnewObj))
            (rrds_PolicyRef ?new) (rv_Meta roldObj) (rv_Meta rnewObj)"
  from assms(1) have labels: "rrds_TargetRole ?new = DefinitionClusterRole \<Longrightarrow> rejectProtectedRestrictedRoleLabels rnewObj = None"
    and c: "reflectEqual ?old ?new \<and> accepts ?meta \<or>
      rrds_TargetRole ?old = rrds_TargetRole ?new \<and> rrds_TargetName ?old = rrds_TargetName ?new \<and>
      rrds_TargetNamespace ?old = rrds_TargetNamespace ?new \<and> rrds_PolicyRef ?old = rrds_PolicyRef ?new \<and>
      (?old = ?new \<and> accepts ?meta \<or> accepts (rrdValidateCreate env rnewObj))"
    unfolding rrdValidateUpdate_def rrdValidateCreate_def Let_def
    by (auto simp: accepts_then if_distrib [of accepts] split: if_splits)
  from c assms(2) show "rrd_target (rv_Object rnewObj) = rrd_target (rv_Object roldObj)"
    and "rrds_PolicyRef ?new = rrds_PolicyRef ?old"
    and "?old = ?new \<and> accepts ?meta \<or> accepts (rrdValidateCreate env rnewObj)" by metis+
  show "rrds_TargetRole ?new = DefinitionClusterRole \<Longrightarrow>
      (\<forall>key \<in> fst ` set (om_Labels (rv_Meta rnewObj)). \<not> IsProtectedRestrictedLabel key)"
    using labels by (simp add: protected_labels_ok)
qed

text \<open>Aggregation: an accepted selector picks out fragments of one scope, by labels alone.\<close>

definition fragment_selector :: "LabelSelector \<Rightarrow> bool" where
  "fragment_selector sel \<longleftrightarrow> MatchExpressions sel = [] \<and>
     map_of (MatchLabels sel) aggregateFromFragmentLabelKey = Some aggregateFromFragmentLabelValue \<and>
     (\<exists>scope. scope \<noteq> '''' \<and> map_of (MatchLabels sel) aggregateFromScopeLabelKey = Some scope) \<and>
     fst ` set (MatchLabels sel) = {aggregateFromFragmentLabelKey, aggregateFromScopeLabelKey}"

lemma mindex_ne: "mindex m k = v \<Longrightarrow> v \<noteq> '''' \<Longrightarrow> map_of m k = Some v"
  by (auto simp: mindex_def split: option.splits)

lemma aggregate_selector_ok:
  assumes "validateAggregateFromSelector obj i sel = None"
  shows "fragment_selector sel"
proof -
  have e: "MatchExpressions sel = []"
    and f: "mindex (MatchLabels sel) aggregateFromFragmentLabelKey = aggregateFromFragmentLabelValue"
    and s: "mindex (MatchLabels sel) aggregateFromScopeLabelKey \<noteq> ''''"
    and n: "List.find (\<lambda>(key, _). key \<noteq> aggregateFromFragmentLabelKey \<and> key \<noteq> aggregateFromScopeLabelKey) (MatchLabels sel) = None"
    using assms by (auto simp: validateAggregateFromSelector_def Let_def split: if_splits option.splits)
  have "map_of (MatchLabels sel) aggregateFromFragmentLabelKey = Some aggregateFromFragmentLabelValue"
    by (rule mindex_ne [OF f]) (simp add: aggregateFromFragmentLabelValue_def)
  moreover obtain scope where "scope \<noteq> ''''" "map_of (MatchLabels sel) aggregateFromScopeLabelKey = Some scope"
    using mindex_ne [OF refl s] s by blast
  moreover have "fst ` set (MatchLabels sel) \<subseteq> {aggregateFromFragmentLabelKey, aggregateFromScopeLabelKey}"
    using n find_pair_None [of "\<lambda>key. key \<noteq> aggregateFromFragmentLabelKey \<and> key \<noteq> aggregateFromScopeLabelKey" "MatchLabels sel"]
    by blast
  ultimately show ?thesis using e
    by (auto simp: fragment_selector_def dest: map_of_SomeD intro: rev_image_eqI)
qed

lemma aggregateFromSelectors_ok: "aggregateFromSelectors obj i sels = None \<Longrightarrow> sel \<in> set sels \<Longrightarrow> fragment_selector sel"
  by (induction sels arbitrary: i) (auto dest: aggregate_selector_ok split: if_splits option.splits)

definition no_rbac_aggregation :: "labels \<Rightarrow> bool" where
  "no_rbac_aggregation ls \<longleftrightarrow> (\<forall>key \<in> fst ` set ls. \<not> HasPrefix key kubernetesRBACAggregationLabelPrefix)"

text \<open>What every accepted RoleDefinition satisfies by itself.\<close>

definition rd_wellformed :: "RoleDefinition reviewed \<Rightarrow> bool" where
  "rd_wellformed robj \<longleftrightarrow>
     (let spec = rd_Spec (rv_Object robj) in
      (\<exists>key. rd_target (rv_Object robj) = Some key) \<and> rds_TargetName spec \<noteq> '''' \<and>
      (rds_TargetRole spec = DefinitionNamespacedRole \<longrightarrow> \<not> rds_BreakglassAllowed spec \<and> \<not> rds_MetricsAccessAllowed spec \<and>
         rds_AggregationLabels spec = [] \<and> rds_AggregateFrom spec = None) \<and>
      no_rbac_aggregation (om_Labels (rv_Meta robj)) \<and> no_rbac_aggregation (rds_AggregationLabels spec) \<and>
      distinct (map rag_Name (rds_RestrictedAPIs spec)) \<and>
      (\<forall>sels. rds_AggregateFrom spec = Some sels \<longrightarrow> sels \<noteq> [] \<and> (\<forall>sel \<in> set sels. fragment_selector sel) \<and>
         rds_RestrictedAPIs spec = [] \<and> rds_RestrictedResources spec = [] \<and> rds_RestrictedVerbs spec = [] \<and>
         \<not> rds_MetricsAccessAllowed spec \<and> rds_ConstrainedImpersonation spec = None))"

lemma forbidden_labels_ok: "rejectForbiddenAggregationLabels obj = None \<longleftrightarrow> no_rbac_aggregation (rds_AggregationLabels (rd_Spec obj))"
  using find_pair_None [of "\<lambda>key. HasPrefix key kubernetesRBACAggregationLabelPrefix" "rds_AggregationLabels (rd_Spec obj)"]
  by (auto simp: rejectForbiddenAggregationLabels_def no_rbac_aggregation_def split: option.splits)

lemma forbidden_metadata_ok: "rejectForbiddenMetadataAggregationLabels robj = None \<longleftrightarrow> no_rbac_aggregation (om_Labels (rv_Meta robj))"
  using find_pair_None [of "\<lambda>key. HasPrefix key kubernetesRBACAggregationLabelPrefix" "om_Labels (rv_Meta robj)"]
  by (auto simp: rejectForbiddenMetadataAggregationLabels_def no_rbac_aggregation_def split: option.splits)

lemma rd_spec_accepted:
  assumes "validateRoleDefinitionSpec env robj = None"
  shows "rd_wellformed robj"
proof -
  let ?obj = "rv_Object robj" and ?spec = "rd_Spec (rv_Object robj)"
  have all: "\<forall>errp \<in> set (roleDefinitionChecks env robj). errp = None"
    using assms by (simp add: validateRoleDefinitionSpec_def)
  have fields: "validateRoleTargetFields env ''RoleDefinition'' (rd_Name ?obj) (rds_TargetRole ?spec) (rds_TargetName ?spec) (rds_TargetNamespace ?spec) = None"
    and ns: "rds_TargetRole ?spec = DefinitionNamespacedRole \<Longrightarrow> \<not> rds_BreakglassAllowed ?spec \<and> \<not> rds_MetricsAccessAllowed ?spec"
    and dup: "validateNoDuplicateRestrictedAPIs ?obj = None" and meta: "rejectForbiddenMetadataAggregationLabels robj = None"
    and agg: "rds_TargetRole ?spec \<noteq> DefinitionClusterRole \<Longrightarrow> rds_AggregationLabels ?spec = [] \<and> rds_AggregateFrom ?spec = None"
    and lab: "rds_TargetRole ?spec = DefinitionClusterRole \<Longrightarrow> rejectForbiddenAggregationLabels ?obj = None"
    and aggf: "\<And>sels. rds_AggregateFrom ?spec = Some sels \<Longrightarrow>
      ValidateRoleDefinitionAggregateFrom ?obj sels = None \<and> rds_ConstrainedImpersonation ?spec = None"
    using all by (auto simp: roleDefinitionChecks_def Let_def split: if_splits)
  have "no_rbac_aggregation (rds_AggregationLabels ?spec)"
    using lab agg by (cases "rds_TargetRole ?spec = DefinitionClusterRole") (auto simp: forbidden_labels_ok no_rbac_aggregation_def)
  moreover have "\<And>sels. rds_AggregateFrom ?spec = Some sels \<Longrightarrow> sels \<noteq> [] \<and> (\<forall>sel \<in> set sels. fragment_selector sel) \<and>
      rds_RestrictedAPIs ?spec = [] \<and> rds_RestrictedResources ?spec = [] \<and> rds_RestrictedVerbs ?spec = [] \<and>
      \<not> rds_MetricsAccessAllowed ?spec"
    using aggf by (auto simp: ValidateRoleDefinitionAggregateFrom_def Let_def dest: aggregateFromSelectors_ok split: if_splits)
  moreover have "rds_TargetRole ?spec = DefinitionNamespacedRole \<Longrightarrow> rds_AggregationLabels ?spec = [] \<and> rds_AggregateFrom ?spec = None"
    using agg by (simp add: DefinitionNamespacedRole_def DefinitionClusterRole_def)
  moreover have "distinct (map rag_Name (rds_RestrictedAPIs ?spec))"
    using dup by (simp add: validateNoDuplicateRestrictedAPIs_def duplicateAPI_ok)
  ultimately show ?thesis
    using ns meta aggf target_fields_target [OF fields] fields
    by (auto simp: rd_wellformed_def Let_def forbidden_metadata_ok target_fields_ok)
qed

lemma rd_targets_accepted:
  "accepts (rdTargetChecks env obj) \<Longrightarrow> rd_target obj = Some k \<Longrightarrow> rd_conflict_free env obj"
  unfolding rdTargetChecks_def
  by (rule rd_conflicts_None) (auto simp: accepts_andThen ensure_accept onError_accept)

lemma rd_create_accepted:
  assumes "accepts (rdValidateCreate env robj)"
  shows "rd_wellformed robj" "rd_conflict_free env (rv_Object robj)"
proof -
  have "validateRoleDefinitionSpec env robj = None" "accepts (rdTargetChecks env (rv_Object robj))"
    using assms by (simp_all add: rdValidateCreate_def accepts_then)
  then show "rd_wellformed robj" "rd_conflict_free env (rv_Object robj)"
    using rd_spec_accepted [of env robj] rd_targets_accepted by (auto simp: rd_wellformed_def Let_def)
qed

lemma rd_update_accepted:
  assumes "accepts (rdValidateUpdate env roldObj rnewObj)"
  shows "rd_target (rv_Object rnewObj) = rd_target (rv_Object roldObj)" "accepts (rdValidateCreate env rnewObj)"
  using assms by (simp_all add: rdValidateUpdate_def rdValidateCreate_def Let_def accepts_then)

section \<open>Returning\<close>

definition role_lists_end :: "readers \<Rightarrow> bool" where
  "role_lists_end c \<longleftrightarrow>
     ends (listAdmissionPage (rs_RestrictedRoleDefinitions c) [] None) '''' \<and>
     ends (listAdmissionPage (rs_RoleDefinitions c) [] None) ''''"

lemma conflict_scans_return [returning]:
  assumes "role_lists_end (defaultPolicyReader env)"
  shows "returns (findRestrictedRoleDefinitionTargetNameConflict env rrd)" "returns (findRoleDefinitionTargetNameConflict env rrd)"
    "returns (findRoleDefinitionTargetConflict env rd)" "returns (findRestrictedRoleDefinitionTargetConflict env rd)"
  using assms
  by (auto simp: role_lists_end_def findRestrictedRoleDefinitionTargetNameConflict_def findRoleDefinitionTargetNameConflict_def
      findRoleDefinitionTargetConflict_def findRestrictedRoleDefinitionTargetConflict_def intro: returning)

lemma rrd_spec_returns [returning]:
  "role_lists_end (defaultPolicyReader env) \<Longrightarrow> returns (validateRestrictedRoleDefinitionSpec env robj)"
  unfolding validateRestrictedRoleDefinitionSpec_def Let_def by (intro returning ensure_returns)

lemma rrd_validators_return:
  assumes "role_lists_end (defaultPolicyReader env)" "policy_lists_end (defaultPolicyReader env)"
  shows "returns (rrdValidateCreate env robj)" "returns (rrdValidateUpdate reflectEqual env roldObj robj)"
  using assms unfolding rrdValidateCreate_def rrdValidateUpdate_def Let_def
  by (auto intro!: returning simp: returns_Some split: if_split)

lemma rd_validators_return:
  assumes "role_lists_end (defaultPolicyReader env)"
  shows "returns (rdValidateCreate env robj2)" "returns (rdValidateUpdate env rold2 robj2)"
  using assms unfolding rdValidateCreate_def rdValidateUpdate_def rdTargetChecks_def Let_def
  by (auto intro!: returning simp: returns_Some)

end
