(* ===== verification/Bind_Admission.thy ===== *)
theory Bind_Admission
  imports Role_Admission Namespace_Labels
begin

text \<open>
  The validating webhooks of BindDefinitions and RestrictedBindDefinitions
  (\<^verbatim>\<open>api/authorization/v1alpha1/binddefinition_webhook.go\<close>, \<^verbatim>\<open>restrictedbinddefinition_webhook.go\<close>): subjects,
  namespace selectors, unique target names, names of generated bindings that must not collide, the existence
  of referenced roles, and the assignment of the requester. Warnings of a rejected request are left out.
\<close>

section \<open>Namespace bindings\<close>

definition DefaultNamespaceAdmissionSelectorLabelGroup :: string where
  "DefaultNamespaceAdmissionSelectorLabelGroup = ''t-caas.telekom.com''"

definition namespaceAdmissionSelectorLabelGroupsOrDefault :: "string list \<Rightarrow> string list" where
  "namespaceAdmissionSelectorLabelGroupsOrDefault groups =
     (if groups = [] then [DefaultNamespaceAdmissionSelectorLabelGroup] else groups)"

definition formatNamespaceAdmissionSelectorLabelGroups :: "string list \<Rightarrow> string" where
  "formatNamespaceAdmissionSelectorLabelGroups groups = Join (map (\<lambda>group. group @ ''/*'') groups) '', ''"

definition isLabelSelectorEmpty :: "LabelSelector option \<Rightarrow> bool" where
  "isLabelSelectorEmpty selp =
     (case selp of None \<Rightarrow> True | Some sel \<Rightarrow> MatchLabels sel = [] \<and> MatchExpressions sel = [])"

definition isAllowedNamespaceAdmissionSelectorKey :: "string \<Rightarrow> string list \<Rightarrow> bool" where
  "isAllowedNamespaceAdmissionSelectorKey key allowedLabelGroups =
     (if key = LabelKeyOwner \<or> key = LabelKeyTenant \<or> key = LabelKeyThirdParty \<or> key = LabelKeyAddon \<or>
         key = LabelKeyProtected \<or> key = LabelMetadataName then True
      else list_ex (\<lambda>group. HasPrefix key (group @ ''/''))
             (namespaceAdmissionSelectorLabelGroupsOrDefault allowedLabelGroups))"

definition selectorKeyDetail :: "string list \<Rightarrow> msg" where
  "selectorKeyDetail allowedLabelGroups =
     [Lit ''namespace admission selectors may only use built-in ownership and protection labels ('',
      Lit LabelKeyOwner, Lit '', '', Lit LabelKeyTenant, Lit '', '', Lit LabelKeyThirdParty, Lit '', '', Lit LabelKeyAddon,
      Lit '', '', Lit LabelKeyProtected, Lit ''), '', Lit LabelMetadataName,
      Lit '', or configured label groups matching '', Lit (formatNamespaceAdmissionSelectorLabelGroups allowedLabelGroups)]"

text \<open>The checks of one selector, up to the first error.\<close>

definition namespaceSelectorError ::
  "admission_env \<Rightarrow> string list \<Rightarrow> string \<Rightarrow> LabelSelector \<Rightarrow> fieldError option" where
  "namespaceSelectorError env allowedLabelGroups selectorPath selector =
     (if isLabelSelectorEmpty (Some selector) then None
      else if \<not> AddonNamespaceSelectorIsScoped selector
      then Some (FieldInvalidValue selectorPath (VSelector selector)
        [Lit ''selectors targeting add-on namespaces must pin '', Lit LabelKeyAddon,
         Lit '' to one non-empty matchLabels value or single-value In expression, without conflicting add-on expressions''])
      else (case ae_AsSelector env selector of
         Inl err \<Rightarrow> Some (FieldInvalidValue selectorPath (VSelector selector) [Lit err])
       | Inr _ \<Rightarrow>
           (case List.find (\<lambda>(key, _). \<not> isAllowedNamespaceAdmissionSelectorKey key allowedLabelGroups) (MatchLabels selector) of
              Some (key, _) \<Rightarrow> Some (FieldInvalid (path_key (child selectorPath ''matchLabels'') key) key
                (selectorKeyDetail allowedLabelGroups))
            | None \<Rightarrow>
                (case List.find (\<lambda>(i, expr). \<not> isAllowedNamespaceAdmissionSelectorKey (lsr_Key expr) allowedLabelGroups)
                        (List.enumerate 0 (MatchExpressions selector)) of
                   Some (i, expr) \<Rightarrow> Some (FieldInvalid (child (path_idx (child selectorPath ''matchExpressions'') i) ''key'')
                     (lsr_Key expr) (selectorKeyDetail allowedLabelGroups))
                 | None \<Rightarrow> None))))"

definition namespaceBindingError ::
  "admission_env \<Rightarrow> string list \<Rightarrow> nat \<Rightarrow> NamespaceBinding \<Rightarrow> fieldError option" where
  "namespaceBindingError env allowedLabelGroups i binding =
     (let bindingPath = path_idx ''spec.roleBindings'' i in
      if nb_AuthorizeBeforeBinding binding \<and> (nb_Namespace binding \<noteq> '''' \<or> nb_NamespaceSelector binding = [] \<or>
           length (nb_ClusterRoleRefs binding) + length (nb_RoleRefs binding) = 0)
      then Some (FieldInvalidValue (child bindingPath ''authorizeBeforeBinding'') (VBool True)
        [Lit ''requires a namespaceSelector and at least one role reference, without an explicit namespace''])
      else if (nb_ClusterRoleRefs binding \<noteq> [] \<or> nb_RoleRefs binding \<noteq> []) \<and> nb_Namespace binding = '''' \<and>
           nb_NamespaceSelector binding = []
      then Some (FieldRequired (child bindingPath ''namespace'')
        [Lit ''roleBindings entries with role refs must specify namespace or namespaceSelector''])
      else (case List.find (\<lambda>(j, roleRef). roleRef \<in> set (nb_ClusterRoleRefs binding)) (List.enumerate 0 (nb_RoleRefs binding)) of
         Some (j, roleRef) \<Rightarrow> Some (FieldDuplicate (path_idx (child bindingPath ''roleRefs'') j) (VText [Lit roleRef]))
       | None \<Rightarrow>
           first_some (\<lambda>(j, selector). namespaceSelectorError env allowedLabelGroups
               (path_idx (child bindingPath ''namespaceSelector'') j) selector)
             (List.enumerate 0 (nb_NamespaceSelector binding))))"

definition validateNamespaceBindingsWithLabelGroups ::
  "admission_env \<Rightarrow> string \<Rightarrow> string \<Rightarrow> NamespaceBinding list \<Rightarrow> string list \<Rightarrow> admission_error option" where
  "validateNamespaceBindingsWithLabelGroups env kind name bindings allowedLabelGroups =
     (let groups = namespaceAdmissionSelectorLabelGroupsOrDefault allowedLabelGroups in
      map_option (\<lambda>e. Invalid kind name [e])
        (first_some (\<lambda>(i, binding). namespaceBindingError env groups i binding) (List.enumerate 0 bindings)))"

definition ValidateNamespaceAdmissionSelectorLabelGroups :: "(string \<Rightarrow> string list) \<Rightarrow> string list \<Rightarrow> msg option" where
  "ValidateNamespaceAdmissionSelectorLabelGroups isDNS1123Subdomain groups =
     first_some (\<lambda>group. let errs = isDNS1123Subdomain group in
         if errs \<noteq> [] then Some [Lit ''invalid namespace admission selector label group '', Quo group, Lit '': '', Lit (Join errs ''; '')]
         else None)
       (namespaceAdmissionSelectorLabelGroupsOrDefault groups)"

section \<open>Names of generated bindings\<close>

text \<open>The namespaces a binding selects, less the terminating ones; both webhooks have the same loop.\<close>

fun selectedNamespaces ::
  "admission_env \<Rightarrow> string \<Rightarrow> string \<Rightarrow> nat \<Rightarrow> nat \<Rightarrow> (string, unit) gomap \<Rightarrow> LabelSelector list \<Rightarrow> (string, unit) gomap outcome" where
  "selectedNamespaces env kind objectName bindingIndex i namespaceSet [] = Some (Inr namespaceSet)"
| "selectedNamespaces env kind objectName bindingIndex i namespaceSet (namespaceSelector # rest) =
     (case ae_AsSelector env namespaceSelector of
        Inl err \<Rightarrow> Some (Inl (Invalid kind objectName
          [FieldInvalidValue (path_idx (child (path_idx ''spec.roleBindings'' bindingIndex) ''namespaceSelector'') i)
             (VSelector namespaceSelector) [Lit err]]))
      | Inr selector \<Rightarrow>
          andThen (onError (\<lambda>err. InternalError [Lit ''unable to list namespaces for RoleBinding name collision validation''])
            (collectPages (\<lambda>namespace. if ns_Phase namespace = ''Terminating'' then [] else [ns_Name namespace])
               (listAdmissionPage (rs_Namespaces (defaultPolicyReader env)) [] (Some selector)) '''' []))
          (\<lambda>names. selectedNamespaces env kind objectName bindingIndex (Suc i)
             (fold (\<lambda>name. mput name ()) names namespaceSet) rest))"

definition resolveRoleBindingNamespacesForValidation ::
  "admission_env \<Rightarrow> string \<Rightarrow> NamespaceBinding \<Rightarrow> nat \<Rightarrow> string \<Rightarrow> string list outcome" where
  "resolveRoleBindingNamespacesForValidation env kind binding bindingIndex objectName =
     (if nb_Namespace binding \<noteq> '''' then Some (Inr [nb_Namespace binding])
      else andThen (selectedNamespaces env kind objectName bindingIndex 0 [] (nb_NamespaceSelector binding))
        (\<lambda>namespaceSet. Some (Inr (sort (map fst namespaceSet)))))"

record roleBindingNameClaim =
  claim_roleKind :: string
  claim_roleRef :: string

type_synonym claims = "(string, roleBindingNameClaim) gomap"

definition recordRoleBindingNameClaim ::
  "admission_env \<Rightarrow> string \<Rightarrow> string \<Rightarrow> string \<Rightarrow> claims \<Rightarrow> string \<Rightarrow> string \<Rightarrow> string \<Rightarrow> string \<Rightarrow> claims outcome" where
  "recordRoleBindingNameClaim env kind objectName targetName claims namespace roleKind roleRef fldPath =
     (let bindingName = BuildBindingName (ae_Hash env) targetName roleRef; key = namespace @ ''/'' @ bindingName in
      case mlookup claims key of
        Some existing \<Rightarrow>
          if claim_roleKind existing = roleKind \<and> claim_roleRef existing = roleRef then Some (Inr claims)
          else Some (Inl (Invalid kind objectName [FieldDuplicate fldPath
            (VText [Lit roleKind, Lit '' '', Quo roleRef, Lit '' collides with '', Lit (claim_roleKind existing), Lit '' '',
               Quo (claim_roleRef existing), Lit '' at '', Lit namespace, Lit ''/'', Lit bindingName])]))
      | None \<Rightarrow> Some (Inr (mput key \<lparr>claim_roleKind = roleKind, claim_roleRef = roleRef\<rparr> claims)))"

fun claimRefs ::
  "admission_env \<Rightarrow> string \<Rightarrow> string \<Rightarrow> string \<Rightarrow> string \<Rightarrow> string \<Rightarrow> string \<Rightarrow> nat \<Rightarrow> string list \<Rightarrow> claims \<Rightarrow> claims outcome" where
  "claimRefs env kind objectName targetName namespace roleKind fldPath i [] claims = Some (Inr claims)"
| "claimRefs env kind objectName targetName namespace roleKind fldPath i (roleRef # rest) claims =
     andThen (recordRoleBindingNameClaim env kind objectName targetName claims namespace roleKind roleRef (path_idx fldPath i))
       (claimRefs env kind objectName targetName namespace roleKind fldPath (Suc i) rest)"

fun claimNamespaces ::
  "admission_env \<Rightarrow> string \<Rightarrow> string \<Rightarrow> string \<Rightarrow> NamespaceBinding \<Rightarrow> nat \<Rightarrow> string list \<Rightarrow> claims \<Rightarrow> claims outcome" where
  "claimNamespaces env kind objectName targetName binding i [] claims = Some (Inr claims)"
| "claimNamespaces env kind objectName targetName binding i (namespace # rest) claims =
     andThen (claimRefs env kind objectName targetName namespace ''ClusterRole''
       (child (path_idx ''spec.roleBindings'' i) ''clusterRoleRefs'') 0 (nb_ClusterRoleRefs binding) claims) (\<lambda>claims.
     andThen (claimRefs env kind objectName targetName namespace ''Role''
       (child (path_idx ''spec.roleBindings'' i) ''roleRefs'') 0 (nb_RoleRefs binding) claims) (\<lambda>claims.
     claimNamespaces env kind objectName targetName binding i rest claims))"

fun claimBindings ::
  "admission_env \<Rightarrow> string \<Rightarrow> string \<Rightarrow> string \<Rightarrow> nat \<Rightarrow> NamespaceBinding list \<Rightarrow> claims \<Rightarrow> claims outcome" where
  "claimBindings env kind objectName targetName i [] claims = Some (Inr claims)"
| "claimBindings env kind objectName targetName i (binding # rest) claims =
     andThen (resolveRoleBindingNamespacesForValidation env kind binding i objectName) (\<lambda>namespaces.
     andThen (claimNamespaces env kind objectName targetName binding i namespaces claims) (\<lambda>claims.
     claimBindings env kind objectName targetName (Suc i) rest claims))"

definition validateRoleBindingNameCollisionClaims ::
  "admission_env \<Rightarrow> string \<Rightarrow> string \<Rightarrow> string \<Rightarrow> string list \<Rightarrow> NamespaceBinding list \<Rightarrow> unit outcome" where
  "validateRoleBindingNameCollisionClaims env kind objectName targetName clusterRoleRefs bindings =
     andThen (claimRefs env kind objectName targetName '''' ''ClusterRole''
       ''spec.clusterRoleBindings.clusterRoleRefs'' 0 clusterRoleRefs []) (\<lambda>claims.
     andThen (claimBindings env kind objectName targetName 0 bindings claims) (\<lambda>_.
     ensure None))"

section \<open>Subjects\<close>

definition subjectErrors :: "admission_env \<Rightarrow> nat \<Rightarrow> Subject \<Rightarrow> fieldError list" where
  "subjectErrors env i subject =
     (let subjectPath = path_idx ''spec.subjects'' i in
      (if subj_Name subject = '''' then [FieldRequired (child subjectPath ''name'') [Lit ''subject name is required'']] else []) @
      (if subj_Kind subject = UserKind \<or> subj_Kind subject = GroupKind then
         (if subj_APIGroup subject \<noteq> rbacGroupName
          then [FieldInvalid (child subjectPath ''apiGroup'') (subj_APIGroup subject)
                  [Lit ''User and Group subjects must use '', Lit rbacGroupName]] else []) @
         (if subj_Namespace subject \<noteq> ''''
          then [FieldForbidden (child subjectPath ''namespace'') [Lit ''User and Group subjects must not set namespace'']] else [])
       else if subj_Kind subject = ServiceAccountKind then
         (if subj_APIGroup subject \<noteq> ''''
          then [FieldForbidden (child subjectPath ''apiGroup'') [Lit ''ServiceAccount subjects must not set apiGroup'']] else []) @
         (if subj_Namespace subject = ''''
          then [FieldRequired (child subjectPath ''namespace'') [Lit ''ServiceAccount subjects must specify a namespace'']]
          else map (\<lambda>m. FieldInvalid (child subjectPath ''namespace'') (subj_Namespace subject) [Lit m])
                 (ae_IsDNS1123Label env (subj_Namespace subject)))
       else [FieldNotSupported (child subjectPath ''kind'') (subj_Kind subject) [UserKind, GroupKind, ServiceAccountKind]]))"

definition validateBindDefinitionSubjects :: "admission_env \<Rightarrow> string \<Rightarrow> string \<Rightarrow> Subject list \<Rightarrow> admission_error option" where
  "validateBindDefinitionSubjects env kind name subjects =
     invalidUnlessEmpty kind name (for_range (subjectErrors env) subjects)"

definition validateRestrictedBindDefinitionSubjects ::
  "admission_env \<Rightarrow> string \<Rightarrow> string \<Rightarrow> Subject list \<Rightarrow> admission_error option" where
  "validateRestrictedBindDefinitionSubjects env kind name subjects =
     invalidUnlessEmpty kind name (for_range (subjectErrors env) subjects)"

section \<open>RestrictedBindDefinitions\<close>

definition transientOr :: "string \<Rightarrow> string \<Rightarrow> go_error \<Rightarrow> admission_error" where
  "transientOr transient permanent err =
     (if IsTimeout err \<or> IsServerTimeout err \<or> IsServiceUnavailable err then InternalError [Lit transient]
      else InternalError [Lit permanent])"

definition rbdFindRestrictedBindDefinitionTargetNameConflict ::
  "admission_env \<Rightarrow> RestrictedBindDefinition \<Rightarrow> (go_error + RestrictedBindDefinition option) option" where
  "rbdFindRestrictedBindDefinitionTargetNameConflict env obj =
     scanPages (\<lambda>existing.
       if rbds_TargetName (rbd_Spec existing) = rbds_TargetName (rbd_Spec obj) \<and> rbd_Name existing \<noteq> rbd_Name obj
       then Some existing else None)
       (listAdmissionPage (rs_RestrictedBindDefinitions (defaultPolicyReader env)) [] None) ''''"

definition rbdFindBindDefinitionTargetNameConflict ::
  "admission_env \<Rightarrow> RestrictedBindDefinition \<Rightarrow> (go_error + BindDefinition option) option" where
  "rbdFindBindDefinitionTargetNameConflict env obj =
     scanPages (\<lambda>existing. if bds_TargetName (bd_Spec existing) = rbds_TargetName (rbd_Spec obj) then Some existing else None)
       (listAdmissionPage (rs_BindDefinitions (defaultPolicyReader env)) [] None) ''''"

definition validateRestrictedBindDefinitionSpec :: "admission_env \<Rightarrow> RestrictedBindDefinition \<Rightarrow> unit outcome" where
  "validateRestrictedBindDefinitionSpec env obj =
     (let spec = rbd_Spec obj; kind = RestrictedBindDefinitionKind in
      andThen (ensure (map_option (\<lambda>(i, binding). Invalid kind (rbd_Name obj)
          [FieldForbidden (child (path_idx ''spec.roleBindings'' i) ''authorizeBeforeBinding'')
             [Lit ''authorization bridging is only supported on BindDefinition'']])
        (List.find (\<lambda>(i, binding). nb_AuthorizeBeforeBinding binding) (List.enumerate 0 (rbds_RoleBindings spec))))) (\<lambda>_.
      andThen (onError (transientOr ''transient error listing RestrictedBindDefinitions'' ''unable to list RestrictedBindDefinitions'')
        (rbdFindRestrictedBindDefinitionTargetNameConflict env obj)) (\<lambda>existingRBD.
      andThen (ensure (map_option (\<lambda>existing. duplicateTarget kind (rbd_Name obj) (rbds_TargetName spec)
        ''RestrictedBindDefinition'' (rbd_Name existing)) existingRBD)) (\<lambda>_.
      andThen (onError (transientOr ''transient error listing BindDefinitions'' ''unable to list BindDefinitions'')
        (rbdFindBindDefinitionTargetNameConflict env obj)) (\<lambda>existingBD.
      andThen (ensure (map_option (\<lambda>existing. duplicateTarget kind (rbd_Name obj) (rbds_TargetName spec)
        ''BindDefinition'' (bd_Name existing)) existingBD)) (\<lambda>_.
      andThen (ensure (validateRestrictedBindDefinitionSubjects env kind (rbd_Name obj) (rbds_Subjects spec))) (\<lambda>_.
      andThen (ensure (validateNamespaceBindingsWithLabelGroups env kind (rbd_Name obj) (rbds_RoleBindings spec) (ae_LabelGroups env))) (\<lambda>_.
      validateRoleBindingNameCollisionClaims env kind (rbd_Name obj) (rbds_TargetName spec)
        (case rbds_ClusterRoleBindings spec of None \<Rightarrow> [] | Some crb \<Rightarrow> cb_ClusterRoleRefs crb) (rbds_RoleBindings spec)))))))))"

definition selectorWarning :: "RBACPolicy \<Rightarrow> msg list" where
  "selectorWarning rbacPolicy =
     (let byTarget = (case ps_BindingLimits (policy_Spec rbacPolicy) of
            None \<Rightarrow> False
          | Some bl \<Rightarrow> (case bl_TargetNamespaceLimits bl of None \<Rightarrow> False | Some tnl \<Rightarrow> nl_AllowedNamespaceSelector tnl \<noteq> None));
          bySubject = (case ps_SubjectLimits (policy_Spec rbacPolicy) of
            None \<Rightarrow> False
          | Some sl \<Rightarrow> (case sl_ServiceAccountLimits sl of None \<Rightarrow> False | Some sal \<Rightarrow> sal_AllowedNamespaceSelector sal \<noteq> None)) in
      if byTarget \<or> bySubject
      then [[Lit ''AllowedNamespaceSelector constraints will be enforced at reconciliation time, not at admission'']] else [])"

definition rbdValidatePolicyRefExists :: "admission_env \<Rightarrow> RestrictedBindDefinition \<Rightarrow> msg list outcome" where
  "rbdValidatePolicyRefExists env obj =
     (let policyRef = rbds_PolicyRef (rbd_Spec obj) in
      case rs_GetPolicy (defaultPolicyReader env) policyRef of
        Missing \<Rightarrow> Some (Inl (Invalid RestrictedBindDefinitionKind (rbd_Name obj) [FieldNotFound policyRefPath policyRef]))
      | ReadError err \<Rightarrow> Some (Inl (transientOr ''transient error validating policy reference'' ''unable to validate policy reference'' err))
      | Got (rbacPolicy, deleting) \<Rightarrow>
          if deleting then Some (Inl (invalidDeletingPolicyRef RestrictedBindDefinitionKind (rbd_Name obj) policyRef))
          else Some (Inr (selectorWarning rbacPolicy)))"

definition rbdChecks :: "admission_env \<Rightarrow> RestrictedBindDefinition \<Rightarrow> msg list outcome" where
  "rbdChecks env obj =
     andThen (validateRestrictedBindDefinitionSpec env obj) (\<lambda>_.
     andThen (rbdValidatePolicyRefExists env obj) (\<lambda>warnings.
     andThen (validateDefaultPolicyForRequester env (defaultPolicyReader env) RestrictedBindDefinitionKind
       (rbd_Name obj) (rbds_PolicyRef (rbd_Spec obj))) (\<lambda>_.
     Some (Inr warnings))))"

definition rbdValidateCreate :: "admission_env \<Rightarrow> RestrictedBindDefinition reviewed \<Rightarrow> msg list outcome" where
  "rbdValidateCreate env robj = rbdChecks env (rv_Object robj)"

definition rbdValidateUpdate ::
  "(RestrictedBindDefinitionSpec \<Rightarrow> RestrictedBindDefinitionSpec \<Rightarrow> bool) \<Rightarrow> admission_env \<Rightarrow>
   RestrictedBindDefinition reviewed \<Rightarrow> RestrictedBindDefinition reviewed \<Rightarrow> msg list outcome" where
  "rbdValidateUpdate reflectEqual env roldObj rnewObj =
     (let oldSpec = rbd_Spec (rv_Object roldObj); newObj = rv_Object rnewObj; newSpec = rbd_Spec newObj;
          metadataUpdate = andThen (validateDefaultPolicyForMetadataUpdate env (defaultPolicyReader env)
            RestrictedBindDefinitionKind RestrictedBindDefinitionType (rbd_Name newObj) (rbds_PolicyRef newSpec)
            (rv_Meta roldObj) (rv_Meta rnewObj)) (\<lambda>_. Some (Inr []));
          allErrs = immutableError ''spec.targetName'' (rbds_TargetName oldSpec \<noteq> rbds_TargetName newSpec) @
            immutableError ''spec.policyRef.name'' (rbds_PolicyRef oldSpec \<noteq> rbds_PolicyRef newSpec) in
      if reflectEqual oldSpec newSpec then metadataUpdate
      else
        andThen (ensure (invalidUnlessEmpty RestrictedBindDefinitionKind (rbd_Name newObj) allErrs)) (\<lambda>_.
        if oldSpec = newSpec then metadataUpdate else rbdChecks env newObj))"

definition rbdValidateDelete :: "RestrictedBindDefinition \<Rightarrow> msg list outcome" where
  "rbdValidateDelete obj = Some (Inr [])"

section \<open>BindDefinitions\<close>

definition BindDefinitionKind :: string where "BindDefinitionKind = ''BindDefinition''"
definition MissingRolePolicyAnnotation :: string where
  "MissingRolePolicyAnnotation = ''authorization.t-caas.telekom.com/missing-role-policy''"
definition MissingRolePolicyIgnore :: string where "MissingRolePolicyIgnore = ''ignore''"
definition MissingRolePolicyWarn :: string where "MissingRolePolicyWarn = ''warn''"
definition MissingRolePolicyError :: string where "MissingRolePolicyError = ''error''"

definition GetMissingRolePolicy :: "object_meta \<Rightarrow> string" where
  "GetMissingRolePolicy meta =
     (case mlookup (om_Annotations meta) MissingRolePolicyAnnotation of
        None \<Rightarrow> MissingRolePolicyWarn
      | Some v \<Rightarrow> if v = MissingRolePolicyIgnore \<or> v = MissingRolePolicyWarn \<or> v = MissingRolePolicyError then v
          else MissingRolePolicyWarn)"

definition validateBindDefinitionRequiredFields :: "string \<Rightarrow> BindDefinition \<Rightarrow> admission_error option" where
  "validateBindDefinitionRequiredFields kind obj =
     (let spec = bd_Spec obj;
          hasReferencedRole = (cb_ClusterRoleRefs (bds_ClusterRoleBindings spec) \<noteq> [] \<or>
            list_ex (\<lambda>binding. nb_ClusterRoleRefs binding \<noteq> [] \<or> nb_RoleRefs binding \<noteq> []) (bds_RoleBindings spec)) in
      invalidUnlessEmpty kind (bd_Name obj)
        ((if bds_TargetName spec = '''' then [FieldRequired ''spec.targetName'' [Lit ''targetName is required'']] else []) @
         (if bds_Subjects spec = [] then [FieldRequired ''spec.subjects'' [Lit ''at least one subject must be specified'']] else []) @
         (if \<not> hasReferencedRole
          then [FieldRequired ''spec'' [Lit ''at least one binding with a referenced role must be specified'']] else [])))"

text \<open>The loop over the external references, with the keys it has seen.\<close>

fun externalRefErrors ::
  "admission_env \<Rightarrow> (string, unit) gomap \<Rightarrow> nat \<Rightarrow> (string, unit) gomap \<Rightarrow> SARef list \<Rightarrow> fieldError list" where
  "externalRefErrors env subjects i seen [] = []"
| "externalRefErrors env subjects i seen (ref # rest) =
     (let refPath = path_idx ''spec.externalServiceAccountRefs'' i; key = sar_Namespace ref @ ''/'' @ sar_Name ref in
      (if sar_Name ref = '''' then [FieldRequired (child refPath ''name'') [Lit ''ServiceAccount name is required'']] else []) @
      (if sar_Namespace ref = ''''
       then [FieldRequired (child refPath ''namespace'') [Lit ''ServiceAccount namespace is required'']]
       else map (\<lambda>m. FieldInvalid (child refPath ''namespace'') (sar_Namespace ref) [Lit m]) (ae_IsDNS1123Label env (sar_Namespace ref))) @
      (if mlookup seen key \<noteq> None then [FieldDuplicate refPath (VServiceAccount ref)] else []) @
      (if sar_Name ref \<noteq> '''' \<and> sar_Namespace ref \<noteq> '''' \<and> mlookup subjects key = None
       then [FieldInvalidValue refPath (VServiceAccount ref) [Lit ''must reference a ServiceAccount listed in spec.subjects'']] else []) @
      externalRefErrors env subjects (Suc i) (mput key () seen) rest)"

definition validateExternalServiceAccountRefs ::
  "admission_env \<Rightarrow> string \<Rightarrow> string \<Rightarrow> BindDefinitionSpec \<Rightarrow> admission_error option" where
  "validateExternalServiceAccountRefs env kind name spec =
     (if bds_ExternalServiceAccountRefs spec = [] then None
      else
        let subjects = stringSet (map (\<lambda>subject. subj_Namespace subject @ ''/'' @ subj_Name subject)
              (filter (\<lambda>subject. subj_Kind subject = ServiceAccountKind) (bds_Subjects spec))) in
        invalidUnlessEmpty kind name (externalRefErrors env subjects 0 [] (bds_ExternalServiceAccountRefs spec)))"

definition bdFindBindDefinitionTargetNameConflict ::
  "admission_env \<Rightarrow> BindDefinition \<Rightarrow> (go_error + BindDefinition option) option" where
  "bdFindBindDefinitionTargetNameConflict env obj =
     scanPages (\<lambda>existing.
       if bds_TargetName (bd_Spec existing) = bds_TargetName (bd_Spec obj) \<and> bd_Name existing \<noteq> bd_Name obj
       then Some existing else None)
       (listAdmissionPage (rs_BindDefinitions (defaultPolicyReader env)) [] None) ''''"

definition bdFindRestrictedBindDefinitionTargetNameConflict ::
  "admission_env \<Rightarrow> BindDefinition \<Rightarrow> (go_error + RestrictedBindDefinition option) option" where
  "bdFindRestrictedBindDefinitionTargetNameConflict env obj =
     scanPages (\<lambda>existing. if rbds_TargetName (rbd_Spec existing) = bds_TargetName (bd_Spec obj) then Some existing else None)
       (listAdmissionPage (rs_RestrictedBindDefinitions (defaultPolicyReader env)) [] None) ''''"

text \<open>
  The existence checks: the warnings, the missing roles, and the two caches of roles already looked up.
\<close>

record role_checks =
  rc_Warnings :: "msg list"
  rc_Missing :: "string list"
  rc_ClusterRoles :: "(string, bool) gomap"
  rc_Roles :: "(string, bool) gomap"

definition addMissing :: "string \<Rightarrow> role_checks \<Rightarrow> role_checks" where
  "addMissing ref st = (if ref \<in> set (rc_Missing st) then st else st\<lparr>rc_Missing := rc_Missing st @ [ref]\<rparr>)"

definition checkClusterRole :: "admission_env \<Rightarrow> string \<Rightarrow> role_checks \<Rightarrow> role_checks outcome" where
  "checkClusterRole env clusterRoleRef st =
     (let ref = ''ClusterRole/'' @ clusterRoleRef in
      case mlookup (rc_ClusterRoles st) clusterRoleRef of
        Some exists \<Rightarrow> Some (Inr (if \<not> exists then addMissing ref st else st))
      | None \<Rightarrow>
          (case rs_GetRole (defaultPolicyReader env) (ClusterRoleKey clusterRoleRef) of
             Missing \<Rightarrow> Some (Inr (addMissing ref (st\<lparr>rc_ClusterRoles := mput clusterRoleRef False (rc_ClusterRoles st)\<rparr>)))
           | ReadError err \<Rightarrow> Some (Inl (InternalError [Lit ''unable to fetch ClusterRole'']))
           | Got role \<Rightarrow> Some (Inr (st\<lparr>rc_ClusterRoles := mput clusterRoleRef True (rc_ClusterRoles st)\<rparr>))))"

definition checkRoleExists :: "admission_env \<Rightarrow> string \<Rightarrow> string \<Rightarrow> role_checks \<Rightarrow> role_checks outcome" where
  "checkRoleExists env namespace roleRef st =
     (let roleKey = namespace @ ''/'' @ roleRef; ref = ''Role/'' @ namespace @ ''/'' @ roleRef in
      case mlookup (rc_Roles st) roleKey of
        Some exists \<Rightarrow> Some (Inr (if \<not> exists then addMissing ref st else st))
      | None \<Rightarrow>
          (case rs_GetRole (defaultPolicyReader env) (RoleKey namespace roleRef) of
             Missing \<Rightarrow> Some (Inr (addMissing ref (st\<lparr>rc_Roles := mput roleKey False (rc_Roles st)\<rparr>)))
           | ReadError err \<Rightarrow> Some (Inl (InternalError [Lit ''unable to validate role reference'']))
           | Got role \<Rightarrow> Some (Inr (st\<lparr>rc_Roles := mput roleKey True (rc_Roles st)\<rparr>))))"

fun eachOf :: "('a \<Rightarrow> role_checks \<Rightarrow> role_checks outcome) \<Rightarrow> 'a list \<Rightarrow> role_checks \<Rightarrow> role_checks outcome" where
  "eachOf f [] st = Some (Inr st)"
| "eachOf f (x # xs) st = andThen (f x st) (eachOf f xs)"

text \<open>All namespaces the selectors match, with their phase; the last read of a namespace counts.\<close>

fun listedNamespaces :: "admission_env \<Rightarrow> (string, Namespace) gomap \<Rightarrow> LabelSelector list \<Rightarrow> (string, Namespace) gomap outcome" where
  "listedNamespaces env namespaceSet [] = Some (Inr namespaceSet)"
| "listedNamespaces env namespaceSet (nsSelector # rest) =
     (case ae_AsSelector env nsSelector of
        Inl err \<Rightarrow> Some (Inl (BadRequest [Lit ''invalid namespaceSelector: '', Lit err]))
      | Inr selector \<Rightarrow>
          andThen (onError (\<lambda>err. InternalError [Lit ''unable to list namespaces''])
            (collectPages (\<lambda>ns. [ns])
               (listAdmissionPage (rs_Namespaces (defaultPolicyReader env)) [] (Some selector)) '''' []))
          (\<lambda>items. listedNamespaces env (fold (\<lambda>ns. mput (ns_Name ns) ns) items namespaceSet) rest))"

definition emDash :: string where "emDash = [CHR 0xE2, CHR 0x80, CHR 0x94]"

definition checkRoleBinding :: "admission_env \<Rightarrow> NamespaceBinding \<Rightarrow> role_checks \<Rightarrow> role_checks outcome" where
  "checkRoleBinding env roleBinding st0 =
     andThen (eachOf (checkClusterRole env) (nb_ClusterRoleRefs roleBinding) st0) (\<lambda>st.
     if nb_NamespaceSelector roleBinding \<noteq> [] then
       andThen (listedNamespaces env [] (nb_NamespaceSelector roleBinding)) (\<lambda>namespaceSet.
       eachOf (\<lambda>nsName st.
           case mlookup namespaceSet nsName of
             None \<Rightarrow> Some (Inr st)
           | Some ns \<Rightarrow>
               if ns_Phase ns = ''Terminating'' then Some (Inr st)
               else eachOf (checkRoleExists env (ns_Name ns)) (nb_RoleRefs roleBinding) st)
         (sort (map fst namespaceSet)) st)
     else if nb_Namespace roleBinding \<noteq> '''' then
       (case rs_GetNamespace (defaultPolicyReader env) (nb_Namespace roleBinding) of
          Missing \<Rightarrow> Some (Inr (st\<lparr>rc_Warnings := rc_Warnings st @
            [[Lit ''namespace '', Quo (nb_Namespace roleBinding),
              Lit '' does not exist yet '', Lit emDash,
              Lit '' role references will be validated once it is created'']]\<rparr>))
        | ReadError err \<Rightarrow> Some (Inl (InternalError [Lit ''unable to get namespace'']))
        | Got ns \<Rightarrow>
            if ns_Phase ns = ''Terminating'' then Some (Inr st)
            else eachOf (checkRoleExists env (nb_Namespace roleBinding)) (nb_RoleRefs roleBinding) st)
     else Some (Inr st))"

definition checkReferencedRoles :: "admission_env \<Rightarrow> BindDefinitionSpec \<Rightarrow> role_checks outcome" where
  "checkReferencedRoles env spec =
     andThen (eachOf (checkClusterRole env) (cb_ClusterRoleRefs (bds_ClusterRoleBindings spec))
       \<lparr>rc_Warnings = [], rc_Missing = [], rc_ClusterRoles = [], rc_Roles = []\<rparr>)
     (eachOf (checkRoleBinding env) (bds_RoleBindings spec))"

definition missingRolesAnswer :: "bool \<Rightarrow> role_checks \<Rightarrow> msg list outcome" where
  "missingRolesAnswer blockOnMissing st =
     (if rc_Missing st = [] then Some (Inr (rc_Warnings st))
      else
        let missingRoles = sort (rc_Missing st) in
        if blockOnMissing
        then Some (Inl (BadRequest [Lit ''missing-role-policy is 'error': referenced roles do not exist: ['', Lit (Join missingRoles '' ''), Lit '']'']))
        else Some (Inr (rc_Warnings st @
          map (\<lambda>ref. [Lit ref, Lit '' not found - binding will be created but ineffective until the role exists'']) missingRoles)))"

definition validateBindDefinitionSpec :: "admission_env \<Rightarrow> BindDefinition reviewed \<Rightarrow> msg list outcome" where
  "validateBindDefinitionSpec env robj =
     (let r = rv_Object robj; spec = bd_Spec r; kind = BindDefinitionKind in
      andThen (ensure (validateBindDefinitionRequiredFields kind r)) (\<lambda>_.
      andThen (ensure (validateBindDefinitionSubjects env kind (bd_Name r) (bds_Subjects spec))) (\<lambda>_.
      andThen (ensure (validateExternalServiceAccountRefs env kind (bd_Name r) spec)) (\<lambda>_.
      andThen (onError (\<lambda>err. InternalError [Lit ''unable to list BindDefinitions''])
        (bdFindBindDefinitionTargetNameConflict env r)) (\<lambda>existingBD.
      andThen (ensure (map_option (\<lambda>existing. BadRequest [Lit ''targetName '', Lit (bds_TargetName spec),
        Lit '' is already in use by BindDefinition '', Quo (bd_Name existing)]) existingBD)) (\<lambda>_.
      andThen (onError (\<lambda>err. InternalError [Lit ''unable to list RestrictedBindDefinitions''])
        (bdFindRestrictedBindDefinitionTargetNameConflict env r)) (\<lambda>existingRBD.
      andThen (ensure (map_option (\<lambda>existing. BadRequest [Lit ''targetName '', Lit (bds_TargetName spec),
        Lit '' is already in use by RestrictedBindDefinition '', Quo (rbd_Name existing)]) existingRBD)) (\<lambda>_.
      andThen (ensure (validateNamespaceBindingsWithLabelGroups env kind (bd_Name r) (bds_RoleBindings spec) (ae_LabelGroups env))) (\<lambda>_.
      andThen (validateRoleBindingNameCollisionClaims env kind (bd_Name r) (bds_TargetName spec) [] (bds_RoleBindings spec)) (\<lambda>_.
      let policy = GetMissingRolePolicy (rv_Meta robj) in
      if policy = MissingRolePolicyIgnore then Some (Inr [])
      else andThen (checkReferencedRoles env spec) (missingRolesAnswer (policy = MissingRolePolicyError))))))))))))"

definition bdValidateCreate :: "admission_env \<Rightarrow> BindDefinition reviewed \<Rightarrow> msg list outcome" where
  "bdValidateCreate env robj = validateBindDefinitionSpec env robj"

definition bdValidateUpdate :: "admission_env \<Rightarrow> BindDefinition reviewed \<Rightarrow> BindDefinition reviewed \<Rightarrow> msg list outcome" where
  "bdValidateUpdate env roldObj rnewObj =
     (let oldSpec = bd_Spec (rv_Object roldObj); newSpec = bd_Spec (rv_Object rnewObj) in
      if bds_TargetName oldSpec \<noteq> bds_TargetName newSpec
      then Some (Inl (Invalid BindDefinitionKind (bd_Name (rv_Object rnewObj)) (immutableError ''spec.targetName'' True)))
      else if oldSpec = newSpec \<and> GetMissingRolePolicy (rv_Meta roldObj) = GetMissingRolePolicy (rv_Meta rnewObj)
      then Some (Inr [])
      else validateBindDefinitionSpec env rnewObj)"

definition bdValidateDelete :: "BindDefinition \<Rightarrow> msg list outcome" where
  "bdValidateDelete obj = Some (Inr [])"

section \<open>Accepted definitions\<close>

lemma subjectErrors_ok [checks]:
  "subjectErrors env i subject = [] \<longleftrightarrow> subj_Name subject \<noteq> '''' \<and>
     (subj_Kind subject \<in> {UserKind, GroupKind} \<and> subj_APIGroup subject = rbacGroupName \<and> subj_Namespace subject = '''' \<or>
      subj_Kind subject = ServiceAccountKind \<and> subj_APIGroup subject = '''' \<and> subj_Namespace subject \<noteq> '''' \<and>
        ae_IsDNS1123Label env (subj_Namespace subject) = [])"
  by (auto simp: subjectErrors_def Let_def UserKind_def GroupKind_def ServiceAccountKind_def)

definition subject_ok :: "admission_env \<Rightarrow> Subject \<Rightarrow> bool" where
  "subject_ok env subject \<longleftrightarrow> subj_Name subject \<noteq> '''' \<and>
     (subj_Kind subject \<in> {UserKind, GroupKind} \<and> subj_APIGroup subject = rbacGroupName \<and> subj_Namespace subject = '''' \<or>
      subj_Kind subject = ServiceAccountKind \<and> subj_APIGroup subject = '''' \<and> subj_Namespace subject \<noteq> '''' \<and>
        ae_IsDNS1123Label env (subj_Namespace subject) = [])"

lemma subjects_ok:
  "for_range (subjectErrors env) subjects = [] \<longleftrightarrow> (\<forall>subject \<in> set subjects. subject_ok env subject)"
  by (rule for_range_ok) (simp add: subjectErrors_ok subject_ok_def)

text \<open>Conflicts: the complete listings show no other definition of the same target name.\<close>

definition bind_conflict_free :: "admission_env \<Rightarrow> string \<Rightarrow> (RestrictedBindDefinition \<Rightarrow> bool) \<Rightarrow> (BindDefinition \<Rightarrow> bool) \<Rightarrow> bool" where
  "bind_conflict_free env targetName otherRBD otherBD \<longleftrightarrow>
     (\<exists>rbds. served (listAdmissionPage (rs_RestrictedBindDefinitions (defaultPolicyReader env)) [] None) '''' rbds \<and>
        (\<forall>existing \<in> set rbds. otherRBD existing \<longrightarrow> rbds_TargetName (rbd_Spec existing) \<noteq> targetName)) \<and>
     (\<exists>bds. served (listAdmissionPage (rs_BindDefinitions (defaultPolicyReader env)) [] None) '''' bds \<and>
        (\<forall>existing \<in> set bds. otherBD existing \<longrightarrow> bds_TargetName (bd_Spec existing) \<noteq> targetName))"

lemma rbd_spec_accepted:
  assumes "accepts (validateRestrictedBindDefinitionSpec env obj)"
  shows "bind_conflict_free env (rbds_TargetName (rbd_Spec obj)) (\<lambda>existing. rbd_Name existing \<noteq> rbd_Name obj) (\<lambda>_. True)"
    and "\<forall>subject \<in> set (rbds_Subjects (rbd_Spec obj)). subject_ok env subject"
    and "accepts (validateRoleBindingNameCollisionClaims env RestrictedBindDefinitionKind (rbd_Name obj) (rbds_TargetName (rbd_Spec obj))
        (case rbds_ClusterRoleBindings (rbd_Spec obj) of None \<Rightarrow> [] | Some crb \<Rightarrow> cb_ClusterRoleRefs crb) (rbds_RoleBindings (rbd_Spec obj)))"
proof -
  have conf: "rbdFindRestrictedBindDefinitionTargetNameConflict env obj = Some (Inr None)"
      "rbdFindBindDefinitionTargetNameConflict env obj = Some (Inr None)"
    and subj: "validateRestrictedBindDefinitionSubjects env RestrictedBindDefinitionKind (rbd_Name obj) (rbds_Subjects (rbd_Spec obj)) = None"
    and claims: "accepts (validateRoleBindingNameCollisionClaims env RestrictedBindDefinitionKind (rbd_Name obj) (rbds_TargetName (rbd_Spec obj))
        (case rbds_ClusterRoleBindings (rbd_Spec obj) of None \<Rightarrow> [] | Some crb \<Rightarrow> cb_ClusterRoleRefs crb) (rbds_RoleBindings (rbd_Spec obj)))"
    using assms unfolding validateRestrictedBindDefinitionSpec_def Let_def
    by (auto simp: accepts_andThen ensure_accept onError_accept)
  from scanPages_if_None [OF conf(1) [unfolded rbdFindRestrictedBindDefinitionTargetNameConflict_def]]
    scanPages_if_None [OF conf(2) [unfolded rbdFindBindDefinitionTargetNameConflict_def]]
  show "bind_conflict_free env (rbds_TargetName (rbd_Spec obj)) (\<lambda>existing. rbd_Name existing \<noteq> rbd_Name obj) (\<lambda>_. True)"
    unfolding bind_conflict_free_def by blast
  show "\<forall>subject \<in> set (rbds_Subjects (rbd_Spec obj)). subject_ok env subject"
    using subj by (simp add: validateRestrictedBindDefinitionSubjects_def subjects_ok)
qed (use assms in \<open>auto simp: validateRestrictedBindDefinitionSpec_def Let_def accepts_andThen\<close>)

lemma rbd_create_accepted:
  assumes "accepts (rbdValidateCreate env robj)"
  shows "accepts (validateRestrictedBindDefinitionSpec env (rv_Object robj))"
    and "\<exists>policy. rs_GetPolicy (defaultPolicyReader env) (rbds_PolicyRef (rbd_Spec (rv_Object robj))) = Got (policy, False)"
    and "accepts (validateDefaultPolicyForRequester env (defaultPolicyReader env) RestrictedBindDefinitionKind
      (rbd_Name (rv_Object robj)) (rbds_PolicyRef (rbd_Spec (rv_Object robj))))"
proof -
  have parts: "accepts (validateRestrictedBindDefinitionSpec env (rv_Object robj))"
      "accepts (rbdValidatePolicyRefExists env (rv_Object robj))"
      "accepts (validateDefaultPolicyForRequester env (defaultPolicyReader env) RestrictedBindDefinitionKind
        (rbd_Name (rv_Object robj)) (rbds_PolicyRef (rbd_Spec (rv_Object robj))))"
    using assms unfolding rbdValidateCreate_def rbdChecks_def accepts_then accepts_andThen by (auto simp: accepts_def)
  then show "accepts (validateRestrictedBindDefinitionSpec env (rv_Object robj))"
    "accepts (validateDefaultPolicyForRequester env (defaultPolicyReader env) RestrictedBindDefinitionKind
      (rbd_Name (rv_Object robj)) (rbds_PolicyRef (rbd_Spec (rv_Object robj))))" by blast+
  show "\<exists>policy. rs_GetPolicy (defaultPolicyReader env) (rbds_PolicyRef (rbd_Spec (rv_Object robj))) = Got (policy, False)"
    using parts(2) by (auto simp: rbdValidatePolicyRefExists_def Let_def split: read.splits if_splits)
qed

lemma rbd_update_accepted:
  assumes "accepts (rbdValidateUpdate reflectEqual env roldObj rnewObj)" "\<And>s s'. reflectEqual s s' \<Longrightarrow> s = s'"
  shows "rbds_TargetName (rbd_Spec (rv_Object rnewObj)) = rbds_TargetName (rbd_Spec (rv_Object roldObj))"
    and "rbds_PolicyRef (rbd_Spec (rv_Object rnewObj)) = rbds_PolicyRef (rbd_Spec (rv_Object roldObj))"
    and "rbd_Spec (rv_Object roldObj) = rbd_Spec (rv_Object rnewObj) \<and>
        accepts (validateDefaultPolicyForMetadataUpdate env (defaultPolicyReader env)
            RestrictedBindDefinitionKind RestrictedBindDefinitionType (rbd_Name (rv_Object rnewObj))
            (rbds_PolicyRef (rbd_Spec (rv_Object rnewObj))) (rv_Meta roldObj) (rv_Meta rnewObj)) \<or>
      accepts (rbdValidateCreate env rnewObj)"
proof -
  let ?old = "rbd_Spec (rv_Object roldObj)" and ?new = "rbd_Spec (rv_Object rnewObj)"
  let ?meta = "validateDefaultPolicyForMetadataUpdate env (defaultPolicyReader env)
            RestrictedBindDefinitionKind RestrictedBindDefinitionType (rbd_Name (rv_Object rnewObj))
            (rbds_PolicyRef ?new) (rv_Meta roldObj) (rv_Meta rnewObj)"
  from assms(1) have c: "reflectEqual ?old ?new \<and> accepts ?meta \<or>
      rbds_TargetName ?old = rbds_TargetName ?new \<and> rbds_PolicyRef ?old = rbds_PolicyRef ?new \<and>
      (?old = ?new \<and> accepts ?meta \<or> accepts (rbdValidateCreate env rnewObj))"
    unfolding rbdValidateUpdate_def rbdValidateCreate_def Let_def
    by (auto simp: accepts_then if_distrib [of accepts] split: if_splits)
  from c assms(2) show "rbds_TargetName ?new = rbds_TargetName ?old" "rbds_PolicyRef ?new = rbds_PolicyRef ?old"
    and "?old = ?new \<and> accepts ?meta \<or> accepts (rbdValidateCreate env rnewObj)" by metis+
qed

lemma bd_spec_accepted:
  assumes "accepts (validateBindDefinitionSpec env robj)"
  shows "bind_conflict_free env (bds_TargetName (bd_Spec (rv_Object robj))) (\<lambda>_. True)
      (\<lambda>existing. bd_Name existing \<noteq> bd_Name (rv_Object robj))"
    and "bds_TargetName (bd_Spec (rv_Object robj)) \<noteq> ''''"
    and "\<forall>subject \<in> set (bds_Subjects (bd_Spec (rv_Object robj))). subject_ok env subject"
    and "accepts (validateRoleBindingNameCollisionClaims env BindDefinitionKind (bd_Name (rv_Object robj))
      (bds_TargetName (bd_Spec (rv_Object robj))) [] (bds_RoleBindings (bd_Spec (rv_Object robj))))"
    and "GetMissingRolePolicy (rv_Meta robj) = MissingRolePolicyIgnore \<or>
      accepts (andThen (checkReferencedRoles env (bd_Spec (rv_Object robj)))
        (missingRolesAnswer (GetMissingRolePolicy (rv_Meta robj) = MissingRolePolicyError)))"
proof -
  let ?obj = "rv_Object robj"
  have conf: "bdFindBindDefinitionTargetNameConflict env ?obj = Some (Inr None)"
      "bdFindRestrictedBindDefinitionTargetNameConflict env ?obj = Some (Inr None)"
    and rest: "validateBindDefinitionRequiredFields BindDefinitionKind ?obj = None"
      "validateBindDefinitionSubjects env BindDefinitionKind (bd_Name ?obj) (bds_Subjects (bd_Spec ?obj)) = None"
      "accepts (validateRoleBindingNameCollisionClaims env BindDefinitionKind (bd_Name ?obj)
        (bds_TargetName (bd_Spec ?obj)) [] (bds_RoleBindings (bd_Spec ?obj)))"
      "GetMissingRolePolicy (rv_Meta robj) = MissingRolePolicyIgnore \<or>
        accepts (andThen (checkReferencedRoles env (bd_Spec ?obj))
          (missingRolesAnswer (GetMissingRolePolicy (rv_Meta robj) = MissingRolePolicyError)))"
    using assms unfolding validateBindDefinitionSpec_def Let_def
    by (auto simp: accepts_then accepts_andThen ensure_accept onError_accept split: if_splits)
  from scanPages_if_None [OF conf(1) [unfolded bdFindBindDefinitionTargetNameConflict_def]]
    scanPages_if_None [OF conf(2) [unfolded bdFindRestrictedBindDefinitionTargetNameConflict_def]]
  show "bind_conflict_free env (bds_TargetName (bd_Spec ?obj)) (\<lambda>_. True) (\<lambda>existing. bd_Name existing \<noteq> bd_Name ?obj)"
    unfolding bind_conflict_free_def by blast
  show "bds_TargetName (bd_Spec ?obj) \<noteq> ''''" "\<forall>subject \<in> set (bds_Subjects (bd_Spec ?obj)). subject_ok env subject"
    using rest(1, 2)
    by (auto simp: validateBindDefinitionRequiredFields_def Let_def validateBindDefinitionSubjects_def subjects_ok split: if_splits)
qed (use assms in \<open>auto simp: validateBindDefinitionSpec_def Let_def accepts_andThen split: if_splits\<close>)

lemma bd_update_accepted:
  assumes "accepts (bdValidateUpdate env roldObj rnewObj)"
  shows "bds_TargetName (bd_Spec (rv_Object rnewObj)) = bds_TargetName (bd_Spec (rv_Object roldObj))"
    and "bd_Spec (rv_Object rnewObj) = bd_Spec (rv_Object roldObj) \<or> accepts (bdValidateCreate env rnewObj)"
  using assms by (auto simp: bdValidateUpdate_def bdValidateCreate_def Let_def split: if_splits)

section \<open>Names of generated bindings\<close>

text \<open>The claims stand for the role references recorded so far.\<close>

definition claimed :: "admission_env \<Rightarrow> string \<Rightarrow> claims \<Rightarrow> (string \<times> string \<times> string) set \<Rightarrow> bool" where
  "claimed env targetName claims S \<longleftrightarrow>
     (\<forall>(namespace, roleKind, roleRef) \<in> S.
        mlookup claims (namespace @ ''/'' @ BuildBindingName (ae_Hash env) targetName roleRef) =
          Some \<lparr>claim_roleKind = roleKind, claim_roleRef = roleRef\<rparr>)"

lemma claimed_empty [simp]: "claimed env t claims {}"
  by (simp add: claimed_def)

lemma claimed_mono: "claimed env t claims S \<Longrightarrow> T \<subseteq> S \<Longrightarrow> claimed env t claims T"
  by (auto simp: claimed_def)

lemma claimed_insert:
  "claimed env t claims (insert (ns, k, r) S) \<longleftrightarrow> claimed env t claims S \<and>
     mlookup claims (ns @ ''/'' @ BuildBindingName (ae_Hash env) t r) = Some \<lparr>claim_roleKind = k, claim_roleRef = r\<rparr>"
  by (auto simp: claimed_def)

lemma record_claim:
  assumes "recordRoleBindingNameClaim env kind obj t claims ns k r fldPath = Some (Inr claims')" "claimed env t claims S"
  shows "claimed env t claims' (insert (ns, k, r) S)"
proof (cases "mlookup claims (ns @ ''/'' @ BuildBindingName (ae_Hash env) t r)")
  case None
  then have c: "claims' = mput (ns @ ''/'' @ BuildBindingName (ae_Hash env) t r) \<lparr>claim_roleKind = k, claim_roleRef = r\<rparr> claims"
    using assms(1) by (simp add: recordRoleBindingNameClaim_def Let_def)
  have "ns' @ ''/'' @ BuildBindingName (ae_Hash env) t r' \<noteq> ns @ ''/'' @ BuildBindingName (ae_Hash env) t r"
    if "(ns', k', r') \<in> S" for ns' k' r'
    using assms(2) that None unfolding claimed_def by force
  then have "claimed env t claims' S" using assms(2) unfolding claimed_def c by (auto simp del: append_assoc)
  then show ?thesis by (simp add: claimed_insert c)
next
  case (Some existing)
  then have "claims' = claims" "claim_roleKind existing = k" "claim_roleRef existing = r"
    using assms(1) by (auto simp: recordRoleBindingNameClaim_def Let_def split: if_splits)
  with Some assms(2) show ?thesis by (simp add: claimed_insert)
qed

lemma claim_refs:
  "claimRefs env kind obj t ns k fldPath i refs claims = Some (Inr claims') \<Longrightarrow> claimed env t claims S \<Longrightarrow>
   claimed env t claims' (S \<union> {(ns, k, r) | r. r \<in> set refs})"
proof (induction refs arbitrary: i claims S)
  case (Cons r refs)
  then obtain c where "recordRoleBindingNameClaim env kind obj t claims ns k r (path_idx fldPath i) = Some (Inr c)"
      "claimRefs env kind obj t ns k fldPath (Suc i) refs c = Some (Inr claims')"
    by (auto simp: andThen_accept)
  then have "claimed env t claims' (insert (ns, k, r) S \<union> {(ns, k, r) | r. r \<in> set refs})"
    using Cons.IH record_claim Cons.prems(2) by blast
  then show ?case by (rule claimed_mono) auto
qed simp

text \<open>What one binding claims in a namespace.\<close>

definition binding_refs :: "NamespaceBinding \<Rightarrow> (string \<times> string) set" where
  "binding_refs b = {(''ClusterRole'', r) | r. r \<in> set (nb_ClusterRoleRefs b)} \<union> {(''Role'', r) | r. r \<in> set (nb_RoleRefs b)}"

lemma claim_namespaces:
  "claimNamespaces env kind obj t b i nss claims = Some (Inr claims') \<Longrightarrow> claimed env t claims S \<Longrightarrow>
   claimed env t claims' (S \<union> set nss \<times> binding_refs b)"
proof (induction nss arbitrary: claims S)
  case (Cons ns nss)
  then obtain c1 c2 where "claimRefs env kind obj t ns ''ClusterRole''
        (child (path_idx ''spec.roleBindings'' i) ''clusterRoleRefs'') 0 (nb_ClusterRoleRefs b) claims = Some (Inr c1)"
      "claimRefs env kind obj t ns ''Role'' (child (path_idx ''spec.roleBindings'' i) ''roleRefs'') 0 (nb_RoleRefs b) c1 = Some (Inr c2)"
      and rest: "claimNamespaces env kind obj t b i nss c2 = Some (Inr claims')"
    by (auto simp: andThen_accept)
  then have "claimed env t c2 (S \<union> {(ns, ''ClusterRole'', r) | r. r \<in> set (nb_ClusterRoleRefs b)} \<union> {(ns, ''Role'', r) | r. r \<in> set (nb_RoleRefs b)})"
    using claim_refs [OF _ claim_refs [OF _ Cons.prems(2)]] by fast
  from Cons.IH [OF rest this] show ?case by (rule claimed_mono) (auto simp: binding_refs_def)
qed simp

definition resolvesTo :: "admission_env \<Rightarrow> string \<Rightarrow> string \<Rightarrow> NamespaceBinding \<Rightarrow> string set \<Rightarrow> bool" where
  "resolvesTo env kind obj b N \<longleftrightarrow>
     (\<exists>i nss. resolveRoleBindingNamespacesForValidation env kind b i obj = Some (Inr nss) \<and> set nss = N)"

lemma claim_bindings:
  "claimBindings env kind obj t i bs claims = Some (Inr claims') \<Longrightarrow> claimed env t claims S \<Longrightarrow>
   \<exists>N. (\<forall>b \<in> set bs. resolvesTo env kind obj b (N b)) \<and>
     claimed env t claims' (S \<union> {(ns, k, r) | b ns k r. b \<in> set bs \<and> ns \<in> N b \<and> (k, r) \<in> binding_refs b})"
proof (induction bs arbitrary: i claims S)
  case (Cons b bs)
  then obtain nss c where res: "resolveRoleBindingNamespacesForValidation env kind b i obj = Some (Inr nss)"
      and "claimNamespaces env kind obj t b i nss claims = Some (Inr c)"
      and rest: "claimBindings env kind obj t (Suc i) bs c = Some (Inr claims')"
    by (auto simp: andThen_accept)
  then have c: "claimed env t c (S \<union> set nss \<times> binding_refs b)" using claim_namespaces Cons.prems(2) by blast
  obtain N where N: "\<forall>b \<in> set bs. resolvesTo env kind obj b (N b)"
      "claimed env t claims' (S \<union> set nss \<times> binding_refs b \<union> {(ns, k, r) | b ns k r. b \<in> set bs \<and> ns \<in> N b \<and> (k, r) \<in> binding_refs b})"
    using Cons.IH [OF rest c] by blast
  show ?case
  proof (cases "b \<in> set bs")
    case True
    then have "set (b # bs) = set bs" by auto
    moreover have "claimed env t claims' (S \<union> {(ns, k, r) | b ns k r. b \<in> set bs \<and> ns \<in> N b \<and> (k, r) \<in> binding_refs b})"
      by (rule claimed_mono [OF N(2)]) auto
    ultimately show ?thesis using N(1) by (intro exI [of _ N]) simp
  next
    case False
    have "resolvesTo env kind obj b (set nss)" using res by (auto simp: resolvesTo_def)
    with N(1) False have "\<forall>b' \<in> set (b # bs). resolvesTo env kind obj b' ((N(b := set nss)) b')" by auto
    moreover have "claimed env t claims' (S \<union> {(ns, k, r) | b' ns k r. b' \<in> set (b # bs) \<and> ns \<in> (N(b := set nss)) b' \<and> (k, r) \<in> binding_refs b'})"
      by (rule claimed_mono [OF N(2)]) (use False in \<open>auto split: if_splits\<close>)
    ultimately show ?thesis by blast
  qed
qed simp

text \<open>
  The namespaces a complete listing shows, and where a binding of a definition is generated: in its explicit
  namespace, or in every namespace that a selector matches and that is not terminating.
\<close>

definition lists_namespaces :: "readers \<Rightarrow> Namespace list \<Rightarrow> bool" where
  "lists_namespaces c nss \<longleftrightarrow>
     (\<forall>m items. served (listAdmissionPage (rs_Namespaces c) [] (Some m)) '''' items \<longrightarrow>
        set items = {ns \<in> set nss. m (ns_Labels ns)})"

definition binds_in :: "admission_env \<Rightarrow> Namespace list \<Rightarrow> NamespaceBinding \<Rightarrow> string \<Rightarrow> bool" where
  "binds_in env nss b name \<longleftrightarrow>
     (if nb_Namespace b \<noteq> '''' then name = nb_Namespace b
      else \<exists>sel \<in> set (nb_NamespaceSelector b). \<exists>m. ae_AsSelector env sel = Inr m \<and>
        (\<exists>ns \<in> set nss. ns_Name ns = name \<and> ns_Phase ns \<noteq> ''Terminating'' \<and> m (ns_Labels ns)))"

definition selected_by :: "admission_env \<Rightarrow> Namespace list \<Rightarrow> LabelSelector \<Rightarrow> string set" where
  "selected_by env nss sel = {ns_Name ns | ns. ns \<in> set nss \<and> ns_Phase ns \<noteq> ''Terminating'' \<and>
     (\<exists>m. ae_AsSelector env sel = Inr m \<and> m (ns_Labels ns))}"

lemma selected_namespaces:
  assumes "lists_namespaces (defaultPolicyReader env) nss"
  shows "selectedNamespaces env kind obj bi i st sels = Some (Inr st') \<Longrightarrow>
    fst ` set st' = fst ` set st \<union> (\<Union>sel \<in> set sels. selected_by env nss sel)"
proof (induction sels arbitrary: i st)
  case (Cons sel sels)
  then obtain m where m: "ae_AsSelector env sel = Inr m" by (cases "ae_AsSelector env sel") auto
  with Cons.prems obtain names where c: "collectPages (\<lambda>ns. if ns_Phase ns = ''Terminating'' then [] else [ns_Name ns])
        (listAdmissionPage (rs_Namespaces (defaultPolicyReader env)) [] (Some m)) '''' [] = Some (Inr names)"
      and rest: "selectedNamespaces env kind obj bi (Suc i) (fold (\<lambda>name. mput name ()) names st) sels = Some (Inr st')"
    by (auto simp: andThen_accept onError_accept)
  obtain items where items: "set items = {ns \<in> set nss. m (ns_Labels ns)}"
      and "names = concat (map (\<lambda>ns. if ns_Phase ns = ''Terminating'' then [] else [ns_Name ns]) items)"
    using collectPages_Inr [OF c] assms by (auto simp: lists_namespaces_def)
  then have "set names = selected_by env nss sel" by (auto simp: selected_by_def m split: if_splits)
  with Cons.IH [OF rest] show ?case by (auto simp: keys_fold_mput)
qed simp

lemma resolves_binds_in:
  assumes "lists_namespaces (defaultPolicyReader env) nss" "resolvesTo env kind obj b N"
  shows "N = {name. binds_in env nss b name}"
proof (cases "nb_Namespace b = ''''")
  case False
  with assms(2) show ?thesis by (auto simp: resolvesTo_def resolveRoleBindingNamespacesForValidation_def binds_in_def)
next
  case True
  with assms(2) obtain i st where s: "selectedNamespaces env kind obj i 0 [] (nb_NamespaceSelector b) = Some (Inr st)"
      and "N = fst ` set st"
    by (auto simp: resolvesTo_def resolveRoleBindingNamespacesForValidation_def andThen_accept)
  with selected_namespaces [OF assms(1) s] True show ?thesis by (auto simp: binds_in_def selected_by_def)
qed

text \<open>
  The bindings the controllers generate for a definition when \<open>nss\<close> are the namespaces of the cluster, as
  \<^verbatim>\<open>binddefinition_helpers.go\<close> resolves them: a named namespace takes precedence over selectors, and a namespace
  that is being deleted gets no binding. The controllers resolve selectors at every reconciliation, the
  webhooks once.
\<close>

definition generates ::
  "admission_env \<Rightarrow> Namespace list \<Rightarrow> string list \<Rightarrow> NamespaceBinding list \<Rightarrow> string \<Rightarrow> string \<Rightarrow> string \<Rightarrow> bool" where
  "generates env nss clusterRoleRefs bs namespace roleKind roleRef \<longleftrightarrow>
     namespace = '''' \<and> roleKind = ''ClusterRole'' \<and> roleRef \<in> set clusterRoleRefs \<or>
     (\<exists>b \<in> set bs. binds_in env nss b namespace \<and> (roleKind, roleRef) \<in> binding_refs b)"

text \<open>The namespaces that can receive bindings now were there, as they are, before; or all are named.\<close>

definition targets_known :: "NamespaceBinding list \<Rightarrow> Namespace list \<Rightarrow> Namespace list \<Rightarrow> bool" where
  "targets_known bs before now \<longleftrightarrow>
     (\<forall>ns \<in> set now. ns_Phase ns \<noteq> ''Terminating'' \<longrightarrow> ns \<in> set before) \<or> (\<forall>b \<in> set bs. nb_Namespace b \<noteq> '''')"

lemma generates_known:
  assumes "targets_known bs before now" "generates env now crefs bs ns k r"
  shows "generates env before crefs bs ns k r"
proof -
  have "binds_in env before b ns" if "b \<in> set bs" "binds_in env now b ns" for b
    using that assms(1) by (auto simp: targets_known_def binds_in_def split: if_splits)
  with assms(2) show ?thesis by (auto simp: generates_def)
qed

lemma collision_free:
  assumes "accepts (validateRoleBindingNameCollisionClaims env kind obj t crefs bs)"
    and "lists_namespaces (defaultPolicyReader env) nss"
    and "generates env nss crefs bs ns k r" "generates env nss crefs bs ns k' r'"
    and "BuildBindingName (ae_Hash env) t r = BuildBindingName (ae_Hash env) t r'"
  shows "k = k' \<and> r = r'"
proof -
  obtain c claims where "claimRefs env kind obj t '''' ''ClusterRole'' ''spec.clusterRoleBindings.clusterRoleRefs'' 0 crefs [] = Some (Inr c)"
      and b: "claimBindings env kind obj t 0 bs c = Some (Inr claims)"
    using assms(1) by (auto simp: validateRoleBindingNameCollisionClaims_def accepts_andThen)
  then have "claimed env t c {('''', ''ClusterRole'', r) | r. r \<in> set crefs}"
    using claim_refs [of env kind obj t "''''" _ _ 0 crefs "[]" c "{}"] by simp
  from claim_bindings [OF b this] obtain N where N: "\<forall>b \<in> set bs. resolvesTo env kind obj b (N b)"
      and cl: "claimed env t claims ({('''', ''ClusterRole'', r) | r. r \<in> set crefs} \<union>
        {(ns, k, r) | b ns k r. b \<in> set bs \<and> ns \<in> N b \<and> (k, r) \<in> binding_refs b})" by blast
  have "N b = {name. binds_in env nss b name}" if "b \<in> set bs" for b
    using resolves_binds_in [OF assms(2)] N that by blast
  then have "mlookup claims (ns @ ''/'' @ BuildBindingName (ae_Hash env) t r) = Some \<lparr>claim_roleKind = k, claim_roleRef = r\<rparr>"
    if "generates env nss crefs bs ns k r" for k r
    using cl that unfolding claimed_def generates_def by force
  from this [OF assms(3)] this [OF assms(4)] assms(5) show ?thesis by simp
qed

section \<open>Referenced roles\<close>

definition role_exists :: "admission_env \<Rightarrow> role_key \<Rightarrow> bool" where
  "role_exists env key \<longleftrightarrow> (\<exists>role. rs_GetRole (defaultPolicyReader env) key = Got role)"

text \<open>
  The state of the checks after some roles: the caches tell which roles exist (the key of a Role is read back
  unless its namespace has a slash), and unless a role is missing all of them exist.
\<close>

definition checked :: "admission_env \<Rightarrow> role_checks \<Rightarrow> role_key set \<Rightarrow> bool" where
  "checked env st C \<longleftrightarrow>
     (\<forall>n b. mlookup (rc_ClusterRoles st) n = Some b \<longrightarrow> b = role_exists env (ClusterRoleKey n)) \<and>
     (\<forall>ns r b. mlookup (rc_Roles st) (ns @ ''/'' @ r) = Some b \<longrightarrow> CHR ''/'' \<notin> set ns \<longrightarrow> b = role_exists env (RoleKey ns r)) \<and>
     (rc_Missing st = [] \<longrightarrow> (\<forall>key \<in> C. role_exists env key))"

lemma checked_mono: "checked env st C \<Longrightarrow> D \<subseteq> C \<Longrightarrow> checked env st D"
  by (auto simp: checked_def)

lemma addMissing_simps [simp]: "rc_Missing (addMissing ref st) \<noteq> []" "rc_ClusterRoles (addMissing ref st) = rc_ClusterRoles st"
    "rc_Roles (addMissing ref st) = rc_Roles st"
  by (auto simp: addMissing_def)

text \<open>One lookup: the cache gets the answer and a missing role is recorded.\<close>

lemma cluster_role_looked_up:
  assumes "checkClusterRole env n st = Some (Inr st')" "mlookup (rc_ClusterRoles st) n = None"
  shows "rc_ClusterRoles st' = mput n (role_exists env (ClusterRoleKey n)) (rc_ClusterRoles st) \<and> rc_Roles st' = rc_Roles st \<and>
    (rc_Missing st' = [] \<longrightarrow> rc_Missing st = [] \<and> role_exists env (ClusterRoleKey n))"
  using assms
  by (cases "rs_GetRole (defaultPolicyReader env) (ClusterRoleKey n)") (auto simp: checkClusterRole_def role_exists_def)

lemma role_looked_up:
  assumes "checkRoleExists env ns r st = Some (Inr st')" "mlookup (rc_Roles st) (ns @ ''/'' @ r) = None"
  shows "rc_Roles st' = mput (ns @ ''/'' @ r) (role_exists env (RoleKey ns r)) (rc_Roles st) \<and> rc_ClusterRoles st' = rc_ClusterRoles st \<and>
    (rc_Missing st' = [] \<longrightarrow> rc_Missing st = [] \<and> role_exists env (RoleKey ns r))"
  using assms
  by (cases "rs_GetRole (defaultPolicyReader env) (RoleKey ns r)") (auto simp: checkRoleExists_def Let_def role_exists_def)

lemma check_cluster_role:
  assumes "checkClusterRole env n st = Some (Inr st')" "checked env st C"
  shows "checked env st' (C \<union> {ClusterRoleKey n})"
proof (cases "mlookup (rc_ClusterRoles st) n")
  case None
  note st' = cluster_role_looked_up [OF assms(1) this]
  have "b' = role_exists env (ClusterRoleKey n')" if "mlookup (rc_ClusterRoles st') n' = Some b'" for n' b'
    using that st' assms(2) by (auto simp: checked_def split: if_splits)
  with st' assms(2) show ?thesis unfolding checked_def by (metis Un_iff singletonD)
next
  case (Some b)
  then have "b = role_exists env (ClusterRoleKey n)" using assms(2) by (simp add: checked_def)
  then show ?thesis using assms Some
    by (cases b) (auto simp: checkClusterRole_def checked_def)
qed

lemma slash_key: "CHR ''/'' \<notin> set ns \<Longrightarrow> CHR ''/'' \<notin> set ns' \<Longrightarrow> ns @ ''/'' @ r = ns' @ ''/'' @ r' \<longleftrightarrow> ns = ns' \<and> r = r'"
  using append_sep_inj [of ns "CHR ''/''" r ns' r'] by auto

lemma check_role:
  assumes "checkRoleExists env ns r st = Some (Inr st')" "checked env st C" "CHR ''/'' \<notin> set ns"
  shows "checked env st' (C \<union> {RoleKey ns r})"
proof (cases "mlookup (rc_Roles st) (ns @ ''/'' @ r)")
  case None
  note st' = role_looked_up [OF assms(1) None]
  have "b' = role_exists env (RoleKey ns' r')"
    if "mlookup (rc_Roles st') (ns' @ ''/'' @ r') = Some b'" "CHR ''/'' \<notin> set ns'" for ns' r' b'
  proof (cases "ns' = ns \<and> r' = r")
    case True
    with that st' show ?thesis by auto
  next
    case False
    with that slash_key [OF that(2) assms(3), of r' r] st' have "mlookup (rc_Roles st) (ns' @ ''/'' @ r') = Some b'" by auto
    with assms(2) that(2) show ?thesis unfolding checked_def by blast
  qed
  with st' assms(2) show ?thesis unfolding checked_def by (metis Un_iff singletonD)
next
  case (Some b)
  then have "b = role_exists env (RoleKey ns r)" using assms(2, 3) unfolding checked_def by blast
  then show ?thesis using assms(1, 2) Some by (cases b) (auto simp: checkRoleExists_def Let_def checked_def)
qed

lemma each_checked:
  assumes "\<And>x st st' C. x \<in> set xs \<Longrightarrow> f x st = Some (Inr st') \<Longrightarrow> checked env st C \<Longrightarrow> checked env st' (C \<union> K x)"
  shows "eachOf f xs st = Some (Inr st') \<Longrightarrow> checked env st C \<Longrightarrow> checked env st' (C \<union> (\<Union>x \<in> set xs. K x))"
  using assms
proof (induction xs arbitrary: st C)
  case (Cons x xs)
  then obtain st1 where "f x st = Some (Inr st1)" and rest: "eachOf f xs st1 = Some (Inr st')"
    by (auto simp: andThen_accept)
  then have "checked env st1 (C \<union> K x)" using Cons.prems(2, 3) by simp
  from Cons.IH [OF rest this] Cons.prems(3) show ?case by (simp add: Un_assoc)
qed simp

text \<open>The namespaces in which the roles of a binding are looked up.\<close>

definition looks_in :: "admission_env \<Rightarrow> Namespace list \<Rightarrow> NamespaceBinding \<Rightarrow> string \<Rightarrow> bool" where
  "looks_in env nss b name \<longleftrightarrow>
     (if nb_NamespaceSelector b \<noteq> []
      then \<exists>ns \<in> set nss. ns_Name ns = name \<and> ns_Phase ns \<noteq> ''Terminating'' \<and>
        (\<exists>sel \<in> set (nb_NamespaceSelector b). name \<in> selected_by env nss sel)
      else nb_Namespace b \<noteq> '''' \<and> name = nb_Namespace b \<and>
        (\<exists>ns. rs_GetNamespace (defaultPolicyReader env) name = Got ns \<and> ns_Phase ns \<noteq> ''Terminating''))"

lemma fold_mput:
  "map_of (fold (\<lambda>ns. mput (ns_Name ns) ns) xs s) name = Some ns \<Longrightarrow>
     map_of s name = Some ns \<or> ns \<in> set xs \<and> ns_Name ns = name"
  "name \<in> ns_Name ` set xs \<or> map_of s name \<noteq> None \<Longrightarrow> map_of (fold (\<lambda>ns. mput (ns_Name ns) ns) xs s) name \<noteq> None"
proof (induction xs arbitrary: s)
  case (Cons a xs)
  { case 1 with Cons(1) [of "mput (ns_Name a) a s"] show ?case by (auto split: if_splits) }
  { case 2 with Cons(2) [of "mput (ns_Name a) a s"] show ?case by (auto split: if_splits) }
qed simp_all

lemma listed_namespaces:
  assumes "lists_namespaces (defaultPolicyReader env) nss"
  shows "listedNamespaces env st sels = Some (Inr st') \<Longrightarrow>
    \<forall>name ns. map_of st name = Some ns \<longrightarrow> ns \<in> set nss \<and> ns_Name ns = name \<Longrightarrow>
    (\<forall>name ns. map_of st' name = Some ns \<longrightarrow> ns \<in> set nss \<and> ns_Name ns = name) \<and>
    (\<forall>sel \<in> set sels. \<forall>name \<in> selected_by env nss sel. map_of st' name \<noteq> None) \<and>
    (\<forall>name. map_of st name \<noteq> None \<longrightarrow> map_of st' name \<noteq> None)"
proof (induction sels arbitrary: st)
  case (Cons sel sels)
  then obtain m where m: "ae_AsSelector env sel = Inr m" by (cases "ae_AsSelector env sel") auto
  with Cons.prems obtain items where c: "collectPages (\<lambda>ns. [ns])
        (listAdmissionPage (rs_Namespaces (defaultPolicyReader env)) [] (Some m)) '''' [] = Some (Inr items)"
      and rest: "listedNamespaces env (fold (\<lambda>ns. mput (ns_Name ns) ns) items st) sels = Some (Inr st')"
    by (auto simp: andThen_accept onError_accept)
  have items: "set items = {ns \<in> set nss. m (ns_Labels ns)}"
    using collectPages_Inr [OF c] assms(1) by (auto simp: lists_namespaces_def)
  let ?st = "fold (\<lambda>ns. mput (ns_Name ns) ns) items st"
  have "\<forall>name ns. map_of ?st name = Some ns \<longrightarrow> ns \<in> set nss \<and> ns_Name ns = name"
    using fold_mput(1) [of items st] Cons.prems(2) items by blast
  note IH = Cons.IH [OF rest this]
  moreover have "map_of ?st name \<noteq> None" if "name \<in> selected_by env nss sel" for name
    using that items m by (intro fold_mput(2)) (auto simp: selected_by_def)
  moreover have "map_of ?st name \<noteq> None" if "map_of st name \<noteq> None" for name
    using that by (intro fold_mput(2)) simp
  ultimately show ?case by simp
qed simp

text \<open>The roles a binding is checked for, and all that a definition refers to.\<close>

definition binding_roles :: "admission_env \<Rightarrow> Namespace list \<Rightarrow> NamespaceBinding \<Rightarrow> role_key set" where
  "binding_roles env nss b = ClusterRoleKey ` set (nb_ClusterRoleRefs b) \<union>
     {RoleKey name r | name r. r \<in> set (nb_RoleRefs b) \<and> looks_in env nss b name}"

definition referenced_roles :: "admission_env \<Rightarrow> Namespace list \<Rightarrow> BindDefinitionSpec \<Rightarrow> role_key set" where
  "referenced_roles env nss spec = ClusterRoleKey ` set (cb_ClusterRoleRefs (bds_ClusterRoleBindings spec)) \<union>
     (\<Union>b \<in> set (bds_RoleBindings spec). binding_roles env nss b)"

lemma cluster_roles_checked:
  assumes "eachOf (checkClusterRole env) ns st = Some (Inr st')" "checked env st C"
  shows "checked env st' (C \<union> ClusterRoleKey ` set ns)"
proof -
  have "checked env st' (C \<union> (\<Union>n \<in> set ns. {ClusterRoleKey n}))"
    by (rule each_checked [OF check_cluster_role assms])
  then show ?thesis by (rule checked_mono) auto
qed

lemma roles_checked:
  assumes "eachOf (checkRoleExists env ns) rs st = Some (Inr st')" "checked env st C" "CHR ''/'' \<notin> set ns"
  shows "checked env st' (C \<union> RoleKey ns ` set rs)"
proof -
  have "checked env st' (C \<union> (\<Union>r \<in> set rs. {RoleKey ns r}))"
    by (rule each_checked [OF check_role assms(1, 2)]) (use assms(3) in auto)
  then show ?thesis by (rule checked_mono) auto
qed

text \<open>The Roles looked up in the namespaces that were listed, and the Roles of one namespace.\<close>

definition roles_in :: "(string, Namespace) gomap \<Rightarrow> string list \<Rightarrow> string \<Rightarrow> role_key set" where
  "roles_in nsSet refs name =
     (case mlookup nsSet name of None \<Rightarrow> {} | Some ns \<Rightarrow> if ns_Phase ns = ''Terminating'' then {} else RoleKey (ns_Name ns) ` set refs)"

lemma listed_roles_checked:
  assumes "eachOf (\<lambda>nsName st. case mlookup nsSet nsName of None \<Rightarrow> Some (Inr st)
       | Some ns \<Rightarrow> if ns_Phase ns = ''Terminating'' then Some (Inr st)
           else eachOf (checkRoleExists env (ns_Name ns)) refs st) names st = Some (Inr st')"
    and "checked env st C" and plain: "\<And>name ns. mlookup nsSet name = Some ns \<Longrightarrow> CHR ''/'' \<notin> set (ns_Name ns)"
  shows "checked env st' (C \<union> (\<Union>name \<in> set names. roles_in nsSet refs name))"
proof (rule each_checked [OF _ assms(1, 2)])
  fix name s s' D
  assume s: "(case mlookup nsSet name of None \<Rightarrow> Some (Inr s)
       | Some ns \<Rightarrow> if ns_Phase ns = ''Terminating'' then Some (Inr s)
           else eachOf (checkRoleExists env (ns_Name ns)) refs s) = Some (Inr s')" and D: "checked env s D"
  show "checked env s' (D \<union> roles_in nsSet refs name)"
  proof (cases "\<exists>ns. mlookup nsSet name = Some ns \<and> ns_Phase ns \<noteq> ''Terminating''")
    case True
    then obtain ns where ns: "mlookup nsSet name = Some ns" "ns_Phase ns \<noteq> ''Terminating''" by blast
    with s have "eachOf (checkRoleExists env (ns_Name ns)) refs s = Some (Inr s')" by simp
    from roles_checked [OF this D plain [OF ns(1)]] ns show ?thesis by (simp add: roles_in_def)
  next
    case False
    with s D show ?thesis by (auto simp: roles_in_def split: option.splits if_splits)
  qed
qed

lemma listed_roles:
  assumes "listedNamespaces env [] (nb_NamespaceSelector b) = Some (Inr nsSet)" "nb_NamespaceSelector b \<noteq> []"
    and nss: "lists_namespaces (defaultPolicyReader env) nss" "distinct (map ns_Name nss)"
  shows "{RoleKey name r | name r. r \<in> set (nb_RoleRefs b) \<and> looks_in env nss b name}
    \<subseteq> (\<Union>name \<in> set (sort (map fst nsSet)). roles_in nsSet (nb_RoleRefs b) name)"
proof clarify
  fix name r
  assume r: "r \<in> set (nb_RoleRefs b)" "looks_in env nss b name"
  from r(2) assms(2) obtain ns sel where ns: "ns \<in> set nss" "ns_Name ns = name" "ns_Phase ns \<noteq> ''Terminating''"
      and sel: "sel \<in> set (nb_NamespaceSelector b)" "name \<in> selected_by env nss sel"
    by (auto simp: looks_in_def)
  from listed_namespaces [OF nss(1) assms(1)] sel have "mlookup nsSet name \<noteq> None" by simp
  then obtain ns' where l: "mlookup nsSet name = Some ns'" by blast
  with listed_namespaces [OF nss(1) assms(1)] have ns': "ns' \<in> set nss" "ns_Name ns' = name" by simp_all
  from ns ns' nss(2) have "ns' = ns" by (auto simp: distinct_map inj_on_def)
  with l ns r(1) have "RoleKey name r \<in> roles_in nsSet (nb_RoleRefs b) name" by (simp add: roles_in_def)
  moreover have "name \<in> set (sort (map fst nsSet))" using map_of_SomeD [OF l] by force
  ultimately show "RoleKey name r \<in> (\<Union>name \<in> set (sort (map fst nsSet)). roles_in nsSet (nb_RoleRefs b) name)" by blast
qed

lemma own_namespace_checked:
  assumes "checkRoleBinding env b st = Some (Inr st')" "nb_NamespaceSelector b = []" "CHR ''/'' \<notin> set (nb_Namespace b)"
    and c: "eachOf (checkClusterRole env) (nb_ClusterRoleRefs b) st = Some (Inr st1)" "checked env st1 C"
  shows "checked env st' (C \<union> {RoleKey name r | name r. r \<in> set (nb_RoleRefs b) \<and> looks_in env nss b name})"
proof (cases "looks_in env nss b (nb_Namespace b)")
  case True
  then have "eachOf (checkRoleExists env (nb_Namespace b)) (nb_RoleRefs b) st1 = Some (Inr st')"
    using assms(1, 2) c(1) by (auto simp: checkRoleBinding_def andThen_accept looks_in_def)
  from roles_checked [OF this c(2) assms(3)] show ?thesis
    using assms(2) by (elim checked_mono) (auto simp: looks_in_def)
next
  case False
  then have none: "\<not> looks_in env nss b name" for name using assms(2) by (auto simp: looks_in_def)
  have "rc_Missing st' = rc_Missing st1 \<and> rc_ClusterRoles st' = rc_ClusterRoles st1 \<and> rc_Roles st' = rc_Roles st1"
    using assms(1, 2) c(1) False by (auto simp: checkRoleBinding_def andThen_accept looks_in_def split: if_splits read.splits)
  with c(2) none show ?thesis by (simp add: checked_def)
qed

lemma role_binding_checked:
  assumes "checkRoleBinding env b st = Some (Inr st')" "checked env st C"
    and nss: "lists_namespaces (defaultPolicyReader env) nss" "distinct (map ns_Name nss)"
    and plain: "\<And>ns. ns \<in> set nss \<Longrightarrow> CHR ''/'' \<notin> set (ns_Name ns)" "CHR ''/'' \<notin> set (nb_Namespace b)"
  shows "checked env st' (C \<union> binding_roles env nss b)"
proof -
  from assms(1) obtain st1 where c: "eachOf (checkClusterRole env) (nb_ClusterRoleRefs b) st = Some (Inr st1)"
    by (auto simp: checkRoleBinding_def andThen_accept)
  note st1 = cluster_roles_checked [OF c assms(2)]
  show ?thesis
  proof (cases "nb_NamespaceSelector b = []")
    case True
    from own_namespace_checked [OF assms(1) True plain(2) c st1] show ?thesis
      by (simp add: binding_roles_def Un_assoc)
  next
    case False
    with assms(1) c obtain nsSet where l: "listedNamespaces env [] (nb_NamespaceSelector b) = Some (Inr nsSet)"
        and e: "eachOf (\<lambda>nsName st. case mlookup nsSet nsName of None \<Rightarrow> Some (Inr st)
           | Some ns \<Rightarrow> if ns_Phase ns = ''Terminating'' then Some (Inr st)
               else eachOf (checkRoleExists env (ns_Name ns)) (nb_RoleRefs b) st) (sort (map fst nsSet)) st1 = Some (Inr st')"
      by (auto simp: checkRoleBinding_def andThen_accept)
    have "CHR ''/'' \<notin> set (ns_Name ns)" if "mlookup nsSet name = Some ns" for name ns
      using listed_namespaces [OF nss(1) l] plain(1) that by auto
    note all = listed_roles_checked [OF e st1, OF this]
    show ?thesis
      by (rule checked_mono [OF all]) (use listed_roles [OF l False nss] in \<open>auto simp: binding_roles_def\<close>)
  qed
qed

lemma references_checked:
  assumes "checkReferencedRoles env spec = Some (Inr st)"
    and nss: "lists_namespaces (defaultPolicyReader env) nss" "distinct (map ns_Name nss)"
    and plain: "\<And>ns. ns \<in> set nss \<Longrightarrow> CHR ''/'' \<notin> set (ns_Name ns)"
      "\<And>b. b \<in> set (bds_RoleBindings spec) \<Longrightarrow> CHR ''/'' \<notin> set (nb_Namespace b)"
  shows "checked env st (referenced_roles env nss spec)"
proof -
  let ?st0 = "\<lparr>rc_Warnings = [], rc_Missing = [], rc_ClusterRoles = [], rc_Roles = []\<rparr>"
  from assms(1) obtain st1 where c: "eachOf (checkClusterRole env) (cb_ClusterRoleRefs (bds_ClusterRoleBindings spec)) ?st0 = Some (Inr st1)"
      and b: "eachOf (checkRoleBinding env) (bds_RoleBindings spec) st1 = Some (Inr st)"
    by (auto simp: checkReferencedRoles_def andThen_accept)
  have "checked env ?st0 {}" by (simp add: checked_def)
  from cluster_roles_checked [OF c this]
  have st1: "checked env st1 (ClusterRoleKey ` set (cb_ClusterRoleRefs (bds_ClusterRoleBindings spec)))" by simp
  show ?thesis unfolding referenced_roles_def
    by (rule each_checked [OF role_binding_checked b st1]) (use nss plain in auto)
qed

text \<open>
  A BindDefinition accepted under the policy that blocks missing roles refers only to roles that exist: its
  ClusterRoles, and its Roles in every namespace it applies them to that is there and not being deleted.
\<close>

lemma blocking_roles_exist:
  assumes "accepts (andThen (checkReferencedRoles env spec) (missingRolesAnswer True))"
    and "lists_namespaces (defaultPolicyReader env) nss" "distinct (map ns_Name nss)"
    and "\<And>ns. ns \<in> set nss \<Longrightarrow> CHR ''/'' \<notin> set (ns_Name ns)"
      "\<And>b. b \<in> set (bds_RoleBindings spec) \<Longrightarrow> CHR ''/'' \<notin> set (nb_Namespace b)"
  shows "\<forall>key \<in> referenced_roles env nss spec. role_exists env key"
proof -
  from assms(1) obtain st where st: "checkReferencedRoles env spec = Some (Inr st)" "accepts (missingRolesAnswer True st)"
    by (auto simp: accepts_def andThen_accept)
  then have "rc_Missing st = []" by (auto simp: missingRolesAnswer_def Let_def accepts_def split: if_splits)
  with references_checked [OF st(1) assms(2-)] show ?thesis by (simp add: checked_def)
qed

section \<open>Returning\<close>

definition bind_lists_end :: "readers \<Rightarrow> bool" where
  "bind_lists_end c \<longleftrightarrow>
     ends (listAdmissionPage (rs_RestrictedBindDefinitions c) [] None) '''' \<and>
     ends (listAdmissionPage (rs_BindDefinitions c) [] None) '''' \<and>
     (\<forall>m. ends (listAdmissionPage (rs_Namespaces c) [] (Some m)) '''')"

lemma bind_scans_return [returning]:
  assumes "bind_lists_end (defaultPolicyReader env)"
  shows "returns (rbdFindRestrictedBindDefinitionTargetNameConflict env rbd)" "returns (rbdFindBindDefinitionTargetNameConflict env rbd)"
    "returns (bdFindBindDefinitionTargetNameConflict env bd)" "returns (bdFindRestrictedBindDefinitionTargetNameConflict env bd)"
  using assms
  by (auto simp: bind_lists_end_def rbdFindRestrictedBindDefinitionTargetNameConflict_def rbdFindBindDefinitionTargetNameConflict_def
      bdFindBindDefinitionTargetNameConflict_def bdFindRestrictedBindDefinitionTargetNameConflict_def intro!: returning)

lemma selectedNamespaces_returns [returning]:
  "bind_lists_end (defaultPolicyReader env) \<Longrightarrow> returns (selectedNamespaces env kind obj bi i st sels)"
proof (induction sels arbitrary: i st)
  case (Cons sel sels)
  then show ?case by (auto intro!: returning simp: bind_lists_end_def split: sum.split)
qed simp

lemma listedNamespaces_returns [returning]:
  "bind_lists_end (defaultPolicyReader env) \<Longrightarrow> returns (listedNamespaces env st sels)"
proof (induction sels arbitrary: st)
  case (Cons sel sels)
  then show ?case by (auto intro!: returning simp: bind_lists_end_def split: sum.split)
qed simp

lemma claimRefs_returns [returning]: "returns (claimRefs env kind obj t ns k path i refs claims)"
proof (induction refs arbitrary: i claims)
  case (Cons r refs)
  have "returns (recordRoleBindingNameClaim env kind obj t claims ns k r p)" for p
    by (simp add: recordRoleBindingNameClaim_def Let_def split: option.split)
  with Cons show ?case by (auto intro!: returning)
qed simp

lemma claimNamespaces_returns [returning]: "returns (claimNamespaces env kind obj t b i nss claims)"
  by (induction nss arbitrary: claims) (auto intro!: returning)

lemma claimBindings_returns [returning]:
  "bind_lists_end (defaultPolicyReader env) \<Longrightarrow> returns (claimBindings env kind obj t i bs claims)"
  by (induction bs arbitrary: i claims) (auto intro!: returning simp: resolveRoleBindingNamespacesForValidation_def)

lemma collision_check_returns [returning]:
  "bind_lists_end (defaultPolicyReader env) \<Longrightarrow> returns (validateRoleBindingNameCollisionClaims env kind obj t crefs bs)"
  by (auto intro!: returning simp: validateRoleBindingNameCollisionClaims_def)

lemma eachOf_returns: "(\<And>x st. returns (f x st)) \<Longrightarrow> returns (eachOf f xs st)"
  by (induction xs arbitrary: st) (auto intro!: returning)

lemma referenced_roles_return [returning]:
  assumes "bind_lists_end (defaultPolicyReader env)"
  shows "returns (checkReferencedRoles env spec)"
proof -
  have role: "returns (checkRoleExists env ns r st)" and cluster: "returns (checkClusterRole env r st)" for ns r st
    by (simp_all add: checkRoleExists_def checkClusterRole_def Let_def split: option.split read.split)
  have listed: "returns (eachOf (\<lambda>nsName st. case mlookup s nsName of None \<Rightarrow> Some (Inr st)
         | Some ns \<Rightarrow> if ns_Phase ns = ''Terminating'' then Some (Inr st)
             else eachOf (checkRoleExists env (ns_Name ns)) refs st) names st)" for s refs names st
    by (rule eachOf_returns) (auto intro: eachOf_returns role split: option.split)
  have "returns (checkRoleBinding env b st)" for b st
    unfolding checkRoleBinding_def
    by (auto intro!: andThen_returns listedNamespaces_returns [OF assms] listed eachOf_returns [OF role] eachOf_returns [OF cluster]
        split: read.split)
  then show ?thesis unfolding checkReferencedRoles_def by (auto intro!: andThen_returns eachOf_returns cluster)
qed

lemma rbd_validators_return:
  assumes "bind_lists_end (defaultPolicyReader env)" "policy_lists_end (defaultPolicyReader env)"
  shows "returns (rbdValidateCreate env b)" "returns (rbdValidateUpdate reflectEqual env old b)"
proof -
  have "returns (validateRestrictedBindDefinitionSpec env obj)" for obj
    unfolding validateRestrictedBindDefinitionSpec_def Let_def by (auto intro!: returning assms(1))
  moreover have "returns (rbdValidatePolicyRefExists env obj)" for obj
    by (auto simp: rbdValidatePolicyRefExists_def Let_def split: read.split)
  ultimately have checks: "returns (rbdChecks env obj)" for obj
    unfolding rbdChecks_def by (auto intro!: andThen_returns requester_returns assms(2))
  then show "returns (rbdValidateCreate env b)" "returns (rbdValidateUpdate reflectEqual env old b)"
    unfolding rbdValidateCreate_def rbdValidateUpdate_def Let_def
    by (auto intro!: andThen_returns metadata_returns assms(2))
qed

lemma bd_validators_return:
  assumes "bind_lists_end (defaultPolicyReader env)"
  shows "returns (bdValidateCreate env e)" "returns (bdValidateUpdate env old e)"
proof -
  have "returns (missingRolesAnswer block st)" for block st by (simp add: missingRolesAnswer_def Let_def)
  then have "returns (validateBindDefinitionSpec env robj)" for robj
    unfolding validateBindDefinitionSpec_def Let_def by (auto intro!: returning assms)
  then show "returns (bdValidateCreate env e)" "returns (bdValidateUpdate env old e)"
    by (simp_all add: bdValidateCreate_def bdValidateUpdate_def Let_def)
qed

end
