(* ===== verification/Admission_Runs.thy ===== *)
theory Admission_Runs
  imports Policy_Admission Bind_Admission
begin

text \<open>
  Runs of requests through the validating webhooks of the custom resources. A step is one request that its
  webhook accepts, with whatever the readers answer as long as a complete listing and a found object show
  what is stored; requests are admitted one after the other. Deletions of definitions are always accepted,
  and an object may disappear once its deletion is accepted. The theorems say what holds after every run.
\<close>

section \<open>Unique claims of two stores\<close>

text \<open>No two objects of the stores have the same key, within one store or across both.\<close>

definition unique_keys :: "('a \<Rightarrow> 'k) \<Rightarrow> ('b \<Rightarrow> 'k) \<Rightarrow> (string \<rightharpoonup> 'a) \<Rightarrow> (string \<rightharpoonup> 'b) \<Rightarrow> bool" where
  "unique_keys ka kb sa sb \<longleftrightarrow>
     (\<forall>n n' x y. sa n = Some x \<longrightarrow> sa n' = Some y \<longrightarrow> ka x = ka y \<longrightarrow> n = n') \<and>
     (\<forall>n n' x y. sb n = Some x \<longrightarrow> sb n' = Some y \<longrightarrow> kb x = kb y \<longrightarrow> n = n') \<and>
     (\<forall>n n' x y. sa n = Some x \<longrightarrow> sb n' = Some y \<longrightarrow> ka x \<noteq> kb y)"

lemma unique_keys_commute: "unique_keys ka kb sa sb \<longleftrightarrow> unique_keys kb ka sb sa"
  unfolding unique_keys_def by (intro iffI; elim conjE; intro conjI; (assumption | metis))

lemma unique_keys_put:
  assumes "unique_keys ka kb sa sb"
    and "\<And>n' y. sa n' = Some y \<Longrightarrow> n' \<noteq> n \<Longrightarrow> ka y \<noteq> ka x" "\<And>n' y. sb n' = Some y \<Longrightarrow> kb y \<noteq> ka x"
  shows "unique_keys ka kb (sa(n \<mapsto> x)) sb"
  using assms unfolding unique_keys_def by (auto split: if_splits) metis+

lemma unique_keys_keep:
  assumes "unique_keys ka kb sa sb" "sa n = Some old" "ka x = ka old"
  shows "unique_keys ka kb (sa(n \<mapsto> x)) sb"
proof (rule unique_keys_put [OF assms(1)])
  show "ka y \<noteq> ka x" if "sa n' = Some y" "n' \<noteq> n" for n' y
    using assms that unfolding unique_keys_def by metis
  show "kb y \<noteq> ka x" if "sb n' = Some y" for n' y
    using assms that unfolding unique_keys_def by metis
qed

lemma unique_keys_remove: "unique_keys ka kb sa sb \<Longrightarrow> unique_keys ka kb (sa(n := None)) sb"
  unfolding unique_keys_def by (auto split: if_splits)

section \<open>The stored objects and what readers show of them\<close>

record admission_state =
  as_Policies :: "string \<rightharpoonup> RBACPolicy \<times> bool"
  as_RRDs :: "string \<rightharpoonup> RestrictedRoleDefinition reviewed"
  as_RDs :: "string \<rightharpoonup> RoleDefinition reviewed"
  as_RBDs :: "string \<rightharpoonup> RestrictedBindDefinition reviewed"
  as_BDs :: "string \<rightharpoonup> BindDefinition reviewed"

definition lists_store :: "'a list_reader \<Rightarrow> (string \<rightharpoonup> 'a reviewed) \<Rightarrow> bool" where
  "lists_store reader s \<longleftrightarrow>
     (\<forall>items. served (listAdmissionPage reader [] None) '''' items \<longrightarrow> (\<forall>n x. s n = Some x \<longrightarrow> rv_Object x \<in> set items))"

definition policies_of :: "(RBACPolicy \<times> bool) list \<Rightarrow> admission_state \<Rightarrow> bool" where
  "policies_of ps st \<longleftrightarrow> policies_wf ps \<and> (\<forall>n. stored_policy ps n = as_Policies st n)"

definition sound_reads :: "readers \<Rightarrow> admission_state \<Rightarrow> bool" where
  "sound_reads c st \<longleftrightarrow>
     (\<exists>ps. policies_of ps st \<and> sound_policy_reads c ps) \<and>
     lists_store (rs_RestrictedRoleDefinitions c) (as_RRDs st) \<and> lists_store (rs_RoleDefinitions c) (as_RDs st) \<and>
     lists_store (rs_RestrictedBindDefinitions c) (as_RBDs st) \<and> lists_store (rs_BindDefinitions c) (as_BDs st)"

section \<open>Steps\<close>

inductive admission_step ::
  "(RestrictedRoleDefinitionSpec \<Rightarrow> RestrictedRoleDefinitionSpec \<Rightarrow> bool) \<Rightarrow>
   (RestrictedBindDefinitionSpec \<Rightarrow> RestrictedBindDefinitionSpec \<Rightarrow> bool) \<Rightarrow>
   admission_state \<Rightarrow> admission_state \<Rightarrow> bool" for eqR eqB where
  policy_create: "sound_reads (defaultPolicyReader env) st \<Longrightarrow> accepts (policyValidateCreate env p) \<Longrightarrow>
     policy_Name p = n \<Longrightarrow> n \<noteq> '''' \<Longrightarrow> as_Policies st n = None \<Longrightarrow>
     admission_step eqR eqB st (st\<lparr>as_Policies := (as_Policies st)(n \<mapsto> (p, False))\<rparr>)"
| policy_update: "sound_reads (defaultPolicyReader env) st \<Longrightarrow> as_Policies st n = Some (old, deleting) \<Longrightarrow>
     accepts (policyValidateUpdate env old p) \<Longrightarrow> policy_Name p = n \<Longrightarrow>
     admission_step eqR eqB st (st\<lparr>as_Policies := (as_Policies st)(n \<mapsto> (p, deleting))\<rparr>)"
| policy_delete: "sound_reads (defaultPolicyReader env) st \<Longrightarrow> as_Policies st n = Some (old, deleting) \<Longrightarrow>
     accepts (policyValidateDelete env old) \<Longrightarrow> policy_Name old = n \<Longrightarrow>
     admission_step eqR eqB st (st\<lparr>as_Policies := (as_Policies st)(n \<mapsto> (old, True))\<rparr>)"
| policy_gone: "as_Policies st n = Some (old, True) \<Longrightarrow>
     admission_step eqR eqB st (st\<lparr>as_Policies := (as_Policies st)(n := None)\<rparr>)"
| rrd_create: "sound_reads (defaultPolicyReader env) st \<Longrightarrow> accepts (rrdValidateCreate env x) \<Longrightarrow>
     rrd_Name (rv_Object x) = n \<Longrightarrow> as_RRDs st n = None \<Longrightarrow>
     admission_step eqR eqB st (st\<lparr>as_RRDs := (as_RRDs st)(n \<mapsto> x)\<rparr>)"
| rrd_update: "sound_reads (defaultPolicyReader env) st \<Longrightarrow> as_RRDs st n = Some old \<Longrightarrow>
     accepts (rrdValidateUpdate eqR env old x) \<Longrightarrow> rrd_Name (rv_Object x) = n \<Longrightarrow>
     admission_step eqR eqB st (st\<lparr>as_RRDs := (as_RRDs st)(n \<mapsto> x)\<rparr>)"
| rrd_gone: "as_RRDs st n = Some old \<Longrightarrow> admission_step eqR eqB st (st\<lparr>as_RRDs := (as_RRDs st)(n := None)\<rparr>)"
| rd_create: "sound_reads (defaultPolicyReader env) st \<Longrightarrow> accepts (rdValidateCreate env d) \<Longrightarrow>
     rd_Name (rv_Object d) = n \<Longrightarrow> as_RDs st n = None \<Longrightarrow>
     admission_step eqR eqB st (st\<lparr>as_RDs := (as_RDs st)(n \<mapsto> d)\<rparr>)"
| rd_update: "sound_reads (defaultPolicyReader env) st \<Longrightarrow> as_RDs st n = Some oldd \<Longrightarrow>
     accepts (rdValidateUpdate env oldd d) \<Longrightarrow> rd_Name (rv_Object d) = n \<Longrightarrow>
     admission_step eqR eqB st (st\<lparr>as_RDs := (as_RDs st)(n \<mapsto> d)\<rparr>)"
| rd_gone: "as_RDs st n = Some oldd \<Longrightarrow> admission_step eqR eqB st (st\<lparr>as_RDs := (as_RDs st)(n := None)\<rparr>)"
| rbd_create: "sound_reads (defaultPolicyReader env) st \<Longrightarrow> accepts (rbdValidateCreate env b) \<Longrightarrow>
     rbd_Name (rv_Object b) = n \<Longrightarrow> as_RBDs st n = None \<Longrightarrow>
     admission_step eqR eqB st (st\<lparr>as_RBDs := (as_RBDs st)(n \<mapsto> b)\<rparr>)"
| rbd_update: "sound_reads (defaultPolicyReader env) st \<Longrightarrow> as_RBDs st n = Some oldb \<Longrightarrow>
     accepts (rbdValidateUpdate eqB env oldb b) \<Longrightarrow> rbd_Name (rv_Object b) = n \<Longrightarrow>
     admission_step eqR eqB st (st\<lparr>as_RBDs := (as_RBDs st)(n \<mapsto> b)\<rparr>)"
| rbd_gone: "as_RBDs st n = Some oldb \<Longrightarrow> admission_step eqR eqB st (st\<lparr>as_RBDs := (as_RBDs st)(n := None)\<rparr>)"
| bd_create: "sound_reads (defaultPolicyReader env) st \<Longrightarrow> accepts (bdValidateCreate env e) \<Longrightarrow>
     bd_Name (rv_Object e) = n \<Longrightarrow> as_BDs st n = None \<Longrightarrow>
     admission_step eqR eqB st (st\<lparr>as_BDs := (as_BDs st)(n \<mapsto> e)\<rparr>)"
| bd_update: "sound_reads (defaultPolicyReader env) st \<Longrightarrow> as_BDs st n = Some olde \<Longrightarrow>
     accepts (bdValidateUpdate env olde e) \<Longrightarrow> bd_Name (rv_Object e) = n \<Longrightarrow>
     admission_step eqR eqB st (st\<lparr>as_BDs := (as_BDs st)(n \<mapsto> e)\<rparr>)"
| bd_gone: "as_BDs st n = Some olde \<Longrightarrow> admission_step eqR eqB st (st\<lparr>as_BDs := (as_BDs st)(n := None)\<rparr>)"

definition no_objects :: admission_state where
  "no_objects = \<lparr>as_Policies = Map.empty, as_RRDs = Map.empty, as_RDs = Map.empty, as_RBDs = Map.empty, as_BDs = Map.empty\<rparr>"

abbreviation admission_run where
  "admission_run eqR eqB \<equiv> (admission_step eqR eqB)\<^sup>*\<^sup>*"

definition deep_equal :: "('a \<Rightarrow> 'a \<Rightarrow> bool) \<Rightarrow> bool" where
  "deep_equal reflectEqual \<longleftrightarrow> (\<forall>s s'. reflectEqual s s' \<longrightarrow> s = s')"

text \<open>The contract of an invariant: it holds of the empty cluster and every step keeps it.\<close>

locale admission_invariant =
  fixes eqR :: "RestrictedRoleDefinitionSpec \<Rightarrow> RestrictedRoleDefinitionSpec \<Rightarrow> bool"
    and eqB :: "RestrictedBindDefinitionSpec \<Rightarrow> RestrictedBindDefinitionSpec \<Rightarrow> bool"
    and I :: "admission_state \<Rightarrow> bool"
  assumes initial: "I no_objects"
    and step: "admission_step eqR eqB st st' \<Longrightarrow> I st \<Longrightarrow> I st'"
begin

lemma after_run: "admission_run eqR eqB st st' \<Longrightarrow> I st \<Longrightarrow> I st'"
  by (induction rule: rtranclp_induct) (auto intro: step)

lemma reachable: "admission_run eqR eqB no_objects st \<Longrightarrow> I st"
  using after_run initial by blast

end

section \<open>Names\<close>

definition names_ok :: "admission_state \<Rightarrow> bool" where
  "names_ok st \<longleftrightarrow>
     (\<forall>n p d. as_Policies st n = Some (p, d) \<longrightarrow> policy_Name p = n) \<and>
     (\<forall>n x. as_RRDs st n = Some x \<longrightarrow> rrd_Name (rv_Object x) = n) \<and>
     (\<forall>n x. as_RDs st n = Some x \<longrightarrow> rd_Name (rv_Object x) = n) \<and>
     (\<forall>n x. as_RBDs st n = Some x \<longrightarrow> rbd_Name (rv_Object x) = n) \<and>
     (\<forall>n x. as_BDs st n = Some x \<longrightarrow> bd_Name (rv_Object x) = n)"

lemma names_step: "admission_step eqR eqB st st' \<Longrightarrow> names_ok st \<Longrightarrow> names_ok st'"
  by (induction rule: admission_step.induct) (auto simp: names_ok_def)

interpretation names: admission_invariant eqR eqB names_ok for eqR eqB
  by unfold_locales (auto simp: names_ok_def no_objects_def dest: names_step [unfolded names_ok_def])

section \<open>Default assignments\<close>

definition assignments_disjoint :: "admission_state \<Rightarrow> bool" where
  "assignments_disjoint st \<longleftrightarrow> names_ok st \<and>
     (\<forall>n m p q d e. as_Policies st n = Some (p, d) \<longrightarrow> as_Policies st m = Some (q, e) \<longrightarrow> n \<noteq> m \<longrightarrow> \<not> overlap p q)"

lemma disjointD:
  "assignments_disjoint st \<Longrightarrow> as_Policies st n = Some (p, d) \<Longrightarrow> as_Policies st m = Some (q, e) \<Longrightarrow> n \<noteq> m \<Longrightarrow> \<not> overlap p q"
  unfolding assignments_disjoint_def by blast

lemma disjoint_names: "assignments_disjoint st \<Longrightarrow> names_ok st"
  by (simp add: assignments_disjoint_def)

lemma policy_named: "names_ok st \<Longrightarrow> as_Policies st n = Some (p, d) \<Longrightarrow> policy_Name p = n"
  by (simp add: names_ok_def)

lemma sound_listing:
  assumes "sound_reads c st" "served (listAdmissionPage (rs_Policies c) [] None) '''' items" "as_Policies st m = Some (q, e)"
  shows "q \<in> set items"
proof -
  obtain ps where ps: "policies_of ps st" "sound_policy_reads c ps" using assms(1) by (auto simp: sound_reads_def)
  then have "stored_policy ps m = Some (q, e)" "items = map fst ps"
    using assms(2, 3) by (auto simp: policies_of_def sound_policy_reads_def)
  then show ?thesis using stored_policy_name [of ps m q e] by force
qed

text \<open>An accepted policy overlaps with no other stored one.\<close>

lemma accepted_disjoint:
  assumes "sound_reads (defaultPolicyReader env) st" "accepts (validateDefaultAssignmentDoesNotOverlap env p)"
    and "as_Policies st m = Some (q, e)" "policy_Name q \<noteq> policy_Name p"
  shows "\<not> overlap p q"
  using no_overlap_accepted [OF assms(2)]
proof
  assume "\<exists>items. served (listAdmissionPage (rs_Policies (defaultPolicyReader env)) [] None) '''' items \<and>
     (\<forall>existing \<in> set items. policy_Name existing \<noteq> policy_Name p \<longrightarrow> \<not> overlap p existing)"
  then show ?thesis using sound_listing [OF assms(1) _ assms(3)] assms(4) by blast
qed (simp add: overlap_def)

lemma disjoint_put:
  assumes "assignments_disjoint st" "policy_Name p = n"
    and "\<And>m q e. as_Policies st m = Some (q, e) \<Longrightarrow> policy_Name q \<noteq> policy_Name p \<Longrightarrow> \<not> overlap p q"
  shows "assignments_disjoint (st\<lparr>as_Policies := (as_Policies st)(n \<mapsto> (p, d))\<rparr>)"
proof -
  have other: "\<not> overlap p q" if "as_Policies st m = Some (q, e)" "m \<noteq> n" for m q e
    using assms(2, 3) that policy_named [OF disjoint_names [OF assms(1)] that(1)] by blast
  show ?thesis unfolding assignments_disjoint_def
  proof (intro conjI allI impI)
    show "names_ok (st\<lparr>as_Policies := (as_Policies st)(n \<mapsto> (p, d))\<rparr>)"
      using assms(1, 2) by (auto simp: assignments_disjoint_def names_ok_def)
    fix a b x y u v
    assume "as_Policies (st\<lparr>as_Policies := (as_Policies st)(n \<mapsto> (p, d))\<rparr>) a = Some (x, u)"
      "as_Policies (st\<lparr>as_Policies := (as_Policies st)(n \<mapsto> (p, d))\<rparr>) b = Some (y, v)" "a \<noteq> b"
    then show "\<not> overlap x y"
      using other overlap_commute [of x y] by (auto split: if_splits dest: disjointD [OF assms(1)])
  qed
qed

lemma disjoint_others:
  "assignments_disjoint st \<Longrightarrow> as_Policies st' = as_Policies st \<Longrightarrow> names_ok st' \<Longrightarrow> assignments_disjoint st'"
  by (simp add: assignments_disjoint_def)

lemma disjoint_step: "admission_step eqR eqB st st' \<Longrightarrow> assignments_disjoint st \<Longrightarrow> assignments_disjoint st'"
proof (cases rule: admission_step.cases, assumption)
  fix env p n
  assume "assignments_disjoint st" "sound_reads (defaultPolicyReader env) st" "accepts (policyValidateCreate env p)"
    "policy_Name p = n" "st' = st\<lparr>as_Policies := (as_Policies st)(n \<mapsto> (p, False))\<rparr>"
  then show "assignments_disjoint st'"
    using accepted_disjoint [of env st p] by (auto intro!: disjoint_put simp: policyValidateCreate_def accepts_then)
next
  fix env n old deleting p
  assume "assignments_disjoint st" "sound_reads (defaultPolicyReader env) st" "accepts (policyValidateUpdate env old p)"
    "policy_Name p = n" "st' = st\<lparr>as_Policies := (as_Policies st)(n \<mapsto> (p, deleting))\<rparr>"
  then show "assignments_disjoint st'"
    using accepted_disjoint [of env st p] by (auto intro!: disjoint_put simp: policyValidateUpdate_def accepts_then)
next
  fix env n old deleting
  assume "assignments_disjoint st" "as_Policies st n = Some (old, deleting)" "policy_Name old = n"
    "st' = st\<lparr>as_Policies := (as_Policies st)(n \<mapsto> (old, True))\<rparr>"
  then show "assignments_disjoint st'"
    by (auto intro!: disjoint_put dest: disjointD policy_named [OF disjoint_names])
next
  fix n old
  assume "assignments_disjoint st" "st' = st\<lparr>as_Policies := (as_Policies st)(n := None)\<rparr>"
  then show "assignments_disjoint st'"
    by (auto simp: assignments_disjoint_def names_ok_def split: if_splits)
qed (auto simp: assignments_disjoint_def names_ok_def)

interpretation disjoint: admission_invariant eqR eqB assignments_disjoint for eqR eqB
  by unfold_locales (simp add: assignments_disjoint_def names_ok_def no_objects_def, rule disjoint_step)

section \<open>Targets\<close>

definition role_targets_unique :: "admission_state \<Rightarrow> bool" where
  "role_targets_unique st \<longleftrightarrow> names_ok st \<and>
     unique_keys (\<lambda>x. rrd_target (rv_Object x)) (\<lambda>d. rd_target (rv_Object d)) (as_RRDs st) (as_RDs st)"

definition bind_targets_unique :: "admission_state \<Rightarrow> bool" where
  "bind_targets_unique st \<longleftrightarrow> names_ok st \<and>
     unique_keys (\<lambda>b. rbds_TargetName (rbd_Spec (rv_Object b))) (\<lambda>e. bds_TargetName (bd_Spec (rv_Object e))) (as_RBDs st) (as_BDs st)"

lemma listed_rrd: "sound_reads c st \<Longrightarrow> served (listAdmissionPage (rs_RestrictedRoleDefinitions c) [] None) '''' items \<Longrightarrow>
    as_RRDs st n = Some x \<Longrightarrow> rv_Object x \<in> set items"
  and listed_rd: "sound_reads c st \<Longrightarrow> served (listAdmissionPage (rs_RoleDefinitions c) [] None) '''' items2 \<Longrightarrow>
    as_RDs st n = Some d \<Longrightarrow> rv_Object d \<in> set items2"
  and listed_rbd: "sound_reads c st \<Longrightarrow> served (listAdmissionPage (rs_RestrictedBindDefinitions c) [] None) '''' items3 \<Longrightarrow>
    as_RBDs st n = Some b \<Longrightarrow> rv_Object b \<in> set items3"
  and listed_bd: "sound_reads c st \<Longrightarrow> served (listAdmissionPage (rs_BindDefinitions c) [] None) '''' items4 \<Longrightarrow>
    as_BDs st n = Some e \<Longrightarrow> rv_Object e \<in> set items4"
  unfolding sound_reads_def lists_store_def by blast+

lemma rrd_put:
  assumes "role_targets_unique st" "sound_reads (defaultPolicyReader env) st" "rrd_conflict_free env (rv_Object x)"
    and "rrd_Name (rv_Object x) = n"
  shows "role_targets_unique (st\<lparr>as_RRDs := (as_RRDs st)(n \<mapsto> x)\<rparr>)"
proof -
  have "names_ok st" "unique_keys (\<lambda>x. rrd_target (rv_Object x)) (\<lambda>d. rd_target (rv_Object d)) (as_RRDs st) (as_RDs st)"
    using assms(1) by (simp_all add: role_targets_unique_def)
  moreover have "rrd_target (rv_Object y) \<noteq> rrd_target (rv_Object x)" if "as_RRDs st m = Some y" "m \<noteq> n" for m y
  proof -
    have "rrd_Name (rv_Object y) \<noteq> rrd_Name (rv_Object x)" using that assms(4) \<open>names_ok st\<close> by (simp add: names_ok_def)
    then show ?thesis using assms(3) listed_rrd [OF assms(2) _ that(1)] unfolding rrd_conflict_free_def by blast
  qed
  moreover have "rd_target (rv_Object d) \<noteq> rrd_target (rv_Object x)" if "as_RDs st m = Some d" for m d
    using assms(3) listed_rd [OF assms(2) _ that] unfolding rrd_conflict_free_def by blast
  ultimately show ?thesis using assms(4)
    by (auto simp: role_targets_unique_def names_ok_def intro: unique_keys_put)
qed

lemma rd_put:
  assumes "role_targets_unique st" "sound_reads (defaultPolicyReader env) st" "rd_conflict_free env (rv_Object d)"
    and "rd_Name (rv_Object d) = n"
  shows "role_targets_unique (st\<lparr>as_RDs := (as_RDs st)(n \<mapsto> d)\<rparr>)"
proof -
  have "names_ok st" and u: "unique_keys (\<lambda>d. rd_target (rv_Object d)) (\<lambda>x. rrd_target (rv_Object x)) (as_RDs st) (as_RRDs st)"
    using assms(1) unique_keys_commute by (auto simp: role_targets_unique_def)
  moreover have "rd_target (rv_Object y) \<noteq> rd_target (rv_Object d)" if "as_RDs st m = Some y" "m \<noteq> n" for m y
  proof -
    have "rd_Name (rv_Object y) \<noteq> rd_Name (rv_Object d)" using that assms(4) \<open>names_ok st\<close> by (simp add: names_ok_def)
    then show ?thesis using assms(3) listed_rd [OF assms(2) _ that(1)] unfolding rd_conflict_free_def by blast
  qed
  moreover have "rrd_target (rv_Object x) \<noteq> rd_target (rv_Object d)" if "as_RRDs st m = Some x" for m x
    using assms(3) listed_rrd [OF assms(2) _ that] unfolding rd_conflict_free_def by blast
  ultimately have "unique_keys (\<lambda>d. rd_target (rv_Object d)) (\<lambda>x. rrd_target (rv_Object x)) ((as_RDs st)(n \<mapsto> d)) (as_RRDs st)"
    by (intro unique_keys_put)
  then show ?thesis using assms(4) \<open>names_ok st\<close> unique_keys_commute
    by (auto simp: role_targets_unique_def names_ok_def)
qed

lemma unique_others:
  "names_ok st' \<Longrightarrow> as_RRDs st' = as_RRDs st \<Longrightarrow> as_RDs st' = as_RDs st \<Longrightarrow> role_targets_unique st \<Longrightarrow> role_targets_unique st'"
  by (simp add: role_targets_unique_def)

lemma role_unique_step:
  assumes "admission_step eqR eqB st st'" "role_targets_unique st" "deep_equal eqR"
  shows "role_targets_unique st'"
proof -
  have names: "names_ok st'" using assms(1, 2) names_step by (auto simp: role_targets_unique_def)
  from assms(1) show ?thesis
  proof cases
    case (rrd_create env x n)
    then show ?thesis using rrd_put [OF assms(2)] rrd_create_accepted by blast
  next
    case (rrd_update env n old x)
    have "rrd_target (rv_Object x) = rrd_target (rv_Object old)"
      using rrd_update_accepted(1) [OF rrd_update(4)] assms(3) by (auto simp: deep_equal_def)
    then show ?thesis using rrd_update assms(2) names by (auto simp: role_targets_unique_def intro: unique_keys_keep)
  next
    case (rrd_gone n old)
    then show ?thesis using assms(2) names by (auto simp: role_targets_unique_def intro: unique_keys_remove)
  next
    case (rd_create env d n)
    then show ?thesis using rd_put [OF assms(2)] rd_create_accepted by blast
  next
    case (rd_update env n oldd d)
    then show ?thesis using rd_put [OF assms(2)] rd_update_accepted(2) rd_create_accepted by blast
  next
    case (rd_gone n oldd)
    then show ?thesis using assms(2) names
      by (auto simp: role_targets_unique_def unique_keys_commute [of "\<lambda>x. rrd_target (rv_Object x)"] intro: unique_keys_remove)
  qed (use unique_others [OF names _ _ assms(2)] in auto)
qed

lemma rbd_put:
  assumes "bind_targets_unique st" "sound_reads (defaultPolicyReader env) st" "rbd_Name (rv_Object b) = n"
    and "bind_conflict_free env (rbds_TargetName (rbd_Spec (rv_Object b))) (\<lambda>other. rbd_Name other \<noteq> rbd_Name (rv_Object b)) (\<lambda>_. True)"
  shows "bind_targets_unique (st\<lparr>as_RBDs := (as_RBDs st)(n \<mapsto> b)\<rparr>)"
proof -
  have n: "names_ok st" using assms(1) by (simp add: bind_targets_unique_def)
  have "rbds_TargetName (rbd_Spec (rv_Object y)) \<noteq> rbds_TargetName (rbd_Spec (rv_Object b))"
    if "as_RBDs st m = Some y" "m \<noteq> n" for m y
  proof -
    have "rbd_Name (rv_Object y) \<noteq> rbd_Name (rv_Object b)" using that assms(3) n by (simp add: names_ok_def)
    then show ?thesis using assms(4) listed_rbd [OF assms(2) _ that(1)] unfolding bind_conflict_free_def by blast
  qed
  moreover have "bds_TargetName (bd_Spec (rv_Object e)) \<noteq> rbds_TargetName (rbd_Spec (rv_Object b))"
    if "as_BDs st m = Some e" for m e
    using assms(4) listed_bd [OF assms(2) _ that] unfolding bind_conflict_free_def by blast
  ultimately show ?thesis using assms(1, 3)
    by (auto simp: bind_targets_unique_def names_ok_def intro: unique_keys_put)
qed

lemma bd_put:
  assumes "bind_targets_unique st" "sound_reads (defaultPolicyReader env) st" "bd_Name (rv_Object e) = n"
    and "bind_conflict_free env (bds_TargetName (bd_Spec (rv_Object e))) (\<lambda>_. True) (\<lambda>other. bd_Name other \<noteq> bd_Name (rv_Object e))"
  shows "bind_targets_unique (st\<lparr>as_BDs := (as_BDs st)(n \<mapsto> e)\<rparr>)"
proof -
  let ?ka = "\<lambda>b. rbds_TargetName (rbd_Spec (rv_Object b))" and ?kb = "\<lambda>e. bds_TargetName (bd_Spec (rv_Object e))"
  have n: "names_ok st" and u: "unique_keys ?kb ?ka (as_BDs st) (as_RBDs st)"
    using assms(1) unique_keys_commute [of ?ka] by (auto simp: bind_targets_unique_def)
  have "?kb y \<noteq> ?kb e" if "as_BDs st m = Some y" "m \<noteq> n" for m y
  proof -
    have "bd_Name (rv_Object y) \<noteq> bd_Name (rv_Object e)" using that assms(3) n by (simp add: names_ok_def)
    then show ?thesis using assms(4) listed_bd [OF assms(2) _ that(1)] unfolding bind_conflict_free_def by blast
  qed
  moreover have "?ka b \<noteq> ?kb e" if "as_RBDs st m = Some b" for m b
    using assms(4) listed_rbd [OF assms(2) _ that] unfolding bind_conflict_free_def by blast
  ultimately have "unique_keys ?kb ?ka ((as_BDs st)(n \<mapsto> e)) (as_RBDs st)" by (intro unique_keys_put [OF u])
  then show ?thesis using assms(3) n unique_keys_commute [of ?ka] by (auto simp: bind_targets_unique_def names_ok_def)
qed

lemma bind_unique_step:
  assumes "admission_step eqR eqB st st'" "bind_targets_unique st" "deep_equal eqB"
  shows "bind_targets_unique st'"
proof -
  let ?ka = "\<lambda>b. rbds_TargetName (rbd_Spec (rv_Object b))" and ?kb = "\<lambda>e. bds_TargetName (bd_Spec (rv_Object e))"
  have names: "names_ok st'" using assms(1, 2) names_step by (auto simp: bind_targets_unique_def)
  from assms(1) show ?thesis
  proof cases
    case (rbd_create env b n)
    then show ?thesis using rbd_put [OF assms(2)] rbd_create_accepted(1) rbd_spec_accepted(1) by blast
  next
    case (rbd_update env n oldb b)
    have "?ka b = ?ka oldb" using rbd_update_accepted(1) [OF rbd_update(4)] assms(3) by (auto simp: deep_equal_def)
    then show ?thesis using rbd_update assms(2) names by (auto simp: bind_targets_unique_def intro: unique_keys_keep)
  next
    case (rbd_gone n oldb)
    then show ?thesis using assms(2) names by (auto simp: bind_targets_unique_def intro: unique_keys_remove)
  next
    case (bd_create env e n)
    then show ?thesis using bd_put [OF assms(2)] bd_spec_accepted(1) by (auto simp: bdValidateCreate_def)
  next
    case (bd_update env n olde e)
    have "?kb e = ?kb olde" using bd_update_accepted(1) [OF bd_update(4)] .
    then show ?thesis using bd_update assms(2) names
      by (auto simp: bind_targets_unique_def unique_keys_commute [of ?ka] intro: unique_keys_keep)
  next
    case (bd_gone n olde)
    then show ?thesis using assms(2) names
      by (auto simp: bind_targets_unique_def unique_keys_commute [of ?ka] intro: unique_keys_remove)
  qed (use names assms(2) in \<open>auto simp: bind_targets_unique_def\<close>)
qed

interpretation roles: admission_invariant eqR eqB "\<lambda>st. deep_equal eqR \<longrightarrow> role_targets_unique st" for eqR eqB
  by unfold_locales
    (simp add: role_targets_unique_def names_ok_def unique_keys_def no_objects_def, blast intro: role_unique_step)

interpretation binds: admission_invariant eqR eqB "\<lambda>st. deep_equal eqB \<longrightarrow> bind_targets_unique st" for eqR eqB
  by unfold_locales
    (simp add: bind_targets_unique_def names_ok_def unique_keys_def no_objects_def, blast intro: bind_unique_step)

section \<open>References\<close>

definition live :: "admission_state \<Rightarrow> string \<Rightarrow> bool" where
  "live st n \<longleftrightarrow> (\<exists>p. as_Policies st n = Some (p, False))"

definition references_live :: "admission_state \<Rightarrow> bool" where
  "references_live st \<longleftrightarrow>
     (\<forall>n x. as_RRDs st n = Some x \<longrightarrow> live st (rrds_PolicyRef (rrd_Spec (rv_Object x)))) \<and>
     (\<forall>n b. as_RBDs st n = Some b \<longrightarrow> live st (rbds_PolicyRef (rbd_Spec (rv_Object b))))"

lemma got_live:
  assumes "sound_reads c st" "rs_GetPolicy c n = Got (p, False)"
  shows "live st n"
proof -
  obtain ps where ps: "policies_of ps st" "sound_policy_reads c ps" using assms(1) by (auto simp: sound_reads_def)
  have "case rs_GetPolicy c n of Missing \<Rightarrow> stored_policy ps n = None | ReadError err \<Rightarrow> True
      | Got p \<Rightarrow> stored_policy ps n = Some p"
    using ps(2) unfolding sound_policy_reads_def by blast
  then show ?thesis using ps(1) assms(2) by (simp add: policies_of_def live_def)
qed

text \<open>A policy whose deletion is accepted is referenced by no stored definition.\<close>

lemma deletable_unreferenced:
  assumes "sound_reads (defaultPolicyReader env) st" "accepts (policyValidateDelete env p)"
  shows "as_RRDs st m = Some x \<Longrightarrow> rrds_PolicyRef (rrd_Spec (rv_Object x)) \<noteq> policy_Name p"
    and "as_RBDs st m = Some b \<Longrightarrow> rbds_PolicyRef (rbd_Spec (rv_Object b)) \<noteq> policy_Name p"
  using deletable [OF assms(2)] listed_rrd [OF assms(1)] listed_rbd [OF assms(1)] by blast+

lemma references_step:
  assumes "admission_step eqR eqB st st'" "references_live st" "deep_equal eqR" "deep_equal eqB"
  shows "references_live st'"
  using assms(1)
proof cases
  case (policy_delete env n old deleting)
  then show ?thesis using assms(2) deletable_unreferenced [OF policy_delete(2, 4)]
    by (auto simp: references_live_def live_def)
next
  case (rrd_create env x n)
  then have "live st (rrds_PolicyRef (rrd_Spec (rv_Object x)))" using rrd_create_accepted(3) got_live by blast
  with rrd_create assms(2) show ?thesis by (auto simp: references_live_def live_def)
next
  case (rrd_update env n old x)
  have "rrds_PolicyRef (rrd_Spec (rv_Object x)) = rrds_PolicyRef (rrd_Spec (rv_Object old))"
    using rrd_update_accepted(2) [OF rrd_update(4)] assms(3) by (auto simp: deep_equal_def)
  with rrd_update assms(2) show ?thesis by (auto simp: references_live_def live_def)
next
  case (rbd_create env b n)
  then have "live st (rbds_PolicyRef (rbd_Spec (rv_Object b)))" using rbd_create_accepted(2) got_live by blast
  with rbd_create assms(2) show ?thesis by (auto simp: references_live_def live_def)
next
  case (rbd_update env n old b)
  have "rbds_PolicyRef (rbd_Spec (rv_Object b)) = rbds_PolicyRef (rbd_Spec (rv_Object old))"
    using rbd_update_accepted(2) [OF rbd_update(4)] assms(4) by (auto simp: deep_equal_def)
  with rbd_update assms(2) show ?thesis by (auto simp: references_live_def live_def)
next
  case (policy_gone n old)
  then show ?thesis using assms(2) by (fastforce simp: references_live_def live_def)
next
  case (policy_update env n old deleting p)
  then show ?thesis using assms(2) by (fastforce simp: references_live_def live_def)
qed (use assms(2) in \<open>auto simp: references_live_def live_def split: if_splits\<close>)

interpretation refs: admission_invariant eqR eqB "\<lambda>st. deep_equal eqR \<and> deep_equal eqB \<longrightarrow> references_live st" for eqR eqB
  by unfold_locales (simp add: references_live_def no_objects_def, blast intro: references_step)

end
