(* ===== verification/Admission_Server.thy ===== *)
theory Admission_Server
  imports Admission_Runs
begin

text \<open>
  A store of objects that serves the reads of the webhooks the way the API documents them: chunked lists,
  filtered by the index of default assignments and by label selectors, and lookups by name. Every read of it
  is sound and every listing ends, so what the theorems on admission assume of the readers can hold.
\<close>

record object_store =
  os_Policies :: "(RBACPolicy \<times> bool) list"
  os_RRDs :: "RestrictedRoleDefinition reviewed list"
  os_RDs :: "RoleDefinition reviewed list"
  os_RBDs :: "RestrictedBindDefinition reviewed list"
  os_BDs :: "BindDefinition reviewed list"
  os_Namespaces :: "Namespace list"
  os_Roles :: "role_key \<Rightarrow> rbac_role option"

definition policy_server :: "RBACPolicy list \<Rightarrow> RBACPolicy list_reader" where
  "policy_server ps opts =
     chunk_server (if (HasDefaultAssignmentField, ''true'') \<in> set (lo_Fields opts) then filter assigned ps else ps) opts"

definition namespace_server :: "Namespace list \<Rightarrow> Namespace list_reader" where
  "namespace_server nss opts =
     chunk_server (case lo_Selector opts of None \<Rightarrow> nss | Some m \<Rightarrow> filter (\<lambda>ns. m (ns_Labels ns)) nss) opts"

definition found :: "'a option \<Rightarrow> 'a read" where
  "found xp = (case xp of None \<Rightarrow> Missing | Some x \<Rightarrow> Got x)"

definition serve :: "object_store \<Rightarrow> readers" where
  "serve s =
     \<lparr>rs_Policies = policy_server (map fst (os_Policies s)),
      rs_GetPolicy = (\<lambda>n. found (stored_policy (os_Policies s) n)),
      rs_RestrictedRoleDefinitions = chunk_server (map rv_Object (os_RRDs s)),
      rs_RestrictedBindDefinitions = chunk_server (map rv_Object (os_RBDs s)),
      rs_RoleDefinitions = chunk_server (map rv_Object (os_RDs s)),
      rs_BindDefinitions = chunk_server (map rv_Object (os_BDs s)),
      rs_Namespaces = namespace_server (os_Namespaces s),
      rs_GetNamespace = (\<lambda>n. found (List.find (\<lambda>ns. ns_Name ns = n) (os_Namespaces s))),
      rs_GetRole = (\<lambda>key. found (os_Roles s key))\<rparr>"

text \<open>An API server that does not support the field selector refuses the indexed listing.\<close>

definition unsupported_text :: string where
  "unsupported_text = ''field label not supported: .spec.hasDefaultAssignment''"

definition unsupported :: go_error where
  "unsupported = errorf [Lit unsupported_text]"

definition unindexed :: "object_store \<Rightarrow> readers" where
  "unindexed s = (serve s)\<lparr>rs_Policies := (\<lambda>opts.
     if lo_Fields opts \<noteq> [] then Inl unsupported else policy_server (map fst (os_Policies s)) opts)\<rparr>"

section \<open>Listings\<close>

lemma served_policies:
  "served (listAdmissionPage (policy_server ps) flds sel) '''' (if (HasDefaultAssignmentField, ''true'') \<in> set flds then filter assigned ps else ps)"
proof -
  have "listAdmissionPage (policy_server ps) flds sel =
      listAdmissionPage (chunk_server (if (HasDefaultAssignmentField, ''true'') \<in> set flds then filter assigned ps else ps)) flds sel"
    by (rule ext) (simp add: listAdmissionPage_def policy_server_def)
  then show ?thesis by (simp only: chunk_served)
qed

lemma served_namespaces: "served (listAdmissionPage (namespace_server nss) flds (Some m)) '''' (filter (\<lambda>ns. m (ns_Labels ns)) nss)"
proof -
  have "listAdmissionPage (namespace_server nss) flds (Some m) =
      listAdmissionPage (chunk_server (filter (\<lambda>ns. m (ns_Labels ns)) nss)) flds (Some m)"
    by (rule ext) (simp add: listAdmissionPage_def namespace_server_def)
  then show ?thesis by (simp only: chunk_served)
qed

lemmas served_stores = served_policies served_namespaces chunk_served

lemmas scan_store [simp] = served_stores [THEN scanPages_served]
lemmas collect_store [simp] = served_stores [THEN collectPages_served]

section \<open>The store is sound and its listings end\<close>

lemma serve_policies: "sound_policy_reads (serve s) (os_Policies s)"
  unfolding sound_policy_reads_def
proof (intro conjI allI impI)
  fix n
  show "case rs_GetPolicy (serve s) n of Missing \<Rightarrow> stored_policy (os_Policies s) n = None | ReadError err \<Rightarrow> True
      | Got p \<Rightarrow> stored_policy (os_Policies s) n = Some p"
    by (simp add: serve_def found_def split: option.split)
next
  fix items
  assume "served (listAdmissionPage (rs_Policies (serve s)) [] None) '''' items"
  from served_unique [OF this] served_policies [of _ "[]"] show "items = map fst (os_Policies s)" by (simp add: serve_def)
next
  fix items
  assume "served (listAdmissionPage (rs_Policies (serve s)) [(HasDefaultAssignmentField, ''true'')] None) '''' items"
  from served_unique [OF this] served_policies [of _ "[(HasDefaultAssignmentField, ''true'')]"]
  show "items = filter assigned (map fst (os_Policies s))" by (simp add: serve_def)
qed

lemma serve_listed: "policies_listed env (serve s)"
  using served_policies [of "map fst (os_Policies s)" "[(HasDefaultAssignmentField, ''true'')]" None]
  by (auto simp: policies_listed_def serve_def)

lemma unindexed_pages:
  "listAdmissionPage (rs_Policies (unindexed s)) [(HasDefaultAssignmentField, ''true'')] None t = Inl unsupported"
  "listAdmissionPage (rs_Policies (unindexed s)) [] None = listAdmissionPage (rs_Policies (serve s)) [] None"
  by (auto simp: listAdmissionPage_def unindexed_def serve_def)

lemma unindexed_policies: "sound_policy_reads (unindexed s) (os_Policies s)"
proof -
  have "\<not> served (listAdmissionPage (rs_Policies (unindexed s)) [(HasDefaultAssignmentField, ''true'')] None) t items" for t items
    by (auto elim: served.cases simp: unindexed_pages)
  moreover have "rs_GetPolicy (unindexed s) = rs_GetPolicy (serve s)" by (simp add: unindexed_def)
  ultimately show ?thesis
    using serve_policies [of s] by (simp add: sound_policy_reads_def unindexed_pages(2))
qed

lemma unindexed_listed:
  assumes "ae_ErrorText env unsupported = unsupported_text"
  shows "policies_listed env (unindexed s)"
proof -
  have "Contains unsupported_text ''field label not supported''" by code_simp
  moreover have "served (listAdmissionPage (rs_Policies (unindexed s)) [] None) '''' (map fst (os_Policies s))"
    using served_policies [of "map fst (os_Policies s)" "[]" None] by (simp add: unindexed_pages(2)) (simp add: serve_def)
  ultimately show ?thesis using assms by (auto simp: policies_listed_def unindexed_pages(1))
qed

lemma serve_namespaces: "lists_namespaces (serve s) (os_Namespaces s)"
  unfolding lists_namespaces_def using served_unique [OF _ served_namespaces] by (fastforce simp: serve_def)

lemma serve_ends: "policy_lists_end (serve s)" "role_lists_end (serve s)" "bind_lists_end (serve s)"
  by (simp_all add: policy_lists_end_def role_lists_end_def bind_lists_end_def serve_def
      served_stores [THEN served_ends])

text \<open>The store holds the objects of a state.\<close>

definition holds :: "object_store \<Rightarrow> admission_state \<Rightarrow> bool" where
  "holds s st \<longleftrightarrow> policies_of (os_Policies s) st \<and>
     ran (as_RRDs st) \<subseteq> set (os_RRDs s) \<and> ran (as_RDs st) \<subseteq> set (os_RDs s) \<and>
     ran (as_RBDs st) \<subseteq> set (os_RBDs s) \<and> ran (as_BDs st) \<subseteq> set (os_BDs s)"

lemma chunk_lists_store: "ran m \<subseteq> set xs \<Longrightarrow> lists_store (chunk_server (map rv_Object xs)) m"
  unfolding lists_store_def using served_unique [OF _ chunk_served] ranI by fastforce

lemma serve_sound: "holds s st \<Longrightarrow> sound_reads (serve s) st"
  unfolding sound_reads_def holds_def using serve_policies [of s]
  by (auto simp: serve_def chunk_lists_store)

end
