(* ===== verification/Authorizer_Admission.thy ===== *)
theory Authorizer_Admission
  imports Authorizer Bind_Admission
begin

text \<open>
  The validating webhook of WebhookAuthorizers (\<^verbatim>\<open>api/authorization/v1alpha1/webhookauthorizer_webhook.go\<close>):
  selector, rules and principals of an authorizer, and the warnings for principals that are both allowed and
  denied. The lemmas relate what is admitted to what the authorizer of \<^verbatim>\<open>Authorizer\<close> evaluates.
\<close>

section \<open>Rules\<close>

definition resourceRuleError :: "nat \<Rightarrow> ResourceRule \<Rightarrow> admission_error option" where
  "resourceRuleError i rule =
     (let field = [Lit ''spec.resourceRules['', Dec (int i)] in
      if rr_Verbs rule = [] then Some (BadRequest (field @ [Lit ''] must have at least one verb'']))
      else if rr_APIGroups rule = []
      then Some (BadRequest (field @ [Lit ''] must have at least one apiGroup (use '', Quo '''', Lit '' for core API group)'']))
      else if rr_Resources rule = [] then Some (BadRequest (field @ [Lit ''] must have at least one resource'']))
      else None)"

definition nonResourceRuleError :: "nat \<Rightarrow> NonResourceRule \<Rightarrow> admission_error option" where
  "nonResourceRuleError i rule =
     (let field = [Lit ''spec.nonResourceRules['', Dec (int i)] in
      if nrr_Verbs rule = [] then Some (BadRequest (field @ [Lit ''] must have at least one verb'']))
      else if nrr_NonResourceURLs rule = [] then Some (BadRequest (field @ [Lit ''] must have at least one URL path'']))
      else None)"

definition validateWebhookAuthorizerRules :: "WebhookAuthorizer \<Rightarrow> admission_error option" where
  "validateWebhookAuthorizerRules wa =
     (let spec = wa_Spec wa in
      if was_ResourceRules spec = [] \<and> was_NonResourceRules spec = []
      then Some (BadRequest [Lit ''at least one of spec.resourceRules or spec.nonResourceRules must be non-empty''])
      else if \<not> isLabelSelectorEmpty (Some (was_NamespaceSelector spec)) \<and> was_NonResourceRules spec \<noteq> []
      then Some (BadRequest [Lit ''spec.namespaceSelector cannot be combined with spec.nonResourceRules because non-resource requests have no namespace''])
      else
        case first_some (\<lambda>(i, rule). resourceRuleError i rule) (List.enumerate 0 (was_ResourceRules spec)) of
          Some err \<Rightarrow> Some err
        | None \<Rightarrow> first_some (\<lambda>(i, rule). nonResourceRuleError i rule) (List.enumerate 0 (was_NonResourceRules spec)))"

section \<open>Principals\<close>

definition parseServiceAccountPrincipalUser :: "string \<Rightarrow> (string \<times> string) option" where
  "parseServiceAccountPrincipalUser user =
     (let parts = Split user CHR '':'' in
      if length parts \<noteq> 4 \<or> parts ! 0 \<noteq> ''system'' \<or> parts ! 1 \<noteq> ''serviceaccount'' \<or> parts ! 2 = '''' \<or> parts ! 3 = ''''
      then None
      else Some (parts ! 2, parts ! 3))"

definition serviceAccountPrincipalKey :: "Principal \<Rightarrow> string option" where
  "serviceAccountPrincipalKey p =
     (if p_Namespace p = '''' \<or> p_User p = '''' \<or> p_Groups p \<noteq> [] then None
      else
        (case parseServiceAccountPrincipalUser (p_User p) of
           Some (namespace, name) \<Rightarrow> Some (namespace @ ''/'' @ name)
         | None \<Rightarrow> Some (p_Namespace p @ ''/'' @ p_User p)))"

definition principalScopeError :: "string \<Rightarrow> nat \<Rightarrow> Principal \<Rightarrow> admission_error option" where
  "principalScopeError fieldName i p =
     (let field = [Lit ''spec.'', Lit fieldName, Lit ''['', Dec (int i), Lit '']''] in
      if p_Namespace p = '''' then
        (if p_User p = '''' \<and> p_Groups p = [] \<and> p_UID p = '''' \<and> p_Extra p = []
         then Some (BadRequest (field @ [Lit '' must specify user, uid, at least one group, or at least one extra matcher'']))
         else None)
      else if p_Groups p \<noteq> []
      then Some (BadRequest (field @ [Lit ''.namespace cannot be combined with groups because groups are not namespaced'']))
      else if p_User p = ''''
      then Some (BadRequest (field @ [Lit ''.namespace requires ''] @ field @
        [Lit ''.user because namespace-scoped principals only match ServiceAccounts'']))
      else
        (case parseServiceAccountPrincipalUser (p_User p) of
           Some (saNamespace, name) \<Rightarrow>
             if saNamespace \<noteq> p_Namespace p
             then Some (BadRequest (field @ [Lit ''.namespace '', Quo (p_Namespace p),
               Lit '' must match ServiceAccount user namespace '', Quo saNamespace]))
             else None
         | None \<Rightarrow>
             if HasPrefix (p_User p) ''system:serviceaccount:''
             then Some (BadRequest (field @ [Lit ''.user must be a ServiceAccount name or system:serviceaccount:<namespace>:<name>'']))
             else None))"

definition validatePrincipalScopes :: "string \<Rightarrow> Principal list \<Rightarrow> admission_error option" where
  "validatePrincipalScopes fieldName principals =
     first_some (\<lambda>(i, p). principalScopeError fieldName i p) (List.enumerate 0 principals)"

definition findNeverMatchingPrincipals :: "string \<Rightarrow> Principal list \<Rightarrow> msg list" where
  "findNeverMatchingPrincipals fieldName principals =
     [[Lit ''spec.'', Lit fieldName, Lit ''['', Dec (int i), Lit ''] has namespace '', Quo (p_Namespace p),
        Lit '' but empty user and groups; it can never match'']. (i, p) \<leftarrow> List.enumerate 0 principals,
      p_Namespace p \<noteq> '''' \<and> p_User p = '''' \<and> p_Groups p = []]"

text \<open>The three key sets of the allowed principals, and those already reported while the denied ones are read.\<close>

record principal_keys =
  pk_Users :: "string list"
  pk_Groups :: "string list"
  pk_ServiceAccounts :: "string list"

definition noKeys :: principal_keys where
  "noKeys = \<lparr>pk_Users = [], pk_Groups = [], pk_ServiceAccounts = []\<rparr>"

definition allowedKeys :: "Principal \<Rightarrow> principal_keys \<Rightarrow> principal_keys" where
  "allowedKeys p keys =
     (if p_Namespace p \<noteq> '''' then
        (case serviceAccountPrincipalKey p of
           Some key \<Rightarrow> keys\<lparr>pk_ServiceAccounts := List.insert key (pk_ServiceAccounts keys)\<rparr>
         | None \<Rightarrow> keys)
      else
        let keys1 = (if p_User p \<noteq> '''' then keys\<lparr>pk_Users := List.insert (p_User p) (pk_Users keys)\<rparr> else keys) in
        keys1\<lparr>pk_Groups := fold List.insert (p_Groups p) (pk_Groups keys1)\<rparr>)"

definition overlapGroup :: "principal_keys \<Rightarrow> string \<Rightarrow> principal_keys \<times> string list \<Rightarrow> principal_keys \<times> string list" where
  "overlapGroup allowed g st =
     (case st of (seen, overlaps) \<Rightarrow>
        if g \<in> set (pk_Groups allowed) \<and> g \<notin> set (pk_Groups seen)
        then (seen\<lparr>pk_Groups := List.insert g (pk_Groups seen)\<rparr>, overlaps @ [''group:'' @ g])
        else (seen, overlaps))"

definition overlapUser :: "principal_keys \<Rightarrow> Principal \<Rightarrow> principal_keys \<times> string list \<Rightarrow> principal_keys \<times> string list" where
  "overlapUser allowed p st =
     (case st of (seen, overlaps) \<Rightarrow>
        if p_User p \<noteq> '''' \<and> p_User p \<in> set (pk_Users allowed) \<and> p_User p \<notin> set (pk_Users seen)
        then (seen\<lparr>pk_Users := List.insert (p_User p) (pk_Users seen)\<rparr>, overlaps @ [''user:'' @ p_User p])
        else (seen, overlaps))"

definition overlapPrincipal :: "principal_keys \<Rightarrow> Principal \<Rightarrow> principal_keys \<times> string list \<Rightarrow> principal_keys \<times> string list" where
  "overlapPrincipal allowed p st =
     (if p_Namespace p \<noteq> '''' then
        (case serviceAccountPrincipalKey p of
           Some key \<Rightarrow>
             (case st of (seen, overlaps) \<Rightarrow>
                if key \<in> set (pk_ServiceAccounts allowed) \<and> key \<notin> set (pk_ServiceAccounts seen)
                then (seen\<lparr>pk_ServiceAccounts := List.insert key (pk_ServiceAccounts seen)\<rparr>, overlaps @ [''serviceaccount:'' @ key])
                else (seen, overlaps))
         | None \<Rightarrow> st)
      else fold (overlapGroup allowed) (p_Groups p) (overlapUser allowed p st))"

definition findPrincipalOverlaps :: "Principal list \<Rightarrow> Principal list \<Rightarrow> string list" where
  "findPrincipalOverlaps allowed denied =
     snd (fold (overlapPrincipal (fold allowedKeys allowed noKeys)) denied (noKeys, []))"

definition validateWebhookAuthorizerPrincipals :: "WebhookAuthorizer \<Rightarrow> msg list outcome" where
  "validateWebhookAuthorizerPrincipals wa =
     (let allowed = was_AllowedPrincipals (wa_Spec wa); denied = was_DeniedPrincipals (wa_Spec wa) in
      if allowed = [] \<and> denied = []
      then Some (Inl (BadRequest [Lit ''at least one of spec.allowedPrincipals or spec.deniedPrincipals must be non-empty'']))
      else
        let warnings = (if allowed = [] then [[Lit ''spec.allowedPrincipals is empty; no requests will be allowed by this authorizer'']] else []) in
        andThen (ensure (validatePrincipalScopes ''allowedPrincipals'' allowed)) (\<lambda>_.
        andThen (ensure (validatePrincipalScopes ''deniedPrincipals'' denied)) (\<lambda>_.
        Some (Inr (warnings @
          map (\<lambda>overlap. [Lit ''principal '', Quo overlap, Lit '' appears in both allowedPrincipals and deniedPrincipals; denied takes precedence''])
            (findPrincipalOverlaps allowed denied) @
          findNeverMatchingPrincipals ''allowedPrincipals'' allowed @
          findNeverMatchingPrincipals ''deniedPrincipals'' denied)))))"

definition ValidateWebhookAuthorizer :: "admission_env \<Rightarrow> WebhookAuthorizer \<Rightarrow> msg list outcome" where
  "ValidateWebhookAuthorizer env wa =
     (let selector = was_NamespaceSelector (wa_Spec wa) in
      andThen (ensure (if isLabelSelectorEmpty (Some selector) then None
        else (case ae_AsSelector env selector of
                Inl err \<Rightarrow> Some (BadRequest [Lit ''invalid namespaceSelector: '', Lit err]) | Inr m \<Rightarrow> None))) (\<lambda>_.
      andThen (ensure (validateWebhookAuthorizerRules wa)) (\<lambda>_.
      validateWebhookAuthorizerPrincipals wa)))"

definition waValidateCreate :: "admission_env \<Rightarrow> WebhookAuthorizer \<Rightarrow> msg list outcome" where
  "waValidateCreate env obj = ValidateWebhookAuthorizer env obj"

definition waValidateUpdate :: "admission_env \<Rightarrow> WebhookAuthorizer \<Rightarrow> WebhookAuthorizer \<Rightarrow> msg list outcome" where
  "waValidateUpdate env oldObj newObj = ValidateWebhookAuthorizer env newObj"

definition waValidateDelete :: "WebhookAuthorizer \<Rightarrow> msg list outcome" where
  "waValidateDelete obj = Some (Inr [])"

section \<open>Overlaps\<close>

text \<open>The names under which a principal is compared, with the tags of the warnings.\<close>

definition overlap_names :: "Principal \<Rightarrow> string set" where
  "overlap_names p =
     (if p_Namespace p \<noteq> '''' then (\<lambda>k. ''serviceaccount:'' @ k) ` set_option (serviceAccountPrincipalKey p)
      else (if p_User p \<noteq> '''' then {''user:'' @ p_User p} else {}) \<union> (\<lambda>g. ''group:'' @ g) ` set (p_Groups p))"

definition key_names :: "principal_keys \<Rightarrow> string set" where
  "key_names keys = (\<lambda>u. ''user:'' @ u) ` set (pk_Users keys) \<union> (\<lambda>g. ''group:'' @ g) ` set (pk_Groups keys) \<union>
     (\<lambda>k. ''serviceaccount:'' @ k) ` set (pk_ServiceAccounts keys)"

lemma allowedKeys_names: "key_names (allowedKeys p keys) = key_names keys \<union> overlap_names p"
proof -
  have fi: "set (fold List.insert gs xs) = set xs \<union> set gs" for gs :: "string list" and xs
    by (induction gs arbitrary: xs) auto
  show ?thesis
    by (auto simp: allowedKeys_def key_names_def overlap_names_def fi Let_def split: option.splits)
qed

lemma allowed_names: "key_names (fold allowedKeys ps keys) = key_names keys \<union> (\<Union>p \<in> set ps. overlap_names p)"
  by (induction ps arbitrary: keys) (auto simp: allowedKeys_names)

text \<open>The reports so far: each once, and exactly the names seen and allowed.\<close>

definition reported :: "principal_keys \<Rightarrow> principal_keys \<times> string list \<Rightarrow> string set \<Rightarrow> bool" where
  "reported allowed st N \<longleftrightarrow> distinct (snd st) \<and> set (snd st) = key_names (fst st) \<and> key_names (fst st) = key_names allowed \<inter> N"

lemma tags_inj [simp]: "inj (\<lambda>u. ''user:'' @ u)" "inj (\<lambda>g. ''group:'' @ g)" "inj (\<lambda>k. ''serviceaccount:'' @ k)"
  by (auto simp: inj_def)

lemma key_names_mem [unfolded append.simps, simp]:
  "''user:'' @ u \<in> key_names keys \<longleftrightarrow> u \<in> set (pk_Users keys)"
  "''group:'' @ g \<in> key_names keys \<longleftrightarrow> g \<in> set (pk_Groups keys)"
  "''serviceaccount:'' @ k \<in> key_names keys \<longleftrightarrow> k \<in> set (pk_ServiceAccounts keys)"
  by (auto simp: key_names_def)

text \<open>A step that reports one more name.\<close>

lemma reported_step:
  assumes "reported allowed (seen, overlaps) N"
    and "key_names seen' = insert x (key_names seen)" "x \<in> key_names allowed" "x \<notin> key_names seen"
  shows "reported allowed (seen', overlaps @ [x]) (N \<union> {x})"
  using assms by (auto simp: reported_def)

lemma reported_skip:
  assumes "reported allowed st N" "\<not> (x \<in> key_names allowed \<and> x \<notin> key_names (fst st))"
  shows "reported allowed st (N \<union> {x})"
  using assms by (auto simp: reported_def)

lemma overlapGroup_reported:
  assumes "reported allowed st N"
  shows "reported allowed (overlapGroup allowed g st) (N \<union> {''group:'' @ g})"
proof (cases st)
  case (Pair seen overlaps)
  show ?thesis
  proof (cases "g \<in> set (pk_Groups allowed) \<and> g \<notin> set (pk_Groups seen)")
    case True
    with assms Pair reported_step [of allowed seen overlaps N "seen\<lparr>pk_Groups := List.insert g (pk_Groups seen)\<rparr>" "''group:'' @ g"]
    show ?thesis by (auto simp: overlapGroup_def key_names_def)
  next
    case False
    with assms Pair reported_skip [of allowed st N "''group:'' @ g"] show ?thesis by (auto simp: overlapGroup_def)
  qed
qed

lemma overlapUser_reported:
  assumes "reported allowed st N"
  shows "reported allowed (overlapUser allowed p st) (N \<union> (if p_User p \<noteq> '''' then {''user:'' @ p_User p} else {}))"
proof (cases st)
  case (Pair seen overlaps)
  consider (plain) "p_User p = ''''" | (new) "p_User p \<noteq> ''''" "p_User p \<in> set (pk_Users allowed) \<and> p_User p \<notin> set (pk_Users seen)"
    | (old) "p_User p \<noteq> ''''" "\<not> (p_User p \<in> set (pk_Users allowed) \<and> p_User p \<notin> set (pk_Users seen))" by blast
  then show ?thesis
  proof cases
    case plain
    with assms Pair show ?thesis by (simp add: overlapUser_def)
  next
    case new
    with assms Pair reported_step [of allowed seen overlaps N "seen\<lparr>pk_Users := List.insert (p_User p) (pk_Users seen)\<rparr>" "''user:'' @ p_User p"]
    show ?thesis by (auto simp: overlapUser_def key_names_def)
  next
    case old
    with assms Pair reported_skip [of allowed st N "''user:'' @ p_User p"] show ?thesis by (auto simp: overlapUser_def)
  qed
qed

lemma overlapPrincipal_reported:
  assumes "reported allowed st N"
  shows "reported allowed (overlapPrincipal allowed p st) (N \<union> overlap_names p)"
proof (cases "p_Namespace p = ''''")
  case True
  have groups: "reported allowed st' M \<Longrightarrow> reported allowed (fold (overlapGroup allowed) gs st') (M \<union> (\<lambda>g. ''group:'' @ g) ` set gs)"
    for gs st' M
  proof (induction gs arbitrary: st' M)
    case (Cons g gs)
    from Cons.IH [OF overlapGroup_reported [OF Cons.prems, of g]] show ?case by (simp add: insert_commute)
  qed simp
  from groups [OF overlapUser_reported [OF assms, of p], of "p_Groups p"] True show ?thesis
    by (simp add: overlapPrincipal_def overlap_names_def Un_assoc)
next
  case sa: False
  show ?thesis
  proof (cases "serviceAccountPrincipalKey p")
    case None
    with assms sa show ?thesis by (simp add: overlapPrincipal_def overlap_names_def)
  next
    case (Some key)
    obtain seen overlaps where st: "st = (seen, overlaps)" by fastforce
    show ?thesis
    proof (cases "key \<in> set (pk_ServiceAccounts allowed) \<and> key \<notin> set (pk_ServiceAccounts seen)")
      case True
      with assms st sa Some reported_step [of allowed seen overlaps N
          "seen\<lparr>pk_ServiceAccounts := List.insert key (pk_ServiceAccounts seen)\<rparr>" "''serviceaccount:'' @ key"]
      show ?thesis by (auto simp: overlapPrincipal_def overlap_names_def key_names_def)
    next
      case False
      with assms st sa Some reported_skip [of allowed st N "''serviceaccount:'' @ key"]
      show ?thesis by (auto simp: overlapPrincipal_def overlap_names_def)
    qed
  qed
qed

lemma overlaps_exact:
  "distinct (findPrincipalOverlaps allowed denied) \<and>
   set (findPrincipalOverlaps allowed denied) = (\<Union>p \<in> set allowed. overlap_names p) \<inter> (\<Union>p \<in> set denied. overlap_names p)"
proof -
  let ?keys = "fold allowedKeys allowed noKeys"
  have none: "key_names noKeys = {}" by (simp add: key_names_def noKeys_def)
  have "reported ?keys st N \<Longrightarrow> reported ?keys (fold (overlapPrincipal ?keys) ps st) (N \<union> (\<Union>p \<in> set ps. overlap_names p))"
    for ps st N
  proof (induction ps arbitrary: st N)
    case (Cons p ps)
    from Cons.IH [OF overlapPrincipal_reported [OF Cons.prems, of p]] show ?case by (simp add: Un_assoc)
  qed simp
  from this [of "(noKeys, [])" "{}" denied] show ?thesis
    by (simp add: findPrincipalOverlaps_def reported_def none allowed_names)
qed

section \<open>What an accepted authorizer matches\<close>

lemma first_some_enumerate: "first_some (\<lambda>(i, x). f i x) (List.enumerate n xs) = None \<Longrightarrow> x \<in> set xs \<Longrightarrow> \<exists>i. f i x = None"
  by (induction xs arbitrary: n) (auto split: option.splits)

lemma parse_principal_iff:
  "parseServiceAccountPrincipalUser u = Some (ns, n) \<longleftrightarrow> parseServiceAccountUsername u = Some (ns, n) \<and> ns \<noteq> '''' \<and> n \<noteq> ''''"
  by (auto simp: parseServiceAccountPrincipalUser_def parseServiceAccountUsername_def Let_def)

text \<open>The scope of an accepted principal: some matcher, and a ServiceAccount of the namespace it names.\<close>

definition principal_scoped :: "Principal \<Rightarrow> bool" where
  "principal_scoped p \<longleftrightarrow>
     (if p_Namespace p = '''' then p_User p \<noteq> '''' \<or> p_Groups p \<noteq> [] \<or> p_UID p \<noteq> '''' \<or> p_Extra p \<noteq> []
      else p_Groups p = [] \<and> p_User p \<noteq> '''' \<and>
        ((\<exists>n. n \<noteq> '''' \<and> parseServiceAccountUsername (p_User p) = Some (p_Namespace p, n)) \<or> \<not> HasPrefix (p_User p) ''system:serviceaccount:''))"

lemma scope_ok:
  assumes "principalScopeError field i p = None"
  shows "principal_scoped p"
proof (cases "p_Namespace p = ''''")
  case True
  with assms show ?thesis by (auto simp: principalScopeError_def principal_scoped_def Let_def split: if_splits)
next
  case ns: False
  with assms have p: "p_Groups p = []" "p_User p \<noteq> ''''"
    by (auto simp: principalScopeError_def Let_def split: if_splits)
  show ?thesis
  proof (cases "parseServiceAccountPrincipalUser (p_User p)")
    case None
    with assms ns p have "\<not> HasPrefix (p_User p) ''system:serviceaccount:''"
      by (simp add: principalScopeError_def Let_def split: if_splits)
    with ns p show ?thesis by (simp add: principal_scoped_def)
  next
    case (Some q)
    obtain n' n where q: "q = (n', n)" by fastforce
    with assms ns p Some have "n' = p_Namespace p" by (simp add: principalScopeError_def Let_def split: if_splits)
    with Some q parse_principal_iff have "parseServiceAccountUsername (p_User p) = Some (p_Namespace p, n)" "n \<noteq> ''''" by auto
    with ns p show ?thesis by (auto simp: principal_scoped_def)
  qed
qed

lemma scopes_ok: "validatePrincipalScopes field ps = None \<Longrightarrow> p \<in> set ps \<Longrightarrow> principal_scoped p"
  unfolding validatePrincipalScopes_def by (drule (1) first_some_enumerate) (auto intro: scope_ok)

lemma accepted_parts:
  assumes "accepts (ValidateWebhookAuthorizer env wa)"
  shows "validateWebhookAuthorizerRules wa = None" "accepts (validateWebhookAuthorizerPrincipals wa)"
  using assms by (auto simp: ValidateWebhookAuthorizer_def Let_def accepts_then)

lemma accepted_principals:
  assumes "accepts (validateWebhookAuthorizerPrincipals wa)" "p \<in> set (was_AllowedPrincipals (wa_Spec wa)) \<union> set (was_DeniedPrincipals (wa_Spec wa))"
  shows "principal_scoped p"
proof -
  have "validatePrincipalScopes ''allowedPrincipals'' (was_AllowedPrincipals (wa_Spec wa)) = None"
      "validatePrincipalScopes ''deniedPrincipals'' (was_DeniedPrincipals (wa_Spec wa)) = None"
    using assms(1) by (auto simp: validateWebhookAuthorizerPrincipals_def Let_def accepts_then split: if_splits)
  with assms(2) show ?thesis by (auto intro: scopes_ok)
qed

text \<open>
  A request a principal matches: the identity it names, with all values its matchers accept. A principal that
  names neither user nor group matches every user.
\<close>

definition matching_request :: "Principal \<Rightarrow> SubjectAccessReview \<Rightarrow> SubjectAccessReview" where
  "matching_request p sar =
     sar\<lparr>sar_User := (if p_Namespace p = '''' then (if p_User p = '''' then ''someone'' else p_User p)
           else case parseServiceAccountUsername (p_User p) of Some _ \<Rightarrow> p_User p
             | None \<Rightarrow> ''system:serviceaccount:'' @ p_Namespace p @ '':'' @ p_User p),
         sar_Groups := p_Groups p, sar_UID := p_UID p,
         sar_Extra := map (\<lambda>m. (pem_Key m, concat (map pem_Values (p_Extra p)))) (p_Extra p)\<rparr>"

text \<open>
  An extra matcher lists a value, and a ServiceAccount principal with a short name has a namespace and a name
  without a colon. Kubernetes names have none, but neither the webhook nor the schema of the resource asks for it.
\<close>

definition principal_wf :: "Principal \<Rightarrow> bool" where
  "principal_wf p \<longleftrightarrow> (\<forall>m \<in> set (p_Extra p). pem_Values m \<noteq> []) \<and>
     (p_Namespace p \<noteq> '''' \<longrightarrow> CHR '':'' \<notin> set (p_Namespace p) \<and>
        (\<not> HasPrefix (p_User p) ''system:serviceaccount:'' \<longrightarrow> CHR '':'' \<notin> set (p_User p)))"

lemma extra_matched:
  assumes "\<forall>m \<in> set ms. pem_Values m \<noteq> []"
  shows "principalExtraMatches ms (map (\<lambda>m. (pem_Key m, concat (map pem_Values ms))) ms)"
proof -
  have keys: "map_of (map (\<lambda>m. (pem_Key m, v)) xs) (pem_Key m) = Some v" if "m \<in> set xs" for m xs and v :: "string list"
    using that by (induction xs) auto
  have vals: "extraValueMatches (pem_Values m) (concat (map pem_Values ms))" if "m \<in> set ms" for m
  proof -
    from assms that obtain v where v: "v \<in> set (pem_Values m)" by (cases "pem_Values m") auto
    with that have "v \<in> set (concat (map pem_Values ms))" by auto
    with v show ?thesis unfolding extraValueMatches_def list_ex_iff by (intro bexI [of _ v]) auto
  qed
  show ?thesis unfolding principalExtraMatches_def list_all_iff
    by (intro ballI) (simp add: keys vals)
qed

lemma principal_matched:
  assumes "principal_scoped p" "principal_wf p"
  shows "principalMatchesSubject p (matching_request p sar)"
proof (cases "p_Namespace p = ''''")
  case True
  have "intersects gs gs" if "gs \<noteq> []" for gs using that by (cases gs) (simp_all add: intersects_def)
  with True assms extra_matched [of "p_Extra p"] show ?thesis
    by (auto simp: principalMatchesSubject_def matching_request_def principal_scoped_def principal_wf_def)
next
  case ns: False
  let ?u = "sar_User (matching_request p sar)"
  have p: "p_Groups p = []" "p_User p \<noteq> ''''" using assms(1) ns by (auto simp: principal_scoped_def)
  have "isServiceAccountInNamespace ?u (p_User p) (p_Namespace p)"
  proof (cases "parseServiceAccountUsername (p_User p)")
    case None
    then have plain: "CHR '':'' \<notin> set (p_Namespace p)" "CHR '':'' \<notin> set (p_User p)"
      using assms ns by (auto simp: principal_scoped_def principal_wf_def)
    with None ns have "parseServiceAccountUsername ?u = Some (p_Namespace p, p_User p)"
      by (simp add: matching_request_def parseServiceAccountUsername_iff)
    with None show ?thesis by (simp add: isServiceAccountInNamespace_def)
  next
    case (Some q)
    obtain n' n where q: "q = (n', n)" by fastforce
    with Some have "HasPrefix (p_User p) ''system:serviceaccount:''"
      by (auto simp: parseServiceAccountUsername_iff HasPrefix_def)
    with assms(1) ns Some q have "n' = p_Namespace p" by (auto simp: principal_scoped_def)
    with Some q ns show ?thesis by (simp add: isServiceAccountInNamespace_def matching_request_def)
  qed
  moreover have "principalExtraMatches (p_Extra p) (sar_Extra (matching_request p sar))" "sar_UID (matching_request p sar) = p_UID p"
    using assms(2) extra_matched [of "p_Extra p"] by (simp_all add: principal_wf_def matching_request_def)
  ultimately show ?thesis using p ns by (simp add: principalMatchesSubject_def)
qed

text \<open>The first resource request, or else the first non-resource request, the rules name.\<close>

definition rule_request :: "WebhookAuthorizerSpec \<Rightarrow> SubjectAccessReview \<Rightarrow> SubjectAccessReview" where
  "rule_request spec sar =
     (case was_ResourceRules spec of
        r # rest \<Rightarrow> sar\<lparr>sar_ResourceAttributes := Some \<lparr>ra_Namespace = '''', ra_Verb = hd (rr_Verbs r), ra_Group = hd (rr_APIGroups r),
            ra_Version = '''', ra_Resource = hd (rr_Resources r), ra_Subresource = '''',
            ra_Name = (case rr_ResourceNames r of [] \<Rightarrow> '''' | n # _ \<Rightarrow> n)\<rparr>\<rparr>
      | [] \<Rightarrow>
          (case was_NonResourceRules spec of
             r # rest \<Rightarrow> sar\<lparr>sar_NonResourceAttributes := Some \<lparr>nra_Path = hd (nrr_NonResourceURLs r), nra_Verb = hd (nrr_Verbs r)\<rparr>\<rparr>
           | [] \<Rightarrow> sar))"

lemma hd_mem: "xs \<noteq> [] \<Longrightarrow> hd xs \<in> set xs" by simp

lemma rule_hit:
  assumes "validateWebhookAuthorizerRules wa = None"
  shows "rule_hits wa (rule_request (wa_Spec wa) sar)"
proof (cases "was_ResourceRules (wa_Spec wa)")
  case (Cons r rest)
  with assms have "rr_Verbs r \<noteq> [] \<and> rr_APIGroups r \<noteq> [] \<and> rr_Resources r \<noteq> []"
    by (auto simp: validateWebhookAuthorizerRules_def resourceRuleError_def Let_def split: if_splits option.splits)
  with Cons show ?thesis
    by (cases "rr_ResourceNames r")
      (auto simp: rule_hits_def rule_request_def resourceRuleMatches_def matchesVerb_def matchesExactOrAll_def
        matchesResourceRule_def list_ex_iff intro!: exI bexI [OF _ hd_mem])
next
  case Nil
  with assms obtain r rest where r: "was_NonResourceRules (wa_Spec wa) = r # rest"
    by (cases "was_NonResourceRules (wa_Spec wa)") (auto simp: validateWebhookAuthorizerRules_def Let_def)
  with assms Nil have "nrr_Verbs r \<noteq> [] \<and> nrr_NonResourceURLs r \<noteq> []"
    by (auto simp: validateWebhookAuthorizerRules_def nonResourceRuleError_def Let_def split: if_splits)
  with Nil r show ?thesis
    by (auto simp: rule_hits_def rule_request_def nonResourceRuleMatches_def matchesExactOrAll_def
        matchesNonResourceURLRule_def list_ex_iff intro!: exI bexI [OF _ hd_mem])
qed

definition blank_request :: SubjectAccessReview where
  "blank_request = \<lparr>sar_User = '''', sar_Groups = [], sar_UID = '''', sar_Extra = [], sar_ResourceAttributes = None,
     sar_NonResourceAttributes = None\<rparr>"

lemma matching_request_valid:
  assumes "principal_scoped p" "validateWebhookAuthorizerRules wa = None"
  shows "validateSAR (matching_request p (rule_request (wa_Spec wa) blank_request)) = ''''"
proof -
  have "sar_User (matching_request p sar) \<noteq> ''''" for sar
    using assms(1) by (auto simp: matching_request_def principal_scoped_def split: option.splits if_splits)
  moreover have "(sar_ResourceAttributes (rule_request (wa_Spec wa) blank_request) = None) \<noteq>
      (sar_NonResourceAttributes (rule_request (wa_Spec wa) blank_request) = None)"
    using assms(2) by (auto simp: rule_request_def blank_request_def validateWebhookAuthorizerRules_def Let_def split: list.splits if_splits)
  ultimately show ?thesis by (auto simp: validateSAR_def matching_request_def)
qed

lemma rule_hits_identity: "rule_hits wa (matching_request p sar) \<longleftrightarrow> rule_hits wa sar"
  by (simp add: rule_hits_def matching_request_def)

text \<open>
  No warning about a principal that never matches is ever shown: such a principal is rejected before.
\<close>

lemma never_matching_silent:
  "validatePrincipalScopes field ps = None \<Longrightarrow> findNeverMatchingPrincipals field' ps = []"
proof -
  assume ok: "validatePrincipalScopes field ps = None"
  have "\<not> (p_Namespace p \<noteq> '''' \<and> p_User p = '''' \<and> p_Groups p = [])" if "p \<in> set ps" for p
    using scopes_ok [OF ok that] by (auto simp: principal_scoped_def)
  moreover have "p \<in> set ps" if "(i, p) \<in> set (List.enumerate 0 ps)" for i p
    using that by (auto simp: in_set_enumerate_eq)
  ultimately show ?thesis by (auto simp: findNeverMatchingPrincipals_def)
qed

section \<open>Properties\<close>

text \<open>
  Property C37 (accepted_authorizer_effective): no well-formed principal of an accepted WebhookAuthorizer is dead.
  For every allowed and every denied principal whose extra matchers list a value and which, when it gives a
  namespace with a short name, has no colon in either (\<open>principal_wf\<close>, which is not enforced on admission),
  there is a request that passes the validation of the authorization webhook, that the principal matches and that
  the rules of the authorizer match.
\<close>

theorem accepted_authorizer_effective:
  assumes "accepts (ValidateWebhookAuthorizer env wa)"
    and "p \<in> set (was_AllowedPrincipals (wa_Spec wa)) \<union> set (was_DeniedPrincipals (wa_Spec wa))" "principal_wf p"
  shows "\<exists>sar. validateSAR sar = '''' \<and> principalMatchesSubject p sar \<and> rule_hits wa sar"
proof (intro exI conjI)
  let ?sar = "matching_request p (rule_request (wa_Spec wa) blank_request)"
  note scoped = accepted_principals [OF accepted_parts(2) [OF assms(1)] assms(2)]
  show "validateSAR ?sar = ''''" by (rule matching_request_valid [OF scoped accepted_parts(1) [OF assms(1)]])
  show "principalMatchesSubject p ?sar" by (rule principal_matched [OF scoped assms(3)])
  show "rule_hits wa ?sar"
    using rule_hit [OF accepted_parts(1) [OF assms(1)]] by (simp add: rule_hits_identity)
qed

text \<open>
  The warnings of an accepted WebhookAuthorizer name each identity that is
  both allowed and denied exactly once, and nothing else: users, groups and namespaced ServiceAccounts, short
  or full names of a ServiceAccount alike. A warning about an empty list of allowed principals comes first.
\<close>

theorem overlap_warnings_exact:
  assumes "ValidateWebhookAuthorizer env wa = Some (Inr warnings)"
  shows "\<exists>overlaps. distinct overlaps \<and>
    set overlaps = (\<Union>p \<in> set (was_AllowedPrincipals (wa_Spec wa)). overlap_names p) \<inter>
      (\<Union>p \<in> set (was_DeniedPrincipals (wa_Spec wa)). overlap_names p) \<and>
    warnings = (if was_AllowedPrincipals (wa_Spec wa) = []
        then [[Lit ''spec.allowedPrincipals is empty; no requests will be allowed by this authorizer'']] else []) @
      map (\<lambda>overlap. [Lit ''principal '', Quo overlap,
        Lit '' appears in both allowedPrincipals and deniedPrincipals; denied takes precedence'']) overlaps"
proof -
  let ?a = "was_AllowedPrincipals (wa_Spec wa)" and ?d = "was_DeniedPrincipals (wa_Spec wa)"
  have v: "validateWebhookAuthorizerPrincipals wa = Some (Inr warnings)"
    using assms by (auto simp: ValidateWebhookAuthorizer_def Let_def andThen_accept)
  have "validatePrincipalScopes ''allowedPrincipals'' ?a = None" "validatePrincipalScopes ''deniedPrincipals'' ?d = None"
    using v by (auto simp: validateWebhookAuthorizerPrincipals_def Let_def andThen_accept ensure_accept split: if_splits)
  note silent = this [THEN never_matching_silent]
  show ?thesis
    by (rule exI [of _ "findPrincipalOverlaps ?a ?d"])
      (use v overlaps_exact [of ?a ?d] in
        \<open>auto simp: validateWebhookAuthorizerPrincipals_def Let_def andThen_accept ensure_accept silent split: if_splits\<close>)
qed

section \<open>Witnesses\<close>

definition no_access :: readers where
  "no_access = \<lparr>rs_Policies = (\<lambda>_. Inr ([], '''')), rs_GetPolicy = (\<lambda>_. Missing),
     rs_RestrictedRoleDefinitions = (\<lambda>_. Inr ([], '''')), rs_RestrictedBindDefinitions = (\<lambda>_. Inr ([], '''')),
     rs_RoleDefinitions = (\<lambda>_. Inr ([], '''')), rs_BindDefinitions = (\<lambda>_. Inr ([], '''')), rs_Namespaces = (\<lambda>_. Inr ([], '''')),
     rs_GetNamespace = (\<lambda>_. Missing), rs_GetRole = (\<lambda>_. Missing)\<rparr>"

definition bare_env :: admission_env where
  "bare_env = \<lparr>ae_Client = no_access, ae_Reader = None, ae_Request = None, ae_PodNamespace = '''', ae_LabelGroups = [],
     ae_ErrorText = (\<lambda>_. ''''), ae_AsSelector = (\<lambda>_. Inl ''''), ae_IsDomainPrefixedPath = (\<lambda>_ _. []),
     ae_IsDNS1123Label = (\<lambda>_. []), ae_Hash = (\<lambda>_. '''')\<rparr>"

definition deployer :: Principal where
  "deployer = \<lparr>p_User = ''deployer'', p_Groups = [], p_Namespace = ''team-a'', p_UID = '''', p_Extra = []\<rparr>"

definition contested :: WebhookAuthorizer where
  "contested = sample_wa\<lparr>wa_Spec := (wa_Spec sample_wa)\<lparr>was_AllowedPrincipals := [deployer],
     was_DeniedPrincipals := [deployer\<lparr>p_User := ''system:serviceaccount:team-a:deployer''\<rparr>]\<rparr>\<rparr>"

lemma contested_warnings: "ValidateWebhookAuthorizer bare_env contested = Some (Inr
    [[Lit ''principal '', Quo ''serviceaccount:team-a/deployer'',
      Lit '' appears in both allowedPrincipals and deniedPrincipals; denied takes precedence'']])"
  by code_simp

theorem accepted_authorizer_effective_witness:
  "\<exists>sar. validateSAR sar = '''' \<and> principalMatchesSubject deployer sar \<and> rule_hits contested sar"
proof (rule accepted_authorizer_effective)
  show "accepts (ValidateWebhookAuthorizer bare_env contested)" by (simp add: contested_warnings)
  show "deployer \<in> set (was_AllowedPrincipals (wa_Spec contested)) \<union> set (was_DeniedPrincipals (wa_Spec contested))"
    by (simp add: contested_def)
  show "principal_wf deployer" by code_simp
qed

text \<open>
  The condition is needed: an accepted principal whose short name has a colon matches no request, because the
  user name of a ServiceAccount is split at its colons.
\<close>

definition misnamed :: WebhookAuthorizer where
  "misnamed = sample_wa\<lparr>wa_Spec := (wa_Spec sample_wa)\<lparr>was_AllowedPrincipals := [deployer\<lparr>p_User := ''foo:bar''\<rparr>]\<rparr>\<rparr>"

theorem misnamed_principal_dead:
  "accepts (ValidateWebhookAuthorizer bare_env misnamed) \<and> \<not> principalMatchesSubject (deployer\<lparr>p_User := ''foo:bar''\<rparr>) sar"
proof (rule conjI)
  have "map_option isl (ValidateWebhookAuthorizer bare_env misnamed) = Some False" by code_simp
  then show "accepts (ValidateWebhookAuthorizer bare_env misnamed)"
    by (cases "ValidateWebhookAuthorizer bare_env misnamed"; cases "the (ValidateWebhookAuthorizer bare_env misnamed)") (auto simp: accepts_def)
  have "parseServiceAccountUsername ''foo:bar'' = None" by code_simp
  then show "\<not> principalMatchesSubject (deployer\<lparr>p_User := ''foo:bar''\<rparr>) sar"
    by (auto simp: principalMatchesSubject_def isServiceAccountInNamespace_def deployer_def parseServiceAccountUsername_iff
        split: option.splits)
qed

theorem overlap_warnings_exact_witness:
  "(\<Union>p \<in> set (was_AllowedPrincipals (wa_Spec contested)). overlap_names p) \<inter>
   (\<Union>p \<in> set (was_DeniedPrincipals (wa_Spec contested)). overlap_names p) = {''serviceaccount:team-a/deployer''}"
proof -
  have "was_AllowedPrincipals (wa_Spec contested) \<noteq> []" by (simp add: contested_def)
  with overlap_warnings_exact [OF contested_warnings] show ?thesis by (auto simp: Cons_eq_map_conv)
qed

end
