(* ===== verification/Admission_Properties.thy ===== *)
theory Admission_Properties
  imports Admission_Server Authorizer_Admission Restricted_Role_Properties
begin

text \<open>
  What admission guarantees: of every state that requests admitted one after the other can reach, of single
  accepted objects, and together with the reconciler of RestrictedRoleDefinitions.
\<close>

section \<open>A run\<close>

text \<open>Two policies with default assignments, and two definitions under the first of them.\<close>

definition tenant_policy :: RBACPolicy where
  "tenant_policy = sample_policy\<lparr>policy_Spec := (policy_Spec sample_policy)\<lparr>ps_DefaultAssignment :=
     Some \<lparr>dpa_Groups = [''viewers''], dpa_ServiceAccounts = []\<rparr>\<rparr>\<rparr>"

definition team_policy :: RBACPolicy where
  "team_policy = \<lparr>policy_Name = ''team'', policy_Spec = (policy_Spec sample_policy)\<lparr>ps_DefaultAssignment :=
     Some \<lparr>dpa_Groups = [''team-a''], dpa_ServiceAccounts = [\<lparr>sar_Name = ''deployer'', sar_Namespace = ''team-a''\<rparr>]\<rparr>\<rparr>\<rparr>"

definition no_meta :: object_meta where
  "no_meta = \<lparr>om_Labels = [], om_Annotations = [], om_OwnerReferences = [], om_Finalizers = []\<rparr>"

definition viewer :: "RestrictedRoleDefinition reviewed" where
  "viewer = \<lparr>rv_Object = sample_rrd, rv_Meta = no_meta\<rparr>"

definition editor :: "RestrictedRoleDefinition reviewed" where
  "editor = \<lparr>rv_Object = \<lparr>rrd_Name = ''editor'', rrd_Spec = (rrd_Spec sample_rrd)\<lparr>rrds_TargetName := ''editor''\<rparr>\<rparr>, rv_Meta = no_meta\<rparr>"

definition empty_store :: object_store where
  "empty_store = \<lparr>os_Policies = [], os_RRDs = [], os_RDs = [], os_RBDs = [], os_BDs = [], os_Namespaces = [], os_Roles = (\<lambda>_. None)\<rparr>"

definition both_policies :: object_store where
  "both_policies = empty_store\<lparr>os_Policies := [(tenant_policy, False), (team_policy, False)]\<rparr>"

definition env_of :: "object_store \<Rightarrow> admission_env" where
  "env_of s = \<lparr>ae_Client = serve s, ae_Reader = None, ae_Request = Some \<lparr>rq_Username = ''alice'', rq_Groups = [''viewers'']\<rparr>,
     ae_PodNamespace = ''auth-operator'', ae_LabelGroups = [], ae_ErrorText = (\<lambda>_. ''''), ae_AsSelector = no_selectors,
     ae_IsDomainPrefixedPath = (\<lambda>_ _. []), ae_IsDNS1123Label = (\<lambda>_. []), ae_Hash = (\<lambda>_. ''0'')\<rparr>"

definition unindexed_env :: "object_store \<Rightarrow> admission_env" where
  "unindexed_env s = (env_of s)\<lparr>ae_Client := unindexed s, ae_ErrorText := (\<lambda>_. unsupported_text)\<rparr>"

definition sample_state :: admission_state where
  "sample_state = no_objects\<lparr>as_Policies := [''tenant'' \<mapsto> (tenant_policy, False), ''team'' \<mapsto> (team_policy, False)],
     as_RRDs := [''viewer'' \<mapsto> viewer, ''editor'' \<mapsto> editor]\<rparr>"

lemma env_of_simps [simp]: "defaultPolicyReader (env_of s) = serve s"
    "ae_Request (env_of s) = Some \<lparr>rq_Username = ''alice'', rq_Groups = [''viewers'']\<rparr>"
  by (simp_all add: env_of_def defaultPolicyReader_def)

lemmas stored = serve_def empty_store_def both_policies_def found_def

lemma policies_valid: "validateRBACPolicySpec (env_of s) tenant_policy = None" "validateRBACPolicySpec (env_of s) team_policy = None"
  by (code_simp, code_simp)

lemmas sample_policies = tenant_policy_def team_policy_def sample_policy_def

lemma policies_accepted:
  "accepts (policyValidateCreate (env_of empty_store) tenant_policy)"
  "accepts (policyValidateCreate (env_of (empty_store\<lparr>os_Policies := [(tenant_policy, False)]\<rparr>)) team_policy)"
  by (simp_all add: policyValidateCreate_def accepts_then policies_valid validateDefaultAssignmentDoesNotOverlap_def)
    (simp_all add: stored sample_policies defaultAssignmentOverlapErrors_def onError_def map_of_stringSet for_range_def)

lemma definitions_valid:
  "validateRoleTargetFields (env_of s) RestrictedRoleDefinitionKind ''viewer'' ''ClusterRole'' ''viewer'' '''' = None"
  "validateRoleTargetFields (env_of s) RestrictedRoleDefinitionKind ''editor'' ''ClusterRole'' ''editor'' '''' = None"
  "rejectProtectedRestrictedRoleLabels viewer = None" "rejectProtectedRestrictedRoleLabels editor = None"
  "validateNoDuplicateRestrictedRRDAPIs (rv_Object viewer) = None" "validateNoDuplicateRestrictedRRDAPIs (rv_Object editor) = None"
  "validateRestrictedRoleDefinitionAPIsVersions (rv_Object viewer) = None"
  "validateRestrictedRoleDefinitionAPIsVersions (rv_Object editor) = None"
  by (code_simp, code_simp, code_simp, code_simp, code_simp, code_simp, code_simp, code_simp)

lemma requester_ok:
  "accepts (validateDefaultPolicyForRequester (env_of s) (serve s) kind name ''tenant'')"
  if "os_Policies s = [(tenant_policy, False), (team_policy, False)]"
proof -
  have "may_reference (os_Policies s) \<lparr>rq_Username = ''alice'', rq_Groups = [''viewers'']\<rparr> ''tenant''"
    by (simp add: that may_reference_iff default_names_def matchedPolicies_def requesterMatchesDefaultAssignment_def
        stored_policy_def sample_policies parseRequesterServiceAccount_def)
  moreover have "policies_wf (os_Policies s)" unfolding that by code_simp
  moreover have "rs_GetPolicy (serve s) ''tenant'' = (case stored_policy (os_Policies s) ''tenant'' of None \<Rightarrow> Missing | Some p \<Rightarrow> Got p)"
    by (simp add: serve_def found_def)
  moreover have "policies_listed (env_of s) (serve s)" by (rule serve_listed)
  ultimately show ?thesis
    by (intro may_reference_accepted [OF serve_policies]) simp_all
qed

lemma definition_fields:
  "rrd_Name (rv_Object viewer) = ''viewer''" "rrd_Name (rv_Object editor) = ''editor''"
  "rrds_PolicyRef (rrd_Spec (rv_Object viewer)) = ''tenant''" "rrds_PolicyRef (rrd_Spec (rv_Object editor)) = ''tenant''"
  "rrds_TargetRole (rrd_Spec (rv_Object viewer)) = DefinitionClusterRole" "rrds_TargetRole (rrd_Spec (rv_Object editor)) = DefinitionClusterRole"
  "rrds_TargetName (rrd_Spec (rv_Object viewer)) = ''viewer''" "rrds_TargetName (rrd_Spec (rv_Object editor)) = ''editor''"
  "rrds_TargetNamespace (rrd_Spec (rv_Object viewer)) = ''''" "rrds_TargetNamespace (rrd_Spec (rv_Object editor)) = ''''"
  "rrds_ConstrainedImpersonation (rrd_Spec (rv_Object viewer)) = None" "rrds_ConstrainedImpersonation (rrd_Spec (rv_Object editor)) = None"
  by (simp_all add: viewer_def editor_def sample_rrd_def DefinitionClusterRole_def)

lemma definitions_accepted:
  "accepts (rrdValidateCreate (env_of both_policies) viewer)"
  "accepts (rrdValidateCreate (env_of (both_policies\<lparr>os_RRDs := [viewer]\<rparr>)) editor)"
proof -
  have ref: "rrdValidatePolicyRefExists (env_of s) x = None" if "rrds_PolicyRef (rrd_Spec x) = ''tenant''"
      "os_Policies s = [(tenant_policy, False), (team_policy, False)]" for s x
    using that by (simp add: rrdValidatePolicyRefExists_def serve_def found_def stored_policy_def sample_policies)
  have grant: "ValidateConstrainedImpersonationSpec f None b path = []" for f b path
    by (simp add: ValidateConstrainedImpersonationSpec_def)
  have cr: "DefinitionClusterRole = ''ClusterRole''" by (simp add: DefinitionClusterRole_def)
  have pol: "os_Policies both_policies = [(tenant_policy, False), (team_policy, False)]" by (simp add: both_policies_def)
  have "accepts (validateRestrictedRoleDefinitionSpec (env_of both_policies) viewer)"
    "accepts (validateRestrictedRoleDefinitionSpec (env_of (both_policies\<lparr>os_RRDs := [viewer]\<rparr>)) editor)"
    by (simp_all add: validateRestrictedRoleDefinitionSpec_def Let_def accepts_andThen ensure_accept definitions_valid
        definition_fields grant findRestrictedRoleDefinitionTargetNameConflict_def findRoleDefinitionTargetNameConflict_def)
       (simp_all add: stored onError_def definition_fields definitions_valid [folded cr])
  with requester_ok ref pol show "accepts (rrdValidateCreate (env_of both_policies) viewer)"
    "accepts (rrdValidateCreate (env_of (both_policies\<lparr>os_RRDs := [viewer]\<rparr>)) editor)"
    by (simp_all add: rrdValidateCreate_def Let_def accepts_then definition_fields)
qed

lemma deep_eq: "deep_equal (=)"
  by (simp add: deep_equal_def)

lemma sample_reads:
  "sound_reads (serve empty_store) no_objects"
  "sound_reads (serve (empty_store\<lparr>os_Policies := [(tenant_policy, False)]\<rparr>))
     (no_objects\<lparr>as_Policies := [''tenant'' \<mapsto> (tenant_policy, False)]\<rparr>)"
  "sound_reads (serve both_policies)
     (no_objects\<lparr>as_Policies := [''tenant'' \<mapsto> (tenant_policy, False), ''team'' \<mapsto> (team_policy, False)]\<rparr>)"
  "sound_reads (serve (both_policies\<lparr>os_RRDs := [viewer]\<rparr>))
     (no_objects\<lparr>as_Policies := [''tenant'' \<mapsto> (tenant_policy, False), ''team'' \<mapsto> (team_policy, False)],
        as_RRDs := [''viewer'' \<mapsto> viewer]\<rparr>)"
  by (intro serve_sound, auto simp: holds_def empty_store_def both_policies_def no_objects_def policies_of_def policies_wf_def
      stored_policy_def sample_policies)+

lemma admitted_run: "admission_run (=) (=) no_objects sample_state"
proof -
  let ?s1 = "no_objects\<lparr>as_Policies := [''tenant'' \<mapsto> (tenant_policy, False)]\<rparr>"
  let ?s2 = "no_objects\<lparr>as_Policies := [''tenant'' \<mapsto> (tenant_policy, False), ''team'' \<mapsto> (team_policy, False)]\<rparr>"
  let ?s3 = "?s2\<lparr>as_RRDs := [''viewer'' \<mapsto> viewer]\<rparr>"
  have names: "policy_Name tenant_policy = ''tenant''" "policy_Name team_policy = ''team''"
    by (simp_all add: sample_policies)
  have "admission_step (=) (=) no_objects ?s1"
    using policy_create [of "env_of empty_store" no_objects tenant_policy "''tenant''"]
    by (simp add: sample_reads policies_accepted names) (simp add: no_objects_def)
  moreover have "admission_step (=) (=) ?s1 ?s2"
    using policy_create [of "env_of (empty_store\<lparr>os_Policies := [(tenant_policy, False)]\<rparr>)" ?s1 team_policy "''team''"]
    by (simp add: sample_reads policies_accepted names)
  moreover have "admission_step (=) (=) ?s2 ?s3"
    using rrd_create [of "env_of both_policies" ?s2 viewer "''viewer''"]
    by (simp add: sample_reads definitions_accepted definition_fields) (simp add: no_objects_def)
  moreover have "admission_step (=) (=) ?s3 sample_state"
    using rrd_create [of "env_of (both_policies\<lparr>os_RRDs := [viewer]\<rparr>)" ?s3 editor "''editor''"]
    by (simp add: sample_reads definitions_accepted definition_fields sample_state_def)
  ultimately show ?thesis by (meson converse_rtranclp_into_rtranclp rtranclp.rtrancl_refl)
qed

section \<open>What every run keeps\<close>

lemma target_key_role_target:
  "target_key spec = role_target (rrds_TargetRole spec) (rrds_TargetName spec) (rrds_TargetNamespace spec)"
  by (simp add: target_key_def role_target_def)

text \<open>
  Property C8 (tenants_do_not_interfere): after any sequence of admitted requests, reconciling one stored
  RestrictedRoleDefinition, whatever requests of the reconciliation fail and however the API server merges,
  changes neither the role of any other stored RestrictedRoleDefinition nor that of any stored RoleDefinition.
  Admission keeps the targets apart and the reconciler stays within its own.
\<close>

theorem tenants_do_not_interfere:
  assumes "admission_run eqR eqB no_objects st" "deep_equal eqR"
    and "as_RRDs st n = Some x" "w_Object w = Some obj" "ro_Definition obj = rv_Object x"
    and "Reconcile env req w = (out, w')"
  shows "(\<forall>m y k. as_RRDs st m = Some y \<and> m \<noteq> n \<and> rrd_target (rv_Object y) = Some k \<longrightarrow> w_Roles w' k = w_Roles w k) \<and>
    (\<forall>m d k. as_RDs st m = Some d \<and> rd_target (rv_Object d) = Some k \<longrightarrow> w_Roles w' k = w_Roles w k)"
proof -
  have uniq: "unique_keys (\<lambda>x. rrd_target (rv_Object x)) (\<lambda>d. rd_target (rv_Object d)) (as_RRDs st) (as_RDs st)"
    using roles.reachable [OF assms(1)] assms(2) by (simp add: role_targets_unique_def)
  have frame: "w_Roles w' k = w_Roles w k" if "rrd_target (rv_Object x) \<noteq> Some k" for k
    using reconcile_confines [OF assms(4, 6)] that by (auto simp: confined_def target_key_role_target assms(5))
  have "rrd_target (rv_Object x) \<noteq> rrd_target (rv_Object y)" if "as_RRDs st m = Some y" "m \<noteq> n" for m y
    using uniq assms(3) that unfolding unique_keys_def by blast
  moreover have "rrd_target (rv_Object x) \<noteq> rd_target (rv_Object d)" if "as_RDs st m = Some d" for m d
    using uniq assms(3) that unfolding unique_keys_def by blast
  ultimately show ?thesis by (metis frame)
qed

theorem tenants_do_not_interfere_witness:
  "w_Roles (snd (Reconcile sample_env_rrd ''viewer'' sample_world)) (ClusterRoleKey ''editor'') =
     w_Roles sample_world (ClusterRoleKey ''editor'')"
proof -
  obtain out w' where run: "Reconcile sample_env_rrd ''viewer'' sample_world = (out, w')" by fastforce
  have x: "as_RRDs sample_state ''viewer'' = Some viewer" "as_RRDs sample_state ''editor'' = Some editor"
    by (simp_all add: sample_state_def)
  have "ro_Definition sample_object = rv_Object viewer" by (simp add: sample_object_simps viewer_def)
  note t = tenants_do_not_interfere [OF admitted_run deep_eq x(1) sample_object_simps(5) this run, THEN conjunct1, rule_format]
  from t [of "''editor''" editor "ClusterRoleKey ''editor''"] x(2) show ?thesis
    by (simp add: run definition_fields role_target_def)
qed

text \<open>
  Property C19 (admitted_targets_unique): after any sequence of admitted requests no two role definitions,
  restricted or not, have the same target, and no two bind definitions, restricted or not, the same target name.
\<close>

theorem admitted_targets_unique:
  assumes "admission_run eqR eqB no_objects st" "deep_equal eqR" "deep_equal eqB"
  shows "(\<forall>n m x y. as_RRDs st n = Some x \<and> as_RRDs st m = Some y \<and> rrd_target (rv_Object x) = rrd_target (rv_Object y) \<longrightarrow> n = m) \<and>
    (\<forall>n m x y. as_RDs st n = Some x \<and> as_RDs st m = Some y \<and> rd_target (rv_Object x) = rd_target (rv_Object y) \<longrightarrow> n = m) \<and>
    (\<forall>n m x y. as_RRDs st n = Some x \<and> as_RDs st m = Some y \<longrightarrow> rrd_target (rv_Object x) \<noteq> rd_target (rv_Object y)) \<and>
    (\<forall>n m x y. as_RBDs st n = Some x \<and> as_RBDs st m = Some y \<and>
       rbds_TargetName (rbd_Spec (rv_Object x)) = rbds_TargetName (rbd_Spec (rv_Object y)) \<longrightarrow> n = m) \<and>
    (\<forall>n m x y. as_BDs st n = Some x \<and> as_BDs st m = Some y \<and>
       bds_TargetName (bd_Spec (rv_Object x)) = bds_TargetName (bd_Spec (rv_Object y)) \<longrightarrow> n = m) \<and>
    (\<forall>n m x y. as_RBDs st n = Some x \<and> as_BDs st m = Some y \<longrightarrow>
       rbds_TargetName (rbd_Spec (rv_Object x)) \<noteq> bds_TargetName (bd_Spec (rv_Object y)))"
proof -
  have "role_targets_unique st" "bind_targets_unique st"
    using roles.reachable [OF assms(1)] binds.reachable [OF assms(1)] assms(2, 3) by blast+
  then have r: "unique_keys (\<lambda>x. rrd_target (rv_Object x)) (\<lambda>d. rd_target (rv_Object d)) (as_RRDs st) (as_RDs st)"
    and b: "unique_keys (\<lambda>b. rbds_TargetName (rbd_Spec (rv_Object b))) (\<lambda>e. bds_TargetName (bd_Spec (rv_Object e))) (as_RBDs st) (as_BDs st)"
    by (simp_all add: role_targets_unique_def bind_targets_unique_def)
  show ?thesis using r [unfolded unique_keys_def] b [unfolded unique_keys_def]
    by (elim conjE, intro conjI allI impI) (elim conjE, metis)+
qed

theorem admitted_targets_unique_witness:
  "rrd_target (rv_Object viewer) \<noteq> rrd_target (rv_Object editor)"
proof -
  have "as_RRDs sample_state ''viewer'' = Some viewer" "as_RRDs sample_state ''editor'' = Some editor"
    by (simp_all add: sample_state_def)
  with admitted_targets_unique [OF admitted_run deep_eq deep_eq, THEN conjunct1, rule_format, of "''viewer''" viewer "''editor''" editor]
  show ?thesis by auto
qed

text \<open>
  Property C12 (admitted_references_live): after any sequence of admitted requests every restricted definition
  refers to a stored policy that is not being deleted: a policy in use cannot be deleted, and a definition
  is not admitted for a policy that is missing or on its way out.
\<close>

theorem admitted_references_live:
  assumes "admission_run eqR eqB no_objects st" "deep_equal eqR" "deep_equal eqB"
  shows "(\<forall>n x. as_RRDs st n = Some x \<longrightarrow> (\<exists>p. as_Policies st (rrds_PolicyRef (rrd_Spec (rv_Object x))) = Some (p, False))) \<and>
    (\<forall>n b. as_RBDs st n = Some b \<longrightarrow> (\<exists>p. as_Policies st (rbds_PolicyRef (rbd_Spec (rv_Object b))) = Some (p, False)))"
  using refs.reachable [OF assms(1)] assms(2, 3) by (simp add: references_live_def live_def)

theorem admitted_references_live_witness:
  "\<exists>p. as_Policies sample_state (rrds_PolicyRef (rrd_Spec (rv_Object editor))) = Some (p, False)"
proof -
  have "as_RRDs sample_state ''editor'' = Some editor" by (simp add: sample_state_def)
  with admitted_references_live [OF admitted_run deep_eq deep_eq] show ?thesis by blast
qed

text \<open>
  Property C26 (admitted_assignments_disjoint): after any sequence of admitted requests no group and no
  ServiceAccount is assigned to two policies.
\<close>

theorem admitted_assignments_disjoint:
  assumes "admission_run eqR eqB no_objects st" "as_Policies st n = Some (p, d)" "as_Policies st m = Some (q, e)" "n \<noteq> m"
    and "ps_DefaultAssignment (policy_Spec p) = Some da" "ps_DefaultAssignment (policy_Spec q) = Some db"
  shows "set (dpa_Groups da) \<inter> set (dpa_Groups db) = {} \<and> set (dpa_ServiceAccounts da) \<inter> set (dpa_ServiceAccounts db) = {}"
  using disjointD [OF disjoint.reachable [OF assms(1)] assms(2-4)] assms(5, 6) by (auto simp: overlap_def)

theorem admitted_assignments_disjoint_witness:
  "set [''viewers''] \<inter> set [''team-a''] = ({} :: string set) \<and>
   as_Policies sample_state ''tenant'' = Some (tenant_policy, False) \<and> as_Policies sample_state ''team'' = Some (team_policy, False)"
proof -
  have p: "as_Policies sample_state ''tenant'' = Some (tenant_policy, False)" "as_Policies sample_state ''team'' = Some (team_policy, False)"
    by (simp_all add: sample_state_def)
  have a: "ps_DefaultAssignment (policy_Spec tenant_policy) = Some \<lparr>dpa_Groups = [''viewers''], dpa_ServiceAccounts = []\<rparr>"
    "ps_DefaultAssignment (policy_Spec team_policy) =
       Some \<lparr>dpa_Groups = [''team-a''], dpa_ServiceAccounts = [\<lparr>sar_Name = ''deployer'', sar_Namespace = ''team-a''\<rparr>]\<rparr>"
    by (simp_all add: sample_policies)
  from admitted_assignments_disjoint [OF admitted_run p _ a] p show ?thesis by simp
qed

section \<open>Requesters and policies\<close>

text \<open>
  Property C20 (default_policy_exact): a requester may refer to a policy exactly as the default assignments say:
  who is assigned to one policy must refer to that one, who is assigned to none may refer to a stored policy
  without an assignment, who is assigned to several may refer to none, and no one to a policy that is missing or
  being deleted. Whatever reads fail and whichever listing is used, an accepted reference is allowed; an allowed
  reference is accepted when the selected policy can be read and the policies can be listed, by the field
  selector or, when the API server does not support it, without. What is read is what is stored.
\<close>

theorem default_policy_exact:
  assumes "sound_policy_reads c ps" "policies_wf ps" "ae_Request env = Some req"
  shows "(accepts (validateDefaultPolicyForRequester env c kind objName sel) \<longrightarrow> reference_allowed ps req sel) \<and>
    (rs_GetPolicy c sel = (case stored_policy ps sel of None \<Rightarrow> Missing | Some p \<Rightarrow> Got p) \<and> policies_listed env c \<and>
     reference_allowed ps req sel \<longrightarrow> accepts (validateDefaultPolicyForRequester env c kind objName sel))"
  using accepted_may_reference [OF assms] may_reference_accepted [OF assms]
  unfolding reference_allowed_iff [OF assms(2)] by blast

text \<open>Alice is in a group of one policy and has to use it; the API server does not support the field selector.\<close>

theorem default_policy_exact_witness:
  "accepts (validateDefaultPolicyForRequester (unindexed_env both_policies) (unindexed both_policies)
     RestrictedRoleDefinitionKind ''viewer'' ''tenant'') \<and>
   \<not> accepts (validateDefaultPolicyForRequester (unindexed_env both_policies) (unindexed both_policies)
     RestrictedRoleDefinitionKind ''viewer'' ''team'')"
proof -
  let ?ps = "os_Policies both_policies" and ?req = "\<lparr>rq_Username = ''alice'', rq_Groups = [''viewers'']\<rparr>"
  have wf: "policies_wf ?ps" by code_simp
  have req: "ae_Request (unindexed_env both_policies) = Some ?req" by (simp add: unindexed_env_def)
  have get: "rs_GetPolicy (unindexed both_policies) sel = (case stored_policy ?ps sel of None \<Rightarrow> Missing | Some p \<Rightarrow> Got p)" for sel
    by (simp add: unindexed_def serve_def found_def)
  have listed: "policies_listed (unindexed_env both_policies) (unindexed both_policies)"
    by (rule unindexed_listed) (simp add: unindexed_env_def)
  have "may_reference ?ps ?req ''tenant'' \<and> \<not> may_reference ?ps ?req ''team''"
    by (simp add: both_policies_def may_reference_iff default_names_def matchedPolicies_def requesterMatchesDefaultAssignment_def
        stored_policy_def sample_policies parseRequesterServiceAccount_def)
  then show ?thesis
    using default_policy_exact [OF unindexed_policies wf req] get listed reference_allowed_iff [OF wf, of ?req] by blast
qed

text \<open>
  The identity of an accepted policy that enables impersonation is well
  defined. Either it is a ServiceAccount with name and namespace and nothing else, then the controllers apply as
  that account and the mode of the API server is the one for ServiceAccounts; or it is a user name outside the
  reserved ones, without the masters group, which selects the user-info mode, and then the
  controllers have no identity to apply as.
\<close>

theorem accepted_identity:
  assumes "accepts (policyValidateCreate env p) \<or> accepts (policyValidateUpdate env old p)"
    and "ps_Impersonation (policy_Spec p) = Some ic" "ic_Enabled ic"
  shows "(\<exists>ref. ic_ServiceAccountRef ic = Some ref \<and> ic_UserName ic = '''' \<and> sar_Name ref \<noteq> '''' \<and> sar_Namespace ref \<noteq> '''' \<and>
      impersonatedUsernameForPolicy (Some p) = Inr (''system:serviceaccount:'' @ sar_Namespace ref @ '':'' @ sar_Name ref, True) \<and>
      SelectedMode (Some ic) = ImpersonationModeServiceAccount) \<or>
    (ic_ServiceAccountRef ic = None \<and> ic_UserName ic \<noteq> '''' \<and> \<not> isReservedUsername (ic_UserName ic) \<and>
      SystemMastersGroup \<notin> set (ic_Groups ic) \<and> SelectedMode (Some ic) = ImpersonationModeUserInfo \<and>
      isl (impersonatedUsernameForPolicy (Some p)))"
proof -
  have ok: "validateImpersonationConfig (ae_IsDomainPrefixedPath env) (Some ic) ''spec.impersonation'' = []"
    using accepted_config [OF assms(1)] assms(2) by simp
  show ?thesis
  proof (cases "ic_ServiceAccountRef ic")
    case (Some ref)
    note full = config_structure(4) [OF ok assms(3) Some]
    from exclusive_reference [OF config_structure(1) [OF ok] Some] full service_account_mode [OF Some] assms(2, 3) Some
    show ?thesis by (simp add: impersonatedUsernameForPolicy_def)
  next
    case None
    note user = config_structure(3) [OF ok assms(3) None]
    from plain_user_name [OF config_structure(2) [OF ok]] user user_info_mode [OF None user] assms(2, 3) None
    show ?thesis by (simp add: impersonatedUsernameForPolicy_def)
  qed
qed

definition agent_policy :: RBACPolicy where
  "agent_policy = sample_policy\<lparr>policy_Spec := (policy_Spec sample_policy)\<lparr>ps_Impersonation := Some
     \<lparr>ic_Enabled = True, ic_ServiceAccountRef = Some \<lparr>sar_Name = ''agent'', sar_Namespace = ''team-a''\<rparr>, ic_UserName = '''',
      ic_UID = '''', ic_Groups = [], ic_Extra = [], ic_Mode = ''''\<rparr>\<rparr>\<rparr>"

theorem accepted_identity_witness:
  "impersonatedUsernameForPolicy (Some agent_policy) = Inr (''system:serviceaccount:team-a:agent'', True)"
proof -
  have valid: "validateRBACPolicySpec (env_of empty_store) agent_policy = None" by code_simp
  have "accepts (policyValidateCreate (env_of empty_store) agent_policy)"
    by (simp add: policyValidateCreate_def accepts_then valid validateDefaultAssignmentDoesNotOverlap_def)
      (simp add: agent_policy_def sample_policy_def)
  moreover obtain ic where ic: "ps_Impersonation (policy_Spec agent_policy) = Some ic" "ic_Enabled ic"
      "ic_ServiceAccountRef ic = Some \<lparr>sar_Name = ''agent'', sar_Namespace = ''team-a''\<rparr>"
    by (simp add: agent_policy_def)
  ultimately show ?thesis using accepted_identity [OF _ ic(1, 2), of "env_of empty_store"] ic(3) by auto
qed

section \<open>Returning\<close>

text \<open>
  Property C32 (validators_return): every validating handler returns, for every request, as long as the listings
  it reads end: no listing of the API server is required to be complete or free of errors, only the chain of
  continue tokens must be finite.
\<close>

theorem validators_return:
  assumes "policy_lists_end (defaultPolicyReader env)" "role_lists_end (defaultPolicyReader env)" "bind_lists_end (defaultPolicyReader env)"
  shows "returns (policyValidateCreate env p) \<and> returns (policyValidateUpdate env oldp p) \<and> returns (policyValidateDelete env p) \<and>
    returns (rrdValidateCreate env x) \<and> returns (rrdValidateUpdate eqR env oldx x) \<and>
    returns (rdValidateCreate env d) \<and> returns (rdValidateUpdate env oldd d) \<and>
    returns (rbdValidateCreate env b) \<and> returns (rbdValidateUpdate eqB env oldb b) \<and>
    returns (bdValidateCreate env e) \<and> returns (bdValidateUpdate env olde e)"
proof -
  have "ends (listAdmissionPage (rs_RestrictedBindDefinitions (defaultPolicyReader env)) [] None) ''''"
    "ends (listAdmissionPage (rs_RestrictedRoleDefinitions (defaultPolicyReader env)) [] None) ''''"
    using assms(2, 3) by (simp_all add: role_lists_end_def bind_lists_end_def)
  then show ?thesis
    using policy_validators_return [OF assms(1)] policy_delete_returns rrd_validators_return [OF assms(2, 1)]
      rd_validators_return [OF assms(2)] rbd_validators_return [OF assms(3, 1)] bd_validators_return [OF assms(3)]
    by blast
qed

theorem validators_return_witness: "returns (rrdValidateCreate (env_of both_policies) viewer)"
  using validators_return [of "env_of both_policies" _ _ viewer] serve_ends [of both_policies] by simp

section \<open>Bindings\<close>

text \<open>A BindDefinition that blocks missing roles, in a cluster that has them.\<close>

definition ops :: "BindDefinition reviewed" where
  "ops = \<lparr>rv_Object = \<lparr>bd_Name = ''ops'', bd_Deleting = False, bd_Spec =
     \<lparr>bds_TargetName = ''ops'',
      bds_Subjects = [\<lparr>subj_Kind = GroupKind, subj_APIGroup = rbacGroupName, subj_Name = ''dev'', subj_Namespace = ''''\<rparr>],
      bds_ExternalServiceAccountRefs = [], bds_ClusterRoleBindings = \<lparr>cb_ClusterRoleRefs = [''nodes'']\<rparr>,
      bds_RoleBindings = [\<lparr>nb_AuthorizeBeforeBinding = False, nb_ClusterRoleRefs = [''view''], nb_RoleRefs = [''edit''],
        nb_Namespace = ''team-a'', nb_NamespaceSelector = []\<rparr>],
      bds_AutomountServiceAccountToken = None\<rparr>\<rparr>,
     rv_Meta = no_meta\<lparr>om_Annotations := [(MissingRolePolicyAnnotation, MissingRolePolicyError)]\<rparr>\<rparr>"

definition team_cluster :: object_store where
  "team_cluster = empty_store\<lparr>
     os_Namespaces := [\<lparr>ns_Name = ''team-a'', ns_Labels = [], ns_Annotations = [], ns_Phase = ''Active''\<rparr>],
     os_Roles := [ClusterRoleKey ''nodes'' \<mapsto> foreign_role, ClusterRoleKey ''view'' \<mapsto> foreign_role,
       RoleKey ''team-a'' ''edit'' \<mapsto> foreign_role]\<rparr>"

lemma ops_accepted: "accepts (bdValidateCreate (env_of team_cluster) ops)"
proof -
  have code: "validateBindDefinitionRequiredFields BindDefinitionKind (rv_Object ops) = None"
    "validateBindDefinitionSubjects (env_of team_cluster) BindDefinitionKind (bd_Name (rv_Object ops)) (bds_Subjects (bd_Spec (rv_Object ops))) = None"
    "validateExternalServiceAccountRefs (env_of team_cluster) BindDefinitionKind (bd_Name (rv_Object ops)) (bd_Spec (rv_Object ops)) = None"
    "validateNamespaceBindingsWithLabelGroups (env_of team_cluster) BindDefinitionKind (bd_Name (rv_Object ops))
       (bds_RoleBindings (bd_Spec (rv_Object ops))) (ae_LabelGroups (env_of team_cluster)) = None"
    by (code_simp, code_simp, code_simp, code_simp)
  have scans: "bdFindBindDefinitionTargetNameConflict (env_of team_cluster) (rv_Object ops) = Some (Inr None)"
    "bdFindRestrictedBindDefinitionTargetNameConflict (env_of team_cluster) (rv_Object ops) = Some (Inr None)"
    by (simp_all add: bdFindBindDefinitionTargetNameConflict_def bdFindRestrictedBindDefinitionTargetNameConflict_def)
      (simp_all add: team_cluster_def stored)
  have claims: "validateRoleBindingNameCollisionClaims (env_of team_cluster) BindDefinitionKind (bd_Name (rv_Object ops))
      (bds_TargetName (bd_Spec (rv_Object ops))) [] (bds_RoleBindings (bd_Spec (rv_Object ops))) = Some (Inr ())"
    by code_simp
  have roles: "accepts (andThen (checkReferencedRoles (env_of team_cluster) (bd_Spec (rv_Object ops))) (missingRolesAnswer b))" for b
    by (simp add: checkReferencedRoles_def checkRoleBinding_def checkClusterRole_def checkRoleExists_def ops_def missingRolesAnswer_def)
      (simp add: team_cluster_def stored checkRoleBinding_def checkClusterRole_def checkRoleExists_def missingRolesAnswer_def
        mput_def)
  show ?thesis
    by (simp add: bdValidateCreate_def validateBindDefinitionSpec_def Let_def accepts_andThen ensure_accept onError_accept code scans
        claims roles [unfolded accepts_andThen])
qed

text \<open>
  Property C27 (accepted_bindings_distinct): let a definition be accepted on creation while \<open>nss\<close> are the
  namespaces of the cluster, and let \<open>now\<close> be the namespaces when a controller resolves the selectors of its
  bindings. As long as every namespace that is not being deleted was there, with the same labels, at
  admission, or every binding names its namespace, the RoleBindings generated for the definition do not
  overwrite each other: two of them in the same namespace that get the same generated name, shortened and
  hashed names included, bind the same role. The claim is not made for a namespace that is added or
  relabelled later: the webhooks check the namespaces of the moment and the controllers do not check again.
\<close>

theorem accepted_bindings_distinct:
  assumes "accepts (rbdValidateCreate env b) \<and> target = rbds_TargetName (rbd_Spec (rv_Object b)) \<and> bs = rbds_RoleBindings (rbd_Spec (rv_Object b)) \<or>
      accepts (bdValidateCreate env e) \<and> target = bds_TargetName (bd_Spec (rv_Object e)) \<and> bs = bds_RoleBindings (bd_Spec (rv_Object e))"
    and "lists_namespaces (defaultPolicyReader env) nss" "targets_known bs nss now"
    and "generates env now [] bs ns k r" "generates env now [] bs ns k' r'"
    and "BuildBindingName (ae_Hash env) target r = BuildBindingName (ae_Hash env) target r'"
  shows "k = k' \<and> r = r'"
proof -
  obtain kind obj crefs where "accepts (validateRoleBindingNameCollisionClaims env kind obj target crefs bs)"
    using assms(1) by (metis bdValidateCreate_def bd_spec_accepted(4) rbd_create_accepted(1) rbd_spec_accepted(3))
  moreover have "generates env nss crefs bs ns k r" "generates env nss crefs bs ns k' r'"
    using generates_known [OF assms(3)] assms(4, 5) by (fastforce simp: generates_def)+
  ultimately show ?thesis using collision_free assms(2, 6) by blast
qed

theorem accepted_bindings_distinct_witness:
  "BuildBindingName (ae_Hash (env_of team_cluster)) ''ops'' ''view'' \<noteq> BuildBindingName (ae_Hash (env_of team_cluster)) ''ops'' ''edit''"
proof
  assume same: "BuildBindingName (ae_Hash (env_of team_cluster)) ''ops'' ''view'' = BuildBindingName (ae_Hash (env_of team_cluster)) ''ops'' ''edit''"
  let ?bs = "bds_RoleBindings (bd_Spec (rv_Object ops))"
  have "lists_namespaces (defaultPolicyReader (env_of team_cluster)) (os_Namespaces team_cluster)" by (simp add: serve_namespaces)
  moreover have "generates (env_of team_cluster) (os_Namespaces team_cluster) [] ?bs ''team-a'' ''ClusterRole'' ''view''"
    "generates (env_of team_cluster) (os_Namespaces team_cluster) [] ?bs ''team-a'' ''Role'' ''edit''"
    by (simp_all add: generates_def ops_def binds_in_def binding_refs_def)
  ultimately show False
    using accepted_bindings_distinct [of "env_of team_cluster" undefined "''ops''" ?bs ops "os_Namespaces team_cluster"
        "os_Namespaces team_cluster" "''team-a''" "''ClusterRole''" "''view''" "''Role''" "''edit''"] ops_accepted same
    by (simp add: ops_def targets_known_def)
qed

text \<open>
  A BindDefinition accepted under the missing-role policy \<^verbatim>\<open>error\<close> refers only to
  roles that exist: every ClusterRole it names, and every Role in each namespace that its binding is looked up
  in, unless the namespace is missing or being deleted. Namespace names are distinct and have no slash.
\<close>

theorem blocked_roles_exist:
  assumes "accepts (bdValidateCreate env e)" "GetMissingRolePolicy (rv_Meta e) = MissingRolePolicyError"
    and "lists_namespaces (defaultPolicyReader env) nss" "distinct (map ns_Name nss)"
    and "\<forall>ns \<in> set nss. CHR ''/'' \<notin> set (ns_Name ns)"
    and "\<forall>b \<in> set (bds_RoleBindings (bd_Spec (rv_Object e))). CHR ''/'' \<notin> set (nb_Namespace b)"
    and "key \<in> referenced_roles env nss (bd_Spec (rv_Object e))"
  shows "role_exists env key"
proof -
  have "MissingRolePolicyError \<noteq> MissingRolePolicyIgnore" by (simp add: MissingRolePolicyError_def MissingRolePolicyIgnore_def)
  then have "accepts (andThen (checkReferencedRoles env (bd_Spec (rv_Object e))) (missingRolesAnswer True))"
    using bd_spec_accepted(5) [of env e] assms(1, 2) by (simp add: bdValidateCreate_def)
  from blocking_roles_exist [OF this assms(3, 4)] assms(5-7) show ?thesis by blast
qed

theorem blocked_roles_exist_witness: "role_exists (env_of team_cluster) (RoleKey ''team-a'' ''edit'')"
proof (rule blocked_roles_exist [OF ops_accepted])
  show "GetMissingRolePolicy (rv_Meta ops) = MissingRolePolicyError" by code_simp
  show "lists_namespaces (defaultPolicyReader (env_of team_cluster)) (os_Namespaces team_cluster)" by (simp add: serve_namespaces)
  show "RoleKey ''team-a'' ''edit'' \<in> referenced_roles (env_of team_cluster) (os_Namespaces team_cluster) (bd_Spec (rv_Object ops))"
    by (simp add: referenced_roles_def binding_roles_def looks_in_def ops_def) (simp add: team_cluster_def stored)
qed (simp_all add: team_cluster_def ops_def)

end
