(* ===== verification/Bind_Apply.thy ===== *)
theory Bind_Apply
  imports Role_Apply Apply_Identity
begin

text \<open>
  Bindings and ServiceAccounts in the cluster: the ownership check in front of every write of a binding
  (\<^verbatim>\<open>restricted_helpers.go\<close>) and the server-side apply of bindings and ServiceAccounts
  (\<^verbatim>\<open>pkg/ssa/patchhelper.go\<close>). As for roles, the merge of an apply configuration is the API server's, a
  parameter with the laws \<open>binding_merges\<close> and \<open>account_merges\<close>; here it may also refuse the request, since
  the role of a binding is immutable and ServiceAccounts are applied without forced ownership.
\<close>

section \<open>Loops with errors\<close>

text \<open>A loop that returns at the first error, and one that collects the errors and goes on.\<close>

fun for_each :: "('a \<Rightarrow> 's \<Rightarrow> 'e option \<times> 's) \<Rightarrow> 'a list \<Rightarrow> 's \<Rightarrow> 'e option \<times> 's" where
  "for_each f [] s = (None, s)"
| "for_each f (x # xs) s = (case f x s of (Some e, s') \<Rightarrow> (Some e, s') | (None, s') \<Rightarrow> for_each f xs s')"

fun for_errs :: "('a \<Rightarrow> 's \<Rightarrow> 'e option \<times> 's) \<Rightarrow> 'a list \<Rightarrow> 's \<Rightarrow> 'e list \<times> 's" where
  "for_errs f [] s = ([], s)"
| "for_errs f (x # xs) s =
     (case f x s of
        (e, s') \<Rightarrow> (case for_errs f xs s' of (es, s'') \<Rightarrow> (case e of None \<Rightarrow> es | Some e' \<Rightarrow> e' # es, s'')))"

text \<open>\<^verbatim>\<open>errors.Join\<close> of any number of errors.\<close>

fun errors_JoinAll :: "go_error list \<Rightarrow> go_error option" where
  "errors_JoinAll [] = None"
| "errors_JoinAll (e # es) = (case errors_JoinAll es of None \<Rightarrow> Some e | Some e' \<Rightarrow> Some (errors_Join e e'))"

text \<open>A relation every iteration keeps is kept by the loop.\<close>

lemma for_each_kept:
  assumes "for_each f xs s = (res, s')" and "\<And>s. R s s" and "\<And>a b c. R a b \<Longrightarrow> R b c \<Longrightarrow> R a c"
    and "\<And>x t r t'. x \<in> set xs \<Longrightarrow> f x t = (r, t') \<Longrightarrow> R s t \<Longrightarrow> R t t'"
  shows "R s s'"
proof -
  have "R s s' \<Longrightarrow> for_each f ys s' = (res, s'') \<Longrightarrow> set ys \<subseteq> set xs \<Longrightarrow> R s s''" for ys s' s''
  proof (induction ys arbitrary: s')
    case (Cons y ys)
    obtain r t' where y: "f y s' = (r, t')" by fastforce
    then have "R s t'" using Cons.prems assms(3, 4) by (metis insert_subset list.simps(15))
    then show ?case using Cons y by (auto split: option.splits)
  qed simp
  from this [of s xs s'] show ?thesis using assms(1, 2) by blast
qed

lemma for_errs_kept:
  assumes "for_errs f xs s = (es, s')" and "\<And>s. R s s" and "\<And>a b c. R a b \<Longrightarrow> R b c \<Longrightarrow> R a c"
    and "\<And>x t r t'. x \<in> set xs \<Longrightarrow> f x t = (r, t') \<Longrightarrow> R t t'"
  shows "R s s'"
  using assms(1, 4)
proof (induction xs arbitrary: s es)
  case (Cons x xs)
  obtain r t' where x: "f x s = (r, t')" by fastforce
  obtain es' where "for_errs f xs t' = (es', s')" using Cons.prems(1) x by (auto split: prod.splits)
  then have "R t' s'" using Cons by (meson list.set_intros(2))
  then show ?case using Cons.prems(2) [OF _ x] assms(3) by simp
qed (use assms(2) in simp)

lemma errors_JoinAll_None: "errors_JoinAll es = None \<longleftrightarrow> es = []"
  by (cases es) (auto split: option.splits)

section \<open>Stores and requests\<close>

datatype binding_key = ClusterRoleBindingKey string | RoleBindingKey string string

type_synonym binding_store = "(binding_key, rbac_binding) gomap"

text \<open>ServiceAccounts by namespace and name.\<close>

type_synonym account_store = "(string \<times> string, service_account) gomap"

text \<open>
  The requests of a reconciliation of bindings, by the place in the code and the arguments: a request that
  is repeated at the same place gets the same answer. \<open>resolve_site\<close> tells the four places that resolve the
  namespaces of a binding apart.
\<close>

datatype resolve_site = ValidatingRefs | DesiredKeys | CheckingCollisions | EnsuringBindings

datatype bind_call = BindGetDefinition | BindEnsureFinalizer | BindRemoveFinalizer | BindGetPolicy | BindReadLabels
  | BindStatusGet | BindStatusApply
  | ListClusterRoleBindings | ListRoleBindings | ListServiceAccounts
  | DeleteBinding binding_key | DeleteAccount string string
  | ResolveGet resolve_site string | ResolveList resolve_site LabelSelector
  | ClusterRoleGet string | RoleGet string string | TargetNamespaceGet string
  | AccountNamespaceGet string | AccountGet string string | LiveDefinitionGet | AccountApply string string
  | BindingOwnershipGet binding_key | RoleRefGet binding_key | RoleRefDelete binding_key
  | SubjectsGet binding_key | SubjectsClear binding_key | BindingApply binding_key

type_synonym bind_failures = "bind_call \<Rightarrow> go_error option"

definition store_write ::
  "('c \<Rightarrow> go_error option) \<Rightarrow> 'c \<Rightarrow> 'k \<Rightarrow> 'v option \<Rightarrow> ('k, 'v) gomap \<Rightarrow> go_error option \<times> ('k, 'v) gomap" where
  "store_write fail call key new s =
     (case fail call of
        None \<Rightarrow> (None, case new of None \<Rightarrow> mdelete key s | Some v \<Rightarrow> mput key v s)
      | Some err \<Rightarrow> (Some err, if IsNotFound err then mdelete key s else s))"

text \<open>On the finite maps it is the write of \<^theory_text>\<open>Cluster_State\<close>.\<close>

lemma store_write_map:
  "store_write fail call key new s = (err, s') \<Longrightarrow> server_write fail call key new (map_of s) = (err, map_of s')"
  by (auto simp: store_write_def server_write_def mput_def mdelete_def AList.update_conv' AList.delete_conv'
      split: option.splits if_splits)

lemma store_write_frame: "store_write fail call key new s = (err, s') \<Longrightarrow> k \<noteq> key \<Longrightarrow> map_of s' k = map_of s k"
  using store_write_map [of fail call key new s err s'] server_write_frame [of k key fail call new "map_of s"] by simp

section \<open>Ownership of bindings\<close>

definition checkRestrictedBindingOwnership ::
  "bind_failures \<Rightarrow> binding_store \<Rightarrow> owner_object \<Rightarrow> string \<Rightarrow> string \<Rightarrow> string \<Rightarrow> go_error option" where
  "checkRestrictedBindingOwnership fail s owner targetKind targetName targetNamespace =
     (let check = (\<lambda>key.
        case server_read fail (BindingOwnershipGet key) (map_of s key) of
          Missing \<Rightarrow> None
        | ReadError err \<Rightarrow> Some (wrapf [Lit ''check existing '', Lit targetKind, Lit '' '', Lit targetNamespace,
            Lit ''/'', Lit targetName] err)
        | Got existing \<Rightarrow>
            if hasControllerOwnerRef (bnd_OwnerReferences existing) owner then None
            else Some (errorf [Lit ''target '', Lit targetKind, Lit '' '', Lit targetName,
              Lit '' already exists and is not owned by RestrictedBindDefinition '', Lit (ow_Name owner),
              Lit '' (UID: '', Lit (ow_UID owner), Lit '')''])) in
      if targetKind = ''ClusterRoleBinding'' then check (ClusterRoleBindingKey targetName)
      else if targetKind = ''RoleBinding'' then check (RoleBindingKey targetNamespace targetName)
      else Some (errorf [Lit ''unknown target binding kind '', Quo targetKind]))"

section \<open>Applying bindings\<close>

type_synonym binding_ssa = "binding_ac \<Rightarrow> rbac_binding option \<Rightarrow> go_error + rbac_binding"

definition subject_live :: "SubjectAC \<Rightarrow> Subject" where
  "subject_live s = \<lparr>subj_Kind = deref (sbac_Kind s), subj_APIGroup = deref (sbac_APIGroup s),
     subj_Name = deref (sbac_Name s), subj_Namespace = deref (sbac_Namespace s)\<rparr>"

definition roleRef_live :: "RoleRefAC \<Rightarrow> RoleRef" where
  "roleRef_live r = \<lparr>rref_APIGroup = deref (rrac_APIGroup r), rref_Kind = deref (rrac_Kind r),
     rref_Name = deref (rrac_Name r)\<rparr>"

text \<open>
  What the Kubernetes documentation promises of an apply with forced ownership that succeeds: the role and a
  non-empty list of subjects, which is atomic, are the declared ones; an undeclared list is the live one or
  goes away; owner references are merged by UID.
\<close>

definition binding_merges :: "binding_ssa \<Rightarrow> bool" where
  "binding_merges ssa \<longleftrightarrow> (\<forall>ac live r. ssa ac live = Inr r \<longrightarrow>
     (\<forall>ref. bac_RoleRef ac = Some ref \<longrightarrow> bnd_RoleRef r = roleRef_live ref) \<and>
     (bac_Subjects ac \<noteq> [] \<longrightarrow> bnd_Subjects r = map subject_live (bac_Subjects ac)) \<and>
     (bac_Subjects ac = [] \<longrightarrow> bnd_Subjects r = [] \<or> (\<exists>l. live = Some l \<and> bnd_Subjects r = bnd_Subjects l)) \<and>
     (\<forall>d \<in> set (bac_OwnerReferences ac). owner_live d \<in> set (bnd_OwnerReferences r)))"

definition binding_ac_key :: "binding_ac \<Rightarrow> binding_key" where
  "binding_ac_key ac =
     (case bac_Namespace ac of None \<Rightarrow> ClusterRoleBindingKey (bac_Name ac) | Some ns \<Rightarrow> RoleBindingKey ns (bac_Name ac))"

text \<open>\<^verbatim>\<open>json.Marshal\<close> of subjects and of owner references, for the canonical order.\<close>

record marshal_api =
  ma_Subject :: "SubjectAC \<Rightarrow> string + string"
  ma_Owner :: "OwnerReferenceAC \<Rightarrow> string + string"

text \<open>\<^verbatim>\<open>bindingApplyClient.Apply\<close>: a canonical copy of the configuration is sent.\<close>

definition canonicalBinding :: "marshal_api \<Rightarrow> binding_ac \<Rightarrow> msg + binding_ac" where
  "canonicalBinding marshal ac =
     (case normalizeBindingApplyConfiguration (ma_Subject marshal) (ma_Owner marshal) (bac_Subjects ac)
             (Some (bac_OwnerReferences ac)) of
        Inl err \<Rightarrow> Inl err
      | Inr (subjects, refs) \<Rightarrow> Inr (ac\<lparr>bac_Subjects := subjects,
          bac_OwnerReferences := (case refs of None \<Rightarrow> bac_OwnerReferences ac | Some rs \<Rightarrow> rs)\<rparr>))"

definition bindingApply ::
  "bind_failures \<Rightarrow> binding_ssa \<Rightarrow> marshal_api \<Rightarrow> binding_ac \<Rightarrow> binding_store \<Rightarrow> (go_error + PatchApplyResult) \<times> binding_store" where
  "bindingApply fail ssa marshal ac s =
     (let key = binding_ac_key ac in
      case canonicalBinding marshal ac of
        Inl err \<Rightarrow> (Inl (errorf err), s)
      | Inr desired \<Rightarrow>
          (case fail (BindingApply key) of
             Some err \<Rightarrow> (Inl err, s)
           | None \<Rightarrow>
               (case ssa desired (map_of s key) of
                  Inl err \<Rightarrow> (Inl err, s)
                | Inr live \<Rightarrow> (Inr (if map_of s key = None then PatchApplyResultCreated else PatchApplyResultPatched),
                    mput key live s))))"

text \<open>\<^verbatim>\<open>patchApplyClusterRoleBinding\<close> and \<^verbatim>\<open>patchApplyRoleBinding\<close> differ in the kind of the applier.\<close>

definition patchApplyBinding ::
  "bind_failures \<Rightarrow> binding_ssa \<Rightarrow> marshal_api \<Rightarrow> (binding_ac \<Rightarrow> rbac_binding option \<Rightarrow> bool) \<Rightarrow> binding_ac \<Rightarrow> bool
    \<Rightarrow> binding_store \<Rightarrow> (go_error + PatchApplyResult) \<times> binding_store" where
  "patchApplyBinding fail ssa marshal skips ac always s =
     (if \<not> always \<and> skips ac (map_of s (binding_ac_key ac)) then (Inr PatchApplyResultSkipped, s)
      else bindingApply fail ssa marshal ac s)"

definition PatchApplyClusterRoleBinding ::
  "bind_failures \<Rightarrow> binding_ssa \<Rightarrow> marshal_api \<Rightarrow> (binding_ac \<Rightarrow> rbac_binding option \<Rightarrow> bool) \<Rightarrow> binding_ac
    \<Rightarrow> binding_store \<Rightarrow> (go_error + PatchApplyResult) \<times> binding_store" where
  "PatchApplyClusterRoleBinding fail ssa marshal skips ac s = patchApplyBinding fail ssa marshal skips ac False s"

definition PatchApplyClusterRoleBindingAlways ::
  "bind_failures \<Rightarrow> binding_ssa \<Rightarrow> marshal_api \<Rightarrow> (binding_ac \<Rightarrow> rbac_binding option \<Rightarrow> bool) \<Rightarrow> binding_ac
    \<Rightarrow> binding_store \<Rightarrow> (go_error + PatchApplyResult) \<times> binding_store" where
  "PatchApplyClusterRoleBindingAlways fail ssa marshal skips ac s = patchApplyBinding fail ssa marshal skips ac True s"

definition PatchApplyRoleBinding ::
  "bind_failures \<Rightarrow> binding_ssa \<Rightarrow> marshal_api \<Rightarrow> (binding_ac \<Rightarrow> rbac_binding option \<Rightarrow> bool) \<Rightarrow> binding_ac
    \<Rightarrow> binding_store \<Rightarrow> (go_error + PatchApplyResult) \<times> binding_store" where
  "PatchApplyRoleBinding fail ssa marshal skips ac s = patchApplyBinding fail ssa marshal skips ac False s"

definition PatchApplyRoleBindingAlways ::
  "bind_failures \<Rightarrow> binding_ssa \<Rightarrow> marshal_api \<Rightarrow> (binding_ac \<Rightarrow> rbac_binding option \<Rightarrow> bool) \<Rightarrow> binding_ac
    \<Rightarrow> binding_store \<Rightarrow> (go_error + PatchApplyResult) \<times> binding_store" where
  "PatchApplyRoleBindingAlways fail ssa marshal skips ac s = patchApplyBinding fail ssa marshal skips ac True s"

section \<open>Applying ServiceAccounts\<close>

text \<open>The merge takes the field owner first, and may refuse a conflict with another owner.\<close>

type_synonym account_ssa = "string \<Rightarrow> service_account_ac \<Rightarrow> service_account option \<Rightarrow> go_error + service_account"

definition account_merges :: "account_ssa \<Rightarrow> bool" where
  "account_merges ssa \<longleftrightarrow> (\<forall>fieldOwner ac live r. ssa fieldOwner ac live = Inr r \<longrightarrow>
     (saac_AutomountToken ac \<noteq> None \<longrightarrow> sac_AutomountToken r = saac_AutomountToken ac) \<and>
     (\<forall>k. map_of (saac_Labels ac) k \<noteq> None \<longrightarrow> map_of (sac_Labels r) k = map_of (saac_Labels ac) k) \<and>
     (\<forall>k. map_of (saac_Annotations ac) k \<noteq> None \<longrightarrow> map_of (sac_Annotations r) k = map_of (saac_Annotations ac) k) \<and>
     (\<forall>d \<in> set (saac_OwnerReferences ac). owner_live d \<in> set (sac_OwnerReferences r)) \<and>
     (fieldOwner, ''Apply'') \<in> set (sac_ManagedFields r))"

definition accountApply ::
  "bind_failures \<Rightarrow> account_ssa \<Rightarrow> service_account_ac \<Rightarrow> string \<Rightarrow> account_store
    \<Rightarrow> (go_error + PatchApplyResult) \<times> account_store" where
  "accountApply fail ssa ac fieldOwner s =
     (let key = (saac_Namespace ac, saac_Name ac) in
      case fail (AccountApply (saac_Namespace ac) (saac_Name ac)) of
        Some err \<Rightarrow> (Inl err, s)
      | None \<Rightarrow>
          (case ssa fieldOwner ac (map_of s key) of
             Inl err \<Rightarrow> (Inl err, s)
           | Inr live \<Rightarrow> (Inr (if map_of s key = None then PatchApplyResultCreated else PatchApplyResultPatched),
               mput key live s)))"

definition patchApplyServiceAccount ::
  "bind_failures \<Rightarrow> account_ssa \<Rightarrow> (service_account_ac \<Rightarrow> service_account option \<Rightarrow> bool) \<Rightarrow> service_account_ac \<Rightarrow> bool
    \<Rightarrow> string \<Rightarrow> account_store \<Rightarrow> (go_error + PatchApplyResult) \<times> account_store" where
  "patchApplyServiceAccount fail ssa skips ac always fieldOwner s =
     (case (if \<not> always \<and> skips ac (map_of s (saac_Namespace ac, saac_Name ac)) then (Inr PatchApplyResultSkipped, s)
            else accountApply fail ssa ac fieldOwner s) of
        (Inl err, s') \<Rightarrow>
          (Inl (if IsConflict err \<and> HasPrefix (render (ge_text err)) ''create ServiceAccount ''
                then wrapf [Lit ''create ServiceAccount '', Lit (saac_Namespace ac), Lit ''/'', Lit (saac_Name ac),
                  Lit '' conflicted after preflight''] err
                else err), s')
      | (Inr result, s') \<Rightarrow> (Inr result, s'))"

definition PatchApplyServiceAccountAlways ::
  "bind_failures \<Rightarrow> account_ssa \<Rightarrow> (service_account_ac \<Rightarrow> service_account option \<Rightarrow> bool) \<Rightarrow> service_account_ac
    \<Rightarrow> string \<Rightarrow> account_store \<Rightarrow> (go_error + PatchApplyResult) \<times> account_store" where
  "PatchApplyServiceAccountAlways fail ssa skips ac fieldOwner s =
     patchApplyServiceAccount fail ssa skips ac True fieldOwner s"

end
