(* ===== verification/Restricted_Bind_Reconciler.thy ===== *)
theory Restricted_Bind_Reconciler
  imports Bind_Apply Bind_Policy Restricted_Role_Reconciler
begin

text \<open>
  The reconciler of RestrictedBindDefinitions (\<^verbatim>\<open>restrictedbinddefinition_controller.go\<close>) with its status
  writer (\<^verbatim>\<open>applyconfiguration/ssa/patchhelper.go\<close>). A reconciliation is a function on the cluster: the
  definition object, the bindings, the ServiceAccounts and the cache of clients. What it reads and cannot
  change (policies, namespaces, roles) and the choices of the API server are in the environment, as for
  \<^theory_text>\<open>Restricted_Role_Reconciler\<close>. Events, metrics and logs are left out, and with them the counts of active
  namespaces and external accounts, which only metrics read.
\<close>

section \<open>State\<close>

record rbd_status =
  bs_ObservedGeneration :: int
  bs_BindReconciled :: bool
  bs_GeneratedServiceAccounts :: "Subject list"
  bs_MissingRoleRefs :: "string list"
  bs_ExternalServiceAccounts :: "string list"
  bs_SkippedServiceAccounts :: "string list"
  bs_PolicyViolations :: "msg list"
  bs_Conditions :: "Condition list"

record rbd_object =
  bo_Definition :: RestrictedBindDefinition
  bo_UID :: string
  bo_Generation :: int
  bo_Labels :: labels
  bo_Deleting :: bool
  bo_Finalizers :: "string list"
  bo_Status :: rbd_status

record 'c rbd_world =
  bw_Object :: "rbd_object option"
  bw_Bindings :: binding_store
  bw_Accounts :: account_store
  bw_Cache :: "'c impersonatedClientCache"

text \<open>
  \<open>be_Hash\<close> is the short hash of \<^verbatim>\<open>BuildBindingName\<close>; the other fields are as in the role reconciler.
\<close>

record 'c rbd_env =
  be_Now :: int
  be_AsSelector :: selector_api
  be_Hash :: "string \<Rightarrow> string"
  be_Policies :: "string \<Rightarrow> (RBACPolicy \<times> bool) option"
  be_Namespaces :: "Namespace list"
  be_Roles :: role_store
  be_RestConfig :: bool
  be_Factory :: "'c factory"
  be_Refresh :: bool
  be_Fail :: "'c apply_client \<Rightarrow> bind_failures"
  be_StatusApply :: "rbd_status \<Rightarrow> rbd_status \<Rightarrow> rbd_status"
  be_Marshal :: marshal_api
  be_BindingSSA :: binding_ssa
  be_BindingSkips :: "binding_ac \<Rightarrow> rbac_binding option \<Rightarrow> bool"
  be_AccountSSA :: account_ssa
  be_AccountSkips :: "service_account_ac \<Rightarrow> service_account option \<Rightarrow> bool"

abbreviation bind_fail :: "'c rbd_env \<Rightarrow> bind_failures" where
  "bind_fail env \<equiv> be_Fail env BaseClient"

abbreviation bo_Spec :: "rbd_object \<Rightarrow> RestrictedBindDefinitionSpec" where
  "bo_Spec obj \<equiv> rbd_Spec (bo_Definition obj)"

abbreviation bo_Name :: "rbd_object \<Rightarrow> string" where
  "bo_Name obj \<equiv> rbd_Name (bo_Definition obj)"

definition rbd_owner :: "rbd_object \<Rightarrow> owner_object" where
  "rbd_owner obj = \<lparr>ow_TypeMeta = ('''', ''''), ow_Type = RestrictedBindDefinitionType, ow_Name = bo_Name obj,
     ow_UID = bo_UID obj\<rparr>"

definition on_bind_status :: "(rbd_status \<Rightarrow> rbd_status) \<Rightarrow> rbd_object \<Rightarrow> rbd_object" where
  "on_bind_status f obj = obj\<lparr>bo_Status := f (bo_Status obj)\<rparr>"

definition on_bind_conditions :: "(Condition list \<Rightarrow> Condition list) \<Rightarrow> rbd_object \<Rightarrow> rbd_object" where
  "on_bind_conditions f = on_bind_status (\<lambda>st. st\<lparr>bs_Conditions := f (bs_Conditions st)\<rparr>)"

definition set_bind_reconciled :: "bool \<Rightarrow> rbd_object \<Rightarrow> rbd_object" where
  "set_bind_reconciled b = on_bind_status (\<lambda>st. st\<lparr>bs_BindReconciled := b\<rparr>)"

definition set_bind_violations :: "msg list \<Rightarrow> rbd_object \<Rightarrow> rbd_object" where
  "set_bind_violations vs = on_bind_status (\<lambda>st. st\<lparr>bs_PolicyViolations := vs\<rparr>)"

definition observe_bind_generation :: "rbd_object \<Rightarrow> rbd_object" where
  "observe_bind_generation obj = on_bind_status (\<lambda>st. st\<lparr>bs_ObservedGeneration := bo_Generation obj\<rparr>) obj"

text \<open>\<^verbatim>\<open>%v\<close> of a slice of strings.\<close>

definition sliceText :: "string list \<Rightarrow> string" where
  "sliceText xs = ''['' @ Join xs '' '' @ '']''"

section \<open>Condition constants\<close>

definition RoleRefValidCondition :: string where "RoleRefValidCondition = ''RoleRefsValid''"
definition RoleRefValidReason :: string where "RoleRefValidReason = ''RoleRefValidation''"
definition RoleRefValidMessage :: string where "RoleRefValidMessage = ''All referenced roles exist''"
definition RoleRefInvalidReason :: string where "RoleRefInvalidReason = ''RoleRefNotFound''"
definition RoleRefInvalidMessage :: "string list \<Rightarrow> string" where
  "RoleRefInvalidMessage refs = ''Missing role references: '' @ sliceText refs"
definition TargetNamespaceNotFoundReason :: string where "TargetNamespaceNotFoundReason = ''TargetNamespaceNotFound''"
definition TargetNamespaceNotFoundMessage :: "string list \<Rightarrow> string" where
  "TargetNamespaceNotFoundMessage nss = ''Missing target namespaces: '' @ sliceText nss"
definition ServiceAccountRefsReadyCondition :: string where
  "ServiceAccountRefsReadyCondition = ''ServiceAccountRefsReady''"
definition ServiceAccountRefsReadyReason :: string where "ServiceAccountRefsReadyReason = ''ServiceAccountRefsReady''"
definition ServiceAccountRefsReadyMessage :: string where
  "ServiceAccountRefsReadyMessage = ''All ServiceAccount subjects are present''"
definition ServiceAccountRefsSkippedReason :: string where
  "ServiceAccountRefsSkippedReason = ''ServiceAccountRefsSkipped''"
definition ServiceAccountRefsSkippedMessage :: "string list \<Rightarrow> string" where
  "ServiceAccountRefsSkippedMessage sas = ''Skipped ServiceAccount subjects: '' @ sliceText sas"
definition RoleRefRequeueInterval :: nat where "RoleRefRequeueInterval = 10"

section \<open>Writing the status\<close>

definition subjectsEqual :: "Subject list \<Rightarrow> Subject list \<Rightarrow> bool" where
  "subjectsEqual a b \<longleftrightarrow> length a = length b \<and> list_all (\<lambda>(x, y). x = y) (zip a b)"

definition restrictedBindDefinitionStatusEqual :: "rbd_status \<Rightarrow> rbd_status \<Rightarrow> bool" where
  "restrictedBindDefinitionStatusEqual a b \<longleftrightarrow>
     bs_ObservedGeneration a = bs_ObservedGeneration b \<and> bs_BindReconciled a = bs_BindReconciled b \<and>
     subjectsEqual (bs_GeneratedServiceAccounts a) (bs_GeneratedServiceAccounts b) \<and>
     bs_MissingRoleRefs a = bs_MissingRoleRefs b \<and>
     bs_ExternalServiceAccounts a = bs_ExternalServiceAccounts b \<and>
     bs_SkippedServiceAccounts a = bs_SkippedServiceAccounts b \<and>
     map render (bs_PolicyViolations a) = map render (bs_PolicyViolations b) \<and>
     conditionsEqual (bs_Conditions a) (bs_Conditions b)"

definition ApplyRestrictedBindDefinitionStatus ::
  "'c rbd_env \<Rightarrow> rbd_object \<Rightarrow> 'c rbd_world \<Rightarrow> go_error option \<times> 'c rbd_world" where
  "ApplyRestrictedBindDefinitionStatus env obj w =
     (case server_read (bind_fail env) BindStatusGet (bw_Object w) of
        Missing \<Rightarrow> (Some \<lparr>ge_causes = [APIStatus ''NotFound''], ge_text = [Lit ''RestrictedBindDefinition not found'']\<rparr>, w)
      | ReadError err \<Rightarrow> (Some err, w)
      | Got stored \<Rightarrow>
          if restrictedBindDefinitionStatusEqual (bo_Status stored) (bo_Status obj) then (None, w)
          else
            (case bind_fail env BindStatusApply of
               Some err \<Rightarrow> (Some err, w)
             | None \<Rightarrow> (None, w\<lparr>bw_Object := Some (stored\<lparr>bo_Status := be_StatusApply env (bo_Status stored) (bo_Status obj)\<rparr>)\<rparr>)))"

definition bind_stall :: "'c rbd_env \<Rightarrow> string \<Rightarrow> rbd_object \<Rightarrow> rbd_object" where
  "bind_stall env detail obj =
     observe_bind_generation (set_bind_reconciled False (on_bind_conditions (\<lambda>cs. MarkStalled (be_Now env) cs
       (bo_Generation obj) StalledReasonError (StalledMessageError detail)) obj))"

definition rbdMarkStalled ::
  "'c rbd_env \<Rightarrow> go_error \<Rightarrow> rbd_object \<Rightarrow> 'c rbd_world \<Rightarrow> rbd_object \<times> 'c rbd_world" where
  "rbdMarkStalled env err obj w =
     (let obj' = bind_stall env (stalledErrorDetail (Some err)) obj in
      (obj', snd (ApplyRestrictedBindDefinitionStatus env obj' w)))"

definition rbdApplyStatusAndMarkStalled ::
  "'c rbd_env \<Rightarrow> string \<Rightarrow> rbd_object \<Rightarrow> 'c rbd_world \<Rightarrow> go_error option \<times> rbd_object \<times> 'c rbd_world" where
  "rbdApplyStatusAndMarkStalled env m obj w =
     (let obj' = bind_stall env m obj in
      case ApplyRestrictedBindDefinitionStatus env obj' w of
        (Some err, w') \<Rightarrow> (Some (wrapf [Lit ''apply RestrictedBindDefinition '', Lit (bo_Name obj),
           Lit '' stalled status''] err), obj', w')
      | (None, w') \<Rightarrow> (None, obj', w'))"

section \<open>Owned resources\<close>

text \<open>The list requests; every listed object is in the store.\<close>

definition isClusterKey :: "binding_key \<Rightarrow> bool" where
  "isClusterKey k = (case k of ClusterRoleBindingKey _ \<Rightarrow> True | RoleBindingKey _ _ \<Rightarrow> False)"

definition rbdListOwnedClusterRoleBindings ::
  "'c rbd_env \<Rightarrow> rbd_object \<Rightarrow> binding_store \<Rightarrow> go_error + (binding_key \<times> rbac_binding) list" where
  "rbdListOwnedClusterRoleBindings env rbd s =
     (case bind_fail env ListClusterRoleBindings of
        Some err \<Rightarrow> Inl (wrapf [Lit ''list ClusterRoleBindings for ownerRef cleanup''] err)
      | None \<Rightarrow> Inr (filter (\<lambda>(k, b). isClusterKey k \<and> hasControllerOwnerRef (bnd_OwnerReferences b) (rbd_owner rbd)) s))"

definition rbdListOwnedRoleBindings ::
  "'c rbd_env \<Rightarrow> rbd_object \<Rightarrow> binding_store \<Rightarrow> go_error + (binding_key \<times> rbac_binding) list" where
  "rbdListOwnedRoleBindings env rbd s =
     (case bind_fail env ListRoleBindings of
        Some err \<Rightarrow> Inl (wrapf [Lit ''list RoleBindings for ownerRef cleanup''] err)
      | None \<Rightarrow> Inr (filter (\<lambda>(k, b). \<not> isClusterKey k \<and> hasControllerOwnerRef (bnd_OwnerReferences b) (rbd_owner rbd)) s))"

definition rbdListOwnedServiceAccounts ::
  "'c rbd_env \<Rightarrow> rbd_object \<Rightarrow> account_store \<Rightarrow> go_error + ((string \<times> string) \<times> service_account) list" where
  "rbdListOwnedServiceAccounts env rbd s =
     (case bind_fail env ListServiceAccounts of
        Some err \<Rightarrow> Inl (wrapf [Lit ''list ServiceAccounts for ownerRef cleanup''] err)
      | None \<Rightarrow> Inr (filter (\<lambda>(k, sa). hasControllerOwnerRef (sac_OwnerReferences sa) (rbd_owner rbd)) s))"

text \<open>The names in errors and the keys of the desired sets.\<close>

definition bindingText :: "binding_key \<Rightarrow> string" where
  "bindingText k = (case k of ClusterRoleBindingKey n \<Rightarrow> n | RoleBindingKey ns n \<Rightarrow> ns @ ''/'' @ n)"

definition accountText :: "string \<times> string \<Rightarrow> string" where
  "accountText k = fst k @ ''/'' @ snd k"

text \<open>Deleting a list of bindings; an object that is already gone is no error.\<close>

definition deleteBindings ::
  "'c rbd_env \<Rightarrow> string \<Rightarrow> (binding_key \<times> rbac_binding) list \<Rightarrow> binding_store \<Rightarrow> go_error list \<times> binding_store" where
  "deleteBindings env what items s =
     for_errs (\<lambda>(key, b) s.
       case store_write (bind_fail env) (DeleteBinding key) key None s of
         (Some err, s') \<Rightarrow> (if IsNotFound err then None
            else Some (wrapf [Lit ''delete '', Lit what, Lit '' '', Lit (bindingText key)] err), s')
       | (None, s') \<Rightarrow> (None, s')) items s"

definition rbdPruneStaleResources ::
  "'c rbd_env \<Rightarrow> rbd_object \<Rightarrow> string list \<Rightarrow> string list \<Rightarrow> binding_store \<Rightarrow> go_error option \<times> binding_store" where
  "rbdPruneStaleResources env rbd desiredCRBs desiredRBs s =
     (let (errs1, s1) =
            (case rbdListOwnedClusterRoleBindings env rbd s of
               Inl err \<Rightarrow> ([wrapf [Lit ''list owned ClusterRoleBindings for pruning''] err], s)
             | Inr crbs \<Rightarrow> deleteBindings env ''stale ClusterRoleBinding''
                 (filter (\<lambda>(k, b). bindingText k \<notin> set desiredCRBs) crbs) s);
          (errs2, s2) =
            (case rbdListOwnedRoleBindings env rbd s1 of
               Inl err \<Rightarrow> ([wrapf [Lit ''list owned RoleBindings for pruning''] err], s1)
             | Inr rbs \<Rightarrow> deleteBindings env ''stale RoleBinding''
                 (filter (\<lambda>(k, b). bindingText k \<notin> set desiredRBs) rbs) s1) in
      (errors_JoinAll (errs1 @ errs2), s2))"

definition rbdDesiredServiceAccounts :: "Subject list \<Rightarrow> string list" where
  "rbdDesiredServiceAccounts subjects =
     map (\<lambda>s. subj_Namespace s @ ''/'' @ subj_Name s) (filter (\<lambda>s. subj_Kind s = ServiceAccountKind) subjects)"

definition rbdPruneStaleServiceAccounts ::
  "'c rbd_env \<Rightarrow> rbd_object \<Rightarrow> string list \<Rightarrow> string list \<Rightarrow> account_store \<Rightarrow> go_error option \<times> account_store" where
  "rbdPruneStaleServiceAccounts env rbd desiredSAs trustedGeneratedSAs s =
     (case rbdListOwnedServiceAccounts env rbd s of
        Inl err \<Rightarrow> (Some (wrapf [Lit ''list owned ServiceAccounts for pruning''] err), s)
      | Inr serviceAccounts \<Rightarrow>
          (case for_errs (\<lambda>(key, sa) s.
             if accountText key \<in> set desiredSAs then (None, s)
             else if accountText key \<notin> set trustedGeneratedSAs then (None, s)
             else
               (case store_write (bind_fail env) (DeleteAccount (fst key) (snd key)) key None s of
                  (Some err, s') \<Rightarrow> (if IsNotFound err then None
                     else Some (wrapf [Lit ''delete stale ServiceAccount '', Lit (accountText key)] err), s')
                | (None, s') \<Rightarrow> (None, s'))) serviceAccounts s of
             (errs, s') \<Rightarrow> (errors_JoinAll errs, s')))"

section \<open>Deprovisioning and deletion\<close>

definition rbdDeprovision :: "'c rbd_env \<Rightarrow> rbd_object \<Rightarrow> 'c rbd_world \<Rightarrow> go_error option \<times> 'c rbd_world" where
  "rbdDeprovision env rbd w =
     (let (errs1, s1) =
            (case rbdListOwnedClusterRoleBindings env rbd (bw_Bindings w) of
               Inl err \<Rightarrow> ([wrapf [Lit ''list owned ClusterRoleBindings''] err], bw_Bindings w)
             | Inr crbs \<Rightarrow> deleteBindings env ''ClusterRoleBinding'' crbs (bw_Bindings w));
          (errs2, s2) =
            (case rbdListOwnedRoleBindings env rbd s1 of
               Inl err \<Rightarrow> ([wrapf [Lit ''list owned RoleBindings''] err], s1)
             | Inr rbs \<Rightarrow> deleteBindings env ''RoleBinding'' rbs s1);
          (err3, accounts) = rbdPruneStaleServiceAccounts env rbd []
            (rbdDesiredServiceAccounts (bs_GeneratedServiceAccounts (bo_Status rbd))) (bw_Accounts w) in
      (errors_JoinAll (errs1 @ errs2 @ (case err3 of None \<Rightarrow> [] | Some err \<Rightarrow> [err])),
       w\<lparr>bw_Bindings := s2, bw_Accounts := accounts\<rparr>))"

definition rbdClearDeprovisionedStatus :: "rbd_object \<Rightarrow> rbd_object" where
  "rbdClearDeprovisionedStatus =
     on_bind_status (\<lambda>st. st\<lparr>bs_GeneratedServiceAccounts := [], bs_ExternalServiceAccounts := [],
       bs_MissingRoleRefs := [], bs_SkippedServiceAccounts := [],
       bs_Conditions := Delete (Delete (bs_Conditions st) RoleRefValidCondition) ServiceAccountRefsReadyCondition,
       bs_BindReconciled := False\<rparr>)"

text \<open>Removing the last finalizer of a deleted object lets it go.\<close>

definition dropBindFinalizer ::
  "'c rbd_env \<Rightarrow> rbd_object \<Rightarrow> 'c rbd_world \<Rightarrow> go_error option \<times> 'c rbd_world" where
  "dropBindFinalizer env obj w =
     (case bind_fail env BindRemoveFinalizer of
        Some err \<Rightarrow> (Some err, w)
      | None \<Rightarrow>
          let finalizers = filter (\<lambda>f. f \<noteq> RestrictedBindDefinitionFinalizer) (bo_Finalizers obj) in
          (None, w\<lparr>bw_Object := if finalizers = [] then None else Some (obj\<lparr>bo_Finalizers := finalizers\<rparr>)\<rparr>))"

definition reconcileDelete ::
  "'c rbd_env \<Rightarrow> rbd_object \<Rightarrow> 'c rbd_world \<Rightarrow> go_error option \<times> 'c rbd_world" where
  "reconcileDelete env rbd w =
     (if RestrictedBindDefinitionFinalizer \<notin> set (bo_Finalizers rbd) then (None, w)
      else
        (case rbdDeprovision env rbd w of
           (Some err, w1) \<Rightarrow> (Some (wrapf [Lit ''delete cleanup for RestrictedBindDefinition '', Lit (bo_Name rbd)] err), w1)
         | (None, w1) \<Rightarrow>
             (case dropBindFinalizer env rbd w1 of
                (Some err, w2) \<Rightarrow>
                  (Some (wrapf [Lit ''remove finalizer from RestrictedBindDefinition '', Lit (bo_Name rbd)] err), w2)
              | (None, w2) \<Rightarrow> (None, w2))))"

section \<open>Evaluating the policy\<close>

text \<open>
  The violations are discarded when a read of the evaluation failed; \<open>BindReadLabels\<close> stands for that
  failure, so the resolver itself answers from the cluster.
\<close>

definition bind_labels :: "'c rbd_env \<Rightarrow> LabelGetter" where
  "bind_labels env =
     newLabelGetter (be_AsSelector env) None (map (\<lambda>ns. (ns_Name ns, ns_Labels ns)) (be_Namespaces env)) (be_Roles env)"

text \<open>
  The callbacks refer to the object the configuration was made for; what a handler changes in it before it
  deprovisions, conditions and violations, is nothing \<^term>\<open>rbdDeprovision\<close> reads.
\<close>

definition rbdPolicyLifecycleConfig :: "'c rbd_env \<Rightarrow> rbd_object \<Rightarrow> (rbd_object, 'c rbd_world) lifecycle" where
  "rbdPolicyLifecycleConfig env rbd =
     \<lparr>lc_ResourceName = bo_Name rbd, lc_ResourceKind = ''RestrictedBindDefinition'',
      lc_PolicyRefName = rbds_PolicyRef (bo_Spec rbd), lc_Generation = bo_Generation rbd, lc_Now = be_Now env,
      lc_Evaluate = (\<lambda>policy.
        (EvaluateBindDefinition (be_AsSelector env) (Some policy) (Some (bo_Definition rbd)) (Some (bind_labels env)),
         bind_fail env BindReadLabels)),
      lc_Deprovision = (\<lambda>obj w.
        case rbdDeprovision env rbd w of
          (Some err, w') \<Rightarrow> (Some err, obj, w')
        | (None, w') \<Rightarrow> (None, rbdClearDeprovisionedStatus obj, w')),
      lc_MarkStalled = rbdMarkStalled env,
      lc_ApplyStatusAndMarkStalled = rbdApplyStatusAndMarkStalled env,
      lc_ApplyStatus = ApplyRestrictedBindDefinitionStatus env,
      lc_SetReconciled = set_bind_reconciled,
      lc_SetPolicyViolations = set_bind_violations,
      lc_Conditions = on_bind_conditions\<rparr>"

definition rbdEvaluatePolicy ::
  "'c rbd_env \<Rightarrow> rbd_object \<Rightarrow> RBACPolicy \<Rightarrow> 'c rbd_world \<Rightarrow> outcome option \<times> rbd_object \<times> 'c rbd_world" where
  "rbdEvaluatePolicy env rbd rbacPolicy w =
     (let cfg = rbdPolicyLifecycleConfig env rbd in
      case evaluateRestrictedPolicy cfg rbacPolicy rbd w of
        (Inl err, obj, w1) \<Rightarrow> (Some (NoRequeue, Some err), obj, w1)
      | (Inr violations, obj, w1) \<Rightarrow>
          if violations = [] then (None, obj, w1)
          else (case handlePolicyViolations cfg violations obj w1 of (out, obj', w2) \<Rightarrow> (Some out, obj', w2)))"

section \<open>Namespaces\<close>

definition findNamespace :: "'c rbd_env \<Rightarrow> string \<Rightarrow> Namespace option" where
  "findNamespace env name = List.find (\<lambda>ns. ns_Name ns = name) (be_Namespaces env)"

abbreviation terminating :: "Namespace \<Rightarrow> bool" where
  "terminating ns \<equiv> IsNamespaceTerminating (Some (ns_Phase ns))"

text \<open>The first namespace of each name, in the order of the lists.\<close>

definition addUnseen :: "Namespace list \<Rightarrow> Namespace list \<Rightarrow> Namespace list" where
  "addUnseen acc nss = foldl (\<lambda>acc ns. if ns_Name ns \<in> set (map ns_Name acc) then acc else acc @ [ns]) acc nss"

fun rbdSelectNamespaces ::
  "'c rbd_env \<Rightarrow> resolve_site \<Rightarrow> LabelSelector list \<Rightarrow> Namespace list \<Rightarrow> go_error + Namespace list" where
  "rbdSelectNamespaces env site [] acc = Inr acc"
| "rbdSelectNamespaces env site (nsSelector # rest) acc =
     (case be_AsSelector env nsSelector of
        Inl err \<Rightarrow> Inl (errorf [Lit ''parse namespace selector: '', Lit err])
      | Inr selector \<Rightarrow>
          (case bind_fail env (ResolveList site nsSelector) of
             Some err \<Rightarrow> Inl (wrapf [Lit ''list namespaces''] err)
           | None \<Rightarrow> rbdSelectNamespaces env site rest
               (addUnseen acc (filter (\<lambda>ns. selector (ns_Labels ns)) (be_Namespaces env)))))"

definition rbdResolveNamespaces ::
  "'c rbd_env \<Rightarrow> resolve_site \<Rightarrow> NamespaceBinding \<Rightarrow> go_error + Namespace list" where
  "rbdResolveNamespaces env site binding =
     (if nb_Namespace binding \<noteq> '''' then
        (case server_read (bind_fail env) (ResolveGet site (nb_Namespace binding)) (findNamespace env (nb_Namespace binding)) of
           Missing \<Rightarrow> Inr []
         | ReadError err \<Rightarrow> Inl (wrapf [Lit ''get namespace '', Lit (nb_Namespace binding)] err)
         | Got ns \<Rightarrow> Inr [ns])
      else rbdSelectNamespaces env site (nb_NamespaceSelector binding) [])"

definition rbdFindMissingTargetNamespaces :: "'c rbd_env \<Rightarrow> rbd_object \<Rightarrow> go_error + string list" where
  "rbdFindMissingTargetNamespaces env rbd =
     (case for_each (\<lambda>roleBinding missing.
        if nb_Namespace roleBinding = '''' then (None, missing)
        else
          (case server_read (bind_fail env) (TargetNamespaceGet (nb_Namespace roleBinding))
                  (findNamespace env (nb_Namespace roleBinding)) of
             Missing \<Rightarrow> (None, List.insert (nb_Namespace roleBinding) missing)
           | ReadError err \<Rightarrow> (Some (wrapf [Lit ''get target namespace '', Lit (nb_Namespace roleBinding)] err), missing)
           | Got ns \<Rightarrow> (None, missing))) (rbds_RoleBindings (bo_Spec rbd)) [] of
        (Some err, missing) \<Rightarrow> Inl err
      | (None, missing) \<Rightarrow> Inr (sort missing))"

section \<open>Referenced roles\<close>

definition restrictedClusterRoleRefs :: "ClusterBinding option \<Rightarrow> string list" where
  "restrictedClusterRoleRefs binding = (case binding of None \<Rightarrow> [] | Some b \<Rightarrow> cb_ClusterRoleRefs b)"

text \<open>The caches of known roles and the set of missing ones.\<close>

record role_findings =
  rf_ClusterRoles :: "(string, bool) gomap"
  rf_Roles :: "(string, bool) gomap"
  rf_Missing :: "string list"

definition clusterRoleExists ::
  "'c rbd_env \<Rightarrow> string \<Rightarrow> (string, bool) gomap \<Rightarrow> (go_error + bool) \<times> (string, bool) gomap" where
  "clusterRoleExists env clusterRoleRef cache =
     (case mlookup cache clusterRoleRef of
        Some exists \<Rightarrow> (Inr exists, cache)
      | None \<Rightarrow>
          (case server_read (bind_fail env) (ClusterRoleGet clusterRoleRef) (be_Roles env (ClusterRoleKey clusterRoleRef)) of
             Missing \<Rightarrow> (Inr False, mput clusterRoleRef False cache)
           | ReadError err \<Rightarrow> (Inl (wrapf [Lit ''check ClusterRole '', Quo clusterRoleRef, Lit '' existence''] err), cache)
           | Got cr \<Rightarrow> (Inr True, mput clusterRoleRef True cache)))"

definition roleExists ::
  "'c rbd_env \<Rightarrow> string \<Rightarrow> string \<Rightarrow> (string, bool) gomap \<Rightarrow> (go_error + bool) \<times> (string, bool) gomap" where
  "roleExists env namespace roleRef cache =
     (let cacheKey = namespace @ ''/'' @ roleRef in
      case mlookup cache cacheKey of
        Some exists \<Rightarrow> (Inr exists, cache)
      | None \<Rightarrow>
          (case server_read (bind_fail env) (RoleGet namespace roleRef) (be_Roles env (RoleKey namespace roleRef)) of
             Missing \<Rightarrow> (Inr False, mput cacheKey False cache)
           | ReadError err \<Rightarrow> (Inl (wrapf [Lit ''check Role '', Lit cacheKey, Lit '' existence''] err), cache)
           | Got role \<Rightarrow> (Inr True, mput cacheKey True cache)))"

definition findClusterRole :: "'c rbd_env \<Rightarrow> string \<Rightarrow> role_findings \<Rightarrow> go_error option \<times> role_findings" where
  "findClusterRole env ref f =
     (case clusterRoleExists env ref (rf_ClusterRoles f) of
        (Inl err, cache) \<Rightarrow> (Some err, f\<lparr>rf_ClusterRoles := cache\<rparr>)
      | (Inr exists, cache) \<Rightarrow>
          (None, f\<lparr>rf_ClusterRoles := cache,
             rf_Missing := if exists then rf_Missing f else List.insert (''ClusterRole/'' @ ref) (rf_Missing f)\<rparr>))"

definition findRole :: "'c rbd_env \<Rightarrow> string \<Rightarrow> string \<Rightarrow> role_findings \<Rightarrow> go_error option \<times> role_findings" where
  "findRole env namespace ref f =
     (case roleExists env namespace ref (rf_Roles f) of
        (Inl err, cache) \<Rightarrow> (Some err, f\<lparr>rf_Roles := cache\<rparr>)
      | (Inr exists, cache) \<Rightarrow>
          (None, f\<lparr>rf_Roles := cache,
             rf_Missing := if exists then rf_Missing f
               else List.insert (''Role/'' @ namespace @ ''/'' @ ref) (rf_Missing f)\<rparr>))"

definition findBindingRoles :: "'c rbd_env \<Rightarrow> NamespaceBinding \<Rightarrow> role_findings \<Rightarrow> go_error option \<times> role_findings" where
  "findBindingRoles env roleBinding f =
     (case for_each (findClusterRole env) (nb_ClusterRoleRefs roleBinding) f of
        (Some err, f1) \<Rightarrow> (Some err, f1)
      | (None, f1) \<Rightarrow>
          (case rbdResolveNamespaces env ValidatingRefs roleBinding of
             Inl err \<Rightarrow> (Some (wrapf [Lit ''resolve namespaces for roleBinding during validation''] err), f1)
           | Inr targetNamespaces \<Rightarrow>
               for_each (\<lambda>roleRef. for_each (\<lambda>ns f. if terminating ns then (None, f) else findRole env (ns_Name ns) roleRef f)
                 targetNamespaces) (nb_RoleRefs roleBinding) f1))"

text \<open>The partial list returned beside an error is not used by the caller.\<close>

definition rbdValidateRoleReferences :: "'c rbd_env \<Rightarrow> rbd_object \<Rightarrow> go_error + string list" where
  "rbdValidateRoleReferences env rbd =
     (case for_each (findClusterRole env) (restrictedClusterRoleRefs (rbds_ClusterRoleBindings (bo_Spec rbd)))
             \<lparr>rf_ClusterRoles = [], rf_Roles = [], rf_Missing = []\<rparr> of
        (Some err, f) \<Rightarrow> Inl err
      | (None, f) \<Rightarrow>
          (case for_each (findBindingRoles env) (rbds_RoleBindings (bo_Spec rbd)) f of
             (Some err, f1) \<Rightarrow> Inl err
           | (None, f1) \<Rightarrow> Inr (sort (rf_Missing f1))))"

section \<open>ServiceAccounts\<close>

definition rbdSACreationConfig :: "RBACPolicy \<Rightarrow> SACreationConfig option" where
  "rbdSACreationConfig rbacPolicy =
     (case ps_SubjectLimits (policy_Spec rbacPolicy) of
        None \<Rightarrow> None
      | Some limits \<Rightarrow> (case sl_ServiceAccountLimits limits of None \<Rightarrow> None | Some sal \<Rightarrow> sal_Creation sal))"

definition rbdAutomountServiceAccountToken :: "rbd_object \<Rightarrow> SACreationConfig option \<Rightarrow> bool" where
  "rbdAutomountServiceAccountToken rbd saCreationConfig =
     (let automountToken = (case rbds_AutomountServiceAccountToken (bo_Spec rbd) of None \<Rightarrow> True | Some b \<Rightarrow> b) in
      case saCreationConfig of
        None \<Rightarrow> automountToken
      | Some cfg \<Rightarrow> if sac_AutomountServiceAccountToken cfg = Some False then False else automountToken)"

definition rbdSAAllowedCreationNamespace :: "selector_api \<Rightarrow> SACreationConfig \<Rightarrow> Namespace \<Rightarrow> go_error + bool" where
  "rbdSAAllowedCreationNamespace asSelector cfg namespace =
     (let hasStaticCheck = length (sac_AllowedCreationNamespaces cfg) > 0 in
      if \<not> hasStaticCheck \<and> sac_AllowedCreationNamespaceSelector cfg = None then Inr True
      else if hasStaticCheck \<and> ns_Name namespace \<in> set (sac_AllowedCreationNamespaces cfg) then Inr True
      else
        (case sac_AllowedCreationNamespaceSelector cfg of
           None \<Rightarrow> Inr False
         | Some sel \<Rightarrow>
             (case asSelector sel of
                Inl err \<Rightarrow> Inl (errorf [Lit ''parse ServiceAccount creation namespace selector: '', Lit err])
              | Inr selector \<Rightarrow> Inr (selector (ns_Labels namespace)))))"

text \<open>Whether an account may be managed, and why not.\<close>

definition rbdCanManageGeneratedServiceAccount ::
  "'c rbd_env \<Rightarrow> Namespace \<Rightarrow> SACreationConfig option \<Rightarrow> go_error + bool \<times> string" where
  "rbdCanManageGeneratedServiceAccount env namespace saCreationConfig =
     (case saCreationConfig of
        None \<Rightarrow> Inr (False, ''auto-create disabled'')
      | Some cfg \<Rightarrow>
          if \<not> sac_AllowAutoCreate cfg then Inr (False, ''auto-create disabled'')
          else
            (case rbdSAAllowedCreationNamespace (be_AsSelector env) cfg namespace of
               Inl err \<Rightarrow> Inl err
             | Inr allowed \<Rightarrow> if \<not> allowed then Inr (False, ''namespace not allowed by policy'') else Inr (True, '''')))"

definition rbdCanCreateMissingServiceAccount ::
  "'c rbd_env \<Rightarrow> Namespace \<Rightarrow> SACreationConfig option \<Rightarrow> go_error + bool \<times> string" where
  "rbdCanCreateMissingServiceAccount env namespace saCreationConfig =
     (case rbdCanManageGeneratedServiceAccount env namespace saCreationConfig of
        Inl err \<Rightarrow> Inl err
      | Inr (canManage, skipReason) \<Rightarrow> if \<not> canManage then Inr (False, skipReason) else Inr (True, ''''))"

definition rbdSkippedServiceAccount :: "Subject \<Rightarrow> string \<Rightarrow> string" where
  "rbdSkippedServiceAccount subject reason =
     subj_Namespace subject @ ''/'' @ subj_Name subject @ '': '' @ (if reason = '''' then ''skipped'' else reason)"

definition rbdHasGeneratedServiceAccountStatus :: "rbd_object \<Rightarrow> Subject \<Rightarrow> bool" where
  "rbdHasGeneratedServiceAccountStatus rbd subject \<longleftrightarrow>
     subj_Kind subject = ServiceAccountKind \<and>
     subj_Namespace subject @ ''/'' @ subj_Name subject \<in>
       set (rbdDesiredServiceAccounts (bs_GeneratedServiceAccounts (bo_Status rbd)))"

text \<open>\<open>live\<close> is the stored definition.\<close>

definition rbdHasLiveGeneratedServiceAccountStatus :: "'c rbd_env \<Rightarrow> rbd_object option \<Rightarrow> Subject \<Rightarrow> bool" where
  "rbdHasLiveGeneratedServiceAccountStatus env live subject =
     (case server_read (bind_fail env) LiveDefinitionGet live of
        Got latest \<Rightarrow> rbdHasGeneratedServiceAccountStatus latest subject
      | _ \<Rightarrow> False)"

definition rbdHasRecoverableGeneratedServiceAccountMarkers :: "'c rbd_env \<Rightarrow> rbd_object \<Rightarrow> service_account \<Rightarrow> bool" where
  "rbdHasRecoverableGeneratedServiceAccountMarkers env rbd existing =
     (if mindex (sac_Labels existing) ManagedByLabelStandard \<noteq> ManagedByValue \<or>
         mindex (sac_Annotations existing) SourceKindAnnotation \<noteq> RestrictedBindDefinitionKind \<or>
         mindex (sac_Annotations existing) SourceNameAnnotation \<noteq> bo_Name rbd then False
      else
        list_ex (\<lambda>entry. fst entry = FieldOwnerFor (be_Hash env) (bo_Name rbd) [RestrictedBindDefinitionKind] \<and>
          snd entry = ''Apply'') (sac_ManagedFields existing))"

text \<open>Whether to bind the subject, whether to manage the account, and its name when it is external.\<close>

definition rbdClassifyExistingServiceAccount ::
  "'c rbd_env \<Rightarrow> rbd_object option \<Rightarrow> rbd_object \<Rightarrow> Subject \<Rightarrow> service_account \<Rightarrow> SACreationConfig option \<Rightarrow> bool \<times> bool \<times> string" where
  "rbdClassifyExistingServiceAccount env live rbd subject existing saCreationConfig =
     (let key = subj_Namespace subject @ ''/'' @ subj_Name subject;
          refs = sac_OwnerReferences existing;
          mine = hasControllerOwnerRef refs (rbd_owner rbd) in
      if \<not> isOwnedByRestrictedBindDefinition refs then (True, False, key)
      else if (case findOwningRBDRef refs of None \<Rightarrow> False | Some ownerRBD \<Rightarrow> or_UID ownerRBD \<noteq> bo_UID rbd)
      then (True, False, key)
      else if mine \<and> rbdHasGeneratedServiceAccountStatus rbd subject then (False, True, '''')
      else if findOwningRBDRef refs \<noteq> None then
        (if mine then
           (if rbdHasLiveGeneratedServiceAccountStatus env live subject then (False, True, '''')
            else if rbdHasRecoverableGeneratedServiceAccountMarkers env rbd existing then (False, True, '''')
            else (False, False, ''''))
         else (True, False, key))
      else
        (case saCreationConfig of
           None \<Rightarrow> (False, True, '''')
         | Some cfg \<Rightarrow> if sac_DisableAdoption cfg then (True, False, key) else (False, True, '''')))"

text \<open>What the loop over the subjects has collected.\<close>

record sa_progress =
  sp_Effective :: "Subject list"
  sp_Generated :: "Subject list"
  sp_External :: "string list"
  sp_Skipped :: "string list"

definition bind_subject :: "Subject \<Rightarrow> sa_progress \<Rightarrow> sa_progress" where
  "bind_subject subject p = p\<lparr>sp_Effective := sp_Effective p @ [subject]\<rparr>"

definition skip_subject :: "Subject \<Rightarrow> string \<Rightarrow> sa_progress \<Rightarrow> sa_progress" where
  "skip_subject subject reason p = p\<lparr>sp_Skipped := sp_Skipped p @ [rbdSkippedServiceAccount subject reason]\<rparr>"

definition rbd_account_ac :: "rbd_object \<Rightarrow> Subject \<Rightarrow> bool \<Rightarrow> service_account_ac" where
  "rbd_account_ac rbd subject automountToken =
     (ServiceAccountWith (subj_Name subject) (subj_Namespace subject) (BuildResourceLabels (bo_Labels rbd)) automountToken)
       \<lparr>saac_OwnerReferences := [ownerRefForRestricted (bo_Name rbd) (bo_UID rbd) RestrictedBindDefinitionKind],
        saac_Annotations := BuildResourceAnnotations ''RestrictedBindDefinition'' (bo_Name rbd)\<rparr>"

definition applyServiceAccount ::
  "'c rbd_env \<Rightarrow> rbd_object \<Rightarrow> 'c apply_client \<Rightarrow> bool \<Rightarrow> Subject \<Rightarrow> sa_progress \<times> account_store
    \<Rightarrow> go_error option \<times> sa_progress \<times> account_store" where
  "applyServiceAccount env rbd applyClient automountToken subject ps =
     (case PatchApplyServiceAccountAlways (be_Fail env applyClient) (be_AccountSSA env) (be_AccountSkips env)
             (rbd_account_ac rbd subject automountToken)
             (FieldOwnerFor (be_Hash env) (bo_Name rbd) [RestrictedBindDefinitionKind]) (snd ps) of
        (Inl err, accounts) \<Rightarrow> (Some (wrapf [Lit ''apply ServiceAccount '', Lit (subj_Namespace subject), Lit ''/'',
           Lit (subj_Name subject)] err), fst ps, accounts)
      | (Inr result, accounts) \<Rightarrow>
          (None, bind_subject subject ((fst ps)\<lparr>sp_Generated :=
             if subject \<in> set (sp_Generated (fst ps)) then sp_Generated (fst ps) else sp_Generated (fst ps) @ [subject]\<rparr>),
           accounts))"

text \<open>One subject of the loop.\<close>

definition rbdEnsureServiceAccount ::
  "'c rbd_env \<Rightarrow> rbd_object option \<Rightarrow> rbd_object \<Rightarrow> 'c apply_client \<Rightarrow> SACreationConfig option \<Rightarrow> Subject
    \<Rightarrow> sa_progress \<times> account_store \<Rightarrow> go_error option \<times> sa_progress \<times> account_store" where
  "rbdEnsureServiceAccount env live rbd applyClient saCreationConfig subject ps =
     (let (p, accounts) = ps;
          apply_it = (\<lambda>p. applyServiceAccount env rbd applyClient (rbdAutomountServiceAccountToken rbd saCreationConfig)
            subject (p, accounts)) in
      if subj_Kind subject \<noteq> ServiceAccountKind then (None, bind_subject subject p, accounts)
      else
        (case server_read (bind_fail env) (AccountNamespaceGet (subj_Namespace subject))
                (findNamespace env (subj_Namespace subject)) of
           Missing \<Rightarrow> (None, skip_subject subject ''namespace not found'' p, accounts)
         | ReadError err \<Rightarrow> (Some (wrapf [Lit ''get namespace '', Lit (subj_Namespace subject)] err), p, accounts)
         | Got ns \<Rightarrow>
             if terminating ns then (None, skip_subject subject ''namespace terminating'' p, accounts)
             else
               (case server_read (bind_fail env) (AccountGet (subj_Namespace subject) (subj_Name subject))
                       (map_of accounts (subj_Namespace subject, subj_Name subject)) of
                  ReadError err \<Rightarrow> (Some (wrapf [Lit ''get ServiceAccount '', Lit (subj_Namespace subject), Lit ''/'',
                    Lit (subj_Name subject)] err), p, accounts)
                | Got existing \<Rightarrow>
                    (case rbdClassifyExistingServiceAccount env live rbd subject existing saCreationConfig of
                       (bindSubject, manageSA, externalSA) \<Rightarrow>
                         let p1 = (if externalSA \<noteq> '''' then p\<lparr>sp_External := sp_External p @ [externalSA]\<rparr> else p);
                             p2 = (if bindSubject then bind_subject subject p1 else p1) in
                         if \<not> manageSA then (None, p2, accounts)
                         else
                           (case rbdCanManageGeneratedServiceAccount env ns saCreationConfig of
                              Inl err \<Rightarrow> (Some err, p2, accounts)
                            | Inr (canManage, skipReason) \<Rightarrow>
                                if \<not> canManage then (None, skip_subject subject skipReason p2, accounts)
                                else apply_it p2))
                | Missing \<Rightarrow>
                    (case rbdCanCreateMissingServiceAccount env ns saCreationConfig of
                       Inl err \<Rightarrow> (Some err, p, accounts)
                     | Inr (createSA, skipReason) \<Rightarrow>
                         if \<not> createSA then (None, skip_subject subject skipReason p, accounts)
                         else apply_it p))))"

text \<open>The lists reach the status only when every subject was handled.\<close>

definition rbdEnsureServiceAccounts ::
  "'c rbd_env \<Rightarrow> rbd_object option \<Rightarrow> rbd_object \<Rightarrow> 'c apply_client \<Rightarrow> SACreationConfig option \<Rightarrow> account_store
    \<Rightarrow> (go_error + Subject list) \<times> rbd_object \<times> account_store" where
  "rbdEnsureServiceAccounts env live rbd applyClient saCreationConfig accounts =
     (case for_each (rbdEnsureServiceAccount env live rbd applyClient saCreationConfig) (rbds_Subjects (bo_Spec rbd))
             (\<lparr>sp_Effective = [], sp_Generated = [], sp_External = [], sp_Skipped = []\<rparr>, accounts) of
        (Some err, p, accounts') \<Rightarrow> (Inl err, rbd, accounts')
      | (None, p, accounts') \<Rightarrow>
          (Inr (sp_Effective p),
           on_bind_status (\<lambda>st. st\<lparr>bs_GeneratedServiceAccounts := sp_Generated p,
             bs_ExternalServiceAccounts := sp_External p, bs_SkippedServiceAccounts := sp_Skipped p\<rparr>) rbd,
           accounts'))"

definition rbdReconcileServiceAccounts ::
  "'c rbd_env \<Rightarrow> rbd_object option \<Rightarrow> rbd_object \<Rightarrow> 'c apply_client \<Rightarrow> SACreationConfig option \<Rightarrow> account_store
    \<Rightarrow> (go_error + Subject list) \<times> rbd_object \<times> account_store" where
  "rbdReconcileServiceAccounts env live rbd applyClient saCreationConfig accounts =
     (let previousGeneratedSAs = rbdDesiredServiceAccounts (bs_GeneratedServiceAccounts (bo_Status rbd)) in
      case rbdEnsureServiceAccounts env live rbd applyClient saCreationConfig accounts of
        (Inl err, rbd1, accounts1) \<Rightarrow> (Inl err, rbd1, accounts1)
      | (Inr effectiveSubjects, rbd1, accounts1) \<Rightarrow>
          let desiredSAs = rbdDesiredServiceAccounts (bs_GeneratedServiceAccounts (bo_Status rbd1)) in
          (case rbdPruneStaleServiceAccounts env rbd1 desiredSAs previousGeneratedSAs accounts1 of
             (Some err, accounts2) \<Rightarrow> (Inl err, rbd1, accounts2)
           | (None, accounts2) \<Rightarrow> (Inr effectiveSubjects, rbd1, accounts2)))"

section \<open>Bindings\<close>

text \<open>The namespaced names of the RoleBindings of one entry, for the namespaces it resolves to.\<close>

definition entryKeys :: "'c rbd_env \<Rightarrow> rbd_object \<Rightarrow> NamespaceBinding \<Rightarrow> Namespace list \<Rightarrow> string list" where
  "entryKeys env rbd roleBinding targetNamespaces =
     concat (map (\<lambda>ns. map (\<lambda>ref. ns_Name ns @ ''/'' @ BuildBindingName (be_Hash env) (rbds_TargetName (bo_Spec rbd)) ref)
       (nb_ClusterRoleRefs roleBinding @ nb_RoleRefs roleBinding)) (filter (\<lambda>ns. \<not> terminating ns) targetNamespaces))"

definition rbdDesiredBindingKeys :: "'c rbd_env \<Rightarrow> rbd_object \<Rightarrow> go_error + string list \<times> string list" where
  "rbdDesiredBindingKeys env rbd =
     (let desiredCRBs = map (BuildBindingName (be_Hash env) (rbds_TargetName (bo_Spec rbd)))
            (restrictedClusterRoleRefs (rbds_ClusterRoleBindings (bo_Spec rbd))) in
      case for_each (\<lambda>roleBinding desiredRBs.
        case rbdResolveNamespaces env DesiredKeys roleBinding of
          Inl err \<Rightarrow> (Some (wrapf [Lit ''resolve namespaces for desired RoleBindings''] err), desiredRBs)
        | Inr targetNamespaces \<Rightarrow> (None, desiredRBs @ entryKeys env rbd roleBinding targetNamespaces))
        (rbds_RoleBindings (bo_Spec rbd)) [] of
        (Some err, desiredRBs) \<Rightarrow> Inl err
      | (None, desiredRBs) \<Rightarrow> Inr (desiredCRBs, desiredRBs))"

record rbdRoleBindingNameClaim =
  rbc_roleKind :: string
  rbc_roleRef :: string

definition rbdRecordRoleBindingNameClaim ::
  "'c rbd_env \<Rightarrow> string \<Rightarrow> string \<Rightarrow> string \<Rightarrow> string \<Rightarrow> (string, rbdRoleBindingNameClaim) gomap
    \<Rightarrow> go_error option \<times> (string, rbdRoleBindingNameClaim) gomap" where
  "rbdRecordRoleBindingNameClaim env targetName namespace roleKind roleRef claims =
     (let bindingName = BuildBindingName (be_Hash env) targetName roleRef; key = namespace @ ''/'' @ bindingName in
      case mlookup claims key of
        Some existing \<Rightarrow>
          if rbc_roleKind existing = roleKind \<and> rbc_roleRef existing = roleRef then (None, claims)
          else (Some (errorf [Lit ''RoleBinding name collision for '', Lit namespace, Lit ''/'', Lit bindingName, Lit '': '',
            Lit (rbc_roleKind existing), Lit '' '', Quo (rbc_roleRef existing), Lit '' and '', Lit roleKind, Lit '' '',
            Quo roleRef, Lit '' generate the same binding name'']), claims)
      | None \<Rightarrow> (None, mput key \<lparr>rbc_roleKind = roleKind, rbc_roleRef = roleRef\<rparr> claims))"

text \<open>The role references of one entry in one namespace: first the ClusterRoles, then the Roles.\<close>

definition entryRefs :: "NamespaceBinding \<Rightarrow> (string \<times> string) list" where
  "entryRefs roleBinding =
     map (\<lambda>r. (''ClusterRole'', r)) (nb_ClusterRoleRefs roleBinding) @ map (\<lambda>r. (''Role'', r)) (nb_RoleRefs roleBinding)"

definition rbdValidateRoleBindingNameCollisions :: "'c rbd_env \<Rightarrow> rbd_object \<Rightarrow> go_error option" where
  "rbdValidateRoleBindingNameCollisions env rbd =
     (let targetName = rbds_TargetName (bo_Spec rbd) in
      case for_each (\<lambda>ref. rbdRecordRoleBindingNameClaim env targetName '''' ''ClusterRole'' ref)
             (restrictedClusterRoleRefs (rbds_ClusterRoleBindings (bo_Spec rbd))) [] of
        (Some err, claims) \<Rightarrow> Some (wrapf [Lit ''ClusterRoleBinding name collision''] err)
      | (None, claims) \<Rightarrow>
          fst (for_each (\<lambda>roleBinding claims.
            case rbdResolveNamespaces env CheckingCollisions roleBinding of
              Inl err \<Rightarrow> (Some (wrapf [Lit ''resolve namespaces for RoleBinding collision validation''] err), claims)
            | Inr targetNamespaces \<Rightarrow>
                for_each (\<lambda>ns. for_each (\<lambda>(kind, ref). rbdRecordRoleBindingNameClaim env targetName (ns_Name ns) kind ref)
                  (entryRefs roleBinding)) (filter (\<lambda>ns. \<not> terminating ns) targetNamespaces) claims)
            (rbds_RoleBindings (bo_Spec rbd)) claims))"

text \<open>
  \<^verbatim>\<open>rbdClearClusterRoleBindingSubjectsIfEmpty\<close> and \<^verbatim>\<open>rbdClearRoleBindingSubjectsIfEmpty\<close> differ in the kind of
  binding.
\<close>

definition rbdClearSubjectsIfEmpty ::
  "'c rbd_env \<Rightarrow> 'c apply_client \<Rightarrow> rbd_object \<Rightarrow> string \<Rightarrow> binding_key \<Rightarrow> Subject list \<Rightarrow> binding_store
    \<Rightarrow> go_error option \<times> binding_store" where
  "rbdClearSubjectsIfEmpty env applyClient rbd kind key subjects s =
     (if length subjects > 0 then (None, s)
      else
        (case server_read (bind_fail env) (SubjectsGet key) (map_of s key) of
           Missing \<Rightarrow> (None, s)
         | ReadError err \<Rightarrow> (Some err, s)
         | Got existing \<Rightarrow>
             if \<not> hasControllerOwnerRef (bnd_OwnerReferences existing) (rbd_owner rbd) then (None, s)
             else if length (bnd_Subjects existing) = 0 then (None, s)
             else
               (case store_write (be_Fail env applyClient) (SubjectsClear key) key (Some (existing\<lparr>bnd_Subjects := []\<rparr>)) s of
                  (Some err, s') \<Rightarrow> (if IsNotFound err then None
                     else Some (wrapf [Lit ''clear '', Lit kind, Lit '' '', Lit (bindingText key), Lit '' subjects''] err), s')
                | (None, s') \<Rightarrow> (None, s'))))"

definition rbdClearClusterRoleBindingSubjectsIfEmpty ::
  "'c rbd_env \<Rightarrow> 'c apply_client \<Rightarrow> rbd_object \<Rightarrow> string \<Rightarrow> Subject list \<Rightarrow> binding_store \<Rightarrow> go_error option \<times> binding_store" where
  "rbdClearClusterRoleBindingSubjectsIfEmpty env applyClient rbd name subjects s =
     rbdClearSubjectsIfEmpty env applyClient rbd ''ClusterRoleBinding'' (ClusterRoleBindingKey name) subjects s"

definition rbdClearRoleBindingSubjectsIfEmpty ::
  "'c rbd_env \<Rightarrow> 'c apply_client \<Rightarrow> rbd_object \<Rightarrow> string \<Rightarrow> string \<Rightarrow> Subject list \<Rightarrow> binding_store
    \<Rightarrow> go_error option \<times> binding_store" where
  "rbdClearRoleBindingSubjectsIfEmpty env applyClient rbd namespace name subjects s =
     rbdClearSubjectsIfEmpty env applyClient rbd ''RoleBinding'' (RoleBindingKey namespace name) subjects s"

definition rbdDeleteOwnedRoleBindingOnRoleRefChange ::
  "'c rbd_env \<Rightarrow> rbd_object \<Rightarrow> string \<Rightarrow> string \<Rightarrow> RoleRef \<Rightarrow> 'c apply_client \<Rightarrow> binding_store
    \<Rightarrow> go_error option \<times> binding_store" where
  "rbdDeleteOwnedRoleBindingOnRoleRefChange env rbd namespace name desiredRoleRef deleteClient s =
     (let key = RoleBindingKey namespace name in
      case server_read (bind_fail env) (RoleRefGet key) (map_of s key) of
        Missing \<Rightarrow> (None, s)
      | ReadError err \<Rightarrow> (Some err, s)
      | Got existing \<Rightarrow>
          if \<not> hasControllerOwnerRef (bnd_OwnerReferences existing) (rbd_owner rbd) \<or> bnd_RoleRef existing = desiredRoleRef
          then (None, s)
          else
            (case store_write (be_Fail env deleteClient) (RoleRefDelete key) key None s of
               (Some err, s') \<Rightarrow> (if IsNotFound err then None
                  else Some (wrapf [Lit ''delete RoleBinding '', Lit (bindingText key), Lit '' before roleRef change''] err), s')
             | (None, s') \<Rightarrow> (None, s')))"

text \<open>The apply configuration of a binding.\<close>

definition owned_by :: "rbd_object \<Rightarrow> binding_ac \<Rightarrow> binding_ac" where
  "owned_by rbd ac =
     ac\<lparr>bac_OwnerReferences := [ownerRefForRestricted (bo_Name rbd) (bo_UID rbd) RestrictedBindDefinitionKind],
        bac_Annotations := BuildResourceAnnotations ''RestrictedBindDefinition'' (bo_Name rbd)\<rparr>"

definition roleRefOf :: "string \<Rightarrow> string \<Rightarrow> RoleRef" where
  "roleRefOf kind name = \<lparr>rref_APIGroup = rbacGroupName, rref_Kind = kind, rref_Name = name\<rparr>"

definition then_do :: "('s \<Rightarrow> 'e option \<times> 's) \<Rightarrow> ('s \<Rightarrow> 'e option \<times> 's) \<Rightarrow> 's \<Rightarrow> 'e option \<times> 's" where
  "then_do f g s = (case f s of (Some err, s') \<Rightarrow> (Some err, s') | (None, s') \<Rightarrow> g s')"

definition rbdEnsureClusterRoleBinding ::
  "'c rbd_env \<Rightarrow> rbd_object \<Rightarrow> Subject list \<Rightarrow> 'c apply_client \<Rightarrow> string \<Rightarrow> binding_store \<Rightarrow> go_error option \<times> binding_store" where
  "rbdEnsureClusterRoleBinding env rbd subjects applyClient clusterRoleRef =
     (let crbName = BuildBindingName (be_Hash env) (rbds_TargetName (bo_Spec rbd)) clusterRoleRef in
      then_do (\<lambda>s. (checkRestrictedBindingOwnership (bind_fail env) s (rbd_owner rbd) ''ClusterRoleBinding'' crbName '''', s))
      (then_do (rbdClearClusterRoleBindingSubjectsIfEmpty env applyClient rbd crbName subjects)
      (\<lambda>s.
        case PatchApplyClusterRoleBindingAlways (be_Fail env applyClient) (be_BindingSSA env) (be_Marshal env)
               (be_BindingSkips env)
               (owned_by rbd (ClusterRoleBindingWithSubjectsAndRoleRef crbName (BuildResourceLabels (bo_Labels rbd)) subjects
                 (roleRefOf ''ClusterRole'' clusterRoleRef))) s of
          (Inl err, s') \<Rightarrow> (Some (wrapf [Lit ''ensure ClusterRoleBinding '', Lit crbName] err), s')
        | (Inr result, s') \<Rightarrow> (None, s'))))"

definition rbdEnsureRoleBinding ::
  "'c rbd_env \<Rightarrow> rbd_object \<Rightarrow> string \<Rightarrow> string \<Rightarrow> string \<Rightarrow> Subject list \<Rightarrow> 'c apply_client \<Rightarrow> binding_store
    \<Rightarrow> go_error option \<times> binding_store" where
  "rbdEnsureRoleBinding env rbd namespace roleRef roleKind subjects applyClient =
     (let rbName = BuildBindingName (be_Hash env) (rbds_TargetName (bo_Spec rbd)) roleRef;
          desiredRoleRef = roleRefOf roleKind roleRef in
      then_do (\<lambda>s. (checkRestrictedBindingOwnership (bind_fail env) s (rbd_owner rbd) ''RoleBinding'' rbName namespace, s))
      (then_do (rbdDeleteOwnedRoleBindingOnRoleRefChange env rbd namespace rbName desiredRoleRef applyClient)
      (then_do (rbdClearRoleBindingSubjectsIfEmpty env applyClient rbd namespace rbName subjects)
      (\<lambda>s.
        case PatchApplyRoleBindingAlways (be_Fail env applyClient) (be_BindingSSA env) (be_Marshal env)
               (be_BindingSkips env)
               (owned_by rbd (RoleBindingWithSubjectsAndRoleRef rbName namespace (BuildResourceLabels (bo_Labels rbd)) subjects
                 desiredRoleRef)) s of
          (Inl err, s') \<Rightarrow> (Some (wrapf [Lit ''ensure RoleBinding '', Lit namespace, Lit ''/'', Lit rbName] err), s')
        | (Inr result, s') \<Rightarrow> (None, s')))))"

text \<open>One entry of \<^verbatim>\<open>roleBindings\<close>.\<close>

definition rbdEnsureEntry ::
  "'c rbd_env \<Rightarrow> rbd_object \<Rightarrow> Subject list \<Rightarrow> 'c apply_client \<Rightarrow> NamespaceBinding \<Rightarrow> binding_store
    \<Rightarrow> go_error option \<times> binding_store" where
  "rbdEnsureEntry env rbd subjects applyClient roleBinding s =
     (case rbdResolveNamespaces env EnsuringBindings roleBinding of
        Inl err \<Rightarrow> (Some (wrapf [Lit ''resolve namespaces''] err), s)
      | Inr targetNamespaces \<Rightarrow>
          for_each (\<lambda>ns. for_each (\<lambda>(kind, ref). rbdEnsureRoleBinding env rbd (ns_Name ns) ref kind subjects applyClient)
            (entryRefs roleBinding)) (filter (\<lambda>ns. \<not> terminating ns) targetNamespaces) s)"

text \<open>The deferred function prunes when the writes failed; otherwise pruning is the last step.\<close>

definition rbdReconcileBindings ::
  "'c rbd_env \<Rightarrow> rbd_object \<Rightarrow> Subject list \<Rightarrow> 'c apply_client \<Rightarrow> binding_store \<Rightarrow> go_error option \<times> binding_store" where
  "rbdReconcileBindings env rbd effectiveSubjects applyClient s =
     (case rbdDesiredBindingKeys env rbd of
        Inl err \<Rightarrow> (Some err, s)
      | Inr (desiredCRBs, desiredRBs) \<Rightarrow>
          (case then_do (\<lambda>s. (rbdValidateRoleBindingNameCollisions env rbd, s))
                 (then_do (for_each (rbdEnsureClusterRoleBinding env rbd effectiveSubjects applyClient)
                    (restrictedClusterRoleRefs (rbds_ClusterRoleBindings (bo_Spec rbd))))
                 (for_each (rbdEnsureEntry env rbd effectiveSubjects applyClient) (rbds_RoleBindings (bo_Spec rbd)))) s of
             (Some err, s1) \<Rightarrow>
               (case rbdPruneStaleResources env rbd desiredCRBs desiredRBs s1 of
                  (None, s2) \<Rightarrow> (Some err, s2)
                | (Some pruneErr, s2) \<Rightarrow>
                    (Some (errors_Join err (wrapf [Lit ''prune stale RBAC resources after reconcile error''] pruneErr)), s2))
           | (None, s1) \<Rightarrow> rbdPruneStaleResources env rbd desiredCRBs desiredRBs s1))"

definition rbdReconcileResources ::
  "'c rbd_env \<Rightarrow> rbd_object \<Rightarrow> 'c apply_client \<Rightarrow> SACreationConfig option \<Rightarrow> 'c rbd_world
    \<Rightarrow> go_error option \<times> rbd_object \<times> 'c rbd_world" where
  "rbdReconcileResources env rbd applyClient saCreationConfig w =
     (case rbdReconcileServiceAccounts env (bw_Object w) rbd applyClient saCreationConfig (bw_Accounts w) of
        (Inl err, rbd1, accounts) \<Rightarrow> (Some err, rbd1, w\<lparr>bw_Accounts := accounts\<rparr>)
      | (Inr effectiveSubjects, rbd1, accounts) \<Rightarrow>
          (case rbdReconcileBindings env rbd1 effectiveSubjects applyClient (bw_Bindings w) of
             (err, bindings) \<Rightarrow> (err, rbd1, w\<lparr>bw_Accounts := accounts, bw_Bindings := bindings\<rparr>)))"

section \<open>Reconcile\<close>

definition bind_mark_true :: "'c rbd_env \<Rightarrow> string \<Rightarrow> string \<Rightarrow> string \<Rightarrow> rbd_object \<Rightarrow> rbd_object" where
  "bind_mark_true env t reason message obj =
     on_bind_conditions (\<lambda>cs. MarkTrue (be_Now env) cs t (bo_Generation obj) reason message) obj"

definition bind_mark_false :: "'c rbd_env \<Rightarrow> string \<Rightarrow> string \<Rightarrow> string \<Rightarrow> rbd_object \<Rightarrow> rbd_object" where
  "bind_mark_false env t reason message obj =
     on_bind_conditions (\<lambda>cs. MarkFalse (be_Now env) cs t (bo_Generation obj) reason message) obj"

definition bind_mark_not_ready :: "'c rbd_env \<Rightarrow> string \<Rightarrow> string \<Rightarrow> rbd_object \<Rightarrow> rbd_object" where
  "bind_mark_not_ready env reason message obj =
     on_bind_conditions (\<lambda>cs. MarkNotReady (be_Now env) cs (bo_Generation obj) reason message) obj"

definition rbdMarkSkippedServiceAccounts :: "'c rbd_env \<Rightarrow> rbd_object \<Rightarrow> rbd_object" where
  "rbdMarkSkippedServiceAccounts env rbd =
     bind_mark_false env ServiceAccountRefsReadyCondition ServiceAccountRefsSkippedReason
       (ServiceAccountRefsSkippedMessage (bs_SkippedServiceAccounts (bo_Status rbd))) rbd"

text \<open>The condition on the ServiceAccounts in the two handlers of missing roles and namespaces.\<close>

definition markAccountRefs :: "'c rbd_env \<Rightarrow> rbd_object \<Rightarrow> rbd_object" where
  "markAccountRefs env rbd =
     (if length (bs_SkippedServiceAccounts (bo_Status rbd)) > 0 then rbdMarkSkippedServiceAccounts env rbd
      else bind_mark_true env ServiceAccountRefsReadyCondition ServiceAccountRefsReadyReason ServiceAccountRefsReadyMessage rbd)"

text \<open>The last step of every handler: the status is applied.\<close>

definition finishBind :: "'c rbd_env \<Rightarrow> nat \<Rightarrow> rbd_object \<Rightarrow> 'c rbd_world \<Rightarrow> outcome \<times> 'c rbd_world" where
  "finishBind env interval rbd w =
     (case ApplyRestrictedBindDefinitionStatus env rbd w of
        (Some err, w') \<Rightarrow>
          ((NoRequeue, Some (wrapf [Lit ''apply RestrictedBindDefinition '', Lit (bo_Name rbd), Lit '' status''] err)), w')
      | (None, w') \<Rightarrow> ((RequeueAfter interval, None), w'))"

definition rbdHandleSkippedServiceAccounts :: "'c rbd_env \<Rightarrow> rbd_object \<Rightarrow> 'c rbd_world \<Rightarrow> outcome \<times> 'c rbd_world" where
  "rbdHandleSkippedServiceAccounts env rbd w =
     (let rbd1 = rbdMarkSkippedServiceAccounts env
            (bind_mark_true env RoleRefValidCondition RoleRefValidReason RoleRefValidMessage rbd);
          rbd2 = bind_mark_not_ready env ServiceAccountRefsSkippedReason
            (ServiceAccountRefsSkippedMessage (bs_SkippedServiceAccounts (bo_Status rbd1))) rbd1 in
      finishBind env RoleRefRequeueInterval (set_bind_reconciled False rbd2) w)"

definition rbdHandleMissingRoleRefs ::
  "'c rbd_env \<Rightarrow> rbd_object \<Rightarrow> string list \<Rightarrow> 'c rbd_world \<Rightarrow> outcome \<times> 'c rbd_world" where
  "rbdHandleMissingRoleRefs env rbd missingRoles w =
     (case rbdDeprovision env rbd w of
        (Some err, w1) \<Rightarrow>
          ((NoRequeue, Some (wrapf [Lit ''deprovision RestrictedBindDefinition '', Lit (bo_Name rbd),
             Lit '' after missing role refs''] err)), snd (rbdMarkStalled env err rbd w1))
      | (None, w1) \<Rightarrow>
          let rbd1 = markAccountRefs env
                (bind_mark_false env RoleRefValidCondition RoleRefInvalidReason (RoleRefInvalidMessage missingRoles) rbd);
              rbd2 = bind_mark_not_ready env RoleRefInvalidReason (RoleRefInvalidMessage missingRoles) rbd1 in
          finishBind env DefaultRequeueInterval (set_bind_reconciled False rbd2) w1)"

definition rbdHandleMissingTargetNamespaces ::
  "'c rbd_env \<Rightarrow> rbd_object \<Rightarrow> string list \<Rightarrow> 'c rbd_world \<Rightarrow> outcome \<times> 'c rbd_world" where
  "rbdHandleMissingTargetNamespaces env rbd missingNamespaces w =
     (let rbd1 = markAccountRefs env (bind_mark_false env RoleRefValidCondition TargetNamespaceNotFoundReason
            (TargetNamespaceNotFoundMessage missingNamespaces) rbd);
          rbd2 = bind_mark_not_ready env TargetNamespaceNotFoundReason
            (TargetNamespaceNotFoundMessage missingNamespaces) rbd1 in
      finishBind env DefaultRequeueInterval (set_bind_reconciled False rbd2) w)"

text \<open>Step 9: everything is in place.\<close>

definition rbdFinish :: "'c rbd_env \<Rightarrow> rbd_object \<Rightarrow> 'c rbd_world \<Rightarrow> outcome \<times> 'c rbd_world" where
  "rbdFinish env rbd w =
     (let rbd1 = bind_mark_true env RoleRefValidCondition RoleRefValidReason RoleRefValidMessage rbd;
          rbd2 = bind_mark_true env ServiceAccountRefsReadyCondition ServiceAccountRefsReadyReason
            ServiceAccountRefsReadyMessage rbd1;
          rbd3 = on_bind_conditions (\<lambda>cs. MarkReady (be_Now env) cs (bo_Generation rbd2) ReadyReasonReconciled
            ReadyMessageReconciled) (set_bind_reconciled True rbd2) in
      finishBind env DefaultRequeueInterval rbd3 w)"

text \<open>Step 8: the ServiceAccounts and bindings are written under the policy's identity.\<close>

definition rbdApplyResources ::
  "'c rbd_env \<Rightarrow> rbd_object \<Rightarrow> RBACPolicy \<Rightarrow> string list \<Rightarrow> 'c rbd_world \<Rightarrow> outcome \<times> 'c rbd_world" where
  "rbdApplyResources env rbd rbacPolicy missingTargetNamespaces w =
     (case resolvePolicyApplyClient (be_RestConfig env) rbacPolicy (be_Factory env) (bw_Cache w) of
        (Inl err, cache) \<Rightarrow>
          ((NoRequeue, Some (wrapf [Lit ''resolve apply client for RestrictedBindDefinition '', Lit (bo_Name rbd)] err)),
           snd (rbdMarkStalled env err rbd (w\<lparr>bw_Cache := cache\<rparr>)))
      | (Inr (applyClient, impersonatedUser), cache) \<Rightarrow>
          (case rbdReconcileResources env rbd applyClient (rbdSACreationConfig rbacPolicy) (w\<lparr>bw_Cache := cache\<rparr>) of
             (Some err, rbd1, w1) \<Rightarrow> ((NoRequeue, Some err), snd (rbdMarkStalled env err rbd1 w1))
           | (None, rbd1, w1) \<Rightarrow>
               if length missingTargetNamespaces > 0 then rbdHandleMissingTargetNamespaces env rbd1 missingTargetNamespaces w1
               else if length (bs_SkippedServiceAccounts (bo_Status rbd1)) > 0 then rbdHandleSkippedServiceAccounts env rbd1 w1
               else rbdFinish env rbd1 w1))"

text \<open>Step 7: the referenced roles and namespaces, after the policy was found satisfied.\<close>

definition rbdProvision :: "'c rbd_env \<Rightarrow> rbd_object \<Rightarrow> RBACPolicy \<Rightarrow> 'c rbd_world \<Rightarrow> outcome \<times> 'c rbd_world" where
  "rbdProvision env rbd rbacPolicy w =
     (case rbdValidateRoleReferences env rbd of
        Inl err \<Rightarrow> ((NoRequeue, Some err), snd (rbdMarkStalled env err rbd w))
      | Inr missingRoles \<Rightarrow>
          let rbd1 = on_bind_status (\<lambda>st. st\<lparr>bs_MissingRoleRefs := missingRoles\<rparr>) rbd in
          if length missingRoles > 0 then rbdHandleMissingRoleRefs env rbd1 missingRoles w
          else
            (case rbdFindMissingTargetNamespaces env rbd1 of
               Inl err \<Rightarrow> ((NoRequeue, Some err), snd (rbdMarkStalled env err rbd1 w))
             | Inr missingTargetNamespaces \<Rightarrow> rbdApplyResources env rbd1 rbacPolicy missingTargetNamespaces w))"

text \<open>Steps 5 and 6: the policy is read (\<^verbatim>\<open>rbdFetchPolicy\<close>) and evaluated.\<close>

definition rbdGovern :: "'c rbd_env \<Rightarrow> rbd_object \<Rightarrow> 'c rbd_world \<Rightarrow> outcome \<times> 'c rbd_world" where
  "rbdGovern env rbd w =
     (let cfg = rbdPolicyLifecycleConfig env rbd; policyName = rbds_PolicyRef (bo_Spec rbd) in
      case server_read (bind_fail env) BindGetPolicy (be_Policies env policyName) of
        Missing \<Rightarrow> (case handleMissingRestrictedPolicy cfg rbd w of (out, rbd1, w1) \<Rightarrow> (out, w1))
      | ReadError err \<Rightarrow>
          ((NoRequeue, Some (wrapf [Lit ''fetch RBACPolicy '', Lit policyName] err)), snd (rbdMarkStalled env err rbd w))
      | Got (rbacPolicy, deleting) \<Rightarrow>
          if deleting then (case handleDeletingRestrictedPolicy cfg rbd w of (out, rbd1, w1) \<Rightarrow> (out, w1))
          else
            (case rbdEvaluatePolicy env rbd rbacPolicy w of
               (Some out, rbd1, w1) \<Rightarrow> (out, w1)
             | (None, rbd1, w1) \<Rightarrow>
                 rbdProvision env (set_bind_violations [] (markPolicyCompliant cfg rbd1)) rbacPolicy w1))"

text \<open>Step 4; the finalizer is in the stored object when it is in memory.\<close>

definition EnsureBindFinalizer ::
  "'c rbd_env \<Rightarrow> rbd_object \<Rightarrow> rbd_object \<Rightarrow> 'c rbd_world \<Rightarrow> go_error option \<times> rbd_object \<times> 'c rbd_world" where
  "EnsureBindFinalizer env stored rbd w =
     (case bind_fail env BindEnsureFinalizer of
        Some err \<Rightarrow> (Some err, rbd, w)
      | None \<Rightarrow>
          let stored1 = stored\<lparr>bo_Finalizers := bo_Finalizers stored @ [RestrictedBindDefinitionFinalizer]\<rparr> in
          (None, if be_Refresh env then stored1 else rbd\<lparr>bo_Finalizers := bo_Finalizers stored1\<rparr>,
           w\<lparr>bw_Object := Some stored1\<rparr>))"

definition rbdReconcile :: "'c rbd_env \<Rightarrow> string \<Rightarrow> 'c rbd_world \<Rightarrow> outcome \<times> 'c rbd_world" where
  "rbdReconcile env reqName w =
     (case server_read (bind_fail env) BindGetDefinition (bw_Object w) of
        Missing \<Rightarrow> ((NoRequeue, None), w)
      | ReadError err \<Rightarrow> ((NoRequeue, Some (wrapf [Lit ''fetch RestrictedBindDefinition '', Lit reqName] err)), w)
      | Got rbd \<Rightarrow>
          if bo_Deleting rbd then
            (case reconcileDelete env rbd w of
               (Some err, w1) \<Rightarrow> ((NoRequeue, Some err), w1)
             | (None, w1) \<Rightarrow> ((NoRequeue, None), w1))
          else
            let rbd1 = observe_bind_generation (on_bind_conditions (\<lambda>cs. MarkReconciling (be_Now env) cs (bo_Generation rbd)
                  ReconcilingReasonProgressing ReconcilingMessageProgressing) rbd) in
            if RestrictedBindDefinitionFinalizer \<in> set (bo_Finalizers rbd1) then rbdGovern env rbd1 w
            else
              (case EnsureBindFinalizer env rbd rbd1 w of
                 (Some err, rbd2, w1) \<Rightarrow>
                   if IsConflict err then ((RequeueNow, None), w1)
                   else ((NoRequeue, Some (wrapf [Lit ''add finalizer to RestrictedBindDefinition '', Lit (bo_Name rbd)] err)),
                     snd (rbdMarkStalled env err rbd2 w1))
               | (None, rbd2, w1) \<Rightarrow> rbdGovern env rbd2 w1))"

end
