(* ===== verification/Restricted_Bind_Runs.thy ===== *)
theory Restricted_Bind_Runs
  imports Restricted_Bind_Reconciler
begin

text \<open>
  What the parts of a reconciliation of a RestrictedBindDefinition do to the cluster: which bindings and
  ServiceAccounts they may touch, what deprovisioning leaves, and what a successful write of the bindings
  leaves.
\<close>

section \<open>Identity\<close>

lemma on_bind_status_simps [simp]:
  "bo_Definition (on_bind_status f obj) = bo_Definition obj" "bo_UID (on_bind_status f obj) = bo_UID obj"
  "bo_Generation (on_bind_status f obj) = bo_Generation obj" "bo_Labels (on_bind_status f obj) = bo_Labels obj"
  "bo_Finalizers (on_bind_status f obj) = bo_Finalizers obj" "bo_Deleting (on_bind_status f obj) = bo_Deleting obj"
  "bo_Status (on_bind_status f obj) = f (bo_Status obj)"
  by (simp_all add: on_bind_status_def)

lemmas bind_updates [simp] = on_bind_conditions_def set_bind_reconciled_def set_bind_violations_def
  observe_bind_generation_def rbdClearDeprovisionedStatus_def bind_mark_true_def bind_mark_false_def
  bind_mark_not_ready_def rbdMarkSkippedServiceAccounts_def

text \<open>The definition an object in memory stands for; status changes keep it.\<close>

definition same_bind :: "rbd_object \<Rightarrow> rbd_object \<Rightarrow> bool" where
  "same_bind a b \<longleftrightarrow> bo_Definition a = bo_Definition b \<and> bo_UID a = bo_UID b \<and> bo_Labels a = bo_Labels b"

lemma same_bind_refl [simp]: "same_bind a a"
  by (simp add: same_bind_def)

lemma same_bind_status [simp]: "same_bind (on_bind_status f a) b = same_bind a b"
  by (simp add: same_bind_def)

lemma same_bind_owner: "same_bind a b \<Longrightarrow> rbd_owner a = rbd_owner b"
  by (simp add: same_bind_def rbd_owner_def)

section \<open>Confinement\<close>

definition bcontrolled :: "rbd_object \<Rightarrow> rbac_binding \<Rightarrow> bool" where
  "bcontrolled obj b \<longleftrightarrow> hasControllerOwnerRef (bnd_OwnerReferences b) (rbd_owner obj)"

definition acontrolled :: "rbd_object \<Rightarrow> service_account \<Rightarrow> bool" where
  "acontrolled obj sa \<longleftrightarrow> hasControllerOwnerRef (sac_OwnerReferences sa) (rbd_owner obj)"

text \<open>The namespaces an entry selects, and the bindings the definition asks for, with their roles.\<close>

definition entry_selects :: "'c rbd_env \<Rightarrow> NamespaceBinding \<Rightarrow> Namespace \<Rightarrow> bool" where
  "entry_selects env nb ns \<longleftrightarrow>
     (if nb_Namespace nb \<noteq> '''' then ns_Name ns = nb_Namespace nb
      else \<exists>sel \<in> set (nb_NamespaceSelector nb). \<exists>p. be_AsSelector env sel = Inr p \<and> p (ns_Labels ns))"

definition bind_name :: "'c rbd_env \<Rightarrow> rbd_object \<Rightarrow> string \<Rightarrow> string" where
  "bind_name env obj ref = BuildBindingName (be_Hash env) (rbds_TargetName (bo_Spec obj)) ref"

definition asked :: "'c rbd_env \<Rightarrow> rbd_object \<Rightarrow> binding_key \<Rightarrow> RoleRef \<Rightarrow> bool" where
  "asked env obj k r \<longleftrightarrow>
     (\<exists>ref \<in> set (restrictedClusterRoleRefs (rbds_ClusterRoleBindings (bo_Spec obj))).
        k = ClusterRoleBindingKey (bind_name env obj ref) \<and> r = roleRefOf ''ClusterRole'' ref) \<or>
     (\<exists>nb \<in> set (rbds_RoleBindings (bo_Spec obj)). \<exists>ns \<in> set (be_Namespaces env). \<exists>(kind, ref) \<in> set (entryRefs nb).
        entry_selects env nb ns \<and> \<not> terminating ns \<and> k = RoleBindingKey (ns_Name ns) (bind_name env obj ref) \<and>
        r = roleRefOf kind ref)"

definition subject_key :: "Subject \<Rightarrow> string \<times> string" where
  "subject_key s = (subj_Namespace s, subj_Name s)"

definition account_targets :: "rbd_object \<Rightarrow> (string \<times> string) set" where
  "account_targets obj = subject_key ` {s \<in> set (rbds_Subjects (bo_Spec obj)). subj_Kind s = ServiceAccountKind}"

text \<open>
  An account the definition may change or delete: it is under its control, and the generation of the account
  is on record in the status or marked by the field manager of the definition. The owner reference alone,
  which every writer of the account can set, is not enough.
\<close>

definition trusted :: "'c rbd_env \<Rightarrow> rbd_object \<Rightarrow> string set \<Rightarrow> string \<times> string \<Rightarrow> service_account \<Rightarrow> bool" where
  "trusted env obj recorded k sa \<longleftrightarrow> acontrolled obj sa \<and>
     (accountText k \<in> recorded \<or> rbdHasRecoverableGeneratedServiceAccountMarkers env obj sa)"

text \<open>A store in which each key occurs once stays one.\<close>

definition bconfined :: "'c rbd_env \<Rightarrow> rbd_object \<Rightarrow> binding_store \<Rightarrow> binding_store \<Rightarrow> bool" where
  "bconfined env obj s s' \<longleftrightarrow> (mwf s \<longrightarrow> mwf s' \<and>
     (\<forall>k b. map_of s k = Some b \<longrightarrow> \<not> bcontrolled obj b \<longrightarrow> map_of s' k = Some b) \<and>
     (\<forall>k. (\<nexists>r. asked env obj k r) \<longrightarrow> map_of s' k = map_of s k \<or> map_of s' k = None))"

definition aconfined :: "'c rbd_env \<Rightarrow> rbd_object \<Rightarrow> string set \<Rightarrow> account_store \<Rightarrow> account_store \<Rightarrow> bool" where
  "aconfined env obj recorded s s' \<longleftrightarrow> (mwf s \<longrightarrow> mwf s' \<and>
     (\<forall>k sa. map_of s k = Some sa \<longrightarrow> \<not> trusted env obj recorded k sa \<longrightarrow> map_of s' k = Some sa) \<and>
     (\<forall>k. k \<notin> account_targets obj \<longrightarrow> map_of s' k = map_of s k \<or> map_of s' k = None))"

lemma bconfined_refl [simp]: "bconfined env obj s s"
  by (simp add: bconfined_def)

lemma bconfined_trans: "bconfined env obj s1 s2 \<Longrightarrow> bconfined env obj s2 s3 \<Longrightarrow> bconfined env obj s1 s3"
  unfolding bconfined_def by metis

lemma aconfined_refl [simp]: "aconfined env obj recorded s s"
  by (simp add: aconfined_def)

lemma aconfined_trans: "aconfined env obj rec s1 s2 \<Longrightarrow> aconfined env obj rec s2 s3 \<Longrightarrow> aconfined env obj rec s1 s3"
  unfolding aconfined_def by metis

lemma same_bcontrolled: "same_bind a b \<Longrightarrow> bcontrolled a = bcontrolled b"
  by (intro ext) (simp only: bcontrolled_def same_bind_owner)

lemma same_acontrolled: "same_bind a b \<Longrightarrow> acontrolled a = acontrolled b"
  by (intro ext) (simp only: acontrolled_def same_bind_owner)

lemma same_asked: "same_bind a b \<Longrightarrow> asked env a = asked env b"
  by (intro ext) (simp add: asked_def same_bind_def bind_name_def)

lemma same_trusted: "same_bind a b \<Longrightarrow> trusted env a = trusted env b"
  using same_acontrolled [of a b]
  by (intro ext) (simp add: trusted_def rbdHasRecoverableGeneratedServiceAccountMarkers_def same_bind_def)

lemma same_bconfined: "same_bind a b \<Longrightarrow> bconfined env a = bconfined env b"
  using same_bcontrolled [of a b] same_asked [of a b env] by (intro ext) (simp add: bconfined_def)

lemma same_aconfined: "same_bind a b \<Longrightarrow> aconfined env a = aconfined env b"
  using same_trusted [of a b env] by (intro ext) (simp add: aconfined_def account_targets_def same_bind_def)

section \<open>Writing one object\<close>

lemma mwf_mput [simp]: "mwf s \<Longrightarrow> mwf (mput k v s)"
  by (simp add: mwf_def mput_def distinct_update)

lemma mwf_mdelete [simp]: "mwf s \<Longrightarrow> mwf (mdelete k s)"
  by (simp add: mwf_def mdelete_def distinct_delete)

lemma mwf_store_write: "store_write fail call key new s = (err, s') \<Longrightarrow> mwf s \<Longrightarrow> mwf s'"
  by (auto simp: store_write_def split: option.splits if_splits)

lemma mwf_lookup: "mwf s \<Longrightarrow> (k, v) \<in> set s \<Longrightarrow> map_of s k = Some v"
  by (simp add: mwf_def)

text \<open>A write at a key that is free or under control, and that is asked for or only deleted.\<close>

lemma bconfined_write:
  assumes "mwf s \<longrightarrow> mwf s'" "\<And>k. k \<noteq> key \<Longrightarrow> map_of s' k = map_of s k"
    and "\<And>b. map_of s key = Some b \<Longrightarrow> bcontrolled obj b"
    and "(\<exists>r. asked env obj key r) \<or> map_of s' key = map_of s key \<or> map_of s' key = None"
  shows "bconfined env obj s s'"
  unfolding bconfined_def using assms by metis

lemma aconfined_write:
  assumes "mwf s \<longrightarrow> mwf s'" "\<And>k. k \<noteq> key \<Longrightarrow> map_of s' k = map_of s k"
    and "\<And>sa. map_of s key = Some sa \<Longrightarrow> trusted env obj recorded key sa"
    and "key \<in> account_targets obj \<or> map_of s' key = map_of s key \<or> map_of s' key = None"
  shows "aconfined env obj recorded s s'"
  unfolding aconfined_def using assms by metis

section \<open>Deleting owned objects\<close>

text \<open>
  What a deletion of the objects with a property leaves: \<open>swept P s s'\<close> says that nothing appears and, in a
  store without duplicate keys, the other objects stay; \<open>gone P s'\<close> that none is left.
\<close>

definition swept :: "('k \<Rightarrow> 'v \<Rightarrow> bool) \<Rightarrow> ('k, 'v) gomap \<Rightarrow> ('k, 'v) gomap \<Rightarrow> bool" where
  "swept P s s' \<longleftrightarrow> set s' \<subseteq> set s \<and>
     (mwf s \<longrightarrow> mwf s' \<and> (\<forall>k v. map_of s k = Some v \<longrightarrow> \<not> P k v \<longrightarrow> map_of s' k = Some v))"

definition gone :: "('k \<Rightarrow> 'v \<Rightarrow> bool) \<Rightarrow> ('k, 'v) gomap \<Rightarrow> bool" where
  "gone P s \<longleftrightarrow> list_all (\<lambda>(k, v). \<not> P k v) s"

lemma goneD: "gone P s \<Longrightarrow> map_of s k = Some v \<Longrightarrow> \<not> P k v"
  by (auto simp: gone_def list_all_iff dest: map_of_SomeD)

lemma swept_refl [simp]: "swept P s s"
  by (simp add: swept_def)

lemma swept_trans: "swept P s1 s2 \<Longrightarrow> swept Q s2 s3 \<Longrightarrow> swept (\<lambda>k v. P k v \<or> Q k v) s1 s3"
  unfolding swept_def by auto

lemma swept_gone: "swept Q s s' \<Longrightarrow> gone P s \<Longrightarrow> gone P s'"
  by (auto simp: swept_def gone_def list_all_iff)

lemma swept_lookup: "swept P s s' \<Longrightarrow> mwf s \<Longrightarrow> map_of s' k = Some v \<Longrightarrow> map_of s k = Some v"
  by (auto simp: swept_def dest!: map_of_SomeD intro: mwf_lookup)

lemma swept_or_none: "swept P s s' \<Longrightarrow> mwf s \<Longrightarrow> map_of s' k = map_of s k \<or> map_of s' k = None"
  by (cases "map_of s' k") (simp_all add: swept_lookup)

lemma swept_bconfined: "swept P s s' \<Longrightarrow> (\<And>k b. P k b \<Longrightarrow> bcontrolled obj b) \<Longrightarrow> bconfined env obj s s'"
  using swept_or_none [of P s s'] unfolding bconfined_def swept_def by metis

lemma swept_aconfined: "swept P s s' \<Longrightarrow> (\<And>k sa. P k sa \<Longrightarrow> trusted env obj rec k sa) \<Longrightarrow> aconfined env obj rec s s'"
  using swept_or_none [of P s s'] unfolding aconfined_def swept_def by metis

text \<open>Deleting a list of objects; the loop is the same for bindings and ServiceAccounts.\<close>

lemma store_delete:
  assumes "store_write fail call key None s = (err, s')"
  shows "set s' \<subseteq> set s" "mwf s \<Longrightarrow> mwf s'" "k \<noteq> key \<Longrightarrow> map_of s' k = map_of s k"
    and "err = None \<or> (\<exists>e. err = Some e \<and> IsNotFound e) \<Longrightarrow> key \<notin> fst ` set s'"
  using assms mwf_store_write [OF assms] store_write_frame [OF assms, of k]
  by (auto simp: store_write_def mdelete_def AList.delete_eq split: option.splits if_splits)

lemma delete_loop:
  assumes "for_errs (\<lambda>(key, v) s.
      case store_write fail (call key) key None s of
        (Some err, s') \<Rightarrow> (if IsNotFound err then None else Some (msg key err), s')
      | (None, s') \<Rightarrow> (None, s')) items s = (errs, s')"
  shows "set s' \<subseteq> set s \<and> (mwf s \<longrightarrow> mwf s') \<and> (\<forall>k. k \<notin> fst ` set items \<longrightarrow> map_of s' k = map_of s k) \<and>
    (errs = [] \<longrightarrow> fst ` set items \<inter> fst ` set s' = {})"
  using assms
proof (induction items arbitrary: s errs)
  case (Cons item items)
  obtain key v where item: "item = (key, v)" by fastforce
  obtain err s1 where wr: "store_write fail (call key) key None s = (err, s1)" by fastforce
  obtain errs' where rest: "for_errs (\<lambda>(key, v) s.
      case store_write fail (call key) key None s of
        (Some err, s') \<Rightarrow> (if IsNotFound err then None else Some (msg key err), s')
      | (None, s') \<Rightarrow> (None, s')) items s1 = (errs', s')"
    and errs: "errs = [] \<longrightarrow> errs' = [] \<and> (err = None \<or> (\<exists>e. err = Some e \<and> IsNotFound e))"
    using Cons.prems item wr by (auto split: prod.splits option.splits if_splits)
  note IH = Cons.IH [OF rest] and one = store_delete [OF wr]
  have sub: "set s' \<subseteq> set s1" using IH by blast
  have "errs = [] \<longrightarrow> fst ` set (item # items) \<inter> fst ` set s' = {}"
    using IH errs one(4) image_mono [OF sub, of fst] by (auto simp: item)
  then show ?case using IH one(1, 2, 3) by (auto simp: item)
qed simp

lemma delete_sweeps:
  assumes effect: "set s' \<subseteq> set s \<and> (mwf s \<longrightarrow> mwf s') \<and> (\<forall>k. k \<notin> fst ` set items \<longrightarrow> map_of s' k = map_of s k) \<and>
      (errs = [] \<longrightarrow> fst ` set items \<inter> fst ` set s' = {})"
    and items: "set items = {(k, v) \<in> set s. P k v}"
  shows "swept P s s' \<and> (errs = [] \<longrightarrow> gone P s')"
proof -
  have "map_of s' k = Some v" if wf: "mwf s" and "map_of s k = Some v" "\<not> P k v" for k v
  proof -
    have "k \<notin> fst ` set items"
      using items mwf_lookup [OF wf, of k] that(2, 3) by (metis (mono_tags, lifting) case_prodD image_iff mem_Collect_eq
          option.inject prod.collapse)
    then show ?thesis using effect that(2) by simp
  qed
  then have "swept P s s'" using effect by (simp add: swept_def)
  moreover have "gone P s'" if "errs = []"
  proof -
    have "\<not> P k v" if "(k, v) \<in> set s'" for k v
    proof
      assume "P k v"
      then have "(k, v) \<in> set items" using effect that items by blast
      then show False using effect \<open>errs = []\<close> that by force
    qed
    then show ?thesis by (auto simp: gone_def list_all_iff)
  qed
  ultimately show ?thesis by blast
qed

lemma sweep_bindings:
  assumes "(case r of Inl err \<Rightarrow> ([f err], s) | Inr items \<Rightarrow> deleteBindings env what (F items) s) = (errs, s')"
    and "\<And>items. r = Inr items \<Longrightarrow> set (F items) = {(k, b) \<in> set s. P k b}"
  shows "swept P s s' \<and> (errs = [] \<longrightarrow> gone P s')"
proof (cases r)
  case (Inl err)
  then show ?thesis using assms by auto
next
  case (Inr items)
  then have "deleteBindings env what (F items) s = (errs, s')" using assms(1) by simp
  from delete_sweeps [OF delete_loop [OF this [unfolded deleteBindings_def]] assms(2) [OF Inr]] show ?thesis .
qed

text \<open>Pruning: the owned bindings that are not desired.\<close>

definition stale :: "rbd_object \<Rightarrow> string list \<Rightarrow> string list \<Rightarrow> binding_key \<Rightarrow> rbac_binding \<Rightarrow> bool" where
  "stale obj crbs rbs k b \<longleftrightarrow> bcontrolled obj b \<and> bindingText k \<notin> set (if isClusterKey k then crbs else rbs)"

lemma two_sweeps:
  assumes "swept P1 s s1 \<and> (errs1 = [] \<longrightarrow> gone P1 s1)" "swept P2 s1 s2 \<and> (errs2 = [] \<longrightarrow> gone P2 s2)"
    and "\<And>k v. P k v \<longleftrightarrow> P1 k v \<or> P2 k v"
  shows "swept P s s2 \<and> (errs1 @ errs2 = [] \<longrightarrow> gone P s2)"
proof -
  have "P = (\<lambda>k v. P1 k v \<or> P2 k v)" by (intro ext) (rule assms(3))
  then have "swept P s s2" using swept_trans [of P1 s s1 P2 s2] assms(1, 2) by simp
  moreover have "gone P s2" if "errs1 @ errs2 = []"
    using that assms swept_gone [of P2 s1 s2 P1] by (auto simp: gone_def list_all_iff)
  ultimately show ?thesis by blast
qed

lemma prune_bindings:
  assumes "rbdPruneStaleResources env rbd crbs rbs s = (err, s')"
  shows "swept (stale rbd crbs rbs) s s' \<and> (err = None \<longrightarrow> gone (stale rbd crbs rbs) s')"
proof -
  obtain errs1 s1 where one: "(case rbdListOwnedClusterRoleBindings env rbd s of
      Inl err \<Rightarrow> ([wrapf [Lit ''list owned ClusterRoleBindings for pruning''] err], s)
    | Inr items \<Rightarrow> deleteBindings env ''stale ClusterRoleBinding''
        (filter (\<lambda>(k, b). bindingText k \<notin> set crbs) items) s) = (errs1, s1)" by fastforce
  obtain errs2 s2 where two: "(case rbdListOwnedRoleBindings env rbd s1 of
      Inl err \<Rightarrow> ([wrapf [Lit ''list owned RoleBindings for pruning''] err], s1)
    | Inr items \<Rightarrow> deleteBindings env ''stale RoleBinding''
        (filter (\<lambda>(k, b). bindingText k \<notin> set rbs) items) s1) = (errs2, s2)" by fastforce
  have res: "s' = s2" "err = errors_JoinAll (errs1 @ errs2)"
    using assms one two by (auto simp: rbdPruneStaleResources_def)
  have a: "swept (\<lambda>k b. isClusterKey k \<and> stale rbd crbs rbs k b) s s1 \<and>
      (errs1 = [] \<longrightarrow> gone (\<lambda>k b. isClusterKey k \<and> stale rbd crbs rbs k b) s1)"
    by (rule sweep_bindings [OF one])
      (auto simp: rbdListOwnedClusterRoleBindings_def stale_def bcontrolled_def split: option.splits)
  have b: "swept (\<lambda>k b. \<not> isClusterKey k \<and> stale rbd crbs rbs k b) s1 s2 \<and>
      (errs2 = [] \<longrightarrow> gone (\<lambda>k b. \<not> isClusterKey k \<and> stale rbd crbs rbs k b) s2)"
    by (intro sweep_bindings [OF two])
      (auto simp: rbdListOwnedRoleBindings_def stale_def bcontrolled_def split: option.splits)
  from two_sweeps [OF a b, of "stale rbd crbs rbs"] show ?thesis
    by (simp add: res errors_JoinAll_None) blast
qed

lemma prune_accounts:
  assumes "rbdPruneStaleServiceAccounts env rbd desired recorded s = (err, s')"
  defines "P \<equiv> \<lambda>k sa. acontrolled rbd sa \<and> accountText k \<notin> set desired \<and> accountText k \<in> set recorded"
  shows "swept P s s' \<and> (err = None \<longrightarrow> gone P s')"
proof (cases "rbdListOwnedServiceAccounts env rbd s")
  case (Inl e)
  then show ?thesis using assms by (auto simp: rbdPruneStaleServiceAccounts_def)
next
  case (Inr items)
  let ?del = "\<lambda>key s. case store_write (bind_fail env) (DeleteAccount (fst key) (snd key)) key None s of
      (Some err, s') \<Rightarrow> (if IsNotFound err then None
         else Some (wrapf [Lit ''delete stale ServiceAccount '', Lit (accountText key)] err), s')
    | (None, s') \<Rightarrow> (None, s')"
  let ?keep = "\<lambda>(key, sa). accountText key \<notin> set desired \<and> accountText key \<in> set recorded"
  have skip: "for_errs (\<lambda>(key, sa) s. if accountText key \<in> set desired then (None, s)
      else if accountText key \<notin> set recorded then (None, s) else ?del key s) xs t =
    for_errs (\<lambda>(key, sa). ?del key) (filter ?keep xs) t" for xs :: "((string \<times> string) \<times> service_account) list" and t
    by (induction xs arbitrary: t) (auto split: prod.splits)
  obtain errs where loop: "for_errs (\<lambda>(key, sa). ?del key) (filter ?keep items) s = (errs, s')"
    and err: "err = errors_JoinAll errs"
    using assms(1) by (auto simp: rbdPruneStaleServiceAccounts_def Inr skip split: prod.splits)
  have "set (filter ?keep items) = {(k, sa) \<in> set s. P k sa}"
    using Inr by (auto simp: rbdListOwnedServiceAccounts_def P_def acontrolled_def split: option.splits)
  from delete_sweeps [OF delete_loop [where call = "\<lambda>key. DeleteAccount (fst key) (snd key)", OF loop] this] show ?thesis
    by (simp add: err errors_JoinAll_None)
qed

section \<open>Deprovisioning\<close>

definition recorded :: "rbd_object \<Rightarrow> string set" where
  "recorded obj = set (rbdDesiredServiceAccounts (bs_GeneratedServiceAccounts (bo_Status obj)))"

text \<open>No binding of the definition is left, and no ServiceAccount it has on record.\<close>

definition bind_clean :: "rbd_object \<Rightarrow> 'c rbd_world \<Rightarrow> bool" where
  "bind_clean obj w \<longleftrightarrow> gone (\<lambda>k b. bcontrolled obj b) (bw_Bindings w) \<and>
     gone (\<lambda>k sa. acontrolled obj sa \<and> accountText k \<in> recorded obj) (bw_Accounts w)"

definition bind_kept :: "'c rbd_env \<Rightarrow> rbd_object \<Rightarrow> 'c rbd_world \<Rightarrow> 'c rbd_world \<Rightarrow> bool" where
  "bind_kept env obj w w' \<longleftrightarrow> bconfined env obj (bw_Bindings w) (bw_Bindings w') \<and>
     aconfined env obj (recorded obj) (bw_Accounts w) (bw_Accounts w')"

lemma bind_kept_refl [simp]: "bind_kept env obj w w"
  by (simp add: bind_kept_def)

lemma bind_kept_trans: "bind_kept env obj w1 w2 \<Longrightarrow> bind_kept env obj w2 w3 \<Longrightarrow> bind_kept env obj w1 w3"
  unfolding bind_kept_def using bconfined_trans aconfined_trans by blast

lemma deprovision_binds:
  assumes "rbdDeprovision env rbd w = (err, w')"
  shows "bind_kept env rbd w w'" "err = None \<Longrightarrow> bind_clean rbd w'"
    "bw_Object w' = bw_Object w" "bw_Cache w' = bw_Cache w"
    "set (bw_Bindings w') \<subseteq> set (bw_Bindings w)" "set (bw_Accounts w') \<subseteq> set (bw_Accounts w)"
proof -
  obtain errs1 s1 where one: "(case rbdListOwnedClusterRoleBindings env rbd (bw_Bindings w) of
      Inl err \<Rightarrow> ([wrapf [Lit ''list owned ClusterRoleBindings''] err], bw_Bindings w)
    | Inr items \<Rightarrow> deleteBindings env ''ClusterRoleBinding'' items (bw_Bindings w)) = (errs1, s1)" by fastforce
  obtain errs2 s2 where two: "(case rbdListOwnedRoleBindings env rbd s1 of
      Inl err \<Rightarrow> ([wrapf [Lit ''list owned RoleBindings''] err], s1)
    | Inr items \<Rightarrow> deleteBindings env ''RoleBinding'' items s1) = (errs2, s2)" by fastforce
  obtain err3 accounts where three: "rbdPruneStaleServiceAccounts env rbd []
      (rbdDesiredServiceAccounts (bs_GeneratedServiceAccounts (bo_Status rbd))) (bw_Accounts w) = (err3, accounts)"
    by fastforce
  have res: "w' = w\<lparr>bw_Bindings := s2, bw_Accounts := accounts\<rparr>"
    "err = None \<longleftrightarrow> errs1 @ errs2 = [] \<and> err3 = None"
    using assms one two three by (auto simp: rbdDeprovision_def errors_JoinAll_None simp flip: not_None_eq split: option.splits)
  have a: "swept (\<lambda>k b. isClusterKey k \<and> bcontrolled rbd b) (bw_Bindings w) s1 \<and>
      (errs1 = [] \<longrightarrow> gone (\<lambda>k b. isClusterKey k \<and> bcontrolled rbd b) s1)"
    by (rule sweep_bindings [OF one])
      (auto simp: rbdListOwnedClusterRoleBindings_def bcontrolled_def split: option.splits)
  have b: "swept (\<lambda>k b. \<not> isClusterKey k \<and> bcontrolled rbd b) s1 s2 \<and>
      (errs2 = [] \<longrightarrow> gone (\<lambda>k b. \<not> isClusterKey k \<and> bcontrolled rbd b) s2)"
    by (rule sweep_bindings [OF two])
      (auto simp: rbdListOwnedRoleBindings_def bcontrolled_def split: option.splits)
  have bs: "swept (\<lambda>k b. bcontrolled rbd b) (bw_Bindings w) s2 \<and>
      (errs1 @ errs2 = [] \<longrightarrow> gone (\<lambda>k b. bcontrolled rbd b) s2)"
    by (rule two_sweeps [OF a b]) blast
  have as: "swept (\<lambda>k sa. acontrolled rbd sa \<and> accountText k \<in> recorded rbd) (bw_Accounts w) accounts \<and>
      (err3 = None \<longrightarrow> gone (\<lambda>k sa. acontrolled rbd sa \<and> accountText k \<in> recorded rbd) accounts)"
    using prune_accounts [OF three] by (simp add: recorded_def)
  have "bconfined env rbd (bw_Bindings w) s2" by (rule swept_bconfined [OF conjunct1 [OF bs]])
  moreover have "aconfined env rbd (recorded rbd) (bw_Accounts w) accounts"
    by (rule swept_aconfined [OF conjunct1 [OF as]]) (simp add: trusted_def)
  ultimately show "bind_kept env rbd w w'" by (simp add: bind_kept_def res(1))
  show "err = None \<Longrightarrow> bind_clean rbd w'" using bs as by (simp add: bind_clean_def res)
  show "bw_Object w' = bw_Object w" "bw_Cache w' = bw_Cache w" by (simp_all add: res(1))
  show "set (bw_Bindings w') \<subseteq> set (bw_Bindings w)" "set (bw_Accounts w') \<subseteq> set (bw_Accounts w)"
    using bs as by (simp_all add: res(1) swept_def)
qed

section \<open>Status writes\<close>

text \<open>A status write changes the status of the stored object only.\<close>

definition status_only :: "'c rbd_world \<Rightarrow> 'c rbd_world \<Rightarrow> bool" where
  "status_only w w' \<longleftrightarrow> bw_Bindings w' = bw_Bindings w \<and> bw_Accounts w' = bw_Accounts w \<and> bw_Cache w' = bw_Cache w"

lemma bind_status_only: "ApplyRestrictedBindDefinitionStatus env obj w = (res, w') \<Longrightarrow> status_only w w'"
  by (auto simp: ApplyRestrictedBindDefinitionStatus_def status_only_def split: read.splits if_splits option.splits)

lemma bind_stalled_only: "status_only w (snd (rbdMarkStalled env err obj w))"
  unfolding rbdMarkStalled_def Let_def snd_conv by (metis bind_status_only prod.collapse)

lemma bind_apply_stalled_only: "rbdApplyStatusAndMarkStalled env m obj w = (res, obj', w') \<Longrightarrow> status_only w w'"
  by (auto simp: rbdApplyStatusAndMarkStalled_def Let_def dest: bind_status_only split: prod.splits option.splits)

lemma status_only_kept: "status_only w w' \<Longrightarrow> bind_clean rbd w' = bind_clean rbd w \<and> bind_kept env rbd w w'"
  by (simp add: status_only_def bind_clean_def bind_kept_def)

lemma finishBind_only: "finishBind env n rbd w = (out, w') \<Longrightarrow> status_only w w'"
  by (auto simp: finishBind_def dest: bind_status_only split: prod.splits option.splits)

lemma bind_deprovision_callback:
  "lc_Deprovision (rbdPolicyLifecycleConfig env rbd) obj w = (res, obj', w') \<longleftrightarrow>
   rbdDeprovision env rbd w = (res, w') \<and> obj' = (if res = None then rbdClearDeprovisionedStatus obj else obj)"
  by (auto simp: rbdPolicyLifecycleConfig_def split: prod.splits option.splits)

interpretation rbd_lc: policy_lifecycle "rbdPolicyLifecycleConfig env rbd" "bind_clean rbd" "bind_kept env rbd"
  for env rbd
proof
  fix obj w res obj' w'
  assume "lc_Deprovision (rbdPolicyLifecycleConfig env rbd) obj w = (res, obj', w')"
  then show "bind_kept env rbd w w'" by (auto simp: bind_deprovision_callback intro: deprovision_binds(1))
next
  fix obj w obj' w'
  assume "lc_Deprovision (rbdPolicyLifecycleConfig env rbd) obj w = (None, obj', w')"
  then show "bind_clean rbd w'" by (auto simp: bind_deprovision_callback intro: deprovision_binds(2))
next
  fix err obj w obj' w'
  assume "lc_MarkStalled (rbdPolicyLifecycleConfig env rbd) err obj w = (obj', w')"
  then have "status_only w w'" using bind_stalled_only [of w env err obj] by (simp add: rbdPolicyLifecycleConfig_def)
  then show "bind_clean rbd w' = bind_clean rbd w \<and> bind_kept env rbd w w'" by (rule status_only_kept)
next
  fix obj w res w'
  assume "lc_ApplyStatus (rbdPolicyLifecycleConfig env rbd) obj w = (res, w')"
  then show "bind_clean rbd w' = bind_clean rbd w \<and> bind_kept env rbd w w'"
    by (intro status_only_kept bind_status_only) (simp add: rbdPolicyLifecycleConfig_def)
next
  fix m obj w res obj' w'
  assume "lc_ApplyStatusAndMarkStalled (rbdPolicyLifecycleConfig env rbd) m obj w = (res, obj', w')"
  then show "bind_clean rbd w' = bind_clean rbd w \<and> bind_kept env rbd w w'"
    by (intro status_only_kept bind_apply_stalled_only) (simp add: rbdPolicyLifecycleConfig_def)
qed (auto intro: bind_kept_trans)

section \<open>ServiceAccounts\<close>

lemma owned_by_find: "isOwnedByRestrictedBindDefinition refs \<longleftrightarrow> findOwningRBDRef refs \<noteq> None"
  by (auto simp: isOwnedByRestrictedBindDefinition_def findOwningRBDRef_def list_ex_iff find_None_iff2 find_None_iff)

text \<open>The records a reconciliation may go by: the status in memory and the stored one.\<close>

definition records_in :: "rbd_object option \<Rightarrow> rbd_object \<Rightarrow> string set \<Rightarrow> bool" where
  "records_in live rbd R \<longleftrightarrow> recorded rbd \<subseteq> R \<and> (\<forall>o'. live = Some o' \<longrightarrow> recorded o' \<subseteq> R)"

lemma has_status: "rbdHasGeneratedServiceAccountStatus o' subject \<Longrightarrow> accountText (subject_key subject) \<in> recorded o'"
  by (simp add: rbdHasGeneratedServiceAccountStatus_def recorded_def accountText_def subject_key_def)

lemma managed_is_trusted:
  assumes "rbdClassifyExistingServiceAccount env live rbd subject existing cfg = (bindIt, True, external)"
    and "records_in live rbd R"
  shows "trusted env rbd R (subject_key subject) existing"
proof -
  have "acontrolled rbd existing \<and> (rbdHasGeneratedServiceAccountStatus rbd subject \<or>
      rbdHasLiveGeneratedServiceAccountStatus env live subject \<or>
      rbdHasRecoverableGeneratedServiceAccountMarkers env rbd existing)"
    using assms(1) owned_by_find
    by (auto simp: rbdClassifyExistingServiceAccount_def Let_def acontrolled_def split: if_splits option.splits)
  moreover have "accountText (subject_key subject) \<in> R" if "rbdHasGeneratedServiceAccountStatus rbd subject"
    using has_status [OF that] assms(2) by (auto simp: records_in_def)
  moreover have "accountText (subject_key subject) \<in> R" if "rbdHasLiveGeneratedServiceAccountStatus env live subject"
    using that assms(2) has_status
    by (fastforce simp: rbdHasLiveGeneratedServiceAccountStatus_def records_in_def dest: server_read_Got split: read.splits)
  ultimately show ?thesis by (auto simp: trusted_def)
qed

lemma apply_account_effect:
  assumes "applyServiceAccount env rbd client automount subject (p, s) = (err, p', s')"
  shows "(s' = s \<or> (\<exists>sa. s' = mput (subject_key subject) sa s)) \<and>
    (if err = None then sp_Effective p' = sp_Effective p @ [subject] \<and> map_of s' (subject_key subject) \<noteq> None else p' = p)"
  using assms
  by (auto simp: applyServiceAccount_def PatchApplyServiceAccountAlways_def patchApplyServiceAccount_def accountApply_def
      rbd_account_ac_def ServiceAccountWith_def subject_key_def bind_subject_def Let_def mput_def AList.update_conv'
      split: sum.splits option.splits prod.splits)

text \<open>
  What one subject adds: nothing appears among the effective subjects but the subject itself, which is then
  no ServiceAccount or one that exists; and the store changes at most at the account of the subject.
\<close>

definition subject_live_in :: "account_store \<Rightarrow> Subject \<Rightarrow> bool" where
  "subject_live_in s subject \<longleftrightarrow> (subj_Kind subject = ServiceAccountKind \<longrightarrow> map_of s (subject_key subject) \<noteq> None)"

lemma managed_not_bound:
  "rbdClassifyExistingServiceAccount env live rbd subject existing cfg = (bindIt, True, external) \<Longrightarrow> \<not> bindIt"
  by (auto simp: rbdClassifyExistingServiceAccount_def Let_def split: if_splits option.splits)

lemma ensure_account_cases:
  assumes "rbdEnsureServiceAccount env live rbd client cfg subject (p, s) = (err, p', s')" "records_in live rbd R"
  obtains (plain) "subj_Kind subject \<noteq> ServiceAccountKind" "sp_Effective p' = sp_Effective p @ [subject]" "s' = s"
  | (skipped) "subj_Kind subject = ServiceAccountKind" "sp_Effective p' = sp_Effective p" "s' = s"
  | (external) "subj_Kind subject = ServiceAccountKind" "sp_Effective p' = sp_Effective p @ [subject]" "s' = s"
      "map_of s (subject_key subject) \<noteq> None"
  | (written) q where "subj_Kind subject = ServiceAccountKind" "sp_Effective q = sp_Effective p"
      "applyServiceAccount env rbd client (rbdAutomountServiceAccountToken rbd cfg) subject (q, s) = (err, p', s')"
      "\<And>sa. map_of s (subject_key subject) = Some sa \<Longrightarrow> trusted env rbd R (subject_key subject) sa"
proof -
  note unfolded = assms(1) [unfolded rbdEnsureServiceAccount_def Let_def]
  note bodies = bind_subject_def skip_subject_def rbdCanCreateMissingServiceAccount_def subject_key_def
  consider "subj_Kind subject \<noteq> ServiceAccountKind"
    | "subj_Kind subject = ServiceAccountKind" "\<nexists>ns. server_read (bind_fail env) (AccountNamespaceGet (subj_Namespace subject))
        (findNamespace env (subj_Namespace subject)) = Got ns \<and> \<not> terminating ns"
    | ns where "subj_Kind subject = ServiceAccountKind" "server_read (bind_fail env)
        (AccountNamespaceGet (subj_Namespace subject)) (findNamespace env (subj_Namespace subject)) = Got ns"
        "\<not> terminating ns" by blast
  then show thesis
  proof cases
    case 1
    then show ?thesis using unfolded plain by (auto simp: bodies)
  next
    case 2
    then have "sp_Effective p' = sp_Effective p" "s' = s"
      using unfolded by (auto simp: bodies split: read.splits if_splits)
    then show ?thesis using 2 skipped by blast
  next
    case 3
    let ?read = "server_read (bind_fail env) (AccountGet (subj_Namespace subject) (subj_Name subject))
      (map_of s (subj_Namespace subject, subj_Name subject))"
    show ?thesis
    proof (cases ?read)
      case Missing
      then have free: "map_of s (subject_key subject) = None" using server_read_Missing by (simp add: subject_key_def)
      show ?thesis
      proof (cases "rbdCanManageGeneratedServiceAccount env ns cfg = Inr (True, '''')")
        case True
        then show ?thesis using unfolded 3 Missing free by (intro written [of p]) (simp_all add: bodies)
      next
        case False
        then have "sp_Effective p' = sp_Effective p" "s' = s"
          using unfolded 3 Missing
          by (auto simp: bodies rbdCanManageGeneratedServiceAccount_def split: sum.splits option.splits if_splits)
        then show ?thesis using 3 skipped by blast
      qed
    next
      case (ReadError e)
      then show ?thesis using unfolded 3 skipped by auto
    next
      case (Got existing)
      then have there: "map_of s (subject_key subject) = Some existing" using server_read_Got by (simp add: subject_key_def)
      obtain bindIt manage ext where c: "rbdClassifyExistingServiceAccount env live rbd subject existing cfg =
          (bindIt, manage, ext)" by (metis prod_cases3)
      show ?thesis
      proof (cases manage)
        case False
        then show ?thesis
          using unfolded 3 Got c there external skipped by (cases bindIt) (auto simp: bodies)
      next
        case True
        then have c1: "rbdClassifyExistingServiceAccount env live rbd subject existing cfg = (bindIt, True, ext)"
          using c by simp
        have tr: "trusted env rbd R (subject_key subject) existing" and nb: "\<not> bindIt"
          using managed_is_trusted [OF c1 assms(2)] managed_not_bound [OF c1] .
        define q where "q = (if ext \<noteq> '''' then p\<lparr>sp_External := sp_External p @ [ext]\<rparr> else p)"
        show ?thesis
        proof (cases "\<exists>r. rbdCanManageGeneratedServiceAccount env ns cfg = Inr (True, r)")
          case can: True
          then show ?thesis
            using unfolded 3 Got c True nb there tr by (intro written [of q]) (auto simp: q_def)
        next
          case cannot: False
          then have "sp_Effective p' = sp_Effective p" "s' = s"
            using unfolded 3 Got c True nb by (auto simp: bodies split: sum.splits if_splits)
          then show ?thesis using 3 skipped by blast
        qed
      qed
    qed
  qed
qed

lemma ensure_account:
  assumes "rbdEnsureServiceAccount env live rbd client cfg subject (p, s) = (err, p', s')"
    and "subject \<in> set (rbds_Subjects (bo_Spec rbd))" "records_in live rbd R"
  shows "aconfined env rbd R s s'" (is ?confined)
    and "set (sp_Effective p) \<subseteq> set (sp_Effective p') \<and> set (sp_Effective p') \<subseteq> insert subject (set (sp_Effective p))"
      (is ?grows)
    and "subj_Kind subject \<noteq> ServiceAccountKind \<Longrightarrow> subject \<in> set (sp_Effective p')"
    and "subject \<in> set (sp_Effective p') \<Longrightarrow> subject \<notin> set (sp_Effective p) \<Longrightarrow> subject_live_in s' subject"
    and "map_of s k \<noteq> None \<Longrightarrow> map_of s' k \<noteq> None"
proof -
  have "?confined \<and> ?grows \<and> (subj_Kind subject \<noteq> ServiceAccountKind \<longrightarrow> subject \<in> set (sp_Effective p')) \<and>
    (subject \<in> set (sp_Effective p') \<longrightarrow> subject \<notin> set (sp_Effective p) \<longrightarrow> subject_live_in s' subject) \<and>
    (map_of s k \<noteq> None \<longrightarrow> map_of s' k \<noteq> None)"
    using assms(1, 3)
  proof (cases rule: ensure_account_cases)
    case (written q)
    note effect = apply_account_effect [OF written(3)]
    have "subject_key subject \<in> account_targets rbd" using assms(2) written(1) by (auto simp: account_targets_def)
    then have "aconfined env rbd R s s'"
      using effect written(4)
      by (intro aconfined_write [of _ _ "subject_key subject"]) (auto simp: go_maps)
    then show ?thesis
      using effect written(1, 2) by (auto simp: subject_live_in_def go_maps split: if_splits)
  qed (auto simp: subject_live_in_def)
  then show ?confined ?grows
    "subj_Kind subject \<noteq> ServiceAccountKind \<Longrightarrow> subject \<in> set (sp_Effective p')"
    "subject \<in> set (sp_Effective p') \<Longrightarrow> subject \<notin> set (sp_Effective p) \<Longrightarrow> subject_live_in s' subject"
    "map_of s k \<noteq> None \<Longrightarrow> map_of s' k \<noteq> None" by blast+
qed

lemma ensure_accounts_loop:
  assumes "for_each (rbdEnsureServiceAccount env live rbd client cfg) subs (p, s) = (err, p', s')"
    and "set subs \<subseteq> set (rbds_Subjects (bo_Spec rbd))" "records_in live rbd R"
  shows "aconfined env rbd R s s' \<and> set (sp_Effective p) \<subseteq> set (sp_Effective p') \<and>
    set (sp_Effective p') \<subseteq> set (sp_Effective p) \<union> set subs \<and>
    (err = None \<longrightarrow> (\<forall>x \<in> set subs. subj_Kind x \<noteq> ServiceAccountKind \<longrightarrow> x \<in> set (sp_Effective p'))) \<and>
    ((\<forall>x \<in> set (sp_Effective p). subject_live_in s x) \<longrightarrow> (\<forall>x \<in> set (sp_Effective p'). subject_live_in s' x))"
  using assms(1, 2)
proof (induction subs arbitrary: p s)
  case (Cons subject subs)
  obtain err1 p1 s1 where one: "rbdEnsureServiceAccount env live rbd client cfg subject (p, s) = (err1, p1, s1)"
    by (metis prod_cases3)
  note step = ensure_account [OF one _ assms(3)]
  have mem: "subject \<in> set (rbds_Subjects (bo_Spec rbd))" using Cons.prems by simp
  have lives: "(\<forall>x \<in> set (sp_Effective p). subject_live_in s x) \<longrightarrow> (\<forall>x \<in> set (sp_Effective p1). subject_live_in s1 x)"
    using step(2, 4, 5) [OF mem] unfolding subject_live_in_def by blast
  show ?case
  proof (cases err1)
    case (Some e)
    then show ?thesis using Cons.prems one step(1, 2) [OF mem] lives by auto
  next
    case None
    then have rest: "for_each (rbdEnsureServiceAccount env live rbd client cfg) subs (p1, s1) = (err, p', s')"
      using Cons.prems one by simp
    note IH = Cons.IH [OF rest]
    have "aconfined env rbd R s s'" using aconfined_trans [OF step(1) [OF mem]] IH Cons.prems(2) by simp
    moreover have "subj_Kind subject \<noteq> ServiceAccountKind \<longrightarrow> subject \<in> set (sp_Effective p')"
      using step(3) [OF mem] IH Cons.prems(2) by auto
    ultimately show ?thesis using IH step(2) [OF mem] lives Cons.prems(2) by auto
  qed
qed simp

text \<open>The subjects to bind: all but ServiceAccounts are kept, and every ServiceAccount among them exists.\<close>

definition effective_for :: "rbd_object \<Rightarrow> Subject list \<Rightarrow> bool" where
  "effective_for rbd eff \<longleftrightarrow> set eff \<subseteq> set (rbds_Subjects (bo_Spec rbd)) \<and>
     (\<forall>x \<in> set (rbds_Subjects (bo_Spec rbd)). subj_Kind x \<noteq> ServiceAccountKind \<longrightarrow> x \<in> set eff)"

lemma ensure_accounts:
  assumes "rbdEnsureServiceAccounts env live rbd client cfg s = (res, rbd1, s')" "records_in live rbd R"
  shows "aconfined env rbd R s s'" "same_bind rbd1 rbd"
    and "res = Inr eff \<Longrightarrow> effective_for rbd eff \<and> (\<forall>x \<in> set eff. subject_live_in s' x)"
    and "bs_Conditions (bo_Status rbd1) = bs_Conditions (bo_Status rbd)"
proof -
  let ?p0 = "\<lparr>sp_Effective = [], sp_Generated = [], sp_External = [], sp_Skipped = []\<rparr>"
  obtain err p s1 where loop: "for_each (rbdEnsureServiceAccount env live rbd client cfg) (rbds_Subjects (bo_Spec rbd))
      (?p0, s) = (err, p, s1)" by (metis prod_cases3)
  have s': "s' = s1" and "same_bind rbd1 rbd" and res: "res = Inr eff \<Longrightarrow> err = None \<and> eff = sp_Effective p" for eff
    using assms(1) loop by (auto simp: rbdEnsureServiceAccounts_def split: option.splits)
  note effect = ensure_accounts_loop [OF loop _ assms(2)]
  show "aconfined env rbd R s s'" using effect s' by blast
  show "same_bind rbd1 rbd" by fact
  show "effective_for rbd eff \<and> (\<forall>x \<in> set eff. subject_live_in s' x)" if "res = Inr eff"
    using effect res [OF that] s' by (auto simp: effective_for_def)
  show "bs_Conditions (bo_Status rbd1) = bs_Conditions (bo_Status rbd)"
    using assms(1) loop by (auto simp: rbdEnsureServiceAccounts_def split: option.splits)
qed

lemma reconcile_accounts:
  assumes "rbdReconcileServiceAccounts env live rbd client cfg s = (res, rbd1, s')" "records_in live rbd R"
  shows "aconfined env rbd R s s'" "same_bind rbd1 rbd" "res = Inr eff \<Longrightarrow> effective_for rbd eff"
    and "bs_Conditions (bo_Status rbd1) = bs_Conditions (bo_Status rbd)"
proof -
  obtain res1 rbd0 s1 where en: "rbdEnsureServiceAccounts env live rbd client cfg s = (res1, rbd0, s1)"
    by (metis prod_cases3)
  note e = ensure_accounts [OF en assms(2)]
  have rbd1: "rbd1 = rbd0"
    using assms(1) en by (auto simp: rbdReconcileServiceAccounts_def Let_def split: sum.splits prod.splits option.splits)
  obtain eff0 err where s': "s' = s1 \<or> rbdPruneStaleServiceAccounts env rbd0
      (rbdDesiredServiceAccounts (bs_GeneratedServiceAccounts (bo_Status rbd0)))
      (rbdDesiredServiceAccounts (bs_GeneratedServiceAccounts (bo_Status rbd))) s1 = (err, s')"
    and eff: "res = Inr eff \<longrightarrow> res1 = Inr eff0 \<and> eff = eff0"
    using assms(1) en by (auto simp: rbdReconcileServiceAccounts_def Let_def split: sum.splits prod.splits option.splits)
  have "aconfined env rbd R s1 s'"
  proof (cases "s' = s1")
    case False
    then have pr: "rbdPruneStaleServiceAccounts env rbd0
      (rbdDesiredServiceAccounts (bs_GeneratedServiceAccounts (bo_Status rbd0)))
      (rbdDesiredServiceAccounts (bs_GeneratedServiceAccounts (bo_Status rbd))) s1 = (err, s')" using s' by blast
    have "aconfined env rbd0 R s1 s'"
      by (rule swept_aconfined [OF conjunct1 [OF prune_accounts [OF pr]]])
        (use assms(2) in \<open>auto simp: trusted_def records_in_def recorded_def\<close>)
    then show ?thesis unfolding same_aconfined [OF e(2)] .
  qed simp
  then show "aconfined env rbd R s s'" using aconfined_trans [OF e(1)] by blast
  show "same_bind rbd1 rbd" using e(2) by (simp add: rbd1)
  show "effective_for rbd eff" if "res = Inr eff" using e(3) eff that by blast
  show "bs_Conditions (bo_Status rbd1) = bs_Conditions (bo_Status rbd)" using e(4) by (simp add: rbd1)
qed

end
