(* ===== verification/Restricted_Bind_Writes.thy ===== *)
theory Restricted_Bind_Writes
  imports Restricted_Bind_Runs
begin

text \<open>
  Writing the bindings of a RestrictedBindDefinition: every write is confined to the bindings the definition
  asks for, and when all of them succeed, the bindings under its control are exactly the ones asked for, each
  with the role and the effective subjects.
\<close>

section \<open>The namespaces of an entry\<close>

lemma addUnseen_set:
  "set acc \<subseteq> set (addUnseen acc nss)" "set (addUnseen acc nss) \<subseteq> set acc \<union> set nss"
  "ns_Name ` set nss \<subseteq> ns_Name ` set (addUnseen acc nss)"
proof -
  have "set acc \<subseteq> set (addUnseen acc nss) \<and> set (addUnseen acc nss) \<subseteq> set acc \<union> set nss \<and>
      ns_Name ` set nss \<subseteq> ns_Name ` set (addUnseen acc nss)"
  proof (induction nss arbitrary: acc)
    case (Cons ns nss)
    define acc' where "acc' = (if ns_Name ns \<in> set (map ns_Name acc) then acc else acc @ [ns])"
    have grown: "ns_Name ns \<in> ns_Name ` set acc'" "set acc \<subseteq> set acc'" "set acc' \<subseteq> insert ns (set acc)"
      by (auto simp: acc'_def)
    have step: "addUnseen acc (ns # nss) = addUnseen acc' nss" by (simp add: addUnseen_def acc'_def)
    have "ns_Name ns \<in> ns_Name ` set (addUnseen acc' nss)"
      using grown(1) Cons.IH [of acc'] image_mono [of "set acc'" "set (addUnseen acc' nss)" ns_Name] by blast
    then show ?case using grown(2, 3) Cons.IH [of acc'] unfolding step by (auto simp: image_subset_iff)
  qed (simp add: addUnseen_def)
  then show "set acc \<subseteq> set (addUnseen acc nss)" "set (addUnseen acc nss) \<subseteq> set acc \<union> set nss"
    "ns_Name ` set nss \<subseteq> ns_Name ` set (addUnseen acc nss)" by blast+
qed

definition selected :: "'c rbd_env \<Rightarrow> LabelSelector list \<Rightarrow> Namespace set" where
  "selected env sels = {ns \<in> set (be_Namespaces env). \<exists>sel \<in> set sels. \<exists>p. be_AsSelector env sel = Inr p \<and> p (ns_Labels ns)}"

lemma select_namespaces:
  "rbdSelectNamespaces env site sels acc = Inr nss \<Longrightarrow>
   set acc \<subseteq> set nss \<and> set nss \<subseteq> set acc \<union> selected env sels \<and> ns_Name ` selected env sels \<subseteq> ns_Name ` set nss"
proof (induction sels arbitrary: acc)
  case (Cons sel sels)
  obtain p where p: "be_AsSelector env sel = Inr p" "rbdSelectNamespaces env site sels
      (addUnseen acc (filter (\<lambda>ns. p (ns_Labels ns)) (be_Namespaces env))) = Inr nss"
    using Cons.prems by (auto split: sum.splits option.splits)
  define now where "now = filter (\<lambda>ns. p (ns_Labels ns)) (be_Namespaces env)"
  have sel: "selected env (sel # sels) = set now \<union> selected env sels"
    using p(1) by (auto simp: selected_def now_def)
  note IH = Cons.IH [OF p(2), folded now_def] and add = addUnseen_set [where acc = acc and nss = now]
  have "ns_Name ` set now \<subseteq> ns_Name ` set nss" using add(3) image_mono [OF conjunct1 [OF IH], of ns_Name] by (rule subset_trans)
  moreover have "set acc \<subseteq> set nss" using IH add(1) by (meson subset_trans)
  moreover have "set nss \<subseteq> set acc \<union> (set now \<union> selected env sels)"
    using subset_trans [OF conjunct1 [OF conjunct2 [OF IH]] Un_mono [OF add(2) subset_refl]] by (simp only: Un_assoc)
  ultimately show ?case using conjunct2 [OF conjunct2 [OF IH]] unfolding sel image_Un by (intro conjI Un_least)
qed (simp add: selected_def)

lemma select_same_site:
  "rbdSelectNamespaces env site1 sels acc = Inr a \<Longrightarrow> rbdSelectNamespaces env site2 sels acc = Inr b \<Longrightarrow> a = b"
  by (induction sels arbitrary: acc) (auto split: sum.splits option.splits)

text \<open>The places that resolve an entry agree.\<close>

lemma resolve_same_site:
  "rbdResolveNamespaces env site1 nb = Inr a \<Longrightarrow> rbdResolveNamespaces env site2 nb = Inr b \<Longrightarrow> a = b"
  by (cases "findNamespace env (nb_Namespace nb)")
    (auto simp: rbdResolveNamespaces_def server_read_def intro: select_same_site split: if_splits option.splits)

lemma resolve_sound:
  assumes "rbdResolveNamespaces env site nb = Inr nss" "ns \<in> set nss"
  shows "ns \<in> set (be_Namespaces env)" "entry_selects env nb ns"
proof -
  have "ns \<in> set (be_Namespaces env) \<and> entry_selects env nb ns"
  proof (cases "nb_Namespace nb = ''''")
    case True
    then show ?thesis
      using assms select_namespaces [of env site "nb_NamespaceSelector nb" "[]" nss]
      by (auto simp: rbdResolveNamespaces_def entry_selects_def selected_def)
  next
    case False
    then have "findNamespace env (nb_Namespace nb) = Some ns"
      using assms by (auto simp: rbdResolveNamespaces_def split: read.splits dest: server_read_Got)
    then show ?thesis using False by (auto simp: findNamespace_def entry_selects_def find_Some_iff)
  qed
  then show "ns \<in> set (be_Namespaces env)" "entry_selects env nb ns" by blast+
qed

definition unique_namespaces :: "'c rbd_env \<Rightarrow> bool" where
  "unique_namespaces env \<longleftrightarrow> distinct (map ns_Name (be_Namespaces env))"

lemma unique_namespace:
  assumes "unique_namespaces env" "a \<in> set (be_Namespaces env)" "b \<in> set (be_Namespaces env)" "ns_Name a = ns_Name b"
  shows "a = b"
  using assms by (simp add: unique_namespaces_def distinct_map inj_on_def)

lemma resolve_complete:
  assumes "rbdResolveNamespaces env site nb = Inr nss" "unique_namespaces env"
    and "ns \<in> set (be_Namespaces env)" "entry_selects env nb ns"
  shows "ns \<in> set nss"
proof -
  have "\<exists>ns' \<in> set nss. ns_Name ns' = ns_Name ns"
  proof (cases "nb_Namespace nb = ''''")
    case True
    then have "ns \<in> selected env (nb_NamespaceSelector nb)"
      using assms(3, 4) by (auto simp: entry_selects_def selected_def)
    moreover have "ns_Name ` selected env (nb_NamespaceSelector nb) \<subseteq> ns_Name ` set nss"
      using assms(1) True select_namespaces [of env site "nb_NamespaceSelector nb" "[]" nss]
      by (simp add: rbdResolveNamespaces_def)
    ultimately show ?thesis by (metis image_iff imageI subsetD)
  next
    case False
    then have name: "ns_Name ns = nb_Namespace nb" using assms(4) by (simp add: entry_selects_def)
    have "findNamespace env (nb_Namespace nb) \<noteq> None"
      using assms(3) name by (auto simp: findNamespace_def find_None_iff)
    then obtain ns' where "nss = [ns']" "findNamespace env (nb_Namespace nb) = Some ns'"
      using assms(1) False
      by (auto simp: rbdResolveNamespaces_def split: read.splits dest: server_read_Got server_read_Missing)
    then show ?thesis by (auto simp: findNamespace_def find_Some_iff name)
  qed
  then show ?thesis using resolve_sound(1) [OF assms(1)] unique_namespace [OF assms(2)] assms(3) by metis
qed

section \<open>One binding\<close>

text \<open>A step that changes a store at one key at most.\<close>

definition only_at :: "'k \<Rightarrow> ('k, 'v) gomap \<Rightarrow> ('k, 'v) gomap \<Rightarrow> bool" where
  "only_at key s s' \<longleftrightarrow> (mwf s \<longrightarrow> mwf s') \<and> (\<forall>k. k \<noteq> key \<longrightarrow> map_of s' k = map_of s k)"

lemma only_at_refl [simp]: "only_at key s s"
  by (simp add: only_at_def)

lemma only_at_trans: "only_at key s1 s2 \<Longrightarrow> only_at key s2 s3 \<Longrightarrow> only_at key s1 s3"
  by (simp add: only_at_def)

lemma only_at_write: "store_write fail call key new s = (err, s') \<Longrightarrow> only_at key s s'"
  by (simp add: only_at_def mwf_store_write store_write_frame)

definition at_key :: "(rbac_binding \<Rightarrow> bool) \<Rightarrow> binding_key \<Rightarrow> binding_store \<Rightarrow> bool" where
  "at_key P key s \<longleftrightarrow> (\<forall>b. map_of s key = Some b \<longrightarrow> P b)"

lemma check_binding:
  "checkRestrictedBindingOwnership fail s (rbd_owner rbd) ''ClusterRoleBinding'' n ns = None \<Longrightarrow>
     at_key (bcontrolled rbd) (ClusterRoleBindingKey n) s"
  "checkRestrictedBindingOwnership fail s (rbd_owner rbd) ''RoleBinding'' n ns = None \<Longrightarrow>
     at_key (bcontrolled rbd) (RoleBindingKey ns n) s"
  by (auto simp: checkRestrictedBindingOwnership_def Let_def at_key_def bcontrolled_def
      dest: server_read_Got server_read_Missing split: read.splits if_splits)

lemma clear_subjects:
  assumes "rbdClearSubjectsIfEmpty env client rbd kind key subjects s = (err, s')" "at_key (bcontrolled rbd) key s"
  shows "only_at key s s'"
    and "err = None \<Longrightarrow> subjects = [] \<Longrightarrow> at_key (\<lambda>b. bnd_Subjects b = []) key s'"
proof -
  have "only_at key s s' \<and> (err = None \<longrightarrow> subjects = [] \<longrightarrow> at_key (\<lambda>b. bnd_Subjects b = []) key s')"
  proof (cases "server_read (bind_fail env) (SubjectsGet key) (map_of s key)")
    case Missing
    then show ?thesis
      using assms server_read_Missing [OF Missing] by (auto simp: rbdClearSubjectsIfEmpty_def at_key_def split: if_splits)
  next
    case (ReadError e)
    then show ?thesis using assms by (auto simp: rbdClearSubjectsIfEmpty_def split: if_splits)
  next
    case (Got existing)
    then have there: "map_of s key = Some existing" by (rule server_read_Got)
    obtain werr s1 where wr: "store_write (be_Fail env client) (SubjectsClear key) key
        (Some (existing\<lparr>bnd_Subjects := []\<rparr>)) s = (werr, s1)" by fastforce
    have "hasControllerOwnerRef (bnd_OwnerReferences existing) (rbd_owner rbd)"
      using assms(2) there by (simp add: at_key_def bcontrolled_def)
    moreover have "werr = None \<or> (\<exists>e. werr = Some e \<and> IsNotFound e) \<longrightarrow> at_key (\<lambda>b. bnd_Subjects b = []) key s1"
      using wr by (auto simp: store_write_def at_key_def split: option.splits if_splits)
    ultimately show ?thesis
      using assms(1) Got there wr only_at_write [OF wr]
      by (auto simp: rbdClearSubjectsIfEmpty_def at_key_def split: if_splits option.splits)
  qed
  then show "only_at key s s'" "err = None \<Longrightarrow> subjects = [] \<Longrightarrow> at_key (\<lambda>b. bnd_Subjects b = []) key s'" by blast+
qed

lemma delete_on_change:
  assumes "rbdDeleteOwnedRoleBindingOnRoleRefChange env rbd ns n ref client s = (err, s')"
  shows "only_at (RoleBindingKey ns n) s s'"
    and "at_key P (RoleBindingKey ns n) s \<Longrightarrow> at_key P (RoleBindingKey ns n) s'"
  using assms
  by (auto simp: rbdDeleteOwnedRoleBindingOnRoleRefChange_def Let_def at_key_def store_write_def only_at_def go_maps
      split: read.splits if_splits option.splits prod.splits)

text \<open>The subject as the API server stores it.\<close>

definition live_subject :: "Subject \<Rightarrow> Subject" where
  "live_subject s =
     (if (subj_Kind s = UserKind \<or> subj_Kind s = GroupKind) \<and> subj_APIGroup s = '''' then s\<lparr>subj_APIGroup := rbacGroupName\<rparr> else s)"

lemma live_subject_sent: "subject_live (defaultSubjectGroup (the (SubjectFrom (Some s)))) = live_subject s"
  by (auto simp: subject_live_def defaultSubjectGroup_def SubjectFrom_def live_subject_def deref_def)

definition bound :: "rbd_object \<Rightarrow> Subject list \<Rightarrow> RoleRef \<Rightarrow> rbac_binding \<Rightarrow> bool" where
  "bound rbd subs r b \<longleftrightarrow> bcontrolled rbd b \<and> bnd_RoleRef b = r \<and> mset (bnd_Subjects b) = image_mset live_subject (mset subs)"

definition identified :: "rbd_object \<Rightarrow> bool" where
  "identified rbd \<longleftrightarrow> bo_UID rbd \<noteq> '''' \<and> bo_Name rbd \<noteq> ''''"

lemma bind_owner_controls:
  "identified rbd \<Longrightarrow> owner_live (ownerRefForRestricted (bo_Name rbd) (bo_UID rbd) RestrictedBindDefinitionKind) \<in> set refs \<Longrightarrow>
   hasControllerOwnerRef refs (rbd_owner rbd)"
proof -
  let ?ref = "owner_live (ownerRefForRestricted (bo_Name rbd) (bo_UID rbd) RestrictedBindDefinitionKind)"
  assume "identified rbd" "?ref \<in> set refs"
  moreover have "or_APIVersion ?ref = GroupVersionString" "or_Kind ?ref = RestrictedBindDefinitionKind"
    "or_Name ?ref = bo_Name rbd" "or_UID ?ref = bo_UID rbd" "or_Controller ?ref = Some True"
    by (simp_all add: owner_live_def ownerRefForRestricted_def OwnerReferenceWith_def deref_def)
  moreover have "GroupVersionString \<noteq> ''''" "RestrictedBindDefinitionKind \<noteq> ''''"
    by (simp_all add: GroupVersionString_def RestrictedBindDefinitionKind_def)
  ultimately show "hasControllerOwnerRef refs (rbd_owner rbd)"
    by (simp add: identified_def hasControllerOwnerRef_def hasOwnerRefMatching_def list_ex_iff rbd_owner_def
        ownerReferenceIdentity_def) blast
qed

text \<open>What is sent: the role, the subjects in some order and the controller reference.\<close>

lemma canonical_binding:
  assumes "canonicalBinding marshal ac = Inr desired"
  shows "bac_RoleRef desired = bac_RoleRef ac"
    and "mset (bac_Subjects desired) = image_mset defaultSubjectGroup (mset (bac_Subjects ac))"
    and "set (bac_OwnerReferences desired) = set (bac_OwnerReferences ac)"
proof -
  obtain subs refs where n: "sortByJSON (ma_Subject marshal) (map defaultSubjectGroup (bac_Subjects ac)) = Inr subs"
      "sortByJSON (ma_Owner marshal) (bac_OwnerReferences ac) = Inr refs"
      "desired = ac\<lparr>bac_Subjects := subs, bac_OwnerReferences := refs\<rparr>"
    using assms by (auto simp: canonicalBinding_def normalizeBindingApplyConfiguration_def split: sum.splits)
  show "bac_RoleRef desired = bac_RoleRef ac" by (simp add: n(3))
  show "mset (bac_Subjects desired) = image_mset defaultSubjectGroup (mset (bac_Subjects ac))"
    using sortByJSON_mset [OF n(1)] by (simp add: n(3))
  show "set (bac_OwnerReferences desired) = set (bac_OwnerReferences ac)"
    using mset_eq_setD [OF sortByJSON_mset [OF n(2)]] by (simp add: n(3))
qed

definition binding_config :: "rbd_object \<Rightarrow> Subject list \<Rightarrow> RoleRef \<Rightarrow> binding_ac \<Rightarrow> bool" where
  "binding_config rbd subs r ac \<longleftrightarrow> bac_RoleRef ac = RoleRefFrom (Some r) \<and>
     bac_Subjects ac = map (\<lambda>s. the (SubjectFrom (Some s))) subs \<and>
     bac_OwnerReferences ac = [ownerRefForRestricted (bo_Name rbd) (bo_UID rbd) RestrictedBindDefinitionKind]"

lemma apply_binding:
  assumes "bindingApply fail ssa marshal ac s = (res, s')"
  shows "only_at (binding_ac_key ac) s s'"
    and "res = Inr x \<Longrightarrow> binding_merges ssa \<Longrightarrow> identified rbd \<Longrightarrow> binding_config rbd subs r ac \<Longrightarrow>
      (subs = [] \<longrightarrow> at_key (\<lambda>b. bnd_Subjects b = []) (binding_ac_key ac) s) \<Longrightarrow>
      \<exists>b. map_of s' (binding_ac_key ac) = Some b \<and> bound rbd subs r b"
proof -
  show "only_at (binding_ac_key ac) s s'"
    using assms by (auto simp: bindingApply_def Let_def only_at_def go_maps split: sum.splits option.splits)
  assume ok: "res = Inr x" "binding_merges ssa" "identified rbd" "binding_config rbd subs r ac"
    and empty: "subs = [] \<longrightarrow> at_key (\<lambda>b. bnd_Subjects b = []) (binding_ac_key ac) s"
  obtain desired live where sent: "canonicalBinding marshal ac = Inr desired"
      "ssa desired (map_of s (binding_ac_key ac)) = Inr live" "s' = mput (binding_ac_key ac) live s"
    using assms ok(1) by (auto simp: bindingApply_def Let_def split: sum.splits option.splits)
  note c = canonical_binding [OF sent(1)] and cfg = ok(4) [unfolded binding_config_def]
  note merged = ok(2) [unfolded binding_merges_def, rule_format, OF sent(2)]
  have role: "bac_RoleRef desired = RoleRefFrom (Some r)" using c(1) cfg by simp
  have "bnd_RoleRef live = r" using merged role by (simp add: RoleRefFrom_def roleRef_live_def deref_def)
  moreover have "bcontrolled rbd live"
    using merged c(3) cfg ok(3) by (auto simp: bcontrolled_def intro: bind_owner_controls)
  moreover have "mset (bnd_Subjects live) = image_mset live_subject (mset subs)"
  proof (cases "subs = []")
    case True
    then have "bac_Subjects desired = []" using c(2) cfg by simp
    then have "bnd_Subjects live = []" using merged empty True by (auto simp: at_key_def)
    then show ?thesis using True by simp
  next
    case False
    then have "bac_Subjects desired \<noteq> []" using c(2) cfg by auto
    then have "mset (bnd_Subjects live) = image_mset subject_live (mset (bac_Subjects desired))" using merged by simp
    then show ?thesis using c(2) cfg by (simp add: multiset.map_comp comp_def live_subject_sent)
  qed
  ultimately show "\<exists>b. map_of s' (binding_ac_key ac) = Some b \<and> bound rbd subs r b"
    by (simp add: sent(3) bound_def go_maps)
qed

section \<open>Steps that write bindings\<close>

text \<open>
  A step writes the bindings \<open>K\<close>, given with their roles, when it changes no other binding and none of
  another owner, and, provided \<open>ok\<close>, leaves each of them bound when it succeeds.
\<close>

definition established :: "rbd_object \<Rightarrow> Subject list \<Rightarrow> binding_key \<Rightarrow> RoleRef \<Rightarrow> binding_store \<Rightarrow> bool" where
  "established rbd subs k r s \<longleftrightarrow> (\<exists>b. map_of s k = Some b \<and> bound rbd subs r b)"

definition writes ::
  "bool \<Rightarrow> rbd_object \<Rightarrow> Subject list \<Rightarrow> (binding_key \<times> RoleRef) set \<Rightarrow> (binding_store \<Rightarrow> 'e option \<times> binding_store) \<Rightarrow> bool" where
  "writes ok rbd subs K f \<longleftrightarrow> (\<forall>s err s'. f s = (err, s') \<longrightarrow>
     (mwf s \<longrightarrow> mwf s') \<and> (\<forall>k. k \<notin> fst ` K \<longrightarrow> map_of s' k = map_of s k) \<and>
     (\<forall>k b. map_of s k = Some b \<longrightarrow> \<not> bcontrolled rbd b \<longrightarrow> map_of s' k = Some b) \<and>
     (err = None \<longrightarrow> ok \<longrightarrow> (\<forall>(k, r) \<in> K. established rbd subs k r s')))"

lemma writesD:
  assumes "writes ok rbd subs K f" "f s = (err, s')"
  shows "mwf s \<Longrightarrow> mwf s'" "k \<notin> fst ` K \<Longrightarrow> map_of s' k = map_of s k"
    and "map_of s k = Some b \<Longrightarrow> \<not> bcontrolled rbd b \<Longrightarrow> map_of s' k = Some b"
    and "err = None \<Longrightarrow> ok \<Longrightarrow> (k, r) \<in> K \<Longrightarrow> established rbd subs k r s'"
  using assms unfolding writes_def by blast+

lemma writes_one:
  assumes "\<And>s err s'. f s = (err, s') \<Longrightarrow> only_at key s s' \<and> (s' = s \<or> at_key (bcontrolled rbd) key s) \<and>
      (err = None \<longrightarrow> ok \<longrightarrow> established rbd subs key r s')"
  shows "writes ok rbd subs {(key, r)} f"
  unfolding writes_def
proof (intro allI impI conjI)
  fix s err s'
  assume "f s = (err, s')"
  note one = assms [OF this]
  show "mwf s \<Longrightarrow> mwf s'" "k \<notin> fst ` {(key, r)} \<Longrightarrow> map_of s' k = map_of s k" for k
    using one by (simp_all add: only_at_def)
  show "map_of s' k = Some b" if "map_of s k = Some b" "\<not> bcontrolled rbd b" for k b
    using one that by (cases "k = key") (auto simp: only_at_def at_key_def)
  show "err = None \<Longrightarrow> ok \<Longrightarrow> \<forall>(k, r) \<in> {(key, r)}. established rbd subs k r s'" using one by simp
qed

lemma writes_then:
  assumes "writes ok rbd subs K1 f" "writes ok rbd subs K2 g" "ok \<Longrightarrow> single_valued (K1 \<union> K2)"
  shows "writes ok rbd subs (K1 \<union> K2) (then_do f g)"
  unfolding writes_def
proof (intro allI impI)
  fix s err s'
  assume run: "then_do f g s = (err, s')"
  obtain err1 s1 where f: "f s = (err1, s1)" by fastforce
  note one = writesD [OF assms(1) f]
  show "(mwf s \<longrightarrow> mwf s') \<and> (\<forall>k. k \<notin> fst ` (K1 \<union> K2) \<longrightarrow> map_of s' k = map_of s k) \<and>
     (\<forall>k b. map_of s k = Some b \<longrightarrow> \<not> bcontrolled rbd b \<longrightarrow> map_of s' k = Some b) \<and>
     (err = None \<longrightarrow> ok \<longrightarrow> (\<forall>(k, r) \<in> K1 \<union> K2. established rbd subs k r s'))"
  proof (cases err1)
    case (Some e)
    then have "err = Some e" "s' = s1" using run f by (simp_all add: then_do_def)
    then show ?thesis using one(1, 2, 3) by (simp add: image_Un)
  next
    case None
    then have g: "g s1 = (err, s')" using run f by (simp add: then_do_def)
    note two = writesD [OF assms(2) g]
    have "established rbd subs k r s'" if "err = None" ok "(k, r) \<in> K1 \<union> K2" for k r
    proof (cases "k \<in> fst ` K2")
      case True
      then obtain r' where r': "(k, r') \<in> K2" by force
      then have "r' = r" using assms(3) that(2, 3) unfolding single_valued_def by blast
      then show ?thesis using two(4) that r' by blast
    next
      case False
      then have "(k, r) \<in> K1" using that(3) by force
      then have "established rbd subs k r s1" using one(4) None that(2) by blast
      then show ?thesis using two(2) [OF False] by (simp add: established_def)
    qed
    then show ?thesis using one(1, 2, 3) two(1, 2, 3) by (simp add: image_Un) blast
  qed
qed

lemma writes_nothing: "writes ok rbd subs {} (\<lambda>s. (None, s))"
  by (simp add: writes_def)

lemma for_each_then: "for_each f (x # xs) = then_do (f x) (for_each f xs)"
  by (intro ext) (simp add: then_do_def)

lemma writes_each:
  assumes "\<And>x. x \<in> set xs \<Longrightarrow> writes ok rbd subs (K x) (f x)" "ok \<Longrightarrow> single_valued (\<Union>x \<in> set xs. K x)"
  shows "writes ok rbd subs (\<Union>x \<in> set xs. K x) (for_each f xs)"
  using assms
proof (induction xs)
  case Nil
  have "for_each f [] = (\<lambda>s. (None, s))" by (intro ext) simp
  then show ?case using writes_nothing by simp
next
  case (Cons x xs)
  have "single_valued (\<Union>x \<in> set xs. K x)" if ok
    using single_valued_subset [of "\<Union>x \<in> set xs. K x" "\<Union>y \<in> set (x # xs). K y"] Cons.prems(2) that by auto
  then have "writes ok rbd subs (\<Union>x \<in> set xs. K x) (for_each f xs)" using Cons by simp
  with Cons.prems show ?case
    unfolding for_each_then by (simp del: for_each.simps) (rule writes_then, simp_all)
qed

text \<open>What makes the written bindings the intended ones.\<close>

definition bind_assumptions :: "'c rbd_env \<Rightarrow> rbd_object \<Rightarrow> bool" where
  "bind_assumptions env rbd \<longleftrightarrow> binding_merges (be_BindingSSA env) \<and> identified rbd \<and> unique_namespaces env"

text \<open>The common end: the subjects are cleared when there are none, then the binding is applied.\<close>

lemma clear_and_apply:
  assumes run: "then_do (rbdClearSubjectsIfEmpty env client rbd kind key subs)
      (\<lambda>s. case bindingApply (be_Fail env client) (be_BindingSSA env) (be_Marshal env) ac s of
        (Inl err, s') \<Rightarrow> (Some (msg err), s') | (Inr result, s') \<Rightarrow> (None, s')) s = (err, s')"
    and key: "binding_ac_key ac = key" and cfg: "binding_config rbd subs r ac" and owned: "at_key (bcontrolled rbd) key s"
  shows "only_at key s s'" "err = None \<Longrightarrow> bind_assumptions env rbd \<Longrightarrow> established rbd subs key r s'"
proof -
  obtain err1 s1 where clear: "rbdClearSubjectsIfEmpty env client rbd kind key subs s = (err1, s1)" by fastforce
  note c = clear_subjects [OF clear owned]
  obtain res s2 where ap: "bindingApply (be_Fail env client) (be_BindingSSA env) (be_Marshal env) ac s1 = (res, s2)"
    by fastforce
  note a = apply_binding [OF ap, unfolded key]
  have cases: "err1 \<noteq> None \<and> err \<noteq> None \<and> s' = s1 \<or> err1 = None \<and> s' = s2 \<and> (err = None \<longrightarrow> (\<exists>x. res = Inr x))"
    using run clear ap by (cases err1) (auto simp: then_do_def split: sum.splits)
  show "only_at key s s'" using cases c(1) only_at_trans [OF c(1) a(1)] by auto
  have "established rbd subs key r s2" if "err1 = None" "res = Inr x" "bind_assumptions env rbd" for x
    using a(2) [OF that(2) _ _ cfg] c(2) that unfolding established_def bind_assumptions_def by blast
  then show "established rbd subs key r s'" if "err = None" "bind_assumptions env rbd" using cases that by blast
qed

lemma ensure_cluster_binding:
  assumes "ok \<Longrightarrow> bind_assumptions env rbd"
  shows "writes ok rbd subs {(ClusterRoleBindingKey (bind_name env rbd ref), roleRefOf ''ClusterRole'' ref)}
    (rbdEnsureClusterRoleBinding env rbd subs client ref)"
proof (rule writes_one)
  let ?n = "bind_name env rbd ref"
  let ?key = "ClusterRoleBindingKey ?n"
  let ?ac = "owned_by rbd (ClusterRoleBindingWithSubjectsAndRoleRef ?n (BuildResourceLabels (bo_Labels rbd)) subs
    (roleRefOf ''ClusterRole'' ref))"
  fix s err s'
  assume run: "rbdEnsureClusterRoleBinding env rbd subs client ref s = (err, s')"
  note unfolded = run [unfolded rbdEnsureClusterRoleBinding_def Let_def, folded bind_name_def,
      unfolded rbdClearClusterRoleBindingSubjectsIfEmpty_def PatchApplyClusterRoleBindingAlways_def patchApplyBinding_def]
  show "only_at ?key s s' \<and> (s' = s \<or> at_key (bcontrolled rbd) ?key s) \<and>
      (err = None \<longrightarrow> ok \<longrightarrow> established rbd subs ?key (roleRefOf ''ClusterRole'' ref) s')"
  proof (cases "checkRestrictedBindingOwnership (bind_fail env) s (rbd_owner rbd) ''ClusterRoleBinding'' ?n ''''")
    case (Some e)
    then show ?thesis using unfolded by (auto simp: then_do_def)
  next
    case None
    note owned = check_binding(1) [OF None]
    have key: "binding_ac_key ?ac = ?key" and cfg: "binding_config rbd subs (roleRefOf ''ClusterRole'' ref) ?ac"
      by (simp_all add: binding_ac_key_def owned_by_def ClusterRoleBindingWithSubjectsAndRoleRef_def binding_config_def)
    note tail = clear_and_apply [OF _ key cfg owned]
    have "only_at ?key s s'" "err = None \<Longrightarrow> ok \<Longrightarrow> established rbd subs ?key (roleRefOf ''ClusterRole'' ref) s'"
      using tail [of env client "''ClusterRoleBinding''"] unfolded None assms by (simp_all add: then_do_def)
    then show ?thesis using owned by blast
  qed
qed

lemma ensure_role_binding:
  assumes "ok \<Longrightarrow> bind_assumptions env rbd"
  shows "writes ok rbd subs {(RoleBindingKey ns (bind_name env rbd ref), roleRefOf kind ref)}
    (rbdEnsureRoleBinding env rbd ns ref kind subs client)"
proof (rule writes_one)
  let ?n = "bind_name env rbd ref"
  let ?key = "RoleBindingKey ns ?n" and ?r = "roleRefOf kind ref"
  let ?ac = "owned_by rbd (RoleBindingWithSubjectsAndRoleRef ?n ns (BuildResourceLabels (bo_Labels rbd)) subs ?r)"
  fix s err s'
  assume run: "rbdEnsureRoleBinding env rbd ns ref kind subs client s = (err, s')"
  note unfolded = run [unfolded rbdEnsureRoleBinding_def Let_def, folded bind_name_def,
      unfolded rbdClearRoleBindingSubjectsIfEmpty_def PatchApplyRoleBindingAlways_def patchApplyBinding_def]
  show "only_at ?key s s' \<and> (s' = s \<or> at_key (bcontrolled rbd) ?key s) \<and>
      (err = None \<longrightarrow> ok \<longrightarrow> established rbd subs ?key ?r s')"
  proof (cases "checkRestrictedBindingOwnership (bind_fail env) s (rbd_owner rbd) ''RoleBinding'' ?n ns")
    case (Some e)
    then show ?thesis using unfolded by (auto simp: then_do_def)
  next
    case None
    note owned = check_binding(2) [OF None]
    obtain err1 s1 where del: "rbdDeleteOwnedRoleBindingOnRoleRefChange env rbd ns ?n ?r client s = (err1, s1)" by fastforce
    note d = delete_on_change(1) [OF del] delete_on_change(2) [OF del owned]
    have key: "binding_ac_key ?ac = ?key" and cfg: "binding_config rbd subs ?r ?ac"
      by (simp_all add: binding_ac_key_def owned_by_def RoleBindingWithSubjectsAndRoleRef_def binding_config_def)
    show ?thesis
    proof (cases err1)
      case e: (Some e)
      then show ?thesis using unfolded None del d(1) owned by (auto simp: then_do_def)
    next
      case none: None
      note tail = clear_and_apply [OF _ key cfg d(2)]
      have "only_at ?key s1 s'" "err = None \<Longrightarrow> ok \<Longrightarrow> established rbd subs ?key ?r s'"
        using tail [of env client "''RoleBinding''"] unfolded None none del assms by (simp_all add: then_do_def)
      then show ?thesis using owned only_at_trans [OF d(1)] by blast
    qed
  qed
qed

end
