(* ===== verification/Restricted_Bind_Exact.thy ===== *)
theory Restricted_Bind_Exact
  imports Restricted_Bind_Writes
begin

text \<open>
  The bindings of a RestrictedBindDefinition as a whole: the check for colliding names makes the asked
  bindings consistent, writing them is confined to them, and with pruning a successful run leaves exactly the
  bindings asked for.
\<close>

section \<open>The bindings asked for\<close>

definition cluster_wants :: "'c rbd_env \<Rightarrow> rbd_object \<Rightarrow> string \<Rightarrow> (binding_key \<times> RoleRef) set" where
  "cluster_wants env rbd ref = {(ClusterRoleBindingKey (bind_name env rbd ref), roleRefOf ''ClusterRole'' ref)}"

definition wants_in :: "'c rbd_env \<Rightarrow> rbd_object \<Rightarrow> string \<Rightarrow> string \<times> string \<Rightarrow> (binding_key \<times> RoleRef) set" where
  "wants_in env rbd ns p = {(RoleBindingKey ns (bind_name env rbd (snd p)), roleRefOf (fst p) (snd p))}"

definition targets :: "'c rbd_env \<Rightarrow> NamespaceBinding \<Rightarrow> Namespace set" where
  "targets env nb = {ns \<in> set (be_Namespaces env). entry_selects env nb ns \<and> \<not> terminating ns}"

definition entry_wants :: "'c rbd_env \<Rightarrow> rbd_object \<Rightarrow> NamespaceBinding \<Rightarrow> (binding_key \<times> RoleRef) set" where
  "entry_wants env rbd nb = (\<Union>ns \<in> targets env nb. \<Union>p \<in> set (entryRefs nb). wants_in env rbd (ns_Name ns) p)"

definition wants :: "'c rbd_env \<Rightarrow> rbd_object \<Rightarrow> (binding_key \<times> RoleRef) set" where
  "wants env rbd = (\<Union>ref \<in> set (restrictedClusterRoleRefs (rbds_ClusterRoleBindings (bo_Spec rbd))). cluster_wants env rbd ref) \<union>
     (\<Union>nb \<in> set (rbds_RoleBindings (bo_Spec rbd)). entry_wants env rbd nb)"

lemma asked_wants: "asked env rbd k r \<longleftrightarrow> (k, r) \<in> wants env rbd"
  unfolding asked_def wants_def cluster_wants_def entry_wants_def wants_in_def targets_def by fastforce

lemma resolve_targets:
  assumes "rbdResolveNamespaces env site nb = Inr nss"
  shows "{ns \<in> set nss. \<not> terminating ns} \<subseteq> targets env nb"
    and "unique_namespaces env \<Longrightarrow> {ns \<in> set nss. \<not> terminating ns} = targets env nb"
  using resolve_sound [OF assms] resolve_complete [OF assms] by (auto simp: targets_def)

section \<open>Colliding names\<close>

text \<open>The claim on a binding name is recorded for the first role, and another role is refused.\<close>

definition claimed :: "'c rbd_env \<Rightarrow> rbd_object \<Rightarrow> string \<Rightarrow> string \<times> string \<Rightarrow> (string, rbdRoleBindingNameClaim) gomap \<Rightarrow> bool" where
  "claimed env rbd ns p claims \<longleftrightarrow>
     mlookup claims (ns @ ''/'' @ bind_name env rbd (snd p)) = Some \<lparr>rbc_roleKind = fst p, rbc_roleRef = snd p\<rparr>"

definition keeps_claims :: "'c rbd_env \<Rightarrow> rbd_object \<Rightarrow> (string, rbdRoleBindingNameClaim) gomap
    \<Rightarrow> (string, rbdRoleBindingNameClaim) gomap \<Rightarrow> bool" where
  "keeps_claims env rbd c c' \<longleftrightarrow> (\<forall>ns p. claimed env rbd ns p c \<longrightarrow> claimed env rbd ns p c')"

lemma record_bind_claim:
  assumes "rbdRecordRoleBindingNameClaim env (rbds_TargetName (bo_Spec rbd)) ns kind ref claims = (None, claims')"
  shows "claimed env rbd ns (kind, ref) claims' \<and> keeps_claims env rbd claims claims'"
  using assms
  by (auto simp: rbdRecordRoleBindingNameClaim_def keeps_claims_def claimed_def bind_name_def Let_def go_maps
      split: option.splits if_splits)

text \<open>A loop whose iterations each establish something that the others keep.\<close>

lemma for_each_all:
  assumes "for_each f xs s = (None, s')" "\<And>x t t'. x \<in> set xs \<Longrightarrow> f x t = (None, t') \<Longrightarrow> Q x t' \<and> R t t'"
    and "\<And>x t t'. Q x t \<Longrightarrow> R t t' \<Longrightarrow> Q x t'" "\<And>t. R t t" "\<And>a b c. R a b \<Longrightarrow> R b c \<Longrightarrow> R a c"
  shows "(\<forall>x \<in> set xs. Q x s') \<and> R s s'"
  using assms(1, 2)
proof (induction xs arbitrary: s)
  case (Cons x xs)
  obtain t where x: "f x s = (None, t)" "for_each f xs t = (None, s')"
    using Cons.prems(1) by (auto split: prod.splits option.splits)
  have "Q x t \<and> R s t" by (rule Cons.prems(2) [OF _ x(1)]) simp
  moreover have "(\<forall>x \<in> set xs. Q x s') \<and> R t s'"
    by (rule Cons.IH [OF x(2)]) (rule Cons.prems(2), simp_all)
  ultimately show ?case using assms(3, 5) by auto
qed (use assms(4) in simp)

lemmas claims_loop = for_each_all [where R = "keeps_claims env rbd" for env rbd]

lemma keeps_claims_rules:
  "claimed env rbd ns p c \<Longrightarrow> keeps_claims env rbd c c' \<Longrightarrow> claimed env rbd ns p c'"
  "keeps_claims env rbd c c" "keeps_claims env rbd c1 c2 \<Longrightarrow> keeps_claims env rbd c2 c3 \<Longrightarrow> keeps_claims env rbd c1 c3"
  unfolding keeps_claims_def by blast+

lemma namespace_claims:
  assumes "for_each (\<lambda>(kind, ref). rbdRecordRoleBindingNameClaim env (rbds_TargetName (bo_Spec rbd)) ns kind ref) ps c = (None, c')"
  shows "(\<forall>p \<in> set ps. claimed env rbd ns p c') \<and> keeps_claims env rbd c c'"
  using assms by (rule claims_loop) (auto dest: record_bind_claim keeps_claims_rules(1) intro: keeps_claims_rules(2, 3))

lemma entry_claims:
  assumes "for_each (\<lambda>ns. for_each (\<lambda>(kind, ref). rbdRecordRoleBindingNameClaim env (rbds_TargetName (bo_Spec rbd))
      (ns_Name ns) kind ref) ps) nss c = (None, c')"
  shows "(\<forall>ns \<in> set nss. \<forall>p \<in> set ps. claimed env rbd (ns_Name ns) p c') \<and> keeps_claims env rbd c c'"
  using assms by (rule claims_loop) (auto dest: namespace_claims keeps_claims_rules(1) intro: keeps_claims_rules(2, 3))

lemma cluster_claims:
  assumes "for_each (\<lambda>ref. rbdRecordRoleBindingNameClaim env (rbds_TargetName (bo_Spec rbd)) '''' ''ClusterRole'' ref) refs c = (None, c')"
  shows "(\<forall>ref \<in> set refs. claimed env rbd '''' (''ClusterRole'', ref) c') \<and> keeps_claims env rbd c c'"
  using assms by (rule claims_loop) (auto dest: record_bind_claim keeps_claims_rules(1) intro: keeps_claims_rules(2, 3))

text \<open>The key of a claim is the key of the binding, so one claim means one role.\<close>

definition claim_space :: "binding_key \<Rightarrow> string" where
  "claim_space k = (case k of ClusterRoleBindingKey _ \<Rightarrow> '''' | RoleBindingKey ns _ \<Rightarrow> ns)"

lemma collisions_excluded:
  assumes "rbdValidateRoleBindingNameCollisions env rbd = None" "unique_namespaces env"
  shows "single_valued (wants env rbd)"
proof -
  let ?entry = "\<lambda>nb claims. case rbdResolveNamespaces env CheckingCollisions nb of
      Inl err \<Rightarrow> (Some (wrapf [Lit ''resolve namespaces for RoleBinding collision validation''] err), claims)
    | Inr nss \<Rightarrow> for_each (\<lambda>ns. for_each (\<lambda>(kind, ref). rbdRecordRoleBindingNameClaim env (rbds_TargetName (bo_Spec rbd))
        (ns_Name ns) kind ref) (entryRefs nb)) (filter (\<lambda>ns. \<not> terminating ns) nss) claims"
  let ?refs = "restrictedClusterRoleRefs (rbds_ClusterRoleBindings (bo_Spec rbd))"
  obtain c1 c2 where
    one: "for_each (\<lambda>ref. rbdRecordRoleBindingNameClaim env (rbds_TargetName (bo_Spec rbd)) '''' ''ClusterRole'' ref)
      ?refs [] = (None, c1)" and two: "for_each ?entry (rbds_RoleBindings (bo_Spec rbd)) c1 = (None, c2)"
    using assms(1) unfolding rbdValidateRoleBindingNameCollisions_def Let_def
    by (auto split: prod.splits option.splits simp: fst_def)
  have "(\<forall>nb \<in> set (rbds_RoleBindings (bo_Spec rbd)). \<forall>ns \<in> targets env nb. \<forall>p \<in> set (entryRefs nb).
      claimed env rbd (ns_Name ns) p c2) \<and> keeps_claims env rbd c1 c2"
    using two
  proof (rule claims_loop)
    fix nb t t'
    assume step: "?entry nb t = (None, t')"
    then obtain nss where nss: "rbdResolveNamespaces env CheckingCollisions nb = Inr nss"
      by (auto split: sum.splits)
    have "set (filter (\<lambda>ns. \<not> terminating ns) nss) = targets env nb"
      using resolve_targets(2) [OF nss assms(2)] by auto
    then show "(\<forall>ns \<in> targets env nb. \<forall>p \<in> set (entryRefs nb). claimed env rbd (ns_Name ns) p t') \<and> keeps_claims env rbd t t'"
      using entry_claims [of env rbd "entryRefs nb"] step nss by auto
  qed (auto intro: keeps_claims_rules)
  moreover from this have "\<forall>ref \<in> set ?refs. claimed env rbd '''' (''ClusterRole'', ref) c2"
    using cluster_claims [OF one] keeps_claims_rules(1) by blast
  ultimately have all: "claimed env rbd (claim_space k) (rref_Kind r, rref_Name r) c2 \<and> r = roleRefOf (rref_Kind r) (rref_Name r) \<and>
      (k = ClusterRoleBindingKey (bind_name env rbd (rref_Name r)) \<or>
       k = RoleBindingKey (claim_space k) (bind_name env rbd (rref_Name r)))" if "(k, r) \<in> wants env rbd" for k r
    using that unfolding wants_def cluster_wants_def entry_wants_def wants_in_def
    by (auto simp: claim_space_def roleRefOf_def)
  show ?thesis
  proof (rule single_valuedI)
    fix k r r'
    assume r: "(k, r) \<in> wants env rbd" "(k, r') \<in> wants env rbd"
    have "bind_name env rbd (rref_Name r) = bind_name env rbd (rref_Name r')"
      using all [OF r(1)] all [OF r(2)] by (metis binding_key.distinct(1) binding_key.inject)
    then show "r = r'" using all [OF r(1)] all [OF r(2)] by (auto simp: claimed_def)
  qed
qed

section \<open>Writing all bindings\<close>

lemma writes_weaken:
  assumes "writes ok rbd subs K' f" "K' \<subseteq> K" "ok \<Longrightarrow> K' = K"
  shows "writes ok rbd subs K f"
  using assms image_mono [OF assms(2), of fst] unfolding writes_def by blast

lemma wants_in_subset: "ns \<in> targets env nb \<Longrightarrow> p \<in> set (entryRefs nb) \<Longrightarrow> wants_in env rbd (ns_Name ns) p \<subseteq> entry_wants env rbd nb"
  unfolding entry_wants_def by blast

lemma ensure_entry:
  assumes "ok \<Longrightarrow> bind_assumptions env rbd" "ok \<Longrightarrow> single_valued (entry_wants env rbd nb)"
  shows "writes ok rbd subs (entry_wants env rbd nb) (rbdEnsureEntry env rbd subs client nb)"
proof (cases "rbdResolveNamespaces env EnsuringBindings nb")
  case (Inl e)
  then show ?thesis by (simp add: writes_def rbdEnsureEntry_def)
next
  case (Inr nss)
  let ?nss = "filter (\<lambda>ns. \<not> terminating ns) nss"
  let ?K = "\<lambda>ns. \<Union>p \<in> set (entryRefs nb). wants_in env rbd (ns_Name ns) p"
  have sub: "(\<Union>ns \<in> set ?nss. ?K ns) \<subseteq> entry_wants env rbd nb"
    using resolve_targets(1) [OF Inr] wants_in_subset by fastforce
  have sv: "single_valued K'" if ok "K' \<subseteq> (\<Union>ns \<in> set ?nss. ?K ns)" for K'
    using assms(2) [OF that(1)] subset_trans [OF that(2) sub] by (rule single_valued_subset [rotated])
  have one: "writes ok rbd subs (wants_in env rbd (ns_Name ns) p)
      ((\<lambda>(kind, ref). rbdEnsureRoleBinding env rbd (ns_Name ns) ref kind subs client) p)" for ns p
    unfolding wants_in_def case_prod_beta by (rule ensure_role_binding [OF assms(1)])
  have "writes ok rbd subs (\<Union>ns \<in> set ?nss. ?K ns) (for_each (\<lambda>ns. for_each
      (\<lambda>(kind, ref). rbdEnsureRoleBinding env rbd (ns_Name ns) ref kind subs client) (entryRefs nb)) ?nss)"
  proof (rule writes_each)
    fix ns
    assume "ns \<in> set ?nss"
    then show "writes ok rbd subs (?K ns) (for_each
        (\<lambda>(kind, ref). rbdEnsureRoleBinding env rbd (ns_Name ns) ref kind subs client) (entryRefs nb))"
      by (intro writes_each one sv UN_upper)
  qed (rule sv [OF _ subset_refl])
  moreover have "rbdEnsureEntry env rbd subs client nb = for_each (\<lambda>ns. for_each
      (\<lambda>(kind, ref). rbdEnsureRoleBinding env rbd (ns_Name ns) ref kind subs client) (entryRefs nb)) ?nss"
    by (intro ext) (simp add: rbdEnsureEntry_def Inr)
  moreover have "(\<Union>ns \<in> set ?nss. ?K ns) = entry_wants env rbd nb" if ok
    using resolve_targets(2) [OF Inr] assms(1) [OF that] by (simp add: entry_wants_def bind_assumptions_def)
  ultimately show ?thesis using sub by (simp add: writes_weaken)
qed

definition writeBindings :: "'c rbd_env \<Rightarrow> rbd_object \<Rightarrow> Subject list \<Rightarrow> 'c apply_client \<Rightarrow> binding_store \<Rightarrow> go_error option \<times> binding_store" where
  "writeBindings env rbd subs client =
     then_do (for_each (rbdEnsureClusterRoleBinding env rbd subs client)
       (restrictedClusterRoleRefs (rbds_ClusterRoleBindings (bo_Spec rbd))))
     (for_each (rbdEnsureEntry env rbd subs client) (rbds_RoleBindings (bo_Spec rbd)))"

lemma write_bindings:
  assumes "ok \<Longrightarrow> bind_assumptions env rbd" "ok \<Longrightarrow> single_valued (wants env rbd)"
  shows "writes ok rbd subs (wants env rbd) (writeBindings env rbd subs client)"
proof -
  have sv: "single_valued K" if ok "K \<subseteq> wants env rbd" for K
    using assms(2) [OF that(1)] that(2) by (rule single_valued_subset [rotated])
  have "writes ok rbd subs (cluster_wants env rbd ref) (rbdEnsureClusterRoleBinding env rbd subs client ref)" for ref
    unfolding cluster_wants_def by (rule ensure_cluster_binding [OF assms(1)])
  then show ?thesis
    unfolding writeBindings_def wants_def
    by (intro writes_then writes_each ensure_entry assms(1) sv) (auto simp: wants_def)
qed

section \<open>Desired names\<close>

lemma entryKeys_set:
  "set (entryKeys env rbd nb nss) = bindingText ` fst ` (\<Union>ns \<in> {ns \<in> set nss. \<not> terminating ns}.
     \<Union>p \<in> set (entryRefs nb). wants_in env rbd (ns_Name ns) p)"
  by (simp add: entryKeys_def entryRefs_def wants_in_def bindingText_def bind_name_def image_UN image_Un image_image
      UNION_singleton_eq_range)

lemma desired_loop:
  assumes "for_each (\<lambda>nb acc. case rbdResolveNamespaces env DesiredKeys nb of
      Inl err \<Rightarrow> (Some (f err), acc) | Inr nss \<Rightarrow> (None, acc @ entryKeys env rbd nb nss)) nbs acc = (None, keys)"
  shows "set keys \<subseteq> set acc \<union> bindingText ` fst ` (\<Union>nb \<in> set nbs. entry_wants env rbd nb) \<and> set acc \<subseteq> set keys \<and>
    (unique_namespaces env \<longrightarrow> bindingText ` fst ` (\<Union>nb \<in> set nbs. entry_wants env rbd nb) \<subseteq> set keys)"
  using assms
proof (induction nbs arbitrary: acc)
  case (Cons nb nbs)
  obtain nss where nss: "rbdResolveNamespaces env DesiredKeys nb = Inr nss"
    using Cons.prems by (auto split: sum.splits)
  have keys: "set (entryKeys env rbd nb nss) \<subseteq> bindingText ` fst ` entry_wants env rbd nb"
    unfolding entryKeys_set entry_wants_def by (intro image_mono UN_mono subset_refl resolve_targets(1) [OF nss])
  have exact: "set (entryKeys env rbd nb nss) = bindingText ` fst ` entry_wants env rbd nb" if "unique_namespaces env"
    unfolding entryKeys_set entry_wants_def resolve_targets(2) [OF nss that] ..
  define rest where "rest = bindingText ` fst ` (\<Union>nb \<in> set nbs. entry_wants env rbd nb)"
  define now where "now = bindingText ` fst ` entry_wants env rbd nb"
  have all: "bindingText ` fst ` (\<Union>nb \<in> set (nb # nbs). entry_wants env rbd nb) = now \<union> rest"
    by (simp add: image_Un now_def rest_def)
  have IH: "set keys \<subseteq> set acc \<union> set (entryKeys env rbd nb nss) \<union> rest" "set acc \<union> set (entryKeys env rbd nb nss) \<subseteq> set keys"
      "unique_namespaces env \<longrightarrow> rest \<subseteq> set keys"
    using Cons.IH [of "acc @ entryKeys env rbd nb nss"] Cons.prems nss by (simp_all add: rest_def)
  show ?case unfolding all using IH keys exact unfolding now_def [symmetric] by (intro conjI impI) auto
qed simp

lemma wants_kind:
  "{x \<in> wants env rbd. isClusterKey (fst x)} =
     (\<Union>ref \<in> set (restrictedClusterRoleRefs (rbds_ClusterRoleBindings (bo_Spec rbd))). cluster_wants env rbd ref)"
  "{x \<in> wants env rbd. \<not> isClusterKey (fst x)} = (\<Union>nb \<in> set (rbds_RoleBindings (bo_Spec rbd)). entry_wants env rbd nb)"
  by (auto simp: wants_def cluster_wants_def entry_wants_def wants_in_def isClusterKey_def)

lemma desired_keys:
  assumes "rbdDesiredBindingKeys env rbd = Inr (crbs, rbs)"
  shows "set crbs = bindingText ` fst ` {x \<in> wants env rbd. isClusterKey (fst x)}"
    and "set rbs \<subseteq> bindingText ` fst ` {x \<in> wants env rbd. \<not> isClusterKey (fst x)}"
    and "unique_namespaces env \<Longrightarrow> set rbs = bindingText ` fst ` {x \<in> wants env rbd. \<not> isClusterKey (fst x)}"
proof -
  have "for_each (\<lambda>nb acc. case rbdResolveNamespaces env DesiredKeys nb of
      Inl err \<Rightarrow> (Some (wrapf [Lit ''resolve namespaces for desired RoleBindings''] err), acc)
    | Inr nss \<Rightarrow> (None, acc @ entryKeys env rbd nb nss)) (rbds_RoleBindings (bo_Spec rbd)) [] = (None, rbs)"
    using assms by (auto simp: rbdDesiredBindingKeys_def Let_def split: prod.splits option.splits)
  note loop = desired_loop [OF this]
  show "set crbs = bindingText ` fst ` {x \<in> wants env rbd. isClusterKey (fst x)}"
    using assms unfolding wants_kind
    by (auto simp: rbdDesiredBindingKeys_def Let_def cluster_wants_def bindingText_def bind_name_def image_UN
        split: prod.splits option.splits)
  show "set rbs \<subseteq> bindingText ` fst ` {x \<in> wants env rbd. \<not> isClusterKey (fst x)}"
    using loop unfolding wants_kind by simp
  show "set rbs = bindingText ` fst ` {x \<in> wants env rbd. \<not> isClusterKey (fst x)}" if "unique_namespaces env"
    using loop that unfolding wants_kind by (intro subset_antisym) simp_all
qed

section \<open>Reconciling the bindings\<close>

lemma writes_confined:
  assumes "writes ok rbd subs (wants env rbd) f" "f s = (err, s')"
  shows "bconfined env rbd s s'"
proof -
  note step = writesD [OF assms]
  have "map_of s' k = map_of s k" if "\<nexists>r. asked env rbd k r" for k
    using step(2) that by (force simp: asked_wants)
  then show ?thesis using step(1, 3) unfolding bconfined_def by simp
qed

text \<open>Names tell keys apart when namespaces have no slash, which the API server guarantees.\<close>

definition plain_key :: "binding_key \<Rightarrow> bool" where
  "plain_key k = (case k of ClusterRoleBindingKey _ \<Rightarrow> True | RoleBindingKey ns _ \<Rightarrow> CHR ''/'' \<notin> set ns)"

lemma bindingText_inj:
  "plain_key k \<Longrightarrow> plain_key k' \<Longrightarrow> isClusterKey k = isClusterKey k' \<Longrightarrow> bindingText k = bindingText k' \<Longrightarrow> k = k'"
  by (cases k; cases k') (auto simp: plain_key_def isClusterKey_def bindingText_def append_eq_append_conv2 append_eq_Cons_conv
      Cons_eq_append_conv)

lemma stale_iff:
  assumes "rbdDesiredBindingKeys env rbd = Inr (crbs, rbs)" "unique_namespaces env"
  shows "stale rbd crbs rbs k b \<longleftrightarrow> bcontrolled rbd b \<and>
    (\<nexists>k' r. asked env rbd k' r \<and> isClusterKey k' = isClusterKey k \<and> bindingText k' = bindingText k)"
proof -
  have "set (if isClusterKey k then crbs else rbs) = bindingText ` fst ` {x \<in> wants env rbd. isClusterKey (fst x) = isClusterKey k}"
    using desired_keys(1) [OF assms(1)] desired_keys(3) [OF assms] by simp
  then show ?thesis unfolding stale_def asked_wants by (simp add: image_iff) metis
qed

lemma reconcile_bindings_cases:
  assumes "rbdReconcileBindings env rbd subs client s = (err, s')"
  obtains (failed) "s' = s" "err \<noteq> None"
  | (pruned) crbs rbs s2 perr where "rbdDesiredBindingKeys env rbd = Inr (crbs, rbs)" "bconfined env rbd s s2"
      "rbdPruneStaleResources env rbd crbs rbs s2 = (perr, s')"
      "err = None \<Longrightarrow> perr = None \<and> rbdValidateRoleBindingNameCollisions env rbd = None \<and>
         writeBindings env rbd subs client s = (None, s2)"
proof (cases "rbdDesiredBindingKeys env rbd")
  case (Inl e)
  then show ?thesis using assms failed by (auto simp: rbdReconcileBindings_def)
next
  case (Inr keys)
  obtain crbs rbs where keys: "keys = (crbs, rbs)" by fastforce
  note unfolded = assms [unfolded rbdReconcileBindings_def, folded writeBindings_def, unfolded Inr keys]
  show ?thesis
  proof (cases "rbdValidateRoleBindingNameCollisions env rbd")
    case (Some e)
    obtain perr s2 where prune: "rbdPruneStaleResources env rbd crbs rbs s = (perr, s2)" by fastforce
    have "s2 = s' \<and> err \<noteq> None" using unfolded [unfolded Some] prune by (cases perr) (auto simp: then_do_def)
    with prune show ?thesis using Inr keys by (intro pruned) auto
  next
    case None
    obtain werr s1 where wr: "writeBindings env rbd subs client s = (werr, s1)" by fastforce
    have conf: "bconfined env rbd s s1"
      by (rule writes_confined [OF write_bindings [where ok = False] wr]) simp_all
    obtain perr where "rbdPruneStaleResources env rbd crbs rbs s1 = (perr, s')" "err = None \<longrightarrow> perr = None \<and> werr = None"
      using unfolded None wr by (auto simp: then_do_def split: prod.splits option.splits)
    then show ?thesis using Inr keys conf wr None pruned [of crbs rbs s1 perr] by simp
  qed
qed

lemma reconcile_bindings_confined:
  assumes "rbdReconcileBindings env rbd subs client s = (err, s')"
  shows "bconfined env rbd s s'"
  using assms
proof (cases rule: reconcile_bindings_cases)
  case (pruned crbs rbs s2 perr)
  have "bconfined env rbd s2 s'"
    by (rule swept_bconfined [OF conjunct1 [OF prune_bindings [OF pruned(3)]]]) (simp add: stale_def)
  then show ?thesis by (rule bconfined_trans [OF pruned(2)])
qed simp

lemma reconcile_bindings_exact:
  assumes "rbdReconcileBindings env rbd subs client s = (None, s')" "unique_namespaces env" "mwf s"
  shows "bind_assumptions env rbd \<Longrightarrow> asked env rbd k r \<Longrightarrow> established rbd subs k r s'"
    and "map_of s' k = Some b \<Longrightarrow> bcontrolled rbd b \<Longrightarrow>
      \<exists>k' r. asked env rbd k' r \<and> isClusterKey k' = isClusterKey k \<and> bindingText k' = bindingText k"
proof -
  from assms(1) obtain crbs rbs s2 where keys: "rbdDesiredBindingKeys env rbd = Inr (crbs, rbs)"
    and pr: "rbdPruneStaleResources env rbd crbs rbs s2 = (None, s')"
    and ok: "rbdValidateRoleBindingNameCollisions env rbd = None" and wr: "writeBindings env rbd subs client s = (None, s2)"
    by (cases rule: reconcile_bindings_cases) auto
  note prune = prune_bindings [OF pr] and stale = stale_iff [OF keys assms(2)]
  show "\<exists>k' r. asked env rbd k' r \<and> isClusterKey k' = isClusterKey k \<and> bindingText k' = bindingText k"
    if "map_of s' k = Some b" "bcontrolled rbd b"
    using goneD [of "stale rbd crbs rbs" s' k b] prune that by (simp add: stale)
  assume a: "bind_assumptions env rbd" "asked env rbd k r"
  have w: "writes True rbd subs (wants env rbd) (writeBindings env rbd subs client)"
    by (rule write_bindings) (use a(1) collisions_excluded [OF ok assms(2)] in simp_all)
  note written = writesD [OF w wr]
  have "established rbd subs k r s2" using written(4) a(2) by (simp add: asked_wants)
  then obtain b where b: "map_of s2 k = Some b" "bound rbd subs r b" by (auto simp: established_def)
  have "\<not> stale rbd crbs rbs k b" using a(2) by (auto simp: stale)
  then have "map_of s' k = Some b" using prune b(1) written(1) assms(3) by (simp add: swept_def)
  then show "established rbd subs k r s'" using b(2) by (auto simp: established_def)
qed

end
