(* ===== verification/Restricted_Bind_Roles.thy ===== *)
theory Restricted_Bind_Roles
  imports Restricted_Bind_Exact
begin

text \<open>
  The validation of the role references of a RestrictedBindDefinition, with its caches of known roles,
  against the direct question whether every referenced role exists.
\<close>

section \<open>Referenced roles\<close>

definition cluster_role_exists :: "'c rbd_env \<Rightarrow> string \<Rightarrow> bool" where
  "cluster_role_exists env ref \<longleftrightarrow> be_Roles env (ClusterRoleKey ref) \<noteq> None"

definition role_exists :: "'c rbd_env \<Rightarrow> string \<Rightarrow> string \<Rightarrow> bool" where
  "role_exists env ns ref \<longleftrightarrow> be_Roles env (RoleKey ns ref) \<noteq> None"

definition entry_roles_exist :: "'c rbd_env \<Rightarrow> NamespaceBinding \<Rightarrow> bool" where
  "entry_roles_exist env nb \<longleftrightarrow> (\<forall>ref \<in> set (nb_ClusterRoleRefs nb). cluster_role_exists env ref) \<and>
     (\<forall>ref \<in> set (nb_RoleRefs nb). \<forall>ns \<in> targets env nb. role_exists env (ns_Name ns) ref)"

definition roles_exist :: "'c rbd_env \<Rightarrow> rbd_object \<Rightarrow> bool" where
  "roles_exist env rbd \<longleftrightarrow>
     (\<forall>ref \<in> set (restrictedClusterRoleRefs (rbds_ClusterRoleBindings (bo_Spec rbd))). cluster_role_exists env ref) \<and>
     (\<forall>nb \<in> set (rbds_RoleBindings (bo_Spec rbd)). entry_roles_exist env nb)"

definition plain_namespaces :: "'c rbd_env \<Rightarrow> bool" where
  "plain_namespaces env \<longleftrightarrow> (\<forall>ns \<in> set (be_Namespaces env). CHR ''/'' \<notin> set (ns_Name ns))"

section \<open>Caches\<close>

text \<open>Every answer in the caches is right; the key of a Role is read back since namespaces have no slash.\<close>

definition caches_right :: "'c rbd_env \<Rightarrow> role_findings \<Rightarrow> bool" where
  "caches_right env f \<longleftrightarrow>
     (\<forall>ref e. mlookup (rf_ClusterRoles f) ref = Some e \<longrightarrow> e = cluster_role_exists env ref) \<and>
     (\<forall>ns ref e. CHR ''/'' \<notin> set ns \<longrightarrow> mlookup (rf_Roles f) (ns @ ''/'' @ ref) = Some e \<longrightarrow> e = role_exists env ns ref)"

lemma slash_split:
  "CHR ''/'' \<notin> set a \<Longrightarrow> CHR ''/'' \<notin> set b \<Longrightarrow> a @ CHR ''/'' # x = b @ CHR ''/'' # y \<longleftrightarrow> a = b \<and> x = y"
  by (auto simp: append_eq_append_conv2 append_eq_Cons_conv Cons_eq_append_conv)

text \<open>
  What a check of something leaves of the findings: the caches stay right, what is missing stays so, and
  something new is missing exactly when the checked roles do not all exist.
\<close>

definition checks :: "'c rbd_env \<Rightarrow> bool \<Rightarrow> role_findings \<Rightarrow> role_findings \<Rightarrow> bool" where
  "checks env present f f' \<longleftrightarrow> (caches_right env f \<longrightarrow> caches_right env f' \<and> (rf_Missing f' = [] \<longleftrightarrow> rf_Missing f = [] \<and> present))"

lemma checks_refl: "checks env True f f"
  by (simp add: checks_def)

lemma checks_trans: "checks env a f f1 \<Longrightarrow> checks env b f1 f2 \<Longrightarrow> checks env (a \<and> b) f f2"
  by (auto simp: checks_def)

lemma checks_each:
  assumes "for_each g xs f = (None, f')" "\<And>x t t'. x \<in> set xs \<Longrightarrow> g x t = (None, t') \<Longrightarrow> checks env (P x) t t'"
  shows "checks env (\<forall>x \<in> set xs. P x) f f'"
  using assms
proof (induction xs arbitrary: f)
  case (Cons x xs)
  obtain t where x: "g x f = (None, t)" "for_each g xs t = (None, f')"
    using Cons.prems(1) by (auto split: prod.splits option.splits)
  have one: "checks env (P x) f t" by (rule Cons.prems(2) [OF _ x(1)]) simp
  have "checks env (\<forall>x \<in> set xs. P x) t f'" by (rule Cons.IH [OF x(2)]) (rule Cons.prems(2), simp_all)
  then show ?case using checks_trans [OF one] by simp
qed (simp add: checks_refl)

lemma insert_nonempty [simp]: "List.insert x xs \<noteq> []"
  by (auto simp: List.insert_def)

lemma find_cluster_role:
  assumes "findClusterRole env ref f = (None, f')"
  shows "checks env (cluster_role_exists env ref) f f'"
proof -
  obtain e cache where c: "clusterRoleExists env ref (rf_ClusterRoles f) = (Inr e, cache)"
    and f': "f' = f\<lparr>rf_ClusterRoles := cache,
      rf_Missing := if e then rf_Missing f else List.insert (''ClusterRole/'' @ ref) (rf_Missing f)\<rparr>"
    using assms by (auto simp: findClusterRole_def split: prod.splits sum.splits)
  have e: "e = cluster_role_exists env ref" if "caches_right env f"
    using c that
    by (auto simp: clusterRoleExists_def caches_right_def cluster_role_exists_def
        dest: server_read_Got server_read_Missing split: option.splits read.splits)
  have "mlookup cache r = (if r = ref then Some e else mlookup (rf_ClusterRoles f) r)" for r
    using c by (auto simp: clusterRoleExists_def go_maps split: option.splits read.splits)
  then show ?thesis using e by (auto simp: checks_def caches_right_def f')
qed

lemma find_role:
  assumes "findRole env ns ref f = (None, f')" "CHR ''/'' \<notin> set ns"
  shows "checks env (role_exists env ns ref) f f'"
proof -
  obtain e cache where c: "roleExists env ns ref (rf_Roles f) = (Inr e, cache)"
    and f': "f' = f\<lparr>rf_Roles := cache,
      rf_Missing := if e then rf_Missing f else List.insert (''Role/'' @ ns @ ''/'' @ ref) (rf_Missing f)\<rparr>"
    using assms by (auto simp: findRole_def split: prod.splits sum.splits)
  have e: "e = role_exists env ns ref" if "caches_right env f"
    using c that assms(2)
    by (auto simp: roleExists_def caches_right_def role_exists_def Let_def
        dest: server_read_Got server_read_Missing split: option.splits read.splits)
  have "mlookup cache k = (if k = ns @ ''/'' @ ref then Some e else mlookup (rf_Roles f) k)" for k
    using c by (auto simp: roleExists_def Let_def go_maps split: option.splits read.splits)
  then show ?thesis using e assms(2) by (auto simp: checks_def caches_right_def f' slash_split)
qed

lemma find_binding_roles:
  assumes "findBindingRoles env nb f = (None, f')" "unique_namespaces env" "plain_namespaces env"
  shows "checks env (entry_roles_exist env nb) f f'"
proof -
  obtain f1 nss where one: "for_each (findClusterRole env) (nb_ClusterRoleRefs nb) f = (None, f1)"
    and nss: "rbdResolveNamespaces env ValidatingRefs nb = Inr nss"
    and two: "for_each (\<lambda>ref. for_each (\<lambda>ns f. if terminating ns then (None, f) else findRole env (ns_Name ns) ref f) nss)
      (nb_RoleRefs nb) f1 = (None, f')"
    using assms(1) by (auto simp: findBindingRoles_def split: prod.splits option.splits sum.splits)
  have cl: "checks env (\<forall>ref \<in> set (nb_ClusterRoleRefs nb). cluster_role_exists env ref) f f1"
    by (rule checks_each [OF one]) (rule find_cluster_role)
  have ro: "checks env (\<forall>ref \<in> set (nb_RoleRefs nb). \<forall>ns \<in> set nss. \<not> terminating ns \<longrightarrow> role_exists env (ns_Name ns) ref) f1 f'"
  proof (rule checks_each [OF two])
    fix ref t t'
    assume step: "for_each (\<lambda>ns f. if terminating ns then (None, f) else findRole env (ns_Name ns) ref f) nss t = (None, t')"
    show "checks env (\<forall>ns \<in> set nss. \<not> terminating ns \<longrightarrow> role_exists env (ns_Name ns) ref) t t'"
    proof (rule checks_each [OF step])
      fix ns u u'
      assume ns: "ns \<in> set nss" "(if terminating ns then (None, u) else findRole env (ns_Name ns) ref u) = (None, u')"
      have "CHR ''/'' \<notin> set (ns_Name ns)" using resolve_sound(1) [OF nss ns(1)] assms(3) by (simp add: plain_namespaces_def)
      then show "checks env (\<not> terminating ns \<longrightarrow> role_exists env (ns_Name ns) ref) u u'"
        using ns(2) find_role checks_refl by (auto split: if_splits)
    qed
  qed
  have "(\<forall>ref \<in> set (nb_RoleRefs nb). \<forall>ns \<in> set nss. \<not> terminating ns \<longrightarrow> role_exists env (ns_Name ns) ref) \<longleftrightarrow>
      (\<forall>ref \<in> set (nb_RoleRefs nb). \<forall>ns \<in> targets env nb. role_exists env (ns_Name ns) ref)"
    unfolding resolve_targets(2) [OF nss assms(2), symmetric] by blast
  then show ?thesis unfolding entry_roles_exist_def using checks_trans [OF cl ro] by simp
qed

text \<open>The validation answers the question.\<close>

lemma validate_roles:
  assumes "rbdValidateRoleReferences env rbd = Inr missing" "unique_namespaces env" "plain_namespaces env"
  shows "missing = [] \<longleftrightarrow> roles_exist env rbd"
proof -
  let ?f0 = "\<lparr>rf_ClusterRoles = [], rf_Roles = [], rf_Missing = []\<rparr>"
  obtain f f1 where one: "for_each (findClusterRole env)
      (restrictedClusterRoleRefs (rbds_ClusterRoleBindings (bo_Spec rbd))) ?f0 = (None, f)"
    and two: "for_each (findBindingRoles env) (rbds_RoleBindings (bo_Spec rbd)) f = (None, f1)"
    and missing: "missing = sort (rf_Missing f1)"
    using assms(1) by (auto simp: rbdValidateRoleReferences_def split: prod.splits option.splits)
  have "checks env (\<forall>ref \<in> set (restrictedClusterRoleRefs (rbds_ClusterRoleBindings (bo_Spec rbd))).
      cluster_role_exists env ref) ?f0 f"
    by (rule checks_each [OF one]) (rule find_cluster_role)
  moreover have "checks env (\<forall>nb \<in> set (rbds_RoleBindings (bo_Spec rbd)). entry_roles_exist env nb) f f1"
    by (rule checks_each [OF two]) (rule find_binding_roles [OF _ assms(2, 3)])
  ultimately have "checks env (roles_exist env rbd) ?f0 f1" unfolding roles_exist_def by (rule checks_trans)
  then have "rf_Missing f1 = [] \<longleftrightarrow> roles_exist env rbd" by (simp add: checks_def caches_right_def)
  moreover have "missing = [] \<longleftrightarrow> rf_Missing f1 = []" unfolding missing by (metis length_0_conv length_sort)
  ultimately show ?thesis by simp
qed

end
