(* ===== verification/Restricted_Bind_Laws.thy ===== *)
theory Restricted_Bind_Laws
  imports Restricted_Bind_Roles
begin

text \<open>
  The laws of the RestrictedBindDefinition reconciler: what each part of a reconciliation does, up to the whole
  of it, against the abstract specification of the bindings a definition is meant to have.
\<close>

section \<open>What a definition is meant to have\<close>

text \<open>Its policy exists, is not being deleted and is satisfied, and every referenced role exists.\<close>

definition compliant :: "'c rbd_env \<Rightarrow> rbd_object \<Rightarrow> bool" where
  "compliant env obj \<longleftrightarrow> (\<exists>policy. be_Policies env (rbds_PolicyRef (bo_Spec obj)) = Some (policy, False) \<and>
     EvaluateBindDefinition (be_AsSelector env) (Some policy) (Some (bo_Definition obj)) (Some (bind_labels env)) = [])"

definition provisionable :: "'c rbd_env \<Rightarrow> rbd_object \<Rightarrow> bool" where
  "provisionable env obj \<longleftrightarrow> compliant env obj \<and> roles_exist env obj"

text \<open>The role and the subjects of a binding under the definition's control.\<close>

definition granted_at :: "rbd_object \<Rightarrow> binding_store \<Rightarrow> binding_key \<Rightarrow> (RoleRef \<times> Subject multiset) option" where
  "granted_at obj s k =
     (case map_of s k of
        None \<Rightarrow> None
      | Some b \<Rightarrow> if bcontrolled obj b then Some (bnd_RoleRef b, mset (bnd_Subjects b)) else None)"

definition provisioned :: "'c rbd_env \<Rightarrow> rbd_object \<Rightarrow> binding_store \<Rightarrow> bool" where
  "provisioned env obj s \<longleftrightarrow> (\<exists>eff. effective_for obj eff \<and>
     (\<forall>k r subs. granted_at obj s k = Some (r, subs) \<longleftrightarrow> asked env obj k r \<and> subs = image_mset live_subject (mset eff)))"

text \<open>What is assumed of the cluster: its API server, and names as Kubernetes has them.\<close>

definition sound_cluster :: "'c rbd_env \<Rightarrow> rbd_object \<Rightarrow> binding_store \<Rightarrow> bool" where
  "sound_cluster env obj s \<longleftrightarrow> binding_merges (be_BindingSSA env) \<and> identified obj \<and> unique_namespaces env \<and>
     plain_namespaces env \<and> mwf s \<and> (\<forall>k \<in> fst ` set s. plain_key k)"

lemma same_effective: "same_bind a b \<Longrightarrow> effective_for a eff = effective_for b eff"
  by (simp add: effective_for_def same_bind_def)

lemma same_provisioned:
  assumes "same_bind a b"
  shows "provisioned env a s = provisioned env b s" "provisionable env a = provisionable env b"
    "sound_cluster env a s = sound_cluster env b s"
proof -
  have "granted_at a s = granted_at b s" for s
    by (intro ext) (simp only: granted_at_def same_bcontrolled [OF assms])
  then show "provisioned env a s = provisioned env b s"
    using same_effective [OF assms] same_asked [OF assms, of env] by (simp add: provisioned_def)
qed (use assms in \<open>simp_all add: provisionable_def compliant_def roles_exist_def sound_cluster_def
      identified_def same_bind_def\<close>)

lemma asked_plain: "plain_namespaces env \<Longrightarrow> asked env obj k r \<Longrightarrow> plain_key k"
  by (auto simp: asked_def plain_key_def plain_namespaces_def)

text \<open>Reconciling the bindings provisions the definition.\<close>

lemma bindings_provisioned:
  assumes "rbdReconcileBindings env rbd eff client s = (None, s')" "effective_for rbd eff" "sound_cluster env rbd s"
  shows "provisioned env rbd s'"
proof -
  note sound = assms(3) [unfolded sound_cluster_def]
  have bind: "bind_assumptions env rbd" using sound by (simp add: bind_assumptions_def)
  note exact = reconcile_bindings_exact [OF assms(1)] and conf = reconcile_bindings_confined [OF assms(1)]
  have there: "established rbd eff k r s'" if "asked env rbd k r" for k r
    using exact(1) [OF _ _ bind that] sound by blast
  have asked: "\<exists>r. asked env rbd k r" if b: "map_of s' k = Some b" "bcontrolled rbd b" for k b
  proof (rule ccontr)
    assume none: "\<nexists>r. asked env rbd k r"
    then have "map_of s k = Some b" using conf sound b(1) unfolding bconfined_def by (metis option.distinct(1))
    then have "plain_key k" using sound by (force dest: map_of_SomeD)
    moreover obtain k' r where k': "asked env rbd k' r" "isClusterKey k' = isClusterKey k" "bindingText k' = bindingText k"
      using exact(2) [OF _ _ b] sound by blast
    moreover have "plain_key k'" using asked_plain [OF _ k'(1)] sound by blast
    ultimately have "k' = k" by (intro bindingText_inj) simp_all
    then show False using k'(1) none by blast
  qed
  have "granted_at rbd s' k = Some (r, subs) \<longleftrightarrow> asked env rbd k r \<and> subs = image_mset live_subject (mset eff)" for k r subs
  proof
    assume g: "granted_at rbd s' k = Some (r, subs)"
    then obtain b where b: "map_of s' k = Some b" "bcontrolled rbd b" "bnd_RoleRef b = r" "mset (bnd_Subjects b) = subs"
      by (auto simp: granted_at_def split: option.splits if_splits)
    obtain r' where r': "asked env rbd k r'" using asked [OF b(1, 2)] by blast
    then show "asked env rbd k r \<and> subs = image_mset live_subject (mset eff)"
      using there [OF r'] b by (auto simp: established_def bound_def)
  next
    assume "asked env rbd k r \<and> subs = image_mset live_subject (mset eff)"
    then show "granted_at rbd s' k = Some (r, subs)"
      using there [of k r] by (auto simp: established_def bound_def granted_at_def)
  qed
  then show ?thesis using assms(2) unfolding provisioned_def by blast
qed

section \<open>The stored status\<close>

definition bind_status_keeps :: "(rbd_status \<Rightarrow> rbd_status \<Rightarrow> rbd_status) \<Rightarrow> bool" where
  "bind_status_keeps f \<longleftrightarrow> (\<forall>stored desired. restrictedBindDefinitionStatusEqual (f stored desired) desired)"

definition bind_reports :: "bool \<Rightarrow> 'c rbd_world \<Rightarrow> bool" where
  "bind_reports b w = (case bw_Object w of None \<Rightarrow> False | Some obj \<Rightarrow> bs_BindReconciled (bo_Status obj) = b)"

lemma bind_status_reports:
  assumes "ApplyRestrictedBindDefinitionStatus env obj w = (None, w')" "bs_BindReconciled (bo_Status obj) = b"
  shows "bind_status_keeps (be_StatusApply env) \<longrightarrow> bind_reports b w'"
proof (cases "server_read (bind_fail env) BindStatusGet (bw_Object w)")
  case (Got stored)
  then show ?thesis
    using assms server_read_Got [OF Got]
    by (auto simp: ApplyRestrictedBindDefinitionStatus_def bind_status_keeps_def restrictedBindDefinitionStatusEqual_def
        bind_reports_def split: if_splits option.splits)
qed (use assms in \<open>auto simp: ApplyRestrictedBindDefinitionStatus_def\<close>)

lemma finish_reports:
  assumes "finishBind env n rbd w = ((res, None), w')" "bs_BindReconciled (bo_Status rbd) = b"
  shows "bind_status_keeps (be_StatusApply env) \<longrightarrow> bind_reports b w'"
proof -
  have "ApplyRestrictedBindDefinitionStatus env rbd w = (None, w')"
    using assms(1) by (auto simp: finishBind_def split: prod.splits option.splits)
  then show ?thesis using assms(2) by (rule bind_status_reports)
qed

interpretation rbd_rep: reporting_lifecycle "rbdPolicyLifecycleConfig env rbd" "bind_clean rbd" "bind_kept env rbd"
    "\<lambda>obj. \<not> bs_BindReconciled (bo_Status obj)" "\<lambda>w. bind_status_keeps (be_StatusApply env) \<longrightarrow> bind_reports False w"
  for env rbd
proof unfold_locales
  show "\<not> bs_BindReconciled (bo_Status (lc_SetReconciled (rbdPolicyLifecycleConfig env rbd) False obj))" for obj
    by (simp add: rbdPolicyLifecycleConfig_def)
next
  show "\<not> bs_BindReconciled (bo_Status (lc_Conditions (rbdPolicyLifecycleConfig env rbd) f obj))"
    if "\<not> bs_BindReconciled (bo_Status obj)" for f obj
    using that by (simp add: rbdPolicyLifecycleConfig_def)
next
  fix obj w w'
  assume "\<not> bs_BindReconciled (bo_Status obj)" "lc_ApplyStatus (rbdPolicyLifecycleConfig env rbd) obj w = (None, w')"
  then show "bind_status_keeps (be_StatusApply env) \<longrightarrow> bind_reports False w'"
    by (intro bind_status_reports) (simp_all add: rbdPolicyLifecycleConfig_def)
next
  fix m obj w obj' w'
  assume a: "lc_ApplyStatusAndMarkStalled (rbdPolicyLifecycleConfig env rbd) m obj w = (None, obj', w')"
  have "ApplyRestrictedBindDefinitionStatus env (bind_stall env m obj) w = (None, w')"
    using a by (auto simp: rbdPolicyLifecycleConfig_def rbdApplyStatusAndMarkStalled_def Let_def
        split: prod.splits option.splits)
  then show "bind_status_keeps (be_StatusApply env) \<longrightarrow> bind_reports False w'"
    by (rule bind_status_reports) (simp add: bind_stall_def)
qed

section \<open>A reconciliation, step by step\<close>

text \<open>
  What a part of a reconciliation may do: it keeps what belongs to others; and when it ends without an error,
  other than after a conflict, the bindings are the intended ones, and the status does not report bindings of
  a definition that is to have none.
\<close>

definition unbound :: "'c rbd_env \<Rightarrow> rbd_object \<Rightarrow> 'c rbd_world \<Rightarrow> bool" where
  "unbound env obj w \<longleftrightarrow> bind_clean obj w \<and> (bind_status_keeps (be_StatusApply env) \<longrightarrow> bind_reports False w)"

definition bind_settled :: "'c rbd_env \<Rightarrow> rbd_object \<Rightarrow> 'c rbd_world \<Rightarrow> 'c rbd_world \<Rightarrow> bool" where
  "bind_settled env obj w w' \<longleftrightarrow> (\<not> compliant env obj \<longrightarrow> unbound env obj w') \<and>
     (sound_cluster env obj (bw_Bindings w) \<longrightarrow>
        (if provisionable env obj then provisioned env obj (bw_Bindings w') else unbound env obj w'))"

definition bind_lawful :: "'c rbd_env \<Rightarrow> rbd_object \<Rightarrow> 'c rbd_world \<Rightarrow> outcome \<times> 'c rbd_world \<Rightarrow> bool" where
  "bind_lawful env obj w out \<longleftrightarrow>
     (case out of ((res, err), w') \<Rightarrow> bind_kept env obj w w' \<and> (err = None \<and> res \<noteq> RequeueNow \<longrightarrow> bind_settled env obj w w'))"

text \<open>The same definition with the same record of generated accounts.\<close>

definition same_record :: "rbd_object \<Rightarrow> rbd_object \<Rightarrow> bool" where
  "same_record a b \<longleftrightarrow> same_bind a b \<and> recorded a = recorded b"

lemma same_kept: "same_record a b \<Longrightarrow> bind_kept env a w w' = bind_kept env b w w'"
  using same_bconfined [of a b env] same_aconfined [of a b env] by (simp add: bind_kept_def same_record_def)

lemma same_bind_clean: "same_record a b \<Longrightarrow> bind_clean a w = bind_clean b w"
  using same_bcontrolled [of a b] same_acontrolled [of a b] by (simp add: bind_clean_def same_record_def)

lemma same_bind_lawful:
  assumes "same_record a b"
  shows "bind_lawful env a w out = bind_lawful env b w out"
proof -
  have "same_bind a b" using assms by (simp add: same_record_def)
  moreover from this have "compliant env a = compliant env b" by (simp add: compliant_def same_bind_def)
  ultimately show ?thesis
    by (simp add: bind_lawful_def bind_settled_def unbound_def same_kept [OF assms] same_bind_clean [OF assms] same_provisioned)
qed

lemma bind_lawful_error: "bind_kept env obj w w' \<Longrightarrow> bind_lawful env obj w ((res, Some err), w')"
  by (simp add: bind_lawful_def)

lemma stalled_kept: "bind_kept env obj w (snd (rbdMarkStalled env err rbd w))"
  using status_only_kept [OF bind_stalled_only] by blast

lemma stalled_lawful:
  assumes "bind_kept env obj w w1"
  shows "bind_lawful env obj w ((res, Some e), snd (rbdMarkStalled env err rbd w1))"
  by (rule bind_lawful_error) (rule bind_kept_trans [OF assms stalled_kept])

text \<open>A status write at the end keeps what was reached.\<close>

lemma finish_keeps:
  assumes "finishBind env n rbd w1 = (out, w')"
  shows "bw_Bindings w' = bw_Bindings w1" "bind_kept env obj w1 w'" "bind_clean obj w' = bind_clean obj w1"
  using finishBind_only [OF assms] status_only_kept [OF finishBind_only [OF assms]] by (auto simp: status_only_def)

lemma finish_outcome: "finishBind env n rbd w = ((res, None), w') \<Longrightarrow> res = RequeueAfter n"
  by (auto simp: finishBind_def split: prod.splits option.splits)

lemma finish_lawful:
  assumes "bind_kept env obj w w1" "compliant env obj"
    and "sound_cluster env obj (bw_Bindings w) \<Longrightarrow> provisionable env obj \<and> provisioned env obj (bw_Bindings w1)"
  shows "bind_lawful env obj w (finishBind env n rbd w1)"
proof -
  obtain res err w' where fin: "finishBind env n rbd w1 = ((res, err), w')" by (metis prod_cases3 prod.collapse)
  note k = finish_keeps [OF fin]
  show ?thesis
    using bind_kept_trans [OF assms(1) k(2)] assms(2, 3) k(1) by (simp add: fin bind_lawful_def bind_settled_def)
qed

lemma reconcile_resources:
  assumes "rbdReconcileResources env rbd client cfg w = (err, rbd1, w1)" "records_in (bw_Object w) rbd (recorded rbd)"
  shows "bind_kept env rbd w w1" "same_bind rbd1 rbd"
    and "err = None \<Longrightarrow> sound_cluster env rbd (bw_Bindings w) \<Longrightarrow> provisioned env rbd (bw_Bindings w1)"
proof -
  obtain res rbd2 accounts where sa: "rbdReconcileServiceAccounts env (bw_Object w) rbd client cfg (bw_Accounts w) =
      (res, rbd2, accounts)" by (metis prod_cases3)
  note a = reconcile_accounts [OF sa assms(2)]
  show "bind_kept env rbd w w1" "same_bind rbd1 rbd"
    "err = None \<Longrightarrow> sound_cluster env rbd (bw_Bindings w) \<Longrightarrow> provisioned env rbd (bw_Bindings w1)"
  proof (atomize (full), cases res)
    case (Inl e)
    then show "bind_kept env rbd w w1 \<and> same_bind rbd1 rbd \<and>
        (err = None \<longrightarrow> sound_cluster env rbd (bw_Bindings w) \<longrightarrow> provisioned env rbd (bw_Bindings w1))"
      using assms(1) sa a(1, 2) by (auto simp: rbdReconcileResources_def bind_kept_def)
  next
    case (Inr eff)
    obtain berr bindings where b: "rbdReconcileBindings env rbd2 eff client (bw_Bindings w) = (berr, bindings)" by fastforce
    have res: "err = berr" "rbd1 = rbd2" "w1 = w\<lparr>bw_Accounts := accounts, bw_Bindings := bindings\<rparr>"
      using assms(1) sa Inr b by (auto simp: rbdReconcileResources_def)
    have "bconfined env rbd (bw_Bindings w) bindings"
      using reconcile_bindings_confined [OF b] unfolding same_bconfined [OF a(2)] .
    moreover have "provisioned env rbd bindings" if "berr = None" "sound_cluster env rbd (bw_Bindings w)"
      using bindings_provisioned [of env rbd2 eff client "bw_Bindings w" bindings] b that a(3) [OF Inr]
      unfolding same_provisioned [OF a(2)] same_effective [OF a(2)] by simp
    ultimately show "bind_kept env rbd w w1 \<and> same_bind rbd1 rbd \<and>
        (err = None \<longrightarrow> sound_cluster env rbd (bw_Bindings w) \<longrightarrow> provisioned env rbd (bw_Bindings w1))"
      using a(1, 2) by (simp add: res bind_kept_def)
  qed
qed

lemma lawful_resources:
  assumes "records_in (bw_Object w) rbd (recorded rbd)" "compliant env rbd"
    and "sound_cluster env rbd (bw_Bindings w) \<Longrightarrow> provisionable env rbd"
  shows "bind_lawful env rbd w (rbdApplyResources env rbd policy missing w)"
proof (cases "resolvePolicyApplyClient (be_RestConfig env) policy (be_Factory env) (bw_Cache w)")
  case (Pair res cache)
  have cached: "bind_kept env rbd w (w\<lparr>bw_Cache := cache\<rparr>)" by (simp add: bind_kept_def)
  show ?thesis
  proof (cases res)
    case (Inl e)
    then show ?thesis using Pair stalled_lawful [OF cached] by (simp add: rbdApplyResources_def)
  next
    case (Inr client_user)
    obtain client user where cu: "client_user = (client, user)" by fastforce
    obtain err rbd1 w1 where rr: "rbdReconcileResources env rbd client (rbdSACreationConfig policy) (w\<lparr>bw_Cache := cache\<rparr>) =
        (err, rbd1, w1)" by (metis prod_cases3)
    have "records_in (bw_Object (w\<lparr>bw_Cache := cache\<rparr>)) rbd (recorded rbd)" using assms(1) by simp
    note r = reconcile_resources [OF rr this]
    have kept: "bind_kept env rbd w w1" using r(1) by (simp add: bind_kept_def)
    show ?thesis
    proof (cases err)
      case (Some e)
      then show ?thesis
        using Pair Inr cu rr stalled_lawful [OF kept] by (simp add: rbdApplyResources_def)
    next
      case None
      have "sound_cluster env rbd (bw_Bindings w) \<Longrightarrow> provisionable env rbd \<and> provisioned env rbd (bw_Bindings w1)"
        using r(3) None assms(3) by simp
      note fin = finish_lawful [OF kept assms(2) this]
      show ?thesis
        using Pair Inr cu rr None fin
        by (simp add: rbdApplyResources_def rbdHandleMissingTargetNamespaces_def rbdHandleSkippedServiceAccounts_def
            rbdFinish_def Let_def)
    qed
  qed
qed

lemma same_record_refl [simp]: "same_record a a"
  by (simp add: same_record_def)

lemma recorded_status [simp]:
  "bs_GeneratedServiceAccounts (f (bo_Status obj)) = bs_GeneratedServiceAccounts (bo_Status obj) \<Longrightarrow>
   recorded (on_bind_status f obj) = recorded obj"
  by (simp add: recorded_def)

lemma missing_roles:
  assumes "rbdHandleMissingRoleRefs env rbd missing w = ((res, err), w')"
  shows "bind_kept env rbd w w'"
    and "err = None \<Longrightarrow> unbound env rbd w'"
proof -
  obtain derr w1 where dep: "rbdDeprovision env rbd w = (derr, w1)" by fastforce
  note d = deprovision_binds [OF dep]
  have "bind_kept env rbd w w' \<and> (err = None \<longrightarrow> unbound env rbd w')"
  proof (cases derr)
    case (Some e)
    then show ?thesis
      using assms dep bind_kept_trans [OF d(1) stalled_kept] by (auto simp: rbdHandleMissingRoleRefs_def)
  next
    case None
    then obtain rbd2 where fin: "finishBind env DefaultRequeueInterval rbd2 w1 = ((res, err), w')"
      and st: "\<not> bs_BindReconciled (bo_Status rbd2)"
      using assms dep by (auto simp: rbdHandleMissingRoleRefs_def Let_def)
    note k = finish_keeps [OF fin]
    show ?thesis
      using bind_kept_trans [OF d(1) k(2)] d(2) None k(3) finish_reports [of env _ rbd2 w1 res w' False] fin st
      by (auto simp: unbound_def)
  qed
  then show "bind_kept env rbd w w'" "err = None \<Longrightarrow> unbound env rbd w'" by blast+
qed

lemma lawful_provision:
  assumes "records_in (bw_Object w) rbd (recorded rbd)" "compliant env rbd"
  shows "bind_lawful env rbd w (rbdProvision env rbd policy w)"
proof (cases "rbdValidateRoleReferences env rbd")
  case (Inl e)
  then show ?thesis using stalled_lawful [OF bind_kept_refl] by (simp add: rbdProvision_def)
next
  case valid: (Inr missing)
  define rbd1 where "rbd1 = on_bind_status (\<lambda>st. st\<lparr>bs_MissingRoleRefs := missing\<rparr>) rbd"
  have same: "same_record rbd1 rbd" by (simp add: rbd1_def same_record_def)
  have roles: "missing = [] \<longleftrightarrow> roles_exist env rbd" if "sound_cluster env rbd (bw_Bindings w)"
    using validate_roles [OF valid] that by (simp add: sound_cluster_def)
  show ?thesis
  proof (cases "missing = []")
    case False
    obtain res err w' where h: "rbdHandleMissingRoleRefs env rbd1 missing w = ((res, err), w')"
      by (metis prod_cases3 prod.collapse)
    note m = missing_roles [OF h, unfolded unbound_def same_kept [OF same] same_bind_clean [OF same], folded unbound_def]
    have "rbdProvision env rbd policy w = ((res, err), w')"
      using valid False h by (simp add: rbdProvision_def rbd1_def)
    then show ?thesis using m roles False assms(2) by (auto simp: bind_lawful_def bind_settled_def provisionable_def)
  next
    case True
    have "same_bind rbd1 rbd" using same by (simp add: same_record_def)
    note same1 = same_provisioned [OF this]
    show ?thesis
    proof (cases "rbdFindMissingTargetNamespaces env rbd1")
      case (Inl e)
      then show ?thesis
        using valid True stalled_lawful [OF bind_kept_refl] by (simp add: rbdProvision_def rbd1_def)
    next
      case (Inr nss)
      have "records_in (bw_Object w) rbd1 (recorded rbd1)"
        using assms(1) same by (simp add: records_in_def same_record_def)
      moreover have "compliant env rbd1" using assms(2) by (simp add: compliant_def rbd1_def)
      moreover have "provisionable env rbd1" if "sound_cluster env rbd1 (bw_Bindings w)"
        using that roles True assms(2) unfolding same1 by (simp add: provisionable_def)
      ultimately have "bind_lawful env rbd1 w (rbdApplyResources env rbd1 policy nss w)" by (rule lawful_resources)
      moreover have "rbdProvision env rbd policy w = rbdApplyResources env rbd1 policy nss w"
        using Inr by (simp add: rbdProvision_def valid True Let_def rbd1_def)
      ultimately show ?thesis by (simp add: same_bind_lawful [OF same])
    qed
  qed
qed

lemma lawful_withdrawn:
  assumes "\<not> compliant env rbd" "bind_kept env rbd w w'" "err = None \<Longrightarrow> unbound env rbd w'"
  shows "bind_lawful env rbd w ((res, err), w')"
  using assms by (auto simp: bind_lawful_def bind_settled_def provisionable_def)

lemma unusable_lawful:
  assumes "handleUnusablePolicy (rbdPolicyLifecycleConfig env rbd) reason message viol why detail obj w = (out, obj', w')"
    and "\<not> compliant env rbd"
  shows "bind_lawful env rbd w (out, w')"
proof -
  obtain res err where out: "out = (res, err)" by fastforce
  note h = assms(1) [unfolded out]
  show ?thesis
    unfolding out using rbd_lc.unusable_cases [OF h] rbd_rep.unusable_reports [of env rbd reason message viol why detail obj w res obj' w'] h
    by (intro lawful_withdrawn assms(2)) (auto simp: unbound_def)
qed

lemma violations_lawful:
  assumes "handlePolicyViolations (rbdPolicyLifecycleConfig env rbd) vs obj w = (out, obj', w')" "\<not> compliant env rbd"
  shows "bind_lawful env rbd w (out, w')"
proof -
  obtain res err where out: "out = (res, err)" by fastforce
  note h = assms(1) [unfolded out]
  show ?thesis
    unfolding out using rbd_lc.violations_cases [OF h] rbd_rep.violations_reports [of env rbd vs obj w res obj' w'] h
    by (intro lawful_withdrawn assms(2)) (auto simp: unbound_def)
qed

lemma bind_lawful_govern:
  assumes "records_in (bw_Object w) rbd (recorded rbd)"
  shows "bind_lawful env rbd w (rbdGovern env rbd w)"
proof (cases "server_read (bind_fail env) BindGetPolicy (be_Policies env (rbds_PolicyRef (bo_Spec rbd)))")
  case Missing
  have "\<not> compliant env rbd" using server_read_Missing [OF Missing] by (simp add: compliant_def)
  then show ?thesis
    by (auto simp: rbdGovern_def Missing Let_def handleMissingRestrictedPolicy_def intro: unusable_lawful split: prod.splits)
next
  case (ReadError err)
  then show ?thesis using stalled_lawful [OF bind_kept_refl] by (simp add: rbdGovern_def Let_def)
next
  case (Got pd)
  obtain policy deleting where pd: "pd = (policy, deleting)" by fastforce
  have stored: "be_Policies env (rbds_PolicyRef (bo_Spec rbd)) = Some (policy, deleting)"
    using server_read_Got [OF Got] pd by simp
  show ?thesis
  proof (cases deleting)
    case True
    then have "\<not> compliant env rbd" using stored by (simp add: compliant_def)
    then show ?thesis
      by (auto simp: rbdGovern_def Got pd True Let_def handleDeletingRestrictedPolicy_def intro: unusable_lawful
          split: prod.splits)
  next
    case False
    let ?cfg = "rbdPolicyLifecycleConfig env rbd"
    obtain ev rbd1 w1 where e: "evaluateRestrictedPolicy ?cfg policy rbd w = (ev, rbd1, w1)" by (metis prod_cases3)
    note cases = rbd_lc.evaluation_cases [OF e]
    show ?thesis
    proof (cases ev)
      case (Inl err)
      then show ?thesis using cases by (simp add: rbdGovern_def Got pd False rbdEvaluatePolicy_def e bind_lawful_error)
    next
      case (Inr vs)
      have w1: "w1 = w" and eval: "EvaluateBindDefinition (be_AsSelector env) (Some policy) (Some (bo_Definition rbd))
          (Some (bind_labels env)) = vs"
        using cases Inr by (auto simp: rbdPolicyLifecycleConfig_def)
      show ?thesis
      proof (cases "vs = []")
        case True
        have rbd1: "rbd1 = rbd" using e Inr True
          by (auto simp: evaluateRestrictedPolicy_def Let_def split: prod.splits option.splits if_splits)
        let ?rbd2 = "set_bind_violations [] (markPolicyCompliant ?cfg rbd)"
        have same: "same_record ?rbd2 rbd"
          by (simp add: markPolicyCompliant_def rbdPolicyLifecycleConfig_def same_record_def)
        have "records_in (bw_Object w) ?rbd2 (recorded ?rbd2)"
          using assms same by (simp add: records_in_def same_record_def)
        moreover have "compliant env ?rbd2"
          using stored False eval True same by (auto simp: compliant_def same_record_def same_bind_def)
        ultimately have "bind_lawful env ?rbd2 w (rbdProvision env ?rbd2 policy w)" by (rule lawful_provision)
        then show ?thesis
          unfolding same_bind_lawful [OF same]
          by (simp add: rbdGovern_def Got pd False rbdEvaluatePolicy_def e Inr True w1 rbd1 Let_def)
      next
        case nonempty: False
        then have none: "\<not> compliant env rbd" using stored eval by (auto simp: compliant_def)
        obtain out rbd2 w2 where h: "handlePolicyViolations ?cfg vs rbd1 w = (out, rbd2, w2)" by (metis prod_cases3)
        from violations_lawful [OF h none] show ?thesis
          by (simp add: rbdGovern_def Got pd False rbdEvaluatePolicy_def e Inr nonempty w1 h)
      qed
    qed
  qed
qed

text \<open>The finalizer is added to the stored object, whose record of accounts stays.\<close>

lemma ensure_bind_finalizer:
  assumes "EnsureBindFinalizer env obj rbd w = (res, rbd', w')" "same_record rbd obj" "bw_Object w = Some obj"
  shows "same_record rbd' obj" "status_only w w'" "records_in (bw_Object w') rbd' (recorded rbd')"
proof -
  define stored1 where "stored1 = obj\<lparr>bo_Finalizers := bo_Finalizers obj @ [RestrictedBindDefinitionFinalizer]\<rparr>"
  have same: "same_record stored1 obj" "same_record (rbd\<lparr>bo_Finalizers := fs\<rparr>) obj" for fs
    using assms(2) by (simp_all add: stored1_def same_record_def same_bind_def recorded_def)
  have "(rbd' = rbd \<and> w' = w) \<or> (\<exists>fs. (rbd' = stored1 \<or> rbd' = rbd\<lparr>bo_Finalizers := fs\<rparr>) \<and> w' = w\<lparr>bw_Object := Some stored1\<rparr>)"
    using assms(1) unfolding EnsureBindFinalizer_def Let_def stored1_def [symmetric] by (auto split: option.splits if_splits)
  then show "same_record rbd' obj" "status_only w w'" "records_in (bw_Object w') rbd' (recorded rbd')"
    using assms(2, 3) same by (auto simp: status_only_def records_in_def same_record_def)
qed

lemma status_only_bind_lawful:
  assumes "status_only w w1" "bind_lawful env obj w1 out"
  shows "bind_lawful env obj w out"
  using assms(2) status_only_kept [OF assms(1), of obj env] bind_kept_trans [of env obj w w1] assms(1)
  by (auto simp: bind_lawful_def bind_settled_def status_only_def split: prod.splits)

lemma bind_lawful_reconcile:
  assumes "bw_Object w = Some obj" "\<not> bo_Deleting obj"
  shows "bind_lawful env obj w (rbdReconcile env req w)"
proof (cases "server_read (bind_fail env) BindGetDefinition (bw_Object w)")
  case Missing
  then show ?thesis using assms server_read_Missing [OF Missing] by simp
next
  case (ReadError err)
  then show ?thesis by (simp add: rbdReconcile_def bind_lawful_error)
next
  case (Got rbd)
  have rbd: "rbd = obj" using server_read_Got [OF Got] assms(1) by simp
  define rbd1 where "rbd1 = observe_bind_generation (on_bind_conditions (\<lambda>cs. MarkReconciling (be_Now env) cs
    (bo_Generation obj) ReconcilingReasonProgressing ReconcilingMessageProgressing) obj)"
  have same1: "same_record rbd1 obj" by (simp add: rbd1_def same_record_def)
  have run: "rbdReconcile env req w =
      (if RestrictedBindDefinitionFinalizer \<in> set (bo_Finalizers rbd1) then rbdGovern env rbd1 w
       else case EnsureBindFinalizer env obj rbd1 w of
           (Some err, rbd2, w1) \<Rightarrow>
             if IsConflict err then ((RequeueNow, None), w1)
             else ((NoRequeue, Some (wrapf [Lit ''add finalizer to RestrictedBindDefinition '', Lit (bo_Name obj)] err)),
               snd (rbdMarkStalled env err rbd2 w1))
         | (None, rbd2, w1) \<Rightarrow> rbdGovern env rbd2 w1)"
    unfolding rbdReconcile_def Got read.case rbd Let_def rbd1_def using assms(2) by (rule if_not_P)
  show ?thesis
  proof (cases "RestrictedBindDefinitionFinalizer \<in> set (bo_Finalizers rbd1)")
    case True
    have "records_in (bw_Object w) rbd1 (recorded rbd1)"
      using assms(1) same1 by (simp add: records_in_def same_record_def)
    then have "bind_lawful env obj w (rbdGovern env rbd1 w)"
      using bind_lawful_govern [of w rbd1 env] same_bind_lawful [OF same1] by blast
    then show ?thesis using True by (simp add: run)
  next
    case False
    obtain res rbd2 w1 where ef: "EnsureBindFinalizer env obj rbd1 w = (res, rbd2, w1)" by (metis prod_cases3)
    note e = ensure_bind_finalizer [OF ef same1 assms(1)]
    show ?thesis
    proof (cases res)
      case None
      then have "rbdReconcile env req w = rbdGovern env rbd2 w1"
        using False ef by (simp add: run)
      moreover have "bind_lawful env obj w1 (rbdGovern env rbd2 w1)"
        using bind_lawful_govern [OF e(3), of env] same_bind_lawful [OF e(1)] by blast
      ultimately show ?thesis using status_only_bind_lawful [OF e(2)] by simp
    next
      case (Some err)
      have "bind_kept env obj w w1" using status_only_kept [OF e(2)] by blast
      then have "bind_kept env obj w (snd (rbdMarkStalled env err rbd2 w1))" by (rule bind_kept_trans [OF _ stalled_kept])
      then show ?thesis using False ef Some \<open>bind_kept env obj w w1\<close> by (simp add: run bind_lawful_def)
    qed
  qed
qed

section \<open>Deletion\<close>

lemma bind_deletion:
  assumes "reconcileDelete env obj w = (res, w')" "bw_Object w = Some obj"
  shows "bind_kept env obj w w' \<and> (bw_Object w' \<noteq> Some obj \<longrightarrow> bind_clean obj w') \<and>
    (res = None \<and> RestrictedBindDefinitionFinalizer \<in> set (bo_Finalizers obj) \<longrightarrow>
       (\<forall>obj'. bw_Object w' = Some obj' \<longrightarrow> RestrictedBindDefinitionFinalizer \<notin> set (bo_Finalizers obj')))"
proof (cases "RestrictedBindDefinitionFinalizer \<in> set (bo_Finalizers obj)")
  case False
  then show ?thesis using assms by (simp add: reconcileDelete_def)
next
  case True
  obtain derr w1 where dep: "rbdDeprovision env obj w = (derr, w1)" by fastforce
  note d = deprovision_binds [OF dep]
  show ?thesis
    using assms True dep d(1, 2, 3)
    by (cases derr)
      (auto simp: reconcileDelete_def dropBindFinalizer_def Let_def bind_kept_def bind_clean_def
        split: option.splits if_splits)
qed

lemma bind_reconcile_deleting:
  assumes "rbdReconcile env req w = (out, w')" "bw_Object w = Some obj" "bo_Deleting obj"
  shows "w' = w \<and> snd out \<noteq> None \<or> (\<exists>res. reconcileDelete env obj w = (res, w') \<and> snd out = res)"
proof (cases "server_read (bind_fail env) BindGetDefinition (bw_Object w)")
  case (Got rbd)
  then have "rbd = obj" using server_read_Got [OF Got] assms(2) by simp
  then show ?thesis using assms Got by (auto simp: rbdReconcile_def split: prod.splits option.splits)
qed (use assms in \<open>auto simp: rbdReconcile_def dest: server_read_Missing\<close>)

lemma bind_reconcile_kept:
  assumes "bw_Object w = Some obj" "rbdReconcile env req w = (out, w')"
  shows "bind_kept env obj w w'"
proof (cases "bo_Deleting obj")
  case True
  then show ?thesis
    using bind_reconcile_deleting [OF assms(2, 1) True] bind_deletion [OF _ assms(1)] by auto
next
  case False
  from bind_lawful_reconcile [OF assms(1) False, of env req] show ?thesis
    by (auto simp: assms(2) bind_lawful_def split: prod.splits)
qed

section \<open>Bindings and the policy\<close>

text \<open>The namespaces an entry selects are those its policy was evaluated for.\<close>

lemma resolves_targets:
  assumes "resolves_to (Some (bind_labels env)) sel P" "ns \<in> set (be_Namespaces env)"
    and "be_AsSelector env sel = Inr p" "p (ns_Labels ns)"
  shows "P (ns_Name ns)"
  using assms by (force simp: resolves_to_def bind_labels_def newLabelGetter_def)

definition place_allowed :: "'c rbd_env \<Rightarrow> RBACPolicy \<Rightarrow> BindingLimits \<Rightarrow> string \<Rightarrow> bool" where
  "place_allowed env policy limits ns \<longleftrightarrow>
     namespaceInScope (be_AsSelector env) (ps_AppliesTo (policy_Spec policy)) ns (Some (bind_labels env)) \<and>
     (\<forall>nl. bl_TargetNamespaceLimits limits = Some nl \<longrightarrow> target_ok (be_AsSelector env) nl (Some (bind_labels env)) ns)"

lemma compliant_place:
  assumes "bind_complies (be_AsSelector env) (Some (bind_labels env)) policy rbd"
    and "ps_BindingLimits (policy_Spec policy) = Some limits" "nb \<in> set (rbds_RoleBindings (rbd_Spec rbd))"
    and "ns \<in> targets env nb"
  shows "place_allowed env policy limits (ns_Name ns)"
proof -
  have scope: "binding_in_scope (be_AsSelector env) (ps_AppliesTo (policy_Spec policy)) (Some (bind_labels env)) nb"
    and lim: "\<And>nl. bl_TargetNamespaceLimits limits = Some nl \<Longrightarrow>
      binding_targets_ok (target_ok (be_AsSelector env) nl (Some (bind_labels env))) (Some (bind_labels env)) nb"
    using assms(1-3) by (auto simp: bind_complies_def binding_limits_hold_def Let_def)
  have ns: "ns \<in> set (be_Namespaces env)" "entry_selects env nb ns" using assms(4) by (simp_all add: targets_def)
  show ?thesis
    using scope lim resolves_targets [OF _ ns(1)] ns(2)
    by (fastforce simp: place_allowed_def binding_in_scope_def binding_targets_ok_def entry_selects_def split: if_splits)
qed

text \<open>What the policy allows of a binding with its role.\<close>

definition grant_allowed :: "'c rbd_env \<Rightarrow> RBACPolicy \<Rightarrow> BindingLimits \<Rightarrow> binding_key \<Rightarrow> RoleRef \<Rightarrow> bool" where
  "grant_allowed env policy limits k r \<longleftrightarrow>
     (case k of
        ClusterRoleBindingKey n \<Rightarrow> bl_AllowClusterRoleBindings limits \<and> ''*'' \<in> set (scope_Namespaces (ps_AppliesTo (policy_Spec policy)))
      | RoleBindingKey ns n \<Rightarrow> place_allowed env policy limits ns) \<and>
     (rref_Kind r = ''ClusterRole'' \<longrightarrow> cluster_role_exists env (rref_Name r) \<and>
        (\<exists>crl. bl_ClusterRoleBindingLimits limits = Some crl \<and> role_ref_ok (be_AsSelector env) crl (rref_Name r)
           (clusterRoleLabels (Some (bind_labels env)) (rref_Name r)) True)) \<and>
     (rref_Kind r = ''Role'' \<longrightarrow> (\<exists>ns n rl. k = RoleBindingKey ns n \<and> role_exists env ns (rref_Name r) \<and>
        bl_RoleBindingLimits limits = Some rl \<and> role_ref_ok (be_AsSelector env) rl (rref_Name r)
           (namespacedRoleLabels (Some (bind_labels env)) ns (rref_Name r)) True))"

lemma compliant_role:
  assumes "namespaced_ref_ok asSelector rl nb (Some (bind_labels env)) ref" "ns \<in> targets env nb"
  shows "role_ref_ok asSelector rl ref (namespacedRoleLabels (Some (bind_labels env)) (ns_Name ns) ref) True"
proof (cases "nb_Namespace nb = ''''")
  case True
  then obtain sel p where "sel \<in> set (nb_NamespaceSelector nb)" "be_AsSelector env sel = Inr p" "p (ns_Labels ns)"
      "ns \<in> set (be_Namespaces env)"
    using assms(2) by (auto simp: targets_def entry_selects_def)
  then show ?thesis
    using assms(1) True
      resolves_targets [of env sel "\<lambda>ns. role_ref_ok asSelector rl ref (namespacedRoleLabels (Some (bind_labels env)) ns ref) True" ns p]
    by (auto simp: namespaced_ref_ok_def split: if_splits)
next
  case False
  then show ?thesis using assms by (simp add: namespaced_ref_ok_def targets_def entry_selects_def)
qed

lemma asked_allowed:
  assumes "provisionable env obj" "asked env obj k r"
  shows "\<exists>policy limits. be_Policies env (rbds_PolicyRef (bo_Spec obj)) = Some (policy, False) \<and>
    ps_BindingLimits (policy_Spec policy) = Some limits \<and> grant_allowed env policy limits k r"
proof -
  obtain policy where pol: "be_Policies env (rbds_PolicyRef (bo_Spec obj)) = Some (policy, False)"
    and comp: "bind_complies (be_AsSelector env) (Some (bind_labels env)) policy (bo_Definition obj)"
    using assms(1) by (auto simp: provisionable_def compliant_def EvaluateBindDefinition_ok)
  have roles: "roles_exist env obj" using assms(1) by (simp add: provisionable_def)
  consider (cluster) ref where "ref \<in> set (restrictedClusterRoleRefs (rbds_ClusterRoleBindings (bo_Spec obj)))"
      "k = ClusterRoleBindingKey (bind_name env obj ref)" "r = roleRefOf ''ClusterRole'' ref"
    | (entry) nb ns kind ref where "nb \<in> set (rbds_RoleBindings (bo_Spec obj))" "ns \<in> targets env nb"
      "(kind, ref) \<in> set (entryRefs nb)" "k = RoleBindingKey (ns_Name ns) (bind_name env obj ref)" "r = roleRefOf kind ref"
    using assms(2) by (auto simp: asked_def targets_def)
  then show ?thesis
  proof cases
    case cluster
    have refs: "restrictedBindClusterRoleRefs (rbds_ClusterRoleBindings (bo_Spec obj)) =
        restrictedClusterRoleRefs (rbds_ClusterRoleBindings (bo_Spec obj))"
      by (simp add: restrictedBindClusterRoleRefs_def restrictedClusterRoleRefs_def)
    have ne: "restrictedClusterRoleRefs (rbds_ClusterRoleBindings (bo_Spec obj)) \<noteq> []" using cluster(1) by auto
    then have "rbdHasRoleRefs (bo_Definition obj)" by (simp add: rbdHasRoleRefs_def refs)
    then obtain limits where lim: "ps_BindingLimits (policy_Spec policy) = Some limits"
        "binding_limits_hold (be_AsSelector env) limits (Some (bind_labels env)) (bo_Definition obj)"
        "''*'' \<in> set (scope_Namespaces (ps_AppliesTo (policy_Spec policy)))"
      using comp ne by (auto simp: bind_complies_def Let_def refs split: option.splits)
    then have "grant_allowed env policy limits k r"
      using cluster roles ne
      by (auto simp: grant_allowed_def binding_limits_hold_def cluster_refs_ok_def refs roles_exist_def roleRefOf_def Let_def)
    then show ?thesis using pol lim(1) by blast
  next
    case entry
    have "nb_ClusterRoleRefs nb \<noteq> [] \<or> nb_RoleRefs nb \<noteq> []" using entry(3) by (auto simp: entryRefs_def)
    then have "rbdHasRoleRefs (bo_Definition obj)" using entry(1) by (auto simp: rbdHasRoleRefs_def list_ex_iff)
    then obtain limits where lim: "ps_BindingLimits (policy_Spec policy) = Some limits"
        "binding_limits_hold (be_AsSelector env) limits (Some (bind_labels env)) (bo_Definition obj)"
      using comp by (auto simp: bind_complies_def Let_def split: option.splits)
    have "place_allowed env policy limits (ns_Name ns)" using compliant_place [OF comp lim(1) entry(1, 2)] .
    moreover have "binding_refs_ok (be_AsSelector env) limits (Some (bind_labels env)) nb"
      using lim(2) entry(1) by (auto simp: binding_limits_hold_def Let_def)
    moreover have "entry_roles_exist env nb" using roles entry(1) by (simp add: roles_exist_def)
    ultimately have "grant_allowed env policy limits k r"
      using entry(2-5) compliant_role [OF _ entry(2)]
      by (auto simp: grant_allowed_def binding_refs_ok_def cluster_refs_ok_def entry_roles_exist_def entryRefs_def roleRefOf_def)
    then show ?thesis using pol lim(1) by blast
  qed
qed

text \<open>
  The same for the stored role: a forbidding selector has to be checked against labels, and only labels can be
  selected by an allowing one, so a role without labels passes neither.
\<close>

definition role_within :: "selector_api \<Rightarrow> RoleRefLimits \<Rightarrow> string \<Rightarrow> rbac_role \<Rightarrow> bool" where
  "role_within asSelector rl name role \<longleftrightarrow>
     (\<forall>p \<in> set (rrl_ForbiddenRoleRefs rl). \<not> glob p name) \<and>
     (\<forall>sel. rrl_ForbiddenRoleRefSelector rl = Some sel \<longrightarrow>
        role_Labels role \<noteq> [] \<and> \<not> selects asSelector sel (role_Labels role)) \<and>
     ((\<exists>p \<in> set (rrl_AllowedRoleRefs rl). glob p name) \<or>
      (\<exists>sel. rrl_AllowedRoleRefSelector rl = Some sel \<and> role_Labels role \<noteq> [] \<and>
         selects asSelector sel (role_Labels role)))"

definition grant_within :: "'c rbd_env \<Rightarrow> RBACPolicy \<Rightarrow> BindingLimits \<Rightarrow> binding_key \<Rightarrow> RoleRef \<Rightarrow> bool" where
  "grant_within env policy limits k r \<longleftrightarrow>
     (case k of
        ClusterRoleBindingKey n \<Rightarrow> bl_AllowClusterRoleBindings limits \<and> ''*'' \<in> set (scope_Namespaces (ps_AppliesTo (policy_Spec policy)))
      | RoleBindingKey ns n \<Rightarrow> place_allowed env policy limits ns) \<and>
     (rref_Kind r = ''ClusterRole'' \<longrightarrow>
        (\<exists>role rl. be_Roles env (ClusterRoleKey (rref_Name r)) = Some role \<and> bl_ClusterRoleBindingLimits limits = Some rl \<and>
           role_within (be_AsSelector env) rl (rref_Name r) role)) \<and>
     (rref_Kind r = ''Role'' \<longrightarrow>
        (\<exists>ns n role rl. k = RoleBindingKey ns n \<and> be_Roles env (RoleKey ns (rref_Name r)) = Some role \<and>
           bl_RoleBindingLimits limits = Some rl \<and> role_within (be_AsSelector env) rl (rref_Name r) role))"

lemma labels_of_role:
  "be_Roles env (ClusterRoleKey n) = Some role \<Longrightarrow>
   clusterRoleLabels (Some (bind_labels env)) n = (if role_Labels role = [] then None else Some (role_Labels role))"
  "be_Roles env (RoleKey ns n) = Some role \<Longrightarrow>
   namespacedRoleLabels (Some (bind_labels env)) ns n = (if role_Labels role = [] then None else Some (role_Labels role))"
  by (simp_all add: clusterRoleLabels_def namespacedRoleLabels_def bind_labels_def newLabelGetter_def server_read_def)

lemma role_ref_within:
  "role_ref_ok asSelector rl n (if role_Labels role = [] then None else Some (role_Labels role)) True \<longleftrightarrow>
   role_within asSelector rl n role"
  by (auto simp: role_ref_ok_def role_within_def matchesSelector_selects)

lemma grant_allowed_within: "grant_allowed env policy limits k r \<Longrightarrow> grant_within env policy limits k r"
  unfolding grant_allowed_def grant_within_def cluster_role_exists_def role_exists_def not_None_eq
  by (auto simp: labels_of_role role_ref_within)

lemma effective_allowed:
  assumes "compliant env obj" "effective_for obj eff" "s \<in> set eff"
  shows "\<exists>policy limits. be_Policies env (rbds_PolicyRef (bo_Spec obj)) = Some (policy, False) \<and>
    ps_SubjectLimits (policy_Spec policy) = Some limits \<and> subject_ok (be_AsSelector env) limits (Some (bind_labels env)) s"
  using assms by (fastforce simp: compliant_def EvaluateBindDefinition_ok bind_complies_def effective_for_def Let_def split: option.splits)

end
