(* ===== verification/Restricted_Bind_Progress.thy ===== *)
theory Restricted_Bind_Progress
  imports Restricted_Bind_Laws
begin

text \<open>
  A RestrictedBindDefinition that is to have bindings gets them: when no request fails, the reconciliation ends
  without an error.
\<close>

section \<open>Loops that succeed\<close>

lemma for_each_succeeds:
  assumes "\<And>x s. x \<in> set xs \<Longrightarrow> I s \<Longrightarrow> \<exists>s'. f x s = (None, s') \<and> I s'" "I s"
  shows "\<exists>s'. for_each f xs s = (None, s') \<and> I s'"
  using assms
proof (induction xs arbitrary: s)
  case (Cons x xs)
  obtain t where t: "f x s = (None, t)" "I t" using Cons.prems(1) [of x s] Cons.prems(2) by auto
  then obtain s' where "for_each f xs t = (None, s')" "I s'" using Cons.IH [of t] Cons.prems(1) by auto
  then show ?case using t(1) by auto
qed simp

lemma for_errs_succeeds:
  assumes "\<And>x s. x \<in> set xs \<Longrightarrow> fst (f x s) = None"
  shows "fst (for_errs f xs s) = []"
  using assms
proof (induction xs arbitrary: s)
  case (Cons x xs)
  obtain t where "f x s = (None, t)" using Cons.prems [of x s] by (cases "f x s") simp
  moreover have "fst (for_errs f xs t) = []" using Cons by simp
  ultimately show ?case by (cases "for_errs f xs t") simp
qed simp

text \<open>No request fails, every selector parses and every item can be marshalled.\<close>

definition flawless :: "'c rbd_env \<Rightarrow> bool" where
  "flawless env \<longleftrightarrow> (\<forall>client call. be_Fail env client call = None) \<and> (\<forall>sel. \<exists>p. be_AsSelector env sel = Inr p) \<and>
     (\<forall>x. \<exists>t. ma_Subject (be_Marshal env) x = Inr t) \<and> (\<forall>x. \<exists>t. ma_Owner (be_Marshal env) x = Inr t)"

lemma flawless_read: "flawless env \<Longrightarrow>
    server_read (be_Fail env client) call stored = (case stored of None \<Rightarrow> Missing | Some x \<Rightarrow> Got x)"
  by (simp add: flawless_def server_read_ok)

lemma flawless_write: "flawless env \<Longrightarrow> store_write (be_Fail env client) call key new s =
    (None, case new of None \<Rightarrow> mdelete key s | Some v \<Rightarrow> mput key v s)"
  by (simp add: flawless_def store_write_def)

lemma flawless_fail: "flawless env \<Longrightarrow> be_Fail env client call = None"
  by (simp add: flawless_def)

lemma flawless_selector: "flawless env \<Longrightarrow> \<exists>p. be_AsSelector env sel = Inr p"
  by (simp add: flawless_def)

lemmas flawless_simps = flawless_read flawless_write flawless_fail

section \<open>Reading\<close>

lemma select_succeeds: "flawless env \<Longrightarrow> \<exists>nss. rbdSelectNamespaces env site sels acc = Inr nss"
proof (induction sels arbitrary: acc)
  case (Cons sel sels)
  then show ?case using flawless_selector [of env sel] by (auto simp: flawless_fail)
qed simp

lemma bind_resolve_succeeds: "flawless env \<Longrightarrow> \<exists>nss. rbdResolveNamespaces env site nb = Inr nss"
  using select_succeeds by (auto simp: rbdResolveNamespaces_def flawless_read split: option.splits)

lemma find_succeeds:
  assumes "flawless env"
  shows "\<exists>f'. findClusterRole env ref f = (None, f')" "\<exists>f'. findRole env ns ref f = (None, f')"
  using assms
  by (auto simp: findClusterRole_def clusterRoleExists_def findRole_def roleExists_def Let_def flawless_read split: option.splits)

lemma find_binding_succeeds:
  assumes "flawless env"
  shows "\<exists>f'. findBindingRoles env nb f = (None, f')"
proof -
  obtain f1 where one: "for_each (findClusterRole env) (nb_ClusterRoleRefs nb) f = (None, f1)"
    using for_each_succeeds [of _ "\<lambda>_. True" "findClusterRole env" f] find_succeeds(1) [OF assms] by blast
  obtain nss where nss: "rbdResolveNamespaces env ValidatingRefs nb = Inr nss" using bind_resolve_succeeds [OF assms] by blast
  have "\<exists>f'. for_each (\<lambda>ref. for_each (\<lambda>ns f. if terminating ns then (None, f) else findRole env (ns_Name ns) ref f) nss)
      (nb_RoleRefs nb) f1 = (None, f') \<and> True"
    by (intro for_each_succeeds [where I = "\<lambda>_. True"]) (use find_succeeds(2) [OF assms] in auto)
  then show ?thesis using one nss by (simp add: findBindingRoles_def)
qed

lemma validate_succeeds:
  assumes "flawless env"
  shows "\<exists>missing. rbdValidateRoleReferences env rbd = Inr missing"
proof -
  let ?f0 = "\<lparr>rf_ClusterRoles = [], rf_Roles = [], rf_Missing = []\<rparr>"
  obtain f where one: "for_each (findClusterRole env) (restrictedClusterRoleRefs (rbds_ClusterRoleBindings (bo_Spec rbd))) ?f0 =
      (None, f)"
    using for_each_succeeds [of _ "\<lambda>_. True" "findClusterRole env" ?f0] find_succeeds(1) [OF assms] by blast
  obtain f1 where "for_each (findBindingRoles env) (rbds_RoleBindings (bo_Spec rbd)) f = (None, f1)"
    using for_each_succeeds [of _ "\<lambda>_. True" "findBindingRoles env" f] find_binding_succeeds [OF assms] by blast
  then show ?thesis using one by (simp add: rbdValidateRoleReferences_def)
qed

lemma find_targets_succeeds:
  assumes "flawless env"
  shows "\<exists>missing. rbdFindMissingTargetNamespaces env rbd = Inr missing"
proof -
  have "\<exists>missing. for_each (\<lambda>roleBinding missing.
        if nb_Namespace roleBinding = '''' then (None, missing)
        else
          (case server_read (bind_fail env) (TargetNamespaceGet (nb_Namespace roleBinding))
                  (findNamespace env (nb_Namespace roleBinding)) of
             Missing \<Rightarrow> (None, List.insert (nb_Namespace roleBinding) missing)
           | ReadError err \<Rightarrow> (Some (wrapf [Lit ''get target namespace '', Lit (nb_Namespace roleBinding)] err), missing)
           | Got ns \<Rightarrow> (None, missing))) (rbds_RoleBindings (bo_Spec rbd)) [] = (None, missing) \<and> True"
    by (intro for_each_succeeds [where I = "\<lambda>_. True"]) (auto simp: flawless_read [OF assms] split: option.splits)
  then show ?thesis by (auto simp: rbdFindMissingTargetNamespaces_def)
qed

section \<open>ServiceAccounts\<close>

definition accepts_accounts :: "'c rbd_env \<Rightarrow> bool" where
  "accepts_accounts env \<longleftrightarrow> (\<forall>owner ac live. \<exists>r. be_AccountSSA env owner ac live = Inr r)"

lemma can_manage_succeeds:
  assumes "flawless env"
  shows "\<exists>x. rbdCanManageGeneratedServiceAccount env ns cfg = Inr x" "\<exists>x. rbdCanCreateMissingServiceAccount env ns cfg = Inr x"
proof -
  have allowed: "\<exists>b. rbdSAAllowedCreationNamespace (be_AsSelector env) c ns = Inr b" for c
    using flawless_selector [OF assms, of "the (sac_AllowedCreationNamespaceSelector c)"]
    by (cases "sac_AllowedCreationNamespaceSelector c") (auto simp: rbdSAAllowedCreationNamespace_def Let_def)
  show "\<exists>x. rbdCanManageGeneratedServiceAccount env ns cfg = Inr x"
    using allowed [of "the cfg"] by (cases cfg) (auto simp: rbdCanManageGeneratedServiceAccount_def)
  then obtain a b where "rbdCanManageGeneratedServiceAccount env ns cfg = Inr (a, b)" by force
  then show "\<exists>x. rbdCanCreateMissingServiceAccount env ns cfg = Inr x"
    by (cases a) (auto simp: rbdCanCreateMissingServiceAccount_def)
qed

lemma apply_account_succeeds:
  assumes "flawless env" "accepts_accounts env"
  shows "\<exists>ps'. applyServiceAccount env rbd client automount subject ps = (None, ps')"
proof -
  have "\<exists>r. be_AccountSSA env owner ac live = Inr r" for owner ac live using assms(2) by (simp add: accepts_accounts_def)
  then show ?thesis
    by (auto simp: applyServiceAccount_def PatchApplyServiceAccountAlways_def patchApplyServiceAccount_def accountApply_def
        flawless_fail [OF assms(1)] Let_def split: sum.splits prod.splits) (metis Inr_Inl_False)+
qed

lemma ensure_account_succeeds:
  assumes "flawless env" "accepts_accounts env"
  shows "\<exists>ps'. rbdEnsureServiceAccount env live rbd client cfg subject ps = (None, ps')"
proof -
  obtain p s where ps: "ps = (p, s)" by fastforce
  let ?apply = "applyServiceAccount env rbd client (rbdAutomountServiceAccountToken rbd cfg) subject"
  note apply_ok = apply_account_succeeds [OF assms, of rbd client "rbdAutomountServiceAccountToken rbd cfg" subject]
  show ?thesis
  proof (cases "subj_Kind subject = ServiceAccountKind \<and> (\<exists>ns. findNamespace env (subj_Namespace subject) = Some ns \<and> \<not> terminating ns)")
    case False
    then show ?thesis
      by (auto simp: rbdEnsureServiceAccount_def ps flawless_read [OF assms(1)] Let_def split: option.splits)
  next
    case True
    then obtain ns where ns: "subj_Kind subject = ServiceAccountKind" "findNamespace env (subj_Namespace subject) = Some ns"
      "\<not> terminating ns" by blast
    obtain a b where m: "rbdCanManageGeneratedServiceAccount env ns cfg = Inr (a, b)"
      using can_manage_succeeds(1) [OF assms(1)] by force
    obtain c d where n: "rbdCanCreateMissingServiceAccount env ns cfg = Inr (c, d)"
      using can_manage_succeeds(2) [OF assms(1)] by force
    show ?thesis
    proof (cases "map_of s (subj_Namespace subject, subj_Name subject)")
      case None
      then show ?thesis
        using apply_ok [of "(p, s)"] ns n by (auto simp: rbdEnsureServiceAccount_def ps flawless_read [OF assms(1)] Let_def)
    next
      case (Some existing)
      obtain x y z where cl: "rbdClassifyExistingServiceAccount env live rbd subject existing cfg = (x, y, z)"
        by (metis prod_cases3)
      show ?thesis
        using apply_ok ns m Some cl by (simp add: rbdEnsureServiceAccount_def ps flawless_read [OF assms(1)] Let_def)
    qed
  qed
qed

lemma prune_accounts_succeeds:
  assumes "flawless env"
  shows "\<exists>s'. rbdPruneStaleServiceAccounts env rbd desired trustedSAs s = (None, s')"
proof -
  have "fst (for_errs (\<lambda>(key, sa) s.
      if accountText key \<in> set desired then (None, s)
      else if accountText key \<notin> set trustedSAs then (None, s)
      else (case store_write (bind_fail env) (DeleteAccount (fst key) (snd key)) key None s of
          (Some err, s') \<Rightarrow> (if IsNotFound err then None
             else Some (wrapf [Lit ''delete stale ServiceAccount '', Lit (accountText key)] err), s')
        | (None, s') \<Rightarrow> (None, s'))) (filter (\<lambda>(k, sa). hasControllerOwnerRef (sac_OwnerReferences sa) (rbd_owner rbd)) s) s) = []"
    by (rule for_errs_succeeds) (auto simp: flawless_write [OF assms] split: prod.splits)
  then show ?thesis
    unfolding rbdPruneStaleServiceAccounts_def rbdListOwnedServiceAccounts_def flawless_fail [OF assms] option.case sum.case
    by (metis (mono_tags, lifting) errors_JoinAll_None fst_conv case_prod_conv surj_pair)
qed

lemma reconcile_accounts_succeeds:
  assumes "flawless env" "accepts_accounts env"
  shows "\<exists>eff rbd1 s'. rbdReconcileServiceAccounts env live rbd client cfg s = (Inr eff, rbd1, s')"
proof -
  have "\<exists>ps. for_each (rbdEnsureServiceAccount env live rbd client cfg) (rbds_Subjects (bo_Spec rbd))
      (\<lparr>sp_Effective = [], sp_Generated = [], sp_External = [], sp_Skipped = []\<rparr>, s) = (None, ps) \<and> True"
    by (rule for_each_succeeds [where I = "\<lambda>_. True"]) (use ensure_account_succeeds [OF assms] in blast)+
  then obtain p s1 where "for_each (rbdEnsureServiceAccount env live rbd client cfg) (rbds_Subjects (bo_Spec rbd))
      (\<lparr>sp_Effective = [], sp_Generated = [], sp_External = [], sp_Skipped = []\<rparr>, s) = (None, p, s1)" by auto
  moreover obtain s2 where "rbdPruneStaleServiceAccounts env
      (on_bind_status (\<lambda>st. st\<lparr>bs_GeneratedServiceAccounts := sp_Generated p,
         bs_ExternalServiceAccounts := sp_External p, bs_SkippedServiceAccounts := sp_Skipped p\<rparr>) rbd)
      (rbdDesiredServiceAccounts (sp_Generated p))
      (rbdDesiredServiceAccounts (bs_GeneratedServiceAccounts (bo_Status rbd))) s1 = (None, s2)"
    using prune_accounts_succeeds [OF assms(1)] by blast
  ultimately show ?thesis
    by (simp add: rbdReconcileServiceAccounts_def rbdEnsureServiceAccounts_def Let_def)
qed

section \<open>Bindings\<close>

text \<open>The API server refuses an apply only for the immutable role of an existing binding.\<close>

definition accepts_bindings :: "'c rbd_env \<Rightarrow> bool" where
  "accepts_bindings env \<longleftrightarrow> (\<forall>ac live. (\<forall>l r. live = Some l \<longrightarrow> bac_RoleRef ac = Some r \<longrightarrow> bnd_RoleRef l = roleRef_live r) \<longrightarrow>
     (\<exists>b. be_BindingSSA env ac live = Inr b))"

lemma delete_succeeds:
  assumes "flawless env"
  shows "\<exists>s'. deleteBindings env what items s = ([], s')"
proof -
  have "fst (deleteBindings env what items s) = []"
    unfolding deleteBindings_def by (rule for_errs_succeeds) (auto simp: flawless_write [OF assms])
  then show ?thesis by (metis prod.collapse)
qed

lemma deprovision_bind_succeeds:
  assumes "flawless env"
  shows "\<exists>w'. rbdDeprovision env rbd w = (None, w')"
proof -
  note del = delete_succeeds [OF assms]
  obtain s1 where one: "deleteBindings env ''ClusterRoleBinding'' (filter (\<lambda>(k, b). isClusterKey k \<and>
      hasControllerOwnerRef (bnd_OwnerReferences b) (rbd_owner rbd)) (bw_Bindings w)) (bw_Bindings w) = ([], s1)" using del by blast
  obtain s2 where two: "deleteBindings env ''RoleBinding'' (filter (\<lambda>(k, b). \<not> isClusterKey k \<and>
      hasControllerOwnerRef (bnd_OwnerReferences b) (rbd_owner rbd)) s1) s1 = ([], s2)" using del by blast
  obtain accounts where "rbdPruneStaleServiceAccounts env rbd []
      (rbdDesiredServiceAccounts (bs_GeneratedServiceAccounts (bo_Status rbd))) (bw_Accounts w) = (None, accounts)"
    using prune_accounts_succeeds [OF assms] by blast
  then show ?thesis
    using one two unfolding rbdDeprovision_def rbdListOwnedClusterRoleBindings_def rbdListOwnedRoleBindings_def
      flawless_fail [OF assms] by simp
qed

lemma marshal_succeeds: "(\<forall>x. \<exists>t. marshal x = Inr t) \<Longrightarrow> \<exists>keyed. marshalAll marshal items = Inr keyed"
proof (induction items)
  case (Cons x xs)
  then obtain t keyed where "marshal x = Inr t" "marshalAll marshal xs = Inr keyed" by blast
  then show ?case by simp
qed simp

lemma sort_succeeds: "(\<forall>x. \<exists>t. marshal x = Inr t) \<Longrightarrow> \<exists>items'. sortByJSON marshal items = Inr items'"
  using marshal_succeeds [of marshal items] by (auto simp: sortByJSON_def)

lemma apply_binding_succeeds:
  assumes "flawless env" "accepts_bindings env" "bac_RoleRef ac = RoleRefFrom (Some r)"
    and "at_key (\<lambda>b. bnd_RoleRef b = r) (binding_ac_key ac) s"
  shows "\<exists>x s'. bindingApply (be_Fail env client) (be_BindingSSA env) (be_Marshal env) ac s = (Inr x, s')"
proof -
  obtain subs refs where "sortByJSON (ma_Subject (be_Marshal env)) (map defaultSubjectGroup (bac_Subjects ac)) = Inr subs"
      "sortByJSON (ma_Owner (be_Marshal env)) (bac_OwnerReferences ac) = Inr refs"
    using sort_succeeds assms(1) unfolding flawless_def by metis
  then obtain desired where canon: "canonicalBinding (be_Marshal env) ac = Inr desired"
    by (simp add: canonicalBinding_def normalizeBindingApplyConfiguration_def)
  have "bac_RoleRef desired = RoleRefFrom (Some r)" using canonical_binding(1) [OF canon] assms(3) by simp
  then have "\<exists>b. be_BindingSSA env desired (map_of s (binding_ac_key ac)) = Inr b"
    using assms(2, 4) by (auto simp: accepts_bindings_def at_key_def RoleRefFrom_def roleRef_live_def deref_def)
  then show ?thesis using canon by (auto simp: bindingApply_def Let_def flawless_fail [OF assms(1)])
qed

lemma clear_succeeds:
  assumes "flawless env" "at_key (\<lambda>b. bnd_RoleRef b = r) key s"
  shows "\<exists>s'. rbdClearSubjectsIfEmpty env client rbd kind key subs s = (None, s') \<and> at_key (\<lambda>b. bnd_RoleRef b = r) key s'"
  using assms
  by (auto simp: rbdClearSubjectsIfEmpty_def flawless_read flawless_write at_key_def go_maps split: option.splits)

lemma binding_check_succeeds:
  assumes "flawless env"
  shows "at_key (bcontrolled rbd) (ClusterRoleBindingKey n) s \<Longrightarrow>
      checkRestrictedBindingOwnership (bind_fail env) s (rbd_owner rbd) ''ClusterRoleBinding'' n ns = None"
    and "at_key (bcontrolled rbd) (RoleBindingKey ns n) s \<Longrightarrow>
      checkRestrictedBindingOwnership (bind_fail env) s (rbd_owner rbd) ''RoleBinding'' n ns = None"
  by (auto simp: checkRestrictedBindingOwnership_def flawless_read [OF assms] at_key_def bcontrolled_def Let_def
      split: option.splits)

lemma delete_on_change_succeeds:
  assumes "flawless env" "at_key (bcontrolled rbd) (RoleBindingKey ns n) s"
  shows "\<exists>s'. rbdDeleteOwnedRoleBindingOnRoleRefChange env rbd ns n r client s = (None, s') \<and>
    at_key (\<lambda>b. bnd_RoleRef b = r) (RoleBindingKey ns n) s'"
  using assms(2)
  by (auto simp: rbdDeleteOwnedRoleBindingOnRoleRefChange_def flawless_read [OF assms(1)] flawless_write [OF assms(1)]
      at_key_def bcontrolled_def go_maps Let_def split: option.splits)

lemma ensure_cluster_succeeds:
  assumes "flawless env" "accepts_bindings env"
    and "at_key (\<lambda>b. bcontrolled rbd b \<and> bnd_RoleRef b = roleRefOf ''ClusterRole'' ref) (ClusterRoleBindingKey (bind_name env rbd ref)) s"
  shows "\<exists>s'. rbdEnsureClusterRoleBinding env rbd subs client ref s = (None, s')"
proof -
  let ?n = "bind_name env rbd ref" and ?r = "roleRefOf ''ClusterRole'' ref"
  let ?ac = "owned_by rbd (ClusterRoleBindingWithSubjectsAndRoleRef ?n (BuildResourceLabels (bo_Labels rbd)) subs ?r)"
  have key: "binding_ac_key ?ac = ClusterRoleBindingKey ?n" and ref: "bac_RoleRef ?ac = RoleRefFrom (Some ?r)"
    by (simp_all add: binding_ac_key_def owned_by_def ClusterRoleBindingWithSubjectsAndRoleRef_def)
  have at: "at_key (bcontrolled rbd) (ClusterRoleBindingKey ?n) s" "at_key (\<lambda>b. bnd_RoleRef b = ?r) (ClusterRoleBindingKey ?n) s"
    using assms(3) by (simp_all add: at_key_def)
  obtain s1 where clear: "rbdClearSubjectsIfEmpty env client rbd ''ClusterRoleBinding'' (ClusterRoleBindingKey ?n) subs s = (None, s1)"
    and at1: "at_key (\<lambda>b. bnd_RoleRef b = ?r) (ClusterRoleBindingKey ?n) s1"
    using clear_succeeds [OF assms(1) at(2)] by blast
  obtain x s2 where "bindingApply (be_Fail env client) (be_BindingSSA env) (be_Marshal env) ?ac s1 = (Inr x, s2)"
    using apply_binding_succeeds [OF assms(1, 2) ref] at1 key by metis
  then show ?thesis
    using clear binding_check_succeeds(1) [OF assms(1) at(1)] unfolding rbdEnsureClusterRoleBinding_def Let_def bind_name_def [symmetric]
    by (simp add: then_do_def rbdClearClusterRoleBindingSubjectsIfEmpty_def PatchApplyClusterRoleBindingAlways_def
        patchApplyBinding_def)
qed

lemma ensure_role_succeeds:
  assumes "flawless env" "accepts_bindings env" "at_key (bcontrolled rbd) (RoleBindingKey ns (bind_name env rbd ref)) s"
  shows "\<exists>s'. rbdEnsureRoleBinding env rbd ns ref kind subs client s = (None, s')"
proof -
  let ?n = "bind_name env rbd ref" and ?r = "roleRefOf kind ref"
  let ?ac = "owned_by rbd (RoleBindingWithSubjectsAndRoleRef ?n ns (BuildResourceLabels (bo_Labels rbd)) subs ?r)"
  have key: "binding_ac_key ?ac = RoleBindingKey ns ?n" and ref: "bac_RoleRef ?ac = RoleRefFrom (Some ?r)"
    by (simp_all add: binding_ac_key_def owned_by_def RoleBindingWithSubjectsAndRoleRef_def)
  obtain s0 where del: "rbdDeleteOwnedRoleBindingOnRoleRefChange env rbd ns ?n ?r client s = (None, s0)"
    and at0: "at_key (\<lambda>b. bnd_RoleRef b = ?r) (RoleBindingKey ns ?n) s0"
    using delete_on_change_succeeds [OF assms(1, 3)] by blast
  obtain s1 where clear: "rbdClearSubjectsIfEmpty env client rbd ''RoleBinding'' (RoleBindingKey ns ?n) subs s0 = (None, s1)"
    and at1: "at_key (\<lambda>b. bnd_RoleRef b = ?r) (RoleBindingKey ns ?n) s1"
    using clear_succeeds [OF assms(1) at0] by blast
  obtain x s2 where "bindingApply (be_Fail env client) (be_BindingSSA env) (be_Marshal env) ?ac s1 = (Inr x, s2)"
    using apply_binding_succeeds [OF assms(1, 2) ref] at1 key by metis
  then show ?thesis
    using del clear binding_check_succeeds(2) [OF assms(1, 3)] unfolding rbdEnsureRoleBinding_def Let_def bind_name_def [symmetric]
    by (simp add: then_do_def rbdClearRoleBindingSubjectsIfEmpty_def PatchApplyRoleBindingAlways_def patchApplyBinding_def)
qed

text \<open>Every asked binding is free or under control, and a ClusterRoleBinding has its role.\<close>

definition ready :: "'c rbd_env \<Rightarrow> rbd_object \<Rightarrow> binding_store \<Rightarrow> bool" where
  "ready env rbd s \<longleftrightarrow> (\<forall>(k, r) \<in> wants env rbd. at_key (\<lambda>b. bcontrolled rbd b \<and> (isClusterKey k \<longrightarrow> bnd_RoleRef b = r)) k s)"

lemma ready_step:
  assumes "writes True rbd subs {(k, r)} f" "f s = (None, s')" "(k, r) \<in> wants env rbd" "single_valued (wants env rbd)"
    and "ready env rbd s"
  shows "ready env rbd s'"
  unfolding ready_def
proof clarify
  fix k' r'
  assume want: "(k', r') \<in> wants env rbd"
  note step = writesD [OF assms(1, 2)]
  show "at_key (\<lambda>b. bcontrolled rbd b \<and> (isClusterKey k' \<longrightarrow> bnd_RoleRef b = r')) k' s'"
  proof (cases "k' = k")
    case True
    then have "r' = r" using want assms(3, 4) by (auto simp: single_valued_def)
    moreover have "established rbd subs k r s'" using step(4) by simp
    ultimately show ?thesis using True by (auto simp: established_def bound_def at_key_def)
  next
    case False
    then have "map_of s' k' = map_of s k'" using step(2) by simp
    then show ?thesis using assms(5) want by (auto simp: ready_def at_key_def)
  qed
qed

definition progressing :: "'c rbd_env \<Rightarrow> rbd_object \<Rightarrow> bool" where
  "progressing env rbd \<longleftrightarrow> flawless env \<and> accepts_bindings env \<and> bind_assumptions env rbd \<and> single_valued (wants env rbd)"

lemma progressingD:
  assumes "progressing env rbd"
  shows "flawless env" "accepts_bindings env" "bind_assumptions env rbd" "single_valued (wants env rbd)"
  using assms by (simp_all add: progressing_def)

lemma cluster_step:
  assumes "progressing env rbd" "ref \<in> set (restrictedClusterRoleRefs (rbds_ClusterRoleBindings (bo_Spec rbd)))" "ready env rbd s"
  shows "\<exists>s'. rbdEnsureClusterRoleBinding env rbd subs client ref s = (None, s') \<and> ready env rbd s'"
proof -
  note flawless = progressingD(1) [OF assms(1)] and accepting = progressingD(2) [OF assms(1)]
    and assumed = progressingD(3) [OF assms(1)] and consistent = progressingD(4) [OF assms(1)]
  have want: "(ClusterRoleBindingKey (bind_name env rbd ref), roleRefOf ''ClusterRole'' ref) \<in> wants env rbd"
    using assms(2) by (auto simp: wants_def cluster_wants_def)
  then have "at_key (\<lambda>b. bcontrolled rbd b \<and> bnd_RoleRef b = roleRefOf ''ClusterRole'' ref)
      (ClusterRoleBindingKey (bind_name env rbd ref)) s"
    using assms(3) by (fastforce simp: ready_def isClusterKey_def)
  then obtain s' where run: "rbdEnsureClusterRoleBinding env rbd subs client ref s = (None, s')"
    using ensure_cluster_succeeds [OF flawless accepting] by blast
  then show ?thesis using ready_step [OF ensure_cluster_binding run want consistent assms(3)] assumed by blast
qed

lemma role_step:
  assumes "progressing env rbd" "nb \<in> set (rbds_RoleBindings (bo_Spec rbd))" "ns \<in> targets env nb" "(kind, ref) \<in> set (entryRefs nb)" "ready env rbd s"
  shows "\<exists>s'. rbdEnsureRoleBinding env rbd (ns_Name ns) ref kind subs client s = (None, s') \<and> ready env rbd s'"
proof -
  note flawless = progressingD(1) [OF assms(1)] and accepting = progressingD(2) [OF assms(1)]
    and assumed = progressingD(3) [OF assms(1)] and consistent = progressingD(4) [OF assms(1)]
  have want: "(RoleBindingKey (ns_Name ns) (bind_name env rbd ref), roleRefOf kind ref) \<in> wants env rbd"
    using assms(2-4) by (force simp: wants_def entry_wants_def wants_in_def)
  then have "at_key (bcontrolled rbd) (RoleBindingKey (ns_Name ns) (bind_name env rbd ref)) s"
    using assms(5) by (fastforce simp: ready_def at_key_def)
  then obtain s' where run: "rbdEnsureRoleBinding env rbd (ns_Name ns) ref kind subs client s = (None, s')"
    using ensure_role_succeeds [OF flawless accepting] by blast
  then show ?thesis using ready_step [OF ensure_role_binding run want consistent assms(5)] assumed by blast
qed

lemma entry_step:
  assumes "progressing env rbd" "nb \<in> set (rbds_RoleBindings (bo_Spec rbd))" "ready env rbd s"
  shows "\<exists>s'. rbdEnsureEntry env rbd subs client nb s = (None, s') \<and> ready env rbd s'"
proof -
  note flawless = progressingD(1) [OF assms(1)]
  obtain nss where nss: "rbdResolveNamespaces env EnsuringBindings nb = Inr nss" using bind_resolve_succeeds [OF flawless] by blast
  have "\<exists>s'. for_each (\<lambda>ns. for_each (\<lambda>(kind, ref). rbdEnsureRoleBinding env rbd (ns_Name ns) ref kind subs client)
      (entryRefs nb)) (filter (\<lambda>ns. \<not> terminating ns) nss) s = (None, s') \<and> ready env rbd s'"
  proof (rule for_each_succeeds [where I = "ready env rbd", OF _ assms(3)])
    fix ns t
    assume ns: "ns \<in> set (filter (\<lambda>ns. \<not> terminating ns) nss)" and "ready env rbd t"
    then have "ns \<in> targets env nb" using resolve_targets(1) [OF nss] by auto
    then show "\<exists>s'. for_each (\<lambda>(kind, ref). rbdEnsureRoleBinding env rbd (ns_Name ns) ref kind subs client)
        (entryRefs nb) t = (None, s') \<and> ready env rbd s'"
      using role_step [OF assms(1, 2)] by (intro for_each_succeeds [where I = "ready env rbd", OF _ \<open>ready env rbd t\<close>]) auto
  qed
  then show ?thesis by (simp add: rbdEnsureEntry_def nss)
qed

lemma writing_succeeds:
  assumes "progressing env rbd" "ready env rbd s"
  shows "\<exists>s'. writeBindings env rbd subs client s = (None, s')"
proof -
  have "\<exists>s1. for_each (rbdEnsureClusterRoleBinding env rbd subs client)
      (restrictedClusterRoleRefs (rbds_ClusterRoleBindings (bo_Spec rbd))) s = (None, s1) \<and> ready env rbd s1"
    by (rule for_each_succeeds) (rule cluster_step [OF assms(1)], assumption+, rule assms(2))
  then obtain s1 where one: "for_each (rbdEnsureClusterRoleBinding env rbd subs client)
      (restrictedClusterRoleRefs (rbds_ClusterRoleBindings (bo_Spec rbd))) s = (None, s1)" "ready env rbd s1" by blast
  have "\<exists>s2. for_each (rbdEnsureEntry env rbd subs client) (rbds_RoleBindings (bo_Spec rbd)) s1 = (None, s2) \<and> ready env rbd s2"
    by (rule for_each_succeeds) (rule entry_step [OF assms(1)], assumption+, rule one(2))
  then show ?thesis using one(1) by (auto simp: writeBindings_def then_do_def)
qed

lemma desired_succeeds:
  assumes "progressing env rbd"
  shows "\<exists>keys. rbdDesiredBindingKeys env rbd = Inr keys"
proof -
  note flawless = progressingD(1) [OF assms(1)]
  have "\<exists>keys. for_each (\<lambda>nb acc. case rbdResolveNamespaces env DesiredKeys nb of
      Inl err \<Rightarrow> (Some (wrapf [Lit ''resolve namespaces for desired RoleBindings''] err), acc)
    | Inr nss \<Rightarrow> (None, acc @ entryKeys env rbd nb nss)) (rbds_RoleBindings (bo_Spec rbd)) [] = (None, keys) \<and> True"
  proof (rule for_each_succeeds [where I = "\<lambda>_. True"])
    fix nb and acc :: "string list"
    obtain nss where "rbdResolveNamespaces env DesiredKeys nb = Inr nss" using bind_resolve_succeeds [OF flawless] by blast
    then show "\<exists>keys. (case rbdResolveNamespaces env DesiredKeys nb of
        Inl err \<Rightarrow> (Some (wrapf [Lit ''resolve namespaces for desired RoleBindings''] err), acc)
      | Inr nss \<Rightarrow> (None, acc @ entryKeys env rbd nb nss)) = (None, keys) \<and> True" by simp
  qed simp
  then show ?thesis by (auto simp: rbdDesiredBindingKeys_def Let_def)
qed

lemma pruning_succeeds:
  assumes "progressing env rbd"
  shows "\<exists>s'. rbdPruneStaleResources env rbd crbs rbs s = (None, s')"
proof -
  note flawless = progressingD(1) [OF assms(1)]
  note del = delete_succeeds [OF flawless]
  obtain s1 where one: "deleteBindings env ''stale ClusterRoleBinding'' (filter (\<lambda>(k, b). bindingText k \<notin> set crbs)
      (filter (\<lambda>(k, b). isClusterKey k \<and> hasControllerOwnerRef (bnd_OwnerReferences b) (rbd_owner rbd)) s)) s = ([], s1)"
    using del by blast
  obtain s2 where "deleteBindings env ''stale RoleBinding'' (filter (\<lambda>(k, b). bindingText k \<notin> set rbs)
      (filter (\<lambda>(k, b). \<not> isClusterKey k \<and> hasControllerOwnerRef (bnd_OwnerReferences b) (rbd_owner rbd)) s1)) s1 = ([], s2)"
    using del by blast
  then show ?thesis
    using one unfolding rbdPruneStaleResources_def rbdListOwnedClusterRoleBindings_def rbdListOwnedRoleBindings_def
      flawless_fail [OF flawless] by simp
qed

lemma bindings_succeed:
  assumes "progressing env rbd" "ready env rbd s" "rbdValidateRoleBindingNameCollisions env rbd = None"
  shows "\<exists>s'. rbdReconcileBindings env rbd subs client s = (None, s')"
proof -
  obtain crbs rbs where keys: "rbdDesiredBindingKeys env rbd = Inr (crbs, rbs)" using desired_succeeds [OF assms(1)] by force
  obtain s1 where wr: "writeBindings env rbd subs client s = (None, s1)" using writing_succeeds [OF assms(1, 2)] by blast
  obtain s2 where "rbdPruneStaleResources env rbd crbs rbs s1 = (None, s2)" using pruning_succeeds [OF assms(1)] by blast
  then show ?thesis
    using keys wr assms(3) unfolding rbdReconcileBindings_def writeBindings_def [symmetric] by (simp add: then_do_def)
qed

section \<open>The whole reconciliation\<close>

lemma bind_status_succeeds:
  assumes "flawless env" "bw_Object w \<noteq> None"
  shows "\<exists>w'. ApplyRestrictedBindDefinitionStatus env obj w = (None, w')"
  using assms by (auto simp: ApplyRestrictedBindDefinitionStatus_def flawless_read flawless_fail split: option.splits)

lemma finish_succeeds:
  assumes "flawless env" "bw_Object w \<noteq> None"
  shows "fst (finishBind env n rbd w) = (RequeueAfter n, None)"
  using bind_status_succeeds [OF assms, of rbd] by (auto simp: finishBind_def)

definition bind_identity :: "'c rbd_env \<Rightarrow> 'c rbd_world \<Rightarrow> RBACPolicy \<Rightarrow> bool" where
  "bind_identity env w policy \<longleftrightarrow> (\<exists>x. fst (resolvePolicyApplyClient (be_RestConfig env) policy (be_Factory env) (bw_Cache w)) = Inr x)"

definition unobstructed :: "'c rbd_env \<Rightarrow> rbd_object \<Rightarrow> 'c rbd_world \<Rightarrow> bool" where
  "unobstructed env rbd w \<longleftrightarrow> flawless env \<and> accepts_bindings env \<and> accepts_accounts env \<and> bind_assumptions env rbd \<and>
     ready env rbd (bw_Bindings w) \<and> rbdValidateRoleBindingNameCollisions env rbd = None \<and> bw_Object w \<noteq> None"

lemma same_unobstructed:
  assumes "same_bind a b"
  shows "unobstructed env a w = unobstructed env b w"
proof -
  have "wants env a = wants env b" using same_asked [OF assms] by (auto simp: asked_wants fun_eq_iff)
  moreover have "bo_Definition a = bo_Definition b" using assms by (simp add: same_bind_def)
  then have "rbdValidateRoleBindingNameCollisions env a = rbdValidateRoleBindingNameCollisions env b"
    by (simp only: rbdValidateRoleBindingNameCollisions_def)
  ultimately show ?thesis
    using assms same_bcontrolled [OF assms]
    by (simp add: unobstructed_def ready_def bind_assumptions_def identified_def same_bind_def)
qed

lemma resources_succeed:
  assumes "unobstructed env rbd w"
  shows "\<exists>rbd1 w1. rbdReconcileResources env rbd client cfg w = (None, rbd1, w1) \<and> bw_Object w1 = bw_Object w"
proof -
  note u = assms [unfolded unobstructed_def]
  obtain eff rbd1 accounts where sa: "rbdReconcileServiceAccounts env (bw_Object w) rbd client cfg (bw_Accounts w) =
      (Inr eff, rbd1, accounts)" using reconcile_accounts_succeeds u by blast
  have "records_in (bw_Object w) rbd (recorded rbd \<union> \<Union> (recorded ` set_option (bw_Object w)))" by (auto simp: records_in_def)
  then have same: "same_bind rbd1 rbd" using reconcile_accounts(2) [OF sa] by blast
  then have u1: "unobstructed env rbd1 w" using assms by (simp add: same_unobstructed)
  then have "progressing env rbd1"
    by (auto simp: unobstructed_def progressing_def bind_assumptions_def intro: collisions_excluded)
  then obtain s' where "rbdReconcileBindings env rbd1 eff client (bw_Bindings w) = (None, s')"
    using bindings_succeed u1 unfolding unobstructed_def by blast
  then show ?thesis using sa by (simp add: rbdReconcileResources_def)
qed

lemma apply_resources_succeed:
  assumes "unobstructed env rbd w" "bind_identity env w policy"
  shows "\<exists>n w'. rbdApplyResources env rbd policy missing w = ((RequeueAfter n, None), w')"
proof -
  obtain client user cache where res: "resolvePolicyApplyClient (be_RestConfig env) policy (be_Factory env) (bw_Cache w) =
      (Inr (client, user), cache)" using assms(2) unfolding bind_identity_def by (metis prod.collapse)
  let ?w = "w\<lparr>bw_Cache := cache\<rparr>"
  have "unobstructed env rbd ?w" using assms(1) by (simp add: unobstructed_def)
  then obtain rbd1 w1 where rr: "rbdReconcileResources env rbd client (rbdSACreationConfig policy) ?w = (None, rbd1, w1)"
      "bw_Object w1 = bw_Object ?w" using resources_succeed by blast
  have fin: "\<exists>m w'. finishBind env n r w1 = ((RequeueAfter m, None), w')" for n r
    using finish_succeeds [of env w1 n r] assms(1) rr(2) by (cases "finishBind env n r w1") (simp add: unobstructed_def)
  show ?thesis
    using res rr(1) fin
    by (simp add: rbdApplyResources_def rbdHandleMissingTargetNamespaces_def rbdHandleSkippedServiceAccounts_def rbdFinish_def
        Let_def)
qed

lemma missing_roles_succeed:
  assumes "flawless env" "bw_Object w \<noteq> None"
  shows "\<exists>n w'. rbdHandleMissingRoleRefs env rbd missing w = ((RequeueAfter n, None), w')"
proof -
  obtain w1 where dep: "rbdDeprovision env rbd w = (None, w1)" using deprovision_bind_succeeds [OF assms(1)] by blast
  then have "bw_Object w1 \<noteq> None" using deprovision_binds(3) [OF dep] assms(2) by simp
  then have fin: "\<exists>m w'. finishBind env n r w1 = ((RequeueAfter m, None), w')" for n r
    using finish_succeeds [OF assms(1), of w1 n r] by (cases "finishBind env n r w1") simp
  show ?thesis using dep fin by (simp add: rbdHandleMissingRoleRefs_def Let_def)
qed

text \<open>What has to be in place for a definition that is to have bindings.\<close>

definition clear_path :: "'c rbd_env \<Rightarrow> rbd_object \<Rightarrow> 'c rbd_world \<Rightarrow> bool" where
  "clear_path env rbd w \<longleftrightarrow> unobstructed env rbd w \<and>
     (\<forall>policy. be_Policies env (rbds_PolicyRef (bo_Spec rbd)) = Some (policy, False) \<longrightarrow> bind_identity env w policy)"

definition attended :: "'c rbd_env \<Rightarrow> rbd_object \<Rightarrow> 'c rbd_world \<Rightarrow> bool" where
  "attended env rbd w \<longleftrightarrow> flawless env \<and> bw_Object w \<noteq> None \<and> unique_namespaces env \<and> plain_namespaces env \<and>
     (provisionable env rbd \<longrightarrow> clear_path env rbd w)"

lemma same_attended: "same_bind a b \<Longrightarrow> attended env a w = attended env b w"
  using same_unobstructed [of a b env w] same_provisioned(2) [of a b env]
  by (simp add: attended_def clear_path_def same_bind_def)

lemma provision_succeeds:
  assumes "attended env rbd w" "be_Policies env (rbds_PolicyRef (bo_Spec rbd)) = Some (policy, False)" "compliant env rbd"
  shows "\<exists>n w'. rbdProvision env rbd policy w = ((RequeueAfter n, None), w')"
proof -
  note a = assms(1) [unfolded attended_def]
  obtain missing where v: "rbdValidateRoleReferences env rbd = Inr missing" using validate_succeeds a by blast
  define rbd1 where "rbd1 = on_bind_status (\<lambda>st. st\<lparr>bs_MissingRoleRefs := missing\<rparr>) rbd"
  show ?thesis
  proof (cases "missing = []")
    case True
    have "roles_exist env rbd" using validate_roles [OF v] a True by blast
    then have clear: "unobstructed env rbd w" "bind_identity env w policy"
      using a assms(2, 3) by (auto simp: provisionable_def clear_path_def)
    obtain nss where f: "rbdFindMissingTargetNamespaces env rbd1 = Inr nss" using find_targets_succeeds a by blast
    have "unobstructed env rbd1 w" using clear(1) same_unobstructed [of rbd1 rbd env w] by (simp add: rbd1_def)
    from apply_resources_succeed [OF this clear(2), of nss] show ?thesis
      using f True by (simp add: rbdProvision_def v rbd1_def)
  next
    case False
    then show ?thesis
      using missing_roles_succeed [of env w rbd1 missing] a by (simp add: rbdProvision_def v rbd1_def)
  qed
qed

interpretation rbd_rel: reliable_lifecycle "rbdPolicyLifecycleConfig env rbd" "\<lambda>w. flawless env \<and> bw_Object w \<noteq> None"
  for env rbd
proof
  fix obj :: rbd_object and w :: "'a rbd_world"
  assume p: "flawless env \<and> bw_Object w \<noteq> None"
  then obtain w' where dep: "rbdDeprovision env rbd w = (None, w')" using deprovision_bind_succeeds by blast
  then show "\<exists>obj' w'. lc_Deprovision (rbdPolicyLifecycleConfig env rbd) obj w = (None, obj', w') \<and>
      flawless env \<and> bw_Object w' \<noteq> None"
    using p deprovision_binds(3) [OF dep] by (auto simp: bind_deprovision_callback)
  show "\<exists>w'. lc_ApplyStatus (rbdPolicyLifecycleConfig env rbd) obj w = (None, w')"
    using bind_status_succeeds [of env w obj] p by (simp add: rbdPolicyLifecycleConfig_def)
  show "\<exists>obj' w'. lc_ApplyStatusAndMarkStalled (rbdPolicyLifecycleConfig env rbd) m obj w = (None, obj', w')" for m
    using bind_status_succeeds [of env w "bind_stall env m obj"] p
    by (auto simp: rbdPolicyLifecycleConfig_def rbdApplyStatusAndMarkStalled_def Let_def)
qed

lemma govern_succeeds:
  assumes "attended env rbd w"
  shows "\<exists>n w'. rbdGovern env rbd w = ((RequeueAfter n, None), w')"
proof -
  let ?cfg = "rbdPolicyLifecycleConfig env rbd"
  have fine: "flawless env" and present: "flawless env \<and> bw_Object w \<noteq> None" using assms by (simp_all add: attended_def)
  note read = flawless_read [OF fine]
  have unusable: "\<exists>n w'. (case handleUnusablePolicy ?cfg reason message viol why detail rbd w of (out, rbd1, w1) \<Rightarrow> (out, w1)) =
      ((RequeueAfter n, None), w')" for reason message viol why detail
    using rbd_rel.unusable_succeeds [OF present, of rbd reason message viol why detail rbd]
    by (cases "handleUnusablePolicy ?cfg reason message viol why detail rbd w") auto
  consider "be_Policies env (rbds_PolicyRef (bo_Spec rbd)) = None"
    | policy where "be_Policies env (rbds_PolicyRef (bo_Spec rbd)) = Some (policy, True)"
    | policy where "be_Policies env (rbds_PolicyRef (bo_Spec rbd)) = Some (policy, False)"
    by (metis (full_types) option.exhaust surj_pair)
  then show ?thesis
  proof cases
    case 1
    then show ?thesis using unusable by (simp add: rbdGovern_def read handleMissingRestrictedPolicy_def Let_def)
  next
    case 2
    then show ?thesis using unusable by (simp add: rbdGovern_def read handleDeletingRestrictedPolicy_def Let_def)
  next
    case 3
    let ?vs = "EvaluateBindDefinition (be_AsSelector env) (Some policy) (Some (bo_Definition rbd)) (Some (bind_labels env))"
    have ev: "lc_Evaluate ?cfg policy = (?vs, None)" by (simp add: rbdPolicyLifecycleConfig_def flawless_fail [OF fine])
    show ?thesis
    proof (cases "?vs = []")
      case True
      let ?rbd2 = "set_bind_violations [] (markPolicyCompliant ?cfg rbd)"
      have same: "same_bind ?rbd2 rbd" by (simp add: markPolicyCompliant_def rbdPolicyLifecycleConfig_def)
      have "attended env ?rbd2 w" using assms same_attended [OF same, of env w] by simp
      moreover have "compliant env ?rbd2" using 3 True same by (auto simp: compliant_def same_bind_def)
      ultimately obtain n w' where "rbdProvision env ?rbd2 policy w = ((RequeueAfter n, None), w')"
        using provision_succeeds [of env ?rbd2 w policy] 3 same by (auto simp: same_bind_def)
      moreover have "evaluateRestrictedPolicy ?cfg policy rbd w = (Inr [], rbd, w)"
        using ev True by (simp add: evaluateRestrictedPolicy_def)
      ultimately show ?thesis using 3 by (simp add: rbdGovern_def read rbdEvaluatePolicy_def)
    next
      case False
      obtain obj where e: "evaluateRestrictedPolicy ?cfg policy rbd w = (Inr ?vs, obj, w)"
        using ev False by (simp add: evaluateRestrictedPolicy_def)
      have "fst (handlePolicyViolations ?cfg ?vs obj w) = (RequeueAfter DefaultRequeueInterval, None)"
        by (rule rbd_rel.violations_succeed [OF present])
      then show ?thesis
        using 3 False e by (cases "handlePolicyViolations ?cfg ?vs obj w") (simp add: rbdGovern_def read rbdEvaluatePolicy_def Let_def)
    qed
  qed
qed

lemma reconcile_succeeds:
  assumes "attended env obj w" "bw_Object w = Some obj" "\<not> bo_Deleting obj"
  shows "\<exists>n w'. rbdReconcile env req w = ((RequeueAfter n, None), w')"
proof -
  have fine: "flawless env" using assms(1) by (simp add: attended_def)
  define rbd1 where "rbd1 = observe_bind_generation (on_bind_conditions (\<lambda>cs. MarkReconciling (be_Now env) cs
    (bo_Generation obj) ReconcilingReasonProgressing ReconcilingMessageProgressing) obj)"
  have same: "same_bind rbd1 obj" "same_record rbd1 obj" by (simp_all add: rbd1_def same_record_def)
  have run: "rbdReconcile env req w =
      (if RestrictedBindDefinitionFinalizer \<in> set (bo_Finalizers rbd1) then rbdGovern env rbd1 w
       else case EnsureBindFinalizer env obj rbd1 w of
           (Some err, rbd2, w1) \<Rightarrow>
             if IsConflict err then ((RequeueNow, None), w1)
             else ((NoRequeue, Some (wrapf [Lit ''add finalizer to RestrictedBindDefinition '', Lit (bo_Name obj)] err)),
               snd (rbdMarkStalled env err rbd2 w1))
         | (None, rbd2, w1) \<Rightarrow> rbdGovern env rbd2 w1)"
    unfolding rbdReconcile_def flawless_read [OF fine] assms(2) option.case read.case Let_def rbd1_def using assms(3) by (rule if_not_P)
  show ?thesis
  proof (cases "RestrictedBindDefinitionFinalizer \<in> set (bo_Finalizers rbd1)")
    case True
    have "attended env rbd1 w" using assms(1) same_attended [OF same(1), of env w] by simp
    from govern_succeeds [OF this] show ?thesis using True by (simp add: run)
  next
    case False
    obtain rbd2 w1 where ef: "EnsureBindFinalizer env obj rbd1 w = (None, rbd2, w1)" "bw_Object w1 \<noteq> None"
      by (auto simp: EnsureBindFinalizer_def flawless_fail [OF fine] Let_def)
    note e = ensure_bind_finalizer [OF ef(1) same(2) assms(2)]
    have "attended env obj w1"
      using assms(1) e(2) ef(2) by (simp add: attended_def clear_path_def unobstructed_def status_only_def bind_identity_def)
    then have "attended env rbd2 w1" using e(1) same_attended [of rbd2 obj env w1] by (simp add: same_record_def)
    from govern_succeeds [OF this] show ?thesis using False ef(1) by (simp add: run)
  qed
qed

end
