(* ===== verification/Restricted_Bind_Properties.thy ===== *)
theory Restricted_Bind_Properties
  imports Restricted_Bind_Progress
begin

text \<open>The properties of the RestrictedBindDefinition reconciler, with their witnesses.\<close>

section \<open>Properties\<close>

text \<open>
  Property C6 (bindings_confined): a reconciliation of a RestrictedBindDefinition, whatever requests fail and
  however the API server merges, leaves every binding without the definition as its controller exactly as it
  was, and creates or changes no binding the definition does not ask for; a ServiceAccount stays as it was
  unless the definition controls it and has it on record or finds its own field manager and markers on it, and
  no account but those among the subjects is created or changed.
\<close>

theorem bindings_confined:
  assumes "bw_Object w = Some obj" "rbdReconcile env req w = (out, w')" "mwf (bw_Bindings w)" "mwf (bw_Accounts w)"
  shows "(\<forall>k b. map_of (bw_Bindings w) k = Some b \<longrightarrow> \<not> bcontrolled obj b \<longrightarrow> map_of (bw_Bindings w') k = Some b) \<and>
    (\<forall>k. (\<nexists>r. asked env obj k r) \<longrightarrow>
       map_of (bw_Bindings w') k = map_of (bw_Bindings w) k \<or> map_of (bw_Bindings w') k = None) \<and>
    (\<forall>k sa. map_of (bw_Accounts w) k = Some sa \<longrightarrow> \<not> trusted env obj (recorded obj) k sa \<longrightarrow>
       map_of (bw_Accounts w') k = Some sa) \<and>
    (\<forall>k. k \<notin> account_targets obj \<longrightarrow>
       map_of (bw_Accounts w') k = map_of (bw_Accounts w) k \<or> map_of (bw_Accounts w') k = None)"
  using bind_reconcile_kept [OF assms(1, 2)] assms(3, 4) by (simp add: bind_kept_def bconfined_def aconfined_def)

text \<open>
  Property C5 (reconcile_refines_bindings): a reconciliation that ends without an error implements the abstract
  specification: when the policy exists, is not being deleted and is satisfied and every referenced role exists,
  the bindings under the definition's control are exactly the ones it asks for, each with the asked role and the
  effective subjects, that is every subject but ServiceAccounts that are left out; otherwise no binding and no
  recorded ServiceAccount of it is left and the stored status does not report bindings. The API server is
  assumed to merge applies and to keep statuses as documented.
\<close>

theorem reconcile_refines_bindings:
  assumes "bw_Object w = Some obj" "\<not> bo_Deleting obj" "bind_status_keeps (be_StatusApply env)"
    and "sound_cluster env obj (bw_Bindings w)" "rbdReconcile env req w = ((RequeueAfter n, None), w')"
  shows "if provisionable env obj
    then \<exists>eff. effective_for obj eff \<and> (\<forall>k r subs. granted_at obj (bw_Bindings w') k = Some (r, subs) \<longleftrightarrow>
      asked env obj k r \<and> subs = image_mset live_subject (mset eff))
    else bind_clean obj w' \<and> bind_reports False w'"
  using bind_lawful_reconcile [OF assms(1, 2), of env req] assms(3, 4)
  by (cases "provisionable env obj") (simp_all add: assms(5) bind_lawful_def bind_settled_def unbound_def provisioned_def)

text \<open>
  Property C15 (bindings_converge): when no request fails and every selector parses, one reconciliation brings the
  cluster to the abstract specification. A definition whose policy is satisfied and whose roles exist gets exactly
  the asked bindings, provided that each of them is free or under control, that no two roles claim one binding
  name, that the policy's identity can be used and that the API server refuses an apply only for the immutable
  role of an existing binding: a RoleBinding that has another role does not block it. Any other definition is
  left without bindings and recorded accounts and its status says so.
\<close>

theorem bindings_converge:
  assumes "flawless env" "sound_cluster env obj (bw_Bindings w)" "bind_status_keeps (be_StatusApply env)"
    and "bw_Object w = Some obj" "\<not> bo_Deleting obj"
    and "provisionable env obj \<Longrightarrow> accepts_bindings env \<and> accepts_accounts env \<and> ready env obj (bw_Bindings w) \<and>
      rbdValidateRoleBindingNameCollisions env obj = None"
    and "\<And>policy. be_Policies env (rbds_PolicyRef (bo_Spec obj)) = Some (policy, False) \<Longrightarrow> bind_identity env w policy"
  shows "\<exists>n w'. rbdReconcile env req w = ((RequeueAfter n, None), w') \<and>
    (if provisionable env obj then provisioned env obj (bw_Bindings w') else bind_clean obj w' \<and> bind_reports False w')"
proof -
  have "attended env obj w"
    using assms by (auto simp: attended_def clear_path_def unobstructed_def sound_cluster_def bind_assumptions_def)
  then obtain n w' where "rbdReconcile env req w = ((RequeueAfter n, None), w')"
    using reconcile_succeeds [OF _ assms(4, 5)] by blast
  then show ?thesis
    using bind_lawful_reconcile [OF assms(4, 5), of env req] assms(2, 3)
    by (cases "provisionable env obj") (simp_all add: bind_lawful_def bind_settled_def unbound_def)
qed

text \<open>
  Property C7 (granted_bindings_safe): after a reconciliation that ends without an error every binding under the
  definition's control is one its policy allows: a ClusterRoleBinding only when cluster bindings are allowed and
  the scope covers the cluster, a RoleBinding only in a namespace in scope and within the namespace limits, the
  bound role exists and its name and labels are admitted by the role limits, where a role without labels is not
  admitted under a forbidding selector nor by an allowing one, and every subject is one of the definition's
  and within the subject limits.
\<close>

theorem granted_bindings_safe:
  assumes "bw_Object w = Some obj" "\<not> bo_Deleting obj" "sound_cluster env obj (bw_Bindings w)"
    and "rbdReconcile env req w = ((RequeueAfter n, None), w')"
    and "map_of (bw_Bindings w') k = Some b" "bcontrolled obj b"
  shows "\<exists>policy limits. be_Policies env (rbds_PolicyRef (bo_Spec obj)) = Some (policy, False) \<and>
    ps_BindingLimits (policy_Spec policy) = Some limits \<and> grant_within env policy limits k (bnd_RoleRef b) \<and>
    (\<forall>x \<in> set (bnd_Subjects b). \<exists>s slimits. x = live_subject s \<and> s \<in> set (rbds_Subjects (bo_Spec obj)) \<and>
       ps_SubjectLimits (policy_Spec policy) = Some slimits \<and>
       subject_ok (be_AsSelector env) slimits (Some (bind_labels env)) s)"
proof -
  note law = bind_lawful_reconcile [OF assms(1, 2), of env req, unfolded assms(4) bind_lawful_def bind_settled_def unbound_def]
  have not_clean: "\<not> bind_clean obj w'"
    using goneD [of "\<lambda>k b. bcontrolled obj b" "bw_Bindings w'" k b] assms(5, 6) by (auto simp: bind_clean_def)
  then have prov: "provisionable env obj" "provisioned env obj (bw_Bindings w')" using law assms(3) by (auto split: if_splits)
  have "granted_at obj (bw_Bindings w') k = Some (bnd_RoleRef b, mset (bnd_Subjects b))"
    using assms(5, 6) by (simp add: granted_at_def)
  then obtain eff where eff: "effective_for obj eff" "asked env obj k (bnd_RoleRef b)"
      "mset (bnd_Subjects b) = image_mset live_subject (mset eff)"
    using prov(2) unfolding provisioned_def by blast
  obtain policy limits where pol: "be_Policies env (rbds_PolicyRef (bo_Spec obj)) = Some (policy, False)"
      "ps_BindingLimits (policy_Spec policy) = Some limits" "grant_within env policy limits k (bnd_RoleRef b)"
    using asked_allowed [OF prov(1) eff(2)] grant_allowed_within by blast
  have "set (bnd_Subjects b) = live_subject ` set eff" using eff(3) by (metis set_image_mset set_mset_mset)
  moreover have "\<exists>slimits. ps_SubjectLimits (policy_Spec policy) = Some slimits \<and>
      subject_ok (be_AsSelector env) slimits (Some (bind_labels env)) s" if "s \<in> set eff" for s
    using effective_allowed [OF _ eff(1) that, of env] prov(1) pol(1) by (auto simp: provisionable_def)
  ultimately show ?thesis using pol eff(1) by (fastforce simp: effective_for_def)
qed

text \<open>
  Property C14 (unusable_policy_unbinds): when the policy of a RestrictedBindDefinition is missing, being deleted
  or violated, a reconciliation that ends without an error leaves no binding under the definition's control and
  no ServiceAccount it has on record, and the stored status does not report bindings.
\<close>

theorem unusable_policy_unbinds:
  assumes "bw_Object w = Some obj" "\<not> bo_Deleting obj" "bind_status_keeps (be_StatusApply env)"
    and "case be_Policies env (rbds_PolicyRef (bo_Spec obj)) of
        None \<Rightarrow> True
      | Some (policy, deleting) \<Rightarrow> deleting \<or> EvaluateBindDefinition (be_AsSelector env) (Some policy)
          (Some (bo_Definition obj)) (Some (bind_labels env)) \<noteq> []"
    and "rbdReconcile env req w = ((RequeueAfter n, None), w')"
  shows "bind_clean obj w' \<and> bind_reports False w'"
proof -
  have "\<not> compliant env obj" using assms(4) by (auto simp: compliant_def split: option.splits)
  then show ?thesis
    using bind_lawful_reconcile [OF assms(1, 2), of env req] assms(3)
    by (simp add: assms(5) bind_lawful_def bind_settled_def unbound_def)
qed

text \<open>
  Property C30 (deleted_definition_unbinds): the object of a deleted RestrictedBindDefinition changes, be it that
  the finalizer is removed or that the object goes away with its last finalizer, only after no binding under its
  control and no ServiceAccount on its record is left; and a reconciliation of it that ends without an error has
  removed the finalizer.
\<close>

theorem deleted_definition_unbinds:
  assumes "bw_Object w = Some obj" "bo_Deleting obj" "RestrictedBindDefinitionFinalizer \<in> set (bo_Finalizers obj)"
    and "rbdReconcile env req w = ((res, err), w')"
  shows "(bw_Object w' = Some obj \<or> bind_clean obj w') \<and>
    (err = None \<longrightarrow> (case bw_Object w' of None \<Rightarrow> True | Some obj' \<Rightarrow>
       RestrictedBindDefinitionFinalizer \<notin> set (bo_Finalizers obj')))"
  using bind_reconcile_deleting [OF assms(4, 1, 2)]
proof (elim disjE exE conjE)
  fix r assume d: "reconcileDelete env obj w = (r, w')" and "snd (res, err) = r"
  then show ?thesis using bind_deletion [OF d assms(1)] assms(3) by (auto split: option.splits)
qed (use assms(1) in auto)

section \<open>Witnesses\<close>

text \<open>
  A cluster with one namespace, a binding of someone else and an outdated binding of the definition, and an API
  server that merges by the book.
\<close>

definition sample_binding_ssa :: binding_ssa where
  "sample_binding_ssa ac live = Inr
     \<lparr>bnd_Labels = bac_Labels ac, bnd_Annotations = bac_Annotations ac,
      bnd_OwnerReferences = map owner_live (bac_OwnerReferences ac),
      bnd_RoleRef = (case bac_RoleRef ac of Some r \<Rightarrow> roleRef_live r | None \<Rightarrow> roleRefOf '''' ''''),
      bnd_Subjects = map subject_live (bac_Subjects ac)\<rparr>"

lemma sample_binding_merges: "binding_merges sample_binding_ssa"
  by (auto simp: binding_merges_def sample_binding_ssa_def)

definition sample_bind_object :: rbd_object where
  "sample_bind_object = \<lparr>bo_Definition = sample_rbd, bo_UID = ''u-2'', bo_Generation = 1, bo_Labels = [], bo_Deleting = False,
     bo_Finalizers = [], bo_Status = \<lparr>bs_ObservedGeneration = 0, bs_BindReconciled = False, bs_GeneratedServiceAccounts = [],
       bs_MissingRoleRefs = [], bs_ExternalServiceAccounts = [], bs_SkippedServiceAccounts = [], bs_PolicyViolations = [],
       bs_Conditions = []\<rparr>\<rparr>"

definition sample_view_role :: rbac_role where
  "sample_view_role = \<lparr>role_Labels = [], role_Annotations = [], role_OwnerReferences = [], role_AggregationRule = None,
     role_Rules = []\<rparr>"

definition sample_bind_env :: "unit rbd_env" where
  "sample_bind_env = \<lparr>be_Now = 7, be_AsSelector = (\<lambda>sel. Inr (\<lambda>ls. False)), be_Hash = (\<lambda>text. ''00000000''),
     be_Policies = (\<lambda>name. if name = ''tenant'' then Some (sample_bind_policy, False) else None),
     be_Namespaces = [\<lparr>ns_Name = ''team-a'', ns_Labels = [], ns_Annotations = [], ns_Phase = ''Active''\<rparr>],
     be_Roles = (\<lambda>k. if k = ClusterRoleKey ''team-view'' then Some sample_view_role else None),
     be_RestConfig = True, be_Factory = (\<lambda>user. Inr (Some ())), be_Refresh = False, be_Fail = (\<lambda>client call. None),
     be_StatusApply = (\<lambda>stored desired. desired), be_Marshal = \<lparr>ma_Subject = (\<lambda>x. Inr ''''), ma_Owner = (\<lambda>x. Inr '''')\<rparr>,
     be_BindingSSA = sample_binding_ssa, be_BindingSkips = (\<lambda>ac live. False),
     be_AccountSSA = (\<lambda>fieldOwner ac live. Inr \<lparr>sac_Labels = saac_Labels ac, sac_Annotations = saac_Annotations ac,
       sac_OwnerReferences = map owner_live (saac_OwnerReferences ac), sac_AutomountToken = saac_AutomountToken ac,
       sac_ManagedFields = [(fieldOwner, ''Apply'')]\<rparr>), be_AccountSkips = (\<lambda>ac live. False)\<rparr>"

definition foreign_binding :: rbac_binding where
  "foreign_binding = \<lparr>bnd_Labels = [], bnd_Annotations = [], bnd_OwnerReferences = [],
     bnd_RoleRef = roleRefOf ''ClusterRole'' ''edit'', bnd_Subjects = []\<rparr>"

definition stale_binding :: rbac_binding where
  "stale_binding = foreign_binding\<lparr>bnd_OwnerReferences := [\<lparr>or_APIVersion = ''authorization.t-caas.telekom.com/v1alpha1'',
     or_Kind = ''RestrictedBindDefinition'', or_Name = ''b'', or_UID = ''u-2'', or_Controller = Some True,
     or_BlockOwnerDeletion = Some False\<rparr>]\<rparr>"

definition foreign_account :: service_account where
  "foreign_account = \<lparr>sac_Labels = [], sac_Annotations = [], sac_OwnerReferences = [], sac_AutomountToken = None,
     sac_ManagedFields = []\<rparr>"

definition sample_bind_world :: "unit rbd_world" where
  "sample_bind_world = \<lparr>bw_Object = Some sample_bind_object,
     bw_Bindings = [(RoleBindingKey ''team-a'' ''other'', foreign_binding), (RoleBindingKey ''team-a'' ''old'', stale_binding)],
     bw_Accounts = [((''team-a'', ''default''), foreign_account)], bw_Cache = newImpersonatedClientCache\<rparr>"

lemma sample_bind_fine:
  "flawless sample_bind_env" "accepts_bindings sample_bind_env" "accepts_accounts sample_bind_env"
  "sound_cluster sample_bind_env sample_bind_object (bw_Bindings sample_bind_world)"
  "bw_Object sample_bind_world = Some sample_bind_object" "\<not> bo_Deleting sample_bind_object"
  "mwf (bw_Bindings sample_bind_world)" "mwf (bw_Accounts sample_bind_world)"
  by (simp_all add: flawless_def accepts_bindings_def accepts_accounts_def sound_cluster_def sample_bind_env_def
      sample_bind_world_def sample_bind_object_def sample_rbd_def sample_binding_merges sample_binding_ssa_def identified_def
      unique_namespaces_def plain_namespaces_def mwf_def plain_key_def)

lemma sample_bind_collisions: "rbdValidateRoleBindingNameCollisions sample_bind_env sample_bind_object = None"
  by code_simp

lemma sample_bind_compliant: "compliant sample_bind_env sample_bind_object"
proof -
  have "EvaluateBindDefinition (be_AsSelector sample_bind_env) (Some sample_bind_policy) (Some sample_rbd)
      (Some (bind_labels sample_bind_env)) = []" by code_simp
  then show ?thesis by (simp add: compliant_def sample_bind_object_def) (simp add: sample_bind_env_def sample_rbd_def)
qed

lemma sample_bind_status: "bind_status_keeps (be_StatusApply sample_bind_env)"
  by (auto simp: bind_status_keeps_def sample_bind_env_def restrictedBindDefinitionStatusEqual_def subjectsEqual_def
      conditionsEqual_refl list_all_iff set_zip)

lemma sample_bind_name: "bind_name sample_bind_env sample_bind_object ''team-view'' = ''b-team-view-binding''"
  by code_simp

lemma sample_bind_asked:
  "asked sample_bind_env sample_bind_object k r \<longleftrightarrow>
     k = RoleBindingKey ''team-a'' ''b-team-view-binding'' \<and> r = roleRefOf ''ClusterRole'' ''team-view''"
  using sample_bind_name
  by (auto simp: asked_def sample_bind_env_def sample_bind_object_def sample_rbd_def sample_binding_def entry_selects_def
      entryRefs_def restrictedClusterRoleRefs_def IsNamespaceTerminating_def NamespaceTerminating_def)

lemma sample_bind_ready: "ready sample_bind_env sample_bind_object (bw_Bindings sample_bind_world)"
  by (auto simp: ready_def asked_wants [symmetric] sample_bind_asked at_key_def) (simp_all add: sample_bind_world_def)

lemma sample_bind_roles: "roles_exist sample_bind_env sample_bind_object"
  by (simp add: roles_exist_def entry_roles_exist_def cluster_role_exists_def sample_bind_object_def sample_rbd_def
      sample_binding_def restrictedClusterRoleRefs_def) (simp add: sample_bind_env_def)

lemma sample_bind_identity: "be_Policies sample_bind_env ref = Some (policy, False) \<Longrightarrow> bind_identity sample_bind_env w policy"
  by (auto simp: bind_identity_def sample_bind_env_def resolvePolicyApplyClient_def impersonatedUsernameForPolicy_def
      sample_bind_policy_def split: if_splits)

lemma stale_bcontrolled: "bcontrolled sample_bind_object stale_binding" "\<not> bcontrolled sample_bind_object foreign_binding"
  by (simp_all add: bcontrolled_def hasControllerOwnerRef_def hasOwnerRefMatching_def stale_binding_def foreign_binding_def
      rbd_owner_def ownerReferenceIdentity_def sample_bind_object_def sample_rbd_def GroupVersionString_def
      RestrictedBindDefinitionKind_def)

lemmas sample_bind_facts = sample_bind_fine sample_bind_collisions sample_bind_compliant sample_bind_roles sample_bind_ready
  sample_bind_identity sample_bind_status

lemma sample_bind_succeeds:
  "\<exists>n w'. rbdReconcile sample_bind_env ''b'' sample_bind_world = ((RequeueAfter n, None), w')"
  by (rule reconcile_succeeds [OF _ sample_bind_fine(5, 6)])
    (use sample_bind_facts in \<open>auto simp: attended_def clear_path_def unobstructed_def sound_cluster_def bind_assumptions_def\<close>)

lemma sample_bind_provisionable: "provisionable sample_bind_env sample_bind_object"
  using sample_bind_facts by (simp add: provisionable_def)

theorem bindings_converge_witness:
  "\<exists>n w'. rbdReconcile sample_bind_env ''b'' sample_bind_world = ((RequeueAfter n, None), w') \<and>
     provisioned sample_bind_env sample_bind_object (bw_Bindings w')"
proof -
  have "\<exists>n w'. rbdReconcile sample_bind_env ''b'' sample_bind_world = ((RequeueAfter n, None), w') \<and>
     (if provisionable sample_bind_env sample_bind_object then provisioned sample_bind_env sample_bind_object (bw_Bindings w')
      else bind_clean sample_bind_object w' \<and> bind_reports False w')"
    by (rule bindings_converge [OF sample_bind_fine(1, 4) sample_bind_status sample_bind_fine(5, 6)])
      (use sample_bind_facts in blast)+
  then show ?thesis by (simp add: sample_bind_provisionable)
qed

text \<open>The binding of someone else and the account are left alone.\<close>

theorem bindings_confined_witness:
  "map_of (bw_Bindings (snd (rbdReconcile sample_bind_env ''b'' sample_bind_world))) (RoleBindingKey ''team-a'' ''other'') =
     Some foreign_binding \<and>
   map_of (bw_Accounts (snd (rbdReconcile sample_bind_env ''b'' sample_bind_world))) (''team-a'', ''default'') =
     Some foreign_account"
proof -
  obtain out w' where run: "rbdReconcile sample_bind_env ''b'' sample_bind_world = (out, w')" by fastforce
  note c = bindings_confined [OF sample_bind_fine(5) run sample_bind_fine(7, 8)]
  have "map_of (bw_Bindings sample_bind_world) (RoleBindingKey ''team-a'' ''other'') = Some foreign_binding"
    "map_of (bw_Accounts sample_bind_world) (''team-a'', ''default'') = Some foreign_account"
    by (simp_all add: sample_bind_world_def)
  moreover have "\<not> trusted sample_bind_env sample_bind_object R k foreign_account" for R k
    by (auto simp: trusted_def acontrolled_def hasControllerOwnerRef_def hasOwnerRefMatching_def foreign_account_def Let_def
        split: prod.splits)
  ultimately show ?thesis using c stale_bcontrolled(2) by (simp add: run)
qed

lemma sample_bind_granted:
  assumes "provisioned sample_bind_env sample_bind_object s"
  shows "\<exists>b. map_of s (RoleBindingKey ''team-a'' ''b-team-view-binding'') = Some b \<and> bcontrolled sample_bind_object b \<and>
    bnd_RoleRef b = roleRefOf ''ClusterRole'' ''team-view''"
proof -
  have "\<exists>subs. granted_at sample_bind_object s (RoleBindingKey ''team-a'' ''b-team-view-binding'') =
      Some (roleRefOf ''ClusterRole'' ''team-view'', subs)"
    using assms by (auto simp: provisioned_def sample_bind_asked)
  then show ?thesis by (auto simp: granted_at_def split: option.splits if_splits)
qed

theorem reconcile_refines_bindings_witness:
  "\<exists>n w' subs. rbdReconcile sample_bind_env ''b'' sample_bind_world = ((RequeueAfter n, None), w') \<and>
     granted_at sample_bind_object (bw_Bindings w') (RoleBindingKey ''team-a'' ''b-team-view-binding'') =
       Some (roleRefOf ''ClusterRole'' ''team-view'', subs) \<and>
     granted_at sample_bind_object (bw_Bindings w') (RoleBindingKey ''team-a'' ''old'') = None"
proof -
  obtain n w' where run: "rbdReconcile sample_bind_env ''b'' sample_bind_world = ((RequeueAfter n, None), w')"
    using sample_bind_succeeds by blast
  obtain eff where g: "\<forall>k r subs. granted_at sample_bind_object (bw_Bindings w') k = Some (r, subs) \<longleftrightarrow>
      asked sample_bind_env sample_bind_object k r \<and> subs = image_mset live_subject (mset eff)"
    using reconcile_refines_bindings [OF sample_bind_fine(5, 6) sample_bind_status sample_bind_fine(4) run]
      sample_bind_provisionable by auto
  have "granted_at sample_bind_object (bw_Bindings w') (RoleBindingKey ''team-a'' ''old'') = None"
    using g by (cases "granted_at sample_bind_object (bw_Bindings w') (RoleBindingKey ''team-a'' ''old'')") (auto simp: sample_bind_asked)
  then show ?thesis using run g by (auto simp: sample_bind_asked)
qed

theorem granted_bindings_safe_witness:
  "\<exists>n w' b. rbdReconcile sample_bind_env ''b'' sample_bind_world = ((RequeueAfter n, None), w') \<and>
     map_of (bw_Bindings w') (RoleBindingKey ''team-a'' ''b-team-view-binding'') = Some b \<and>
     (\<exists>policy limits. grant_within sample_bind_env policy limits (RoleBindingKey ''team-a'' ''b-team-view-binding'') (bnd_RoleRef b))"
proof -
  obtain n w' where run: "rbdReconcile sample_bind_env ''b'' sample_bind_world = ((RequeueAfter n, None), w')"
    using sample_bind_succeeds by blast
  have "provisioned sample_bind_env sample_bind_object (bw_Bindings w')"
    using bind_lawful_reconcile [OF sample_bind_fine(5, 6), of sample_bind_env "''b''"] sample_bind_fine(4)
      sample_bind_provisionable
    by (simp add: run bind_lawful_def bind_settled_def)
  then obtain b where b: "map_of (bw_Bindings w') (RoleBindingKey ''team-a'' ''b-team-view-binding'') = Some b"
      "bcontrolled sample_bind_object b" using sample_bind_granted by blast
  show ?thesis using granted_bindings_safe [OF sample_bind_fine(5, 6, 4) run b] run b(1) by blast
qed

text \<open>The policy is gone: the outdated binding goes.\<close>

theorem unusable_policy_unbinds_witness:
  "\<exists>n w'. rbdReconcile (sample_bind_env\<lparr>be_Policies := (\<lambda>name. None)\<rparr>) ''b'' sample_bind_world = ((RequeueAfter n, None), w') \<and>
     bcontrolled sample_bind_object stale_binding \<and>
     map_of (bw_Bindings sample_bind_world) (RoleBindingKey ''team-a'' ''old'') = Some stale_binding \<and>
     bind_clean sample_bind_object w' \<and> bind_reports False w'"
proof -
  let ?env = "sample_bind_env\<lparr>be_Policies := (\<lambda>name. None)\<rparr>"
  have "attended ?env sample_bind_object sample_bind_world"
    using sample_bind_fine(1, 4, 5)
    by (simp add: attended_def provisionable_def compliant_def sound_cluster_def flawless_def unique_namespaces_def
        plain_namespaces_def)
  then obtain n w' where run: "rbdReconcile ?env ''b'' sample_bind_world = ((RequeueAfter n, None), w')"
    using reconcile_succeeds [OF _ sample_bind_fine(5, 6)] by blast
  have "bind_clean sample_bind_object w' \<and> bind_reports False w'"
    by (rule unusable_policy_unbinds [OF sample_bind_fine(5, 6) _ _ run]) (use sample_bind_status in simp_all)
  moreover have "map_of (bw_Bindings sample_bind_world) (RoleBindingKey ''team-a'' ''old'') = Some stale_binding"
    by (simp add: sample_bind_world_def)
  ultimately show ?thesis using run stale_bcontrolled(1) by blast
qed

theorem deleted_definition_unbinds_witness:
  "\<exists>w'. rbdReconcile sample_bind_env ''b'' (sample_bind_world\<lparr>bw_Object := Some (sample_bind_object\<lparr>bo_Deleting := True,
       bo_Finalizers := [RestrictedBindDefinitionFinalizer]\<rparr>)\<rparr>) = ((NoRequeue, None), w') \<and>
     bw_Object w' = None \<and> bind_clean sample_bind_object w'"
proof -
  let ?obj = "sample_bind_object\<lparr>bo_Deleting := True, bo_Finalizers := [RestrictedBindDefinitionFinalizer]\<rparr>"
  let ?w = "sample_bind_world\<lparr>bw_Object := Some ?obj\<rparr>"
  have same: "same_record ?obj sample_bind_object" by (simp add: same_record_def same_bind_def recorded_def)
  obtain w1 where dep: "rbdDeprovision sample_bind_env ?obj ?w = (None, w1)"
    using deprovision_bind_succeeds [OF sample_bind_fine(1)] by blast
  define w' where "w' = w1\<lparr>bw_Object := None\<rparr>"
  have run: "rbdReconcile sample_bind_env ''b'' ?w = ((NoRequeue, None), w')"
    using dep
    by (simp add: rbdReconcile_def flawless_read [OF sample_bind_fine(1)] flawless_fail [OF sample_bind_fine(1)]
        reconcileDelete_def dropBindFinalizer_def w'_def)
  have "bind_clean ?obj w'"
    using deleted_definition_unbinds [OF _ _ _ run, of ?obj] by (simp add: w'_def)
  then show ?thesis using run by (simp add: same_bind_clean [OF same] w'_def)
qed

end
