(* ===== verification/Binding_Terminator.thy ===== *)
theory Binding_Terminator
  imports Restricted_Lifecycle Role_Generation
begin

text \<open>
  The terminator of RoleBindings (\<^verbatim>\<open>internal/controller/authorization/rolebinding_terminator_controller.go\<close>): it
  holds the RoleBindings of BindDefinitions in a terminating namespace by a finalizer until nothing else is left
  there. The cluster is a function of time, so a cached answer can be compared with what was true when it was
  fetched; reconciliations, the passing of time and the writes of others are the steps of a relation.
\<close>

section \<open>Data\<close>

text \<open>Times are nanoseconds, requeue intervals seconds.\<close>

definition nanos :: int where "nanos = 1000000000"
definition namespaceResourcesCalculationInterval :: int where "namespaceResourcesCalculationInterval = 10 * nanos"
definition terminatingNamespaceRequeueInterval :: nat where "terminatingNamespaceRequeueInterval = 15"
definition RoleBindingFinalizer :: string where
  "RoleBindingFinalizer = ''rolebinding.authorization.t-caas.telekom.com/finalizer''"

definition NamespaceTerminationBlockedCondition :: string where
  "NamespaceTerminationBlockedCondition = ''AuthOperatorNamespaceTerminationBlocked''"
definition NamespaceTerminationBlockedReason :: string where
  "NamespaceTerminationBlockedReason = ''AuthOperatorPreventedTermination''"
definition NamespaceTerminationBlockedMessage :: string where
  "NamespaceTerminationBlockedMessage = ''Auth-operator blocked role bindings termination due to remaining resources''"
definition NamespaceTerminationAllowedReason :: string where
  "NamespaceTerminationAllowedReason = ''AuthOperatorResourcesCleanedUp''"
definition NamespaceTerminationAllowedMessage :: string where
  "NamespaceTerminationAllowedMessage = ''All role bindings created by auth-operator have been cleaned up''"

record GroupVersionResource =
  gvr_Group :: string
  gvr_Version :: string
  gvr_Resource :: string

record namespaceDeletionResourceBlocking =
  br_ResourceType :: string
  br_APIGroup :: string
  br_Count :: nat

text \<open>The rate limiter of an entry is the time of its last run.\<close>

record namespaceTerminationStatus =
  ts_blockingResources :: "namespaceDeletionResourceBlocking list"
  ts_lastError :: "go_error option"
  ts_fetchedAt :: "int option"
  ts_lastRun :: "int option"

definition newNamespaceTerminationStatus :: namespaceTerminationStatus where
  "newNamespaceTerminationStatus =
     \<lparr>ts_blockingResources = [], ts_lastError = None, ts_fetchedAt = None, ts_lastRun = None\<rparr>"

record NamespaceCondition =
  nc_Type :: string
  nc_Status :: string
  nc_LastTransitionTime :: int
  nc_Reason :: string
  nc_Message :: string

record term_binding =
  tb_OwnerReferences :: "OwnerReference list"
  tb_Finalizers :: "string list"
  tb_Deleting :: bool

record term_namespace =
  tn_Deleting :: bool
  tn_Phase :: string
  tn_Conditions :: "NamespaceCondition list"

datatype term_call = TermGetBinding | TermGetOwner bool | TermEnsureFinalizer | TermRemoveFinalizer | TermGetNamespace
  | TermList GroupVersionResource string | TermNamespaceStatus

text \<open>
  The cluster at each time: what discovery answers, the objects of a namespace, the UIDs of the BindDefinitions in
  the cache (\<open>te_Cached\<close>) and in the API server (\<open>te_Live\<close>), and which requests fail. \<open>te_Completed\<close> is the order in
  which the concurrent listings finish. \<^verbatim>\<open>rate.Sometimes\<close>, the parsing of group versions, the text of a
  GroupVersionResource and the server-side apply of a namespace condition are parameters.
\<close>

record term_env =
  te_Discovery :: "int \<Rightarrow> go_error + APIResourcesByGroupVersion"
  te_ParseGV :: parse_gv
  te_Objects :: "int \<Rightarrow> GroupVersionResource \<Rightarrow> string \<Rightarrow> string list"
  te_Cached :: "int \<Rightarrow> string \<Rightarrow> string option"
  te_Live :: "int \<Rightarrow> string \<Rightarrow> string option"
  te_Reader :: bool
  te_Fail :: "int \<Rightarrow> term_call \<Rightarrow> go_error option"
  te_Completed :: "int \<Rightarrow> GroupVersionResource list \<Rightarrow> GroupVersionResource list"
  te_Sometimes :: "int \<Rightarrow> int option \<Rightarrow> int \<Rightarrow> bool"
  te_Text :: "GroupVersionResource \<Rightarrow> string"
  te_StatusApply :: "NamespaceCondition \<Rightarrow> NamespaceCondition list \<Rightarrow> NamespaceCondition list"

record term_world =
  tw_Bindings :: "string \<times> string \<Rightarrow> term_binding option"
  tw_Namespaces :: "string \<Rightarrow> term_namespace option"
  tw_Cache :: "(string, namespaceTerminationStatus) gomap"

section \<open>Resources that block\<close>

fun supportsList :: "string list \<Rightarrow> bool" where
  "supportsList [] = False"
| "supportsList (verb # verbs) = (if verb = ''list'' then True else supportsList verbs)"

definition listedResource :: "GroupVersion \<Rightarrow> APIResource \<Rightarrow> bool" where
  "listedResource gv resource =
     (if Contains (ar_Name resource) ''/'' then False
      else if ar_Name resource = ''rolebindings'' \<and> gv_Group gv = rbacGroupName then False
      else if \<not> ar_Namespaced resource then False
      else supportsList (ar_Verbs resource))"

definition resourceChecks :: "parse_gv \<Rightarrow> APIResourcesByGroupVersion \<Rightarrow> GroupVersionResource list" where
  "resourceChecks parse apiResources =
     concat (map (\<lambda>(groupVersion, resourceList).
       case parse groupVersion of
         Inl err \<Rightarrow> []
       | Inr gv \<Rightarrow> map (\<lambda>r. \<lparr>gvr_Group = gv_Group gv, gvr_Version = gv_Version gv, gvr_Resource = ar_Name r\<rparr>)
           (filter (listedResource gv) resourceList)) apiResources)"

text \<open>One listing, and all of them: the error of the first that fails, and what the others found.\<close>

definition checkResource ::
  "term_env \<Rightarrow> int \<Rightarrow> string \<Rightarrow> GroupVersionResource \<Rightarrow> go_error + namespaceDeletionResourceBlocking option" where
  "checkResource env now namespace gvr =
     (case te_Fail env now (TermList gvr namespace) of
        Some err \<Rightarrow> Inl (wrapf [Lit ''list '', Lit (te_Text env gvr), Lit '' in namespace '', Lit namespace] err)
      | None \<Rightarrow>
          let items = te_Objects env now gvr namespace in
          if length items = 0 then Inr None
          else Inr (Some \<lparr>br_ResourceType = gvr_Resource gvr, br_APIGroup = gvr_Group gvr, br_Count = length items\<rparr>))"

fun collectChecks ::
  "(GroupVersionResource \<Rightarrow> go_error + namespaceDeletionResourceBlocking option) \<Rightarrow> GroupVersionResource list
    \<Rightarrow> go_error option \<times> namespaceDeletionResourceBlocking list" where
  "collectChecks task [] = (None, [])"
| "collectChecks task (gvr # gvrs) =
     (let (waitErr, blocking) = collectChecks task gvrs in
      case task gvr of
        Inl err \<Rightarrow> (Some err, blocking)
      | Inr None \<Rightarrow> (waitErr, blocking)
      | Inr (Some br) \<Rightarrow> (waitErr, br # blocking))"

definition namespaceHasResources ::
  "term_env \<Rightarrow> int \<Rightarrow> string \<Rightarrow> go_error + namespaceDeletionResourceBlocking list" where
  "namespaceHasResources env now namespace =
     (case te_Discovery env now of
        Inl err \<Rightarrow> Inl err
      | Inr apiResources \<Rightarrow>
          (case collectChecks (checkResource env now namespace)
                 (te_Completed env now (resourceChecks (te_ParseGV env) apiResources)) of
             (Some waitErr, blocking) \<Rightarrow>
               Inl (wrapf [Lit ''error listing resources in namespace '', Lit namespace] waitErr)
           | (None, blocking) \<Rightarrow> Inr blocking))"

definition getNamespacedBlockingResources ::
  "term_env \<Rightarrow> int \<Rightarrow> string \<Rightarrow> (string, namespaceTerminationStatus) gomap
    \<Rightarrow> namespaceDeletionResourceBlocking list \<times> go_error option \<times> (string, namespaceTerminationStatus) gomap" where
  "getNamespacedBlockingResources env now namespace cache =
     (let status = (case mlookup cache namespace of None \<Rightarrow> newNamespaceTerminationStatus | Some st \<Rightarrow> st);
          status1 =
            (if te_Sometimes env namespaceResourcesCalculationInterval (ts_lastRun status) now then
               (case namespaceHasResources env now namespace of
                  Inl err \<Rightarrow> \<lparr>ts_blockingResources = [], ts_lastError = Some err, ts_fetchedAt = Some now, ts_lastRun = Some now\<rparr>
                | Inr blocking \<Rightarrow>
                    \<lparr>ts_blockingResources = blocking, ts_lastError = None, ts_fetchedAt = Some now, ts_lastRun = Some now\<rparr>)
             else status) in
      (ts_blockingResources status1, ts_lastError status1, mput namespace status1 cache))"

definition blockingResourceType :: "namespaceDeletionResourceBlocking \<Rightarrow> string" where
  "blockingResourceType resource =
     (if br_APIGroup resource = '''' then br_ResourceType resource
      else br_ResourceType resource @ ''.'' @ br_APIGroup resource)"

definition formatBlockingResourcesMessage :: "namespaceDeletionResourceBlocking list \<Rightarrow> string" where
  "formatBlockingResourcesMessage blockingResources =
     Join (map (\<lambda>rb. blockingResourceType rb @ ''='' @ itoa (br_Count rb))
       (sort_key br_ResourceType (sort_key br_APIGroup blockingResources))) ''; ''"

section \<open>Owners and finalizers\<close>

definition isOwnedByBindDefinition :: "OwnerReference list \<Rightarrow> bool" where
  "isOwnedByBindDefinition ownerReferences =
     list_ex (\<lambda>ref. or_Kind ref = ''BindDefinition'' \<and> or_APIVersion ref = GroupVersionString \<and> or_Name ref \<noteq> '''' \<and>
       or_UID ref \<noteq> '''') ownerReferences"

datatype owner_error = errNoControllingBindDefinitionOwner | errBindDefinitionOwnerUIDMismatch string
  | OwnerNotFound string | OwnerGetFailed go_error

text \<open>One reader; \<open>next\<close> goes on with the remaining ones and the last error. The owner is its name.\<close>

definition readOwner ::
  "term_env \<Rightarrow> int \<Rightarrow> OwnerReference \<Rightarrow> bool \<Rightarrow> (owner_error \<Rightarrow> owner_error + string) \<Rightarrow> owner_error + string" where
  "readOwner env now ref live next =
     (case server_read (te_Fail env now) (TermGetOwner live)
             ((if live then te_Live env else te_Cached env) now (or_Name ref)) of
        Missing \<Rightarrow> next (OwnerNotFound (or_Name ref))
      | ReadError err \<Rightarrow> Inl (OwnerGetFailed (wrapf [Lit ''failed to get BindDefinition '', Lit (or_Name ref)] err))
      | Got uid \<Rightarrow>
          if uid \<noteq> or_UID ref then next (errBindDefinitionOwnerUIDMismatch (or_Name ref)) else Inr (or_Name ref))"

definition getBindDefinitionOwner :: "term_env \<Rightarrow> int \<Rightarrow> OwnerReference \<Rightarrow> owner_error + string" where
  "getBindDefinitionOwner env now ref =
     readOwner env now ref False (\<lambda>lastErr.
       if te_Reader env then readOwner env now ref True Inl else Inl lastErr)"

fun getOwningBindDefinition :: "term_env \<Rightarrow> int \<Rightarrow> OwnerReference list \<Rightarrow> owner_error + string" where
  "getOwningBindDefinition env now [] = Inl errNoControllingBindDefinitionOwner"
| "getOwningBindDefinition env now (ref # refs) =
     (if or_Kind ref \<noteq> ''BindDefinition'' \<or> or_APIVersion ref \<noteq> GroupVersionString
      then getOwningBindDefinition env now refs
      else if or_Controller ref \<noteq> Some True then getOwningBindDefinition env now refs
      else getBindDefinitionOwner env now ref)"

definition isInvalidBindDefinitionOwnerError :: "owner_error \<Rightarrow> bool" where
  "isInvalidBindDefinitionOwnerError err =
     (case err of
        errNoControllingBindDefinitionOwner \<Rightarrow> True
      | errBindDefinitionOwnerUIDMismatch name \<Rightarrow> True
      | OwnerNotFound name \<Rightarrow> True
      | OwnerGetFailed e \<Rightarrow> IsNotFound e)"

text \<open>The error value \<^verbatim>\<open>Reconcile\<close> returns for an owner that could not be read.\<close>

definition ownerError :: "owner_error \<Rightarrow> go_error" where
  "ownerError err =
     (case err of
        errNoControllingBindDefinitionOwner \<Rightarrow> errorf [Lit ''no controlling BindDefinition owner reference found'']
      | errBindDefinitionOwnerUIDMismatch name \<Rightarrow>
          errorf [Lit ''BindDefinition owner reference UID mismatch: '', Lit name]
      | OwnerNotFound name \<Rightarrow> \<lparr>ge_causes = [APIStatus ''NotFound''], ge_text = [Lit ''failed to get BindDefinition '', Lit name]\<rparr>
      | OwnerGetFailed e \<Rightarrow> e)"

text \<open>The binding goes with its last finalizer when it is being deleted.\<close>

definition removeRoleBindingFinalizer ::
  "term_env \<Rightarrow> int \<Rightarrow> string \<times> string \<Rightarrow> term_binding \<Rightarrow> term_world \<Rightarrow> bool \<times> go_error option \<times> term_world" where
  "removeRoleBindingFinalizer env now key rb w =
     (if RoleBindingFinalizer \<notin> set (tb_Finalizers rb) then (False, None, w)
      else
        (case te_Fail env now TermRemoveFinalizer of
           Some err \<Rightarrow> (False, Some err, w)
         | None \<Rightarrow>
             let finalizers = filter (\<lambda>f. f \<noteq> RoleBindingFinalizer) (tb_Finalizers rb) in
             (True, None, w\<lparr>tw_Bindings := (tw_Bindings w)(key :=
                if finalizers = [] \<and> tb_Deleting rb then None else Some (rb\<lparr>tb_Finalizers := finalizers\<rparr>))\<rparr>)))"

definition ensureRoleBindingFinalizer ::
  "term_env \<Rightarrow> int \<Rightarrow> string \<times> string \<Rightarrow> term_binding \<Rightarrow> term_world \<Rightarrow> go_error option \<times> term_world" where
  "ensureRoleBindingFinalizer env now key rb w =
     (if RoleBindingFinalizer \<in> set (tb_Finalizers rb) then (None, w)
      else
        (case te_Fail env now TermEnsureFinalizer of
           Some err \<Rightarrow> (Some err, w)
         | None \<Rightarrow> (None, w\<lparr>tw_Bindings := (tw_Bindings w)(key \<mapsto>
             rb\<lparr>tb_Finalizers := tb_Finalizers rb @ [RoleBindingFinalizer]\<rparr>)\<rparr>)))"

section \<open>The status of the namespace\<close>

definition nsGetConditions :: "term_namespace \<Rightarrow> Condition list" where
  "nsGetConditions ns =
     map (\<lambda>c. \<lparr>c_Type = nc_Type c, c_Status = nc_Status c, c_ObservedGeneration = 0,
       c_LastTransitionTime = nc_LastTransitionTime c, c_Reason = nc_Reason c, c_Message = nc_Message c\<rparr>) (tn_Conditions ns)"

definition nsSetConditions :: "Condition list \<Rightarrow> term_namespace \<Rightarrow> term_namespace" where
  "nsSetConditions cs ns =
     ns\<lparr>tn_Conditions := map (\<lambda>c. \<lparr>nc_Type = c_Type c, nc_Status = c_Status c,
       nc_LastTransitionTime = c_LastTransitionTime c, nc_Reason = c_Reason c, nc_Message = c_Message c\<rparr>) cs\<rparr>"

definition markNamespace :: "int \<Rightarrow> bool \<Rightarrow> string \<Rightarrow> string \<Rightarrow> term_namespace \<Rightarrow> term_namespace" where
  "markNamespace now value reason message ns =
     nsSetConditions ((if value then MarkTrue else MarkFalse) (now div nanos) (nsGetConditions ns)
       NamespaceTerminationBlockedCondition 0 reason message) ns"

definition extractNamespaceCondition :: "term_namespace \<Rightarrow> string \<Rightarrow> NamespaceCondition option" where
  "extractNamespaceCondition ns condType = List.find (\<lambda>c. nc_Type c = condType) (tn_Conditions ns)"

definition applyNamespaceTerminationStatus ::
  "term_env \<Rightarrow> int \<Rightarrow> string \<Rightarrow> term_namespace \<Rightarrow> term_world \<Rightarrow> go_error option \<times> term_world" where
  "applyNamespaceTerminationStatus env now name ns w =
     (case extractNamespaceCondition ns NamespaceTerminationBlockedCondition of
        None \<Rightarrow> (None, w)
      | Some cond \<Rightarrow>
          (case te_Fail env now TermNamespaceStatus of
             Some err \<Rightarrow> (Some (wrapf [Lit ''apply Namespace '', Lit name, Lit '' status''] err), w)
           | None \<Rightarrow> (None, w\<lparr>tw_Namespaces := (tw_Namespaces w)(name := map_option (\<lambda>stored.
               stored\<lparr>tn_Conditions := te_StatusApply env cond (tn_Conditions stored)\<rparr>) (tw_Namespaces w name))\<rparr>)))"

section \<open>Reconcile\<close>

text \<open>A RoleBinding that is being deleted in a terminating namespace.\<close>

definition terminateBinding ::
  "term_env \<Rightarrow> int \<Rightarrow> string \<times> string \<Rightarrow> term_binding \<Rightarrow> term_namespace \<Rightarrow> term_world \<Rightarrow> outcome \<times> term_world" where
  "terminateBinding env now key rb ns w =
     (let name = fst key;
          (blocking, lastError, cache) = getNamespacedBlockingResources env now name (tw_Cache w);
          w1 = w\<lparr>tw_Cache := cache\<rparr> in
      case lastError of
        Some err \<Rightarrow> ((NoRequeue, Some err), w1)
      | None \<Rightarrow>
          if length blocking \<noteq> 0 then
            (case applyNamespaceTerminationStatus env now name (markNamespace now True NamespaceTerminationBlockedReason
                    (NamespaceTerminationBlockedMessage @ '': '' @ formatBlockingResourcesMessage blocking) ns) w1 of
               (Some err, w2) \<Rightarrow> ((NoRequeue, Some err), w2)
             | (None, w2) \<Rightarrow> ((RequeueAfter terminatingNamespaceRequeueInterval, None), w2))
          else
            (case applyNamespaceTerminationStatus env now name (markNamespace now False NamespaceTerminationAllowedReason
                    NamespaceTerminationAllowedMessage ns) w1 of
               (Some err, w2) \<Rightarrow> ((NoRequeue, Some err), w2)
             | (None, w2) \<Rightarrow>
                 (case removeRoleBindingFinalizer env now key rb w2 of
                    (removed, Some err, w3) \<Rightarrow> ((NoRequeue, Some err), w3)
                  | (removed, None, w3) \<Rightarrow>
                      ((NoRequeue, None), if removed then w3\<lparr>tw_Cache := mdelete name (tw_Cache w3)\<rparr> else w3))))"

definition terminatorReconcile ::
  "term_env \<Rightarrow> int \<Rightarrow> string \<times> string \<Rightarrow> term_world \<Rightarrow> outcome \<times> term_world" where
  "terminatorReconcile env now key w =
     (case server_read (te_Fail env now) TermGetBinding (tw_Bindings w key) of
        Missing \<Rightarrow> ((NoRequeue, None), w)
      | ReadError err \<Rightarrow> ((NoRequeue, Some err), w)
      | Got rb \<Rightarrow>
          (case getOwningBindDefinition env now (tb_OwnerReferences rb) of
             Inl ownerErr \<Rightarrow>
               if \<not> isInvalidBindDefinitionOwnerError ownerErr then ((NoRequeue, Some (ownerError ownerErr)), w)
               else (case removeRoleBindingFinalizer env now key rb w of (removed, err, w1) \<Rightarrow> ((NoRequeue, err), w1))
           | Inr bindDefinition \<Rightarrow>
               if \<not> tb_Deleting rb
               then (case ensureRoleBindingFinalizer env now key rb w of (err, w1) \<Rightarrow> ((NoRequeue, err), w1))
               else
                 (case server_read (te_Fail env now) TermGetNamespace (tw_Namespaces w (fst key)) of
                    Missing \<Rightarrow> ((NoRequeue, None), w)
                  | ReadError err \<Rightarrow> ((NoRequeue, Some err), w)
                  | Got ns \<Rightarrow>
                      if \<not> (tn_Deleting ns \<and> tn_Phase ns = NamespaceTerminating) then
                        (case removeRoleBindingFinalizer env now key rb w of
                           (removed, Some err, w1) \<Rightarrow> ((NoRequeue, Some err), w1)
                         | (removed, None, w1) \<Rightarrow>
                             ((NoRequeue, None), if removed then w1\<lparr>tw_Cache := mdelete (fst key) (tw_Cache w1)\<rparr> else w1))
                      else terminateBinding env now key rb ns w)))"

end
