(* ===== verification/Terminator_Runs.thy ===== *)
theory Terminator_Runs
  imports Binding_Terminator
begin

text \<open>
  Runs of the terminator: what its cached answer says about the cluster, that a RoleBinding outlives the other
  resources of a terminating namespace, and that it goes once they are gone.
\<close>

section \<open>The listings\<close>

text \<open>All goroutines have finished when the group has been waited for.\<close>

definition all_complete :: "(int \<Rightarrow> GroupVersionResource list \<Rightarrow> GroupVersionResource list) \<Rightarrow> bool" where
  "all_complete completed \<longleftrightarrow> (\<forall>now gvrs. set (completed now gvrs) = set gvrs)"

text \<open>\<^verbatim>\<open>rate.Sometimes\<close>: the first call runs, then a call runs when the interval has passed since the last run.\<close>

definition runs_sometimes :: "(int \<Rightarrow> int option \<Rightarrow> int \<Rightarrow> bool) \<Rightarrow> bool" where
  "runs_sometimes due \<longleftrightarrow> (\<forall>interval now. due interval None now) \<and>
     (\<forall>interval last now. due interval (Some last) now \<longleftrightarrow> interval \<le> now - last)"

lemma supportsList_iff [simp]: "supportsList verbs \<longleftrightarrow> ''list'' \<in> set verbs"
  by (induction verbs) auto

lemma collectChecks_Nil: "collectChecks task gvrs = (None, []) \<longleftrightarrow> (\<forall>gvr \<in> set gvrs. task gvr = Inr None)"
  by (induction gvrs) (auto split: prod.splits sum.splits option.splits)

text \<open>An object other than a RoleBinding is left in the namespace, of a type the API server serves and lists.\<close>

definition left_over :: "term_env \<Rightarrow> int \<Rightarrow> string \<Rightarrow> APIResourcesByGroupVersion \<Rightarrow> bool" where
  "left_over env now namespace apis \<longleftrightarrow>
     (\<exists>(gvText, rs) \<in> set apis. \<exists>gv. \<exists>r \<in> set rs. te_ParseGV env gvText = Inr gv \<and> CHR ''/'' \<notin> set (ar_Name r) \<and>
        \<not> (ar_Name r = ''rolebindings'' \<and> gv_Group gv = rbacGroupName) \<and> ar_Namespaced r \<and> ''list'' \<in> set (ar_Verbs r) \<and>
        te_Objects env now \<lparr>gvr_Group = gv_Group gv, gvr_Version = gv_Version gv, gvr_Resource = ar_Name r\<rparr> namespace \<noteq> [])"

definition remains :: "term_env \<Rightarrow> int \<Rightarrow> string \<Rightarrow> bool" where
  "remains env now namespace \<longleftrightarrow> (\<forall>apis. te_Discovery env now = Inr apis \<longrightarrow> left_over env now namespace apis)"

definition cleared :: "term_env \<Rightarrow> int \<Rightarrow> string \<Rightarrow> bool" where
  "cleared env now namespace \<longleftrightarrow> (\<forall>gvr. te_Fail env now (TermList gvr namespace) = None) \<and>
     (\<exists>apis. te_Discovery env now = Inr apis \<and> \<not> left_over env now namespace apis)"

lemma listedResource_iff: "listedResource gv r \<longleftrightarrow> CHR ''/'' \<notin> set (ar_Name r) \<and>
    \<not> (ar_Name r = ''rolebindings'' \<and> gv_Group gv = rbacGroupName) \<and> ar_Namespaced r \<and> ''list'' \<in> set (ar_Verbs r)"
  by (auto simp: listedResource_def Contains_char)

lemma checked_resources:
  "gvr \<in> set (resourceChecks parse apis) \<longleftrightarrow>
     (\<exists>(gvText, rs) \<in> set apis. \<exists>gv. \<exists>r \<in> set rs. parse gvText = Inr gv \<and> listedResource gv r \<and>
        gvr = \<lparr>gvr_Group = gv_Group gv, gvr_Version = gv_Version gv, gvr_Resource = ar_Name r\<rparr>)"
proof -
  have "gvr \<in> set (case parse gvText of Inl err \<Rightarrow> []
      | Inr gv \<Rightarrow> map (\<lambda>r. \<lparr>gvr_Group = gv_Group gv, gvr_Version = gv_Version gv, gvr_Resource = ar_Name r\<rparr>)
          (filter (listedResource gv) rs)) \<longleftrightarrow>
      (\<exists>gv. \<exists>r \<in> set rs. parse gvText = Inr gv \<and> listedResource gv r \<and>
        gvr = \<lparr>gvr_Group = gv_Group gv, gvr_Version = gv_Version gv, gvr_Resource = ar_Name r\<rparr>)" for gvText rs
    by (cases "parse gvText") auto
  then show ?thesis by (simp add: resourceChecks_def split_beta)
qed

lemma left_over_iff:
  "left_over env now namespace apis \<longleftrightarrow>
     (\<exists>gvr \<in> set (resourceChecks (te_ParseGV env) apis). te_Objects env now gvr namespace \<noteq> [])"
  unfolding left_over_def checked_resources listedResource_iff Bex_def split_beta by blast

lemma empty_answer:
  assumes "all_complete (te_Completed env)"
  shows "namespaceHasResources env now namespace = Inr [] \<longleftrightarrow>
    (\<exists>apis. te_Discovery env now = Inr apis \<and> (\<forall>gvr \<in> set (resourceChecks (te_ParseGV env) apis).
       te_Fail env now (TermList gvr namespace) = None \<and> te_Objects env now gvr namespace = []))"
proof -
  have "checkResource env now namespace gvr = Inr None \<longleftrightarrow>
      te_Fail env now (TermList gvr namespace) = None \<and> te_Objects env now gvr namespace = []" for gvr
    by (simp add: checkResource_def Let_def split: option.splits)
  then have "collectChecks (checkResource env now namespace) (te_Completed env now gvrs) = (None, []) \<longleftrightarrow>
      (\<forall>gvr \<in> set gvrs. te_Fail env now (TermList gvr namespace) = None \<and> te_Objects env now gvr namespace = [])" for gvrs
    using assms by (simp add: collectChecks_Nil all_complete_def)
  note checks = this
  show ?thesis
  proof (cases "te_Discovery env now")
    case (Inr apis)
    then show ?thesis
      using checks [of "resourceChecks (te_ParseGV env) apis"]
      by (cases "collectChecks (checkResource env now namespace) (te_Completed env now (resourceChecks (te_ParseGV env) apis))")
        (auto simp: namespaceHasResources_def split: option.splits)
  qed (simp add: namespaceHasResources_def)
qed

lemma remains_not_empty:
  "all_complete (te_Completed env) \<Longrightarrow> remains env now namespace \<Longrightarrow> namespaceHasResources env now namespace \<noteq> Inr []"
  by (auto simp: empty_answer remains_def left_over_iff)

lemma cleared_empty:
  "all_complete (te_Completed env) \<Longrightarrow> cleared env now namespace \<Longrightarrow> namespaceHasResources env now namespace = Inr []"
  by (auto simp: empty_answer cleared_def left_over_iff)

section \<open>The cache\<close>

text \<open>An entry is the answer of the time of its last run.\<close>

definition entry_answers :: "term_env \<Rightarrow> int \<Rightarrow> string \<Rightarrow> namespaceDeletionResourceBlocking list \<Rightarrow> go_error option \<Rightarrow> bool" where
  "entry_answers env u namespace blocking lastError \<longleftrightarrow>
     (case namespaceHasResources env u namespace of
        Inl err \<Rightarrow> lastError = Some err
      | Inr found \<Rightarrow> lastError = None \<and> blocking = found)"

definition cache_sound :: "term_env \<Rightarrow> int \<Rightarrow> (string, namespaceTerminationStatus) gomap \<Rightarrow> bool" where
  "cache_sound env now cache \<longleftrightarrow> (\<forall>namespace st. mlookup cache namespace = Some st \<longrightarrow>
     (\<exists>u \<le> now. ts_lastRun st = Some u \<and> entry_answers env u namespace (ts_blockingResources st) (ts_lastError st)))"

lemma cache_sound_later: "cache_sound env now cache \<Longrightarrow> now \<le> now' \<Longrightarrow> cache_sound env now' cache"
  unfolding cache_sound_def by (meson order_trans)

lemma cache_sound_delete: "cache_sound env now cache \<Longrightarrow> cache_sound env now (mdelete namespace cache)"
  by (simp add: cache_sound_def)

lemma cached_answer:
  assumes "runs_sometimes (te_Sometimes env)" "cache_sound env now cache"
    and "getNamespacedBlockingResources env now namespace cache = (blocking, lastError, cache')"
  shows "cache_sound env now cache' \<and> (\<exists>u \<le> now. now - u < namespaceResourcesCalculationInterval \<and>
    entry_answers env u namespace blocking lastError)"
proof -
  define st where "st = (case mlookup cache namespace of None \<Rightarrow> newNamespaceTerminationStatus | Some st \<Rightarrow> st)"
  define due where "due = te_Sometimes env namespaceResourcesCalculationInterval (ts_lastRun st) now"
  define st1 where "st1 = (if due then (case namespaceHasResources env now namespace of
      Inl err \<Rightarrow> \<lparr>ts_blockingResources = [], ts_lastError = Some err, ts_fetchedAt = Some now, ts_lastRun = Some now\<rparr>
    | Inr found \<Rightarrow> \<lparr>ts_blockingResources = found, ts_lastError = None, ts_fetchedAt = Some now, ts_lastRun = Some now\<rparr>) else st)"
  have get: "blocking = ts_blockingResources st1" "lastError = ts_lastError st1" "cache' = mput namespace st1 cache"
    using assms(3) unfolding getNamespacedBlockingResources_def Let_def st_def [symmetric] due_def [symmetric] st1_def [symmetric]
    by simp_all
  have pos: "0 < namespaceResourcesCalculationInterval" by (simp add: namespaceResourcesCalculationInterval_def nanos_def)
  have "\<exists>u \<le> now. now - u < namespaceResourcesCalculationInterval \<and> ts_lastRun st1 = Some u \<and>
      entry_answers env u namespace (ts_blockingResources st1) (ts_lastError st1)"
  proof (cases due)
    case True
    then show ?thesis using pos
      by (intro exI [of _ now]) (simp add: st1_def entry_answers_def split: sum.splits)
  next
    case False
    with assms(1) obtain last where last: "ts_lastRun st = Some last" "now - last < namespaceResourcesCalculationInterval"
      by (cases "ts_lastRun st") (auto simp: due_def runs_sometimes_def not_le)
    then have "mlookup cache namespace = Some st"
      by (cases "mlookup cache namespace") (auto simp: st_def newNamespaceTerminationStatus_def)
    with assms(2) last(1) have "last \<le> now \<and> entry_answers env last namespace (ts_blockingResources st) (ts_lastError st)"
      unfolding cache_sound_def by fastforce
    with last False show ?thesis by (auto simp: st1_def)
  qed
  then show ?thesis using assms(2) by (auto simp: get cache_sound_def)
qed

section \<open>One reconciliation\<close>

definition terminating :: "term_world \<Rightarrow> string \<Rightarrow> bool" where
  "terminating w n \<longleftrightarrow> (\<exists>ns. tw_Namespaces w n = Some ns \<and> tn_Deleting ns \<and> tn_Phase ns = NamespaceTerminating)"

text \<open>The first controlling reference is to a BindDefinition the API server has under that UID.\<close>

definition controlling :: "OwnerReference \<Rightarrow> bool" where
  "controlling ref \<longleftrightarrow> or_Kind ref = ''BindDefinition'' \<and> or_APIVersion ref = GroupVersionString \<and> or_Controller ref = Some True"

definition owned :: "term_env \<Rightarrow> int \<Rightarrow> OwnerReference list \<Rightarrow> bool" where
  "owned env now refs \<longleftrightarrow> te_Reader env \<and>
     (\<exists>ref. List.find controlling refs = Some ref \<and> te_Live env now (or_Name ref) = Some (or_UID ref))"

lemma owner_lookup: "getOwningBindDefinition env now refs =
    (case List.find controlling refs of None \<Rightarrow> Inl errNoControllingBindDefinitionOwner
     | Some ref \<Rightarrow> getBindDefinitionOwner env now ref)"
  by (induction refs) (auto simp: controlling_def)

lemma read_failed: "server_read fail call stored = ReadError err \<Longrightarrow> \<not> IsNotFound err"
  by (auto simp: server_read_def split: option.splits if_splits)

lemma IsNotFound_wrapf [simp]: "IsNotFound (wrapf m err) = IsNotFound err"
  by (simp add: IsNotFound_def ReasonForError_def wrapf_def)

lemma owned_valid:
  assumes "owned env now refs" "getOwningBindDefinition env now refs = Inl err"
  shows "\<not> isInvalidBindDefinitionOwnerError err"
  using assms
  by (auto simp: owned_def owner_lookup getBindDefinitionOwner_def readOwner_def isInvalidBindDefinitionOwnerError_def
      server_read_def split: read.splits if_splits option.splits dest: read_failed)

lemma owned_found:
  assumes "owned env now refs" "\<And>call. te_Fail env now call = None"
  shows "\<exists>name. getOwningBindDefinition env now refs = Inr name"
  using assms
  by (auto simp: owned_def owner_lookup getBindDefinitionOwner_def readOwner_def server_read_def
      split: read.splits option.splits)

text \<open>What a part of a reconciliation leaves alone.\<close>

definition tame :: "term_env \<Rightarrow> int \<Rightarrow> string \<times> string \<Rightarrow> term_world \<Rightarrow> term_world \<Rightarrow> bool" where
  "tame env now key w w' \<longleftrightarrow> (cache_sound env now (tw_Cache w) \<longrightarrow> cache_sound env now (tw_Cache w')) \<and>
     (\<forall>n. terminating w' n = terminating w n) \<and> (\<forall>k. k \<noteq> key \<longrightarrow> tw_Bindings w' k = tw_Bindings w k)"

lemma tame_refl [simp]: "tame env now key w w"
  by (simp add: tame_def)

lemma tame_trans: "tame env now key a b \<Longrightarrow> tame env now key b c \<Longrightarrow> tame env now key a c"
  by (simp add: tame_def)

lemma tame_evict [simp]: "tame env now key w (w\<lparr>tw_Cache := mdelete n (tw_Cache w)\<rparr>)"
  by (simp add: tame_def terminating_def cache_sound_delete)

lemma tame_remove: "removeRoleBindingFinalizer env now key rb w = (removed, err, w') \<Longrightarrow> tame env now key w w'"
  by (auto simp: removeRoleBindingFinalizer_def Let_def tame_def terminating_def split: if_splits option.splits)

lemma tame_ensure: "ensureRoleBindingFinalizer env now key rb w = (err, w') \<Longrightarrow> tame env now key w w'"
  by (auto simp: ensureRoleBindingFinalizer_def tame_def terminating_def split: if_splits option.splits)

lemma status_bindings: "applyNamespaceTerminationStatus env now name ns w = (err, w') \<Longrightarrow> tw_Bindings w' = tw_Bindings w"
  by (auto simp: applyNamespaceTerminationStatus_def split: option.splits)

lemma tame_status: "applyNamespaceTerminationStatus env now name ns w = (err, w') \<Longrightarrow> tame env now key w w'"
  by (cases "tw_Namespaces w name")
    (auto simp: applyNamespaceTerminationStatus_def tame_def terminating_def split: option.splits if_splits)

lemma tame_terminate:
  assumes "runs_sometimes (te_Sometimes env)" "terminateBinding env now key rb ns w = (out, w')"
  shows "tame env now key w w'"
proof -
  obtain blocking lastError cache where get:
    "getNamespacedBlockingResources env now (fst key) (tw_Cache w) = (blocking, lastError, cache)"
    by (metis prod_cases3)
  have first: "tame env now key w (w\<lparr>tw_Cache := cache\<rparr>)"
    using cached_answer [OF assms(1) _ get] by (simp add: tame_def terminating_def)
  have evict: "tame env now key w v \<Longrightarrow> tame env now key w (v\<lparr>tw_Cache := mdelete n (tw_Cache v)\<rparr>)" for v n
    using tame_evict tame_trans by blast
  show ?thesis
    using assms(2) first unfolding terminateBinding_def Let_def get
    by (auto split: option.splits if_splits prod.splits dest!: tame_status [where key = key] tame_remove
        intro: tame_trans evict)
qed

lemma tame_reconcile:
  assumes "runs_sometimes (te_Sometimes env)" "terminatorReconcile env now key w = (out, w')"
  shows "tame env now key w w'"
proof -
  have evict: "tame env now key w v \<Longrightarrow> tame env now key w (v\<lparr>tw_Cache := mdelete n (tw_Cache v)\<rparr>)" for v n
    using tame_evict tame_trans by blast
  show ?thesis
    using assms(2) unfolding terminatorReconcile_def
    by (auto split: read.splits sum.splits if_splits prod.splits option.splits
        dest: tame_remove tame_ensure tame_terminate [OF assms(1)] intro!: evict)
qed

text \<open>While something remains, the listing of no time within the interval was empty, so the finalizer stays.\<close>

lemma reconcile_holds:
  assumes "runs_sometimes (te_Sometimes env)" "all_complete (te_Completed env)" "cache_sound env now (tw_Cache w)"
    and rb: "tw_Bindings w key = Some rb" "tb_Deleting rb" "owned env now (tb_OwnerReferences rb)"
    and ns: "terminating w (fst key)"
    and left: "\<And>u. now - namespaceResourcesCalculationInterval < u \<Longrightarrow> u \<le> now \<Longrightarrow> remains env u (fst key)"
  shows "tw_Bindings (snd (terminatorReconcile env now key w)) key = Some rb"
proof -
  obtain blocking lastError cache where get:
    "getNamespacedBlockingResources env now (fst key) (tw_Cache w) = (blocking, lastError, cache)"
    by (metis prod_cases3)
  obtain u where u: "u \<le> now" "now - u < namespaceResourcesCalculationInterval"
      "entry_answers env u (fst key) blocking lastError"
    using cached_answer [OF assms(1, 3) get] by blast
  have busy: "lastError \<noteq> None \<or> blocking \<noteq> []"
    using remains_not_empty [OF assms(2) left [of u]] u by (auto simp: entry_answers_def split: sum.splits)
  have kept: "tw_Bindings (snd (terminateBinding env now key rb ns w)) key = Some rb" for ns
    using busy rb(1) unfolding terminateBinding_def Let_def get
    by (auto split: option.splits prod.splits dest!: status_bindings)
  obtain ns where ns': "tw_Namespaces w (fst key) = Some ns" "tn_Deleting ns" "tn_Phase ns = NamespaceTerminating"
    using ns by (auto simp: terminating_def)
  show ?thesis
    using rb ns' kept owned_valid [OF rb(3)] unfolding terminatorReconcile_def
    by (auto split: read.splits sum.splits dest!: server_read_Got server_read_Missing)
qed

lemma reconcile_releases:
  assumes "runs_sometimes (te_Sometimes env)" "all_complete (te_Completed env)" "cache_sound env now (tw_Cache w)"
    and rb: "tw_Bindings w key = Some rb" "tb_Deleting rb" "owned env now (tb_OwnerReferences rb)"
    and ns: "terminating w (fst key)" and quiet: "\<And>call. te_Fail env now call = None"
    and gone: "\<And>u. now - namespaceResourcesCalculationInterval < u \<Longrightarrow> u \<le> now \<Longrightarrow> cleared env u (fst key)"
  shows "\<exists>w'. terminatorReconcile env now key w = ((NoRequeue, None), w') \<and>
    (\<forall>rb'. tw_Bindings w' key = Some rb' \<longrightarrow> RoleBindingFinalizer \<notin> set (tb_Finalizers rb'))"
proof -
  obtain blocking lastError cache where get:
    "getNamespacedBlockingResources env now (fst key) (tw_Cache w) = (blocking, lastError, cache)"
    by (metis prod_cases3)
  obtain u where u: "u \<le> now" "now - u < namespaceResourcesCalculationInterval"
      "entry_answers env u (fst key) blocking lastError"
    using cached_answer [OF assms(1, 3) get] by blast
  have free: "lastError = None" "blocking = []"
    using cleared_empty [OF assms(2) gone [of u]] u by (auto simp: entry_answers_def)
  obtain name where name: "getOwningBindDefinition env now (tb_OwnerReferences rb) = Inr name"
    using owned_found [OF rb(3) quiet] by blast
  obtain ns where ns': "tw_Namespaces w (fst key) = Some ns" "tn_Deleting ns" "tn_Phase ns = NamespaceTerminating"
    using ns by (auto simp: terminating_def)
  have applied: "\<exists>v. applyNamespaceTerminationStatus env now (fst key) ns1 w1 = (None, v) \<and> tw_Bindings v = tw_Bindings w1" for ns1 w1
    by (simp add: applyNamespaceTerminationStatus_def quiet split: option.splits)
  obtain v where v: "applyNamespaceTerminationStatus env now (fst key) (markNamespace now False NamespaceTerminationAllowedReason
      NamespaceTerminationAllowedMessage ns) (w\<lparr>tw_Cache := cache\<rparr>) = (None, v)" "tw_Bindings v = tw_Bindings w"
    using applied by fastforce
  show ?thesis
    using v rb(1, 2)
    by (auto simp: terminatorReconcile_def server_read_ok quiet rb name ns' terminateBinding_def get free
        removeRoleBindingFinalizer_def Let_def)
qed

section \<open>Runs\<close>

text \<open>
  The terminator's own steps, the passing of time, and the writes of others: the cache is the terminator's, the API
  server keeps an object as long as it has a finalizer, deletions are not revoked, nobody else removes this finalizer
  or changes the owner, and a terminating namespace stays as long as it holds a RoleBinding.
\<close>

definition others_write :: "term_world \<Rightarrow> term_world \<Rightarrow> bool" where
  "others_write w w' \<longleftrightarrow> tw_Cache w' = tw_Cache w \<and>
     (\<forall>k rb. tw_Bindings w k = Some rb \<longrightarrow> RoleBindingFinalizer \<in> set (tb_Finalizers rb) \<longrightarrow>
        (\<exists>rb'. tw_Bindings w' k = Some rb' \<and> RoleBindingFinalizer \<in> set (tb_Finalizers rb') \<and>
           tb_OwnerReferences rb' = tb_OwnerReferences rb \<and> (tb_Deleting rb \<longrightarrow> tb_Deleting rb'))) \<and>
     (\<forall>n. terminating w n \<longrightarrow> terminating w' n \<or> (\<forall>k. fst k = n \<longrightarrow> tw_Bindings w' k = None))"

inductive term_step :: "term_env \<Rightarrow> int \<times> term_world \<Rightarrow> int \<times> term_world \<Rightarrow> bool" for env where
  tick: "now \<le> now' \<Longrightarrow> term_step env (now, w) (now', w)"
| reconcile: "terminatorReconcile env now key w = (out, w') \<Longrightarrow> term_step env (now, w) (now, w')"
| others: "others_write w w' \<Longrightarrow> term_step env (now, w) (now, w')"

abbreviation term_run :: "term_env \<Rightarrow> int \<times> term_world \<Rightarrow> int \<times> term_world \<Rightarrow> bool" where
  "term_run env \<equiv> (term_step env)\<^sup>*\<^sup>*"

inductive_cases term_stepE: "term_step env s s'"

lemma run_time: "term_run env s s' \<Longrightarrow> fst s \<le> fst s'"
  by (induction rule: rtranclp_induct) (auto elim!: term_stepE)

lemma step_cache:
  assumes "term_step env s s'" "runs_sometimes (te_Sometimes env)" "cache_sound env (fst s) (tw_Cache (snd s))"
  shows "cache_sound env (fst s') (tw_Cache (snd s'))"
  using assms
  by (cases rule: term_step.cases) (auto intro: cache_sound_later simp: others_write_def tame_def dest: tame_reconcile)

lemma run_cache:
  assumes "term_run env (start, w0) s" "runs_sometimes (te_Sometimes env)" "tw_Cache w0 = []"
  shows "cache_sound env (fst s) (tw_Cache (snd s))"
  using assms(1)
proof (induction rule: rtranclp_induct)
  case base
  show ?case by (simp add: cache_sound_def assms(3))
qed (rule step_cache [OF _ assms(2)])

text \<open>The state of a RoleBinding the terminator holds.\<close>

definition held :: "OwnerReference list \<Rightarrow> string \<times> string \<Rightarrow> term_world \<Rightarrow> bool" where
  "held refs key w \<longleftrightarrow> terminating w (fst key) \<and>
     (\<exists>rb. tw_Bindings w key = Some rb \<and> RoleBindingFinalizer \<in> set (tb_Finalizers rb) \<and> tb_Deleting rb \<and>
        tb_OwnerReferences rb = refs)"

lemma held_step:
  assumes "term_step env s s'" "held refs key (snd s)" "cache_sound env (fst s) (tw_Cache (snd s))"
    and "runs_sometimes (te_Sometimes env)" "all_complete (te_Completed env)" "owned env (fst s) refs"
    and "\<And>u. fst s - namespaceResourcesCalculationInterval < u \<Longrightarrow> u \<le> fst s \<Longrightarrow> remains env u (fst key)"
  shows "held refs key (snd s')"
  using assms(1)
proof cases
  case (reconcile now key' w out w')
  obtain rb where rb: "tw_Bindings w key = Some rb" "tb_Deleting rb" "tb_OwnerReferences rb = refs"
      "RoleBindingFinalizer \<in> set (tb_Finalizers rb)" and ns: "terminating w (fst key)"
    using assms(2) reconcile(1) by (auto simp: held_def)
  have cache: "cache_sound env now (tw_Cache w)" using assms(3) reconcile(1) by simp
  have "tw_Bindings w' key = Some rb"
  proof (cases "key' = key")
    case True
    then show ?thesis
      using reconcile_holds [OF assms(4, 5) cache rb(1, 2)] rb(3) assms(6, 7) ns reconcile(1, 3) by simp
  next
    case False
    then show ?thesis using tame_reconcile [OF assms(4) reconcile(3)] rb(1) unfolding tame_def by metis
  qed
  moreover have "terminating w' (fst key)"
    using tame_reconcile [OF assms(4) reconcile(3)] ns by (simp add: tame_def)
  ultimately show ?thesis using rb reconcile(2) by (simp add: held_def)
next
  case (others w w' now)
  then show ?thesis using assms(2) unfolding held_def others_write_def by (metis option.distinct(1) snd_conv)
qed (use assms(2) in simp)

text \<open>
  Property C23 (bindings_outlive_resources): along every run of the terminator, interleaved with time and the writes of
  others, a RoleBinding that is being deleted in a terminating namespace keeps the finalizer for as long as the
  BindDefinition that controls it exists and other resources remain in the namespace, where the cached answer may be
  ten seconds old.
\<close>

theorem bindings_outlive_resources:
  assumes "runs_sometimes (te_Sometimes env)" "all_complete (te_Completed env)"
    and "term_run env (start, w0) (now, w)" "tw_Cache w0 = []" "held refs key w"
    and "term_run env (now, w) (later, w')"
    and "\<And>u. now \<le> u \<Longrightarrow> u \<le> later \<Longrightarrow> owned env u refs"
    and "\<And>u. now - namespaceResourcesCalculationInterval < u \<Longrightarrow> u \<le> later \<Longrightarrow> remains env u (fst key)"
  shows "held refs key w'"
proof -
  have "term_run env s (later, w') \<Longrightarrow> now \<le> fst s \<Longrightarrow> cache_sound env (fst s) (tw_Cache (snd s)) \<Longrightarrow>
      held refs key (snd s) \<Longrightarrow> held refs key w'" for s
  proof (induction rule: converse_rtranclp_induct)
    case (step s1 s2)
    have before: "fst s1 \<le> later" "fst s1 \<le> fst s2"
      using run_time [of env s1 "(later, w')"] run_time [of env s1 s2] step.hyps
      by (auto intro: converse_rtranclp_into_rtranclp)
    show ?case
    proof (rule step.IH)
      show "held refs key (snd s2)"
        by (rule held_step [OF step.hyps(1) step.prems(3, 2) assms(1, 2)]) (use assms(7, 8) before step.prems(1) in auto)
    qed (use before step.prems step_cache [OF step.hyps(1) assms(1)] in auto)
  qed simp
  then show ?thesis using assms(5, 6) run_cache [OF assms(3, 1, 4)] by fastforce
qed

text \<open>
  Property C24 (cleared_namespace_releases): in every state a run of the terminator can reach, when the namespace has
  been clear of other resources for the ten seconds a cached answer lasts and no request fails, one reconciliation ends
  without an error and the RoleBinding has lost the finalizer or is gone.
\<close>

theorem cleared_namespace_releases:
  assumes "runs_sometimes (te_Sometimes env)" "all_complete (te_Completed env)"
    and "term_run env (start, w0) (now, w)" "tw_Cache w0 = []" "held refs key w" "owned env now refs"
    and "\<And>call. te_Fail env now call = None"
    and "\<And>u. now - namespaceResourcesCalculationInterval < u \<Longrightarrow> u \<le> now \<Longrightarrow> cleared env u (fst key)"
  shows "\<exists>w'. terminatorReconcile env now key w = ((NoRequeue, None), w') \<and> \<not> held refs key w' \<and>
    (\<forall>rb. tw_Bindings w' key = Some rb \<longrightarrow> RoleBindingFinalizer \<notin> set (tb_Finalizers rb))"
proof -
  obtain rb where rb: "tw_Bindings w key = Some rb" "tb_Deleting rb" "owned env now (tb_OwnerReferences rb)"
      and ns: "terminating w (fst key)"
    using assms(5, 6) by (auto simp: held_def)
  have "cache_sound env now (tw_Cache w)" using run_cache [OF assms(3, 1, 4)] by simp
  from reconcile_releases [OF assms(1, 2) this rb ns assms(7, 8)] show ?thesis by (auto simp: held_def)
qed

section \<open>The message\<close>

text \<open>The message of a blocked namespace does not depend on the order in which the listings finish.\<close>

lemma sort_twice_order:
  assumes "mset found = mset found'" "inj_on (\<lambda>x. (f x, g x)) (set found)"
  shows "sort_key f (sort_key g found) = sort_key f (sort_key g found')"
proof (rule properties_for_sort_key)
  fix k
  let ?at = "\<lambda>x. f k = f x"
  have "sort_key g (filter ?at found) = sort_key g (filter ?at found')"
    by (rule sort_key_inj_key_eq) (use assms in \<open>auto simp: inj_on_def mset_filter\<close>)
  then have "filter ?at (sort_key g found) = filter ?at (sort_key g found')" by (simp add: filter_sort)
  moreover have "filter ?at (sort_key f ys) = filter ?at ys" for ys
    using sort_key_stable [of f "f k" ys] by (simp add: eq_commute)
  ultimately show "filter ?at (sort_key f (sort_key g found')) = filter ?at (sort_key g found)" by simp
qed (use assms in simp_all)

lemma message_order:
  assumes "mset found = mset found'" "inj_on (\<lambda>br. (br_ResourceType br, br_APIGroup br)) (set found)"
  shows "formatBlockingResourcesMessage found = formatBlockingResourcesMessage found'"
  unfolding formatBlockingResourcesMessage_def sort_twice_order [OF assms] by simp

section \<open>Witnesses\<close>

text \<open>A pod stays in the terminating namespace for a hundred seconds.\<close>

definition sample_term_env :: term_env where
  "sample_term_env = \<lparr>
     te_Discovery = (\<lambda>now. Inr [(''v1'', [\<lparr>ar_Name = ''pods'', ar_Group = '''', ar_Namespaced = True, ar_Verbs = [''list'']\<rparr>])]),
     te_ParseGV = (\<lambda>gv. Inr \<lparr>gv_Group = '''', gv_Version = gv\<rparr>),
     te_Objects = (\<lambda>now gvr n. if now < 100 * nanos \<and> n = ''team-a'' then [''p''] else []),
     te_Cached = (\<lambda>now name. None), te_Live = (\<lambda>now name. if name = ''bd'' then Some ''u-3'' else None),
     te_Reader = True, te_Fail = (\<lambda>now call. None), te_Completed = (\<lambda>now gvrs. rev gvrs),
     te_Sometimes = (\<lambda>interval last now. case last of None \<Rightarrow> True | Some l \<Rightarrow> interval \<le> now - l),
     te_Text = gvr_Resource, te_StatusApply = (\<lambda>c cs. c # filter (\<lambda>c'. nc_Type c' \<noteq> nc_Type c) cs)\<rparr>"

definition sample_term_refs :: "OwnerReference list" where
  "sample_term_refs = [\<lparr>or_APIVersion = ''authorization.t-caas.telekom.com/v1alpha1'', or_Kind = ''BindDefinition'',
     or_Name = ''bd'', or_UID = ''u-3'', or_Controller = Some True, or_BlockOwnerDeletion = Some False\<rparr>]"

definition sample_term_world :: term_world where
  "sample_term_world = \<lparr>
     tw_Bindings = [(''team-a'', ''rb'') \<mapsto> \<lparr>tb_OwnerReferences = sample_term_refs, tb_Finalizers = [RoleBindingFinalizer],
       tb_Deleting = True\<rparr>],
     tw_Namespaces = [''team-a'' \<mapsto> \<lparr>tn_Deleting = True, tn_Phase = ''Terminating'', tn_Conditions = []\<rparr>], tw_Cache = []\<rparr>"

lemma sample_term_facts:
  "runs_sometimes (te_Sometimes sample_term_env)" "all_complete (te_Completed sample_term_env)"
  "tw_Cache sample_term_world = []" "held sample_term_refs (''team-a'', ''rb'') sample_term_world"
  "owned sample_term_env u sample_term_refs" "te_Fail sample_term_env u call = None"
  by (simp_all add: runs_sometimes_def all_complete_def sample_term_env_def sample_term_world_def held_def terminating_def
      NamespaceTerminating_def owned_def sample_term_refs_def controlling_def GroupVersionString_def)

lemma sample_left_over:
  "te_Discovery sample_term_env u = Inr apis \<Longrightarrow> left_over sample_term_env u ''team-a'' apis \<longleftrightarrow> u < 100 * nanos"
  by (auto simp: left_over_def sample_term_env_def)

theorem bindings_outlive_resources_witness:
  "held sample_term_refs (''team-a'', ''rb'') (snd (terminatorReconcile sample_term_env (50 * nanos) (''team-a'', ''rb'')
     (snd (terminatorReconcile sample_term_env 0 (''team-a'', ''rb'') sample_term_world))))"
proof -
  let ?key = "(''team-a'', ''rb'')"
  obtain o1 w1 where w1: "terminatorReconcile sample_term_env 0 ?key sample_term_world = (o1, w1)" by fastforce
  obtain o2 w2 where w2: "terminatorReconcile sample_term_env (50 * nanos) ?key w1 = (o2, w2)" by fastforce
  have "term_step sample_term_env (0, sample_term_world) (0, w1)" "term_step sample_term_env (0, w1) (50 * nanos, w1)"
      "term_step sample_term_env (50 * nanos, w1) (50 * nanos, w2)"
    by (rule term_step.reconcile [OF w1], rule term_step.tick, simp add: nanos_def, rule term_step.reconcile [OF w2])
  then have run: "term_run sample_term_env (0, sample_term_world) (50 * nanos, w2)"
    by (meson converse_rtranclp_into_rtranclp rtranclp.rtrancl_refl)
  have "held sample_term_refs ?key w2"
    by (rule bindings_outlive_resources [OF sample_term_facts(1, 2) rtranclp.rtrancl_refl sample_term_facts(3, 4) run])
      (auto simp: sample_term_facts(5) remains_def sample_left_over nanos_def)
  then show ?thesis by (simp add: w1 w2)
qed

theorem cleared_namespace_releases_witness:
  "\<exists>w'. terminatorReconcile sample_term_env (120 * nanos) (''team-a'', ''rb'') sample_term_world = ((NoRequeue, None), w') \<and>
     \<not> held sample_term_refs (''team-a'', ''rb'') w'"
proof -
  let ?key = "(''team-a'', ''rb'')"
  have run: "term_run sample_term_env (0, sample_term_world) (120 * nanos, sample_term_world)"
    by (rule r_into_rtranclp) (simp add: term_step.tick nanos_def)
  have gone: "cleared sample_term_env u ''team-a''" if "100 * nanos \<le> u" for u
    using that sample_left_over [of u] sample_term_facts(6) by (auto simp: cleared_def sample_term_env_def)
  show ?thesis
    using cleared_namespace_releases [OF sample_term_facts(1, 2) run sample_term_facts(3, 4, 5) sample_term_facts(6)] gone
    by (simp add: namespaceResourcesCalculationInterval_def nanos_def) (metis (no_types, lifting))
qed

end
