(* ===== verification/Spec2Isabelle.thy ===== *)
theory Spec2Isabelle
  imports Role_Compliance Bind_Compliance Authorizer Namespace_Runs Restricted_Role_Status Restricted_Role_Identity Admission_Properties Restricted_Bind_Properties
    Terminator_Runs
begin

text \<open>
  A verification development for auth-operator, a Kubernetes operator that generates RBAC roles and bindings
  from custom resources, governs what tenants may generate, and answers authorization and admission webhooks.
  All paths are below \<^verbatim>\<open>src/\<close>.

  \<^bold>\<open>The program.\<close> Cluster administrators write RoleDefinitions and BindDefinitions; tenants write
  RestrictedRoleDefinitions and RestrictedBindDefinitions, each under an RBACPolicy. The policy engine
  (\<^verbatim>\<open>pkg/policy\<close>) evaluates restricted definitions against their policy. Controllers
  (\<^verbatim>\<open>internal/controller/authorization\<close>) turn definitions into roles, bindings and ServiceAccounts, written by
  server-side apply (\<^verbatim>\<open>pkg/ssa\<close>) and reported in status conditions (\<^verbatim>\<open>pkg/conditions\<close>). An authorization
  webhook answers SubjectAccessReviews from WebhookAuthorizers and, through a bridge, from BindDefinitions; two
  namespace webhooks guard labels and deletion of namespaces (\<^verbatim>\<open>internal/webhook/authorization\<close>). The custom
  resources have validating webhooks of their own (\<^verbatim>\<open>api/authorization/v1alpha1/*_webhook.go\<close>).

  \<^bold>\<open>Theories, in the order of dependency.\<close>

  \<^item> \<open>Go_Prelude\<close>: strings, sorting, maps and messages of Go, with the automation the others use.
  \<^item> \<open>Wildcard\<close>: the matchers of \<^verbatim>\<open>pkg/policy/matcher.go\<close>; the greedy matcher decides the usual meaning of
    patterns.
  \<^item> \<open>Api_Types\<close>: the types of \<^verbatim>\<open>api/authorization/v1alpha1\<close>, one record field per Go field that is read.
  \<^item> \<open>Impersonation\<close>: constrained impersonation (\<^verbatim>\<open>constrained_impersonation_types.go\<close>,
    \<^verbatim>\<open>constrained_impersonation.go\<close>): verbs, generated rules, validation; a valid grant is bounded by its mode.
  \<^item> \<open>Policy_Scope\<close>, \<open>Role_Policy\<close>, \<open>Bind_Policy\<close>: the policy evaluation (\<^verbatim>\<open>pkg/policy\<close>), pass by pass, with the
    condition under which each reports nothing; accepted bindings are bounded by the policy.
  \<^item> \<open>Role_Generation\<close>: rule generation of both role controllers from API discovery; the rules list
    exactly the access the restrictions leave, in any iteration order of the Go maps.
  \<^item> \<open>Role_Safety\<close>: evaluation and generation together: a compliant definition generates nothing forbidden, and
    the two cases in which the limits on verbs have a gap.
  \<^item> \<open>Role_Compliance\<close>, \<open>Bind_Compliance\<close>: what a policy admits, specified without the functions of the evaluators
    (\<open>role_admitted\<close>, \<open>bind_admitted\<close>), and that the evaluation decides it where the documentation of the
    fields and the code agree; the conditions \<open>as_documented\<close> and \<open>bind_documented\<close> list the other cases.
  \<^item> \<open>Conditions\<close>: condition lists and the kstatus marks, over the contract \<open>status_store\<close>.
  \<^item> \<open>Bridge\<close>, \<open>Authorizer\<close>: the authorization webhook from the HTTP request to the response
    (\<^verbatim>\<open>webhook_authorizer.go\<close>, \<^verbatim>\<open>binddefinition_bridge.go\<close>); it allows only what an authorizer or a
    bridged definition grants, denials prevail, and an error never allows: it denies, except that a failed check
    of a bridged grant leaves no opinion.
  \<^item> \<open>Namespace_Labels\<close>, \<open>Namespace_Admission\<close>, \<open>Namespace_Runs\<close>: the namespace webhooks as a step relation on
    the namespaces of a cluster; protection and ownership survive every run of admitted requests.
  \<^item> \<open>Resource_Naming\<close>, \<open>Apply_Config\<close>: generated names, labels and annotations (\<^verbatim>\<open>pkg/helpers/resource.go\<close>)
    and apply configurations with the comparison against live objects (\<^verbatim>\<open>pkg/ssa/ssa.go\<close>,
    \<^verbatim>\<open>pkg/ssa/patchhelper.go\<close>); names are bounded, comparisons exact.
  \<^item> \<open>Cluster_State\<close>, \<open>Role_Apply\<close>: errors, owner references, the roles of a cluster and the requests to the API
    server; pruning labels and applying a role.
  \<^item> \<open>Restricted_Lifecycle\<close>: the lifecycle both restricted controllers share (\<^verbatim>\<open>restricted_helpers.go\<close>,
    \<^verbatim>\<open>restricted_policy_helper.go\<close>), with four contracts for its callbacks: deprovisioning is final, it is
    reported, status invariants are kept, and without failures the handlers succeed.
  \<^item> \<open>Apply_Identity\<close>: the identity of a write (\<^verbatim>\<open>impersonation.go\<close>) with the bounded client cache, and the
    condition on the effect of a grant.
  \<^item> \<open>Restricted_Role_Reconciler\<close>: the whole \<^verbatim>\<open>Reconcile\<close> of \<^verbatim>\<open>restrictedroledefinition_controller.go\<close> as a
    function on the cluster, with the status writer (\<^verbatim>\<open>applyconfiguration/ssa/patchhelper.go\<close>).
  \<^item> \<open>Restricted_Role_Runs\<close>, \<open>Restricted_Role_Properties\<close>, \<open>Restricted_Role_Status\<close>,
    \<open>Restricted_Role_Identity\<close>: a reconciliation is confined to its own target, deprovisions under an unusable
    policy, refines the abstract specification \<open>intended\<close> without failures, writes only under the identity of the
    policy, and keeps the stored status consistent; a role that a completed reconciliation reports is safe.
  \<^item> \<open>Bind_Apply\<close>: the bindings and ServiceAccounts of a cluster, the ownership check and the applies of both
    (\<^verbatim>\<open>restricted_helpers.go\<close>, \<^verbatim>\<open>pkg/ssa/patchhelper.go\<close>).
  \<^item> \<open>Restricted_Bind_Reconciler\<close>: the whole \<^verbatim>\<open>Reconcile\<close> of \<^verbatim>\<open>restrictedbinddefinition_controller.go\<close>: policy
    lifecycle, role references, namespaces, ServiceAccounts, bindings, pruning, deletion and status.
  \<^item> \<open>Restricted_Bind_Runs\<close> and \<open>Restricted_Bind_Writes\<close>: which bindings and accounts a reconciliation may touch.
    \<open>Restricted_Bind_Exact\<close> and \<open>Restricted_Bind_Roles\<close>: the reconciled bindings are exactly the ones asked for, and
    the check of role references is exact. \<open>Restricted_Bind_Laws\<close> and \<open>Restricted_Bind_Progress\<close>: the contracts of
    \<open>Restricted_Lifecycle\<close> hold for this reconciler, and nothing but a failed request stops it.
    \<open>Restricted_Bind_Properties\<close>: bindings are confined, refine the abstract specification \<open>provisioned\<close>, converge,
    stay within the policy, and go with the policy or the definition.
  \<^item> \<open>Binding_Terminator\<close>, \<open>Terminator_Runs\<close>: the terminator of RoleBindings
    (\<^verbatim>\<open>rolebinding_terminator_controller.go\<close>) with its cache, over a cluster that changes with time; a RoleBinding
    outlives the other resources of a terminating namespace, and goes once they are gone.
  \<^item> \<open>Admission_Base\<close>: the answers of the validating webhooks of the custom resources and their paged reads
    (\<^verbatim>\<open>admission_list_helpers.go\<close>), with a paging API server that meets what is assumed of one.
  \<^item> \<open>Default_Policy\<close>, \<open>Policy_Admission\<close>, \<open>Role_Admission\<close>, \<open>Bind_Admission\<close>, \<open>Authorizer_Admission\<close>: the handlers
    of RBACPolicies with the default assignments of requesters, of both kinds of role and of bind definitions,
    and of WebhookAuthorizers; what an accepted object satisfies, and that the handlers return.
  \<^item> \<open>Admission_Runs\<close>: requests admitted one after the other as a step relation on the stored objects; four
    invariants over the contract \<open>admission_invariant\<close>. \<open>Admission_Server\<close>: a store that serves all reads as
    documented. \<open>Admission_Properties\<close>: what holds after every run, what accepted objects guarantee, and with
    the reconciler: tenants do not interfere with each other's roles.

  \<^bold>\<open>State and failures.\<close> Go maps are association lists; their iteration order is the order of the list and
  results are proved independent of it where that matters. A reconciliation is one step: nobody else writes to
  the same objects while it runs. Which of its requests fail, and with which error, is an arbitrary function
  of the environment, so every error path is covered. The webhooks of namespaces are steps of a relation,
  interleaved in any order with steps of others. The webhooks of the custom resources are steps as well: one
  request is admitted and stored before the next is validated, which the webhooks themselves do not enforce.

  \<^bold>\<open>Parameters.\<close> What is not in the repository is an argument: selector compilation, group version parsing,
  field index reads, discovery, hashing, the construction of clients, and the API server. What is assumed of
  it is named: \<open>labels_resolve\<close> (a namespace that is found has labels; the API server sets one), \<open>finds_by_type\<close> (\<^verbatim>\<open>meta.FindStatusCondition\<close>), \<open>discovery_ok\<close> (names served by discovery),
  \<open>ssa_merges\<close> and \<open>binding_merges\<close> (server-side apply with forced ownership), \<open>status_keeps\<close> and
  \<open>bind_status_keeps\<close> (a status apply), \<open>sound_cluster\<close> (names are unique and hold no slash, definitions have
  a UID), \<open>sound_reads\<close> (a complete
  listing and a found object show what is stored), \<open>runs_sometimes\<close> and \<open>all_complete\<close> (the rate
  limiter and the goroutines of the terminator), and \<open>deep_equal\<close> (\<^verbatim>\<open>reflect.DeepEqual\<close> tells different
  specifications apart).

  \<^bold>\<open>Bounds.\<close> Loops are structural recursions on lists, so every function is total, but for the two loops over the
  pages of a listing, which follow continue tokens for as long as the API server hands them out: they are
  partial functions, and \<open>validators_return\<close> shows that every handler returns when the tokens end. The live deny pages of the
  authorizer are read with fuel 4, the quotient of the bounds 256 and 64 in the source: a fifth page is an
  error there too. Bridge, caches, names and field managers have the bounds of the source.

  \<^bold>\<open>Not modelled.\<close> Logging, events, metrics and tracing; the watch mappers and the registration of controllers,
  field indexes and flags (\<^verbatim>\<open>cmd\<close>, \<^verbatim>\<open>pkg/indexer\<close>, \<^verbatim>\<open>pkg/metrics\<close>, \<^verbatim>\<open>pkg/tracing\<close>), which have no decision of their
  own; generated deep copies and apply configurations; the polling of API discovery (\<^verbatim>\<open>pkg/discovery\<close>),
  whose answer is an argument; the reconcilers of RoleDefinitions, BindDefinitions, RBACPolicies and
  WebhookAuthorizers, and the capability detection.
\<close>

end
